(* ===== verification/Prelude.thy ===== *)
theory Prelude
  imports Main "HOL-Library.Sublist" "HOL-Library.Word"
begin

text \<open>
  Shared vocabulary of the development: the result type of Go code that may
  return a value, return an error, panic or fail to return; its sequencing
  combinators with their congruence and inversion rules; and the list lemmas that
  several components use.
\<close>

section \<open>Results of Go functions\<close>

text \<open>
  \<open>Ret\<close> is a normal return with a nil error, \<open>Err\<close> a non-nil error (its text is
  the constant part of the innermost message), \<open>Panic\<close> a run-time panic (nil
  dereference, index out of range, explicit panic) and \<open>Timeout\<close> says that the fuel
  of a recursion that the source does not bound was used up.
\<close>

datatype 'a res = Ret 'a | Err string | Panic | Timeout

named_theorems res_inv \<open>inversion rules for sequenced results\<close>

fun bindR :: "'a res \<Rightarrow> ('a \<Rightarrow> 'b res) \<Rightarrow> 'b res" where
  "bindR (Ret a) k = k a"
| "bindR (Err m) k = Err m"
| "bindR Panic k = Panic"
| "bindR Timeout k = Timeout"

lemma bindR_cong [fundef_cong]:
  "m = m' \<Longrightarrow> (\<And>a. m' = Ret a \<Longrightarrow> k a = k' a) \<Longrightarrow> bindR m k = bindR m' k'"
  by (cases m') auto

lemma bindR_eq_Ret [simp, res_inv]: "bindR m k = Ret b \<longleftrightarrow> (\<exists>a. m = Ret a \<and> k a = Ret b)"
  by (cases m) auto

lemma bindR_eq_Timeout [res_inv]:
  "bindR m k = Timeout \<longleftrightarrow> m = Timeout \<or> (\<exists>a. m = Ret a \<and> k a = Timeout)"
  by (cases m) auto

lemma bindR_assoc: "bindR (bindR m f) g = bindR m (\<lambda>a. bindR (f a) g)"
  by (cases m) auto

lemma bindR_Ret [simp]: "bindR m Ret = m"
  by (cases m) auto

text \<open>\<open>if cond { return err }\<close>: the early return that most validators consist of.\<close>

definition rejectIf :: "bool \<Rightarrow> string \<Rightarrow> unit res" where
  "rejectIf b m = (if b then Err m else Ret ())"

lemma rejectIf_Ret [simp]: "rejectIf b m = Ret u \<longleftrightarrow> \<not> b"
  by (simp add: rejectIf_def)

lemma rejectIf_simps [simp]: "rejectIf False m = Ret ()" "rejectIf True m = Err m"
  by (simp_all add: rejectIf_def)

lemma rejectIf_no_stop [simp]: "rejectIf b m \<noteq> Timeout" "rejectIf b m \<noteq> Panic"
  by (simp_all add: rejectIf_def)

text \<open>Sequencing two checks of which only the error matters.\<close>

definition andThen :: "unit res \<Rightarrow> 'b res \<Rightarrow> 'b res" where
  "andThen m k = bindR m (\<lambda>_. k)"

lemma andThen_cong [fundef_cong]:
  "m = m' \<Longrightarrow> (m' = Ret () \<Longrightarrow> k = k') \<Longrightarrow> andThen m k = andThen m' k'"
  unfolding andThen_def by (rule bindR_cong) auto

lemma andThen_eq_Ret [simp, res_inv]: "andThen m k = Ret b \<longleftrightarrow> m = Ret () \<and> k = Ret b"
  by (simp add: andThen_def)

lemma andThen_simps [simp]:
  "andThen (Ret ()) k = k" "andThen (Err m) k = Err m" "andThen Panic k = Panic"
  "andThen Timeout k = Timeout"
  by (simp_all add: andThen_def)

lemma andThen_eq_Timeout [res_inv]:
  "andThen m k = Timeout \<longleftrightarrow> m = Timeout \<or> (m = Ret () \<and> k = Timeout)"
  by (auto simp: andThen_def bindR_eq_Timeout)

text \<open>A \<open>for\<close> loop that returns the first error.\<close>

fun checkAll :: "('a \<Rightarrow> unit res) \<Rightarrow> 'a list \<Rightarrow> unit res" where
  "checkAll f [] = Ret ()"
| "checkAll f (x # xs) = andThen (f x) (checkAll f xs)"

lemma checkAll_cong [fundef_cong]:
  "xs = ys \<Longrightarrow> (\<And>x. x \<in> set ys \<Longrightarrow> f x = g x) \<Longrightarrow> checkAll f xs = checkAll g ys"
  by (induction ys arbitrary: xs) auto

lemma checkAll_Ret [simp, res_inv]: "checkAll f xs = Ret () \<longleftrightarrow> (\<forall>x \<in> set xs. f x = Ret ())"
  by (induction xs) auto

text \<open>Dereferencing a pointer: nil panics.\<close>

definition deref :: "'a option \<Rightarrow> 'a res" where
  "deref p = (case p of None \<Rightarrow> Panic | Some a \<Rightarrow> Ret a)"

lemma deref_simps [simp]: "deref None = Panic" "deref (Some a) = Ret a"
  by (simp_all add: deref_def)

lemma deref_eq_Ret [simp]: "deref p = Ret a \<longleftrightarrow> p = Some a"
  by (cases p) auto

text \<open>Indexing a slice with a Go \<open>int\<close>: out of range panics.\<close>

definition index :: "'a list \<Rightarrow> int \<Rightarrow> 'a res" where
  "index xs i = (if 0 \<le> i \<and> i < int (length xs) then Ret (xs ! nat i) else Panic)"

lemma index_in_range [simp]: "0 \<le> i \<Longrightarrow> i < int (length xs) \<Longrightarrow> index xs i = Ret (xs ! nat i)"
  by (simp add: index_def)

lemma index_no_timeout [simp]: "index xs i \<noteq> Timeout"
  by (simp add: index_def)

lemma deref_no_timeout [simp]: "deref p \<noteq> Timeout"
  by (cases p) auto

section \<open>Lists\<close>

text \<open>A Go check that no element of a slice repeats, as the validators write it with a map.\<close>

fun allDistinct :: "'a list \<Rightarrow> bool" where
  "allDistinct [] = True"
| "allDistinct (x # xs) = (x \<notin> set xs \<and> allDistinct xs)"

lemma allDistinct_distinct [simp]: "allDistinct xs = distinct xs"
  by (induction xs) auto

lemma list_all2_refl_on: "(\<And>x. x \<in> set xs \<Longrightarrow> P x x) \<Longrightarrow> list_all2 P xs xs"
  by (induction xs) auto

lemma size_in_list: "x \<in> set xs \<Longrightarrow> f x < Suc (size_list f xs)"
  by (induction xs) auto

lemma concat_map_Cons_length: "x \<in> set xs \<Longrightarrow> y \<in> set (f x) \<Longrightarrow> y \<in> set (concat (map f xs))"
  by auto

lemma dropWhile_append_all: "(\<forall>x \<in> set xs. P x) \<Longrightarrow> dropWhile P (xs @ ys) = dropWhile P ys"
  by (induction xs) auto

end
