(* ===== verification/Text.thy ===== *)
theory Text
  imports Prelude
begin

text \<open>
  PipeLang text: \<open>ValidateText\<close> and \<open>CompareOrdinalText\<close> of
  coreir/semantics.go, \<open>TrimText\<close> of coreir/trim.go and the substring test of
  coreir/casefold.go, over the part of Go's \<open>unicode/utf8\<close> they use. A Go string is
  a list of bytes (\<open>char\<close>); a scalar is a natural number. The lemmas relate the byte
  loops of the code to sequences of Unicode scalars.
\<close>

section \<open>unicode/utf8\<close>

definition byte :: "char \<Rightarrow> nat" where
  "byte c = of_char c"

lemma byte_lt_256 [simp]: "byte c < 256"
  by (simp add: byte_def)

lemma byte_char_of [simp]: "byte (char_of n) = n mod 256"
  by (simp add: byte_def)

lemma char_of_byte [simp]: "char_of (byte c) = c"
  by (simp add: byte_def)

lemma byte_eq_iff [simp]: "byte c = byte d \<longleftrightarrow> c = d"
  by (simp add: byte_def)

definition isScalar :: "nat \<Rightarrow> bool" where
  "isScalar n \<longleftrightarrow> n < 0xD800 \<or> (0xE000 \<le> n \<and> n \<le> 0x10FFFF)"

definition runeError :: nat where
  "runeError = 0xFFFD"

definition isCont :: "char \<Rightarrow> bool" where
  "isCont c \<longleftrightarrow> 0x80 \<le> byte c \<and> byte c \<le> 0xBF"

text \<open>One well-formed sequence at the front of a string: its scalar and its width.\<close>

fun decodeStep :: "string \<Rightarrow> (nat \<times> nat) option" where
  "decodeStep [] = None"
| "decodeStep (c0 # r) =
     (let b0 = byte c0 in
      if b0 < 0x80 then Some (b0, 1)
      else if 0xC2 \<le> b0 \<and> b0 \<le> 0xDF then
        (case r of
           c1 # _ \<Rightarrow> if isCont c1 then Some ((b0 - 0xC0) * 64 + (byte c1 - 0x80), 2) else None
         | _ \<Rightarrow> None)
      else if 0xE0 \<le> b0 \<and> b0 \<le> 0xEF then
        (case r of
           c1 # c2 # _ \<Rightarrow>
             if (if b0 = 0xE0 then 0xA0 else 0x80) \<le> byte c1
                \<and> byte c1 \<le> (if b0 = 0xED then 0x9F else 0xBF) \<and> isCont c2
             then Some ((b0 - 0xE0) * 4096 + (byte c1 - 0x80) * 64 + (byte c2 - 0x80), 3)
             else None
         | _ \<Rightarrow> None)
      else if 0xF0 \<le> b0 \<and> b0 \<le> 0xF4 then
        (case r of
           c1 # c2 # c3 # _ \<Rightarrow>
             if (if b0 = 0xF0 then 0x90 else 0x80) \<le> byte c1
                \<and> byte c1 \<le> (if b0 = 0xF4 then 0x8F else 0xBF) \<and> isCont c2 \<and> isCont c3
             then Some ((b0 - 0xF0) * 262144 + (byte c1 - 0x80) * 4096
                        + (byte c2 - 0x80) * 64 + (byte c3 - 0x80), 4)
             else None
         | _ \<Rightarrow> None)
      else None)"

text \<open>\<open>utf8.DecodeRuneInString\<close>.\<close>

definition decodeRune :: "string \<Rightarrow> nat \<times> nat" where
  "decodeRune s =
     (case decodeStep s of Some p \<Rightarrow> p | None \<Rightarrow> (runeError, if s = [] then 0 else 1))"

text \<open>\<open>utf8.EncodeRune\<close>, the writer behind \<open>strings.Builder.WriteRune\<close>.\<close>

definition encodeRune :: "nat \<Rightarrow> string" where
  "encodeRune m =
     (let n = (if isScalar m then m else runeError) in
      if n < 0x80 then [char_of n]
      else if n < 0x800 then [char_of (0xC0 + n div 64), char_of (0x80 + n mod 64)]
      else if n < 0x10000 then
        [char_of (0xE0 + n div 4096), char_of (0x80 + n div 64 mod 64), char_of (0x80 + n mod 64)]
      else [char_of (0xF0 + n div 262144), char_of (0x80 + n div 4096 mod 64),
            char_of (0x80 + n div 64 mod 64), char_of (0x80 + n mod 64)])"

definition encode :: "nat list \<Rightarrow> string" where
  "encode cs = concat (map encodeRune cs)"

lemma encode_simps [simp]:
  "encode [] = []" "encode (c # cs) = encodeRune c @ encode cs"
  "encode (cs @ ds) = encode cs @ encode ds"
  by (simp_all add: encode_def)

lemma decodeStep_width: "decodeStep s = Some (n, w) \<Longrightarrow> 0 < w \<and> w \<le> length s"
  by (cases s) (auto simp: Let_def split: if_splits list.splits)

lemma decodeRune_width: "s \<noteq> [] \<Longrightarrow> 0 < snd (decodeRune s) \<and> snd (decodeRune s) \<le> length s"
  by (auto simp: decodeRune_def Suc_le_eq split: option.splits dest: decodeStep_width)

lemma decodeRune_less: "decodeRune s = (a, b) \<Longrightarrow> s \<noteq> [] \<Longrightarrow> length s - b < length s"
  using decodeRune_width [of s] by auto

text \<open>\<open>utf8.ValidString\<close> and the runes of a \<open>for ... range\<close> loop over a string.\<close>

function validString :: "string \<Rightarrow> bool" where
  "validString s =
     (if s = [] then True
      else case decodeStep s of None \<Rightarrow> False | Some (n, w) \<Rightarrow> validString (drop w s))"
  by pat_completeness auto
termination
  by (relation "measure length") (auto dest: decodeStep_width)

declare validString.simps [simp del]

function runes :: "string \<Rightarrow> nat list" where
  "runes s =
     (if s = [] then []
      else fst (decodeRune s) # runes (drop (snd (decodeRune s)) s))"
  by pat_completeness auto
termination
  by (relation "measure length") (auto dest: decodeRune_width)

declare runes.simps [simp del]

section \<open>Encoding and decoding\<close>

lemma isScalar_bound: "isScalar n \<Longrightarrow> n \<le> 0x10FFFF"
  by (auto simp: isScalar_def)

text \<open>
  A scalar by its base-64 digits, in each of the four widths. All arithmetic on encodings
  goes through this case rule, so that it stays linear.
\<close>

lemma digits64:
  assumes "c < 64"
  shows "(a * 64 + c) div 64 = a" "(a * 64 + c) mod 64 = (c::nat)"
  using assms by simp_all

lemma digits4096:
  assumes "b < 64" "c < 64"
  shows "(a * 4096 + b * 64 + c) div 4096 = a" "(a * 4096 + b * 64 + c) div 64 mod 64 = b"
    "(a * 4096 + b * 64 + c) mod 64 = (c::nat)" "(a * 4096 + b * 64 + c) div 64 = a * 64 + b"
proof -
  have e: "a * 4096 + b * 64 + c = (a * 64 + b) * 64 + c" by simp
  show d: "(a * 4096 + b * 64 + c) div 64 = a * 64 + b"
    unfolding e using assms by (simp only: digits64)
  show "(a * 4096 + b * 64 + c) mod 64 = c"
    unfolding e using assms by (simp only: digits64)
  show "(a * 4096 + b * 64 + c) div 64 mod 64 = b"
    unfolding d using assms by (simp only: digits64)
  have "(a * 4096 + b * 64 + c) div 4096 = (a * 4096 + b * 64 + c) div 64 div 64"
    by (simp flip: div_mult2_eq)
  then show "(a * 4096 + b * 64 + c) div 4096 = a"
    unfolding d using assms by (simp only: digits64)
qed

lemma digits262144:
  assumes "b < 64" "c < 64" "d < 64"
  shows "(a * 262144 + b * 4096 + c * 64 + d) div 262144 = a"
    "(a * 262144 + b * 4096 + c * 64 + d) div 4096 mod 64 = b"
    "(a * 262144 + b * 4096 + c * 64 + d) div 64 mod 64 = c"
    "(a * 262144 + b * 4096 + c * 64 + d) mod 64 = (d::nat)"
proof -
  have e: "a * 262144 + b * 4096 + c * 64 + d = (a * 64 + b) * 4096 + c * 64 + d" by simp
  show q: "(a * 262144 + b * 4096 + c * 64 + d) div 4096 mod 64 = b"
    unfolding e using assms by (simp only: digits4096 digits64)
  show "(a * 262144 + b * 4096 + c * 64 + d) div 64 mod 64 = c"
    unfolding e using assms(2,3) by (rule digits4096)
  show "(a * 262144 + b * 4096 + c * 64 + d) mod 64 = d"
    unfolding e using assms(2,3) by (rule digits4096)
  have "(a * 262144 + b * 4096 + c * 64 + d) div 262144
      = (a * 262144 + b * 4096 + c * 64 + d) div 4096 div 64"
    by (simp flip: div_mult2_eq)
  then show "(a * 262144 + b * 4096 + c * 64 + d) div 262144 = a"
    unfolding e using assms by (simp only: digits4096 digits64)
qed

lemma split64: obtains a c where "(n::nat) = a * 64 + c" "c < 64"
  by (metis div_mult_mod_eq mod_less_divisor zero_less_numeral)

lemma encodeRune_cases:
  assumes "isScalar n"
  obtains
    (one) "n < 0x80" "encodeRune n = [char_of n]"
  | (two) a c where "n = a * 64 + c" "2 \<le> a" "a < 32" "c < 64"
      "encodeRune n = [char_of (0xC0 + a), char_of (0x80 + c)]"
  | (three) a b c where "n = a * 4096 + b * 64 + c" "a < 16" "b < 64" "c < 64"
      "a = 0 \<Longrightarrow> 32 \<le> b" "a = 13 \<Longrightarrow> b < 32"
      "encodeRune n = [char_of (0xE0 + a), char_of (0x80 + b), char_of (0x80 + c)]"
  | (four) a b c d where "n = a * 262144 + b * 4096 + c * 64 + d"
      "a < 5" "b < 64" "c < 64" "d < 64" "a = 0 \<Longrightarrow> 16 \<le> b" "a = 4 \<Longrightarrow> b < 16"
      "encodeRune n = [char_of (0xF0 + a), char_of (0x80 + b), char_of (0x80 + c), char_of (0x80 + d)]"
proof -
  obtain m0 c0 where n0: "n = m0 * 64 + c0" "c0 < 64" by (rule split64)
  obtain m1 c1 where n1: "m0 = m1 * 64 + c1" "c1 < 64" by (rule split64)
  obtain m2 c2 where n2: "m1 = m2 * 64 + c2" "c2 < 64" by (rule split64)
  have s3: "n = m1 * 4096 + c1 * 64 + c0" using n0 n1 by simp
  have s4: "n = m2 * 262144 + c2 * 4096 + c1 * 64 + c0" using n0 n1 n2 by simp
  note bound = isScalar_bound [OF assms]
  consider "n < 0x80" | "0x80 \<le> n" "n < 0x800" | "0x800 \<le> n" "n < 0x10000" | "0x10000 \<le> n"
    by linarith
  then show thesis
  proof cases
    case 1
    with assms show thesis by (intro one) (simp_all add: encodeRune_def)
  next
    case 2
    show thesis
      by (rule two [of m0 c0])
        (use 2 n0 assms in \<open>simp_all add: encodeRune_def digits64\<close>)
  next
    case 3
    have a13: "m1 = 13 \<Longrightarrow> c1 < 32"
      using assms 3 s3 n0 n1 by (auto simp: isScalar_def)
    show thesis
      by (rule three [of m1 c1 c0])
        (use 3 n0 n1 s3 assms a13 in \<open>simp_all add: encodeRune_def digits4096\<close>)
  next
    case 4
    show thesis
      by (rule four [of m2 c2 c1 c0])
        (use 4 n0 n1 n2 s4 assms bound in \<open>simp_all add: encodeRune_def digits262144\<close>)
  qed
qed

lemma decode_encode:
  assumes "isScalar n"
  shows "decodeStep (encodeRune n @ s) = Some (n, length (encodeRune n))"
  using assms
proof (cases n rule: encodeRune_cases)
  case one
  then show ?thesis by simp
next
  case two
  then show ?thesis by (simp add: isCont_def Let_def)
next
  case (three a b c)
  then show ?thesis by (auto simp: isCont_def Let_def)
next
  case (four a b c d)
  then show ?thesis by (auto simp: isCont_def Let_def)
qed

lemma decodeRune_encode [simp]:
  "isScalar n \<Longrightarrow> decodeRune (encodeRune n @ s) = (n, length (encodeRune n))"
  by (simp add: decodeRune_def decode_encode)

lemma encodeRune_nonempty [simp]: "encodeRune n \<noteq> []"
  by (simp add: encodeRune_def Let_def)

lemma encodeRune_start: "isScalar n \<Longrightarrow> \<not> isCont (hd (encodeRune n))"
  by (erule encodeRune_cases) (auto simp: isCont_def)

lemma encodeRune_conts: "isScalar n \<Longrightarrow> c \<in> set (tl (encodeRune n)) \<Longrightarrow> isCont c"
  by (erule encodeRune_cases) (auto simp: isCont_def)

lemma encodeRune_length: "isScalar n \<Longrightarrow> length (encodeRune n) \<le> 4"
  by (erule encodeRune_cases) auto

text \<open>Conversely, a well-formed sequence is the encoding of its scalar (no overlong forms).\<close>

lemma contE:
  assumes "isCont c"
  obtains x where "byte c = 0x80 + x" "x < 64"
proof (rule that [of "byte c - 0x80"])
  show "byte c = 0x80 + (byte c - 0x80)" "byte c - 0x80 < 64"
    using assms by (auto simp: isCont_def)
qed

lemma byteE:
  assumes "k \<le> byte c"
  obtains x where "byte c = k + x" "c = char_of (k + x)"
proof (rule that [of "byte c - k"])
  show "byte c = k + (byte c - k)" using assms by simp
  then show "c = char_of (k + (byte c - k))" by (metis char_of_byte)
qed

lemma encodeRune_one: "n < 0x80 \<Longrightarrow> isScalar n \<and> encodeRune n = [char_of n]"
  by (simp add: isScalar_def encodeRune_def)

lemma encodeRune_two:
  assumes "2 \<le> a" "a < 32" "c < 64"
  shows "isScalar (a * 64 + c) \<and> encodeRune (a * 64 + c) = [char_of (0xC0 + a), char_of (0x80 + c)]"
  using assms by (simp add: isScalar_def encodeRune_def digits64)

lemma encodeRune_three:
  assumes "a < 16" "b < 64" "c < 64" "a = 0 \<Longrightarrow> 32 \<le> b" "a = 13 \<Longrightarrow> b < 32"
  shows "isScalar (a * 4096 + b * 64 + c) \<and> encodeRune (a * 4096 + b * 64 + c) =
    [char_of (0xE0 + a), char_of (0x80 + b), char_of (0x80 + c)]"
proof -
  have ge: "0x800 \<le> a * 4096 + b * 64 + c" using assms(4) by (cases "a = 0") auto
  have lt: "a * 4096 + b * 64 + c < 0x10000" using assms(1-3) by simp
  have sc: "isScalar (a * 4096 + b * 64 + c)"
    using assms(1-3,5) by (cases "a < 13"; cases "a = 13") (auto simp: isScalar_def)
  from ge lt sc show ?thesis using assms(2,3) by (simp add: encodeRune_def digits4096)
qed

lemma encodeRune_four:
  assumes "a < 5" "b < 64" "c < 64" "d < 64" "a = 0 \<Longrightarrow> 16 \<le> b" "a = 4 \<Longrightarrow> b < 16"
  shows "isScalar (a * 262144 + b * 4096 + c * 64 + d) \<and>
    encodeRune (a * 262144 + b * 4096 + c * 64 + d) =
    [char_of (0xF0 + a), char_of (0x80 + b), char_of (0x80 + c), char_of (0x80 + d)]"
proof -
  have ge: "0x10000 \<le> a * 262144 + b * 4096 + c * 64 + d"
    using assms(5) by (cases "a = 0") auto
  have le: "a * 262144 + b * 4096 + c * 64 + d \<le> 0x10FFFF"
    using assms(1-4,6) by (cases "a = 4") auto
  have sc: "isScalar (a * 262144 + b * 4096 + c * 64 + d)"
    using ge le by (simp add: isScalar_def)
  from ge sc show ?thesis using assms(2-4) by (simp add: encodeRune_def digits262144)
qed

lemma encode_decode:
  assumes "decodeStep s = Some (n, w)"
  shows "isScalar n \<and> w = length (encodeRune n) \<and> s = encodeRune n @ drop w s"
proof -
  obtain c0 r where s: "s = c0 # r" using assms by (cases s) auto
  consider "byte c0 < 0x80" | "0xC2 \<le> byte c0" "byte c0 \<le> 0xDF"
    | "0xE0 \<le> byte c0" "byte c0 \<le> 0xEF" | "0xF0 \<le> byte c0" "byte c0 \<le> 0xF4"
    using assms by (fastforce simp: s Let_def split: if_splits)
  then show ?thesis
  proof cases
    case 1
    with assms have "n = byte c0" "w = 1" by (simp_all add: s Let_def)
    with 1 show ?thesis by (simp add: s encodeRune_one)
  next
    case 2
    then have "0xC0 \<le> byte c0" by simp
    then obtain a where a': "byte c0 = 0xC0 + a" "c0 = char_of (0xC0 + a)" by (rule byteE)
    with 2 have a: "byte c0 = 0xC0 + a" "c0 = char_of (0xC0 + a)" "2 \<le> a" "a < 32" by auto
    from 2 assms obtain c1 t where r: "r = c1 # t" "isCont c1"
      by (auto simp: s Let_def split: if_splits list.splits)
    from r(2) obtain c where c: "byte c1 = 0x80 + c" "c < 64" by (rule contE)
    have "n = a * 64 + c" "w = 2" using assms 2 by (auto simp: s r a(1) c(1) Let_def)
    moreover have "c1 = char_of (0x80 + c)" using c(1) by (metis char_of_byte)
    ultimately show ?thesis using encodeRune_two [of a c] a c by (simp add: s r)
  next
    case 3
    then obtain a where a: "byte c0 = 0xE0 + a" "c0 = char_of (0xE0 + a)" "a < 16"
      by (elim byteE) auto
    from 3 assms obtain c1 c2 t where r: "r = c1 # c2 # t" "isCont c2"
      "(if a = 0 then 0xA0 else 0x80) \<le> byte c1" "byte c1 \<le> (if a = 13 then 0x9F else 0xBF)"
      "n = a * 4096 + (byte c1 - 0x80) * 64 + (byte c2 - 0x80)" "w = 3"
      by (auto simp: s a(1) Let_def split: if_splits list.splits)
    have "isCont c1" using r(3,4) by (auto simp: isCont_def split: if_splits)
    then obtain b where b: "byte c1 = 0x80 + b" "b < 64" by (rule contE)
    from r(2) obtain c where c: "byte c2 = 0x80 + c" "c < 64" by (rule contE)
    have "a = 0 \<Longrightarrow> 32 \<le> b" "a = 13 \<Longrightarrow> b < 32" using r(3,4) b by auto
    then show ?thesis using encodeRune_three [of a b c] a b c r
      by (simp add: s) (metis char_of_byte)
  next
    case 4
    then obtain a where a: "byte c0 = 0xF0 + a" "c0 = char_of (0xF0 + a)" "a < 5"
      by (elim byteE) auto
    from 4 assms obtain c1 c2 c3 t where r: "r = c1 # c2 # c3 # t" "isCont c2" "isCont c3"
      "(if a = 0 then 0x90 else 0x80) \<le> byte c1" "byte c1 \<le> (if a = 4 then 0x8F else 0xBF)"
      "n = a * 262144 + (byte c1 - 0x80) * 4096 + (byte c2 - 0x80) * 64 + (byte c3 - 0x80)" "w = 4"
      by (auto simp: s a(1) Let_def split: if_splits list.splits)
    have "isCont c1" using r(4,5) by (auto simp: isCont_def split: if_splits)
    then obtain b where b: "byte c1 = 0x80 + b" "b < 64" by (rule contE)
    from r(2) obtain c where c: "byte c2 = 0x80 + c" "c < 64" by (rule contE)
    from r(3) obtain d where d: "byte c3 = 0x80 + d" "d < 64" by (rule contE)
    have "a = 0 \<Longrightarrow> 16 \<le> b" "a = 4 \<Longrightarrow> b < 16" using r(4,5) b by auto
    then show ?thesis using encodeRune_four [of a b c d] a b c d r
      by (simp add: s) (metis char_of_byte)
  qed
qed

abbreviation scalars :: "nat list \<Rightarrow> bool" where
  "scalars cs \<equiv> \<forall>c \<in> set cs. isScalar c"

lemma validString_encode: "scalars cs \<Longrightarrow> validString (encode cs)"
proof (induction cs)
  case Nil
  show ?case by (simp add: validString.simps [of "[]"])
next
  case (Cons c cs)
  then show ?case
    by (subst validString.simps) (simp add: decode_encode)
qed

lemma validString_decodes: "validString s \<Longrightarrow> \<exists>cs. scalars cs \<and> s = encode cs"
proof (induction s rule: validString.induct)
  case (1 s)
  show ?case
  proof (cases "s = []")
    case True
    then show ?thesis by (intro exI [of _ "[]"]) simp
  next
    case False
    with "1.prems" obtain n w where d: "decodeStep s = Some (n, w)" "validString (drop w s)"
      by (subst (asm) validString.simps) (auto split: option.splits)
    from "1.IH" [OF False d(1) refl d(2)] obtain cs where "scalars cs" "drop w s = encode cs"
      by blast
    with encode_decode [OF d(1)] show ?thesis
      by (intro exI [of _ "n # cs"]) auto
  qed
qed

lemma validString_iff: "validString s \<longleftrightarrow> (\<exists>cs. scalars cs \<and> s = encode cs)"
  using validString_encode validString_decodes by blast

lemma runes_encode: "scalars cs \<Longrightarrow> runes (encode cs) = cs"
proof (induction cs)
  case Nil
  show ?case by (simp add: runes.simps [of "[]"])
next
  case (Cons c cs)
  then show ?case by (subst runes.simps) simp
qed

lemma encode_runes: "validString s \<Longrightarrow> encode (runes s) = s \<and> scalars (runes s)"
  using validString_decodes runes_encode by metis

lemma encode_inj: "scalars cs \<Longrightarrow> scalars ds \<Longrightarrow> encode cs = encode ds \<longleftrightarrow> cs = ds"
  by (metis runes_encode)

lemma validString_append:
  "validString s \<Longrightarrow> validString t \<Longrightarrow> validString (s @ t)"
  unfolding validString_iff by (metis encode_simps(3) Un_iff set_append)

section \<open>ValidateText and CompareOrdinalText\<close>

definition ValidateText :: "string \<Rightarrow> unit res" where
  "ValidateText value = rejectIf (\<not> validString value) ''string value is not valid UTF-8''"

lemma ValidateText_Ret [simp]: "ValidateText v = Ret () \<longleftrightarrow> validString v"
  by (simp add: ValidateText_def)

text \<open>The loop over both strings: compare the next scalars, then the remaining lengths.\<close>

function compareScalars :: "string \<Rightarrow> string \<Rightarrow> int" where
  "compareScalars left right =
     (if left \<noteq> [] \<and> right \<noteq> [] then
        (let (leftScalar, leftWidth) = decodeRune left;
             (rightScalar, rightWidth) = decodeRune right
         in if leftScalar < rightScalar then -1
            else if leftScalar > rightScalar then 1
            else compareScalars (drop leftWidth left) (drop rightWidth right))
      else if length left < length right then -1
      else if length left > length right then 1
      else 0)"
  by pat_completeness auto
termination
  by (relation "measure (\<lambda>(l, r). length l)") (auto dest: decodeRune_less [OF sym])

declare compareScalars.simps [simp del]

definition CompareOrdinalText :: "string \<Rightarrow> string \<Rightarrow> int res" where
  "CompareOrdinalText left right =
     andThen (ValidateText left)
       (andThen (ValidateText right) (Ret (compareScalars left right)))"

text \<open>The reference: three-way lexicographic comparison.\<close>

fun compareLists :: "'a::linorder list \<Rightarrow> 'a list \<Rightarrow> int" where
  "compareLists [] [] = 0"
| "compareLists [] (y # ys) = -1"
| "compareLists (x # xs) [] = 1"
| "compareLists (x # xs) (y # ys) =
     (if x < y then -1 else if y < x then 1 else compareLists xs ys)"

lemma compareScalars_encode:
  "scalars cs \<Longrightarrow> scalars ds \<Longrightarrow> compareScalars (encode cs) (encode ds) = compareLists cs ds"
proof (induction cs ds rule: compareLists.induct)
  case 1
  show ?case by (simp add: compareScalars.simps [of "[]"])
next
  case (2 y ys)
  then show ?case by (simp add: compareScalars.simps [of "[]"])
next
  case (3 x xs)
  then show ?case by (simp add: compareScalars.simps [of _ "[]"])
next
  case (4 x xs y ys)
  then show ?case by (subst compareScalars.simps) (simp add: not_less)
qed

lemma CompareOrdinalText_encode:
  "scalars cs \<Longrightarrow> scalars ds \<Longrightarrow> CompareOrdinalText (encode cs) (encode ds) = Ret (compareLists cs ds)"
  by (simp add: CompareOrdinalText_def ValidateText_def rejectIf_def validString_encode
      compareScalars_encode)

lemma CompareOrdinalText_valid:
  "validString a \<Longrightarrow> validString b \<Longrightarrow>
   CompareOrdinalText a b = Ret (compareLists (runes a) (runes b))"
  using CompareOrdinalText_encode [of "runes a" "runes b"] encode_runes by metis

lemma compareLists_swap: "compareLists ys xs = - compareLists xs ys"
  by (induction xs ys rule: compareLists.induct) auto

lemma compareLists_eq_0: "compareLists xs ys = 0 \<longleftrightarrow> xs = ys"
  by (induction xs ys rule: compareLists.induct) auto

lemma compareLists_range: "compareLists xs ys \<in> {-1, 0, 1}"
  by (induction xs ys rule: compareLists.induct) auto

lemma compareLists_trans:
  "compareLists xs ys < 0 \<Longrightarrow> compareLists ys zs < 0 \<Longrightarrow> compareLists xs zs < 0"
proof (induction xs ys arbitrary: zs rule: compareLists.induct)
  case (2 y ys)
  then show ?case by (cases zs) auto
next
  case (4 x xs y ys)
  then show ?case by (cases zs) (auto split: if_splits)
qed auto

text \<open>The encoding preserves the order: a smaller scalar has a smaller byte sequence.\<close>

lemma encodeRune_less:
  assumes "isScalar x" "isScalar y" "x < y"
  shows "compareLists (map byte (encodeRune x) @ s) (map byte (encodeRune y) @ t) = -1"
  using assms(1)
proof (cases x rule: encodeRune_cases)
  case one
  with assms(2,3) show ?thesis by (cases y rule: encodeRune_cases) auto
next
  case (two a c)
  with assms(2,3) show ?thesis by (cases y rule: encodeRune_cases) auto
next
  case (three a b c)
  then have "0x800 \<le> x" by (cases "a = 0") auto
  with assms(2,3) three show ?thesis by (cases y rule: encodeRune_cases) auto
next
  case (four a b c d)
  then have "0x10000 \<le> x" by (cases "a = 0") auto
  with assms(2,3) four show ?thesis by (cases y rule: encodeRune_cases) auto
qed

lemma compareLists_append_same: "compareLists (ps @ xs) (ps @ ys) = compareLists xs ys"
  by (induction ps) auto

lemma compareLists_bytes:
  "scalars cs \<Longrightarrow> scalars ds \<Longrightarrow>
   compareLists (map byte (encode cs)) (map byte (encode ds)) = compareLists cs ds"
proof (induction cs ds rule: compareLists.induct)
  case (2 y ys)
  obtain b bs where "encodeRune y = b # bs" by (meson encodeRune_nonempty neq_Nil_conv)
  then show ?case by simp
next
  case (3 x xs)
  obtain b bs where "encodeRune x = b # bs" by (meson encodeRune_nonempty neq_Nil_conv)
  then show ?case by simp
next
  case (4 x xs y ys)
  consider "x < y" | "y < x" | "x = y" by (rule linorder_cases)
  then show ?case
  proof cases
    case 1
    with 4 show ?thesis by (simp add: encodeRune_less)
  next
    case 2
    with 4 have "compareLists (map byte (encode (y # ys))) (map byte (encode (x # xs))) = -1"
      by (simp add: encodeRune_less)
    with 2 show ?thesis
      by (subst compareLists_swap) simp
  next
    case 3
    with 4 show ?thesis by (simp add: compareLists_append_same)
  qed
qed simp

section \<open>TrimText\<close>

definition textWhitespaceRanges :: "(nat \<times> nat) list" where
  "textWhitespaceRanges =
     [(0x0009, 0x000D), (0x0020, 0x0020), (0x0085, 0x0085), (0x00A0, 0x00A0), (0x1680, 0x1680),
      (0x2000, 0x200A), (0x2028, 0x2029), (0x202F, 0x202F), (0x205F, 0x205F), (0x3000, 0x3000)]"

definition isTextWhitespace :: "nat \<Rightarrow> bool" where
  "isTextWhitespace scalar = list_ex (\<lambda>(first, last). first \<le> scalar \<and> scalar \<le> last) textWhitespaceRanges"

text \<open>
  \<open>utf8.DecodeLastRuneInString\<close>: scan back from the last byte over at most three
  continuation bytes, decode there, and accept the result only if it ends at the end.
\<close>

function lastStart :: "string \<Rightarrow> int \<Rightarrow> int \<Rightarrow> int" where
  "lastStart s start lim =
     (if lim \<le> start \<and> isCont (s ! nat start) then lastStart s (start - 1) lim else start)"
  by pat_completeness auto
termination
  by (relation "measure (\<lambda>(s, start, lim). nat (start - lim + 1))") auto

declare lastStart.simps [simp del]

definition decodeLastRune :: "string \<Rightarrow> nat \<times> nat" where
  "decodeLastRune s =
     (if s = [] then (runeError, 0)
      else if byte (last s) < 0x80 then (byte (last s), 1)
      else
        (let end = int (length s);
             lim = max 0 (end - 4);
             start = max 0 (lastStart s (end - 2) lim);
             (r, size) = decodeRune (drop (nat start) s)
         in if start + int size \<noteq> end then (runeError, 1) else (r, size)))"

lemma lastStart_le: "lastStart s start lim \<le> start"
proof (induction s start lim rule: lastStart.induct)
  case (1 s start lim)
  then show ?case by (subst lastStart.simps) auto
qed

lemma decodeLastRune_width:
  assumes "s \<noteq> []"
  shows "0 < snd (decodeLastRune s) \<and> snd (decodeLastRune s) \<le> length s"
proof -
  define st where "st = nat (max 0 (lastStart s (int (length s) - 2) (max 0 (int (length s) - 4))))"
  obtain r k where d: "decodeRune (drop st s) = (r, k)" by (cases "decodeRune (drop st s)")
  have "st < length s"
    using lastStart_le [of s "int (length s) - 2" "max 0 (int (length s) - 4)"] assms
    by (cases s) (auto simp: st_def)
  then have "0 < k" using d decodeRune_width [of "drop st s"] by simp
  then show ?thesis
    using assms d by (auto simp: decodeLastRune_def Let_def st_def [symmetric] Suc_le_eq)
qed

function trimStart :: "string \<Rightarrow> nat \<Rightarrow> nat" where
  "trimStart value start =
     (if start < length value then
        (let (scalar, size) = decodeRune (drop start value)
         in if \<not> isTextWhitespace scalar then start else trimStart value (start + size))
      else start)"
  by pat_completeness auto
termination
  by (relation "measure (\<lambda>(v, start). length v - start)") (auto dest: decodeRune_less [OF sym])

declare trimStart.simps [simp del]

text \<open>The slice \<open>value[:end]\<close> needs \<open>end <= len(value)\<close>, which every call has.\<close>

function trimEnd :: "string \<Rightarrow> nat \<Rightarrow> nat \<Rightarrow> nat" where
  "trimEnd value start end =
     (if start < end \<and> end \<le> length value then
        (let (scalar, size) = decodeLastRune (take end value)
         in if \<not> isTextWhitespace scalar then end else trimEnd value start (end - size))
      else end)"
  by pat_completeness auto
termination
proof (relation "measure (\<lambda>(v, start, stop). stop)", goal_cases)
  case (2 v start stop x scalar size)
  then have "take stop v \<noteq> []" by auto
  with 2 show ?case using decodeLastRune_width [of "take stop v"]
    by (cases "decodeLastRune (take stop v)") auto
qed auto

declare trimEnd.simps [simp del]

definition TrimText :: "string \<Rightarrow> string res" where
  "TrimText value =
     andThen (ValidateText value)
       (let start = trimStart value 0;
            end = trimEnd value start (length value)
        in Ret (take (end - start) (drop start value)))"

lemma lastStart_finds:
  "0 \<le> k \<Longrightarrow> lim \<le> k \<Longrightarrow> k \<le> start \<Longrightarrow> \<not> isCont (s ! nat k) \<Longrightarrow>
   (\<And>i. k < i \<Longrightarrow> i \<le> start \<Longrightarrow> isCont (s ! nat i)) \<Longrightarrow> lastStart s start lim = k"
proof (induction s start lim rule: lastStart.induct)
  case (1 s start lim)
  show ?case
  proof (cases "k = start")
    case True
    with "1.prems" show ?thesis by (subst lastStart.simps) simp
  next
    case False
    with "1.prems" have c: "lim \<le> start \<and> isCont (s ! nat start)" by auto
    with "1.prems" False have "lastStart s (start - 1) lim = k"
      by (intro "1.IH") auto
    with c show ?thesis by (subst lastStart.simps) simp
  qed
qed

lemma decodeLastRune_encode:
  assumes "isScalar c"
  shows "decodeLastRune (p @ encodeRune c) = (c, length (encodeRune c))"
proof (cases "c < 0x80")
  case True
  then show ?thesis using encodeRune_one [of c] by (simp add: decodeLastRune_def)
next
  case False
  define e where "e = encodeRune c"
  obtain b bs where e: "e = b # bs" by (metis encodeRune_nonempty neq_Nil_conv e_def)
  have len: "length e \<le> 4" using encodeRune_length [OF assms] by (simp add: e_def)
  have bs: "bs \<noteq> []"
    using assms False by (cases c rule: encodeRune_cases) (use e in \<open>auto simp: e_def\<close>)
  have conts: "isCont x" if "x \<in> set bs" for x
    using encodeRune_conts [OF assms, of x] e that by (simp add: e_def)
  have start: "\<not> isCont b" using encodeRune_start [OF assms] e by (simp add: e_def)
  have ls: "lastStart (p @ e) (int (length (p @ e)) - 2) (max 0 (int (length (p @ e)) - 4))
      = int (length p)"
  proof (rule lastStart_finds)
    show "\<not> isCont ((p @ e) ! nat (int (length p)))" using start by (simp add: e nth_append)
    show "isCont ((p @ e) ! nat i)"
      if "int (length p) < i" "i \<le> int (length (p @ e)) - 2" for i
    proof -
      define j where "j = nat i - Suc (length p)"
      have "nat i = length p + Suc j" "j < length bs"
        using that by (simp_all add: j_def e)
      then have "(p @ e) ! nat i = bs ! j" by (simp add: e nth_append)
      with \<open>j < length bs\<close> show ?thesis using conts by simp
    qed
  qed (use len bs in \<open>auto simp: e Suc_le_eq\<close>)
  have l: "isCont (last (p @ e))" using conts bs by (simp add: e)
  have dec: "decodeRune e = (c, length e)"
    using decodeRune_encode [OF assms, of "[]"] by (simp add: e_def)
  have "decodeLastRune (p @ e) = (c, length e)"
    using ls l dec e by (simp add: decodeLastRune_def Let_def isCont_def del: lastStart.simps)
  then show ?thesis by (simp add: e_def)
qed

text \<open>What trimming means on scalars.\<close>

definition trimScalars :: "nat list \<Rightarrow> nat list" where
  "trimScalars cs = rev (dropWhile isTextWhitespace (rev (dropWhile isTextWhitespace cs)))"

lemma trimStart_encode:
  "scalars cs \<Longrightarrow> trimStart (p @ encode cs) (length p) =
     length p + length (encode (takeWhile isTextWhitespace cs))"
proof (induction cs arbitrary: p)
  case Nil
  show ?case by (subst trimStart.simps) simp
next
  case (Cons c cs)
  from Cons.prems have dec: "decodeRune (encodeRune c @ encode cs) = (c, length (encodeRune c))"
    by simp
  show ?case
  proof (cases "isTextWhitespace c")
    case True
    then have "trimStart (p @ encode (c # cs)) (length p)
        = trimStart ((p @ encodeRune c) @ encode cs) (length (p @ encodeRune c))"
      by (subst trimStart.simps) (simp add: dec)
    with Cons.IH [of "p @ encodeRune c"] Cons.prems True show ?thesis by simp
  next
    case False
    then show ?thesis by (subst trimStart.simps) (simp add: dec)
  qed
qed

lemma trimEnd_encode:
  "scalars cs \<Longrightarrow> trimEnd (p @ encode cs @ q) (length p) (length p + length (encode cs)) =
     length p + length (encode (rev (dropWhile isTextWhitespace (rev cs))))"
proof (induction cs arbitrary: q rule: rev_induct)
  case Nil
  show ?case by (subst trimEnd.simps) simp
next
  case (snoc c cs)
  from snoc.prems have dec:
    "decodeLastRune (p @ encode cs @ encodeRune c) = (c, length (encodeRune c))"
    using decodeLastRune_encode [of c "p @ encode cs"] by simp
  show ?case
  proof (cases "isTextWhitespace c")
    case True
    have "trimEnd (p @ encode (cs @ [c]) @ q) (length p) (length p + length (encode (cs @ [c])))
        = trimEnd (p @ encode cs @ (encodeRune c @ q)) (length p) (length p + length (encode cs))"
      by (subst trimEnd.simps) (simp add: dec True)
    with snoc.IH [of "encodeRune c @ q"] snoc.prems True show ?thesis by simp
  next
    case False
    then show ?thesis by (subst trimEnd.simps) (simp add: dec)
  qed
qed

lemma dropWhile_scalars: "scalars cs \<Longrightarrow> scalars (dropWhile P cs)"
  using set_dropWhileD by fast

lemma TrimText_encode:
  assumes "scalars cs"
  shows "TrimText (encode cs) = Ret (encode (trimScalars cs))"
proof -
  define ws where "ws = takeWhile isTextWhitespace cs"
  define ds where "ds = dropWhile isTextWhitespace cs"
  define es where "es = rev (dropWhile isTextWhitespace (rev ds))"
  obtain tl where tl: "ds = es @ tl"
    unfolding es_def by (metis rev_append rev_rev_ident takeWhile_dropWhile_id)
  have cs: "cs = ws @ ds" by (simp add: ws_def ds_def)
  have start: "trimStart (encode cs) 0 = length (encode ws)"
    using trimStart_encode [OF assms, of "[]"] by (simp add: ws_def)
  have "scalars ds" using assms dropWhile_scalars by (simp add: ds_def)
  from trimEnd_encode [OF this, of "encode ws" "[]"]
  have "trimEnd (encode cs) (length (encode ws)) (length (encode cs))
      = length (encode ws) + length (encode es)"
    by (simp add: cs es_def)
  with start assms show ?thesis
    by (simp add: TrimText_def ValidateText_def rejectIf_def validString_encode trimScalars_def
        flip: ds_def es_def) (simp add: cs tl)
qed

lemma dropWhile_idem: "dropWhile P (dropWhile P xs) = dropWhile P xs"
  by (induction xs) auto

lemma trimScalars_ends:
  "trimScalars cs \<noteq> [] \<Longrightarrow>
   \<not> isTextWhitespace (hd (trimScalars cs)) \<and> \<not> isTextWhitespace (last (trimScalars cs))"
proof -
  assume ne: "trimScalars cs \<noteq> []"
  define ds where "ds = dropWhile isTextWhitespace cs"
  have t: "trimScalars cs = rev (dropWhile isTextWhitespace (rev ds))"
    by (simp add: trimScalars_def ds_def)
  have l: "\<not> isTextWhitespace (last (trimScalars cs))"
    using ne by (simp add: t last_rev hd_dropWhile)
  obtain tl where "ds = trimScalars cs @ tl"
    unfolding t by (metis rev_append rev_rev_ident takeWhile_dropWhile_id)
  then have "hd ds = hd (trimScalars cs)" "ds \<noteq> []" using ne by auto
  then show ?thesis using l hd_dropWhile [of isTextWhitespace cs] by (simp add: ds_def)
qed

lemma trimScalars_Nil [simp]: "trimScalars [] = []"
  by (simp add: trimScalars_def)

lemma trimScalars_fixed:
  assumes "\<not> isTextWhitespace (hd cs)" "\<not> isTextWhitespace (last cs)"
  shows "trimScalars cs = cs"
proof (cases cs)
  case (Cons c ds)
  have d: "dropWhile isTextWhitespace cs = cs" using assms(1) by (simp add: Cons)
  have r: "dropWhile isTextWhitespace (rev cs) = rev cs"
    using assms(2) Cons hd_rev [of cs] by (cases "rev cs") auto
  show ?thesis by (simp add: trimScalars_def d r)
qed simp

lemma trimScalars_idem: "trimScalars (trimScalars cs) = trimScalars cs"
proof (cases "trimScalars cs = []")
  case True
  then show ?thesis by simp
next
  case False
  with trimScalars_ends [OF this] show ?thesis by (intro trimScalars_fixed) auto
qed

section \<open>strings.Contains on encoded text\<close>

text \<open>
  \<open>strings.Contains\<close> searches bytes. On valid text a byte match is a match of whole
  scalars, because no continuation byte starts a sequence and no sequence is a prefix of
  another.
\<close>

definition stringsContains :: "string \<Rightarrow> string \<Rightarrow> bool" where
  "stringsContains s substr = sublist substr s"

lemma encode_split:
  "scalars cs \<Longrightarrow> encode cs = p @ t \<Longrightarrow> t \<noteq> [] \<Longrightarrow> \<not> isCont (hd t) \<Longrightarrow>
   \<exists>us vs. cs = us @ vs \<and> p = encode us \<and> t = encode vs"
proof (induction cs arbitrary: p)
  case Nil
  then show ?case by simp
next
  case (Cons c cs)
  show ?case
  proof (cases "p = []")
    case True
    with Cons.prems show ?thesis by (intro exI [of _ "[]"] exI [of _ "c # cs"]) simp
  next
    case False
    have eq: "encodeRune c @ encode cs = p @ t" using Cons.prems(2) by simp
    have "length (encodeRune c) \<le> length p"
    proof (rule ccontr)
      assume "\<not> length (encodeRune c) \<le> length p"
      with eq obtain x where x: "encodeRune c = p @ x" "x \<noteq> []" "t = x @ encode cs"
        by (auto simp: append_eq_append_conv2)
      with False have "hd t \<in> set (tl (encodeRune c))" by (cases p; cases x) auto
      with encodeRune_conts Cons.prems(1,4) show False by auto
    qed
    with eq obtain q where q: "p = encodeRune c @ q" "encode cs = q @ t"
      by (auto simp: append_eq_append_conv2)
    with Cons.IH [of q] Cons.prems obtain us vs
      where "cs = us @ vs" "q = encode us" "t = encode vs" by auto
    with q show ?thesis by (intro exI [of _ "c # us"] exI [of _ vs]) simp
  qed
qed

lemma encode_prefix:
  "scalars qs \<Longrightarrow> scalars vs \<Longrightarrow> encode vs = encode qs @ s \<Longrightarrow> prefix qs vs"
proof (induction qs arbitrary: vs)
  case Nil
  then show ?case by simp
next
  case (Cons c qs)
  from Cons.prems(1,3) have d: "decodeStep (encode vs) = Some (c, length (encodeRune c))"
    by (simp add: decode_encode)
  then obtain v ws where vs: "vs = v # ws" by (cases vs) auto
  with d Cons.prems(2) have "v = c" by (simp add: decode_encode)
  with vs Cons show ?case by simp
qed

lemma stringsContains_encode:
  assumes "scalars vs" "scalars qs"
  shows "stringsContains (encode vs) (encode qs) \<longleftrightarrow> sublist qs vs"
proof
  assume "stringsContains (encode vs) (encode qs)"
  then obtain p s where eq: "encode vs = p @ encode qs @ s"
    by (auto simp: stringsContains_def sublist_def)
  show "sublist qs vs"
  proof (cases qs)
    case Nil
    then show ?thesis by simp
  next
    case (Cons q qr)
    have "hd (encode qs @ s) = hd (encodeRune q)" "encode qs @ s \<noteq> []"
      by (simp_all add: Cons)
    with encode_split [OF assms(1) eq] encodeRune_start [of q] assms(2) Cons
    obtain us ws where "vs = us @ ws" "encode qs @ s = encode ws" by auto
    with encode_prefix [OF assms(2), of ws s] assms(1) have "prefix qs ws" by auto
    with \<open>vs = us @ ws\<close> show ?thesis by (auto simp: prefix_def sublist_def)
  qed
next
  assume "sublist qs vs"
  then obtain ps ss where "vs = ps @ qs @ ss" by (auto simp: sublist_def)
  then have "encode vs = encode ps @ encode qs @ encode ss" by simp
  then show "stringsContains (encode vs) (encode qs)"
    unfolding stringsContains_def sublist_def by blast
qed

section \<open>Properties\<close>

text \<open>\<open>CompareOrdinalText\<close> is a total order on well-formed text: it returns -1, 0 or 1, 0 on
  equal texts only, the opposite sign when the operands are swapped, and it is transitive.\<close>

theorem ordinal_text_order:
  assumes "validString a" "validString b" "validString c"
  shows "\<exists>ab bc ac. CompareOrdinalText a b = Ret ab \<and> CompareOrdinalText b c = Ret bc
    \<and> CompareOrdinalText a c = Ret ac \<and> CompareOrdinalText b a = Ret (- ab)
    \<and> ab \<in> {-1, 0, 1} \<and> (ab = 0 \<longleftrightarrow> a = b) \<and> (ab < 0 \<longrightarrow> bc < 0 \<longrightarrow> ac < 0)"
proof -
  have "runes a = runes b \<longleftrightarrow> a = b" using assms(1,2) encode_runes by metis
  then show ?thesis
    using assms compareLists_swap compareLists_range [of "runes a" "runes b"]
      compareLists_trans [of "runes a" "runes b" "runes c"]
    by (simp add: CompareOrdinalText_valid compareLists_eq_0)
qed

lemma validString_ascii: "\<forall>c \<in> set s. byte c < 128 \<Longrightarrow> validString s"
proof -
  assume a: "\<forall>c \<in> set s. byte c < 128"
  have "encode (map byte s) = s"
    using a by (induction s) (simp_all add: encodeRune_one)
  moreover have "scalars (map byte s)" using a by (auto simp: isScalar_def)
  ultimately show ?thesis using validString_encode by metis
qed

theorem ordinal_text_order_witness:
  "\<exists>ab bc ac. CompareOrdinalText ''a'' ''ab'' = Ret ab \<and> CompareOrdinalText ''ab'' ''b'' = Ret bc
    \<and> CompareOrdinalText ''a'' ''b'' = Ret ac \<and> CompareOrdinalText ''ab'' ''a'' = Ret (- ab)
    \<and> ab \<in> {-1, 0, 1} \<and> (ab = 0 \<longleftrightarrow> ''a'' = ''ab'') \<and> (ab < 0 \<longrightarrow> bc < 0 \<longrightarrow> ac < 0)"
  using ordinal_text_order [of "''a''" "''ab''" "''b''"] by (simp add: validString_ascii byte_def)

text \<open>C32: on well-formed text \<open>CompareOrdinalText\<close>, which compares scalar by scalar, gives what
  a lexicographic comparison of the bytes gives, and it refuses ill-formed text on either side.\<close>

theorem ordinal_text_bytes:
  "CompareOrdinalText a b =
     (if validString a \<and> validString b then Ret (compareLists (map byte a) (map byte b))
      else Err ''string value is not valid UTF-8'')"
proof (cases "validString a \<and> validString b")
  case True
  then show ?thesis
    using CompareOrdinalText_valid [of a b] compareLists_bytes [of "runes a" "runes b"]
      encode_runes [of a] encode_runes [of b] by simp
next
  case False
  then show ?thesis by (auto simp: CompareOrdinalText_def ValidateText_def rejectIf_def)
qed

text \<open>C33: \<open>TrimText\<close> removes the longest prefix and suffix of whitespace scalars, keeps what is
  between them, and trimming again changes nothing.\<close>

theorem trim_text_maximal:
  assumes "validString s"
  shows "\<exists>p t q. s = encode p @ encode t @ encode q \<and> TrimText s = Ret (encode t)
    \<and> (\<forall>c \<in> set p \<union> set q. isTextWhitespace c)
    \<and> (t \<noteq> [] \<longrightarrow> \<not> isTextWhitespace (hd t) \<and> \<not> isTextWhitespace (last t))
    \<and> TrimText (encode t) = Ret (encode t)"
proof -
  define cs where "cs = runes s"
  have s: "scalars cs" "s = encode cs" using encode_runes [OF assms] by (simp_all add: cs_def)
  define ds where "ds = dropWhile isTextWhitespace cs"
  define p q where "p = takeWhile isTextWhitespace cs" and "q = rev (takeWhile isTextWhitespace (rev ds))"
  have ds: "ds = trimScalars cs @ q"
    unfolding q_def trimScalars_def ds_def [symmetric] by (metis rev_append rev_rev_ident takeWhile_dropWhile_id)
  have c: "cs = p @ trimScalars cs @ q" using ds by (metis p_def ds_def takeWhile_dropWhile_id)
  then have sc: "scalars (trimScalars cs)" using s(1) by (metis Un_iff set_append)
  have e: "encode cs = encode p @ encode (trimScalars cs) @ encode q"
    using c by (metis concat_append map_append encode_def)
  have w: "\<forall>c \<in> set p \<union> set q. isTextWhitespace c"
    by (auto simp: p_def q_def dest: set_takeWhileD)
  show ?thesis
    using s e w trimScalars_ends TrimText_encode [OF s(1)] TrimText_encode [OF sc] trimScalars_idem
    by (intro exI [of _ p] exI [of _ "trimScalars cs"] exI [of _ q]) simp
qed

theorem trim_text_maximal_witness:
  "\<exists>p t q. '' a b '' = encode p @ encode t @ encode q \<and> TrimText '' a b '' = Ret (encode t)
    \<and> (\<forall>c \<in> set p \<union> set q. isTextWhitespace c)
    \<and> (t \<noteq> [] \<longrightarrow> \<not> isTextWhitespace (hd t) \<and> \<not> isTextWhitespace (last t))
    \<and> TrimText (encode t) = Ret (encode t)"
  using trim_text_maximal [of "'' a b ''"] by (simp add: validString_ascii byte_def)

end
