(* ===== verification/Numeric.thy ===== *)
theory Numeric
  imports Prelude "HOL-Library.Signed_Division"
begin

unbundle bit_operations_syntax

text \<open>
  Checked numeric operations of coreir/semantics.go: \<open>CheckedInt64\<close>,
  \<open>CheckedNegateInt64\<close> and \<open>CheckedDivideBinary64\<close>. A Go \<open>int64\<close> is a
  64-bit word read as two's complement, a \<open>float64\<close> the 64-bit word of its IEEE 754
  binary64 representation.
\<close>

section \<open>Operators and arithmetic errors (core.go)\<close>

datatype operator =
    OperatorNot | OperatorNegate | OperatorAdd | OperatorSubtract | OperatorMultiply | OperatorDivide
  | OperatorEqual | OperatorNotEqual | OperatorLessThan | OperatorLessOrEqual
  | OperatorGreaterThan | OperatorGreaterOrEqual | OperatorAnd | OperatorOr
  | OperatorOther string

text \<open>The Go type is a string: \<open>NoArithmeticError\<close> is the empty one.\<close>

datatype arithmetic_error =
  NoArithmeticError | ArithmeticOverflow | ArithmeticDivisionByZero | OtherArithmeticError string

section \<open>Checked 64-bit integers\<close>

type_synonym int64 = "64 word"

definition maxInt64 :: int64 where "maxInt64 = 9223372036854775807"

definition minInt64 :: int64 where "minInt64 = - maxInt64 - 1"

text \<open>Go's integer division truncates towards zero.\<close>

definition quot64 :: "int64 \<Rightarrow> int64 \<Rightarrow> int64" where
  "quot64 a b = word_of_int (sint a sdiv sint b)"

fun CheckedInt64 :: "operator \<Rightarrow> int64 \<Rightarrow> int64 \<Rightarrow> (int64 \<times> arithmetic_error) res" where
  "CheckedInt64 OperatorAdd left right =
     (if (0 <s right \<and> maxInt64 - right <s left) \<or> (right <s 0 \<and> left <s minInt64 - right)
      then Ret (0, ArithmeticOverflow)
      else Ret (left + right, NoArithmeticError))"
| "CheckedInt64 OperatorSubtract left right =
     (if (right <s 0 \<and> maxInt64 + right <s left) \<or> (0 <s right \<and> left <s minInt64 + right)
      then Ret (0, ArithmeticOverflow)
      else Ret (left - right, NoArithmeticError))"
| "CheckedInt64 OperatorMultiply left right =
     (if left = 0 \<or> right = 0 then Ret (0, NoArithmeticError)
      else if (left = minInt64 \<and> right = -1) \<or> (right = minInt64 \<and> left = -1)
      then Ret (0, ArithmeticOverflow)
      else
        let value = left * right
        in if quot64 value right \<noteq> left then Ret (0, ArithmeticOverflow)
           else Ret (value, NoArithmeticError))"
| "CheckedInt64 _ left right = Panic"

definition CheckedNegateInt64 :: "int64 \<Rightarrow> int64 \<times> arithmetic_error" where
  "CheckedNegateInt64 value =
     (if value = minInt64 then (0, ArithmeticOverflow) else (- value, NoArithmeticError))"

text \<open>The reference: exact integer arithmetic, with an error outside the range.\<close>

definition inInt64 :: "int \<Rightarrow> bool" where
  "inInt64 k \<longleftrightarrow> - (2 ^ 63) \<le> k \<and> k < 2 ^ 63"

definition exactInt64 :: "int \<Rightarrow> int64 \<times> arithmetic_error" where
  "exactInt64 k = (if inInt64 k then (word_of_int k, NoArithmeticError) else (0, ArithmeticOverflow))"

lemma sint_inInt64 [simp]: "inInt64 (sint (w :: int64))"
  using sint_ge [of w] sint_lt [of w] by (simp add: inInt64_def)

lemma sint_bounds: "- 9223372036854775808 \<le> sint (w :: int64)" "sint (w :: int64) \<le> 9223372036854775807"
  using sint_ge [of w] sint_lt [of w] by simp_all

lemma signed_take_bit_in: "inInt64 k \<Longrightarrow> signed_take_bit 63 k = k"
  by (simp add: inInt64_def signed_take_bit_int_eq_self)

lemma sint_word_of_int: "inInt64 k \<Longrightarrow> sint (word_of_int k :: int64) = k"
  by (simp add: sint_sbintrunc' signed_take_bit_in)

lemma sint_add: "inInt64 (sint a + sint b) \<Longrightarrow> sint (a + b :: int64) = sint a + sint b"
  by (simp add: sint_word_ariths signed_take_bit_in)

lemma sint_sub: "inInt64 (sint a - sint b) \<Longrightarrow> sint (a - b :: int64) = sint a - sint b"
  by (simp add: sint_word_ariths signed_take_bit_in)

lemma sint_mult: "inInt64 (sint a * sint b) \<Longrightarrow> sint (a * b :: int64) = sint a * sint b"
  by (simp add: sint_word_ariths signed_take_bit_in)

lemma sint_consts [simp]:
  "sint maxInt64 = 9223372036854775807" "sint minInt64 = - 9223372036854775808"
  by (simp_all add: maxInt64_def minInt64_def)

lemma int64_eq_iff: "a = b \<longleftrightarrow> sint a = sint (b :: int64)"
  by (auto intro: signed_word_eqI)

lemma int64_exact:
  "sint w = k \<Longrightarrow> exactInt64 k = (w, NoArithmeticError)"
  using sint_inInt64 [of w] by (auto simp: exactInt64_def)

lemma CheckedInt64_add: "CheckedInt64 OperatorAdd l r = Ret (exactInt64 (sint l + sint r))"
proof -
  note b = sint_bounds [of l] sint_bounds [of r]
  have hi: "0 < sint r \<Longrightarrow> sint (maxInt64 - r) = 9223372036854775807 - sint r"
    using b by (subst sint_sub) (auto simp: inInt64_def)
  have lo: "sint r < 0 \<Longrightarrow> sint (minInt64 - r) = - 9223372036854775808 - sint r"
    using b by (subst sint_sub) (auto simp: inInt64_def)
  have "((0 <s r \<and> maxInt64 - r <s l) \<or> (r <s 0 \<and> l <s minInt64 - r))
      \<longleftrightarrow> \<not> inInt64 (sint l + sint r)"
    using b hi lo by (auto simp: word_sless_alt inInt64_def)
  then show ?thesis
    using sint_add [of l r] by (simp add: exactInt64_def int64_eq_iff sint_word_of_int)
qed

lemma CheckedInt64_sub: "CheckedInt64 OperatorSubtract l r = Ret (exactInt64 (sint l - sint r))"
proof -
  note b = sint_bounds [of l] sint_bounds [of r]
  have hi: "sint r < 0 \<Longrightarrow> sint (maxInt64 + r) = 9223372036854775807 + sint r"
    using b by (subst sint_add) (auto simp: inInt64_def)
  have lo: "0 < sint r \<Longrightarrow> sint (minInt64 + r) = - 9223372036854775808 + sint r"
    using b by (subst sint_add) (auto simp: inInt64_def)
  have "((r <s 0 \<and> maxInt64 + r <s l) \<or> (0 <s r \<and> l <s minInt64 + r))
      \<longleftrightarrow> \<not> inInt64 (sint l - sint r)"
    using b hi lo by (auto simp: word_sless_alt inInt64_def)
  then show ?thesis
    using sint_sub [of l r] by (simp add: exactInt64_def int64_eq_iff sint_word_of_int)
qed

text \<open>
  Multiplication is checked after the fact by dividing back. If the wrapped product divided
  by the right operand gives the left operand, the wrapped and the exact product differ by
  less than \<open>2^63\<close>; they agree modulo \<open>2^64\<close>, so they are equal.
\<close>

lemma sint_mult_cong: "\<exists>k. sint (l * r :: int64) = sint l * sint r + k * 2 ^ 64"
proof -
  have "(word_of_int (sint (l * r)) :: int64) = word_of_int (sint l * sint r)"
    by (simp add: of_int_mult)
  from arg_cong [OF this, of uint] have "sint (l * r) mod 2 ^ 64 = sint l * sint r mod 2 ^ 64"
    by (simp only: uint_word_of_int) simp
  then have "2 ^ 64 dvd sint (l * r) - sint l * sint r"
    by (simp add: mod_eq_dvd_iff)
  then obtain k where "sint (l * r) - sint l * sint r = 2 ^ 64 * k" by (rule dvdE)
  then show ?thesis by (intro exI [of _ k]) simp
qed

lemma sdiv_remainder: "(b :: int) \<noteq> 0 \<Longrightarrow> \<bar>a - a sdiv b * b\<bar> < \<bar>b\<bar>"
proof -
  assume b: "b \<noteq> 0"
  have "a - a sdiv b * b = sgn a * (\<bar>a\<bar> mod \<bar>b\<bar>)"
  proof -
    have "a = sgn a * (\<bar>a\<bar> div \<bar>b\<bar> * \<bar>b\<bar> + \<bar>a\<bar> mod \<bar>b\<bar>)" by (simp add: mult_sgn_abs)
    moreover have "a sdiv b * b = sgn a * (\<bar>a\<bar> div \<bar>b\<bar> * \<bar>b\<bar>)"
      by (simp add: signed_divide_int_def sgn_mult_abs mult_ac abs_sgn [of b])
    ultimately show ?thesis by (metis add_diff_cancel_left' distrib_left)
  qed
  then have "\<bar>a - a sdiv b * b\<bar> \<le> \<bar>a\<bar> mod \<bar>b\<bar>"
    using b by (simp add: abs_mult abs_sgn_eq)
  also have "\<dots> < \<bar>b\<bar>" using b by simp
  finally show ?thesis .
qed

lemma sdiv_mult_cancel: "(b :: int) \<noteq> 0 \<Longrightarrow> (a * b) sdiv b = a"
  by (simp add: signed_divide_int_def abs_mult sgn_mult mult.assoc mult_sgn_abs
      flip: abs_sgn [of b])

lemma sdiv_abs_le: "(b :: int) \<noteq> 0 \<Longrightarrow> \<bar>a sdiv b\<bar> \<le> \<bar>a\<bar> div \<bar>b\<bar>"
  by (simp add: signed_divide_int_def abs_mult abs_sgn_eq pos_imp_zdiv_nonneg_iff)

lemma quot64_sint:
  assumes "sint r \<noteq> 0" "\<not> (v = minInt64 \<and> r = -1)"
  shows "sint (quot64 v r) = sint v sdiv sint r"
proof -
  note b = sint_bounds [of v] sint_bounds [of r]
  have "inInt64 (sint v sdiv sint r)"
  proof (cases "\<bar>sint r\<bar> = 1")
    case True
    with assms b show ?thesis
      by (auto simp: inInt64_def int64_eq_iff abs_if split: if_splits)
  next
    case False
    with assms(1) have "2 \<le> \<bar>sint r\<bar>" by linarith
    then have "\<bar>sint v\<bar> div \<bar>sint r\<bar> \<le> \<bar>sint v\<bar> div 2" by (intro zdiv_mono2) auto
    also have "\<dots> \<le> 4611686018427387904" using b by linarith
    finally have "\<bar>sint v sdiv sint r\<bar> \<le> 4611686018427387904"
      using sdiv_abs_le [OF assms(1), of "sint v"] by linarith
    then show ?thesis by (simp add: inInt64_def abs_le_iff)
  qed
  then show ?thesis by (simp add: quot64_def sint_word_of_int)
qed

lemma CheckedInt64_mult: "CheckedInt64 OperatorMultiply l r = Ret (exactInt64 (sint l * sint r))"
proof -
  note b = sint_bounds [of l] sint_bounds [of r]
  consider (zero) "l = 0 \<or> r = 0"
    | (edge) "(l = minInt64 \<and> r = -1) \<or> (r = minInt64 \<and> l = -1)"
    | (gen) "l \<noteq> 0" "r \<noteq> 0" "\<not> (l = minInt64 \<and> r = -1)" "\<not> (r = minInt64 \<and> l = -1)"
    by blast
  then show ?thesis
  proof cases
    case zero
    then show ?thesis by (auto simp: exactInt64_def inInt64_def)
  next
    case edge
    have "(minInt64 :: int64) \<noteq> 0" by (simp add: minInt64_def maxInt64_def)
    with edge show ?thesis by (auto simp: exactInt64_def inInt64_def)
  next
    case gen
    have r0: "sint r \<noteq> 0" using gen(2) by (simp add: int64_eq_iff)
    have "\<not> (l * r = minInt64 \<and> r = -1)"
      using gen(3) by (auto simp: minInt64_def maxInt64_def)
    from quot64_sint [OF r0 this] have q: "sint (quot64 (l * r) r) = sint (l * r) sdiv sint r" .
    obtain k where k: "sint (l * r) = sint l * sint r + k * 2 ^ 64"
      using sint_mult_cong by blast
    have "quot64 (l * r) r = l \<longleftrightarrow> inInt64 (sint l * sint r)"
    proof
      assume "quot64 (l * r) r = l"
      with sdiv_remainder [OF r0, of "sint (l * r)"] q k
      have "\<bar>k * 2 ^ 64\<bar> < \<bar>sint r\<bar>" by simp
      then have "\<bar>k * 18446744073709551616\<bar> < 18446744073709551616" using b by simp
      then have "k = 0" by (simp add: abs_mult)
      with k show "inInt64 (sint l * sint r)" by (metis sint_inInt64 add_0_right mult_zero_left)
    next
      assume "inInt64 (sint l * sint r)"
      then show "quot64 (l * r) r = l"
        using q by (simp add: int64_eq_iff sint_mult sdiv_mult_cancel r0)
    qed
    with gen show ?thesis
      using sint_mult [of l r]
      by (auto simp: exactInt64_def int64_eq_iff [of "l * r"] sint_word_of_int Let_def)
  qed
qed

lemma CheckedNegateInt64_exact: "CheckedNegateInt64 v = exactInt64 (- sint v)"
proof -
  note b = sint_bounds [of v]
  have "v = minInt64 \<longleftrightarrow> \<not> inInt64 (- sint v)"
    using b by (auto simp: int64_eq_iff inInt64_def)
  moreover have "- v = word_of_int (- sint v)"
    by (simp add: of_int_minus)
  ultimately show ?thesis by (simp add: CheckedNegateInt64_def exactInt64_def)
qed

section \<open>binary64\<close>

type_synonym float64 = "64 word"

definition f64Sign :: "float64 \<Rightarrow> bool" where
  "f64Sign x \<longleftrightarrow> 2 ^ 63 \<le> uint x"

definition f64Exp :: "float64 \<Rightarrow> int" where
  "f64Exp x = uint x div 2 ^ 52 mod 2048"

definition f64Man :: "float64 \<Rightarrow> int" where
  "f64Man x = uint x mod 2 ^ 52"

definition f64IsNaN :: "float64 \<Rightarrow> bool" where
  "f64IsNaN x \<longleftrightarrow> f64Exp x = 2047 \<and> f64Man x \<noteq> 0"

definition f64IsInf :: "float64 \<Rightarrow> bool" where
  "f64IsInf x \<longleftrightarrow> f64Exp x = 2047 \<and> f64Man x = 0"

definition f64IsZero :: "float64 \<Rightarrow> bool" where
  "f64IsZero x \<longleftrightarrow> f64Exp x = 0 \<and> f64Man x = 0"

text \<open>
  The order of the non-NaN values: the magnitude bits, negated for a negative sign. Both
  zeros have key 0.
\<close>

definition f64Key :: "float64 \<Rightarrow> int" where
  "f64Key x = (if f64Sign x then - (uint x mod 2 ^ 63) else uint x mod 2 ^ 63)"

definition f64Eq :: "float64 \<Rightarrow> float64 \<Rightarrow> bool" where
  "f64Eq x y \<longleftrightarrow> \<not> f64IsNaN x \<and> \<not> f64IsNaN y \<and> f64Key x = f64Key y"

definition f64Less :: "float64 \<Rightarrow> float64 \<Rightarrow> bool" where
  "f64Less x y \<longleftrightarrow> \<not> f64IsNaN x \<and> \<not> f64IsNaN y \<and> f64Key x < f64Key y"

definition f64LessEq :: "float64 \<Rightarrow> float64 \<Rightarrow> bool" where
  "f64LessEq x y \<longleftrightarrow> \<not> f64IsNaN x \<and> \<not> f64IsNaN y \<and> f64Key x \<le> f64Key y"

text \<open>
  Division with round-half-even. A finite non-zero value is \<open>m * 2^e\<close>; the quotient is
  computed with at least 57 significant bits and a sticky remainder, then rounded once.
  NaN results are the canonical quiet NaN (Go does not specify the payload).
\<close>

fun bitLen :: "int \<Rightarrow> int" where
  "bitLen n = (if n \<le> 0 then 0 else 1 + bitLen (n div 2))"

declare bitLen.simps [simp del]

definition f64Significand :: "float64 \<Rightarrow> int" where
  "f64Significand x = (if f64Exp x = 0 then f64Man x else f64Man x + 2 ^ 52)"

definition f64Scale :: "float64 \<Rightarrow> int" where
  "f64Scale x = (if f64Exp x = 0 then - 1074 else f64Exp x - 1075)"

definition f64Pack :: "bool \<Rightarrow> int \<Rightarrow> float64" where
  "f64Pack negative magnitude = word_of_int ((if negative then 2 ^ 63 else 0) + magnitude)"

definition f64Round :: "bool \<Rightarrow> int \<Rightarrow> bool \<Rightarrow> int \<Rightarrow> float64" where
  "f64Round negative q sticky e =
     (let E = max (e + bitLen q - 53) (- 1074);
          shift = nat (E - e);
          whole = q div 2 ^ shift;
          rest = q mod 2 ^ shift;
          half = 2 ^ (shift - 1);
          up = rest > half \<or> (rest = half \<and> (sticky \<or> odd whole));
          m0 = (if up then whole + 1 else whole);
          m = (if m0 = 2 ^ 53 then 2 ^ 52 else m0);
          E' = (if m0 = 2 ^ 53 then E + 1 else E)
      in if m < 2 ^ 52 then f64Pack negative m
         else if E' + 1075 \<ge> 2047 then f64Pack negative (2047 * 2 ^ 52)
         else f64Pack negative ((E' + 1075) * 2 ^ 52 + (m - 2 ^ 52)))"

definition f64NaN :: float64 where
  "f64NaN = 0x7FF8000000000000"

definition f64Div :: "float64 \<Rightarrow> float64 \<Rightarrow> float64" where
  "f64Div x y =
     (let negative = (f64Sign x \<noteq> f64Sign y) in
      if f64IsNaN x \<or> f64IsNaN y then f64NaN
      else if f64IsInf x then (if f64IsInf y then f64NaN else f64Pack negative (2047 * 2 ^ 52))
      else if f64IsInf y then f64Pack negative 0
      else if f64IsZero y then (if f64IsZero x then f64NaN else f64Pack negative (2047 * 2 ^ 52))
      else if f64IsZero x then f64Pack negative 0
      else
        (let n = f64Significand x * 2 ^ 110;
             d = f64Significand y
         in f64Round negative (n div d) (n mod d \<noteq> 0) (f64Scale x - f64Scale y - 110)))"

definition CheckedDivideBinary64 :: "float64 \<Rightarrow> float64 \<Rightarrow> float64 \<times> arithmetic_error" where
  "CheckedDivideBinary64 left right =
     (if f64Eq right 0 then (0, ArithmeticDivisionByZero) else (f64Div left right, NoArithmeticError))"

text \<open>Known quotients: 1/3, 10/4, underflow to zero, overflow to infinity.\<close>

lemma f64_example_third: "f64Div 0x3FF0000000000000 0x4008000000000000 = 0x3FD5555555555555"
  by code_simp

lemma f64_example_exact: "f64Div 0x4024000000000000 0x4010000000000000 = 0x4004000000000000"
  by code_simp

lemma f64_example_underflow: "f64Div 1 0x4000000000000000 = 0"
  by code_simp

lemma f64_example_overflow: "f64Div 0x7FEFFFFFFFFFFFFF 0x3FE0000000000000 = 0x7FF0000000000000"
  by code_simp

lemma f64Eq_zero_iff: "f64Eq x 0 \<longleftrightarrow> f64IsZero x"
proof -
  define u where "u = uint x"
  have z: "\<not> f64IsNaN 0" "f64Key 0 = 0" by (simp_all add: f64IsNaN_def f64Key_def f64Exp_def f64Man_def)
  have "u mod 2 ^ 63 = 0 \<longleftrightarrow> u div 2 ^ 52 mod 2048 = 0 \<and> u mod 2 ^ 52 = 0"
  proof -
    have "u mod (2 ^ 52 * 2048) = 2 ^ 52 * (u div 2 ^ 52 mod 2048) + u mod 2 ^ 52"
      by (rule zmod_zmult2_eq) simp
    moreover have "0 \<le> u div 2 ^ 52 mod 2048" "0 \<le> u mod 2 ^ 52" by simp_all
    ultimately show ?thesis by auto
  qed
  then have "f64Key x = 0 \<longleftrightarrow> f64IsZero x"
    by (simp add: f64Key_def f64IsZero_def f64Exp_def f64Man_def u_def)
  moreover have "f64IsZero x \<Longrightarrow> \<not> f64IsNaN x"
    by (simp add: f64IsZero_def f64IsNaN_def)
  ultimately show ?thesis using z by (auto simp: f64Eq_def)
qed

text \<open>The only error is division by a zero of either sign; in particular not by NaN.\<close>

lemma CheckedDivideBinary64_error:
  "snd (CheckedDivideBinary64 l r) = ArithmeticDivisionByZero \<longleftrightarrow> f64IsZero r"
  "snd (CheckedDivideBinary64 l r) \<in> {NoArithmeticError, ArithmeticDivisionByZero}"
  by (auto simp: CheckedDivideBinary64_def f64Eq_zero_iff)

section \<open>Properties\<close>

text \<open>C35: the checked 64-bit operations return the exact result when it is in the range of
  \<open>int64\<close>, and the zero value with the overflow error exactly when it is not; the tests the
  code makes before or after the machine operation are neither too strict nor too weak.\<close>

theorem checked_int64_exact:
  "CheckedInt64 OperatorAdd l r = Ret (exactInt64 (sint l + sint r))
   \<and> CheckedInt64 OperatorSubtract l r = Ret (exactInt64 (sint l - sint r))
   \<and> CheckedInt64 OperatorMultiply l r = Ret (exactInt64 (sint l * sint r))
   \<and> CheckedNegateInt64 l = exactInt64 (- sint l)"
  by (simp only: CheckedInt64_add CheckedInt64_sub CheckedInt64_mult CheckedNegateInt64_exact)

text \<open>checked division reports an error exactly for a divisor that is a zero of either sign
  (not for a NaN or a subnormal divisor); the error is division by zero and the value is then the
  positive zero.\<close>

theorem checked_divide_error:
  "CheckedDivideBinary64 l r =
     (if f64Exp r = 0 \<and> f64Man r = 0 then (0, ArithmeticDivisionByZero)
      else (f64Div l r, NoArithmeticError))"
  by (simp add: CheckedDivideBinary64_def f64Eq_zero_iff f64IsZero_def)

end
