(* ===== verification/CoreTypes.thy ===== *)
theory CoreTypes
  imports Text Numeric
begin

text \<open>
  Core IR types: the type structs of coreir/core.go with \<open>TypeEqual\<close>,
  \<open>validateType\<close> and their helpers from coreir/semantics.go and coreir/enums.go. A Go
  struct is a datatype with one constructor and its fields as selectors, a pointer is an
  option, a string-typed enumeration a datatype with a constructor for any other string.
\<close>

section \<open>Type structs\<close>

datatype primitive_type =
  PrimitiveNone | PrimitiveString | PrimitiveInt | PrimitiveBool | PrimitiveFloat | PrimitiveOther string

datatype type_kind =
    TypePrimitive | TypeNumeric | TypeResult | TypeArithmeticError | TypeRecord | TypeEnum
  | TypeOptional | TypeList | TypeNamed | TypeApplied | TypeUnset | TypeOther string

datatype numeric_representation = NumericInteger | NumericBinaryFloat | NumericOther string

record numeric_type =
  ntRepresentation :: numeric_representation
  ntBits :: int
  ntSigned :: bool

datatype semantic_type =
  SemanticType (stKind: type_kind) (stPrimitive: primitive_type) (stPackage: string)
    (stPath: string) (stName: string) (stArguments: "semantic_type list")

record callable_identity =
  ciParameters :: "semantic_type list"
  ciReturns :: semantic_type

record semantic_identity =
  siPackage :: string
  siPath :: string
  siCallable :: "callable_identity option"

record enum_member =
  emName :: string
  emTag :: string
  emIdentity :: semantic_identity

text \<open>\<open>ResultType{Success, Failure}\<close> is a pair; the other one-field structs are their field.\<close>

datatype core_type =
  CoreType (tKind: type_kind) (tPrimitive: primitive_type) (tNumeric: "numeric_type option")
    (tResult: "(core_type \<times> core_type) option") (tOptional: "core_type option")
    (tList: "core_type option") (tRecord: "record_field list option")
    (tEnum: "enum_member list option") (tIdentity: "semantic_identity option")
    (tName: string) (tArguments: "core_type list")
and record_field =
  RecordField (rfIdentity: semantic_identity) (rfName: string) (rfType: core_type)

text \<open>\<open>Type{}\<close> and the types the package builds.\<close>

definition zeroType :: core_type where
  "zeroType = CoreType TypeUnset PrimitiveNone None None None None None None None [] []"

definition primitiveOf :: "primitive_type \<Rightarrow> core_type" where
  "primitiveOf p = CoreType TypePrimitive p None None None None None None None [] []"

abbreviation textType :: core_type where "textType \<equiv> primitiveOf PrimitiveString"
abbreviation boolType :: core_type where "boolType \<equiv> primitiveOf PrimitiveBool"

definition SignedInteger :: "int \<Rightarrow> core_type" where
  "SignedInteger bits =
     CoreType TypeNumeric PrimitiveNone
       (Some \<lparr>ntRepresentation = NumericInteger, ntBits = bits, ntSigned = True\<rparr>)
       None None None None None None [] []"

definition BinaryFloat :: "int \<Rightarrow> core_type" where
  "BinaryFloat bits =
     CoreType TypeNumeric PrimitiveNone
       (Some \<lparr>ntRepresentation = NumericBinaryFloat, ntBits = bits, ntSigned = False\<rparr>)
       None None None None None None [] []"

definition ArithmeticErrorType :: core_type where
  "ArithmeticErrorType =
     CoreType TypeArithmeticError PrimitiveNone None None None None None None None [] []"

definition resultOf :: "core_type \<Rightarrow> core_type \<Rightarrow> core_type" where
  "resultOf s f = CoreType TypeResult PrimitiveNone None (Some (s, f)) None None None None None [] []"

definition ArithmeticResult :: "core_type \<Rightarrow> core_type" where
  "ArithmeticResult success = resultOf success ArithmeticErrorType"

section \<open>TypeEqual\<close>

definition memberEqual :: "enum_member \<Rightarrow> enum_member \<Rightarrow> bool" where
  "memberEqual x y \<longleftrightarrow>
     \<not> (emName x \<noteq> emName y \<or> emTag x \<noteq> emTag y
        \<or> siPackage (emIdentity x) \<noteq> siPackage (emIdentity y)
        \<or> siPath (emIdentity x) \<noteq> siPath (emIdentity y)
        \<or> siCallable (emIdentity x) \<noteq> None \<or> siCallable (emIdentity y) \<noteq> None)"

definition enumRepresentationEqual :: "enum_member list option \<Rightarrow> enum_member list option \<Rightarrow> bool" where
  "enumRepresentationEqual a b =
     (case (a, b) of
        (Some xs, Some ys) \<Rightarrow> list_all2 memberEqual xs ys
      | _ \<Rightarrow> a = None \<and> b = None)"

definition identityEqual :: "semantic_identity option \<Rightarrow> semantic_identity option \<Rightarrow> bool" where
  "identityEqual a b =
     (case (a, b) of
        (Some x, Some y) \<Rightarrow> siPackage x = siPackage y \<and> siPath x = siPath y
      | _ \<Rightarrow> a = None \<and> b = None)"

function (sequential) TypeEqual :: "core_type \<Rightarrow> core_type \<Rightarrow> bool"
  and optTypeEqual :: "core_type option \<Rightarrow> core_type option \<Rightarrow> bool"
  and optResultEqual :: "(core_type \<times> core_type) option \<Rightarrow> (core_type \<times> core_type) option \<Rightarrow> bool"
  and optFieldsEqual :: "record_field list option \<Rightarrow> record_field list option \<Rightarrow> bool"
  and fieldsEqual :: "record_field list \<Rightarrow> record_field list \<Rightarrow> bool"
  and typesEqual :: "core_type list \<Rightarrow> core_type list \<Rightarrow> bool"
where
  "TypeEqual (CoreType k p n r opt l rec e i nm args) (CoreType k' p' n' r' opt' l' rec' e' i' nm' args') =
     (enumRepresentationEqual e e' \<and> k = k' \<and> p = p' \<and> nm = nm' \<and> n = n'
      \<and> optResultEqual r r' \<and> optTypeEqual opt opt' \<and> optTypeEqual l l'
      \<and> optFieldsEqual rec rec' \<and> identityEqual i i' \<and> typesEqual args args')"
| "optTypeEqual None None = True"
| "optTypeEqual (Some a) (Some b) = TypeEqual a b"
| "optTypeEqual _ _ = False"
| "optResultEqual None None = True"
| "optResultEqual (Some (s, f)) (Some (s', f')) = (TypeEqual s s' \<and> TypeEqual f f')"
| "optResultEqual _ _ = False"
| "optFieldsEqual None None = True"
| "optFieldsEqual (Some xs) (Some ys) = fieldsEqual xs ys"
| "optFieldsEqual _ _ = False"
| "fieldsEqual [] [] = True"
| "fieldsEqual (RecordField i nm t # xs) (RecordField i' nm' t' # ys) =
     (nm = nm' \<and> siPackage i = siPackage i' \<and> siPath i = siPath i' \<and> TypeEqual t t'
      \<and> fieldsEqual xs ys)"
| "fieldsEqual _ _ = False"
| "typesEqual [] [] = True"
| "typesEqual (a # as) (b # bs) = (TypeEqual a b \<and> typesEqual as bs)"
| "typesEqual _ _ = False"
  by pat_completeness auto
termination
  by (relation "measure (\<lambda>x. case x of
       Inl (Inl (a, _)) \<Rightarrow> size a
     | Inl (Inr (Inl (a, _))) \<Rightarrow> size_option size a
     | Inl (Inr (Inr (a, _))) \<Rightarrow> size_option (size_prod size size) a
     | Inr (Inl (a, _)) \<Rightarrow> size_option (size_list size) a
     | Inr (Inr (Inl (a, _))) \<Rightarrow> size_list size a
     | Inr (Inr (Inr (a, _))) \<Rightarrow> size_list size a)") simp_all

section \<open>Enum types (enums.go)\<close>

fun identifierRunes :: "bool \<Rightarrow> nat list \<Rightarrow> bool" where
  "identifierRunes first [] = True"
| "identifierRunes first (r # rs) =
     (\<not> (r \<noteq> 0x5F \<and> \<not> (0x41 \<le> r \<and> r \<le> 0x5A) \<and> \<not> (0x61 \<le> r \<and> r \<le> 0x7A)
         \<and> \<not> (\<not> first \<and> 0x30 \<le> r \<and> r \<le> 0x39))
      \<and> identifierRunes False rs)"

definition enumIdentifier :: "string \<Rightarrow> bool" where
  "enumIdentifier name \<longleftrightarrow> name \<noteq> [] \<and> identifierRunes True (runes name)"

text \<open>Go's \<open>>=\<close> on strings compares bytes.\<close>

definition stringGe :: "string \<Rightarrow> string \<Rightarrow> bool" where
  "stringGe a b \<longleftrightarrow> compareLists (map byte a) (map byte b) \<ge> 0"

definition hasPrefix :: "string \<Rightarrow> string \<Rightarrow> bool" where
  "hasPrefix s p = prefix p s"

definition trimPrefix :: "string \<Rightarrow> string \<Rightarrow> string" where
  "trimPrefix s p = (if prefix p s then drop (length p) s else s)"

definition enumMemberInvalid :: "semantic_identity \<Rightarrow> enum_member \<Rightarrow> bool" where
  "enumMemberInvalid owner m \<longleftrightarrow>
     (let path = siPath (emIdentity m); pre = siPath owner @ ''.'' in
      \<not> enumIdentifier (emName m) \<or> emTag m = [] \<or> ValidateText (emTag m) \<noteq> Ret ()
      \<or> siPackage (emIdentity m) \<noteq> siPackage owner
      \<or> (\<not> hasPrefix path pre \<or> CHR ''.'' \<in> set (trimPrefix path pre) \<or> path = pre)
      \<or> siCallable (emIdentity m) \<noteq> None)"

text \<open>The member loop; \<open>prev\<close> is the tag of the member before, if any.\<close>

fun validateEnumMembers ::
  "semantic_identity \<Rightarrow> string option \<Rightarrow> string list \<Rightarrow> string list \<Rightarrow> enum_member list \<Rightarrow> unit res"
where
  "validateEnumMembers owner prev names identities [] = Ret ()"
| "validateEnumMembers owner prev names identities (m # ms) =
     andThen (rejectIf (enumMemberInvalid owner m) ''enum member has invalid identity/name/tag'')
       (andThen (rejectIf (case prev of None \<Rightarrow> False | Some tag \<Rightarrow> stringGe tag (emTag m))
           ''enum members require unique tags in canonical tag order'')
         (andThen (rejectIf (emName m \<in> set names \<or> siPath (emIdentity m) \<in> set identities)
             ''enum repeats a member name or identity'')
           (validateEnumMembers owner (Some (emTag m)) (emName m # names)
             (siPath (emIdentity m) # identities) ms)))"

definition validateEnumType :: "core_type \<Rightarrow> unit res" where
  "validateEnumType t =
     (case (tEnum t, tIdentity t) of
        (Some (m # ms), Some owner) \<Rightarrow>
          andThen (rejectIf (siPackage owner = [] \<or> siPath owner = [] \<or> siCallable owner \<noteq> None
              \<or> \<not> enumIdentifier (tName t))
            ''enum requires a nominal identity and closed member schema'')
          (andThen (rejectIf (tPrimitive t \<noteq> PrimitiveNone \<or> tNumeric t \<noteq> None \<or> tRecord t \<noteq> None
              \<or> tOptional t \<noteq> None \<or> tResult t \<noteq> None \<or> tList t \<noteq> None \<or> tArguments t \<noteq> [])
            ''enum type carries a non-enum representation'')
          (validateEnumMembers owner None [] [] (m # ms)))
      | _ \<Rightarrow> Err ''enum requires a nominal identity and closed member schema'')"

definition ValidateEnumTag :: "core_type \<Rightarrow> string \<Rightarrow> unit res" where
  "ValidateEnumTag t tag =
     andThen (rejectIf (tKind t \<noteq> TypeEnum) ''enum value requires enum type'')
       (andThen (validateEnumType t)
         (rejectIf (\<not> list_ex (\<lambda>m. emTag m = tag) (case tEnum t of None \<Rightarrow> [] | Some ms \<Rightarrow> ms))
           ''unknown tag for enum''))"

section \<open>Type predicates (semantics.go)\<close>

definition isArithmeticResultType :: "core_type \<Rightarrow> bool" where
  "isArithmeticResultType v \<longleftrightarrow> tKind v = TypeResult \<and>
     (case tResult v of None \<Rightarrow> False
      | Some (s, f) \<Rightarrow> tKind f = TypeArithmeticError
          \<and> (TypeEqual s (SignedInteger 64) \<or> TypeEqual s (BinaryFloat 64)))"

definition isSnapshotResultType :: "core_type \<Rightarrow> bool" where
  "isSnapshotResultType v \<longleftrightarrow> tKind v = TypeResult \<and>
     (case tResult v of None \<Rightarrow> False
      | Some (s, f) \<Rightarrow> tKind s = TypeList
          \<and> (case tList s of None \<Rightarrow> False | Some el \<Rightarrow> tKind el = TypeRecord)
          \<and> tKind f = TypePrimitive \<and> tPrimitive f = PrimitiveString)"

definition isTextResultType :: "core_type \<Rightarrow> bool" where
  "isTextResultType v \<longleftrightarrow> tKind v = TypeResult \<and>
     (case tResult v of None \<Rightarrow> False
      | Some (s, f) \<Rightarrow> TypeEqual s textType \<and> TypeEqual f textType)"

definition isBoundedValueResultType :: "core_type \<Rightarrow> bool" where
  "isBoundedValueResultType v \<longleftrightarrow> isSnapshotResultType v \<or> isTextResultType v"

definition numericSupported :: "numeric_type \<Rightarrow> bool" where
  "numericSupported n \<longleftrightarrow>
     (ntRepresentation n = NumericInteger \<and> ntBits n = 64 \<and> ntSigned n)
     \<or> (ntRepresentation n = NumericBinaryFloat \<and> ntBits n = 64 \<and> \<not> ntSigned n)"

definition isPrimitiveOptionalValueType :: "core_type \<Rightarrow> bool" where
  "isPrimitiveOptionalValueType v =
     (if tKind v = TypePrimitive then
        (tPrimitive v = PrimitiveString \<or> tPrimitive v = PrimitiveBool) \<and> tNumeric v = None
        \<and> tResult v = None \<and> tOptional v = None \<and> tRecord v = None \<and> tIdentity v = None
        \<and> tName v = [] \<and> tArguments v = []
      else if tKind v \<noteq> TypeNumeric \<or> tNumeric v = None \<or> tPrimitive v \<noteq> PrimitiveNone
        \<or> tResult v \<noteq> None \<or> tOptional v \<noteq> None \<or> tRecord v \<noteq> None \<or> tIdentity v \<noteq> None
        \<or> tName v \<noteq> [] \<or> tArguments v \<noteq> [] then False
      else numericSupported (the (tNumeric v)))"

definition isPrimitiveRecordFieldType :: "core_type \<Rightarrow> bool" where
  "isPrimitiveRecordFieldType v =
     (if tKind v = TypePrimitive then tPrimitive v = PrimitiveString \<or> tPrimitive v = PrimitiveBool
      else case tNumeric v of None \<Rightarrow> False
        | Some n \<Rightarrow> tKind v = TypeNumeric \<and> numericSupported n)"

definition BuiltinPackageID :: string where "BuiltinPackageID = ''pipelang''"
definition ListSemanticPath :: string where "ListSemanticPath = ''list''"

section \<open>validateType\<close>

text \<open>
  The case analysis follows the code: the checks common to all kinds, then result, list,
  optional, scalar kinds and records. \<open>validateFields\<close> is the field loop with its two
  sets of names and identities seen so far.
\<close>

definition supportedKind :: "type_kind \<Rightarrow> bool" where
  "supportedKind k \<longleftrightarrow> k \<in> {TypePrimitive, TypeNumeric, TypeArithmeticError, TypeResult,
     TypeOptional, TypeList, TypeRecord}"

definition carriesForeign :: "core_type \<Rightarrow> bool" where
  "carriesForeign v \<longleftrightarrow>
     (tKind v \<noteq> TypePrimitive \<and> tPrimitive v \<noteq> PrimitiveNone)
     \<or> (tKind v \<noteq> TypeNumeric \<and> tNumeric v \<noteq> None)
     \<or> (tKind v \<noteq> TypeRecord \<and> tRecord v \<noteq> None)
     \<or> (tKind v \<noteq> TypeRecord \<and> tKind v \<noteq> TypeList \<and> (tIdentity v \<noteq> None \<or> tName v \<noteq> []))
     \<or> tArguments v \<noteq> []"

definition builtinListIdentity :: "core_type \<Rightarrow> bool" where
  "builtinListIdentity v \<longleftrightarrow>
     (case tIdentity v of None \<Rightarrow> False
      | Some i \<Rightarrow> siPackage i = BuiltinPackageID \<and> siPath i = ListSemanticPath
          \<and> siCallable i = None \<and> tName v = ''List'')"

function (sequential) validateType :: "core_type \<Rightarrow> unit res"
  and validateFields ::
    "semantic_identity \<Rightarrow> string list \<Rightarrow> string list \<Rightarrow> record_field list \<Rightarrow> unit res"
where
  "validateType (CoreType k p n r opt l rec e i nm args) =
     (let value = CoreType k p n r opt l rec e i nm args in
      if k = TypeEnum then validateEnumType value
      else if e \<noteq> None then Err ''non-enum type carries enum representation''
      else if \<not> supportedKind k then Err ''unsupported Core type kind''
      else if carriesForeign value then Err ''type carries a foreign representation''
      else if k \<noteq> TypeResult \<and> r \<noteq> None then Err ''non-result type carries a result representation''
      else if k = TypeResult then
        (case r of
           None \<Rightarrow> Err ''result type has no success/failure shape''
         | Some (success, failure) \<Rightarrow>
             if \<not> isArithmeticResultType value \<and> \<not> isBoundedValueResultType value
             then Err ''result type is outside the checked-arithmetic and bounded value envelopes''
             else andThen (validateType success) (andThen (validateType failure)
               (rejectIf (p \<noteq> PrimitiveNone \<or> n \<noteq> None \<or> opt \<noteq> None \<or> l \<noteq> None \<or> rec \<noteq> None
                   \<or> i \<noteq> None \<or> nm \<noteq> [] \<or> args \<noteq> [])
                 ''result type carries a non-result representation'')))
      else if k \<noteq> TypeList \<and> l \<noteq> None then Err ''non-list type carries a list representation''
      else if k = TypeList then
        (case l of
           None \<Rightarrow> Err ''list type requires one identified primitive-record element type''
         | Some element \<Rightarrow>
             if tKind element \<noteq> TypeRecord \<or> \<not> builtinListIdentity value
             then Err ''list type requires one identified primitive-record element type''
             else andThen (validateType element)
               (rejectIf (p \<noteq> PrimitiveNone \<or> n \<noteq> None \<or> r \<noteq> None \<or> opt \<noteq> None \<or> rec \<noteq> None
                   \<or> args \<noteq> [])
                 ''list type carries a non-list representation''))
      else if k \<noteq> TypeOptional \<and> opt \<noteq> None
      then Err ''non-optional type carries an optional representation''
      else if k = TypeOptional then
        (case opt of
           None \<Rightarrow> Err ''optional type requires one primitive or primitive-record value type''
         | Some payload \<Rightarrow>
             if \<not> (isPrimitiveOptionalValueType payload
                   \<or> (tKind payload = TypeRecord \<and> validateType payload = Ret ()))
             then Err ''optional type requires one primitive or primitive-record value type''
             else andThen (validateType payload)
               (rejectIf (p \<noteq> PrimitiveNone \<or> n \<noteq> None \<or> r \<noteq> None \<or> l \<noteq> None \<or> rec \<noteq> None
                   \<or> i \<noteq> None \<or> nm \<noteq> [] \<or> args \<noteq> [])
                 ''optional type carries a non-optional representation''))
      else if k = TypePrimitive then
        rejectIf (p \<noteq> PrimitiveString \<and> p \<noteq> PrimitiveBool) ''unsupported Core primitive''
      else if k = TypeNumeric then
        (case n of
           None \<Rightarrow> Err ''numeric type has no representation''
         | Some numeric \<Rightarrow>
             rejectIf (\<not> numericSupported numeric) ''unsupported Core numeric representation'')
      else if k = TypeArithmeticError then Ret ()
      else
        (case (rec, i) of
           (Some (f # fs), Some owner) \<Rightarrow>
             if siPackage owner = [] \<or> siPath owner = [] \<or> siCallable owner \<noteq> None \<or> nm = []
             then Err ''record type has an invalid identity or field schema''
             else if p \<noteq> PrimitiveNone \<or> n \<noteq> None \<or> r \<noteq> None \<or> opt \<noteq> None \<or> l \<noteq> None \<or> args \<noteq> []
             then Err ''record type carries a non-record representation''
             else validateFields owner [] [] (f # fs)
         | _ \<Rightarrow> Err ''record type has an invalid identity or field schema''))"
| "validateFields owner seenNames seenIdentities [] = Ret ()"
| "validateFields owner seenNames seenIdentities (RecordField fi name ty # fs) =
     (let identity = siPackage fi @ [CHR 0x00] @ siPath fi in
      andThen (rejectIf (name = [] \<or> siPackage fi = [] \<or> siPath fi = [] \<or> siCallable fi \<noteq> None)
          ''record field has an invalid identity'')
      (andThen (rejectIf (siPackage fi \<noteq> siPackage owner \<or> \<not> hasPrefix (siPath fi) (siPath owner @ ''.''))
          ''record field identity is outside its record identity'')
      (andThen (rejectIf (name \<in> set seenNames) ''record field repeats name'')
      (andThen (rejectIf (identity \<in> set seenIdentities) ''record field repeats semantic identity'')
      (andThen (rejectIf (\<not> isPrimitiveRecordFieldType ty) ''record field has non-primitive type'')
      (andThen (validateType ty)
        (validateFields owner (name # seenNames) (identity # seenIdentities) fs)))))))"
  by pat_completeness auto
termination
  by (relation "measure (\<lambda>x. case x of Inl t \<Rightarrow> size t | Inr (_, _, _, fs) \<Rightarrow> size_list size fs)")
    (simp_all, (hypsubst, simp)+)

definition isOptionalValueType :: "core_type \<Rightarrow> bool" where
  "isOptionalValueType v \<longleftrightarrow>
     isPrimitiveOptionalValueType v \<or> (tKind v = TypeRecord \<and> validateType v = Ret ())"

definition isGeneralHelperCarrierType :: "core_type \<Rightarrow> bool" where
  "isGeneralHelperCarrierType v \<longleftrightarrow>
     (case (tKind v, tOptional v) of
        (TypeOptional, Some payload) \<Rightarrow> isOptionalValueType payload
      | _ \<Rightarrow> isBoundedValueResultType v)"

definition isLiteralType :: "core_type \<Rightarrow> bool" where
  "isLiteralType v \<longleftrightarrow>
     (if tKind v = TypeNumeric \<and> tNumeric v \<noteq> None
      then TypeEqual v (SignedInteger 64) \<or> TypeEqual v (BinaryFloat 64)
      else tKind v = TypePrimitive
        \<and> (tPrimitive v = PrimitiveString \<or> tPrimitive v = PrimitiveBool))"

definition ArithmeticResultType :: "operator \<Rightarrow> core_type \<Rightarrow> core_type option \<Rightarrow> core_type res" where
  "ArithmeticResultType operator left right =
     (case operator of
        OperatorNegate \<Rightarrow>
          if right \<noteq> None \<or> \<not> TypeEqual left (SignedInteger 64)
          then Err ''operator requires one signed 64-bit integer operand''
          else Ret (ArithmeticResult (SignedInteger 64))
      | OperatorDivide \<Rightarrow>
          if right = None \<or> \<not> TypeEqual left (BinaryFloat 64) \<or> \<not> TypeEqual (the right) (BinaryFloat 64)
          then Err ''operator requires two binary64 operands''
          else Ret (ArithmeticResult (BinaryFloat 64))
      | op \<Rightarrow>
          if op \<in> {OperatorAdd, OperatorSubtract, OperatorMultiply} then
            (if right = None \<or> \<not> TypeEqual left (SignedInteger 64)
                \<or> \<not> TypeEqual (the right) (SignedInteger 64)
             then Err ''operator requires two signed 64-bit integer operands''
             else Ret (ArithmeticResult (SignedInteger 64)))
          else Err ''operator is not in the checked arithmetic contract'')"

section \<open>TypeEqual is equality on validated types\<close>

text \<open>
  \<open>TypeEqual\<close> ignores the callable part of identities. Validation refuses that part
  everywhere, so on validated types the code's comparison is equality of the structs.
\<close>

function (sequential) callFree :: "core_type \<Rightarrow> bool"
  and callFreeFields :: "record_field list \<Rightarrow> bool"
  and callFreeTypes :: "core_type list \<Rightarrow> bool"
where
  "callFree (CoreType k p n r opt l rec e i nm args) \<longleftrightarrow>
     (case e of None \<Rightarrow> True | Some ms \<Rightarrow> \<forall>m \<in> set ms. siCallable (emIdentity m) = None)
     \<and> (case i of None \<Rightarrow> True | Some d \<Rightarrow> siCallable d = None)
     \<and> (case r of None \<Rightarrow> True | Some (s, f) \<Rightarrow> callFree s \<and> callFree f)
     \<and> (case opt of None \<Rightarrow> True | Some t \<Rightarrow> callFree t)
     \<and> (case l of None \<Rightarrow> True | Some t \<Rightarrow> callFree t)
     \<and> (case rec of None \<Rightarrow> True | Some fs \<Rightarrow> callFreeFields fs)
     \<and> callFreeTypes args"
| "callFreeFields [] = True"
| "callFreeFields (RecordField d nm t # fs) \<longleftrightarrow> siCallable d = None \<and> callFree t \<and> callFreeFields fs"
| "callFreeTypes [] = True"
| "callFreeTypes (t # ts) \<longleftrightarrow> callFree t \<and> callFreeTypes ts"
  by pat_completeness auto
termination
  by (relation "measure (\<lambda>x. case x of Inl t \<Rightarrow> size t
      | Inr (Inl fs) \<Rightarrow> size_list size fs | Inr (Inr ts) \<Rightarrow> size_list size ts)") auto

lemma callFree_iff:
  "callFree (CoreType k p n r opt l rec e i nm args) \<longleftrightarrow>
     (\<forall>ms. e = Some ms \<longrightarrow> (\<forall>m \<in> set ms. siCallable (emIdentity m) = None))
     \<and> (case i of None \<Rightarrow> True | Some d \<Rightarrow> siCallable d = None)
     \<and> (\<forall>s f. r = Some (s, f) \<longrightarrow> callFree s \<and> callFree f)
     \<and> (\<forall>t. opt = Some t \<longrightarrow> callFree t) \<and> (\<forall>t. l = Some t \<longrightarrow> callFree t)
     \<and> (\<forall>fs. rec = Some fs \<longrightarrow> callFreeFields fs) \<and> callFreeTypes args"
  by (cases e; cases r; cases opt; cases l; cases rec) auto

lemma identity_eqI:
  "siPackage d = siPackage d' \<Longrightarrow> siPath d = siPath d' \<Longrightarrow> siCallable d = siCallable d' \<Longrightarrow>
   d = (d' :: semantic_identity)"
  by simp

lemma member_eqI:
  assumes "memberEqual x y" shows "x = y"
  using assms by (auto simp: memberEqual_def intro!: enum_member.equality identity_eqI)

lemma members_eqI: "list_all2 memberEqual xs ys \<Longrightarrow> xs = ys"
  by (induction rule: list_all2_induct) (auto dest: member_eqI)

lemma enumRepresentationEqual_eq: "enumRepresentationEqual a b \<Longrightarrow> a = b"
  by (auto simp: enumRepresentationEqual_def split: option.splits dest: members_eqI)

lemma identityEqual_eq:
  "identityEqual a b \<Longrightarrow>
   (case a of None \<Rightarrow> True | Some d \<Rightarrow> siCallable d = None) \<Longrightarrow>
   (case b of None \<Rightarrow> True | Some d \<Rightarrow> siCallable d = None) \<Longrightarrow> a = b"
  by (auto simp: identityEqual_def split: option.splits intro!: identity_eqI)

lemma TypeEqual_eqD:
  "TypeEqual t u \<Longrightarrow> callFree t \<Longrightarrow> callFree u \<Longrightarrow> t = u"
  "optTypeEqual a b \<Longrightarrow> (\<forall>x. a = Some x \<longrightarrow> callFree x) \<Longrightarrow> (\<forall>x. b = Some x \<longrightarrow> callFree x) \<Longrightarrow> a = b"
  "optResultEqual r r' \<Longrightarrow> (\<forall>s f. r = Some (s, f) \<longrightarrow> callFree s \<and> callFree f) \<Longrightarrow>
     (\<forall>s f. r' = Some (s, f) \<longrightarrow> callFree s \<and> callFree f) \<Longrightarrow> r = r'"
  "optFieldsEqual fo fo' \<Longrightarrow> (\<forall>x. fo = Some x \<longrightarrow> callFreeFields x) \<Longrightarrow>
     (\<forall>x. fo' = Some x \<longrightarrow> callFreeFields x) \<Longrightarrow> fo = fo'"
  "fieldsEqual fs gs \<Longrightarrow> callFreeFields fs \<Longrightarrow> callFreeFields gs \<Longrightarrow> fs = gs"
  "typesEqual ts us \<Longrightarrow> callFreeTypes ts \<Longrightarrow> callFreeTypes us \<Longrightarrow> ts = us"
proof (induction t u and a b and r r' and fo fo' and fs gs and ts us
    rule: TypeEqual_optTypeEqual_optResultEqual_optFieldsEqual_fieldsEqual_typesEqual.induct)
  case (1 k p n r opt l rec e i nm args k' p' n' r' opt' l' rec' e' i' nm' args')
  note prems = 1(6-8) [unfolded TypeEqual.simps callFree_iff]
  have "e = e'" using prems(1) enumRepresentationEqual_eq by blast
  moreover have "i = i'" using prems by (intro identityEqual_eq) blast+
  moreover have "r = r'" using prems by (intro 1(1)) blast+
  moreover have "opt = opt'" using prems by (intro 1(2)) blast+
  moreover have "l = l'" using prems by (intro 1(3)) blast+
  moreover have "rec = rec'" using prems by (intro 1(4)) blast+
  moreover have "args = args'" using prems by (intro 1(5)) blast+
  ultimately show ?case using prems(1) by blast
qed (auto intro: identity_eqI)

lemma enumRepresentationEqual_refl:
  "(case e of None \<Rightarrow> True | Some ms \<Rightarrow> \<forall>m \<in> set ms. siCallable (emIdentity m) = None) \<Longrightarrow>
   enumRepresentationEqual e e"
  by (auto simp: enumRepresentationEqual_def memberEqual_def split: option.splits
      intro!: list_all2_refl_on)

lemma TypeEqual_refl_callFree:
  "callFree t \<Longrightarrow> TypeEqual t t"
  "callFreeFields fs \<Longrightarrow> fieldsEqual fs fs"
  "callFreeTypes ts \<Longrightarrow> typesEqual ts ts"
proof (induction t and fs and ts rule: callFree_callFreeFields_callFreeTypes.induct)
  case (1 k p n r opt l rec e i nm args)
  have "enumRepresentationEqual e e"
    using 1(7) by (intro enumRepresentationEqual_refl) simp
  moreover have "identityEqual i i" by (simp add: identityEqual_def split: option.splits)
  moreover have "optResultEqual r r" using 1 by (cases r) auto
  moreover have "optTypeEqual opt opt" using 1 by (cases opt) auto
  moreover have "optTypeEqual l l" using 1 by (cases l) auto
  moreover have "optFieldsEqual rec rec" using 1 by (cases rec) auto
  moreover have "typesEqual args args" using 1 by auto
  ultimately show ?case by simp
qed auto

text \<open>Validation refuses every callable.\<close>

lemma validateEnumMembers_callFree:
  "validateEnumMembers owner prev names ids ms = Ret () \<Longrightarrow>
   m \<in> set ms \<Longrightarrow> siCallable (emIdentity m) = None"
  by (induction ms arbitrary: prev names ids) (auto simp: enumMemberInvalid_def Let_def)

lemma validateEnumType_shape:
  assumes "validateEnumType t = Ret ()"
  shows "\<exists>ms owner. tEnum t = Some ms \<and> ms \<noteq> [] \<and> tIdentity t = Some owner \<and> siCallable owner = None
    \<and> (\<forall>m \<in> set ms. siCallable (emIdentity m) = None)
    \<and> tPrimitive t = PrimitiveNone \<and> tNumeric t = None \<and> tRecord t = None \<and> tOptional t = None
    \<and> tResult t = None \<and> tList t = None \<and> tArguments t = []"
proof -
  from assms obtain m ms owner where s: "tEnum t = Some (m # ms)" "tIdentity t = Some owner"
    by (auto simp: validateEnumType_def split: option.splits list.splits)
  with assms have "validateEnumMembers owner None [] [] (m # ms) = Ret ()"
    by (auto simp: validateEnumType_def)
  with validateEnumMembers_callFree have "\<forall>x \<in> set (m # ms). siCallable (emIdentity x) = None"
    by blast
  with s assms show ?thesis by (cases "tResult t") (auto simp: validateEnumType_def)
qed

text \<open>Inversion of validation, one lemma for each kind with a payload.\<close>

lemma validateType_common:
  assumes "validateType t = Ret ()" "tKind t \<noteq> TypeEnum"
  shows "tEnum t = None" "supportedKind (tKind t)" "\<not> carriesForeign t" "tArguments t = []"
    "tKind t \<noteq> TypeResult \<Longrightarrow> tResult t = None"
    "tKind t \<noteq> TypeResult \<Longrightarrow> tKind t \<noteq> TypeList \<Longrightarrow> tList t = None"
    "tKind t \<noteq> TypeResult \<Longrightarrow> tKind t \<noteq> TypeList \<Longrightarrow> tKind t \<noteq> TypeOptional \<Longrightarrow> tOptional t = None"
proof -
  obtain k p n r opt l rec e i nm args where t: "t = CoreType k p n r opt l rec e i nm args"
    by (cases t)
  show "tEnum t = None"
    using assms unfolding t by (cases e) (simp_all add: Let_def)
  then show "supportedKind (tKind t)"
    using assms unfolding t by (cases "supportedKind k") (simp_all add: Let_def)
  then show cf: "\<not> carriesForeign t"
    using assms \<open>tEnum t = None\<close> unfolding t
    by (cases "carriesForeign (CoreType k p n r opt l rec e i nm args)") (simp_all add: Let_def)
  then show "tArguments t = []" by (simp add: carriesForeign_def)
  note base = assms cf \<open>tEnum t = None\<close> \<open>supportedKind (tKind t)\<close>
  show r: "tKind t \<noteq> TypeResult \<Longrightarrow> tResult t = None"
    using base unfolding t by (cases r) (simp_all add: Let_def)
  show l: "tKind t \<noteq> TypeResult \<Longrightarrow> tKind t \<noteq> TypeList \<Longrightarrow> tList t = None"
    using base r unfolding t by (cases l) (simp_all add: Let_def)
  show "tKind t \<noteq> TypeResult \<Longrightarrow> tKind t \<noteq> TypeList \<Longrightarrow> tKind t \<noteq> TypeOptional \<Longrightarrow> tOptional t = None"
    using base r l unfolding t by (cases opt) (simp_all add: Let_def)
qed

lemma validateType_result:
  assumes "validateType t = Ret ()" "tKind t = TypeResult"
  obtains s f where "t = resultOf s f" "isArithmeticResultType t \<or> isBoundedValueResultType t"
    "validateType s = Ret ()" "validateType f = Ret ()"
proof -
  obtain k p n r opt l rec e i nm args where t: "t = CoreType k p n r opt l rec e i nm args"
    by (cases t)
  note c = validateType_common [OF assms(1)]
  have k: "k = TypeResult" using assms(2) t by simp
  have n: "e = None" "\<not> carriesForeign t" using c k t by auto
  obtain s f where r: "r = Some (s, f)"
    using assms(1) n unfolding t k by (cases r) (auto simp: Let_def supportedKind_def)
  have b: "isArithmeticResultType t \<or> isBoundedValueResultType t"
    using assms(1) n unfolding t k r by (auto simp: Let_def supportedKind_def split: if_splits)
  have "validateType s = Ret () \<and> validateType f = Ret () \<and> p = PrimitiveNone \<and> n = None \<and>
      opt = None \<and> l = None \<and> rec = None \<and> i = None \<and> nm = [] \<and> args = []"
    using assms(1) n b unfolding t k r by (simp add: Let_def supportedKind_def split: if_splits)
  then show thesis using that r b n k by (auto simp: t resultOf_def)
qed

lemma validateType_list:
  assumes "validateType t = Ret ()" "tKind t = TypeList"
  obtains el where "tList t = Some el" "tKind el = TypeRecord" "validateType el = Ret ()"
    "builtinListIdentity t" "tPrimitive t = PrimitiveNone" "tNumeric t = None" "tResult t = None"
    "tOptional t = None" "tRecord t = None" "tEnum t = None" "tArguments t = []"
proof -
  obtain k p n r opt l rec e i nm args where t: "t = CoreType k p n r opt l rec e i nm args"
    by (cases t)
  note c = validateType_common [OF assms(1)]
  have k: "k = TypeList" using assms(2) t by simp
  have n: "e = None" "\<not> carriesForeign t" "r = None" using c k t by auto
  obtain el where l: "l = Some el"
    using assms(1) n unfolding t k by (cases l) (auto simp: Let_def supportedKind_def)
  have b: "tKind el = TypeRecord \<and> builtinListIdentity t"
    using assms(1) n unfolding t k l by (simp add: Let_def supportedKind_def split: if_splits)
  have "validateType el = Ret () \<and> p = PrimitiveNone \<and> n = None \<and> opt = None \<and> rec = None
      \<and> args = []"
    using assms(1) n b unfolding t k l by (simp add: Let_def supportedKind_def split: if_splits)
  then show thesis using that l b n k by (auto simp: t)
qed

lemma validateType_optional:
  assumes "validateType t = Ret ()" "tKind t = TypeOptional"
  obtains v where "tOptional t = Some v" "isOptionalValueType v" "validateType v = Ret ()"
    "tPrimitive t = PrimitiveNone" "tNumeric t = None" "tResult t = None" "tList t = None"
    "tRecord t = None" "tEnum t = None" "tIdentity t = None" "tName t = []" "tArguments t = []"
proof -
  obtain k p n r opt l rec e i nm args where t: "t = CoreType k p n r opt l rec e i nm args"
    by (cases t)
  note c = validateType_common [OF assms(1)]
  have k: "k = TypeOptional" using assms(2) t by simp
  have n: "e = None" "\<not> carriesForeign t" "r = None" using c k t by auto
  have l: "l = None"
    using assms(1) n unfolding t k by (cases l) (auto simp: Let_def supportedKind_def)
  obtain v where o: "opt = Some v"
    using assms(1) n l unfolding t k by (cases opt) (auto simp: Let_def supportedKind_def)
  have b: "isOptionalValueType v"
    using assms(1) n l unfolding t k o
    by (simp add: Let_def supportedKind_def isOptionalValueType_def split: if_splits)
  have "validateType v = Ret () \<and> p = PrimitiveNone \<and> n = None \<and> rec = None \<and> i = None
      \<and> nm = [] \<and> args = []"
    using assms(1) n l b unfolding t k o isOptionalValueType_def
    by (simp add: Let_def supportedKind_def split: if_splits)
  then show thesis using that o b n l k by (auto simp: t)
qed

lemma validateType_record:
  assumes "validateType t = Ret ()" "tKind t = TypeRecord"
  obtains f fs owner where "tRecord t = Some (f # fs)" "tIdentity t = Some owner"
    "siCallable owner = None" "validateFields owner [] [] (f # fs) = Ret ()"
    "tPrimitive t = PrimitiveNone" "tNumeric t = None" "tResult t = None" "tOptional t = None"
    "tList t = None" "tEnum t = None" "tArguments t = []"
proof -
  obtain k p n r opt l rec e i nm args where t: "t = CoreType k p n r opt l rec e i nm args"
    by (cases t)
  note c = validateType_common [OF assms(1)]
  have k: "k = TypeRecord" using assms(2) t by simp
  have n: "e = None" "\<not> carriesForeign t" "r = None" "args = []" using c k t by auto
  have l: "l = None" "opt = None"
    using assms(1) n unfolding t k
    by (cases l; cases opt; simp add: Let_def supportedKind_def)+
  obtain f fs owner where f: "rec = Some (f # fs)" "i = Some owner"
    using assms(1) n l unfolding t k
    by (auto simp: Let_def supportedKind_def split: option.splits list.splits)
  have "siCallable owner = None \<and> p = PrimitiveNone \<and> n = None
      \<and> validateFields owner [] [] (f # fs) = Ret ()"
    using assms(1) n l unfolding t k f
    by (simp add: Let_def supportedKind_def split: if_splits del: validateFields.simps)
  then show thesis using that f n l k by (auto simp: t)
qed

lemma validateFields_callFree:
  "validateFields owner ns ids fs = Ret () \<Longrightarrow>
   (\<And>f. f \<in> set fs \<Longrightarrow> validateType (rfType f) = Ret () \<Longrightarrow> callFree (rfType f)) \<Longrightarrow>
   callFreeFields fs"
proof (induction fs arbitrary: ns ids)
  case (Cons f fs)
  then have "callFreeFields fs" by (cases f) (auto simp: Let_def)
  moreover have "callFree (rfType f)" using Cons.prems(1) Cons.prems(2) [of f]
    by (cases f) (auto simp: Let_def)
  ultimately show ?case using Cons.prems(1) by (cases f) (auto simp: Let_def)
qed simp

lemma size_field: "f \<in> set fs \<Longrightarrow> size (rfType f) < size_list size fs"
proof (induction fs)
  case (Cons g gs)
  then show ?case by (cases g) auto
qed simp

lemma size_components:
  "tList t = Some a \<Longrightarrow> size a < size t" "tOptional t = Some a \<Longrightarrow> size a < size t"
  "tRecord t = Some fs \<Longrightarrow> size_list size fs < size t"
  "tResult t = Some (a, b) \<Longrightarrow> size a < size t \<and> size b < size t"
  by (cases t; auto)+

lemma validateType_callFree: "validateType t = Ret () \<Longrightarrow> callFree t"
proof (induction t rule: measure_induct_rule [of size])
  case (less t)
  note sub = size_components [of t]
  obtain k p n r opt l rec e i nm args where t: "t = CoreType k p n r opt l rec e i nm args"
    by (cases t)
  show ?case
  proof (cases "tKind t = TypeEnum")
    case True
    with less.prems have "validateEnumType t = Ret ()" by (simp add: t)
    from validateEnumType_shape [OF this] show ?thesis by (auto simp: t)
  next
    case enum: False
    note c = validateType_common [OF less.prems enum]
    consider "tKind t = TypeResult" | "tKind t = TypeList" | "tKind t = TypeOptional"
      | "tKind t = TypeRecord" | "tKind t \<in> {TypePrimitive, TypeNumeric, TypeArithmeticError}"
      using c(2) by (auto simp: supportedKind_def)
    then show ?thesis
    proof cases
      case 1
      with less.prems obtain s f where "t = resultOf s f" "validateType s = Ret ()" "validateType f = Ret ()"
        by (rule validateType_result)
      with less.IH show ?thesis by (simp add: resultOf_def)
    next
      case 2
      from validateType_list [OF less.prems 2] obtain el where
        el: "tList t = Some el" "validateType el = Ret ()" "builtinListIdentity t" "tResult t = None"
        "tOptional t = None" "tRecord t = None" "tEnum t = None" "tArguments t = []" by metis
      have "callFree el" using less.IH sub(1) el(1,2) by blast
      moreover have "\<exists>d. i = Some d \<and> siCallable d = None"
        using el(3) by (auto simp: t builtinListIdentity_def split: option.splits)
      ultimately show ?thesis using el by (auto simp: t)
    next
      case 3
      from validateType_optional [OF less.prems 3] obtain v where
        v: "tOptional t = Some v" "validateType v = Ret ()" "tResult t = None" "tList t = None"
        "tRecord t = None" "tEnum t = None" "tIdentity t = None" "tArguments t = []" by metis
      have "callFree v" using less.IH sub(2) v(1,2) by blast
      with v show ?thesis by (simp add: t)
    next
      case 4
      from validateType_record [OF less.prems 4] obtain g gs owner where
        g: "tRecord t = Some (g # gs)" "tIdentity t = Some owner" "siCallable owner = None"
        "validateFields owner [] [] (g # gs) = Ret ()" "tResult t = None" "tOptional t = None"
        "tList t = None" "tEnum t = None" "tArguments t = []" by metis
      have "callFreeFields (g # gs)"
      proof (rule validateFields_callFree [OF g(4)])
        fix f assume "f \<in> set (g # gs)" "validateType (rfType f) = Ret ()"
        with less.IH size_field [of f "g # gs"] sub(3) [OF g(1)] show "callFree (rfType f)"
          by (meson order_less_trans)
      qed
      with g show ?thesis by (simp add: t)
    next
      case 5
      with c show ?thesis by (auto simp: t carriesForeign_def)
    qed
  qed
qed

lemma TypeEqual_refl: "validateType t = Ret () \<Longrightarrow> TypeEqual t t"
  by (intro TypeEqual_refl_callFree validateType_callFree)

lemma TypeEqual_validated:
  "validateType t = Ret () \<Longrightarrow> validateType u = Ret () \<Longrightarrow> TypeEqual t u \<longleftrightarrow> t = u"
  using TypeEqual_eqD(1) TypeEqual_refl validateType_callFree by blast

text \<open>On all types, \<open>TypeEqual\<close> is symmetric and transitive.\<close>

lemma enumRepresentationEqual_sym: "enumRepresentationEqual a b \<Longrightarrow> enumRepresentationEqual b a"
  using enumRepresentationEqual_eq by metis

lemma enumRepresentationEqual_trans:
  "enumRepresentationEqual a b \<Longrightarrow> enumRepresentationEqual b c \<Longrightarrow> enumRepresentationEqual a c"
  using enumRepresentationEqual_eq by metis

lemma identityEqual_sym: "identityEqual a b \<Longrightarrow> identityEqual b a"
  by (auto simp: identityEqual_def split: option.splits)

lemma identityEqual_trans: "identityEqual a b \<Longrightarrow> identityEqual b c \<Longrightarrow> identityEqual a c"
  by (auto simp: identityEqual_def split: option.splits)

lemma TypeEqual_sym:
  "TypeEqual t u \<Longrightarrow> TypeEqual u t"
  "optTypeEqual a b \<Longrightarrow> optTypeEqual b a"
  "optResultEqual r r' \<Longrightarrow> optResultEqual r' r"
  "optFieldsEqual fo fo' \<Longrightarrow> optFieldsEqual fo' fo"
  "fieldsEqual fs gs \<Longrightarrow> fieldsEqual gs fs"
  "typesEqual ts us \<Longrightarrow> typesEqual us ts"
proof (induction t u and a b and r r' and fo fo' and fs gs and ts us
    rule: TypeEqual_optTypeEqual_optResultEqual_optFieldsEqual_fieldsEqual_typesEqual.induct)
  case (1 k p n r opt l rec e i nm args k' p' n' r' opt' l' rec' e' i' nm' args')
  then show ?case
    using enumRepresentationEqual_sym [of e e'] identityEqual_sym [of i i'] by simp
qed auto

lemma opt_invs:
  "optTypeEqual (Some x) b \<longleftrightarrow> (\<exists>y. b = Some y \<and> TypeEqual x y)"
  "optTypeEqual None b \<longleftrightarrow> b = None"
  "optResultEqual (Some (s, f)) b' \<longleftrightarrow> (\<exists>s' f'. b' = Some (s', f') \<and> TypeEqual s s' \<and> TypeEqual f f')"
  "optResultEqual None b' \<longleftrightarrow> b' = None"
  "optFieldsEqual (Some fs) c \<longleftrightarrow> (\<exists>gs. c = Some gs \<and> fieldsEqual fs gs)"
  "optFieldsEqual None c \<longleftrightarrow> c = None"
  "fieldsEqual [] gs \<longleftrightarrow> gs = []"
  "fieldsEqual (RecordField d nm t # xs) gs \<longleftrightarrow>
     (\<exists>d' t' ys. gs = RecordField d' nm t' # ys \<and> siPackage d = siPackage d'
       \<and> siPath d = siPath d' \<and> TypeEqual t t' \<and> fieldsEqual xs ys)"
  "typesEqual [] us \<longleftrightarrow> us = []"
  "typesEqual (t # ts) us \<longleftrightarrow> (\<exists>u vs. us = u # vs \<and> TypeEqual t u \<and> typesEqual ts vs)"
  subgoal by (cases b) auto
  subgoal by (cases b) auto
  subgoal by (cases b') auto
  subgoal by (cases b') auto
  subgoal by (cases c) auto
  subgoal by (cases c) auto
  subgoal by (cases gs) auto
  subgoal by (cases gs; cases "hd gs") auto
  subgoal by (cases us) auto
  subgoal by (cases us) auto
  done

lemma TypeEqual_trans:
  "TypeEqual t u \<Longrightarrow> TypeEqual u v \<Longrightarrow> TypeEqual t v"
  "optTypeEqual a b \<Longrightarrow> optTypeEqual b c \<Longrightarrow> optTypeEqual a c"
  "optResultEqual r r' \<Longrightarrow> optResultEqual r' r'' \<Longrightarrow> optResultEqual r r''"
  "optFieldsEqual fo fo' \<Longrightarrow> optFieldsEqual fo' fo'' \<Longrightarrow> optFieldsEqual fo fo''"
  "fieldsEqual fs gs \<Longrightarrow> fieldsEqual gs hs \<Longrightarrow> fieldsEqual fs hs"
  "typesEqual ts us \<Longrightarrow> typesEqual us vs \<Longrightarrow> typesEqual ts vs"
proof (induction t u and a b and r r' and fo fo' and fs gs and ts us
    arbitrary: v and c and r'' and fo'' and hs and vs
    rule: TypeEqual_optTypeEqual_optResultEqual_optFieldsEqual_fieldsEqual_typesEqual.induct)
  case (1 k p n r opt l rec e i nm args k' p' n' r' opt' l' rec' e' i' nm' args')
  then show ?case
    by (cases v) (auto intro: enumRepresentationEqual_trans identityEqual_trans)
qed (auto simp: opt_invs)

text \<open>Type comparisons that the evaluator's carrier checks rely on.\<close>

lemma TypeEqual_kind: "TypeEqual t u \<Longrightarrow> tKind t = tKind u"
  by (cases t; cases u) simp

lemma TypeEqual_fields:
  assumes "TypeEqual t u"
  shows "tPrimitive t = tPrimitive u" "tNumeric t = tNumeric u" "tEnum t = tEnum u"
    "optResultEqual (tResult t) (tResult u)" "optTypeEqual (tOptional t) (tOptional u)"
    "optTypeEqual (tList t) (tList u)" "optFieldsEqual (tRecord t) (tRecord u)"
    "tName t = tName u" "identityEqual (tIdentity t) (tIdentity u)"
  using assms by (cases t; cases u; simp add: enumRepresentationEqual_eq)+

lemma fieldsEqual_nth:
  "fieldsEqual fs gs \<Longrightarrow> length fs = length gs \<and>
   (\<forall>j < length fs. TypeEqual (rfType (fs ! j)) (rfType (gs ! j)))"
proof (induction fs arbitrary: gs)
  case (Cons f fs)
  then show ?case
    by (cases f; cases gs) (auto simp: opt_invs nth_Cons split: nat.splits)
qed (auto simp: opt_invs)

section \<open>Properties\<close>

text \<open>on validated types \<open>TypeEqual\<close>, which compares field by field and skips the member
  callables, is equality of the whole type.\<close>

theorem type_equal_validated:
  assumes "validateType t = Ret ()" "validateType u = Ret ()"
  shows "TypeEqual t u \<longleftrightarrow> t = u"
  using assms by (rule TypeEqual_validated)

lemma validateType_text: "validateType textType = Ret ()" "validateType boolType = Ret ()"
  by (simp_all add: primitiveOf_def supportedKind_def carriesForeign_def)

theorem type_equal_validated_witness: "TypeEqual textType boolType \<longleftrightarrow> textType = boolType"
  by (rule type_equal_validated [OF validateType_text])

end
