(* ===== verification/CoreExpr.thy ===== *)
theory CoreExpr
  imports CoreTypes
begin

text \<open>
  Core IR expressions, statement blocks, functions and programs (coreir/core.go,
  coreir/blocks.go) with the traversals of coreir/semantics.go. As for the types, a Go struct
  is a datatype with its fields as selectors and a pointer is an option, so a payload or an
  operand may be missing, as it may in the Go graph. Pointer cycles and sharing are not
  represented: an expression is a finite tree. Structs with the same fields share a datatype,
  and a struct with one operand is that operand.
\<close>

section \<open>Payload structs\<close>

record parameter =
  paPosition :: int
  paName :: string
  paType :: core_type

datatype expr_kind =
    ExprBlock | ExprLiteral | ExprReference | ExprUnary | ExprBinary | ExprConditional
  | ExprImmutableLocal | ExprCall | ExprTextContainsCaseFolded | ExprTextTrim
  | ExprFieldProjection | ExprRecordConstruct | ExprOptionalSome | ExprOptionalNone
  | ExprOptionalHasValue | ExprOptionalValueOr | ExprPropagate | ExprMatch | ExprListEmpty
  | ExprListSingleton | ExprListCount | ExprListAppend | ExprListAt | ExprListFindByText
  | ExprListFilterByText | ExprListFilterPredicate | ExprListFilterContainsCaseFolded
  | ExprListFilterJoinedContainsCaseFolded | ExprListSortByOrdinalText
  | ExprListSortByOrdinalTexts | ExprListSortByOrdinalDirections | ExprResultOK | ExprResultErr
  | ExprResultIsOK | ExprResultSuccessOr | ExprResultFailureOr | ExprOther string

record literal =
  litString :: string
  litInt :: int64
  litFloat :: "64 word"
  litBool :: bool

datatype 'e unary = Unary (unOperator: operator) (unOperand: "'e option")

datatype 'e binary =
  Binary (biOperator: operator) (biLeft: "'e option") (biRight: "'e option")

datatype 'e conditional =
  Conditional (cdCondition: "'e option") (cdWhenTrue: "'e option") (cdWhenFalse: "'e option")
    (cdTerminal: bool)

datatype 'e immutable_local =
  ImmutableLocal (ilPosition: int) (ilName: string) (ilType: core_type)
    (ilInitializer: "'e option") (ilReturn: "'e option")

datatype 'e call =
  Call (caTarget: semantic_identity) (caTargetName: string) (caArguments: "'e option list")

datatype 'e text_contains = TextContainsCaseFolded (tcValue: "'e option") (tcQuery: "'e option")

datatype 'e field_projection =
  FieldProjection (fpReceiver: "'e option") (fpIdentity: semantic_identity) (fpName: string)
    (fpPosition: int)

datatype 'e record_construct_field =
  RecordConstructField (rcfIdentity: semantic_identity) (rcfName: string) (rcfPosition: int)
    (rcfValue: "'e option")

datatype 'e record_construct =
  RecordConstruct (rcIdentity: semantic_identity) (rcFields: "'e record_construct_field list")

text \<open>\<open>OptionalValueOr\<close>, \<open>ResultSuccessOr\<close> and \<open>ResultFailureOr\<close>.\<close>

datatype 'e with_fallback = WithFallback (wfValue: "'e option") (wfFallback: "'e option")

datatype 'e propagate = Propagate (prValue: "'e option") (prCarrier: core_type)

datatype 'e list_append = ListAppend (laValues: "'e option") (laValue: "'e option")

datatype 'e list_at = ListAt (ltValues: "'e option") (ltIndex: "'e option")

text \<open>
  \<open>ListFindByText\<close>, \<open>ListFilterByText\<close> and \<open>ListFilterContainsCaseFolded\<close>, whose
  \<open>Query\<close> is \<open>lbKey\<close> here.
\<close>

datatype 'e list_by_text =
  ListByText (lbValues: "'e option") (lbField: semantic_identity) (lbName: string)
    (lbPosition: int) (lbKey: "'e option")

datatype 'e list_filter_predicate =
  ListFilterPredicate (lpValues: "'e option") (lpPredicate: semantic_identity)
    (lpPredicateName: string) (lpArguments: "'e option list")

record list_selector =
  lsField :: semantic_identity
  lsName :: string
  lsPosition :: int

datatype 'e list_joined =
  ListJoined (ljValues: "'e option") (ljSelectors: "list_selector list") (ljQuery: "'e option")

datatype 'e list_sort_text =
  ListSortByOrdinalText (osValues: "'e option") (osField: semantic_identity) (osName: string)
    (osPosition: int)

datatype 'e list_sort_texts =
  ListSortByOrdinalTexts (otValues: "'e option") (otSelectors: "list_selector list")

text \<open>A directional selector is a selector with its \<open>Direction\<close>.\<close>

datatype 'e list_sort_directions =
  ListSortByOrdinalDirections (odValues: "'e option")
    (odSelectors: "(list_selector \<times> string) list")

datatype 'e match_arm =
  MatchArm (maTag: string) (maBinding: "int option") (maBody: "'e option")

datatype 'e match_on = Match (mtValue: "'e option") (mtArms: "'e match_arm list")

section \<open>Statements, expressions, functions, programs\<close>

datatype stmt_kind = StmtLocal | StmtAssign | StmtReturn | StmtIf | StmtBlock | StmtOther string

datatype 'e block = Block (blStatements: "'e statement list")
  and 'e statement =
    Statement (stMutable: bool) (stTarget: "int option") (stKind: stmt_kind)
      (stValue: "'e option") (stLocal: "parameter option") (stThen: "'e block option")
      (stElse: "'e block option")

datatype expr =
  Expr
    (exBlock: "expr block option") (exKind: expr_kind) (exType: core_type)
    (exLiteral: "literal option") (exParameter: "int option") (exUnary: "expr unary option")
    (exBinary: "expr binary option") (exConditional: "expr conditional option")
    (exImmutableLocal: "expr immutable_local option") (exCall: "expr call option")
    (exTextContains: "expr text_contains option") (exTextTrim: "expr option option")
    (exField: "expr field_projection option") (exRecord: "expr record_construct option")
    (exSome: "expr option option") (exNone: "unit option") (exHasValue: "expr option option")
    (exValueOr: "expr with_fallback option") (exPropagate: "expr propagate option")
    (exMatch: "expr match_on option") (exListEmpty: "unit option")
    (exListOne: "expr option option") (exListCount: "expr option option")
    (exListAppend: "expr list_append option") (exListAt: "expr list_at option")
    (exListFind: "expr list_by_text option") (exListFilter: "expr list_by_text option")
    (exListFilterPredicate: "expr list_filter_predicate option")
    (exListFilterContains: "expr list_by_text option")
    (exListFilterJoined: "expr list_joined option") (exSortText: "expr list_sort_text option")
    (exSortTexts: "expr list_sort_texts option")
    (exSortDirections: "expr list_sort_directions option") (exResultOK: "expr option option")
    (exResultErr: "expr option option") (exResultIsOK: "expr option option")
    (exSuccessOr: "expr with_fallback option") (exFailureOr: "expr with_fallback option")

record func =
  fnIdentity :: semantic_identity
  fnName :: string
  fnParameters :: "parameter list"
  fnReturnType :: core_type
  fnBody :: expr

record program =
  pgLanguage :: string
  pgCompiler :: string
  pgFunctions :: "func list"

section \<open>Traversals\<close>

function (sequential) BlockChildren :: "'e block option \<Rightarrow> 'e option list"
  and stmtsChildren :: "'e statement list \<Rightarrow> 'e option list"
where
  "BlockChildren None = []"
| "BlockChildren (Some (Block ss)) = stmtsChildren ss"
| "stmtsChildren [] = []"
| "stmtsChildren (Statement mut target kind v local th el # ss) =
     (if v \<noteq> None then [v] else []) @ BlockChildren th @ BlockChildren el @ stmtsChildren ss"
  by pat_completeness auto
termination
  by (relation "measure (\<lambda>x. case x of
       Inl b \<Rightarrow> size_option (size_block (\<lambda>_. 0)) b
     | Inr ss \<Rightarrow> size_list (size_statement (\<lambda>_. 0)) ss)") simp_all

text \<open>\<open>expressionChildren\<close>: the operands by kind; a missing payload has none.\<close>

abbreviation ofPayload :: "'p option \<Rightarrow> ('p \<Rightarrow> 'e option list) \<Rightarrow> 'e option list" where
  "ofPayload p f \<equiv> (case p of None \<Rightarrow> [] | Some x \<Rightarrow> f x)"

definition expressionChildren :: "expr \<Rightarrow> expr option list" where
  "expressionChildren e =
     (case exKind e of
        ExprBlock \<Rightarrow> BlockChildren (exBlock e)
      | ExprUnary \<Rightarrow> ofPayload (exUnary e) (\<lambda>u. [unOperand u])
      | ExprBinary \<Rightarrow> ofPayload (exBinary e) (\<lambda>b. [biLeft b, biRight b])
      | ExprConditional \<Rightarrow>
          ofPayload (exConditional e) (\<lambda>c. [cdCondition c, cdWhenTrue c, cdWhenFalse c])
      | ExprImmutableLocal \<Rightarrow> ofPayload (exImmutableLocal e) (\<lambda>l. [ilInitializer l, ilReturn l])
      | ExprCall \<Rightarrow> ofPayload (exCall e) caArguments
      | ExprTextContainsCaseFolded \<Rightarrow> ofPayload (exTextContains e) (\<lambda>t. [tcValue t, tcQuery t])
      | ExprTextTrim \<Rightarrow> ofPayload (exTextTrim e) (\<lambda>v. [v])
      | ExprFieldProjection \<Rightarrow> ofPayload (exField e) (\<lambda>f. [fpReceiver f])
      | ExprRecordConstruct \<Rightarrow> ofPayload (exRecord e) (\<lambda>r. map rcfValue (rcFields r))
      | ExprOptionalSome \<Rightarrow> ofPayload (exSome e) (\<lambda>v. [v])
      | ExprOptionalHasValue \<Rightarrow> ofPayload (exHasValue e) (\<lambda>v. [v])
      | ExprOptionalValueOr \<Rightarrow> ofPayload (exValueOr e) (\<lambda>w. [wfValue w, wfFallback w])
      | ExprPropagate \<Rightarrow> ofPayload (exPropagate e) (\<lambda>p. [prValue p])
      | ExprMatch \<Rightarrow> ofPayload (exMatch e) (\<lambda>m. mtValue m # map maBody (mtArms m))
      | ExprListSingleton \<Rightarrow> ofPayload (exListOne e) (\<lambda>v. [v])
      | ExprListCount \<Rightarrow> ofPayload (exListCount e) (\<lambda>v. [v])
      | ExprListAppend \<Rightarrow> ofPayload (exListAppend e) (\<lambda>l. [laValues l, laValue l])
      | ExprListAt \<Rightarrow> ofPayload (exListAt e) (\<lambda>l. [ltValues l, ltIndex l])
      | ExprListFindByText \<Rightarrow> ofPayload (exListFind e) (\<lambda>l. [lbValues l, lbKey l])
      | ExprListFilterByText \<Rightarrow> ofPayload (exListFilter e) (\<lambda>l. [lbValues l, lbKey l])
      | ExprListFilterPredicate \<Rightarrow>
          ofPayload (exListFilterPredicate e) (\<lambda>l. lpValues l # lpArguments l)
      | ExprListFilterContainsCaseFolded \<Rightarrow>
          ofPayload (exListFilterContains e) (\<lambda>l. [lbValues l, lbKey l])
      | ExprListFilterJoinedContainsCaseFolded \<Rightarrow>
          ofPayload (exListFilterJoined e) (\<lambda>l. [ljValues l, ljQuery l])
      | ExprListSortByOrdinalText \<Rightarrow> ofPayload (exSortText e) (\<lambda>l. [osValues l])
      | ExprListSortByOrdinalTexts \<Rightarrow> ofPayload (exSortTexts e) (\<lambda>l. [otValues l])
      | ExprListSortByOrdinalDirections \<Rightarrow> ofPayload (exSortDirections e) (\<lambda>l. [odValues l])
      | ExprResultOK \<Rightarrow> ofPayload (exResultOK e) (\<lambda>v. [v])
      | ExprResultErr \<Rightarrow> ofPayload (exResultErr e) (\<lambda>v. [v])
      | ExprResultIsOK \<Rightarrow> ofPayload (exResultIsOK e) (\<lambda>v. [v])
      | ExprResultSuccessOr \<Rightarrow> ofPayload (exSuccessOr e) (\<lambda>w. [wfValue w, wfFallback w])
      | ExprResultFailureOr \<Rightarrow> ofPayload (exFailureOr e) (\<lambda>w. [wfValue w, wfFallback w])
      | _ \<Rightarrow> [])"

text \<open>The operands that are there: the \<open>child != nil\<close> of every traversal.\<close>

definition children :: "expr \<Rightarrow> expr list" where
  "children e = List.map_filter id (expressionChildren e)"

lemma set_children: "c \<in> set (children e) \<longleftrightarrow> Some c \<in> set (expressionChildren e)"
  by (auto simp: children_def List.map_filter_def image_iff intro!: bexI [of _ "Some c"])

subsection \<open>Operands are smaller\<close>

lemma size_BlockChildren:
  "Some c \<in> set (BlockChildren b) \<Longrightarrow> size c < size_option (size_block size) b"
  "Some c \<in> set (stmtsChildren ss) \<Longrightarrow> size c < Suc (size_list (size_statement size) ss)"
  by (induction b and ss rule: BlockChildren_stmtsChildren.induct)
    (auto split: if_splits simp: less_Suc_eq_le)

lemma size_block_fields:
  "exBlock e = Some b \<Longrightarrow> size_block size b < size e"
  by (cases e) simp

lemma size_operand_fields:
  "exTextTrim e = Some (Some c) \<Longrightarrow> size c < size e"
  "exSome e = Some (Some c) \<Longrightarrow> size c < size e"
  "exHasValue e = Some (Some c) \<Longrightarrow> size c < size e"
  "exListOne e = Some (Some c) \<Longrightarrow> size c < size e"
  "exListCount e = Some (Some c) \<Longrightarrow> size c < size e"
  "exResultOK e = Some (Some c) \<Longrightarrow> size c < size e"
  "exResultErr e = Some (Some c) \<Longrightarrow> size c < size e"
  "exResultIsOK e = Some (Some c) \<Longrightarrow> size c < size e"
  by (cases e; simp)+

lemma size_payload_fields:
  "exUnary e = Some u \<Longrightarrow> size_unary size u < size e"
  "exBinary e = Some bi \<Longrightarrow> size_binary size bi < size e"
  "exConditional e = Some cd \<Longrightarrow> size_conditional size cd < size e"
  "exImmutableLocal e = Some il \<Longrightarrow> size_immutable_local size il < size e"
  "exCall e = Some ca \<Longrightarrow> size_call size ca < size e"
  "exTextContains e = Some tc \<Longrightarrow> size_text_contains size tc < size e"
  "exField e = Some fp \<Longrightarrow> size_field_projection size fp < size e"
  "exRecord e = Some rc \<Longrightarrow> size_record_construct size rc < size e"
  "exValueOr e = Some wb \<Longrightarrow> size_with_fallback size wb < size e"
  "exSuccessOr e = Some wb \<Longrightarrow> size_with_fallback size wb < size e"
  "exFailureOr e = Some wb \<Longrightarrow> size_with_fallback size wb < size e"
  "exPropagate e = Some pr \<Longrightarrow> size_propagate size pr < size e"
  "exMatch e = Some mt \<Longrightarrow> size_match_on size mt < size e"
  "exListAppend e = Some la \<Longrightarrow> size_list_append size la < size e"
  "exListAt e = Some lt \<Longrightarrow> size_list_at size lt < size e"
  "exListFind e = Some lb \<Longrightarrow> size_list_by_text size lb < size e"
  "exListFilter e = Some lb \<Longrightarrow> size_list_by_text size lb < size e"
  "exListFilterContains e = Some lb \<Longrightarrow> size_list_by_text size lb < size e"
  "exListFilterPredicate e = Some lp \<Longrightarrow> size_list_filter_predicate size lp < size e"
  "exListFilterJoined e = Some lj \<Longrightarrow> size_list_joined size lj < size e"
  "exSortText e = Some os \<Longrightarrow> size_list_sort_text size os < size e"
  "exSortTexts e = Some ot \<Longrightarrow> size_list_sort_texts size ot < size e"
  "exSortDirections e = Some od \<Longrightarrow> size_list_sort_directions size od < size e"
  by (cases e; simp)+

lemma size_some_less: "p = Some c \<Longrightarrow> size c < size_option size p"
  by simp

lemma size_payload_operands:
  "unOperand u = Some c \<Longrightarrow> size c < size_unary size u"
  "biLeft bi = Some c \<Longrightarrow> size c < size_binary size bi"
  "biRight bi = Some c \<Longrightarrow> size c < size_binary size bi"
  "cdCondition cd = Some c \<Longrightarrow> size c < size_conditional size cd"
  "cdWhenTrue cd = Some c \<Longrightarrow> size c < size_conditional size cd"
  "cdWhenFalse cd = Some c \<Longrightarrow> size c < size_conditional size cd"
  "ilInitializer il = Some c \<Longrightarrow> size c < size_immutable_local size il"
  "ilReturn il = Some c \<Longrightarrow> size c < size_immutable_local size il"
  "tcValue tc = Some c \<Longrightarrow> size c < size_text_contains size tc"
  "tcQuery tc = Some c \<Longrightarrow> size c < size_text_contains size tc"
  "fpReceiver fp = Some c \<Longrightarrow> size c < size_field_projection size fp"
  "wfValue wb = Some c \<Longrightarrow> size c < size_with_fallback size wb"
  "wfFallback wb = Some c \<Longrightarrow> size c < size_with_fallback size wb"
  "prValue pr = Some c \<Longrightarrow> size c < size_propagate size pr"
  "mtValue mt = Some c \<Longrightarrow> size c < size_match_on size mt"
  "laValues la = Some c \<Longrightarrow> size c < size_list_append size la"
  "laValue la = Some c \<Longrightarrow> size c < size_list_append size la"
  "ltValues lt = Some c \<Longrightarrow> size c < size_list_at size lt"
  "ltIndex lt = Some c \<Longrightarrow> size c < size_list_at size lt"
  "lbValues lb = Some c \<Longrightarrow> size c < size_list_by_text size lb"
  "lbKey lb = Some c \<Longrightarrow> size c < size_list_by_text size lb"
  "lpValues lp = Some c \<Longrightarrow> size c < size_list_filter_predicate size lp"
  "ljValues lj = Some c \<Longrightarrow> size c < size_list_joined size lj"
  "ljQuery lj = Some c \<Longrightarrow> size c < size_list_joined size lj"
  "osValues os = Some c \<Longrightarrow> size c < size_list_sort_text size os"
  "otValues ot = Some c \<Longrightarrow> size c < size_list_sort_texts size ot"
  "odValues od = Some c \<Longrightarrow> size c < size_list_sort_directions size od"
                      apply (cases u; simp)
                     apply (cases bi; simp)+
                   apply (cases cd; simp)+
                apply (cases il; simp)+
              apply (cases tc; simp)+
            apply (cases fp; simp)
           apply (cases wb; simp)+
         apply (cases pr; simp)
        apply (cases mt; simp)
       apply (cases la; simp)+
     apply (cases lt; simp)+
   apply (cases lb; simp)+
 apply (cases lp; simp)
apply (cases lj; simp)+
apply (cases os; simp)
apply (cases ot; simp)
apply (cases od; simp)
done

lemma size_list_operands:
  "Some c \<in> set (caArguments ca) \<Longrightarrow> size c < size_call size ca"
  "Some c \<in> set (lpArguments lp) \<Longrightarrow> size c < size_list_filter_predicate size lp"
  "f \<in> set (rcFields rc) \<Longrightarrow> rcfValue f = Some c \<Longrightarrow> size c < size_record_construct size rc"
  "a \<in> set (mtArms mt) \<Longrightarrow> maBody a = Some c \<Longrightarrow> size c < size_match_on size mt"
     apply (cases ca)
     apply (use size_in_list [of "Some c" _ "size_option size"] in fastforce)
    apply (cases lp)
    apply (use size_in_list [of "Some c" _ "size_option size"] in fastforce)
   apply (cases rc, cases f)
   apply (use size_in_list [of f "rcFields rc" "size_record_construct_field size"] in fastforce)
  apply (cases mt, cases a)
  apply (use size_in_list [of a "mtArms mt" "size_match_arm size"] in fastforce)
  done

lemma size_block_child: "Some c \<in> set (BlockChildren (exBlock e)) \<Longrightarrow> size c < size e"
  using size_BlockChildren(1) [of c "exBlock e"] size_block_fields [of e]
  by (cases "exBlock e") auto

lemmas operand_sizes = size_payload_fields size_operand_fields size_payload_operands

lemma size_expressionChildren: "Some c \<in> set (expressionChildren e) \<Longrightarrow> size c < size e"
  by (cases "exKind e")
    (auto simp: expressionChildren_def dest: size_block_child
      dest!: operand_sizes operand_sizes [OF sym] size_list_operands
      size_list_operands(3,4) [OF _ sym] split: option.splits)

lemma size_children: "c \<in> set (children e) \<Longrightarrow> size c < size e"
  by (simp add: set_children size_expressionChildren)

lemma expr_children_induct [case_names expr]:
  assumes "\<And>e. (\<And>c. c \<in> set (children e) \<Longrightarrow> P c) \<Longrightarrow> P e"
  shows "P e"
  by (induction e rule: measure_induct_rule [of size]) (use assms size_children in blast)

subsection \<open>Walks\<close>

text \<open>
  \<open>WalkExpression visit e\<close> is the list of the expressions on which the code calls
  \<open>visit\<close>, in that order: an expression comes before its operands, and the operands of
  one on which \<open>visit\<close> returns false are left out.
\<close>

function WalkExpression :: "(expr \<Rightarrow> bool) \<Rightarrow> expr \<Rightarrow> expr list" where
  "WalkExpression visit e =
     e # (if visit e then concat (map (WalkExpression visit) (children e)) else [])"
  by auto
termination
  by (relation "measure (size \<circ> snd)") (auto intro: size_children)

declare WalkExpression.simps [simp del]

abbreviation subexprs :: "expr \<Rightarrow> expr list" where
  "subexprs \<equiv> WalkExpression (\<lambda>_. True)"

lemma set_subexprs: "set (subexprs e) = insert e (\<Union>c \<in> set (children e). set (subexprs c))"
  by (subst WalkExpression.simps) auto

lemma subexprs_self [simp, intro]: "e \<in> set (subexprs e)"
  by (subst set_subexprs) simp

lemma subexprs_child: "c \<in> set (children e) \<Longrightarrow> x \<in> set (subexprs c) \<Longrightarrow> x \<in> set (subexprs e)"
  by (subst set_subexprs) auto

lemma subexprsE:
  assumes "x \<in> set (subexprs e)"
  obtains "x = e" | c where "c \<in> set (children e)" "x \<in> set (subexprs c)"
  using assms by (subst (asm) set_subexprs) blast

lemma subexprs_trans: "y \<in> set (subexprs x) \<Longrightarrow> x \<in> set (subexprs e) \<Longrightarrow> y \<in> set (subexprs e)"
proof (induction e rule: expr_children_induct)
  case (expr e)
  from expr.prems(2) show ?case
  proof (cases rule: subexprsE)
    case 1
    then show ?thesis using expr.prems(1) by simp
  next
    case (2 c)
    then show ?thesis using expr.IH expr.prems(1) subexprs_child by blast
  qed
qed

lemma subexprs_size: "x \<in> set (subexprs e) \<Longrightarrow> size x \<le> size e"
proof (induction e rule: expr_children_induct)
  case (expr e)
  from expr.prems show ?case
  proof (cases rule: subexprsE)
    case (2 c)
    then show ?thesis using expr.IH [of c] size_children [of c e] by simp
  qed simp
qed

text \<open>A walk sees every subexpression above which no visit returned false.\<close>

lemma WalkExpression_sub: "set (WalkExpression visit e) \<subseteq> set (subexprs e)"
proof (induction e rule: expr_children_induct)
  case (expr e)
  then show ?case
    by (subst WalkExpression.simps) (auto intro: subexprs_child)
qed

lemma WalkExpression_all:
  "(\<forall>x \<in> set (WalkExpression visit e). visit x) \<Longrightarrow> WalkExpression visit e = subexprs e"
proof (induction e rule: expr_children_induct)
  case (expr e)
  have v: "visit e" using expr.prems by (subst (asm) WalkExpression.simps) auto
  have "WalkExpression visit c = subexprs c" if "c \<in> set (children e)" for c
    using expr.IH [OF that] expr.prems v that by (subst (asm) (2) WalkExpression.simps) auto
  then have "map (WalkExpression visit) (children e) = map subexprs (children e)" by simp
  then show ?case using v WalkExpression.simps [of visit e] WalkExpression.simps [of "\<lambda>_. True" e]
    by presburger
qed

function exprContainsCall :: "expr \<Rightarrow> bool" where
  "exprContainsCall e = (exKind e = ExprCall \<or> list_ex exprContainsCall (children e))"
  by auto
termination
  by (relation "measure size") (auto intro: size_children)

function exprContainsConditional :: "expr \<Rightarrow> bool" where
  "exprContainsConditional e =
     (exKind e = ExprConditional \<or> list_ex exprContainsConditional (children e))"
  by auto
termination
  by (relation "measure size") (auto intro: size_children)

declare exprContainsCall.simps [simp del] exprContainsConditional.simps [simp del]

lemma exprContainsCall_iff: "exprContainsCall e \<longleftrightarrow> (\<exists>x \<in> set (subexprs e). exKind x = ExprCall)"
proof (induction e rule: expr_children_induct)
  case (expr e)
  then show ?case by (subst exprContainsCall.simps, subst set_subexprs) (auto simp: list_ex_iff)
qed

lemma exprContainsConditional_iff:
  "exprContainsConditional e \<longleftrightarrow> (\<exists>x \<in> set (subexprs e). exKind x = ExprConditional)"
proof (induction e rule: expr_children_induct)
  case (expr e)
  then show ?case
    by (subst exprContainsConditional.simps, subst set_subexprs) (auto simp: list_ex_iff)
qed

subsection \<open>Blocks\<close>

function (sequential) BlockLocalTypes :: "'e block option \<Rightarrow> core_type list"
  and stmtsLocalTypes :: "'e statement list \<Rightarrow> core_type list"
where
  "BlockLocalTypes None = []"
| "BlockLocalTypes (Some (Block ss)) = stmtsLocalTypes ss"
| "stmtsLocalTypes [] = []"
| "stmtsLocalTypes (Statement mut target kind v local th el # ss) =
     (case local of None \<Rightarrow> [] | Some l \<Rightarrow> [paType l])
       @ BlockLocalTypes th @ BlockLocalTypes el @ stmtsLocalTypes ss"
  by pat_completeness auto
termination
  by (relation "measure (\<lambda>x. case x of
       Inl b \<Rightarrow> size_option (size_block (\<lambda>_. 0)) b
     | Inr ss \<Rightarrow> size_list (size_statement (\<lambda>_. 0)) ss)") simp_all

function (sequential) blockUsesAssignment :: "'e block option \<Rightarrow> bool"
  and stmtsUseAssignment :: "'e statement list \<Rightarrow> bool"
where
  "blockUsesAssignment None = False"
| "blockUsesAssignment (Some (Block ss)) = stmtsUseAssignment ss"
| "stmtsUseAssignment [] = False"
| "stmtsUseAssignment (Statement mut target kind v local th el # ss) =
     (mut \<or> kind = StmtAssign \<or> (kind = StmtLocal \<and> v = None)
      \<or> blockUsesAssignment th \<or> blockUsesAssignment el \<or> stmtsUseAssignment ss)"
  by pat_completeness auto
termination
  by (relation "measure (\<lambda>x. case x of
       Inl b \<Rightarrow> size_option (size_block (\<lambda>_. 0)) b
     | Inr ss \<Rightarrow> size_list (size_statement (\<lambda>_. 0)) ss)") simp_all

section \<open>Semantic identities\<close>

text \<open>The part before the last dot; the empty path when there is none.\<close>

definition semanticOwnerPath :: "string \<Rightarrow> string" where
  "semanticOwnerPath path =
     (if CHR ''.'' \<in> set path then rev (drop 1 (dropWhile (\<lambda>c. c \<noteq> CHR ''.'') (rev path))) else [])"

text \<open>The key of the function maps: package, a NUL byte, path.\<close>

definition functionKey :: "semantic_identity \<Rightarrow> string" where
  "functionKey identity = siPackage identity @ [CHR 0x00] @ siPath identity"

fun semanticTypeEqual :: "semantic_type \<Rightarrow> semantic_type \<Rightarrow> bool"
  and semanticTypesEqual :: "semantic_type list \<Rightarrow> semantic_type list \<Rightarrow> bool"
where
  "semanticTypeEqual (SemanticType k p pkg path nm args) (SemanticType k' p' pkg' path' nm' args') =
     (k = k' \<and> p = p' \<and> pkg = pkg' \<and> path = path' \<and> nm = nm' \<and> length args = length args'
      \<and> semanticTypesEqual args args')"
| "semanticTypesEqual (a # as) (b # bs) = (semanticTypeEqual a b \<and> semanticTypesEqual as bs)"
| "semanticTypesEqual _ _ = True"

definition callableIdentityEqual :: "callable_identity option \<Rightarrow> callable_identity option \<Rightarrow> bool" where
  "callableIdentityEqual left right =
     (case (left, right) of
        (Some l, Some r) \<Rightarrow>
          length (ciParameters l) = length (ciParameters r)
          \<and> semanticTypeEqual (ciReturns l) (ciReturns r)
          \<and> semanticTypesEqual (ciParameters l) (ciParameters r)
      | _ \<Rightarrow> left = None \<and> right = None)"

lemma semanticTypeEqual_eq:
  "semanticTypeEqual s t \<longleftrightarrow> s = t"
  "length ss = length ts \<Longrightarrow> semanticTypesEqual ss ts \<longleftrightarrow> ss = ts"
  by (induction s t and ss ts rule: semanticTypeEqual_semanticTypesEqual.induct) auto

lemma callableIdentityEqual_eq: "callableIdentityEqual l r \<longleftrightarrow> l = r"
  by (cases l; cases r) (auto simp: callableIdentityEqual_def semanticTypeEqual_eq)
end
