(* ===== verification/CoreValue.thy ===== *)
theory CoreValue
  imports CoreExpr
begin

text \<open>
  Values of the conformance evaluator (coreeval/evaluate.go): the structs \<open>Value\<close>,
  \<open>OptionalValue\<close> and \<open>Outcome\<close>, the validation of a complete value against its
  type, the copying functions and structural equality. A nil slice is \<open>None\<close>, an empty one
  \<open>Some []\<close>: the code tells them apart.
\<close>

section \<open>Value structs\<close>

datatype core_value =
    Value (vType: core_type) (vString: string) (vInt: int64) (vFloat: float64) (vBool: bool)
      (vResult: "outcome option") (vRecord: "core_value list option")
      (vList: "core_value list option") (vOptional: "optional_value option")
  and optional_value = OptionalValue (ovPresent: bool) (ovValue: "core_value option")
  and outcome =
    Outcome (oOK: bool) (oValue: core_value) (oError: arithmetic_error)
      (oFailure: "core_value option")

text \<open>Composite literals that set only the fields named.\<close>

definition typedZero :: "core_type \<Rightarrow> core_value" where
  "typedZero t = Value t [] 0 0 False None None None None"

definition stringValue :: "core_type \<Rightarrow> string \<Rightarrow> core_value" where
  "stringValue t s = Value t s 0 0 False None None None None"

definition intValue :: "core_type \<Rightarrow> int64 \<Rightarrow> core_value" where
  "intValue t i = Value t [] i 0 False None None None None"

definition floatValue :: "core_type \<Rightarrow> 64 word \<Rightarrow> core_value" where
  "floatValue t x = Value t [] 0 x False None None None None"

definition boolValue :: "core_type \<Rightarrow> bool \<Rightarrow> core_value" where
  "boolValue t b = Value t [] 0 0 b None None None None"

definition resultValue :: "core_type \<Rightarrow> outcome \<Rightarrow> core_value" where
  "resultValue t r = Value t [] 0 0 False (Some r) None None None"

definition recordValue :: "core_type \<Rightarrow> core_value list \<Rightarrow> core_value" where
  "recordValue t xs = Value t [] 0 0 False None (Some xs) None None"

definition listValue :: "core_type \<Rightarrow> core_value list \<Rightarrow> core_value" where
  "listValue t xs = Value t [] 0 0 False None None (Some xs) None"

definition optionalValue :: "core_type \<Rightarrow> core_value option \<Rightarrow> core_value" where
  "optionalValue t p =
     Value t [] 0 0 False None None None (Some (OptionalValue (p \<noteq> None) p))"

definition okOutcome :: "core_value \<Rightarrow> outcome" where
  "okOutcome v = Outcome True v NoArithmeticError None"

lemmas value_literals = typedZero_def stringValue_def intValue_def floatValue_def boolValue_def
  resultValue_def recordValue_def listValue_def optionalValue_def

lemma value_literal_selectors [simp]:
  "vType (typedZero t) = t" "vType (stringValue t s) = t" "vType (intValue t i) = t"
  "vType (floatValue t x) = t" "vType (boolValue t b) = t" "vType (resultValue t r) = t"
  "vType (recordValue t xs) = t" "vType (listValue t xs) = t" "vType (optionalValue t p) = t"
  "vString (stringValue t s) = s" "vInt (intValue t i) = i" "vFloat (floatValue t x) = x"
  "vBool (boolValue t b) = b" "vResult (resultValue t r) = Some r"
  "vRecord (recordValue t xs) = Some xs" "vList (listValue t xs) = Some xs"
  "vOptional (optionalValue t p) = Some (OptionalValue (p \<noteq> None) p)"
  "oOK (okOutcome v)" "oValue (okOutcome v) = v" "oError (okOutcome v) = NoArithmeticError"
  "oFailure (okOutcome v) = None"
  by (simp_all add: value_literals okOutcome_def)

text \<open>\<open>len(value.Record)\<close> and ranging over a slice do not distinguish nil from empty.\<close>

definition elems :: "'a list option \<Rightarrow> 'a list" where
  "elems xs = (case xs of None \<Rightarrow> [] | Some ys \<Rightarrow> ys)"

lemma elems_simps [simp]: "elems None = []" "elems (Some ys) = ys"
  by (simp_all add: elems_def)

lemma size_elems: "size_list size (elems xs) \<le> size_option (size_list size) xs"
  by (cases xs) simp_all

lemma size_value_parts:
  "x \<in> set (elems (vRecord v)) \<Longrightarrow> size x < size v"
  "x \<in> set (elems (vList v)) \<Longrightarrow> size x < size v"
  "vOptional v = Some op \<Longrightarrow> ovValue op = Some x \<Longrightarrow> size x < size v"
  "vResult v = Some r \<Longrightarrow> size r < size v"
     apply (cases v)
     apply (use size_in_list [of x "elems (vRecord v)" size] size_elems [of "vRecord v"] in simp)
    apply (cases v)
    apply (use size_in_list [of x "elems (vList v)" size] size_elems [of "vList v"] in simp)
   apply (cases v; cases op; simp)
  apply (cases v; simp)
  done

lemma size_outcome_parts:
  "size (oValue r) < size r"
  "oFailure r = Some x \<Longrightarrow> size x < size r"
  by (cases r; simp)+

section \<open>validateValue\<close>

text \<open>A failed result keeps the zero of its success type; both signs of float zero pass.\<close>

definition resultSuccessPayloadIsCanonicalZero :: "core_value \<Rightarrow> bool" where
  "resultSuccessPayloadIsCanonicalZero v =
     (let bare = vResult v = None \<and> vOptional v = None \<and> vList v = None \<and> elems (vRecord v) = [] in
      case tKind (vType v) of
        TypeNumeric \<Rightarrow>
          (case tNumeric (vType v) of
             None \<Rightarrow> False
           | Some n \<Rightarrow> bare \<and>
               (if ntRepresentation n = NumericInteger then vInt v = 0 else f64Eq (vFloat v) 0))
      | TypeList \<Rightarrow> bare
      | TypePrimitive \<Rightarrow> tPrimitive (vType v) = PrimitiveString \<and> vString v = [] \<and> bare
      | _ \<Rightarrow> True)"

function validateValue :: "core_value \<Rightarrow> unit res" where
  "validateValue v =
     (let t = vType v; numRecord = length (elems (vRecord v)) in
      if tKind t = TypeEnum then
        andThen (rejectIf (vInt v \<noteq> 0 \<or> \<not> f64Eq (vFloat v) 0 \<or> vBool v \<or> vResult v \<noteq> None
            \<or> vOptional v \<noteq> None \<or> vList v \<noteq> None \<or> vRecord v \<noteq> None)
          ''enum value carries a non-enum payload'')
          (ValidateEnumTag t (vString v))
      else if tKind t = TypeList then
        (case tList t of
           None \<Rightarrow> Err ''list value does not match its element schema''
         | Some element \<Rightarrow>
             andThen (rejectIf (vList v = None \<or> vResult v \<noteq> None \<or> vOptional v \<noteq> None
                 \<or> numRecord \<noteq> 0)
               ''list value does not match its element schema'')
               (checkAll (\<lambda>x. andThen (rejectIf (\<not> TypeEqual (vType x) element)
                   ''list element type does not match its declaration'') (validateValue x))
                 (elems (vList v))))
      else if tKind t = TypeOptional then
        (case (tOptional t, vOptional v) of
           (Some payload, Some optional) \<Rightarrow>
             andThen (rejectIf (vResult v \<noteq> None \<or> numRecord \<noteq> 0 \<or> vList v \<noteq> None)
               ''optional value does not match its type'')
               (if \<not> ovPresent optional
                then rejectIf (ovValue optional \<noteq> None) ''absent Optional carries a value''
                else case ovValue optional of
                    None \<Rightarrow> Err ''present Optional value type does not match its payload type''
                  | Some x \<Rightarrow>
                      andThen (rejectIf (\<not> TypeEqual (vType x) payload)
                        ''present Optional value type does not match its payload type'')
                        (validateValue x))
         | _ \<Rightarrow> Err ''optional value does not match its type'')
      else if tKind t = TypeRecord then
        (case tRecord t of
           None \<Rightarrow> Err ''record value does not match its field schema''
         | Some schema \<Rightarrow>
             andThen (rejectIf (vResult v \<noteq> None \<or> numRecord \<noteq> length schema \<or> vList v \<noteq> None)
               ''record value does not match its field schema'')
               (checkAll (\<lambda>(x, field). andThen (rejectIf (\<not> TypeEqual (vType x) (rfType field))
                   ''record field type does not match its declaration'') (validateValue x))
                 (zip (elems (vRecord v)) schema)))
      else if tKind t \<noteq> TypeResult then
        andThen (rejectIf (vResult v \<noteq> None) ''non-Result value carries a Result outcome'')
        (andThen (rejectIf (numRecord \<noteq> 0) ''non-record value carries record fields'')
        (andThen (rejectIf (vOptional v \<noteq> None) ''non-Optional value carries an Optional payload'')
        (andThen (rejectIf (vList v \<noteq> None) ''non-list value carries list elements'')
          (if tKind t = TypePrimitive \<and> tPrimitive t = PrimitiveString
           then ValidateText (vString v) else Ret ()))))
      else
        (case (tResult t, vResult v) of
           (Some (success, failure), Some result) \<Rightarrow>
             andThen (rejectIf (\<not> TypeEqual (vType (oValue result)) success)
               ''result payload type does not match its success type'')
             (if oOK result then
                andThen (rejectIf (oError result \<noteq> NoArithmeticError \<or> oFailure result \<noteq> None)
                  ''successful Result carries an error'')
                  (validateValue (oValue result))
              else
                andThen (rejectIf (\<not> resultSuccessPayloadIsCanonicalZero (oValue result))
                  ''failed Result carries a non-canonical success payload'')
                (if tKind failure = TypeArithmeticError then
                   rejectIf (oFailure result \<noteq> None
                     \<or> (oError result \<noteq> ArithmeticOverflow \<and> oError result \<noteq> ArithmeticDivisionByZero))
                     ''failed Result carries an unknown arithmetic error''
                 else
                   case oFailure result of
                     None \<Rightarrow> Err ''failed Result carries an invalid failure value''
                   | Some x \<Rightarrow>
                       andThen (rejectIf (oError result \<noteq> NoArithmeticError
                           \<or> \<not> TypeEqual (vType x) failure)
                         ''failed Result carries an invalid failure value'')
                         (validateValue x)))
         | _ \<Rightarrow> Err ''result value has an invalid Result shape''))"
  by auto
termination
  by (relation "measure size")
    (auto dest: size_value_parts size_value_parts(3,4) [OF sym] set_zip_leftD
      intro: less_trans [OF size_outcome_parts(1)] less_trans [OF size_outcome_parts(2)])

declare validateValue.simps [simp del]

section \<open>Copies\<close>

lemma double_less: "(a :: nat) < b \<Longrightarrow> Suc (2 * a) < 2 * b"
  by simp

text \<open>Assignments to one field of a copied struct.\<close>

definition setResult :: "outcome option \<Rightarrow> core_value \<Rightarrow> core_value" where
  "setResult r v = Value (vType v) (vString v) (vInt v) (vFloat v) (vBool v) r (vRecord v)
     (vList v) (vOptional v)"

definition setRecord :: "core_value list option \<Rightarrow> core_value \<Rightarrow> core_value" where
  "setRecord xs v = Value (vType v) (vString v) (vInt v) (vFloat v) (vBool v) (vResult v) xs
     (vList v) (vOptional v)"

definition setList :: "core_value list option \<Rightarrow> core_value \<Rightarrow> core_value" where
  "setList xs v = Value (vType v) (vString v) (vInt v) (vFloat v) (vBool v) (vResult v)
     (vRecord v) xs (vOptional v)"

definition setOptional :: "optional_value option \<Rightarrow> core_value \<Rightarrow> core_value" where
  "setOptional p v = Value (vType v) (vString v) (vInt v) (vFloat v) (vBool v) (vResult v)
     (vRecord v) (vList v) p"

lemma set_same [simp]:
  "setResult (vResult v) v = v" "setRecord (vRecord v) v = v" "setList (vList v) v = v"
  "setOptional (vOptional v) v = v"
  by (simp_all add: setResult_def setRecord_def setList_def setOptional_def)

text \<open>\<open>cloneRecordValue\<close> turns a nil field slice into an empty one.\<close>

function cloneRecordValue :: "core_value \<Rightarrow> core_value" where
  "cloneRecordValue v =
     setRecord (Some (map (\<lambda>field. if tKind (vType field) = TypeRecord
         then cloneRecordValue field else field) (elems (vRecord v)))) v"
  by auto
termination
  by (relation "measure size") (auto dest: size_value_parts)

function cloneValue :: "core_value \<Rightarrow> core_value"
  and cloneListValue :: "core_value \<Rightarrow> core_value"
  and cloneOptionalValue :: "core_value \<Rightarrow> core_value"
  and cloneOutcome :: "outcome \<Rightarrow> outcome"
where
  "cloneValue v =
     (case tKind (vType v) of
        TypeRecord \<Rightarrow> cloneRecordValue v
      | TypeList \<Rightarrow> cloneListValue v
      | TypeOptional \<Rightarrow> cloneOptionalValue v
      | TypeResult \<Rightarrow> (case vResult v of None \<Rightarrow> v | Some r \<Rightarrow> setResult (Some (cloneOutcome r)) v)
      | _ \<Rightarrow> v)"
| "cloneListValue v =
     (case vList v of None \<Rightarrow> v | Some _ \<Rightarrow> setList (Some (map cloneValue (elems (vList v)))) v)"
| "cloneOptionalValue v =
     (case vOptional v of
        None \<Rightarrow> v
      | Some p \<Rightarrow>
          setOptional (Some (OptionalValue (ovPresent p) (map_option cloneValue (ovValue p)))) v)"
| "cloneOutcome r =
     Outcome (oOK r) (cloneValue (oValue r)) (oError r) (map_option cloneValue (oFailure r))"
  by (auto, metis Inl_Inr_False sumE)
termination
  by (relation "measure (\<lambda>x. case x of
       Inl (Inl v) \<Rightarrow> Suc (2 * size v) | Inl (Inr v) \<Rightarrow> 2 * size v
     | Inr (Inl v) \<Rightarrow> 2 * size v | Inr (Inr r) \<Rightarrow> 2 * size r)")
    (auto dest: size_value_parts(4) intro!: double_less intro: size_value_parts size_outcome_parts)

declare cloneRecordValue.simps [simp del]
declare cloneValue.simps [simp del] cloneListValue.simps [simp del]
  cloneOptionalValue.simps [simp del] cloneOutcome.simps [simp del]

section \<open>Structural equality\<close>

definition equalScalars :: "core_value \<Rightarrow> core_value \<Rightarrow> bool res" where
  "equalScalars l r =
     (let outside = Err ''type is outside structural record equality'' in
      case tKind (vType l) of
        TypeEnum \<Rightarrow> Ret (vString l = vString r)
      | TypePrimitive \<Rightarrow>
          (case tPrimitive (vType l) of
             PrimitiveString \<Rightarrow> Ret (vString l = vString r)
           | PrimitiveBool \<Rightarrow> Ret (vBool l = vBool r)
           | _ \<Rightarrow> outside)
      | TypeNumeric \<Rightarrow>
          (case tNumeric (vType l) of
             None \<Rightarrow> Err ''numeric equality operand has no representation''
           | Some n \<Rightarrow>
               (case ntRepresentation n of
                  NumericInteger \<Rightarrow> Ret (vInt l = vInt r)
                | NumericBinaryFloat \<Rightarrow> Ret (f64Eq (vFloat l) (vFloat r))
                | _ \<Rightarrow> outside))
      | _ \<Rightarrow> outside)"

function (sequential) equalValues :: "core_value \<Rightarrow> core_value \<Rightarrow> bool res"
  and equalFields :: "core_value list \<Rightarrow> core_value list \<Rightarrow> bool res"
where
  "equalValues l r =
     andThen (rejectIf (\<not> TypeEqual (vType l) (vType r))
       ''structural equality operands have different types'')
     (andThen (validateValue l)
     (andThen (validateValue r)
       (if tKind (vType l) = TypeRecord then equalFields (elems (vRecord l)) (elems (vRecord r))
        else equalScalars l r)))"
| "equalFields [] ys = Ret True"
| "equalFields (x # xs) [] = Panic"
| "equalFields (x # xs) (y # ys) =
     bindR (equalValues x y) (\<lambda>equal. if equal then equalFields xs ys else Ret False)"
  by pat_completeness auto
termination
proof (relation "measure (\<lambda>x. case x of Inl (l, _) \<Rightarrow> size l | Inr (xs, _) \<Rightarrow> size_list size xs)",
    goal_cases)
  case (2 l r)
  then show ?case using size_elems [of "vRecord l"] by (cases l) auto
qed simp_all

declare equalValues.simps [simp del]

section \<open>Outcomes\<close>

text \<open>
  \<open>arithmeticOutcome\<close> dereferences the result type of the operator; \<open>value\<close> is one of
  the literals \<open>Value{Int: value}\<close> and \<open>Value{Float: value}\<close>, as a function of the type
  it is given here.
\<close>

definition arithmeticOutcome ::
  "core_type \<Rightarrow> (core_type \<Rightarrow> core_value) \<Rightarrow> arithmetic_error \<Rightarrow> outcome res"
where
  "arithmeticOutcome resultType val arithmeticError =
     bindR (deref (tResult resultType)) (\<lambda>(success, _).
       Ret (Outcome (arithmeticError = NoArithmeticError) (val success) arithmeticError None))"

definition completeFunctionOutcome :: "core_type \<Rightarrow> outcome \<Rightarrow> outcome" where
  "completeFunctionOutcome returnType r =
     (case (tKind returnType, oFailure r, tResult returnType) of
        (TypeOptional, Some failure, _) \<Rightarrow>
          if \<not> oOK r \<and> TypeEqual (vType failure) returnType
          then okOutcome (cloneOptionalValue failure) else r
      | (TypeResult, Some failure, Some (success, failureType)) \<Rightarrow>
          if \<not> oOK r \<and> TypeEqual (vType failure) failureType
            \<and> \<not> TypeEqual (vType (oValue r)) success
          then Outcome False (typedZero success) NoArithmeticError (Some (cloneValue failure))
          else r
      | _ \<Rightarrow> r)"

section \<open>Conforming values\<close>

text \<open>
  \<open>conforms v t\<close> is the test the evaluator applies to every argument: the type of the
  value matches and the value is complete. The rules below say what it gives for each kind.
\<close>

definition conforms :: "core_value \<Rightarrow> core_type \<Rightarrow> bool" where
  "conforms v t \<longleftrightarrow> TypeEqual (vType v) t \<and> validateValue v = Ret ()"

definition resultConforms :: "core_type \<Rightarrow> core_type \<Rightarrow> outcome \<Rightarrow> bool" where
  "resultConforms s f r \<longleftrightarrow>
     TypeEqual (vType (oValue r)) s
     \<and> (if oOK r then oError r = NoArithmeticError \<and> oFailure r = None \<and> conforms (oValue r) s
        else resultSuccessPayloadIsCanonicalZero (oValue r)
          \<and> (if tKind f = TypeArithmeticError
             then oFailure r = None \<and> oError r \<in> {ArithmeticOverflow, ArithmeticDivisionByZero}
             else oError r = NoArithmeticError \<and> (\<exists>x. oFailure r = Some x \<and> conforms x f)))"

lemma conforms_kind: "conforms v t \<Longrightarrow> tKind (vType v) = tKind t"
  by (simp add: conforms_def TypeEqual_kind)

lemma conforms_equal: "conforms v t \<Longrightarrow> TypeEqual t u \<Longrightarrow> conforms v u"
  by (auto simp: conforms_def intro: TypeEqual_trans)

lemma conforms_list:
  assumes "tKind t = TypeList" "tList t = Some el" "conforms v t"
  obtains xs where "vList v = Some xs" "vResult v = None" "vOptional v = None"
    "elems (vRecord v) = []" "\<And>x. x \<in> set xs \<Longrightarrow> conforms x el"
proof -
  note eq = TypeEqual_fields [of "vType v" t] conforms_kind [OF assms(3)]
  obtain el' where el: "tList (vType v) = Some el'" "TypeEqual el' el"
    using assms eq by (cases "tList (vType v)") (auto simp: conforms_def opt_invs)
  from assms el eq have "validateValue v = Ret ()" by (simp add: conforms_def)
  then obtain xs where "vList v = Some xs" "vResult v = None" "vOptional v = None"
      "elems (vRecord v) = []" "\<forall>x \<in> set xs. TypeEqual (vType x) el' \<and> validateValue x = Ret ()"
    using assms(1) eq el by (subst (asm) validateValue.simps) (auto simp: Let_def)
  with el show thesis by (intro that) (auto simp: conforms_def intro: TypeEqual_trans)
qed

lemma conforms_listI:
  assumes "tKind t = TypeList" "tList t = Some el" "TypeEqual t t" "\<And>x. x \<in> set xs \<Longrightarrow> conforms x el"
  shows "conforms (listValue t xs) t"
  using assms by (subst conforms_def, subst validateValue.simps)
    (simp add: Let_def conforms_def listValue_def)

lemma conforms_optional:
  assumes "tKind t = TypeOptional" "tOptional t = Some p" "conforms v t"
  obtains op where "vOptional v = Some op" "vResult v = None" "vList v = None" "elems (vRecord v) = []"
    "ovPresent op \<Longrightarrow> \<exists>x. ovValue op = Some x \<and> conforms x p" "\<not> ovPresent op \<Longrightarrow> ovValue op = None"
proof -
  note eq = TypeEqual_fields [of "vType v" t] conforms_kind [OF assms(3)]
  obtain p' where p: "tOptional (vType v) = Some p'" "TypeEqual p' p"
    using assms eq by (cases "tOptional (vType v)") (auto simp: conforms_def opt_invs)
  from assms have "validateValue v = Ret ()" by (simp add: conforms_def)
  then obtain op where "vOptional v = Some op" "vResult v = None" "vList v = None"
      "elems (vRecord v) = []"
      "if \<not> ovPresent op then ovValue op = None
       else (\<exists>x. ovValue op = Some x \<and> TypeEqual (vType x) p' \<and> validateValue x = Ret ())"
    using assms(1) eq p
    by (subst (asm) validateValue.simps) (auto simp: Let_def split: option.splits if_splits)
  with p show thesis
    by (intro that) (auto simp: conforms_def split: if_splits intro: TypeEqual_trans)
qed

lemma conforms_optionalI:
  assumes "tKind t = TypeOptional" "tOptional t = Some p" "TypeEqual t t"
    "\<And>x. y = Some x \<Longrightarrow> conforms x p"
  shows "conforms (optionalValue t y) t"
  using assms by (subst conforms_def, subst validateValue.simps)
    (cases y; simp add: Let_def conforms_def optionalValue_def)

lemma conforms_record:
  assumes "tKind t = TypeRecord" "tRecord t = Some fs" "conforms v t"
  shows "vResult v = None" "vList v = None" "length (elems (vRecord v)) = length fs"
    "j < length fs \<Longrightarrow> conforms (elems (vRecord v) ! j) (rfType (fs ! j))"
proof -
  note eq = TypeEqual_fields [of "vType v" t] conforms_kind [OF assms(3)]
  obtain fs' where f: "tRecord (vType v) = Some fs'" "fieldsEqual fs' fs"
    using assms eq by (cases "tRecord (vType v)") (auto simp: conforms_def opt_invs)
  note n = fieldsEqual_nth [OF f(2)]
  from assms have "validateValue v = Ret ()" by (simp add: conforms_def)
  then have v: "vResult v = None" "vList v = None" "length (elems (vRecord v)) = length fs'"
      "\<forall>(x, field) \<in> set (zip (elems (vRecord v)) fs').
         TypeEqual (vType x) (rfType field) \<and> validateValue x = Ret ()"
    using assms(1) eq f by (subst (asm) validateValue.simps; auto simp: Let_def)+
  then show "vResult v = None" "vList v = None" "length (elems (vRecord v)) = length fs"
    using n by simp_all
  show "conforms (elems (vRecord v) ! j) (rfType (fs ! j))" if "j < length fs"
  proof -
    have "(elems (vRecord v) ! j, fs' ! j) \<in> set (zip (elems (vRecord v)) fs')"
      using that n v(3) by (auto simp: set_zip)
    with v(4) n that show ?thesis by (auto simp: conforms_def intro: TypeEqual_trans)
  qed
qed

lemma conforms_recordI:
  assumes "tKind t = TypeRecord" "tRecord t = Some fs" "TypeEqual t t" "length xs = length fs"
    "\<And>j. j < length fs \<Longrightarrow> conforms (xs ! j) (rfType (fs ! j))"
  shows "conforms (recordValue t xs) t"
proof -
  have "\<forall>(x, field) \<in> set (zip xs fs). TypeEqual (vType x) (rfType field) \<and> validateValue x = Ret ()"
    using assms(4,5) by (auto simp: set_zip conforms_def)
  then show ?thesis
    using assms(1-4) by (subst conforms_def, subst validateValue.simps)
      (auto simp: Let_def recordValue_def)
qed

definition scalarKind :: "type_kind \<Rightarrow> bool" where
  "scalarKind k \<longleftrightarrow> k \<in> {TypePrimitive, TypeNumeric, TypeArithmeticError}"

lemma conforms_scalar:
  assumes "scalarKind (tKind t)" "conforms v t"
  shows "vResult v = None" "elems (vRecord v) = []" "vOptional v = None" "vList v = None"
    "tKind t = TypePrimitive \<Longrightarrow> tPrimitive t = PrimitiveString \<Longrightarrow> ValidateText (vString v) = Ret ()"
proof -
  note eq = TypeEqual_fields [of "vType v" t] conforms_kind [OF assms(2)]
  from assms have "validateValue v = Ret ()" by (simp add: conforms_def)
  then have "vResult v = None \<and> elems (vRecord v) = [] \<and> vOptional v = None \<and> vList v = None \<and>
      (tKind t = TypePrimitive \<and> tPrimitive t = PrimitiveString \<longrightarrow> ValidateText (vString v) = Ret ())"
    using assms eq by (subst (asm) validateValue.simps)
      (auto simp: Let_def scalarKind_def conforms_def split: if_splits)
  then show "vResult v = None" "elems (vRecord v) = []" "vOptional v = None" "vList v = None"
    "tKind t = TypePrimitive \<Longrightarrow> tPrimitive t = PrimitiveString \<Longrightarrow> ValidateText (vString v) = Ret ()"
    by simp_all
qed

lemma conforms_scalarI:
  assumes "scalarKind (tKind t)" "TypeEqual (vType v) t" "vResult v = None" "elems (vRecord v) = []"
    "vOptional v = None" "vList v = None"
    "tKind t = TypePrimitive \<Longrightarrow> tPrimitive t = PrimitiveString \<Longrightarrow> ValidateText (vString v) = Ret ()"
  shows "conforms v t"
  using assms TypeEqual_kind [OF assms(2)] TypeEqual_fields(1) [OF assms(2)]
  by (subst conforms_def, subst validateValue.simps) (auto simp: Let_def scalarKind_def)

lemma conforms_enum:
  assumes "tKind t = TypeEnum" "conforms v t"
  shows "\<exists>m \<in> set (elems (tEnum t)). emTag m = vString v"
proof -
  note eq = TypeEqual_fields [of "vType v" t] conforms_kind [OF assms(2)]
  from assms have "validateValue v = Ret ()" by (simp add: conforms_def)
  then have "ValidateEnumTag (vType v) (vString v) = Ret ()"
    using assms eq by (subst (asm) validateValue.simps) (auto simp: Let_def)
  then show ?thesis
    using assms(2) eq(3) by (auto simp: ValidateEnumTag_def list_ex_iff conforms_def elems_def)
qed

lemma f64Eq_zero [simp]: "f64Eq 0 0"
  by code_simp

lemma conforms_enumI:
  assumes "tKind t = TypeEnum" "TypeEqual t t" "ValidateEnumTag t s = Ret ()"
  shows "conforms (stringValue t s) t"
  using assms f64Eq_zero by (subst conforms_def, subst validateValue.simps)
    (simp add: Let_def stringValue_def)

lemma conforms_result:
  assumes "tKind t = TypeResult" "tResult t = Some (s, f)" "conforms v t"
  obtains r where "vResult v = Some r" "resultConforms s f r"
proof -
  note eq = TypeEqual_fields [of "vType v" t] conforms_kind [OF assms(3)]
  obtain s' f' where p: "tResult (vType v) = Some (s', f')" "TypeEqual s' s" "TypeEqual f' f"
    using assms eq by (cases "tResult (vType v)") (auto simp: conforms_def opt_invs)
  from assms have "validateValue v = Ret ()" by (simp add: conforms_def)
  then obtain r where "vResult v = Some r" "resultConforms s' f' r"
    using assms(1) eq p by (subst (asm) validateValue.simps)
      (auto simp: Let_def resultConforms_def conforms_def split: option.splits if_splits)
  with p show thesis
    by (intro that) (auto simp: resultConforms_def TypeEqual_kind
        split: if_splits intro: TypeEqual_trans conforms_equal)
qed

lemma conforms_resultI:
  assumes "tKind t = TypeResult" "tResult t = Some (s, f)" "TypeEqual t t" "resultConforms s f r"
  shows "conforms (resultValue t r) t"
  using assms by (subst conforms_def, subst validateValue.simps)
    (auto simp: Let_def resultConforms_def conforms_def resultValue_def)

section \<open>Copies of conforming values\<close>

lemma validateFields_each:
  "validateFields owner ns ids fs = Ret () \<Longrightarrow> field \<in> set fs \<Longrightarrow>
     isPrimitiveRecordFieldType (rfType field) \<and> validateType (rfType field) = Ret ()"
proof (induction fs arbitrary: ns ids)
  case (Cons g gs)
  then show ?case by (cases g) (auto simp: Let_def)
qed simp

lemma recordFieldType_scalar: "isPrimitiveRecordFieldType t \<Longrightarrow> scalarKind (tKind t)"
  by (auto simp: isPrimitiveRecordFieldType_def scalarKind_def split: if_splits option.splits)

lemma record_type_fields:
  assumes "validateType t = Ret ()" "tKind t = TypeRecord"
  obtains fs where "tRecord t = Some fs" "fs \<noteq> []"
    "\<And>field. field \<in> set fs \<Longrightarrow> scalarKind (tKind (rfType field)) \<and> validateType (rfType field) = Ret ()"
proof -
  from assms obtain g gs owner where "tRecord t = Some (g # gs)"
      "validateFields owner [] [] (g # gs) = Ret ()"
    by (rule validateType_record)
  with validateFields_each recordFieldType_scalar show thesis by (intro that) blast+
qed

lemma scalarKind_simps [simp]:
  "scalarKind TypePrimitive" "scalarKind TypeNumeric" "scalarKind TypeArithmeticError"
  "\<not> scalarKind TypeRecord" "\<not> scalarKind TypeList" "\<not> scalarKind TypeOptional"
  "\<not> scalarKind TypeResult" "\<not> scalarKind TypeEnum"
  by (simp_all add: scalarKind_def)

lemma cloneValue_scalar: "scalarKind (tKind (vType v)) \<or> tKind (vType v) = TypeEnum \<Longrightarrow> cloneValue v = v"
  by (subst cloneValue.simps) (auto simp: scalarKind_def)

lemma cloneRecordValue_id:
  assumes "conforms v t" "validateType t = Ret ()" "tKind t = TypeRecord"
  shows "cloneRecordValue v = v"
proof -
  obtain fs where fs: "tRecord t = Some fs" "fs \<noteq> []"
      "\<And>field. field \<in> set fs \<Longrightarrow> scalarKind (tKind (rfType field)) \<and> validateType (rfType field) = Ret ()"
    using assms record_type_fields by blast
  note r = conforms_record [OF assms(3) fs(1) assms(1)]
  have "tKind (vType x) \<noteq> TypeRecord" if "x \<in> set (elems (vRecord v))" for x
  proof -
    from that obtain j where "j < length fs" "x = elems (vRecord v) ! j"
      using r(3) by (auto simp: in_set_conv_nth)
    then have "scalarKind (tKind (vType x))"
      using r(4) [of j] fs(3) [of "fs ! j"] conforms_kind by fastforce
    then show ?thesis by auto
  qed
  then have "map (\<lambda>field. if tKind (vType field) = TypeRecord then cloneRecordValue field else field)
      (elems (vRecord v)) = elems (vRecord v)"
    by (intro map_idI) auto
  moreover have "Some (elems (vRecord v)) = vRecord v"
    using r(3) fs(2) by (cases "vRecord v") auto
  ultimately show ?thesis by (subst cloneRecordValue.simps) simp
qed

text \<open>The success types of results: text, numbers and lists, never records.\<close>

lemma result_success_kind:
  assumes "isArithmeticResultType t \<or> isBoundedValueResultType t" "tResult t = Some (s, f)"
  shows "scalarKind (tKind s) \<or> tKind s = TypeList"
    and "scalarKind (tKind f)"
  using assms TypeEqual_kind [of s textType] TypeEqual_kind [of f textType]
    TypeEqual_kind [of s "SignedInteger 64"] TypeEqual_kind [of s "BinaryFloat 64"]
  by (auto simp: isArithmeticResultType_def isBoundedValueResultType_def isSnapshotResultType_def
      isTextResultType_def primitiveOf_def SignedInteger_def BinaryFloat_def)

lemma cloneList_nil: "vList v = None \<Longrightarrow> tKind (vType v) = TypeList \<Longrightarrow> cloneValue v = v"
  by (subst cloneValue.simps, subst cloneListValue.simps) simp

lemma resultConforms_clone:
  assumes "resultConforms s f r" "validateType s = Ret ()" "validateType f = Ret ()"
    "scalarKind (tKind s) \<or> tKind s = TypeList" "scalarKind (tKind f)"
    "conforms (oValue r) s \<Longrightarrow> cloneValue (oValue r) = oValue r"
  shows "cloneOutcome r = r"
proof -
  have k: "tKind (vType (oValue r)) = tKind s"
    using assms(1) TypeEqual_kind by (auto simp: resultConforms_def)
  have "cloneValue (oValue r) = oValue r"
  proof (cases "scalarKind (tKind s)")
    case True
    then show ?thesis using k cloneValue_scalar by simp
  next
    case False
    then have l: "tKind s = TypeList" using assms(4) by simp
    show ?thesis
    proof (cases "oOK r")
      case True
      then show ?thesis using assms(1,6) by (simp add: resultConforms_def)
    next
      case False
      then have "vList (oValue r) = None"
        using assms(1) k l
        by (simp add: resultConforms_def resultSuccessPayloadIsCanonicalZero_def Let_def)
      then show ?thesis using cloneList_nil k l by simp
    qed
  qed
  moreover have "map_option cloneValue (oFailure r) = oFailure r"
    using assms(1,5) conforms_kind cloneValue_scalar
    by (cases "oFailure r") (auto simp: resultConforms_def split: if_splits)
  ultimately show ?thesis by (subst cloneOutcome.simps) simp
qed

lemma cloneValue_id:
  "conforms v t \<Longrightarrow> validateType t = Ret () \<Longrightarrow> cloneValue v = v"
proof (induction v arbitrary: t rule: measure_induct_rule [of size])
  case (less v)
  note k = conforms_kind [OF less.prems(1)]
  have "supportedKind (tKind t) \<or> tKind t = TypeEnum"
    using validateType_common(2) less.prems by blast
  then consider "scalarKind (tKind t) \<or> tKind t = TypeEnum" | "tKind t = TypeRecord" | "tKind t = TypeList"
    | "tKind t = TypeOptional" | "tKind t = TypeResult"
    by (auto simp: supportedKind_def)
  then show ?case
  proof cases
    case 1
    then show ?thesis using k cloneValue_scalar by simp
  next
    case 2
    then show ?thesis using k cloneRecordValue_id [OF less.prems]
      by (subst cloneValue.simps) simp
  next
    case 3
    obtain el where el: "tList t = Some el" "validateType el = Ret ()"
      using validateType_list [OF less.prems(2) 3] by metis
    obtain xs where xs: "vList v = Some xs" "\<And>x. x \<in> set xs \<Longrightarrow> conforms x el"
      using conforms_list [OF 3 el(1) less.prems(1)] by metis
    have "map cloneValue xs = xs"
      using less.IH xs el(2) size_value_parts(2) [of _ v] by (intro map_idI) auto
    then have "cloneListValue v = v"
      using xs(1) set_same(3) [of v] by (subst cloneListValue.simps) simp
    then show ?thesis using k 3 by (subst cloneValue.simps) simp
  next
    case 4
    obtain p where p: "tOptional t = Some p" "validateType p = Ret ()"
      using validateType_optional [OF less.prems(2) 4] by metis
    obtain op where op: "vOptional v = Some op"
        "ovPresent op \<Longrightarrow> \<exists>x. ovValue op = Some x \<and> conforms x p" "\<not> ovPresent op \<Longrightarrow> ovValue op = None"
      using conforms_optional [OF 4 p(1) less.prems(1)] by metis
    have "map_option cloneValue (ovValue op) = ovValue op"
      using op less.IH [of _ p] p(2) size_value_parts(3) [of v op]
      by (cases "ovValue op"; cases "ovPresent op") auto
    then have "cloneOptionalValue v = v"
      using op(1) set_same(4) [of v] by (subst cloneOptionalValue.simps) simp
    then show ?thesis using k 4 by (subst cloneValue.simps) simp
  next
    case 5
    obtain s f where t: "t = resultOf s f" "isArithmeticResultType t \<or> isBoundedValueResultType t"
        "validateType s = Ret ()" "validateType f = Ret ()"
      using validateType_result [OF less.prems(2) 5] by metis
    then have sf: "tResult t = Some (s, f)" by (simp add: resultOf_def)
    obtain r where r: "vResult v = Some r" "resultConforms s f r"
      using conforms_result [OF 5 sf less.prems(1)] by metis
    have "cloneOutcome r = r"
      using r t(3,4) result_success_kind [OF t(2) sf] less.IH [of "oValue r" s]
        size_value_parts(4) [OF r(1)] size_outcome_parts(1) [of r]
      by (intro resultConforms_clone [of s f]) auto
    then have "setResult (Some (cloneOutcome r)) v = v" using r(1) set_same(1) [of v] by simp
    then show ?thesis using k 5 r(1) by (subst cloneValue.simps) simp
  qed
qed

lemma cloneListValue_id:
  "conforms v t \<Longrightarrow> validateType t = Ret () \<Longrightarrow> tKind t = TypeList \<Longrightarrow> cloneListValue v = v"
  using cloneValue_id [of v t] conforms_kind [of v t] by (simp add: cloneValue.simps)

lemma cloneOptionalValue_id:
  "conforms v t \<Longrightarrow> validateType t = Ret () \<Longrightarrow> tKind t = TypeOptional \<Longrightarrow> cloneOptionalValue v = v"
  using cloneValue_id [of v t] conforms_kind [of v t] by (simp add: cloneValue.simps)

lemma cloneOutcome_okOutcome [simp]:
  "cloneValue v = v \<Longrightarrow> cloneOutcome (okOutcome v) = okOutcome v"
  by (subst cloneOutcome.simps) (simp add: okOutcome_def)

lemma resultConforms_clone_id:
  assumes "resultConforms s f r" "validateType t = Ret ()" "tKind t = TypeResult" "tResult t = Some (s, f)"
  shows "cloneOutcome r = r"
proof -
  have "conforms (resultValue t r) t"
    using assms conforms_resultI TypeEqual_refl by blast
  from cloneValue_id [OF this assms(2)] assms(3) show ?thesis
    by (subst (asm) cloneValue.simps) (simp add: resultValue_def setResult_def)
qed

section \<open>Equality of conforming values\<close>

text \<open>What equality of two scalars of a record field type comes down to.\<close>

definition scalarEqual :: "core_type \<Rightarrow> core_value \<Rightarrow> core_value \<Rightarrow> bool" where
  "scalarEqual t x y \<longleftrightarrow>
     (if tKind t = TypePrimitive
      then if tPrimitive t = PrimitiveString then vString x = vString y else vBool x = vBool y
      else if ntRepresentation (the (tNumeric t)) = NumericInteger then vInt x = vInt y
      else f64Eq (vFloat x) (vFloat y))"

lemma equalValues_conforming:
  assumes "conforms x t" "conforms y t"
  shows "equalValues x y =
    (if tKind t = TypeRecord then equalFields (elems (vRecord x)) (elems (vRecord y))
     else equalScalars x y)"
proof -
  have "TypeEqual (vType x) (vType y)"
    using assms TypeEqual_sym(1) TypeEqual_trans(1) unfolding conforms_def by blast
  moreover have "validateValue x = Ret ()" "validateValue y = Ret ()" "tKind (vType x) = tKind t"
    using assms conforms_kind by (simp_all add: conforms_def)
  ultimately show ?thesis by (subst equalValues.simps) simp
qed

lemma equalScalars_eq:
  assumes "isPrimitiveRecordFieldType t" "tKind (vType x) = tKind t"
    "tPrimitive (vType x) = tPrimitive t" "tNumeric (vType x) = tNumeric t"
  shows "equalScalars x y = Ret (scalarEqual t x y)"
proof (cases "tKind t = TypePrimitive")
  case True
  then have "tPrimitive t = PrimitiveString \<or> tPrimitive t = PrimitiveBool"
    using assms(1) by (simp add: isPrimitiveRecordFieldType_def)
  with True assms(2-4) show ?thesis by (auto simp: equalScalars_def scalarEqual_def Let_def)
next
  case False
  then obtain n where n: "tNumeric t = Some n" "tKind t = TypeNumeric" "numericSupported n"
    using assms(1) by (auto simp: isPrimitiveRecordFieldType_def split: option.splits)
  then have "ntRepresentation n = NumericInteger \<or> ntRepresentation n = NumericBinaryFloat"
    by (auto simp: numericSupported_def)
  with n assms(2-4) show ?thesis by (auto simp: equalScalars_def scalarEqual_def Let_def)
qed

lemma equalValues_scalar:
  assumes "isPrimitiveRecordFieldType t" "conforms x t" "conforms y t"
  shows "equalValues x y = Ret (scalarEqual t x y)"
proof -
  have "TypeEqual (vType x) t" using assms(2) by (simp add: conforms_def)
  from equalScalars_eq [OF assms(1) TypeEqual_kind [OF this] TypeEqual_fields(1,2) [OF this]]
  have "equalScalars x y = Ret (scalarEqual t x y)" .
  moreover have "tKind t \<noteq> TypeRecord" using recordFieldType_scalar [OF assms(1)] by auto
  ultimately show ?thesis using equalValues_conforming [OF assms(2,3)] by simp
qed

lemma equalFields_scalars:
  assumes "length xs = length fs" "length ys = length fs"
    "\<And>j. j < length fs \<Longrightarrow> isPrimitiveRecordFieldType (rfType (fs ! j))
       \<and> conforms (xs ! j) (rfType (fs ! j)) \<and> conforms (ys ! j) (rfType (fs ! j))"
  shows "equalFields xs ys =
    Ret (\<forall>j < length fs. scalarEqual (rfType (fs ! j)) (xs ! j) (ys ! j))"
  using assms
proof (induction fs arbitrary: xs ys)
  case (Cons f fs)
  obtain x xs' y ys' where xy: "xs = x # xs'" "ys = y # ys'"
    using Cons.prems(1,2) by (cases xs; cases ys) auto
  have h: "equalValues x y = Ret (scalarEqual (rfType f) x y)"
    using Cons.prems(3) [of 0] xy by (intro equalValues_scalar) simp_all
  have t: "equalFields xs' ys' = Ret (\<forall>j < length fs. scalarEqual (rfType (fs ! j)) (xs' ! j) (ys' ! j))"
    using Cons.prems(1,2) Cons.prems(3) [of "Suc _"] xy by (intro Cons.IH) simp_all
  show ?case by (simp add: xy h t All_less_Suc2)
qed simp

lemma equalValues_record:
  assumes "validateType t = Ret ()" "tKind t = TypeRecord" "tRecord t = Some fs"
    "conforms x t" "conforms y t"
  shows "equalValues x y = Ret (\<forall>j < length fs. scalarEqual (rfType (fs ! j))
    (elems (vRecord x) ! j) (elems (vRecord y) ! j))"
proof -
  obtain owner where "validateFields owner [] [] fs = Ret ()"
    using validateType_record [OF assms(1,2)] assms(3) by (metis option.inject)
  then have "isPrimitiveRecordFieldType (rfType (fs ! j))" if "j < length fs" for j
    using that validateFields_each nth_mem by blast
  then have "equalFields (elems (vRecord x)) (elems (vRecord y)) = Ret (\<forall>j < length fs.
      scalarEqual (rfType (fs ! j)) (elems (vRecord x) ! j) (elems (vRecord y) ! j))"
    using conforms_record [OF assms(2,3)] assms(4,5) by (intro equalFields_scalars) blast+
  then show ?thesis using equalValues_conforming [OF assms(4,5)] assms(2) by simp
qed

lemma equalValues_enum:
  assumes "tKind t = TypeEnum" "conforms x t" "conforms y t"
  shows "equalValues x y = Ret (vString x = vString y)"
  using equalValues_conforming [OF assms(2,3)] conforms_kind [OF assms(2)] assms(1)
  by (simp add: equalScalars_def Let_def)

end
