(* ===== verification/CaseFold.thy ===== *)
theory CaseFold
  imports Text
begin

text \<open>
  Unicode case folding, coreir/casefold.go: the loader of the pinned data file and the
  folded substring tests. The contents of the data file are an argument of the loader, and
  the table it builds is an argument of the operations; \<open>foldTableOK\<close> is the invariant
  the loader establishes and the operations rely on.
\<close>

section \<open>The loader\<close>

text \<open>The pieces of \<open>strings\<close> and \<open>strconv\<close> the loader uses.\<close>

definition TrimSpace :: "string \<Rightarrow> string" where
  "TrimSpace value =
     (let start = trimStart value 0;
          end = trimEnd value start (length value)
      in take (end - start) (drop start value))"

fun splitOn :: "char \<Rightarrow> string \<Rightarrow> string list" where
  "splitOn sep [] = [[]]"
| "splitOn sep (c # cs) =
     (if c = sep then [] # splitOn sep cs
      else case splitOn sep cs of [] \<Rightarrow> [[c]] | w # ws \<Rightarrow> (c # w) # ws)"

definition isAsciiSpace :: "char \<Rightarrow> bool" where
  "isAsciiSpace c \<longleftrightarrow> byte c = 0x20 \<or> (9 \<le> byte c \<and> byte c \<le> 13)"

fun fieldsOf :: "string \<Rightarrow> string \<Rightarrow> string list" where
  "fieldsOf cur [] = (if cur = [] then [] else [rev cur])"
| "fieldsOf cur (c # cs) =
     (if isAsciiSpace c then (if cur = [] then fieldsOf [] cs else rev cur # fieldsOf [] cs)
      else fieldsOf (c # cur) cs)"

definition hexDigit :: "char \<Rightarrow> nat option" where
  "hexDigit c =
     (let b = byte c in
      if 0x30 \<le> b \<and> b \<le> 0x39 then Some (b - 0x30)
      else if 0x41 \<le> b \<and> b \<le> 0x46 then Some (b - 0x41 + 10)
      else if 0x61 \<le> b \<and> b \<le> 0x66 then Some (b - 0x61 + 10)
      else None)"

fun parseHexDigits :: "nat \<Rightarrow> string \<Rightarrow> nat option" where
  "parseHexDigits acc [] = Some acc"
| "parseHexDigits acc (c # cs) =
     (case hexDigit c of None \<Rightarrow> None
      | Some d \<Rightarrow> if acc * 16 + d < 2 ^ 32 then parseHexDigits (acc * 16 + d) cs else None)"

text \<open>\<open>strconv.ParseUint(s, 16, 32)\<close>.\<close>

definition ParseUintHex32 :: "string \<Rightarrow> nat option" where
  "ParseUintHex32 s = (if s = [] then None else parseHexDigits 0 s)"

definition parseCaseFoldingScalar :: "string \<Rightarrow> nat res" where
  "parseCaseFoldingScalar encoded =
     (case ParseUintHex32 encoded of None \<Rightarrow> Panic
      | Some value \<Rightarrow>
          if value > 0x10FFFF \<or> (value \<ge> 0xD800 \<and> value \<le> 0xDFFF) then Panic else Ret value)"

fun parseReplacement :: "string list \<Rightarrow> string res" where
  "parseReplacement [] = Ret []"
| "parseReplacement (encoded # rest) =
     bindR (parseCaseFoldingScalar encoded) (\<lambda>r.
       bindR (parseReplacement rest) (\<lambda>s. Ret (encodeRune r @ s)))"

type_synonym fold_table = "(nat \<times> string) list"

text \<open>One pass of the scanner loop; \<open>byRune\<close> and \<open>mappings\<close> hold the same entries.\<close>

definition loadCaseFoldingLine :: "fold_table \<Rightarrow> string \<Rightarrow> fold_table res" where
  "loadCaseFoldingLine mappings text =
     (let line = TrimSpace (takeWhile (\<lambda>c. c \<noteq> CHR ''#'') text) in
      if line = [] then Ret mappings
      else
        (case splitOn (CHR '';'') line of
           f0 # f1 # f2 # _ \<Rightarrow>
             (let status = TrimSpace f1 in
              if status \<noteq> ''C'' \<and> status \<noteq> ''F'' then Ret mappings
              else
                bindR (parseCaseFoldingScalar (TrimSpace f0)) (\<lambda>source.
                  if source \<in> fst ` set mappings then Panic
                  else bindR (parseReplacement (fieldsOf [] (TrimSpace f2))) (\<lambda>replacement.
                    if replacement = [] then Panic
                    else Ret (mappings @ [(source, replacement)]))))
         | _ \<Rightarrow> Panic))"

fun loadCaseFoldingLines :: "fold_table \<Rightarrow> string list \<Rightarrow> fold_table res" where
  "loadCaseFoldingLines mappings [] = Ret mappings"
| "loadCaseFoldingLines mappings (line # lines) =
     bindR (loadCaseFoldingLine mappings line) (\<lambda>m. loadCaseFoldingLines m lines)"

text \<open>
  \<open>mustLoadCaseFoldingData\<close>: the digest check (crypto/sha256 is the argument
  \<open>digest\<close>), the loop, the count, and the sort by source.
\<close>

definition mustLoadCaseFoldingData :: "(string \<Rightarrow> string) \<Rightarrow> string \<Rightarrow> string list \<Rightarrow> fold_table res" where
  "mustLoadCaseFoldingData digest pinned lines =
     (if digest (concat (map (\<lambda>l. l @ [CHR 0x0A]) lines)) \<noteq> pinned then Panic
      else bindR (loadCaseFoldingLines [] lines) (\<lambda>mappings.
        if length mappings \<noteq> 1585 then Panic
        else Ret (sort_key fst mappings)))"

section \<open>Folding\<close>

definition caseFoldingByRune :: "fold_table \<Rightarrow> nat \<Rightarrow> string option" where
  "caseFoldingByRune table = map_of table"

definition foldRune :: "fold_table \<Rightarrow> nat \<Rightarrow> string" where
  "foldRune table scalar =
     (case caseFoldingByRune table scalar of Some replacement \<Rightarrow> replacement
      | None \<Rightarrow> encodeRune scalar)"

definition foldValidCaseText :: "fold_table \<Rightarrow> string \<Rightarrow> string" where
  "foldValidCaseText table value = concat (map (foldRune table) (runes value))"

definition FoldCaseText :: "fold_table \<Rightarrow> string \<Rightarrow> string res" where
  "FoldCaseText table value = andThen (ValidateText value) (Ret (foldValidCaseText table value))"

definition ContainsCaseFoldedText :: "fold_table \<Rightarrow> string \<Rightarrow> string \<Rightarrow> bool res" where
  "ContainsCaseFoldedText table value query =
     andThen (ValidateText value)
       (andThen (ValidateText query)
         (Ret (stringsContains (foldValidCaseText table value) (foldValidCaseText table query))))"

fun stringsJoin :: "string list \<Rightarrow> string \<Rightarrow> string" where
  "stringsJoin [] sep = []"
| "stringsJoin [s] sep = s"
| "stringsJoin (s # ss) sep = s @ sep @ stringsJoin ss sep"

definition ContainsJoinedCaseFoldedText :: "fold_table \<Rightarrow> string list \<Rightarrow> string \<Rightarrow> bool res" where
  "ContainsJoinedCaseFoldedText table fields query =
     andThen (rejectIf (length fields < 2) ''joined value has too few fields'')
       (andThen (checkAll ValidateText fields)
         (andThen (ValidateText query)
           (bindR (TrimText query) (\<lambda>trimmed.
             Ret (stringsContains (foldValidCaseText table (stringsJoin fields '' ''))
                    (foldValidCaseText table trimmed))))))"

section \<open>The table the loader builds\<close>

definition foldTableOK :: "fold_table \<Rightarrow> bool" where
  "foldTableOK table \<longleftrightarrow> distinct (map fst table) \<and>
     (\<forall>(source, replacement) \<in> set table.
        isScalar source \<and> replacement \<noteq> [] \<and> validString replacement)"

lemma parseCaseFoldingScalar_scalar: "parseCaseFoldingScalar e = Ret r \<Longrightarrow> isScalar r"
  by (auto simp: parseCaseFoldingScalar_def isScalar_def split: option.splits if_splits)

lemma validString_encodeRune: "isScalar r \<Longrightarrow> validString (encodeRune r)"
  using validString_encode [of "[r]"] by simp

lemma validString_Nil [simp]: "validString []"
  by (simp add: validString.simps)

lemma parseReplacement_valid: "parseReplacement es = Ret s \<Longrightarrow> validString s"
  by (induction es arbitrary: s)
    (auto intro: validString_append validString_encodeRune parseCaseFoldingScalar_scalar)

lemma loadCaseFoldingLine_OK:
  assumes "foldTableOK m" "loadCaseFoldingLine m line = Ret m'"
  shows "foldTableOK m'"
  using assms parseCaseFoldingScalar_scalar parseReplacement_valid
  by (fastforce simp: loadCaseFoldingLine_def foldTableOK_def Let_def split: if_splits list.splits)

lemma loadCaseFoldingLines_OK:
  "foldTableOK m \<Longrightarrow> loadCaseFoldingLines m lines = Ret m' \<Longrightarrow> foldTableOK m'"
  by (induction lines arbitrary: m) (auto intro: loadCaseFoldingLine_OK)

lemma foldTableOK_Nil [simp]: "foldTableOK []"
  by (simp add: foldTableOK_def)

lemma foldTableOK_lookup:
  "foldTableOK t \<Longrightarrow> caseFoldingByRune t c = Some r \<Longrightarrow> r \<noteq> [] \<and> validString r"
  by (auto simp: foldTableOK_def caseFoldingByRune_def dest: map_of_SomeD)

text \<open>Folding as a function on scalars.\<close>

definition foldScalars :: "fold_table \<Rightarrow> nat list \<Rightarrow> nat list" where
  "foldScalars table cs = concat (map (\<lambda>c. runes (foldRune table c)) cs)"

lemma foldRune_valid: "foldTableOK t \<Longrightarrow> isScalar c \<Longrightarrow> validString (foldRune t c)"
  by (auto simp: foldRune_def validString_encodeRune dest: foldTableOK_lookup split: option.splits)

lemma foldScalars_scalars:
  "foldTableOK t \<Longrightarrow> scalars cs \<Longrightarrow> scalars (foldScalars t cs)"
  using foldRune_valid encode_runes by (fastforce simp: foldScalars_def)

lemma foldValidCaseText_encode:
  assumes "foldTableOK t" "scalars cs"
  shows "foldValidCaseText t (encode cs) = encode (foldScalars t cs)"
proof -
  have "concat (map (foldRune t) ds) = encode (foldScalars t ds)" if "scalars ds" for ds
    using that
    by (induction ds) (simp_all add: foldScalars_def encode_runes foldRune_valid assms(1))
  then show ?thesis using assms(2) by (simp add: foldValidCaseText_def runes_encode)
qed

lemma foldValidCaseText_valid:
  "foldTableOK t \<Longrightarrow> validString v \<Longrightarrow> validString (foldValidCaseText t v)"
  using validString_decodes foldValidCaseText_encode foldScalars_scalars validString_encode
  by metis

lemma ContainsCaseFoldedText_encode:
  assumes "foldTableOK t" "scalars vs" "scalars qs"
  shows "ContainsCaseFoldedText t (encode vs) (encode qs) =
    Ret (sublist (foldScalars t qs) (foldScalars t vs))"
  using assms
  by (simp add: ContainsCaseFoldedText_def ValidateText_def rejectIf_def validString_encode
      foldValidCaseText_encode stringsContains_encode foldScalars_scalars)

lemma stringsJoin_valid:
  "\<forall>s \<in> set ss. validString s \<Longrightarrow> validString sep \<Longrightarrow> validString (stringsJoin ss sep)"
  by (induction ss sep rule: stringsJoin.induct) (simp_all add: validString_append)

section \<open>Properties\<close>

text \<open>C34: with a table the loader built, \<open>ContainsCaseFoldedText\<close> on well-formed text says
  whether the folded scalars of the query are contiguous in the folded scalars of the value;
  a match never starts or ends inside the encoding of a scalar.\<close>

theorem contains_folded_scalars:
  assumes "loadCaseFoldingLines [] lines = Ret table" "scalars vs" "scalars qs"
  shows "ContainsCaseFoldedText table (encode vs) (encode qs)
    = Ret (sublist (foldScalars table qs) (foldScalars table vs))"
  using loadCaseFoldingLines_OK [OF foldTableOK_Nil assms(1)] assms(2,3)
  by (rule ContainsCaseFoldedText_encode)

text \<open>On ASCII the trimming of the loader drops whitespace characters.\<close>

lemma TrimSpace_ascii:
  assumes "\<forall>c \<in> set s. byte c < 128"
  shows "TrimSpace s = rev (dropWhile (\<lambda>c. isTextWhitespace (byte c))
    (rev (dropWhile (\<lambda>c. isTextWhitespace (byte c)) s)))"
proof -
  have e: "encode (map byte xs) = xs" if "\<forall>c \<in> set xs. byte c < 128" for xs
    using that by (induction xs) (simp_all add: encodeRune_one)
  have d: "dropWhile P (map byte xs) = map byte (dropWhile (\<lambda>c. P (byte c)) xs)" for P xs
    by (induction xs) simp_all
  define t where "t = rev (dropWhile (\<lambda>c. isTextWhitespace (byte c))
    (rev (dropWhile (\<lambda>c. isTextWhitespace (byte c)) s)))"
  have t: "trimScalars (map byte s) = map byte t" "\<forall>c \<in> set t. byte c < 128"
    using assms by (auto simp: trimScalars_def t_def d rev_map dest!: set_dropWhileD)
  have "scalars (map byte s)" using assms by (auto simp: isScalar_def)
  from TrimText_encode [OF this] have "TrimText s = Ret t"
    using e [OF assms] e [OF t(2)] t(1) by simp
  moreover have "TrimText s = Ret (TrimSpace s)"
    using validString_ascii [OF assms] by (simp add: TrimText_def TrimSpace_def Let_def)
  ultimately show ?thesis by (simp add: t_def)
qed

lemma two_line_table:
  "loadCaseFoldingLines [] [''0041; C; 0061; # A'', ''00DF; F; 0073 0073; # sharp s'']
     = Ret [(65, ''a''), (223, ''ss'')]"
  by (simp add: loadCaseFoldingLine_def TrimSpace_ascii byte_def isTextWhitespace_def
      textWhitespaceRanges_def parseCaseFoldingScalar_def ParseUintHex32_def hexDigit_def
      isAsciiSpace_def encodeRune_def isScalar_def runeError_def char_of_def bit_0 Let_def)

theorem contains_folded_scalars_witness:
  "ContainsCaseFoldedText [(65, ''a''), (223, ''ss'')] (encode [65, 223]) (encode [115])
    = Ret (sublist (foldScalars [(65, ''a''), (223, ''ss'')] [115])
        (foldScalars [(65, ''a''), (223, ''ss'')] [65, 223]))"
  by (rule contains_folded_scalars [OF two_line_table]) (simp_all add: isScalar_def)

end
