(* ===== verification/StableSort.thy ===== *)
theory StableSort
  imports Prelude "HOL-Library.Multiset"
begin

text \<open>
  Go's \<open>sort.SliceStable\<close> with a comparison that can fail. The model is the insertion sort
  the library runs on a block of a slice; the locale shows that under the contract the
  library states for \<open>less\<close> (a strict weak order) the result is the only stable sorting of
  the slice, so it does not depend on the algorithm.
\<close>

text \<open>\<open>insertBack\<close> moves an element left past its greater predecessors, nearest first.\<close>

fun insertBack :: "('a \<Rightarrow> 'a \<Rightarrow> bool res) \<Rightarrow> 'a \<Rightarrow> 'a list \<Rightarrow> 'a list res" where
  "insertBack lt x [] = Ret [x]"
| "insertBack lt x (y # ys) =
     bindR (lt x y) (\<lambda>b. if b then bindR (insertBack lt x ys) (\<lambda>zs. Ret (y # zs))
       else Ret (x # y # ys))"

fun insertAll :: "('a \<Rightarrow> 'a \<Rightarrow> bool res) \<Rightarrow> 'a list \<Rightarrow> 'a list \<Rightarrow> 'a list res" where
  "insertAll lt acc [] = Ret (rev acc)"
| "insertAll lt acc (x # xs) = bindR (insertBack lt x acc) (\<lambda>acc'. insertAll lt acc' xs)"

definition sliceStable :: "('a \<Rightarrow> 'a \<Rightarrow> bool res) \<Rightarrow> 'a list \<Rightarrow> 'a list res" where
  "sliceStable lt xs = insertAll lt [] xs"

text \<open>Only comparisons of elements of the slice matter.\<close>

lemma insertBack_agree:
  "(\<And>y. y \<in> set ys \<Longrightarrow> lt x y = Ret (le x y)) \<Longrightarrow>
   insertBack lt x ys = insertBack (\<lambda>a b. Ret (le a b)) x ys"
  by (induction ys) auto

lemma insertBack_set: "insertBack lt x ys = Ret zs \<Longrightarrow> mset zs = add_mset x (mset ys)"
  by (induction ys arbitrary: zs) (auto split: if_splits)

lemma insertAll_agree:
  "(\<And>x y. x \<in> set acc \<union> set xs \<Longrightarrow> y \<in> set acc \<union> set xs \<Longrightarrow> lt x y = Ret (le x y)) \<Longrightarrow>
   insertAll lt acc xs = insertAll (\<lambda>a b. Ret (le a b)) acc xs"
proof (induction xs arbitrary: acc)
  case (Cons x xs)
  have i: "insertBack lt x acc = insertBack (\<lambda>a b. Ret (le a b)) x acc"
    using Cons.prems by (intro insertBack_agree) auto
  show ?case
  proof (cases "insertBack lt x acc")
    case (Ret acc')
    then have "set acc' = insert x (set acc)"
      using insertBack_set set_mset_mset by (metis set_mset_add_mset_insert)
    then have "insertAll lt acc' xs = insertAll (\<lambda>a b. Ret (le a b)) acc' xs"
      using Cons.prems by (intro Cons.IH) auto
    then show ?thesis using Ret i by simp
  qed (use i in simp_all)
qed simp

lemma sliceStable_agree:
  "(\<And>x y. x \<in> set xs \<Longrightarrow> y \<in> set xs \<Longrightarrow> lt x y = Ret (le x y)) \<Longrightarrow>
   sliceStable lt xs = sliceStable (\<lambda>a b. Ret (le a b)) xs"
  unfolding sliceStable_def by (rule insertAll_agree) auto

section \<open>The contract of a comparison\<close>

locale weak_less =
  fixes lt :: "'a \<Rightarrow> 'a \<Rightarrow> bool"
  assumes irrefl: "\<not> lt x x"
    and trans: "lt x y \<Longrightarrow> lt y z \<Longrightarrow> lt x z"
    and split: "lt x z \<Longrightarrow> lt x y \<or> lt y z"
begin

definition equiv :: "'a \<Rightarrow> 'a \<Rightarrow> bool" where
  "equiv x y \<longleftrightarrow> \<not> lt x y \<and> \<not> lt y x"

definition ordered :: "'a list \<Rightarrow> bool" where
  "ordered xs \<longleftrightarrow> sorted_wrt (\<lambda>a b. \<not> lt b a) xs"

text \<open>A stable sorting: ordered, a permutation, and equivalent elements keep their order.\<close>

definition stableSorting :: "'a list \<Rightarrow> 'a list \<Rightarrow> bool" where
  "stableSorting xs ys \<longleftrightarrow> ordered ys \<and> mset ys = mset xs
     \<and> (\<forall>x. filter (equiv x) ys = filter (equiv x) xs)"

lemma insertBack_sorts:
  assumes "ordered (rev acc)"
  shows "\<exists>zs. insertBack (\<lambda>a b. Ret (lt a b)) x acc = Ret zs \<and> ordered (rev zs)
    \<and> mset zs = add_mset x (mset acc)
    \<and> (\<forall>y. filter (equiv y) (rev zs) = filter (equiv y) (rev acc @ [x]))"
  using assms
proof (induction acc)
  case Nil
  then show ?case by (simp add: ordered_def)
next
  case (Cons a acc)
  have o: "ordered (rev acc)" "\<forall>b \<in> set acc. \<not> lt a b"
    using Cons.prems by (auto simp: ordered_def sorted_wrt_append)
  show ?case
  proof (cases "lt x a")
    case True
    from Cons.IH [OF o(1)] obtain zs where zs:
        "insertBack (\<lambda>a b. Ret (lt a b)) x acc = Ret zs" "ordered (rev zs)"
        "mset zs = add_mset x (mset acc)"
        "\<forall>y. filter (equiv y) (rev zs) = filter (equiv y) (rev acc @ [x])"
      by blast
    have "set zs = insert x (set acc)" using zs(3) by (metis set_mset_mset set_mset_add_mset_insert)
    moreover have "\<not> lt a x" using True trans irrefl by blast
    ultimately have "\<forall>b \<in> set zs. \<not> lt a b" using o(2) by simp
    then have "ordered (rev (a # zs))"
      using zs(2) by (simp add: ordered_def sorted_wrt_append)
    moreover have "\<not> (equiv y a \<and> equiv y x)" for y
      using True split unfolding equiv_def by blast
    then have "filter (equiv y) (rev (a # zs)) = filter (equiv y) (rev (a # acc) @ [x])" for y
      using zs(4) by (cases "equiv y a"; cases "equiv y x") simp_all
    ultimately show ?thesis using zs(1,3) True by (intro exI [of _ "a # zs"]) simp
  next
    case False
    have "\<not> lt x b" if "b \<in> set acc" for b
      using that o(2) False split by blast
    then show ?thesis
      using Cons.prems False by (auto simp: ordered_def sorted_wrt_append)
  qed
qed

lemma insertAll_sorts:
  assumes "ordered (rev acc)"
  shows "\<exists>ys. insertAll (\<lambda>a b. Ret (lt a b)) acc xs = Ret ys \<and> ordered ys
    \<and> mset ys = mset acc + mset xs \<and> (\<forall>y. filter (equiv y) ys = filter (equiv y) (rev acc @ xs))"
  using assms
proof (induction xs arbitrary: acc)
  case (Cons x xs)
  from insertBack_sorts [OF Cons.prems, of x] obtain zs where zs:
      "insertBack (\<lambda>a b. Ret (lt a b)) x acc = Ret zs" "ordered (rev zs)"
      "mset zs = add_mset x (mset acc)"
      "\<forall>y. filter (equiv y) (rev zs) = filter (equiv y) (rev acc @ [x])"
    by blast
  from Cons.IH [OF zs(2)] obtain ys where "insertAll (\<lambda>a b. Ret (lt a b)) zs xs = Ret ys"
      "ordered ys" "mset ys = mset zs + mset xs"
      "\<forall>y. filter (equiv y) ys = filter (equiv y) (rev zs @ xs)"
    by blast
  with zs show ?case by simp
qed simp

lemma sliceStable_sorts:
  "\<exists>ys. sliceStable (\<lambda>a b. Ret (lt a b)) xs = Ret ys \<and> stableSorting xs ys"
  using insertAll_sorts [of "[]" xs] by (simp add: sliceStable_def stableSorting_def ordered_def)

text \<open>Two stable sortings of a list are equal: compare their heads.\<close>

lemma equiv_refl [simp]: "equiv x x"
  by (simp add: equiv_def irrefl)

lemma ordered_head:
  "ordered (y # ys) \<Longrightarrow> z \<in> set (y # ys) \<Longrightarrow> \<not> lt z y"
  using irrefl by (auto simp: ordered_def)

lemma stable_unique:
  "ordered ys \<Longrightarrow> ordered zs \<Longrightarrow> mset ys = mset zs \<Longrightarrow>
   (\<forall>x. filter (equiv x) ys = filter (equiv x) zs) \<Longrightarrow> ys = zs"
proof (induction ys arbitrary: zs)
  case (Cons y ys)
  then obtain z zs' where z: "zs = z # zs'" by (cases zs) auto
  have s: "set (y # ys) = set (z # zs')"
    using Cons.prems(3) z set_mset_mset by metis
  have "\<not> lt z y" using ordered_head [OF Cons.prems(1)] s by auto
  moreover have "\<not> lt y z" using ordered_head [of z zs'] Cons.prems(2) z s by auto
  ultimately have e: "equiv y z" by (simp add: equiv_def)
  from Cons.prems(4) z have "filter (equiv y) (y # ys) = filter (equiv y) (z # zs')" by blast
  with e have yz: "y = z" by simp
  have "ys = zs'"
    using Cons.prems z yz by (intro Cons.IH) (auto simp: ordered_def split: if_splits)
  with yz z show ?case by simp
qed simp

lemma sliceStable_unique:
  "stableSorting xs ys \<Longrightarrow> sliceStable (\<lambda>a b. Ret (lt a b)) xs = Ret ys"
  using sliceStable_sorts [of xs] stable_unique [of ys] unfolding stableSorting_def by metis

end

end
