(* ===== verification/CoreEval.thy ===== *)
theory CoreEval
  imports CoreValue CaseFold StableSort
begin

text \<open>
  The conformance evaluator (coreeval/evaluate.go, blocks.go, arguments.go): one definition
  per expression kind, each with the recursive evaluator as an argument, and the fuelled
  recursion that ties them together. Fuel counts nested calls of \<open>evalExprWithProgram\<close>;
  running out is \<open>Timeout\<close>.
\<close>

section \<open>Argument frames (arguments.go)\<close>

text \<open>
  \<open>frCaller\<close> is the slice the caller passed in. Until the frame is owned, \<open>frValues\<close>
  shares its storage, so a write then reaches the caller.
\<close>

record frame =
  frValues :: "core_value list"
  frOwned :: bool
  frCaller :: "core_value list"

type_synonym 'a ev = "frame \<Rightarrow> 'a res \<times> frame"

definition zeroValue :: core_value where "zeroValue = typedZero zeroType"

definition newFrame :: "core_value list \<Rightarrow> frame" where
  "newFrame arguments = \<lparr>frValues = arguments, frOwned = False, frCaller = arguments\<rparr>"

definition ownedFrame :: "core_value list \<Rightarrow> frame" where
  "ownedFrame arguments = \<lparr>frValues = arguments, frOwned = True, frCaller = []\<rparr>"

definition push :: "core_value \<Rightarrow> unit ev" where
  "push v f = (Ret (), f\<lparr>frValues := frValues f @ [v], frOwned := True\<rparr>)"

definition pop :: "unit ev" where
  "pop f =
     (if frValues f = [] then (Panic, f)
      else (Ret (), f\<lparr>frValues := butlast (frValues f),
        frCaller := (if frOwned f then frCaller f
          else (frCaller f)[length (frValues f) - 1 := zeroValue])\<rparr>))"

text \<open>\<open>args.values[target] = v\<close>\<close>

definition assignAt :: "int \<Rightarrow> core_value \<Rightarrow> unit ev" where
  "assignAt i v f =
     (if 0 \<le> i \<and> i < int (length (frValues f))
      then (Ret (), f\<lparr>frValues := (frValues f)[nat i := v],
        frCaller := (if frOwned f then frCaller f else (frCaller f)[nat i := v])\<rparr>)
      else (Panic, f))"

section \<open>Sequencing\<close>

definition retE :: "'a \<Rightarrow> 'a ev" where "retE a f = (Ret a, f)"

definition liftR :: "'a res \<Rightarrow> 'a ev" where "liftR r f = (r, f)"

definition bindE :: "'a ev \<Rightarrow> ('a \<Rightarrow> 'b ev) \<Rightarrow> 'b ev" where
  "bindE m k f =
     (case m f of
        (Ret a, f') \<Rightarrow> k a f'
      | (Err s, f') \<Rightarrow> (Err s, f')
      | (Panic, f') \<Rightarrow> (Panic, f')
      | (Timeout, f') \<Rightarrow> (Timeout, f'))"

abbreviation failE :: "string \<Rightarrow> 'a ev" where "failE s \<equiv> liftR (Err s)"

definition okE :: "core_value \<Rightarrow> outcome ev" where "okE v = retE (okOutcome v)"

definition getFrame :: "frame ev" where "getFrame f = (Ret f, f)"

text \<open>Reading a pointer field; \<open>checked v k\<close> is \<open>if err := validateValue(v); err != nil\<close>.\<close>

definition withPtr :: "'p option \<Rightarrow> ('p \<Rightarrow> 'a ev) \<Rightarrow> 'a ev" where
  "withPtr p k = bindE (liftR (deref p)) k"

definition checked :: "core_value \<Rightarrow> 'a ev \<Rightarrow> 'a ev" where
  "checked v k = bindE (liftR (validateValue v)) (\<lambda>_. k)"

definition guardE :: "bool \<Rightarrow> string \<Rightarrow> 'a ev \<Rightarrow> 'a ev" where
  "guardE b s k = (if b then failE s else k)"

text \<open>
  \<open>operand\<close> evaluates an operand and returns its outcome early unless it is a success:
  \<open>if err != nil || !value.OK \{ return value, err \}\<close>.
\<close>

definition operandOutcome ::
  "(expr \<Rightarrow> outcome ev) \<Rightarrow> expr option \<Rightarrow> (outcome \<Rightarrow> outcome ev) \<Rightarrow> outcome ev"
where
  "operandOutcome ev p k = withPtr p (\<lambda>e. bindE (ev e) (\<lambda>r. if oOK r then k r else retE r))"

definition operand ::
  "(expr \<Rightarrow> outcome ev) \<Rightarrow> expr option \<Rightarrow> (core_value \<Rightarrow> outcome ev) \<Rightarrow> outcome ev"
where
  "operand ev p k = operandOutcome ev p (\<lambda>r. k (oValue r))"

text \<open>A computation followed by \<open>arguments.pop()\<close>, on the error path as well.\<close>

definition thenPop :: "'a ev \<Rightarrow> 'a ev" where
  "thenPop m f =
     (case m f of
        (Panic, f') \<Rightarrow> (Panic, f')
      | (Timeout, f') \<Rightarrow> (Timeout, f')
      | (r, f') \<Rightarrow> (case pop f' of (Ret _, f'') \<Rightarrow> (r, f'') | (_, f'') \<Rightarrow> (Panic, f'')))"

text \<open>The deferred loop of \<open>evalBlock\<close>: pop until the frame has its former length.\<close>

fun popTo :: "nat \<Rightarrow> nat \<Rightarrow> frame \<Rightarrow> frame" where
  "popTo 0 base f = f"
| "popTo (Suc n) base f =
     (if base < length (frValues f) then popTo n base (snd (pop f)) else f)"

definition thenPopTo :: "nat \<Rightarrow> 'a ev \<Rightarrow> 'a ev" where
  "thenPopTo base m f = (let (r, f') = m f in (r, popTo (length (frValues f')) base f'))"

text \<open>Evaluation in a fresh frame that owns its storage.\<close>

definition inFresh :: "core_value list \<Rightarrow> 'a ev \<Rightarrow> 'a ev" where
  "inFresh arguments m = liftR (fst (m (ownedFrame arguments)))"

definition validateOutcome :: "outcome \<Rightarrow> unit res" where
  "validateOutcome r =
     (if oOK r then validateValue (oValue r)
      else case oFailure r of None \<Rightarrow> Ret () | Some x \<Rightarrow> validateValue x)"

text \<open>\<open>Value\{Type: typ, Result: &carrier\}\<close>, or the copied success, or an early return.\<close>

definition carrierOr ::
  "core_type \<Rightarrow> outcome \<Rightarrow> (outcome \<Rightarrow> 'a ev) \<Rightarrow> (core_value \<Rightarrow> 'a ev) \<Rightarrow> 'a ev"
where
  "carrierOr typ r early k =
     (if tKind typ = TypeResult then k (resultValue typ (cloneOutcome r))
      else if \<not> oOK r then early r
      else k (cloneValue (oValue r)))"

section \<open>Literals, references, operators\<close>

definition evalLiteral :: "expr \<Rightarrow> outcome ev" where
  "evalLiteral e =
     withPtr (exLiteral e) (\<lambda>l.
       okE (Value (exType e) (litString l) (litInt l) (litFloat l) (litBool l) None None None None))"

text \<open>\<open>arguments.values[*expression.Parameter]\<close>\<close>

definition argumentAt :: "int option \<Rightarrow> core_value ev" where
  "argumentAt p =
     withPtr p (\<lambda>i. bindE getFrame (\<lambda>f. liftR (index (frValues f) i)))"

definition evalReference :: "expr \<Rightarrow> outcome ev" where
  "evalReference e =
     bindE (argumentAt (exParameter e)) (\<lambda>v.
       case tKind (exType e) of
         TypeResult \<Rightarrow>
           (case vResult v of
              None \<Rightarrow> failE ''result reference has no canonical value''
            | Some r \<Rightarrow> retE (cloneOutcome r))
       | TypeRecord \<Rightarrow> okE (cloneRecordValue v)
       | TypeOptional \<Rightarrow> okE (cloneOptionalValue v)
       | TypeList \<Rightarrow> okE (cloneListValue v)
       | _ \<Rightarrow> okE v)"

definition evalUnary :: "(expr \<Rightarrow> outcome ev) \<Rightarrow> expr \<Rightarrow> outcome ev" where
  "evalUnary ev e =
     withPtr (exUnary e) (\<lambda>u. operand ev (unOperand u) (\<lambda>v.
       case unOperator u of
         OperatorNegate \<Rightarrow>
           (let (val, arithmeticError) = CheckedNegateInt64 (vInt v)
            in liftR (arithmeticOutcome (exType e) (\<lambda>t. intValue t val) arithmeticError))
       | OperatorNot \<Rightarrow> okE (boolValue (exType e) (\<not> vBool v))
       | _ \<Rightarrow> failE ''unsupported unary operator''))"

text \<open>Reading a comparison (-1, 0 or 1) as the operator asks; other operators give false.\<close>

definition comparisonHolds :: "operator \<Rightarrow> int \<Rightarrow> bool" where
  "comparisonHolds operator comparison =
     (case operator of
        OperatorEqual \<Rightarrow> comparison = 0
      | OperatorNotEqual \<Rightarrow> comparison \<noteq> 0
      | OperatorLessThan \<Rightarrow> comparison < 0
      | OperatorLessOrEqual \<Rightarrow> comparison \<le> 0
      | OperatorGreaterThan \<Rightarrow> comparison > 0
      | OperatorGreaterOrEqual \<Rightarrow> comparison \<ge> 0
      | _ \<Rightarrow> False)"

definition isComparison :: "operator \<Rightarrow> bool" where
  "isComparison operator \<longleftrightarrow> operator \<in> {OperatorEqual, OperatorNotEqual, OperatorLessThan,
     OperatorLessOrEqual, OperatorGreaterThan, OperatorGreaterOrEqual}"

definition floatComparison :: "operator \<Rightarrow> float64 \<Rightarrow> float64 \<Rightarrow> bool" where
  "floatComparison operator l r =
     (case operator of
        OperatorEqual \<Rightarrow> f64Eq l r
      | OperatorNotEqual \<Rightarrow> \<not> f64Eq l r
      | OperatorLessThan \<Rightarrow> f64Less l r
      | OperatorLessOrEqual \<Rightarrow> f64LessEq l r
      | OperatorGreaterThan \<Rightarrow> f64Less r l
      | OperatorGreaterOrEqual \<Rightarrow> f64LessEq r l
      | _ \<Rightarrow> False)"

definition evalPrimitiveComparison ::
  "core_type \<Rightarrow> operator \<Rightarrow> core_type \<Rightarrow> core_value \<Rightarrow> core_value \<Rightarrow> outcome res"
where
  "evalPrimitiveComparison resultType operator typ left right =
     (let answer = \<lambda>b. Ret (okOutcome (boolValue resultType b)) in
      if tKind typ = TypePrimitive \<and> tPrimitive typ = PrimitiveBool then
        answer (comparisonHolds operator
          (if vBool left \<noteq> vBool right then (if \<not> vBool left then -1 else 1) else 0))
      else if TypeEqual typ (SignedInteger 64) then
        answer (comparisonHolds operator
          (if vInt left <s vInt right then -1 else if vInt right <s vInt left then 1 else 0))
      else if TypeEqual typ (BinaryFloat 64) then
        answer (floatComparison operator (vFloat left) (vFloat right))
      else Err ''primitive comparison type is unsupported'')"

definition evalTextBinary :: "core_type \<Rightarrow> operator \<Rightarrow> string \<Rightarrow> string \<Rightarrow> outcome res" where
  "evalTextBinary resultType operator left right =
     (if operator = OperatorAdd then
        andThen (ValidateText left) (andThen (ValidateText right)
          (Ret (okOutcome (stringValue resultType (left @ right)))))
      else
        bindR (CompareOrdinalText left right) (\<lambda>comparison.
          if isComparison operator
          then Ret (okOutcome (boolValue resultType (comparisonHolds operator comparison)))
          else Err ''unsupported text operator''))"

text \<open>The last switch of the binary case, over evaluated operands.\<close>

definition applyBinary ::
  "core_type \<Rightarrow> operator \<Rightarrow> core_type \<Rightarrow> core_value \<Rightarrow> core_value \<Rightarrow> outcome res"
where
  "applyBinary resultType operator leftType left right =
     (if operator \<in> {OperatorAdd, OperatorSubtract, OperatorMultiply} then
        bindR (CheckedInt64 operator (vInt left) (vInt right)) (\<lambda>(val, arithmeticError).
          arithmeticOutcome resultType (\<lambda>t. intValue t val) arithmeticError)
      else if operator = OperatorDivide then
        (let (val, arithmeticError) = CheckedDivideBinary64 (vFloat left) (vFloat right)
         in arithmeticOutcome resultType (\<lambda>t. floatValue t val) arithmeticError)
      else if operator = OperatorAnd then
        Ret (okOutcome (boolValue resultType (vBool left \<and> vBool right)))
      else if operator = OperatorOr then
        Ret (okOutcome (boolValue resultType (vBool left \<or> vBool right)))
      else if isComparison operator then
        evalPrimitiveComparison resultType operator leftType left right
      else Err ''operator is outside the conformance evaluator'')"

definition evalBinary :: "(expr \<Rightarrow> outcome ev) \<Rightarrow> expr \<Rightarrow> outcome ev" where
  "evalBinary ev e =
     withPtr (exBinary e) (\<lambda>b. operand ev (biLeft b) (\<lambda>left.
       if biOperator b = OperatorAnd \<and> \<not> vBool left then okE (boolValue (exType e) False)
       else if biOperator b = OperatorOr \<and> vBool left then okE (boolValue (exType e) True)
       else operand ev (biRight b) (\<lambda>right. withPtr (biLeft b) (\<lambda>l.
         let leftType = exType l in
         if tKind leftType = TypePrimitive \<and> tPrimitive leftType = PrimitiveString then
           liftR (evalTextBinary (exType e) (biOperator b) (vString left) (vString right))
         else if tKind leftType = TypeRecord \<or> tKind leftType = TypeEnum then
           bindE (liftR (equalValues left right)) (\<lambda>equal.
             okE (boolValue (exType e) (if biOperator b = OperatorNotEqual then \<not> equal else equal)))
         else liftR (applyBinary (exType e) (biOperator b) leftType left right)))))"

section \<open>Conditionals, blocks, locals, calls\<close>

definition evalConditional :: "(expr \<Rightarrow> outcome ev) \<Rightarrow> expr \<Rightarrow> outcome ev" where
  "evalConditional ev e =
     (case exConditional e of
        Some (Conditional (Some cond) (Some whenTrue) (Some whenFalse) terminal) \<Rightarrow>
          operand ev (Some cond) (\<lambda>c.
            bindE (ev (if vBool c then whenTrue else whenFalse)) (\<lambda>r.
              bindE (liftR (validateOutcome r)) (\<lambda>_. retE (cloneOutcome r))))
      | _ \<Rightarrow> failE ''conditional expression is incomplete'')"

text \<open>
  Statements return an outcome, or nothing when control falls through to the next one. A
  nested block restores the length of the frame; assignments to outer bindings stay.
\<close>

function (sequential) evalBlock ::
  "(expr \<Rightarrow> outcome ev) \<Rightarrow> expr block option \<Rightarrow> outcome option ev"
  and evalStatements :: "(expr \<Rightarrow> outcome ev) \<Rightarrow> expr statement list \<Rightarrow> outcome option ev"
where
  "evalBlock ev None = failE ''missing block''"
| "evalBlock ev (Some (Block ss)) =
     bindE getFrame (\<lambda>f. thenPopTo (length (frValues f)) (evalStatements ev ss))"
| "evalStatements ev [] = retE None"
| "evalStatements ev (Statement mut target kind v local th el # ss) =
     (let rest = evalStatements ev ss;
          andReturn = (\<lambda>m. bindE m (\<lambda>returned.
            case returned of None \<Rightarrow> rest | Some r \<Rightarrow> retE (Some r)))
      in
      if kind = StmtLocal \<and> v = None then bindE (push zeroValue) (\<lambda>_. rest)
      else if kind = StmtLocal \<or> kind = StmtAssign then
        withPtr v (\<lambda>x. bindE (ev x) (\<lambda>r.
          carrierOr (exType x) r (\<lambda>early. retE (Some early)) (\<lambda>val. checked val
            (if kind = StmtAssign
             then withPtr target (\<lambda>i. bindE (assignAt i val) (\<lambda>_. rest))
             else bindE (push val) (\<lambda>_. rest)))))
      else if kind = StmtReturn then
        withPtr v (\<lambda>x. bindE (ev x) (\<lambda>r. retE (Some (cloneOutcome r))))
      else if kind = StmtIf then
        withPtr v (\<lambda>x. bindE (ev x) (\<lambda>r.
          if \<not> oOK r then retE (Some r)
          else if vBool (oValue r) then (if th = None then rest else andReturn (evalBlock ev th))
          else (if el = None then rest else andReturn (evalBlock ev el))))
      else if kind = StmtBlock then andReturn (evalBlock ev th)
      else failE ''invalid statement'')"
  by pat_completeness auto
termination
  by (relation "measure (\<lambda>x. case x of
       Inl (_, b) \<Rightarrow> size_option (size_block (\<lambda>_. 0)) b
     | Inr (_, ss) \<Rightarrow> size_list (size_statement (\<lambda>_. 0)) ss)") simp_all

definition evalBlockExpr :: "(expr \<Rightarrow> outcome ev) \<Rightarrow> expr \<Rightarrow> outcome ev" where
  "evalBlockExpr ev e =
     bindE (evalBlock ev (exBlock e)) (\<lambda>returned.
       case returned of
         None \<Rightarrow> failE ''block fell through without returning''
       | Some r \<Rightarrow> retE r)"

definition evalImmutableLocal :: "(expr \<Rightarrow> outcome ev) \<Rightarrow> expr \<Rightarrow> outcome ev" where
  "evalImmutableLocal ev e =
     bindE getFrame (\<lambda>f.
       case exImmutableLocal e of
         Some (ImmutableLocal position name typ (Some initializer) (Some ret)) \<Rightarrow>
           guardE (position \<noteq> int (length (frValues f)))
             ''immutable local is incomplete or not canonically positioned''
             (bindE (ev initializer) (\<lambda>r. carrierOr typ r retE (\<lambda>val. checked val
               (bindE (push (cloneValue val)) (\<lambda>_.
                 bindE (thenPop (ev ret)) (\<lambda>out. retE (cloneOutcome out)))))))
       | _ \<Rightarrow> failE ''immutable local is incomplete or not canonically positioned'')"

text \<open>The argument loop: an early outcome, or all the argument values.\<close>

fun evalCallArguments ::
  "(expr \<Rightarrow> outcome ev) \<Rightarrow> func \<Rightarrow> int \<Rightarrow> expr option list \<Rightarrow> (outcome + core_value list) ev"
where
  "evalCallArguments ev target position [] = retE (Inr [])"
| "evalCallArguments ev target position (p # ps) =
     withPtr p (\<lambda>a. bindE (ev a) (\<lambda>r.
       carrierOr (exType a) r (\<lambda>early. retE (Inl early)) (\<lambda>val.
         bindE (liftR (index (fnParameters target) position)) (\<lambda>param.
           guardE (\<not> TypeEqual (vType val) (paType param))
             ''pure call argument type does not match parameter''
             (checked val
               (bindE (evalCallArguments ev target (position + 1) ps) (\<lambda>rest.
                 case rest of Inl early \<Rightarrow> retE (Inl early) | Inr vals \<Rightarrow> retE (Inr (val # vals)))))))))"

type_synonym function_map = "(string \<Rightarrow> func option) option"

definition evalCall :: "(expr \<Rightarrow> outcome ev) \<Rightarrow> function_map \<Rightarrow> expr \<Rightarrow> outcome ev" where
  "evalCall ev fns e =
     (case (fns, exCall e) of
        (Some table, Some c) \<Rightarrow>
          (case table (functionKey (caTarget c)) of
             None \<Rightarrow> failE ''pure call target was not found''
           | Some target \<Rightarrow>
               bindE (evalCallArguments ev target 0 (caArguments c)) (\<lambda>arguments.
                 case arguments of
                   Inl early \<Rightarrow> retE early
                 | Inr vals \<Rightarrow>
                     bindE (inFresh vals (ev (fnBody target))) (\<lambda>r.
                       let out = completeFunctionOutcome (fnReturnType target) r in
                       bindE (liftR (validateOutcome out)) (\<lambda>_. retE (cloneOutcome out)))))
      | _ \<Rightarrow> failE ''pure call requires a validated Core program'')"

section \<open>Text\<close>

definition evalTextContains :: "fold_table \<Rightarrow> (expr \<Rightarrow> outcome ev) \<Rightarrow> expr \<Rightarrow> outcome ev" where
  "evalTextContains table ev e =
     withPtr (exTextContains e) (\<lambda>t. operand ev (tcValue t) (\<lambda>v. operand ev (tcQuery t) (\<lambda>q.
       bindE (liftR (ContainsCaseFoldedText table (vString v) (vString q))) (\<lambda>b.
         okE (boolValue (exType e) b)))))"

definition evalTextTrim :: "(expr \<Rightarrow> outcome ev) \<Rightarrow> expr \<Rightarrow> outcome ev" where
  "evalTextTrim ev e =
     withPtr (exTextTrim e) (\<lambda>t. operand ev t (\<lambda>v.
       bindE (liftR (TrimText (vString v))) (\<lambda>trimmed. okE (stringValue (exType e) trimmed))))"

section \<open>Records and optionals\<close>

definition evalFieldProjection :: "(expr \<Rightarrow> outcome ev) \<Rightarrow> expr \<Rightarrow> outcome ev" where
  "evalFieldProjection ev e =
     withPtr (exField e) (\<lambda>p. operand ev (fpReceiver p) (\<lambda>v.
       let position = fpPosition p in
       guardE (position < 0 \<or> position \<ge> int (length (elems (vRecord v))))
         ''record field projection position is outside the value''
         (okE (elems (vRecord v) ! nat position))))"

fun evalFields ::
  "(expr \<Rightarrow> outcome ev) \<Rightarrow> expr record_construct_field list \<Rightarrow> (outcome + core_value list) ev"
where
  "evalFields ev [] = retE (Inr [])"
| "evalFields ev (p # ps) =
     withPtr (rcfValue p) (\<lambda>x. bindE (ev x) (\<lambda>r.
       if \<not> oOK r then retE (Inl r)
       else bindE (evalFields ev ps) (\<lambda>rest.
         case rest of Inl early \<Rightarrow> retE (Inl early) | Inr vals \<Rightarrow> retE (Inr (oValue r # vals)))))"

definition evalRecordConstruct :: "(expr \<Rightarrow> outcome ev) \<Rightarrow> expr \<Rightarrow> outcome ev" where
  "evalRecordConstruct ev e =
     withPtr (exRecord e) (\<lambda>c. bindE (evalFields ev (rcFields c)) (\<lambda>vals.
       case vals of
         Inl early \<Rightarrow> retE early
       | Inr xs \<Rightarrow>
           (let v = recordValue (exType e) xs in checked v (okE (cloneRecordValue v)))))"

definition evalOptionalSome :: "(expr \<Rightarrow> outcome ev) \<Rightarrow> expr \<Rightarrow> outcome ev" where
  "evalOptionalSome ev e =
     withPtr (exSome e) (\<lambda>p. operand ev p (\<lambda>v.
       let opt = optionalValue (exType e) (Some v) in checked opt (okE (cloneOptionalValue opt))))"

definition evalOptionalNone :: "expr \<Rightarrow> outcome ev" where
  "evalOptionalNone e =
     (let opt = optionalValue (exType e) None in checked opt (okE opt))"

definition evalOptionalHasValue :: "(expr \<Rightarrow> outcome ev) \<Rightarrow> expr \<Rightarrow> outcome ev" where
  "evalOptionalHasValue ev e =
     withPtr (exHasValue e) (\<lambda>p. operand ev p (\<lambda>v. checked v
       (withPtr (vOptional v) (\<lambda>opt. okE (boolValue (exType e) (ovPresent opt))))))"

definition evalOptionalValueOr :: "(expr \<Rightarrow> outcome ev) \<Rightarrow> expr \<Rightarrow> outcome ev" where
  "evalOptionalValueOr ev e =
     withPtr (exValueOr e) (\<lambda>w. operand ev (wfValue w) (\<lambda>v.
       operandOutcome ev (wfFallback w) (\<lambda>fallback. checked v (withPtr (vOptional v) (\<lambda>opt.
         if ovPresent opt then withPtr (ovValue opt) (\<lambda>x. okE (cloneValue x))
         else retE (Outcome (oOK fallback) (cloneValue (oValue fallback)) (oError fallback)
           (oFailure fallback)))))))"

section \<open>Lists\<close>

definition evalListEmpty :: "expr \<Rightarrow> outcome ev" where
  "evalListEmpty e = (let v = listValue (exType e) [] in checked v (okE v))"

definition evalListSingleton :: "(expr \<Rightarrow> outcome ev) \<Rightarrow> expr \<Rightarrow> outcome ev" where
  "evalListSingleton ev e =
     withPtr (exListOne e) (\<lambda>p. operand ev p (\<lambda>x.
       let v = listValue (exType e) [x] in checked v (okE (cloneListValue v))))"

definition evalListCount :: "(expr \<Rightarrow> outcome ev) \<Rightarrow> expr \<Rightarrow> outcome ev" where
  "evalListCount ev e =
     withPtr (exListCount e) (\<lambda>p. operand ev p (\<lambda>v. checked v
       (okE (intValue (exType e) (word_of_int (int (length (elems (vList v)))))))))"

definition evalListAppend :: "(expr \<Rightarrow> outcome ev) \<Rightarrow> expr \<Rightarrow> outcome ev" where
  "evalListAppend ev e =
     withPtr (exListAppend e) (\<lambda>p. operand ev (laValues p) (\<lambda>vs. operand ev (laValue p) (\<lambda>x.
       let copied = cloneListValue vs;
           v = setList (Some (elems (vList copied) @ [cloneValue x])) copied
       in checked v (okE v))))"

definition evalListAt :: "(expr \<Rightarrow> outcome ev) \<Rightarrow> expr \<Rightarrow> outcome ev" where
  "evalListAt ev e =
     withPtr (exListAt e) (\<lambda>p. operand ev (ltValues p) (\<lambda>vs. operand ev (ltIndex p) (\<lambda>i.
       checked vs
         (let k = sint (vInt i);
              opt = optionalValue (exType e)
                (if 0 \<le> k \<and> k < int (length (elems (vList vs)))
                 then Some (cloneValue (elems (vList vs) ! nat k)) else None)
          in checked opt (okE (cloneOptionalValue opt))))))"

text \<open>\<open>record.Record[position].String\<close>\<close>

definition textAt :: "core_value \<Rightarrow> int \<Rightarrow> string res" where
  "textAt rec position = bindR (index (elems (vRecord rec)) position) (\<lambda>x. Ret (vString x))"

fun findRecord :: "(core_value \<Rightarrow> bool res) \<Rightarrow> core_value list \<Rightarrow> core_value option res" where
  "findRecord test [] = Ret None"
| "findRecord test (x # xs) =
     bindR (test x) (\<lambda>b. if b then Ret (Some (cloneValue x)) else findRecord test xs)"

fun keepRecords :: "(core_value \<Rightarrow> bool res) \<Rightarrow> core_value list \<Rightarrow> core_value list res" where
  "keepRecords test [] = Ret []"
| "keepRecords test (x # xs) =
     bindR (test x) (\<lambda>b. bindR (keepRecords test xs) (\<lambda>ys.
       Ret (if b then cloneValue x # ys else ys)))"

text \<open>The tests of the record loops.\<close>

definition textEquals :: "int \<Rightarrow> string \<Rightarrow> core_value \<Rightarrow> bool res" where
  "textEquals position key rec =
     bindR (textAt rec position) (\<lambda>s. bindR (CompareOrdinalText s key) (\<lambda>c. Ret (c = 0)))"

definition textContains :: "fold_table \<Rightarrow> int \<Rightarrow> string \<Rightarrow> core_value \<Rightarrow> bool res" where
  "textContains table position query rec =
     bindR (textAt rec position) (\<lambda>s. ContainsCaseFoldedText table s query)"

fun textsAt :: "core_value \<Rightarrow> list_selector list \<Rightarrow> string list res" where
  "textsAt rec [] = Ret []"
| "textsAt rec (s # ss) =
     bindR (textAt rec (lsPosition s)) (\<lambda>t. bindR (textsAt rec ss) (\<lambda>ts. Ret (t # ts)))"

definition joinedContains :: "fold_table \<Rightarrow> list_selector list \<Rightarrow> string \<Rightarrow> core_value \<Rightarrow> bool res" where
  "joinedContains table selectors query rec =
     bindR (textsAt rec selectors) (\<lambda>ts. ContainsJoinedCaseFoldedText table ts query)"

definition evalListFind :: "(expr \<Rightarrow> outcome ev) \<Rightarrow> expr \<Rightarrow> outcome ev" where
  "evalListFind ev e =
     withPtr (exListFind e) (\<lambda>p. operand ev (lbValues p) (\<lambda>vs. operand ev (lbKey p) (\<lambda>key.
       checked vs (checked key
         (bindE (liftR (findRecord (textEquals (lbPosition p) (vString key)) (elems (vList vs)))) (\<lambda>found.
           let opt = optionalValue (exType e) found
           in checked opt (okE (cloneOptionalValue opt))))))))"

text \<open>The three text filters differ in the test only.\<close>

definition filteredList ::
  "core_type \<Rightarrow> (core_value \<Rightarrow> bool res) \<Rightarrow> core_value list \<Rightarrow> outcome ev"
where
  "filteredList typ test records =
     bindE (liftR (keepRecords test records)) (\<lambda>kept.
       let v = listValue typ kept in checked v (okE (cloneListValue v)))"

definition evalListFilter :: "(expr \<Rightarrow> outcome ev) \<Rightarrow> expr \<Rightarrow> outcome ev" where
  "evalListFilter ev e =
     withPtr (exListFilter e) (\<lambda>p. operand ev (lbValues p) (\<lambda>vs. operand ev (lbKey p) (\<lambda>key.
       checked vs (checked key
         (filteredList (exType e) (textEquals (lbPosition p) (vString key)) (elems (vList vs)))))))"

definition evalListFilterContains :: "fold_table \<Rightarrow> (expr \<Rightarrow> outcome ev) \<Rightarrow> expr \<Rightarrow> outcome ev" where
  "evalListFilterContains table ev e =
     withPtr (exListFilterContains e) (\<lambda>p. operand ev (lbValues p) (\<lambda>vs. operand ev (lbKey p) (\<lambda>q.
       checked vs (checked q
         (filteredList (exType e) (textContains table (lbPosition p) (vString q))
           (elems (vList vs)))))))"

definition evalListFilterJoined :: "fold_table \<Rightarrow> (expr \<Rightarrow> outcome ev) \<Rightarrow> expr \<Rightarrow> outcome ev" where
  "evalListFilterJoined table ev e =
     withPtr (exListFilterJoined e) (\<lambda>p. operand ev (ljValues p) (\<lambda>vs. operand ev (ljQuery p) (\<lambda>q.
       checked vs (checked q
         (filteredList (exType e) (joinedContains table (ljSelectors p) (vString q))
           (elems (vList vs)))))))"

text \<open>
  The comparison of the sorts: the first selector on which the texts differ decides, in its
  direction.
\<close>

fun lessBy :: "(int \<times> bool) list \<Rightarrow> core_value \<Rightarrow> core_value \<Rightarrow> bool res" where
  "lessBy [] left right = Ret False"
| "lessBy ((position, descending) # keys) left right =
     bindR (textAt left position) (\<lambda>s. bindR (textAt right position) (\<lambda>t.
       bindR (CompareOrdinalText s t) (\<lambda>c.
         if c \<noteq> 0 then Ret (if descending then c > 0 else c < 0) else lessBy keys left right)))"

definition evalSort :: "(expr \<Rightarrow> outcome ev) \<Rightarrow> expr option \<Rightarrow> (int \<times> bool) list \<Rightarrow> outcome ev" where
  "evalSort ev p keys =
     operand ev p (\<lambda>vs. checked vs
       (let copied = cloneListValue vs in
        bindE (liftR (sliceStable (lessBy keys) (elems (vList copied)))) (\<lambda>sorted.
          let v = setList (if vList copied = None then None else Some sorted) copied
          in checked v (okE (cloneListValue v)))))"

definition evalSortText :: "(expr \<Rightarrow> outcome ev) \<Rightarrow> expr \<Rightarrow> outcome ev" where
  "evalSortText ev e =
     withPtr (exSortText e) (\<lambda>p. evalSort ev (osValues p) [(osPosition p, False)])"

definition evalSortTexts :: "(expr \<Rightarrow> outcome ev) \<Rightarrow> expr \<Rightarrow> outcome ev" where
  "evalSortTexts ev e =
     withPtr (exSortTexts e) (\<lambda>p.
       evalSort ev (otValues p) (map (\<lambda>s. (lsPosition s, False)) (otSelectors p)))"

definition evalSortDirections :: "(expr \<Rightarrow> outcome ev) \<Rightarrow> expr \<Rightarrow> outcome ev" where
  "evalSortDirections ev e =
     withPtr (exSortDirections e) (\<lambda>p.
       evalSort ev (odValues p)
         (map (\<lambda>(s, direction). (lsPosition s, direction = ''descending'')) (odSelectors p)))"

section \<open>Named predicate filters\<close>

fun evalPredicateArguments ::
  "(expr \<Rightarrow> outcome ev) \<Rightarrow> expr option list \<Rightarrow> (outcome + core_value list) ev"
where
  "evalPredicateArguments ev [] = retE (Inr [])"
| "evalPredicateArguments ev (p # ps) =
     withPtr p (\<lambda>x. bindE (ev x) (\<lambda>r.
       if \<not> oOK r then retE (Inl r)
       else bindE (evalPredicateArguments ev ps) (\<lambda>rest.
         case rest of
           Inl early \<Rightarrow> retE (Inl early)
         | Inr vals \<Rightarrow> retE (Inr (cloneValue (oValue r) # vals)))))"

definition predicateHolds ::
  "(expr \<Rightarrow> outcome ev) \<Rightarrow> func \<Rightarrow> core_value list \<Rightarrow> core_value \<Rightarrow> bool res"
where
  "predicateHolds ev target arguments rec =
     bindR (fst (ev (fnBody target) (ownedFrame (cloneValue rec # map cloneValue arguments)))) (\<lambda>r.
       if \<not> oOK r \<or> \<not> TypeEqual (vType (oValue r)) boolType
       then Err ''named predicate did not return bool''
       else Ret (vBool (oValue r)))"

definition evalFilterPredicate :: "(expr \<Rightarrow> outcome ev) \<Rightarrow> function_map \<Rightarrow> expr \<Rightarrow> outcome ev" where
  "evalFilterPredicate ev fns e =
     (case fns of
        None \<Rightarrow> failE ''named predicate filtering requires EvaluateProgram''
      | Some table \<Rightarrow>
          withPtr (exListFilterPredicate e) (\<lambda>p. operand ev (lpValues p) (\<lambda>vs.
            bindE (evalPredicateArguments ev (lpArguments p)) (\<lambda>arguments.
              case arguments of
                Inl early \<Rightarrow> retE early
              | Inr vals \<Rightarrow> checked vs (bindE (liftR (checkAll validateValue vals)) (\<lambda>_.
                  case table (functionKey (lpPredicate p)) of
                    None \<Rightarrow> failE ''named predicate target was not found''
                  | Some target \<Rightarrow>
                      filteredList (exType e) (predicateHolds ev target vals) (elems (vList vs))))))))"

section \<open>Results\<close>

definition evalResultOK :: "(expr \<Rightarrow> outcome ev) \<Rightarrow> expr \<Rightarrow> outcome ev" where
  "evalResultOK ev e =
     withPtr (exResultOK e) (\<lambda>p. operand ev p (\<lambda>v. checked v (okE (cloneValue v))))"

definition evalResultErr :: "(expr \<Rightarrow> outcome ev) \<Rightarrow> expr \<Rightarrow> outcome ev" where
  "evalResultErr ev e =
     withPtr (exResultErr e) (\<lambda>p. operand ev p (\<lambda>v. checked v
       (withPtr (tResult (exType e)) (\<lambda>(success, _).
         retE (Outcome False (typedZero success) NoArithmeticError (Some (cloneValue v)))))))"

definition directResultOperand :: "expr option \<Rightarrow> outcome ev" where
  "directResultOperand p f =
     (let bad = Err ''operand is not a direct Result parameter'' in
      ((case p of
          None \<Rightarrow> bad
        | Some e \<Rightarrow>
            (case (exKind e, exParameter e) of
               (ExprReference, Some i) \<Rightarrow>
                 if i < 0 \<or> i \<ge> int (length (frValues f)) then bad
                 else (let argument = frValues f ! nat i in
                   andThen (validateValue argument)
                     (case vResult argument of
                        None \<Rightarrow> Err ''result parameter has no canonical value''
                      | Some r \<Rightarrow> Ret (cloneOutcome r)))
             | _ \<Rightarrow> bad)), f))"

definition evalResultIsOK :: "expr \<Rightarrow> outcome ev" where
  "evalResultIsOK e =
     withPtr (exResultIsOK e) (\<lambda>p. bindE (directResultOperand p) (\<lambda>r.
       okE (boolValue (exType e) (oOK r))))"

definition evalResultSuccessOr :: "(expr \<Rightarrow> outcome ev) \<Rightarrow> expr \<Rightarrow> outcome ev" where
  "evalResultSuccessOr ev e =
     withPtr (exSuccessOr e) (\<lambda>w. bindE (directResultOperand (wfValue w)) (\<lambda>r.
       operand ev (wfFallback w) (\<lambda>fallback. checked fallback
         (okE (cloneValue (if oOK r then oValue r else fallback))))))"

definition evalResultFailureOr :: "(expr \<Rightarrow> outcome ev) \<Rightarrow> expr \<Rightarrow> outcome ev" where
  "evalResultFailureOr ev e =
     withPtr (exFailureOr e) (\<lambda>w. bindE (directResultOperand (wfValue w)) (\<lambda>r.
       operand ev (wfFallback w) (\<lambda>fallback. checked fallback
         (if oOK r then okE (cloneValue fallback)
          else withPtr (oFailure r) (\<lambda>x. okE (cloneValue x))))))"

definition evalPropagate :: "(expr \<Rightarrow> outcome ev) \<Rightarrow> expr \<Rightarrow> outcome ev" where
  "evalPropagate ev e =
     withPtr (exPropagate e) (\<lambda>p. operandOutcome ev (prValue p) (\<lambda>r.
       if tKind (prCarrier p) = TypeResult then retE r
       else if tKind (vType (oValue r)) = TypeOptional then
         (case vOptional (oValue r) of
            None \<Rightarrow> failE ''propagate Optional has no canonical value''
          | Some opt \<Rightarrow>
              if \<not> ovPresent opt
              then retE (Outcome False zeroValue NoArithmeticError (Some (cloneOptionalValue (oValue r))))
              else withPtr (ovValue opt) (\<lambda>x. okE (cloneValue x)))
       else failE ''propagate operand is not a carrier''))"

section \<open>Match\<close>

text \<open>Go's \<open>string(resultCarrier.Error)\<close>.\<close>

definition errorText :: "arithmetic_error \<Rightarrow> string" where
  "errorText err =
     (case err of
        NoArithmeticError \<Rightarrow> []
      | ArithmeticOverflow \<Rightarrow> ''overflow''
      | ArithmeticDivisionByZero \<Rightarrow> ''division_by_zero''
      | OtherArithmeticError s \<Rightarrow> s)"

text \<open>The tag of the carrier with its payload; \<open>result\<close> is the outcome of a Result operand.\<close>

definition matchTag ::
  "core_value \<Rightarrow> outcome option \<Rightarrow> (string \<times> core_value option) res"
where
  "matchTag carrier result =
     (case tKind (vType carrier) of
        TypeEnum \<Rightarrow> Ret (vString carrier, None)
      | TypeOptional \<Rightarrow>
          (case vOptional carrier of
             None \<Rightarrow> Err ''match Optional has no canonical value''
           | Some opt \<Rightarrow>
               if ovPresent opt then Ret (''some'', ovValue opt) else Ret (''none'', None))
      | TypeResult \<Rightarrow>
          (case result of
             None \<Rightarrow> Err ''match Result has no canonical value''
           | Some r \<Rightarrow>
               if oOK r then Ret (''ok'', Some (oValue r))
               else bindR (deref (tResult (vType carrier))) (\<lambda>(_, failure).
                 if tKind failure = TypeArithmeticError
                 then Ret (''err'', Some (stringValue failure (errorText (oError r))))
                 else Ret (''err'', oFailure r)))
      | _ \<Rightarrow> Err ''match operand is not tagged'')"

fun evalArms ::
  "(expr \<Rightarrow> outcome ev) \<Rightarrow> bool \<Rightarrow> string \<Rightarrow> core_value option \<Rightarrow> expr match_arm list \<Rightarrow> outcome ev"
where
  "evalArms ev enum tag payload [] = failE ''match has no selected arm''"
| "evalArms ev enum tag payload (MatchArm armTag binding body # arms) =
     (if armTag \<noteq> tag \<and> (enum \<or> armTag \<noteq> ''_'') then evalArms ev enum tag payload arms
      else
        case body of
          None \<Rightarrow> failE ''match arm has no body''
        | Some b \<Rightarrow>
            if binding = None then ev b
            else (case payload of
                None \<Rightarrow> failE ''match binding has no payload''
              | Some x \<Rightarrow> bindE (push (cloneValue x)) (\<lambda>_. thenPop (ev b))))"

definition evalMatch :: "(expr \<Rightarrow> outcome ev) \<Rightarrow> expr \<Rightarrow> outcome ev" where
  "evalMatch ev e =
     (case exMatch e of
        Some (Match (Some scrutinee) arms) \<Rightarrow>
          bindE (ev scrutinee) (\<lambda>r.
            let select = (\<lambda>carrier result.
              bindE (liftR (matchTag carrier result)) (\<lambda>(tag, payload).
                evalArms ev (tKind (vType carrier) = TypeEnum) tag payload arms))
            in
            if tKind (exType scrutinee) = TypeResult then
              bindE (if exKind scrutinee = ExprReference then directResultOperand (Some scrutinee)
                     else retE (cloneOutcome r))
                (\<lambda>result. select (typedZero (exType scrutinee)) (Some result))
            else if \<not> oOK r then retE r
            else select (oValue r) None)
      | _ \<Rightarrow> failE ''match is incomplete'')"

section \<open>The evaluator\<close>

text \<open>One step of \<open>evalExprWithProgram\<close>: the switch over the kinds.\<close>

definition evalStep ::
  "fold_table \<Rightarrow> (expr \<Rightarrow> outcome ev) \<Rightarrow> function_map \<Rightarrow> expr \<Rightarrow> outcome ev"
where
  "evalStep table ev fns e =
     (case exKind e of
        ExprLiteral \<Rightarrow> evalLiteral e
      | ExprReference \<Rightarrow> evalReference e
      | ExprUnary \<Rightarrow> evalUnary ev e
      | ExprBinary \<Rightarrow> evalBinary ev e
      | ExprConditional \<Rightarrow> evalConditional ev e
      | ExprBlock \<Rightarrow> evalBlockExpr ev e
      | ExprImmutableLocal \<Rightarrow> evalImmutableLocal ev e
      | ExprCall \<Rightarrow> evalCall ev fns e
      | ExprListFilterPredicate \<Rightarrow> evalFilterPredicate ev fns e
      | ExprTextContainsCaseFolded \<Rightarrow> evalTextContains table ev e
      | ExprTextTrim \<Rightarrow> evalTextTrim ev e
      | ExprFieldProjection \<Rightarrow> evalFieldProjection ev e
      | ExprRecordConstruct \<Rightarrow> evalRecordConstruct ev e
      | ExprOptionalSome \<Rightarrow> evalOptionalSome ev e
      | ExprOptionalNone \<Rightarrow> evalOptionalNone e
      | ExprOptionalHasValue \<Rightarrow> evalOptionalHasValue ev e
      | ExprOptionalValueOr \<Rightarrow> evalOptionalValueOr ev e
      | ExprListEmpty \<Rightarrow> evalListEmpty e
      | ExprListSingleton \<Rightarrow> evalListSingleton ev e
      | ExprListCount \<Rightarrow> evalListCount ev e
      | ExprListAppend \<Rightarrow> evalListAppend ev e
      | ExprListAt \<Rightarrow> evalListAt ev e
      | ExprListFindByText \<Rightarrow> evalListFind ev e
      | ExprListFilterByText \<Rightarrow> evalListFilter ev e
      | ExprListFilterContainsCaseFolded \<Rightarrow> evalListFilterContains table ev e
      | ExprListFilterJoinedContainsCaseFolded \<Rightarrow> evalListFilterJoined table ev e
      | ExprListSortByOrdinalText \<Rightarrow> evalSortText ev e
      | ExprListSortByOrdinalTexts \<Rightarrow> evalSortTexts ev e
      | ExprListSortByOrdinalDirections \<Rightarrow> evalSortDirections ev e
      | ExprResultOK \<Rightarrow> evalResultOK ev e
      | ExprResultErr \<Rightarrow> evalResultErr ev e
      | ExprResultIsOK \<Rightarrow> evalResultIsOK e
      | ExprResultSuccessOr \<Rightarrow> evalResultSuccessOr ev e
      | ExprPropagate \<Rightarrow> evalPropagate ev e
      | ExprMatch \<Rightarrow> evalMatch ev e
      | ExprResultFailureOr \<Rightarrow> evalResultFailureOr ev e
      | ExprOther k \<Rightarrow> failE ''unsupported expression kind'')"

fun evalExpr :: "fold_table \<Rightarrow> nat \<Rightarrow> function_map \<Rightarrow> expr \<Rightarrow> outcome ev" where
  "evalExpr table 0 fns e = liftR Timeout"
| "evalExpr table (Suc n) fns e = evalStep table (\<lambda>c. evalExpr table n fns c) fns e"

section \<open>Entry points\<close>

text \<open>
  The argument checks of \<open>Evaluate\<close> and \<open>evaluateWithFunctions\<close>, run after the number
  of arguments has been compared, and the run itself.
\<close>

definition validateArguments :: "parameter list \<Rightarrow> core_value list \<Rightarrow> unit res" where
  "validateArguments parameters arguments =
     andThen (rejectIf (length arguments \<noteq> length parameters) ''function argument count mismatch'')
       (checkAll (\<lambda>(argument, param).
          andThen (rejectIf (\<not> TypeEqual (vType argument) (paType param))
            ''argument type does not match parameter'')
            (validateValue argument))
         (zip arguments parameters))"

definition runFunction ::
  "fold_table \<Rightarrow> nat \<Rightarrow> function_map \<Rightarrow> func \<Rightarrow> core_value list \<Rightarrow> outcome res"
where
  "runFunction table fuel fns fn arguments =
     bindR (fst (evalExpr table fuel fns (fnBody fn) (newFrame arguments)))
       (\<lambda>r. Ret (completeFunctionOutcome (fnReturnType fn) r))"

definition evaluateWithFunctions ::
  "fold_table \<Rightarrow> nat \<Rightarrow> (string \<Rightarrow> func option) \<Rightarrow> semantic_identity \<Rightarrow> core_value list \<Rightarrow> outcome res"
where
  "evaluateWithFunctions table fuel fns identity arguments =
     (case fns (functionKey identity) of
        None \<Rightarrow> Err ''selected function semantic identity was not found''
      | Some selected \<Rightarrow>
          if siPackage (fnIdentity selected) \<noteq> siPackage identity
            \<or> siPath (fnIdentity selected) \<noteq> siPath identity
          then Err ''selected function semantic identity was not found''
          else andThen (validateArguments (fnParameters selected) arguments)
            (runFunction table fuel (Some fns) selected arguments))"

text \<open>The function map of a program: a later function replaces an earlier one of its key.\<close>

definition functionMap :: "func list \<Rightarrow> string \<Rightarrow> func option" where
  "functionMap fns = map_of (rev (map (\<lambda>f. (functionKey (fnIdentity f), f)) fns))"

end
