(* ===== verification/CoreValidate.thy ===== *)
theory CoreValidate
  imports CoreExpr
begin

text \<open>
  \<open>validateExpr\<close> of coreir/semantics.go: one definition per expression kind, with the
  recursive validator as an argument, and the recursion over operands.
\<close>

section \<open>Operators, conditionals, locals, calls\<close>

definition boundParameter :: "int \<Rightarrow> string \<Rightarrow> core_type \<Rightarrow> parameter" where
  "boundParameter position name typ = \<lparr>paPosition = position, paName = name, paType = typ\<rparr>"

definition validateLiteral :: "expr \<Rightarrow> unit res" where
  "validateLiteral e =
     (case exLiteral e of
        None \<Rightarrow> Err ''literal has an invalid type''
      | Some l \<Rightarrow>
          andThen (rejectIf (\<not> isLiteralType (exType e) \<and> tKind (exType e) \<noteq> TypeEnum)
            ''literal has an invalid type'')
          (andThen (if tKind (exType e) = TypeEnum
              then andThen (rejectIf (litInt l \<noteq> 0 \<or> \<not> f64Eq (litFloat l) 0 \<or> litBool l)
                  ''enum literal carries a non-enum payload'')
                (ValidateEnumTag (exType e) (litString l))
              else Ret ())
            (if tKind (exType e) = TypePrimitive \<and> tPrimitive (exType e) = PrimitiveString
             then ValidateText (litString l) else Ret ())))"

definition validateReference :: "expr \<Rightarrow> parameter list \<Rightarrow> unit res" where
  "validateReference e ps =
     (case exParameter e of
        None \<Rightarrow> Err ''reference has an invalid parameter position''
      | Some i \<Rightarrow>
          andThen (rejectIf (i < 0 \<or> i \<ge> int (length ps)) ''reference has an invalid parameter position'')
            (rejectIf (\<not> TypeEqual (exType e) (paType (ps ! nat i)))
              ''reference type does not match parameter''))"

type_synonym validator = "expr \<Rightarrow> parameter list \<Rightarrow> unit res"

definition validateUnary :: "validator \<Rightarrow> expr \<Rightarrow> parameter list \<Rightarrow> unit res" where
  "validateUnary v e ps =
     (case exUnary e of
        Some (Unary operator (Some x)) \<Rightarrow>
          andThen (v x ps)
            (if operator = OperatorNot then
               rejectIf (\<not> TypeEqual (exType x) boolType \<or> \<not> TypeEqual (exType e) boolType)
                 ''operator requires and returns bool''
             else if operator = OperatorNegate then
               bindR (ArithmeticResultType operator (exType x) None) (\<lambda>expected.
                 rejectIf (\<not> TypeEqual (exType e) expected) ''operator has an invalid Result type'')
             else Err ''unsupported unary operator'')
      | _ \<Rightarrow> Err ''unary expression is incomplete'')"

definition validateArithmetic :: "operator \<Rightarrow> core_type \<Rightarrow> core_type \<Rightarrow> core_type \<Rightarrow> unit res" where
  "validateArithmetic operator typ left right =
     bindR (ArithmeticResultType operator left (Some right)) (\<lambda>expected.
       rejectIf (\<not> TypeEqual typ expected) ''operator has an invalid Result type'')"

definition validateBinaryTypes :: "operator \<Rightarrow> core_type \<Rightarrow> core_type \<Rightarrow> core_type \<Rightarrow> unit res" where
  "validateBinaryTypes operator typ left right =
     (if operator = OperatorAdd then
        (if TypeEqual left textType \<and> TypeEqual right textType \<and> TypeEqual typ textType then Ret ()
         else validateArithmetic operator typ left right)
      else if operator \<in> {OperatorSubtract, OperatorMultiply, OperatorDivide} then
        validateArithmetic operator typ left right
      else if operator \<in> {OperatorEqual, OperatorNotEqual, OperatorLessThan, OperatorLessOrEqual,
          OperatorGreaterThan, OperatorGreaterOrEqual} then
        andThen (rejectIf (\<not> TypeEqual left right \<or> \<not> TypeEqual typ boolType)
            ''operator has mismatched operand or result types'')
          (rejectIf ((tKind left = TypeRecord \<or> tKind left = TypeEnum)
              \<and> operator \<noteq> OperatorEqual \<and> operator \<noteq> OperatorNotEqual)
            ''record values support structural equality only'')
      else if operator \<in> {OperatorAnd, OperatorOr} then
        rejectIf (\<not> TypeEqual left boolType \<or> \<not> TypeEqual right boolType \<or> \<not> TypeEqual typ boolType)
          ''operator requires and returns bool''
      else Err ''unsupported binary operator'')"

definition validateBinary :: "validator \<Rightarrow> expr \<Rightarrow> parameter list \<Rightarrow> unit res" where
  "validateBinary v e ps =
     (case exBinary e of
        Some (Binary operator (Some l) (Some r)) \<Rightarrow>
          andThen (v l ps) (andThen (v r ps)
            (validateBinaryTypes operator (exType e) (exType l) (exType r)))
      | _ \<Rightarrow> Err ''binary expression is incomplete'')"

definition validateConditional :: "validator \<Rightarrow> expr \<Rightarrow> parameter list \<Rightarrow> unit res" where
  "validateConditional v e ps =
     (case exConditional e of
        Some (Conditional (Some c) (Some t) (Some f) terminal) \<Rightarrow>
          andThen (v c ps) (andThen (v t ps) (andThen (v f ps)
          (andThen (rejectIf (\<not> TypeEqual (exType c) boolType) ''conditional condition is not bool'')
            (rejectIf (\<not> TypeEqual (exType t) (exType f) \<or> \<not> TypeEqual (exType e) (exType t))
              ''conditional branches and result must have exactly the same type''))))
      | _ \<Rightarrow> Err ''conditional expression is incomplete'')"

definition validateLocal :: "validator \<Rightarrow> expr \<Rightarrow> parameter list \<Rightarrow> unit res" where
  "validateLocal v e ps =
     (case exImmutableLocal e of
        Some (ImmutableLocal position name typ (Some initializer) (Some ret)) \<Rightarrow>
          andThen (rejectIf (name = [] \<or> position \<noteq> int (length ps))
            ''immutable local is incomplete or not canonically positioned'')
          (andThen (rejectIf (list_ex (\<lambda>p. paName p = name) ps)
            ''immutable local shadows an existing binding'')
          (andThen (validateType typ) (andThen (v initializer ps)
          (andThen (rejectIf (\<not> TypeEqual (exType initializer) typ)
            ''immutable local initializer type does not match its declaration'')
          (andThen (v ret (ps @ [boundParameter position name typ]))
            (rejectIf (\<not> TypeEqual (exType ret) (exType e))
              ''immutable local return type does not match its expression''))))))
      | _ \<Rightarrow> Err ''immutable local is incomplete or not canonically positioned'')"

text \<open>A loop over operands that may be missing.\<close>

definition validateOperands :: "validator \<Rightarrow> parameter list \<Rightarrow> expr option list \<Rightarrow> unit res" where
  "validateOperands v ps xs =
     checkAll (\<lambda>x. case x of None \<Rightarrow> Err ''argument is missing'' | Some c \<Rightarrow> v c ps) xs"

definition incompleteTarget :: "semantic_identity \<Rightarrow> string \<Rightarrow> bool" where
  "incompleteTarget target name \<longleftrightarrow>
     name = [] \<or> siPackage target = [] \<or> siPath target = [] \<or> siCallable target = None"

definition validateCall :: "validator \<Rightarrow> expr \<Rightarrow> parameter list \<Rightarrow> unit res" where
  "validateCall v e ps =
     (case exCall e of
        None \<Rightarrow> Err ''pure call is incomplete''
      | Some c \<Rightarrow>
          andThen (rejectIf (incompleteTarget (caTarget c) (caTargetName c)) ''pure call is incomplete'')
            (validateOperands v ps (caArguments c)))"

section \<open>Text, records, optionals\<close>

definition validateTextContains :: "validator \<Rightarrow> expr \<Rightarrow> parameter list \<Rightarrow> unit res" where
  "validateTextContains v e ps =
     (case exTextContains e of
        Some (TextContainsCaseFolded (Some x) (Some q)) \<Rightarrow>
          andThen (rejectIf (\<not> TypeEqual (exType e) boolType)
            ''contains_casefolded expression is incomplete or does not return bool'')
          (andThen (v x ps) (andThen (v q ps)
            (rejectIf (\<not> TypeEqual (exType x) textType \<or> \<not> TypeEqual (exType q) textType)
              ''contains_casefolded operands are not string'')))
      | _ \<Rightarrow> Err ''contains_casefolded expression is incomplete or does not return bool'')"

definition validateTextTrim :: "validator \<Rightarrow> expr \<Rightarrow> parameter list \<Rightarrow> unit res" where
  "validateTextTrim v e ps =
     (case exTextTrim e of
        Some (Some x) \<Rightarrow>
          andThen (rejectIf (\<not> TypeEqual (exType e) textType)
            ''trim expression is incomplete or does not return string'')
          (andThen (v x ps)
            (rejectIf (\<not> TypeEqual (exType x) textType) ''trim operand is not string''))
      | _ \<Rightarrow> Err ''trim expression is incomplete or does not return string'')"

text \<open>The field of a schema at a declared position is the one the expression names.\<close>

definition fieldMatches :: "record_field \<Rightarrow> string \<Rightarrow> semantic_identity \<Rightarrow> bool" where
  "fieldMatches field name identity \<longleftrightarrow>
     rfName field = name \<and> siPackage (rfIdentity field) = siPackage identity
     \<and> siPath (rfIdentity field) = siPath identity \<and> siCallable identity = None"

definition validateFieldProjection :: "validator \<Rightarrow> expr \<Rightarrow> parameter list \<Rightarrow> unit res" where
  "validateFieldProjection v e ps =
     (case exField e of
        Some (FieldProjection (Some x) identity name position) \<Rightarrow>
          andThen (v x ps)
          (case (tKind (exType x), tRecord (exType x)) of
             (TypeRecord, Some schema) \<Rightarrow>
               andThen (validateType (exType x))
               (andThen (rejectIf (position < 0 \<or> position \<ge> int (length schema))
                 ''field projection has an invalid declared position'')
               (andThen (rejectIf (\<not> fieldMatches (schema ! nat position) name identity)
                 ''field projection does not match the record field identity at its declared position'')
                 (rejectIf (\<not> TypeEqual (exType e) (rfType (schema ! nat position)))
                   ''field projection result type does not match the declared field type'')))
           | _ \<Rightarrow> Err ''field projection receiver is not a record'')
      | _ \<Rightarrow> Err ''field projection is incomplete'')"

definition validateConstructField ::
  "validator \<Rightarrow> parameter list \<Rightarrow> nat \<Rightarrow> expr record_construct_field \<Rightarrow> record_field \<Rightarrow> unit res"
where
  "validateConstructField v ps position initialized declared =
     (case rcfValue initialized of
        None \<Rightarrow> Err ''record construction field has no value''
      | Some x \<Rightarrow>
          andThen (rejectIf (rcfPosition initialized \<noteq> int position)
            ''record construction field is not in declaration order'')
          (andThen (rejectIf (\<not> fieldMatches declared (rcfName initialized) (rcfIdentity initialized))
            ''record construction field does not match its declared identity'')
          (andThen (v x ps)
          (andThen (rejectIf (exKind x \<noteq> ExprReference \<or> exParameter x \<noteq> Some (int position))
            ''record construction field value is not its corresponding direct parameter'')
            (rejectIf (\<not> TypeEqual (exType x) (rfType declared))
              ''record construction field value type does not match its declaration'')))))"

definition validateRecordConstruct :: "validator \<Rightarrow> expr \<Rightarrow> parameter list \<Rightarrow> unit res" where
  "validateRecordConstruct v e ps =
     (case exRecord e of
        None \<Rightarrow> Err ''record construction is incomplete''
      | Some c \<Rightarrow>
          (case (tKind (exType e), tRecord (exType e), tIdentity (exType e)) of
             (TypeRecord, Some schema, Some owner) \<Rightarrow>
               andThen (validateType (exType e))
               (andThen (rejectIf (siPackage (rcIdentity c) \<noteq> siPackage owner
                   \<or> siPath (rcIdentity c) \<noteq> siPath owner \<or> siCallable (rcIdentity c) \<noteq> None)
                 ''record construction identity does not match its result type'')
               (andThen (rejectIf (length (rcFields c) \<noteq> length schema)
                 ''record construction field count does not match its schema'')
               (andThen (rejectIf (length ps \<noteq> length (rcFields c))
                 ''record construction requires one corresponding parameter per field'')
                 (checkAll (\<lambda>(position, initialized, declared).
                     validateConstructField v ps position initialized declared)
                   (enumerate 0 (zip (rcFields c) schema))))))
           | _ \<Rightarrow> Err ''record construction result is not an identified record''))"

definition validateOptionalSome :: "validator \<Rightarrow> expr \<Rightarrow> parameter list \<Rightarrow> unit res" where
  "validateOptionalSome v e ps =
     (case (exSome e, tKind (exType e), tOptional (exType e)) of
        (Some (Some x), TypeOptional, Some payload) \<Rightarrow>
          andThen (validateType (exType e)) (andThen (v x ps)
            (rejectIf (\<not> TypeEqual (exType x) payload)
              ''optional some value type does not match its result type''))
      | _ \<Rightarrow> Err ''optional some expression is incomplete'')"

definition validateOptionalNone :: "expr \<Rightarrow> unit res" where
  "validateOptionalNone e =
     (if exNone e = None \<or> tKind (exType e) \<noteq> TypeOptional \<or> tOptional (exType e) = None
      then Err ''optional none expression is incomplete''
      else validateType (exType e))"

definition validateOptionalHasValue :: "validator \<Rightarrow> expr \<Rightarrow> parameter list \<Rightarrow> unit res" where
  "validateOptionalHasValue v e ps =
     (case exHasValue e of
        Some (Some x) \<Rightarrow>
          andThen (rejectIf (\<not> TypeEqual (exType e) boolType)
            ''optional has_value expression is incomplete or does not return bool'')
          (andThen (v x ps)
            (rejectIf (tKind (exType x) \<noteq> TypeOptional) ''optional has_value operand is not Optional''))
      | _ \<Rightarrow> Err ''optional has_value expression is incomplete or does not return bool'')"

definition validateOptionalValueOr :: "validator \<Rightarrow> expr \<Rightarrow> parameter list \<Rightarrow> unit res" where
  "validateOptionalValueOr v e ps =
     (case exValueOr e of
        Some (WithFallback (Some x) (Some d)) \<Rightarrow>
          andThen (v x ps) (andThen (v d ps)
          (case (tKind (exType x), tOptional (exType x)) of
             (TypeOptional, Some payload) \<Rightarrow>
               rejectIf (\<not> TypeEqual payload (exType d) \<or> \<not> TypeEqual (exType e) (exType d))
                 ''optional value_or payload, fallback, and result types do not match''
           | _ \<Rightarrow> Err ''optional value_or first operand is not Optional''))
      | _ \<Rightarrow> Err ''optional value_or expression is incomplete'')"

section \<open>Lists\<close>

definition validateListEmpty :: "expr \<Rightarrow> unit res" where
  "validateListEmpty e =
     (if exListEmpty e = None \<or> tKind (exType e) \<noteq> TypeList \<or> tList (exType e) = None
      then Err ''list empty expression is incomplete''
      else validateType (exType e))"

definition validateListSingleton :: "validator \<Rightarrow> expr \<Rightarrow> parameter list \<Rightarrow> unit res" where
  "validateListSingleton v e ps =
     (case (exListOne e, tKind (exType e), tList (exType e)) of
        (Some (Some x), TypeList, Some element) \<Rightarrow>
          andThen (validateType (exType e)) (andThen (v x ps)
            (rejectIf (\<not> TypeEqual (exType x) element)
              ''list singleton value type does not match its element type''))
      | _ \<Rightarrow> Err ''list singleton expression is incomplete'')"

definition validateListCount :: "validator \<Rightarrow> expr \<Rightarrow> parameter list \<Rightarrow> unit res" where
  "validateListCount v e ps =
     (case exListCount e of
        Some (Some x) \<Rightarrow>
          andThen (rejectIf (\<not> TypeEqual (exType e) (SignedInteger 64))
            ''list count expression is incomplete or does not return signed 64-bit int'')
          (andThen (v x ps)
            (rejectIf (tKind (exType x) \<noteq> TypeList) ''list count operand is not a List''))
      | _ \<Rightarrow> Err ''list count expression is incomplete or does not return signed 64-bit int'')"

definition validateListAppend :: "validator \<Rightarrow> expr \<Rightarrow> parameter list \<Rightarrow> unit res" where
  "validateListAppend v e ps =
     (case (exListAppend e, tKind (exType e), tList (exType e)) of
        (Some (ListAppend (Some xs) (Some x)), TypeList, Some element) \<Rightarrow>
          andThen (validateType (exType e)) (andThen (v xs ps) (andThen (v x ps)
          (andThen (rejectIf (\<not> TypeEqual (exType xs) (exType e))
              ''list append values type does not match its result type'')
            (rejectIf (\<not> TypeEqual (exType x) element)
              ''list append value type does not match its element type''))))
      | _ \<Rightarrow> Err ''list append expression is incomplete'')"

definition validateListAt :: "validator \<Rightarrow> expr \<Rightarrow> parameter list \<Rightarrow> unit res" where
  "validateListAt v e ps =
     (case (exListAt e, tKind (exType e), tOptional (exType e)) of
        (Some (ListAt (Some xs) (Some i)), TypeOptional, Some payload) \<Rightarrow>
          andThen (validateType (exType e)) (andThen (v xs ps) (andThen (v i ps)
          (andThen (rejectIf (tKind (exType xs) \<noteq> TypeList
              \<or> (case tList (exType xs) of None \<Rightarrow> True | Some el \<Rightarrow> \<not> TypeEqual el payload))
              ''list at values element type does not match its Optional result'')
            (rejectIf (\<not> TypeEqual (exType i) (SignedInteger 64))
              ''list at index is not signed 64-bit int''))))
      | _ \<Rightarrow> Err ''list at expression is incomplete'')"

text \<open>The schema of the elements of a list of records.\<close>

definition recordListSchema :: "core_type \<Rightarrow> record_field list option" where
  "recordListSchema t =
     (case (tKind t, tList t) of
        (TypeList, Some el) \<Rightarrow> if tKind el = TypeRecord then tRecord el else None
      | _ \<Rightarrow> None)"

text \<open>The selected field exists, is the one named, and holds text.\<close>

definition validateTextField :: "record_field list \<Rightarrow> int \<Rightarrow> string \<Rightarrow> semantic_identity \<Rightarrow> unit res" where
  "validateTextField schema position name identity =
     andThen (rejectIf (position < 0 \<or> position \<ge> int (length schema))
       ''list field position is outside the record schema'')
     (andThen (rejectIf (\<not> fieldMatches (schema ! nat position) name identity)
       ''list field identity does not match the record schema'')
       (rejectIf (\<not> TypeEqual (rfType (schema ! nat position)) textType)
         ''list field is not string''))"

definition validateListFind :: "validator \<Rightarrow> expr \<Rightarrow> parameter list \<Rightarrow> unit res" where
  "validateListFind v e ps =
     (case (exListFind e, tKind (exType e), tOptional (exType e)) of
        (Some (ListByText (Some xs) identity name position (Some key)), TypeOptional, Some payload) \<Rightarrow>
          andThen (validateType (exType e)) (andThen (v xs ps) (andThen (v key ps)
          (case recordListSchema (exType xs) of
             None \<Rightarrow> Err ''list find_by values element type does not match its Optional record result''
           | Some schema \<Rightarrow>
               andThen (rejectIf (\<not> TypeEqual (the (tList (exType xs))) payload)
                 ''list find_by values element type does not match its Optional record result'')
               (andThen (rejectIf (\<not> TypeEqual (exType key) textType) ''list find_by key is not string'')
                 (validateTextField schema position name identity)))))
      | _ \<Rightarrow> Err ''list find_by expression is incomplete'')"

text \<open>
  \<open>filter_by\<close> and \<open>filter_contains_casefolded\<close> have the same checks (the type of the values
  against the result, the key or query, the field), as have the sorts without a key.
\<close>

definition recordListResult :: "core_type \<Rightarrow> core_type \<Rightarrow> record_field list res" where
  "recordListResult typ valuesType =
     (case recordListSchema valuesType of
        None \<Rightarrow> Err ''list values type does not match its record-list result''
      | Some schema \<Rightarrow>
          if \<not> TypeEqual valuesType typ
          then Err ''list values type does not match its record-list result''
          else Ret schema)"

definition isListType :: "core_type \<Rightarrow> bool" where
  "isListType t \<longleftrightarrow> tKind t = TypeList \<and> tList t \<noteq> None"

definition validateFilterByText ::
  "validator \<Rightarrow> expr list_by_text option \<Rightarrow> core_type \<Rightarrow> parameter list \<Rightarrow> unit res"
where
  "validateFilterByText v filter_expr typ ps =
     (case filter_expr of
        Some (ListByText (Some xs) identity name position (Some key)) \<Rightarrow>
          andThen (rejectIf (\<not> isListType typ) ''list filter expression is incomplete'')
          (andThen (validateType typ) (andThen (v xs ps) (andThen (v key ps)
          (bindR (recordListResult typ (exType xs)) (\<lambda>schema.
          andThen (rejectIf (\<not> TypeEqual (exType key) textType) ''list filter key is not string'')
            (validateTextField schema position name identity))))))
      | _ \<Rightarrow> Err ''list filter expression is incomplete'')"

definition validateListFilter :: "validator \<Rightarrow> expr \<Rightarrow> parameter list \<Rightarrow> unit res" where
  "validateListFilter v e ps = validateFilterByText v (exListFilter e) (exType e) ps"

definition validateListFilterContains :: "validator \<Rightarrow> expr \<Rightarrow> parameter list \<Rightarrow> unit res" where
  "validateListFilterContains v e ps = validateFilterByText v (exListFilterContains e) (exType e) ps"

definition validateFilterPredicate :: "validator \<Rightarrow> expr \<Rightarrow> parameter list \<Rightarrow> unit res" where
  "validateFilterPredicate v e ps =
     (case exListFilterPredicate e of
        Some (ListFilterPredicate (Some xs) target name arguments) \<Rightarrow>
          andThen (rejectIf (\<not> isListType (exType e) \<or> incompleteTarget target name)
            ''named predicate list filter expression is incomplete'')
          (andThen (v xs ps)
          (andThen (rejectIf (\<not> TypeEqual (exType xs) (exType e))
            ''named predicate list filter values type does not match result'')
            (validateOperands v ps arguments)))
      | _ \<Rightarrow> Err ''named predicate list filter expression is incomplete'')"

text \<open>The selector loop with the set of positions seen.\<close>

fun validateSelectors :: "record_field list \<Rightarrow> int list \<Rightarrow> list_selector list \<Rightarrow> unit res" where
  "validateSelectors schema seen [] = Ret ()"
| "validateSelectors schema seen (s # ss) =
     andThen (rejectIf (lsPosition s < 0 \<or> lsPosition s \<ge> int (length schema))
       ''list field position is outside the record schema'')
     (andThen (rejectIf (lsPosition s \<in> set seen) ''list field selectors must be distinct'')
     (andThen (validateTextField schema (lsPosition s) (lsName s) (lsField s))
       (validateSelectors schema (lsPosition s # seen) ss)))"

definition validateListFilterJoined :: "validator \<Rightarrow> expr \<Rightarrow> parameter list \<Rightarrow> unit res" where
  "validateListFilterJoined v e ps =
     (case exListFilterJoined e of
        Some (ListJoined (Some xs) selectors (Some q)) \<Rightarrow>
          andThen (rejectIf (length selectors < 2 \<or> \<not> isListType (exType e))
            ''list filter_joined_contains_casefolded expression is incomplete'')
          (andThen (validateType (exType e)) (andThen (v xs ps) (andThen (v q ps)
          (bindR (recordListResult (exType e) (exType xs)) (\<lambda>schema.
          andThen (rejectIf (\<not> TypeEqual (exType q) textType)
            ''list filter_joined_contains_casefolded query is not string'')
            (validateSelectors schema [] selectors))))))
      | _ \<Rightarrow> Err ''list filter_joined_contains_casefolded expression is incomplete'')"

definition validateSortText ::
  "validator \<Rightarrow> expr list_sort_text option \<Rightarrow> core_type \<Rightarrow> parameter list \<Rightarrow> unit res"
where
  "validateSortText v sorted_expr typ ps =
     (case sorted_expr of
        Some (ListSortByOrdinalText (Some xs) identity name position) \<Rightarrow>
          andThen (rejectIf (\<not> isListType typ) ''list sort_by_ordinal expression is incomplete'')
          (andThen (validateType typ) (andThen (v xs ps)
          (bindR (recordListResult typ (exType xs)) (\<lambda>schema.
            validateTextField schema position name identity))))
      | _ \<Rightarrow> Err ''list sort_by_ordinal expression is incomplete'')"

definition validateSortTexts ::
  "validator \<Rightarrow> expr list_sort_texts option \<Rightarrow> core_type \<Rightarrow> parameter list \<Rightarrow> unit res"
where
  "validateSortTexts v sorted_expr typ ps =
     (case sorted_expr of
        Some (ListSortByOrdinalTexts (Some xs) selectors) \<Rightarrow>
          andThen (rejectIf (length selectors < 2 \<or> \<not> isListType typ)
            ''multi-key list sort_by_ordinal expression is incomplete'')
          (andThen (validateType typ) (andThen (v xs ps)
          (bindR (recordListResult typ (exType xs)) (\<lambda>schema. validateSelectors schema [] selectors))))
      | _ \<Rightarrow> Err ''multi-key list sort_by_ordinal expression is incomplete'')"

text \<open>
  The directional sort is validated as the sort without directions: the code rewrites the
  expression and validates the rewritten one, whose block and type are those of the original
  and have been checked.
\<close>

definition validateSortDirections :: "validator \<Rightarrow> expr \<Rightarrow> parameter list \<Rightarrow> unit res" where
  "validateSortDirections v e ps =
     (case exSortDirections e of
        Some (ListSortByOrdinalDirections (Some xs) selectors) \<Rightarrow>
          andThen (rejectIf (selectors = []) ''directional list sort_by_ordinal expression is incomplete'')
          (andThen (rejectIf (list_ex (\<lambda>(s, d). d \<noteq> ''ascending'' \<and> d \<noteq> ''descending'') selectors)
            ''directional list sort_by_ordinal direction is invalid'')
          (case map fst selectors of
             [s] \<Rightarrow> validateSortText v
               (Some (ListSortByOrdinalText (Some xs) (lsField s) (lsName s) (lsPosition s))) (exType e) ps
           | plain \<Rightarrow> validateSortTexts v (Some (ListSortByOrdinalTexts (Some xs) plain)) (exType e) ps))
      | _ \<Rightarrow> Err ''directional list sort_by_ordinal expression is incomplete'')"

section \<open>Results and propagation\<close>

text \<open>
  \<open>part\<close> selects the success or the failure type of a result; the pointer is dereferenced
  after the type has been found to be a bounded result.
\<close>

definition resultPart :: "(core_type \<times> core_type \<Rightarrow> core_type) \<Rightarrow> core_type \<Rightarrow> core_type" where
  "resultPart part t = part (the (tResult t))"

definition validateResultOf ::
  "validator \<Rightarrow> (core_type \<times> core_type \<Rightarrow> core_type) \<Rightarrow> expr option option \<Rightarrow> core_type
    \<Rightarrow> parameter list \<Rightarrow> unit res"
where
  "validateResultOf v part operand_ptr typ ps =
     (case operand_ptr of
        Some (Some x) \<Rightarrow>
          andThen (rejectIf (\<not> isBoundedValueResultType typ)
            ''result expression is incomplete or has an invalid result type'')
          (andThen (v x ps)
            (rejectIf (\<not> TypeEqual (exType x) (resultPart part typ))
              ''result value type does not match''))
      | _ \<Rightarrow> Err ''result expression is incomplete or has an invalid result type'')"

definition validateResultOK :: "validator \<Rightarrow> expr \<Rightarrow> parameter list \<Rightarrow> unit res" where
  "validateResultOK v e ps = validateResultOf v fst (exResultOK e) (exType e) ps"

definition validateResultErr :: "validator \<Rightarrow> expr \<Rightarrow> parameter list \<Rightarrow> unit res" where
  "validateResultErr v e ps = validateResultOf v snd (exResultErr e) (exType e) ps"

definition validateResultIsOK :: "validator \<Rightarrow> expr \<Rightarrow> parameter list \<Rightarrow> unit res" where
  "validateResultIsOK v e ps =
     (case exResultIsOK e of
        Some (Some x) \<Rightarrow>
          andThen (rejectIf (\<not> TypeEqual (exType e) boolType)
            ''result is_ok expression is incomplete or does not return bool'')
          (andThen (v x ps)
            (rejectIf (\<not> isBoundedValueResultType (exType x))
              ''result is_ok operand is not a bounded value Result''))
      | _ \<Rightarrow> Err ''result is_ok expression is incomplete or does not return bool'')"

definition validateResultOr ::
  "validator \<Rightarrow> (core_type \<times> core_type \<Rightarrow> core_type) \<Rightarrow> expr with_fallback option \<Rightarrow> core_type
    \<Rightarrow> parameter list \<Rightarrow> unit res"
where
  "validateResultOr v part operands typ ps =
     (case operands of
        Some (WithFallback (Some x) (Some d)) \<Rightarrow>
          andThen (v x ps) (andThen (v d ps)
            (rejectIf (\<not> isBoundedValueResultType (exType x)
                \<or> \<not> TypeEqual (exType d) (resultPart part (exType x))
                \<or> \<not> TypeEqual typ (resultPart part (exType x)))
              ''result operand, fallback, and return types do not match''))
      | _ \<Rightarrow> Err ''result expression is incomplete'')"

definition validateResultSuccessOr :: "validator \<Rightarrow> expr \<Rightarrow> parameter list \<Rightarrow> unit res" where
  "validateResultSuccessOr v e ps = validateResultOr v fst (exSuccessOr e) (exType e) ps"

definition validateResultFailureOr :: "validator \<Rightarrow> expr \<Rightarrow> parameter list \<Rightarrow> unit res" where
  "validateResultFailureOr v e ps = validateResultOr v snd (exFailureOr e) (exType e) ps"

definition validatePropagate :: "validator \<Rightarrow> expr \<Rightarrow> parameter list \<Rightarrow> unit res" where
  "validatePropagate v e ps =
     (case exPropagate e of
        Some (Propagate (Some x) carrier) \<Rightarrow>
          andThen (v x ps) (andThen (validateType carrier)
          (andThen (rejectIf (\<not> TypeEqual carrier (exType x)) ''propagate carrier does not match operand'')
            (rejectIf (\<not> ((tKind carrier = TypeOptional
                  \<and> (case tOptional carrier of None \<Rightarrow> False | Some p \<Rightarrow> TypeEqual (exType e) p))
                \<or> (isBoundedValueResultType carrier \<and> TypeEqual (exType e) (resultPart fst carrier))
                \<or> (isArithmeticResultType carrier \<and> TypeEqual (exType e) (resultPart fst carrier))))
              ''propagate requires a matching Optional, bounded Result, or checked-arithmetic Result carrier'')))
      | _ \<Rightarrow> Err ''propagate expression is incomplete'')"

section \<open>Match\<close>

definition matchTags :: "core_type \<Rightarrow> string list res" where
  "matchTags carrier =
     (if tKind carrier = TypeEnum then bindR (deref (tEnum carrier)) (\<lambda>ms. Ret (map emTag ms))
      else if tKind carrier = TypeResult then Ret [''ok'', ''err'']
      else Ret [''some'', ''none''])"

definition matchPayloadTags :: "core_type \<Rightarrow> string list" where
  "matchPayloadTags carrier =
     (if tKind carrier = TypeEnum then []
      else if tKind carrier = TypeResult then [''ok'', ''err''] else [''some''])"

definition matchPayloadType :: "core_type \<Rightarrow> string \<Rightarrow> core_type res" where
  "matchPayloadType carrier tag =
     (if tKind carrier = TypeOptional \<and> tag = ''some'' then deref (tOptional carrier)
      else if tKind carrier = TypeResult \<and> tag = ''ok'' then
        bindR (deref (tResult carrier)) (\<lambda>(success, _). Ret success)
      else if tKind carrier = TypeResult \<and> tag = ''err'' then
        bindR (deref (tResult carrier)) (\<lambda>(_, failure). Ret failure)
      else Err ''match arm binding has no payload'')"

definition armScope :: "core_type \<Rightarrow> parameter list \<Rightarrow> string \<Rightarrow> int option \<Rightarrow> parameter list res" where
  "armScope carrier ps tag binding =
     (case binding of
        None \<Rightarrow> Ret ps
      | Some position \<Rightarrow>
          bindR (matchPayloadType carrier tag) (\<lambda>payload.
            if position \<noteq> int (length ps) then Err ''match arm binding position is not canonical''
            else Ret (ps @ [boundParameter (int (length ps)) ''match'' payload])))"

text \<open>The arm loop with the tags seen so far, then the exhaustiveness check.\<close>

fun validateArms ::
  "validator \<Rightarrow> core_type \<Rightarrow> string list \<Rightarrow> core_type \<Rightarrow> parameter list \<Rightarrow> bool \<Rightarrow> string list
    \<Rightarrow> expr match_arm list \<Rightarrow> unit res"
where
  "validateArms v carrier tags typ ps wildcard seen [] =
     rejectIf (\<not> wildcard \<and> \<not> set tags \<subseteq> set seen) ''match is not exhaustive''"
| "validateArms v carrier tags typ ps wildcard seen (MatchArm tag binding body # arms) =
     (let isWildcard = tag = ''_'' \<and> tKind carrier \<noteq> TypeEnum in
      andThen (rejectIf wildcard ''match arm is unreachable after wildcard'')
      (andThen (if isWildcard
          then rejectIf (binding \<noteq> None) ''match wildcard cannot bind a payload''
          else
            andThen (rejectIf (tag \<notin> set tags) ''match arm tag is invalid for its carrier'')
            (andThen (rejectIf (tag \<in> set seen) ''duplicate match arm tag'')
              (rejectIf ((tag \<in> set (matchPayloadTags carrier)) \<noteq> (binding \<noteq> None))
                ''match arm tag has an invalid payload binding'')))
      (case body of
         None \<Rightarrow> Err ''match arm has no body''
       | Some b \<Rightarrow>
           bindR (armScope carrier ps tag binding) (\<lambda>scoped.
             andThen (v b scoped)
             (andThen (rejectIf (\<not> TypeEqual (exType b) typ) ''match arm type does not match expression'')
               (validateArms v carrier tags typ ps isWildcard
                 (if isWildcard then seen else tag # seen) arms))))))"

definition validateMatch :: "validator \<Rightarrow> expr \<Rightarrow> parameter list \<Rightarrow> unit res" where
  "validateMatch v e ps =
     (case exMatch e of
        Some (Match (Some x) (arm # arms)) \<Rightarrow>
          andThen (v x ps)
          (andThen (rejectIf (tKind (exType x) \<notin> {TypeOptional, TypeResult, TypeEnum})
            ''match value is not tagged'')
            (bindR (matchTags (exType x)) (\<lambda>tags.
              validateArms v (exType x) tags (exType e) ps False [] (arm # arms))))
      | _ \<Rightarrow> Err ''match expression is incomplete'')"

section \<open>The recursion\<close>

definition validateStep :: "validator \<Rightarrow> expr \<Rightarrow> parameter list \<Rightarrow> unit res" where
  "validateStep v e ps =
     (case exKind e of
        ExprLiteral \<Rightarrow> validateLiteral e
      | ExprReference \<Rightarrow> validateReference e ps
      | ExprUnary \<Rightarrow> validateUnary v e ps
      | ExprBinary \<Rightarrow> validateBinary v e ps
      | ExprConditional \<Rightarrow> validateConditional v e ps
      | ExprImmutableLocal \<Rightarrow> validateLocal v e ps
      | ExprCall \<Rightarrow> validateCall v e ps
      | ExprTextContainsCaseFolded \<Rightarrow> validateTextContains v e ps
      | ExprTextTrim \<Rightarrow> validateTextTrim v e ps
      | ExprFieldProjection \<Rightarrow> validateFieldProjection v e ps
      | ExprRecordConstruct \<Rightarrow> validateRecordConstruct v e ps
      | ExprOptionalSome \<Rightarrow> validateOptionalSome v e ps
      | ExprOptionalNone \<Rightarrow> validateOptionalNone e
      | ExprOptionalHasValue \<Rightarrow> validateOptionalHasValue v e ps
      | ExprOptionalValueOr \<Rightarrow> validateOptionalValueOr v e ps
      | ExprListEmpty \<Rightarrow> validateListEmpty e
      | ExprListSingleton \<Rightarrow> validateListSingleton v e ps
      | ExprListCount \<Rightarrow> validateListCount v e ps
      | ExprListAppend \<Rightarrow> validateListAppend v e ps
      | ExprListAt \<Rightarrow> validateListAt v e ps
      | ExprListFindByText \<Rightarrow> validateListFind v e ps
      | ExprListFilterByText \<Rightarrow> validateListFilter v e ps
      | ExprListFilterPredicate \<Rightarrow> validateFilterPredicate v e ps
      | ExprListFilterContainsCaseFolded \<Rightarrow> validateListFilterContains v e ps
      | ExprListFilterJoinedContainsCaseFolded \<Rightarrow> validateListFilterJoined v e ps
      | ExprListSortByOrdinalText \<Rightarrow> validateSortText v (exSortText e) (exType e) ps
      | ExprListSortByOrdinalTexts \<Rightarrow> validateSortTexts v (exSortTexts e) (exType e) ps
      | ExprListSortByOrdinalDirections \<Rightarrow> validateSortDirections v e ps
      | ExprResultOK \<Rightarrow> validateResultOK v e ps
      | ExprPropagate \<Rightarrow> validatePropagate v e ps
      | ExprResultErr \<Rightarrow> validateResultErr v e ps
      | ExprResultIsOK \<Rightarrow> validateResultIsOK v e ps
      | ExprResultSuccessOr \<Rightarrow> validateResultSuccessOr v e ps
      | ExprResultFailureOr \<Rightarrow> validateResultFailureOr v e ps
      | ExprMatch \<Rightarrow> validateMatch v e ps
      | _ \<Rightarrow> Err ''unsupported expression kind'')"

text \<open>The validators consult the recursion on operands of the expression only.\<close>

lemma validateOperands_agree:
  "(\<And>c. Some c \<in> set xs \<Longrightarrow> v c ps = w c ps) \<Longrightarrow> validateOperands v ps xs = validateOperands w ps xs"
  unfolding validateOperands_def by (intro checkAll_cong) (auto split: option.splits)

lemma validateArms_agree:
  "(\<And>a c qs. a \<in> set arms \<Longrightarrow> maBody a = Some c \<Longrightarrow> v c qs = w c qs) \<Longrightarrow>
   validateArms v carrier tags typ ps wildcard seen arms = validateArms w carrier tags typ ps wildcard seen arms"
proof (induction arms arbitrary: wildcard seen)
  case (Cons a arms)
  obtain tag binding body where a: "a = MatchArm tag binding body" by (cases a)
  have "v c qs = w c qs" if "body = Some c" for c qs
    using Cons.prems [of a c qs] a that by simp
  moreover have "validateArms v carrier tags typ ps wc sn arms = validateArms w carrier tags typ ps wc sn arms"
    for wc sn
    using Cons.prems by (intro Cons.IH) (meson list.set_intros(2))
  ultimately show ?case by (cases body) (simp_all add: a Let_def)
qed simp

lemma validateConstructFields_agree:
  assumes "\<And>f c. f \<in> set fs \<Longrightarrow> rcfValue f = Some c \<Longrightarrow> v c ps = w c ps"
  shows "checkAll (\<lambda>(position, initialized, declared). validateConstructField v ps position initialized declared)
      (enumerate 0 (zip fs schema)) =
    checkAll (\<lambda>(position, initialized, declared). validateConstructField w ps position initialized declared)
      (enumerate 0 (zip fs schema))"
  by (intro checkAll_cong)
    (auto simp: validateConstructField_def in_set_enumerate_eq set_zip assms [OF nth_mem] split: option.splits)

lemmas payload_splits = option.splits unary.splits binary.splits conditional.splits
  immutable_local.splits text_contains.splits field_projection.splits with_fallback.splits
  propagate.splits list_append.splits list_at.splits list_by_text.splits
  list_filter_predicate.splits list_joined.splits list_sort_text.splits list_sort_texts.splits
  list_sort_directions.splits match_on.splits list.splits

lemmas validate_defs = validateUnary_def validateBinary_def validateConditional_def
  validateLocal_def validateCall_def validateTextContains_def validateTextTrim_def
  validateFieldProjection_def validateRecordConstruct_def validateOptionalSome_def
  validateOptionalHasValue_def validateOptionalValueOr_def validateListSingleton_def
  validateListCount_def validateListAppend_def validateListAt_def validateListFind_def
  validateListFilter_def validateFilterPredicate_def validateListFilterContains_def
  validateFilterByText_def validateListFilterJoined_def validateSortText_def
  validateSortTexts_def validateSortDirections_def validateResultOK_def validateResultErr_def
  validateResultOf_def validateResultIsOK_def validateResultSuccessOr_def
  validateResultFailureOr_def validateResultOr_def validatePropagate_def validateMatch_def

lemma validateStep_agree:
  assumes h: "\<And>c qs. c \<in> set (children e) \<Longrightarrow> v c qs = w c qs"
  shows "validateStep v e ps = validateStep w e ps"
  using h [unfolded set_children]
  apply (cases "exKind e")
  apply (auto simp: validateStep_def validate_defs expressionChildren_def
      split: payload_splits type_kind.splits
      intro!: validateOperands_agree validateConstructFields_agree arg_cong [where f = "andThen _"]
        arg_cong [where f = "bindR _"] ext validateArms_agree)
  apply (metis rev_image_eqI)+
  done

lemma validateStep_cong [fundef_cong]:
  "e = e' \<Longrightarrow> ps = ps' \<Longrightarrow> (\<And>c qs. c \<in> set (children e') \<Longrightarrow> v c qs = v' c qs) \<Longrightarrow>
   validateStep v e ps = validateStep v' e' ps'"
  by (hypsubst, rule validateStep_agree)

function validateExpr :: validator where
  "validateExpr e ps =
     (if exBlock e \<noteq> None then Err ''block cannot appear in a value expression''
      else andThen (validateType (exType e)) (validateStep (\<lambda>c qs. validateExpr c qs) e ps))"
  by auto
termination
  by (relation "measure (size \<circ> fst)") (auto intro: size_children)

declare validateExpr.simps [simp del]

lemma validateExpr_type: "validateExpr e ps = Ret () \<Longrightarrow> validateType (exType e) = Ret ()"
  by (subst (asm) validateExpr.simps) (auto split: if_splits)

lemma validateExpr_step:
  "validateExpr e ps = Ret () \<Longrightarrow> exBlock e = None \<and> validateStep validateExpr e ps = Ret ()"
  by (subst (asm) validateExpr.simps) (auto split: if_splits)

end
