(* ===== verification/CoreBlocks.thy ===== *)
theory CoreBlocks
  imports CoreValidate
begin

text \<open>
  Statement blocks (coreir/blocks.go): the validation of block bodies with its definite
  assignment analysis. The code updates the slice of assignment states of the enclosing block
  in place; here a block returns the new states.
\<close>

record assign_state =
  asMutable :: bool
  asDefinite :: bool
  asPossible :: bool

section \<open>Values in blocks\<close>

definition forbiddenInBlock :: "expr \<Rightarrow> bool" where
  "forbiddenInBlock x \<longleftrightarrow>
     exKind x = ExprImmutableLocal \<or> exKind x = ExprPropagate
     \<or> (exKind x = ExprConditional
        \<and> (case exConditional x of None \<Rightarrow> False | Some c \<Rightarrow> cdTerminal c))"

definition validateBlockValue :: "expr \<Rightarrow> parameter list \<Rightarrow> unit res" where
  "validateBlockValue e scope =
     andThen (validateExpr e scope)
       (rejectIf (list_ex forbiddenInBlock (WalkExpression (\<lambda>x. \<not> forbiddenInBlock x) e))
         ''statement or propagation in block value expression'')"

definition readsUninitialized :: "assign_state list \<Rightarrow> expr \<Rightarrow> bool" where
  "readsUninitialized state x \<longleftrightarrow>
     exKind x = ExprReference
     \<and> (case exParameter x of
          None \<Rightarrow> False
        | Some i \<Rightarrow> 0 \<le> i \<and> i < int (length state) \<and> \<not> asDefinite (state ! nat i))"

text \<open>The closure \<open>value\<close> of \<open>validateBlock\<close>; it gives the expression back.\<close>

definition blockValue :: "parameter list \<Rightarrow> assign_state list \<Rightarrow> expr option \<Rightarrow> expr res" where
  "blockValue scope state p =
     (case p of
        None \<Rightarrow> Err ''missing block value''
      | Some e \<Rightarrow>
          andThen (validateBlockValue e scope)
          (andThen (rejectIf (list_ex (readsUninitialized state) (subexprs e))
            ''block local read before definite assignment'')
            (Ret e)))"

section \<open>validateBlock\<close>

text \<open>The merge of the states of the two branches; \<open>a\<close> and \<open>z\<close> say which returned.\<close>

definition mergeState :: "bool \<Rightarrow> bool \<Rightarrow> assign_state \<Rightarrow> assign_state \<Rightarrow> assign_state \<Rightarrow> assign_state" where
  "mergeState a z s left right =
     (if a \<and> z then s
      else if a then right
      else if z then left
      else s\<lparr>asDefinite := asDefinite left \<and> asDefinite right,
             asPossible := asPossible left \<or> asPossible right\<rparr>)"

fun mergeStates ::
  "bool \<Rightarrow> bool \<Rightarrow> assign_state list \<Rightarrow> assign_state list \<Rightarrow> assign_state list \<Rightarrow> assign_state list"
where
  "mergeStates a z (s # ss) (l # ls) (r # rs) = mergeState a z s l r # mergeStates a z ss ls rs"
| "mergeStates a z _ _ _ = []"

definition localState :: "bool \<Rightarrow> bool \<Rightarrow> assign_state" where
  "localState mut assigned = \<lparr>asMutable = mut, asDefinite = assigned, asPossible = assigned\<rparr>"

text \<open>
  One declaration: the checks, and the initializer if there is one. The next two are the checks
  of an assignment, with the states it leaves, and of a return.
\<close>

definition validateLocalStatement ::
  "parameter list \<Rightarrow> assign_state list \<Rightarrow> parameter \<Rightarrow> expr option \<Rightarrow> unit res"
where
  "validateLocalStatement scope state l v =
     andThen (rejectIf (paName l = [] \<or> paPosition l \<noteq> int (length scope))
       ''noncanonical block local binding'')
     (andThen (rejectIf (list_ex (\<lambda>p. paName p = paName l) scope)
       ''block local shadows existing binding'')
     (andThen (validateType (paType l))
       (if v = None then Ret ()
        else bindR (blockValue scope state v) (\<lambda>e.
          rejectIf (\<not> TypeEqual (paType l) (exType e)) ''block local initializer type mismatch''))))"

definition validateAssignStatement ::
  "parameter list \<Rightarrow> assign_state list \<Rightarrow> int \<Rightarrow> expr option \<Rightarrow> assign_state list res"
where
  "validateAssignStatement scope state p v =
     andThen (rejectIf (p < 0 \<or> p \<ge> int (length scope)) ''assignment target outside lexical scope'')
     (bindR (index state p) (\<lambda>s.
       andThen (rejectIf (\<not> asMutable s \<and> asPossible s) ''immutable binding may already be assigned'')
       (bindR (blockValue scope state v) (\<lambda>e.
         andThen (rejectIf (\<not> TypeEqual (paType (scope ! nat p)) (exType e)) ''assignment type mismatch'')
           (Ret (state[nat p := s\<lparr>asDefinite := True, asPossible := True\<rparr>]))))))"

function (sequential) validateBlock ::
  "core_type \<Rightarrow> expr block option \<Rightarrow> parameter list \<Rightarrow> assign_state list
    \<Rightarrow> (bool \<times> assign_state list) res"
  and validateStatements ::
  "core_type \<Rightarrow> expr statement list \<Rightarrow> parameter list \<Rightarrow> assign_state list \<Rightarrow> bool
    \<Rightarrow> (bool \<times> assign_state list) res"
where
  "validateBlock result None scope state = Err ''missing or cyclic block''"
| "validateBlock result (Some (Block ss)) scope state =
     bindR (validateStatements result ss scope state False) (\<lambda>(returned, state').
       Ret (returned, take (length state) state'))"
| "validateStatements result [] scope state returned = Ret (returned, state)"
| "validateStatements result (Statement mut target kind v local th el # ss) scope state returned =
     andThen (rejectIf returned ''unreachable block statement'')
     (andThen (rejectIf ((kind \<noteq> StmtLocal \<and> mut) \<or> (kind \<noteq> StmtAssign \<and> target \<noteq> None))
       ''extraneous assignment payload'')
     (if kind = StmtLocal then
        (case local of
           None \<Rightarrow> Err ''malformed local statement''
         | Some l \<Rightarrow>
             andThen (rejectIf (th \<noteq> None \<or> el \<noteq> None) ''malformed local statement'')
             (andThen (validateLocalStatement scope state l v)
               (validateStatements result ss (scope @ [l]) (state @ [localState mut (v \<noteq> None)]) False)))
      else if kind = StmtAssign then
        (case target of
           None \<Rightarrow> Err ''malformed assignment statement''
         | Some p \<Rightarrow>
             andThen (rejectIf (local \<noteq> None \<or> th \<noteq> None \<or> el \<noteq> None) ''malformed assignment statement'')
             (bindR (validateAssignStatement scope state p v) (\<lambda>state'.
               validateStatements result ss scope state' False)))
      else if kind = StmtReturn then
        andThen (rejectIf (local \<noteq> None \<or> th \<noteq> None \<or> el \<noteq> None) ''malformed return statement'')
        (bindR (blockValue scope state v) (\<lambda>e.
          andThen (rejectIf (\<not> TypeEqual result (exType e)) ''block return type mismatch'')
            (validateStatements result ss scope state True)))
      else if kind = StmtIf then
        andThen (rejectIf (th = None \<or> local \<noteq> None) ''malformed if statement'')
        (bindR (blockValue scope state v) (\<lambda>e.
          andThen (rejectIf (\<not> TypeEqual (exType e) boolType) ''if condition must be bool'')
          (bindR (validateBlock result th scope state) (\<lambda>(a, left).
           bindR (if el = None then Ret (False, state) else validateBlock result el scope state)
             (\<lambda>(z, right).
               validateStatements result ss scope (mergeStates a z state left right) (a \<and> z))))))
      else if kind = StmtBlock then
        andThen (rejectIf (th = None \<or> v \<noteq> None \<or> local \<noteq> None \<or> el \<noteq> None)
          ''malformed nested block statement'')
        (bindR (validateBlock result th scope state) (\<lambda>(a, state').
          validateStatements result ss scope state' a))
      else Err ''unknown statement kind''))"
  by pat_completeness auto
termination
  by (relation "measure (\<lambda>x. case x of
       Inl (_, b, _) \<Rightarrow> size_option (size_block (\<lambda>_. 0)) b
     | Inr (_, ss, _) \<Rightarrow> size_list (size_statement (\<lambda>_. 0)) ss)") simp_all

section \<open>Block-bodied functions\<close>

text \<open>An expression with a block and no other payload.\<close>

definition blockExpr :: "expr block option \<Rightarrow> expr_kind \<Rightarrow> core_type \<Rightarrow> expr" where
  "blockExpr b k t = Expr b k t None None None None None None None None None None None None None
     None None None None None None None None None None None None None None None None None None
     None None None None"

text \<open>The parameter loop with the names seen.\<close>

fun validateBlockParameters :: "int \<Rightarrow> string list \<Rightarrow> parameter list \<Rightarrow> unit res" where
  "validateBlockParameters i names [] = Ret ()"
| "validateBlockParameters i names (p # ps) =
     andThen (rejectIf (paPosition p \<noteq> i \<or> paName p = [] \<or> paName p \<in> set names)
       ''invalid block parameter binding'')
     (andThen (validateType (paType p)) (validateBlockParameters (i + 1) (paName p # names) ps))"

definition parameterState :: assign_state where
  "parameterState = \<lparr>asMutable = False, asDefinite = True, asPossible = True\<rparr>"

definition validateBlockFunction :: "func \<Rightarrow> unit res" where
  "validateBlockFunction f =
     (let body = fnBody f in
      andThen (rejectIf (body \<noteq> blockExpr (exBlock body) (exKind body) (exType body))
        ''block body has extraneous expression payload'')
      (andThen (rejectIf (exBlock body = None) ''block body is missing'')
      (andThen (rejectIf (\<not> TypeEqual (exType body) (fnReturnType f))
        ''block result differs from function return type'')
      (andThen (validateType (fnReturnType f))
      (andThen (validateBlockParameters 0 [] (fnParameters f))
        (bindR (validateBlock (fnReturnType f) (exBlock body) (fnParameters f)
            (replicate (length (fnParameters f)) parameterState))
          (\<lambda>(returned, _). rejectIf (\<not> returned)
            ''block function can fall through without returning'')))))))"

end
