(* ===== verification/ShapeCounts.thy ===== *)
theory ShapeCounts
  imports Main
begin

text \<open>
  Partial counts, for the walks that check the shape of a body: \<open>None\<close> where the walk returns
  false, otherwise how many of the constructs it looks for it has found. A flag that a closure of
  the code sets is \<open>0 <\<close> of the sum.
\<close>

fun total :: "nat option list \<Rightarrow> nat option" where
  "total [] = Some 0"
| "total (None # _) = None"
| "total (Some n # xs) = map_option (\<lambda>m. n + m) (total xs)"

definition accept :: "bool \<Rightarrow> nat option" where
  "accept b = (if b then Some 0 else None)"

definition found :: "nat option \<Rightarrow> bool" where
  "found r \<longleftrightarrow> (case r of None \<Rightarrow> False | Some n \<Rightarrow> 0 < n)"

lemma total_eq_Some:
  "total xs = Some n \<longleftrightarrow> None \<notin> set xs \<and> n = sum_list (map the xs)"
  by (induction xs arbitrary: n rule: total.induct) auto

end
