(* ===== verification/CoreShapes.thy ===== *)
theory CoreShapes
  imports CoreExpr ShapeCounts
begin

text \<open>
  The shapes of bodies that the language contracts v0.69.0 to v0.112.0 admit
  (coreir/semantics.go): sequences of immutable locals that end in trees of terminal
  \<open>if/else\<close> statements, with bounded nesting of conditional values.
\<close>

section \<open>Counts\<close>

definition countKind :: "(expr \<Rightarrow> bool) \<Rightarrow> expr \<Rightarrow> nat" where
  "countKind P e = length (filter P (subexprs e))"

definition countConditionalExpressions :: "expr \<Rightarrow> nat" where
  "countConditionalExpressions = countKind (\<lambda>x. exKind x = ExprConditional)"

definition isTerminalIf :: "expr \<Rightarrow> bool" where
  "isTerminalIf x \<longleftrightarrow>
     exKind x = ExprConditional
     \<and> (case exConditional x of None \<Rightarrow> False | Some c \<Rightarrow> cdTerminal c)"

definition countTerminalIfStatements :: "expr \<Rightarrow> nat" where
  "countTerminalIfStatements = countKind isTerminalIf"

definition countImmutableLocalExpressions :: "expr \<Rightarrow> nat" where
  "countImmutableLocalExpressions = countKind (\<lambda>x. exKind x = ExprImmutableLocal)"

definition countPropagationExpressions :: "expr \<Rightarrow> nat" where
  "countPropagationExpressions = countKind (\<lambda>x. exKind x = ExprPropagate)"

definition countMatchExpressions :: "expr \<Rightarrow> nat" where
  "countMatchExpressions = countKind (\<lambda>x. exKind x = ExprMatch)"

definition exprContainsPropagation :: "expr \<Rightarrow> bool" where
  "exprContainsPropagation e \<longleftrightarrow> list_ex (\<lambda>x. exKind x = ExprPropagate) (subexprs e)"

abbreviation localFree :: "expr \<Rightarrow> bool" where
  "localFree e \<equiv> countImmutableLocalExpressions e = 0"

text \<open>An operand: no conditional, match or propagation in it, and no missing operand.\<close>

function validConditionalOperand :: "expr \<Rightarrow> bool" where
  "validConditionalOperand e \<longleftrightarrow>
     exKind e \<notin> {ExprConditional, ExprMatch, ExprPropagate}
     \<and> None \<notin> set (expressionChildren e) \<and> list_all validConditionalOperand (children e)"
  by auto
termination
  by (relation "measure size") (auto intro: size_children)

declare validConditionalOperand.simps [simp del]

lemma validConditionalOperand_subexprs:
  "validConditionalOperand e \<Longrightarrow> x \<in> set (subexprs e) \<Longrightarrow>
     exKind x \<notin> {ExprConditional, ExprMatch, ExprPropagate}"
proof (induction e rule: expr_children_induct)
  case (expr e)
  from expr.prems(1) have e: "exKind e \<notin> {ExprConditional, ExprMatch, ExprPropagate}"
      "\<forall>c \<in> set (children e). validConditionalOperand c"
    by (subst (asm) validConditionalOperand.simps; auto simp: list_all_iff)+
  from expr.prems(2) have "x = e \<or> (\<exists>c \<in> set (children e). x \<in> set (subexprs c))"
    by (simp add: set_subexprs [of e])
  with e expr.IH show ?case by blast
qed

section \<open>Sequences of locals\<close>

text \<open>
  The initializers of a sequence of locals and the expression after it; \<open>None\<close> when a local
  has no payload, initializer or return.
\<close>

function localSpine :: "expr \<Rightarrow> (expr list \<times> expr) option" where
  "localSpine e =
     (if exKind e \<noteq> ExprImmutableLocal then Some ([], e)
      else case exImmutableLocal e of
          Some (ImmutableLocal position name typ (Some initializer) (Some return)) \<Rightarrow>
            map_option (\<lambda>(rest, tail). (initializer # rest, tail)) (localSpine return)
        | _ \<Rightarrow> None)"
  by auto
termination
  by (relation "measure size") (auto intro!: size_children simp: set_children expressionChildren_def)

declare localSpine.simps [simp del]

text \<open>\<open>terminalBranchTail\<close>: all initializers are operands.\<close>

definition terminalBranchTail :: "expr \<Rightarrow> (nat \<times> expr) option" where
  "terminalBranchTail e =
     (case localSpine e of
        Some (initializers, tail) \<Rightarrow>
          if list_all validConditionalOperand initializers then Some (length initializers, tail)
          else None
      | None \<Rightarrow> None)"

text \<open>
  \<open>terminalBranchLocalShape\<close>: the number of locals, and whether the sequence is complete and
  within the limit (\<open>None\<close> for no limit). The walk stops at the local that breaks a rule.
\<close>

function branchLocals :: "nat option \<Rightarrow> nat \<Rightarrow> expr \<Rightarrow> nat \<times> bool" where
  "branchLocals limit n e =
     (if exKind e \<noteq> ExprImmutableLocal
      then (n, case limit of None \<Rightarrow> True | Some l \<Rightarrow> n \<le> l)
      else case exImmutableLocal e of
          Some (ImmutableLocal position name typ (Some initializer) (Some return)) \<Rightarrow>
            if (case limit of None \<Rightarrow> False | Some l \<Rightarrow> l < n + 1) then (n + 1, False)
            else branchLocals limit (n + 1) return
        | _ \<Rightarrow> (n + 1, False))"
  by auto
termination
  by (relation "measure (\<lambda>(_, _, e). size e)")
    (auto intro!: size_children simp: set_children expressionChildren_def)

declare branchLocals.simps [simp del]

definition terminalBranchLocalShape :: "expr \<Rightarrow> nat option \<Rightarrow> nat \<times> bool" where
  "terminalBranchLocalShape e limit = branchLocals limit 0 e"

section \<open>Nested terminal statements (v0.74.0 to v0.81.0)\<close>

text \<open>A terminal \<open>if/else\<close> with all its operands, whose condition is an operand.\<close>

definition terminalChoice :: "expr \<Rightarrow> (expr \<times> expr) option" where
  "terminalChoice e =
     (case (exKind e, exConditional e) of
        (ExprConditional, Some (Conditional (Some c) (Some x) (Some y) True)) \<Rightarrow>
          if validConditionalOperand c then Some (x, y) else None
      | _ \<Rightarrow> None)"

text \<open>The closures \<open>validOrdinary\<close>, \<open>validInnerLeaf\<close> and \<open>validLeaf\<close>.\<close>

definition validLeaf :: "expr \<Rightarrow> bool" where
  "validLeaf branch \<longleftrightarrow>
     (case terminalBranchTail branch of None \<Rightarrow> False
      | Some (_, tail) \<Rightarrow> exKind tail \<noteq> ExprConditional \<and> validConditionalOperand tail)"

definition validNestedWith :: "(expr \<Rightarrow> bool) \<Rightarrow> expr \<Rightarrow> bool" where
  "validNestedWith leaf branch \<longleftrightarrow>
     (case terminalBranchTail branch of None \<Rightarrow> False
      | Some (_, tail) \<Rightarrow>
          (case terminalChoice tail of None \<Rightarrow> False | Some (x, y) \<Rightarrow> leaf x \<and> leaf y))"

text \<open>One outer statement with exactly one nested statement in one of its branches.\<close>

definition oneNested :: "(expr \<Rightarrow> bool) \<Rightarrow> expr \<Rightarrow> bool" where
  "oneNested leaf e \<longleftrightarrow>
     (case terminalChoice e of None \<Rightarrow> False
      | Some (x, y) \<Rightarrow>
          countConditionalExpressions e = 2 \<and> countTerminalIfStatements e = 2
          \<and> ((validNestedWith leaf x \<and> validLeaf y) \<or> (validNestedWith leaf y \<and> validLeaf x)))"

definition validV740NestedTerminalIf :: "expr \<Rightarrow> bool" where
  "validV740NestedTerminalIf =
     oneNested (\<lambda>x. exKind x \<noteq> ExprImmutableLocal \<and> validConditionalOperand x)"

definition validV750NestedTerminalIf :: "expr \<Rightarrow> bool" where
  "validV750NestedTerminalIf = oneNested validLeaf"

definition validV760RootLocalNestedTerminalIf :: "expr \<Rightarrow> bool" where
  "validV760RootLocalNestedTerminalIf e \<longleftrightarrow>
     (case terminalBranchTail e of None \<Rightarrow> False
      | Some (locals, tail) \<Rightarrow> 0 < locals \<and> validV750NestedTerminalIf tail)"

definition validSymmetricNestedTerminalIf :: "expr \<Rightarrow> bool \<Rightarrow> bool" where
  "validSymmetricNestedTerminalIf e requireRoot \<longleftrightarrow>
     (case terminalBranchTail e of None \<Rightarrow> False
      | Some (locals, tail) \<Rightarrow>
          \<not> (requireRoot \<and> locals = 0)
          \<and> (case terminalChoice tail of None \<Rightarrow> False
             | Some (x, y) \<Rightarrow>
                 countConditionalExpressions e = 3 \<and> countTerminalIfStatements e = 3
                 \<and> validNestedWith validLeaf x \<and> validNestedWith validLeaf y))"

definition validV770SymmetricRootLocalNestedTerminalIf :: "expr \<Rightarrow> bool" where
  "validV770SymmetricRootLocalNestedTerminalIf e \<longleftrightarrow> validSymmetricNestedTerminalIf e True"

text \<open>
  \<open>validExpandedDepthThreeTerminalIf\<close>: the number of third-level statements of a leaf and of
  an inner statement, or \<open>None\<close> where the code says that it is not valid.
\<close>

definition classifyDepthTwoLeaf :: "expr \<Rightarrow> nat option" where
  "classifyDepthTwoLeaf branch =
     (case terminalBranchTail branch of None \<Rightarrow> None
      | Some (_, leaf) \<Rightarrow>
          if exKind leaf \<noteq> ExprConditional
          then (if validConditionalOperand leaf then Some 0 else None)
          else case terminalChoice leaf of None \<Rightarrow> None
            | Some (x, y) \<Rightarrow> if validLeaf x \<and> validLeaf y then Some 1 else None)"

definition classifyInner :: "expr \<Rightarrow> nat option" where
  "classifyInner branch =
     (case terminalBranchTail branch of None \<Rightarrow> None
      | Some (_, tail) \<Rightarrow>
          (case terminalChoice tail of None \<Rightarrow> None
           | Some (x, y) \<Rightarrow>
               (case (classifyDepthTwoLeaf x, classifyDepthTwoLeaf y) of
                  (Some m, Some n) \<Rightarrow> Some (m + n)
                | _ \<Rightarrow> None)))"

definition validExpandedDepthThreeTerminalIf :: "expr \<Rightarrow> nat \<Rightarrow> bool" where
  "validExpandedDepthThreeTerminalIf e expandedLeaves \<longleftrightarrow>
     (case terminalBranchTail e of None \<Rightarrow> False
      | Some (_, tail) \<Rightarrow>
          (case terminalChoice tail of None \<Rightarrow> False
           | Some (x, y) \<Rightarrow>
               (case (classifyInner x, classifyInner y) of
                  (Some m, Some n) \<Rightarrow>
                    m + n = expandedLeaves
                    \<and> countConditionalExpressions e = 3 + expandedLeaves
                    \<and> countTerminalIfStatements e = 3 + expandedLeaves
                | _ \<Rightarrow> False)))"

definition validV790BoundedDepthThreeTerminalIf :: "expr \<Rightarrow> bool" where
  "validV790BoundedDepthThreeTerminalIf e \<longleftrightarrow> validExpandedDepthThreeTerminalIf e 1"

definition validV800TwoExpandedTerminalIf :: "expr \<Rightarrow> bool" where
  "validV800TwoExpandedTerminalIf e \<longleftrightarrow> validExpandedDepthThreeTerminalIf e 2"

section \<open>Terminal trees\<close>

text \<open>
  The walk that all later validators repeat. It follows a sequence of locals, then either
  enters the branches of a terminal statement, at most \<open>remaining\<close> deep, or ends at a leaf.
  \<open>initializer\<close>, \<open>test\<close> and \<open>leaf\<close> give \<open>None\<close> where the validator returns false, and
  otherwise how many of the constructs it looks for they have found. The flags that the
  closures set are \<open>0 <\<close> of the sum: a validator that returns true has visited the whole tree.
\<close>

fun terminalTree ::
  "(expr \<Rightarrow> nat option) \<Rightarrow> (expr \<Rightarrow> nat option) \<Rightarrow> (expr \<Rightarrow> nat option) \<Rightarrow> nat \<Rightarrow> expr \<Rightarrow> nat option"
where
  "terminalTree initializer test leaf 0 e =
     (case localSpine e of None \<Rightarrow> None
      | Some (initializers, tail) \<Rightarrow>
          if isTerminalIf tail then None else total (map initializer initializers @ [leaf tail]))"
| "terminalTree initializer test leaf (Suc remaining) e =
     (case localSpine e of None \<Rightarrow> None
      | Some (initializers, tail) \<Rightarrow>
          if isTerminalIf tail then
            (case exConditional tail of
               Some (Conditional (Some c) (Some x) (Some y) _) \<Rightarrow>
                 total (map initializer initializers @
                   [test c, terminalTree initializer test leaf remaining x,
                    terminalTree initializer test leaf remaining y])
             | _ \<Rightarrow> None)
          else total (map initializer initializers @ [leaf tail]))"

definition validV810TerminalTree :: "expr \<Rightarrow> nat \<Rightarrow> bool" where
  "validV810TerminalTree e remaining \<longleftrightarrow>
     terminalTree (\<lambda>i. accept (validConditionalOperand i)) (\<lambda>c. accept (validConditionalOperand c))
       (\<lambda>t. accept (exKind t \<noteq> ExprConditional \<and> validConditionalOperand t)) remaining e \<noteq> None"

text \<open>\<open>validReturnCompositionChoice\<close>: a conditional value with three operands.\<close>

definition validReturnCompositionChoice :: "expr conditional option \<Rightarrow> bool" where
  "validReturnCompositionChoice choice \<longleftrightarrow>
     (case choice of
        Some (Conditional (Some c) (Some x) (Some y) False) \<Rightarrow>
          validConditionalOperand c \<and> validConditionalOperand x \<and> validConditionalOperand y
      | _ \<Rightarrow> False)"

text \<open>An initializer that is an operand or a choice of operands, and whether it is a choice.\<close>

definition choiceInitializer :: "expr \<Rightarrow> nat option" where
  "choiceInitializer i =
     (if exKind i = ExprConditional
      then (if validReturnCompositionChoice (exConditional i) then Some 1 else None)
      else accept (validConditionalOperand i))"

text \<open>\<open>maxChoices\<close> is \<open>None\<close> for the bound 0 of the code, which is no bound.\<close>

definition validConditionalLocalTree :: "expr \<Rightarrow> nat option \<Rightarrow> bool" where
  "validConditionalLocalTree e maxChoices \<longleftrightarrow>
     0 < countTerminalIfStatements e
     \<and> (case terminalTree choiceInitializer (\<lambda>c. accept (validConditionalOperand c))
            (\<lambda>t. accept (exKind t \<noteq> ExprConditional \<and> validConditionalOperand t)) 3 e of
          None \<Rightarrow> False
        | Some choices \<Rightarrow>
            0 < choices \<and> (case maxChoices of None \<Rightarrow> True | Some m \<Rightarrow> choices \<le> m))"

definition validV820ConditionalLocalTree :: "expr \<Rightarrow> bool" where
  "validV820ConditionalLocalTree e \<longleftrightarrow> validConditionalLocalTree e (Some 1)"

section \<open>Straight-line bodies\<close>

text \<open>A sequence of locals, and a test of what follows it.\<close>

definition straightLine :: "(expr \<Rightarrow> nat option) \<Rightarrow> (nat \<Rightarrow> nat \<Rightarrow> expr \<Rightarrow> bool) \<Rightarrow> expr \<Rightarrow> bool" where
  "straightLine initializer final e \<longleftrightarrow>
     (case localSpine e of None \<Rightarrow> False
      | Some (initializers, tail) \<Rightarrow>
          (case total (map initializer initializers) of None \<Rightarrow> False
           | Some n \<Rightarrow> final (length initializers) n tail))"

definition validStraightLineConditionalLocals :: "expr \<Rightarrow> bool" where
  "validStraightLineConditionalLocals =
     straightLine choiceInitializer (\<lambda>locals choices tail. 0 < choices \<and> validConditionalOperand tail)"

definition validConditionalReturnComposition :: "expr \<Rightarrow> bool" where
  "validConditionalReturnComposition =
     straightLine choiceInitializer (\<lambda>locals choices tail.
       0 < locals \<and> exKind tail = ExprConditional \<and> validReturnCompositionChoice (exConditional tail))"

text \<open>The closure \<open>walk\<close>: a tree of conditional values of bounded depth over operands.\<close>

fun valueTree :: "nat \<Rightarrow> expr option \<Rightarrow> bool" where
  "valueTree n None = False"
| "valueTree 0 (Some e) = (exKind e \<noteq> ExprConditional \<and> validConditionalOperand e)"
| "valueTree (Suc n) (Some e) =
     (if exKind e \<noteq> ExprConditional then validConditionalOperand e
      else case exConditional e of
          Some (Conditional (Some c) x y False) \<Rightarrow>
            validConditionalOperand c \<and> valueTree n x \<and> valueTree n y
        | _ \<Rightarrow> False)"

definition returnTree :: "nat \<Rightarrow> expr \<Rightarrow> bool" where
  "returnTree n tail \<longleftrightarrow> exKind tail = ExprConditional \<and> localFree tail \<and> valueTree n (Some tail)"

definition validNestedStraightLineReturns :: "expr \<Rightarrow> bool" where
  "validNestedStraightLineReturns =
     straightLine (\<lambda>i. if localFree i then choiceInitializer i else None)
       (\<lambda>locals choices tail. returnTree 2 tail)"

definition validNestedStraightLineInitializers :: "expr \<Rightarrow> bool" where
  "validNestedStraightLineInitializers =
     straightLine
       (\<lambda>i. accept (localFree i \<and> (validNestedStraightLineReturns i \<or> validConditionalOperand i)))
       (\<lambda>locals choices tail. 0 < locals \<and> localFree tail
          \<and> (validNestedStraightLineReturns tail \<or> validConditionalOperand tail))"

definition validDepthThreeStraightLineReturns :: "expr \<Rightarrow> bool" where
  "validDepthThreeStraightLineReturns =
     straightLine
       (\<lambda>i. accept (localFree i \<and> (validConditionalOperand i \<or> validNestedStraightLineReturns i)))
       (\<lambda>locals choices tail. returnTree 3 tail)"

definition validDepthThreeStraightLineInitializers :: "expr \<Rightarrow> bool" where
  "validDepthThreeStraightLineInitializers =
     straightLine
       (\<lambda>i. accept (localFree i \<and> (validConditionalOperand i \<or> validDepthThreeStraightLineReturns i)))
       (\<lambda>locals choices tail. 0 < locals \<and> localFree tail
          \<and> (validConditionalOperand tail \<or> validDepthThreeStraightLineReturns tail))"

section \<open>Boolean selectors\<close>

definition operandPresent :: "expr option \<Rightarrow> bool" where
  "operandPresent p \<longleftrightarrow> (case p of None \<Rightarrow> False | Some e \<Rightarrow> validConditionalOperand e)"

text \<open>The payload of a local-free conditional value that is not a statement.\<close>

definition valueChoice :: "expr \<Rightarrow> expr conditional option" where
  "valueChoice e =
     (if exKind e \<noteq> ExprConditional \<or> \<not> localFree e then None
      else case exConditional e of
          Some c \<Rightarrow> if cdTerminal c then None else Some c
        | None \<Rightarrow> None)"

text \<open>The condition of a selector, itself a conditional value; here locals are not counted again.\<close>

definition innerChoice :: "expr option \<Rightarrow> expr conditional option" where
  "innerChoice p =
     (case p of None \<Rightarrow> None
      | Some e \<Rightarrow>
          (case (exKind e, exConditional e) of
             (ExprConditional, Some c) \<Rightarrow> if cdTerminal c then None else Some c
           | _ \<Rightarrow> None))"

definition validConditionalBooleanSelector :: "expr \<Rightarrow> bool" where
  "validConditionalBooleanSelector =
     straightLine
       (\<lambda>i. accept (localFree i \<and> (validConditionalOperand i \<or> validDepthThreeStraightLineReturns i)))
       (\<lambda>locals choices tail.
          case valueChoice tail of None \<Rightarrow> False
          | Some outer \<Rightarrow>
              (case innerChoice (cdCondition outer) of None \<Rightarrow> False
               | Some selector \<Rightarrow>
                   list_all operandPresent
                     [cdCondition selector, cdWhenTrue selector, cdWhenFalse selector,
                      cdWhenTrue outer, cdWhenFalse outer]))"

text \<open>The values that the selector contracts admit at a leaf and as an initializer.\<close>

definition selectorInitializer :: "expr \<Rightarrow> nat option" where
  "selectorInitializer i =
     (if \<not> localFree i then None
      else if validConditionalBooleanSelector i then Some 1
      else accept (validConditionalOperand i \<or> validDepthThreeStraightLineReturns i))"

definition selectorLeaf :: "expr \<Rightarrow> bool" where
  "selectorLeaf e \<longleftrightarrow>
     localFree e \<and> (validConditionalOperand e \<or> validDepthThreeStraightLineReturns e
       \<or> validConditionalBooleanSelector e)"

definition validStraightLineBooleanSelectorInitializers :: "expr \<Rightarrow> bool" where
  "validStraightLineBooleanSelectorInitializers =
     straightLine selectorInitializer (\<lambda>locals selectors tail. 0 < selectors \<and> selectorLeaf tail)"

text \<open>
  A statement below another is reached through it, so \<open>hasStatement\<close> is a test of the
  expression after the outermost locals.
\<close>

definition validTerminalBooleanSelectorInitializers :: "expr \<Rightarrow> bool" where
  "validTerminalBooleanSelectorInitializers e \<longleftrightarrow>
     found (terminalTree selectorInitializer (\<lambda>c. accept (localFree c \<and> validConditionalOperand c))
       (\<lambda>t. accept (selectorLeaf t)) 3 e)
     \<and> (case localSpine e of None \<Rightarrow> False | Some (_, tail) \<Rightarrow> isTerminalIf tail)"

section \<open>Terminal-leaf returns\<close>

definition leafInitializer :: "nat \<Rightarrow> nat \<Rightarrow> expr \<Rightarrow> nat option" where
  "leafInitializer returnDepth initializerDepth i =
     (if 2 \<le> returnDepth \<and> \<not> localFree i then None
      else if exKind i = ExprConditional then
        accept (\<not> ((initializerDepth = 3 \<and> \<not> validDepthThreeStraightLineReturns i)
          \<or> (initializerDepth = 2 \<and> \<not> validNestedStraightLineReturns i)
          \<or> (initializerDepth = 1 \<and> \<not> validReturnCompositionChoice (exConditional i))))
      else accept (validConditionalOperand i))"

text \<open>The count is of the conditional values that are returned.\<close>

definition leafReturn :: "nat \<Rightarrow> bool \<Rightarrow> expr \<Rightarrow> nat option" where
  "leafReturn returnDepth allowSelectors t =
     (if exKind t \<noteq> ExprConditional
      then accept (validConditionalOperand t \<and> (returnDepth = 1 \<or> localFree t))
      else if exConditional t = None then None
      else if (allowSelectors \<and> validConditionalBooleanSelector t)
        \<or> (if returnDepth = 3 then validDepthThreeStraightLineReturns t
           else if returnDepth = 2 then validNestedStraightLineReturns t
           else validReturnCompositionChoice (exConditional t))
      then Some 1 else None)"

definition validTerminalLeafReturnsWithSelectors :: "expr \<Rightarrow> nat \<Rightarrow> nat \<Rightarrow> bool \<Rightarrow> bool" where
  "validTerminalLeafReturnsWithSelectors e returnDepth initializerDepth allowSelectors \<longleftrightarrow>
     0 < countTerminalIfStatements e
     \<and> (case terminalTree (leafInitializer returnDepth initializerDepth)
            (\<lambda>c. accept (validConditionalOperand c \<and> (returnDepth = 1 \<or> localFree c)))
            (leafReturn returnDepth allowSelectors) 3 e of
          None \<Rightarrow> False
        | Some returns \<Rightarrow> 0 < returns \<or> 2 \<le> initializerDepth)"

definition validTerminalLeafReturnsDepth :: "expr \<Rightarrow> nat \<Rightarrow> nat \<Rightarrow> bool" where
  "validTerminalLeafReturnsDepth e returnDepth initializerDepth \<longleftrightarrow>
     validTerminalLeafReturnsWithSelectors e returnDepth initializerDepth False"

definition validTerminalLeafConditionalReturns :: "expr \<Rightarrow> bool" where
  "validTerminalLeafConditionalReturns e \<longleftrightarrow> validTerminalLeafReturnsDepth e 1 1"

definition validNestedTerminalLeafReturns :: "expr \<Rightarrow> bool" where
  "validNestedTerminalLeafReturns e \<longleftrightarrow> validTerminalLeafReturnsDepth e 2 1"

definition validNestedTerminalInitializers :: "expr \<Rightarrow> bool" where
  "validNestedTerminalInitializers e \<longleftrightarrow> validTerminalLeafReturnsDepth e 2 2"

definition validTerminalLeafBooleanSelectors :: "expr \<Rightarrow> bool" where
  "validTerminalLeafBooleanSelectors e \<longleftrightarrow> validTerminalLeafReturnsWithSelectors e 3 3 True"

definition validDepthThreeTerminalLeafReturns :: "expr \<Rightarrow> bool" where
  "validDepthThreeTerminalLeafReturns e \<longleftrightarrow> validTerminalLeafReturnsDepth e 3 2"

definition validDepthThreeTerminalInitializers :: "expr \<Rightarrow> bool" where
  "validDepthThreeTerminalInitializers e \<longleftrightarrow> validTerminalLeafReturnsDepth e 3 3"

section \<open>Tests that are conditional values\<close>

definition validFlatConditionalTest :: "expr \<Rightarrow> bool" where
  "validFlatConditionalTest e \<longleftrightarrow>
     (case valueChoice e of None \<Rightarrow> False
      | Some c \<Rightarrow> list_all operandPresent [cdCondition c, cdWhenTrue c, cdWhenFalse c])"

definition armOr :: "(expr \<Rightarrow> bool) \<Rightarrow> expr option \<Rightarrow> bool" where
  "armOr P p \<longleftrightarrow> (case p of None \<Rightarrow> False | Some e \<Rightarrow> validConditionalOperand e \<or> P e)"

definition validNestedConditionalTest :: "expr \<Rightarrow> bool" where
  "validNestedConditionalTest e \<longleftrightarrow>
     (case valueChoice e of None \<Rightarrow> False
      | Some c \<Rightarrow> operandPresent (cdCondition c)
          \<and> list_all (armOr validFlatConditionalTest) [cdWhenTrue c, cdWhenFalse c])"

definition validDepthThreeConditionalTest :: "expr \<Rightarrow> bool" where
  "validDepthThreeConditionalTest e \<longleftrightarrow>
     (case valueChoice e of None \<Rightarrow> False
      | Some c \<Rightarrow> operandPresent (cdCondition c)
          \<and> list_all (armOr validNestedConditionalTest) [cdWhenTrue c, cdWhenFalse c])"

text \<open>Two arms, each an operand or a flat conditional, at least one of them flat.\<close>

definition flatArm :: "expr option list \<Rightarrow> bool" where
  "flatArm arms \<longleftrightarrow>
     list_all (armOr validFlatConditionalTest) arms
     \<and> list_ex (\<lambda>p. case p of None \<Rightarrow> False | Some e \<Rightarrow> validFlatConditionalTest e) arms"

definition validSelectorValueArmTest :: "expr \<Rightarrow> bool" where
  "validSelectorValueArmTest e \<longleftrightarrow>
     (case valueChoice e of None \<Rightarrow> False
      | Some outer \<Rightarrow>
          (case cdCondition outer of None \<Rightarrow> False | Some c \<Rightarrow> validFlatConditionalTest c)
          \<and> flatArm [cdWhenTrue outer, cdWhenFalse outer])"

definition validInnerSelectorArmTest :: "expr \<Rightarrow> bool" where
  "validInnerSelectorArmTest e \<longleftrightarrow>
     (case valueChoice e of None \<Rightarrow> False
      | Some outer \<Rightarrow>
          operandPresent (cdWhenTrue outer) \<and> operandPresent (cdWhenFalse outer)
          \<and> (case innerChoice (cdCondition outer) of None \<Rightarrow> False
             | Some selector \<Rightarrow> operandPresent (cdCondition selector)
                 \<and> flatArm [cdWhenTrue selector, cdWhenFalse selector]))"

definition validCombinedSelectorArmTest :: "expr \<Rightarrow> bool" where
  "validCombinedSelectorArmTest e \<longleftrightarrow>
     (case valueChoice e of None \<Rightarrow> False
      | Some outer \<Rightarrow>
          (case innerChoice (cdCondition outer) of None \<Rightarrow> False
           | Some selector \<Rightarrow> operandPresent (cdCondition selector)
               \<and> flatArm [cdWhenTrue selector, cdWhenFalse selector]
               \<and> flatArm [cdWhenTrue outer, cdWhenFalse outer]))"

text \<open>
  A terminal tree whose tests may be what \<open>wanted\<close> or one of \<open>inherited\<close> admits, with at
  least one test that is \<open>wanted\<close>. Initializers and leaves do not count.
\<close>

definition testWith :: "(expr \<Rightarrow> bool) \<Rightarrow> (expr \<Rightarrow> bool) list \<Rightarrow> expr \<Rightarrow> nat option" where
  "testWith wanted inherited c =
     (if localFree c \<and> (validConditionalOperand c \<or> wanted c \<or> list_ex (\<lambda>P. P c) inherited)
      then Some (if wanted c then 1 else 0) else None)"

definition testTree :: "(expr \<Rightarrow> bool) \<Rightarrow> (expr \<Rightarrow> bool) list \<Rightarrow> expr \<Rightarrow> bool" where
  "testTree wanted inherited e \<longleftrightarrow>
     found (terminalTree (\<lambda>i. map_option (\<lambda>_. 0) (selectorInitializer i)) (testWith wanted inherited)
       (\<lambda>t. accept (selectorLeaf t)) 3 e)"

definition validTerminalConditionalTests :: "expr \<Rightarrow> bool" where
  "validTerminalConditionalTests = testTree validFlatConditionalTest []"

definition validNestedTerminalConditionalTests :: "expr \<Rightarrow> bool" where
  "validNestedTerminalConditionalTests = testTree validNestedConditionalTest []"

definition validDepthThreeTerminalConditionalTests :: "expr \<Rightarrow> bool" where
  "validDepthThreeTerminalConditionalTests = testTree validDepthThreeConditionalTest []"

definition validTerminalBooleanSelectorTests :: "expr \<Rightarrow> bool" where
  "validTerminalBooleanSelectorTests =
     testTree validConditionalBooleanSelector [validDepthThreeConditionalTest]"

definition validTerminalSelectorValueArms :: "expr \<Rightarrow> bool" where
  "validTerminalSelectorValueArms =
     testTree validSelectorValueArmTest
       [validConditionalBooleanSelector, validDepthThreeConditionalTest]"

definition validTerminalInnerSelectorArms :: "expr \<Rightarrow> bool" where
  "validTerminalInnerSelectorArms =
     testTree validInnerSelectorArmTest
       [validSelectorValueArmTest, validConditionalBooleanSelector, validDepthThreeConditionalTest]"

definition combinedTests :: "(expr \<Rightarrow> bool) list" where
  "combinedTests =
     [validInnerSelectorArmTest, validSelectorValueArmTest, validConditionalBooleanSelector,
      validDepthThreeConditionalTest]"

definition validTerminalCombinedSelectorArms :: "expr \<Rightarrow> bool" where
  "validTerminalCombinedSelectorArms = testTree validCombinedSelectorArmTest combinedTests"

definition validStraightLineSelectorValueArms :: "expr \<Rightarrow> bool" where
  "validStraightLineSelectorValueArms =
     straightLine (\<lambda>i. map_option (\<lambda>_. 0) (selectorInitializer i))
       (\<lambda>locals choices tail. validSelectorValueArmTest tail)"

definition validTerminalLeafSelectorValueArms :: "expr \<Rightarrow> bool" where
  "validTerminalLeafSelectorValueArms e \<longleftrightarrow>
     0 < countTerminalIfStatements e
     \<and> found (terminalTree (\<lambda>i. map_option (\<lambda>_. 0) (selectorInitializer i))
         (\<lambda>c. map_option (\<lambda>_. 0) (testWith validCombinedSelectorArmTest combinedTests c))
         (\<lambda>t. if localFree t \<and> validSelectorValueArmTest t then Some 1 else accept (selectorLeaf t)) 3 e)"

end
