(* ===== verification/CoreDirect.thy ===== *)
theory CoreDirect
  imports CoreValidate
begin

text \<open>
  The composition rules of early language contracts (coreir/semantics.go): which expressions
  must be the complete body of a function, and which parameters such a body must use.
\<close>

section \<open>What an expression contains\<close>

text \<open>
  Every \<open>exprContains...\<close> function is a search that stops at the kinds it does not know:
  \<open>hit\<close> is its test of an expression, \<open>descend\<close> tells whether it looks at the operands.
\<close>

function anyBelow :: "(expr \<Rightarrow> bool) \<Rightarrow> (expr \<Rightarrow> bool) \<Rightarrow> expr \<Rightarrow> bool" where
  "anyBelow hit descend e \<longleftrightarrow>
     hit e \<or> (descend e \<and> list_ex (anyBelow hit descend) (children e))"
  by auto
termination
  by (relation "measure (\<lambda>(_, _, e). size e)") (auto intro: size_children)

declare anyBelow.simps [simp del]

lemma anyBelow_subexprs: "anyBelow hit descend e \<Longrightarrow> \<exists>x \<in> set (subexprs e). hit x"
proof (induction e rule: expr_children_induct)
  case (expr e)
  then show ?case
    by (subst (asm) anyBelow.simps) (auto simp: set_subexprs [of e] list_ex_iff)
qed

text \<open>
  Some searches give up at an operator with a missing operand (\<open>complete\<close>), others skip the
  missing operand.
\<close>

definition allPresent :: "expr \<Rightarrow> bool" where
  "allPresent e \<longleftrightarrow> list_all (\<lambda>c. c \<noteq> None) (expressionChildren e)"

definition descends :: "expr_kind set \<Rightarrow> expr_kind set \<Rightarrow> expr \<Rightarrow> bool" where
  "descends complete skipping e \<longleftrightarrow> (exKind e \<in> complete \<and> allPresent e) \<or> exKind e \<in> skipping"

definition exprContainsBoundedValueResult :: "expr \<Rightarrow> bool" where
  "exprContainsBoundedValueResult =
     anyBelow
       (\<lambda>e. isBoundedValueResultType (exType e)
          \<or> exKind e \<in> {ExprResultOK, ExprResultErr, ExprResultIsOK, ExprResultSuccessOr,
              ExprResultFailureOr})
       (descends
          {ExprUnary, ExprBinary, ExprFieldProjection, ExprListAt, ExprListFindByText,
           ExprListFilterByText, ExprListFilterContainsCaseFolded,
           ExprListFilterJoinedContainsCaseFolded, ExprListSortByOrdinalText,
           ExprListSortByOrdinalTexts}
          {})"

definition exprContainsList :: "expr \<Rightarrow> bool" where
  "exprContainsList =
     anyBelow
       (\<lambda>e. exKind e \<in> {ExprListEmpty, ExprListSingleton, ExprListCount, ExprListAppend, ExprListAt,
          ExprListFindByText, ExprListFilterByText, ExprListFilterPredicate,
          ExprListFilterContainsCaseFolded, ExprListFilterJoinedContainsCaseFolded,
          ExprListSortByOrdinalText, ExprListSortByOrdinalTexts})
       (descends {ExprUnary, ExprBinary, ExprFieldProjection} {ExprRecordConstruct})"

text \<open>The kinds whose operands all five searches for text and list operators look at.\<close>

definition searchedKinds :: "expr_kind set" where
  "searchedKinds =
     {ExprUnary, ExprBinary, ExprFieldProjection, ExprRecordConstruct, ExprOptionalSome,
      ExprOptionalHasValue, ExprOptionalValueOr, ExprListSingleton, ExprListCount, ExprListAppend,
      ExprListAt, ExprListFindByText, ExprListFilterByText, ExprResultOK, ExprResultErr,
      ExprResultIsOK, ExprResultSuccessOr, ExprResultFailureOr}"

definition exprContainsTextCaseFolded :: "expr \<Rightarrow> bool" where
  "exprContainsTextCaseFolded =
     anyBelow (\<lambda>e. exKind e = ExprTextContainsCaseFolded)
       (descends {} (searchedKinds \<union> {ExprTextTrim, ExprListFilterContainsCaseFolded,
          ExprListFilterJoinedContainsCaseFolded}))"

definition exprContainsTextTrim :: "expr \<Rightarrow> bool" where
  "exprContainsTextTrim =
     anyBelow (\<lambda>e. exKind e = ExprTextTrim)
       (descends {} (searchedKinds \<union> {ExprTextContainsCaseFolded, ExprListFilterContainsCaseFolded,
          ExprListFilterJoinedContainsCaseFolded}))"

definition exprContainsListFilterContainsCaseFolded :: "expr \<Rightarrow> bool" where
  "exprContainsListFilterContainsCaseFolded =
     anyBelow (\<lambda>e. exKind e = ExprListFilterContainsCaseFolded) (descends {} searchedKinds)"

definition exprContainsListFilterJoinedContainsCaseFolded :: "expr \<Rightarrow> bool" where
  "exprContainsListFilterJoinedContainsCaseFolded =
     anyBelow (\<lambda>e. exKind e = ExprListFilterJoinedContainsCaseFolded)
       (descends {} (searchedKinds \<union> {ExprTextContainsCaseFolded, ExprTextTrim,
          ExprListFilterContainsCaseFolded}))"

definition exprContainsListSortByOrdinalText :: "expr \<Rightarrow> bool" where
  "exprContainsListSortByOrdinalText =
     anyBelow (\<lambda>e. exKind e = ExprListSortByOrdinalText \<or> exKind e = ExprListSortByOrdinalTexts)
       (descends {} (searchedKinds \<union> {ExprTextContainsCaseFolded, ExprTextTrim,
          ExprListFilterContainsCaseFolded, ExprListFilterJoinedContainsCaseFolded}))"

definition exprContainsOptional :: "expr \<Rightarrow> bool" where
  "exprContainsOptional =
     anyBelow
       (\<lambda>e. exKind e \<in> {ExprOptionalSome, ExprOptionalNone, ExprOptionalHasValue, ExprOptionalValueOr,
          ExprListAt, ExprListFindByText})
       (descends
          {ExprUnary, ExprBinary, ExprFieldProjection, ExprListSingleton, ExprListCount,
           ExprListAppend, ExprListFilterByText, ExprListFilterContainsCaseFolded,
           ExprListFilterJoinedContainsCaseFolded, ExprListSortByOrdinalText,
           ExprListSortByOrdinalTexts}
          {ExprRecordConstruct})"

definition exprContainsRecordConstruction :: "expr \<Rightarrow> bool" where
  "exprContainsRecordConstruction =
     anyBelow (\<lambda>e. exKind e = ExprRecordConstruct)
       (descends
          {ExprUnary, ExprBinary, ExprFieldProjection, ExprListSingleton, ExprListCount,
           ExprListAppend, ExprListAt, ExprListFindByText, ExprListFilterByText,
           ExprListFilterContainsCaseFolded, ExprListFilterJoinedContainsCaseFolded,
           ExprListSortByOrdinalText, ExprListSortByOrdinalTexts}
          {})"

definition exprContainsRecordEquality :: "expr \<Rightarrow> bool" where
  "exprContainsRecordEquality =
     anyBelow
       (\<lambda>e. exKind e = ExprBinary
          \<and> (case exBinary e of
               Some (Binary operator (Some l) (Some r)) \<Rightarrow>
                 tKind (exType l) = TypeRecord \<or> tKind (exType r) = TypeRecord
             | _ \<Rightarrow> False))
       (descends
          {ExprBinary, ExprUnary, ExprFieldProjection, ExprListCount, ExprListAppend, ExprListAt,
           ExprListFindByText, ExprListFilterByText, ExprListFilterContainsCaseFolded,
           ExprListFilterJoinedContainsCaseFolded, ExprListSortByOrdinalText,
           ExprListSortByOrdinalTexts}
          {ExprRecordConstruct})"

definition functionContainsBoundedValueResult :: "func \<Rightarrow> bool" where
  "functionContainsBoundedValueResult f \<longleftrightarrow>
     isBoundedValueResultType (fnReturnType f) \<or> exprContainsBoundedValueResult (fnBody f)
     \<or> list_ex (\<lambda>p. isBoundedValueResultType (paType p)) (fnParameters f)"

definition functionContainsList :: "func \<Rightarrow> bool" where
  "functionContainsList f \<longleftrightarrow>
     tKind (fnReturnType f) = TypeList \<or> exprContainsList (fnBody f)
     \<or> list_ex (\<lambda>p. tKind (paType p) = TypeList) (fnParameters f)"

definition functionContainsOptional :: "func \<Rightarrow> bool" where
  "functionContainsOptional f \<longleftrightarrow>
     tKind (fnReturnType f) = TypeOptional \<or> exprContainsOptional (fnBody f)
     \<or> list_ex (\<lambda>p. tKind (paType p) = TypeOptional) (fnParameters f)"

section \<open>Direct bodies\<close>

text \<open>The type of a parameter, under a guard on the number of parameters.\<close>

definition parameterType :: "func \<Rightarrow> nat \<Rightarrow> core_type" where
  "parameterType f i = paType (fnParameters f ! i)"

definition referencesParameter :: "expr \<Rightarrow> nat \<Rightarrow> bool" where
  "referencesParameter e i \<longleftrightarrow> exKind e = ExprReference \<and> exParameter e = Some (int i)"

text \<open>The test that all the checks repeat: a reference to parameter \<open>i\<close> with its type.\<close>

definition directOperand :: "func \<Rightarrow> expr \<Rightarrow> nat \<Rightarrow> bool" where
  "directOperand f e i \<longleftrightarrow> referencesParameter e i \<and> TypeEqual (exType e) (parameterType f i)"

text \<open>The closure \<open>directParameter\<close>.\<close>

definition directParameter :: "func \<Rightarrow> expr option \<Rightarrow> nat \<Rightarrow> bool" where
  "directParameter f p i \<longleftrightarrow>
     (case p of None \<Rightarrow> False
      | Some e \<Rightarrow> referencesParameter e i \<and> i < length (fnParameters f)
          \<and> TypeEqual (exType e) (parameterType f i))"

definition successIs :: "core_type \<Rightarrow> core_type \<Rightarrow> bool" where
  "successIs r t \<longleftrightarrow> (case tResult r of None \<Rightarrow> False | Some (s, _) \<Rightarrow> TypeEqual s t)"

definition failureIs :: "core_type \<Rightarrow> core_type \<Rightarrow> bool" where
  "failureIs r t \<longleftrightarrow> (case tResult r of None \<Rightarrow> False | Some (_, e) \<Rightarrow> TypeEqual e t)"

text \<open>
  \<open>validateDirectBoundedValueResultFunction\<close>. In the case of \<open>ok\<close> the code reads
  \<open>ReturnType.Result.Success\<close> before it has tested that the return type is a Result.
\<close>

definition propagatedResultOK :: "func \<Rightarrow> bool" where
  "propagatedResultOK f \<longleftrightarrow>
     length (fnParameters f) = 1
     \<and> (case exResultOK (fnBody f) of
          Some (Some v) \<Rightarrow>
            exKind v = ExprPropagate
            \<and> (case exPropagate v of None \<Rightarrow> False | Some p \<Rightarrow> directParameter f (prValue p) 0)
        | _ \<Rightarrow> False)
     \<and> TypeEqual (parameterType f 0) (fnReturnType f)"

definition validateDirectBoundedValueResultFunction :: "func \<Rightarrow> unit res" where
  "validateDirectBoundedValueResultFunction f =
     (let body = fnBody f; return = fnReturnType f; count = length (fnParameters f) in
      case exKind body of
        ExprResultOK \<Rightarrow>
          if count = 1 \<and> exResultOK body \<noteq> None \<and> tResult return = None then Panic
          else
            let legacy = count = 1 \<and> (case (exResultOK body, tResult return) of
                  (Some v, Some (success, _)) \<Rightarrow>
                    TypeEqual (parameterType f 0) success \<and> directParameter f v 0
                | _ \<Rightarrow> False)
            in rejectIf (\<not> isBoundedValueResultType return \<or> count \<noteq> 1
                \<or> (\<not> legacy \<and> \<not> propagatedResultOK f))
              ''bounded Result ok requires one direct matching success parameter''
      | ExprResultErr \<Rightarrow>
          rejectIf (\<not> (isBoundedValueResultType return \<and> count = 1
              \<and> (case (exResultErr body, tResult return) of
                   (Some e, Some (_, failure)) \<Rightarrow>
                     TypeEqual (parameterType f 0) failure \<and> directParameter f e 0
                 | _ \<Rightarrow> False)))
            ''bounded Result err requires one direct matching failure parameter''
      | ExprReference \<Rightarrow>
          rejectIf (\<not> (isBoundedValueResultType return \<and> count = 1
              \<and> TypeEqual (parameterType f 0) return \<and> directParameter f (Some body) 0))
            ''bounded Result identity requires one identical direct parameter and return''
      | ExprResultIsOK \<Rightarrow>
          rejectIf (\<not> (count = 1 \<and> isBoundedValueResultType (parameterType f 0)
              \<and> TypeEqual return boolType
              \<and> (case exResultIsOK body of None \<Rightarrow> False | Some v \<Rightarrow> directParameter f v 0)))
            ''bounded Result is_ok requires one direct Result parameter and bool return''
      | ExprResultSuccessOr \<Rightarrow>
          rejectIf (\<not> (count = 2 \<and> isBoundedValueResultType (parameterType f 0)
              \<and> successIs (parameterType f 0) (parameterType f 1)
              \<and> TypeEqual return (parameterType f 1)
              \<and> (case exSuccessOr body of None \<Rightarrow> False
                 | Some w \<Rightarrow> directParameter f (wfValue w) 0 \<and> directParameter f (wfFallback w) 1)))
            ''bounded Result success_or requires direct Result and matching success fallback parameters''
      | ExprResultFailureOr \<Rightarrow>
          rejectIf (\<not> (count = 2 \<and> isBoundedValueResultType (parameterType f 0)
              \<and> failureIs (parameterType f 0) (parameterType f 1)
              \<and> TypeEqual return (parameterType f 1)
              \<and> (case exFailureOr body of None \<Rightarrow> False
                 | Some w \<Rightarrow> directParameter f (wfValue w) 0 \<and> directParameter f (wfFallback w) 1)))
            ''bounded Result failure_or requires direct Result and matching failure fallback parameters''
      | ExprMatch \<Rightarrow>
          rejectIf (\<not> (count = 1 \<and> isBoundedValueResultType (parameterType f 0)
              \<and> (case exMatch body of None \<Rightarrow> False | Some m \<Rightarrow> directParameter f (mtValue m) 0)))
            ''bounded Result match requires one direct Result parameter''
      | _ \<Rightarrow> Err ''bounded Result types are admitted only in direct ok, err, identity, is_ok, success_or, or failure_or functions'')"

definition validateDirectListFunction :: "func \<Rightarrow> unit res" where
  "validateDirectListFunction f =
     (let body = fnBody f; return = fnReturnType f; count = length (fnParameters f) in
      if exKind body = ExprListCount then
        (case exListCount body of
           Some (Some v) \<Rightarrow>
             andThen (rejectIf (count \<noteq> 1 \<or> tKind (parameterType f 0) \<noteq> TypeList
                 \<or> \<not> TypeEqual return (SignedInteger 64))
               ''count requires one record-list parameter and a signed 64-bit int return'')
             (rejectIf (\<not> directOperand f v 0)
               ''count operand must be its sole direct record-list parameter'')
         | _ \<Rightarrow> Err ''count requires one record-list parameter and a signed 64-bit int return'')
      else
        case (tKind return, tList return) of
          (TypeList, Some element) \<Rightarrow>
            (case exKind body of
               ExprListEmpty \<Rightarrow>
                 rejectIf (exListEmpty body = None \<or> count \<noteq> 0)
                   ''empty_list requires no parameters and a record-list return''
             | ExprListSingleton \<Rightarrow>
                 (case exListOne body of
                    Some (Some v) \<Rightarrow>
                      andThen (rejectIf (count \<noteq> 1)
                        ''list singleton requires one record parameter and a matching record-list return'')
                      (rejectIf (\<not> (directOperand f v 0 \<and> TypeEqual (parameterType f 0) element))
                        ''list singleton value must be its sole corresponding direct record parameter'')
                  | _ \<Rightarrow> Err ''list singleton requires one record parameter and a matching record-list return'')
             | ExprReference \<Rightarrow>
                 rejectIf (count \<noteq> 1 \<or> exParameter body \<noteq> Some 0 \<or> \<not> TypeEqual (parameterType f 0) return)
                   ''record-list identity transport requires one identical direct parameter and return''
             | ExprListAppend \<Rightarrow>
                 (case exListAppend body of
                    Some (ListAppend (Some values) (Some v)) \<Rightarrow>
                      andThen (rejectIf (count \<noteq> 2)
                        ''append requires one record-list parameter, one matching record parameter, and a matching record-list return'')
                      (andThen (rejectIf (\<not> (directOperand f values 0 \<and> TypeEqual (parameterType f 0) return))
                        ''append values must be its first direct record-list parameter'')
                      (rejectIf (\<not> (directOperand f v 1 \<and> TypeEqual (parameterType f 1) element))
                        ''append value must be its second direct matching record parameter''))
                  | _ \<Rightarrow> Err ''append requires one record-list parameter, one matching record parameter, and a matching record-list return'')
             | _ \<Rightarrow> Err ''record-list values are admitted only in direct empty_list, singleton list, identity-transport, or append functions'')
        | _ \<Rightarrow> Err ''record-list values are admitted only as direct list-returning functions'')"

definition validateDirectTextContainsCaseFoldedFunction :: "func \<Rightarrow> unit res" where
  "validateDirectTextContainsCaseFoldedFunction f =
     (case exTextContains (fnBody f) of
        Some (TextContainsCaseFolded (Some v) (Some query)) \<Rightarrow>
          andThen (rejectIf (length (fnParameters f) \<noteq> 2 \<or> \<not> TypeEqual (parameterType f 0) textType
              \<or> \<not> TypeEqual (parameterType f 1) textType \<or> \<not> TypeEqual (fnReturnType f) boolType)
            ''contains_casefolded requires two direct string parameters and a bool return'')
          (andThen (rejectIf (\<not> directOperand f v 0)
            ''contains_casefolded value must be its first direct string parameter'')
          (rejectIf (\<not> directOperand f query 1)
            ''contains_casefolded query must be its second direct string parameter''))
      | _ \<Rightarrow> Err ''contains_casefolded requires two direct string parameters and a bool return'')"

definition validateDirectTextTrimFunction :: "func \<Rightarrow> unit res" where
  "validateDirectTextTrimFunction f =
     (case exTextTrim (fnBody f) of
        Some (Some v) \<Rightarrow>
          andThen (rejectIf (length (fnParameters f) \<noteq> 1 \<or> \<not> TypeEqual (parameterType f 0) textType
              \<or> \<not> TypeEqual (fnReturnType f) textType)
            ''trim requires one direct string parameter and a string return'')
          (rejectIf (\<not> directOperand f v 0) ''trim value must be its sole direct string parameter'')
      | _ \<Rightarrow> Err ''trim requires one direct string parameter and a string return'')"

text \<open>\<open>List\<close> parameter 0, of any element or of records.\<close>

definition isRecordList :: "core_type \<Rightarrow> bool" where
  "isRecordList t \<longleftrightarrow>
     tKind t = TypeList \<and> (case tList t of None \<Rightarrow> False | Some element \<Rightarrow> tKind element = TypeRecord)"

definition returnsOptionalElement :: "func \<Rightarrow> bool" where
  "returnsOptionalElement f \<longleftrightarrow>
     (case (tKind (fnReturnType f), tOptional (fnReturnType f), tList (parameterType f 0)) of
        (TypeOptional, Some p, Some element) \<Rightarrow> TypeEqual p element
      | _ \<Rightarrow> False)"

definition validateDirectListAtFunction :: "func \<Rightarrow> unit res" where
  "validateDirectListAtFunction f =
     (case exListAt (fnBody f) of
        Some (ListAt (Some values) (Some i)) \<Rightarrow>
          andThen (rejectIf (length (fnParameters f) \<noteq> 2 \<or> tKind (parameterType f 0) \<noteq> TypeList
              \<or> \<not> TypeEqual (parameterType f 1) (SignedInteger 64) \<or> \<not> returnsOptionalElement f)
            ''at requires direct List<R> and signed 64-bit int parameters with Optional<R> return'')
          (andThen (rejectIf (\<not> directOperand f values 0)
            ''at values must be its first direct record-list parameter'')
          (rejectIf (\<not> directOperand f i 1)
            ''at index must be its second direct signed 64-bit parameter''))
      | _ \<Rightarrow> Err ''at requires direct List<R> and signed 64-bit int parameters with Optional<R> return'')"

definition validateDirectListFindByTextFunction :: "func \<Rightarrow> unit res" where
  "validateDirectListFindByTextFunction f =
     (case exListFind (fnBody f) of
        Some (ListByText (Some values) _ _ _ (Some key)) \<Rightarrow>
          andThen (rejectIf (length (fnParameters f) \<noteq> 2 \<or> \<not> isRecordList (parameterType f 0)
              \<or> \<not> TypeEqual (parameterType f 1) textType \<or> \<not> returnsOptionalElement f)
            ''find_by requires direct List<R> and string parameters with Optional<R> return'')
          (andThen (rejectIf (\<not> directOperand f values 0)
            ''find_by values must be its first direct record-list parameter'')
          (rejectIf (\<not> directOperand f key 1) ''find_by key must be its second direct string parameter''))
      | _ \<Rightarrow> Err ''find_by requires direct List<R> and string parameters with Optional<R> return'')"

text \<open>The three filters by text differ in their payload and their messages.\<close>

definition directTextFilter :: "func \<Rightarrow> expr \<Rightarrow> expr \<Rightarrow> string \<Rightarrow> string \<Rightarrow> string \<Rightarrow> unit res" where
  "directTextFilter f values query signature valuesError queryError =
     andThen (rejectIf (length (fnParameters f) \<noteq> 2 \<or> \<not> isRecordList (parameterType f 0)
         \<or> \<not> TypeEqual (parameterType f 1) textType
         \<or> \<not> TypeEqual (fnReturnType f) (parameterType f 0)) signature)
     (andThen (rejectIf (\<not> directOperand f values 0) valuesError)
       (rejectIf (\<not> directOperand f query 1) queryError))"

definition validateDirectListFilterByTextFunction :: "func \<Rightarrow> unit res" where
  "validateDirectListFilterByTextFunction f =
     (case exListFilter (fnBody f) of
        Some (ListByText (Some values) _ _ _ (Some key)) \<Rightarrow>
          directTextFilter f values key
            ''filter_by requires direct List<R> and string parameters with matching List<R> return''
            ''filter_by values must be its first direct record-list parameter''
            ''filter_by key must be its second direct string parameter''
      | _ \<Rightarrow> Err ''filter_by requires direct List<R> and string parameters with matching List<R> return'')"

definition validateDirectListFilterContainsCaseFoldedFunction :: "func \<Rightarrow> unit res" where
  "validateDirectListFilterContainsCaseFoldedFunction f =
     (case exListFilterContains (fnBody f) of
        Some (ListByText (Some values) _ _ _ (Some query)) \<Rightarrow>
          directTextFilter f values query
            ''filter_contains_casefolded requires direct List<R> and string parameters with matching List<R> return''
            ''filter_contains_casefolded values must be its first direct record-list parameter''
            ''filter_contains_casefolded query must be its second direct string parameter''
      | _ \<Rightarrow> Err ''filter_contains_casefolded requires direct List<R> and string parameters with matching List<R> return'')"

definition validateDirectListFilterJoinedContainsCaseFoldedFunction :: "func \<Rightarrow> unit res" where
  "validateDirectListFilterJoinedContainsCaseFoldedFunction f =
     (case exListFilterJoined (fnBody f) of
        Some (ListJoined (Some values) selectors (Some query)) \<Rightarrow>
          andThen (rejectIf (length selectors < 2)
            ''filter_joined_contains_casefolded requires direct List<R> and string parameters, at least two selectors, and matching List<R> return'')
          (directTextFilter f values query
            ''filter_joined_contains_casefolded requires direct List<R> and string parameters, at least two selectors, and matching List<R> return''
            ''filter_joined_contains_casefolded values must be its first direct record-list parameter''
            ''filter_joined_contains_casefolded query must be its second direct string parameter'')
      | _ \<Rightarrow> Err ''filter_joined_contains_casefolded requires direct List<R> and string parameters, at least two selectors, and matching List<R> return'')"

definition directSort :: "func \<Rightarrow> bool" where
  "directSort f \<longleftrightarrow>
     length (fnParameters f) = 1 \<and> isRecordList (parameterType f 0)
     \<and> TypeEqual (fnReturnType f) (parameterType f 0)"

definition validateDirectListSortByOrdinalTextFunction :: "func \<Rightarrow> unit res" where
  "validateDirectListSortByOrdinalTextFunction f =
     (case exSortText (fnBody f) of
        Some (ListSortByOrdinalText (Some values) _ _ _) \<Rightarrow>
          andThen (rejectIf (\<not> directSort f)
            ''sort_by_ordinal requires one direct List<R> parameter with matching List<R> return'')
          (rejectIf (\<not> directOperand f values 0)
            ''sort_by_ordinal values must be its sole direct record-list parameter'')
      | _ \<Rightarrow> Err ''sort_by_ordinal requires one direct List<R> parameter with matching List<R> return'')"

definition validateDirectListSortByOrdinalTextsFunction :: "func \<Rightarrow> unit res" where
  "validateDirectListSortByOrdinalTextsFunction f =
     (case exSortTexts (fnBody f) of
        Some (ListSortByOrdinalTexts (Some values) selectors) \<Rightarrow>
          andThen (rejectIf (length selectors < 2 \<or> \<not> directSort f)
            ''multi-key sort_by_ordinal requires one direct List<R> parameter, at least two selectors, and matching List<R> return'')
          (rejectIf (\<not> directOperand f values 0)
            ''multi-key sort_by_ordinal values must be its sole direct record-list parameter'')
      | _ \<Rightarrow> Err ''multi-key sort_by_ordinal requires one direct List<R> parameter, at least two selectors, and matching List<R> return'')"

definition validateDirectListSortByOrdinalDirectionsFunction :: "func \<Rightarrow> unit res" where
  "validateDirectListSortByOrdinalDirectionsFunction f =
     (case exSortDirections (fnBody f) of
        Some (ListSortByOrdinalDirections (Some values) selectors) \<Rightarrow>
          andThen (rejectIf (length selectors < 1 \<or> length (fnParameters f) \<noteq> 1
              \<or> tKind (parameterType f 0) \<noteq> TypeList
              \<or> \<not> TypeEqual (fnReturnType f) (parameterType f 0))
            ''directional sort_by_ordinal requires one direct List<R> parameter, selector/direction pairs, and matching List<R> return'')
          (rejectIf (\<not> referencesParameter values 0)
            ''directional sort_by_ordinal values must be its sole direct record-list parameter'')
      | _ \<Rightarrow> Err ''directional sort_by_ordinal requires one direct List<R> parameter, selector/direction pairs, and matching List<R> return'')"

text \<open>A named predicate filter: the arguments are the parameters from 1 on.\<close>

definition directArgument :: "func \<Rightarrow> nat \<times> expr option \<Rightarrow> bool" where
  "directArgument f = (\<lambda>(i, a). case a of None \<Rightarrow> False
     | Some e \<Rightarrow> directOperand f e (i + 1) \<and> tKind (exType e) = TypePrimitive)"

definition validateDirectListFilterPredicateFunction :: "func \<Rightarrow> unit res" where
  "validateDirectListFilterPredicateFunction f =
     (case exListFilterPredicate (fnBody f) of
        Some (ListFilterPredicate (Some values) predicate name arguments) \<Rightarrow>
          andThen (rejectIf (tKind (fnReturnType f) \<noteq> TypeList \<or> tList (fnReturnType f) = None
              \<or> length (fnParameters f) < 2 \<or> \<not> TypeEqual (parameterType f 0) (fnReturnType f)
              \<or> siPackage predicate = [] \<or> siPath predicate = [] \<or> siCallable predicate = None
              \<or> name = [] \<or> int (length arguments) \<noteq> int (length (fnParameters f)) - 1)
            ''named predicate filter requires one direct record List followed by direct primitive arguments'')
          (andThen (rejectIf (\<not> referencesParameter values 0)
            ''named predicate filter values must be direct parameter 0'')
          (checkAll (\<lambda>x. rejectIf (\<not> directArgument f x)
              ''named predicate filter argument must be a direct matching primitive parameter'')
            (enumerate 0 arguments)))
      | _ \<Rightarrow> Err ''named predicate filter requires one direct record List followed by direct primitive arguments'')"

definition validateDirectOptionalFunction :: "func \<Rightarrow> unit res" where
  "validateDirectOptionalFunction f =
     (let body = fnBody f; return = fnReturnType f; count = length (fnParameters f) in
      case exKind body of
        ExprOptionalSome \<Rightarrow>
          (case (exSome body, tKind return, tOptional return) of
             (Some (Some v), TypeOptional, Some payload) \<Rightarrow>
               andThen (rejectIf (count \<noteq> 1)
                 ''optional some requires one matching value parameter and an Optional return'')
               (let propagated = exKind v = ExprPropagate
                      \<and> (case exPropagate v of
                           Some (Propagate (Some x) _) \<Rightarrow> referencesParameter x 0
                         | _ \<Rightarrow> False)
                      \<and> TypeEqual (parameterType f 0) return;
                    legacy = referencesParameter v 0 \<and> TypeEqual (parameterType f 0) payload
                in rejectIf (\<not> legacy \<and> \<not> propagated)
                  ''optional some value must be its sole corresponding direct parameter'')
           | _ \<Rightarrow> Err ''optional some requires one matching value parameter and an Optional return'')
      | ExprOptionalNone \<Rightarrow>
          rejectIf (exNone body = None \<or> tKind return \<noteq> TypeOptional \<or> count \<noteq> 0)
            ''optional none requires no parameters and an Optional return''
      | ExprReference \<Rightarrow>
          rejectIf (tKind return \<noteq> TypeOptional \<or> count \<noteq> 1 \<or> exParameter body \<noteq> Some 0
              \<or> \<not> TypeEqual (parameterType f 0) return)
            ''optional identity transport requires one identical direct parameter and return''
      | ExprOptionalHasValue \<Rightarrow>
          (case exHasValue body of
             Some (Some v) \<Rightarrow>
               andThen (rejectIf (count \<noteq> 1 \<or> tKind (parameterType f 0) \<noteq> TypeOptional
                   \<or> \<not> TypeEqual return boolType)
                 ''optional has_value requires one Optional parameter and a bool return'')
               (rejectIf (\<not> directOperand f v 0)
                 ''optional has_value operand must be its sole direct parameter'')
           | _ \<Rightarrow> Err ''optional has_value requires one Optional parameter and a bool return'')
      | ExprOptionalValueOr \<Rightarrow>
          (case exValueOr body of
             Some (WithFallback (Some v) (Some fallback)) \<Rightarrow>
               andThen (rejectIf (count \<noteq> 2 \<or> tKind (parameterType f 0) \<noteq> TypeOptional
                   \<or> tOptional (parameterType f 0) = None)
                 ''optional value_or requires one Optional parameter, one matching fallback parameter, and a matching return'')
               (andThen (rejectIf (\<not> directOperand f v 0)
                 ''optional value_or operand must be its first direct parameter'')
               (andThen (rejectIf (\<not> directOperand f fallback 1)
                 ''optional value_or fallback must be its second direct parameter'')
               (rejectIf (\<not> ((case tOptional (parameterType f 0) of None \<Rightarrow> False
                     | Some payload \<Rightarrow> TypeEqual payload (parameterType f 1))
                   \<and> TypeEqual return (parameterType f 1)))
                 ''optional value_or payload, fallback, and return types must match'')))
           | _ \<Rightarrow> Err ''optional value_or requires one Optional parameter, one matching fallback parameter, and a matching return'')
      | ExprMatch \<Rightarrow>
          (case exMatch body of
             Some (Match (Some v) _) \<Rightarrow>
               rejectIf (count \<noteq> 1 \<or> \<not> referencesParameter v 0)
                 ''match requires one direct tagged parameter''
           | _ \<Rightarrow> Err ''match requires one direct tagged parameter'')
      | _ \<Rightarrow> Err ''optional types are admitted only in direct some, none, identity transport, has_value, or value_or functions'')"

definition validateDirectRecordEquality :: "func \<Rightarrow> unit res" where
  "validateDirectRecordEquality f =
     (case (exKind (fnBody f), exBinary (fnBody f)) of
        (ExprBinary, Some (Binary operator (Some l) (Some r))) \<Rightarrow>
          andThen (rejectIf (length (fnParameters f) \<noteq> 2)
            ''record equality requires exactly two parameters and one direct binary body'')
          (andThen (rejectIf (operator \<noteq> OperatorEqual \<and> operator \<noteq> OperatorNotEqual)
            ''record equality requires operator == or !='')
          (andThen (rejectIf (tKind (parameterType f 0) \<noteq> TypeRecord
              \<or> \<not> TypeEqual (parameterType f 0) (parameterType f 1)
              \<or> \<not> TypeEqual (fnReturnType f) boolType \<or> \<not> TypeEqual (exType (fnBody f)) boolType)
            ''record equality requires two identical record parameters and a bool result'')
          (rejectIf (\<not> (referencesParameter l 0 \<and> referencesParameter r 1))
            ''record equality operands must reference the two parameters in declared order'')))
      | _ \<Rightarrow> Err ''record equality requires exactly two parameters and one direct binary body'')"

end
