(* ===== verification/Samples.thy ===== *)
theory Samples
  imports CoreExpr
begin

text \<open>
  Small expressions and functions on which the witnesses of the development apply its
  properties.
\<close>

definition bareExpr :: "expr_kind \<Rightarrow> core_type \<Rightarrow> expr" where
  "bareExpr k t = Expr None k t None None None None None None None None None None None None
     None None None None None None None None None None None None None None None None None None
     None None None None None"

definition referenceExpr :: "core_type \<Rightarrow> int \<Rightarrow> expr" where
  "referenceExpr t i = Expr None ExprReference t None (Some i) None None None None None None None None
     None None None None None None None None None None None None None None None None None None None
     None None None None None None"

definition trimExpr :: "expr \<Rightarrow> expr" where
  "trimExpr e = Expr None ExprTextTrim textType None None None None None None None None (Some (Some e))
     None None None None None None None None None None None None None None None None None None None
     None None None None None None None"

definition sampleCallable :: callable_identity where
  "sampleCallable =
     (let text = SemanticType TypePrimitive PrimitiveString [] [] [] []
      in \<lparr>ciParameters = [text], ciReturns = text\<rparr>)"

definition sampleIdentity :: "string \<Rightarrow> semantic_identity" where
  "sampleIdentity path = \<lparr>siPackage = ''p'', siPath = path, siCallable = Some sampleCallable\<rparr>"

text \<open>\<open>trimmed(value) = trim(value)\<close>\<close>

definition trimFunction :: func where
  "trimFunction = \<lparr>fnIdentity = sampleIdentity ''m.trimmed'', fnName = ''trimmed'',
     fnParameters = [\<lparr>paPosition = 0, paName = ''value'', paType = textType\<rparr>],
     fnReturnType = textType, fnBody = trimExpr (referenceExpr textType 0)\<rparr>"

end
