(* ===== verification/CoreAdmission.thy ===== *)
theory CoreAdmission
  imports Samples
begin

text \<open>
  Admission of programs (coreir/admission.go): the exact language and compiler identities, and
  the language version each type and expression kind needs.
\<close>

definition CompilerContractV1 :: string where "CompilerContractV1 = ''pipelang.compiler.v1''"

definition supportedLanguageContracts :: "string list" where
  "supportedLanguageContracts = [
   ''v0.1.0'', ''v0.2.0'', ''v0.3.0'', ''v0.4.0'', ''v0.5.0'', ''v0.6.0'', ''v0.7.0'',
    ''v0.8.0'', ''v0.9.0'', ''v0.10.0'', ''v0.11.0'', ''v0.12.0'', ''v0.13.0'', ''v0.14.0'',
    ''v0.15.0'', ''v0.16.0'', ''v0.17.0'', ''v0.18.0'', ''v0.19.0'', ''v0.20.0'', ''v0.21.0'',
    ''v0.22.0'', ''v0.23.0'', ''v0.24.0'', ''v0.25.0'', ''v0.26.0'', ''v0.27.0'', ''v0.28.0'',
    ''v0.29.0'', ''v0.30.0'', ''v0.31.0'', ''v0.32.0'', ''v0.33.0'', ''v0.34.0'', ''v0.35.0'',
    ''v0.36.0'', ''v0.37.0'', ''v0.38.0'', ''v0.39.0'', ''v0.40.0'', ''v0.41.0'', ''v0.42.0'',
    ''v0.43.0'', ''v0.44.0'', ''v0.45.0'', ''v0.46.0'', ''v0.47.0'', ''v0.48.0'', ''v0.49.0'',
    ''v0.50.0'', ''v0.51.0'', ''v0.52.0'', ''v0.53.0'', ''v0.54.0'', ''v0.55.0'', ''v0.56.0'',
    ''v0.57.0'', ''v0.58.0'', ''v0.59.0'', ''v0.60.0'', ''v0.61.0'', ''v0.62.0'', ''v0.63.0'',
    ''v0.64.0'', ''v0.65.0'', ''v0.66.0'', ''v0.67.0'', ''v0.68.0'', ''v0.69.0'', ''v0.70.0'',
    ''v0.71.0'', ''v0.72.0'', ''v0.73.0'', ''v0.74.0'', ''v0.75.0'', ''v0.76.0'', ''v0.77.0'',
    ''v0.78.0'', ''v0.79.0'', ''v0.80.0'', ''v0.81.0'', ''v0.82.0'', ''v0.83.0'', ''v0.84.0'',
    ''v0.85.0'', ''v0.86.0'', ''v0.87.0'', ''v0.88.0'', ''v0.89.0'', ''v0.90.0'', ''v0.91.0'',
    ''v0.92.0'', ''v0.93.0'', ''v0.94.0'', ''v0.95.0'', ''v0.96.0'', ''v0.97.0'', ''v0.98.0'',
    ''v0.99.0'', ''v0.100.0'', ''v0.101.0'', ''v0.102.0'', ''v0.103.0'', ''v0.104.0'',
    ''v0.105.0'', ''v0.106.0'', ''v0.107.0'', ''v0.108.0'', ''v0.109.0'', ''v0.110.0'',
    ''v0.111.0'', ''v0.112.0'', ''v0.113.0'', ''v0.114.0'', ''v0.115.0'']"

text \<open>The position of the first match, from 0.\<close>

fun positionOf :: "'a \<Rightarrow> 'a list \<Rightarrow> nat option" where
  "positionOf x [] = None"
| "positionOf x (y # ys) = (if x = y then Some 0 else map_option Suc (positionOf x ys))"

definition validateProgramIdentity :: "program \<Rightarrow> int res" where
  "validateProgramIdentity p =
     (if pgCompiler p \<noteq> CompilerContractV1 then Err ''unsupported Core IR compiler contract''
      else case positionOf (pgLanguage p) supportedLanguageContracts of
          None \<Rightarrow> Err ''unsupported Core IR language contract''
        | Some i \<Rightarrow> Ret (int i + 1))"

section \<open>Feature contracts\<close>

definition requireVersion :: "int \<Rightarrow> int \<Rightarrow> unit res" where
  "requireVersion version minimum =
     rejectIf (version < minimum) ''feature requires a later language contract''"

definition typeMinimum :: "core_type \<Rightarrow> int" where
  "typeMinimum t =
     (case tKind t of
        TypeEnum \<Rightarrow> 113
      | TypeRecord \<Rightarrow> 9
      | TypeList \<Rightarrow> 15
      | TypeOptional \<Rightarrow>
          (case tOptional t of None \<Rightarrow> 13 | Some p \<Rightarrow> if tKind p = TypeRecord then 18 else 13)
      | TypeResult \<Rightarrow>
          (case tResult t of
             None \<Rightarrow> 1
           | Some (success, _) \<Rightarrow>
               if tKind success = TypeList then 19
               else if tKind success = TypePrimitive \<and> tPrimitive success = PrimitiveString then 25
               else 1)
      | _ \<Rightarrow> 1)"

definition typeChildren :: "core_type \<Rightarrow> core_type list" where
  "typeChildren t =
     (case tRecord t of None \<Rightarrow> [] | Some schema \<Rightarrow> map rfType schema)
       @ (case tList t of None \<Rightarrow> [] | Some el \<Rightarrow> [el])
       @ (case tOptional t of None \<Rightarrow> [] | Some p \<Rightarrow> [p])
       @ (case tResult t of None \<Rightarrow> [] | Some (s, f) \<Rightarrow> [s, f])
       @ tArguments t"

lemma size_typeChildren: "c \<in> set (typeChildren t) \<Longrightarrow> size c < size t"
  using size_components [of t] size_field [of _ "the (tRecord t)"] size_in_list [of c "tArguments t" size]
  by (cases t) (fastforce simp: typeChildren_def split: option.splits)

function checkFeatureType :: "int \<Rightarrow> core_type \<Rightarrow> unit res" where
  "checkFeatureType version t =
     andThen (requireVersion version (typeMinimum t))
       (checkAll (\<lambda>c. checkFeatureType version c) (typeChildren t))"
  by auto
termination
  by (relation "measure (size \<circ> snd)") (auto intro: size_typeChildren)

declare checkFeatureType.simps [simp del]

definition exprMinimum :: "expr \<Rightarrow> int" where
  "exprMinimum e =
     (case exKind e of
        ExprBlock \<Rightarrow> 114
      | ExprBinary \<Rightarrow>
          (case exBinary e of
             None \<Rightarrow> 1
           | Some b \<Rightarrow>
               if biOperator b \<in> {OperatorLessThan, OperatorLessOrEqual, OperatorGreaterThan,
                   OperatorGreaterOrEqual} then
                 (case biLeft b of None \<Rightarrow> 1
                  | Some l \<Rightarrow> if tPrimitive (exType l) = PrimitiveString then 8 else 1)
               else if biOperator b \<in> {OperatorEqual, OperatorNotEqual} then
                 (case biLeft b of None \<Rightarrow> 1
                  | Some l \<Rightarrow> if tKind (exType l) = TypeRecord then 12 else 1)
               else 1)
      | ExprFieldProjection \<Rightarrow> 10
      | ExprRecordConstruct \<Rightarrow> 11
      | ExprOptionalSome \<Rightarrow> 13
      | ExprOptionalNone \<Rightarrow> 13
      | ExprOptionalHasValue \<Rightarrow> 13
      | ExprOptionalValueOr \<Rightarrow> 14
      | ExprListEmpty \<Rightarrow> 15
      | ExprListSingleton \<Rightarrow> 15
      | ExprListCount \<Rightarrow> 16
      | ExprListAppend \<Rightarrow> 17
      | ExprResultOK \<Rightarrow> 19
      | ExprResultErr \<Rightarrow> 19
      | ExprResultIsOK \<Rightarrow> 19
      | ExprResultSuccessOr \<Rightarrow> 19
      | ExprResultFailureOr \<Rightarrow> 19
      | ExprListAt \<Rightarrow> 20
      | ExprListFindByText \<Rightarrow> 21
      | ExprListFilterByText \<Rightarrow> 22
      | ExprTextContainsCaseFolded \<Rightarrow> 23
      | ExprListFilterContainsCaseFolded \<Rightarrow> 24
      | ExprTextTrim \<Rightarrow> 26
      | ExprListFilterJoinedContainsCaseFolded \<Rightarrow>
          (case exListFilterJoined e of
             None \<Rightarrow> 27 | Some j \<Rightarrow> if length (ljSelectors j) \<noteq> 5 then 29 else 27)
      | ExprListSortByOrdinalText \<Rightarrow> 28
      | ExprListSortByOrdinalTexts \<Rightarrow> 30
      | ExprListFilterPredicate \<Rightarrow> 31
      | ExprListSortByOrdinalDirections \<Rightarrow> 32
      | ExprPropagate \<Rightarrow> 34
      | ExprMatch \<Rightarrow> 35
      | _ \<Rightarrow> 1)"

text \<open>The closure \<open>walk\<close>: an expression, then its operands.\<close>

function walkFeatures :: "int \<Rightarrow> expr \<Rightarrow> unit res" where
  "walkFeatures version e =
     andThen (checkFeatureType version (exType e))
     (andThen (requireVersion version (exprMinimum e))
     (andThen (case exImmutableLocal e of
          None \<Rightarrow> Ret () | Some l \<Rightarrow> checkFeatureType version (ilType l))
     (andThen (case exPropagate e of
          None \<Rightarrow> Ret () | Some p \<Rightarrow> checkFeatureType version (prCarrier p))
       (checkAll (\<lambda>c. walkFeatures version c) (children e)))))"
  by auto
termination
  by (relation "measure (size \<circ> snd)") (auto intro: size_children)

declare walkFeatures.simps [simp del]

definition validateFeatureContract :: "int \<Rightarrow> func \<Rightarrow> unit res" where
  "validateFeatureContract version f =
     andThen (checkAll (\<lambda>p. checkFeatureType version (paType p)) (fnParameters f))
     (andThen (checkFeatureType version (fnReturnType f))
     (andThen (checkAll (checkFeatureType version) (BlockLocalTypes (exBlock (fnBody f))))
       (walkFeatures version (fnBody f))))"

section \<open>What admission guarantees\<close>

text \<open>A type, or one nested in it.\<close>

function subtypes :: "core_type \<Rightarrow> core_type list" where
  "subtypes t = t # concat (map subtypes (typeChildren t))"
  by auto
termination
  by (relation "measure size") (auto intro: size_typeChildren)

declare subtypes.simps [simp del]

lemma checkFeatureType_iff:
  "checkFeatureType version t = Ret () \<longleftrightarrow> (\<forall>u \<in> set (subtypes t). typeMinimum u \<le> version)"
proof (induction t rule: measure_induct_rule [of size])
  case (less t)
  have "checkFeatureType version c = Ret () \<longleftrightarrow> (\<forall>u \<in> set (subtypes c). typeMinimum u \<le> version)"
    if "c \<in> set (typeChildren t)" for c
    using that less size_typeChildren by blast
  then show ?case
    by (subst checkFeatureType.simps, subst subtypes.simps) (auto simp: requireVersion_def)
qed

lemma walkFeatures_subexprs:
  "walkFeatures version e = Ret () \<longleftrightarrow>
   (\<forall>x \<in> set (subexprs e). exprMinimum x \<le> version \<and> checkFeatureType version (exType x) = Ret ()
     \<and> (\<forall>l. exImmutableLocal x = Some l \<longrightarrow> checkFeatureType version (ilType l) = Ret ())
     \<and> (\<forall>p. exPropagate x = Some p \<longrightarrow> checkFeatureType version (prCarrier p) = Ret ()))"
proof (induction e rule: expr_children_induct)
  case (expr e)
  then show ?case
    by (subst walkFeatures.simps, subst set_subexprs)
      (auto simp: requireVersion_def split: option.splits)
qed

lemma positionOf_Some: "positionOf x xs = Some i \<Longrightarrow> i < length xs \<and> xs ! i = x"
  by (induction xs arbitrary: i) (auto split: if_splits)

lemma positionOf_None: "positionOf x xs = None \<longleftrightarrow> x \<notin> set xs"
  by (induction xs) auto

lemma supported_count: "length supportedLanguageContracts = 115"
  by (simp add: supportedLanguageContracts_def)

lemma validateProgramIdentity_version:
  assumes "validateProgramIdentity p = Ret v"
  shows "1 \<le> v" "v \<le> 115" "supportedLanguageContracts ! nat (v - 1) = pgLanguage p"
proof -
  from assms obtain i where "positionOf (pgLanguage p) supportedLanguageContracts = Some i" "v = int i + 1"
    by (auto simp: validateProgramIdentity_def split: if_splits option.splits)
  with positionOf_Some supported_count
  show "1 \<le> v" "v \<le> 115" "supportedLanguageContracts ! nat (v - 1) = pgLanguage p"
    by fastforce+
qed

section \<open>Properties\<close>

text \<open>the identity check gives a program the number of its language contract in the list of
  supported contracts, from 1 to 115, and accepts no other program.\<close>

theorem program_identity_version:
  "validateProgramIdentity p = Ret v \<longleftrightarrow>
     pgCompiler p = CompilerContractV1 \<and> 1 \<le> v \<and> v \<le> 115
     \<and> positionOf (pgLanguage p) supportedLanguageContracts = Some (nat (v - 1))"
proof
  assume v: "validateProgramIdentity p = Ret v"
  then show "pgCompiler p = CompilerContractV1 \<and> 1 \<le> v \<and> v \<le> 115
     \<and> positionOf (pgLanguage p) supportedLanguageContracts = Some (nat (v - 1))"
    using validateProgramIdentity_version(1,2) [OF v]
    by (auto simp: validateProgramIdentity_def split: if_splits option.splits)
qed (auto simp: validateProgramIdentity_def)

text \<open>an admitted function uses no type and no expression, at any depth of its signature,
  its locals and its body, that needs a later language contract than the program's.\<close>

theorem feature_contract_complete:
  "validateFeatureContract version f = Ret () \<longleftrightarrow>
     (\<forall>t \<in> set (fnReturnType f # map paType (fnParameters f) @ BlockLocalTypes (exBlock (fnBody f))).
        \<forall>u \<in> set (subtypes t). typeMinimum u \<le> version)
     \<and> (\<forall>x \<in> set (subexprs (fnBody f)). exprMinimum x \<le> version
          \<and> (\<forall>t \<in> {exType x} \<union> ilType ` set_option (exImmutableLocal x)
                \<union> prCarrier ` set_option (exPropagate x).
              \<forall>u \<in> set (subtypes t). typeMinimum u \<le> version))"
  by (simp add: validateFeatureContract_def walkFeatures_subexprs checkFeatureType_iff
      ball_Un Ball_def elem_set) blast

theorem feature_contract_complete_witness:
  "validateFeatureContract 26 trimFunction = Ret () \<longleftrightarrow>
     (\<forall>t \<in> set (fnReturnType trimFunction # map paType (fnParameters trimFunction)
          @ BlockLocalTypes (exBlock (fnBody trimFunction))). \<forall>u \<in> set (subtypes t). typeMinimum u \<le> 26)
     \<and> (\<forall>x \<in> set (subexprs (fnBody trimFunction)). exprMinimum x \<le> 26
          \<and> (\<forall>t \<in> {exType x} \<union> ilType ` set_option (exImmutableLocal x)
                \<union> prCarrier ` set_option (exPropagate x).
              \<forall>u \<in> set (subtypes t). typeMinimum u \<le> 26))"
  by (rule feature_contract_complete)

end
