(* ===== verification/CoreLocals.thy ===== *)
theory CoreLocals
  imports CoreShapes CoreDirect CoreAdmission
begin

text \<open>
  The contracts on immutable locals, conditionals and propagation (coreir/semantics.go,
  coreir/enums.go): \<open>validateImmutableLocalContract\<close>, \<open>validateConditionalContract\<close> and the
  canonical forms of propagation through a sequence of locals.
\<close>

section \<open>Ranges of contracts\<close>

text \<open>
  \<open>contractIn a b c\<close>: \<open>c\<close> is one of \<open>v0.a.0\<close> to \<open>v0.b.0\<close>, which the code writes as a
  disjunction of equalities.
\<close>

definition contractIn :: "nat \<Rightarrow> nat \<Rightarrow> string \<Rightarrow> bool" where
  "contractIn a b c \<longleftrightarrow>
     (case positionOf c supportedLanguageContracts of
        None \<Rightarrow> False
      | Some i \<Rightarrow> a \<le> i + 1 \<and> i + 1 \<le> b)"

section \<open>References and types\<close>

definition directReference :: "expr option \<Rightarrow> int option" where
  "directReference p =
     (case p of None \<Rightarrow> None
      | Some e \<Rightarrow> if exKind e = ExprReference then exParameter e else None)"

text \<open>
  A direct reference to position \<open>i\<close>: \<open>directReference(p) && *p.Parameter == i\<close>; and the same with
  its type.
\<close>

definition refersTo :: "expr option \<Rightarrow> int \<Rightarrow> bool" where
  "refersTo p i \<longleftrightarrow> directReference p = Some i"

definition refersToTyped :: "expr option \<Rightarrow> int \<Rightarrow> core_type \<Rightarrow> bool" where
  "refersToTyped p i t \<longleftrightarrow>
     refersTo p i \<and> (case p of None \<Rightarrow> False | Some e \<Rightarrow> TypeEqual (exType e) t)"

text \<open>The success and failure of a type that has passed \<open>isBoundedValueResultType\<close> or
  \<open>isArithmeticResultType\<close>; the zero type elsewhere.\<close>

definition successOf :: "core_type \<Rightarrow> core_type" where
  "successOf t = (case tResult t of None \<Rightarrow> zeroType | Some (s, _) \<Rightarrow> s)"

definition failureOf :: "core_type \<Rightarrow> core_type" where
  "failureOf t = (case tResult t of None \<Rightarrow> zeroType | Some (_, e) \<Rightarrow> e)"

definition isPrimitiveString :: "core_type \<Rightarrow> bool" where
  "isPrimitiveString t \<longleftrightarrow> tKind t = TypePrimitive \<and> tPrimitive t = PrimitiveString"

section \<open>Pieces of a sequence of locals\<close>

text \<open>An expression that is a local with its payload.\<close>

definition asLocal :: "expr option \<Rightarrow> expr immutable_local option" where
  "asLocal p =
     (case p of None \<Rightarrow> None
      | Some e \<Rightarrow> if exKind e = ExprImmutableLocal then exImmutableLocal e else None)"

lemma asLocal_smaller_at:
  assumes "asLocal (Some e) = Some m" "ilReturn l = Some e"
  shows "size_immutable_local size m < size_immutable_local size l"
proof -
  have "exImmutableLocal e = Some m" using assms(1) by (auto simp: asLocal_def split: if_splits)
  then show ?thesis using assms(2) size_payload_fields(4) [of e m] by (cases l) auto
qed

lemma asLocal_smaller:
  "asLocal (ilReturn l) = Some m \<Longrightarrow> size_immutable_local size m < size_immutable_local size l"
  using asLocal_smaller_at by (cases "ilReturn l") (auto simp: asLocal_def)

text \<open>The initializer of a local when it is a propagation, with its payload.\<close>

definition propagation :: "expr immutable_local \<Rightarrow> (expr \<times> expr propagate) option" where
  "propagation local =
     (case ilInitializer local of None \<Rightarrow> None
      | Some i \<Rightarrow>
          if exKind i = ExprPropagate then map_option (\<lambda>p. (i, p)) (exPropagate i) else None)"

text \<open>A call with its payload.\<close>

definition asCall :: "expr option \<Rightarrow> (expr \<times> expr call) option" where
  "asCall p =
     (case p of None \<Rightarrow> None
      | Some e \<Rightarrow> if exKind e = ExprCall then map_option (\<lambda>c. (e, c)) (exCall e) else None)"

section \<open>Checked arithmetic continuations\<close>

definition continuesWith :: "expr \<Rightarrow> core_type \<Rightarrow> bool" where
  "continuesWith e payload \<longleftrightarrow>
     isArithmeticResultType (exType e) \<and> TypeEqual (successOf (exType e)) payload"

definition isAdmittedMultiParameterCheckedArithmeticContinuation ::
  "expr \<Rightarrow> core_type \<Rightarrow> int \<Rightarrow> int \<Rightarrow> bool"
where
  "isAdmittedMultiParameterCheckedArithmeticContinuation e payload localPosition operandPosition \<longleftrightarrow>
     continuesWith e payload
     \<and> (case (exKind e, exBinary e) of
          (ExprBinary, Some (Binary operator l r)) \<Rightarrow>
            refersTo l localPosition \<and> refersTo r operandPosition
            \<and> (if TypeEqual payload (BinaryFloat 64) then operator = OperatorDivide
               else TypeEqual payload (SignedInteger 64)
                 \<and> operator \<in> {OperatorAdd, OperatorSubtract, OperatorMultiply})
        | _ \<Rightarrow> False)"

definition isAdmittedCheckedArithmeticContinuation :: "expr \<Rightarrow> core_type \<Rightarrow> bool" where
  "isAdmittedCheckedArithmeticContinuation e payload \<longleftrightarrow>
     continuesWith e payload
     \<and> (let operator = (case (exKind e, exBinary e) of
            (ExprBinary, Some b) \<Rightarrow> Some (biOperator b) | _ \<Rightarrow> None)
        in if TypeEqual payload (BinaryFloat 64) then operator = Some OperatorDivide
           else TypeEqual payload (SignedInteger 64)
             \<and> (case (exKind e, exUnary e) of
                  (ExprUnary, Some u) \<Rightarrow> unOperator u = OperatorNegate
                | _ \<Rightarrow> operator \<in> {Some OperatorAdd, Some OperatorSubtract, Some OperatorMultiply}))"

section \<open>One propagation\<close>

text \<open>The payload of an admitted carrier; \<open>arithmetic\<close> says whether checked results count.\<close>

definition carrierPayload :: "bool \<Rightarrow> core_type \<Rightarrow> core_type option" where
  "carrierPayload arithmetic carrier =
     (case (tKind carrier, tOptional carrier) of
        (TypeOptional, Some p) \<Rightarrow>
          if isOptionalValueType p then Some p
          else if isBoundedValueResultType carrier \<or> (arithmetic \<and> isArithmeticResultType carrier)
          then Some (successOf carrier) else None
      | _ \<Rightarrow>
          if isBoundedValueResultType carrier \<or> (arithmetic \<and> isArithmeticResultType carrier)
          then Some (successOf carrier) else None)"

text \<open>
  The end of the code reads \<open>*first.Return\<close>, which the sequence may lack: validation of the
  local itself comes later.
\<close>

definition validateBlockPropagationContract :: "string \<Rightarrow> func \<Rightarrow> unit res" where
  "validateBlockPropagationContract contract f =
     (let count = length (fnParameters f); carrier = fnReturnType f;
          arithmetic = isArithmeticResultType carrier in
      case asLocal (Some (fnBody f)) of
        None \<Rightarrow> Err ''admits exactly one propagation as the first immutable-local initializer''
      | Some first \<Rightarrow>
         (case propagation first of
            None \<Rightarrow> Err ''admits exactly one propagation as the first immutable-local initializer''
          | Some (i, p) \<Rightarrow>
              andThen (rejectIf (countPropagationExpressions (fnBody f) \<noteq> 1)
                ''admits exactly one propagation as the first immutable-local initializer'')
              (andThen (rejectIf (count = 0 \<or> \<not> refersTo (prValue p) 0)
                ''block propagation requires its sole direct carrier parameter'')
              (andThen (rejectIf (\<not> (TypeEqual (parameterType f 0) carrier
                  \<and> TypeEqual (prCarrier p) carrier \<and> refersToTyped (prValue p) 0 carrier))
                ''propagated carrier parameter and return type must be identical'')
              (case carrierPayload (contractIn 55 73 contract) carrier of
                 None \<Rightarrow> Err ''block propagation requires an admitted carrier''
               | Some payload \<Rightarrow>
                   andThen (rejectIf (\<not> (TypeEqual (ilType first) payload \<and> TypeEqual (exType i) payload))
                     ''first immutable local type must match the propagated success payload'')
                   (let multi = contractIn 56 73 contract \<and> arithmetic \<and> count = 2 in
                    andThen (rejectIf (count \<noteq> 1 \<and> \<not> multi)
                      ''block propagation requires its sole direct carrier parameter'')
                    (if multi then
                       andThen (rejectIf (\<not> TypeEqual (parameterType f 1) payload)
                         ''direct checked-arithmetic operand type must match the propagated payload'')
                       (bindR (deref (ilReturn first)) (\<lambda>return.
                          rejectIf (\<not> isAdmittedMultiParameterCheckedArithmeticContinuation return payload
                              (ilPosition first) 1)
                            ''multi-parameter direct checked-arithmetic propagation requires the propagated local as left operand and parameter 1 as right operand''))
                     else if contractIn 55 73 contract \<and> arithmetic then
                       bindR (deref (ilReturn first)) (\<lambda>return.
                         rejectIf (\<not> isAdmittedCheckedArithmeticContinuation return payload)
                           ''direct checked-arithmetic propagation requires one admitted checked arithmetic continuation'')
                     else Ret ())))))))"

definition directCallerArgumentReferences :: "expr option list \<Rightarrow> parameter list \<Rightarrow> bool" where
  "directCallerArgumentReferences arguments parameters \<longleftrightarrow>
     length arguments = length parameters
     \<and> list_all (\<lambda>(i, a). refersTo a (int i)) (enumerate 0 arguments)"

definition validatePriorLocalBlockPropagationContract :: "string \<Rightarrow> func \<Rightarrow> unit res" where
  "validatePriorLocalBlockPropagationContract contract f =
     (let count = length (fnParameters f); carrier = fnReturnType f;
          shape = ''prior-local propagation requires one helper-call carrier local followed immediately by one propagation local'' in
      case asLocal (Some (fnBody f)) of
        None \<Rightarrow> Err shape
      | Some first \<Rightarrow>
         (case (asCall (ilInitializer first), asLocal (ilReturn first)) of
            (Some (called, c), Some second) \<Rightarrow>
              andThen (rejectIf (countPropagationExpressions (fnBody f) \<noteq> 1) shape)
              (case propagation second of
                 None \<Rightarrow> Err ''prior-local propagation requires propagation as the second immutable-local initializer''
               | Some (i, p) \<Rightarrow>
                   andThen
                     (if contractIn 53 73 contract then
                        rejectIf (count = 0 \<or> \<not> directCallerArgumentReferences (caArguments c) (fnParameters f))
                          ''multi-parameter helper propagation requires every caller parameter directly once in declaration order''
                      else rejectIf (count \<noteq> 1 \<or> length (caArguments c) \<noteq> 1 \<or> \<not> refersTo (hd (caArguments c)) 0)
                        ''prior-local propagation requires one helper call over its sole direct parameter'')
                   (andThen (rejectIf (\<not> refersTo (prValue p) (ilPosition first))
                     ''prior-local propagation requires a direct reference to the immediately preceding helper-call carrier local'')
                   (andThen (rejectIf (\<not> (ilPosition first = int count
                       \<and> ilPosition second = ilPosition first + 1 \<and> TypeEqual (ilType first) carrier
                       \<and> TypeEqual (exType called) carrier \<and> TypeEqual (prCarrier p) carrier
                       \<and> refersToTyped (prValue p) (ilPosition first) carrier))
                     ''helper-call carrier local and return type must be identical'')
                   (case carrierPayload (contractIn 54 73 contract) carrier of
                      None \<Rightarrow> Err ''prior-local propagation requires an admitted carrier''
                    | Some payload \<Rightarrow>
                        andThen (rejectIf (\<not> (TypeEqual (ilType second) payload \<and> TypeEqual (exType i) payload))
                          ''second immutable local type must match the propagated success payload'')
                        (if contractIn 54 73 contract \<and> isArithmeticResultType carrier then
                           bindR (deref (ilReturn second)) (\<lambda>return.
                             rejectIf (\<not> isAdmittedCheckedArithmeticContinuation return payload)
                               ''checked-arithmetic helper propagation requires one admitted checked arithmetic continuation'')
                         else Ret ())))))
          | _ \<Rightarrow> Err shape))"

section \<open>Chains of checked arithmetic\<close>

text \<open>
  One stage: the payload local at \<open>local\<close> is followed by a checked operation of it and
  parameter \<open>stage\<close>, held in a carrier local, and by the propagation of that carrier. The
  result is the next payload local.
\<close>

definition checkedStage ::
  "core_type \<Rightarrow> core_type \<Rightarrow> expr immutable_local \<Rightarrow> int \<Rightarrow> expr immutable_local res"
where
  "checkedStage carrier payload local stage =
     (case asLocal (ilReturn local) of
        None \<Rightarrow> Err ''checked stage requires an explicit arithmetic Result carrier local''
      | Some checked \<Rightarrow>
          andThen (rejectIf (\<not> (ilPosition checked = ilPosition local + 1 \<and> TypeEqual (ilType checked) carrier
              \<and> (case ilInitializer checked of None \<Rightarrow> False
                 | Some i \<Rightarrow> TypeEqual (exType i) carrier
                     \<and> isAdmittedMultiParameterCheckedArithmeticContinuation i payload (ilPosition local) stage)))
            ''checked stage requires the local as left operand and the parameter as right operand'')
          (case asLocal (ilReturn checked) of
             None \<Rightarrow> Err ''checked stage carrier must be propagated by the immediately following payload local''
           | Some next \<Rightarrow>
               (case propagation next of
                  None \<Rightarrow> Err ''checked stage carrier must initialize the next payload through propagation''
                | Some (i, p) \<Rightarrow>
                    andThen (rejectIf (\<not> (ilPosition next = ilPosition checked + 1 \<and> TypeEqual (ilType next) payload))
                      ''checked stage carrier must initialize the next payload through propagation'')
                    (andThen (rejectIf (\<not> (TypeEqual (prCarrier p) carrier
                        \<and> refersTo (prValue p) (ilPosition checked)))
                      ''propagation after a checked stage must directly consume its explicit carrier local'')
                      (Ret next)))))"

fun checkedStages ::
  "core_type \<Rightarrow> core_type \<Rightarrow> expr immutable_local \<Rightarrow> int list \<Rightarrow> expr immutable_local res"
where
  "checkedStages carrier payload local [] = Ret local"
| "checkedStages carrier payload local (stage # stages) =
     bindR (checkedStage carrier payload local stage) (\<lambda>next. checkedStages carrier payload next stages)"

text \<open>The first local of a checked chain, which propagates the carrier parameter.\<close>

definition checkedFirst :: "func \<Rightarrow> expr immutable_local res" where
  "checkedFirst f =
     (let carrier = fnReturnType f in
      case exImmutableLocal (fnBody f) of
        None \<Rightarrow> Err ''checked propagation requires the incoming carrier propagation first''
      | Some first \<Rightarrow>
          (case propagation first of
             None \<Rightarrow> Err ''checked propagation requires the incoming carrier propagation first''
           | Some (i, p) \<Rightarrow>
               andThen (rejectIf (\<not> (isArithmeticResultType carrier \<and> TypeEqual (parameterType f 0) carrier
                   \<and> TypeEqual (prCarrier p) carrier \<and> refersTo (prValue p) 0))
                 ''checked propagation requires the first direct arithmetic Result carrier'')
               (andThen (rejectIf (\<not> (ilPosition first = int (length (fnParameters f))
                   \<and> TypeEqual (ilType first) (successOf carrier) \<and> TypeEqual (exType i) (successOf carrier)))
                 ''first propagated local must match the arithmetic payload'')
               (andThen (rejectIf (\<not> list_all (\<lambda>q. TypeEqual (paType q) (successOf carrier)) (tl (fnParameters f)))
                 ''checked propagation operand types must match the propagated payload'')
                 (Ret first)))))"

definition checkedLast :: "core_type \<Rightarrow> expr immutable_local \<Rightarrow> int \<Rightarrow> unit res" where
  "checkedLast payload local stage =
     (case ilReturn local of
        None \<Rightarrow> Err ''terminal checked stage requires the local as left operand and the parameter as right operand''
      | Some return \<Rightarrow>
          rejectIf (\<not> isAdmittedMultiParameterCheckedArithmeticContinuation return payload (ilPosition local) stage)
            ''terminal checked stage requires the local as left operand and the parameter as right operand'')"

definition validateCheckedPropagationChainContract :: "func \<Rightarrow> unit res" where
  "validateCheckedPropagationChainContract f =
     (let stageCount = int (length (fnParameters f)) - 1; carrier = fnReturnType f in
      andThen (rejectIf (stageCount < 2)
        ''checked propagation chain requires a carrier and at least two payload operands'')
      (andThen (rejectIf (int (countPropagationExpressions (fnBody f)) \<noteq> stageCount)
        ''checked propagation chain requires one propagation for the incoming carrier and every non-terminal checked stage'')
      (bindR (checkedFirst f) (\<lambda>first.
       bindR (checkedStages carrier (successOf carrier) first [1..stageCount - 1]) (\<lambda>local.
         checkedLast (successOf carrier) local stageCount)))))"

definition validateTwoStageCheckedPropagationContract :: "func \<Rightarrow> unit res" where
  "validateTwoStageCheckedPropagationContract f =
     (let carrier = fnReturnType f in
      andThen (rejectIf (countPropagationExpressions (fnBody f) \<noteq> 2)
        ''two-stage checked propagation requires exactly two propagations'')
      (andThen (rejectIf (length (fnParameters f) \<noteq> 3)
        ''two-stage checked propagation requires exactly carrier and two payload operands'')
      (bindR (checkedFirst f) (\<lambda>first.
       bindR (checkedStage carrier (successOf carrier) first 1) (\<lambda>second.
         checkedLast (successOf carrier) second 2)))))"

section \<open>Chains of bounded results\<close>

text \<open>The source, the target and the failure they share.\<close>

definition sharedFailure :: "core_type \<Rightarrow> core_type \<Rightarrow> bool" where
  "sharedFailure source target \<longleftrightarrow>
     isPrimitiveString (failureOf source) \<and> TypeEqual (failureOf source) (failureOf target)"

text \<open>The first local: the propagation of parameter 0.\<close>

definition firstPayload :: "core_type \<Rightarrow> int \<Rightarrow> expr immutable_local \<Rightarrow> expr \<Rightarrow> expr propagate \<Rightarrow> bool" where
  "firstPayload source position first i p \<longleftrightarrow>
     refersTo (prValue p) 0 \<and> TypeEqual (prCarrier p) source \<and> ilPosition first = position
     \<and> TypeEqual (ilType first) (successOf source) \<and> TypeEqual (exType i) (successOf source)"

text \<open>The arguments of a helper: the payload, then every context parameter in order.\<close>

definition contextArguments :: "func \<Rightarrow> expr option list \<Rightarrow> bool" where
  "contextArguments f arguments \<longleftrightarrow>
     list_all (\<lambda>((i, q), a). refersToTyped a (int i) (paType q))
       (zip (tl (enumerate 0 (fnParameters f))) (tl arguments))"

definition validHelperArguments :: "func \<Rightarrow> bool \<Rightarrow> expr call \<Rightarrow> int \<Rightarrow> core_type \<Rightarrow> bool" where
  "validHelperArguments f contextual c position payload \<longleftrightarrow>
     length (caArguments c) = (if contextual then length (fnParameters f) else 1)
     \<and> refersToTyped (hd (caArguments c)) position payload
     \<and> (contextual \<longrightarrow> contextArguments f (caArguments c))"

definition stringContext :: "func \<Rightarrow> bool" where
  "stringContext f \<longleftrightarrow> list_all (\<lambda>q. TypeEqual (paType q) textType) (tl (fnParameters f))"

text \<open>
  The loop over the stages. \<open>payload\<close> is the type of the payload local, \<open>observed\<close> the number
  of propagations seen. A stage is a helper call in a carrier local and its propagation.
\<close>

function crossStages ::
  "func \<Rightarrow> bool \<Rightarrow> bool \<Rightarrow> core_type \<Rightarrow> nat \<Rightarrow> expr immutable_local \<Rightarrow> core_type \<Rightarrow> nat \<Rightarrow> nat \<Rightarrow> unit res"
where
  "crossStages f contextual same failure propagations local payload observed stage =
     (let target = fnReturnType f in
      case ilReturn local of
        None \<Rightarrow> Err ''stage has no helper continuation''
      | Some return \<Rightarrow>
          if exKind return = ExprCall then
            (case exCall return of
               None \<Rightarrow> Err ''requires a terminal helper call after at least two contiguous stages''
             | Some c \<Rightarrow>
                 andThen (rejectIf (stage < 2 \<or> observed \<noteq> propagations \<or> \<not> TypeEqual (exType return) target
                     \<or> (\<not> same \<and> TypeEqual payload (successOf target)))
                   ''requires a terminal helper call after at least two contiguous stages'')
                 (rejectIf (\<not> validHelperArguments f contextual c (ilPosition local) payload)
                   ''terminal helper requires the direct preceding payload local followed by the canonical context argument''))
          else case asLocal (ilReturn local) of
              None \<Rightarrow> Err ''stage requires an explicit helper Result carrier local''
            | Some carrier \<Rightarrow>
                (case asCall (ilInitializer carrier) of
                   None \<Rightarrow> Err ''stage requires one canonical helper Result carrier local''
                 | Some (called, c) \<Rightarrow>
                     andThen (rejectIf (\<not> (ilPosition carrier = ilPosition local + 1
                         \<and> isBoundedValueResultType (ilType carrier) \<and> TypeEqual (exType called) (ilType carrier)
                         \<and> TypeEqual (failureOf (ilType carrier)) failure
                         \<and> \<not> (\<not> same \<and> TypeEqual payload (successOf (ilType carrier)))))
                       ''stage requires one canonical helper Result carrier local'')
                     (andThen (rejectIf (\<not> validHelperArguments f contextual c (ilPosition local) payload)
                       ''stage helper requires the direct preceding payload local followed by the canonical context argument'')
                     (case asLocal (ilReturn carrier) of
                        None \<Rightarrow> Err ''stage carrier must be propagated by the immediately following payload local''
                      | Some next \<Rightarrow>
                          (case propagation next of
                             None \<Rightarrow> Err ''propagation after stage must directly consume its explicit carrier local''
                           | Some (i, p) \<Rightarrow>
                               andThen (rejectIf (\<not> (ilPosition next = ilPosition carrier + 1
                                   \<and> TypeEqual (ilType next) (successOf (ilType carrier))
                                   \<and> TypeEqual (exType i) (ilType next)
                                   \<and> TypeEqual (prCarrier p) (ilType carrier)
                                   \<and> refersTo (prValue p) (ilPosition carrier)))
                                 ''propagation after stage must directly consume its explicit carrier local'')
                               (crossStages f contextual same failure propagations next
                                 (successOf (ilType carrier)) (observed + 1) (stage + 1)))))))"
  by auto
termination
  by (relation "measure (\<lambda>(_, _, _, _, _, local, _, _, _). size_immutable_local size local)")
    (auto dest!: asLocal_smaller dest: asLocal_smaller_at)

declare crossStages.simps [simp del]

text \<open>
  The contextual forms pass the other parameters, all strings, to every helper. From v0.67.0
  on there may be any number of them.
\<close>

definition validateCrossPayloadResultPropagationChainContract :: "string \<Rightarrow> func \<Rightarrow> bool \<Rightarrow> unit res" where
  "validateCrossPayloadResultPropagationChainContract contract f contextual =
     (let count = length (fnParameters f);
          multi = contextual \<and> contractIn 67 73 contract;
          expected = (if multi then count else if contextual then 2 else 1);
          propagations = countPropagationExpressions (fnBody f);
          same = contextual \<and> (contractIn 66 73 contract \<or> (contractIn 65 65 contract \<and> propagations = 2));
          source = parameterType f 0; target = fnReturnType f;
          shape = ''requires one direct carrier parameter and at least two canonical propagations'' in
      case exImmutableLocal (fnBody f) of
        None \<Rightarrow> Err shape
      | Some first \<Rightarrow>
          (case propagation first of
             None \<Rightarrow> Err shape
           | Some (i, p) \<Rightarrow>
               andThen (rejectIf (count \<noteq> expected \<or> (multi \<and> count < 2) \<or> propagations < 2) shape)
               (andThen (rejectIf (\<not> (isBoundedValueResultType source \<and> isBoundedValueResultType target
                   \<and> sharedFailure source target))
                 ''requires bounded source and target Results with one shared string failure type'')
               (andThen (rejectIf (contextual \<and> \<not> stringContext f)
                 ''requires every direct context parameter to be exactly string'')
               (andThen (rejectIf (\<not> firstPayload source (int expected) first i p)
                 ''requires the direct incoming carrier and exact first payload local'')
               (crossStages f contextual same (failureOf source) propagations first (successOf source) 1 1))))))"

definition validateGeneralizedCrossPayloadResultPropagationContract :: "func \<Rightarrow> unit res" where
  "validateGeneralizedCrossPayloadResultPropagationContract f =
     validateCrossPayloadResultPropagationChainContract [] f False"

definition validateContextualCrossPayloadResultPropagationContract :: "string \<Rightarrow> func \<Rightarrow> unit res" where
  "validateContextualCrossPayloadResultPropagationContract contract f =
     validateCrossPayloadResultPropagationChainContract contract f True"

definition validateTwoStageCrossPayloadResultPropagationContract :: "func \<Rightarrow> unit res" where
  "validateTwoStageCrossPayloadResultPropagationContract f =
     (let source = parameterType f 0; target = fnReturnType f;
          shape = ''two-stage cross-payload Result propagation requires exactly two canonical propagations'' in
      case exImmutableLocal (fnBody f) of
        None \<Rightarrow> Err shape
      | Some first \<Rightarrow>
          (case propagation first of
             None \<Rightarrow> Err shape
           | Some (i, p) \<Rightarrow>
               andThen (rejectIf (countPropagationExpressions (fnBody f) \<noteq> 2) shape)
               (andThen (rejectIf (length (fnParameters f) \<noteq> 1 \<or> \<not> isBoundedValueResultType source
                   \<or> \<not> isBoundedValueResultType target)
                 ''two-stage propagation requires one bounded Result parameter and bounded Result return'')
               (andThen (rejectIf (\<not> sharedFailure source target)
                 ''two-stage propagation requires one shared string failure type'')
               (andThen (rejectIf (\<not> firstPayload source 1 first i p)
                 ''two-stage propagation requires the direct incoming carrier and exact first payload local'')
               (case asLocal (ilReturn first) of
                  None \<Rightarrow> Err ''two-stage propagation requires an explicit intermediate carrier local''
                | Some middle \<Rightarrow>
                    (case asCall (ilInitializer middle) of
                       None \<Rightarrow> Err ''two-stage propagation requires a canonical first-helper carrier local''
                     | Some (called, c) \<Rightarrow>
                         andThen (rejectIf (\<not> (ilPosition middle = 2 \<and> isBoundedValueResultType (ilType middle)
                             \<and> TypeEqual (exType called) (ilType middle) \<and> length (caArguments c) = 1))
                           ''two-stage propagation requires a canonical first-helper carrier local'')
                         (andThen (rejectIf (\<not> refersToTyped (hd (caArguments c)) (ilPosition first) (successOf source)
                             \<or> TypeEqual (successOf source) (successOf (ilType middle))
                             \<or> TypeEqual (successOf (ilType middle)) (successOf target)
                             \<or> \<not> TypeEqual (failureOf (ilType middle)) (failureOf source))
                           ''two-stage propagation requires adjacent distinct payloads and the first propagated local as the sole first-helper argument'')
                         (case asLocal (ilReturn middle) of
                            None \<Rightarrow> Err ''two-stage propagation requires a second propagated payload local''
                          | Some second \<Rightarrow>
                              (case propagation second of
                                 None \<Rightarrow> Err ''two-stage propagation requires direct propagation of the explicit intermediate carrier''
                               | Some (j, q) \<Rightarrow>
                                   andThen (rejectIf (\<not> (ilPosition second = 3
                                       \<and> TypeEqual (ilType second) (successOf (ilType middle))
                                       \<and> TypeEqual (exType j) (ilType second)
                                       \<and> TypeEqual (prCarrier q) (ilType middle)
                                       \<and> refersTo (prValue q) (ilPosition middle)))
                                     ''two-stage propagation requires direct propagation of the explicit intermediate carrier'')
                                   (case asCall (ilReturn second) of
                                      None \<Rightarrow> Err ''two-stage propagation requires one terminal second-helper call''
                                    | Some (final, d) \<Rightarrow>
                                        andThen (rejectIf (\<not> (TypeEqual (exType final) target \<and> length (caArguments d) = 1))
                                          ''two-stage propagation requires one terminal second-helper call'')
                                        (rejectIf (\<not> refersToTyped (hd (caArguments d)) (ilPosition second)
                                            (successOf (ilType middle)))
                                          ''two-stage propagation requires the second propagated local as the sole second-helper argument''))))))))))))"

definition validateCrossPayloadResultPropagationFormContract :: "string \<Rightarrow> func \<Rightarrow> bool \<Rightarrow> unit res" where
  "validateCrossPayloadResultPropagationFormContract contract f contextual =
     (let count = length (fnParameters f);
          multi = contextual \<and> contractIn 68 73 contract;
          expected = (if multi then count else if contextual then 2 else 1);
          same = contextual \<and> contractIn 64 73 contract;
          source = parameterType f 0; target = fnReturnType f;
          shape = ''requires exactly one first-local propagation'' in
      case exImmutableLocal (fnBody f) of
        None \<Rightarrow> Err shape
      | Some first \<Rightarrow>
          (case propagation first of
             None \<Rightarrow> Err shape
           | Some (i, p) \<Rightarrow>
               andThen (rejectIf (countPropagationExpressions (fnBody f) \<noteq> 1) shape)
               (andThen (rejectIf (count \<noteq> expected \<or> (multi \<and> count < 2)
                   \<or> \<not> isBoundedValueResultType source \<or> \<not> isBoundedValueResultType target)
                 ''requires the exact direct parameter shape and bounded Result return'')
               (andThen (rejectIf ((\<not> same \<and> TypeEqual (successOf source) (successOf target))
                   \<or> \<not> sharedFailure source target)
                 ''requires admitted payloads and the same string failure type'')
               (andThen (rejectIf (contextual \<and> \<not> stringContext f)
                 ''requires every direct context parameter to be exactly string'')
               (andThen (rejectIf (\<not> (refersToTyped (prValue p) 0 source \<and> TypeEqual (prCarrier p) source))
                 ''requires the direct carrier parameter'')
               (andThen (rejectIf (\<not> (ilPosition first = int expected
                   \<and> TypeEqual (ilType first) (successOf source) \<and> TypeEqual (exType i) (successOf source)))
                 ''local must exactly match the source success payload'')
               (case asCall (ilReturn first) of
                  None \<Rightarrow> Err ''requires one terminal helper call returning the target Result''
                | Some (called, c) \<Rightarrow>
                    andThen (rejectIf (\<not> (TypeEqual (exType called) target \<and> length (caArguments c) = expected))
                      ''requires one terminal helper call returning the target Result'')
                    (andThen (rejectIf (\<not> refersToTyped (hd (caArguments c)) (ilPosition first) (successOf source))
                      ''requires the direct propagated local as the first helper argument'')
                    (rejectIf (contextual \<and> \<not> contextArguments f (caArguments c))
                      ''requires every direct string context parameter exactly once in declaration order after the payload''))))))))))"

definition validateCrossPayloadResultPropagationContract :: "string \<Rightarrow> func \<Rightarrow> unit res" where
  "validateCrossPayloadResultPropagationContract contract f =
     validateCrossPayloadResultPropagationFormContract contract f False"

definition validateSingleStageContextualCrossPayloadResultPropagationContract ::
  "string \<Rightarrow> func \<Rightarrow> unit res"
where
  "validateSingleStageContextualCrossPayloadResultPropagationContract contract f =
     validateCrossPayloadResultPropagationFormContract contract f True"

section \<open>Enums in a body\<close>

definition FunctionHasEnum :: "func \<Rightarrow> bool" where
  "FunctionHasEnum f \<longleftrightarrow>
     tKind (fnReturnType f) = TypeEnum
     \<or> list_ex (\<lambda>p. tKind (paType p) = TypeEnum) (fnParameters f)
     \<or> list_ex (\<lambda>x. tKind (exType x) = TypeEnum) (subexprs (fnBody f))"

text \<open>\<open>validateEnumComposition\<close> and its closures \<open>valueType\<close> and \<open>walk\<close>.\<close>

definition valueType :: "core_type \<Rightarrow> bool" where
  "valueType t \<longleftrightarrow> tKind t \<in> {TypeEnum, TypePrimitive, TypeNumeric}"

function enumWalk :: "nat \<Rightarrow> nat \<Rightarrow> bool \<Rightarrow> expr \<Rightarrow> unit res" where
  "enumWalk depth matchDepth allowLocal e =
     andThen (rejectIf (\<not> valueType (exType e)) ''enum composition excludes carrier and object values'')
     (case exKind e of
        ExprLiteral \<Rightarrow> Ret ()
      | ExprReference \<Rightarrow> Ret ()
      | ExprImmutableLocal \<Rightarrow>
          (case exImmutableLocal e of
             Some (ImmutableLocal _ _ _ (Some i) (Some r)) \<Rightarrow>
               if \<not> allowLocal then Err ''enum local has invalid placement''
               else andThen (enumWalk depth matchDepth False i) (enumWalk depth matchDepth True r)
           | _ \<Rightarrow> Err ''enum local has invalid placement'')
      | ExprConditional \<Rightarrow>
          (case exConditional e of
             Some (Conditional (Some c) (Some x) (Some y) terminal) \<Rightarrow>
               if 3 < depth + 1 then Err ''enum composition conditional depth exceeds three''
               else if terminal then
                 (if \<not> allowLocal then Err ''enum terminal statement has invalid expression placement''
                  else andThen (enumWalk (depth + 1) matchDepth False c)
                    (andThen (enumWalk (depth + 1) matchDepth True x)
                      (enumWalk (depth + 1) matchDepth True y)))
               else checkAll (enumWalk (depth + 1) matchDepth False) (children e)
           | _ \<Rightarrow> Err ''enum conditional requires a condition and both branches'')
      | ExprMatch \<Rightarrow>
          (case exMatch e of
             Some (Match (Some v) _) \<Rightarrow>
               if 3 < matchDepth + 1 \<or> tKind (exType v) \<noteq> TypeEnum
               then Err ''enum composition requires an enum match through depth three''
               else checkAll (enumWalk depth (matchDepth + 1) False) (children e)
           | _ \<Rightarrow> Err ''enum composition requires an enum match through depth three'')
      | ExprCall \<Rightarrow> checkAll (enumWalk depth matchDepth False) (children e)
      | ExprBinary \<Rightarrow> checkAll (enumWalk depth matchDepth False) (children e)
      | ExprUnary \<Rightarrow> checkAll (enumWalk depth matchDepth False) (children e)
      | ExprTextTrim \<Rightarrow> checkAll (enumWalk depth matchDepth False) (children e)
      | ExprTextContainsCaseFolded \<Rightarrow> checkAll (enumWalk depth matchDepth False) (children e)
      | _ \<Rightarrow> Err ''unsupported enum composition expression'')"
  by auto
termination
  by (relation "measure (\<lambda>(_, _, _, e). size e)")
    (auto intro!: size_children simp: set_children expressionChildren_def)

declare enumWalk.simps [simp del]

definition validateEnumComposition :: "func \<Rightarrow> unit res" where
  "validateEnumComposition f =
     andThen (rejectIf (\<not> valueType (fnReturnType f))
       ''enum composition result requires a primitive or enum value'')
     (andThen (rejectIf (\<not> list_all (\<lambda>p. valueType (paType p)) (fnParameters f))
       ''enum composition parameters require primitive or enum values'')
       (enumWalk 0 0 True (fnBody f)))"

section \<open>validateImmutableLocalContract\<close>

text \<open>
  The shapes of v0.88.0 to v0.111.0, which a function of that contract or a later one may
  have. Both contracts below begin with these tests.
\<close>

definition admittedShape :: "string \<Rightarrow> expr \<Rightarrow> bool" where
  "admittedShape contract e \<longleftrightarrow>
     (contractIn 111 115 contract \<and> validTerminalLeafSelectorValueArms e)
     \<or> (contractIn 110 115 contract \<and> validStraightLineSelectorValueArms e)
     \<or> (contractIn 109 115 contract \<and> validTerminalCombinedSelectorArms e)
     \<or> (contractIn 108 115 contract \<and> validTerminalInnerSelectorArms e)
     \<or> (contractIn 107 115 contract \<and> validTerminalSelectorValueArms e)
     \<or> (contractIn 106 115 contract \<and> validTerminalBooleanSelectorTests e)
     \<or> (contractIn 105 115 contract \<and> validDepthThreeTerminalConditionalTests e)
     \<or> (contractIn 104 115 contract \<and> validNestedTerminalConditionalTests e)
     \<or> (contractIn 103 115 contract \<and> validTerminalConditionalTests e)
     \<or> (contractIn 102 115 contract \<and> validTerminalBooleanSelectorInitializers e)
     \<or> (contractIn 101 115 contract \<and> validStraightLineBooleanSelectorInitializers e)
     \<or> (contractIn 98 115 contract \<and> validConditionalBooleanSelector e)
     \<or> (contractIn 99 115 contract \<and> validTerminalLeafBooleanSelectors e)
     \<or> (contractIn 94 115 contract \<and> validDepthThreeTerminalLeafReturns e)
     \<or> (contractIn 97 115 contract \<and> validDepthThreeTerminalInitializers e)
     \<or> (contractIn 96 115 contract \<and> validDepthThreeStraightLineInitializers e)
     \<or> (contractIn 93 115 contract \<and> validDepthThreeStraightLineReturns e)
     \<or> (contractIn 91 115 contract \<and> validNestedTerminalInitializers e)
     \<or> (contractIn 90 115 contract \<and> validNestedStraightLineInitializers e)
     \<or> (contractIn 89 115 contract \<and> validNestedTerminalLeafReturns e)
     \<or> (contractIn 88 115 contract \<and> validNestedStraightLineReturns e)"

text \<open>
  The descent from v0.87.0 to v0.78.0: a function that does not have the shape its contract
  added is checked against the contract before it. \<open>older\<close> is what the two callers do below
  v0.78.0.
\<close>

definition from78 :: "(string \<Rightarrow> unit res) \<Rightarrow> expr \<Rightarrow> unit res" where
  "from78 older e = (if validSymmetricNestedTerminalIf e False then Ret () else older ''v0.77.0'')"

definition from79 :: "(string \<Rightarrow> unit res) \<Rightarrow> expr \<Rightarrow> unit res" where
  "from79 older e =
     (if validV790BoundedDepthThreeTerminalIf e then Ret ()
      else if 4 \<le> countTerminalIfStatements e
      then Err ''v0.79.0 permits an inherited symmetric depth-two terminal if/else with exactly one of its four leaves expanded''
      else from78 older e)"

definition from80 :: "(string \<Rightarrow> unit res) \<Rightarrow> expr \<Rightarrow> unit res" where
  "from80 older e =
     (if validV800TwoExpandedTerminalIf e then Ret ()
      else if 5 \<le> countTerminalIfStatements e
      then Err ''v0.80.0 permits exactly two expanded leaves on a symmetric depth-two terminal base''
      else from79 older e)"

definition from81 :: "(string \<Rightarrow> unit res) \<Rightarrow> expr \<Rightarrow> unit res" where
  "from81 older e =
     (if 0 < countTerminalIfStatements e \<and> validV810TerminalTree e 3 then Ret () else from80 older e)"

definition from82 :: "(string \<Rightarrow> unit res) \<Rightarrow> expr \<Rightarrow> unit res" where
  "from82 older e = (if validV820ConditionalLocalTree e then Ret () else from81 older e)"

definition from83 :: "(string \<Rightarrow> unit res) \<Rightarrow> expr \<Rightarrow> unit res" where
  "from83 older e = (if validConditionalLocalTree e (Some 2) then Ret () else from82 older e)"

definition from84 :: "(string \<Rightarrow> unit res) \<Rightarrow> expr \<Rightarrow> unit res" where
  "from84 older e = (if validConditionalLocalTree e None then Ret () else from83 older e)"

definition from85 :: "(string \<Rightarrow> unit res) \<Rightarrow> expr \<Rightarrow> unit res" where
  "from85 older e = (if validStraightLineConditionalLocals e then Ret () else from84 older e)"

definition from86 :: "(string \<Rightarrow> unit res) \<Rightarrow> expr \<Rightarrow> unit res" where
  "from86 older e = (if validConditionalReturnComposition e then Ret () else from85 older e)"

definition from87 :: "(string \<Rightarrow> unit res) \<Rightarrow> expr \<Rightarrow> unit res" where
  "from87 older e = (if validTerminalLeafConditionalReturns e then Ret () else from86 older e)"

definition descend :: "(string \<Rightarrow> unit res) \<Rightarrow> string \<Rightarrow> expr \<Rightarrow> unit res" where
  "descend older contract e =
     (if contractIn 87 115 contract then from87 older e
      else if contract = ''v0.86.0'' then from86 older e
      else if contract = ''v0.85.0'' then from85 older e
      else if contract = ''v0.84.0'' then from84 older e
      else if contract = ''v0.83.0'' then from83 older e
      else if contract = ''v0.82.0'' then from82 older e
      else if contract = ''v0.81.0'' then from81 older e
      else if contract = ''v0.80.0'' then from80 older e
      else if contract = ''v0.79.0'' then from79 older e
      else if contract = ''v0.78.0'' then from78 older e
      else older contract)"

text \<open>The loop that follows the locals of a body, without asking for their initializers.\<close>

function sequenceEnd :: "nat \<Rightarrow> expr \<Rightarrow> nat \<times> expr" where
  "sequenceEnd n e =
     (if exKind e \<noteq> ExprImmutableLocal then (n, e)
      else case exImmutableLocal e of
          Some (ImmutableLocal position name typ initializer (Some return)) \<Rightarrow>
            sequenceEnd (n + 1) return
        | _ \<Rightarrow> (n, e))"
  by auto
termination
  by (relation "measure (\<lambda>(_, e). size e)")
    (auto intro!: size_children simp: set_children expressionChildren_def)

declare sequenceEnd.simps [simp del]

text \<open>How many locals a branch of the terminal statement may have, from v0.70.0 on.\<close>

definition branchLimit :: "string \<Rightarrow> nat option" where
  "branchLimit contract =
     (if contract = ''v0.70.0'' then Some 1 else if contract = ''v0.71.0'' then Some 2
      else if contractIn 72 73 contract then None else Some 0)"

definition terminalIfError :: "string \<Rightarrow> string" where
  "terminalIfError contract =
     (if contract = ''v0.73.0'' then ''v0.73.0 terminal if/else may be the complete method body and permits any finite sequence of explicitly typed ordered immutable locals per branch''
      else if contract = ''v0.72.0'' then ''v0.72.0 terminal if/else permits any finite sequence of explicitly typed ordered immutable locals per branch''
      else if contract = ''v0.71.0'' then ''v0.71.0 terminal if/else permits at most two explicitly typed ordered immutable locals per branch''
      else ''v0.70.0 terminal if/else permits at most one explicitly typed immutable local per branch'')"

definition validateLocalSequence :: "string \<Rightarrow> func \<Rightarrow> unit res" where
  "validateLocalSequence contract f =
     (let (sequence, body) = sequenceEnd 0 (fnBody f);
          (inBranches, valid) =
            (case (exKind body, exConditional body) of
               (ExprConditional, Some (Conditional _ (Some x) (Some y) True)) \<Rightarrow>
                 if contractIn 70 73 contract then
                   (let (m, validTrue) = terminalBranchLocalShape x (branchLimit contract);
                        (n, validFalse) = terminalBranchLocalShape y (branchLimit contract)
                    in (m + n, validTrue \<and> validFalse))
                 else (0, True)
             | _ \<Rightarrow> (0, True))
      in rejectIf ((sequence = 0 \<and> contract \<noteq> ''v0.73.0'')
           \<or> sequence + inBranches \<noteq> countImmutableLocalExpressions (fnBody f) \<or> \<not> valid)
         (if contractIn 70 73 contract \<and> isTerminalIf body then terminalIfError contract
          else ''admits only one top-level ordered immutable-local sequence''))"

definition directFirst :: "expr \<Rightarrow> bool" where
  "directFirst e \<longleftrightarrow>
     (case asLocal (Some e) of None \<Rightarrow> False
      | Some first \<Rightarrow> (case ilInitializer first of None \<Rightarrow> False | Some i \<Rightarrow> exKind i = ExprPropagate))"

definition calledFirst :: "expr \<Rightarrow> bool" where
  "calledFirst e \<longleftrightarrow>
     (case asLocal (Some e) of None \<Rightarrow> False
      | Some first \<Rightarrow> (case ilInitializer first of None \<Rightarrow> False | Some i \<Rightarrow> exKind i \<noteq> ExprPropagate))"

text \<open>The dispatch on the form of propagation that a contract allows.\<close>

definition validatePropagationForm :: "string \<Rightarrow> func \<Rightarrow> unit res" where
  "validatePropagationForm contract f =
     (let count = length (fnParameters f);
          propagations = countPropagationExpressions (fnBody f);
          direct = directFirst (fnBody f);
          bounded = isBoundedValueResultType (parameterType f 0) \<and> isBoundedValueResultType (fnReturnType f);
          oneStage = (contractIn 68 73 contract \<and> 2 \<le> count) \<or> (contractIn 63 67 contract \<and> count = 2)
      in
      if oneStage \<and> direct \<and> bounded \<and> propagations = 1
      then validateSingleStageContextualCrossPayloadResultPropagationContract contract f
      else if contractIn 62 73 contract \<and> direct \<and> 2 \<le> count \<and> bounded \<and> 2 \<le> propagations
      then validateContextualCrossPayloadResultPropagationContract contract f
      else if contractIn 61 73 contract \<and> direct \<and> 0 < count \<and> bounded \<and> 2 \<le> propagations
      then validateGeneralizedCrossPayloadResultPropagationContract f
      else if contract = ''v0.60.0'' \<and> direct \<and> 0 < count \<and> bounded \<and> propagations = 2
      then validateTwoStageCrossPayloadResultPropagationContract f
      else if contractIn 59 73 contract \<and> direct \<and> 0 < count \<and> bounded
        \<and> \<not> TypeEqual (successOf (parameterType f 0)) (successOf (fnReturnType f))
      then validateCrossPayloadResultPropagationContract contract f
      else if contractIn 58 73 contract \<and> direct \<and> (3 \<le> count \<or> propagations \<noteq> 1)
      then validateCheckedPropagationChainContract f
      else if contract = ''v0.57.0'' \<and> direct \<and> (count = 3 \<or> propagations \<noteq> 1)
      then validateTwoStageCheckedPropagationContract f
      else if contractIn 42 73 contract \<and> calledFirst (fnBody f)
      then validatePriorLocalBlockPropagationContract contract f
      else validateBlockPropagationContract contract f)"

definition localContract73 :: "string \<Rightarrow> func \<Rightarrow> unit res" where
  "localContract73 contract f =
     (let body = fnBody f in
      if localFree body then Ret ()
      else
        andThen (rejectIf (\<not> contractIn 39 73 contract) ''immutable local requires a later language contract'')
        (andThen (rejectIf (contract = ''v0.39.0''
              \<and> (countImmutableLocalExpressions body \<noteq> 1 \<or> exKind body \<noteq> ExprImmutableLocal))
          ''admits exactly one top-level immutable local'')
        (andThen (if contractIn 40 73 contract then validateLocalSequence contract f else Ret ())
        (if \<not> exprContainsPropagation body then Ret ()
         else if \<not> contractIn 41 73 contract
         then Err ''immutable local initializer and return exclude propagation''
         else validatePropagationForm contract f))))"

definition localContract77 :: "func \<Rightarrow> string \<Rightarrow> unit res" where
  "localContract77 f contract =
     (let body = fnBody f; several = 1 < countTerminalIfStatements body in
      if localFree body then Ret ()
      else if contract = ''v0.77.0'' then
        (if several then
           rejectIf (\<not> validV750NestedTerminalIf body \<and> \<not> validV760RootLocalNestedTerminalIf body
               \<and> \<not> validV770SymmetricRootLocalNestedTerminalIf body)
             ''v0.77.0 permits one or more top-level typed immutable locals before an outer terminal if/else whose two branches each end in one inner terminal if/else''
         else localContract73 ''v0.73.0'' f)
      else if contract = ''v0.76.0'' then
        (if several then
           rejectIf (\<not> validV750NestedTerminalIf body \<and> \<not> validV760RootLocalNestedTerminalIf body)
             ''v0.76.0 permits one or more top-level typed immutable locals before the exact v0.75.0 one-branch nested terminal if/else''
         else localContract73 ''v0.73.0'' f)
      else if contract = ''v0.75.0'' then
        (if several then
           rejectIf (\<not> validV750NestedTerminalIf body)
             ''v0.75.0 permits one complete outer terminal if/else with exactly one branch ending in one nested terminal if/else''
         else localContract73 ''v0.73.0'' f)
      else if contract = ''v0.74.0'' then
        (if validV740NestedTerminalIf body then Ret () else localContract73 ''v0.73.0'' f)
      else localContract73 contract f)"

definition validateImmutableLocalContract :: "string \<Rightarrow> func \<Rightarrow> unit res" where
  "validateImmutableLocalContract contract f =
     (if contractIn 113 115 contract \<and> FunctionHasEnum f then validateEnumComposition f
      else if admittedShape contract (fnBody f) then Ret ()
      else descend (localContract77 f) contract (fnBody f))"

section \<open>validateConditionalContract\<close>

text \<open>The test of the closure \<open>walk\<close> on a conditional.\<close>

definition flatConditional :: "expr \<Rightarrow> bool" where
  "flatConditional e \<longleftrightarrow>
     (exKind e = ExprConditional \<longrightarrow>
       (case exConditional e of
          Some (Conditional (Some c) (Some x) (Some y) _) \<Rightarrow>
            validConditionalOperand c \<and> validConditionalOperand x \<and> validConditionalOperand y
        | _ \<Rightarrow> False))"

text \<open>
  The code keeps a pointer to the terminal statement it meets last and compares it with the
  conditional that ends the sequence of locals. They can only be the same if that conditional
  is a terminal statement, and when there is one terminal statement they then are.
\<close>

definition validTerminalStatement :: "string \<Rightarrow> expr \<Rightarrow> bool" where
  "validTerminalStatement contract e \<longleftrightarrow>
     (let (locals, terminal) = sequenceEnd 0 e in
      contractIn 69 73 contract \<and> countTerminalIfStatements e = 1
      \<and> countConditionalExpressions e \<le> 2
      \<and> (if contract = ''v0.73.0'' then 0 else 1) \<le> locals \<and> isTerminalIf terminal
      \<and> (case exConditional terminal of
           Some (Conditional _ (Some x) (Some y) _) \<Rightarrow>
             snd (terminalBranchLocalShape x (branchLimit contract))
             \<and> snd (terminalBranchLocalShape y (branchLimit contract))
         | _ \<Rightarrow> False)
      \<and> \<not> exprContainsPropagation e \<and> countMatchExpressions e = 0)"

definition conditionalContract73 :: "string \<Rightarrow> expr \<Rightarrow> unit res" where
  "conditionalContract73 contract e =
     (let conditionals = countConditionalExpressions e in
      andThen (rejectIf (\<not> contractIn 38 73 contract) ''conditional expressions require a later language contract'')
      (andThen (rejectIf (conditionals \<noteq> 1 \<and> \<not> contractIn 69 73 contract)
        ''admits exactly one conditional expression'')
      (andThen (rejectIf (\<not> list_all flatConditional (subexprs e))
        ''conditional operands must be existing eager pure expressions'')
      (if 0 < countTerminalIfStatements e then
         rejectIf (\<not> validTerminalStatement contract e)
           (if contractIn 70 73 contract then terminalIfError contract
            else ''v0.69.0 terminal if/else requires one or more ordered immutable locals'')
       else rejectIf (conditionals \<noteq> 1) ''admits exactly one conditional expression''))))"

definition conditionalContract77 :: "expr \<Rightarrow> string \<Rightarrow> unit res" where
  "conditionalContract77 e contract =
     (let several = 1 < countTerminalIfStatements e;
          excluded = exprContainsPropagation e \<or> countMatchExpressions e \<noteq> 0 in
      if \<not> exprContainsConditional e then Ret ()
      else if contract = ''v0.77.0'' \<and> several then
        rejectIf ((\<not> validV750NestedTerminalIf e \<and> \<not> validV760RootLocalNestedTerminalIf e
            \<and> \<not> validV770SymmetricRootLocalNestedTerminalIf e) \<or> excluded)
          ''v0.77.0 permits one or more top-level typed immutable locals before an outer terminal if/else whose two branches each end in one inner terminal if/else''
      else if contract = ''v0.76.0'' \<and> several then
        rejectIf ((\<not> validV750NestedTerminalIf e \<and> \<not> validV760RootLocalNestedTerminalIf e) \<or> excluded)
          ''v0.76.0 permits one or more top-level typed immutable locals before the exact v0.75.0 one-branch nested terminal if/else''
      else if contract = ''v0.75.0'' \<and> several then
        rejectIf (\<not> validV750NestedTerminalIf e \<or> excluded)
          ''v0.75.0 permits one complete outer terminal if/else with exactly one branch ending in one nested terminal if/else''
      else if contract = ''v0.74.0'' \<and> several then
        rejectIf (\<not> validV740NestedTerminalIf e \<or> excluded)
          ''v0.74.0 permits one complete outer terminal if/else with exactly one nested terminal if/else''
      else conditionalContract73 (if contractIn 74 77 contract then ''v0.73.0'' else contract) e)"

definition validateConditionalContract :: "string \<Rightarrow> func \<Rightarrow> unit res" where
  "validateConditionalContract contract f =
     (if admittedShape contract (fnBody f) then Ret ()
      else descend (conditionalContract77 (fnBody f)) contract (fnBody f))"

end
