(* ===== verification/CoreHelpers.thy ===== *)
theory CoreHelpers
  imports CoreLocals
begin

text \<open>
  Where helper calls may stand and the matches on their results (coreir/semantics.go):
  \<open>validatePureCallPlacement\<close> and \<open>validateHelperResultMatchContract\<close>.
\<close>

section \<open>Call placement\<close>

function validCallPlacement :: "expr \<Rightarrow> bool" where
  "validCallPlacement e \<longleftrightarrow>
     \<not> exprContainsCall e
     \<or> (exKind e = ExprCall \<and> exCall e \<noteq> None \<and> None \<notin> set (expressionChildren e)
        \<and> list_all validCallPlacement (children e))"
  by auto
termination
  by (relation "measure size") (auto intro: size_children)

declare validCallPlacement.simps [simp del]

function validGeneralCallPlacement :: "expr \<Rightarrow> bool" where
  "validGeneralCallPlacement e \<longleftrightarrow>
     (case exKind e of
        ExprPropagate \<Rightarrow>
          (case exPropagate e of None \<Rightarrow> False | Some p \<Rightarrow> directReference (prValue p) \<noteq> None)
      | ExprMatch \<Rightarrow>
          (case exMatch e of None \<Rightarrow> False
           | Some m \<Rightarrow>
               directReference (mtValue m) \<noteq> None
               \<and> list_all (\<lambda>arm. case maBody arm of None \<Rightarrow> False | Some b \<Rightarrow> validGeneralCallPlacement b)
                   (mtArms m))
      | _ \<Rightarrow> None \<notin> set (expressionChildren e) \<and> list_all validGeneralCallPlacement (children e))"
  by auto
termination
  by (relation "measure size") (force intro!: size_children simp: set_children expressionChildren_def)+

declare validGeneralCallPlacement.simps [simp del]

text \<open>A match whose value is a call, with its payload.\<close>

definition matchOfCall :: "expr \<Rightarrow> expr match_on option" where
  "matchOfCall e =
     (case (exKind e, exMatch e) of
        (ExprMatch, Some m) \<Rightarrow>
          (case mtValue m of None \<Rightarrow> None
           | Some v \<Rightarrow> if exKind v = ExprCall then Some m else None)
      | _ \<Rightarrow> None)"

definition validHelperCarrierMatchCallPlacement :: "expr \<Rightarrow> bool" where
  "validHelperCarrierMatchCallPlacement e \<longleftrightarrow>
     (case matchOfCall e of
        None \<Rightarrow> validGeneralCallPlacement e
      | Some m \<Rightarrow>
          (case asCall (mtValue m) of
             None \<Rightarrow> validGeneralCallPlacement e
           | Some (_, c) \<Rightarrow>
               caArguments c \<noteq> [] \<and> list_all (\<lambda>a. directReference a \<noteq> None) (caArguments c)
               \<and> list_all (\<lambda>arm. case maBody arm of None \<Rightarrow> False | Some b \<Rightarrow> validGeneralCallPlacement b)
                   (mtArms m)))"

text \<open>A local with initializer and return.\<close>

definition completeLocal :: "expr \<Rightarrow> (expr immutable_local \<times> expr \<times> expr) option" where
  "completeLocal e =
     (case asLocal (Some e) of
        Some local \<Rightarrow>
          (case (ilInitializer local, ilReturn local) of
             (Some i, Some r) \<Rightarrow> Some (local, i, r)
           | _ \<Rightarrow> None)
      | None \<Rightarrow> None)"

lemma completeLocal_Some:
  "completeLocal e = Some (local, i, r) \<Longrightarrow>
     exKind e = ExprImmutableLocal \<and> exImmutableLocal e = Some local
     \<and> ilInitializer local = Some i \<and> ilReturn local = Some r"
  by (auto simp: completeLocal_def asLocal_def split: option.splits if_splits)

lemma completeLocal_child:
  "completeLocal e = Some (local, i, r) \<Longrightarrow> i \<in> set (children e) \<and> r \<in> set (children e)"
  by (drule completeLocal_Some) (simp add: set_children expressionChildren_def)

lemma completeLocal_smaller: "completeLocal e = Some (local, i, r) \<Longrightarrow> size r < size e"
  using completeLocal_child size_children by blast

definition validHelperCarrierMatchLocalCallPlacement :: "expr \<Rightarrow> bool" where
  "validHelperCarrierMatchLocalCallPlacement e \<longleftrightarrow>
     (case completeLocal e of
        None \<Rightarrow> validHelperCarrierMatchCallPlacement e
      | Some (local, i, r) \<Rightarrow>
          if matchOfCall i \<noteq> None
          then validHelperCarrierMatchCallPlacement i \<and> validGeneralCallPlacement r
          else validHelperCarrierMatchCallPlacement e)"

text \<open>\<open>validHelperCarrierMatchLocalSequence\<close>, on the expression that holds the local.\<close>

function validHelperCarrierMatchLocalSequence :: "expr \<Rightarrow> bool" where
  "validHelperCarrierMatchLocalSequence e \<longleftrightarrow>
     (case completeLocal e of
        None \<Rightarrow> validGeneralCallPlacement e
      | Some (local, i, r) \<Rightarrow>
          (if matchOfCall i \<noteq> None then validHelperCarrierMatchCallPlacement i
           else validGeneralCallPlacement i)
          \<and> validHelperCarrierMatchLocalSequence r)"
  by auto
termination
  by (relation "measure size") (auto dest: completeLocal_smaller)

declare validHelperCarrierMatchLocalSequence.simps [simp del]

definition validHelperCarrierMatchLaterLocalCallPlacement :: "expr \<Rightarrow> bool" where
  "validHelperCarrierMatchLaterLocalCallPlacement e \<longleftrightarrow>
     (if completeLocal e = None then validHelperCarrierMatchCallPlacement e
      else validHelperCarrierMatchLocalSequence e)"

definition validatePureCallPlacement :: "string \<Rightarrow> func \<Rightarrow> unit res" where
  "validatePureCallPlacement contract f =
     (let body = fnBody f in
      if \<not> exprContainsCall body then Ret ()
      else if contract = ''v0.36.0'' then
        rejectIf (\<not> validCallPlacement body) ''pure calls must be the complete body or directly nested arguments''
      else if contractIn 37 42 contract then
        rejectIf (\<not> validGeneralCallPlacement body) ''composed pure calls retain direct match and propagation operands''
      else if contractIn 43 73 contract then
        rejectIf (\<not> (if contractIn 45 46 contract then validHelperCarrierMatchLocalCallPlacement body
            else if contractIn 47 73 contract then validHelperCarrierMatchLaterLocalCallPlacement body
            else validHelperCarrierMatchCallPlacement body))
          ''helper calls are admitted only at the inherited helper-carrier positions''
      else Err ''pure calls require a later language contract'')"

section \<open>Carriers in prior locals\<close>

text \<open>
  A helper call in a local, followed by a local that matches on it. The positions of the two
  locals are compared as the code compares the pointers to them: a local is never equal to one
  inside it.
\<close>

record carrier_match =
  cmCarrier :: "expr immutable_local"
  cmMatched :: "expr immutable_local"
  cmMatch :: "expr match_on"

definition carrierMatchAt :: "expr \<Rightarrow> carrier_match option" where
  "carrierMatchAt e =
     (case completeLocal e of
        Some (carrier, call, next) \<Rightarrow>
          (case completeLocal next of
             Some (matched, i, r) \<Rightarrow>
               (case (exKind i, exMatch i) of
                  (ExprMatch, Some m) \<Rightarrow>
                    if exKind call = ExprCall \<and> refersToTyped (mtValue m) (ilPosition carrier) (ilType carrier)
                    then Some \<lparr>cmCarrier = carrier, cmMatched = matched, cmMatch = m\<rparr>
                    else None
                | _ \<Rightarrow> None)
           | None \<Rightarrow> None)
      | None \<Rightarrow> None)"

function priorLocalCarrierMatch :: "expr \<Rightarrow> carrier_match option" where
  "priorLocalCarrierMatch e =
     (case completeLocal e of
        None \<Rightarrow> None
      | Some (local, i, r) \<Rightarrow>
          (case carrierMatchAt e of Some pair \<Rightarrow> Some pair | None \<Rightarrow> priorLocalCarrierMatch r))"
  by auto
termination
  by (relation "measure size") (auto dest: completeLocal_smaller)

declare priorLocalCarrierMatch.simps [simp del]

lemma carrierMatchAt_Some:
  assumes "carrierMatchAt e = Some pair"
  obtains call follow i r where "completeLocal e = Some (cmCarrier pair, call, follow)"
    "completeLocal follow = Some (cmMatched pair, i, r)" "exMatch i = Some (cmMatch pair)"
  using assms by (auto simp: carrierMatchAt_def split: option.splits if_splits expr_kind.splits)

lemma matched_smaller:
  assumes "carrierMatchAt e = Some pair" "ilReturn (cmMatched pair) = Some r"
  shows "size r < size e"
proof -
  from assms(1) obtain call follow i r' where p: "completeLocal e = Some (cmCarrier pair, call, follow)"
      "completeLocal follow = Some (cmMatched pair, i, r')"
    by (rule carrierMatchAt_Some)
  have "r' = r" using completeLocal_Some [OF p(2)] assms(2) by simp
  with completeLocal_smaller [OF p(1)] completeLocal_smaller [OF p(2)] show ?thesis by simp
qed

function priorLocalCarrierMatches :: "expr \<Rightarrow> carrier_match list" where
  "priorLocalCarrierMatches e =
     (case completeLocal e of
        None \<Rightarrow> []
      | Some (local, i, r) \<Rightarrow>
          (case carrierMatchAt e of
             Some pair \<Rightarrow>
               (case ilReturn (cmMatched pair) of
                  None \<Rightarrow> [pair]
                | Some r' \<Rightarrow> pair # priorLocalCarrierMatches r')
           | None \<Rightarrow> priorLocalCarrierMatches r))"
  by auto
termination
  by (relation "measure size") (auto dest: completeLocal_smaller matched_smaller)

declare priorLocalCarrierMatches.simps [simp del]

function helperCarrierMatchLocal :: "expr \<Rightarrow> expr match_on option" where
  "helperCarrierMatchLocal e =
     (case completeLocal e of
        None \<Rightarrow> None
      | Some (local, i, r) \<Rightarrow>
          if matchOfCall i \<noteq> None then matchOfCall i else helperCarrierMatchLocal r)"
  by auto
termination
  by (relation "measure size") (auto dest: completeLocal_smaller)

declare helperCarrierMatchLocal.simps [simp del]

definition directFunctionParameter :: "expr option \<Rightarrow> nat \<Rightarrow> bool" where
  "directFunctionParameter p count \<longleftrightarrow>
     (case directReference p of None \<Rightarrow> False | Some i \<Rightarrow> 0 \<le> i \<and> i < int count)"

section \<open>One match on a helper result\<close>

text \<open>The two arms in source order: \<open>some\<close> and \<open>none\<close>, or \<open>ok\<close> and \<open>err\<close>.\<close>

definition resultArms :: "expr match_on \<Rightarrow> bool" where
  "resultArms m \<longleftrightarrow>
     (case mtArms m of
        [a, b] \<Rightarrow> maTag a = ''ok'' \<and> maBinding a \<noteq> None \<and> maTag b = ''err'' \<and> maBinding b \<noteq> None
      | _ \<Rightarrow> False)"

definition optionalArms :: "expr match_on \<Rightarrow> bool" where
  "optionalArms m \<longleftrightarrow>
     (case mtArms m of
        [a, b] \<Rightarrow> maTag a = ''some'' \<and> maBinding a \<noteq> None \<and> maTag b = ''none'' \<and> maBinding b = None
      | _ \<Rightarrow> False)"

definition carrierArms :: "core_type \<Rightarrow> expr match_on \<Rightarrow> unit res" where
  "carrierArms t m =
     (if tKind t = TypeOptional
      then rejectIf (\<not> optionalArms m) ''requires source-ordered some(binding) and none arms''
      else rejectIf (\<not> resultArms m) ''requires source-ordered ok(binding) and err(binding) arms'')"

text \<open>The target of a helper call: same owner, the result type, the parameter types.\<close>

definition helperTarget ::
  "func \<Rightarrow> (string \<Rightarrow> func option) \<Rightarrow> semantic_identity \<Rightarrow> core_type list \<Rightarrow> core_type \<Rightarrow> unit res"
where
  "helperTarget f table identity types result =
     (case table (functionKey identity) of
        None \<Rightarrow> Err ''target has an invalid owner or signature''
      | Some target \<Rightarrow>
          andThen (rejectIf (semanticOwnerPath (siPath (fnIdentity target)) \<noteq> semanticOwnerPath (siPath (fnIdentity f))
              \<or> length (fnParameters target) \<noteq> length types \<or> \<not> TypeEqual (fnReturnType target) result)
            ''target has an invalid owner or signature'')
          (rejectIf (\<not> list_all2 (\<lambda>p t. TypeEqual (paType p) t) (fnParameters target) types)
            ''target parameter does not match the caller''))"

text \<open>
  A match whose value is the call \<open>v\<close>: the expression of the match itself, or the initializer
  of the local that the match refers to.
\<close>

definition validateGeneralHelperCarrierMatchCount ::
  "func \<Rightarrow> expr \<Rightarrow> expr match_on \<Rightarrow> (string \<Rightarrow> func option) \<Rightarrow> bool \<Rightarrow> nat \<Rightarrow> unit res"
where
  "validateGeneralHelperCarrierMatchCount f v m table allowArithmetic expectedMatches =
     (case exCall v of
        None \<Rightarrow> Err ''requires one or more parameters and exactly the expected matches''
      | Some c \<Rightarrow>
          andThen (rejectIf (countMatchExpressions (fnBody f) \<noteq> expectedMatches \<or> fnParameters f = [])
            ''requires one or more parameters and exactly the expected matches'')
          (andThen (rejectIf (length (caArguments c) \<noteq> length (fnParameters f))
            ''requires every caller parameter exactly once in declaration order'')
          (andThen (rejectIf (\<not> list_all (\<lambda>(i, a). refersTo a (int i)) (enumerate 0 (caArguments c)))
            ''argument is not the corresponding direct caller parameter'')
          (andThen (rejectIf (\<not> isGeneralHelperCarrierType (exType v)
              \<and> \<not> (allowArithmetic \<and> isArithmeticResultType (exType v)))
            ''requires an admitted Optional or bounded Result carrier'')
          (andThen (helperTarget f table (caTarget c) (map paType (fnParameters f)) (exType v))
            (carrierArms (exType v) m))))))"

definition validateGeneralHelperCarrierMatch ::
  "func \<Rightarrow> expr \<Rightarrow> expr match_on \<Rightarrow> (string \<Rightarrow> func option) \<Rightarrow> bool \<Rightarrow> unit res"
where
  "validateGeneralHelperCarrierMatch f v m table allowArithmetic =
     validateGeneralHelperCarrierMatchCount f v m table allowArithmetic 1"

definition validateSelectedHelperCarrierMatch ::
  "func \<Rightarrow> expr immutable_local list \<Rightarrow> expr \<Rightarrow> expr match_on \<Rightarrow> (string \<Rightarrow> func option) \<Rightarrow> nat \<Rightarrow> unit res"
where
  "validateSelectedHelperCarrierMatch f selected v m table expectedMatches =
     (case exCall v of
        None \<Rightarrow> Err ''requires one or more parameters and exactly the expected matches''
      | Some c \<Rightarrow>
          (let (chosen, direct) = (take (length selected) (caArguments c), drop (length selected) (caArguments c)) in
           andThen (rejectIf (selected = [] \<or> fnParameters f = []
               \<or> countMatchExpressions (fnBody f) \<noteq> expectedMatches)
             ''requires one or more parameters and exactly the expected matches'')
           (andThen (rejectIf (length (caArguments c) \<noteq> length (fnParameters f) + length selected)
             ''requires the selected locals followed by every caller parameter'')
           (andThen (rejectIf (\<not> list_all2 (\<lambda>a l. refersTo a (ilPosition l)) chosen selected)
             ''argument is not the selected local'')
           (andThen (rejectIf (\<not> list_all (\<lambda>(i, a). refersTo a (int i)) (enumerate 0 direct))
             ''argument is not the corresponding direct caller parameter'')
           (andThen (rejectIf (\<not> isGeneralHelperCarrierType (exType v) \<and> \<not> isArithmeticResultType (exType v))
             ''requires an admitted Optional, bounded Result, or checked-arithmetic Result carrier'')
           (andThen (helperTarget f table (caTarget c)
               (map ilType selected @ map paType (fnParameters f)) (exType v))
             (carrierArms (exType v) m))))))))"

definition validateDependentHelperCarrierMatch ::
  "func \<Rightarrow> expr immutable_local \<Rightarrow> expr \<Rightarrow> expr match_on \<Rightarrow> (string \<Rightarrow> func option) \<Rightarrow> nat \<Rightarrow> unit res"
where
  "validateDependentHelperCarrierMatch f previous v m table expectedMatches =
     validateSelectedHelperCarrierMatch f [previous] v m table expectedMatches"

section \<open>validateHelperResultMatchContract\<close>

text \<open>The match of a pair with its carrier's initializer in place of the reference to it.\<close>

definition pairCheck :: "(expr \<Rightarrow> expr match_on \<Rightarrow> unit res) \<Rightarrow> carrier_match \<Rightarrow> unit res" where
  "pairCheck check pair =
     bindR (deref (ilInitializer (cmCarrier pair))) (\<lambda>v. check v (cmMatch pair))"

text \<open>Each pair starts right after the one before it.\<close>

fun contiguous :: "carrier_match list \<Rightarrow> bool" where
  "contiguous (a # b # rest) \<longleftrightarrow>
     asLocal (ilReturn (cmMatched a)) = Some (cmCarrier b) \<and> contiguous (b # rest)"
| "contiguous _ \<longleftrightarrow> True"

definition helperMatch43 :: "string \<Rightarrow> func \<Rightarrow> (string \<Rightarrow> func option) \<Rightarrow> unit res" where
  "helperMatch43 contract f table =
     (case matchOfCall (fnBody f) of
        None \<Rightarrow> Ret ()
      | Some m \<Rightarrow>
          bindR (deref (mtValue m)) (\<lambda>v.
            if contract = ''v0.44.0'' then validateGeneralHelperCarrierMatch f v m table False
            else if contract \<noteq> ''v0.43.0'' then Err ''helper-result match requires a later language contract''
            else
              case exCall v of
                None \<Rightarrow> Err ''helper-result match requires one string parameter and a string return''
              | Some c \<Rightarrow>
                  andThen (rejectIf (countMatchExpressions (fnBody f) \<noteq> 1 \<or> length (fnParameters f) \<noteq> 1
                      \<or> \<not> TypeEqual (parameterType f 0) textType \<or> \<not> TypeEqual (fnReturnType f) textType)
                    ''helper-result match requires one string parameter and a string return'')
                  (andThen (rejectIf (length (caArguments c) \<noteq> 1 \<or> \<not> refersTo (hd (caArguments c)) 0)
                    ''helper-result match requires its sole direct string parameter'')
                  (andThen (rejectIf (\<not> isTextResultType (exType v))
                    ''helper-result match carrier must be Result<string, string>'')
                  (case table (functionKey (caTarget c)) of
                     None \<Rightarrow> Err ''helper-result match target must be one same-owner string helper''
                   | Some target \<Rightarrow>
                       andThen (rejectIf (semanticOwnerPath (siPath (fnIdentity target))
                             \<noteq> semanticOwnerPath (siPath (fnIdentity f))
                           \<or> length (fnParameters target) \<noteq> 1 \<or> \<not> TypeEqual (parameterType target 0) textType
                           \<or> \<not> isTextResultType (fnReturnType target))
                         ''helper-result match target must be one same-owner string helper'')
                       (rejectIf (\<not> resultArms m)
                         ''helper-result match requires source-ordered ok(binding) and err(binding) arms''))))))"

text \<open>The initializer of the first local, when it is a match on a call.\<close>

definition firstLocalMatch :: "expr \<Rightarrow> expr match_on option" where
  "firstLocalMatch e =
     (case asLocal (Some e) of None \<Rightarrow> None
      | Some first \<Rightarrow> (case ilInitializer first of None \<Rightarrow> None | Some i \<Rightarrow> matchOfCall i))"

definition onCall :: "(expr \<Rightarrow> unit res) \<Rightarrow> expr match_on \<Rightarrow> unit res" where
  "onCall check m = bindR (deref (mtValue m)) check"

definition helperMatch47 :: "string \<Rightarrow> func \<Rightarrow> (string \<Rightarrow> func option) \<Rightarrow> unit res" where
  "helperMatch47 contract f table =
     (let body = fnBody f; once = rejectIf (countMatchExpressions body \<noteq> 1) ''helper-carrier match requires exactly one match'' in
      if priorLocalCarrierMatch body \<noteq> None then Err ''prior-local carrier matching requires a later language contract''
      else if \<not> contractIn 45 47 contract then helperMatch43 contract f table
      else
        case (if contract = ''v0.47.0'' then helperCarrierMatchLocal body else None) of
          Some m \<Rightarrow> andThen once (onCall (\<lambda>v. validateGeneralHelperCarrierMatch f v m table True) m)
        | None \<Rightarrow>
            (case firstLocalMatch body of
               Some m \<Rightarrow>
                 andThen once
                   (onCall (\<lambda>v. validateGeneralHelperCarrierMatch f v m table (contract = ''v0.46.0'')) m)
             | None \<Rightarrow>
                 (case matchOfCall body of
                    Some m \<Rightarrow> onCall (\<lambda>v. validateGeneralHelperCarrierMatch f v m table False) m
                  | None \<Rightarrow> Ret ())))"

definition helperMatch48 :: "func \<Rightarrow> (string \<Rightarrow> func option) \<Rightarrow> unit res" where
  "helperMatch48 f table =
     (let body = fnBody f; count = countMatchExpressions body in
      case priorLocalCarrierMatch body of
        Some pair \<Rightarrow>
          andThen (rejectIf (count \<noteq> 1) ''v0.48.0 prior-local carrier matching requires exactly one match'')
            (pairCheck (\<lambda>v m. validateGeneralHelperCarrierMatch f v m table True) pair)
      | None \<Rightarrow>
          (case helperCarrierMatchLocal body of
             Some m \<Rightarrow>
               andThen (rejectIf (count \<noteq> 1) ''v0.48.0 inherited helper-carrier match requires exactly one match'')
                 (onCall (\<lambda>v. validateGeneralHelperCarrierMatch f v m table True) m)
           | None \<Rightarrow>
               (case matchOfCall body of
                  Some m \<Rightarrow> onCall (\<lambda>v. validateGeneralHelperCarrierMatch f v m table False) m
                | None \<Rightarrow>
                    if (case (exKind body, exMatch body) of
                          (ExprMatch, Some m) \<Rightarrow>
                            count = 1 \<and> directFunctionParameter (mtValue m) (length (fnParameters f))
                        | _ \<Rightarrow> False)
                    then Ret ()
                    else rejectIf (count \<noteq> 0)
                      ''v0.48.0 match must be an inherited complete-body or local match'')))"

definition helperMatch49 :: "func \<Rightarrow> (string \<Rightarrow> func option) \<Rightarrow> unit res" where
  "helperMatch49 f table =
     (let count = countMatchExpressions (fnBody f); pairs = priorLocalCarrierMatches (fnBody f) in
      if count = 0 then Ret ()
      else if count = 1 then helperMatch48 f table
      else if count \<noteq> 2 then Err ''v0.49.0 admits either one inherited bounded match or two''
      else
        andThen (rejectIf (length pairs \<noteq> 2) ''v0.49.0 two-match composition requires exactly two prior-local pairs'')
          (checkAll (pairCheck (\<lambda>v m. validateGeneralHelperCarrierMatchCount f v m table True 2)) pairs))"

text \<open>\<open>if err := ...; err == nil { return nil }\<close>: an error is dropped.\<close>

definition orElse :: "unit res \<Rightarrow> unit res \<Rightarrow> unit res" where
  "orElse a b = (case a of Err _ \<Rightarrow> b | _ \<Rightarrow> a)"

definition helperMatch50 :: "func \<Rightarrow> (string \<Rightarrow> func option) \<Rightarrow> unit res" where
  "helperMatch50 f table =
     (let count = countMatchExpressions (fnBody f); pairs = priorLocalCarrierMatches (fnBody f) in
      if count = 0 then Ret ()
      else if count = 1 then helperMatch48 f table
      else if count \<noteq> 2 then Err ''v0.50.0 admits inherited bounded matches or exactly two''
      else
        case pairs of
          [first, second] \<Rightarrow>
            orElse (helperMatch49 f table)
              (andThen (rejectIf (\<not> contiguous pairs) ''v0.50.0 dependent composition requires four contiguous locals'')
              (andThen (pairCheck (\<lambda>v m. validateGeneralHelperCarrierMatchCount f v m table True 2) first)
                (pairCheck (\<lambda>v m. validateDependentHelperCarrierMatch f (cmMatched first) v m table 2) second)))
        | _ \<Rightarrow> Err ''v0.50.0 dependent composition requires exactly two prior-local pairs'')"

text \<open>
  The chains: \<open>stage earlier pair\<close> checks a pair after the first, given the pairs before it.
\<close>

fun chainStages :: "(carrier_match list \<Rightarrow> carrier_match \<Rightarrow> unit res) \<Rightarrow> carrier_match list \<Rightarrow> carrier_match list \<Rightarrow> unit res"
where
  "chainStages stage earlier [] = Ret ()"
| "chainStages stage earlier (pair # pairs) =
     andThen (stage earlier pair) (chainStages stage (earlier @ [pair]) pairs)"

definition carrierChain ::
  "func \<Rightarrow> (string \<Rightarrow> func option) \<Rightarrow> (carrier_match list \<Rightarrow> carrier_match \<Rightarrow> unit res) \<Rightarrow> string \<Rightarrow> unit res"
where
  "carrierChain f table stage message =
     (let count = countMatchExpressions (fnBody f); pairs = priorLocalCarrierMatches (fnBody f) in
      andThen (rejectIf (length pairs \<noteq> count) message)
      (andThen (rejectIf (\<not> contiguous pairs) message)
      (case pairs of
         [] \<Rightarrow> Panic
       | first # rest \<Rightarrow>
           andThen (pairCheck (\<lambda>v m. validateGeneralHelperCarrierMatchCount f v m table True count) first)
             (chainStages stage [first] rest))))"

definition helperMatch51 :: "func \<Rightarrow> (string \<Rightarrow> func option) \<Rightarrow> unit res" where
  "helperMatch51 f table =
     (let count = countMatchExpressions (fnBody f) in
      if count = 0 then Ret ()
      else if count \<le> 2 then helperMatch50 f table
      else carrierChain f table
        (\<lambda>earlier. pairCheck (\<lambda>v m.
          validateDependentHelperCarrierMatch f (cmMatched (last earlier)) v m table count))
        ''v0.51.0 dependent carrier chain requires every match in one contiguous chain'')"

definition helperMatch52 :: "func \<Rightarrow> (string \<Rightarrow> func option) \<Rightarrow> unit res" where
  "helperMatch52 f table =
     (let count = countMatchExpressions (fnBody f) in
      if count = 0 then Ret ()
      else if count \<le> 2 then helperMatch50 f table
      else orElse (helperMatch51 f table)
        (carrierChain f table
          (\<lambda>earlier. pairCheck (\<lambda>v m.
            validateSelectedHelperCarrierMatch f (map cmMatched earlier) v m table count))
          ''v0.52.0 cumulative fan-in chain requires every match in one contiguous chain''))"

definition validateHelperResultMatchContract :: "string \<Rightarrow> func \<Rightarrow> (string \<Rightarrow> func option) \<Rightarrow> unit res" where
  "validateHelperResultMatchContract contract f table =
     (if contractIn 52 73 contract then helperMatch52 f table
      else if contract = ''v0.51.0'' then helperMatch51 f table
      else if contract = ''v0.50.0'' then helperMatch50 f table
      else if contract = ''v0.49.0'' then helperMatch49 f table
      else if contract = ''v0.48.0'' then helperMatch48 f table
      else helperMatch47 contract f table)"

end
