(* ===== verification/CoreProgram.thy ===== *)
theory CoreProgram
  imports CoreBlocks CoreHelpers
begin

text \<open>
  Validation of functions and programs (coreir/semantics.go, coreir/enums.go):
  \<open>ValidateFunction\<close>, \<open>ValidateProgram\<close> with the pure call checks and the cycle check, and
  named predicates.
\<close>

section \<open>Named predicates\<close>

definition projectsRow :: "expr \<Rightarrow> int \<Rightarrow> bool" where
  "projectsRow e rowPosition \<longleftrightarrow>
     (case exField e of
        Some (FieldProjection (Some r) identity name position) \<Rightarrow>
          exKind r = ExprReference \<and> exParameter r = Some rowPosition
          \<and> tKind (exType e) = TypePrimitive
      | _ \<Rightarrow> False)"

function validateNamedPredicateExpr :: "expr \<Rightarrow> int \<Rightarrow> unit res" where
  "validateNamedPredicateExpr e rowPosition =
     (case exKind e of
        ExprLiteral \<Rightarrow> Ret ()
      | ExprReference \<Rightarrow>
          rejectIf (exParameter e = None \<or> exParameter e = Some rowPosition)
            ''predicate record parameter requires one-hop field projection''
      | ExprFieldProjection \<Rightarrow>
          rejectIf (\<not> projectsRow e rowPosition)
            ''predicate field projection must be one-hop primitive record data''
      | ExprUnary \<Rightarrow>
          (case exUnary e of
             Some (Unary operator (Some x)) \<Rightarrow>
               if operator \<noteq> OperatorNot then Err ''predicate unary expression must be logical not''
               else validateNamedPredicateExpr x rowPosition
           | _ \<Rightarrow> Err ''predicate unary expression must be logical not'')
      | ExprBinary \<Rightarrow>
          (case exBinary e of
             Some (Binary operator (Some l) (Some r)) \<Rightarrow>
               if operator \<notin> {OperatorAnd, OperatorOr, OperatorEqual, OperatorNotEqual,
                   OperatorLessThan, OperatorLessOrEqual, OperatorGreaterThan, OperatorGreaterOrEqual}
               then Err ''predicate binary operator is not admitted''
               else andThen (validateNamedPredicateExpr l rowPosition)
                 (validateNamedPredicateExpr r rowPosition)
           | _ \<Rightarrow> Err ''predicate binary expression is incomplete'')
      | ExprTextContainsCaseFolded \<Rightarrow>
          (case exTextContains e of
             Some (TextContainsCaseFolded (Some x) (Some q)) \<Rightarrow>
               andThen (validateNamedPredicateExpr x rowPosition)
                 (validateNamedPredicateExpr q rowPosition)
           | _ \<Rightarrow> Err ''predicate contains_casefolded is incomplete'')
      | ExprTextTrim \<Rightarrow>
          (case exTextTrim e of
             Some (Some x) \<Rightarrow> validateNamedPredicateExpr x rowPosition
           | _ \<Rightarrow> Err ''predicate trim is incomplete'')
      | _ \<Rightarrow> Err ''predicate expression kind is not admitted'')"
  by auto
termination
  by (relation "measure (size \<circ> fst)")
    (auto intro!: size_children simp: set_children expressionChildren_def)

declare validateNamedPredicateExpr.simps [simp del]

definition isNamedPredicateFunction :: "func \<Rightarrow> bool" where
  "isNamedPredicateFunction f \<longleftrightarrow>
     TypeEqual (fnReturnType f) boolType
     \<and> (case fnParameters f of
          row # p # ps \<Rightarrow>
            tKind (paType row) = TypeRecord \<and> list_all (\<lambda>q. tKind (paType q) = TypePrimitive) (p # ps)
            \<and> validateNamedPredicateExpr (fnBody f) 0 = Ret ()
        | _ \<Rightarrow> False)"

section \<open>Enums across a program\<close>

text \<open>The closure \<open>typ\<close> over the map of declarations seen, along all types of the program.\<close>

fun declareEnums :: "(string \<Rightarrow> core_type option) \<Rightarrow> core_type list \<Rightarrow> unit res" where
  "declareEnums seen [] = Ret ()"
| "declareEnums seen (t # ts) =
     (if tKind t \<noteq> TypeEnum then declareEnums seen ts
      else andThen (validateEnumType t) (bindR (deref (tIdentity t)) (\<lambda>identity.
        case seen (functionKey identity) of
          Some old \<Rightarrow>
            if \<not> TypeEqual old t then Err ''enum identity has conflicting declarations''
            else declareEnums (seen(functionKey identity \<mapsto> t)) ts
        | None \<Rightarrow> declareEnums (seen(functionKey identity \<mapsto> t)) ts)))"

definition functionTypes :: "func \<Rightarrow> core_type list" where
  "functionTypes f =
     BlockLocalTypes (exBlock (fnBody f)) @ [fnReturnType f] @ map paType (fnParameters f)
       @ map exType (subexprs (fnBody f))"

definition validateEnumDeclarations :: "func list \<Rightarrow> unit res" where
  "validateEnumDeclarations fns = declareEnums Map.empty (concat (map functionTypes fns))"

section \<open>ValidateFunction\<close>

text \<open>The parameter loop.\<close>

fun validateParameters :: "int \<Rightarrow> parameter list \<Rightarrow> unit res" where
  "validateParameters i [] = Ret ()"
| "validateParameters i (p # ps) =
     andThen (rejectIf (paPosition p \<noteq> i) ''parameter is not in normalized position order'')
       (andThen (validateType (paType p)) (validateParameters (i + 1) ps))"

text \<open>A body that a later contract composes from several expressions is free of the early rules.\<close>

definition composed :: "func \<Rightarrow> bool" where
  "composed f \<longleftrightarrow>
     exprContainsCall (fnBody f) \<or> exprContainsConditional (fnBody f)
     \<or> exKind (fnBody f) = ExprImmutableLocal \<or> FunctionHasEnum f"

text \<open>The operators that must be the complete body.\<close>

definition validateShape :: "func \<Rightarrow> unit res" where
  "validateShape f =
     (let body = fnBody f; kind = exKind body; namedPredicate = isNamedPredicateFunction f in
      andThen (rejectIf (exprContainsRecordConstruction body \<and> kind \<noteq> ExprRecordConstruct)
        ''record construction must be the complete function body'')
      (andThen (rejectIf (exprContainsTextCaseFolded body \<and> kind \<noteq> ExprTextContainsCaseFolded \<and> \<not> namedPredicate)
        ''contains_casefolded must be the complete function body'')
      (andThen (rejectIf (exprContainsTextTrim body \<and> kind \<noteq> ExprTextTrim \<and> \<not> namedPredicate)
        ''trim must be the complete function body'')
      (andThen (rejectIf (exprContainsListFilterContainsCaseFolded body \<and> kind \<noteq> ExprListFilterContainsCaseFolded)
        ''filter_contains_casefolded must be the complete function body'')
      (andThen (rejectIf (exprContainsListFilterJoinedContainsCaseFolded body
          \<and> kind \<noteq> ExprListFilterJoinedContainsCaseFolded)
        ''filter_joined_contains_casefolded must be the complete function body'')
      (rejectIf (exprContainsListSortByOrdinalText body
          \<and> kind \<notin> {ExprListSortByOrdinalText, ExprListSortByOrdinalTexts, ExprListSortByOrdinalDirections})
        ''sort_by_ordinal must be the complete function body''))))))"

definition whenR :: "bool \<Rightarrow> unit res \<Rightarrow> unit res" where
  "whenR b m = (if b then m else Ret ())"

text \<open>The direct-body checks, in their order.\<close>

definition validateDirect :: "func \<Rightarrow> unit res" where
  "validateDirect f =
     (let kind = exKind (fnBody f); bounded = functionContainsBoundedValueResult f in
      andThen (whenR (exprContainsRecordEquality (fnBody f)) (validateDirectRecordEquality f))
      (andThen (whenR (kind = ExprTextContainsCaseFolded) (validateDirectTextContainsCaseFoldedFunction f))
      (andThen (whenR (kind = ExprTextTrim) (validateDirectTextTrimFunction f))
      (andThen (whenR bounded (validateDirectBoundedValueResultFunction f))
      (andThen (whenR (kind = ExprListAt) (validateDirectListAtFunction f))
      (andThen (whenR (kind = ExprListFindByText) (validateDirectListFindByTextFunction f))
      (andThen (whenR (kind = ExprListFilterByText) (validateDirectListFilterByTextFunction f))
      (andThen (whenR (kind = ExprListFilterPredicate) (validateDirectListFilterPredicateFunction f))
      (andThen (whenR (kind = ExprListFilterContainsCaseFolded)
        (validateDirectListFilterContainsCaseFoldedFunction f))
      (andThen (whenR (kind = ExprListFilterJoinedContainsCaseFolded)
        (validateDirectListFilterJoinedContainsCaseFoldedFunction f))
      (andThen (whenR (kind = ExprListSortByOrdinalText) (validateDirectListSortByOrdinalTextFunction f))
      (andThen (whenR (kind = ExprListSortByOrdinalTexts) (validateDirectListSortByOrdinalTextsFunction f))
      (andThen (whenR (kind = ExprListSortByOrdinalDirections)
        (validateDirectListSortByOrdinalDirectionsFunction f))
      (andThen (whenR (functionContainsOptional f \<and> \<not> bounded
          \<and> kind \<notin> {ExprListAt, ExprListFindByText, ExprListSortByOrdinalText, ExprListSortByOrdinalTexts})
        (validateDirectOptionalFunction f))
      (whenR (functionContainsList f \<and> \<not> bounded
          \<and> kind \<notin> {ExprListAt, ExprListFindByText, ExprListFilterByText, ExprListFilterPredicate,
              ExprListFilterContainsCaseFolded, ExprListFilterJoinedContainsCaseFolded,
              ExprListSortByOrdinalText, ExprListSortByOrdinalTexts, ExprListSortByOrdinalDirections})
        (validateDirectListFunction f))))))))))))))))"

definition ValidateFunction :: "func \<Rightarrow> unit res" where
  "ValidateFunction f =
     (if exKind (fnBody f) = ExprBlock then validateBlockFunction f
      else
        andThen (validateParameters 0 (fnParameters f))
        (andThen (validateType (fnReturnType f))
        (andThen (whenR (\<not> composed f) (validateShape f))
        (andThen (validateExpr (fnBody f) (fnParameters f))
        (andThen (whenR (\<not> composed f) (validateDirect f))
          (rejectIf (\<not> TypeEqual (fnReturnType f) (exType (fnBody f)))
            ''function return type does not match its body type''))))))"

section \<open>Calls\<close>

text \<open>The contracts with pure calls: v0.36.0 up to v0.73.0. Those with named predicates: from v0.31.0.\<close>

definition pureCallContracts :: "string list" where
  "pureCallContracts = take 38 (drop 35 supportedLanguageContracts)"

definition isV310OrLaterContract :: "string \<Rightarrow> bool" where
  "isV310OrLaterContract contract \<longleftrightarrow> contract \<in> set (take 43 (drop 30 supportedLanguageContracts))"

text \<open>\<open>inheritedContract\<close>: v0.74.0 and later keep the gates of v0.73.0.\<close>

definition inheritedContract :: "string \<Rightarrow> string" where
  "inheritedContract contract =
     (if contract \<in> set (drop 73 supportedLanguageContracts) then ''v0.73.0'' else contract)"

definition checkPureCall :: "string \<Rightarrow> func \<Rightarrow> (string \<Rightarrow> func option) \<Rightarrow> expr \<Rightarrow> unit res" where
  "checkPureCall contract f table e =
     (if exKind e \<noteq> ExprCall then Ret ()
      else if contract \<notin> set pureCallContracts then Err ''pure calls require a later language contract''
      else case exCall e of
          None \<Rightarrow> Err ''pure call is incomplete''
        | Some c \<Rightarrow>
            andThen (rejectIf (incompleteTarget (caTarget c) (caTargetName c)) ''pure call is incomplete'')
            (case table (functionKey (caTarget c)) of
               None \<Rightarrow> Err ''pure call target was not found''
             | Some target \<Rightarrow>
                 andThen (rejectIf (fnName target \<noteq> caTargetName c
                     \<or> siPackage (fnIdentity target) \<noteq> siPackage (fnIdentity f)
                     \<or> semanticOwnerPath (siPath (fnIdentity target)) \<noteq> semanticOwnerPath (siPath (fnIdentity f))
                     \<or> \<not> callableIdentityEqual (siCallable (caTarget c)) (siCallable (fnIdentity target)))
                   ''pure call target is invalid'')
                 (andThen (rejectIf (length (caArguments c) \<noteq> length (fnParameters target))
                   ''pure call argument count mismatch'')
                 (andThen (rejectIf (\<not> list_all2 (\<lambda>a p. case a of
                       None \<Rightarrow> False | Some x \<Rightarrow> TypeEqual (exType x) (paType p))
                     (caArguments c) (fnParameters target))
                   ''pure call argument type mismatch'')
                   (rejectIf (\<not> TypeEqual (exType e) (fnReturnType target))
                     ''pure call result type mismatch'')))))"

definition validatePureCalls :: "string \<Rightarrow> func \<Rightarrow> (string \<Rightarrow> func option) \<Rightarrow> unit res" where
  "validatePureCalls contract f table =
     checkAll (checkPureCall contract f table) (subexprs (fnBody f))"

text \<open>The last checks of the loop: a named predicate filter that is a whole body.\<close>

definition validateFilterTarget :: "string \<Rightarrow> func \<Rightarrow> (string \<Rightarrow> func option) \<Rightarrow> unit res" where
  "validateFilterTarget contract f table =
     (case (exKind (fnBody f), exListFilterPredicate (fnBody f)) of
        (ExprListFilterPredicate, Some p) \<Rightarrow>
          andThen (rejectIf (\<not> isV310OrLaterContract contract)
            ''named predicate filtering requires a later language contract'')
          (case table (functionKey (lpPredicate p)) of
             None \<Rightarrow> Err ''named predicate target was not found''
           | Some target \<Rightarrow>
               andThen (rejectIf (\<not> isNamedPredicateFunction target \<or> fnName target \<noteq> lpPredicateName p
                   \<or> semanticOwnerPath (siPath (fnIdentity target)) \<noteq> semanticOwnerPath (siPath (fnIdentity f))
                   \<or> \<not> callableIdentityEqual (siCallable (lpPredicate p)) (siCallable (fnIdentity target)))
                 ''named predicate target is invalid'')
               (andThen (rejectIf (length (fnParameters target) \<noteq> length (lpArguments p) + 1
                   \<or> (case tList (exType (fnBody f)) of
                        None \<Rightarrow> True
                      | Some el \<Rightarrow> \<not> TypeEqual (paType (hd (fnParameters target))) el))
                 ''named predicate signature does not match its filter'')
                 (rejectIf (\<not> list_all2 (\<lambda>a q. case a of
                      None \<Rightarrow> False | Some x \<Rightarrow> TypeEqual (exType x) (paType q))
                    (lpArguments p) (tl (fnParameters target)))
                   ''named predicate argument type mismatch'')))
      | _ \<Rightarrow> Ret ())"

section \<open>The cycle check\<close>

text \<open>
  \<open>state\<close> maps a key to 0 (not seen), 1 (being visited) or 2 (done). A target that the map
  does not hold is the zero \<open>Function\<close>, with the key of the empty identity. Fuel bounds the
  depth of the nested visits.
\<close>

definition callTargets :: "expr \<Rightarrow> string list" where
  "callTargets e =
     List.map_filter (\<lambda>x. if exKind x = ExprCall
        then map_option (\<lambda>c. functionKey (caTarget c)) (exCall x) else None) (subexprs e)"

type_synonym visit_state = "string \<Rightarrow> nat"

fun walkTargets ::
  "(string \<Rightarrow> visit_state \<Rightarrow> visit_state res) \<Rightarrow> string list \<Rightarrow> visit_state \<Rightarrow> visit_state res"
where
  "walkTargets visit_target [] state = Ret state"
| "walkTargets visit_target (k # ks) state =
     (if state k = 1 then Err ''pure call graph contains a cycle''
      else bindR (if state k = 0 then visit_target k state else Ret state)
        (walkTargets visit_target ks))"

fun visit :: "nat \<Rightarrow> (string \<Rightarrow> func option) \<Rightarrow> func \<Rightarrow> visit_state \<Rightarrow> visit_state res" where
  "visit 0 table f state = Timeout"
| "visit (Suc n) table f state =
     (let key = functionKey (fnIdentity f) in
      bindR (walkTargets (\<lambda>k st. case table k of
            None \<Rightarrow> Ret (st([CHR 0x00] := 2))
          | Some g \<Rightarrow> visit n table g st)
          (callTargets (fnBody f)) (state(key := 1)))
        (\<lambda>state'. Ret (state'(key := 2))))"

fun visitAll :: "nat \<Rightarrow> (string \<Rightarrow> func option) \<Rightarrow> func list \<Rightarrow> visit_state \<Rightarrow> visit_state res" where
  "visitAll n table [] state = Ret state"
| "visitAll n table (f # fs) state =
     bindR (if state (functionKey (fnIdentity f)) = 0 then visit n table f state else Ret state)
       (visitAll n table fs)"

definition checkCycles :: "(string \<Rightarrow> func option) \<Rightarrow> func list \<Rightarrow> unit res" where
  "checkCycles table fns = bindR (visitAll (Suc (length fns)) table fns (\<lambda>_. 0)) (\<lambda>_. Ret ())"

section \<open>ValidateProgram\<close>

text \<open>The first loop over the functions: it also builds the map.\<close>

fun admitFunctions ::
  "string \<Rightarrow> int \<Rightarrow> (string \<Rightarrow> func option) \<Rightarrow> func list \<Rightarrow> (string \<Rightarrow> func option) res"
where
  "admitFunctions contract version table [] = Ret table"
| "admitFunctions contract version table (f # fs) =
     (let isBlock = exKind (fnBody f) = ExprBlock; key = functionKey (fnIdentity f) in
      andThen (rejectIf (isBlock \<and> contract \<noteq> ''v0.114.0'' \<and> contract \<noteq> ''v0.115.0'')
        ''general blocks require v0.114.0'')
      (andThen (rejectIf (isBlock \<and> contract \<noteq> ''v0.115.0'' \<and> blockUsesAssignment (exBlock (fnBody f)))
        ''mutable locals and delayed initialization require v0.115.0'')
      (andThen (if isBlock then Ret () else validateImmutableLocalContract contract f)
      (andThen (ValidateFunction f)
      (andThen (validateFeatureContract version f)
      (andThen (rejectIf (table key \<noteq> None) ''duplicate function semantic identity'')
        (admitFunctions contract version (table(key \<mapsto> f)) fs)))))))"

text \<open>The second loop.\<close>

definition validateComposition :: "string \<Rightarrow> (string \<Rightarrow> func option) \<Rightarrow> func \<Rightarrow> unit res" where
  "validateComposition contract table f =
     (let inherited = inheritedContract contract in
      if exKind (fnBody f) = ExprBlock then validatePureCalls inherited f table
      else if contract \<in> {''v0.113.0'', ''v0.114.0'', ''v0.115.0''} \<and> FunctionHasEnum f
      then validatePureCalls inherited f table
      else
        andThen (validateConditionalContract contract f)
        (andThen (validatePureCallPlacement inherited f)
        (andThen (validatePureCalls inherited f table)
        (andThen (validateHelperResultMatchContract inherited f table)
          (validateFilterTarget inherited f table)))))"

definition ValidateProgram :: "program \<Rightarrow> unit res" where
  "ValidateProgram p =
     bindR (validateProgramIdentity p) (\<lambda>version.
       andThen (checkAll (\<lambda>f. if exKind (fnBody f) = ExprBlock then validateBlockFunction f else Ret ())
         (pgFunctions p))
       (andThen (validateEnumDeclarations (pgFunctions p))
       (bindR (admitFunctions (pgLanguage p) version Map.empty (pgFunctions p)) (\<lambda>table.
         andThen (checkAll (validateComposition (pgLanguage p) table) (pgFunctions p))
           (checkCycles table (pgFunctions p))))))"

end
