(* ===== verification/CoreSafety.thy ===== *)
theory CoreSafety
  imports CoreEval CoreProgram
begin

text \<open>
  Type soundness of the evaluator. \<open>safe t vs m Q\<close> says that a computation run on a frame
  with the values \<open>vs\<close> returns a result with \<open>Q\<close>, without an error and without a panic,
  and leaves the values of the frame and the slice of the caller as they were; with \<open>t\<close> it
  may also run out of fuel. There is one lemma per expression kind, for any evaluator of the
  operands that is safe on them.
\<close>

section \<open>Safe computations\<close>

definition same :: "frame \<Rightarrow> frame \<Rightarrow> bool" where
  "same f f' \<longleftrightarrow>
     frValues f' = frValues f \<and> frCaller f' = frCaller f \<and> (frOwned f \<longrightarrow> frOwned f')"

definition safe :: "bool \<Rightarrow> core_value list \<Rightarrow> 'a ev \<Rightarrow> ('a \<Rightarrow> bool) \<Rightarrow> bool" where
  "safe t vs m Q \<longleftrightarrow>
     (\<forall>f. frValues f = vs \<longrightarrow>
       (t \<and> fst (m f) = Timeout) \<or> (\<exists>a f'. m f = (Ret a, f') \<and> same f f' \<and> Q a))"

named_theorems safe_intro \<open>rules for safe computations\<close>

lemma safeE:
  assumes "safe t vs m Q" "frValues f = vs"
  obtains "t" "fst (m f) = Timeout" | a f' where "m f = (Ret a, f')" "same f f'" "Q a"
  using assms unfolding safe_def by blast

lemma safe_retE: "Q a \<Longrightarrow> safe t vs (retE a) Q"
  by (simp add: safe_def retE_def same_def)

lemma safe_okE: "Q (okOutcome v) \<Longrightarrow> safe t vs (okE v) Q"
  by (simp add: okE_def safe_retE)

lemma safe_liftR: "r = Ret a \<Longrightarrow> Q a \<Longrightarrow> safe t vs (liftR r) Q"
  by (simp add: safe_def liftR_def same_def)

lemma safe_timeout: "safe True vs (liftR Timeout) Q"
  by (simp add: safe_def liftR_def)

lemma same_trans: "same f g \<Longrightarrow> same g h \<Longrightarrow> same f h"
  by (simp add: same_def)

lemma safe_bindE:
  assumes "safe t vs m Q" "\<And>a. Q a \<Longrightarrow> safe t vs (k a) R"
  shows "safe t vs (bindE m k) R"
  unfolding safe_def
proof (intro allI impI)
  fix f :: frame assume f: "frValues f = vs"
  from assms(1) f show "(t \<and> fst (bindE m k f) = Timeout)
      \<or> (\<exists>a f'. bindE m k f = (Ret a, f') \<and> same f f' \<and> R a)"
  proof (cases rule: safeE)
    case 1
    then show ?thesis by (cases "m f") (simp add: bindE_def)
  next
    case (2 a f')
    from 2(2) f have f': "frValues f' = vs" by (simp add: same_def)
    from assms(2) [OF 2(3)] f' show ?thesis
      by (cases rule: safeE) (use 2 same_trans in \<open>auto simp: bindE_def\<close>)
  qed
qed

lemma safe_mono: "safe t vs m Q \<Longrightarrow> (\<And>a. Q a \<Longrightarrow> R a) \<Longrightarrow> safe t vs m R"
  unfolding safe_def by blast

lemma safe_liftR_bind: "r = Ret a \<Longrightarrow> safe t vs (k a) R \<Longrightarrow> safe t vs (bindE (liftR r) k) R"
  by (rule safe_bindE [where Q = "\<lambda>x. x = a"]) (auto intro: safe_liftR)

lemma safe_withPtr: "p = Some x \<Longrightarrow> safe t vs (k x) R \<Longrightarrow> safe t vs (withPtr p k) R"
  unfolding withPtr_def by (rule safe_liftR_bind) auto

lemma safe_checked: "validateValue v = Ret () \<Longrightarrow> safe t vs k R \<Longrightarrow> safe t vs (checked v k) R"
  unfolding checked_def by (rule safe_liftR_bind)

lemma safe_guardE: "\<not> b \<Longrightarrow> safe t vs k R \<Longrightarrow> safe t vs (guardE b s k) R"
  by (simp add: guardE_def)

lemma safe_getFrame: "(\<And>f. frValues f = vs \<Longrightarrow> safe t vs (k f) R) \<Longrightarrow> safe t vs (bindE getFrame k) R"
  unfolding safe_def bindE_def getFrame_def by simp

lemma safe_thenPop:
  assumes "safe t (vs @ [x]) m Q"
  shows "safe t vs (bindE (push x) (\<lambda>_. thenPop m)) Q"
  unfolding safe_def
proof (intro allI impI)
  fix f :: frame assume f: "frValues f = vs"
  define g where "g = f\<lparr>frValues := vs @ [x], frOwned := True\<rparr>"
  have run: "bindE (push x) (\<lambda>_. thenPop m) f = thenPop m g"
    using f by (simp add: bindE_def push_def g_def)
  have "frValues g = vs @ [x]" by (simp add: g_def)
  with assms show "(t \<and> fst (bindE (push x) (\<lambda>_. thenPop m) f) = Timeout)
      \<or> (\<exists>a f'. bindE (push x) (\<lambda>_. thenPop m) f = (Ret a, f') \<and> same f f' \<and> Q a)"
  proof (cases rule: safeE)
    case 1
    then show ?thesis unfolding run by (cases "m g") (simp add: thenPop_def)
  next
    case (2 a f')
    then show ?thesis
      using f unfolding run by (simp add: thenPop_def pop_def same_def g_def)
  qed
qed

lemma bindE_assoc: "bindE (bindE m k) h = bindE m (\<lambda>a. bindE (k a) h)"
  by (rule ext) (simp add: bindE_def split: prod.splits res.splits)

lemma safe_scope:
  assumes "safe t (vs @ [x]) m Q" "\<And>a. Q a \<Longrightarrow> safe t vs (k a) R"
  shows "safe t vs (bindE (push x) (\<lambda>_. bindE (thenPop m) k)) R"
proof -
  have "bindE (push x) (\<lambda>_. bindE (thenPop m) k) = bindE (bindE (push x) (\<lambda>_. thenPop m)) k"
    by (simp add: bindE_assoc)
  then show ?thesis using safe_bindE [OF safe_thenPop [OF assms(1)] assms(2)] by simp
qed

section \<open>Outcomes of a type\<close>

text \<open>
  An expression of a result type evaluates to the outcome itself; one of any other type to a
  plain success.
\<close>

definition produces :: "core_type \<Rightarrow> outcome \<Rightarrow> bool" where
  "produces t r \<longleftrightarrow>
     (if tKind t = TypeResult
      then \<exists>s f. tResult t = Some (s, f) \<and> resultConforms s f r
      else \<exists>v. r = okOutcome v \<and> conforms v t)"

lemma produces_okOutcome: "tKind t \<noteq> TypeResult \<Longrightarrow> conforms v t \<Longrightarrow> produces t (okOutcome v)"
  by (auto simp: produces_def)

lemma produces_value:
  assumes "produces t r" "tKind t \<noteq> TypeResult"
  obtains v where "r = okOutcome v" "conforms v t"
  using assms by (auto simp: produces_def)

lemma resultConforms_equal:
  assumes "resultConforms s f r" "TypeEqual s s'" "TypeEqual f f'"
  shows "resultConforms s' f' r"
  using assms TypeEqual_kind [of f f'] TypeEqual_trans(1) conforms_equal
  by (auto simp: resultConforms_def split: if_splits)

lemma produces_equal:
  assumes "produces t r" "TypeEqual t u"
  shows "produces u r"
proof (cases "tKind t = TypeResult")
  case True
  then obtain s f where r: "tResult t = Some (s, f)" "resultConforms s f r"
    using assms(1) by (auto simp: produces_def)
  have "optResultEqual (tResult t) (tResult u)" using TypeEqual_fields(4) [OF assms(2)] .
  with r(1) obtain s' f' where "tResult u = Some (s', f')" "TypeEqual s s'" "TypeEqual f f'"
    by (auto simp: opt_invs)
  with r(2) True TypeEqual_kind [OF assms(2)] show ?thesis
    by (auto simp: produces_def intro: resultConforms_equal)
next
  case False
  then show ?thesis
    using assms TypeEqual_kind [OF assms(2)] conforms_equal by (auto simp: produces_def)
qed

lemma produces_clone:
  assumes "produces t r" "validateType t = Ret ()"
  shows "cloneOutcome r = r"
proof (cases "tKind t = TypeResult")
  case True
  then show ?thesis using assms resultConforms_clone_id by (auto simp: produces_def)
next
  case False
  then show ?thesis using assms cloneValue_id by (auto simp: produces_def)
qed

text \<open>An outcome of a result type as a value of that type.\<close>

lemma produces_resultValue:
  assumes "produces t r" "validateType t = Ret ()" "tKind t = TypeResult"
  shows "conforms (resultValue t r) t"
  using assms conforms_resultI TypeEqual_refl by (auto simp: produces_def)

lemma produces_validateOutcome:
  assumes "produces t r"
  shows "validateOutcome r = Ret ()"
proof (cases "tKind t = TypeResult")
  case True
  then show ?thesis
    using assms by (auto simp: produces_def validateOutcome_def resultConforms_def conforms_def
        split: if_splits option.splits)
next
  case False
  then show ?thesis using assms by (auto simp: produces_def validateOutcome_def conforms_def)
qed

lemma completeFunctionOutcome_id: "produces t r \<Longrightarrow> completeFunctionOutcome t r = r"
  by (auto simp: produces_def completeFunctionOutcome_def resultConforms_def
      split: if_splits type_kind.splits option.splits)

text \<open>Results of the primitive types.\<close>

lemma boolType_fields: "TypeEqual t boolType \<Longrightarrow> tKind t = TypePrimitive \<and> tPrimitive t = PrimitiveBool"
  using TypeEqual_kind TypeEqual_fields(1) by (fastforce simp: primitiveOf_def)

lemma textType_fields: "TypeEqual t textType \<Longrightarrow> tKind t = TypePrimitive \<and> tPrimitive t = PrimitiveString"
  using TypeEqual_kind TypeEqual_fields(1) by (fastforce simp: primitiveOf_def)

lemma int64Type_fields: "TypeEqual t (SignedInteger 64) \<Longrightarrow> tKind t = TypeNumeric"
  using TypeEqual_kind by (fastforce simp: SignedInteger_def)

lemma produces_bool:
  assumes "validateType t = Ret ()" "TypeEqual t boolType"
  shows "produces t (okOutcome (boolValue t b))"
  using assms boolType_fields [OF assms(2)] TypeEqual_refl
  by (intro produces_okOutcome conforms_scalarI) (auto simp: boolValue_def)

lemma produces_text:
  assumes "validateType t = Ret ()" "TypeEqual t textType" "validString s"
  shows "produces t (okOutcome (stringValue t s))"
  using assms textType_fields [OF assms(2)] TypeEqual_refl
  by (intro produces_okOutcome conforms_scalarI) (auto simp: stringValue_def)

lemma produces_int:
  assumes "validateType t = Ret ()" "TypeEqual t (SignedInteger 64)"
  shows "produces t (okOutcome (intValue t i))"
  using assms int64Type_fields [OF assms(2)] TypeEqual_refl
  by (intro produces_okOutcome conforms_scalarI) (auto simp: intValue_def)

lemma conforms_text: "conforms v t \<Longrightarrow> TypeEqual t textType \<Longrightarrow> validString (vString v)"
  using conforms_scalar(5) [of t v] textType_fields by auto

section \<open>What is evaluated\<close>

text \<open>
  \<open>D\<close> marks the bindings that are definitely assigned. The static conditions on every
  subexpression are the checks of \<open>ValidateProgram\<close> on calls and named predicates, and three
  restrictions under which validation and evaluation agree: no early return by propagation,
  comparisons on types the evaluator compares, and result tests on direct references.
\<close>

definition fits :: "(nat \<Rightarrow> bool) \<Rightarrow> parameter list \<Rightarrow> core_value list \<Rightarrow> bool" where
  "fits D ps vs \<longleftrightarrow> length vs = length ps
     \<and> (\<forall>i < length ps. D i \<longrightarrow> conforms (vs ! i) (paType (ps ! i)))"

definition readsOK :: "(nat \<Rightarrow> bool) \<Rightarrow> expr \<Rightarrow> bool" where
  "readsOK D x \<longleftrightarrow>
     (exKind x = ExprReference \<longrightarrow> (\<forall>i. exParameter x = Some i \<longrightarrow> 0 \<le> i \<longrightarrow> D (nat i)))"

definition comparableType :: "core_type \<Rightarrow> bool" where
  "comparableType t \<longleftrightarrow> tKind t \<in> {TypePrimitive, TypeNumeric, TypeRecord, TypeEnum}"

definition comparisonOK :: "expr \<Rightarrow> bool" where
  "comparisonOK x \<longleftrightarrow>
     (exKind x = ExprBinary \<longrightarrow>
       (case exBinary x of
          Some (Binary operator (Some l) r) \<Rightarrow> isComparison operator \<longrightarrow> comparableType (exType l)
        | _ \<Rightarrow> True))"

definition directResult :: "expr \<Rightarrow> bool" where
  "directResult x \<longleftrightarrow>
     (let isReference = (\<lambda>p. case p of None \<Rightarrow> True | Some c \<Rightarrow> exKind c = ExprReference) in
      case exKind x of
        ExprResultIsOK \<Rightarrow> (case exResultIsOK x of None \<Rightarrow> True | Some p \<Rightarrow> isReference p)
      | ExprResultSuccessOr \<Rightarrow> (case exSuccessOr x of None \<Rightarrow> True | Some w \<Rightarrow> isReference (wfValue w))
      | ExprResultFailureOr \<Rightarrow> (case exFailureOr x of None \<Rightarrow> True | Some w \<Rightarrow> isReference (wfValue w))
      | _ \<Rightarrow> True)"

definition lookup :: "function_map \<Rightarrow> semantic_identity \<Rightarrow> func option" where
  "lookup fns i = (case fns of None \<Rightarrow> None | Some table \<Rightarrow> table (functionKey i))"

definition argumentMatches :: "expr option \<Rightarrow> parameter \<Rightarrow> bool" where
  "argumentMatches a p \<longleftrightarrow> (case a of None \<Rightarrow> False | Some x \<Rightarrow> TypeEqual (exType x) (paType p))"

definition callOK :: "function_map \<Rightarrow> expr \<Rightarrow> bool" where
  "callOK fns x \<longleftrightarrow>
     (exKind x = ExprCall \<longrightarrow>
       (\<exists>c g. exCall x = Some c \<and> lookup fns (caTarget c) = Some g
          \<and> list_all2 argumentMatches (caArguments c) (fnParameters g)
          \<and> TypeEqual (exType x) (fnReturnType g)))"

definition filterOK :: "function_map \<Rightarrow> expr \<Rightarrow> bool" where
  "filterOK fns x \<longleftrightarrow>
     (exKind x = ExprListFilterPredicate \<longrightarrow>
       (\<exists>p g row params el. exListFilterPredicate x = Some p \<and> lookup fns (lpPredicate p) = Some g
          \<and> isNamedPredicateFunction g \<and> fnParameters g = row # params
          \<and> tList (exType x) = Some el \<and> TypeEqual (paType row) el
          \<and> list_all2 argumentMatches (lpArguments p) params))"

definition admissible :: "function_map \<Rightarrow> (nat \<Rightarrow> bool) \<Rightarrow> expr \<Rightarrow> bool" where
  "admissible fns D e \<longleftrightarrow>
     (\<forall>x \<in> set (subexprs e). exKind x \<noteq> ExprPropagate \<and> readsOK D x \<and> comparisonOK x
        \<and> directResult x \<and> callOK fns x \<and> filterOK fns x)"

definition okExpr :: "function_map \<Rightarrow> (nat \<Rightarrow> bool) \<Rightarrow> parameter list \<Rightarrow> expr \<Rightarrow> bool" where
  "okExpr fns D ps e \<longleftrightarrow>
     validateExpr e ps = Ret () \<and> admissible fns D e \<and> (\<forall>i \<ge> length ps. D i)"

text \<open>The functions that evaluating \<open>e\<close> itself can enter.\<close>

definition entersFunction :: "function_map \<Rightarrow> expr \<Rightarrow> func \<Rightarrow> bool" where
  "entersFunction fns e g \<longleftrightarrow>
     (exKind e = ExprCall \<and> (\<exists>c. exCall e = Some c \<and> lookup fns (caTarget c) = Some g))
     \<or> (exKind e = ExprListFilterPredicate
        \<and> (\<exists>p. exListFilterPredicate e = Some p \<and> lookup fns (lpPredicate p) = Some g))"

definition returns :: "bool \<Rightarrow> outcome ev \<Rightarrow> core_type \<Rightarrow> frame \<Rightarrow> bool" where
  "returns t m typ f \<longleftrightarrow>
     (t \<and> fst (m f) = Timeout)
     \<or> (\<exists>r f'. m f = (Ret r, f') \<and> produces typ r \<and> frCaller f' = frCaller f)"

definition argumentsConform :: "core_value list \<Rightarrow> func \<Rightarrow> bool" where
  "argumentsConform vs g \<longleftrightarrow> list_all2 (\<lambda>v p. conforms v (paType p)) vs (fnParameters g)"

text \<open>The hypotheses of the lemmas on the kinds.\<close>

definition ready ::
  "bool \<Rightarrow> function_map \<Rightarrow> (nat \<Rightarrow> bool) \<Rightarrow> (expr \<Rightarrow> outcome ev) \<Rightarrow> parameter list
    \<Rightarrow> core_value list \<Rightarrow> expr \<Rightarrow> bool"
where
  "ready t fns D ev ps vs e \<longleftrightarrow>
     okExpr fns D ps e \<and> fits D ps vs
     \<and> (\<forall>c \<in> set (children e). \<forall>qs ws. okExpr fns D qs c \<longrightarrow> fits D qs ws \<longrightarrow>
          safe t ws (ev c) (produces (exType c)))
     \<and> (\<forall>g ws. entersFunction fns e g \<longrightarrow> argumentsConform ws g \<longrightarrow>
          returns t (ev (fnBody g)) (fnReturnType g) (ownedFrame ws))"

lemma ready_valid:
  assumes "ready t fns D ev ps vs e"
  shows "validateType (exType e) = Ret ()" "validateStep validateExpr e ps = Ret ()" "fits D ps vs"
    "admissible fns D e"
  using assms validateExpr_type validateExpr_step by (auto simp: ready_def okExpr_def)

lemma ready_here:
  assumes "ready t fns D ev ps vs e"
  shows "exKind e \<noteq> ExprPropagate" "readsOK D e" "comparisonOK e" "directResult e"
    "callOK fns e" "filterOK fns e"
  using ready_valid(4) [OF assms] by (auto simp: admissible_def)

lemma admissible_child: "admissible fns D e \<Longrightarrow> c \<in> set (children e) \<Longrightarrow> admissible fns D c"
  unfolding admissible_def by (metis subexprs_child)

lemma ready_child:
  assumes "ready t fns D ev ps vs e" "c \<in> set (children e)" "validateExpr c ps = Ret ()"
  shows "safe t vs (ev c) (produces (exType c))"
  using assms admissible_child [of fns D e c] by (auto simp: ready_def okExpr_def)

lemma fits_snoc:
  assumes "fits D ps vs" "conforms v (paType p)"
  shows "fits D (ps @ [p]) (vs @ [v])"
  using assms by (auto simp: fits_def nth_append)

lemma ready_scoped_child:
  assumes "ready t fns D ev ps vs e" "c \<in> set (children e)" "validateExpr c (ps @ [p]) = Ret ()"
    "conforms v (paType p)"
  shows "safe t (vs @ [v]) (ev c) (produces (exType c))"
proof -
  have "okExpr fns D (ps @ [p]) c"
    using assms(1,3) admissible_child [OF _ assms(2)] by (auto simp: ready_def okExpr_def)
  moreover have "fits D (ps @ [p]) (vs @ [v])"
    using fits_snoc [OF _ assms(4)] assms(1) by (simp add: ready_def)
  ultimately show ?thesis using assms(1,2) unfolding ready_def by blast
qed

lemma safe_operand:
  assumes "ready t fns D ev ps vs e" "c \<in> set (children e)" "validateExpr c ps = Ret ()"
    "tKind (exType c) \<noteq> TypeResult" "\<And>v. conforms v (exType c) \<Longrightarrow> safe t vs (k v) R"
  shows "safe t vs (operand ev (Some c) k) R"
proof -
  have "safe t vs (ev c) (produces (exType c))" using ready_child assms(1-3) .
  moreover have "safe t vs (if oOK r then k (oValue r) else retE r) R" if "produces (exType c) r" for r
  proof -
    from that assms(4) obtain v where "r = okOutcome v" "conforms v (exType c)"
      by (rule produces_value)
    then show ?thesis using assms(5) by simp
  qed
  ultimately show ?thesis
    unfolding operand_def operandOutcome_def
    by (intro safe_withPtr [OF refl] safe_bindE [where Q = "produces (exType c)"])
qed

section \<open>Literals, references, operators\<close>

lemma safe_literal:
  assumes r: "ready t fns D ev ps vs e" and k: "exKind e = ExprLiteral"
  shows "safe t vs (evalLiteral e) (produces (exType e))"
proof -
  note v = ready_valid [OF r]
  from v(2) k obtain l where l: "exLiteral e = Some l"
      "isLiteralType (exType e) \<or> tKind (exType e) = TypeEnum"
      "tKind (exType e) = TypeEnum \<Longrightarrow> litInt l = 0 \<and> f64Eq (litFloat l) 0 \<and> \<not> litBool l
         \<and> ValidateEnumTag (exType e) (litString l) = Ret ()"
      "tKind (exType e) = TypePrimitive \<Longrightarrow> tPrimitive (exType e) = PrimitiveString \<Longrightarrow> validString (litString l)"
    by (auto simp: validateStep_def validateLiteral_def split: option.splits if_splits)
  define val where "val = Value (exType e) (litString l) (litInt l) (litFloat l) (litBool l) None None None None"
  have "conforms val (exType e) \<and> tKind (exType e) \<noteq> TypeResult"
  proof (cases "tKind (exType e) = TypeEnum")
    case True
    then show ?thesis using l(3) TypeEqual_refl [OF v(1)]
      by (subst conforms_def, subst validateValue.simps) (simp add: val_def)
  next
    case False
    then have "scalarKind (tKind (exType e))"
      using l(2) by (auto simp: isLiteralType_def split: if_splits)
    then show ?thesis using l(4) TypeEqual_refl [OF v(1)]
      by (auto simp: val_def intro!: conforms_scalarI)
  qed
  then show ?thesis
    unfolding evalLiteral_def
    by (intro safe_withPtr [OF l(1)] safe_okE) (auto simp: val_def intro: produces_okOutcome)
qed

lemma safe_argumentAt:
  assumes "exParameter e = Some i" "0 \<le> i" "i < int (length vs)" "safe t vs (k (vs ! nat i)) R"
  shows "safe t vs (bindE (argumentAt (exParameter e)) k) R"
  unfolding argumentAt_def using assms
  by (intro safe_bindE [where Q = "\<lambda>x. x = vs ! nat i"] safe_withPtr [OF assms(1)] safe_getFrame safe_liftR)
    auto

lemma reference_value:
  assumes r: "ready t fns D ev ps vs e" and k: "exKind e = ExprReference"
  obtains i where "exParameter e = Some i" "0 \<le> i" "i < int (length vs)"
    "conforms (vs ! nat i) (exType e)"
proof -
  note v = ready_valid [OF r]
  from v(2) k obtain i where i: "exParameter e = Some i" "0 \<le> i" "i < int (length ps)"
      "TypeEqual (exType e) (paType (ps ! nat i))"
    by (auto simp: validateStep_def validateReference_def split: option.splits)
  have "D (nat i)" using ready_here(2) [OF r] k i by (simp add: readsOK_def)
  then have "conforms (vs ! nat i) (paType (ps ! nat i))" "length vs = length ps"
    using v(3) i by (auto simp: fits_def)
  then show thesis using i that conforms_equal TypeEqual_sym(1) by simp
qed

lemma safe_reference:
  assumes r: "ready t fns D ev ps vs e" and k: "exKind e = ExprReference"
  shows "safe t vs (evalReference e) (produces (exType e))"
proof -
  note v = ready_valid [OF r]
  obtain i where i: "exParameter e = Some i" "0 \<le> i" "i < int (length vs)"
      "conforms (vs ! nat i) (exType e)"
    using reference_value [OF r k] .
  define x where "x = vs ! nat i"
  have c: "conforms x (exType e)" using i(4) by (simp add: x_def)
  show ?thesis
  proof (cases "tKind (exType e) = TypeResult")
    case True
    then obtain s f where "tResult (exType e) = Some (s, f)"
      using validateType_result [OF v(1)] by (metis resultOf_def core_type.sel(4))
    moreover from conforms_result [OF True this c] obtain out where
        "vResult x = Some out" "resultConforms s f out" .
    ultimately show ?thesis
      unfolding evalReference_def
      using True i resultConforms_clone_id [OF _ v(1) True]
      by (intro safe_argumentAt [OF i(1-3)]) (auto simp: x_def produces_def intro!: safe_retE)
  next
    case False
    then show ?thesis
      unfolding evalReference_def
      using c cloneValue_id [OF c v(1)] conforms_kind [OF c]
      by (intro safe_argumentAt [OF i(1-3)])
        (auto simp flip: x_def simp: cloneValue.simps produces_okOutcome
          intro!: safe_okE split: type_kind.splits)
  qed
qed

end
