(* ===== verification/CoreSafetyOps.thy ===== *)
theory CoreSafetyOps
  imports CoreSafety
begin

text \<open>
  Safety of operators, conditionals, calls, locals, text, records and optionals: one lemma per
  expression kind, from the checks of \<open>validateExpr\<close> on that kind.
\<close>

section \<open>Arithmetic\<close>

lemma validate_numeric [simp]:
  "validateType (SignedInteger 64) = Ret ()" "validateType (BinaryFloat 64) = Ret ()"
  "validateType (ArithmeticResult (SignedInteger 64)) = Ret ()"
  "validateType (ArithmeticResult (BinaryFloat 64)) = Ret ()"
  "validateType boolType = Ret ()" "validateType textType = Ret ()"
  by code_simp+

lemma produces_arithmetic:
  assumes "validateType t = Ret ()" "TypeEqual t (ArithmeticResult s)"
    "s = SignedInteger 64 \<or> s = BinaryFloat 64" "vType (val s) = s" "conforms (val s) s"
    "err = NoArithmeticError \<or> err \<in> {ArithmeticOverflow, ArithmeticDivisionByZero}
       \<and> resultSuccessPayloadIsCanonicalZero (val s)"
  shows "\<exists>r. arithmeticOutcome t val err = Ret r \<and> produces t r"
proof -
  have "t = ArithmeticResult s"
    using assms(1-3) TypeEqual_validated [of t "ArithmeticResult s"] by auto
  then have t: "tResult t = Some (s, ArithmeticErrorType)" "tKind t = TypeResult"
    by (simp_all add: ArithmeticResult_def resultOf_def)
  have "TypeEqual (vType (val s)) s" using assms(5) by (simp add: conforms_def)
  with t assms(5,6) have "produces t (Outcome (err = NoArithmeticError) (val s) err None)"
    by (auto simp: produces_def resultConforms_def ArithmeticErrorType_def)
  then show ?thesis using t by (simp add: arithmeticOutcome_def)
qed

declare validateType.simps [simp del]

lemma scalar_kinds [simp]:
  "tKind (primitiveOf p) = TypePrimitive" "tPrimitive (primitiveOf p) = p"
  "tKind (SignedInteger n) = TypeNumeric" "tKind (BinaryFloat n) = TypeNumeric"
  by (simp_all add: primitiveOf_def SignedInteger_def BinaryFloat_def)

lemma conforms_int64 [simp]: "conforms (intValue (SignedInteger 64) x) (SignedInteger 64)"
proof (rule conforms_scalarI)
  show "TypeEqual (vType (intValue (SignedInteger 64) x)) (SignedInteger 64)"
    using TypeEqual_refl [of "SignedInteger 64"] by simp
qed (simp_all add: SignedInteger_def intValue_def)

lemma conforms_float64 [simp]: "conforms (floatValue (BinaryFloat 64) x) (BinaryFloat 64)"
proof (rule conforms_scalarI)
  show "TypeEqual (vType (floatValue (BinaryFloat 64) x)) (BinaryFloat 64)"
    using TypeEqual_refl [of "BinaryFloat 64"] by simp
qed (simp_all add: BinaryFloat_def floatValue_def)

lemma zero_int_canonical [simp]: "resultSuccessPayloadIsCanonicalZero (intValue (SignedInteger 64) 0)"
  by (simp add: resultSuccessPayloadIsCanonicalZero_def SignedInteger_def intValue_def)

lemma zero_float_canonical [simp]: "resultSuccessPayloadIsCanonicalZero (floatValue (BinaryFloat 64) 0)"
  by (simp add: resultSuccessPayloadIsCanonicalZero_def BinaryFloat_def floatValue_def)

lemma exactInt64_error: "exactInt64 k = (w, err) \<Longrightarrow> err = NoArithmeticError \<or> err = ArithmeticOverflow \<and> w = 0"
  by (auto simp: exactInt64_def split: if_splits)

lemma safe_unary:
  assumes r: "ready t fns D ev ps vs e" and k: "exKind e = ExprUnary"
  shows "safe t vs (evalUnary ev e) (produces (exType e))"
proof -
  note v = ready_valid [OF r]
  from v(2) k obtain op x where u: "exUnary e = Some (Unary op (Some x))" "validateExpr x ps = Ret ()"
    and cases: "op = OperatorNot \<and> TypeEqual (exType x) boolType \<and> TypeEqual (exType e) boolType
      \<or> op = OperatorNegate \<and> TypeEqual (exType x) (SignedInteger 64)
        \<and> TypeEqual (exType e) (ArithmeticResult (SignedInteger 64))"
    by (auto simp: validateStep_def validateUnary_def ArithmeticResultType_def
        split: payload_splits if_splits)
  have c: "x \<in> set (children e)" using u k by (simp add: set_children expressionChildren_def)
  have n: "tKind (exType x) \<noteq> TypeResult"
    using cases boolType_fields int64Type_fields by auto
  show ?thesis
    unfolding evalUnary_def
  proof (intro safe_withPtr [OF u(1)], simp, intro safe_operand [OF r c u(2) n])
    fix a assume "conforms a (exType x)"
    obtain w err where neg: "CheckedNegateInt64 (vInt a) = (w, err)" by fastforce
    have err: "err = NoArithmeticError \<or> err = ArithmeticOverflow \<and> w = 0"
      using neg by (auto simp: CheckedNegateInt64_def split: if_splits)
    show "safe t vs (case op of
          OperatorNegate \<Rightarrow> let (val, arithmeticError) = CheckedNegateInt64 (vInt a)
            in liftR (arithmeticOutcome (exType e) (\<lambda>t. intValue t val) arithmeticError)
        | OperatorNot \<Rightarrow> okE (boolValue (exType e) (\<not> vBool a))
        | _ \<Rightarrow> failE ''unsupported unary operator'') (produces (exType e))"
    proof (cases "op = OperatorNot")
      case True
      then show ?thesis using cases v(1) by (auto intro: safe_okE produces_bool)
    next
      case False
      with cases have op: "op = OperatorNegate" "TypeEqual (exType e) (ArithmeticResult (SignedInteger 64))"
        by auto
      from produces_arithmetic [OF v(1) op(2), of "\<lambda>t. intValue t w" err] err
      obtain out where "arithmeticOutcome (exType e) (\<lambda>t. intValue t w) err = Ret out" "produces (exType e) out"
        by auto
      then show ?thesis using op neg by (simp add: safe_liftR)
    qed
  qed
qed

text \<open>Validated scalar types are the ones the package builds.\<close>

lemma validated_scalar:
  assumes "validateType t = Ret ()"
  shows "tKind t = TypePrimitive \<Longrightarrow> t = textType \<or> t = boolType"
    and "tKind t = TypeNumeric \<Longrightarrow> t = SignedInteger 64 \<or> t = BinaryFloat 64"
proof -
  obtain k p n r opt l rec e i nm args where t: "t = CoreType k p n r opt l rec e i nm args"
    by (cases t)
  note c = validateType_common [OF assms]
  show "t = textType \<or> t = boolType" if "tKind t = TypePrimitive"
  proof -
    have "e = None" "r = None" "l = None" "opt = None" "args = []" "\<not> carriesForeign t"
      using c that t by auto
    then show ?thesis
      using assms that unfolding t
      by (auto simp: validateType.simps Let_def supportedKind_def carriesForeign_def primitiveOf_def)
  qed
  show "t = SignedInteger 64 \<or> t = BinaryFloat 64" if "tKind t = TypeNumeric"
  proof -
    have "e = None" "r = None" "l = None" "opt = None" "args = []" "\<not> carriesForeign t"
      using c that t by auto
    then show ?thesis
      using assms that unfolding t
      by (auto simp: validateType.simps Let_def supportedKind_def carriesForeign_def SignedInteger_def
          BinaryFloat_def numericSupported_def split: option.splits)
  qed
qed

lemma binary_text:
  assumes "validateBinaryTypes op typ l r = Ret ()" "validateType typ = Ret ()" "l = textType"
    "conforms a l" "conforms b r"
  shows "\<exists>out. evalTextBinary typ op (vString a) (vString b) = Ret out \<and> produces typ out"
proof -
  have l: "\<not> TypeEqual l (SignedInteger 64)" "\<not> TypeEqual l (BinaryFloat 64)" "\<not> TypeEqual l boolType"
    unfolding assms(3) by code_simp+
  have va: "validString (vString a)"
    using conforms_text assms(3,4) TypeEqual_refl [of textType] by simp
  from assms(1) l consider (add) "op = OperatorAdd" "TypeEqual r textType" "TypeEqual typ textType"
    | (cmp) "isComparison op" "TypeEqual l r" "TypeEqual typ boolType"
    by (auto simp: validateBinaryTypes_def validateArithmetic_def ArithmeticResultType_def
        isComparison_def split: if_splits operator.splits)
  then show ?thesis
  proof cases
    case add
    then have "validString (vString b)" using conforms_text assms(5) by blast
    then show ?thesis using add va produces_text [OF assms(2)] validString_append
      by (simp add: evalTextBinary_def)
  next
    case cmp
    have "TypeEqual r textType" using cmp(2) assms(3) TypeEqual_sym(1) by simp
    then have "validString (vString b)" using conforms_text assms(5) by blast
    then obtain n where "CompareOrdinalText (vString a) (vString b) = Ret n"
      using va CompareOrdinalText_valid by blast
    moreover have "op \<noteq> OperatorAdd" using cmp(1) by (auto simp: isComparison_def)
    ultimately show ?thesis using cmp produces_bool [OF assms(2)] by (simp add: evalTextBinary_def)
  qed
qed

lemma primitive_comparison:
  assumes "validateType l = Ret ()" "l \<noteq> textType" "tKind l = TypePrimitive \<or> tKind l = TypeNumeric"
    "validateType typ = Ret ()" "TypeEqual typ boolType"
  shows "\<exists>out. evalPrimitiveComparison typ op l a b = Ret out \<and> produces typ out"
proof -
  have "l = boolType \<or> l = SignedInteger 64 \<or> l = BinaryFloat 64"
    using assms(1-3) validated_scalar by blast
  then show ?thesis
    using produces_bool [OF assms(4,5)] TypeEqual_refl [of "SignedInteger 64"] TypeEqual_refl [of "BinaryFloat 64"]
    by (elim disjE) (simp_all add: evalPrimitiveComparison_def Let_def)
qed

lemma binary_arithmetic:
  assumes "op \<in> {OperatorAdd, OperatorSubtract, OperatorMultiply, OperatorDivide}"
    "validateArithmetic op typ l r = Ret ()" "validateType typ = Ret ()"
  shows "\<exists>out. applyBinary typ op l a b = Ret out \<and> produces typ out"
proof (cases "op = OperatorDivide")
  case True
  then have tt: "TypeEqual typ (ArithmeticResult (BinaryFloat 64))"
    using assms(2) by (auto simp: validateArithmetic_def ArithmeticResultType_def split: if_splits)
  obtain w err where d: "CheckedDivideBinary64 (vFloat a) (vFloat b) = (w, err)" by fastforce
  then have "err = NoArithmeticError \<or> err = ArithmeticDivisionByZero \<and> w = 0"
    by (auto simp: CheckedDivideBinary64_def split: if_splits)
  then show ?thesis
    using produces_arithmetic [OF assms(3) tt, of "\<lambda>t. floatValue t w" err] d True
    by (auto simp: applyBinary_def)
next
  case False
  then have tt: "TypeEqual typ (ArithmeticResult (SignedInteger 64))"
    using assms(1,2) by (auto simp: validateArithmetic_def ArithmeticResultType_def split: if_splits)
  obtain n where n: "CheckedInt64 op (vInt a) (vInt b) = Ret (exactInt64 n)"
    using assms(1) False CheckedInt64_add CheckedInt64_sub CheckedInt64_mult by fastforce
  obtain w err where d: "exactInt64 n = (w, err)" by fastforce
  with exactInt64_error have "err = NoArithmeticError \<or> err = ArithmeticOverflow \<and> w = 0" by blast
  then show ?thesis
    using produces_arithmetic [OF assms(3) tt, of "\<lambda>t. intValue t w" err] d n False assms(1)
    by (auto simp: applyBinary_def)
qed

lemma binary_other:
  assumes "validateBinaryTypes op typ l r = Ret ()" "validateType typ = Ret ()" "validateType l = Ret ()"
    "l \<noteq> textType" "isComparison op \<Longrightarrow> tKind l = TypePrimitive \<or> tKind l = TypeNumeric"
  shows "\<exists>out. applyBinary typ op l a b = Ret out \<and> produces typ out"
proof -
  have "\<not> TypeEqual l textType" using assms(3,4) TypeEqual_validated by simp
  with assms(1) consider
      (arith) "op \<in> {OperatorAdd, OperatorSubtract, OperatorMultiply, OperatorDivide}"
        "validateArithmetic op typ l r = Ret ()"
    | (cmp) "isComparison op" "TypeEqual typ boolType"
    | (logic) "op = OperatorAnd \<or> op = OperatorOr" "TypeEqual typ boolType"
    by (auto simp: validateBinaryTypes_def isComparison_def split: if_splits)
  then show ?thesis
  proof cases
    case arith
    then show ?thesis using binary_arithmetic assms(2) by blast
  next
    case cmp
    from cmp(1) have "applyBinary typ op l a b = evalPrimitiveComparison typ op l a b"
      by (cases op) (simp_all add: applyBinary_def isComparison_def)
    then show ?thesis
      using primitive_comparison [OF assms(3,4) assms(5) [OF cmp(1)] assms(2) cmp(2)] by simp
  next
    case logic
    then show ?thesis
      using produces_bool [OF assms(2) logic(2)] by (elim disjE) (simp_all add: applyBinary_def)
  qed
qed

text \<open>The evaluated operands of a binary expression, after the short cuts.\<close>

lemma validateArithmetic_operands:
  assumes "validateArithmetic op typ l r = Ret ()"
  shows "tKind l = TypeNumeric" "tKind r = TypeNumeric"
proof -
  have "\<exists>n. (TypeEqual l (SignedInteger 64) \<and> TypeEqual r (SignedInteger 64))
      \<or> (TypeEqual l (BinaryFloat 64) \<and> TypeEqual r (BinaryFloat 64))"
    using assms by (cases op) (auto simp: validateArithmetic_def ArithmeticResultType_def split: if_splits)
  then show "tKind l = TypeNumeric" "tKind r = TypeNumeric"
    using TypeEqual_kind by (metis scalar_kinds(3,4))+
qed

lemma binary_operands:
  assumes "validateBinaryTypes op typ l r = Ret ()"
  shows "(tKind l \<in> {TypePrimitive, TypeNumeric} \<and> tKind r = tKind l) \<or> isComparison op \<and> TypeEqual l r"
proof -
  from assms consider "validateArithmetic op typ l r = Ret ()"
    | "TypeEqual l textType" "TypeEqual r textType" | "TypeEqual l boolType" "TypeEqual r boolType"
    | "isComparison op" "TypeEqual l r"
    by (auto simp: validateBinaryTypes_def isComparison_def split: if_splits)
  then show ?thesis
    using validateArithmetic_operands [of op "typ" l r] boolType_fields textType_fields by cases auto
qed

lemma binary_not_result:
  assumes "validateBinaryTypes op typ l r = Ret ()" "isComparison op \<Longrightarrow> comparableType l"
  shows "tKind l \<noteq> TypeResult" "tKind r \<noteq> TypeResult"
  using binary_operands [OF assms(1)] assms(2) TypeEqual_kind [of l r] by (auto simp: comparableType_def)

lemma binary_structural:
  assumes "validateBinaryTypes op typ l r = Ret ()" "tKind l = TypeRecord \<or> tKind l = TypeEnum"
  shows "TypeEqual l r" "TypeEqual typ boolType" "op = OperatorEqual \<or> op = OperatorNotEqual"
proof -
  have c: "isComparison op" "TypeEqual l r" using binary_operands [OF assms(1)] assms(2) by auto
  then show "TypeEqual l r" "TypeEqual typ boolType" "op = OperatorEqual \<or> op = OperatorNotEqual"
    using assms by (auto simp: validateBinaryTypes_def isComparison_def split: if_splits)
qed

lemma binary_shortcut:
  assumes "validateBinaryTypes op typ l r = Ret ()" "op = OperatorAnd \<or> op = OperatorOr"
  shows "TypeEqual typ boolType"
  using assms by (auto simp: validateBinaryTypes_def)

lemma safe_binary:
  assumes r: "ready t fns D ev ps vs e" and k: "exKind e = ExprBinary"
  shows "safe t vs (evalBinary ev e) (produces (exType e))"
proof -
  note v = ready_valid [OF r]
  from v(2) k obtain op x y where u: "exBinary e = Some (Binary op (Some x) (Some y))"
      "validateExpr x ps = Ret ()" "validateExpr y ps = Ret ()"
      "validateBinaryTypes op (exType e) (exType x) (exType y) = Ret ()"
    by (auto simp: validateStep_def validateBinary_def split: payload_splits)
  have c: "x \<in> set (children e)" "y \<in> set (children e)"
    using u k by (simp_all add: set_children expressionChildren_def)
  have cmp: "isComparison op \<Longrightarrow> comparableType (exType x)"
    using ready_here(3) [OF r] k u(1) by (simp add: comparisonOK_def)
  note n = binary_not_result [OF u(4) cmp]
  note tx = validateExpr_type [OF u(2)]
  show ?thesis
    unfolding evalBinary_def
  proof (intro safe_withPtr [OF u(1)], simp only: binary.sel, intro safe_operand [OF r c(1) u(2) n(1)])
    fix a assume a: "conforms a (exType x)"
    let ?rest = "operand ev (Some y) (\<lambda>right. withPtr (Some x) (\<lambda>l. let leftType = exType l in
         if tKind leftType = TypePrimitive \<and> tPrimitive leftType = PrimitiveString then
           liftR (evalTextBinary (exType e) op (vString a) (vString right))
         else if tKind leftType = TypeRecord \<or> tKind leftType = TypeEnum then
           bindE (liftR (equalValues a right)) (\<lambda>equal.
             okE (boolValue (exType e) (if op = OperatorNotEqual then \<not> equal else equal)))
         else liftR (applyBinary (exType e) op leftType a right)))"
    have rest: "safe t vs ?rest (produces (exType e))"
    proof (intro safe_operand [OF r c(2) u(3) n(2)] safe_withPtr [OF refl])
      fix b assume b: "conforms b (exType y)"
      consider (str) "exType x = textType" | (struct) "tKind (exType x) = TypeRecord \<or> tKind (exType x) = TypeEnum"
        | (other) "exType x \<noteq> textType" "tKind (exType x) \<noteq> TypeRecord" "tKind (exType x) \<noteq> TypeEnum"
        by blast
      then show "safe t vs (let leftType = exType x in
         if tKind leftType = TypePrimitive \<and> tPrimitive leftType = PrimitiveString then
           liftR (evalTextBinary (exType e) op (vString a) (vString b))
         else if tKind leftType = TypeRecord \<or> tKind leftType = TypeEnum then
           bindE (liftR (equalValues a b)) (\<lambda>equal.
             okE (boolValue (exType e) (if op = OperatorNotEqual then \<not> equal else equal)))
         else liftR (applyBinary (exType e) op leftType a b)) (produces (exType e))"
      proof cases
        case str
        then show ?thesis using binary_text [OF u(4) v(1) str a b] by (auto intro: safe_liftR [OF refl])
      next
        case struct
        note s = binary_structural [OF u(4) struct]
        have b': "conforms b (exType x)" using b s(1) conforms_equal TypeEqual_sym(1) by blast
        have "\<exists>q. equalValues a b = Ret q"
          using struct equalValues_enum [OF _ a b'] equalValues_record [OF tx _ _ a b']
            record_type_fields [OF tx] by metis
        then obtain q where "equalValues a b = Ret q" ..
        then show ?thesis
          using struct by (auto intro!: safe_liftR_bind safe_okE produces_bool [OF v(1) s(2)])
      next
        case other
        have "tKind (exType x) = TypePrimitive \<or> tKind (exType x) = TypeNumeric" if "isComparison op"
          using cmp [OF that] other(2,3) by (simp add: comparableType_def)
        then obtain out where "applyBinary (exType e) op (exType x) a b = Ret out" "produces (exType e) out"
          using binary_other [OF u(4) v(1) tx other(1)] by blast
        moreover have "\<not> (tKind (exType x) = TypePrimitive \<and> tPrimitive (exType x) = PrimitiveString)"
          using validated_scalar(1) [OF tx] other(1) by auto
        ultimately show ?thesis using other by (auto intro: safe_liftR)
      qed
    qed
    show "safe t vs (if op = OperatorAnd \<and> \<not> vBool a then okE (boolValue (exType e) False)
        else if op = OperatorOr \<and> vBool a then okE (boolValue (exType e) True) else ?rest)
      (produces (exType e))"
      using rest binary_shortcut [OF u(4)] by (auto intro!: safe_okE produces_bool [OF v(1)])
  qed
qed

section \<open>Conditionals and locals\<close>

lemma safe_conditional:
  assumes r: "ready t fns D ev ps vs e" and k: "exKind e = ExprConditional"
  shows "safe t vs (evalConditional ev e) (produces (exType e))"
proof -
  note v = ready_valid [OF r]
  from v(2) k obtain c x y b where u: "exConditional e = Some (Conditional (Some c) (Some x) (Some y) b)"
      "validateExpr c ps = Ret ()" "validateExpr x ps = Ret ()" "validateExpr y ps = Ret ()"
      "TypeEqual (exType c) boolType" "TypeEqual (exType x) (exType y)" "TypeEqual (exType e) (exType x)"
    by (auto simp: validateStep_def validateConditional_def split: payload_splits)
  have m: "c \<in> set (children e)" "x \<in> set (children e)" "y \<in> set (children e)"
    using u k by (simp_all add: set_children expressionChildren_def)
  have n: "tKind (exType c) \<noteq> TypeResult" using boolType_fields [OF u(5)] by simp
  have eq: "TypeEqual (exType x) (exType e)" "TypeEqual (exType y) (exType e)"
    using u(6,7) TypeEqual_sym(1) TypeEqual_trans(1) by blast+
  have branch: "safe t vs (ev (if q then x else y)) (produces (exType e))" for q
    using ready_child [OF r m(2) u(3)] ready_child [OF r m(3) u(4)] eq
    by (auto intro: safe_mono produces_equal)
  show ?thesis
    unfolding evalConditional_def
    using safe_bindE [OF branch] produces_validateOutcome produces_clone [OF _ v(1)]
    by (auto simp: u(1) intro!: safe_operand [OF r m(1) u(2) n] safe_bindE [OF branch]
        safe_liftR_bind safe_retE)
qed

lemma safe_carrierOr:
  assumes "produces typ r" "validateType typ = Ret ()"
    "\<And>x. conforms x typ \<Longrightarrow> safe t vs (k x) R"
  shows "safe t vs (carrierOr typ r early k) R"
proof (cases "tKind typ = TypeResult")
  case True
  then show ?thesis
    using assms produces_clone [OF assms(1,2)] produces_resultValue by (simp add: carrierOr_def)
next
  case False
  from produces_value [OF assms(1) False] obtain x where "r = okOutcome x" "conforms x typ" .
  then show ?thesis using assms(2,3) False cloneValue_id by (simp add: carrierOr_def)
qed

lemma conforms_checked: "conforms v t \<Longrightarrow> validateValue v = Ret ()"
  by (simp add: conforms_def)

lemma safe_local:
  assumes r: "ready t fns D ev ps vs e" and k: "exKind e = ExprImmutableLocal"
  shows "safe t vs (evalImmutableLocal ev e) (produces (exType e))"
proof -
  note v = ready_valid [OF r]
  from v(2) k obtain i nm ty x y where
      u: "exImmutableLocal e = Some (ImmutableLocal i nm ty (Some x) (Some y))"
        "i = int (length ps)" "validateType ty = Ret ()" "validateExpr x ps = Ret ()"
        "TypeEqual (exType x) ty" "validateExpr y (ps @ [boundParameter i nm ty]) = Ret ()"
        "TypeEqual (exType y) (exType e)"
    by (auto simp: validateStep_def validateLocal_def split: payload_splits)
  have m: "x \<in> set (children e)" "y \<in> set (children e)"
    using u k by (simp_all add: set_children expressionChildren_def)
  have init: "safe t vs (ev x) (produces ty)"
    using ready_child [OF r m(1) u(4)] u(5) by (auto intro: safe_mono produces_equal)
  have len: "int (length vs) = i" using v(3) u(2) by (simp add: fits_def)
  have body: "safe t (vs @ [w]) (ev y) (produces (exType e))" if "conforms w ty" for w
    using ready_scoped_child [OF r m(2) u(6)] that u(7)
    by (auto simp: boundParameter_def intro: safe_mono produces_equal)
  have "safe t vs (bindE (ev x) (\<lambda>r. carrierOr ty r retE (\<lambda>val. checked val
      (bindE (push (cloneValue val)) (\<lambda>_. bindE (thenPop (ev y)) (\<lambda>out. retE (cloneOutcome out)))))))
    (produces (exType e))"
    using produces_clone [OF _ v(1)]
    by (auto intro!: safe_bindE [OF init] safe_carrierOr [OF _ u(3)] safe_checked conforms_checked
        safe_scope [OF body] safe_retE simp: cloneValue_id [OF _ u(3)])
  then show ?thesis
    unfolding evalImmutableLocal_def u(1) using len by (auto intro!: safe_getFrame safe_guardE)
qed

section \<open>Calls\<close>

lemma argumentMatches_Some:
  "argumentMatches p q \<Longrightarrow> \<exists>a. p = Some a \<and> TypeEqual (exType a) (paType q)"
  by (auto simp: argumentMatches_def split: option.splits)

lemma safe_callArguments:
  assumes r: "ready t fns D ev ps vs e" and c: "\<And>a. Some a \<in> set args \<Longrightarrow> a \<in> set (children e)"
    and val: "\<And>a. Some a \<in> set args \<Longrightarrow> validateExpr a ps = Ret ()"
    and mt: "list_all2 argumentMatches args (drop n (fnParameters g))"
  shows "safe t vs (evalCallArguments ev g (int n) args)
    (\<lambda>out. \<exists>ws. out = Inr ws \<and> list_all2 (\<lambda>w p. conforms w (paType p)) ws (drop n (fnParameters g)))"
  using c val mt
proof (induction args arbitrary: n)
  case Nil
  then show ?case by (auto intro: safe_retE)
next
  case (Cons p args)
  from Cons.prems(3) obtain a q qs where a: "p = Some a" "drop n (fnParameters g) = q # qs"
      "TypeEqual (exType a) (paType q)" "list_all2 argumentMatches args qs"
    by (auto simp: list_all2_Cons1 dest!: argumentMatches_Some)
  have "drop (Suc n) (fnParameters g) = tl (drop n (fnParameters g))" by (simp add: drop_Suc tl_drop)
  then have n: "n < length (fnParameters g)" "fnParameters g ! n = q" "drop (Suc n) (fnParameters g) = qs"
    using nth_via_drop [OF a(2)] a(2) by (auto intro: ccontr simp: not_less)
  have va: "validateExpr a ps = Ret ()" "a \<in> set (children e)"
    using Cons.prems(1,2) a(1) by simp_all
  have rest: "safe t vs (evalCallArguments ev g (1 + int n) args)
      (\<lambda>out. \<exists>ws. out = Inr ws \<and> list_all2 (\<lambda>w p. conforms w (paType p)) ws qs)"
    using Cons.IH [of "Suc n"] Cons.prems(1,2) a(4) n(3) by simp
  show ?case
    unfolding evalCallArguments.simps a(1)
  proof (intro safe_withPtr [OF refl] safe_bindE [OF ready_child [OF r va(2,1)]]
      safe_carrierOr [OF _ validateExpr_type [OF va(1)]])
    fix out x assume x: "conforms x (exType a)"
    then have q: "TypeEqual (vType x) (paType q)" "conforms x (paType q)"
      using a(3) conforms_equal by (auto simp: conforms_def intro: TypeEqual_trans)
    show "safe t vs (bindE (liftR (index (fnParameters g) (int n)))
        (\<lambda>param. guardE (\<not> TypeEqual (vType x) (paType param))
          ''pure call argument type does not match parameter''
          (checked x (bindE (evalCallArguments ev g (int n + 1) args)
            (\<lambda>rest. case rest of Inl early \<Rightarrow> retE (Inl early) | Inr vals \<Rightarrow> retE (Inr (x # vals)))))))
      (\<lambda>out. \<exists>ws. out = Inr ws
        \<and> list_all2 (\<lambda>w p. conforms w (paType p)) ws (drop n (fnParameters g)))"
      using n q a(2) rest
      by (auto simp: index_def add.commute intro!: safe_liftR_bind safe_guardE safe_checked
          conforms_checked [OF x] safe_bindE [OF rest] safe_retE)
  qed
qed

lemma safe_inFresh:
  assumes "returns t m typ (ownedFrame ws)" "\<And>r. produces typ r \<Longrightarrow> safe t vs (k r) R"
  shows "safe t vs (bindE (inFresh ws m) k) R"
proof (cases "t \<and> fst (m (ownedFrame ws)) = Timeout")
  case True
  then show ?thesis by (auto simp: safe_def bindE_def inFresh_def liftR_def)
next
  case False
  then obtain r where "fst (m (ownedFrame ws)) = Ret r" "produces typ r"
    using assms(1) by (auto simp: returns_def)
  then show ?thesis using assms(2) by (auto simp: inFresh_def intro: safe_liftR_bind)
qed

lemma safe_call:
  assumes r: "ready t fns D ev ps vs e" and k: "exKind e = ExprCall"
  shows "safe t vs (evalCall ev fns e) (produces (exType e))"
proof -
  note v = ready_valid [OF r]
  from ready_here(5) [OF r] k obtain c g where u: "exCall e = Some c" "lookup fns (caTarget c) = Some g"
      "list_all2 argumentMatches (caArguments c) (fnParameters g)" "TypeEqual (exType e) (fnReturnType g)"
    by (auto simp: callOK_def)
  from u(2) obtain table where tb: "fns = Some table" "table (functionKey (caTarget c)) = Some g"
    by (auto simp: lookup_def split: option.splits)
  have val: "validateExpr a ps = Ret ()" if "Some a \<in> set (caArguments c)" for a
    using v(2) k u(1) that by (auto simp: validateStep_def validateCall_def validateOperands_def)
  have m: "a \<in> set (children e)" if "Some a \<in> set (caArguments c)" for a
    using that u(1) k by (simp add: set_children expressionChildren_def)
  have args: "safe t vs (evalCallArguments ev g 0 (caArguments c))
      (\<lambda>out. \<exists>ws. out = Inr ws \<and> argumentsConform ws g)"
    using safe_callArguments [OF r m val, of "caArguments c" 0 g] u(3) by (simp add: argumentsConform_def)
  have enter: "entersFunction fns e g" using k u(1,2) by (auto simp: entersFunction_def)
  have fresh: "returns t (ev (fnBody g)) (fnReturnType g) (ownedFrame ws)" if "argumentsConform ws g" for ws
    using r enter that by (auto simp: ready_def)
  have fin: "safe t vs (let out = completeFunctionOutcome (fnReturnType g) out in
      bindE (liftR (validateOutcome out)) (\<lambda>_. retE (cloneOutcome out))) (produces (exType e))"
    if o: "produces (fnReturnType g) out" for out
  proof -
    have "produces (exType e) out" using o u(4) produces_equal TypeEqual_sym(1) by blast
    then show ?thesis
      using completeFunctionOutcome_id [OF o] produces_validateOutcome produces_clone [OF _ v(1)]
      by (auto intro!: safe_liftR_bind safe_retE)
  qed
  show ?thesis
    unfolding evalCall_def
    by (auto simp: tb u(1) intro!: safe_bindE [OF args] safe_inFresh [OF fresh] fin)
qed

section \<open>Text\<close>

lemma ContainsCaseFoldedText_valid:
  "foldTableOK table \<Longrightarrow> validString s \<Longrightarrow> validString q \<Longrightarrow> \<exists>b. ContainsCaseFoldedText table s q = Ret b"
  using validString_decodes [of s] validString_decodes [of q] ContainsCaseFoldedText_encode by metis

lemma TrimText_valid: "validString s \<Longrightarrow> \<exists>u. TrimText s = Ret u \<and> validString u"
proof -
  assume "validString s"
  then obtain cs where cs: "scalars cs" "s = encode cs" using validString_decodes by blast
  have "scalars (trimScalars cs)"
    using cs(1) by (auto simp: trimScalars_def dest!: set_dropWhileD)
  then show ?thesis using TrimText_encode [OF cs(1)] cs(2) validString_encode by blast
qed

lemma safe_textContains:
  assumes r: "ready t fns D ev ps vs e" and k: "exKind e = ExprTextContainsCaseFolded"
    and tb: "foldTableOK table"
  shows "safe t vs (evalTextContains table ev e) (produces (exType e))"
proof -
  note v = ready_valid [OF r]
  from v(2) k obtain x q where u: "exTextContains e = Some (TextContainsCaseFolded (Some x) (Some q))"
      "validateExpr x ps = Ret ()" "validateExpr q ps = Ret ()" "TypeEqual (exType x) textType"
      "TypeEqual (exType q) textType" "TypeEqual (exType e) boolType"
    by (auto simp: validateStep_def validateTextContains_def split: payload_splits)
  have m: "x \<in> set (children e)" "q \<in> set (children e)"
    using u k by (simp_all add: set_children expressionChildren_def)
  have n: "tKind (exType x) \<noteq> TypeResult" "tKind (exType q) \<noteq> TypeResult"
    using textType_fields u(4,5) by auto
  have "safe t vs (bindE (liftR (ContainsCaseFoldedText table (vString a) (vString b)))
      (\<lambda>b. okE (boolValue (exType e) b))) (produces (exType e))"
    if "conforms a (exType x)" "conforms b (exType q)" for a b
    using ContainsCaseFoldedText_valid [OF tb conforms_text conforms_text, OF that(1) u(4) that(2) u(5)]
      produces_bool [OF v(1) u(6)] by (auto intro!: safe_liftR_bind safe_okE)
  then show ?thesis
    unfolding evalTextContains_def u(1)
    by (intro safe_withPtr [OF refl]) (auto intro!: safe_operand [OF r m(1) u(2) n(1)] safe_operand [OF r m(2) u(3) n(2)])
qed

lemma safe_textTrim:
  assumes r: "ready t fns D ev ps vs e" and k: "exKind e = ExprTextTrim"
  shows "safe t vs (evalTextTrim ev e) (produces (exType e))"
proof -
  note v = ready_valid [OF r]
  from v(2) k obtain x where u: "exTextTrim e = Some (Some x)"
      "validateExpr x ps = Ret ()" "TypeEqual (exType x) textType" "TypeEqual (exType e) textType"
    by (auto simp: validateStep_def validateTextTrim_def split: payload_splits)
  have m: "x \<in> set (children e)" using u k by (simp add: set_children expressionChildren_def)
  have n: "tKind (exType x) \<noteq> TypeResult" using textType_fields u(3) by auto
  have "safe t vs (bindE (liftR (TrimText (vString a))) (\<lambda>s. okE (stringValue (exType e) s)))
      (produces (exType e))" if a: "conforms a (exType x)" for a
  proof -
    from TrimText_valid [OF conforms_text [OF a u(3)]]
    obtain s where "TrimText (vString a) = Ret s" "validString s" by blast
    then show ?thesis using produces_text [OF v(1) u(4)] by (auto intro!: safe_liftR_bind safe_okE)
  qed
  then show ?thesis
    unfolding evalTextTrim_def u(1)
    by (intro safe_withPtr [OF refl] safe_operand [OF r m u(2) n])
qed

section \<open>Records\<close>

lemma safe_fieldProjection:
  assumes r: "ready t fns D ev ps vs e" and k: "exKind e = ExprFieldProjection"
  shows "safe t vs (evalFieldProjection ev e) (produces (exType e))"
proof -
  note v = ready_valid [OF r]
  from v(2) k obtain x i nm p schema where u: "exField e = Some (FieldProjection (Some x) i nm p)"
      "validateExpr x ps = Ret ()" "tKind (exType x) = TypeRecord" "tRecord (exType x) = Some schema"
      "0 \<le> p" "p < int (length schema)" "TypeEqual (exType e) (rfType (schema ! nat p))"
    by (auto simp: validateStep_def validateFieldProjection_def split: payload_splits type_kind.splits)
  have m: "x \<in> set (children e)" using u k by (simp add: set_children expressionChildren_def)
  have n: "tKind (exType x) \<noteq> TypeResult" using u(3) by simp
  note tx = validateExpr_type [OF u(2)]
  have j: "nat p < length schema" using u(5,6) by linarith
  have sc: "scalarKind (tKind (rfType (schema ! nat p)))"
    using record_type_fields [OF tx u(3)] u(4) j nth_mem by (metis option.inject)
  have "safe t vs (let position = p in
      guardE (position < 0 \<or> position \<ge> int (length (elems (vRecord a))))
        ''record field projection position is outside the value''
        (okE (elems (vRecord a) ! nat position))) (produces (exType e))"
    if a: "conforms a (exType x)" for a
  proof -
    note f = conforms_record [OF u(3,4) a]
    have "conforms (elems (vRecord a) ! nat p) (exType e)"
      using f(4) [OF j] u(7) conforms_equal TypeEqual_sym(1) by blast
    moreover have "tKind (exType e) \<noteq> TypeResult" using sc TypeEqual_kind [OF u(7)] by auto
    ultimately show ?thesis
      using f(3) u(5,6) by (auto intro!: safe_guardE safe_okE produces_okOutcome)
  qed
  then show ?thesis
    unfolding evalFieldProjection_def
    by (intro safe_withPtr [OF u(1)]) (auto intro!: safe_operand [OF r m u(2) n])
qed

lemma safe_fields:
  assumes r: "ready t fns D ev ps vs e" and len: "length fs = length schema"
    and ok: "\<And>j. j < length fs \<Longrightarrow> \<exists>x. rcfValue (fs ! j) = Some x \<and> x \<in> set (children e)
        \<and> validateExpr x ps = Ret () \<and> TypeEqual (exType x) (rfType (schema ! j))
        \<and> tKind (rfType (schema ! j)) \<noteq> TypeResult"
  shows "safe t vs (evalFields ev fs)
    (\<lambda>out. \<exists>ws. out = Inr ws \<and> list_all2 (\<lambda>w field. conforms w (rfType field)) ws schema)"
  using len ok
proof (induction fs arbitrary: schema)
  case Nil
  then show ?case by (auto intro: safe_retE)
next
  case (Cons f fs)
  obtain s schema' where s: "schema = s # schema'" using Cons.prems(1) by (cases schema) auto
  from Cons.prems(2) [of 0] s obtain x where x: "rcfValue f = Some x" "x \<in> set (children e)"
      "validateExpr x ps = Ret ()" "TypeEqual (exType x) (rfType s)" "tKind (rfType s) \<noteq> TypeResult"
    by auto
  have rest: "safe t vs (evalFields ev fs)
      (\<lambda>out. \<exists>ws. out = Inr ws \<and> list_all2 (\<lambda>w field. conforms w (rfType field)) ws schema')"
    using Cons.prems s by (intro Cons.IH) fastforce+
  have n: "tKind (exType x) \<noteq> TypeResult" using x(4,5) TypeEqual_kind by simp
  show ?case
    unfolding evalFields.simps x(1)
  proof (intro safe_withPtr [OF refl] safe_bindE [OF ready_child [OF r x(2,3)]])
    fix out assume "produces (exType x) out"
    from produces_value [OF this n] obtain w where w: "out = okOutcome w" "conforms w (exType x)" .
    then have "conforms w (rfType s)" using x(4) conforms_equal by blast
    then show "safe t vs (if \<not> oOK out then retE (Inl out)
        else bindE (evalFields ev fs) (\<lambda>rest.
          case rest of Inl early \<Rightarrow> retE (Inl early) | Inr vals \<Rightarrow> retE (Inr (oValue out # vals))))
      (\<lambda>out. \<exists>ws. out = Inr ws \<and> list_all2 (\<lambda>w field. conforms w (rfType field)) ws schema)"
      using w s by (auto intro!: safe_bindE [OF rest] safe_retE)
  qed
qed

lemma safe_recordConstruct:
  assumes r: "ready t fns D ev ps vs e" and k: "exKind e = ExprRecordConstruct"
  shows "safe t vs (evalRecordConstruct ev e) (produces (exType e))"
proof -
  note v = ready_valid [OF r]
  from v(2) k obtain c schema where u: "exRecord e = Some c" "tKind (exType e) = TypeRecord"
      "tRecord (exType e) = Some schema" "length (rcFields c) = length schema"
    and each: "\<forall>y \<in> set (enumerate 0 (zip (rcFields c) schema)). (case y of
        (position, initialized, declared) \<Rightarrow>
          validateConstructField validateExpr ps position initialized declared) = Ret ()"
    by (auto simp: validateStep_def validateRecordConstruct_def split: option.splits type_kind.splits)
  have fields: "\<exists>x. rcfValue (rcFields c ! j) = Some x \<and> x \<in> set (children e)
      \<and> validateExpr x ps = Ret () \<and> TypeEqual (exType x) (rfType (schema ! j))
      \<and> tKind (rfType (schema ! j)) \<noteq> TypeResult" if j: "j < length (rcFields c)" for j
  proof -
    have "(j, rcFields c ! j, schema ! j) \<in> set (enumerate 0 (zip (rcFields c) schema))"
      using j u(4) by (simp add: in_set_enumerate_eq)
    with each have "validateConstructField validateExpr ps j (rcFields c ! j) (schema ! j) = Ret ()"
      by fastforce
    then obtain x where x: "rcfValue (rcFields c ! j) = Some x" "validateExpr x ps = Ret ()"
        "TypeEqual (exType x) (rfType (schema ! j))"
      by (auto simp: validateConstructField_def split: option.splits)
    have "Some x \<in> rcfValue ` set (rcFields c)" using x(1) j by (metis image_eqI nth_mem)
    then have "x \<in> set (children e)" using k u(1) by (simp add: set_children expressionChildren_def)
    moreover have "scalarKind (tKind (rfType (schema ! j)))"
      using record_type_fields [OF v(1) u(2)] u(3,4) j nth_mem by (metis option.inject)
    then have "tKind (rfType (schema ! j)) \<noteq> TypeResult" by auto
    ultimately show ?thesis using x by blast
  qed
  have fin: "safe t vs (let v = recordValue (exType e) ws in checked v (okE (cloneRecordValue v)))
      (produces (exType e))" if "list_all2 (\<lambda>w field. conforms w (rfType field)) ws schema" for ws
  proof -
    have c: "conforms (recordValue (exType e) ws) (exType e)"
      using that u(2,3) TypeEqual_refl [OF v(1)]
      by (intro conforms_recordI) (auto simp: list_all2_conv_all_nth)
    then show ?thesis using u(2) cloneRecordValue_id [OF c v(1) u(2)]
      by (auto simp: Let_def intro!: safe_checked conforms_checked safe_okE produces_okOutcome)
  qed
  show ?thesis
    unfolding evalRecordConstruct_def
    by (intro safe_withPtr [OF u(1)] safe_bindE [OF safe_fields [OF r u(4) fields]]) (auto intro: fin)
qed

end
