(* ===== verification/CoreSafetyLists.thy ===== *)
theory CoreSafetyLists
  imports CoreSafetyOps
begin

text \<open>
  Safety of optionals and lists: the values an operation builds conform to the type the
  validator accepted, the text fields it reads exist and hold valid text, and the comparison
  of the sorts never fails.
\<close>

section \<open>Optionals\<close>

lemma optional_payload:
  assumes "validateType t = Ret ()" "tKind t = TypeOptional"
  obtains p where "tOptional t = Some p" "validateType p = Ret ()" "tKind p \<noteq> TypeResult"
    "tKind p \<noteq> TypeOptional" "tKind p \<noteq> TypeList"
proof -
  from assms obtain p where p: "tOptional t = Some p" "isOptionalValueType p" "validateType p = Ret ()"
    by (rule validateType_optional)
  have "tKind p \<in> {TypePrimitive, TypeNumeric, TypeRecord}"
    using p(2) by (auto simp: isOptionalValueType_def isPrimitiveOptionalValueType_def split: if_splits)
  with p that show thesis by auto
qed

lemma safe_optionalResult:
  assumes "validateType t = Ret ()" "tKind t = TypeOptional" "tOptional t = Some p"
    "\<And>x. y = Some x \<Longrightarrow> conforms x p"
  shows "safe t' vs (let opt = optionalValue t y in checked opt (okE (cloneOptionalValue opt))) (produces t)"
    "safe t' vs (let opt = optionalValue t y in checked opt (okE opt)) (produces t)"
proof -
  have c: "conforms (optionalValue t y) t"
    using assms TypeEqual_refl by (intro conforms_optionalI) auto
  then show "safe t' vs (let opt = optionalValue t y in checked opt (okE (cloneOptionalValue opt))) (produces t)"
    "safe t' vs (let opt = optionalValue t y in checked opt (okE opt)) (produces t)"
    using assms(1,2) cloneOptionalValue_id [OF c]
    by (auto simp: Let_def intro!: safe_checked conforms_checked safe_okE produces_okOutcome)
qed

lemma safe_optionalSome:
  assumes r: "ready t fns D ev ps vs e" and k: "exKind e = ExprOptionalSome"
  shows "safe t vs (evalOptionalSome ev e) (produces (exType e))"
proof -
  note v = ready_valid [OF r]
  from v(2) k obtain x p where u: "exSome e = Some (Some x)" "tKind (exType e) = TypeOptional"
      "tOptional (exType e) = Some p" "validateExpr x ps = Ret ()" "TypeEqual (exType x) p"
    by (auto simp: validateStep_def validateOptionalSome_def split: option.splits type_kind.splits)
  have m: "x \<in> set (children e)" using u k by (simp add: set_children expressionChildren_def)
  have n: "tKind (exType x) \<noteq> TypeResult"
    using optional_payload [OF v(1) u(2)] u(3,5) TypeEqual_kind by (metis option.inject)
  show ?thesis
    unfolding evalOptionalSome_def u(1)
    by (intro safe_withPtr [OF refl] safe_operand [OF r m u(4) n] safe_optionalResult(1) [OF v(1) u(2,3)])
      (auto intro: conforms_equal [OF _ u(5)])
qed

lemma safe_optionalNone:
  assumes r: "ready t fns D ev ps vs e" and k: "exKind e = ExprOptionalNone"
  shows "safe t vs (evalOptionalNone e) (produces (exType e))"
proof -
  note v = ready_valid [OF r]
  from v(2) k obtain p where u: "tKind (exType e) = TypeOptional" "tOptional (exType e) = Some p"
    by (auto simp: validateStep_def validateOptionalNone_def split: if_splits)
  show ?thesis
    unfolding evalOptionalNone_def by (rule safe_optionalResult(2) [OF v(1) u]) simp
qed

lemma safe_optionalHasValue:
  assumes r: "ready t fns D ev ps vs e" and k: "exKind e = ExprOptionalHasValue"
  shows "safe t vs (evalOptionalHasValue ev e) (produces (exType e))"
proof -
  note v = ready_valid [OF r]
  from v(2) k obtain x where u: "exHasValue e = Some (Some x)" "TypeEqual (exType e) boolType"
      "validateExpr x ps = Ret ()" "tKind (exType x) = TypeOptional"
    by (auto simp: validateStep_def validateOptionalHasValue_def split: option.splits)
  have m: "x \<in> set (children e)" using u k by (simp add: set_children expressionChildren_def)
  have n: "tKind (exType x) \<noteq> TypeResult" using u(4) by simp
  obtain p where p: "tOptional (exType x) = Some p"
    using optional_payload [OF validateExpr_type [OF u(3)] u(4)] by blast
  have "safe t vs (checked a (withPtr (vOptional a) (\<lambda>opt. okE (boolValue (exType e) (ovPresent opt)))))
      (produces (exType e))" if a: "conforms a (exType x)" for a
    using conforms_optional [OF u(4) p a] produces_bool [OF v(1) u(2)]
    by (metis safe_checked conforms_checked [OF a] safe_withPtr safe_okE)
  then show ?thesis
    unfolding evalOptionalHasValue_def u(1) by (intro safe_withPtr [OF refl] safe_operand [OF r m u(3) n])
qed

lemma safe_operandOutcome:
  assumes "ready t fns D ev ps vs e" "c \<in> set (children e)" "validateExpr c ps = Ret ()"
    "tKind (exType c) \<noteq> TypeResult" "\<And>v. conforms v (exType c) \<Longrightarrow> safe t vs (k (okOutcome v)) R"
  shows "safe t vs (operandOutcome ev (Some c) k) R"
proof -
  have "safe t vs (if oOK r then k r else retE r) R" if "produces (exType c) r" for r
    using that assms(4,5) by (metis produces_value value_literal_selectors(18))
  then show ?thesis
    unfolding operandOutcome_def
    by (intro safe_withPtr [OF refl] safe_bindE [OF ready_child [OF assms(1-3)]])
qed

lemma safe_optionalValueOr:
  assumes r: "ready t fns D ev ps vs e" and k: "exKind e = ExprOptionalValueOr"
  shows "safe t vs (evalOptionalValueOr ev e) (produces (exType e))"
proof -
  note v = ready_valid [OF r]
  from v(2) k obtain x d p where u: "exValueOr e = Some (WithFallback (Some x) (Some d))"
      "validateExpr x ps = Ret ()" "validateExpr d ps = Ret ()" "tKind (exType x) = TypeOptional"
      "tOptional (exType x) = Some p" "TypeEqual p (exType d)" "TypeEqual (exType e) (exType d)"
    by (auto simp: validateStep_def validateOptionalValueOr_def split: payload_splits type_kind.splits)
  have m: "x \<in> set (children e)" "d \<in> set (children e)"
    using u k by (simp_all add: set_children expressionChildren_def)
  have pe: "TypeEqual p (exType e)" "TypeEqual (exType d) (exType e)"
    using u(6,7) TypeEqual_sym(1) TypeEqual_trans(1) by blast+
  have pk: "tKind p \<noteq> TypeResult" "validateType p = Ret ()"
    using optional_payload [OF validateExpr_type [OF u(2)] u(4)] u(5) by (metis option.inject)+
  have n: "tKind (exType x) \<noteq> TypeResult" "tKind (exType d) \<noteq> TypeResult" "tKind (exType e) \<noteq> TypeResult"
    using u(4,6) pk pe TypeEqual_kind by auto
  have ok: "produces (exType e) (okOutcome (cloneValue a))" if "conforms a s" "TypeEqual s (exType e)" for a s
    using that conforms_equal cloneValue_id [OF _ v(1)] n(3) by (auto intro!: produces_okOutcome)
  have body: "safe t vs (checked a (withPtr (vOptional a) (\<lambda>opt.
      if ovPresent opt then withPtr (ovValue opt) (\<lambda>x. okE (cloneValue x))
      else retE (Outcome (oOK (okOutcome b)) (cloneValue (oValue (okOutcome b))) (oError (okOutcome b))
        (oFailure (okOutcome b)))))) (produces (exType e))"
    if a: "conforms a (exType x)" and b: "conforms b (exType d)" for a b
  proof -
    from conforms_optional [OF u(4,5) a] obtain opt where o: "vOptional a = Some opt"
        "ovPresent opt \<Longrightarrow> \<exists>y. ovValue opt = Some y \<and> conforms y p" by metis
    have "safe t vs (if ovPresent opt then withPtr (ovValue opt) (\<lambda>x. okE (cloneValue x))
        else retE (okOutcome (cloneValue b))) (produces (exType e))"
    proof (cases "ovPresent opt")
      case True
      then obtain y where "ovValue opt = Some y" "conforms y p" using o(2) by blast
      then show ?thesis using True ok [OF _ pe(1)] by (simp add: safe_withPtr [OF refl] safe_okE)
    next
      case False
      then show ?thesis using ok [OF b pe(2)] by (simp add: safe_retE)
    qed
    then show ?thesis
      by (intro safe_checked conforms_checked [OF a] safe_withPtr [OF o(1)])
        (auto simp: okOutcome_def split: if_splits)
  qed
  show ?thesis
    unfolding evalOptionalValueOr_def u(1)
    by (intro safe_withPtr [OF refl]) (auto intro!: safe_operand [OF r m(1) u(2) n(1)]
        safe_operandOutcome [OF r m(2) u(3) n(2)] body)
qed

section \<open>List construction\<close>

lemma list_element:
  assumes "validateType t = Ret ()" "tKind t = TypeList"
  obtains el where "tList t = Some el" "validateType el = Ret ()" "tKind el = TypeRecord"
  using validateType_list [OF assms] by metis

lemma safe_listResult:
  assumes "validateType t = Ret ()" "tKind t = TypeList" "tList t = Some el"
    "\<And>x. x \<in> set xs \<Longrightarrow> conforms x el"
  shows "safe t' vs (let v = listValue t xs in checked v (okE (cloneListValue v))) (produces t)"
    "safe t' vs (let v = listValue t xs in checked v (okE v)) (produces t)"
proof -
  have c: "conforms (listValue t xs) t"
    using assms TypeEqual_refl by (intro conforms_listI) auto
  then show "safe t' vs (let v = listValue t xs in checked v (okE (cloneListValue v))) (produces t)"
    "safe t' vs (let v = listValue t xs in checked v (okE v)) (produces t)"
    using assms(1,2) cloneListValue_id [OF c]
    by (auto simp: Let_def intro!: safe_checked conforms_checked safe_okE produces_okOutcome)
qed

lemma safe_listEmpty:
  assumes r: "ready t fns D ev ps vs e" and k: "exKind e = ExprListEmpty"
  shows "safe t vs (evalListEmpty e) (produces (exType e))"
proof -
  note v = ready_valid [OF r]
  from v(2) k obtain p where u: "tKind (exType e) = TypeList" "tList (exType e) = Some p"
    by (auto simp: validateStep_def validateListEmpty_def split: if_splits)
  show ?thesis
    unfolding evalListEmpty_def by (rule safe_listResult(2) [OF v(1) u]) simp
qed

lemma safe_listSingleton:
  assumes r: "ready t fns D ev ps vs e" and k: "exKind e = ExprListSingleton"
  shows "safe t vs (evalListSingleton ev e) (produces (exType e))"
proof -
  note v = ready_valid [OF r]
  from v(2) k obtain x el where u: "exListOne e = Some (Some x)" "tKind (exType e) = TypeList"
      "tList (exType e) = Some el" "validateExpr x ps = Ret ()" "TypeEqual (exType x) el"
    by (auto simp: validateStep_def validateListSingleton_def split: option.splits type_kind.splits)
  have m: "x \<in> set (children e)" using u k by (simp add: set_children expressionChildren_def)
  have n: "tKind (exType x) \<noteq> TypeResult"
    using list_element [OF v(1) u(2)] u(3,5) TypeEqual_kind by (metis option.inject type_kind.distinct)
  show ?thesis
    unfolding evalListSingleton_def u(1)
    by (intro safe_withPtr [OF refl] safe_operand [OF r m u(4) n] safe_listResult(1) [OF v(1) u(2,3)])
      (auto intro: conforms_equal [OF _ u(5)])
qed

lemma safe_listCount:
  assumes r: "ready t fns D ev ps vs e" and k: "exKind e = ExprListCount"
  shows "safe t vs (evalListCount ev e) (produces (exType e))"
proof -
  note v = ready_valid [OF r]
  from v(2) k obtain x where u: "exListCount e = Some (Some x)" "TypeEqual (exType e) (SignedInteger 64)"
      "validateExpr x ps = Ret ()" "tKind (exType x) = TypeList"
    by (auto simp: validateStep_def validateListCount_def split: option.splits)
  have m: "x \<in> set (children e)" using u k by (simp add: set_children expressionChildren_def)
  have n: "tKind (exType x) \<noteq> TypeResult" using u(4) by simp
  show ?thesis
    unfolding evalListCount_def u(1)
    by (intro safe_withPtr [OF refl] safe_operand [OF r m u(3) n])
      (auto intro!: safe_checked conforms_checked safe_okE produces_int [OF v(1) u(2)])
qed


lemma conforms_setList:
  assumes "conforms v t" "validateType t = Ret ()" "tKind t = TypeList" "tList t = Some el"
    "\<And>x. x \<in> set xs \<Longrightarrow> conforms x el"
  shows "conforms (setList (Some xs) v) t"
proof -
  from conforms_list [OF assms(3,4,1)] have f: "vResult v = None" "vOptional v = None" "elems (vRecord v) = []"
    by metis+
  note eq = TypeEqual_fields [of "vType v" t] conforms_kind [OF assms(1)]
  obtain el' where el: "tList (vType v) = Some el'" "TypeEqual el' el"
    using assms(1,4) eq by (cases "tList (vType v)") (auto simp: conforms_def opt_invs)
  have "\<forall>x \<in> set xs. TypeEqual (vType x) el' \<and> validateValue x = Ret ()"
    using assms(5) el(2) TypeEqual_sym(1) TypeEqual_trans(1) unfolding conforms_def by blast
  then show ?thesis
    using assms(1,3) eq f el
    by (cases v, subst conforms_def, subst validateValue.simps) (auto simp: setList_def Let_def conforms_def)
qed

lemma safe_listAppend:
  assumes r: "ready t fns D ev ps vs e" and k: "exKind e = ExprListAppend"
  shows "safe t vs (evalListAppend ev e) (produces (exType e))"
proof -
  note v = ready_valid [OF r]
  from v(2) k obtain x y el where u: "exListAppend e = Some (ListAppend (Some x) (Some y))"
      "tKind (exType e) = TypeList" "tList (exType e) = Some el" "validateExpr x ps = Ret ()"
      "validateExpr y ps = Ret ()" "TypeEqual (exType x) (exType e)" "TypeEqual (exType y) el"
    by (auto simp: validateStep_def validateListAppend_def split: payload_splits type_kind.splits)
  have m: "x \<in> set (children e)" "y \<in> set (children e)"
    using u k by (simp_all add: set_children expressionChildren_def)
  obtain el' where "tList (exType e) = Some el'" "validateType el' = Ret ()" "tKind el' = TypeRecord"
    using v(1) u(2) by (rule list_element)
  with u(3) have elt: "validateType el = Ret ()" "tKind el = TypeRecord" by simp_all
  have n: "tKind (exType x) \<noteq> TypeResult" "tKind (exType y) \<noteq> TypeResult"
    using u(2,6,7) elt TypeEqual_kind by fastforce+
  have body: "safe t vs (let copied = cloneListValue a;
      w = setList (Some (elems (vList copied) @ [cloneValue b])) copied in checked w (okE w))
    (produces (exType e))" if a: "conforms a (exType x)" and b: "conforms b (exType y)" for a b
  proof -
    have ae: "conforms a (exType e)" using a u(6) conforms_equal by blast
    have be: "conforms b el" using b u(7) conforms_equal by blast
    obtain xs where xs: "vList a = Some xs" "\<And>z. z \<in> set xs \<Longrightarrow> conforms z el"
      using conforms_list [OF u(2,3) ae] by metis
    have "conforms (setList (Some (xs @ [b])) a) (exType e)"
      using xs(2) be by (intro conforms_setList [OF ae v(1) u(2,3)]) auto
    then show ?thesis
      using cloneListValue_id [OF ae v(1)] cloneValue_id [OF be elt(1)] xs(1) u(2)
      by (auto simp: Let_def intro!: safe_checked conforms_checked safe_okE produces_okOutcome)
  qed
  show ?thesis
    unfolding evalListAppend_def u(1)
    by (intro safe_withPtr [OF refl])
      (auto intro!: safe_operand [OF r m(1) u(4) n(1)] safe_operand [OF r m(2) u(5) n(2)] body)
qed

section \<open>Lookups\<close>

lemma safe_listAt:
  assumes r: "ready t fns D ev ps vs e" and k: "exKind e = ExprListAt"
  shows "safe t vs (evalListAt ev e) (produces (exType e))"
proof -
  note v = ready_valid [OF r]
  from v(2) k obtain x i p el where u: "exListAt e = Some (ListAt (Some x) (Some i))"
      "tKind (exType e) = TypeOptional" "tOptional (exType e) = Some p" "validateExpr x ps = Ret ()"
      "validateExpr i ps = Ret ()" "tKind (exType x) = TypeList" "tList (exType x) = Some el"
      "TypeEqual el p" "TypeEqual (exType i) (SignedInteger 64)"
    by (auto simp: validateStep_def validateListAt_def split: payload_splits type_kind.splits option.splits)
  have m: "x \<in> set (children e)" "i \<in> set (children e)"
    using u k by (simp_all add: set_children expressionChildren_def)
  obtain el' where "tList (exType x) = Some el'" "validateType el' = Ret ()"
    using validateExpr_type [OF u(4)] u(6) by (rule list_element)
  with u(7) have elt: "validateType el = Ret ()" by simp
  have n: "tKind (exType x) \<noteq> TypeResult" "tKind (exType i) \<noteq> TypeResult"
    using u(6) int64Type_fields [OF u(9)] by simp_all
  have body: "safe t vs (checked a (let j = sint (vInt b);
      opt = optionalValue (exType e) (if 0 \<le> j \<and> j < int (length (elems (vList a)))
        then Some (cloneValue (elems (vList a) ! nat j)) else None)
      in checked opt (okE (cloneOptionalValue opt)))) (produces (exType e))"
    if a: "conforms a (exType x)" for a b
  proof -
    obtain xs where xs: "vList a = Some xs" "\<And>z. z \<in> set xs \<Longrightarrow> conforms z el"
      using conforms_list [OF u(6,7) a] by metis
    have "conforms (cloneValue (xs ! nat j)) p" if "0 \<le> j" "j < int (length xs)" for j
      using xs(2) [OF nth_mem] that cloneValue_id [OF _ elt] conforms_equal [OF _ u(8)]
      by (metis nat_less_iff)
    then show ?thesis
      using xs(1) unfolding Let_def
      by (intro safe_checked conforms_checked [OF a] safe_optionalResult(1) [unfolded Let_def, OF v(1) u(2,3)])
        (auto split: if_splits)
  qed
  show ?thesis
    unfolding evalListAt_def u(1)
    by (intro safe_withPtr [OF refl])
      (auto intro!: safe_operand [OF r m(1) u(4) n(1)] safe_operand [OF r m(2) u(5) n(2)] body)
qed

text \<open>Reading a text field the validator selected.\<close>

lemma textAt_valid:
  assumes "validateTextField schema position name identity = Ret ()" "tKind el = TypeRecord"
    "tRecord el = Some schema" "conforms x el"
  obtains s where "textAt x position = Ret s" "validString s"
proof -
  have p: "0 \<le> position" "position < int (length schema)"
      "TypeEqual (rfType (schema ! nat position)) textType"
    using assms(1) by (auto simp: validateTextField_def)
  note f = conforms_record [OF assms(2,3,4)]
  have j: "nat position < length schema" using p by linarith
  have "validString (vString (elems (vRecord x) ! nat position))"
    using conforms_text [OF f(4) [OF j] p(3)] .
  moreover have "textAt x position = Ret (vString (elems (vRecord x) ! nat position))"
    using p f(3) by (simp add: textAt_def)
  ultimately show thesis using that by blast
qed

lemma findRecord_total:
  assumes "\<And>x. x \<in> set xs \<Longrightarrow> \<exists>b. test x = Ret b" "\<And>x. x \<in> set xs \<Longrightarrow> cloneValue x = x"
  shows "\<exists>y. findRecord test xs = Ret y \<and> (\<forall>x. y = Some x \<longrightarrow> x \<in> set xs)"
  using assms
proof (induction xs)
  case (Cons x xs)
  then obtain b y where "test x = Ret b" "findRecord test xs = Ret y" "\<forall>x. y = Some x \<longrightarrow> x \<in> set xs"
    by (metis list.set_intros(1,2))
  then show ?case using Cons.prems(2) by (cases b) auto
qed simp

text \<open>A test that may run out of fuel is enough for the loop of the filters.\<close>

lemma keepRecords_total:
  assumes "\<And>x. x \<in> set xs \<Longrightarrow> (t \<and> test x = Timeout) \<or> (\<exists>b. test x = Ret b)"
    "\<And>x. x \<in> set xs \<Longrightarrow> cloneValue x = x"
  shows "(t \<and> keepRecords test xs = Timeout) \<or> (\<exists>ys. keepRecords test xs = Ret ys \<and> set ys \<subseteq> set xs)"
  using assms
proof (induction xs)
  case (Cons x xs)
  have c: "cloneValue x = x" using Cons.prems(2) by simp
  consider "t" "test x = Timeout" | b where "test x = Ret b" using Cons.prems(1) [of x] by auto
  then show ?case
  proof cases
    case 2
    from Cons consider "t" "keepRecords test xs = Timeout"
      | ys where "keepRecords test xs = Ret ys" "set ys \<subseteq> set xs"
      by (metis list.set_intros(2))
    then show ?thesis using 2 c by cases auto
  qed simp
qed simp

lemma textEquals_total:
  assumes "textAt x position = Ret s" "validString s" "validString key"
  shows "textEquals position key x = Ret (s = key)"
proof -
  have "runes s = runes key \<longleftrightarrow> s = key" using assms(2,3) encode_runes by metis
  then show ?thesis using assms by (simp add: textEquals_def CompareOrdinalText_valid compareLists_eq_0)
qed

lemma recordListSchema_Some:
  "recordListSchema t = Some schema \<Longrightarrow>
     tKind t = TypeList \<and> (\<exists>el. tList t = Some el \<and> tKind el = TypeRecord \<and> tRecord el = Some schema)"
  by (auto simp: recordListSchema_def split: type_kind.splits option.splits if_splits)

lemma safe_listFind:
  assumes r: "ready t fns D ev ps vs e" and k: "exKind e = ExprListFindByText"
  shows "safe t vs (evalListFind ev e) (produces (exType e))"
proof -
  note v = ready_valid [OF r]
  from v(2) k obtain x i nm pos q p schema where u:
      "exListFind e = Some (ListByText (Some x) i nm pos (Some q))" "tKind (exType e) = TypeOptional"
      "tOptional (exType e) = Some p" "validateExpr x ps = Ret ()" "validateExpr q ps = Ret ()"
      "recordListSchema (exType x) = Some schema" "TypeEqual (the (tList (exType x))) p"
      "TypeEqual (exType q) textType" "validateTextField schema pos nm i = Ret ()"
    by (auto simp: validateStep_def validateListFind_def split: payload_splits type_kind.splits option.splits)
  have m: "x \<in> set (children e)" "q \<in> set (children e)"
    using u k by (simp_all add: set_children expressionChildren_def)
  from recordListSchema_Some [OF u(6)] obtain el where el: "tKind (exType x) = TypeList"
      "tList (exType x) = Some el" "tKind el = TypeRecord" "tRecord el = Some schema" by blast
  have elt: "validateType el = Ret ()"
    using list_element [OF validateExpr_type [OF u(4)] el(1)] el(2) by (metis option.inject)
  have n: "tKind (exType x) \<noteq> TypeResult" "tKind (exType q) \<noteq> TypeResult"
    using el(1) textType_fields [OF u(8)] by simp_all
  have body: "safe t vs (checked a (checked b
      (bindE (liftR (findRecord (textEquals pos (vString b)) (elems (vList a)))) (\<lambda>found.
        let opt = optionalValue (exType e) found in checked opt (okE (cloneOptionalValue opt))))))
    (produces (exType e))" if a: "conforms a (exType x)" and b: "conforms b (exType q)" for a b
  proof -
    obtain xs where xs: "vList a = Some xs" "\<And>z. z \<in> set xs \<Longrightarrow> conforms z el"
      using conforms_list [OF el(1,2) a] by metis
    have "\<exists>y. findRecord (textEquals pos (vString b)) xs = Ret y \<and> (\<forall>z. y = Some z \<longrightarrow> z \<in> set xs)"
    proof (rule findRecord_total)
      fix z assume z: "z \<in> set xs"
      show "cloneValue z = z" using cloneValue_id [OF xs(2) [OF z] elt] .
      show "\<exists>c. textEquals pos (vString b) z = Ret c"
        using textAt_valid [OF u(9) el(3,4) xs(2) [OF z]] textEquals_total conforms_text [OF b u(8)] by metis
    qed
    then obtain y where y: "findRecord (textEquals pos (vString b)) xs = Ret y"
        "\<And>z. y = Some z \<Longrightarrow> conforms z p"
      using xs(2) conforms_equal u(7) el(2) by (metis option.sel)
    then show ?thesis
      using xs(1) by (intro safe_checked conforms_checked [OF a] conforms_checked [OF b] safe_liftR_bind
          safe_optionalResult(1) [OF v(1) u(2,3)]) auto
  qed
  show ?thesis
    unfolding evalListFind_def u(1)
    by (intro safe_withPtr [OF refl])
      (auto intro!: safe_operand [OF r m(1) u(4) n(1)] safe_operand [OF r m(2) u(5) n(2)] body)
qed


section \<open>Filters\<close>

lemma safe_filteredList:
  assumes "validateType typ = Ret ()" "tKind typ = TypeList" "tList typ = Some el"
    "\<And>x. x \<in> set xs \<Longrightarrow> conforms x el"
    "\<And>x. x \<in> set xs \<Longrightarrow> (t \<and> test x = Timeout) \<or> (\<exists>b. test x = Ret b)"
  shows "safe t vs (filteredList typ test xs) (produces typ)"
proof -
  have elt: "validateType el = Ret ()"
    using list_element [OF assms(1,2)] assms(3) by (metis option.inject)
  from keepRecords_total [of xs t test] assms(4,5) cloneValue_id [OF _ elt]
  consider "t" "keepRecords test xs = Timeout"
    | ys where "keepRecords test xs = Ret ys" "set ys \<subseteq> set xs" by blast
  then show ?thesis
  proof cases
    case 1
    then show ?thesis by (auto simp: filteredList_def safe_def bindE_def liftR_def)
  next
    case 2
    then show ?thesis
      unfolding filteredList_def using assms(4)
      by (intro safe_liftR_bind [OF 2(1)] safe_listResult(1) [OF assms(1-3)]) auto
  qed
qed

text \<open>What the checks of a filter or a sort by text give.\<close>

lemma recordListResult_element:
  assumes "recordListResult typ u = Ret schema" "validateType typ = Ret ()"
  obtains el where "tKind typ = TypeList" "tList typ = Some el" "validateType el = Ret ()"
    "\<And>x. conforms x el \<Longrightarrow> \<exists>el'. conforms x el' \<and> tKind el' = TypeRecord \<and> tRecord el' = Some schema"
    "TypeEqual u typ"
proof -
  from assms(1) have u: "recordListSchema u = Some schema" "TypeEqual u typ"
    by (auto simp: recordListResult_def split: option.splits if_splits)
  from recordListSchema_Some [OF u(1)] obtain el' where el': "tKind u = TypeList" "tList u = Some el'"
      "tKind el' = TypeRecord" "tRecord el' = Some schema" by blast
  have k: "tKind typ = TypeList" using TypeEqual_kind [OF u(2)] el'(1) by simp
  obtain el where el: "tList typ = Some el" "validateType el = Ret ()"
    using list_element [OF assms(2) k] by metis
  have "TypeEqual el' el" using TypeEqual_fields [OF u(2)] el(1) el'(2) by (auto simp: opt_invs)
  with el'(3,4) have "\<exists>s. conforms x s \<and> tKind s = TypeRecord \<and> tRecord s = Some schema"
    if "conforms x el" for x
    using that conforms_equal TypeEqual_sym(1) by blast
  with k el u(2) that show thesis by blast
qed

lemma filterByText_checked:
  assumes "validateFilterByText validateExpr fl typ ps = Ret ()"
  obtains x i nm pos q el where "fl = Some (ListByText (Some x) i nm pos (Some q))"
    "validateExpr x ps = Ret ()" "validateExpr q ps = Ret ()" "TypeEqual (exType x) typ"
    "TypeEqual (exType q) textType" "tKind typ = TypeList" "tList typ = Some el"
    "\<forall>z. conforms z el \<longrightarrow> (\<exists>s. textAt z pos = Ret s \<and> validString s)"
proof -
  from assms obtain x i nm pos q schema where u: "fl = Some (ListByText (Some x) i nm pos (Some q))"
      "validateExpr x ps = Ret ()" "validateExpr q ps = Ret ()" "validateType typ = Ret ()"
      "recordListResult typ (exType x) = Ret schema" "TypeEqual (exType q) textType"
      "validateTextField schema pos nm i = Ret ()"
    by (auto simp: validateFilterByText_def split: payload_splits)
  from recordListResult_element [OF u(5,4)] obtain el where el: "tKind typ = TypeList"
      "tList typ = Some el" "TypeEqual (exType x) typ"
      "\<And>x. conforms x el \<Longrightarrow> \<exists>el'. conforms x el' \<and> tKind el' = TypeRecord \<and> tRecord el' = Some schema"
    by metis
  have "\<exists>s. textAt z pos = Ret s \<and> validString s" if "conforms z el" for z
    using textAt_valid [OF u(7)] el(4) [OF that] by metis
  with u el that show thesis by blast
qed

text \<open>The two filters by one field, for any total test.\<close>

lemma safe_filterByText:
  assumes r: "ready t fns D ev ps vs e"
    and fl: "validateFilterByText validateExpr fl (exType e) ps = Ret ()"
    and m: "\<And>x i nm pos q. fl = Some (ListByText (Some x) i nm pos (Some q)) \<Longrightarrow>
      x \<in> set (children e) \<and> q \<in> set (children e)"
    and total: "\<And>z pos s q. textAt z pos = Ret s \<Longrightarrow> validString s \<Longrightarrow> validString q \<Longrightarrow>
      \<exists>b. test pos q z = Ret b"
  shows "safe t vs (withPtr fl (\<lambda>p. operand ev (lbValues p) (\<lambda>xs. operand ev (lbKey p) (\<lambda>key.
      checked xs (checked key (filteredList (exType e) (test (lbPosition p) (vString key))
        (elems (vList xs)))))))) (produces (exType e))"
proof -
  note v = ready_valid [OF r]
  from fl obtain x i nm pos q el where u: "fl = Some (ListByText (Some x) i nm pos (Some q))"
      "validateExpr x ps = Ret ()" "validateExpr q ps = Ret ()" "TypeEqual (exType x) (exType e)"
      "TypeEqual (exType q) textType" "tKind (exType e) = TypeList" "tList (exType e) = Some el"
      "\<forall>z. conforms z el \<longrightarrow> (\<exists>s. textAt z pos = Ret s \<and> validString s)"
    by (rule filterByText_checked)
  have n: "tKind (exType x) \<noteq> TypeResult" "tKind (exType q) \<noteq> TypeResult"
    using u(6) TypeEqual_kind [OF u(4)] textType_fields [OF u(5)] by simp_all
  have body: "safe t vs (checked a (checked b (filteredList (exType e) (test pos (vString b))
      (elems (vList a))))) (produces (exType e))"
    if a: "conforms a (exType x)" and b: "conforms b (exType q)" for a b
  proof -
    have "conforms a (exType e)" using a u(4) conforms_equal by blast
    from conforms_list [OF u(6,7) this] obtain xs where xs: "vList a = Some xs"
        "\<And>z. z \<in> set xs \<Longrightarrow> conforms z el" by metis
    have "\<exists>c. test pos (vString b) z = Ret c" if "z \<in> set xs" for z
      using u(8) xs(2) [OF that] total conforms_text [OF b u(5)] by blast
    then show ?thesis
      using xs by (intro safe_checked conforms_checked [OF a] conforms_checked [OF b]
          safe_filteredList [OF v(1) u(6,7)]) auto
  qed
  show ?thesis
    unfolding u(1)
    by (intro safe_withPtr [OF refl]) (auto intro!: safe_operand [OF r _ u(2) n(1)]
        safe_operand [OF r _ u(3) n(2)] body simp: m [OF u(1)])
qed

lemma safe_listFilter:
  assumes r: "ready t fns D ev ps vs e" and k: "exKind e = ExprListFilterByText"
  shows "safe t vs (evalListFilter ev e) (produces (exType e))"
proof -
  have fl: "validateFilterByText validateExpr (exListFilter e) (exType e) ps = Ret ()"
    using ready_valid(2) [OF r] k by (simp add: validateStep_def validateListFilter_def)
  show ?thesis
    unfolding evalListFilter_def
    by (rule safe_filterByText [OF r fl])
      (use k textEquals_total in \<open>auto simp: set_children expressionChildren_def\<close>)
qed

lemma safe_listFilterContains:
  assumes r: "ready t fns D ev ps vs e" and k: "exKind e = ExprListFilterContainsCaseFolded"
    and tb: "foldTableOK table"
  shows "safe t vs (evalListFilterContains table ev e) (produces (exType e))"
proof -
  have fl: "validateFilterByText validateExpr (exListFilterContains e) (exType e) ps = Ret ()"
    using ready_valid(2) [OF r] k by (simp add: validateStep_def validateListFilterContains_def)
  show ?thesis
    unfolding evalListFilterContains_def
    by (rule safe_filterByText [OF r fl])
      (use k ContainsCaseFoldedText_valid [OF tb] in
        \<open>auto simp: set_children expressionChildren_def textContains_def\<close>)
qed


lemma validateSelectors_each:
  "validateSelectors schema seen ss = Ret () \<Longrightarrow> s \<in> set ss \<Longrightarrow>
     validateTextField schema (lsPosition s) (lsName s) (lsField s) = Ret ()"
  by (induction ss arbitrary: seen) auto

lemma textsAt_total:
  assumes "\<And>s. s \<in> set ss \<Longrightarrow> \<exists>u. textAt z (lsPosition s) = Ret u \<and> validString u"
  shows "\<exists>us. textsAt z ss = Ret us \<and> length us = length ss \<and> (\<forall>u \<in> set us. validString u)"
  using assms
proof (induction ss)
  case (Cons s ss)
  then obtain u us where "textAt z (lsPosition s) = Ret u" "validString u" "textsAt z ss = Ret us"
      "length us = length ss" "\<forall>u \<in> set us. validString u"
    by (metis list.set_intros(1,2))
  then show ?case by simp
qed simp

lemma ContainsJoinedCaseFoldedText_total:
  assumes "2 \<le> length us" "\<forall>u \<in> set us. validString u" "validString q"
  shows "\<exists>b. ContainsJoinedCaseFoldedText table us q = Ret b"
  using assms TrimText_valid [OF assms(3)] by (auto simp: ContainsJoinedCaseFoldedText_def)

lemma safe_listFilterJoined:
  assumes r: "ready t fns D ev ps vs e" and k: "exKind e = ExprListFilterJoinedContainsCaseFolded"
  shows "safe t vs (evalListFilterJoined table ev e) (produces (exType e))"
proof -
  note v = ready_valid [OF r]
  from v(2) k obtain x ss q schema where u: "exListFilterJoined e = Some (ListJoined (Some x) ss (Some q))"
      "2 \<le> length ss" "validateExpr x ps = Ret ()" "validateExpr q ps = Ret ()"
      "recordListResult (exType e) (exType x) = Ret schema" "TypeEqual (exType q) textType"
      "validateSelectors schema [] ss = Ret ()"
    by (auto simp: validateStep_def validateListFilterJoined_def split: payload_splits)
  have m: "x \<in> set (children e)" "q \<in> set (children e)"
    using u k by (simp_all add: set_children expressionChildren_def)
  from recordListResult_element [OF u(5) v(1)] obtain el where el: "tKind (exType e) = TypeList"
      "tList (exType e) = Some el" "TypeEqual (exType x) (exType e)"
      "\<And>x. conforms x el \<Longrightarrow> \<exists>el'. conforms x el' \<and> tKind el' = TypeRecord \<and> tRecord el' = Some schema"
    by metis
  have n: "tKind (exType x) \<noteq> TypeResult" "tKind (exType q) \<noteq> TypeResult"
    using el(1) TypeEqual_kind [OF el(3)] textType_fields [OF u(6)] by simp_all
  have body: "safe t vs (checked a (checked b (filteredList (exType e)
      (joinedContains table ss (vString b)) (elems (vList a))))) (produces (exType e))"
    if a: "conforms a (exType x)" and b: "conforms b (exType q)" for a b
  proof -
    have "conforms a (exType e)" using a el(3) conforms_equal by blast
    from conforms_list [OF el(1,2) this] obtain xs where xs: "vList a = Some xs"
        "\<And>z. z \<in> set xs \<Longrightarrow> conforms z el" by metis
    have "\<exists>c. joinedContains table ss (vString b) z = Ret c" if z: "z \<in> set xs" for z
    proof -
      have "\<exists>t. textAt z (lsPosition s) = Ret t \<and> validString t" if "s \<in> set ss" for s
        using textAt_valid [OF validateSelectors_each [OF u(7) that]] el(4) [OF xs(2) [OF z]] by metis
      from textsAt_total [OF this] obtain us where "textsAt z ss = Ret us" "length us = length ss"
          "\<forall>u \<in> set us. validString u" by blast
      then show ?thesis
        using ContainsJoinedCaseFoldedText_total [of us "vString b"] u(2) conforms_text [OF b u(6)]
        by (simp add: joinedContains_def)
    qed
    then show ?thesis
      using xs by (intro safe_checked conforms_checked [OF a] conforms_checked [OF b]
          safe_filteredList [OF v(1) el(1,2)]) auto
  qed
  show ?thesis
    unfolding evalListFilterJoined_def u(1)
    by (intro safe_withPtr [OF refl]) (auto intro!: safe_operand [OF r m(1) u(3) n(1)]
        safe_operand [OF r m(2) u(4) n(2)] body)
qed

section \<open>Sorts\<close>

text \<open>
  The order behind the comparison of the sorts: the first key on which the scalars of the two
  texts differ decides, in the direction of that key.
\<close>

definition keyText :: "int \<Rightarrow> core_value \<Rightarrow> nat list" where
  "keyText position rec = runes (vString (elems (vRecord rec) ! nat position))"

definition before :: "bool \<Rightarrow> nat list \<Rightarrow> nat list \<Rightarrow> bool" where
  "before descending s u = (if descending then compareLists u s < 0 else compareLists s u < 0)"

lemma before_total: "s \<noteq> u \<Longrightarrow> before d s u \<or> before d u s"
  using compareLists_swap [of s u] compareLists_eq_0 [of s u] by (auto simp: before_def)

lemma before_asym: "before d s u \<Longrightarrow> \<not> before d u s"
  using compareLists_swap [of s u] by (auto simp: before_def)

lemma before_trans: "before d s u \<Longrightarrow> before d u v \<Longrightarrow> before d s v"
  using compareLists_trans by (auto simp: before_def split: if_splits)

fun lessKeys :: "(int \<times> bool) list \<Rightarrow> core_value \<Rightarrow> core_value \<Rightarrow> bool" where
  "lessKeys [] x y = False"
| "lessKeys ((position, descending) # keys) x y =
     (if keyText position x \<noteq> keyText position y
      then before descending (keyText position x) (keyText position y)
      else lessKeys keys x y)"

lemma lessKeys_asym: "lessKeys keys x y \<Longrightarrow> \<not> lessKeys keys y x"
  by (induction keys x y rule: lessKeys.induct) (auto dest: before_asym split: if_splits)

lemma lessKeys_split: "lessKeys keys x z \<Longrightarrow> lessKeys keys x y \<or> lessKeys keys y z"
proof (induction keys)
  case (Cons key keys)
  obtain p d where k: "key = (p, d)" by (cases key)
  show ?case
  proof (cases "keyText p x = keyText p y \<or> keyText p y = keyText p z")
    case True
    then show ?thesis using Cons by (auto simp: k split: if_splits)
  next
    case False
    then have "before d (keyText p x) (keyText p y) \<or> before d (keyText p y) (keyText p x)"
        "before d (keyText p y) (keyText p z) \<or> before d (keyText p z) (keyText p y)"
      using before_total by blast+
    moreover have "keyText p x = keyText p z \<or> before d (keyText p x) (keyText p z)"
      using Cons.prems by (auto simp: k split: if_splits)
    ultimately have "before d (keyText p x) (keyText p y) \<or> before d (keyText p y) (keyText p z)"
      using before_trans by metis
    with False show ?thesis by (simp add: k)
  qed
qed simp

interpretation keyOrder: weak_less "lessKeys keys" for keys
proof
  show irrefl: "\<not> lessKeys keys x x" for x using lessKeys_asym by blast
  show "lessKeys keys x y \<Longrightarrow> lessKeys keys y z \<Longrightarrow> lessKeys keys x z" for x y z
    using lessKeys_split [of keys x y z] lessKeys_asym by blast
  show "lessKeys keys x z \<Longrightarrow> lessKeys keys x y \<or> lessKeys keys y z" for x y z
    by (rule lessKeys_split)
qed

text \<open>The comparison of the code computes it on records whose keys are valid text.\<close>

lemma textAt_keyText:
  "textAt x position = Ret s \<Longrightarrow> validString s \<Longrightarrow> runes s = keyText position x"
  by (auto simp: textAt_def keyText_def index_def split: if_splits)

lemma lessBy_lessKeys:
  assumes "\<And>p d. (p, d) \<in> set keys \<Longrightarrow> (\<exists>s. textAt x p = Ret s \<and> validString s)
    \<and> (\<exists>s. textAt y p = Ret s \<and> validString s)"
  shows "lessBy keys x y = Ret (lessKeys keys x y)"
  using assms
proof (induction keys)
  case (Cons key keys)
  obtain p d where k: "key = (p, d)" by (cases key)
  from Cons.prems [of p d] k obtain s u where su: "textAt x p = Ret s" "validString s"
      "textAt y p = Ret u" "validString u" by auto
  have "lessBy keys x y = Ret (lessKeys keys x y)"
    using Cons.prems by (intro Cons.IH) (meson list.set_intros(2))
  then show ?case
    using su CompareOrdinalText_valid [OF su(2,4)] textAt_keyText [OF su(1,2)] textAt_keyText [OF su(3,4)]
      compareLists_swap [of "keyText p y" "keyText p x"]
    by (auto simp: k before_def compareLists_eq_0)
qed simp

lemma sliceStable_lessBy:
  assumes "\<And>x p d. x \<in> set xs \<Longrightarrow> (p, d) \<in> set keys \<Longrightarrow> \<exists>s. textAt x p = Ret s \<and> validString s"
  obtains ys where "sliceStable (lessBy keys) xs = Ret ys" "keyOrder.stableSorting keys xs ys"
proof -
  have "sliceStable (lessBy keys) xs = sliceStable (\<lambda>a b. Ret (lessKeys keys a b)) xs"
    using assms by (intro sliceStable_agree lessBy_lessKeys) blast
  with keyOrder.sliceStable_sorts [of keys xs] that show thesis by auto
qed

lemma safe_sort:
  assumes r: "ready t fns D ev ps vs e" and m: "x \<in> set (children e)" and x: "validateExpr x ps = Ret ()"
    and l: "recordListResult (exType e) (exType x) = Ret schema"
    and keys: "\<And>p d. (p, d) \<in> set keys \<Longrightarrow> \<exists>nm i. validateTextField schema p nm i = Ret ()"
  shows "safe t vs (evalSort ev (Some x) keys) (produces (exType e))"
proof -
  note v = ready_valid [OF r]
  from recordListResult_element [OF l v(1)] obtain el where el: "tKind (exType e) = TypeList"
      "tList (exType e) = Some el" "TypeEqual (exType x) (exType e)"
      "\<And>x. conforms x el \<Longrightarrow> \<exists>el'. conforms x el' \<and> tKind el' = TypeRecord \<and> tRecord el' = Some schema"
    by metis
  have n: "tKind (exType x) \<noteq> TypeResult" using el(1) TypeEqual_kind [OF el(3)] by simp
  have body: "safe t vs (checked a (let copied = cloneListValue a in
      bindE (liftR (sliceStable (lessBy keys) (elems (vList copied)))) (\<lambda>sorted.
        let v = setList (if vList copied = None then None else Some sorted) copied
        in checked v (okE (cloneListValue v))))) (produces (exType e))"
    if "conforms a (exType x)" for a
  proof -
    have a: "conforms a (exType e)" using that el(3) conforms_equal by blast
    from conforms_list [OF el(1,2) a] obtain xs where xs: "vList a = Some xs"
        "\<And>z. z \<in> set xs \<Longrightarrow> conforms z el" by metis
    have "\<exists>s. textAt z p = Ret s \<and> validString s" if "z \<in> set xs" "(p, d) \<in> set keys" for z p d
      using keys [OF that(2)] textAt_valid el(4) [OF xs(2) [OF that(1)]] by metis
    then obtain ys where ys: "sliceStable (lessBy keys) xs = Ret ys"
        "keyOrder.stableSorting keys xs ys"
      by (rule sliceStable_lessBy)
    have "set ys = set xs" using ys(2) set_mset_mset unfolding keyOrder.stableSorting_def by metis
    then have c: "conforms (setList (Some ys) a) (exType e)"
      using xs(2) by (intro conforms_setList [OF a v(1) el(1,2)]) simp
    show ?thesis
      using cloneListValue_id [OF a v(1)] cloneListValue_id [OF c v(1)] ys(1) xs(1) el(1)
      by (auto simp: Let_def intro!: safe_checked conforms_checked [OF a] conforms_checked [OF c]
          safe_liftR_bind safe_okE produces_okOutcome c)
  qed
  show ?thesis
    unfolding evalSort_def by (intro safe_operand [OF r m x n] body)
qed


lemma recordListResult_positions:
  assumes "validateSelectors schema [] ss = Ret ()" "(p, d) \<in> (\<lambda>s. (lsPosition s, dir s)) ` set ss"
  shows "\<exists>nm i. validateTextField schema p nm i = Ret ()"
  using assms validateSelectors_each by fastforce

lemma sort_text_checked:
  assumes "validateSortText validateExpr (Some (ListSortByOrdinalText (Some x) i nm p)) typ ps = Ret ()"
  obtains schema where "validateExpr x ps = Ret ()" "recordListResult typ (exType x) = Ret schema"
    "validateTextField schema p nm i = Ret ()"
  using assms by (auto simp: validateSortText_def)

lemma sort_texts_checked:
  assumes "validateSortTexts validateExpr (Some (ListSortByOrdinalTexts (Some x) ss)) typ ps = Ret ()"
  obtains schema where "validateExpr x ps = Ret ()" "recordListResult typ (exType x) = Ret schema"
    "validateSelectors schema [] ss = Ret ()"
  using assms by (auto simp: validateSortTexts_def)

lemma safe_sortText:
  assumes r: "ready t fns D ev ps vs e" and k: "exKind e = ExprListSortByOrdinalText"
  shows "safe t vs (evalSortText ev e) (produces (exType e))"
proof -
  from ready_valid(2) [OF r] k obtain x i nm p where
      u: "exSortText e = Some (ListSortByOrdinalText (Some x) i nm p)"
    and c: "validateSortText validateExpr (Some (ListSortByOrdinalText (Some x) i nm p)) (exType e) ps = Ret ()"
    by (auto simp: validateStep_def validateSortText_def split: payload_splits)
  have m: "x \<in> set (children e)" using u k by (simp add: set_children expressionChildren_def)
  from sort_text_checked [OF c] obtain schema where c': "validateExpr x ps = Ret ()"
      "recordListResult (exType e) (exType x) = Ret schema" "validateTextField schema p nm i = Ret ()" .
  show ?thesis
    unfolding evalSortText_def u
    by (intro safe_withPtr [OF refl], simp, rule safe_sort [OF r m c'(1,2)]) (use c'(3) in auto)
qed

lemma safe_sortTexts:
  assumes r: "ready t fns D ev ps vs e" and k: "exKind e = ExprListSortByOrdinalTexts"
  shows "safe t vs (evalSortTexts ev e) (produces (exType e))"
proof -
  from ready_valid(2) [OF r] k obtain x ss where
      u: "exSortTexts e = Some (ListSortByOrdinalTexts (Some x) ss)"
    and c: "validateSortTexts validateExpr (Some (ListSortByOrdinalTexts (Some x) ss)) (exType e) ps = Ret ()"
    by (auto simp: validateStep_def validateSortTexts_def split: payload_splits)
  have m: "x \<in> set (children e)" using u k by (simp add: set_children expressionChildren_def)
  from sort_texts_checked [OF c] obtain schema where c': "validateExpr x ps = Ret ()"
      "recordListResult (exType e) (exType x) = Ret schema" "validateSelectors schema [] ss = Ret ()" .
  show ?thesis
    unfolding evalSortTexts_def u
    by (intro safe_withPtr [OF refl], simp, rule safe_sort [OF r m c'(1,2)])
      (auto dest: validateSelectors_each [OF c'(3)])
qed

lemma safe_sortDirections:
  assumes r: "ready t fns D ev ps vs e" and k: "exKind e = ExprListSortByOrdinalDirections"
  shows "safe t vs (evalSortDirections ev e) (produces (exType e))"
proof -
  from ready_valid(2) [OF r] k obtain x ss where
      u: "exSortDirections e = Some (ListSortByOrdinalDirections (Some x) ss)"
    and c: "(case map fst ss of
        [s] \<Rightarrow> validateSortText validateExpr
          (Some (ListSortByOrdinalText (Some x) (lsField s) (lsName s) (lsPosition s))) (exType e) ps
      | plain \<Rightarrow> validateSortTexts validateExpr (Some (ListSortByOrdinalTexts (Some x) plain)) (exType e) ps)
      = Ret ()"
    by (auto simp: validateStep_def validateSortDirections_def split: payload_splits)
  have m: "x \<in> set (children e)" using u k by (simp add: set_children expressionChildren_def)
  obtain schema where c': "validateExpr x ps = Ret ()" "recordListResult (exType e) (exType x) = Ret schema"
      "\<forall>s \<in> set (map fst ss). \<exists>nm i. validateTextField schema (lsPosition s) nm i = Ret ()"
  proof (cases "\<exists>s. map fst ss = [s]")
    case True
    then obtain s where s: "map fst ss = [s]" by (elim exE)
    from c s obtain schema where "validateExpr x ps = Ret ()" "recordListResult (exType e) (exType x) = Ret schema"
        "validateTextField schema (lsPosition s) (lsName s) (lsField s) = Ret ()"
      by (auto elim: sort_text_checked)
    with s that show thesis by auto
  next
    case False
    then have "validateSortTexts validateExpr (Some (ListSortByOrdinalTexts (Some x) (map fst ss))) (exType e) ps
        = Ret ()"
      using c by (auto split: list.splits)
    from sort_texts_checked [OF this] obtain schema where "validateExpr x ps = Ret ()"
        "recordListResult (exType e) (exType x) = Ret schema" "validateSelectors schema [] (map fst ss) = Ret ()" .
    with that validateSelectors_each show thesis by blast
  qed
  show ?thesis
    unfolding evalSortDirections_def u
    by (intro safe_withPtr [OF refl], simp, rule safe_sort [OF r m c'(1,2)]) (use c'(3) in force)
qed

section \<open>Named predicate filters\<close>

lemma safe_predicateArguments:
  assumes r: "ready t fns D ev ps vs e"
    and c: "\<And>a. Some a \<in> set args \<Longrightarrow> a \<in> set (children e) \<and> validateExpr a ps = Ret ()"
    and mt: "list_all2 argumentMatches args params" and prim: "\<And>q. q \<in> set params \<Longrightarrow> tKind (paType q) = TypePrimitive"
  shows "safe t vs (evalPredicateArguments ev args)
    (\<lambda>out. \<exists>ws. out = Inr ws \<and> list_all2 (\<lambda>w q. conforms w (paType q) \<and> cloneValue w = w) ws params)"
  using c mt prim
proof (induction args arbitrary: params)
  case Nil
  then show ?case by (auto intro: safe_retE)
next
  case (Cons p args)
  from Cons.prems(2) obtain a q qs where a: "p = Some a" "params = q # qs"
      "TypeEqual (exType a) (paType q)" "list_all2 argumentMatches args qs"
    by (auto simp: list_all2_Cons1 dest!: argumentMatches_Some)
  have va: "validateExpr a ps = Ret ()" "a \<in> set (children e)" using Cons.prems(1) a(1) by simp_all
  have n: "tKind (exType a) \<noteq> TypeResult" using TypeEqual_kind [OF a(3)] Cons.prems(3) a(2) by simp
  have rest: "safe t vs (evalPredicateArguments ev args)
      (\<lambda>out. \<exists>ws. out = Inr ws \<and> list_all2 (\<lambda>w q. conforms w (paType q) \<and> cloneValue w = w) ws qs)"
    using Cons.prems a(2,4) by (intro Cons.IH) auto
  show ?case
    unfolding evalPredicateArguments.simps a(1)
  proof (intro safe_withPtr [OF refl] safe_bindE [OF ready_child [OF r va(2,1)]])
    fix out assume "produces (exType a) out"
    from produces_value [OF this n] obtain w where w: "out = okOutcome w" "conforms w (exType a)" .
    have "conforms w (paType q)" "cloneValue w = w"
      using w(2) a(3) conforms_equal cloneValue_id [OF w(2) validateExpr_type [OF va(1)]] by blast+
    then show "safe t vs (if \<not> oOK out then retE (Inl out)
        else bindE (evalPredicateArguments ev args) (\<lambda>rest.
          case rest of Inl early \<Rightarrow> retE (Inl early) | Inr vals \<Rightarrow> retE (Inr (cloneValue (oValue out) # vals))))
      (\<lambda>out. \<exists>ws. out = Inr ws \<and> list_all2 (\<lambda>w q. conforms w (paType q) \<and> cloneValue w = w) ws params)"
      using w a(2) by (auto intro!: safe_bindE [OF rest] safe_retE)
  qed
qed

lemma predicateHolds_total:
  assumes "returns t (ev (fnBody g)) boolType (ownedFrame (cloneValue x # map cloneValue ws))"
  shows "(t \<and> predicateHolds ev g ws x = Timeout) \<or> (\<exists>b. predicateHolds ev g ws x = Ret b)"
  using assms unfolding returns_def
proof (elim disjE exE conjE)
  fix r f' assume "ev (fnBody g) (ownedFrame (cloneValue x # map cloneValue ws)) = (Ret r, f')" "produces boolType r"
  then show ?thesis
    by (auto simp: predicateHolds_def conforms_def elim!: produces_value)
qed (auto simp: predicateHolds_def)

lemma returns_equal: "returns t m typ f \<Longrightarrow> TypeEqual typ typ' \<Longrightarrow> returns t m typ' f"
  unfolding returns_def using produces_equal by blast

lemma list_all2_conforms_valid:
  "list_all2 (\<lambda>w q. conforms w (paType q) \<and> cloneValue w = w) ws params \<Longrightarrow>
     checkAll validateValue ws = Ret () \<and> map cloneValue ws = ws"
  by (induction ws params rule: list_all2_induct) (auto simp: conforms_def)

lemma safe_filterPredicate:
  assumes r: "ready t fns D ev ps vs e" and k: "exKind e = ExprListFilterPredicate"
  shows "safe t vs (evalFilterPredicate ev fns e) (produces (exType e))"
proof -
  note v = ready_valid [OF r]
  from v(2) k obtain x i nm args where u: "exListFilterPredicate e = Some (ListFilterPredicate (Some x) i nm args)"
      "isListType (exType e)" "validateExpr x ps = Ret ()" "TypeEqual (exType x) (exType e)"
      "validateOperands validateExpr ps args = Ret ()"
    by (auto simp: validateStep_def validateFilterPredicate_def split: payload_splits)
  have kd: "tKind (exType e) = TypeList" using u(2) by (simp add: isListType_def)
  from ready_here(6) [OF r] k u(1) obtain g row params el where g: "lookup fns i = Some g"
      "isNamedPredicateFunction g" "fnParameters g = row # params" "tList (exType e) = Some el"
      "TypeEqual (paType row) el" "list_all2 argumentMatches args params"
    by (auto simp: filterOK_def)
  from g(1) obtain table where tb: "fns = Some table" "table (functionKey i) = Some g"
    by (auto simp: lookup_def split: option.splits)
  have prim: "\<forall>q \<in> set params. tKind (paType q) = TypePrimitive" "TypeEqual (fnReturnType g) boolType"
    using g(2,3) by (auto simp: isNamedPredicateFunction_def list_all_iff split: list.splits)
  have elt: "validateType el = Ret ()"
    using list_element [OF v(1) kd] g(4) by (metis option.inject)
  have m: "x \<in> set (children e)" using u k by (simp add: set_children expressionChildren_def)
  have n: "tKind (exType x) \<noteq> TypeResult" using kd TypeEqual_kind [OF u(4)] by simp
  have args: "safe t vs (evalPredicateArguments ev args) (\<lambda>out. \<exists>ws. out = Inr ws
      \<and> list_all2 (\<lambda>w q. conforms w (paType q) \<and> cloneValue w = w) ws params)"
    using u(1,5) k prim(1)
    by (intro safe_predicateArguments [OF r _ g(6)])
      (auto simp: set_children expressionChildren_def validateOperands_def)
  have enter: "entersFunction fns e g" using k u(1) g(1) by (auto simp: entersFunction_def)
  have body: "safe t vs (checked a (bindE (liftR (checkAll validateValue ws)) (\<lambda>_.
      filteredList (exType e) (predicateHolds ev g ws) (elems (vList a))))) (produces (exType e))"
    if a: "conforms a (exType x)"
      and ws: "list_all2 (\<lambda>w q. conforms w (paType q) \<and> cloneValue w = w) ws params" for a ws
  proof -
    have "conforms a (exType e)" using a u(4) conforms_equal by blast
    from conforms_list [OF kd g(4) this] obtain xs where xs: "vList a = Some xs"
        "\<And>z. z \<in> set xs \<Longrightarrow> conforms z el" by metis
    have "(t \<and> predicateHolds ev g ws z = Timeout) \<or> (\<exists>b. predicateHolds ev g ws z = Ret b)"
      if z: "z \<in> set xs" for z
    proof (rule predicateHolds_total)
      have "argumentsConform (cloneValue z # map cloneValue ws) g"
        using ws g(3,5) xs(2) [OF z] conforms_equal TypeEqual_sym(1) cloneValue_id [OF xs(2) [OF z] elt]
          list_all2_conforms_valid [OF ws]
        by (auto simp: argumentsConform_def elim!: list_all2_mono)
      then show "returns t (ev (fnBody g)) boolType (ownedFrame (cloneValue z # map cloneValue ws))"
        using r enter returns_equal [OF _ prim(2)] unfolding ready_def by blast
    qed
    then show ?thesis
      using xs list_all2_conforms_valid [OF ws]
      by (intro safe_checked conforms_checked [OF a] safe_liftR_bind safe_filteredList [OF v(1) kd g(4)]) auto
  qed
  show ?thesis
    unfolding evalFilterPredicate_def u(1) tb(1)
    by (auto simp: tb(2) intro!: safe_withPtr [OF refl] safe_operand [OF r m u(3) n] safe_bindE [OF args] body)
qed

end
