(* ===== verification/CoreSafetyResults.thy ===== *)
theory CoreSafetyResults
  imports CoreSafetyLists
begin

text \<open>
  Safety of results and of \<open>match\<close>, and the lemma that puts the kinds together: one step of
  the evaluator is safe on an expression whose operands and callees are.
\<close>

section \<open>Results\<close>

lemma bounded_parts:
  assumes "isBoundedValueResultType t" "validateType t = Ret ()"
  obtains s f where "tKind t = TypeResult" "tResult t = Some (s, f)" "validateType s = Ret ()"
    "validateType f = Ret ()" "tKind s \<noteq> TypeResult" "tKind f = TypePrimitive"
    "resultSuccessPayloadIsCanonicalZero (typedZero s)"
proof -
  have k: "tKind t = TypeResult"
    using assms(1) by (auto simp: isBoundedValueResultType_def isSnapshotResultType_def isTextResultType_def)
  from assms(2) k obtain s f where c: "t = resultOf s f" "isArithmeticResultType t \<or> isBoundedValueResultType t"
      "validateType s = Ret ()" "validateType f = Ret ()"
    by (rule validateType_result)
  then have r: "tResult t = Some (s, f)" "validateType s = Ret ()" "validateType f = Ret ()"
    by (simp_all add: resultOf_def)
  have parts: "tKind f = TypePrimitive \<and> (tKind s = TypeList \<or> tKind s = TypePrimitive \<and> tPrimitive s = PrimitiveString)"
    using assms(1) r(1) textType_fields [of s] textType_fields [of f]
    by (auto simp: isBoundedValueResultType_def isSnapshotResultType_def isTextResultType_def)
  then have "resultSuccessPayloadIsCanonicalZero (typedZero s)"
    by (auto simp: resultSuccessPayloadIsCanonicalZero_def typedZero_def)
  with k r parts show thesis by (intro that [of s f]) auto
qed

lemma safe_resultOK:
  assumes r: "ready t fns D ev ps vs e" and k: "exKind e = ExprResultOK"
  shows "safe t vs (evalResultOK ev e) (produces (exType e))"
proof -
  note v = ready_valid [OF r]
  from v(2) k obtain x where u: "exResultOK e = Some (Some x)" "isBoundedValueResultType (exType e)"
      "validateExpr x ps = Ret ()" "TypeEqual (exType x) (resultPart fst (exType e))"
    by (auto simp: validateStep_def validateResultOK_def validateResultOf_def split: option.splits)
  from bounded_parts [OF u(2) v(1)] obtain s f where t: "tKind (exType e) = TypeResult"
      "tResult (exType e) = Some (s, f)" "validateType s = Ret ()" "tKind s \<noteq> TypeResult" by metis
  have s: "TypeEqual (exType x) s" using u(4) t(2) by (simp add: resultPart_def)
  have m: "x \<in> set (children e)" using u k by (simp add: set_children expressionChildren_def)
  have n: "tKind (exType x) \<noteq> TypeResult" using TypeEqual_kind [OF s] t(4) by simp
  have "produces (exType e) (okOutcome (cloneValue a))" if a: "conforms a (exType x)" for a
  proof -
    have "conforms a s" using a s conforms_equal by blast
    with cloneValue_id [OF this t(3)] t(1,2) show ?thesis
      by (auto simp: produces_def resultConforms_def conforms_def)
  qed
  then show ?thesis
    unfolding evalResultOK_def u(1)
    by (intro safe_withPtr [OF refl] safe_operand [OF r m u(3) n]) (auto intro!: safe_checked conforms_checked safe_okE)
qed

lemma safe_resultErr:
  assumes r: "ready t fns D ev ps vs e" and k: "exKind e = ExprResultErr"
  shows "safe t vs (evalResultErr ev e) (produces (exType e))"
proof -
  note v = ready_valid [OF r]
  from v(2) k obtain x where u: "exResultErr e = Some (Some x)" "isBoundedValueResultType (exType e)"
      "validateExpr x ps = Ret ()" "TypeEqual (exType x) (resultPart snd (exType e))"
    by (auto simp: validateStep_def validateResultErr_def validateResultOf_def split: option.splits)
  from u(2) v(1) obtain s f where t: "tKind (exType e) = TypeResult"
      "tResult (exType e) = Some (s, f)" "validateType s = Ret ()" "validateType f = Ret ()"
      "tKind s \<noteq> TypeResult" "tKind f = TypePrimitive"
      "resultSuccessPayloadIsCanonicalZero (typedZero s)" by (rule bounded_parts)
  have f: "TypeEqual (exType x) f" using u(4) t(2) by (simp add: resultPart_def)
  have m: "x \<in> set (children e)" using u k by (simp add: set_children expressionChildren_def)
  have n: "tKind (exType x) \<noteq> TypeResult" using TypeEqual_kind [OF f] t(6) by simp
  have "produces (exType e) (Outcome False (typedZero s) NoArithmeticError (Some (cloneValue a)))"
    if a: "conforms a (exType x)" for a
  proof -
    have "conforms a f" using a f conforms_equal by blast
    with cloneValue_id [OF this t(4)] t(1,2,6,7) TypeEqual_refl [OF t(3)] show ?thesis
      by (auto simp: produces_def resultConforms_def)
  qed
  then show ?thesis
    unfolding evalResultErr_def u(1)
    by (intro safe_withPtr [OF refl] safe_operand [OF r m u(3) n])
      (auto simp: t(2) intro!: safe_checked conforms_checked safe_withPtr [OF refl] safe_retE)
qed

text \<open>A direct reference to a result.\<close>

lemma safe_directResult:
  assumes r: "ready t fns D ev ps vs e" and m: "c \<in> set (children e)" and c: "validateExpr c ps = Ret ()"
    and k: "exKind c = ExprReference" "tKind (exType c) = TypeResult" "tResult (exType c) = Some (s, f)"
  shows "safe t vs (directResultOperand (Some c)) (resultConforms s f)"
proof -
  from validateExpr_step [OF c] k(1) obtain i where i: "exParameter c = Some i" "0 \<le> i" "i < int (length ps)"
      "TypeEqual (exType c) (paType (ps ! nat i))"
    by (auto simp: validateStep_def validateReference_def split: option.splits)
  have "readsOK D c" using admissible_child [OF ready_valid(4) [OF r] m] by (auto simp: admissible_def)
  then have "D (nat i)" using k(1) i by (simp add: readsOK_def)
  then have v': "conforms (vs ! nat i) (paType (ps ! nat i))" "i < int (length vs)"
    using ready_valid(3) [OF r] i by (auto simp: fits_def)
  note v = conforms_equal [OF v'(1) TypeEqual_sym(1) [OF i(4)]] v'(2)
  from conforms_result [OF k(2,3) v(1)] obtain out where out: "vResult (vs ! nat i) = Some out"
      "resultConforms s f out" .
  have "cloneOutcome out = out"
    using resultConforms_clone_id [OF out(2) validateExpr_type [OF c] k(2,3)] .
  moreover have "validateValue (vs ! nat i) = Ret ()" using v(1) by (simp add: conforms_def)
  ultimately show ?thesis
    using k(1) i v(2) out by (auto simp: safe_def directResultOperand_def Let_def same_def)
qed

lemma safe_resultIsOK:
  assumes r: "ready t fns D ev ps vs e" and k: "exKind e = ExprResultIsOK"
  shows "safe t vs (evalResultIsOK e) (produces (exType e))"
proof -
  note v = ready_valid [OF r]
  from v(2) k obtain x where u: "exResultIsOK e = Some (Some x)" "TypeEqual (exType e) boolType"
      "validateExpr x ps = Ret ()" "isBoundedValueResultType (exType x)"
    by (auto simp: validateStep_def validateResultIsOK_def split: option.splits)
  have m: "x \<in> set (children e)" using u k by (simp add: set_children expressionChildren_def)
  have d: "exKind x = ExprReference" using ready_here(4) [OF r] k u(1) by (simp add: directResult_def)
  from bounded_parts [OF u(4) validateExpr_type [OF u(3)]] obtain s f where t: "tKind (exType x) = TypeResult"
      "tResult (exType x) = Some (s, f)" by metis
  show ?thesis
    unfolding evalResultIsOK_def u(1)
    by (intro safe_withPtr [OF refl] safe_bindE [OF safe_directResult [OF r m u(3) d t]] safe_okE
        produces_bool [OF v(1) u(2)])
qed

lemma result_or_checked:
  assumes "validateResultOr validateExpr part w typ ps = Ret ()"
  obtains x d where "w = Some (WithFallback (Some x) (Some d))" "validateExpr x ps = Ret ()"
    "validateExpr d ps = Ret ()" "isBoundedValueResultType (exType x)"
    "TypeEqual (exType d) (resultPart part (exType x))" "TypeEqual typ (resultPart part (exType x))"
  using assms by (auto simp: validateResultOr_def split: payload_splits)

lemma safe_resultSuccessOr:
  assumes r: "ready t fns D ev ps vs e" and k: "exKind e = ExprResultSuccessOr"
  shows "safe t vs (evalResultSuccessOr ev e) (produces (exType e))"
proof -
  note v = ready_valid [OF r]
  from v(2) k have "validateResultOr validateExpr fst (exSuccessOr e) (exType e) ps = Ret ()"
    by (simp add: validateStep_def validateResultSuccessOr_def)
  then obtain x d where u: "exSuccessOr e = Some (WithFallback (Some x) (Some d))"
      "validateExpr x ps = Ret ()" "validateExpr d ps = Ret ()" "isBoundedValueResultType (exType x)"
      "TypeEqual (exType d) (resultPart fst (exType x))" "TypeEqual (exType e) (resultPart fst (exType x))"
    by (rule result_or_checked)
  from bounded_parts [OF u(4) validateExpr_type [OF u(2)]] obtain s f where t: "tKind (exType x) = TypeResult"
      "tResult (exType x) = Some (s, f)" "tKind s \<noteq> TypeResult" by metis
  have p: "TypeEqual (exType d) s" "TypeEqual (exType e) s"
    using u(5,6) t(2) by (simp_all add: resultPart_def)
  note eq = p(1) TypeEqual_sym(1) [OF p(2)] TypeEqual_trans(1) [OF p(1) TypeEqual_sym(1) [OF p(2)]]
  have m: "x \<in> set (children e)" "d \<in> set (children e)"
    using u k by (simp_all add: set_children expressionChildren_def)
  have d: "exKind x = ExprReference" using ready_here(4) [OF r] k u(1) by (simp add: directResult_def)
  have n: "tKind (exType d) \<noteq> TypeResult" "tKind (exType e) \<noteq> TypeResult"
    using TypeEqual_kind eq t(3) by metis+
  have ok: "produces (exType e) (okOutcome (cloneValue a))" if "conforms a (exType e)" for a
    using that cloneValue_id [OF _ v(1)] n(2) by (auto intro!: produces_okOutcome)
  have "safe t vs (checked a (okE (cloneValue (if oOK out then oValue out else a)))) (produces (exType e))"
    if a: "conforms a (exType d)" and out: "resultConforms s f out" for a out
  proof -
    have "conforms (oValue out) (exType e)" if "oOK out"
      using out that conforms_equal [OF _ eq(2)] by (simp add: resultConforms_def)
    then show ?thesis
      using conforms_equal [OF a eq(3)] by (intro safe_checked conforms_checked [OF a] safe_okE ok) simp
  qed
  then show ?thesis
    unfolding evalResultSuccessOr_def u(1)
    by (intro safe_withPtr [OF refl])
      (auto intro!: safe_bindE [OF safe_directResult [OF r m(1) u(2) d t(1,2)]] safe_operand [OF r m(2) u(3) n(1)])
qed

lemma safe_resultFailureOr:
  assumes r: "ready t fns D ev ps vs e" and k: "exKind e = ExprResultFailureOr"
  shows "safe t vs (evalResultFailureOr ev e) (produces (exType e))"
proof -
  note v = ready_valid [OF r]
  from v(2) k have "validateResultOr validateExpr snd (exFailureOr e) (exType e) ps = Ret ()"
    by (simp add: validateStep_def validateResultFailureOr_def)
  then obtain x d where u: "exFailureOr e = Some (WithFallback (Some x) (Some d))"
      "validateExpr x ps = Ret ()" "validateExpr d ps = Ret ()" "isBoundedValueResultType (exType x)"
      "TypeEqual (exType d) (resultPart snd (exType x))" "TypeEqual (exType e) (resultPart snd (exType x))"
    by (rule result_or_checked)
  from bounded_parts [OF u(4) validateExpr_type [OF u(2)]] obtain s f where t: "tKind (exType x) = TypeResult"
      "tResult (exType x) = Some (s, f)" "tKind f = TypePrimitive" by metis
  have p: "TypeEqual (exType d) f" "TypeEqual (exType e) f"
    using u(5,6) t(2) by (simp_all add: resultPart_def)
  note eq = p(1) TypeEqual_sym(1) [OF p(2)] TypeEqual_trans(1) [OF p(1) TypeEqual_sym(1) [OF p(2)]]
  have m: "x \<in> set (children e)" "d \<in> set (children e)"
    using u k by (simp_all add: set_children expressionChildren_def)
  have d: "exKind x = ExprReference" using ready_here(4) [OF r] k u(1) by (simp add: directResult_def)
  have n: "tKind (exType d) \<noteq> TypeResult" "tKind (exType e) \<noteq> TypeResult"
    using TypeEqual_kind eq t(3) by (metis type_kind.distinct)+
  have ok: "produces (exType e) (okOutcome (cloneValue a))" if "conforms a (exType e)" for a
    using that cloneValue_id [OF _ v(1)] n(2) by (auto intro!: produces_okOutcome)
  have body: "safe t vs (checked a (if oOK out then okE (cloneValue a)
      else withPtr (oFailure out) (\<lambda>x. okE (cloneValue x)))) (produces (exType e))"
    if a: "conforms a (exType d)" and out: "resultConforms s f out" for a out
  proof (intro safe_checked conforms_checked [OF a])
    show "safe t vs (if oOK out then okE (cloneValue a)
        else withPtr (oFailure out) (\<lambda>x. okE (cloneValue x))) (produces (exType e))"
    proof (cases "oOK out")
      case True
      then show ?thesis using ok conforms_equal [OF a eq(3)] by (simp add: safe_okE)
    next
      case False
      with out t(3) obtain y where "oFailure out = Some y" "conforms y f"
        by (auto simp: resultConforms_def)
      with False show ?thesis using ok conforms_equal [OF _ eq(2)] by (simp add: safe_withPtr [OF refl] safe_okE)
    qed
  qed
  show ?thesis
    unfolding evalResultFailureOr_def u(1)
    by (intro safe_withPtr [OF refl])
      (auto intro!: safe_bindE [OF safe_directResult [OF r m(1) u(2) d t(1,2)]]
        safe_operand [OF r m(2) u(3) n(1)] body)
qed


section \<open>Match\<close>

text \<open>
  The selected arm: the tag of the carrier is one of the tags the validator requires an arm
  for, and the payload conforms to the type the arm binds it at.
\<close>

definition payloadOK :: "core_type \<Rightarrow> string \<Rightarrow> core_value option \<Rightarrow> bool" where
  "payloadOK carrier tag payload \<longleftrightarrow>
     (tag \<in> set (matchPayloadTags carrier) \<longrightarrow>
       (\<exists>x pt. payload = Some x \<and> matchPayloadType carrier tag = Ret pt \<and> conforms x pt
          \<and> validateType pt = Ret ()))"

lemma safe_arms:
  assumes r: "ready t fns D ev ps vs e"
    and c: "\<And>tag binding b. MatchArm tag binding (Some b) \<in> set arms \<Longrightarrow> b \<in> set (children e)"
    and val: "validateArms validateExpr carrier tags typ ps False seen arms = Ret ()"
    and tag: "tag \<in> set tags" "tag \<notin> set seen" "payloadOK carrier tag payload"
  shows "safe t vs (evalArms ev (tKind carrier = TypeEnum) tag payload arms) (produces typ)"
  using c val tag
proof (induction arms arbitrary: seen)
  case Nil
  then show ?case by auto
next
  case (Cons arm arms)
  obtain armTag binding body where arm: "arm = MatchArm armTag binding body" by (cases arm)
  define wild where "wild \<longleftrightarrow> armTag = ''_'' \<and> tKind carrier \<noteq> TypeEnum"
  from Cons.prems(2) obtain b scoped where b: "body = Some b" "armScope carrier ps armTag binding = Ret scoped"
      "validateExpr b scoped = Ret ()" "TypeEqual (exType b) typ"
      "validateArms validateExpr carrier tags typ ps wild (if wild then seen else armTag # seen) arms = Ret ()"
      "wild \<Longrightarrow> binding = None"
      "\<not> wild \<Longrightarrow> (armTag \<in> set (matchPayloadTags carrier)) = (binding \<noteq> None)"
    by (auto simp: arm wild_def Let_def split: option.splits if_splits)
  have m: "b \<in> set (children e)"
    using Cons.prems(1) [of armTag binding b] arm b(1) by simp
  have len: "length vs = length ps" using ready_valid(3) [OF r] by (simp add: fits_def)
  show ?case
  proof (cases "armTag = tag \<or> wild")
    case False
    then have "safe t vs (evalArms ev (tKind carrier = TypeEnum) tag payload arms) (produces typ)"
      using Cons.prems b(5) by (intro Cons.IH [of "armTag # seen"]) auto
    then show ?thesis using False by (auto simp: arm wild_def)
  next
    case True
    show ?thesis
    proof (cases binding)
      case None
      then have "safe t vs (ev b) (produces (exType b))"
        using b(2,3) by (intro ready_child [OF r m]) (simp add: armScope_def)
      then show ?thesis
        using True None b(1,4) by (auto simp: arm wild_def intro: safe_mono produces_equal)
    next
      case (Some position)
      then have t: "armTag = tag" "tag \<in> set (matchPayloadTags carrier)" using True b(6,7) by auto
      with Cons.prems(5) obtain x pt where x: "payload = Some x" "matchPayloadType carrier tag = Ret pt"
          "conforms x pt" "validateType pt = Ret ()" by (auto simp: payloadOK_def)
      have sc: "scoped = ps @ [boundParameter (int (length ps)) ''match'' pt]"
        using b(2) Some t(1) x(2) by (auto simp: armScope_def split: if_splits)
      have "safe t (vs @ [x]) (ev b) (produces typ)"
        using ready_scoped_child [OF r m b(3) [unfolded sc]] x(3) b(4)
        by (auto simp: boundParameter_def intro: safe_mono produces_equal)
      then show ?thesis
        using Some t(1) b(1) x(1) cloneValue_id [OF x(3,4)] by (simp add: arm safe_thenPop)
    qed
  qed
qed

lemma result_parts:
  assumes "validateType t = Ret ()" "tKind t = TypeResult"
  obtains s f where "tResult t = Some (s, f)" "validateType s = Ret ()" "validateType f = Ret ()"
    "scalarKind (tKind f)"
proof -
  from assms obtain s f where c: "t = resultOf s f" "isArithmeticResultType t \<or> isBoundedValueResultType t"
      "validateType s = Ret ()" "validateType f = Ret ()"
    by (rule validateType_result)
  have "tResult t = Some (s, f)" using c(1) by (simp add: resultOf_def)
  with c(3,4) result_success_kind(2) [OF c(2)] show thesis by (intro that) auto
qed

text \<open>The tag and the payload that \<open>match\<close> finds in a conforming carrier.\<close>

lemma matchTag_result:
  assumes "validateType t = Ret ()" "tKind t = TypeResult" "tResult t = Some (s, f)" "resultConforms s f r"
  shows "\<exists>tag payload. matchTag (typedZero t) (Some r) = Ret (tag, payload)
    \<and> tag \<in> {''ok'', ''err''} \<and> payloadOK t tag payload"
proof -
  from assms(1,2) obtain s' f' where "tResult t = Some (s', f')" "validateType s' = Ret ()"
      "validateType f' = Ret ()" "scalarKind (tKind f')" by (rule result_parts)
  with assms(3) have sf: "validateType s = Ret ()" "validateType f = Ret ()" "scalarKind (tKind f)"
    by simp_all
  show ?thesis
  proof (cases "oOK r")
    case True
    then show ?thesis
      using assms sf by (auto simp: matchTag_def typedZero_def payloadOK_def matchPayloadType_def resultConforms_def)
  next
    case failed: False
    show ?thesis
    proof (cases "tKind f = TypeArithmeticError")
      case True
      have "conforms (stringValue f (errorText (oError r))) f"
        using True TypeEqual_refl [OF sf(2)] by (intro conforms_scalarI) (simp_all add: stringValue_def)
      with failed True show ?thesis
        using assms(2,3) sf
        by (auto simp: matchTag_def typedZero_def payloadOK_def matchPayloadType_def)
    next
      case False
      with failed show ?thesis
        using assms sf by (auto simp: matchTag_def typedZero_def payloadOK_def matchPayloadType_def resultConforms_def)
    qed
  qed
qed

lemma matchTag_value:
  assumes "validateType t = Ret ()" "tKind t = TypeOptional \<or> tKind t = TypeEnum" "conforms v t"
    "matchTags t = Ret tags"
  shows "\<exists>tag payload. matchTag v None = Ret (tag, payload) \<and> tag \<in> set tags \<and> payloadOK t tag payload"
  using assms(2)
proof
  assume k: "tKind t = TypeOptional"
  obtain p where p: "tOptional t = Some p" "validateType p = Ret ()"
    using optional_payload [OF assms(1) k] by metis
  from k p(1) assms(3) obtain opt where o: "vOptional v = Some opt"
      "ovPresent opt \<Longrightarrow> \<exists>x. ovValue opt = Some x \<and> conforms x p"
    by (metis conforms_optional)
  then show ?thesis
    using k p conforms_kind [OF assms(3)] assms(4)
    by (auto simp: matchTag_def matchTags_def payloadOK_def matchPayloadTags_def matchPayloadType_def)
next
  assume k: "tKind t = TypeEnum"
  then obtain ms where ms: "tEnum t = Some ms" "tags = map emTag ms"
    using assms(4) by (auto simp: matchTags_def)
  with conforms_enum [OF k assms(3)] have "vString v \<in> set tags"
    by (metis elems_simps(2) image_eqI list.set_map)
  then show ?thesis
    using k conforms_kind [OF assms(3)] by (auto simp: matchTag_def payloadOK_def matchPayloadTags_def)
qed

lemma safe_match:
  assumes r: "ready t fns D ev ps vs e" and k: "exKind e = ExprMatch"
  shows "safe t vs (evalMatch ev e) (produces (exType e))"
proof -
  note v = ready_valid [OF r]
  from v(2) k obtain x arms tags where u: "exMatch e = Some (Match (Some x) arms)"
      "validateExpr x ps = Ret ()" "tKind (exType x) \<in> {TypeOptional, TypeResult, TypeEnum}"
      "matchTags (exType x) = Ret tags"
      "validateArms validateExpr (exType x) tags (exType e) ps False [] arms = Ret ()"
    by (auto simp: validateStep_def validateMatch_def split: option.splits list.splits match_on.splits)
  note tx = validateExpr_type [OF u(2)]
  have m: "x \<in> set (children e)" using u k by (simp add: set_children expressionChildren_def)
  have arms: "b \<in> set (children e)" if "MatchArm tag binding (Some b) \<in> set arms" for tag binding b
    using u(1) k that by (force simp: set_children expressionChildren_def)
  have select: "safe t vs (bindE (liftR (matchTag carrier result)) (\<lambda>(tag, payload).
      evalArms ev (tKind (vType carrier) = TypeEnum) tag payload arms)) (produces (exType e))"
    if "matchTag carrier result = Ret (tag, payload)" "tag \<in> set tags" "payloadOK (exType x) tag payload"
      "tKind (vType carrier) = tKind (exType x)" for carrier result tag payload
    using safe_arms [OF r arms u(5) that(2) _ that(3)] that(1,4) by (auto intro!: safe_liftR_bind)
  show ?thesis
  proof (cases "tKind (exType x) = TypeResult")
    case True
    obtain s f where sf: "tResult (exType x) = Some (s, f)"
      using result_parts [OF tx True] by metis
    have res: "safe t vs (if exKind x = ExprReference then directResultOperand (Some x) else retE (cloneOutcome out))
        (resultConforms s f)" if "produces (exType x) out" for out
    proof (cases "exKind x = ExprReference")
      case ref: True
      then show ?thesis using safe_directResult [OF r m u(2) ref True sf] by simp
    next
      case False
      have "resultConforms s f out" "cloneOutcome out = out"
        using that True sf produces_clone [OF that tx] by (auto simp: produces_def)
      with False show ?thesis by (simp add: safe_retE)
    qed
    have "safe t vs (bindE (liftR (matchTag (typedZero (exType x)) (Some out))) (\<lambda>(tag, payload).
        evalArms ev (tKind (vType (typedZero (exType x))) = TypeEnum) tag payload arms)) (produces (exType e))"
      if "resultConforms s f out" for out
    proof -
      have "tags = [''ok'', ''err'']" using u(4) True by (simp add: matchTags_def)
      with matchTag_result [OF tx True sf that] select [of "typedZero (exType x)" "Some out"] show ?thesis by auto
    qed
    then show ?thesis
      unfolding evalMatch_def u(1) Let_def using True
      by (auto intro!: safe_bindE [OF ready_child [OF r m u(2)]] safe_bindE [OF res])
  next
    case False
    have body: "safe t vs (bindE (liftR (matchTag a None)) (\<lambda>(tag, payload).
        evalArms ev (tKind (vType a) = TypeEnum) tag payload arms)) (produces (exType e))"
      if a: "conforms a (exType x)" for a
      using matchTag_value [OF tx _ a u(4)] select [of a None] conforms_kind [OF a] u(3) False by auto
    have "safe t vs (if \<not> oOK out then retE out
        else bindE (liftR (matchTag (oValue out) None)) (\<lambda>(tag, payload).
          evalArms ev (tKind (vType (oValue out)) = TypeEnum) tag payload arms)) (produces (exType e))"
      if "produces (exType x) out" for out
      using that False by (auto elim!: produces_value intro: body)
    then show ?thesis
      unfolding evalMatch_def u(1) Let_def
      by (simp add: False) (rule safe_bindE [OF ready_child [OF r m u(2)]])
  qed
qed


section \<open>One step\<close>

lemma evalStep_safe:
  assumes r: "ready t fns D ev ps vs e" and tb: "foldTableOK table"
  shows "safe t vs (evalStep table ev fns e) (produces (exType e))"
proof -
  note v = ready_valid(2) [OF r]
  have "exKind e \<noteq> ExprPropagate" using ready_here(1) [OF r] .
  moreover have "exKind e \<noteq> ExprBlock" "\<forall>k. exKind e \<noteq> ExprOther k"
    using v by (auto simp: validateStep_def)
  ultimately show ?thesis
    using safe_literal [OF r] safe_reference [OF r] safe_unary [OF r] safe_binary [OF r]
      safe_conditional [OF r] safe_local [OF r] safe_call [OF r] safe_textContains [OF r _ tb]
      safe_textTrim [OF r] safe_fieldProjection [OF r] safe_recordConstruct [OF r]
      safe_optionalSome [OF r] safe_optionalNone [OF r] safe_optionalHasValue [OF r]
      safe_optionalValueOr [OF r] safe_listEmpty [OF r] safe_listSingleton [OF r]
      safe_listCount [OF r] safe_listAppend [OF r] safe_listAt [OF r] safe_listFind [OF r]
      safe_listFilter [OF r] safe_listFilterContains [OF r _ tb] safe_listFilterJoined [OF r]
      safe_sortText [OF r] safe_sortTexts [OF r] safe_sortDirections [OF r] safe_filterPredicate [OF r]
      safe_resultOK [OF r] safe_resultErr [OF r] safe_resultIsOK [OF r] safe_resultSuccessOr [OF r]
      safe_resultFailureOr [OF r] safe_match [OF r]
    by (cases "exKind e") (simp_all add: evalStep_def)
qed

end
