(* ===== verification/CoreSafetyBlocks.thy ===== *)
theory CoreSafetyBlocks
  imports CoreSafetyResults
begin

text \<open>
  Safety of statement blocks: a block that \<open>validateBlock\<close> accepts reads only bindings that
  hold a value, returns a result of the right type whenever the analysis says that it
  returns, falls through only when the analysis allows it, and never writes to the slice of
  arguments the caller passed in.
\<close>

section \<open>Runs from one frame\<close>

definition runs :: "bool \<Rightarrow> 'a ev \<Rightarrow> frame \<Rightarrow> ('a \<Rightarrow> frame \<Rightarrow> bool) \<Rightarrow> bool" where
  "runs t m f P \<longleftrightarrow> (t \<and> fst (m f) = Timeout) \<or> (\<exists>a f'. m f = (Ret a, f') \<and> P a f')"

lemma runs_retE: "P a f \<Longrightarrow> runs t (retE a) f P"
  by (simp add: runs_def retE_def)

lemma runs_bindE:
  assumes "runs t m f P" "\<And>a f'. P a f' \<Longrightarrow> runs t (k a) f' Q"
  shows "runs t (bindE m k) f Q"
  using assms(1) unfolding runs_def [of t m]
proof (elim disjE exE conjE)
  assume "t" "fst (m f) = Timeout"
  then show ?thesis by (cases "m f") (simp add: runs_def bindE_def)
next
  fix a f' assume "m f = (Ret a, f')" "P a f'"
  then show ?thesis using assms(2) [of a f'] by (simp add: runs_def bindE_def)
qed

lemma runs_mono: "runs t m f P \<Longrightarrow> (\<And>a f'. P a f' \<Longrightarrow> Q a f') \<Longrightarrow> runs t m f Q"
  unfolding runs_def by blast

lemma runs_safe: "safe t (frValues f) m Q \<Longrightarrow> runs t m f (\<lambda>a f'. same f f' \<and> Q a)"
  unfolding safe_def runs_def by blast

lemma runs_liftR: "r = Ret a \<Longrightarrow> P a f \<Longrightarrow> runs t (liftR r) f P"
  by (simp add: runs_def liftR_def)

lemma runs_withPtr: "p = Some x \<Longrightarrow> runs t (k x) f P \<Longrightarrow> runs t (withPtr p k) f P"
  unfolding withPtr_def by (rule runs_bindE [where P = "\<lambda>a f'. a = x \<and> f' = f"]) (auto intro: runs_liftR)

lemma runs_checked: "validateValue v = Ret () \<Longrightarrow> runs t k f P \<Longrightarrow> runs t (checked v k) f P"
  unfolding checked_def by (rule runs_bindE [where P = "\<lambda>a f'. f' = f"]) (auto intro: runs_liftR)

lemma runs_push:
  "runs t (k ()) (f\<lparr>frValues := frValues f @ [v], frOwned := True\<rparr>) P \<Longrightarrow> runs t (bindE (push v) k) f P"
  by (simp add: runs_def bindE_def push_def)

lemma carrierOr_value:
  assumes "produces typ r" "validateType typ = Ret ()"
  obtains x where "conforms x typ" "carrierOr typ r early k = k x"
proof (cases "tKind typ = TypeResult")
  case True
  then show thesis
    using that [of "resultValue typ r"] produces_clone [OF assms] produces_resultValue [OF assms]
    by (simp add: carrierOr_def)
next
  case False
  from produces_value [OF assms(1) False] obtain x where "r = okOutcome x" "conforms x typ" .
  then show thesis using that [of x] False cloneValue_id [OF _ assms(2)] by (simp add: carrierOr_def)
qed

section \<open>The invariant of a block\<close>

definition definite :: "assign_state list \<Rightarrow> nat \<Rightarrow> bool" where
  "definite state i \<longleftrightarrow> (i < length state \<longrightarrow> asDefinite (state ! i))"

text \<open>
  \<open>n\<close> is the number of parameters and \<open>c\<close> the slice of the caller: a frame with locals owns
  its storage, so only the parameters themselves can still alias \<open>c\<close>, and their states say
  that they are never assigned.
\<close>

definition tidy :: "nat \<Rightarrow> core_value list \<Rightarrow> frame \<Rightarrow> bool" where
  "tidy n c f \<longleftrightarrow> frCaller f = c \<and> n \<le> length (frValues f) \<and> (frOwned f \<or> length (frValues f) = n)"

definition stateOK :: "nat \<Rightarrow> assign_state list \<Rightarrow> bool" where
  "stateOK n state \<longleftrightarrow> n \<le> length state \<and> (\<forall>i < n. \<not> asMutable (state ! i) \<and> asPossible (state ! i))"

definition inv :: "nat \<Rightarrow> core_value list \<Rightarrow> parameter list \<Rightarrow> assign_state list \<Rightarrow> frame \<Rightarrow> bool" where
  "inv n c scope state f \<longleftrightarrow>
     tidy n c f \<and> stateOK n state \<and> length state = length scope \<and> fits (definite state) scope (frValues f)"

text \<open>After a block: a result of the function, or the invariant for the next statement.\<close>

definition blockPost ::
  "nat \<Rightarrow> core_value list \<Rightarrow> core_type \<Rightarrow> parameter list \<Rightarrow> bool \<Rightarrow> assign_state list
    \<Rightarrow> outcome option \<Rightarrow> frame \<Rightarrow> bool"
where
  "blockPost n c result scope returned state out f \<longleftrightarrow>
     (case out of
        None \<Rightarrow> \<not> returned \<and> (\<exists>extra. inv n c (scope @ extra) state f)
      | Some r \<Rightarrow> produces result r \<and> tidy n c f)"

lemma same_tidy: "same f f' \<Longrightarrow> tidy n c f \<Longrightarrow> tidy n c f'"
  by (auto simp: same_def tidy_def)

lemma same_inv: "same f f' \<Longrightarrow> inv n c scope state f \<Longrightarrow> inv n c scope state f'"
  using same_tidy by (auto simp: inv_def same_def)

lemma inv_weaken:
  assumes "inv n c scope state f" "stateOK n state'" "length state' = length state"
    "\<And>i. i < length state \<Longrightarrow> asDefinite (state' ! i) \<Longrightarrow> asDefinite (state ! i)"
  shows "inv n c scope state' f"
  using assms by (auto simp: inv_def fits_def definite_def)

lemma inv_push:
  assumes "inv n c scope state f" "v = None \<or> v = Some x \<and> conforms x (paType l)"
  shows "inv n c (scope @ [l]) (state @ [localState mut (v \<noteq> None)])
    (f\<lparr>frValues := frValues f @ [case v of None \<Rightarrow> zeroValue | Some x \<Rightarrow> x], frOwned := True\<rparr>)"
  using assms
  by (auto simp: inv_def tidy_def stateOK_def fits_def definite_def nth_append localState_def less_Suc_eq)

lemma inv_assign:
  assumes "inv n c scope state f" "p < length scope" "n \<le> p" "conforms x (paType (scope ! p))"
  shows "inv n c scope (state[p := (state ! p)\<lparr>asDefinite := True, asPossible := True\<rparr>])
    (f\<lparr>frValues := (frValues f)[p := x]\<rparr>)"
  using assms
  by (auto simp: inv_def tidy_def stateOK_def fits_def definite_def nth_list_update)

text \<open>Leaving a block.\<close>

lemma pop_tidy:
  assumes "tidy n c f" "n < length (frValues f)"
  shows "tidy n c (snd (pop f))" "frValues (snd (pop f)) = butlast (frValues f)"
  using assms by (auto simp: tidy_def pop_def)

lemma popTo_tidy:
  assumes "tidy n c f" "n \<le> base" "length (frValues f) \<le> m + base"
  shows "tidy n c (popTo m base f) \<and> frValues (popTo m base f) = take base (frValues f)"
  using assms
proof (induction m arbitrary: f)
  case 0
  then show ?case by simp
next
  case (Suc m)
  show ?case
  proof (cases "base < length (frValues f)")
    case True
    have l: "n < length (frValues f)" using True Suc.prems(2) by linarith
    note p = pop_tidy [OF Suc.prems(1) l]
    have "tidy n c (popTo m base (snd (pop f)))
        \<and> frValues (popTo m base (snd (pop f))) = take base (butlast (frValues f))"
      using Suc.IH [OF p(1) Suc.prems(2)] p(2) Suc.prems(3) by simp
    moreover have "take base (butlast (frValues f)) = take base (frValues f)"
      using True by (simp add: take_butlast)
    ultimately show ?thesis using True by simp
  next
    case False
    then show ?thesis using Suc.prems(1) by simp
  qed
qed

lemma runs_thenPopTo:
  assumes "runs t m f (\<lambda>out f'. P out f' \<and> tidy n c f')" "n \<le> base"
    "\<And>out f' f''. P out f' \<Longrightarrow> tidy n c f'' \<Longrightarrow> frValues f'' = take base (frValues f') \<Longrightarrow> Q out f''"
  shows "runs t (thenPopTo base m) f Q"
  using assms(1) unfolding runs_def [of t m]
proof (elim disjE exE conjE)
  assume "t" "fst (m f) = Timeout"
  then show ?thesis by (cases "m f") (simp add: runs_def thenPopTo_def)
next
  fix out f' assume o: "m f = (Ret out, f')" "P out f'" "tidy n c f'"
  show ?thesis
    using o(1) assms(3) [OF o(2)] popTo_tidy [OF o(3) assms(2), of "length (frValues f')"]
    by (simp add: runs_def thenPopTo_def)
qed


section \<open>What the validator says about states\<close>

lemma validateStatements_returned:
  "validateStatements result ss scope state True = Ret (ret, state') \<Longrightarrow> ss = [] \<and> ret \<and> state' = state"
  by (cases ss; cases "hd ss") auto

lemma mergeStates_length:
  "length ls = length ss \<Longrightarrow> length rs = length ss \<Longrightarrow> length (mergeStates a z ss ls rs) = length ss"
  by (induction a z ss ls rs rule: mergeStates.induct) auto

lemma mergeStates_nth:
  "length ls = length ss \<Longrightarrow> length rs = length ss \<Longrightarrow> i < length ss \<Longrightarrow>
     mergeStates a z ss ls rs ! i = mergeState a z (ss ! i) (ls ! i) (rs ! i)"
proof (induction a z ss ls rs arbitrary: i rule: mergeStates.induct)
  case (1 a z s ss l ls r rs)
  then show ?case by (cases i) auto
qed auto

lemma mergeStates_stateOK:
  assumes "stateOK n ss" "stateOK n ls" "stateOK n rs" "length ls = length ss" "length rs = length ss"
  shows "stateOK n (mergeStates a z ss ls rs)"
  using assms by (auto simp: stateOK_def mergeStates_length mergeStates_nth mergeState_def)

lemma validateAssign_stateOK:
  assumes "validateAssignStatement scope state p v = Ret state'" "stateOK n state" "length state = length scope"
  shows "stateOK n state' \<and> length state' = length state \<and> n \<le> nat p"
proof -
  from assms obtain i e where i: "0 \<le> p" "nat p < length state"
      "asMutable (state ! nat p) \<or> \<not> asPossible (state ! nat p)"
      "state' = state[nat p := (state ! nat p)\<lparr>asDefinite := True, asPossible := True\<rparr>]"
    by (auto simp: validateAssignStatement_def index_def split: if_splits)
  then have "n \<le> nat p" using assms(2) by (metis stateOK_def not_le)
  with i assms(2) show ?thesis by (auto simp: stateOK_def nth_list_update)
qed

text \<open>Inversion of the checks, one lemma per statement kind.\<close>

lemma validate_local:
  assumes "validateStatements result (Statement mut target StmtLocal v local th el # ss) scope state False = Ret r"
  obtains l where "local = Some l" "validateLocalStatement scope state l v = Ret ()"
    "validateStatements result ss (scope @ [l]) (state @ [localState mut (v \<noteq> None)]) False = Ret r"
  using assms by (cases local) simp_all

lemma validate_assign:
  assumes "validateStatements result (Statement mut target StmtAssign v local th el # ss) scope state False = Ret r"
  obtains p state2 where "target = Some p" "validateAssignStatement scope state p v = Ret state2"
    "validateStatements result ss scope state2 False = Ret r"
  using assms by (cases target) auto

lemma validate_return:
  assumes "validateStatements result (Statement mut target StmtReturn v local th el # ss) scope state False = Ret r"
  obtains e where "blockValue scope state v = Ret e" "TypeEqual result (exType e)" "ss = []" "r = (True, state)"
  using assms validateStatements_returned [of result ss scope state "fst r" "snd r"] by auto

lemma validate_if:
  assumes "validateStatements result (Statement mut target StmtIf v local th el # ss) scope state False = Ret r"
  obtains e b a left z right where "blockValue scope state v = Ret e" "TypeEqual (exType e) boolType"
    "th = Some b" "validateBlock result th scope state = Ret (a, left)"
    "(if el = None then Ret (False, state) else validateBlock result el scope state) = Ret (z, right)"
    "validateStatements result ss scope (mergeStates a z state left right) (a \<and> z) = Ret r"
  using assms
  by (simp add: split_beta del: validateBlock.simps split del: if_split) (elim exE conjE, rule that; assumption)

lemma validate_block:
  assumes "validateStatements result (Statement mut target StmtBlock v local th el # ss) scope state False = Ret r"
  obtains b a state2 where "th = Some b" "validateBlock result th scope state = Ret (a, state2)"
    "validateStatements result ss scope state2 a = Ret r"
  using assms
  by (simp add: split_beta del: validateBlock.simps split del: if_split) (elim exE conjE, rule that; assumption)

lemma validate_kinds:
  assumes "validateStatements result (Statement mut target kind v local th el # ss) scope state False = Ret r"
  shows "kind \<in> {StmtLocal, StmtAssign, StmtReturn, StmtIf, StmtBlock}"
proof (rule ccontr)
  assume "kind \<notin> {StmtLocal, StmtAssign, StmtReturn, StmtIf, StmtBlock}"
  then obtain k where "kind = StmtOther k" by (cases kind) auto
  with assms show False by simp
qed

text \<open>The three shapes of a statement with nested blocks have smaller blocks.\<close>

abbreviation stmtsSize :: "expr statement list \<Rightarrow> nat" where
  "stmtsSize ss \<equiv> size_list (size_statement (\<lambda>_. 0)) ss"

lemma validateStatements_stateOK:
  assumes "validateStatements result ss scope state False = Ret (ret, state')" "stateOK n state"
    "length state = length scope"
  shows "stateOK n state' \<and> length state \<le> length state'"
  using assms
proof (induction ss arbitrary: scope state ret state' rule: measure_induct_rule [where f = stmtsSize])
  case (less ss)
  have block: "stateOK n left \<and> length left = length state"
    if "validateBlock result (Some (Block ss')) scope state = Ret (a, left)" "stmtsSize ss' < stmtsSize ss"
      "stateOK n state" "length state = length scope" for ss' scope state a left
  proof -
    from that(1) obtain state2 where v: "validateStatements result ss' scope state False = Ret (a, state2)"
        "left = take (length state) state2" by auto
    from less.IH [OF that(2) v(1) that(3,4)] that(3) v(2) show ?thesis
      by (auto simp: stateOK_def)
  qed
  show ?case
  proof (cases ss)
    case Nil
    then show ?thesis using less.prems by simp
  next
    case (Cons s ss')
    obtain mut target kind v local th el where s: "s = Statement mut target kind v local th el"
      by (cases s)
    have small: "stmtsSize ss' < stmtsSize ss" using Cons by simp
    have rest: "stateOK n state' \<and> length state2 \<le> length state'"
      if "validateStatements result ss' scope2 state2 b = Ret (ret, state')" "stateOK n state2"
        "length state2 = length scope2" for scope2 state2 b
    proof (cases b)
      case True
      then show ?thesis using validateStatements_returned [of result ss' scope2 state2] that by simp
    next
      case False
      then show ?thesis using less.IH [OF small] that by simp
    qed
    note val = less.prems(1) [unfolded Cons s]
    have sub: "stateOK n state2 \<and> length state2 = length state"
      if "validateBlock result (Some b) scope state = Ret (a, state2)" "th = Some b \<or> el = Some b" for b a state2
    proof -
      obtain bs where b: "b = Block bs" by (cases b)
      have "stmtsSize bs < stmtsSize ss" using that(2) Cons s b by auto
      from block [OF that(1) [unfolded b] this less.prems(2,3)] show ?thesis .
    qed
    consider (local) "kind = StmtLocal" | (assign) "kind = StmtAssign" | (return) "kind = StmtReturn"
      | (cond) "kind = StmtIf" | (nested) "kind = StmtBlock"
      using validate_kinds [OF val] by blast
    then show ?thesis
    proof cases
      case local
      from val [unfolded local] obtain l where
        "validateStatements result ss' (scope @ [l]) (state @ [localState mut (v \<noteq> None)]) False = Ret (ret, state')"
        by (rule validate_local)
      from rest [OF this] less.prems(2,3) show ?thesis by (auto simp: stateOK_def nth_append)
    next
      case assign
      from val [unfolded assign] obtain p state2 where "validateAssignStatement scope state p v = Ret state2"
          "validateStatements result ss' scope state2 False = Ret (ret, state')"
        by (rule validate_assign)
      with validateAssign_stateOK [of scope state p v state2 n] rest less.prems(2,3) show ?thesis by auto
    next
      case return
      from val [unfolded return] have "(ret, state') = (True, state)" by (rule validate_return)
      then show ?thesis using less.prems(2) by simp
    next
      case cond
      from val [unfolded cond] obtain e b a left z right where v: "th = Some b"
          "validateBlock result th scope state = Ret (a, left)"
          "(if el = None then Ret (False, state) else validateBlock result el scope state) = Ret (z, right)"
          "validateStatements result ss' scope (mergeStates a z state left right) (a \<and> z) = Ret (ret, state')"
        by (rule validate_if)
      have l: "stateOK n left \<and> length left = length state" using sub v(1,2) by auto
      have r: "stateOK n right \<and> length right = length state"
        using v(3) sub less.prems(2) by (cases el) auto
      show ?thesis
        using rest [OF v(4)] l r less.prems(2,3) mergeStates_stateOK [of n state left right a z]
          mergeStates_length [of left state right a z] by simp
    next
      case nested
      from val [unfolded nested] obtain b a state2 where v: "th = Some b"
          "validateBlock result th scope state = Ret (a, state2)"
          "validateStatements result ss' scope state2 a = Ret (ret, state')"
        by (rule validate_block)
      with sub rest [OF v(3)] less.prems(3) show ?thesis by auto
    qed
  qed
qed


lemma validateBlock_stateOK:
  assumes "validateBlock result (Some b) scope state = Ret (a, state2)" "stateOK n state"
    "length state = length scope"
  shows "stateOK n state2 \<and> length state2 = length state"
proof -
  obtain bs where "b = Block bs" by (cases b)
  with assms(1) obtain state3 where v: "validateStatements result bs scope state False = Ret (a, state3)"
      "state2 = take (length state) state3" by auto
  from validateStatements_stateOK [OF v(1) assms(2,3)] assms(2) v(2) show ?thesis
    by (auto simp: stateOK_def)
qed

section \<open>Statements run\<close>

definition sound :: "bool \<Rightarrow> function_map \<Rightarrow> (expr \<Rightarrow> outcome ev) \<Rightarrow> expr \<Rightarrow> bool" where
  "sound t fns ev c \<longleftrightarrow>
     (\<forall>D qs ws. okExpr fns D qs c \<longrightarrow> fits D qs ws \<longrightarrow> safe t ws (ev c) (produces (exType c)))"

text \<open>The conditions on a subexpression that are not part of \<open>validateExpr\<close>.\<close>

definition semanticsOK :: "function_map \<Rightarrow> expr \<Rightarrow> bool" where
  "semanticsOK fns x \<longleftrightarrow> comparisonOK x \<and> directResult x \<and> callOK fns x \<and> filterOK fns x"

definition valuesOK :: "bool \<Rightarrow> function_map \<Rightarrow> (expr \<Rightarrow> outcome ev) \<Rightarrow> expr option list \<Rightarrow> bool" where
  "valuesOK t fns ev vs \<longleftrightarrow>
     (\<forall>e. Some e \<in> set vs \<longrightarrow> sound t fns ev e \<and> (\<forall>x \<in> set (subexprs e). semanticsOK fns x))"

lemma blockValue_Some: "blockValue scope state v = Ret e \<Longrightarrow> v = Some e"
  by (auto simp: blockValue_def split: option.splits)

lemma runs_value:
  assumes "blockValue scope state v = Ret e" "valuesOK t fns ev vs" "v \<in> set vs" "inv n c scope state f"
  obtains "v = Some e" "validateType (exType e) = Ret ()"
    "runs t (ev e) f (\<lambda>r f'. inv n c scope state f' \<and> produces (exType e) r)"
proof -
  from assms(1) have v: "v = Some e" "validateBlockValue e scope = Ret ()"
      "\<forall>x \<in> set (subexprs e). \<not> readsUninitialized state x"
    by (auto simp: blockValue_def list_ex_iff split: option.splits)
  then have e: "validateExpr e scope = Ret ()"
      "\<forall>x \<in> set (WalkExpression (\<lambda>x. \<not> forbiddenInBlock x) e). \<not> forbiddenInBlock x"
    by (auto simp: validateBlockValue_def list_ex_iff)
  from WalkExpression_all [OF e(2)] e(2) have noForbidden: "\<forall>x \<in> set (subexprs e). \<not> forbiddenInBlock x"
    by simp
  have len: "length state = length scope" using assms(4) by (simp add: inv_def)
  have "okExpr fns (definite state) scope e"
    using e(1) v(1,3) noForbidden assms(2,3) len
    by (fastforce simp: okExpr_def admissible_def valuesOK_def semanticsOK_def forbiddenInBlock_def
        readsOK_def definite_def readsUninitialized_def)
  then have "safe t (frValues f) (ev e) (produces (exType e))"
    using assms(2-4) v(1) by (auto simp: valuesOK_def sound_def inv_def)
  from runs_safe [OF this] have "runs t (ev e) f (\<lambda>r f'. inv n c scope state f' \<and> produces (exType e) r)"
    by (rule runs_mono) (use same_inv [OF _ assms(4)] in blast)
  with v(1) validateExpr_type [OF e(1)] show thesis by (rule that)
qed

text \<open>What is left of a block after a statement that does not return.\<close>

definition restOK ::
  "bool \<Rightarrow> nat \<Rightarrow> core_value list \<Rightarrow> core_type \<Rightarrow> (expr \<Rightarrow> outcome ev) \<Rightarrow> expr statement list
    \<Rightarrow> parameter list \<Rightarrow> bool \<times> assign_state list \<Rightarrow> bool"
where
  "restOK t n c result ev ss scope r \<longleftrightarrow>
     (\<forall>extra state f. validateStatements result ss (scope @ extra) state False = Ret r \<longrightarrow>
        inv n c (scope @ extra) state f \<longrightarrow>
        runs t (evalStatements ev ss) f (blockPost n c result scope (fst r) (snd r)))"

lemma runs_local:
  assumes val: "validateStatements result (Statement mut target StmtLocal v local th el # ss) scope state False = Ret r"
    and vs: "valuesOK t fns ev vs" "v \<noteq> None \<Longrightarrow> v \<in> set vs" and inv: "inv n c scope state f"
    and rest: "restOK t n c result ev ss scope r"
  shows "runs t (evalStatements ev (Statement mut target StmtLocal v local th el # ss)) f
    (blockPost n c result scope (fst r) (snd r))"
proof -
  from val obtain l where l: "local = Some l" "validateLocalStatement scope state l v = Ret ()"
      "validateStatements result ss (scope @ [l]) (state @ [localState mut (v \<noteq> None)]) False = Ret r"
    by (rule validate_local)
  have go: "runs t (evalStatements ev ss) f (blockPost n c result scope (fst r) (snd r))"
    if "inv n c (scope @ [l]) (state @ [localState mut (v \<noteq> None)]) f" for f
    using rest l(3) that unfolding restOK_def by blast
  show ?thesis
  proof (cases v)
    case None
    have "runs t (bindE (push zeroValue) (\<lambda>_. evalStatements ev ss)) f (blockPost n c result scope (fst r) (snd r))"
      using go inv_push [OF inv, of None] None by (intro runs_push) simp
    then show ?thesis using None by simp
  next
    case (Some x)
    from l(2) Some obtain e where e: "blockValue scope state v = Ret e" "TypeEqual (paType l) (exType e)"
      by (auto simp: validateLocalStatement_def)
    from e(1) vs(1) vs(2) inv Some obtain ve: "v = Some e" "validateType (exType e) = Ret ()"
        "runs t (ev e) f (\<lambda>r f'. inv n c scope state f' \<and> produces (exType e) r)"
      by (metis option.distinct(1) runs_value)
    have body: "runs t (carrierOr (exType e) out (\<lambda>early. retE (Some early)) (\<lambda>val. checked val
        (bindE (push val) (\<lambda>_. evalStatements ev ss)))) f' (blockPost n c result scope (fst r) (snd r))"
      if f': "inv n c scope state f'" and out: "produces (exType e) out" for out f'
    proof -
      obtain y where y: "conforms y (exType e)"
          "carrierOr (exType e) out (\<lambda>early. retE (Some early)) (\<lambda>val. checked val
            (bindE (push val) (\<lambda>_. evalStatements ev ss))) = checked y (bindE (push y) (\<lambda>_. evalStatements ev ss))"
        using carrierOr_value [OF out ve(2)] .
      have "conforms y (paType l)" using y(1) e(2) conforms_equal TypeEqual_sym(1) by blast
      then show ?thesis
        unfolding y(2) using inv_push [OF f', of "Some y"] Some
        by (intro runs_checked conforms_checked [OF y(1)] runs_push go) simp
    qed
    show ?thesis
      using ve(1) by (auto intro!: runs_withPtr [OF refl] runs_bindE [OF ve(3)] body)
  qed
qed

lemma runs_assign:
  assumes val: "validateStatements result (Statement mut target StmtAssign v local th el # ss) scope state False = Ret r"
    and vs: "valuesOK t fns ev vs" "v \<noteq> None \<Longrightarrow> v \<in> set vs" and inv: "inv n c scope state f"
    and rest: "restOK t n c result ev ss scope r"
  shows "runs t (evalStatements ev (Statement mut target StmtAssign v local th el # ss)) f
    (blockPost n c result scope (fst r) (snd r))"
proof -
  from val obtain p state2 where p: "target = Some p" "validateAssignStatement scope state p v = Ret state2"
      "validateStatements result ss scope state2 False = Ret r"
    by (rule validate_assign)
  have st: "stateOK n state" "length state = length scope" using inv by (simp_all add: inv_def)
  have np: "n \<le> nat p" using validateAssign_stateOK [OF p(2) st] by simp
  from p(2) st obtain e where e: "0 \<le> p" "p < int (length scope)" "blockValue scope state v = Ret e"
      "TypeEqual (paType (scope ! nat p)) (exType e)"
      "state2 = state[nat p := (state ! nat p)\<lparr>asDefinite := True, asPossible := True\<rparr>]"
    by (auto simp: validateAssignStatement_def index_def split: if_splits)
  have "v \<noteq> None" using blockValue_Some [OF e(3)] by simp
  with e(3) vs inv obtain ve: "v = Some e" "validateType (exType e) = Ret ()"
      "runs t (ev e) f (\<lambda>r f'. inv n c scope state f' \<and> produces (exType e) r)"
    by (metis runs_value)
  have body: "runs t (carrierOr (exType e) out (\<lambda>early. retE (Some early)) (\<lambda>val. checked val
      (withPtr (Some p) (\<lambda>i. bindE (assignAt i val) (\<lambda>_. evalStatements ev ss))))) f' (blockPost n c result scope (fst r) (snd r))"
    if f': "inv n c scope state f'" and out: "produces (exType e) out" for out f'
  proof -
    obtain y where y: "conforms y (exType e)"
        "carrierOr (exType e) out (\<lambda>early. retE (Some early)) (\<lambda>val. checked val
          (withPtr (Some p) (\<lambda>i. bindE (assignAt i val) (\<lambda>_. evalStatements ev ss))))
        = checked y (withPtr (Some p) (\<lambda>i. bindE (assignAt i y) (\<lambda>_. evalStatements ev ss)))"
      using carrierOr_value [OF out ve(2)] .
    define g where "g = f'\<lparr>frValues := (frValues f')[nat p := y]\<rparr>"
    have len: "length (frValues f') = length scope" using f' by (simp add: inv_def fits_def)
    have "frOwned f'" using f' np e(1,2) len by (auto simp: inv_def tidy_def)
    then have a: "assignAt p y f' = (Ret (), g)" using e(1,2) len by (simp add: assignAt_def g_def)
    have "conforms y (paType (scope ! nat p))" using y(1) e(4) conforms_equal TypeEqual_sym(1) by blast
    moreover have "nat p < length scope" using e(1,2) by linarith
    ultimately have "inv n c scope state2 g"
      unfolding e(5) g_def using inv_assign [OF f' _ np] by blast
    then have "runs t (evalStatements ev ss) g (blockPost n c result scope (fst r) (snd r))"
      using rest p(3) unfolding restOK_def by (metis append_Nil2)
    then show ?thesis
      unfolding y(2) by (intro runs_checked conforms_checked [OF y(1)] runs_withPtr [OF refl]) (simp add: runs_def bindE_def a)
  qed
  show ?thesis
    using ve(1) p(1) by (auto intro!: runs_withPtr [OF refl] runs_bindE [OF ve(3)] body)
qed

lemma runs_return:
  assumes val: "validateStatements result (Statement mut target StmtReturn v local th el # ss) scope state False = Ret r"
    and vs: "valuesOK t fns ev vs" "v \<noteq> None \<Longrightarrow> v \<in> set vs" and inv: "inv n c scope state f"
  shows "runs t (evalStatements ev (Statement mut target StmtReturn v local th el # ss)) f
    (blockPost n c result scope (fst r) (snd r))"
proof -
  from val obtain e where e: "blockValue scope state v = Ret e" "TypeEqual result (exType e)"
    by (rule validate_return)
  have "v \<noteq> None" using blockValue_Some [OF e(1)] by simp
  with e(1) vs inv obtain ve: "v = Some e" "validateType (exType e) = Ret ()"
      "runs t (ev e) f (\<lambda>r f'. inv n c scope state f' \<and> produces (exType e) r)"
    by (metis runs_value)
  have "blockPost n c result scope (fst r) (snd r) (Some (cloneOutcome out)) f'"
    if "inv n c scope state f'" "produces (exType e) out" for out f'
    using that produces_clone [OF that(2) ve(2)] produces_equal [OF that(2)] TypeEqual_sym(1) [OF e(2)]
    by (simp add: blockPost_def inv_def)
  then show ?thesis
    using ve(1) by (auto intro!: runs_withPtr [OF refl] runs_bindE [OF ve(3)] runs_retE)
qed


text \<open>A nested block restores the scope it started from.\<close>

definition blockSafe ::
  "bool \<Rightarrow> nat \<Rightarrow> core_value list \<Rightarrow> core_type \<Rightarrow> (expr \<Rightarrow> outcome ev) \<Rightarrow> expr block \<Rightarrow> bool"
where
  "blockSafe t n c result ev b \<longleftrightarrow>
     (\<forall>scope state a state2 f. validateBlock result (Some b) scope state = Ret (a, state2) \<longrightarrow>
        inv n c scope state f \<longrightarrow>
        runs t (evalBlock ev (Some b)) f (\<lambda>out f'.
          case out of None \<Rightarrow> \<not> a \<and> inv n c scope state2 f' | Some r \<Rightarrow> produces result r \<and> tidy n c f'))"

lemma inv_take:
  assumes "inv n c (scope @ extra) state f" "tidy n c f'" "frValues f' = take (length scope) (frValues f)"
    "n \<le> length scope"
  shows "inv n c scope (take (length scope) state) f'"
proof -
  have "conforms (frValues f ! i) (paType (scope ! i))" if "i < length scope" "asDefinite (state ! i)" for i
    using assms(1) that unfolding inv_def fits_def definite_def
    by (auto simp: nth_append dest!: spec [where x = i])
  with assms show ?thesis by (auto simp: inv_def stateOK_def fits_def definite_def)
qed

lemma blockSafe_statements:
  assumes "\<And>scope state r f. validateStatements result bs scope state False = Ret r \<Longrightarrow>
      inv n c scope state f \<Longrightarrow>
      runs t (evalStatements ev bs) f (blockPost n c result scope (fst r) (snd r))"
  shows "blockSafe t n c result ev (Block bs)"
  unfolding blockSafe_def
proof (intro allI impI)
  fix scope state a state2 f
  assume v: "validateBlock result (Some (Block bs)) scope state = Ret (a, state2)"
    and inv: "inv n c scope state f"
  from v obtain state3 where s: "validateStatements result bs scope state False = Ret (a, state3)"
      "state2 = take (length state) state3" by auto
  have len: "length state = length scope" "length (frValues f) = length scope" "n \<le> length scope"
    using inv by (auto simp: inv_def fits_def stateOK_def)
  have "runs t (evalStatements ev bs) f (blockPost n c result scope a state3)"
    using assms [OF s(1) inv] by simp
  then have "runs t (evalStatements ev bs) f (\<lambda>out f'. blockPost n c result scope a state3 out f' \<and> tidy n c f')"
    by (rule runs_mono) (auto simp: blockPost_def inv_def split: option.splits)
  then have "runs t (thenPopTo (length (frValues f)) (evalStatements ev bs)) f (\<lambda>out f'.
      case out of None \<Rightarrow> \<not> a \<and> inv n c scope state2 f' | Some r \<Rightarrow> produces result r \<and> tidy n c f')"
    by (rule runs_thenPopTo)
      (use len s(2) in \<open>auto simp: blockPost_def split: option.splits intro: inv_take\<close>)
  then show "runs t (evalBlock ev (Some (Block bs))) f (\<lambda>out f'.
      case out of None \<Rightarrow> \<not> a \<and> inv n c scope state2 f' | Some r \<Rightarrow> produces result r \<and> tidy n c f')"
    by (simp add: runs_def bindE_def getFrame_def)
qed

text \<open>A nested block, then the rest of the statements.\<close>

lemma runs_then_rest:
  assumes "blockSafe t n c result ev b" "validateBlock result (Some b) scope state = Ret (a, state2)"
    "inv n c scope state f"
    "\<And>f'. \<not> a \<Longrightarrow> inv n c scope state2 f' \<Longrightarrow> runs t rest f' (blockPost n c result scope ret final)"
  shows "runs t (bindE (evalBlock ev (Some b)) (\<lambda>returned.
      case returned of None \<Rightarrow> rest | Some r \<Rightarrow> retE (Some r))) f (blockPost n c result scope ret final)"
proof (rule runs_bindE)
  show "runs t (evalBlock ev (Some b)) f (\<lambda>out f'.
      case out of None \<Rightarrow> \<not> a \<and> inv n c scope state2 f' | Some r \<Rightarrow> produces result r \<and> tidy n c f')"
    using assms(1-3) unfolding blockSafe_def by blast
  show "runs t (case out of None \<Rightarrow> rest | Some r \<Rightarrow> retE (Some r)) f' (blockPost n c result scope ret final)"
    if "case out of None \<Rightarrow> \<not> a \<and> inv n c scope state2 f' | Some r \<Rightarrow> produces result r \<and> tidy n c f'" for out f'
    using that assms(4) by (auto simp: blockPost_def intro!: runs_retE split: option.splits)
qed

lemma restOK_now:
  "restOK t n c result ev ss scope r \<Longrightarrow> validateStatements result ss scope state False = Ret r \<Longrightarrow>
     inv n c scope state f \<Longrightarrow> runs t (evalStatements ev ss) f (blockPost n c result scope (fst r) (snd r))"
  unfolding restOK_def by (metis append_Nil2)

lemma runs_nested:
  assumes val: "validateStatements result (Statement mut target StmtBlock v local th el # ss) scope state False = Ret r"
    and inv: "inv n c scope state f" and rest: "restOK t n c result ev ss scope r"
    and blocks: "\<And>b. th = Some b \<Longrightarrow> blockSafe t n c result ev b"
  shows "runs t (evalStatements ev (Statement mut target StmtBlock v local th el # ss)) f
    (blockPost n c result scope (fst r) (snd r))"
proof -
  from val obtain b a state2 where b: "th = Some b" "validateBlock result th scope state = Ret (a, state2)"
      "validateStatements result ss scope state2 a = Ret r"
    by (rule validate_block)
  have "runs t (evalStatements ev ss) f' (blockPost n c result scope (fst r) (snd r))"
    if "\<not> a" "inv n c scope state2 f'" for f'
    using restOK_now [OF rest _ that(2)] b(3) that(1) by simp
  from runs_then_rest [OF blocks [OF b(1)] b(2) [unfolded b(1)] inv this] b(1) show ?thesis by simp
qed

lemma merge_inv:
  assumes "inv n c scope (if left then l else r) f" "\<not> (if left then a else z)"
    "stateOK n s" "stateOK n l" "stateOK n r" "length l = length s" "length r = length s"
  shows "inv n c scope (mergeStates a z s l r) f"
proof (rule inv_weaken [OF assms(1)])
  show "stateOK n (mergeStates a z s l r)" using mergeStates_stateOK assms(3-7) .
  show "length (mergeStates a z s l r) = length (if left then l else r)"
    using mergeStates_length assms(6,7) by simp
  fix i assume "i < length (if left then l else r)" "asDefinite (mergeStates a z s l r ! i)"
  then show "asDefinite ((if left then l else r) ! i)"
    using assms(2,6,7) mergeStates_nth [of l s r i a z] by (auto simp: mergeState_def split: if_splits)
qed

lemma runs_if:
  assumes val: "validateStatements result (Statement mut target StmtIf v local th el # ss) scope state False = Ret r"
    and vs: "valuesOK t fns ev vs" "v \<noteq> None \<Longrightarrow> v \<in> set vs" and inv: "inv n c scope state f"
    and rest: "restOK t n c result ev ss scope r"
    and blocks: "\<And>b. th = Some b \<or> el = Some b \<Longrightarrow> blockSafe t n c result ev b"
  shows "runs t (evalStatements ev (Statement mut target StmtIf v local th el # ss)) f
    (blockPost n c result scope (fst r) (snd r))"
proof -
  from val obtain e b a left z right where w: "blockValue scope state v = Ret e"
      "TypeEqual (exType e) boolType" "th = Some b" "validateBlock result th scope state = Ret (a, left)"
      "(if el = None then Ret (False, state) else validateBlock result el scope state) = Ret (z, right)"
      "validateStatements result ss scope (mergeStates a z state left right) (a \<and> z) = Ret r"
    by (rule validate_if)
  have v: "v = Some e" using blockValue_Some [OF w(1)] .
  with w(1) vs inv have ve: "runs t (ev e) f (\<lambda>r f'. inv n c scope state f' \<and> produces (exType e) r)"
    by (metis option.distinct(1) runs_value)
  have st: "stateOK n state" "length state = length scope" using inv by (simp_all add: inv_def)
  have l: "stateOK n left \<and> length left = length state"
    using validateBlock_stateOK [OF w(4) [unfolded w(3)] st] .
  have rt: "stateOK n right \<and> length right = length state"
    using w(5) validateBlock_stateOK [OF _ st] st by (cases el) auto
  have go: "runs t (evalStatements ev ss) f' (blockPost n c result scope (fst r) (snd r))"
    if "inv n c scope (if side then left else right) f'" "\<not> (if side then a else z)" for side f'
  proof -
    have "(a \<and> z) = False" using that(2) by (cases side) auto
    from restOK_now [OF rest w(6) [unfolded this] merge_inv [OF that st(1)]] l rt show ?thesis by simp
  qed
  have body: "runs t (if \<not> oOK out then retE (Some out)
      else if vBool (oValue out) then (if th = None then evalStatements ev ss
        else bindE (evalBlock ev th) (\<lambda>returned. case returned of None \<Rightarrow> evalStatements ev ss | Some r \<Rightarrow> retE (Some r)))
      else (if el = None then evalStatements ev ss
        else bindE (evalBlock ev el) (\<lambda>returned. case returned of None \<Rightarrow> evalStatements ev ss | Some r \<Rightarrow> retE (Some r))))
      f' (blockPost n c result scope (fst r) (snd r))"
    if f': "inv n c scope state f'" and out: "produces (exType e) out" for out f'
  proof -
    have "tKind (exType e) \<noteq> TypeResult" using boolType_fields [OF w(2)] by simp
    with out obtain y where y: "out = okOutcome y" by (rule produces_value)
    have t1: "runs t (bindE (evalBlock ev (Some b)) (\<lambda>returned.
        case returned of None \<Rightarrow> evalStatements ev ss | Some r \<Rightarrow> retE (Some r))) f'
        (blockPost n c result scope (fst r) (snd r))"
      using runs_then_rest [OF blocks w(4) [unfolded w(3)] f'] go [of True] w(3) by auto
    have t2: "runs t (if el = None then evalStatements ev ss
        else bindE (evalBlock ev el) (\<lambda>returned. case returned of None \<Rightarrow> evalStatements ev ss | Some r \<Rightarrow> retE (Some r)))
        f' (blockPost n c result scope (fst r) (snd r))"
    proof (cases el)
      case None
      then show ?thesis using w(5) go [of False] f' by simp
    next
      case (Some b2)
      with w(5) have "validateBlock result (Some b2) scope state = Ret (z, right)" by simp
      from runs_then_rest [OF blocks this f'] go [of False] Some show ?thesis by simp
    qed
    show ?thesis using t1 t2 w(3) y by simp
  qed
  show ?thesis
    unfolding evalStatements.simps Let_def v
    by (simp only: stmt_kind.distinct simp_thms if_False if_True)
      (rule runs_withPtr [OF refl], rule runs_bindE [OF ve], erule conjE, erule (1) body)
qed

section \<open>Blocks run\<close>

lemma stmtsChildren_sub:
  "Statement mut target kind v local th el \<in> set ss \<Longrightarrow>
     (v \<noteq> None \<longrightarrow> v \<in> set (stmtsChildren ss)) \<and> set (BlockChildren th) \<subseteq> set (stmtsChildren ss)
     \<and> set (BlockChildren el) \<subseteq> set (stmtsChildren ss)"
proof (induction ss)
  case (Cons s ss)
  then show ?case by (cases s) auto
qed simp

lemma statements_safe:
  assumes "valuesOK t fns ev vs" "set (stmtsChildren ss) \<subseteq> set vs"
    "validateStatements result ss scope state False = Ret r" "inv n c scope state f"
  shows "runs t (evalStatements ev ss) f (blockPost n c result scope (fst r) (snd r))"
  using assms(2-)
proof (induction ss arbitrary: scope state r f rule: measure_induct_rule [where f = stmtsSize])
  case (less ss)
  show ?case
  proof (cases ss)
    case Nil
    have "inv n c (scope @ []) state f" using less.prems(3) by simp
    then show ?thesis
      using less.prems(2) Nil by (auto simp: blockPost_def intro!: runs_retE exI [of _ "[]"])
  next
    case (Cons s ss')
    obtain mut target kind v local th el where s: "s = Statement mut target kind v local th el"
      by (cases s)
    note val = less.prems(2) [unfolded Cons s]
    have sub: "v \<noteq> None \<Longrightarrow> v \<in> set vs" "set (BlockChildren th) \<subseteq> set vs"
        "set (BlockChildren el) \<subseteq> set vs" "set (stmtsChildren ss') \<subseteq> set vs"
      using less.prems(1) by (auto simp: Cons s split: if_splits)
    have rest: "restOK t n c result ev ss' scope r"
      unfolding restOK_def
    proof (intro allI impI)
      fix extra state2 f2
      assume v2: "validateStatements result ss' (scope @ extra) state2 False = Ret r"
        and i2: "inv n c (scope @ extra) state2 f2"
      have "runs t (evalStatements ev ss') f2 (blockPost n c result (scope @ extra) (fst r) (snd r))"
        using Cons by (intro less.IH [OF _ sub(4) v2 i2]) simp
      then show "runs t (evalStatements ev ss') f2 (blockPost n c result scope (fst r) (snd r))"
        by (rule runs_mono) (auto simp: blockPost_def split: option.splits)
    qed
    have blocks: "blockSafe t n c result ev b" if b: "th = Some b \<or> el = Some b" for b
    proof -
      obtain bs where bs: "b = Block bs" by (cases b)
      have small: "stmtsSize bs < stmtsSize ss" using b Cons s bs by auto
      have "set (stmtsChildren bs) \<subseteq> set vs" using b bs sub(2,3) by auto
      with less.IH [OF small] show ?thesis unfolding bs by (intro blockSafe_statements) blast
    qed
    note inv = less.prems(3)
    have "runs t (evalStatements ev (Statement mut target kind v local th el # ss')) f
        (blockPost n c result scope (fst r) (snd r))"
      using validate_kinds [OF val]
    proof (elim insertE emptyE)
      assume "kind = StmtLocal" then show ?thesis
        using runs_local [OF _ assms(1) sub(1) inv rest] val by blast
    next
      assume "kind = StmtAssign" then show ?thesis
        using runs_assign [OF _ assms(1) sub(1) inv rest] val by blast
    next
      assume "kind = StmtReturn" then show ?thesis
        using runs_return [OF _ assms(1) sub(1) inv] val by blast
    next
      assume "kind = StmtIf" then show ?thesis
        using runs_if [OF _ assms(1) sub(1) inv rest blocks] val by blast
    next
      assume "kind = StmtBlock" then show ?thesis
        using runs_nested [OF _ inv rest blocks] val by blast
    qed
    then show ?thesis by (simp only: Cons s)
  qed
qed


text \<open>The body of a validated block function returns, and leaves the slice of the caller alone.\<close>

lemma block_function_returns:
  assumes val: "validateBlockFunction g = Ret ()" and vs: "valuesOK t fns ev (BlockChildren (exBlock (fnBody g)))"
    and args: "argumentsConform (frValues f) g"
  shows "returns t (evalBlockExpr ev (fnBody g)) (fnReturnType g) f"
proof -
  let ?ps = "fnParameters g" and ?n = "length (fnParameters g)"
  from val obtain b where b: "exBlock (fnBody g) = Some b"
    by (auto simp: validateBlockFunction_def Let_def)
  with val obtain a state where v: "validateBlock (fnReturnType g) (Some b) ?ps (replicate ?n parameterState)
      = Ret (a, state)" "a"
    by (auto simp: validateBlockFunction_def Let_def)
  obtain bs where bs: "b = Block bs" by (cases b)
  have len: "length (frValues f) = ?n"
    using args by (auto simp: argumentsConform_def dest: list_all2_lengthD)
  have "conforms (frValues f ! i) (paType (?ps ! i))" if "i < ?n" for i
    using args that by (auto simp: argumentsConform_def dest: list_all2_nthD2)
  then have inv: "inv ?n (frCaller f) ?ps (replicate ?n parameterState) f"
    using len by (auto simp: inv_def tidy_def stateOK_def fits_def definite_def parameterState_def)
  have "blockSafe t ?n (frCaller f) (fnReturnType g) ev (Block bs)"
    using vs b bs by (intro blockSafe_statements statements_safe [OF vs]) auto
  then have "runs t (evalBlock ev (Some b)) f (\<lambda>out f'. case out of
      None \<Rightarrow> \<not> a \<and> inv ?n (frCaller f) ?ps state f'
    | Some r \<Rightarrow> produces (fnReturnType g) r \<and> tidy ?n (frCaller f) f')"
    using v(1) inv bs unfolding blockSafe_def by blast
  then have "runs t (evalBlockExpr ev (fnBody g)) f
      (\<lambda>r f'. produces (fnReturnType g) r \<and> tidy ?n (frCaller f) f')"
    unfolding evalBlockExpr_def b
    by (rule runs_bindE) (use v(2) in \<open>auto intro: runs_retE split: option.splits\<close>)
  then show ?thesis by (auto simp: runs_def returns_def tidy_def)
qed

end
