(* ===== verification/CoreSoundness.thy ===== *)
theory CoreSoundness
  imports CoreSafetyBlocks
begin

text \<open>
  The evaluator of a program whose functions have been validated: with any fuel it gives a
  result of the right type or runs out, and with the fuel a ranking of the call graph asks for
  it gives the result.
\<close>

section \<open>Validated functions\<close>

definition functionOK :: "function_map \<Rightarrow> func \<Rightarrow> bool" where
  "functionOK fns g \<longleftrightarrow>
     (\<forall>x \<in> set (subexprs (fnBody g)). exKind x \<noteq> ExprPropagate \<and> semanticsOK fns x)
     \<and> (if exKind (fnBody g) = ExprBlock then validateBlockFunction g = Ret ()
        else validateExpr (fnBody g) (fnParameters g) = Ret ()
          \<and> TypeEqual (fnReturnType g) (exType (fnBody g)))"

definition functionsOK :: "function_map \<Rightarrow> bool" where
  "functionsOK fns \<longleftrightarrow> (\<forall>i g. lookup fns i = Some g \<longrightarrow> functionOK fns g)"

text \<open>
  A ranking of the functions: a body enters functions of smaller rank only. \<open>B\<close> bounds the
  size of every body, so \<open>size e + R * (B + 1)\<close> bounds the depth of the recursion from an
  expression that enters functions of rank below \<open>R\<close>.
\<close>

definition entersBelow :: "function_map \<Rightarrow> (func \<Rightarrow> nat) \<Rightarrow> nat \<Rightarrow> expr \<Rightarrow> bool" where
  "entersBelow fns rk R e \<longleftrightarrow> (\<forall>x \<in> set (subexprs e). \<forall>h. entersFunction fns x h \<longrightarrow> rk h < R)"

definition ranked :: "function_map \<Rightarrow> (func \<Rightarrow> nat) \<Rightarrow> nat \<Rightarrow> bool" where
  "ranked fns rk B \<longleftrightarrow>
     (\<forall>i g. lookup fns i = Some g \<longrightarrow> size (fnBody g) \<le> B \<and> entersBelow fns rk (rk g) (fnBody g))"

definition enough :: "bool \<Rightarrow> function_map \<Rightarrow> (func \<Rightarrow> nat) \<Rightarrow> nat \<Rightarrow> nat \<Rightarrow> expr \<Rightarrow> nat \<Rightarrow> bool" where
  "enough t fns rk B n e R \<longleftrightarrow> t \<or> (size e + R * Suc B \<le> n \<and> entersBelow fns rk R e \<and> ranked fns rk B)"

lemma enough_child:
  assumes "enough t fns rk B (Suc n) e R" "c \<in> set (children e)"
  shows "enough t fns rk B n c R"
  using assms size_children [OF assms(2)] subexprs_child [OF assms(2)]
  by (auto simp: enough_def entersBelow_def)

lemma enough_callee:
  assumes "enough t fns rk B (Suc n) e R" "entersFunction fns e g" "lookup fns i = Some g"
  shows "enough t fns rk B n (fnBody g) (rk g)"
proof (cases t)
  case False
  then have e: "size e + R * Suc B \<le> Suc n" "rk g < R" "size (fnBody g) \<le> B"
      "entersBelow fns rk (rk g) (fnBody g)" "ranked fns rk B"
    using assms by (auto simp: enough_def entersBelow_def ranked_def)
  have "Suc (rk g) * Suc B \<le> R * Suc B" using e(2) by (intro mult_le_mono1) simp
  then have "size (fnBody g) + rk g * Suc B \<le> n" using e(1,3) by simp
  with e(4,5) show ?thesis by (simp add: enough_def)
qed (simp add: enough_def)

lemma safe_returns:
  assumes "safe t (frValues f) m (produces typ)" "TypeEqual typ typ'"
  shows "returns t m typ' f"
  using assms produces_equal unfolding safe_def returns_def same_def by blast

lemma sound_step:
  assumes "foldTableOK table" "okExpr fns D ps e" "fits D ps vs"
    "\<And>c qs ws. c \<in> set (children e) \<Longrightarrow> okExpr fns D qs c \<Longrightarrow> fits D qs ws \<Longrightarrow>
       safe t ws (evalExpr table n fns c) (produces (exType c))"
    "\<And>g ws. entersFunction fns e g \<Longrightarrow> argumentsConform ws g \<Longrightarrow>
       returns t (evalExpr table n fns (fnBody g)) (fnReturnType g) (ownedFrame ws)"
  shows "safe t vs (evalExpr table (Suc n) fns e) (produces (exType e))"
proof -
  have "ready t fns D (\<lambda>c. evalExpr table n fns c) ps vs e"
    unfolding ready_def using assms(2-5) by blast
  from evalStep_safe [OF this assms(1)] show ?thesis by simp
qed

lemma entersFunction_lookup: "entersFunction fns e g \<Longrightarrow> \<exists>i. lookup fns i = Some g"
  by (auto simp: entersFunction_def)

theorem evalExpr_sound:
  assumes tb: "foldTableOK table" and fns: "functionsOK fns"
  shows "(\<forall>D qs ws e R. okExpr fns D qs e \<longrightarrow> fits D qs ws \<longrightarrow> enough t fns rk B n e R \<longrightarrow>
      safe t ws (evalExpr table n fns e) (produces (exType e)))
    \<and> (\<forall>g f R. functionOK fns g \<longrightarrow> argumentsConform (frValues f) g \<longrightarrow>
      enough t fns rk B n (fnBody g) R \<longrightarrow>
      returns t (evalExpr table n fns (fnBody g)) (fnReturnType g) f)"
proof (induction n)
  case 0
  have "t" if "enough t fns rk B 0 e R" for e :: expr and R
    using that by (cases e) (auto simp: enough_def)
  then show ?case by (auto simp: safe_def returns_def liftR_def)
next
  case (Suc n)
  have child: "safe t ws (evalExpr table n fns c) (produces (exType c))"
    if "enough t fns rk B (Suc n) e R" "c \<in> set (children e)" "okExpr fns D qs c" "fits D qs ws" for e R c D qs ws
    using Suc.IH that enough_child [OF that(1,2)] by blast
  have callee: "returns t (evalExpr table n fns (fnBody g)) (fnReturnType g) (ownedFrame ws)"
    if n: "enough t fns rk B (Suc n) e R" and en: "entersFunction fns e g" and ws: "argumentsConform ws g"
    for e R g ws
  proof -
    obtain i where i: "lookup fns i = Some g" using entersFunction_lookup [OF en] by blast
    have "functionOK fns g" using fns i by (auto simp: functionsOK_def)
    moreover have "argumentsConform (frValues (ownedFrame ws)) g" using ws by (simp add: ownedFrame_def)
    ultimately show ?thesis using Suc.IH enough_callee [OF n en i] by blast
  qed
  have expr: "safe t ws (evalExpr table (Suc n) fns e) (produces (exType e))"
    if "okExpr fns D qs e" "fits D qs ws" "enough t fns rk B (Suc n) e R" for D qs ws e R
    by (rule sound_step [OF tb that(1,2)]) (rule child [OF that(3)] callee [OF that(3)]; assumption)+
  have func: "returns t (evalExpr table (Suc n) fns (fnBody g)) (fnReturnType g) f"
    if g: "functionOK fns g" and args: "argumentsConform (frValues f) g"
      and n: "enough t fns rk B (Suc n) (fnBody g) R" for g f R
  proof (cases "exKind (fnBody g) = ExprBlock")
    case True
    have "sound t fns (evalExpr table n fns) c" if "c \<in> set (children (fnBody g))" for c
      using child [OF n that] by (auto simp: sound_def)
    moreover have "x \<in> set (subexprs (fnBody g))" if "x \<in> set (subexprs c)" "c \<in> set (children (fnBody g))" for x c
      using subexprs_child that by blast
    moreover have "c \<in> set (children (fnBody g))" if "Some c \<in> set (BlockChildren (exBlock (fnBody g)))" for c
      using that True by (simp add: set_children expressionChildren_def)
    ultimately have "valuesOK t fns (evalExpr table n fns) (BlockChildren (exBlock (fnBody g)))"
      using g by (auto simp: valuesOK_def functionOK_def)
    from block_function_returns [OF _ this args] g True show ?thesis
      by (simp add: functionOK_def evalStep_def)
  next
    case False
    then have v: "validateExpr (fnBody g) (fnParameters g) = Ret ()"
        "TypeEqual (exType (fnBody g)) (fnReturnType g)"
      using g TypeEqual_sym(1) by (auto simp: functionOK_def)
    have "okExpr fns (\<lambda>_. True) (fnParameters g) (fnBody g)"
      using g v(1) by (auto simp: okExpr_def admissible_def functionOK_def semanticsOK_def readsOK_def)
    moreover have "fits (\<lambda>_. True) (fnParameters g) (frValues f)"
      using args by (auto simp: argumentsConform_def fits_def dest: list_all2_lengthD list_all2_nthD2)
    ultimately show ?thesis using expr n v(2) by (blast intro: safe_returns)
  qed
  show ?case using expr func by blast
qed

end
