(* ===== verification/CoreCycles.thy ===== *)
theory CoreCycles
  imports CoreProgram
begin

text \<open>
  The cycle check of \<open>ValidateProgram\<close>: a depth-first search with three colours over the
  call graph. It accepts exactly the acyclic call graphs and never runs out of the fuel
  \<open>checkCycles\<close> gives it; an accepted program has a ranking of its functions.
\<close>

section \<open>The call graph\<close>

text \<open>Pairs of a called key and the key of a function whose body calls it.\<close>

definition calls :: "(string \<Rightarrow> func option) \<Rightarrow> (string \<times> string) set" where
  "calls table = {(k, j). \<exists>g. table j = Some g \<and> k \<in> set (callTargets (fnBody g))}"

definition keyed :: "(string \<Rightarrow> func option) \<Rightarrow> bool" where
  "keyed table \<longleftrightarrow> (\<forall>k g. table k = Some g \<longrightarrow> functionKey (fnIdentity g) = k)"

definition closedCalls :: "(string \<Rightarrow> func option) \<Rightarrow> bool" where
  "closedCalls table \<longleftrightarrow> (\<forall>(k, j) \<in> calls table. table k \<noteq> None)"

section \<open>What a visit does\<close>

text \<open>Visits paint white nodes black, and leave the grey ones alone.\<close>

definition paints :: "visit_state \<Rightarrow> visit_state \<Rightarrow> bool" where
  "paints st st' \<longleftrightarrow> (\<forall>k. (st' k = 1 \<longleftrightarrow> st k = 1) \<and> (st k = 2 \<longrightarrow> st' k = 2) \<and> (st' k \<le> 2))"

definition blackOK :: "(string \<Rightarrow> func option) \<Rightarrow> visit_state \<Rightarrow> bool" where
  "blackOK table st \<longleftrightarrow>
     (\<forall>(k, j) \<in> calls table. st j = 2 \<longrightarrow> st k = 2)
     \<and> acyclic {(k, j). (k, j) \<in> calls table \<and> st j = 2} \<and> (\<forall>k. st k \<le> 2)"

lemma paints_refl: "blackOK table st \<Longrightarrow> paints st st"
  by (simp add: paints_def blackOK_def)

lemma paints_trans: "paints st st' \<Longrightarrow> paints st' st'' \<Longrightarrow> paints st st''"
  by (simp add: paints_def)

lemma acyclic_new_target:
  assumes "acyclic R" "z \<notin> Domain R" "z \<notin> A"
  shows "acyclic (R \<union> A \<times> {z})"
proof -
  have path: "(x, y) \<in> R\<^sup>+" if "(x, y) \<in> (R \<union> A \<times> {z})\<^sup>+" "y \<noteq> z" for x y
    using that
  proof (induction rule: trancl_induct)
    case (step y w)
    then have "y \<noteq> z" "(y, w) \<in> R" using assms(2,3) by auto
    with step.IH show ?case by simp
  qed auto
  show ?thesis
  proof (rule acyclicI, rule allI, rule notI)
    fix x assume x: "(x, x) \<in> (R \<union> A \<times> {z})\<^sup>+"
    then have "x \<in> Domain (R \<union> A \<times> {z})" by (metis DomainI tranclD)
    then have "x \<noteq> z" using assms(2,3) by auto
    with path [OF x] assms(1) show False by (simp add: acyclic_def)
  qed
qed

lemma walkTargets_paints:
  assumes "\<And>k st st'. k \<in> set ks \<Longrightarrow> st k = 0 \<Longrightarrow> blackOK table st \<Longrightarrow> vt k st = Ret st' \<Longrightarrow>
      paints st st' \<and> blackOK table st' \<and> st' k = 2"
    "walkTargets vt ks st = Ret st'" "blackOK table st"
  shows "paints st st' \<and> blackOK table st' \<and> (\<forall>k \<in> set ks. st' k = 2)"
  using assms
proof (induction ks arbitrary: st)
  case Nil
  then show ?case by (simp add: paints_refl)
next
  case (Cons k ks)
  from Cons.prems(2) obtain st1 where s: "st k \<noteq> 1" "(if st k = 0 then vt k st else Ret st) = Ret st1"
      "walkTargets vt ks st1 = Ret st'"
    by (auto split: if_splits)
  have "st k \<le> 2" using Cons.prems(3) by (simp add: blackOK_def)
  with s(1) have k: "st k = 0 \<or> st k = 2" by linarith
  have one: "paints st st1 \<and> blackOK table st1 \<and> st1 k = 2"
    using k s(2) Cons.prems(1) [of k st st1] Cons.prems(3) by (auto simp: paints_refl)
  have "paints st1 st' \<and> blackOK table st' \<and> (\<forall>k \<in> set ks. st' k = 2)"
    using Cons.prems(1) one s(3) by (intro Cons.IH) auto
  with one show ?case by (auto simp: paints_def)
qed

lemma visit_paints:
  assumes "keyed table" "closedCalls table"
    "visit n table g st = Ret st'" "table (functionKey (fnIdentity g)) = Some g"
    "st (functionKey (fnIdentity g)) = 0" "blackOK table st"
  shows "paints st st' \<and> blackOK table st' \<and> st' (functionKey (fnIdentity g)) = 2"
  using assms(3-)
proof (induction n arbitrary: g st st')
  case (Suc n)
  define key where "key = functionKey (fnIdentity g)"
  define vt where "vt = (\<lambda>k st. case table k of
      None \<Rightarrow> Ret (st([CHR 0x00] := 2)) | Some h \<Rightarrow> visit n table h st)"
  from Suc.prems(1) obtain st2 where st2: "walkTargets vt (callTargets (fnBody g)) (st(key := 1)) = Ret st2"
      "st' = st2(key := 2)"
    by (auto simp: Let_def vt_def key_def)
  have white: "st key = 0" "table key = Some g" using Suc.prems(2,3) by (simp_all add: key_def)
  have edge: "(k, key) \<in> calls table" if "k \<in> set (callTargets (fnBody g))" for k
    using that white(2) by (auto simp: calls_def)
  have black: "blackOK table (st(key := 1))"
    using Suc.prems(4) white(1) unfolding blackOK_def
    by (auto simp: split_beta elim!: acyclic_subset)
  have vt: "paints s s' \<and> blackOK table s' \<and> s' k = 2"
    if k: "k \<in> set (callTargets (fnBody g))" and s: "s k = 0" "blackOK table s" "vt k s = Ret s'" for k s s'
  proof -
    obtain h where h: "table k = Some h"
      using edge [OF k] assms(2) by (auto simp: closedCalls_def)
    then have "functionKey (fnIdentity h) = k" using assms(1) by (simp add: keyed_def)
    with Suc.IH [of h s s'] h s show ?thesis by (simp add: vt_def)
  qed
  from walkTargets_paints [OF vt st2(1) black] have w: "paints (st(key := 1)) st2" "blackOK table st2"
      "\<forall>k \<in> set (callTargets (fnBody g)). st2 k = 2" by blast+
  have grey: "st2 key = 1" using w(1) by (simp add: paints_def)
  have "acyclic ({(k, j). (k, j) \<in> calls table \<and> st2 j = 2} \<union> set (callTargets (fnBody g)) \<times> {key})"
  proof (rule acyclic_new_target)
    show "acyclic {(k, j). (k, j) \<in> calls table \<and> st2 j = 2}" using w(2) by (simp add: blackOK_def)
    show "key \<notin> Domain {(k, j). (k, j) \<in> calls table \<and> st2 j = 2}"
      using w(2) grey by (auto simp: blackOK_def)
    show "key \<notin> set (callTargets (fnBody g))" using w(3) grey by auto
  qed
  moreover have "{(k, j). (k, j) \<in> calls table \<and> st' j = 2}
      \<subseteq> {(k, j). (k, j) \<in> calls table \<and> st2 j = 2} \<union> set (callTargets (fnBody g)) \<times> {key}"
    using white(2) st2(2) by (auto simp: calls_def split: if_splits)
  ultimately have "acyclic {(k, j). (k, j) \<in> calls table \<and> st' j = 2}" by (rule acyclic_subset)
  moreover have "st' k = 2" if "(k, j) \<in> calls table" "st' j = 2" for k j
    using that w(2,3) white(2) st2(2) by (auto simp: blackOK_def calls_def split: if_splits)
  moreover have "\<forall>k. st' k \<le> 2" using w(2) st2(2) by (simp add: blackOK_def)
  ultimately have "blackOK table st'" by (auto simp: blackOK_def)
  moreover have "paints st st'"
    using w(1) white(1) st2(2) by (auto simp: paints_def split: if_splits)
  moreover have "st' (functionKey (fnIdentity g)) = 2" using st2(2) by (simp add: key_def)
  ultimately show ?case by blast
qed simp

lemma visitAll_paints:
  assumes "keyed table" "closedCalls table" "\<And>g. g \<in> set fns \<Longrightarrow> table (functionKey (fnIdentity g)) = Some g"
    "visitAll n table fns st = Ret st'" "blackOK table st" "\<forall>k. st k \<noteq> 1"
  shows "blackOK table st' \<and> (\<forall>k. st' k \<noteq> 1) \<and> paints st st'
    \<and> (\<forall>g \<in> set fns. st' (functionKey (fnIdentity g)) = 2)"
  using assms(3-)
proof (induction fns arbitrary: st)
  case Nil
  then show ?case by (simp add: paints_refl)
next
  case (Cons g fns)
  define key where "key = functionKey (fnIdentity g)"
  from Cons.prems(2) obtain st1 where s: "(if st key = 0 then visit n table g st else Ret st) = Ret st1"
      "visitAll n table fns st1 = Ret st'" by (auto simp: key_def)
  have "st key \<le> 2" "st key \<noteq> 1" using Cons.prems(3,4) by (simp_all add: blackOK_def)
  then have k: "st key = 0 \<or> st key = 2" by linarith
  have one: "paints st st1 \<and> blackOK table st1 \<and> st1 key = 2"
    using k s(1) visit_paints [OF assms(1,2), of n g st st1] Cons.prems(1,3) paints_refl by (auto simp: key_def)
  then have ng: "\<forall>k. st1 k \<noteq> 1" using Cons.prems(4) by (simp add: paints_def)
  have "blackOK table st' \<and> (\<forall>k. st' k \<noteq> 1) \<and> paints st1 st'
      \<and> (\<forall>g \<in> set fns. st' (functionKey (fnIdentity g)) = 2)"
    using Cons.prems(1) s(2) one ng by (intro Cons.IH) auto
  with one show ?case by (auto simp: key_def paints_def)
qed

text \<open>The whole program: the map holds the functions of the list, each under its own key.\<close>

definition tableOf :: "func list \<Rightarrow> (string \<Rightarrow> func option) \<Rightarrow> bool" where
  "tableOf fns table \<longleftrightarrow>
     (\<forall>g \<in> set fns. table (functionKey (fnIdentity g)) = Some g)
     \<and> (\<forall>k g. table k = Some g \<longrightarrow> g \<in> set fns \<and> functionKey (fnIdentity g) = k)"

lemma tableOf_keyed: "tableOf fns table \<Longrightarrow> keyed table"
  by (simp add: tableOf_def keyed_def)

lemma checkCycles_acyclic:
  assumes "tableOf fns table" "closedCalls table" "checkCycles table fns = Ret ()"
  shows "acyclic (calls table)"
proof -
  from assms(3) obtain st where st: "visitAll (Suc (length fns)) table fns (\<lambda>_. 0) = Ret st"
    by (auto simp: checkCycles_def)
  have t: "table (functionKey (fnIdentity g)) = Some g" if "g \<in> set fns" for g
    using assms(1) that by (simp add: tableOf_def)
  have "blackOK table (\<lambda>_. 0)" by (simp add: blackOK_def acyclic_def)
  from visitAll_paints [OF tableOf_keyed [OF assms(1)] assms(2) t st this]
  have b: "blackOK table st" "\<forall>g \<in> set fns. st (functionKey (fnIdentity g)) = 2" by auto
  have "calls table = {(k, j). (k, j) \<in> calls table \<and> st j = 2}"
    using b(2) assms(1) by (auto simp: calls_def tableOf_def)
  with b(1) show ?thesis by (simp add: blackOK_def)
qed


section \<open>An error is a cycle\<close>

text \<open>The grey nodes are the callers, direct or not, of the node being visited.\<close>

definition greyAbove :: "(string \<Rightarrow> func option) \<Rightarrow> string \<Rightarrow> visit_state \<Rightarrow> bool" where
  "greyAbove table k st \<longleftrightarrow> (\<forall>j. st j = 1 \<longrightarrow> (k, j) \<in> (calls table)\<^sup>+)"

lemma walkTargets_outcome:
  assumes "\<And>k st. k \<in> set ks \<Longrightarrow> st k = 0 \<Longrightarrow> Q st \<Longrightarrow>
      (\<exists>st'. vt k st = Ret st' \<and> Q st') \<or> (\<exists>m. vt k st = Err m \<and> bad)"
    "\<And>k st. k \<in> set ks \<Longrightarrow> Q st \<Longrightarrow> st k = 1 \<Longrightarrow> bad" "Q st"
  shows "(\<exists>st'. walkTargets vt ks st = Ret st' \<and> Q st') \<or> (\<exists>m. walkTargets vt ks st = Err m \<and> bad)"
  using assms
proof (induction ks arbitrary: st)
  case (Cons k ks)
  have rest: "(\<exists>st'. walkTargets vt ks s = Ret st' \<and> Q st') \<or> (\<exists>m. walkTargets vt ks s = Err m \<and> bad)"
    if "Q s" for s
    using Cons.prems(1,2) that by (intro Cons.IH) auto
  show ?case
  proof (cases "st k = 0")
    case True
    with Cons.prems(1,3) consider st' where "vt k st = Ret st'" "Q st'" | m where "vt k st = Err m" "bad"
      by (metis list.set_intros(1))
    then show ?thesis using True rest by cases auto
  next
    case False
    then show ?thesis using Cons.prems(2,3) rest by auto
  qed
qed simp

definition whites :: "(string \<Rightarrow> func option) \<Rightarrow> visit_state \<Rightarrow> string set" where
  "whites table st = {k. table k \<noteq> None \<and> st k = 0}"

lemma whites_less:
  assumes "finite (dom table)" "table key \<noteq> None" "st key = 0" "\<forall>k. st' k = 0 \<longrightarrow> st k = 0" "st' key \<noteq> 0"
  shows "card (whites table st') < card (whites table st)"
proof (rule psubset_card_mono)
  show "finite (whites table st)"
    using assms(1) by (rule rev_finite_subset) (auto simp: whites_def)
  have "key \<in> whites table st" "key \<notin> whites table st'" using assms(2,3,5) by (simp_all add: whites_def)
  moreover have "whites table st' \<subseteq> whites table st" using assms(4) by (auto simp: whites_def)
  ultimately show "whites table st' \<subset> whites table st" by blast
qed

text \<open>
  With fuel for the white nodes a visit succeeds and leaves no more of them, or there is a
  cycle.
\<close>

lemma visit_outcome:
  assumes "keyed table" "closedCalls table" "finite (dom table)"
    "table (functionKey (fnIdentity g)) = Some g" "st (functionKey (fnIdentity g)) = 0"
    "card (whites table st) \<le> n" "greyAbove table (functionKey (fnIdentity g)) st"
  shows "(\<exists>st'. visit n table g st = Ret st' \<and> (\<forall>k. st' k = 0 \<longrightarrow> st k = 0) \<and> (\<forall>k. st' k = 1 \<longrightarrow> st k = 1))
    \<or> (\<exists>m. visit n table g st = Err m \<and> \<not> acyclic (calls table))"
  using assms(4-)
proof (induction n arbitrary: g st)
  case 0
  have "finite (whites table st)"
    using assms(3) by (rule rev_finite_subset) (auto simp: whites_def)
  moreover have "functionKey (fnIdentity g) \<in> whites table st" using 0 by (simp add: whites_def)
  ultimately show ?case using "0.prems"(3) by (metis card_0_eq empty_iff le_zero_eq)
next
  case (Suc n)
  define key where "key = functionKey (fnIdentity g)"
  define vt where "vt = (\<lambda>k st. case table k of
      None \<Rightarrow> Ret (st([CHR 0x00] := 2)) | Some h \<Rightarrow> visit n table h st)"
  define Q where "Q = (\<lambda>s :: visit_state. (\<forall>k. s k = 0 \<longrightarrow> st k = 0 \<and> k \<noteq> key) \<and> (\<forall>k. s k = 1 \<longrightarrow> st k = 1 \<or> k = key))"
  note prems = Suc.prems [folded key_def]
  have edge: "(k, key) \<in> calls table" if "k \<in> set (callTargets (fnBody g))" for k
    using that prems(1) by (auto simp: calls_def)
  have above: "(k, j) \<in> (calls table)\<^sup>+" if "k \<in> set (callTargets (fnBody g))" "Q s" "s j = 1" for k s j
  proof -
    have "j = key \<or> (key, j) \<in> (calls table)\<^sup>+"
      using that(2,3) prems(4) by (auto simp: Q_def greyAbove_def)
    with edge [OF that(1)] show ?thesis by (metis trancl.r_into_trancl trancl_trans)
  qed
  have vt: "(\<exists>s'. vt k s = Ret s' \<and> Q s') \<or> (\<exists>m. vt k s = Err m \<and> \<not> acyclic (calls table))"
    if k: "k \<in> set (callTargets (fnBody g))" and s: "s k = 0" "Q s" for k and s :: visit_state
  proof -
    obtain h where h: "table k = Some h"
      using edge [OF k] assms(2) by (auto simp: closedCalls_def)
    then have hk: "functionKey (fnIdentity h) = k" using assms(1) by (simp add: keyed_def)
    have "s key \<noteq> 0" using s(2) by (auto simp: Q_def)
    then have "card (whites table s) < card (whites table st)"
      using prems(1,2) s(2) by (intro whites_less [OF assms(3)]) (auto simp: Q_def)
    then have "card (whites table s) \<le> n" using prems(3) by simp
    moreover have "greyAbove table k s" using above [OF k s(2)] by (simp add: greyAbove_def)
    ultimately show ?thesis
      using Suc.IH [of h s] h hk s by (auto simp: vt_def Q_def)
  qed
  have "Q (st(key := 1))" using prems(2) by (auto simp: Q_def)
  moreover have "\<not> acyclic (calls table)" if "k \<in> set (callTargets (fnBody g))" "Q s" "s k = 1" for k s
    using above [OF that] by (auto simp: acyclic_def)
  ultimately have "(\<exists>s'. walkTargets vt (callTargets (fnBody g)) (st(key := 1)) = Ret s' \<and> Q s')
      \<or> (\<exists>m. walkTargets vt (callTargets (fnBody g)) (st(key := 1)) = Err m \<and> \<not> acyclic (calls table))"
    using vt by (intro walkTargets_outcome) blast+
  then show ?case by (auto simp: Let_def key_def [symmetric] vt_def [symmetric] Q_def split: if_splits)
qed

lemma visitAll_outcome:
  assumes "keyed table" "closedCalls table" "finite (dom table)"
    "\<And>g. g \<in> set fns \<Longrightarrow> table (functionKey (fnIdentity g)) = Some g"
    "card (dom table) \<le> n" "\<forall>k. st k \<noteq> 1"
  shows "(\<exists>st'. visitAll n table fns st = Ret st')
    \<or> (\<exists>m. visitAll n table fns st = Err m \<and> \<not> acyclic (calls table))"
  using assms(4-)
proof (induction fns arbitrary: st)
  case (Cons g fns)
  have "whites table st \<subseteq> dom table" by (auto simp: whites_def)
  then have "card (whites table st) \<le> n"
    using card_mono [OF assms(3)] Cons.prems(2) by (meson le_trans)
  then have "(\<exists>st'. visit n table g st = Ret st' \<and> (\<forall>k. st' k = 1 \<longrightarrow> st k = 1))
      \<or> (\<exists>m. visit n table g st = Err m \<and> \<not> acyclic (calls table))"
    if w: "st (functionKey (fnIdentity g)) = 0"
    using visit_outcome [OF assms(1-3), of g st n] w Cons.prems(1,3) by (auto simp: greyAbove_def)
  then consider st' where "(if st (functionKey (fnIdentity g)) = 0 then visit n table g st else Ret st) = Ret st'"
      "\<forall>k. st' k \<noteq> 1"
    | m where "(if st (functionKey (fnIdentity g)) = 0 then visit n table g st else Ret st) = Err m"
      "\<not> acyclic (calls table)"
    using Cons.prems(3) by (cases "st (functionKey (fnIdentity g)) = 0") auto
  then show ?case
  proof cases
    case 1
    then show ?thesis using Cons.IH [of st'] Cons.prems(1,2) by (auto split: if_splits)
  next
    case 2
    then show ?thesis by (auto split: if_splits)
  qed
qed simp

lemma tableOf_finite:
  assumes "tableOf fns table"
  shows "finite (dom table)" "card (dom table) \<le> length fns"
proof -
  have d: "dom table \<subseteq> (\<lambda>g. functionKey (fnIdentity g)) ` set fns"
    using assms by (force simp: tableOf_def)
  then show "finite (dom table)" by (rule finite_subset) simp
  have "card (dom table) \<le> card ((\<lambda>g. functionKey (fnIdentity g)) ` set fns)"
    using d by (intro card_mono) simp_all
  also have "\<dots> \<le> length fns" using card_image_le [of "set fns"] card_length [of fns] by (meson finite_set le_trans)
  finally show "card (dom table) \<le> length fns" .
qed

lemma checkCycles_decides:
  assumes "tableOf fns table" "closedCalls table"
  shows "if acyclic (calls table) then checkCycles table fns = Ret () else \<exists>m. checkCycles table fns = Err m"
proof -
  have t: "table (functionKey (fnIdentity g)) = Some g" if "g \<in> set fns" for g
    using assms(1) that by (simp add: tableOf_def)
  have "(\<exists>st'. visitAll (Suc (length fns)) table fns (\<lambda>_. 0) = Ret st')
      \<or> (\<exists>m. visitAll (Suc (length fns)) table fns (\<lambda>_. 0) = Err m \<and> \<not> acyclic (calls table))"
    using visitAll_outcome [OF tableOf_keyed [OF assms(1)] assms(2) _ t] tableOf_finite [OF assms(1)] by simp
  then show ?thesis
    using checkCycles_acyclic [OF assms] by (auto simp: checkCycles_def)
qed

section \<open>Ranks\<close>

definition callRank :: "(string \<Rightarrow> func option) \<Rightarrow> string \<Rightarrow> nat" where
  "callRank table j = card {k \<in> dom table. (k, j) \<in> (calls table)\<^sup>+}"

lemma callRank_less:
  assumes "finite (dom table)" "acyclic (calls table)" "(k, j) \<in> calls table" "k \<in> dom table"
  shows "callRank table k < callRank table j"
  unfolding callRank_def
proof (rule psubset_card_mono)
  show "finite {k' \<in> dom table. (k', j) \<in> (calls table)\<^sup>+}" using assms(1) by simp
  have "k \<notin> {k' \<in> dom table. (k', k) \<in> (calls table)\<^sup>+}" using assms(2) by (simp add: acyclic_def)
  moreover have "k \<in> {k' \<in> dom table. (k', j) \<in> (calls table)\<^sup>+}" using assms(3,4) by auto
  moreover have "{k' \<in> dom table. (k', k) \<in> (calls table)\<^sup>+} \<subseteq> {k' \<in> dom table. (k', j) \<in> (calls table)\<^sup>+}"
    using assms(3) by (auto intro: trancl_into_trancl)
  ultimately show "{k' \<in> dom table. (k', k) \<in> (calls table)\<^sup>+} \<subset> {k' \<in> dom table. (k', j) \<in> (calls table)\<^sup>+}"
    by blast
qed

lemma callRank_le: "finite (dom table) \<Longrightarrow> callRank table j \<le> card (dom table)"
  unfolding callRank_def by (intro card_mono) auto

end
