(* ===== verification/CoreRun.thy ===== *)
theory CoreRun
  imports CoreSoundness CoreCycles
begin

text \<open>
  The entry points of the evaluator (coreeval/evaluate.go, coreeval/prepared.go) and the
  soundness of a validated program: on arguments that pass the argument checks the evaluator
  never fails, stops within a bound on the program, and gives an outcome of the declared
  return type.
\<close>

section \<open>Entry points\<close>

definition Evaluate ::
  "fold_table \<Rightarrow> nat \<Rightarrow> func \<Rightarrow> core_value list \<Rightarrow> outcome res"
where
  "Evaluate table fuel fn arguments =
     andThen (ValidateFunction fn)
       (andThen (validateArguments (fnParameters fn) arguments)
         (runFunction table fuel None fn arguments))"

definition EvaluateProgram ::
  "fold_table \<Rightarrow> nat \<Rightarrow> program \<Rightarrow> semantic_identity \<Rightarrow> core_value list \<Rightarrow> outcome res"
where
  "EvaluateProgram table fuel p identity arguments =
     andThen (ValidateProgram p)
       (evaluateWithFunctions table fuel (functionMap (pgFunctions p)) identity arguments)"

text \<open>
  A prepared program holds the map of a validated copy. \<open>None\<close> is the nil map of the zero
  value, and a receiver that is \<open>None\<close> is the nil pointer. Values of the model are trees, so
  the copy of \<open>snapshot\<close> is the value itself, and its errors, cyclic pointers and field kinds
  that the data types do not have, do not arise.
\<close>

record prepared_program =
  ppFunctions :: "(string \<Rightarrow> func option) option"

definition PrepareProgram :: "program \<Rightarrow> prepared_program res" where
  "PrepareProgram p =
     andThen (ValidateProgram p) (Ret \<lparr>ppFunctions = Some (functionMap (pgFunctions p))\<rparr>)"

definition PreparedEvaluate ::
  "fold_table \<Rightarrow> nat \<Rightarrow> prepared_program option \<Rightarrow> semantic_identity \<Rightarrow> core_value list \<Rightarrow> outcome res"
where
  "PreparedEvaluate table fuel receiver identity arguments =
     (case receiver of
        None \<Rightarrow> Err ''program is not prepared''
      | Some p \<Rightarrow>
          (case ppFunctions p of
             None \<Rightarrow> Err ''program is not prepared''
           | Some functions \<Rightarrow> evaluateWithFunctions table fuel functions identity arguments))"

section \<open>What validation establishes\<close>

lemma functionMap_Nil [simp]: "functionMap [] = Map.empty"
  by (simp add: functionMap_def)

lemma functionMap_Cons:
  "functionMap (f # fs) = Map.empty(functionKey (fnIdentity f) \<mapsto> f) ++ functionMap fs"
  by (simp add: functionMap_def)

lemma admitFunctions_ConsE:
  assumes "admitFunctions contract version t0 (f # fs) = Ret table"
  obtains "ValidateFunction f = Ret ()" "t0 (functionKey (fnIdentity f)) = None"
    "admitFunctions contract version (t0(functionKey (fnIdentity f) \<mapsto> f)) fs = Ret table"
  using assms by (simp add: Let_def)

lemma admitFunctions_keeps:
  "admitFunctions contract version t0 fns = Ret table \<Longrightarrow> t0 k = Some h \<Longrightarrow> table k = Some h"
proof (induction fns arbitrary: t0)
  case (Cons f fs)
  from Cons.prems(1) show ?case
  proof (rule admitFunctions_ConsE)
    assume a: "t0 (functionKey (fnIdentity f)) = None"
      "admitFunctions contract version (t0(functionKey (fnIdentity f) \<mapsto> f)) fs = Ret table"
    show "table k = Some h" by (rule Cons.IH [OF a(2)]) (use a(1) Cons.prems(2) in auto)
  qed
qed simp

lemma admitFunctions_table:
  "admitFunctions contract version t0 fns = Ret table \<Longrightarrow> table = t0 ++ functionMap fns"
proof (induction fns arbitrary: t0)
  case (Cons f fs)
  have "t0(functionKey (fnIdentity f) \<mapsto> f) ++ functionMap fs = t0 ++ functionMap (f # fs)"
    by (rule ext) (simp add: functionMap_Cons map_add_def split: option.splits)
  with Cons.prems show ?case
    by (elim admitFunctions_ConsE) (metis Cons.IH)
qed simp

lemma admitFunctions_member:
  "admitFunctions contract version t0 fns = Ret table \<Longrightarrow> f \<in> set fns \<Longrightarrow>
     ValidateFunction f = Ret () \<and> table (functionKey (fnIdentity f)) = Some f"
proof (induction fns arbitrary: t0)
  case (Cons h fs)
  from Cons.prems(1) show ?case
  proof (rule admitFunctions_ConsE)
    assume a: "ValidateFunction h = Ret ()"
      "admitFunctions contract version (t0(functionKey (fnIdentity h) \<mapsto> h)) fs = Ret table"
    then have "table (functionKey (fnIdentity h)) = Some h" by (intro admitFunctions_keeps [OF a(2)]) simp
    with a Cons.IH [OF a(2)] Cons.prems(2) show ?thesis by auto
  qed
qed simp

lemma admitFunctions_inside:
  "admitFunctions contract version t0 fns = Ret table \<Longrightarrow> table k = Some h \<Longrightarrow>
     t0 k = Some h \<or> (h \<in> set fns \<and> functionKey (fnIdentity h) = k)"
proof (induction fns arbitrary: t0)
  case (Cons f fs)
  from Cons.prems(1) show ?case
    by (rule admitFunctions_ConsE) (drule Cons.IH [OF _ Cons.prems(2)], auto split: if_splits)
qed simp

lemma ValidateProgram_establishes:
  assumes "ValidateProgram p = Ret ()"
  defines "table \<equiv> functionMap (pgFunctions p)"
  shows "tableOf (pgFunctions p) table" "checkCycles table (pgFunctions p) = Ret ()"
    "f \<in> set (pgFunctions p) \<Longrightarrow> ValidateFunction f = Ret ()"
    "f \<in> set (pgFunctions p) \<Longrightarrow> validatePureCalls (inheritedContract (pgLanguage p)) f table = Ret ()"
proof -
  from assms(1) obtain version t where t: "admitFunctions (pgLanguage p) version Map.empty (pgFunctions p) = Ret t"
      "\<forall>f \<in> set (pgFunctions p). validateComposition (pgLanguage p) t f = Ret ()"
      "checkCycles t (pgFunctions p) = Ret ()"
    by (auto simp: ValidateProgram_def)
  have table: "table = t" using admitFunctions_table [OF t(1)] by (simp add: table_def)
  show "tableOf (pgFunctions p) table"
    using admitFunctions_member [OF t(1)] admitFunctions_inside [OF t(1)] by (auto simp: tableOf_def table)
  show "checkCycles table (pgFunctions p) = Ret ()" using t(3) table by simp
  show "ValidateFunction f = Ret ()" if "f \<in> set (pgFunctions p)"
    using admitFunctions_member [OF t(1) that] by simp
  show "validatePureCalls (inheritedContract (pgLanguage p)) f table = Ret ()" if "f \<in> set (pgFunctions p)"
    using t(2) that table by (auto simp: validateComposition_def Let_def split: if_splits)
qed

section \<open>The supported fragment\<close>

text \<open>
  The conditions under which validation is enough, on every expression of every body:
  \<open>evalPropagate\<close> is not used, comparisons are on types that the evaluator compares, result
  tests are on direct references, and the target of a predicate filter has the checked
  signature.
\<close>

definition supportedExpr :: "function_map \<Rightarrow> expr \<Rightarrow> bool" where
  "supportedExpr fns x \<longleftrightarrow>
     exKind x \<noteq> ExprPropagate \<and> comparisonOK x \<and> directResult x \<and> filterOK fns x"

definition supported :: "program \<Rightarrow> bool" where
  "supported p \<longleftrightarrow>
     (\<forall>f \<in> set (pgFunctions p). \<forall>x \<in> set (subexprs (fnBody f)).
        supportedExpr (Some (functionMap (pgFunctions p))) x)"

lemma checkPureCall_callOK:
  "checkPureCall contract f table x = Ret () \<Longrightarrow> callOK (Some table) x"
  by (auto simp: checkPureCall_def callOK_def lookup_def argumentMatches_def [abs_def]
      split: if_splits option.splits)

lemma validatePureCalls_callOK:
  "validatePureCalls contract f table = Ret () \<Longrightarrow> x \<in> set (subexprs (fnBody f)) \<Longrightarrow> callOK (Some table) x"
  using checkPureCall_callOK [of contract f table x] by (simp add: validatePureCalls_def)

lemma callTargets_in:
  "k \<in> set (callTargets e) \<longleftrightarrow>
     (\<exists>x \<in> set (subexprs e). exKind x = ExprCall \<and> (\<exists>c. exCall x = Some c \<and> k = functionKey (caTarget c)))"
  by (force simp: callTargets_def List.map_filter_def split: if_splits)

lemma program_functionOK:
  assumes "ValidateProgram p = Ret ()" "supported p" "f \<in> set (pgFunctions p)"
  shows "functionOK (Some (functionMap (pgFunctions p))) f"
proof -
  note v = ValidateProgram_establishes [OF assms(1)]
  have "\<forall>x \<in> set (subexprs (fnBody f)). exKind x \<noteq> ExprPropagate
      \<and> semanticsOK (Some (functionMap (pgFunctions p))) x"
    using assms(2,3) validatePureCalls_callOK [OF v(4) [OF assms(3)]]
    by (auto simp: supported_def supportedExpr_def semanticsOK_def)
  then show ?thesis
    using v(3) [OF assms(3)] by (auto simp: functionOK_def ValidateFunction_def split: if_splits)
qed

lemma program_functionsOK:
  assumes "ValidateProgram p = Ret ()" "supported p"
  shows "functionsOK (Some (functionMap (pgFunctions p)))"
  using ValidateProgram_establishes(1) [OF assms(1)] program_functionOK [OF assms]
  by (auto simp: functionsOK_def lookup_def tableOf_def)

section \<open>The ranking of a validated program\<close>

text \<open>Named predicates enter no function.\<close>

definition leaf :: "function_map \<Rightarrow> expr \<Rightarrow> bool" where
  "leaf fns e \<longleftrightarrow> (\<forall>x \<in> set (subexprs e). \<forall>h. \<not> entersFunction fns x h)"

lemma leafI:
  "(\<And>h. \<not> entersFunction fns e h) \<Longrightarrow> (\<And>c. c \<in> set (children e) \<Longrightarrow> leaf fns c) \<Longrightarrow> leaf fns e"
  by (subst leaf_def, subst set_subexprs) (auto simp: leaf_def)

lemma reference_leaf: "exKind e = ExprReference \<Longrightarrow> leaf fns e"
  by (rule leafI) (auto simp: entersFunction_def set_children expressionChildren_def)

lemma namedPredicateExpr_leaf: "validateNamedPredicateExpr e row = Ret () \<Longrightarrow> leaf fns e"
proof (induction e rule: expr_children_induct)
  case (expr e)
  note v = expr.prems [unfolded validateNamedPredicateExpr.simps [of e]]
  show ?case
  proof (rule leafI)
    show "\<not> entersFunction fns e h" for h using v by (auto simp: entersFunction_def)
    fix c assume c: "c \<in> set (children e)"
    have "exKind c = ExprReference \<or> validateNamedPredicateExpr c row = Ret ()"
      using v c by (auto simp: set_children expressionChildren_def projectsRow_def
          split: expr_kind.splits payload_splits if_splits)
    then show "leaf fns c" using expr.IH [OF c] reference_leaf by blast
  qed
qed

lemma namedPredicate_leaf: "isNamedPredicateFunction g \<Longrightarrow> leaf fns (fnBody g)"
  using namedPredicateExpr_leaf [of "fnBody g" 0]
  by (simp add: isNamedPredicateFunction_def split: list.splits)

definition functionRank :: "function_map \<Rightarrow> (string \<Rightarrow> func option) \<Rightarrow> func \<Rightarrow> nat" where
  "functionRank fns table f =
     (if leaf fns (fnBody f) then 0 else Suc (callRank table (functionKey (fnIdentity f))))"

lemma program_ranked:
  fixes p :: program
  assumes "ValidateProgram p = Ret ()" "supported p"
    "\<And>f. f \<in> set (pgFunctions p) \<Longrightarrow> size (fnBody f) \<le> B"
  defines "table \<equiv> functionMap (pgFunctions p)"
  shows "ranked (Some table) (functionRank (Some table) table) B"
    "functionRank (Some table) table f \<le> Suc (length (pgFunctions p))"
proof -
  note v = ValidateProgram_establishes [OF assms(1), folded table_def]
  note fin = tableOf_finite [OF v(1)]
  have ok: "f \<in> set (pgFunctions p) \<Longrightarrow> functionOK (Some table) f" for f
    using program_functionOK [OF assms(1,2)] by (simp add: table_def)
  have closed: "closedCalls table"
    using v(1) ok by (force simp: closedCalls_def calls_def callTargets_in tableOf_def functionOK_def
        semanticsOK_def callOK_def lookup_def)
  have acyclic: "acyclic (calls table)" by (rule checkCycles_acyclic [OF v(1) closed v(2)])
  have below: "functionRank (Some table) table h < functionRank (Some table) table f"
    if f: "f \<in> set (pgFunctions p)" "x \<in> set (subexprs (fnBody f))" "entersFunction (Some table) x h" for f x h
  proof -
    have notLeaf: "\<not> leaf (Some table) (fnBody f)" using f(2,3) by (auto simp: leaf_def)
    have filter: "leaf (Some table) (fnBody h)" if "exKind x = ExprListFilterPredicate"
    proof (rule namedPredicate_leaf)
      show "isNamedPredicateFunction h"
        using f that ok [OF f(1)] by (auto simp: functionOK_def semanticsOK_def filterOK_def entersFunction_def)
    qed
    have call: "callRank table (functionKey (fnIdentity h)) < callRank table (functionKey (fnIdentity f))"
      if k: "exKind x = ExprCall"
    proof (rule callRank_less [OF fin(1) acyclic])
      from f(3) k obtain c where c: "exCall x = Some c" "table (functionKey (caTarget c)) = Some h"
        by (auto simp: entersFunction_def lookup_def)
      then have hk: "functionKey (fnIdentity h) = functionKey (caTarget c)" using v(1) by (simp add: tableOf_def)
      show "functionKey (fnIdentity h) \<in> dom table" using c hk by auto
      show "(functionKey (fnIdentity h), functionKey (fnIdentity f)) \<in> calls table"
        using c hk k f(1,2) v(1) by (auto simp: calls_def callTargets_in tableOf_def)
    qed
    show ?thesis using f(3) notLeaf filter call by (auto simp: functionRank_def entersFunction_def)
  qed
  show "ranked (Some table) (functionRank (Some table) table) B"
    using v(1) assms(3) below by (auto simp: ranked_def entersBelow_def lookup_def tableOf_def)
  show "functionRank (Some table) table f \<le> Suc (length (pgFunctions p))"
    using callRank_le [OF fin(1), of "functionKey (fnIdentity f)"] fin(2) by (auto simp: functionRank_def)
qed

section \<open>Soundness\<close>

text \<open>
  The fuel of a program: its call depth is at most the number of its functions plus two, and a
  body is at most as deep as the sum of the sizes of all bodies.
\<close>

definition programFuel :: "program \<Rightarrow> nat" where
  "programFuel p =
     Suc (Suc (length (pgFunctions p))) * Suc (sum_list (map (\<lambda>f. size (fnBody f)) (pgFunctions p)))"

lemma validateArguments_conform:
  "validateArguments (fnParameters f) vs = Ret () \<Longrightarrow> argumentsConform vs f"
  by (auto simp: validateArguments_def argumentsConform_def list_all2_iff conforms_def)

lemma function_sound:
  assumes "foldTableOK folds" "functionsOK fns" "functionOK fns g" "argumentsConform (frValues f) g"
    "enough t fns rk B n (fnBody g) R"
  shows "returns t (evalExpr folds n fns (fnBody g)) (fnReturnType g) f"
  using evalExpr_sound [OF assms(1,2), of t rk B n, THEN conjunct2, rule_format, of g f R] assms(3-)
  by blast

lemma program_run:
  assumes "foldTableOK folds" "ValidateProgram p = Ret ()" "supported p"
    "functionMap (pgFunctions p) (functionKey (fnIdentity f)) = Some f"
    "argumentsConform vs f" "t \<or> programFuel p \<le> n"
  shows "returns t (evalExpr folds n (Some (functionMap (pgFunctions p))) (fnBody f)) (fnReturnType f) (newFrame vs)"
proof -
  define table where "table = functionMap (pgFunctions p)"
  define B where "B = sum_list (map (\<lambda>f. size (fnBody f)) (pgFunctions p))"
  note v = ValidateProgram_establishes [OF assms(2), folded table_def]
  have f: "f \<in> set (pgFunctions p)" using v(1) assms(4) by (auto simp: tableOf_def table_def)
  have size: "size (fnBody h) \<le> B" if "h \<in> set (pgFunctions p)" for h
    unfolding B_def using that by (intro member_le_sum_list) auto
  note rank = program_ranked [OF assms(2,3) size, folded table_def]
  let ?rk = "functionRank (Some table) table"
  have "enough t (Some table) ?rk B n (fnBody f) (?rk f)"
  proof (cases t)
    case False
    have "?rk f * Suc B \<le> Suc (length (pgFunctions p)) * Suc B" by (intro mult_le_mono1 rank(2))
    then have "size (fnBody f) + ?rk f * Suc B \<le> n"
      using assms(6) False size [OF f] by (simp add: programFuel_def B_def [symmetric])
    moreover have "entersBelow (Some table) ?rk (?rk f) (fnBody f)"
      using rank(1) assms(4) by (auto simp: ranked_def lookup_def table_def)
    ultimately show ?thesis using rank(1) by (simp add: enough_def)
  qed (simp add: enough_def)
  moreover have "functionOK (Some table) f" "functionsOK (Some table)"
    using program_functionOK [OF assms(2,3) f] program_functionsOK [OF assms(2,3)] by (simp_all add: table_def)
  ultimately show ?thesis
    using function_sound [OF assms(1), of "Some table" f "newFrame vs"] assms(5)
    by (simp add: newFrame_def table_def)
qed

lemma EvaluateProgram_run:
  assumes "foldTableOK folds" "ValidateProgram p = Ret ()" "supported p"
    "functionMap (pgFunctions p) (functionKey i) = Some f"
    "siPackage (fnIdentity f) = siPackage i" "siPath (fnIdentity f) = siPath i"
    "validateArguments (fnParameters f) vs = Ret ()" "t \<or> programFuel p \<le> n"
  shows "(t \<and> EvaluateProgram folds n p i vs = Timeout)
    \<or> (\<exists>r. EvaluateProgram folds n p i vs = Ret r \<and> produces (fnReturnType f) r)"
proof -
  have key: "functionMap (pgFunctions p) (functionKey (fnIdentity f)) = Some f"
    using assms(4-6) by (simp add: functionKey_def)
  show ?thesis
    using program_run [OF assms(1-3) key validateArguments_conform [OF assms(7)] assms(8)] assms(2,4-7)
      completeFunctionOutcome_id
    by (auto simp: returns_def EvaluateProgram_def evaluateWithFunctions_def runFunction_def)
qed

end
