(* ===== verification/CoreSamples.thy ===== *)
theory CoreSamples
  imports CoreRun
begin

text \<open>
  Small programs: one on which the soundness properties are applied, and three that validation
  accepts although evaluating them fails on every argument of the right type.
\<close>

section \<open>Expressions\<close>

definition boolExpr :: "bool \<Rightarrow> expr" where
  "boolExpr b = Expr None ExprLiteral boolType
     (Some \<lparr>litString = [], litInt = 0, litFloat = 0, litBool = b\<rparr>) None None None None None None
     None None None None None None None None None None None None None None None None None None None
     None None None None None None None None None"

definition equalExpr :: "expr \<Rightarrow> expr \<Rightarrow> expr" where
  "equalExpr l r = Expr None ExprBinary boolType None None None
     (Some (Binary OperatorEqual (Some l) (Some r))) None None None None None None None None None
     None None None None None None None None None None None None None None None None None None None
     None None None"

definition conditionalExpr :: "core_type \<Rightarrow> expr \<Rightarrow> expr \<Rightarrow> expr \<Rightarrow> expr" where
  "conditionalExpr t c x y = Expr None ExprConditional t None None None None
     (Some (Conditional (Some c) (Some x) (Some y) False)) None None None None None None None None
     None None None None None None None None None None None None None None None None None None None
     None None None"

definition callExpr :: "core_type \<Rightarrow> func \<Rightarrow> expr list \<Rightarrow> expr" where
  "callExpr t f args = Expr None ExprCall t None None None None None None
     (Some (Call (fnIdentity f) (fnName f) (map Some args))) None None None None None None
     None None None None None None None None None None None None None None None None None None None
     None None None"

definition okExprOf :: "core_type \<Rightarrow> expr \<Rightarrow> expr" where
  "okExprOf t e = Expr None ExprResultOK t None None None None None None None None None None None
     None None None None None None None None None None None None None None None None None None None
     (Some (Some e)) None None None None"

definition isOkExpr :: "expr \<Rightarrow> expr" where
  "isOkExpr e = Expr None ExprResultIsOK boolType None None None None None None None None None None
     None None None None None None None None None None None None None None None None None None None
     None None None (Some (Some e)) None None"

section \<open>A program with a call\<close>

text \<open>\<open>clean(value) = trimmed(value)\<close>\<close>

definition cleanFunction :: func where
  "cleanFunction = \<lparr>fnIdentity = sampleIdentity ''m.clean'', fnName = ''clean'',
     fnParameters = [\<lparr>paPosition = 0, paName = ''value'', paType = textType\<rparr>],
     fnReturnType = textType, fnBody = callExpr textType trimFunction [referenceExpr textType 0]\<rparr>"

definition cleanProgram :: program where
  "cleanProgram = \<lparr>pgLanguage = ''v0.36.0'', pgCompiler = CompilerContractV1,
     pgFunctions = [trimFunction, cleanFunction]\<rparr>"

section \<open>Rows of one text field\<close>

definition rowType :: core_type where
  "rowType = CoreType TypeRecord PrimitiveNone None None None None
     (Some [RecordField \<lparr>siPackage = ''p'', siPath = ''m.Row.name'', siCallable = None\<rparr> ''name'' textType])
     None (Some \<lparr>siPackage = ''p'', siPath = ''m.Row'', siCallable = None\<rparr>) ''Row'' []"

definition rowOf :: "string \<Rightarrow> core_value" where
  "rowOf s = recordValue rowType [stringValue textType s]"

lemma text_value_valid: "validString s \<Longrightarrow> validateValue (stringValue textType s) = Ret ()"
  by (simp add: validateValue.simps Let_def stringValue_def)

lemma text_conforms: "validString s \<Longrightarrow> conforms (stringValue textType s) textType"
  by (simp add: conforms_def text_value_valid TypeEqual_refl [OF validateType_text(1)])

lemma rowType_valid: "validateType rowType = Ret ()"
  by (simp add: rowType_def supportedKind_def carriesForeign_def validateType_text
      isPrimitiveRecordFieldType_def primitiveOf_def hasPrefix_def)

lemma row_conforms:
  assumes "validString s"
  shows "conforms (rowOf s) rowType"
proof -
  obtain fs where fs: "tRecord rowType = Some fs" "length fs = 1" "rfType (fs ! 0) = textType"
    by (simp add: rowType_def)
  show ?thesis
    unfolding rowOf_def
  proof (rule conforms_recordI [OF _ fs(1)])
    show "TypeEqual rowType rowType" by (rule TypeEqual_refl [OF rowType_valid])
  qed (use fs(2,3) text_conforms [OF assms] in \<open>simp_all add: rowType_def\<close>)
qed

lemma row_text: "textAt (rowOf s) 0 = Ret s"
  by (simp add: textAt_def index_def rowOf_def)

section \<open>Equality of optionals\<close>

definition optionalText :: core_type where
  "optionalText = CoreType TypeOptional PrimitiveNone None None (Some textType) None None None None [] []"

text \<open>\<open>same(a, b) = if a == b then true else false\<close>\<close>

definition sameFunction :: func where
  "sameFunction = \<lparr>fnIdentity = sampleIdentity ''m.same'', fnName = ''same'',
     fnParameters = [\<lparr>paPosition = 0, paName = ''a'', paType = optionalText\<rparr>,
                     \<lparr>paPosition = 1, paName = ''b'', paType = optionalText\<rparr>],
     fnReturnType = boolType,
     fnBody = conditionalExpr boolType
       (equalExpr (referenceExpr optionalText 0) (referenceExpr optionalText 1))
       (boolExpr True) (boolExpr False)\<rparr>"

definition sameProgram :: program where
  "sameProgram = \<lparr>pgLanguage = ''v0.38.0'', pgCompiler = CompilerContractV1,
     pgFunctions = [sameFunction]\<rparr>"

section \<open>A test of a call's result\<close>

definition textResult :: core_type where "textResult = resultOf textType textType"

text \<open>\<open>parse(value) = ok(value)\<close> and \<open>parses(value) = is_ok(parse(value))\<close>\<close>

definition parseFunction :: func where
  "parseFunction = \<lparr>fnIdentity = sampleIdentity ''m.parse'', fnName = ''parse'',
     fnParameters = [\<lparr>paPosition = 0, paName = ''value'', paType = textType\<rparr>],
     fnReturnType = textResult, fnBody = okExprOf textResult (referenceExpr textType 0)\<rparr>"

definition parsesFunction :: func where
  "parsesFunction = \<lparr>fnIdentity = sampleIdentity ''m.parses'', fnName = ''parses'',
     fnParameters = [\<lparr>paPosition = 0, paName = ''value'', paType = textType\<rparr>],
     fnReturnType = boolType,
     fnBody = isOkExpr (callExpr textResult parseFunction [referenceExpr textType 0])\<rparr>"

definition parsesProgram :: program where
  "parsesProgram = \<lparr>pgLanguage = ''v0.37.0'', pgCompiler = CompilerContractV1,
     pgFunctions = [parseFunction, parsesFunction]\<rparr>"

section \<open>A result function with another return type\<close>

text \<open>The declared return type is \<open>bool\<close>, the body is a Result.\<close>

definition mistypedFunction :: func where
  "mistypedFunction = parseFunction\<lparr>fnReturnType := boolType\<rparr>"

section \<open>Validation of the programs\<close>

lemma samples_valid:
  "ValidateProgram cleanProgram = Ret () \<and> ValidateProgram sameProgram = Ret ()
    \<and> ValidateProgram parsesProgram = Ret ()"
  by code_simp

end
