(* ===== verification/CoreFuel.thy ===== *)
theory CoreFuel
  imports CoreEval
begin

text \<open>
  Fuel does not change results: with more fuel the evaluator gives the result and the frame
  that it gave with less, unless the smaller amount ran out. So a run that stops has one
  outcome, whatever bound on the depth of the recursion is chosen.
\<close>

section \<open>Refinement of computations\<close>

definition refinesR :: "'a res \<Rightarrow> 'a res \<Rightarrow> bool" where
  "refinesR r s \<longleftrightarrow> r = Timeout \<or> s = r"

definition refines :: "'a ev \<Rightarrow> 'a ev \<Rightarrow> bool" where
  "refines m n \<longleftrightarrow> (\<forall>f. fst (m f) = Timeout \<or> n f = m f)"

definition refinesAll :: "(expr \<Rightarrow> outcome ev) \<Rightarrow> (expr \<Rightarrow> outcome ev) \<Rightarrow> bool" where
  "refinesAll ev ew \<longleftrightarrow> (\<forall>e. refines (ev e) (ew e))"

named_theorems refine_intro \<open>congruence of refinement\<close>

lemma refines_refl [refine_intro]: "refines m m"
  by (simp add: refines_def)

lemma refinesR_refl [refine_intro]: "refinesR r r"
  by (simp add: refinesR_def)

lemma refinesAllD: "refinesAll ev ew \<Longrightarrow> refines (ev e) (ew e)"
  by (simp add: refinesAll_def)

lemma refinesR_bindR [refine_intro]:
  "refinesR r s \<Longrightarrow> (\<And>a. refinesR (k a) (h a)) \<Longrightarrow> refinesR (bindR r k) (bindR s h)"
  by (cases r) (auto simp: refinesR_def)

lemma refinesR_fst: "refines m n \<Longrightarrow> refinesR (fst (m f)) (fst (n f))"
  unfolding refines_def refinesR_def by metis

lemma refines_liftR [refine_intro]: "refinesR r s \<Longrightarrow> refines (liftR r) (liftR s)"
  by (auto simp: refinesR_def refines_def liftR_def)

lemma refines_bindE [refine_intro]:
  assumes "refines m n" "\<And>a. refines (k a) (h a)"
  shows "refines (bindE m k) (bindE n h)"
  unfolding refines_def
proof (intro allI)
  fix f :: frame
  obtain r f' where m: "m f = (r, f')" by (cases "m f")
  have n: "r = Timeout \<or> n f = (r, f')" using assms(1) m unfolding refines_def by (metis fst_conv)
  have "r = Ret a \<Longrightarrow> fst (k a f') = Timeout \<or> h a f' = k a f'" for a
    using assms(2) [of a] by (simp add: refines_def)
  then show "fst (bindE m k f) = Timeout \<or> bindE n h f = bindE m k f"
    using m n by (cases r) (auto simp: bindE_def)
qed

lemma refines_withPtr [refine_intro]:
  "(\<And>x. p = Some x \<Longrightarrow> refines (k x) (h x)) \<Longrightarrow> refines (withPtr p k) (withPtr p h)"
  by (cases p) (simp_all add: withPtr_def refines_def bindE_def liftR_def)

lemma refines_checked [refine_intro]: "refines k h \<Longrightarrow> refines (checked v k) (checked v h)"
  unfolding checked_def by (intro refine_intro)

lemma refines_guardE [refine_intro]: "refines k h \<Longrightarrow> refines (guardE b s k) (guardE b s h)"
  by (simp add: guardE_def refines_refl)

lemma refines_if [refine_intro]:
  "(b \<Longrightarrow> refines k h) \<Longrightarrow> (\<not> b \<Longrightarrow> refines k' h') \<Longrightarrow>
     refines (if b then k else k') (if b then h else h')"
  by simp

lemma refines_operandOutcome [refine_intro]:
  "refinesAll ev ew \<Longrightarrow> (\<And>r. refines (k r) (h r)) \<Longrightarrow>
     refines (operandOutcome ev p k) (operandOutcome ew p h)"
  unfolding operandOutcome_def by (intro refine_intro refinesAllD [of ev ew])

lemma refines_operand [refine_intro]:
  "refinesAll ev ew \<Longrightarrow> (\<And>v. refines (k v) (h v)) \<Longrightarrow> refines (operand ev p k) (operand ew p h)"
  unfolding operand_def by (intro refine_intro)

lemma refines_carrierOr [refine_intro]:
  "(\<And>r. refines (x r) (y r)) \<Longrightarrow> (\<And>v. refines (k v) (h v)) \<Longrightarrow>
     refines (carrierOr t r x k) (carrierOr t r y h)"
  by (simp add: carrierOr_def)

lemma refines_thenPop [refine_intro]:
  assumes "refines m n"
  shows "refines (thenPop m) (thenPop n)"
  unfolding refines_def
proof (intro allI)
  fix f :: frame
  from assms have "fst (m f) = Timeout \<or> n f = m f" by (simp add: refines_def)
  then show "fst (thenPop m f) = Timeout \<or> thenPop n f = thenPop m f"
    by (cases "m f") (auto simp: thenPop_def)
qed

lemma refines_thenPopTo [refine_intro]:
  assumes "refines m n"
  shows "refines (thenPopTo k m) (thenPopTo k n)"
  unfolding refines_def
proof (intro allI)
  fix f :: frame
  from assms have "fst (m f) = Timeout \<or> n f = m f" by (simp add: refines_def)
  then show "fst (thenPopTo k m f) = Timeout \<or> thenPopTo k n f = thenPopTo k m f"
    by (cases "m f") (auto simp: thenPopTo_def)
qed

lemma refines_inFresh [refine_intro]: "refines m n \<Longrightarrow> refines (inFresh vs m) (inFresh vs n)"
  unfolding inFresh_def by (intro refine_intro refinesR_fst)

section \<open>The operations\<close>

lemma refines_block:
  assumes "refinesAll ev ew"
  shows "refines (evalBlock ev b) (evalBlock ew b)" "refines (evalStatements ev ss) (evalStatements ew ss)"
  using assms
proof (induction ev b and ev ss rule: evalBlock_evalStatements.induct)
  case (2 ev ss)
  then show ?case unfolding evalBlock.simps by (intro refine_intro) simp
next
  case (4 ev mut target kind v local th el ss)
  then show ?case
    unfolding evalStatements.simps Let_def
    by (intro refine_intro refinesAllD [of ev ew]) (auto intro!: refine_intro split: option.splits)
qed (simp_all add: refines_refl)

lemma refines_callArguments:
  "refinesAll ev ew \<Longrightarrow> refines (evalCallArguments ev target i ps) (evalCallArguments ew target i ps)"
proof (induction ps arbitrary: i)
  case (Cons p ps)
  then show ?case
    unfolding evalCallArguments.simps
    by (intro refine_intro refinesAllD [of ev ew]) (auto intro!: refine_intro split: sum.splits)
qed (simp add: refines_refl)

lemma refines_fields: "refinesAll ev ew \<Longrightarrow> refines (evalFields ev ps) (evalFields ew ps)"
proof (induction ps)
  case (Cons p ps)
  then show ?case
    unfolding evalFields.simps
    by (intro refine_intro refinesAllD [of ev ew]) (auto intro!: refine_intro split: sum.splits)
qed (simp add: refines_refl)

lemma refines_predicateArguments:
  "refinesAll ev ew \<Longrightarrow> refines (evalPredicateArguments ev ps) (evalPredicateArguments ew ps)"
proof (induction ps)
  case (Cons p ps)
  then show ?case
    unfolding evalPredicateArguments.simps
    by (intro refine_intro refinesAllD [of ev ew]) (auto intro!: refine_intro split: sum.splits)
qed (simp add: refines_refl)

lemma refines_arms:
  assumes "refinesAll ev ew"
  shows "refines (evalArms ev enum tag payload arms) (evalArms ew enum tag payload arms)"
proof (induction arms)
  case (Cons arm arms)
  obtain t b body where arm: "arm = MatchArm t b body" by (cases arm)
  show ?case
    unfolding arm evalArms.simps
    using Cons refinesAllD [OF assms] by (auto intro!: refine_intro split: option.splits)
qed (simp add: refines_refl)

lemma refinesR_keepRecords:
  "(\<And>x. refinesR (p x) (q x)) \<Longrightarrow> refinesR (keepRecords p xs) (keepRecords q xs)"
  by (induction xs) (auto intro!: refine_intro)

lemma refinesR_predicateHolds:
  "refinesAll ev ew \<Longrightarrow> refinesR (predicateHolds ev g vs x) (predicateHolds ew g vs x)"
  unfolding predicateHolds_def by (intro refine_intro refinesR_fst refinesAllD [of ev ew])

lemma refines_filteredList [refine_intro]:
  "(\<And>x. refinesR (p x) (q x)) \<Longrightarrow> refines (filteredList t p xs) (filteredList t q xs)"
  unfolding filteredList_def by (intro refine_intro refinesR_keepRecords)

section \<open>The kinds of expression\<close>

lemma refines_operators:
  assumes "refinesAll ev ew"
  shows "refines (evalUnary ev e) (evalUnary ew e)"
    "refines (evalBinary ev e) (evalBinary ew e)"
    "refines (evalConditional ev e) (evalConditional ew e)"
    "refines (evalBlockExpr ev e) (evalBlockExpr ew e)"
    "refines (evalImmutableLocal ev e) (evalImmutableLocal ew e)"
  unfolding evalUnary_def evalBinary_def evalConditional_def evalBlockExpr_def evalImmutableLocal_def Let_def
  using assms by (auto intro!: refine_intro refinesAllD [of ev ew] refines_block refines_fields refines_arms refines_callArguments refines_predicateArguments
    refinesR_predicateHolds
    split: option.split sum.split conditional.split immutable_local.split match_on.split
      operator.split prod.split)

lemma refines_calls:
  assumes "refinesAll ev ew"
  shows "refines (evalCall ev fns e) (evalCall ew fns e)"
    "refines (evalFilterPredicate ev fns e) (evalFilterPredicate ew fns e)"
  unfolding evalCall_def evalFilterPredicate_def Let_def
  using assms by (auto intro!: refine_intro refinesAllD [of ev ew] refines_block refines_fields refines_arms refines_callArguments refines_predicateArguments
    refinesR_predicateHolds
    split: option.split sum.split conditional.split immutable_local.split match_on.split
      operator.split prod.split)

lemma refines_values:
  assumes "refinesAll ev ew"
  shows "refines (evalTextContains table ev e) (evalTextContains table ew e)"
    "refines (evalTextTrim ev e) (evalTextTrim ew e)"
    "refines (evalFieldProjection ev e) (evalFieldProjection ew e)"
    "refines (evalRecordConstruct ev e) (evalRecordConstruct ew e)"
    "refines (evalOptionalSome ev e) (evalOptionalSome ew e)"
    "refines (evalOptionalHasValue ev e) (evalOptionalHasValue ew e)"
    "refines (evalOptionalValueOr ev e) (evalOptionalValueOr ew e)"
  unfolding evalTextContains_def evalTextTrim_def evalFieldProjection_def evalRecordConstruct_def evalOptionalSome_def evalOptionalHasValue_def evalOptionalValueOr_def Let_def
  using assms by (auto intro!: refine_intro refinesAllD [of ev ew] refines_block refines_fields refines_arms refines_callArguments refines_predicateArguments
    refinesR_predicateHolds
    split: option.split sum.split conditional.split immutable_local.split match_on.split
      operator.split prod.split)

lemma refines_lists:
  assumes "refinesAll ev ew"
  shows "refines (evalListSingleton ev e) (evalListSingleton ew e)"
    "refines (evalListCount ev e) (evalListCount ew e)"
    "refines (evalListAppend ev e) (evalListAppend ew e)"
    "refines (evalListAt ev e) (evalListAt ew e)"
    "refines (evalListFind ev e) (evalListFind ew e)"
    "refines (evalListFilter ev e) (evalListFilter ew e)"
    "refines (evalListFilterContains table ev e) (evalListFilterContains table ew e)"
    "refines (evalListFilterJoined table ev e) (evalListFilterJoined table ew e)"
  unfolding evalListSingleton_def evalListCount_def evalListAppend_def evalListAt_def evalListFind_def evalListFilter_def evalListFilterContains_def evalListFilterJoined_def Let_def
  using assms by (auto intro!: refine_intro refinesAllD [of ev ew] refines_block refines_fields refines_arms refines_callArguments refines_predicateArguments
    refinesR_predicateHolds
    split: option.split sum.split conditional.split immutable_local.split match_on.split
      operator.split prod.split)

lemma refines_sorts:
  assumes "refinesAll ev ew"
  shows "refines (evalSortText ev e) (evalSortText ew e)"
    "refines (evalSortTexts ev e) (evalSortTexts ew e)"
    "refines (evalSortDirections ev e) (evalSortDirections ew e)"
  unfolding evalSort_def evalSortText_def evalSortTexts_def evalSortDirections_def Let_def
  using assms by (auto intro!: refine_intro refinesAllD [of ev ew] refines_block refines_fields refines_arms refines_callArguments refines_predicateArguments
    refinesR_predicateHolds
    split: option.split sum.split conditional.split immutable_local.split match_on.split
      operator.split prod.split)

lemma refines_results:
  assumes "refinesAll ev ew"
  shows "refines (evalResultOK ev e) (evalResultOK ew e)"
    "refines (evalResultErr ev e) (evalResultErr ew e)"
    "refines (evalResultSuccessOr ev e) (evalResultSuccessOr ew e)"
    "refines (evalResultFailureOr ev e) (evalResultFailureOr ew e)"
    "refines (evalPropagate ev e) (evalPropagate ew e)"
    "refines (evalMatch ev e) (evalMatch ew e)"
  unfolding evalResultOK_def evalResultErr_def evalResultSuccessOr_def evalResultFailureOr_def evalPropagate_def evalMatch_def Let_def
  using assms by (auto intro!: refine_intro refinesAllD [of ev ew] refines_block refines_fields refines_arms refines_callArguments refines_predicateArguments
    refinesR_predicateHolds
    split: option.split sum.split conditional.split immutable_local.split match_on.split
      operator.split prod.split)

lemma refines_step:
  assumes "refinesAll ev ew"
  shows "refines (evalStep table ev fns e) (evalStep table ew fns e)"
  using refines_operators [OF assms] refines_calls [OF assms] refines_values [OF assms]
    refines_lists [OF assms] refines_sorts [OF assms] refines_results [OF assms]
  by (simp add: evalStep_def refines_refl split: expr_kind.split)

section \<open>The evaluator\<close>

lemma refines_fuel: "n \<le> m \<Longrightarrow> refinesAll (evalExpr table n fns) (evalExpr table m fns)"
proof (induction n arbitrary: m)
  case 0
  show ?case by (simp add: refinesAll_def refines_def liftR_def)
next
  case (Suc n)
  then obtain k where k: "m = Suc k" "n \<le> k" by (cases m) auto
  show ?case
    unfolding refinesAll_def k(1) evalExpr.simps
    using refines_step [OF Suc.IH [OF k(2)]] by simp
qed

lemma evalExpr_fuel:
  assumes "n \<le> m" "fst (evalExpr table n fns e f) \<noteq> Timeout"
  shows "evalExpr table m fns e f = evalExpr table n fns e f"
  using refinesAllD [OF refines_fuel [OF assms(1), of table fns], of e] assms(2)
  by (auto simp: refines_def)

lemma evaluateWithFunctions_fuel:
  assumes "n \<le> m" "evaluateWithFunctions table n fns i vs \<noteq> Timeout"
  shows "evaluateWithFunctions table m fns i vs = evaluateWithFunctions table n fns i vs"
proof (cases "fns (functionKey i)")
  case (Some g)
  note fuel = evalExpr_fuel [OF assms(1), of table "Some fns" "fnBody g" "newFrame vs"]
  have "validateArguments (fnParameters g) vs = Ret () \<Longrightarrow>
      siPackage (fnIdentity g) = siPackage i \<Longrightarrow> siPath (fnIdentity g) = siPath i \<Longrightarrow>
      fst (evalExpr table n (Some fns) (fnBody g) (newFrame vs)) \<noteq> Timeout"
    using assms(2) Some by (auto simp: evaluateWithFunctions_def runFunction_def)
  with fuel Some show ?thesis
    by (cases "validateArguments (fnParameters g) vs") (auto simp: evaluateWithFunctions_def runFunction_def)
qed (simp add: evaluateWithFunctions_def)

end
