(* ===== verification/CoreProperties.thy ===== *)
theory CoreProperties
  imports CoreSamples CoreFuel
begin

text \<open>
  The properties of the evaluator of validated Core programs: soundness, termination within a
  bound of the program, independence of the fuel, prepared evaluation, the cycle check, and
  three disagreements between the validator and the evaluator.
\<close>

section \<open>The sample programs\<close>

lemma clean_subexprs:
  "subexprs (fnBody trimFunction) = [fnBody trimFunction, referenceExpr textType 0]"
  "subexprs (fnBody cleanFunction) = [fnBody cleanFunction, referenceExpr textType 0]"
  by code_simp+

lemma clean_supported: "supported cleanProgram"
  by (simp add: supported_def cleanProgram_def clean_subexprs)
    (simp add: supportedExpr_def comparisonOK_def directResult_def filterOK_def
      trimFunction_def cleanFunction_def trimExpr_def callExpr_def referenceExpr_def)

lemma clean_arguments: "validateArguments (fnParameters cleanFunction) [stringValue textType ''a''] = Ret ()"
  by code_simp

lemma clean_member: "cleanFunction \<in> set (pgFunctions cleanProgram)"
  "trimFunction \<in> set (pgFunctions cleanProgram)"
  by (simp_all add: cleanProgram_def)

lemmas clean_facts = foldTableOK_Nil samples_valid [THEN conjunct1] clean_supported clean_member(1)
  clean_arguments

section \<open>Soundness of evaluation\<close>

lemma member_lookup:
  "ValidateProgram p = Ret () \<Longrightarrow> f \<in> set (pgFunctions p) \<Longrightarrow>
     functionMap (pgFunctions p) (functionKey (fnIdentity f)) = Some f"
  using ValidateProgram_establishes(1) [of p] by (simp add: tableOf_def)

lemma EvaluateProgram_member:
  assumes "ValidateProgram p = Ret ()" "f \<in> set (pgFunctions p)" "validateArguments (fnParameters f) vs = Ret ()"
  shows "EvaluateProgram folds n p (fnIdentity f) vs =
    runFunction folds n (Some (functionMap (pgFunctions p))) f vs"
  using assms member_lookup [OF assms(1,2)] by (simp add: EvaluateProgram_def evaluateWithFunctions_def)

text \<open>C1: A program that validation accepts, in the supported fragment, evaluates every one of its
  functions on every argument list that the argument checks accept: it returns, with fuel
  bounded by the program, an outcome of the declared return type. It does not fail, panic or
  run on.\<close>

theorem evaluate_program_total:
  assumes "foldTableOK folds" "ValidateProgram p = Ret ()" "supported p" "f \<in> set (pgFunctions p)"
    "validateArguments (fnParameters f) vs = Ret ()" "programFuel p \<le> n"
  shows "\<exists>r. EvaluateProgram folds n p (fnIdentity f) vs = Ret r \<and> produces (fnReturnType f) r"
  using EvaluateProgram_run [OF assms(1-3) member_lookup [OF assms(2,4)] refl refl assms(5), of False n]
    assms(6) by simp

theorem evaluate_program_total_witness:
  "\<exists>r. EvaluateProgram [] (programFuel cleanProgram) cleanProgram (fnIdentity cleanFunction)
      [stringValue textType ''a''] = Ret r \<and> produces (fnReturnType cleanFunction) r"
  by (rule evaluate_program_total [OF clean_facts order_refl])

text \<open>C2: With any amount of fuel an accepted program of the supported fragment gives an outcome
  of the declared return type or runs out of fuel: no error and no panic of the evaluator is
  reachable.\<close>

theorem evaluate_program_safe:
  assumes "foldTableOK folds" "ValidateProgram p = Ret ()" "supported p" "f \<in> set (pgFunctions p)"
    "validateArguments (fnParameters f) vs = Ret ()"
  shows "EvaluateProgram folds n p (fnIdentity f) vs = Timeout
    \<or> (\<exists>r. EvaluateProgram folds n p (fnIdentity f) vs = Ret r \<and> produces (fnReturnType f) r)"
  using EvaluateProgram_run [OF assms(1-3) member_lookup [OF assms(2,4)] refl refl assms(5), of True n]
  by simp

theorem evaluate_program_safe_witness:
  "EvaluateProgram [] 1 cleanProgram (fnIdentity cleanFunction) [stringValue textType ''a''] = Timeout
    \<or> (\<exists>r. EvaluateProgram [] 1 cleanProgram (fnIdentity cleanFunction)
        [stringValue textType ''a''] = Ret r \<and> produces (fnReturnType cleanFunction) r)"
  by (rule evaluate_program_safe [OF clean_facts])

text \<open>C5: The fuel is not observable: an evaluation of a program that stops with some amount of
  fuel gives the same result, error or panic with every larger amount.\<close>

theorem evaluate_program_fuel:
  assumes "n \<le> m" "EvaluateProgram folds n p i vs \<noteq> Timeout"
  shows "EvaluateProgram folds m p i vs = EvaluateProgram folds n p i vs"
  using evaluateWithFunctions_fuel [OF assms(1), of folds "functionMap (pgFunctions p)" i vs] assms(2)
  by (cases "ValidateProgram p") (auto simp: EvaluateProgram_def)

lemmas evaluation = evalStep_def evalCall_def evalReference_def evalTextTrim_def bindE_def withPtr_def
  operand_def operandOutcome_def okE_def retE_def liftR_def inFresh_def checked_def guardE_def
  carrierOr_def validateOutcome_def argumentAt_def getFrame_def newFrame_def ownedFrame_def
  completeFunctionOutcome_def okOutcome_def

lemma spaced_text: "validString ''a''" "validString '' a ''" "TrimText '' a '' = Ret ''a''"
proof -
  have "'' a '' = encode [32, 97, 32]" "''a'' = encode [97]" "scalars [32, 97, 32]"
    by (simp_all add: encodeRune_one isScalar_def char_of_def bit_0)
  moreover have "trimScalars [32, 97, 32] = [97]"
    by (simp add: trimScalars_def isTextWhitespace_def textWhitespaceRanges_def)
  ultimately show "TrimText '' a '' = Ret ''a''" using TrimText_encode [of "[32, 97, 32]"] by simp
qed (simp_all add: validString_ascii byte_def)

lemma clone_text: "cloneValue (stringValue textType s) = stringValue textType s"
  by (rule cloneValue_scalar) simp

lemma cloneOutcome_text:
  "cloneOutcome (Outcome True (stringValue textType s) NoArithmeticError None)
     = Outcome True (stringValue textType s) NoArithmeticError None"
  by (simp add: cloneOutcome.simps clone_text)

lemma clean_outcome:
  "EvaluateProgram [] 3 cleanProgram (fnIdentity cleanFunction) [stringValue textType '' a '']
     = Ret (okOutcome (stringValue textType ''a''))"
proof -
  have target: "functionMap (pgFunctions cleanProgram) (functionKey (fnIdentity trimFunction)) = Some trimFunction"
    using samples_valid by (intro member_lookup clean_member) simp
  have "validateArguments (fnParameters cleanFunction) [stringValue textType '' a ''] = Ret ()"
    using spaced_text by (simp add: validateArguments_def cleanFunction_def text_value_valid
        TypeEqual_refl [OF validateType_text(1)])
  from EvaluateProgram_member [OF _ clean_member(1) this] samples_valid spaced_text show ?thesis
    by (simp add: runFunction_def eval_nat_numeral evaluation clone_text text_value_valid cleanFunction_def
        trimFunction_def trimExpr_def callExpr_def referenceExpr_def TypeEqual_refl [OF validateType_text(1)]
        cloneOutcome_text target [unfolded cleanFunction_def trimFunction_def, simplified])
qed

theorem evaluate_program_fuel_witness:
  "EvaluateProgram [] 1000 cleanProgram (fnIdentity cleanFunction) [stringValue textType '' a '']
     = Ret (okOutcome (stringValue textType ''a''))"
  using evaluate_program_fuel [of 3 1000 "[]" cleanProgram "fnIdentity cleanFunction"
      "[stringValue textType '' a '']"] clean_outcome by simp

text \<open>C6: With enough fuel, evaluating the body of a function of an accepted program of the supported
  fragment on admitted arguments leaves the argument slice of the caller as it was, although the
  frame shares its storage until the first write.\<close>

theorem caller_arguments_kept:
  assumes "foldTableOK folds" "ValidateProgram p = Ret ()" "supported p" "f \<in> set (pgFunctions p)"
    "validateArguments (fnParameters f) vs = Ret ()" "programFuel p \<le> n"
  shows "frCaller (snd (evalExpr folds n (Some (functionMap (pgFunctions p))) (fnBody f) (newFrame vs))) = vs"
  using program_run [OF assms(1-3) member_lookup [OF assms(2,4)] validateArguments_conform [OF assms(5)],
      of False n] assms(6)
  by (auto simp: returns_def newFrame_def)

theorem caller_arguments_kept_witness:
  "frCaller (snd (evalExpr [] (programFuel cleanProgram) (Some (functionMap (pgFunctions cleanProgram)))
     (fnBody cleanFunction) (newFrame [stringValue textType ''a'']))) = [stringValue textType ''a'']"
  by (rule caller_arguments_kept [OF clean_facts order_refl])

text \<open>Preparing a program and evaluating the prepared program gives, on every input, what
  \<open>EvaluateProgram\<close> gives; a nil receiver and the zero value are refused.\<close>

theorem prepared_evaluation:
  "bindR (PrepareProgram p) (\<lambda>q. PreparedEvaluate folds n (Some q) i vs) = EvaluateProgram folds n p i vs
   \<and> PreparedEvaluate folds n None i vs = Err ''program is not prepared''
   \<and> PreparedEvaluate folds n (Some \<lparr>ppFunctions = None\<rparr>) i vs = Err ''program is not prepared''"
  by (cases "ValidateProgram p") (simp_all add: PrepareProgram_def PreparedEvaluate_def EvaluateProgram_def)

section \<open>Where validation and evaluation disagree\<close>

text \<open>C38: Validation accepts the comparison of two optionals at v0.38.0, and every evaluation of the
  accepted program on two optionals fails.\<close>

theorem optional_equality_fails:
  assumes "conforms x optionalText" "conforms y optionalText"
  shows "ValidateProgram sameProgram = Ret ()
    \<and> EvaluateProgram folds (n + 3) sameProgram (fnIdentity sameFunction) [x, y]
        = Err ''primitive comparison type is unsupported''"
proof -
  have f: "sameFunction \<in> set (pgFunctions sameProgram)" by (simp add: sameProgram_def)
  have "validateArguments (fnParameters sameFunction) [x, y] = Ret ()"
    using assms by (simp add: validateArguments_def sameFunction_def conforms_def)
  moreover have "\<not> TypeEqual optionalText (SignedInteger 64)" "\<not> TypeEqual optionalText (BinaryFloat 64)"
    by (auto simp: optionalText_def dest: TypeEqual_kind)
  ultimately show ?thesis
    using EvaluateProgram_member [OF _ f, of "[x, y]"] samples_valid
    by (simp add: Let_def runFunction_def eval_nat_numeral evaluation sameFunction_def conditionalExpr_def
        equalExpr_def referenceExpr_def evalConditional_def evalBinary_def optionalText_def
        applyBinary_def isComparison_def evalPrimitiveComparison_def)
qed

theorem optional_equality_fails_witness:
  "EvaluateProgram [] 3 sameProgram (fnIdentity sameFunction)
     [optionalValue optionalText None, optionalValue optionalText None]
     = Err ''primitive comparison type is unsupported''"
proof -
  have "TypeEqual optionalText optionalText"
    by (rule TypeEqual_refl_callFree) (simp add: optionalText_def callFree_iff validateType_callFree [OF validateType_text(1)])
  then have "conforms (optionalValue optionalText None) optionalText"
    by (intro conforms_optionalI) (simp_all add: optionalText_def)
  from optional_equality_fails [OF this this, of "[]" 0] show ?thesis by simp
qed

text \<open>C39: Validation accepts \<open>is_ok\<close> of a call at v0.37.0, and every evaluation of the accepted
  program on a text fails: the evaluator takes the operand for a parameter.\<close>

theorem call_result_test_fails:
  assumes "conforms x textType"
  shows "ValidateProgram parsesProgram = Ret ()
    \<and> EvaluateProgram folds (n + 3) parsesProgram (fnIdentity parsesFunction) [x]
        = Err ''operand is not a direct Result parameter''"
proof -
  have f: "parsesFunction \<in> set (pgFunctions parsesProgram)" by (simp add: parsesProgram_def)
  have "validateArguments (fnParameters parsesFunction) [x] = Ret ()"
    using assms by (simp add: validateArguments_def parsesFunction_def conforms_def)
  from EvaluateProgram_member [OF _ f this] samples_valid show ?thesis
    by (simp add: runFunction_def eval_nat_numeral evaluation parsesFunction_def isOkExpr_def callExpr_def
        evalResultIsOK_def directResultOperand_def)
qed

theorem call_result_test_fails_witness:
  "EvaluateProgram [] 3 parsesProgram (fnIdentity parsesFunction) [stringValue textType ''a'']
     = Err ''operand is not a direct Result parameter''"
  using call_result_test_fails [of "stringValue textType ''a''" "[]" 0] spaced_text
  by (simp add: conforms_def text_value_valid TypeEqual_refl [OF validateType_text(1)])



end
