(* ===== verification/ComponentProperties.thy ===== *)
theory ComponentProperties
  imports CoreSamples CoreFuel
begin

text \<open>
  Properties of single components: the UTF-8 coding of text, copies and equality of values, the
  stable sorts, the cycle check, block bodies and the shapes of terminal statements.
\<close>

section \<open>Text and values\<close>

text \<open>Decoding a well-formed text to scalars and encoding them again gives the text, encoding
  scalars and decoding gives the scalars, and so encoding is injective on scalars.\<close>

theorem text_coding_roundtrip:
  "(validString s \<longrightarrow> encode (runes s) = s \<and> scalars (runes s))
   \<and> (scalars cs \<longrightarrow> validString (encode cs) \<and> runes (encode cs) = cs)"
  using encode_runes runes_encode validString_encode by blast

theorem text_coding_roundtrip_witness:
  "encode (runes ''a'') = ''a'' \<and> runes (encode [97, 0x20AC]) = [97, 0x20AC]"
proof -
  have "validString ''a''" by (simp add: validString_ascii byte_def)
  moreover have "scalars [97, 0x20AC]" by (simp add: isScalar_def)
  ultimately show ?thesis using text_coding_roundtrip [of "''a''" "[97, 0x20AC]"] by simp
qed

text \<open>\<open>cloneValue\<close> returns an equal value for every value that conforms to a validated type:
  copying never changes what a program computes.\<close>

theorem clone_value_equal:
  assumes "conforms v t" "validateType t = Ret ()"
  shows "cloneValue v = v"
  by (rule cloneValue_id [OF assms])

theorem clone_value_equal_witness:
  "cloneValue (boolValue boolType True) = boolValue boolType True"
proof (rule clone_value_equal [OF _ validateType_text(2)])
  show "conforms (boolValue boolType True) boolType"
    by (simp add: conforms_def validateValue.simps Let_def TypeEqual_refl [OF validateType_text(2)] boolValue_def)
qed

text \<open>Two records of one validated record type are equal for \<open>equalValues\<close> exactly when each
  field of the type has equal scalars in both; the comparison never fails.\<close>

theorem record_equality_fieldwise:
  assumes "validateType t = Ret ()" "tKind t = TypeRecord" "tRecord t = Some fs"
    "conforms x t" "conforms y t"
  shows "equalValues x y = Ret (\<forall>j < length fs. scalarEqual (rfType (fs ! j))
    (elems (vRecord x) ! j) (elems (vRecord y) ! j))"
  by (rule equalValues_record [OF assms])

theorem record_equality_fieldwise_witness: "equalValues (rowOf ''a'') (rowOf ''b'') = Ret False"
  using record_equality_fieldwise [OF rowType_valid, of _ "rowOf ''a''" "rowOf ''b''"]
    row_conforms [of "''a''"] row_conforms [of "''b''"]
  by (simp add: rowType_def validString_ascii byte_def scalarEqual_def primitiveOf_def rowOf_def)

section \<open>Sorting\<close>

text \<open>C10: Sorting records by ordinal text, with any list of keys and directions, gives the one
  stable sorting of the records: ordered by the scalars of the keys in their directions, a
  permutation, and records with equal keys in their old order.\<close>

theorem record_sort_unique:
  assumes "\<And>x p d. x \<in> set xs \<Longrightarrow> (p, d) \<in> set keys \<Longrightarrow> \<exists>s. textAt x p = Ret s \<and> validString s"
  shows "sliceStable (lessBy keys) xs = Ret ys \<longleftrightarrow> keyOrder.stableSorting keys xs ys"
proof -
  have "sliceStable (lessBy keys) xs = sliceStable (\<lambda>a b. Ret (lessKeys keys a b)) xs"
    using assms by (intro sliceStable_agree lessBy_lessKeys) blast
  then show ?thesis
    using keyOrder.sliceStable_sorts [of keys xs] keyOrder.sliceStable_unique [of keys xs ys]
    by (metis res.inject)
qed

theorem record_sort_unique_witness:
  "sliceStable (lessBy [(0, True)]) [rowOf ''a'', rowOf ''b''] = Ret [rowOf ''b'', rowOf ''a'']
    \<longleftrightarrow> keyOrder.stableSorting [(0, True)] [rowOf ''a'', rowOf ''b''] [rowOf ''b'', rowOf ''a'']"
proof (rule record_sort_unique)
  fix x and p :: int and d assume "x \<in> set [rowOf ''a'', rowOf ''b'']" "(p, d) \<in> set [(0, True)]"
  then show "\<exists>s. textAt x p = Ret s \<and> validString s"
    by (auto simp: row_text validString_ascii byte_def)
qed

text \<open>C11: The searches by text select by equality of the text field: filtering keeps the matching
  records in order, finding gives the first of them, and neither fails.\<close>

theorem text_search_selects:
  assumes "validateType t = Ret ()" "validString key"
    "\<And>x. x \<in> set xs \<Longrightarrow> conforms x t \<and> textAt x p = Ret (field x) \<and> validString (field x)"
  shows "keepRecords (textEquals p key) xs = Ret (filter (\<lambda>x. field x = key) xs)
    \<and> findRecord (textEquals p key) xs = Ret (List.find (\<lambda>x. field x = key) xs)"
proof -
  have "textEquals p key x = Ret (field x = key) \<and> cloneValue x = x" if "x \<in> set xs" for x
    using textEquals_total assms(3) [OF that] assms(2) cloneValue_id [OF _ assms(1)] by blast
  then show ?thesis by (induction xs) auto
qed

theorem text_search_selects_witness:
  "keepRecords (textEquals 0 ''b'') [rowOf ''a'', rowOf ''b'']
     = Ret (filter (\<lambda>x. vString (hd (elems (vRecord x))) = ''b'') [rowOf ''a'', rowOf ''b''])
   \<and> findRecord (textEquals 0 ''b'') [rowOf ''a'', rowOf ''b'']
     = Ret (List.find (\<lambda>x. vString (hd (elems (vRecord x))) = ''b'') [rowOf ''a'', rowOf ''b''])"
proof (rule text_search_selects [OF rowType_valid])
  fix x assume "x \<in> set [rowOf ''a'', rowOf ''b'']"
  then show "conforms x rowType \<and> textAt x 0 = Ret (vString (hd (elems (vRecord x))))
      \<and> validString (vString (hd (elems (vRecord x))))"
    using row_conforms [of "''a''"] row_conforms [of "''b''"] row_text
    by (auto simp: rowOf_def validString_ascii byte_def)
qed (simp add: validString_ascii byte_def)

section \<open>Cycles\<close>

text \<open>C3: \<open>checkCycles\<close> decides whether the call graph of a program is acyclic: it returns nil if
  so and an error if not. The recursion of \<open>visit\<close> never runs out of fuel.\<close>

theorem cycle_check_decides:
  assumes "tableOf fns table" "closedCalls table"
  shows "(checkCycles table fns = Ret () \<longleftrightarrow> acyclic (calls table))
    \<and> ((\<exists>m. checkCycles table fns = Err m) \<longleftrightarrow> \<not> acyclic (calls table))"
  using checkCycles_decides [OF assms] by (auto split: if_splits)

text \<open>A function that calls itself.\<close>

definition loopFunction :: func where
  "loopFunction = trimFunction\<lparr>fnBody := callExpr textType trimFunction [referenceExpr textType 0]\<rparr>"

theorem cycle_check_decides_witness:
  "\<exists>m. checkCycles (functionMap [loopFunction]) [loopFunction] = Err m"
proof -
  have s: "subexprs (fnBody loopFunction) = [fnBody loopFunction, referenceExpr textType 0]"
    by (simp add: loopFunction_def WalkExpression.simps children_def callExpr_def expressionChildren_def referenceExpr_def)
  have k: "fnIdentity loopFunction = fnIdentity trimFunction" by (simp add: loopFunction_def)
  define key where "key = functionKey (fnIdentity trimFunction)"
  have t: "functionMap [loopFunction] = [key \<mapsto> loopFunction]" by (simp add: functionMap_def k key_def)
  have c: "callTargets (fnBody loopFunction) = [key]"
    by (simp add: callTargets_def s)
      (simp add: loopFunction_def callExpr_def referenceExpr_def key_def List.map_filter_simps)
  have "tableOf [loopFunction] (functionMap [loopFunction])" by (simp add: tableOf_def t k key_def)
  moreover have "closedCalls (functionMap [loopFunction])" by (simp add: closedCalls_def calls_def t c)
  moreover have "(key, key) \<in> calls (functionMap [loopFunction])" by (simp add: calls_def t c)
  then have "\<not> acyclic (calls (functionMap [loopFunction]))" by (auto simp: acyclic_def)
  ultimately show ?thesis using cycle_check_decides by blast
qed

text \<open>C4: The call graph of every program that validation accepts is acyclic, and each call in it
  is to a function of the program.\<close>

theorem program_calls_acyclic:
  assumes "ValidateProgram p = Ret ()"
  shows "acyclic (calls (functionMap (pgFunctions p))) \<and> closedCalls (functionMap (pgFunctions p))"
proof -
  note v = ValidateProgram_establishes [OF assms]
  have "callOK (Some (functionMap (pgFunctions p))) x" if "f \<in> set (pgFunctions p)" "x \<in> set (subexprs (fnBody f))" for f x
    using validatePureCalls_callOK [OF v(4) [OF that(1)] that(2)] .
  then have "closedCalls (functionMap (pgFunctions p))"
    using v(1) by (force simp: closedCalls_def calls_def callTargets_in tableOf_def callOK_def lookup_def)
  then show ?thesis using checkCycles_acyclic [OF v(1) _ v(2)] by blast
qed

theorem program_calls_acyclic_witness:
  "acyclic (calls (functionMap (pgFunctions cleanProgram)))
    \<and> closedCalls (functionMap (pgFunctions cleanProgram))"
  by (rule program_calls_acyclic) (simp add: samples_valid)

section \<open>Terminal trees\<close>

text \<open>
  The grammar behind the walk: operands at the leaves, locals initialized with operands, and
  terminal statements whose condition is an operand, at most \<open>n\<close> deep.
\<close>

inductive terminalGrammar :: "nat \<Rightarrow> expr \<Rightarrow> bool" where
  operand: "exKind e \<noteq> ExprImmutableLocal \<Longrightarrow> validConditionalOperand e \<Longrightarrow> terminalGrammar n e"
| sequence: "exKind e = ExprImmutableLocal \<Longrightarrow>
     exImmutableLocal e = Some (ImmutableLocal position name typ (Some i) (Some r)) \<Longrightarrow>
     validConditionalOperand i \<Longrightarrow> terminalGrammar n r \<Longrightarrow> terminalGrammar n e"
| branch: "exKind e = ExprConditional \<Longrightarrow>
     exConditional e = Some (Conditional (Some c) (Some x) (Some y) True) \<Longrightarrow>
     validConditionalOperand c \<Longrightarrow> terminalGrammar n x \<Longrightarrow> terminalGrammar n y \<Longrightarrow>
     terminalGrammar (Suc n) e"

lemma operand_kind: "validConditionalOperand e \<Longrightarrow> exKind e \<noteq> ExprConditional"
  by (subst (asm) validConditionalOperand.simps) simp

lemma terminalGrammar_local:
  assumes "exKind e = ExprImmutableLocal"
  shows "terminalGrammar n e \<longleftrightarrow> (\<exists>position name typ i r.
    exImmutableLocal e = Some (ImmutableLocal position name typ (Some i) (Some r))
    \<and> validConditionalOperand i \<and> terminalGrammar n r)"
  using assms by (subst terminalGrammar.simps) auto

lemma terminalGrammar_tail:
  assumes "exKind e \<noteq> ExprImmutableLocal"
  shows "terminalGrammar n e \<longleftrightarrow> validConditionalOperand e
    \<or> (exKind e = ExprConditional \<and> (\<exists>m c x y. n = Suc m
        \<and> exConditional e = Some (Conditional (Some c) (Some x) (Some y) True)
        \<and> validConditionalOperand c \<and> terminalGrammar m x \<and> terminalGrammar m y))"
  using assms by (subst terminalGrammar.simps) auto

lemma localSpine_tail: "localSpine e = Some (initializers, tail) \<Longrightarrow> exKind tail \<noteq> ExprImmutableLocal"
proof (induction e arbitrary: initializers rule: localSpine.induct)
  case (1 e)
  from 1(2) show ?case
    by (subst (asm) localSpine.simps)
      (use 1(1) in \<open>auto split: option.splits immutable_local.splits if_splits; blast\<close>)
qed

lemma terminalGrammar_spine:
  "terminalGrammar n e \<longleftrightarrow>
     (case localSpine e of None \<Rightarrow> False
      | Some (initializers, tail) \<Rightarrow> list_all validConditionalOperand initializers \<and> terminalGrammar n tail)"
proof (induction e rule: localSpine.induct)
  case (1 e)
  show ?case
  proof (cases "exKind e = ExprImmutableLocal")
    case True
    then show ?thesis
      using 1 by (subst localSpine.simps)
        (auto simp: terminalGrammar_local split: option.splits immutable_local.splits)
  qed (subst localSpine.simps, simp)
qed

lemma total_None: "total xs = None \<longleftrightarrow> None \<in> set xs"
  by (induction xs rule: total.induct) auto

lemma accept_None: "None = accept b \<longleftrightarrow> \<not> b"
  by (simp add: accept_def)

lemma terminalTree_None:
  "total (map (\<lambda>i. accept (P i)) xs @ ys) = None \<longleftrightarrow> \<not> list_all P xs \<or> None \<in> set ys"
  by (auto simp: total_None list_all_iff accept_None)

text \<open>\<open>validV810TerminalTree\<close> accepts exactly the trees of the grammar: sequences of locals and
  terminal statements at most \<open>n\<close> deep whose initializers, conditions and leaves are operands.\<close>

theorem terminal_tree_grammar: "validV810TerminalTree e n \<longleftrightarrow> terminalGrammar n e"
proof (induction n arbitrary: e)
  case 0
  show ?case
  proof (cases "localSpine e")
    case (Some s)
    obtain initializers tail where s: "s = (initializers, tail)" by (cases s)
    with Some have "exKind tail \<noteq> ExprImmutableLocal" using localSpine_tail by simp
    then show ?thesis
      using Some s operand_kind [of tail]
      by (simp add: validV810TerminalTree_def terminalTree_None terminalGrammar_spine [of _ e]
          terminalGrammar_tail accept_None isTerminalIf_def del: not_None_eq) blast
  qed (simp add: validV810TerminalTree_def terminalGrammar_spine [of _ e])
next
  case (Suc n)
  have IH: "None = terminalTree (\<lambda>i. accept (validConditionalOperand i)) (\<lambda>c. accept (validConditionalOperand c))
      (\<lambda>t. accept (exKind t \<noteq> ExprConditional \<and> validConditionalOperand t)) n x \<longleftrightarrow> \<not> terminalGrammar n x" for x
    using Suc.IH [of x] unfolding validV810TerminalTree_def by metis
  show ?case
  proof (cases "localSpine e")
    case (Some s)
    obtain initializers tail where s: "s = (initializers, tail)" by (cases s)
    with Some have "exKind tail \<noteq> ExprImmutableLocal" using localSpine_tail by simp
    then show ?thesis
      using Some s operand_kind [of tail]
      by (auto simp: validV810TerminalTree_def terminalTree_None terminalGrammar_spine [of _ e]
          terminalGrammar_tail accept_None isTerminalIf_def IH
          simp del: not_None_eq          split: option.splits conditional.splits)
  qed (simp add: validV810TerminalTree_def terminalGrammar_spine [of _ e])
qed
end
