(* ===== verification/GoStrings.thy ===== *)
theory GoStrings
  imports CaseFold
begin

text \<open>
  The functions of Go's \<open>strings\<close> and \<open>path/filepath\<close> (on Unix) that the workflow packages use,
  on strings of bytes.
\<close>

section \<open>strings\<close>

text \<open>
  \<open>ToLower\<close> decodes and maps runes. Beside the ASCII letters it maps two runes to ASCII, the
  dotted capital I and the Kelvin sign. Other runes are left as they are: what the code compares a
  lowered string with is ASCII, and no other rune has an ASCII lower case.
\<close>

definition lowerRune :: "nat \<Rightarrow> nat" where
  "lowerRune n =
     (if 0x41 \<le> n \<and> n \<le> 0x5A then n + 0x20 else if n = 0x130 then 0x69 else if n = 0x212A then 0x6B else n)"

definition ToLower :: "string \<Rightarrow> string" where
  "ToLower s = encode (map lowerRune (runes s))"

text \<open>\<open>ToUpper\<close>: the dotless i and the long s are the runes that map into ASCII.\<close>

definition upperRune :: "nat \<Rightarrow> nat" where
  "upperRune n =
     (if 0x61 \<le> n \<and> n \<le> 0x7A then n - 0x20 else if n = 0x131 then 0x49 else if n = 0x17F then 0x53 else n)"

definition ToUpper :: "string \<Rightarrow> string" where
  "ToUpper s = encode (map upperRune (runes s))"

definition ContainsAny :: "string \<Rightarrow> string \<Rightarrow> bool" where
  "ContainsAny s chars \<longleftrightarrow> list_ex (\<lambda>c. c \<in> set chars) s"

definition HasPrefix :: "string \<Rightarrow> string \<Rightarrow> bool" where
  "HasPrefix s p \<longleftrightarrow> take (length p) s = p"

definition HasSuffix :: "string \<Rightarrow> string \<Rightarrow> bool" where
  "HasSuffix s p \<longleftrightarrow> length p \<le> length s \<and> drop (length s - length p) s = p"

fun ContainsText :: "string \<Rightarrow> string \<Rightarrow> bool" where
  "ContainsText [] p \<longleftrightarrow> p = []"
| "ContainsText (c # cs) p \<longleftrightarrow> HasPrefix (c # cs) p \<or> ContainsText cs p"

text \<open>\<open>strings.Cut(s, "=")\<close>: what is before and after the first separator, if there is one.\<close>

definition cutEquals :: "string \<Rightarrow> (string \<times> string) option" where
  "cutEquals s =
     (case dropWhile (\<lambda>c. c \<noteq> CHR ''='') s of
        [] \<Rightarrow> None
      | _ # v \<Rightarrow> Some (takeWhile (\<lambda>c. c \<noteq> CHR ''='') s, v))"

lemma cutEquals_join [simp]: "CHR ''='' \<notin> set k \<Longrightarrow> cutEquals (k @ CHR ''='' # v) = Some (k, v)"
  by (induction k) (simp_all add: cutEquals_def split: list.splits)

lemma cutEquals_Some:
  assumes "cutEquals s = Some (k, v)"
  shows "s = k @ CHR ''='' # v \<and> CHR ''='' \<notin> set k"
proof -
  let ?P = "\<lambda>c. c \<noteq> CHR ''=''"
  from assms obtain c where d: "dropWhile ?P s = c # v" and k: "k = takeWhile ?P s"
    by (auto simp: cutEquals_def split: list.splits)
  have "c = CHR ''=''" using hd_dropWhile [of ?P s] d by simp
  then have "s = k @ CHR ''='' # v" using takeWhile_dropWhile_id [of ?P s] d k by simp
  moreover have "CHR ''='' \<notin> set k" using k set_takeWhileD by fast
  ultimately show ?thesis by blast
qed

section \<open>filepath\<close>

definition IsAbs :: "string \<Rightarrow> bool" where "IsAbs p \<longleftrightarrow> HasPrefix p ''/''"

text \<open>The elements of a path without the empty ones and the dots, with each \<open>..\<close> resolved.\<close>

fun resolveDots :: "bool \<Rightarrow> string list \<Rightarrow> string list \<Rightarrow> string list" where
  "resolveDots rooted acc [] = rev acc"
| "resolveDots rooted acc (p # ps) =
     (if p = [] \<or> p = ''.'' then resolveDots rooted acc ps
      else if p = ''..'' then
        (case acc of
           [] \<Rightarrow> resolveDots rooted (if rooted then [] else [p]) ps
         | q # qs \<Rightarrow> if q = ''..'' then resolveDots rooted (p # acc) ps else resolveDots rooted qs ps)
      else resolveDots rooted (p # acc) ps)"

definition Clean :: "string \<Rightarrow> string" where
  "Clean p =
     (let body = stringsJoin (resolveDots (IsAbs p) [] (splitOn (CHR ''/'') p)) ''/'' in
      if IsAbs p then CHR ''/'' # body else if body = [] then ''.'' else body)"

text \<open>\<open>Join\<close> of two elements, either of which may be empty.\<close>

definition JoinPath :: "string \<Rightarrow> string \<Rightarrow> string" where
  "JoinPath a b =
     (if a = [] \<and> b = [] then []
      else if a = [] then Clean b
      else Clean (a @ ''/'' @ b))"

text \<open>\<open>Dir\<close>: all but the last element, cleaned.\<close>

definition Dir :: "string \<Rightarrow> string" where
  "Dir p = Clean (rev (dropWhile (\<lambda>c. c \<noteq> CHR ''/'') (rev p)))"

definition AbsPath :: "string \<Rightarrow> string \<Rightarrow> string" where
  "AbsPath wd p = (if IsAbs p then Clean p else JoinPath wd p)"

end
