(* ===== verification/SourceText.thy ===== *)
theory SourceText
  imports GoStrings StableSort
begin

text \<open>
  Sources, spans and diagnostics of the PipeLang compiler (pipelang/source.go and the core of
  pipelang/diagnostic.go). A file is a list of bytes, an offset counts bytes. The text of a
  diagnostic is the constant part of its message: quoted names are left out.
\<close>

section \<open>Spans\<close>

text \<open>A half-open range of bytes of one file.\<close>

record source_span =
  spFile :: string
  spStart :: int
  spEnd :: int

definition spanAt :: "string \<Rightarrow> nat \<Rightarrow> nat \<Rightarrow> source_span" where
  "spanAt f a b = \<lparr>spFile = f, spStart = int a, spEnd = int b\<rparr>"

definition zeroSpan :: source_span where
  "zeroSpan = spanAt [] 0 0"

definition spanIsValid :: "source_span \<Rightarrow> bool" where
  "spanIsValid s \<longleftrightarrow> spFile s \<noteq> [] \<and> 0 \<le> spStart s \<and> spStart s \<le> spEnd s"

definition mergeSpans :: "source_span \<Rightarrow> source_span \<Rightarrow> source_span" where
  "mergeSpans a b =
     (if \<not> spanIsValid a then b
      else if \<not> spanIsValid b \<or> spFile a \<noteq> spFile b then a
      else \<lparr>spFile = spFile a, spStart = spStart a, spEnd = spEnd b\<rparr>)"

lemma spanAt_sel [simp]:
  "spFile (spanAt f a b) = f" "spStart (spanAt f a b) = int a" "spEnd (spanAt f a b) = int b"
  by (simp_all add: spanAt_def)

lemma spanAt_eq [simp]: "spanAt f a b = spanAt g c d \<longleftrightarrow> f = g \<and> a = c \<and> b = d"
  by (simp add: spanAt_def)

lemma spanAt_valid [simp]: "spanIsValid (spanAt f a b) \<longleftrightarrow> f \<noteq> [] \<and> a \<le> b"
  by (simp add: spanIsValid_def)

text \<open>Merging spans of the same file in source order gives the span from the first to the last.\<close>

lemma mergeSpans_at [simp]:
  "f \<noteq> [] \<Longrightarrow> a \<le> b \<Longrightarrow> c \<le> d \<Longrightarrow> mergeSpans (spanAt f a b) (spanAt f c d) = spanAt f a d"
  by (simp add: mergeSpans_def spanAt_def spanIsValid_def)

section \<open>Diagnostics\<close>

datatype diagnostic_category =
  CategorySource | CategoryLexical | CategorySyntax | CategorySemantic | CategoryEvaluation

datatype diagnostic_severity = SeverityError | SeverityWarning

text \<open>The codes are kept as written, \<open>PL0001\<close> and so on.\<close>

record diagnostic =
  dgCode :: string
  dgCategory :: diagnostic_category
  dgSeverity :: diagnostic_severity
  dgMessage :: string
  dgPrimary :: source_span
  dgRelated :: "(source_span \<times> string) list"

definition CodeInvalidUTF8 :: string where "CodeInvalidUTF8 = ''PL0001''"
definition CodeDuplicateSource :: string where "CodeDuplicateSource = ''PL0002''"
definition CodeUnexpectedChar :: string where "CodeUnexpectedChar = ''PL1001''"
definition CodeInvalidNumber :: string where "CodeInvalidNumber = ''PL1002''"
definition CodeInvalidEscape :: string where "CodeInvalidEscape = ''PL1003''"
definition CodeUnterminatedText :: string where "CodeUnterminatedText = ''PL1004''"
definition CodeUnexpectedToken :: string where "CodeUnexpectedToken = ''PL2001''"
definition CodeExpectedToken :: string where "CodeExpectedToken = ''PL2002''"

definition hasErrors :: "diagnostic list \<Rightarrow> bool" where
  "hasErrors ds \<longleftrightarrow> list_ex (\<lambda>d. dgSeverity d = SeverityError) ds"

definition oneDiagnostic ::
  "string \<Rightarrow> diagnostic_category \<Rightarrow> source_span \<Rightarrow> string \<Rightarrow> diagnostic" where
  "oneDiagnostic code cat sp msg =
     \<lparr>dgCode = code, dgCategory = cat, dgSeverity = SeverityError, dgMessage = msg,
      dgPrimary = sp, dgRelated = []\<rparr>"

lemma oneDiagnostic_sel [simp]:
  "dgCode (oneDiagnostic c k s m) = c" "dgCategory (oneDiagnostic c k s m) = k"
  "dgSeverity (oneDiagnostic c k s m) = SeverityError" "dgPrimary (oneDiagnostic c k s m) = s"
  "dgMessage (oneDiagnostic c k s m) = m"
  by (simp_all add: oneDiagnostic_def)

text \<open>\<open>strings.Compare\<close> and Go's order of strings: bytewise, a proper prefix first.\<close>

fun bytesLess :: "string \<Rightarrow> string \<Rightarrow> bool" where
  "bytesLess _ [] \<longleftrightarrow> False"
| "bytesLess [] (_ # _) \<longleftrightarrow> True"
| "bytesLess (a # as) (b # bs) \<longleftrightarrow> byte a < byte b \<or> (a = b \<and> bytesLess as bs)"

definition compareStrings :: "string \<Rightarrow> string \<Rightarrow> int" where
  "compareStrings a b = (if a = b then 0 else if bytesLess a b then -1 else 1)"

definition compareSpan :: "source_span \<Rightarrow> source_span \<Rightarrow> int" where
  "compareSpan a b =
     (if spFile a \<noteq> spFile b then compareStrings (spFile a) (spFile b)
      else if spStart a \<noteq> spStart b then spStart a - spStart b
      else spEnd a - spEnd b)"

definition severityText :: "diagnostic_severity \<Rightarrow> string" where
  "severityText s = (case s of SeverityError \<Rightarrow> ''error'' | SeverityWarning \<Rightarrow> ''warning'')"

text \<open>The two comparisons of \<open>Diagnostics.Sort\<close>: by span, severity, code and message.\<close>

definition relatedLess :: "source_span \<times> string \<Rightarrow> source_span \<times> string \<Rightarrow> bool" where
  "relatedLess a b \<longleftrightarrow> compareSpan (fst a) (fst b) < 0"

definition diagnosticLess :: "diagnostic \<Rightarrow> diagnostic \<Rightarrow> bool" where
  "diagnosticLess a b =
     (let cmp = compareSpan (dgPrimary a) (dgPrimary b) in
      if cmp \<noteq> 0 then cmp < 0
      else if dgSeverity a \<noteq> dgSeverity b
        then bytesLess (severityText (dgSeverity a)) (severityText (dgSeverity b))
      else if dgCode a \<noteq> dgCode b then bytesLess (dgCode a) (dgCode b)
      else bytesLess (dgMessage a) (dgMessage b))"

definition stableBy :: "('a \<Rightarrow> 'a \<Rightarrow> bool) \<Rightarrow> 'a list \<Rightarrow> 'a list" where
  "stableBy lt xs = (case sliceStable (\<lambda>a b. Ret (lt a b)) xs of Ret ys \<Rightarrow> ys | _ \<Rightarrow> xs)"

definition sortDiagnostics :: "diagnostic list \<Rightarrow> diagnostic list" where
  "sortDiagnostics ds =
     stableBy diagnosticLess (map (\<lambda>d. d\<lparr>dgRelated := stableBy relatedLess (dgRelated d)\<rparr>) ds)"

section \<open>Source sets\<close>

record source_input =
  siPath :: string
  siData :: string

record source_file =
  sfID :: string
  sfPath :: string
  sfText :: string
  sfLineStarts :: "nat list"

text \<open>\<open>byID\<close> is a map from identities to the files.\<close>

record source_set =
  ssFiles :: "source_file list"
  ssByID :: "string \<rightharpoonup> source_file"

definition normalizeSourcePath :: "string \<Rightarrow> string" where
  "normalizeSourcePath p =
     (let path = TrimSpace p in
      if path = [] then ''<input>''
      else if HasPrefix path ''<'' \<and> HasSuffix path ''>'' then path
      else Clean path)"

text \<open>The offset of the first byte at which decoding fails.\<close>

function firstInvalidFrom :: "string \<Rightarrow> nat \<Rightarrow> nat" where
  "firstInvalidFrom d i =
     (if i < length d then
        let size = snd (decodeRune (drop i d)) in
        if size = 1 \<and> 0x80 \<le> byte (d ! i) then i else firstInvalidFrom d (i + size)
      else 0)"
  by pat_completeness auto
termination
proof (relation "measure (\<lambda>(d, i). length d - i)")
  fix d :: string and i x
  assume i: "i < length d" and x: "x = snd (decodeRune (drop i d))"
  from i have "0 < x" using decodeRune_width [of "drop i d"] x by simp
  with i show "((d, i + x), d, i) \<in> measure (\<lambda>(d, i). length d - i)" by simp
qed simp

declare firstInvalidFrom.simps [simp del]

definition firstInvalidUTF8 :: "string \<Rightarrow> nat" where
  "firstInvalidUTF8 d = firstInvalidFrom d 0"

text \<open>A line starts at 0 and after every line feed.\<close>

fun lineStartsFrom :: "nat \<Rightarrow> string \<Rightarrow> nat list" where
  "lineStartsFrom i [] = []"
| "lineStartsFrom i (c # cs) =
     (if c = CHR 0x0A then Suc i # lineStartsFrom (Suc i) cs else lineStartsFrom (Suc i) cs)"

definition newSourceFile :: "string \<Rightarrow> string \<Rightarrow> source_file" where
  "newSourceFile path text =
     \<lparr>sfID = path, sfPath = path, sfText = text, sfLineStarts = 0 # lineStartsFrom 0 text\<rparr>"

definition addSource ::
  "source_set \<times> diagnostic list \<Rightarrow> source_input \<Rightarrow> source_set \<times> diagnostic list" where
  "addSource st input =
     (case st of (s, ds) \<Rightarrow>
       let path = normalizeSourcePath (siPath input) in
       if ssByID s path \<noteq> None then
         (s, ds @ [oneDiagnostic CodeDuplicateSource CategorySource (spanAt path 0 0)
           ''duplicate source identity''])
       else if \<not> validString (siData input) then
         let start = firstInvalidUTF8 (siData input) in
         (s, ds @ [oneDiagnostic CodeInvalidUTF8 CategorySource
           (spanAt path start (min (start + 1) (length (siData input)))) ''source is not valid UTF-8''])
       else
         let f = newSourceFile path (siData input) in
         (s\<lparr>ssFiles := ssFiles s @ [f], ssByID := (ssByID s)(path \<mapsto> f)\<rparr>, ds))"

definition sortInputs :: "source_input list \<Rightarrow> source_input list" where
  "sortInputs inputs =
     stableBy (\<lambda>a b. bytesLess (normalizeSourcePath (siPath a)) (normalizeSourcePath (siPath b))) inputs"

definition NewSourceSet :: "source_input list \<Rightarrow> source_set \<times> diagnostic list" where
  "NewSourceSet inputs =
     (case foldl addSource (\<lparr>ssFiles = [], ssByID = Map.empty\<rparr>, []) (sortInputs inputs) of
        (s, ds) \<Rightarrow> (s, sortDiagnostics ds))"

section \<open>Positions\<close>

record source_position =
  posOffset :: int
  posLine :: int
  posColumn :: int
  posUTF16Column :: int

record source_range =
  rgFile :: string
  rgStart :: source_position
  rgEnd :: source_position

text \<open>\<open>sort.Search\<close>: binary search for the first index at which the predicate holds.\<close>

function searchFrom :: "(nat \<Rightarrow> bool) \<Rightarrow> nat \<Rightarrow> nat \<Rightarrow> nat" where
  "searchFrom f i j =
     (if i < j then
        let h = (i + j) div 2 in
        if f h then searchFrom f i h else searchFrom f (Suc h) j
      else i)"
  by pat_completeness auto
termination
  by (relation "measure (\<lambda>(f, i, j). j - i)") auto

declare searchFrom.simps [simp del]

text \<open>The number of UTF-16 code units of a rune.\<close>

definition utf16Width :: "nat \<Rightarrow> int" where
  "utf16Width r = (if 0x10000 \<le> r \<and> r \<le> 0x10FFFF then 2 else 1)"

definition filePosition :: "source_file \<Rightarrow> int \<Rightarrow> source_position" where
  "filePosition f offset0 =
     (let offset = nat (max 0 (min offset0 (int (length (sfText f)))));
          found = int (searchFrom (\<lambda>i. sfLineStarts f ! i > offset) 0 (length (sfLineStarts f))) - 1;
          lineIndex = (if found < 0 then 0 else found);
          lineStart = sfLineStarts f ! nat lineIndex;
          rs = runes (drop lineStart (take offset (sfText f)))
      in \<lparr>posOffset = int offset, posLine = lineIndex + 1, posColumn = int (length rs) + 1,
          posUTF16Column = 1 + sum_list (map utf16Width rs)\<rparr>)"

text \<open>Without the file a position is its offset on the first line.\<close>

definition barePosition :: "int \<Rightarrow> source_position" where
  "barePosition offset =
     \<lparr>posOffset = offset, posLine = 1, posColumn = offset + 1, posUTF16Column = offset + 1\<rparr>"

definition sourceRange :: "source_set \<Rightarrow> source_span \<Rightarrow> source_range" where
  "sourceRange s sp =
     (case ssByID s (spFile sp) of
        None \<Rightarrow> \<lparr>rgFile = spFile sp, rgStart = barePosition (spStart sp), rgEnd = barePosition (spEnd sp)\<rparr>
      | Some f \<Rightarrow> \<lparr>rgFile = spFile sp, rgStart = filePosition f (spStart sp),
          rgEnd = filePosition f (spEnd sp)\<rparr>)"

section \<open>Lines\<close>

lemma searchFrom_bounds: "i \<le> j \<Longrightarrow> i \<le> searchFrom f i j \<and> searchFrom f i j \<le> j"
proof (induction f i j rule: searchFrom.induct)
  case (1 f i j)
  show ?case
  proof (cases "i < j")
    case True
    define h where "h = (i + j) div 2"
    have h: "i \<le> h" "h < j" using True by (auto simp: h_def)
    have "searchFrom f i j = (if f h then searchFrom f i h else searchFrom f (Suc h) j)"
      using True by (subst searchFrom.simps) (simp add: h_def Let_def)
    with 1 True h show ?thesis unfolding h_def [symmetric] by (cases "f h") force+
  next
    case False
    with 1 have "searchFrom f i j = i" by (subst searchFrom.simps) simp
    with 1 False show ?thesis by simp
  qed
qed

lemma searchFrom_first:
  "(\<And>a b. a \<le> b \<Longrightarrow> b < j \<Longrightarrow> f a \<Longrightarrow> f b) \<Longrightarrow> i \<le> j \<Longrightarrow>
   (\<forall>k. i \<le> k \<and> k < searchFrom f i j \<longrightarrow> \<not> f k) \<and> (searchFrom f i j < j \<longrightarrow> f (searchFrom f i j))"
proof (induction f i j rule: searchFrom.induct)
  case (1 f i j)
  show ?case
  proof (cases "i < j")
    case True
    define h where "h = (i + j) div 2"
    have h: "i \<le> h" "h < j" using True by (auto simp: h_def)
    have s: "searchFrom f i j = (if f h then searchFrom f i h else searchFrom f (Suc h) j)"
      using True by (subst searchFrom.simps) (simp add: h_def Let_def)
    show ?thesis
    proof (cases "f h")
      case f: True
      have b: "searchFrom f i h \<le> h" using searchFrom_bounds [of i h f] h by simp
      have "(\<forall>k. i \<le> k \<and> k < searchFrom f i h \<longrightarrow> \<not> f k)
          \<and> (searchFrom f i h < h \<longrightarrow> f (searchFrom f i h))"
        using 1(1) [OF True h_def f] 1(3) h by (meson less_trans)
      with b f s show ?thesis by (cases "searchFrom f i h = h") auto
    next
      case f: False
      have "(\<forall>k. Suc h \<le> k \<and> k < searchFrom f (Suc h) j \<longrightarrow> \<not> f k)
          \<and> (searchFrom f (Suc h) j < j \<longrightarrow> f (searchFrom f (Suc h) j))"
        using 1(2) [OF True h_def f] 1(3) h by simp
      moreover have "\<not> f k" if "k \<le> h" for k using f 1(3) [OF that h(2)] by blast
      ultimately show ?thesis unfolding s using f by simp (metis not_less_eq_eq)
    qed
  next
    case False
    with 1(4) have "searchFrom f i j = i" by (subst searchFrom.simps) simp
    with False show ?thesis by auto
  qed
qed

text \<open>On a list cut into a part that fails and a part that holds, the search finds the cut.\<close>

lemma searchFrom_cut:
  assumes "\<forall>x \<in> set xs. \<not> p x" "\<forall>x \<in> set ys. p x"
  shows "searchFrom (\<lambda>i. p ((xs @ ys) ! i)) 0 (length (xs @ ys)) = length xs"
proof -
  let ?f = "\<lambda>i. p ((xs @ ys) ! i)" and ?n = "length (xs @ ys)"
  let ?k = "searchFrom ?f 0 ?n"
  have f: "?f i \<longleftrightarrow> length xs \<le> i" if "i < ?n" for i
    using that assms nth_mem by (auto simp: nth_append)
  have b: "?k \<le> ?n" using searchFrom_bounds [of 0 ?n ?f] by simp
  have "(\<forall>k. 0 \<le> k \<and> k < ?k \<longrightarrow> \<not> ?f k) \<and> (?k < ?n \<longrightarrow> ?f ?k)"
    by (rule searchFrom_first) (use f in auto)
  with f b show ?thesis
    by (metis (no_types, lifting) le_eq_less_or_eq le_zero_eq length_append le_add1 not_le zero_le
        order.strict_trans2)
qed

text \<open>The number of line feeds of a text and what follows the last of them.\<close>

definition newlines :: "string \<Rightarrow> nat" where
  "newlines s = length (filter (\<lambda>c. c = CHR 0x0A) s)"

definition lastLine :: "string \<Rightarrow> string" where
  "lastLine s = rev (takeWhile (\<lambda>c. c \<noteq> CHR 0x0A) (rev s))"

lemma lineStartsFrom_append:
  "lineStartsFrom i (s @ t) = lineStartsFrom i s @ lineStartsFrom (i + length s) t"
  by (induction s arbitrary: i) simp_all

lemma lineStartsFrom_bounds: "x \<in> set (lineStartsFrom i s) \<Longrightarrow> i < x \<and> x \<le> i + length s"
  by (induction s arbitrary: i) (fastforce split: if_splits)+

lemma lineStartsFrom_length: "length (lineStartsFrom i s) = newlines s"
  by (induction s arbitrary: i) (simp_all add: newlines_def)

lemma lastLine_snoc: "lastLine (s @ [c]) = (if c = CHR 0x0A then [] else lastLine s @ [c])"
  by (simp add: lastLine_def)

lemma lineStartsFrom_last: "last (i # lineStartsFrom i s) = i + length s - length (lastLine s)"
proof (induction s rule: rev_induct)
  case (snoc c s)
  have "length (lastLine s) \<le> length s"
    using length_takeWhile_le [of "\<lambda>c. c \<noteq> CHR 0x0A" "rev s"] by (simp add: lastLine_def)
  with snoc show ?case by (auto simp: lineStartsFrom_append lastLine_snoc Suc_diff_le split: if_splits)
qed (simp add: lastLine_def)

lemma lastLine_drop: "drop (length s - length (lastLine s)) s = lastLine s"
  by (metis lastLine_def length_rev rev_rev_ident rev_take takeWhile_eq_take)

text \<open>
  A position counts the line feeds before the offset, and the runes and the UTF-16 units that
  follow the last of them.
\<close>

lemma filePosition_text:
  assumes "n \<le> length t"
  shows "filePosition (newSourceFile p t) (int n) =
    \<lparr>posOffset = int n, posLine = int (newlines (take n t)) + 1,
     posColumn = int (length (runes (lastLine (take n t)))) + 1,
     posUTF16Column = 1 + sum_list (map utf16Width (runes (lastLine (take n t))))\<rparr>"
proof -
  let ?a = "0 # lineStartsFrom 0 (take n t)" and ?b = "lineStartsFrom n (drop n t)"
  have ls: "0 # lineStartsFrom 0 t = ?a @ ?b"
    using lineStartsFrom_append [of 0 "take n t" "drop n t"] assms by simp
  have "searchFrom (\<lambda>i. (?a @ ?b) ! i > n) 0 (length (?a @ ?b)) = length ?a"
  proof (rule searchFrom_cut)
    have "x \<le> n" if "x \<in> set (lineStartsFrom 0 (take n t))" for x
      using lineStartsFrom_bounds [OF that] assms by simp
    then show "\<forall>x \<in> set ?a. \<not> n < x" by (auto simp: not_less)
    show "\<forall>x \<in> set ?b. n < x" using lineStartsFrom_bounds by blast
  qed
  then have k: "searchFrom (\<lambda>i. (0 # lineStartsFrom 0 t) ! i > n) 0 (length (0 # lineStartsFrom 0 t))
      = Suc (newlines (take n t))"
    unfolding ls by (simp add: lineStartsFrom_length)
  have nth: "(0 # lineStartsFrom 0 t) ! newlines (take n t) = n - length (lastLine (take n t))"
  proof -
    have "(?a @ ?b) ! newlines (take n t) = ?a ! newlines (take n t)"
      by (simp only: nth_append) (simp add: lineStartsFrom_length)
    also have "\<dots> = last ?a" by (simp add: last_conv_nth lineStartsFrom_length del: last.simps)
    also have "\<dots> = n - length (lastLine (take n t))"
      using lineStartsFrom_last [of 0 "take n t"] assms by simp
    finally show ?thesis unfolding ls .
  qed
  have "drop (n - length (lastLine (take n t))) (take n t) = lastLine (take n t)"
    using lastLine_drop [of "take n t"] assms by simp
  with k nth assms show ?thesis by (simp add: filePosition_def newSourceFile_def Let_def)
qed

end
