(* ===== verification/Lexer.thy ===== *)
theory Lexer
  imports SourceText
begin

text \<open>
  The lexer of PipeLang (pipelang/lexer.go), on the bytes of a source file. The loop of \<open>lex\<close>
  is \<open>lexFrom\<close>, one turn of it \<open>lexStep\<close>; an error is the diagnostic the code returns.
\<close>

datatype token_kind =
    tokEOF | tokIdent | tokInt | tokFloat | tokString | tokBool
  | tokInterface | tokClass | tokStruct | tokPublic | tokPrivate
  | tokLBrace | tokRBrace | tokLParen | tokRParen | tokLBracket | tokRBracket
  | tokColon | tokSemi | tokComma | tokDot | tokQuestion | tokAssign | tokArrow
  | tokPlus | tokMinus | tokStar | tokSlash | tokBang
  | tokEQ | tokNE | tokLT | tokLE | tokGT | tokGE | tokAndAnd | tokOrOr

record token =
  tkKind :: token_kind
  tkLit :: string
  tkSpan :: source_span

definition mkToken :: "token_kind \<Rightarrow> string \<Rightarrow> source_span \<Rightarrow> token" where
  "mkToken k l s = \<lparr>tkKind = k, tkLit = l, tkSpan = s\<rparr>"

lemma mkToken_sel [simp]:
  "tkKind (mkToken k l s) = k" "tkLit (mkToken k l s) = l" "tkSpan (mkToken k l s) = s"
  by (simp_all add: mkToken_def)

section \<open>Classes of bytes\<close>

text \<open>\<open>unicode.IsSpace\<close> of a byte.\<close>

definition isSpace :: "char \<Rightarrow> bool" where
  "isSpace c \<longleftrightarrow> byte c \<in> {0x09, 0x0A, 0x0B, 0x0C, 0x0D, 0x20, 0x85, 0xA0}"

definition isDigit :: "char \<Rightarrow> bool" where
  "isDigit c \<longleftrightarrow> byte CHR ''0'' \<le> byte c \<and> byte c \<le> byte CHR ''9''"

definition isIdentStart :: "char \<Rightarrow> bool" where
  "isIdentStart c \<longleftrightarrow>
     (byte CHR ''a'' \<le> byte c \<and> byte c \<le> byte CHR ''z'')
   \<or> (byte CHR ''A'' \<le> byte c \<and> byte c \<le> byte CHR ''Z'') \<or> c = CHR ''_''"

definition isIdentPart :: "char \<Rightarrow> bool" where
  "isIdentPart c \<longleftrightarrow> isIdentStart c \<or> isDigit c"

section \<open>Scanning\<close>

definition sliceOf :: "string \<Rightarrow> nat \<Rightarrow> nat \<Rightarrow> string" where
  "sliceOf src a b = take (b - a) (drop a src)"

text \<open>\<open>for i < len(src) && p(src[i]) { i++ }\<close>.\<close>

function skipWhile :: "(char \<Rightarrow> bool) \<Rightarrow> string \<Rightarrow> nat \<Rightarrow> nat" where
  "skipWhile p src i =
     (if i < length src \<and> p (src ! i) then skipWhile p src (Suc i) else i)"
  by pat_completeness auto
termination by (relation "measure (\<lambda>(p, src, i). length src - i)") auto

declare skipWhile.simps [simp del]

definition identKind :: "string \<Rightarrow> token_kind" where
  "identKind lit =
     (if lit = ''Interface'' then tokInterface
      else if lit = ''Class'' then tokClass
      else if lit = ''Struct'' then tokStruct
      else if lit = ''public'' then tokPublic
      else if lit = ''private'' then tokPrivate
      else if lit = ''true'' \<or> lit = ''false'' then tokBool
      else tokIdent)"

text \<open>A number from its first digit: its kind and where it ends.\<close>

definition scanNumber :: "string \<Rightarrow> string \<Rightarrow> nat \<Rightarrow> diagnostic + token_kind \<times> nat" where
  "scanNumber f src start =
     (let i = skipWhile isDigit src (Suc start) in
      if i < length src \<and> src ! i = CHR ''.'' then
        (if Suc i \<ge> length src \<or> \<not> isDigit (src ! Suc i)
         then Inl (oneDiagnostic CodeInvalidNumber CategoryLexical (spanAt f start (Suc i))
                ''invalid float literal'')
         else Inr (tokFloat, skipWhile isDigit src (Suc i)))
      else Inr (tokInt, i))"

text \<open>
  \<open>strconv.Unquote\<close> of a backslash and one more byte between double quotes: the simple escapes.
  A hexadecimal or octal escape is longer than that, so it is an error.
\<close>

definition unquoteEscape :: "char \<Rightarrow> char option" where
  "unquoteEscape c =
     (if c = CHR ''a'' then Some (CHR 0x07)
      else if c = CHR ''b'' then Some (CHR 0x08)
      else if c = CHR ''f'' then Some (CHR 0x0C)
      else if c = CHR ''n'' then Some (CHR 0x0A)
      else if c = CHR ''r'' then Some (CHR 0x0D)
      else if c = CHR ''t'' then Some (CHR 0x09)
      else if c = CHR ''v'' then Some (CHR 0x0B)
      else if c = CHR 0x5C then Some (CHR 0x5C)
      else if c = CHR 0x22 then Some (CHR 0x22)
      else None)"

text \<open>The loop over the body of a string literal, with what it has decoded so far.\<close>

function scanString ::
  "string \<Rightarrow> string \<Rightarrow> nat \<Rightarrow> nat \<Rightarrow> string \<Rightarrow> diagnostic + string \<times> nat" where
  "scanString f src start i b =
     (if i < length src then
        if src ! i = CHR 0x22 then Inr (b, Suc i)
        else if src ! i = CHR 0x5C then
          (if Suc i \<ge> length src
           then Inl (oneDiagnostic CodeUnterminatedText CategoryLexical (spanAt f start (length src))
                  ''unterminated escape sequence'')
           else case unquoteEscape (src ! Suc i) of
                  None \<Rightarrow> Inl (oneDiagnostic CodeInvalidEscape CategoryLexical
                    (spanAt f i (min (i + 2) (length src))) ''invalid escape sequence'')
                | Some u \<Rightarrow> scanString f src start (i + 2) (b @ [u]))
        else scanString f src start (Suc i) (b @ [src ! i])
      else Inl (oneDiagnostic CodeUnterminatedText CategoryLexical (spanAt f start (length src))
        ''unterminated string literal''))"
  by pat_completeness auto
termination
  by (relation "measure (\<lambda>(f, src, start, i, b). length src - i)") auto

declare scanString.simps [simp del]

text \<open>An operator or a bracket, by its first byte and the byte after it, if there is one.\<close>

definition punctuation :: "char \<Rightarrow> char option \<Rightarrow> (token_kind \<times> string) option" where
  "punctuation c next =
     (if c = CHR ''{'' then Some (tokLBrace, ''{'')
      else if c = CHR ''}'' then Some (tokRBrace, ''}'')
      else if c = CHR ''('' then Some (tokLParen, ''('')
      else if c = CHR '')'' then Some (tokRParen, '')'')
      else if c = CHR ''['' then Some (tokLBracket, ''['')
      else if c = CHR '']'' then Some (tokRBracket, '']'')
      else if c = CHR '':'' then Some (tokColon, '':'')
      else if c = CHR '';'' then Some (tokSemi, '';'')
      else if c = CHR '','' then Some (tokComma, '','')
      else if c = CHR ''.'' then Some (tokDot, ''.'')
      else if c = CHR ''?'' then Some (tokQuestion, ''?'')
      else if c = CHR ''+'' then Some (tokPlus, ''+'')
      else if c = CHR ''-'' then Some (tokMinus, ''-'')
      else if c = CHR ''*'' then Some (tokStar, ''*'')
      else if c = CHR ''/'' then Some (tokSlash, ''/'')
      else if c = CHR ''='' then
        (if next = Some (CHR ''>'') then Some (tokArrow, ''=>'')
         else if next = Some (CHR ''='') then Some (tokEQ, ''=='')
         else Some (tokAssign, ''=''))
      else if c = CHR ''!'' then
        (if next = Some (CHR ''='') then Some (tokNE, ''!='') else Some (tokBang, ''!''))
      else if c = CHR ''<'' then
        (if next = Some (CHR ''='') then Some (tokLE, ''<='') else Some (tokLT, ''<''))
      else if c = CHR ''>'' then
        (if next = Some (CHR ''='') then Some (tokGE, ''>='') else Some (tokGT, ''>''))
      else if c = CHR ''&'' \<and> next = Some (CHR ''&'') then Some (tokAndAnd, ''&&'')
      else if c = CHR ''|'' \<and> next = Some (CHR ''|'') then Some (tokOrOr, ''||'')
      else None)"

definition byteAt :: "string \<Rightarrow> nat \<Rightarrow> char option" where
  "byteAt src i = (if i < length src then Some (src ! i) else None)"

text \<open>One turn of the loop at a byte of the text: the token read, if any, and the next index.\<close>

definition lexStep :: "string \<Rightarrow> string \<Rightarrow> nat \<Rightarrow> diagnostic + token option \<times> nat" where
  "lexStep f src i =
     (let ch = src ! i in
      if isSpace ch then Inr (None, Suc i)
      else if ch = CHR ''/'' \<and> byteAt src (Suc i) = Some (CHR ''/'') then
        Inr (None, skipWhile (\<lambda>c. c \<noteq> CHR 0x0A) src (i + 2))
      else if isIdentStart ch then
        let j = skipWhile isIdentPart src (Suc i); lit = sliceOf src i j in
        Inr (Some (mkToken (identKind lit) lit (spanAt f i j)), j)
      else if isDigit ch then
        (case scanNumber f src i of
           Inl d \<Rightarrow> Inl d
         | Inr (k, j) \<Rightarrow> Inr (Some (mkToken k (sliceOf src i j) (spanAt f i j)), j))
      else if ch = CHR 0x22 then
        (case scanString f src i (Suc i) [] of
           Inl d \<Rightarrow> Inl d
         | Inr (lit, j) \<Rightarrow> Inr (Some (mkToken tokString lit (spanAt f i j)), j))
      else
        (case punctuation ch (byteAt src (Suc i)) of
           Some (k, lit) \<Rightarrow>
             Inr (Some (mkToken k lit (spanAt f i (i + length lit))), i + length lit)
         | None \<Rightarrow> Inl (oneDiagnostic CodeUnexpectedChar CategoryLexical (spanAt f i (i + 1))
             ''unexpected character'')))"

section \<open>Every turn consumes\<close>

lemma skipWhile_takeWhile:
  "skipWhile p src i = i + length (takeWhile p (drop i src))"
proof (induction p src i rule: skipWhile.induct)
  case (1 p src i)
  show ?case
  proof (cases "i < length src \<and> p (src ! i)")
    case True
    then have "drop i src = src ! i # drop (Suc i) src" by (simp add: Cons_nth_drop_Suc)
    with True 1 show ?thesis by (subst skipWhile.simps) simp
  next
    case False
    then have "takeWhile p (drop i src) = []"
      by (cases "i < length src") (auto simp: Cons_nth_drop_Suc [symmetric])
    with False show ?thesis by (subst skipWhile.simps) auto
  qed
qed

lemma skipWhile_ge: "i \<le> skipWhile p src i"
  by (simp add: skipWhile_takeWhile)

lemma skipWhile_gt: "i < j \<Longrightarrow> i < skipWhile p src j"
  using skipWhile_ge less_le_trans by metis

lemma skipWhile_le: "i \<le> length src \<Longrightarrow> skipWhile p src i \<le> length src"
  using length_takeWhile_le [of p "drop i src"] by (simp add: skipWhile_takeWhile)

lemma scanNumber_bounds:
  assumes "scanNumber f src i = Inr (k, j)" "i < length src"
  shows "i < j \<and> j \<le> length src"
proof -
  let ?n = "skipWhile isDigit src (Suc i)"
  have "i < ?n" "?n \<le> length src" using assms(2) skipWhile_le skipWhile_gt by simp_all
  then show ?thesis
    using assms(1) skipWhile_gt [of i "Suc ?n"] skipWhile_le [of "Suc ?n" src]
    by (auto simp: scanNumber_def Let_def split: if_splits)
qed

lemma scanString_bounds:
  "scanString f src s i b = Inr (l, j) \<Longrightarrow> i < j \<and> j \<le> length src"
proof (induction f src s i b rule: scanString.induct)
  case (1 f src s i b)
  from "1.prems" have "i < length src" by (subst (asm) scanString.simps) (auto split: if_splits)
  with 1 show ?case
    by (subst (asm) (3) scanString.simps) (fastforce split: if_splits option.splits)
qed

lemma punctuation_lit:
  "punctuation c n = Some (k, l) \<Longrightarrow> l = [c] \<or> (\<exists>d. n = Some d \<and> l = [c, d])"
  by (auto simp: punctuation_def split: if_splits)

lemma punctuation_bounds:
  "punctuation (src ! i) (byteAt src (Suc i)) = Some (k, l) \<Longrightarrow> i < length src \<Longrightarrow>
   0 < length l \<and> i + length l \<le> length src"
  by (drule punctuation_lit) (auto simp: byteAt_def split: if_splits)

text \<open>The ways in which a turn ends without an error.\<close>

lemma lexStep_cases:
  assumes "lexStep f src i = Inr (t, j)"
  obtains
    (space) "isSpace (src ! i)" "t = None" "j = Suc i"
  | (comment) "src ! i = CHR ''/''" "byteAt src (Suc i) = Some (CHR ''/'')" "t = None"
      "j = skipWhile (\<lambda>c. c \<noteq> CHR 0x0A) src (i + 2)"
  | (ident) "isIdentStart (src ! i)" "j = skipWhile isIdentPart src (Suc i)"
      "t = Some (mkToken (identKind (sliceOf src i j)) (sliceOf src i j) (spanAt f i j))"
  | (number) k where "isDigit (src ! i)" "scanNumber f src i = Inr (k, j)"
      "t = Some (mkToken k (sliceOf src i j) (spanAt f i j))"
  | (literal) lit where "src ! i = CHR 0x22" "scanString f src i (Suc i) [] = Inr (lit, j)"
      "t = Some (mkToken tokString lit (spanAt f i j))"
  | (punct) k lit where "punctuation (src ! i) (byteAt src (Suc i)) = Some (k, lit)"
      "j = i + length lit" "t = Some (mkToken k lit (spanAt f i j))"
proof -
  note s = assms [unfolded lexStep_def Let_def]
  show thesis
  proof (cases "isSpace (src ! i)")
    case True
    with s show thesis by (intro space) auto
  next
    case n1: False
    show thesis
    proof (cases "src ! i = CHR ''/'' \<and> byteAt src (Suc i) = Some (CHR ''/'')")
      case True
      with s n1 show thesis by (intro comment) auto
    next
      case n2: False
      show thesis
      proof (cases "isIdentStart (src ! i)")
        case True
        with s n1 n2 show thesis by (intro ident) (auto simp only: if_True if_False Inr_inject prod.inject)
      next
        case n3: False
        note s3 = s [unfolded if_not_P [OF n1] if_not_P [OF n2] if_not_P [OF n3]]
        show thesis
        proof (cases "isDigit (src ! i)")
          case True
          with s3 show thesis by (auto split: sum.splits intro: number)
        next
          case n4: False
          note s4 = s3 [unfolded if_not_P [OF n4]]
          show thesis
            using s4 by (auto split: if_splits sum.splits option.splits intro: literal punct)
        qed
      qed
    qed
  qed
qed

lemma lexStep_bounds:
  assumes "lexStep f src i = Inr (t, j)" "i < length src"
  shows "i < j \<and> j \<le> length src"
  using assms(1)
proof (cases rule: lexStep_cases)
  case comment
  then have "i + 2 \<le> length src" by (auto simp: byteAt_def split: if_splits)
  with comment show ?thesis using skipWhile_gt skipWhile_le by simp
next
  case ident
  with assms(2) show ?thesis using skipWhile_gt skipWhile_le by simp
next
  case number
  with assms(2) show ?thesis using scanNumber_bounds by simp
next
  case literal
  then show ?thesis using scanString_bounds [OF literal(2)] by simp
next
  case punct
  with assms(2) show ?thesis using punctuation_bounds by fastforce
qed (use assms(2) in simp)

section \<open>The loop\<close>

function lexFrom :: "string \<Rightarrow> string \<Rightarrow> nat \<Rightarrow> token list \<Rightarrow> diagnostic + token list" where
  "lexFrom f src i out =
     (if i < length src then
        (case lexStep f src i of
           Inl d \<Rightarrow> Inl d
         | Inr (t, j) \<Rightarrow> lexFrom f src j (out @ (case t of None \<Rightarrow> [] | Some tok \<Rightarrow> [tok])))
      else Inr (out @ [mkToken tokEOF [] (spanAt f (length src) (length src))]))"
  by pat_completeness auto
termination
proof (relation "measure (\<lambda>(f, src, i, out). length src - i)")
  fix f src :: string and i j and out :: "token list" and x y t
  assume "i < length src" "lexStep f src i = Inr y" "(t, j) = y"
  then have "i < j" using lexStep_bounds by metis
  then show "((f, src, j, out @ (case t of None \<Rightarrow> [] | Some tok \<Rightarrow> [tok])), f, src, i, out)
      \<in> measure (\<lambda>(f, src, i, out). length src - i)"
    using \<open>i < length src\<close> by simp
qed simp

declare lexFrom.simps [simp del]

definition lex :: "source_file \<Rightarrow> diagnostic + token list" where
  "lex file = lexFrom (sfID file) (sfText file) 0 []"

end
