(* ===== verification/SourceContracts.thy ===== *)
theory SourceContracts
  imports Prelude
begin

text \<open>
  The language contracts of PipeLang sources and the capabilities they select
  (pipelang/module.go). A contract is the number of its constant: 0 is the legacy contract
  \<open>v0.0.0.1\<close>, \<open>n\<close> the contract \<open>v0.n.0\<close> up to 115, and a greater number stands for a string
  that is none of them. A disjunction of consecutive constants is written as a range, and the
  groups of the code are kept.
\<close>

type_synonym language_contract = nat

definition isV740OrLaterSourceContract :: "language_contract \<Rightarrow> bool" where
  "isV740OrLaterSourceContract c \<longleftrightarrow> (74 \<le> c \<and> c \<le> 115)"

definition isPipeLangSemanticContract :: "language_contract \<Rightarrow> bool" where
  "isPipeLangSemanticContract c \<longleftrightarrow>
     isV740OrLaterSourceContract c \<or> (1 \<le> c \<and> c \<le> 73)"

text \<open>\<open>inheritedLanguageContract\<close>: the contract whose rules a later contract starts from.\<close>

definition inheritedLanguageContract :: "language_contract \<Rightarrow> language_contract" where
  "inheritedLanguageContract c = (if isV740OrLaterSourceContract c then 73 else c)"

definition hasTerminalIfSourceContract :: "language_contract \<Rightarrow> bool" where
  "hasTerminalIfSourceContract c \<longleftrightarrow> (69 \<le> c \<and> c \<le> 115)"

definition hasBranchLocalSourceContract :: "language_contract \<Rightarrow> bool" where
  "hasBranchLocalSourceContract c \<longleftrightarrow> (70 \<le> c \<and> c \<le> 115)"

definition hasTwoBranchLocalsSourceContract :: "language_contract \<Rightarrow> bool" where
  "hasTwoBranchLocalsSourceContract c \<longleftrightarrow> c = 71"

definition hasGeneralBranchLocalSequenceSourceContract ::
  "language_contract \<Rightarrow> bool" where
  "hasGeneralBranchLocalSequenceSourceContract c \<longleftrightarrow>
     (72 \<le> c \<and> c \<le> 115)"

definition isV310OrEarlierCapability :: "language_contract \<Rightarrow> bool" where
  "isV310OrEarlierCapability c \<longleftrightarrow>
     isV740OrLaterSourceContract c \<or> (49 \<le> c \<and> c \<le> 73) \<or> (31 \<le> c \<and> c \<le> 48)"

definition hasMatchSourceContract :: "language_contract \<Rightarrow> bool" where
  "hasMatchSourceContract c \<longleftrightarrow>
     isV740OrLaterSourceContract c \<or> (49 \<le> c \<and> c \<le> 73) \<or> (35 \<le> c \<and> c \<le> 48)"

definition hasPropagationSourceContract :: "language_contract \<Rightarrow> bool" where
  "hasPropagationSourceContract c \<longleftrightarrow>
     isV740OrLaterSourceContract c \<or> (49 \<le> c \<and> c \<le> 73) \<or> (34 \<le> c \<and> c \<le> 48)"

definition hasPureCallSourceContract :: "language_contract \<Rightarrow> bool" where
  "hasPureCallSourceContract c \<longleftrightarrow>
     isV740OrLaterSourceContract c \<or> (49 \<le> c \<and> c \<le> 73) \<or> (36 \<le> c \<and> c \<le> 48)"

definition hasConditionalSourceContract :: "language_contract \<Rightarrow> bool" where
  "hasConditionalSourceContract c \<longleftrightarrow>
     isV740OrLaterSourceContract c \<or> (49 \<le> c \<and> c \<le> 73) \<or> (38 \<le> c \<and> c \<le> 48)"

definition hasImmutableLocalSourceContract :: "language_contract \<Rightarrow> bool" where
  "hasImmutableLocalSourceContract c \<longleftrightarrow>
     isV740OrLaterSourceContract c \<or> (49 \<le> c \<and> c \<le> 73) \<or> (39 \<le> c \<and> c \<le> 48)"

definition hasImmutableLocalSequenceSourceContract :: "language_contract \<Rightarrow> bool" where
  "hasImmutableLocalSequenceSourceContract c \<longleftrightarrow>
     isV740OrLaterSourceContract c \<or> (49 \<le> c \<and> c \<le> 73) \<or> (40 \<le> c \<and> c \<le> 48)"

definition hasBlockPropagationSourceContract :: "language_contract \<Rightarrow> bool" where
  "hasBlockPropagationSourceContract c \<longleftrightarrow>
     isV740OrLaterSourceContract c \<or> (49 \<le> c \<and> c \<le> 73) \<or> (41 \<le> c \<and> c \<le> 48)"

definition hasPriorLocalPropagationSourceContract :: "language_contract \<Rightarrow> bool" where
  "hasPriorLocalPropagationSourceContract c \<longleftrightarrow>
     isV740OrLaterSourceContract c \<or> (49 \<le> c \<and> c \<le> 73) \<or> (42 \<le> c \<and> c \<le> 48)"

definition hasHelperResultMatchSourceContract :: "language_contract \<Rightarrow> bool" where
  "hasHelperResultMatchSourceContract c \<longleftrightarrow>
     isV740OrLaterSourceContract c \<or> (49 \<le> c \<and> c \<le> 73) \<or> (43 \<le> c \<and> c \<le> 48)"

definition hasGeneralHelperCarrierMatchSourceContract ::
  "language_contract \<Rightarrow> bool" where
  "hasGeneralHelperCarrierMatchSourceContract c \<longleftrightarrow>
     isV740OrLaterSourceContract c \<or> (49 \<le> c \<and> c \<le> 73) \<or> (44 \<le> c \<and> c \<le> 48)"

definition hasArithmeticResultSourceContract :: "language_contract \<Rightarrow> bool" where
  "hasArithmeticResultSourceContract c \<longleftrightarrow>
     isV310OrEarlierCapability c \<or> (27 \<le> c \<and> c \<le> 30) \<or> (21 \<le> c \<and> c \<le> 26) \<or> (2 \<le> c \<and> c \<le> 20)"

definition hasResultTransportSourceContract :: "language_contract \<Rightarrow> bool" where
  "hasResultTransportSourceContract c \<longleftrightarrow>
     isV310OrEarlierCapability c \<or> (27 \<le> c \<and> c \<le> 30) \<or> (21 \<le> c \<and> c \<le> 26) \<or> (7 \<le> c \<and> c \<le> 20)"

definition hasOrdinalTextOrderingSourceContract :: "language_contract \<Rightarrow> bool" where
  "hasOrdinalTextOrderingSourceContract c \<longleftrightarrow>
     isV310OrEarlierCapability c \<or> (27 \<le> c \<and> c \<le> 30) \<or> (21 \<le> c \<and> c \<le> 26) \<or> (8 \<le> c \<and> c \<le> 20)"

definition hasPrimitiveRecordSourceContract :: "language_contract \<Rightarrow> bool" where
  "hasPrimitiveRecordSourceContract c \<longleftrightarrow>
     isV310OrEarlierCapability c \<or> (27 \<le> c \<and> c \<le> 30) \<or> (21 \<le> c \<and> c \<le> 26) \<or> (9 \<le> c \<and> c \<le> 20)"

definition hasRecordFieldProjectionSourceContract :: "language_contract \<Rightarrow> bool" where
  "hasRecordFieldProjectionSourceContract c \<longleftrightarrow>
     isV310OrEarlierCapability c \<or> (27 \<le> c \<and> c \<le> 30) \<or> (21 \<le> c \<and> c \<le> 26) \<or> (10 \<le> c \<and> c \<le> 20)"

definition hasPrimitiveRecordConstructionSourceContract ::
  "language_contract \<Rightarrow> bool" where
  "hasPrimitiveRecordConstructionSourceContract c \<longleftrightarrow>
     isV310OrEarlierCapability c \<or> (27 \<le> c \<and> c \<le> 30) \<or> (21 \<le> c \<and> c \<le> 26) \<or> (11 \<le> c \<and> c \<le> 20)"

definition hasPrimitiveRecordEqualitySourceContract :: "language_contract \<Rightarrow> bool" where
  "hasPrimitiveRecordEqualitySourceContract c \<longleftrightarrow>
     isV310OrEarlierCapability c \<or> (27 \<le> c \<and> c \<le> 30) \<or> (21 \<le> c \<and> c \<le> 26) \<or> (12 \<le> c \<and> c \<le> 20)"

definition hasPrimitiveOptionalSourceContract :: "language_contract \<Rightarrow> bool" where
  "hasPrimitiveOptionalSourceContract c \<longleftrightarrow>
     isV310OrEarlierCapability c \<or> (27 \<le> c \<and> c \<le> 30) \<or> (21 \<le> c \<and> c \<le> 26) \<or> (13 \<le> c \<and> c \<le> 20)"

definition hasPrimitiveOptionalDefaultSourceContract :: "language_contract \<Rightarrow> bool" where
  "hasPrimitiveOptionalDefaultSourceContract c \<longleftrightarrow>
     isV310OrEarlierCapability c \<or> (27 \<le> c \<and> c \<le> 30) \<or> (21 \<le> c \<and> c \<le> 26) \<or> (14 \<le> c \<and> c \<le> 20)"

definition hasPrimitiveRecordOptionalSourceContract :: "language_contract \<Rightarrow> bool" where
  "hasPrimitiveRecordOptionalSourceContract c \<longleftrightarrow>
     isV310OrEarlierCapability c \<or> (27 \<le> c \<and> c \<le> 30) \<or> (21 \<le> c \<and> c \<le> 26) \<or> (18 \<le> c \<and> c \<le> 20)"

definition hasPrimitiveRecordListSourceContract :: "language_contract \<Rightarrow> bool" where
  "hasPrimitiveRecordListSourceContract c \<longleftrightarrow>
     isV310OrEarlierCapability c \<or> (27 \<le> c \<and> c \<le> 30) \<or> (21 \<le> c \<and> c \<le> 26) \<or> (15 \<le> c \<and> c \<le> 20)"

definition hasPrimitiveRecordListCountSourceContract :: "language_contract \<Rightarrow> bool" where
  "hasPrimitiveRecordListCountSourceContract c \<longleftrightarrow>
     isV310OrEarlierCapability c \<or> (27 \<le> c \<and> c \<le> 30) \<or> (21 \<le> c \<and> c \<le> 26) \<or> (16 \<le> c \<and> c \<le> 20)"

definition hasPrimitiveRecordListAppendSourceContract ::
  "language_contract \<Rightarrow> bool" where
  "hasPrimitiveRecordListAppendSourceContract c \<longleftrightarrow>
     isV310OrEarlierCapability c \<or> (27 \<le> c \<and> c \<le> 30) \<or> (21 \<le> c \<and> c \<le> 26) \<or> (17 \<le> c \<and> c \<le> 20)"

definition hasSnapshotResultSourceContract :: "language_contract \<Rightarrow> bool" where
  "hasSnapshotResultSourceContract c \<longleftrightarrow>
     isV310OrEarlierCapability c \<or> (27 \<le> c \<and> c \<le> 30) \<or> (21 \<le> c \<and> c \<le> 26) \<or> (19 \<le> c \<and> c \<le> 20)"

definition hasPrimitiveRecordListAtSourceContract :: "language_contract \<Rightarrow> bool" where
  "hasPrimitiveRecordListAtSourceContract c \<longleftrightarrow>
     isV310OrEarlierCapability c \<or> (20 \<le> c \<and> c \<le> 30)"

definition hasPrimitiveRecordListFindByTextSourceContract ::
  "language_contract \<Rightarrow> bool" where
  "hasPrimitiveRecordListFindByTextSourceContract c \<longleftrightarrow>
     isV310OrEarlierCapability c \<or> (21 \<le> c \<and> c \<le> 30)"

definition hasPrimitiveRecordListFilterByTextSourceContract ::
  "language_contract \<Rightarrow> bool" where
  "hasPrimitiveRecordListFilterByTextSourceContract c \<longleftrightarrow>
     isV310OrEarlierCapability c \<or> (22 \<le> c \<and> c \<le> 30)"

definition hasCaseFoldedTextContainmentSourceContract ::
  "language_contract \<Rightarrow> bool" where
  "hasCaseFoldedTextContainmentSourceContract c \<longleftrightarrow>
     isV310OrEarlierCapability c \<or> (23 \<le> c \<and> c \<le> 30)"

definition hasPrimitiveRecordListFilterContainsCaseFoldedSourceContract ::
  "language_contract \<Rightarrow> bool" where
  "hasPrimitiveRecordListFilterContainsCaseFoldedSourceContract c \<longleftrightarrow>
     isV310OrEarlierCapability c \<or> (24 \<le> c \<and> c \<le> 30)"

definition hasTextResultSourceContract :: "language_contract \<Rightarrow> bool" where
  "hasTextResultSourceContract c \<longleftrightarrow>
     isV310OrEarlierCapability c \<or> (25 \<le> c \<and> c \<le> 30)"

definition hasTextTrimSourceContract :: "language_contract \<Rightarrow> bool" where
  "hasTextTrimSourceContract c \<longleftrightarrow>
     isV310OrEarlierCapability c \<or> (26 \<le> c \<and> c \<le> 30)"

definition hasPrimitiveRecordListFilterJoinedContainsCaseFoldedSourceContract ::
  "language_contract \<Rightarrow> bool" where
  "hasPrimitiveRecordListFilterJoinedContainsCaseFoldedSourceContract c \<longleftrightarrow>
     isV310OrEarlierCapability c \<or> (27 \<le> c \<and> c \<le> 30)"

definition hasPrimitiveRecordListSortByOrdinalSourceContract ::
  "language_contract \<Rightarrow> bool" where
  "hasPrimitiveRecordListSortByOrdinalSourceContract c \<longleftrightarrow>
     isV310OrEarlierCapability c \<or> (28 \<le> c \<and> c \<le> 30)"

definition hasPrimitiveRecordListSortByOrdinalsSourceContract ::
  "language_contract \<Rightarrow> bool" where
  "hasPrimitiveRecordListSortByOrdinalsSourceContract c \<longleftrightarrow>
     isV310OrEarlierCapability c \<or> c = 30"

definition hasNamedRecordPredicateSourceContract :: "language_contract \<Rightarrow> bool" where
  "hasNamedRecordPredicateSourceContract c \<longleftrightarrow> isV310OrEarlierCapability c"

section \<open>Capabilities are cumulative\<close>

text \<open>Each capability belongs to the contracts from one on; the groups of the code leave no gap.\<close>

lemma capability_ranges:
  "isV740OrLaterSourceContract c \<longleftrightarrow> 74 \<le> c \<and> c \<le> 115"
  "hasTerminalIfSourceContract c \<longleftrightarrow> 69 \<le> c \<and> c \<le> 115"
  "hasBranchLocalSourceContract c \<longleftrightarrow> 70 \<le> c \<and> c \<le> 115"
  "hasGeneralBranchLocalSequenceSourceContract c \<longleftrightarrow> 72 \<le> c \<and> c \<le> 115"
  "isV310OrEarlierCapability c \<longleftrightarrow> 31 \<le> c \<and> c \<le> 115"
  "hasMatchSourceContract c \<longleftrightarrow> 35 \<le> c \<and> c \<le> 115"
  "hasPropagationSourceContract c \<longleftrightarrow> 34 \<le> c \<and> c \<le> 115"
  "hasPureCallSourceContract c \<longleftrightarrow> 36 \<le> c \<and> c \<le> 115"
  "hasConditionalSourceContract c \<longleftrightarrow> 38 \<le> c \<and> c \<le> 115"
  "hasImmutableLocalSourceContract c \<longleftrightarrow> 39 \<le> c \<and> c \<le> 115"
  "hasImmutableLocalSequenceSourceContract c \<longleftrightarrow> 40 \<le> c \<and> c \<le> 115"
  "hasBlockPropagationSourceContract c \<longleftrightarrow> 41 \<le> c \<and> c \<le> 115"
  "hasPriorLocalPropagationSourceContract c \<longleftrightarrow> 42 \<le> c \<and> c \<le> 115"
  "hasHelperResultMatchSourceContract c \<longleftrightarrow> 43 \<le> c \<and> c \<le> 115"
  "hasGeneralHelperCarrierMatchSourceContract c \<longleftrightarrow> 44 \<le> c \<and> c \<le> 115"
  "hasArithmeticResultSourceContract c \<longleftrightarrow> 2 \<le> c \<and> c \<le> 115"
  "hasResultTransportSourceContract c \<longleftrightarrow> 7 \<le> c \<and> c \<le> 115"
  "hasOrdinalTextOrderingSourceContract c \<longleftrightarrow> 8 \<le> c \<and> c \<le> 115"
  "hasPrimitiveRecordSourceContract c \<longleftrightarrow> 9 \<le> c \<and> c \<le> 115"
  "hasRecordFieldProjectionSourceContract c \<longleftrightarrow> 10 \<le> c \<and> c \<le> 115"
  "hasPrimitiveRecordConstructionSourceContract c \<longleftrightarrow> 11 \<le> c \<and> c \<le> 115"
  "hasPrimitiveRecordEqualitySourceContract c \<longleftrightarrow> 12 \<le> c \<and> c \<le> 115"
  "hasPrimitiveOptionalSourceContract c \<longleftrightarrow> 13 \<le> c \<and> c \<le> 115"
  "hasPrimitiveOptionalDefaultSourceContract c \<longleftrightarrow> 14 \<le> c \<and> c \<le> 115"
  "hasPrimitiveRecordOptionalSourceContract c \<longleftrightarrow> 18 \<le> c \<and> c \<le> 115"
  "hasPrimitiveRecordListSourceContract c \<longleftrightarrow> 15 \<le> c \<and> c \<le> 115"
  "hasPrimitiveRecordListCountSourceContract c \<longleftrightarrow> 16 \<le> c \<and> c \<le> 115"
  "hasPrimitiveRecordListAppendSourceContract c \<longleftrightarrow> 17 \<le> c \<and> c \<le> 115"
  "hasSnapshotResultSourceContract c \<longleftrightarrow> 19 \<le> c \<and> c \<le> 115"
  "hasPrimitiveRecordListAtSourceContract c \<longleftrightarrow> 20 \<le> c \<and> c \<le> 115"
  "hasPrimitiveRecordListFindByTextSourceContract c \<longleftrightarrow>
     21 \<le> c \<and> c \<le> 115"
  "hasPrimitiveRecordListFilterByTextSourceContract c \<longleftrightarrow>
     22 \<le> c \<and> c \<le> 115"
  "hasCaseFoldedTextContainmentSourceContract c \<longleftrightarrow> 23 \<le> c \<and> c \<le> 115"
  "hasPrimitiveRecordListFilterContainsCaseFoldedSourceContract c \<longleftrightarrow>
     24 \<le> c \<and> c \<le> 115"
  "hasTextResultSourceContract c \<longleftrightarrow> 25 \<le> c \<and> c \<le> 115"
  "hasTextTrimSourceContract c \<longleftrightarrow> 26 \<le> c \<and> c \<le> 115"
  "hasPrimitiveRecordListFilterJoinedContainsCaseFoldedSourceContract c \<longleftrightarrow>
     27 \<le> c \<and> c \<le> 115"
  "hasPrimitiveRecordListSortByOrdinalSourceContract c \<longleftrightarrow>
     28 \<le> c \<and> c \<le> 115"
  "hasPrimitiveRecordListSortByOrdinalsSourceContract c \<longleftrightarrow>
     30 \<le> c \<and> c \<le> 115"
  "hasNamedRecordPredicateSourceContract c \<longleftrightarrow> 31 \<le> c \<and> c \<le> 115"
  by (auto simp: isV740OrLaterSourceContract_def hasTerminalIfSourceContract_def
      hasBranchLocalSourceContract_def hasGeneralBranchLocalSequenceSourceContract_def
      isV310OrEarlierCapability_def hasMatchSourceContract_def
      hasPropagationSourceContract_def hasPureCallSourceContract_def
      hasConditionalSourceContract_def hasImmutableLocalSourceContract_def
      hasImmutableLocalSequenceSourceContract_def hasBlockPropagationSourceContract_def
      hasPriorLocalPropagationSourceContract_def hasHelperResultMatchSourceContract_def
      hasGeneralHelperCarrierMatchSourceContract_def hasArithmeticResultSourceContract_def
      hasResultTransportSourceContract_def hasOrdinalTextOrderingSourceContract_def
      hasPrimitiveRecordSourceContract_def hasRecordFieldProjectionSourceContract_def
      hasPrimitiveRecordConstructionSourceContract_def
      hasPrimitiveRecordEqualitySourceContract_def hasPrimitiveOptionalSourceContract_def
      hasPrimitiveOptionalDefaultSourceContract_def
      hasPrimitiveRecordOptionalSourceContract_def hasPrimitiveRecordListSourceContract_def
      hasPrimitiveRecordListCountSourceContract_def
      hasPrimitiveRecordListAppendSourceContract_def hasSnapshotResultSourceContract_def
      hasPrimitiveRecordListAtSourceContract_def
      hasPrimitiveRecordListFindByTextSourceContract_def
      hasPrimitiveRecordListFilterByTextSourceContract_def
      hasCaseFoldedTextContainmentSourceContract_def
      hasPrimitiveRecordListFilterContainsCaseFoldedSourceContract_def
      hasTextResultSourceContract_def hasTextTrimSourceContract_def
      hasPrimitiveRecordListFilterJoinedContainsCaseFoldedSourceContract_def
      hasPrimitiveRecordListSortByOrdinalSourceContract_def
      hasPrimitiveRecordListSortByOrdinalsSourceContract_def
      hasNamedRecordPredicateSourceContract_def)

end
