(* ===== verification/SyntaxTree.thy ===== *)
theory SyntaxTree
  imports Lexer SourceContracts Numeric
begin

text \<open>
  The expressions of the PipeLang syntax tree (pipelang/ast.go, pipelang/type_ref.go,
  pipelang/blocks.go) and the walks over them. A node type of the code is a constructor; its last
  argument is its span. The small structs inside nodes are datatypes over the type of the
  expressions they hold.
\<close>

section \<open>Type references\<close>

datatype source_primitive = TypeString | TypeInt | TypeBool | TypeFloat

definition primitiveName :: "source_primitive \<Rightarrow> string" where
  "primitiveName t =
     (case t of TypeString \<Rightarrow> ''string'' | TypeInt \<Rightarrow> ''int'' | TypeBool \<Rightarrow> ''bool''
        | TypeFloat \<Rightarrow> ''float'')"

definition primitiveType :: "string \<Rightarrow> source_primitive option" where
  "primitiveType name =
     (if name = ''string'' then Some TypeString
      else if name = ''int'' then Some TypeInt
      else if name = ''bool'' then Some TypeBool
      else if name = ''float'' then Some TypeFloat
      else None)"

datatype type_ref_kind = TypeRefPrimitive | TypeRefNamed | TypeRefApplied

datatype type_ref =
  TypeRef (trKind: type_ref_kind) (trName: string) (trQualifier: string)
    (trArguments: "type_ref list") (trSpan: source_span)

definition unresolvedPrimitive :: "source_primitive \<Rightarrow> source_span \<Rightarrow> type_ref" where
  "unresolvedPrimitive t sp = TypeRef TypeRefPrimitive (primitiveName t) [] [] sp"

definition namedRef :: "string \<Rightarrow> source_span \<Rightarrow> type_ref" where
  "namedRef name sp = TypeRef TypeRefNamed name [] [] sp"

fun typeRefString :: "type_ref \<Rightarrow> string" where
  "typeRefString (TypeRef k n q args sp) =
     (if k = TypeRefApplied
      then n @ ''<'' @ stringsJoin (map typeRefString args) '','' @ ''>''
      else n)"

definition listElementType :: "type_ref \<Rightarrow> type_ref option" where
  "listElementType r =
     (if trKind r \<noteq> TypeRefApplied \<or> trName r \<noteq> ''List'' \<or> length (trArguments r) \<noteq> 1
      then None else Some (hd (trArguments r)))"

definition isTypeIdentifier :: "string \<Rightarrow> bool" where
  "isTypeIdentifier name \<longleftrightarrow>
     name \<noteq> [] \<and> isIdentStart (hd name) \<and> list_all isIdentPart (tl name)"

section \<open>Values\<close>

text \<open>A literal: an \<open>int64\<close> and a \<open>float64\<close> are 64-bit words.\<close>

record source_value =
  svType :: source_primitive
  svString :: string
  svInt :: int64
  svFloat :: float64
  svBool :: bool

definition zeroValue :: "source_primitive \<Rightarrow> source_value" where
  "zeroValue t = \<lparr>svType = t, svString = [], svInt = 0, svFloat = 0, svBool = False\<rparr>"

text \<open>\<open>strconv.ParseInt(s, 10, 64)\<close> of digits.\<close>

definition decimalValue :: "string \<Rightarrow> int" where
  "decimalValue s = foldl (\<lambda>n c. 10 * n + int (byte c - 48)) 0 s"

definition parseInt64 :: "string \<Rightarrow> int64 option" where
  "parseInt64 s =
     (if s \<noteq> [] \<and> list_all isDigit s \<and> decimalValue s \<le> sint maxInt64
      then Some (word_of_int (decimalValue s)) else None)"

text \<open>
  \<open>strconv.ParseFloat(s, 64)\<close> of digits, a point and digits: the decimal number rounded once to
  the nearest binary64 value, to even when there are two, and an error when it overflows. The
  quotient has more bits than the result keeps, whatever the number.
\<close>

definition parseFloat64 :: "string \<Rightarrow> float64 option" where
  "parseFloat64 s =
     (let whole = takeWhile isDigit s; frac = tl (dropWhile isDigit s);
          n = decimalValue (whole @ frac); d = 10 ^ length frac;
          p = 1200 + nat (bitLen d);
          r = f64Round False (n * 2 ^ p div d) (n * 2 ^ p mod d \<noteq> 0) (- int p)
      in if n = 0 then Some 0 else if f64IsInf r then None else Some r)"

section \<open>Expressions\<close>

datatype 'e source_field_value =
  SourceFieldValue (sfvName: string) (sfvNameSpan: source_span) (sfvValue: 'e)
    (sfvSpan: source_span)

datatype 'e source_match_arm =
  SourceMatchArm (smTag: string) (smBinding: string) (smPatternSpan: source_span) (smBody: 'e)
    (smSpan: source_span)

record list_text_field_selector =
  ltsRecordType :: type_ref
  ltsField :: string
  ltsFieldSpan :: source_span

record list_directional_text_field_selector =
  ldsSelector :: list_text_field_selector
  ldsDirection :: string
  ldsDirectionSpan :: source_span

datatype 'e source_statement =
  SourceStatement (stmKind: string) (stmMutable: bool) (stmType: "type_ref option") (stmName: string)
    (stmNameSpan: source_span) (stmValue: "'e option") (stmThen: "'e option") (stmElse: "'e option")
    (stmSpan: source_span)

datatype source_expr =
    LiteralExpr source_value source_span
  | IdentExpr string source_span
  | UnaryExpr string source_expr source_span
  | BinaryExpr string source_expr source_expr source_span
  | ConditionalExpr source_expr source_expr source_expr bool source_span
  | ImmutableLocalExpr type_ref string source_span source_expr source_expr source_span
  | CallExpr string source_span "source_expr list" source_span source_span
  | TextContainsCaseFoldedExpr source_expr source_expr source_span
  | TextTrimExpr source_expr source_span
  | FieldExpr source_expr string source_span source_span
  | RecordConstructExpr type_ref "source_expr source_field_value list" source_span
  | OptionalSomeExpr source_expr source_span
  | OptionalNoneExpr type_ref source_span
  | OptionalHasValueExpr source_expr source_span
  | OptionalValueOrExpr source_expr source_expr source_span
  | PropagateExpr source_expr source_span
  | MatchExpr source_expr "source_expr source_match_arm list" source_span
  | ListEmptyExpr type_ref source_span
  | ListSingletonExpr source_expr source_span
  | ListCountExpr source_expr source_span
  | ListAppendExpr source_expr source_expr source_span
  | ListAtExpr source_expr source_expr bool source_span
  | ListFindByTextExpr source_expr type_ref string source_span source_expr source_span
  | ListFilterByTextExpr source_expr type_ref string source_span source_expr source_span
  | ListFilterPredicateExpr source_expr string source_span "source_expr list" source_span
  | ListFilterContainsCaseFoldedExpr source_expr type_ref string source_span source_expr source_span
  | ListFilterJoinedContainsCaseFoldedExpr source_expr "list_text_field_selector list" source_expr source_span
  | ListSortByOrdinalExpr source_expr type_ref string source_span source_span
  | ListSortByOrdinalsExpr source_expr "list_text_field_selector list" source_span
  | ListSortByOrdinalDirectionsExpr source_expr "list_directional_text_field_selector list" source_span
  | ResultOKExpr type_ref type_ref source_expr source_span
  | ResultErrExpr type_ref type_ref source_expr source_span
  | ResultIsOKExpr source_expr source_span
  | ResultSuccessOrExpr source_expr source_expr source_span
  | ResultFailureOrExpr source_expr source_expr source_span
  | BlockExpr "source_expr source_statement list" source_span

text \<open>\<open>SourceSpan()\<close> of each node type, and the type switches of the walks.\<close>

fun SourceSpan :: "source_expr \<Rightarrow> source_span" where
  "SourceSpan (LiteralExpr v1 sp) = sp"
| "SourceSpan (IdentExpr n1 sp) = sp"
| "SourceSpan (UnaryExpr n1 e1 sp) = sp"
| "SourceSpan (BinaryExpr n1 e1 e2 sp) = sp"
| "SourceSpan (ConditionalExpr e1 e2 e3 b1 sp) = sp"
| "SourceSpan (ImmutableLocalExpr t1 n1 s1 e1 e2 sp) = sp"
| "SourceSpan (CallExpr n1 s1 xs1 s2 sp) = sp"
| "SourceSpan (TextContainsCaseFoldedExpr e1 e2 sp) = sp"
| "SourceSpan (TextTrimExpr e1 sp) = sp"
| "SourceSpan (FieldExpr e1 n1 s1 sp) = sp"
| "SourceSpan (RecordConstructExpr t1 xs1 sp) = sp"
| "SourceSpan (OptionalSomeExpr e1 sp) = sp"
| "SourceSpan (OptionalNoneExpr t1 sp) = sp"
| "SourceSpan (OptionalHasValueExpr e1 sp) = sp"
| "SourceSpan (OptionalValueOrExpr e1 e2 sp) = sp"
| "SourceSpan (PropagateExpr e1 sp) = sp"
| "SourceSpan (MatchExpr e1 xs1 sp) = sp"
| "SourceSpan (ListEmptyExpr t1 sp) = sp"
| "SourceSpan (ListSingletonExpr e1 sp) = sp"
| "SourceSpan (ListCountExpr e1 sp) = sp"
| "SourceSpan (ListAppendExpr e1 e2 sp) = sp"
| "SourceSpan (ListAtExpr e1 e2 b1 sp) = sp"
| "SourceSpan (ListFindByTextExpr e1 t1 n1 s1 e2 sp) = sp"
| "SourceSpan (ListFilterByTextExpr e1 t1 n1 s1 e2 sp) = sp"
| "SourceSpan (ListFilterPredicateExpr e1 n1 s1 xs1 sp) = sp"
| "SourceSpan (ListFilterContainsCaseFoldedExpr e1 t1 n1 s1 e2 sp) = sp"
| "SourceSpan (ListFilterJoinedContainsCaseFoldedExpr e1 xs1 e2 sp) = sp"
| "SourceSpan (ListSortByOrdinalExpr e1 t1 n1 s1 sp) = sp"
| "SourceSpan (ListSortByOrdinalsExpr e1 xs1 sp) = sp"
| "SourceSpan (ListSortByOrdinalDirectionsExpr e1 xs1 sp) = sp"
| "SourceSpan (ResultOKExpr t1 t2 e1 sp) = sp"
| "SourceSpan (ResultErrExpr t1 t2 e1 sp) = sp"
| "SourceSpan (ResultIsOKExpr e1 sp) = sp"
| "SourceSpan (ResultSuccessOrExpr e1 e2 sp) = sp"
| "SourceSpan (ResultFailureOrExpr e1 e2 sp) = sp"
| "SourceSpan (BlockExpr xs1 sp) = sp"

text \<open>A general block is no case of the switch of \<open>setExprSpan\<close>.\<close>

fun setExprSpan :: "source_expr \<Rightarrow> source_span \<Rightarrow> source_expr" where
  "setExprSpan (LiteralExpr v1 _) sp = LiteralExpr v1 sp"
| "setExprSpan (IdentExpr n1 _) sp = IdentExpr n1 sp"
| "setExprSpan (UnaryExpr n1 e1 _) sp = UnaryExpr n1 e1 sp"
| "setExprSpan (BinaryExpr n1 e1 e2 _) sp = BinaryExpr n1 e1 e2 sp"
| "setExprSpan (ConditionalExpr e1 e2 e3 b1 _) sp = ConditionalExpr e1 e2 e3 b1 sp"
| "setExprSpan (ImmutableLocalExpr t1 n1 s1 e1 e2 _) sp = ImmutableLocalExpr t1 n1 s1 e1 e2 sp"
| "setExprSpan (CallExpr n1 s1 xs1 s2 _) sp = CallExpr n1 s1 xs1 s2 sp"
| "setExprSpan (TextContainsCaseFoldedExpr e1 e2 _) sp = TextContainsCaseFoldedExpr e1 e2 sp"
| "setExprSpan (TextTrimExpr e1 _) sp = TextTrimExpr e1 sp"
| "setExprSpan (FieldExpr e1 n1 s1 _) sp = FieldExpr e1 n1 s1 sp"
| "setExprSpan (RecordConstructExpr t1 xs1 _) sp = RecordConstructExpr t1 xs1 sp"
| "setExprSpan (OptionalSomeExpr e1 _) sp = OptionalSomeExpr e1 sp"
| "setExprSpan (OptionalNoneExpr t1 _) sp = OptionalNoneExpr t1 sp"
| "setExprSpan (OptionalHasValueExpr e1 _) sp = OptionalHasValueExpr e1 sp"
| "setExprSpan (OptionalValueOrExpr e1 e2 _) sp = OptionalValueOrExpr e1 e2 sp"
| "setExprSpan (PropagateExpr e1 _) sp = PropagateExpr e1 sp"
| "setExprSpan (MatchExpr e1 xs1 _) sp = MatchExpr e1 xs1 sp"
| "setExprSpan (ListEmptyExpr t1 _) sp = ListEmptyExpr t1 sp"
| "setExprSpan (ListSingletonExpr e1 _) sp = ListSingletonExpr e1 sp"
| "setExprSpan (ListCountExpr e1 _) sp = ListCountExpr e1 sp"
| "setExprSpan (ListAppendExpr e1 e2 _) sp = ListAppendExpr e1 e2 sp"
| "setExprSpan (ListAtExpr e1 e2 b1 _) sp = ListAtExpr e1 e2 b1 sp"
| "setExprSpan (ListFindByTextExpr e1 t1 n1 s1 e2 _) sp = ListFindByTextExpr e1 t1 n1 s1 e2 sp"
| "setExprSpan (ListFilterByTextExpr e1 t1 n1 s1 e2 _) sp = ListFilterByTextExpr e1 t1 n1 s1 e2 sp"
| "setExprSpan (ListFilterPredicateExpr e1 n1 s1 xs1 _) sp = ListFilterPredicateExpr e1 n1 s1 xs1 sp"
| "setExprSpan (ListFilterContainsCaseFoldedExpr e1 t1 n1 s1 e2 _) sp = ListFilterContainsCaseFoldedExpr e1 t1 n1 s1 e2 sp"
| "setExprSpan (ListFilterJoinedContainsCaseFoldedExpr e1 xs1 e2 _) sp = ListFilterJoinedContainsCaseFoldedExpr e1 xs1 e2 sp"
| "setExprSpan (ListSortByOrdinalExpr e1 t1 n1 s1 _) sp = ListSortByOrdinalExpr e1 t1 n1 s1 sp"
| "setExprSpan (ListSortByOrdinalsExpr e1 xs1 _) sp = ListSortByOrdinalsExpr e1 xs1 sp"
| "setExprSpan (ListSortByOrdinalDirectionsExpr e1 xs1 _) sp = ListSortByOrdinalDirectionsExpr e1 xs1 sp"
| "setExprSpan (ResultOKExpr t1 t2 e1 _) sp = ResultOKExpr t1 t2 e1 sp"
| "setExprSpan (ResultErrExpr t1 t2 e1 _) sp = ResultErrExpr t1 t2 e1 sp"
| "setExprSpan (ResultIsOKExpr e1 _) sp = ResultIsOKExpr e1 sp"
| "setExprSpan (ResultSuccessOrExpr e1 e2 _) sp = ResultSuccessOrExpr e1 e2 sp"
| "setExprSpan (ResultFailureOrExpr e1 e2 _) sp = ResultFailureOrExpr e1 e2 sp"
| "setExprSpan (BlockExpr xs1 s) sp = BlockExpr xs1 s"

definition statementChildren :: "source_expr source_statement \<Rightarrow> source_expr list" where
  "statementChildren s =
     concat (map (case_option [] (\<lambda>e. [e])) [stmValue s, stmThen s, stmElse s])"

definition blockExpressionChildren :: "source_expr source_statement list \<Rightarrow> source_expr list" where
  "blockExpressionChildren ss = concat (map statementChildren ss)"

fun expressionChildren :: "source_expr \<Rightarrow> source_expr list" where
  "expressionChildren (UnaryExpr _ e1 _) = [e1]"
| "expressionChildren (BinaryExpr _ e1 e2 _) = [e1, e2]"
| "expressionChildren (ConditionalExpr e1 e2 e3 _ _) = [e1, e2, e3]"
| "expressionChildren (ImmutableLocalExpr _ _ _ e1 e2 _) = [e1, e2]"
| "expressionChildren (CallExpr _ _ xs1 _ _) = xs1"
| "expressionChildren (TextContainsCaseFoldedExpr e1 e2 _) = [e1, e2]"
| "expressionChildren (TextTrimExpr e1 _) = [e1]"
| "expressionChildren (FieldExpr e1 _ _ _) = [e1]"
| "expressionChildren (RecordConstructExpr _ xs1 _) = map sfvValue xs1"
| "expressionChildren (OptionalSomeExpr e1 _) = [e1]"
| "expressionChildren (OptionalHasValueExpr e1 _) = [e1]"
| "expressionChildren (OptionalValueOrExpr e1 e2 _) = [e1, e2]"
| "expressionChildren (PropagateExpr e1 _) = [e1]"
| "expressionChildren (MatchExpr e1 xs1 _) = e1 # map smBody xs1"
| "expressionChildren (ListSingletonExpr e1 _) = [e1]"
| "expressionChildren (ListCountExpr e1 _) = [e1]"
| "expressionChildren (ListAppendExpr e1 e2 _) = [e1, e2]"
| "expressionChildren (ListAtExpr e1 e2 _ _) = [e1, e2]"
| "expressionChildren (ListFindByTextExpr e1 _ _ _ e2 _) = [e1, e2]"
| "expressionChildren (ListFilterByTextExpr e1 _ _ _ e2 _) = [e1, e2]"
| "expressionChildren (ListFilterPredicateExpr e1 _ _ xs1 _) = e1 # xs1"
| "expressionChildren (ListFilterContainsCaseFoldedExpr e1 _ _ _ e2 _) = [e1, e2]"
| "expressionChildren (ListFilterJoinedContainsCaseFoldedExpr e1 _ e2 _) = [e1, e2]"
| "expressionChildren (ListSortByOrdinalExpr e1 _ _ _ _) = [e1]"
| "expressionChildren (ListSortByOrdinalsExpr e1 _ _) = [e1]"
| "expressionChildren (ListSortByOrdinalDirectionsExpr e1 _ _) = [e1]"
| "expressionChildren (ResultOKExpr _ _ e1 _) = [e1]"
| "expressionChildren (ResultErrExpr _ _ e1 _) = [e1]"
| "expressionChildren (ResultIsOKExpr e1 _) = [e1]"
| "expressionChildren (ResultSuccessOrExpr e1 e2 _) = [e1, e2]"
| "expressionChildren (ResultFailureOrExpr e1 e2 _) = [e1, e2]"
| "expressionChildren (BlockExpr xs1 _) = blockExpressionChildren xs1"
| "expressionChildren _ = []"

definition isBlockExpr :: "source_expr \<Rightarrow> bool" where
  "isBlockExpr e \<longleftrightarrow> (case e of BlockExpr _ _ \<Rightarrow> True | _ \<Rightarrow> False)"

lemma SourceSpan_setExprSpan [simp]: "\<not> isBlockExpr e \<Longrightarrow> SourceSpan (setExprSpan e sp) = sp"
  by (cases e) (simp_all add: isBlockExpr_def)

lemma isBlockExpr_setExprSpan [simp]: "isBlockExpr (setExprSpan e sp) = isBlockExpr e"
  by (cases e) (simp_all add: isBlockExpr_def)

lemma expressionChildren_setExprSpan [simp]:
  "expressionChildren (setExprSpan e sp) = expressionChildren e"
  by (cases e) simp_all

lemma size_field_value: "size (sfvValue f) < size_source_field_value size f"
  by (cases f) simp

lemma size_arm_body: "size (smBody a) < size_source_match_arm size a"
  by (cases a) simp

lemma size_statement: "x \<in> set (statementChildren s) \<Longrightarrow> size x < size_source_statement size s"
  by (cases s) (auto simp: statementChildren_def split: option.splits)

lemma expressionChildren_size: "x \<in> set (expressionChildren e) \<Longrightarrow> size x < size e"
proof (cases e)
  case (RecordConstructExpr t fs s)
  assume "x \<in> set (expressionChildren e)"
  with RecordConstructExpr obtain f where "f \<in> set fs" "x = sfvValue f" by auto
  with size_field_value [of f] size_in_list [of f fs "size_source_field_value size"] RecordConstructExpr
  show ?thesis by simp
next
  case (MatchExpr v as s)
  assume "x \<in> set (expressionChildren e)"
  with MatchExpr consider "x = v" | a where "a \<in> set as" "x = smBody a" by auto
  then show ?thesis
  proof cases
    case 2
    with size_arm_body [of a] size_in_list [of a as "size_source_match_arm size"] MatchExpr
    show ?thesis by simp
  qed (use MatchExpr in simp)
next
  case (BlockExpr ss s)
  assume "x \<in> set (expressionChildren e)"
  with BlockExpr obtain t where t: "t \<in> set ss" "x \<in> set (statementChildren t)"
    by (auto simp: blockExpressionChildren_def)
  from size_statement [OF t(2)] size_in_list [OF t(1), of "size_source_statement size"] BlockExpr
  show ?thesis by simp
next
  case (CallExpr n s1 xs s2 s3)
  assume "x \<in> set (expressionChildren e)"
  with CallExpr size_in_list [of x xs size] show ?thesis by simp
next
  case (ListFilterPredicateExpr v n s1 xs s2)
  assume "x \<in> set (expressionChildren e)"
  with ListFilterPredicateExpr size_in_list [of x xs size] show ?thesis by auto
qed auto

section \<open>Walks\<close>

definition isConditionalExpr :: "source_expr \<Rightarrow> bool" where
  "isConditionalExpr e \<longleftrightarrow> (case e of ConditionalExpr _ _ _ _ _ \<Rightarrow> True | _ \<Rightarrow> False)"

definition isTerminalIf :: "source_expr \<Rightarrow> bool" where
  "isTerminalIf e \<longleftrightarrow> (case e of ConditionalExpr _ _ _ terminal _ \<Rightarrow> terminal | _ \<Rightarrow> False)"

definition isPropagateExpr :: "source_expr \<Rightarrow> bool" where
  "isPropagateExpr e \<longleftrightarrow> (case e of PropagateExpr _ _ \<Rightarrow> True | _ \<Rightarrow> False)"

definition isMatchExpr :: "source_expr \<Rightarrow> bool" where
  "isMatchExpr e \<longleftrightarrow> (case e of MatchExpr _ _ _ \<Rightarrow> True | _ \<Rightarrow> False)"

definition isCallExpr :: "source_expr \<Rightarrow> bool" where
  "isCallExpr e \<longleftrightarrow> (case e of CallExpr _ _ _ _ _ \<Rightarrow> True | _ \<Rightarrow> False)"

definition isImmutableLocalExpr :: "source_expr \<Rightarrow> bool" where
  "isImmutableLocalExpr e \<longleftrightarrow> (case e of ImmutableLocalExpr _ _ _ _ _ _ \<Rightarrow> True | _ \<Rightarrow> False)"

text \<open>The number of nodes of a kind, and whether there is one: the walks of ast.go.\<close>

function countNodes :: "(source_expr \<Rightarrow> bool) \<Rightarrow> source_expr \<Rightarrow> nat" where
  "countNodes p e = (if p e then 1 else 0) + sum_list (map (countNodes p) (expressionChildren e))"
  by pat_completeness auto
termination
  by (relation "measure (\<lambda>(p, e). size e)") (use expressionChildren_size in auto)

function containsNode :: "(source_expr \<Rightarrow> bool) \<Rightarrow> source_expr \<Rightarrow> bool" where
  "containsNode p e \<longleftrightarrow> p e \<or> list_ex (containsNode p) (expressionChildren e)"
  by pat_completeness auto
termination
  by (relation "measure (\<lambda>(p, e). size e)") (use expressionChildren_size in auto)

declare countNodes.simps [simp del] containsNode.simps [simp del]

definition containsCallExpression :: "source_expr \<Rightarrow> bool" where
  "containsCallExpression e = containsNode isCallExpr e"

definition containsConditionalExpression :: "source_expr \<Rightarrow> bool" where
  "containsConditionalExpression e = containsNode isConditionalExpr e"

definition containsTerminalIfStatement :: "source_expr \<Rightarrow> bool" where
  "containsTerminalIfStatement e = containsNode isTerminalIf e"

definition countConditionalExpressions :: "source_expr \<Rightarrow> nat" where
  "countConditionalExpressions e = countNodes isConditionalExpr e"

definition countPropagationExpressions :: "source_expr \<Rightarrow> nat" where
  "countPropagationExpressions e = countNodes isPropagateExpr e"

definition countTerminalIfStatements :: "source_expr \<Rightarrow> nat" where
  "countTerminalIfStatements e = countNodes isTerminalIf e"

definition countImmutableLocalExpressions :: "source_expr \<Rightarrow> nat" where
  "countImmutableLocalExpressions e = countNodes isImmutableLocalExpr e"

definition countMatchExpressions :: "source_expr \<Rightarrow> nat" where
  "countMatchExpressions e = countNodes isMatchExpr e"

text \<open>An operand of a conditional has no conditional, propagation or match in it.\<close>

function validConditionalOperand :: "source_expr \<Rightarrow> bool" where
  "validConditionalOperand e \<longleftrightarrow>
     (if isConditionalExpr e \<or> isPropagateExpr e \<or> isMatchExpr e then False
      else list_all validConditionalOperand (expressionChildren e))"
  by pat_completeness auto
termination
  by (relation "measure size") (use expressionChildren_size in auto)

definition validOperands :: "source_expr \<Rightarrow> bool" where
  "validOperands e \<longleftrightarrow>
     (case e of
        ConditionalExpr c a b _ _ \<Rightarrow>
          validConditionalOperand c \<and> validConditionalOperand a \<and> validConditionalOperand b
      | _ \<Rightarrow> True)"

function validConditionalExpressions :: "source_expr \<Rightarrow> bool" where
  "validConditionalExpressions e \<longleftrightarrow>
     validOperands e \<and> list_all validConditionalExpressions (expressionChildren e)"
  by pat_completeness auto
termination
  by (relation "measure size") (use expressionChildren_size in auto)

text \<open>
  The one conditional of an expression with three operands. The walk goes on with the value the
  last conditional met has left.
\<close>

function walkConditionals :: "source_expr \<Rightarrow> bool \<Rightarrow> bool" where
  "walkConditionals e valid =
     (if isConditionalExpr e then validOperands e
      else fold walkConditionals (expressionChildren e) valid)"
  by pat_completeness auto
termination
  by (relation "measure (\<lambda>(e, v). size e)") (use expressionChildren_size in auto)

declare validConditionalOperand.simps [simp del] validConditionalExpressions.simps [simp del]
  walkConditionals.simps [simp del]

definition validBoundedConditionalExpression :: "source_expr \<Rightarrow> bool" where
  "validBoundedConditionalExpression e \<longleftrightarrow>
     countConditionalExpressions e = 1 \<and> walkConditionals e False"

lemma containsNode_count: "containsNode p e \<longleftrightarrow> 0 < countNodes p e"
proof (induction p e rule: countNodes.induct)
  case (1 p e)
  have "list_ex (containsNode p) (expressionChildren e)
      \<longleftrightarrow> 0 < sum_list (map (countNodes p) (expressionChildren e))"
    using 1 by (auto simp: list_ex_iff sum_list_nonneg_eq_0_iff neq0_conv [symmetric]
        simp del: neq0_conv)
  then show ?case
    by (subst containsNode.simps, subst countNodes.simps) simp
qed

end
