(* ===== verification/ExprParser.thy ===== *)
theory ExprParser
  imports SyntaxTree
begin

text \<open>
  The expression parser of PipeLang (pipelang/parser.go from \<open>parseTypeRef\<close> on). A parser is a
  function from the index of the next token to a node and the index after it, a diagnostic, a
  panic or, when its fuel does not last, a timeout. The forms of expressions take the parser of
  their sub-expressions as an argument; \<open>parseExpr\<close> ties the knot by fuel.
\<close>

section \<open>Parsers\<close>

datatype 'a parsed = Parsed 'a nat | Rejected diagnostic | ParsePanic | ParseTimeout

type_synonym 'a parser = "nat \<Rightarrow> 'a parsed"

definition returnP :: "'a \<Rightarrow> 'a parser" where
  "returnP a = (\<lambda>i. Parsed a i)"

definition bindP :: "'a parser \<Rightarrow> ('a \<Rightarrow> 'b parser) \<Rightarrow> 'b parser" where
  "bindP p f =
     (\<lambda>i. case p i of
            Parsed a j \<Rightarrow> f a j
          | Rejected d \<Rightarrow> Rejected d
          | ParsePanic \<Rightarrow> ParsePanic
          | ParseTimeout \<Rightarrow> ParseTimeout)"

definition andP :: "'a parser \<Rightarrow> 'b parser \<Rightarrow> 'b parser" where
  "andP p q = bindP p (\<lambda>_. q)"

definition timeoutP :: "'a parser" where "timeoutP = (\<lambda>i. ParseTimeout)"

definition panicP :: "'a parser" where "panicP = (\<lambda>i. ParsePanic)"

definition rejectP :: "diagnostic \<Rightarrow> 'a parser" where "rejectP d = (\<lambda>i. Rejected d)"

text \<open>A loop: a turn goes on with a new state (\<open>Inl\<close>) or leaves with a result (\<open>Inr\<close>).\<close>

primrec repeatP :: "nat \<Rightarrow> ('s \<Rightarrow> ('s + 'r) parser) \<Rightarrow> 's \<Rightarrow> 'r parser" where
  "repeatP 0 turn s = timeoutP"
| "repeatP (Suc n) turn s =
     bindP (turn s) (\<lambda>x. case x of Inl s' \<Rightarrow> repeatP n turn s' | Inr r \<Rightarrow> returnP r)"

text \<open>The fields of \<open>parser\<close> that do not change: the index is the argument of a parser.\<close>

record parse_context =
  pcFile :: string
  pcEnd :: nat
  pcContract :: language_contract
  pcNativeStreams :: bool
  pcToks :: "token list"

definition peek :: "parse_context \<Rightarrow> nat \<Rightarrow> token" where
  "peek pc i =
     (if i < length (pcToks pc) then pcToks pc ! i
      else mkToken tokEOF [] (spanAt (pcFile pc) (pcEnd pc) (pcEnd pc)))"

definition peekP :: "parse_context \<Rightarrow> (token \<Rightarrow> 'a parser) \<Rightarrow> 'a parser" where
  "peekP pc f = (\<lambda>i. f (peek pc i) i)"

definition peekAtP :: "parse_context \<Rightarrow> nat \<Rightarrow> (token \<Rightarrow> 'a parser) \<Rightarrow> 'a parser" where
  "peekAtP pc offset f = (\<lambda>i. f (peek pc (i + offset)) i)"

definition nextP :: "parse_context \<Rightarrow> token parser" where
  "nextP pc = (\<lambda>i. Parsed (peek pc i) (if i < length (pcToks pc) then Suc i else i))"

definition tokenName :: "token_kind \<Rightarrow> string" where
  "tokenName k =
     (case k of
        tokIdent \<Rightarrow> ''identifier'' | tokLBrace \<Rightarrow> ''{'' | tokRBrace \<Rightarrow> ''}'' | tokLParen \<Rightarrow> ''(''
      | tokRParen \<Rightarrow> '')'' | tokColon \<Rightarrow> '':'' | tokSemi \<Rightarrow> '';'' | tokComma \<Rightarrow> '','' | tokDot \<Rightarrow> ''.''
      | tokAssign \<Rightarrow> ''='' | tokArrow \<Rightarrow> ''=>'' | _ \<Rightarrow> ''token'')"

definition expectP :: "parse_context \<Rightarrow> token_kind \<Rightarrow> token parser" where
  "expectP pc k =
     peekP pc (\<lambda>t.
       if tkKind t \<noteq> k
       then rejectP (oneDiagnostic CodeExpectedToken CategorySyntax (tkSpan t)
              (''expected '' @ tokenName k))
       else andP (nextP pc) (returnP t))"

definition errf :: "parse_context \<Rightarrow> string \<Rightarrow> 'a parser" where
  "errf pc msg =
     peekP pc (\<lambda>t. rejectP (oneDiagnostic CodeUnexpectedToken CategorySyntax (tkSpan t) msg))"

text \<open>The fuel of the loops: each turn reads a token.\<close>

definition loopFuel :: "parse_context \<Rightarrow> nat" where
  "loopFuel pc = Suc (length (pcToks pc))"

section \<open>Type references\<close>

fun parseTypeRefs :: "parse_context \<Rightarrow> nat \<Rightarrow> type_ref parser" where
  "parseTypeRefs pc 0 = timeoutP"
| "parseTypeRefs pc (Suc n) =
     bindP (expectP pc tokIdent) (\<lambda>tok.
       case primitiveType (tkLit tok) of
         Some p \<Rightarrow> returnP (unresolvedPrimitive p (tkSpan tok))
       | None \<Rightarrow> peekP pc (\<lambda>t.
           if tkLit tok = ''List'' \<and> tkKind t = tokLT then
             andP (nextP pc) (bindP (parseTypeRefs pc n) (\<lambda>inner.
             bindP (expectP pc tokGT) (\<lambda>end.
             returnP (TypeRef TypeRefApplied ''List'' [] [inner] (mergeSpans (tkSpan tok) (tkSpan end))))))
           else if tkLit tok = ''Result'' \<and> hasArithmeticResultSourceContract (pcContract pc)
             \<and> tkKind t = tokLT then
             andP (nextP pc) (bindP (parseTypeRefs pc n) (\<lambda>success.
             andP (expectP pc tokComma) (bindP (parseTypeRefs pc n) (\<lambda>failure.
             bindP (expectP pc tokGT) (\<lambda>end.
             returnP (TypeRef TypeRefApplied ''Result'' [] [success, failure]
               (mergeSpans (tkSpan tok) (tkSpan end))))))))
           else if tkLit tok = ''Optional'' \<and> hasPrimitiveOptionalSourceContract (pcContract pc)
             \<and> tkKind t = tokLT then
             andP (nextP pc) (bindP (parseTypeRefs pc n) (\<lambda>inner.
             bindP (expectP pc tokGT) (\<lambda>end.
             returnP (TypeRef TypeRefApplied ''Optional'' [] [inner]
               (mergeSpans (tkSpan tok) (tkSpan end))))))
           else returnP (namedRef (tkLit tok) (tkSpan tok))))"

definition parseTypeRef :: "parse_context \<Rightarrow> type_ref parser" where
  "parseTypeRef pc = parseTypeRefs pc (loopFuel pc)"

section \<open>Forms with a keyword\<close>

text \<open>The parser of a sub-expression, by the least precedence of its operators.\<close>

type_synonym sub_parser = "nat \<Rightarrow> source_expr parser"

text \<open>\<open>keyword(value)\<close> and \<open>keyword(first, second)\<close>, with the node they build.\<close>

definition unaryForm ::
  "parse_context \<Rightarrow> sub_parser \<Rightarrow> (source_expr \<Rightarrow> source_span \<Rightarrow> source_expr) \<Rightarrow> source_expr parser" where
  "unaryForm pc rec node =
     bindP (expectP pc tokIdent) (\<lambda>start.
     andP (expectP pc tokLParen) (
     bindP (rec 1) (\<lambda>value.
     bindP (expectP pc tokRParen) (\<lambda>end.
     returnP (node value (mergeSpans (tkSpan start) (tkSpan end)))))))"

definition binaryForm ::
  "parse_context \<Rightarrow> sub_parser \<Rightarrow> (source_expr \<Rightarrow> source_expr \<Rightarrow> source_span \<Rightarrow> source_expr)
   \<Rightarrow> source_expr parser" where
  "binaryForm pc rec node =
     bindP (expectP pc tokIdent) (\<lambda>start.
     andP (expectP pc tokLParen) (
     bindP (rec 1) (\<lambda>first.
     andP (expectP pc tokComma) (
     bindP (rec 1) (\<lambda>second.
     bindP (expectP pc tokRParen) (\<lambda>end.
     returnP (node first second (mergeSpans (tkSpan start) (tkSpan end)))))))))"

definition parseTextContainsCaseFolded :: "parse_context \<Rightarrow> sub_parser \<Rightarrow> source_expr parser" where
  "parseTextContainsCaseFolded pc rec = binaryForm pc rec TextContainsCaseFoldedExpr"

definition parseTextTrim :: "parse_context \<Rightarrow> sub_parser \<Rightarrow> source_expr parser" where
  "parseTextTrim pc rec = unaryForm pc rec TextTrimExpr"

definition parseResultIsOK :: "parse_context \<Rightarrow> sub_parser \<Rightarrow> source_expr parser" where
  "parseResultIsOK pc rec = unaryForm pc rec ResultIsOKExpr"

definition parseResultSuccessOr :: "parse_context \<Rightarrow> sub_parser \<Rightarrow> source_expr parser" where
  "parseResultSuccessOr pc rec = binaryForm pc rec ResultSuccessOrExpr"

definition parseResultFailureOr :: "parse_context \<Rightarrow> sub_parser \<Rightarrow> source_expr parser" where
  "parseResultFailureOr pc rec = binaryForm pc rec ResultFailureOrExpr"

definition parseListSingleton :: "parse_context \<Rightarrow> sub_parser \<Rightarrow> source_expr parser" where
  "parseListSingleton pc rec = unaryForm pc rec ListSingletonExpr"

definition parseListCount :: "parse_context \<Rightarrow> sub_parser \<Rightarrow> source_expr parser" where
  "parseListCount pc rec = unaryForm pc rec ListCountExpr"

definition parseListAppend :: "parse_context \<Rightarrow> sub_parser \<Rightarrow> source_expr parser" where
  "parseListAppend pc rec = binaryForm pc rec ListAppendExpr"

definition parseListAt :: "parse_context \<Rightarrow> sub_parser \<Rightarrow> source_expr parser" where
  "parseListAt pc rec = binaryForm pc rec (\<lambda>values index. ListAtExpr values index False)"

definition parseOptionalSome :: "parse_context \<Rightarrow> sub_parser \<Rightarrow> source_expr parser" where
  "parseOptionalSome pc rec = unaryForm pc rec OptionalSomeExpr"

definition parseOptionalHasValue :: "parse_context \<Rightarrow> sub_parser \<Rightarrow> source_expr parser" where
  "parseOptionalHasValue pc rec = unaryForm pc rec OptionalHasValueExpr"

definition parseOptionalValueOr :: "parse_context \<Rightarrow> sub_parser \<Rightarrow> source_expr parser" where
  "parseOptionalValueOr pc rec = binaryForm pc rec OptionalValueOrExpr"

text \<open>The \<open>propagate\<close> case of \<open>parsePrimary\<close>, which has read nothing yet.\<close>

definition parsePropagate :: "parse_context \<Rightarrow> sub_parser \<Rightarrow> source_expr parser" where
  "parsePropagate pc rec =
     bindP (nextP pc) (\<lambda>start.
     andP (expectP pc tokLParen) (
     bindP (rec 1) (\<lambda>value.
     bindP (expectP pc tokRParen) (\<lambda>end.
     returnP (PropagateExpr value (mergeSpans (tkSpan start) (tkSpan end)))))))"

section \<open>Forms with types\<close>

definition parseResultTypeArguments :: "parse_context \<Rightarrow> (token \<times> type_ref \<times> type_ref) parser" where
  "parseResultTypeArguments pc =
     bindP (expectP pc tokIdent) (\<lambda>start.
     andP (expectP pc tokLT) (
     bindP (parseTypeRef pc) (\<lambda>success.
     andP (expectP pc tokComma) (
     bindP (parseTypeRef pc) (\<lambda>failure.
     andP (expectP pc tokGT) (returnP (start, success, failure)))))))"

definition resultForm ::
  "parse_context \<Rightarrow> sub_parser \<Rightarrow> (type_ref \<Rightarrow> type_ref \<Rightarrow> source_expr \<Rightarrow> source_span \<Rightarrow> source_expr)
   \<Rightarrow> source_expr parser" where
  "resultForm pc rec node =
     bindP (parseResultTypeArguments pc) (\<lambda>(start, success, failure).
     andP (expectP pc tokLParen) (
     bindP (rec 1) (\<lambda>value.
     bindP (expectP pc tokRParen) (\<lambda>end.
     returnP (node success failure value (mergeSpans (tkSpan start) (tkSpan end)))))))"

definition parseResultOK :: "parse_context \<Rightarrow> sub_parser \<Rightarrow> source_expr parser" where
  "parseResultOK pc rec = resultForm pc rec ResultOKExpr"

definition parseResultErr :: "parse_context \<Rightarrow> sub_parser \<Rightarrow> source_expr parser" where
  "parseResultErr pc rec = resultForm pc rec ResultErrExpr"

text \<open>\<open>keyword<T>()\<close>.\<close>

definition typeForm ::
  "parse_context \<Rightarrow> (type_ref \<Rightarrow> source_span \<Rightarrow> source_expr) \<Rightarrow> source_expr parser" where
  "typeForm pc node =
     bindP (expectP pc tokIdent) (\<lambda>start.
     andP (expectP pc tokLT) (
     bindP (parseTypeRef pc) (\<lambda>t.
     andP (expectP pc tokGT) (
     andP (expectP pc tokLParen) (
     bindP (expectP pc tokRParen) (\<lambda>end.
     returnP (node t (mergeSpans (tkSpan start) (tkSpan end)))))))))"

definition parseListEmpty :: "parse_context \<Rightarrow> source_expr parser" where
  "parseListEmpty pc = typeForm pc ListEmptyExpr"

definition parseOptionalNone :: "parse_context \<Rightarrow> source_expr parser" where
  "parseOptionalNone pc = typeForm pc OptionalNoneExpr"

section \<open>Field selectors\<close>

definition textSelector :: "token \<Rightarrow> token \<Rightarrow> list_text_field_selector" where
  "textSelector r f =
     \<lparr>ltsRecordType = namedRef (tkLit r) (tkSpan r), ltsField = tkLit f, ltsFieldSpan = tkSpan f\<rparr>"

text \<open>\<open>Record.Field\<close>.\<close>

definition fieldSelector :: "parse_context \<Rightarrow> list_text_field_selector parser" where
  "fieldSelector pc =
     bindP (expectP pc tokIdent) (\<lambda>recordName.
     andP (expectP pc tokDot) (
     bindP (expectP pc tokIdent) (\<lambda>field.
     returnP (textSelector recordName field))))"

text \<open>\<open>keyword(values, Record.Field, argument)\<close>.\<close>

definition selectorForm ::
  "parse_context \<Rightarrow> sub_parser \<Rightarrow>
   (source_expr \<Rightarrow> type_ref \<Rightarrow> string \<Rightarrow> source_span \<Rightarrow> source_expr \<Rightarrow> source_span \<Rightarrow> source_expr)
   \<Rightarrow> source_expr parser" where
  "selectorForm pc rec node =
     bindP (expectP pc tokIdent) (\<lambda>start.
     andP (expectP pc tokLParen) (
     bindP (rec 1) (\<lambda>values.
     andP (expectP pc tokComma) (
     bindP (fieldSelector pc) (\<lambda>s.
     andP (expectP pc tokComma) (
     bindP (rec 1) (\<lambda>key.
     bindP (expectP pc tokRParen) (\<lambda>end.
     returnP (node values (ltsRecordType s) (ltsField s) (ltsFieldSpan s) key
       (mergeSpans (tkSpan start) (tkSpan end)))))))))))"

definition parseListFindByText :: "parse_context \<Rightarrow> sub_parser \<Rightarrow> source_expr parser" where
  "parseListFindByText pc rec = selectorForm pc rec ListFindByTextExpr"

definition parseListFilterByText :: "parse_context \<Rightarrow> sub_parser \<Rightarrow> source_expr parser" where
  "parseListFilterByText pc rec = selectorForm pc rec ListFilterByTextExpr"

definition parseListFilterContainsCaseFolded ::
  "parse_context \<Rightarrow> sub_parser \<Rightarrow> source_expr parser" where
  "parseListFilterContainsCaseFolded pc rec = selectorForm pc rec ListFilterContainsCaseFoldedExpr"

section \<open>Forms with loops\<close>

text \<open>\<open>filter(values, Predicate, argument, ...)\<close>.\<close>

definition predicateArgument ::
  "parse_context \<Rightarrow> sub_parser \<Rightarrow> source_expr list \<Rightarrow> (source_expr list + source_expr list) parser" where
  "predicateArgument pc rec arguments =
     peekP pc (\<lambda>t.
       if tkKind t = tokComma
       then andP (nextP pc) (bindP (rec 1) (\<lambda>argument. returnP (Inl (arguments @ [argument]))))
       else returnP (Inr arguments))"

definition parseListFilterPredicate :: "parse_context \<Rightarrow> sub_parser \<Rightarrow> source_expr parser" where
  "parseListFilterPredicate pc rec =
     bindP (expectP pc tokIdent) (\<lambda>start.
     andP (expectP pc tokLParen) (
     bindP (rec 1) (\<lambda>values.
     andP (expectP pc tokComma) (
     bindP (expectP pc tokIdent) (\<lambda>predicate.
     bindP (repeatP (loopFuel pc) (predicateArgument pc rec) []) (\<lambda>arguments.
     bindP (expectP pc tokRParen) (\<lambda>end.
     returnP (ListFilterPredicateExpr values (tkLit predicate) (tkSpan predicate) arguments
       (mergeSpans (tkSpan start) (tkSpan end))))))))))"

text \<open>
  The joined filter. Under the contracts v0.29.0 to v0.31.0 it takes any number of selectors and
  then an identifier, under every other contract exactly five selectors and then an expression.
\<close>

definition joinedSelector ::
  "parse_context \<Rightarrow> token \<Rightarrow> source_expr \<Rightarrow> list_text_field_selector list
   \<Rightarrow> (list_text_field_selector list + source_expr) parser" where
  "joinedSelector pc start values selectors =
     andP (expectP pc tokComma) (
     bindP (expectP pc tokIdent) (\<lambda>name.
     peekP pc (\<lambda>t.
       if tkKind t \<noteq> tokDot then
         bindP (expectP pc tokRParen) (\<lambda>end.
         returnP (Inr (ListFilterJoinedContainsCaseFoldedExpr values selectors
           (IdentExpr (tkLit name) (tkSpan name)) (mergeSpans (tkSpan start) (tkSpan end)))))
       else
         andP (nextP pc) (bindP (expectP pc tokIdent) (\<lambda>field.
         returnP (Inl (selectors @ [textSelector name field])))))))"

primrec fixedSelectors ::
  "parse_context \<Rightarrow> nat \<Rightarrow> list_text_field_selector list \<Rightarrow> list_text_field_selector list parser" where
  "fixedSelectors pc 0 selectors = returnP selectors"
| "fixedSelectors pc (Suc n) selectors =
     andP (expectP pc tokComma) (
     bindP (fieldSelector pc) (\<lambda>s. fixedSelectors pc n (selectors @ [s])))"

definition parseListFilterJoinedContainsCaseFolded ::
  "parse_context \<Rightarrow> sub_parser \<Rightarrow> source_expr parser" where
  "parseListFilterJoinedContainsCaseFolded pc rec =
     bindP (expectP pc tokIdent) (\<lambda>start.
     andP (expectP pc tokLParen) (
     bindP (rec 1) (\<lambda>values.
     if 29 \<le> pcContract pc \<and> pcContract pc \<le> 31 then
       repeatP (loopFuel pc) (joinedSelector pc start values) []
     else
       bindP (fixedSelectors pc 5 []) (\<lambda>selectors.
       andP (expectP pc tokComma) (
       bindP (rec 1) (\<lambda>query.
       bindP (expectP pc tokRParen) (\<lambda>end.
       returnP (ListFilterJoinedContainsCaseFoldedExpr values selectors query
         (mergeSpans (tkSpan start) (tkSpan end))))))))))"

text \<open>
  Sorting. From v0.32.0 on: one selector; or pairs of a selector and a direction; or selectors
  alone. Under v0.30.0 and v0.31.0: selectors alone. Before: one selector.
\<close>

definition sortOne :: "source_expr \<Rightarrow> list_text_field_selector \<Rightarrow> source_span \<Rightarrow> source_expr" where
  "sortOne values s sp = ListSortByOrdinalExpr values (ltsRecordType s) (ltsField s) (ltsFieldSpan s) sp"

definition isDirection :: "token \<Rightarrow> bool" where
  "isDirection t \<longleftrightarrow> tkLit t = ''ascending'' \<or> tkLit t = ''descending''"

definition directionalSelector ::
  "list_text_field_selector \<Rightarrow> token \<Rightarrow> list_directional_text_field_selector" where
  "directionalSelector s d =
     \<lparr>ldsSelector = s, ldsDirection = tkLit d, ldsDirectionSpan = tkSpan d\<rparr>"

definition directionTurn ::
  "parse_context \<Rightarrow> token \<Rightarrow> source_expr \<Rightarrow> list_directional_text_field_selector list
   \<Rightarrow> (list_directional_text_field_selector list + source_expr) parser" where
  "directionTurn pc start values directional =
     peekP pc (\<lambda>t.
       if tkKind t \<noteq> tokRParen then
         andP (expectP pc tokComma) (
         bindP (fieldSelector pc) (\<lambda>s.
         andP (expectP pc tokComma) (
         bindP (expectP pc tokIdent) (\<lambda>d.
           if \<not> isDirection d
           then rejectP (oneDiagnostic CodeUnexpectedToken CategorySyntax (tkSpan d)
                  ''expected ascending or descending'')
           else returnP (Inl (directional @ [directionalSelector s d]))))))
       else
         bindP (nextP pc) (\<lambda>end.
         returnP (Inr (ListSortByOrdinalDirectionsExpr values directional
           (mergeSpans (tkSpan start) (tkSpan end))))))"

text \<open>A turn of the loop over further selectors: the record name has been read already.\<close>

definition legacyTurn ::
  "parse_context \<Rightarrow> token \<Rightarrow> source_expr \<Rightarrow> token \<times> list_text_field_selector list
   \<Rightarrow> (token \<times> list_text_field_selector list + source_expr) parser" where
  "legacyTurn pc start values st =
     (case st of (name, legacy) \<Rightarrow>
       andP (expectP pc tokDot) (
       bindP (expectP pc tokIdent) (\<lambda>f.
       peekP pc (\<lambda>t.
         if tkKind t = tokRParen then
           bindP (nextP pc) (\<lambda>end.
           returnP (Inr (ListSortByOrdinalsExpr values (legacy @ [textSelector name f])
             (mergeSpans (tkSpan start) (tkSpan end)))))
         else
           andP (expectP pc tokComma) (
           bindP (expectP pc tokIdent) (\<lambda>name'.
           returnP (Inl (name', legacy @ [textSelector name f]))))))))"

definition sortFromV32 :: "parse_context \<Rightarrow> token \<Rightarrow> source_expr \<Rightarrow> source_expr parser" where
  "sortFromV32 pc start values =
     andP (expectP pc tokComma) (
     bindP (fieldSelector pc) (\<lambda>first.
     peekP pc (\<lambda>t.
       if tkKind t = tokRParen then
         bindP (nextP pc) (\<lambda>end. returnP (sortOne values first (mergeSpans (tkSpan start) (tkSpan end))))
       else
         andP (expectP pc tokComma) (
         bindP (expectP pc tokIdent) (\<lambda>name.
           if isDirection name
           then repeatP (loopFuel pc) (directionTurn pc start values) [directionalSelector first name]
           else repeatP (loopFuel pc) (legacyTurn pc start values) (name, [first]))))))"

definition sortSelectorTurn ::
  "parse_context \<Rightarrow> token \<Rightarrow> source_expr \<Rightarrow> list_text_field_selector list
   \<Rightarrow> (list_text_field_selector list + source_expr) parser" where
  "sortSelectorTurn pc start values selectors =
     andP (expectP pc tokComma) (
     bindP (fieldSelector pc) (\<lambda>s.
     peekP pc (\<lambda>t.
       if tkKind t = tokRParen then
         bindP (nextP pc) (\<lambda>end.
           let sp = mergeSpans (tkSpan start) (tkSpan end) in
           if selectors = [] then returnP (Inr (sortOne values s sp))
           else returnP (Inr (ListSortByOrdinalsExpr values (selectors @ [s]) sp)))
       else returnP (Inl (selectors @ [s])))))"

definition parseListSortByOrdinal :: "parse_context \<Rightarrow> sub_parser \<Rightarrow> source_expr parser" where
  "parseListSortByOrdinal pc rec =
     bindP (expectP pc tokIdent) (\<lambda>start.
     andP (expectP pc tokLParen) (
     bindP (rec 1) (\<lambda>values.
     if 32 \<le> pcContract pc \<and> pcContract pc \<le> 115 then sortFromV32 pc start values
     else if pcContract pc = 30 \<or> pcContract pc = 31 then
       repeatP (loopFuel pc) (sortSelectorTurn pc start values) []
     else
       andP (expectP pc tokComma) (
       bindP (fieldSelector pc) (\<lambda>s.
       bindP (expectP pc tokRParen) (\<lambda>end.
       returnP (sortOne values s (mergeSpans (tkSpan start) (tkSpan end)))))))))"

text \<open>\<open>new Record { Field = value, ... }\<close>, without a comma before the closing brace.\<close>

definition recordFieldTurn ::
  "parse_context \<Rightarrow> sub_parser \<Rightarrow> source_expr source_field_value list
   \<Rightarrow> (source_expr source_field_value list + source_expr source_field_value list) parser" where
  "recordFieldTurn pc rec inits =
     peekP pc (\<lambda>t.
       if tkKind t = tokRBrace then returnP (Inr inits)
       else
         bindP (expectP pc tokIdent) (\<lambda>name.
         andP (expectP pc tokAssign) (
         bindP (rec 1) (\<lambda>v0.
           let inits' = inits @ [SourceFieldValue (tkLit name) (tkSpan name) v0
                 (mergeSpans (tkSpan name) (SourceSpan v0))] in
           peekP pc (\<lambda>u.
             if tkKind u \<noteq> tokComma then returnP (Inr inits')
             else
               andP (nextP pc) (peekP pc (\<lambda>v.
                 if tkKind v = tokRBrace
                 then rejectP (oneDiagnostic CodeExpectedToken CategorySyntax (tkSpan v)
                        ''expected record field after comma'')
                 else returnP (Inl inits'))))))))"

definition parseRecordConstruction :: "parse_context \<Rightarrow> sub_parser \<Rightarrow> source_expr parser" where
  "parseRecordConstruction pc rec =
     bindP (expectP pc tokIdent) (\<lambda>start.
     if tkLit start \<noteq> ''new''
     then rejectP (oneDiagnostic CodeUnexpectedToken CategorySyntax (tkSpan start) ''expected new'')
     else
       bindP (expectP pc tokIdent) (\<lambda>typeName.
       andP (expectP pc tokLBrace) (
       bindP (repeatP (loopFuel pc) (recordFieldTurn pc rec) []) (\<lambda>inits.
       bindP (expectP pc tokRBrace) (\<lambda>end.
       returnP (RecordConstructExpr (namedRef (tkLit typeName) (tkSpan typeName)) inits
         (mergeSpans (tkSpan start) (tkSpan end))))))))"

text \<open>\<open>Method(argument, ...)\<close>; a comma before the closing parenthesis is allowed.\<close>

definition callArgumentTurn ::
  "parse_context \<Rightarrow> sub_parser \<Rightarrow> source_expr list \<Rightarrow> (source_expr list + source_expr list) parser" where
  "callArgumentTurn pc rec arguments =
     peekP pc (\<lambda>t.
       if tkKind t = tokRParen then returnP (Inr arguments)
       else
         bindP (rec 1) (\<lambda>argument.
         peekP pc (\<lambda>u.
           if tkKind u \<noteq> tokComma then returnP (Inr (arguments @ [argument]))
           else andP (nextP pc) (returnP (Inl (arguments @ [argument]))))))"

definition parsePureCall :: "parse_context \<Rightarrow> sub_parser \<Rightarrow> source_expr parser" where
  "parsePureCall pc rec =
     bindP (expectP pc tokIdent) (\<lambda>name.
     andP (expectP pc tokLParen) (
     bindP (repeatP (loopFuel pc) (callArgumentTurn pc rec) []) (\<lambda>arguments.
     bindP (expectP pc tokRParen) (\<lambda>end.
     returnP (CallExpr (tkLit name) (tkSpan name) arguments zeroSpan
       (mergeSpans (tkSpan name) (tkSpan end)))))))"

text \<open>\<open>qualifier.Method(argument, ...)\<close> in native streams.\<close>

definition qualifyCall :: "token \<Rightarrow> source_expr \<Rightarrow> source_expr parser" where
  "qualifyCall qualifier e =
     (case e of
        CallExpr n ns arguments target sp \<Rightarrow>
          returnP (CallExpr (tkLit qualifier @ ''.'' @ n) (mergeSpans (tkSpan qualifier) ns) arguments
            target (mergeSpans (tkSpan qualifier) sp))
      | _ \<Rightarrow> panicP)"

definition parseQualifiedCall :: "parse_context \<Rightarrow> sub_parser \<Rightarrow> source_expr parser" where
  "parseQualifiedCall pc rec =
     bindP (nextP pc) (\<lambda>qualifier.
     andP (nextP pc) (
     bindP (parsePureCall pc rec) (\<lambda>call. qualifyCall qualifier call)))"

text \<open>\<open>match (value) { Tag(binding) => body, ... }\<close>.\<close>

definition matchPattern :: "parse_context \<Rightarrow> token \<Rightarrow> (string \<times> source_span) parser" where
  "matchPattern pc pattern =
     peekP pc (\<lambda>t.
       if 113 \<le> pcContract pc \<and> pcContract pc \<le> 115 \<and> tkKind t = tokDot then
         andP (nextP pc) (bindP (expectP pc tokIdent) (\<lambda>member.
         returnP (tkLit pattern @ ''.'' @ tkLit member, mergeSpans (tkSpan pattern) (tkSpan member))))
       else returnP (tkLit pattern, tkSpan pattern))"

definition matchBinding :: "parse_context \<Rightarrow> string parser" where
  "matchBinding pc =
     peekP pc (\<lambda>t.
       if tkKind t = tokLParen then
         andP (nextP pc) (bindP (expectP pc tokIdent) (\<lambda>binding.
         andP (expectP pc tokRParen) (returnP (tkLit binding))))
       else returnP [])"

definition matchArmTurn ::
  "parse_context \<Rightarrow> sub_parser \<Rightarrow> source_expr source_match_arm list
   \<Rightarrow> (source_expr source_match_arm list + source_expr source_match_arm list) parser" where
  "matchArmTurn pc rec arms =
     peekP pc (\<lambda>pattern.
       if tkKind pattern = tokRBrace then returnP (Inr arms)
       else if tkKind pattern \<noteq> tokIdent then errf pc ''expected match pattern''
       else
         andP (nextP pc) (
         bindP (matchPattern pc pattern) (\<lambda>(tag, patternSpan).
         bindP (matchBinding pc) (\<lambda>binding.
         andP (expectP pc tokArrow) (
         bindP (rec 1) (\<lambda>body.
           let arms' = arms @ [SourceMatchArm tag binding patternSpan body
                 (mergeSpans (tkSpan pattern) (SourceSpan body))] in
           peekP pc (\<lambda>u.
             if tkKind u = tokComma then andP (nextP pc) (returnP (Inl arms'))
             else if tkKind u \<noteq> tokRBrace then errf pc ''expected comma or closing brace''
             else returnP (Inl arms'))))))))"

definition parseMatch :: "parse_context \<Rightarrow> sub_parser \<Rightarrow> source_expr parser" where
  "parseMatch pc rec =
     bindP (nextP pc) (\<lambda>start.
     andP (expectP pc tokLParen) (
     bindP (rec 1) (\<lambda>v0.
     andP (expectP pc tokRParen) (
     andP (expectP pc tokLBrace) (
     bindP (repeatP (loopFuel pc) (matchArmTurn pc rec) []) (\<lambda>arms.
     bindP (expectP pc tokRBrace) (\<lambda>end.
     returnP (MatchExpr v0 arms (mergeSpans (tkSpan start) (tkSpan end))))))))))"

section \<open>Primary, postfix, unary and binary expressions\<close>

text \<open>The identifier that opens a form, if the contract has the form: the case of identifiers.\<close>

definition keywordForm ::
  "parse_context \<Rightarrow> sub_parser \<Rightarrow> string \<Rightarrow> source_expr parser option" where
  "keywordForm pc rec lit =
     (let c = pcContract pc in
      if lit = ''match'' \<and> hasMatchSourceContract c then Some (parseMatch pc rec)
      else if lit = ''propagate'' \<and> hasPropagationSourceContract c then Some (parsePropagate pc rec)
      else if lit = ''new'' \<and> hasPrimitiveRecordConstructionSourceContract c
        then Some (parseRecordConstruction pc rec)
      else if lit = ''contains_casefolded'' \<and> hasCaseFoldedTextContainmentSourceContract c
        then Some (parseTextContainsCaseFolded pc rec)
      else if lit = ''trim'' \<and> hasTextTrimSourceContract c then Some (parseTextTrim pc rec)
      else if hasPrimitiveOptionalSourceContract c \<and> lit = ''some'' then Some (parseOptionalSome pc rec)
      else if hasPrimitiveOptionalSourceContract c \<and> lit = ''none'' then Some (parseOptionalNone pc)
      else if hasPrimitiveOptionalSourceContract c \<and> lit = ''has_value''
        then Some (parseOptionalHasValue pc rec)
      else if hasPrimitiveOptionalSourceContract c \<and> lit = ''value_or''
          \<and> hasPrimitiveOptionalDefaultSourceContract c
        then Some (parseOptionalValueOr pc rec)
      else if hasPrimitiveRecordListSourceContract c \<and> lit = ''filter''
          \<and> hasNamedRecordPredicateSourceContract c
        then Some (parseListFilterPredicate pc rec)
      else if hasPrimitiveRecordListSourceContract c \<and> lit = ''empty_list'' then Some (parseListEmpty pc)
      else if hasPrimitiveRecordListSourceContract c \<and> lit = ''list'' then Some (parseListSingleton pc rec)
      else if hasPrimitiveRecordListSourceContract c \<and> lit = ''count''
          \<and> hasPrimitiveRecordListCountSourceContract c
        then Some (parseListCount pc rec)
      else if hasPrimitiveRecordListSourceContract c \<and> lit = ''append''
          \<and> hasPrimitiveRecordListAppendSourceContract c
        then Some (parseListAppend pc rec)
      else if hasPrimitiveRecordListSourceContract c \<and> lit = ''at''
          \<and> hasPrimitiveRecordListAtSourceContract c
        then Some (parseListAt pc rec)
      else if hasPrimitiveRecordListSourceContract c \<and> lit = ''find_by''
          \<and> hasPrimitiveRecordListFindByTextSourceContract c
        then Some (parseListFindByText pc rec)
      else if hasPrimitiveRecordListSourceContract c \<and> lit = ''filter_by''
          \<and> hasPrimitiveRecordListFilterByTextSourceContract c
        then Some (parseListFilterByText pc rec)
      else if hasPrimitiveRecordListSourceContract c \<and> lit = ''filter_contains_casefolded''
          \<and> hasPrimitiveRecordListFilterContainsCaseFoldedSourceContract c
        then Some (parseListFilterContainsCaseFolded pc rec)
      else if hasPrimitiveRecordListSourceContract c \<and> lit = ''filter_joined_contains_casefolded''
          \<and> hasPrimitiveRecordListFilterJoinedContainsCaseFoldedSourceContract c
        then Some (parseListFilterJoinedContainsCaseFolded pc rec)
      else if hasPrimitiveRecordListSourceContract c \<and> lit = ''sort_by_ordinal''
          \<and> hasPrimitiveRecordListSortByOrdinalSourceContract c
        then Some (parseListSortByOrdinal pc rec)
      else if hasSnapshotResultSourceContract c \<and> lit = ''ok'' then Some (parseResultOK pc rec)
      else if hasSnapshotResultSourceContract c \<and> lit = ''err'' then Some (parseResultErr pc rec)
      else if hasSnapshotResultSourceContract c \<and> lit = ''is_ok'' then Some (parseResultIsOK pc rec)
      else if hasSnapshotResultSourceContract c \<and> lit = ''success_or''
        then Some (parseResultSuccessOr pc rec)
      else if hasSnapshotResultSourceContract c \<and> lit = ''failure_or''
        then Some (parseResultFailureOr pc rec)
      else None)"

definition parseIdentifier :: "parse_context \<Rightarrow> sub_parser \<Rightarrow> token \<Rightarrow> source_expr parser" where
  "parseIdentifier pc rec t =
     peekAtP pc 1 (\<lambda>t1. peekAtP pc 2 (\<lambda>t2. peekAtP pc 3 (\<lambda>t3.
       if pcNativeStreams pc \<and> tkKind t1 = tokDot \<and> tkKind t2 = tokIdent \<and> tkKind t3 = tokLParen
       then parseQualifiedCall pc rec
       else case keywordForm pc rec (tkLit t) of
         Some p \<Rightarrow> p
       | None \<Rightarrow>
           if hasPureCallSourceContract (pcContract pc) \<and> tkKind t1 = tokLParen
           then parsePureCall pc rec
           else andP (nextP pc) (returnP (IdentExpr (tkLit t) (tkSpan t))))))"

definition parsePrimary :: "parse_context \<Rightarrow> sub_parser \<Rightarrow> source_expr parser" where
  "parsePrimary pc rec =
     peekP pc (\<lambda>t.
       case tkKind t of
         tokString \<Rightarrow>
           andP (nextP pc) (returnP (LiteralExpr ((zeroValue TypeString)\<lparr>svString := tkLit t\<rparr>) (tkSpan t)))
       | tokInt \<Rightarrow>
           andP (nextP pc) (case parseInt64 (tkLit t) of
             None \<Rightarrow> rejectP (oneDiagnostic CodeInvalidNumber CategoryLexical (tkSpan t)
               ''invalid integer literal'')
           | Some v \<Rightarrow> returnP (LiteralExpr ((zeroValue TypeInt)\<lparr>svInt := v\<rparr>) (tkSpan t)))
       | tokFloat \<Rightarrow>
           andP (nextP pc) (case parseFloat64 (tkLit t) of
             None \<Rightarrow> rejectP (oneDiagnostic CodeInvalidNumber CategoryLexical (tkSpan t)
               ''invalid float literal'')
           | Some v \<Rightarrow> returnP (LiteralExpr ((zeroValue TypeFloat)\<lparr>svFloat := v\<rparr>) (tkSpan t)))
       | tokBool \<Rightarrow>
           andP (nextP pc)
             (returnP (LiteralExpr ((zeroValue TypeBool)\<lparr>svBool := (tkLit t = ''true'')\<rparr>) (tkSpan t)))
       | tokIdent \<Rightarrow> parseIdentifier pc rec t
       | tokLParen \<Rightarrow>
           bindP (nextP pc) (\<lambda>start.
           bindP (rec 1) (\<lambda>ex.
           bindP (expectP pc tokRParen) (\<lambda>end.
           returnP (setExprSpan ex (mergeSpans (tkSpan start) (tkSpan end))))))
       | _ \<Rightarrow> errf pc ''unexpected token in expression'')"

definition postfixTurn ::
  "parse_context \<Rightarrow> sub_parser \<Rightarrow> source_expr \<Rightarrow> (source_expr + source_expr) parser" where
  "postfixTurn pc rec e =
     peekP pc (\<lambda>t.
       if 33 \<le> pcContract pc \<and> pcContract pc \<le> 115 \<and> tkKind t = tokLBracket then
         andP (nextP pc) (
         bindP (rec 1) (\<lambda>index.
         bindP (expectP pc tokRBracket) (\<lambda>end.
         returnP (Inl (ListAtExpr e index True (mergeSpans (SourceSpan e) (tkSpan end)))))))
       else if tkKind t = tokDot then
         andP (nextP pc) (
         bindP (expectP pc tokIdent) (\<lambda>name.
         returnP (Inl (FieldExpr e (tkLit name) (tkSpan name) (mergeSpans (SourceSpan e) (tkSpan name))))))
       else returnP (Inr e))"

definition parsePostfix :: "parse_context \<Rightarrow> sub_parser \<Rightarrow> source_expr parser" where
  "parsePostfix pc rec =
     bindP (parsePrimary pc rec) (\<lambda>e.
       if \<not> hasRecordFieldProjectionSourceContract (pcContract pc) then returnP e
       else repeatP (loopFuel pc) (postfixTurn pc rec) e)"

primrec parseUnary :: "parse_context \<Rightarrow> sub_parser \<Rightarrow> nat \<Rightarrow> source_expr parser" where
  "parseUnary pc rec 0 = timeoutP"
| "parseUnary pc rec (Suc n) =
     peekP pc (\<lambda>t.
       if tkKind t = tokBang \<or> tkKind t = tokMinus then
         bindP (nextP pc) (\<lambda>opTok.
         bindP (parseUnary pc rec n) (\<lambda>ex.
         returnP (UnaryExpr (tkLit opTok) ex (mergeSpans (tkSpan opTok) (SourceSpan ex)))))
       else parsePostfix pc rec)"

definition binaryPrecedence :: "token_kind \<Rightarrow> nat" where
  "binaryPrecedence k =
     (case k of
        tokOrOr \<Rightarrow> 1
      | tokAndAnd \<Rightarrow> 2
      | tokEQ \<Rightarrow> 3 | tokNE \<Rightarrow> 3
      | tokLT \<Rightarrow> 4 | tokLE \<Rightarrow> 4 | tokGT \<Rightarrow> 4 | tokGE \<Rightarrow> 4
      | tokPlus \<Rightarrow> 5 | tokMinus \<Rightarrow> 5
      | tokStar \<Rightarrow> 6 | tokSlash \<Rightarrow> 6
      | _ \<Rightarrow> 0)"

definition binaryTurn ::
  "parse_context \<Rightarrow> sub_parser \<Rightarrow> nat \<Rightarrow> source_expr \<Rightarrow> (source_expr + source_expr) parser" where
  "binaryTurn pc rec minPrec left =
     peekP pc (\<lambda>opTok.
       let prec = binaryPrecedence (tkKind opTok) in
       if prec < minPrec then returnP (Inr left)
       else
         andP (nextP pc) (
         bindP (rec (prec + 1)) (\<lambda>right.
         returnP (Inl (BinaryExpr (tkLit opTok) left right
           (mergeSpans (SourceSpan left) (SourceSpan right)))))))"

definition conditionalTail ::
  "parse_context \<Rightarrow> sub_parser \<Rightarrow> nat \<Rightarrow> source_expr \<Rightarrow> source_expr parser" where
  "conditionalTail pc rec minPrec left =
     peekP pc (\<lambda>t.
       if minPrec = 1 \<and> hasConditionalSourceContract (pcContract pc) \<and> tkKind t = tokQuestion then
         andP (nextP pc) (
         bindP (rec 1) (\<lambda>whenTrue.
         andP (expectP pc tokColon) (
         bindP (rec 1) (\<lambda>whenFalse.
         returnP (ConditionalExpr left whenTrue whenFalse False
           (mergeSpans (SourceSpan left) (SourceSpan whenFalse)))))))
       else returnP left)"

definition exprLevel :: "parse_context \<Rightarrow> sub_parser \<Rightarrow> nat \<Rightarrow> nat \<Rightarrow> source_expr parser" where
  "exprLevel pc rec fuel minPrec =
     bindP (parseUnary pc rec fuel) (\<lambda>left.
     bindP (repeatP fuel (binaryTurn pc rec minPrec) left) (\<lambda>left.
     conditionalTail pc rec minPrec left))"

text \<open>Every level of nesting reads a token, so the fuel is the number of tokens and one more.\<close>

primrec parseExprs :: "parse_context \<Rightarrow> nat \<Rightarrow> nat \<Rightarrow> source_expr parser" where
  "parseExprs pc 0 = (\<lambda>minPrec. timeoutP)"
| "parseExprs pc (Suc n) = (\<lambda>minPrec. exprLevel pc (parseExprs pc n) (Suc n) minPrec)"

definition parseExpr :: "parse_context \<Rightarrow> nat \<Rightarrow> source_expr parser" where
  "parseExpr pc minPrec = parseExprs pc (loopFuel pc) minPrec"

end
