(* ===== verification/SourceShapes.thy ===== *)
theory SourceShapes
  imports SyntaxTree ShapeCounts
begin

text \<open>
  The shapes of method bodies that the language contracts v0.69.0 to v0.115.0 admit
  (pipelang/ast.go): sequences of immutable locals that end in trees of terminal \<open>if/else\<close>
  statements, with bounded nesting of conditional values, and the placement of pure calls. A
  syntax tree has no nil node, so the tests for nil of the code hold.
\<close>

section \<open>Sequences of locals\<close>

abbreviation freeOfLocals :: "source_expr \<Rightarrow> bool" where
  "freeOfLocals e \<equiv> countImmutableLocalExpressions e = 0"

text \<open>The loop over a sequence of locals: its initializers, and the expression after it.\<close>

fun localSequence :: "source_expr \<Rightarrow> source_expr list \<times> source_expr" where
  "localSequence (ImmutableLocalExpr _ _ _ i r _) =
     (case localSequence r of (is, tail) \<Rightarrow> (i # is, tail))"
| "localSequence e = ([], e)"

text \<open>\<open>terminalBranchTail\<close>: all initializers are operands.\<close>

definition terminalBranchTail :: "source_expr \<Rightarrow> (nat \<times> source_expr) option" where
  "terminalBranchTail e =
     (case localSequence e of (is, tail) \<Rightarrow>
        if list_all validConditionalOperand is then Some (length is, tail) else None)"

text \<open>
  \<open>terminalBranchLocalShape\<close>: the number of locals, and whether it is within the limit (\<open>None\<close> for
  a negative limit, which is none). The walk stops at the local that exceeds it.
\<close>

fun branchLocals :: "nat option \<Rightarrow> nat \<Rightarrow> source_expr \<Rightarrow> nat \<times> bool" where
  "branchLocals limit n (ImmutableLocalExpr _ _ _ i r _) =
     (if (case limit of None \<Rightarrow> False | Some l \<Rightarrow> l < n + 1) then (n + 1, False)
      else branchLocals limit (n + 1) r)"
| "branchLocals limit n e = (n, case limit of None \<Rightarrow> True | Some l \<Rightarrow> n \<le> l)"

definition terminalBranchLocalShape :: "source_expr \<Rightarrow> nat option \<Rightarrow> nat \<times> bool" where
  "terminalBranchLocalShape e limit = branchLocals limit 0 e"

section \<open>Nested terminal statements (v0.74.0 to v0.81.0)\<close>

text \<open>A terminal \<open>if/else\<close> whose condition is an operand.\<close>

definition terminalChoice :: "source_expr \<Rightarrow> (source_expr \<times> source_expr) option" where
  "terminalChoice e =
     (case e of
        ConditionalExpr c x y terminal _ \<Rightarrow>
          if terminal \<and> validConditionalOperand c then Some (x, y) else None
      | _ \<Rightarrow> None)"

text \<open>The closures \<open>validOrdinary\<close>, \<open>validInnerLeaf\<close> and \<open>validLeaf\<close>.\<close>

definition validLeaf :: "source_expr \<Rightarrow> bool" where
  "validLeaf branch \<longleftrightarrow>
     (case terminalBranchTail branch of None \<Rightarrow> False
      | Some (_, tail) \<Rightarrow> \<not> isConditionalExpr tail \<and> validConditionalOperand tail)"

definition validNestedWith :: "(source_expr \<Rightarrow> bool) \<Rightarrow> source_expr \<Rightarrow> bool" where
  "validNestedWith leaf branch \<longleftrightarrow>
     (case terminalBranchTail branch of None \<Rightarrow> False
      | Some (_, tail) \<Rightarrow>
          (case terminalChoice tail of None \<Rightarrow> False | Some (x, y) \<Rightarrow> leaf x \<and> leaf y))"

text \<open>One outer statement with exactly one nested statement in one of its branches.\<close>

definition oneNested :: "(source_expr \<Rightarrow> bool) \<Rightarrow> source_expr \<Rightarrow> bool" where
  "oneNested leaf e \<longleftrightarrow>
     (case terminalChoice e of None \<Rightarrow> False
      | Some (x, y) \<Rightarrow>
          countConditionalExpressions e = 2 \<and> countTerminalIfStatements e = 2
          \<and> ((validNestedWith leaf x \<and> validLeaf y) \<or> (validNestedWith leaf y \<and> validLeaf x)))"

definition validV740NestedTerminalIf :: "source_expr \<Rightarrow> bool" where
  "validV740NestedTerminalIf =
     oneNested (\<lambda>x. \<not> isImmutableLocalExpr x \<and> validConditionalOperand x)"

definition validV750NestedTerminalIf :: "source_expr \<Rightarrow> bool" where
  "validV750NestedTerminalIf = oneNested validLeaf"

definition validV760RootLocalNestedTerminalIf :: "source_expr \<Rightarrow> bool" where
  "validV760RootLocalNestedTerminalIf e \<longleftrightarrow>
     (case terminalBranchTail e of None \<Rightarrow> False
      | Some (locals, tail) \<Rightarrow> 0 < locals \<and> validV750NestedTerminalIf tail)"

definition validSymmetricNestedTerminalIf :: "source_expr \<Rightarrow> bool \<Rightarrow> bool" where
  "validSymmetricNestedTerminalIf e requireRoot \<longleftrightarrow>
     (case terminalBranchTail e of None \<Rightarrow> False
      | Some (locals, tail) \<Rightarrow>
          \<not> (requireRoot \<and> locals = 0)
          \<and> (case terminalChoice tail of None \<Rightarrow> False
             | Some (x, y) \<Rightarrow>
                 countConditionalExpressions e = 3 \<and> countTerminalIfStatements e = 3
                 \<and> validNestedWith validLeaf x \<and> validNestedWith validLeaf y))"

definition validV770SymmetricRootLocalNestedTerminalIf :: "source_expr \<Rightarrow> bool" where
  "validV770SymmetricRootLocalNestedTerminalIf e \<longleftrightarrow> validSymmetricNestedTerminalIf e True"

text \<open>
  \<open>validExpandedDepthThreeTerminalIf\<close>: the number of third-level statements of a leaf and of
  an inner statement, or \<open>None\<close> where the code says that it is not valid.
\<close>

definition classifyDepthTwoLeaf :: "source_expr \<Rightarrow> nat option" where
  "classifyDepthTwoLeaf branch =
     (case terminalBranchTail branch of None \<Rightarrow> None
      | Some (_, leaf) \<Rightarrow>
          if \<not> isConditionalExpr leaf then accept (validConditionalOperand leaf)
          else case terminalChoice leaf of None \<Rightarrow> None
            | Some (x, y) \<Rightarrow> if validLeaf x \<and> validLeaf y then Some 1 else None)"

definition classifyInner :: "source_expr \<Rightarrow> nat option" where
  "classifyInner branch =
     (case terminalBranchTail branch of None \<Rightarrow> None
      | Some (_, tail) \<Rightarrow>
          (case terminalChoice tail of None \<Rightarrow> None
           | Some (x, y) \<Rightarrow> total [classifyDepthTwoLeaf x, classifyDepthTwoLeaf y]))"

definition validExpandedDepthThreeTerminalIf :: "source_expr \<Rightarrow> nat \<Rightarrow> bool" where
  "validExpandedDepthThreeTerminalIf e expandedLeaves \<longleftrightarrow>
     (case terminalBranchTail e of None \<Rightarrow> False
      | Some (_, tail) \<Rightarrow>
          (case terminalChoice tail of None \<Rightarrow> False
           | Some (x, y) \<Rightarrow>
               total [classifyInner x, classifyInner y] = Some expandedLeaves
               \<and> countConditionalExpressions e = 3 + expandedLeaves
               \<and> countTerminalIfStatements e = 3 + expandedLeaves))"

definition validV790BoundedDepthThreeTerminalIf :: "source_expr \<Rightarrow> bool" where
  "validV790BoundedDepthThreeTerminalIf e \<longleftrightarrow> validExpandedDepthThreeTerminalIf e 1"

definition validV800TwoExpandedTerminalIf :: "source_expr \<Rightarrow> bool" where
  "validV800TwoExpandedTerminalIf e \<longleftrightarrow> validExpandedDepthThreeTerminalIf e 2"

section \<open>Terminal trees\<close>

text \<open>
  The walk that all later validators repeat. It follows a sequence of locals, then either
  enters the branches of a terminal statement, at most \<open>remaining\<close> deep, or ends at a leaf.
  \<open>initializer\<close>, \<open>test\<close> and \<open>leaf\<close> give \<open>None\<close> where the validator returns false, and
  otherwise how many of the constructs it looks for they have found; a validator that returns
  true has visited the whole tree.
\<close>

fun terminalTree ::
  "(source_expr \<Rightarrow> nat option) \<Rightarrow> (source_expr \<Rightarrow> nat option) \<Rightarrow> (source_expr \<Rightarrow> nat option) \<Rightarrow>
   nat \<Rightarrow> source_expr \<Rightarrow> nat option"
where
  "terminalTree initializer test leaf 0 e =
     (case localSequence e of (is, tail) \<Rightarrow>
        if isTerminalIf tail then None else total (map initializer is @ [leaf tail]))"
| "terminalTree initializer test leaf (Suc remaining) e =
     (case localSequence e of (is, tail) \<Rightarrow>
        (case tail of
           ConditionalExpr c x y True _ \<Rightarrow>
             total (map initializer is @
               [test c, terminalTree initializer test leaf remaining x,
                terminalTree initializer test leaf remaining y])
         | _ \<Rightarrow> total (map initializer is @ [leaf tail])))"

definition validV810TerminalTree :: "source_expr \<Rightarrow> nat \<Rightarrow> bool" where
  "validV810TerminalTree e remaining \<longleftrightarrow>
     terminalTree (\<lambda>i. accept (validConditionalOperand i)) (\<lambda>c. accept (validConditionalOperand c))
       (\<lambda>t. accept (\<not> isConditionalExpr t \<and> validConditionalOperand t)) remaining e \<noteq> None"

text \<open>\<open>validReturnCompositionChoice\<close>: a conditional value with three operands.\<close>

definition validReturnCompositionChoice :: "source_expr \<Rightarrow> bool" where
  "validReturnCompositionChoice choice \<longleftrightarrow>
     (case choice of
        ConditionalExpr c x y terminal _ \<Rightarrow>
          \<not> terminal \<and> validConditionalOperand c \<and> validConditionalOperand x \<and> validConditionalOperand y
      | _ \<Rightarrow> False)"

text \<open>An initializer that is an operand or a choice of operands, and whether it is a choice.\<close>

definition choiceInitializer :: "source_expr \<Rightarrow> nat option" where
  "choiceInitializer i =
     (if isConditionalExpr i then (if validReturnCompositionChoice i then Some 1 else None)
      else accept (validConditionalOperand i))"

text \<open>\<open>maxChoices\<close> is \<open>None\<close> for the bound 0 of the code, which is no bound.\<close>

definition validConditionalLocalTree :: "source_expr \<Rightarrow> nat option \<Rightarrow> bool" where
  "validConditionalLocalTree e maxChoices \<longleftrightarrow>
     containsTerminalIfStatement e
     \<and> (case terminalTree choiceInitializer (\<lambda>c. accept (validConditionalOperand c))
            (\<lambda>t. accept (\<not> isConditionalExpr t \<and> validConditionalOperand t)) 3 e of
          None \<Rightarrow> False
        | Some choices \<Rightarrow>
            0 < choices \<and> (case maxChoices of None \<Rightarrow> True | Some m \<Rightarrow> choices \<le> m))"

definition validV820ConditionalLocalTree :: "source_expr \<Rightarrow> bool" where
  "validV820ConditionalLocalTree e \<longleftrightarrow> validConditionalLocalTree e (Some 1)"

section \<open>Straight-line bodies\<close>

text \<open>A sequence of locals, and a test of what follows it.\<close>

definition straightLine ::
  "(source_expr \<Rightarrow> nat option) \<Rightarrow> (nat \<Rightarrow> nat \<Rightarrow> source_expr \<Rightarrow> bool) \<Rightarrow> source_expr \<Rightarrow> bool" where
  "straightLine initializer final e \<longleftrightarrow>
     (case localSequence e of (is, tail) \<Rightarrow>
        (case total (map initializer is) of None \<Rightarrow> False
         | Some n \<Rightarrow> final (length is) n tail))"

definition validStraightLineConditionalLocals :: "source_expr \<Rightarrow> bool" where
  "validStraightLineConditionalLocals =
     straightLine choiceInitializer (\<lambda>locals choices tail. 0 < choices \<and> validConditionalOperand tail)"

definition validConditionalReturnComposition :: "source_expr \<Rightarrow> bool" where
  "validConditionalReturnComposition =
     straightLine choiceInitializer (\<lambda>locals choices tail.
       0 < locals \<and> isConditionalExpr tail \<and> validReturnCompositionChoice tail)"

text \<open>The closure \<open>walk\<close>: a tree of conditional values of bounded depth over operands.\<close>

fun valueTree :: "nat \<Rightarrow> source_expr \<Rightarrow> bool" where
  "valueTree 0 e = (\<not> isConditionalExpr e \<and> validConditionalOperand e)"
| "valueTree (Suc n) e =
     (case e of
        ConditionalExpr c x y terminal _ \<Rightarrow>
          \<not> terminal \<and> validConditionalOperand c \<and> valueTree n x \<and> valueTree n y
      | _ \<Rightarrow> validConditionalOperand e)"

definition returnTree :: "nat \<Rightarrow> source_expr \<Rightarrow> bool" where
  "returnTree n tail \<longleftrightarrow> isConditionalExpr tail \<and> freeOfLocals tail \<and> valueTree n tail"

definition validNestedStraightLineReturns :: "source_expr \<Rightarrow> bool" where
  "validNestedStraightLineReturns =
     straightLine (\<lambda>i. if freeOfLocals i then choiceInitializer i else None)
       (\<lambda>locals choices tail. returnTree 2 tail)"

definition validNestedStraightLineInitializers :: "source_expr \<Rightarrow> bool" where
  "validNestedStraightLineInitializers =
     straightLine
       (\<lambda>i. accept (freeOfLocals i \<and> (validNestedStraightLineReturns i \<or> validConditionalOperand i)))
       (\<lambda>locals choices tail. 0 < locals \<and> freeOfLocals tail
          \<and> (validNestedStraightLineReturns tail \<or> validConditionalOperand tail))"

definition validDepthThreeStraightLineReturns :: "source_expr \<Rightarrow> bool" where
  "validDepthThreeStraightLineReturns =
     straightLine
       (\<lambda>i. accept (freeOfLocals i \<and> (validConditionalOperand i \<or> validNestedStraightLineReturns i)))
       (\<lambda>locals choices tail. returnTree 3 tail)"

definition validDepthThreeStraightLineInitializers :: "source_expr \<Rightarrow> bool" where
  "validDepthThreeStraightLineInitializers =
     straightLine
       (\<lambda>i. accept (freeOfLocals i \<and> (validConditionalOperand i \<or> validDepthThreeStraightLineReturns i)))
       (\<lambda>locals choices tail. 0 < locals \<and> freeOfLocals tail
          \<and> (validConditionalOperand tail \<or> validDepthThreeStraightLineReturns tail))"

section \<open>Boolean selectors\<close>

text \<open>The condition and the arms of a conditional value that is not a statement.\<close>

definition innerChoice :: "source_expr \<Rightarrow> (source_expr \<times> source_expr \<times> source_expr) option" where
  "innerChoice e =
     (case e of
        ConditionalExpr c x y terminal _ \<Rightarrow> if terminal then None else Some (c, x, y)
      | _ \<Rightarrow> None)"

definition valueChoice :: "source_expr \<Rightarrow> (source_expr \<times> source_expr \<times> source_expr) option" where
  "valueChoice e = (if freeOfLocals e then innerChoice e else None)"

definition validConditionalBooleanSelector :: "source_expr \<Rightarrow> bool" where
  "validConditionalBooleanSelector =
     straightLine
       (\<lambda>i. accept (freeOfLocals i \<and> (validConditionalOperand i \<or> validDepthThreeStraightLineReturns i)))
       (\<lambda>locals choices tail.
          case valueChoice tail of None \<Rightarrow> False
          | Some (c, x, y) \<Rightarrow>
              (case innerChoice c of None \<Rightarrow> False
               | Some (c', x', y') \<Rightarrow> list_all validConditionalOperand [c', x', y', x, y]))"

text \<open>The values that the selector contracts admit at a leaf and as an initializer.\<close>

definition selectorInitializer :: "source_expr \<Rightarrow> nat option" where
  "selectorInitializer i =
     (if \<not> freeOfLocals i then None
      else if validConditionalBooleanSelector i then Some 1
      else accept (validConditionalOperand i \<or> validDepthThreeStraightLineReturns i))"

definition selectorLeaf :: "source_expr \<Rightarrow> bool" where
  "selectorLeaf e \<longleftrightarrow>
     freeOfLocals e \<and> (validConditionalOperand e \<or> validDepthThreeStraightLineReturns e
       \<or> validConditionalBooleanSelector e)"

definition validStraightLineBooleanSelectorInitializers :: "source_expr \<Rightarrow> bool" where
  "validStraightLineBooleanSelectorInitializers =
     straightLine selectorInitializer (\<lambda>locals selectors tail. 0 < selectors \<and> selectorLeaf tail)"

text \<open>
  A statement below another is reached through it, so \<open>hasStatement\<close> is a test of the
  expression after the outermost locals.
\<close>

definition validTerminalBooleanSelectorInitializers :: "source_expr \<Rightarrow> bool" where
  "validTerminalBooleanSelectorInitializers e \<longleftrightarrow>
     found (terminalTree selectorInitializer (\<lambda>c. accept (freeOfLocals c \<and> validConditionalOperand c))
       (\<lambda>t. accept (selectorLeaf t)) 3 e)
     \<and> isTerminalIf (snd (localSequence e))"

section \<open>Terminal-leaf returns\<close>

definition leafInitializer :: "nat \<Rightarrow> nat \<Rightarrow> source_expr \<Rightarrow> nat option" where
  "leafInitializer returnDepth initializerDepth i =
     (if 2 \<le> returnDepth \<and> \<not> freeOfLocals i then None
      else if isConditionalExpr i then
        accept (\<not> ((initializerDepth = 3 \<and> \<not> validDepthThreeStraightLineReturns i)
          \<or> (initializerDepth = 2 \<and> \<not> validNestedStraightLineReturns i)
          \<or> (initializerDepth = 1 \<and> \<not> validReturnCompositionChoice i)))
      else accept (validConditionalOperand i))"

text \<open>The count is of the conditional values that are returned.\<close>

definition leafReturn :: "nat \<Rightarrow> bool \<Rightarrow> source_expr \<Rightarrow> nat option" where
  "leafReturn returnDepth allowSelectors t =
     (if \<not> isConditionalExpr t
      then accept (validConditionalOperand t \<and> (returnDepth = 1 \<or> freeOfLocals t))
      else if (allowSelectors \<and> validConditionalBooleanSelector t)
        \<or> (if returnDepth = 3 then validDepthThreeStraightLineReturns t
           else if returnDepth = 2 then validNestedStraightLineReturns t
           else validReturnCompositionChoice t)
      then Some 1 else None)"

definition validTerminalLeafReturnsWithSelectors :: "source_expr \<Rightarrow> nat \<Rightarrow> nat \<Rightarrow> bool \<Rightarrow> bool" where
  "validTerminalLeafReturnsWithSelectors e returnDepth initializerDepth allowSelectors \<longleftrightarrow>
     containsTerminalIfStatement e
     \<and> (case terminalTree (leafInitializer returnDepth initializerDepth)
            (\<lambda>c. accept (validConditionalOperand c \<and> (returnDepth = 1 \<or> freeOfLocals c)))
            (leafReturn returnDepth allowSelectors) 3 e of
          None \<Rightarrow> False
        | Some returns \<Rightarrow> 0 < returns \<or> 2 \<le> initializerDepth)"

definition validTerminalLeafReturnsDepth :: "source_expr \<Rightarrow> nat \<Rightarrow> nat \<Rightarrow> bool" where
  "validTerminalLeafReturnsDepth e returnDepth initializerDepth \<longleftrightarrow>
     validTerminalLeafReturnsWithSelectors e returnDepth initializerDepth False"

definition validTerminalLeafConditionalReturns :: "source_expr \<Rightarrow> bool" where
  "validTerminalLeafConditionalReturns e \<longleftrightarrow> validTerminalLeafReturnsDepth e 1 1"

definition validNestedTerminalLeafReturns :: "source_expr \<Rightarrow> bool" where
  "validNestedTerminalLeafReturns e \<longleftrightarrow> validTerminalLeafReturnsDepth e 2 1"

definition validNestedTerminalInitializers :: "source_expr \<Rightarrow> bool" where
  "validNestedTerminalInitializers e \<longleftrightarrow> validTerminalLeafReturnsDepth e 2 2"

definition validTerminalLeafBooleanSelectors :: "source_expr \<Rightarrow> bool" where
  "validTerminalLeafBooleanSelectors e \<longleftrightarrow> validTerminalLeafReturnsWithSelectors e 3 3 True"

definition validDepthThreeTerminalLeafReturns :: "source_expr \<Rightarrow> bool" where
  "validDepthThreeTerminalLeafReturns e \<longleftrightarrow> validTerminalLeafReturnsDepth e 3 2"

definition validDepthThreeTerminalInitializers :: "source_expr \<Rightarrow> bool" where
  "validDepthThreeTerminalInitializers e \<longleftrightarrow> validTerminalLeafReturnsDepth e 3 3"

section \<open>Tests that are conditional values\<close>

definition validFlatConditionalTest :: "source_expr \<Rightarrow> bool" where
  "validFlatConditionalTest e \<longleftrightarrow>
     (case valueChoice e of None \<Rightarrow> False
      | Some (c, x, y) \<Rightarrow> list_all validConditionalOperand [c, x, y])"

definition armOr :: "(source_expr \<Rightarrow> bool) \<Rightarrow> source_expr \<Rightarrow> bool" where
  "armOr P e \<longleftrightarrow> validConditionalOperand e \<or> P e"

definition validNestedConditionalTest :: "source_expr \<Rightarrow> bool" where
  "validNestedConditionalTest e \<longleftrightarrow>
     (case valueChoice e of None \<Rightarrow> False
      | Some (c, x, y) \<Rightarrow>
          validConditionalOperand c \<and> list_all (armOr validFlatConditionalTest) [x, y])"

definition validDepthThreeConditionalTest :: "source_expr \<Rightarrow> bool" where
  "validDepthThreeConditionalTest e \<longleftrightarrow>
     (case valueChoice e of None \<Rightarrow> False
      | Some (c, x, y) \<Rightarrow>
          validConditionalOperand c \<and> list_all (armOr validNestedConditionalTest) [x, y])"

text \<open>Arms, each an operand or a flat conditional, at least one of them flat.\<close>

definition flatArm :: "source_expr list \<Rightarrow> bool" where
  "flatArm arms \<longleftrightarrow>
     list_all (armOr validFlatConditionalTest) arms \<and> list_ex validFlatConditionalTest arms"

definition validSelectorValueArmTest :: "source_expr \<Rightarrow> bool" where
  "validSelectorValueArmTest e \<longleftrightarrow>
     (case valueChoice e of None \<Rightarrow> False
      | Some (c, x, y) \<Rightarrow> validFlatConditionalTest c \<and> flatArm [x, y])"

definition validInnerSelectorArmTest :: "source_expr \<Rightarrow> bool" where
  "validInnerSelectorArmTest e \<longleftrightarrow>
     (case valueChoice e of None \<Rightarrow> False
      | Some (c, x, y) \<Rightarrow>
          validConditionalOperand x \<and> validConditionalOperand y
          \<and> (case innerChoice c of None \<Rightarrow> False
             | Some (c', x', y') \<Rightarrow> validConditionalOperand c' \<and> flatArm [x', y']))"

definition validCombinedSelectorArmTest :: "source_expr \<Rightarrow> bool" where
  "validCombinedSelectorArmTest e \<longleftrightarrow>
     (case valueChoice e of None \<Rightarrow> False
      | Some (c, x, y) \<Rightarrow>
          (case innerChoice c of None \<Rightarrow> False
           | Some (c', x', y') \<Rightarrow>
               validConditionalOperand c' \<and> flatArm [x', y'] \<and> flatArm [x, y]))"

text \<open>
  A terminal tree whose tests may be what \<open>wanted\<close> or one of \<open>inherited\<close> admits, with at
  least one test that is \<open>wanted\<close>. Initializers and leaves do not count.
\<close>

definition testWith ::
  "(source_expr \<Rightarrow> bool) \<Rightarrow> (source_expr \<Rightarrow> bool) list \<Rightarrow> source_expr \<Rightarrow> nat option" where
  "testWith wanted inherited c =
     (if freeOfLocals c \<and> (validConditionalOperand c \<or> wanted c \<or> list_ex (\<lambda>P. P c) inherited)
      then Some (if wanted c then 1 else 0) else None)"

definition testTree :: "(source_expr \<Rightarrow> bool) \<Rightarrow> (source_expr \<Rightarrow> bool) list \<Rightarrow> source_expr \<Rightarrow> bool" where
  "testTree wanted inherited e \<longleftrightarrow>
     found (terminalTree (\<lambda>i. map_option (\<lambda>_. 0) (selectorInitializer i)) (testWith wanted inherited)
       (\<lambda>t. accept (selectorLeaf t)) 3 e)"

definition validTerminalConditionalTests :: "source_expr \<Rightarrow> bool" where
  "validTerminalConditionalTests = testTree validFlatConditionalTest []"

definition validNestedTerminalConditionalTests :: "source_expr \<Rightarrow> bool" where
  "validNestedTerminalConditionalTests = testTree validNestedConditionalTest []"

definition validDepthThreeTerminalConditionalTests :: "source_expr \<Rightarrow> bool" where
  "validDepthThreeTerminalConditionalTests = testTree validDepthThreeConditionalTest []"

definition validTerminalBooleanSelectorTests :: "source_expr \<Rightarrow> bool" where
  "validTerminalBooleanSelectorTests =
     testTree validConditionalBooleanSelector [validDepthThreeConditionalTest]"

definition validTerminalSelectorValueArms :: "source_expr \<Rightarrow> bool" where
  "validTerminalSelectorValueArms =
     testTree validSelectorValueArmTest
       [validConditionalBooleanSelector, validDepthThreeConditionalTest]"

definition validTerminalInnerSelectorArms :: "source_expr \<Rightarrow> bool" where
  "validTerminalInnerSelectorArms =
     testTree validInnerSelectorArmTest
       [validSelectorValueArmTest, validConditionalBooleanSelector, validDepthThreeConditionalTest]"

definition combinedTests :: "(source_expr \<Rightarrow> bool) list" where
  "combinedTests =
     [validInnerSelectorArmTest, validSelectorValueArmTest, validConditionalBooleanSelector,
      validDepthThreeConditionalTest]"

definition validTerminalCombinedSelectorArms :: "source_expr \<Rightarrow> bool" where
  "validTerminalCombinedSelectorArms = testTree validCombinedSelectorArmTest combinedTests"

definition validStraightLineSelectorValueArms :: "source_expr \<Rightarrow> bool" where
  "validStraightLineSelectorValueArms =
     straightLine (\<lambda>i. map_option (\<lambda>_. 0) (selectorInitializer i))
       (\<lambda>locals choices tail. validSelectorValueArmTest tail)"

definition validTerminalLeafSelectorValueArms :: "source_expr \<Rightarrow> bool" where
  "validTerminalLeafSelectorValueArms e \<longleftrightarrow>
     containsTerminalIfStatement e
     \<and> found (terminalTree (\<lambda>i. map_option (\<lambda>_. 0) (selectorInitializer i))
         (\<lambda>c. map_option (\<lambda>_. 0) (testWith validCombinedSelectorArmTest combinedTests c))
         (\<lambda>t. if freeOfLocals t \<and> validSelectorValueArmTest t then Some 1
              else accept (selectorLeaf t)) 3 e)"

section \<open>Terminal statements by contract\<close>

text \<open>The one terminal statement of v0.69.0 to v0.73.0, after a sequence of locals.\<close>

definition validOneTerminalStatement :: "language_contract \<Rightarrow> source_expr \<Rightarrow> bool" where
  "validOneTerminalStatement contract e \<longleftrightarrow>
     (case localSequence e of (is, current) \<Rightarrow>
        (case current of
           ConditionalExpr _ x y terminal _ \<Rightarrow>
             terminal \<and>
             (let limit =
                    (if hasGeneralBranchLocalSequenceSourceContract contract then None
                     else if hasTwoBranchLocalsSourceContract contract then Some 2
                     else if hasBranchLocalSourceContract contract then Some 1 else Some 0);
                  (trueLocals, validTrue) = terminalBranchLocalShape x limit;
                  (falseLocals, validFalse) = terminalBranchLocalShape y limit;
                  conditionals = countConditionalExpressions e
              in (if contract = 73 then 0 else 1) \<le> length is
                 \<and> countImmutableLocalExpressions e = length is + (trueLocals + falseLocals)
                 \<and> countTerminalIfStatements e = 1 \<and> 1 \<le> conditionals \<and> conditionals \<le> 2
                 \<and> validTrue \<and> validFalse \<and> validConditionalExpressions e)
         | _ \<Rightarrow> False))"

text \<open>The recursion of the code on the contract, from v0.87.0 downwards.\<close>

definition validTerminalIf74 :: "language_contract \<Rightarrow> source_expr \<Rightarrow> bool" where
  "validTerminalIf74 c e \<longleftrightarrow>
     (if c = 75 then validOneTerminalStatement 73 e \<or> validV750NestedTerminalIf e
      else if c = 74 then validOneTerminalStatement 73 e \<or> validV740NestedTerminalIf e
      else validOneTerminalStatement c e)"

definition validTerminalIf80 :: "language_contract \<Rightarrow> source_expr \<Rightarrow> bool" where
  "validTerminalIf80 c e \<longleftrightarrow>
     (let at76 = validTerminalIf74 75 e \<or> validV760RootLocalNestedTerminalIf e;
          at77 = at76 \<or> validV770SymmetricRootLocalNestedTerminalIf e;
          at78 = at77 \<or> validSymmetricNestedTerminalIf e False;
          at79 = at78 \<or> validV790BoundedDepthThreeTerminalIf e;
          at80 = at79 \<or> validV800TwoExpandedTerminalIf e
      in if c = 80 then at80 else if c = 79 then at79 else if c = 78 then at78
         else if c = 77 then at77 else if c = 76 then at76 else validTerminalIf74 c e)"

definition validTerminalIf87 :: "language_contract \<Rightarrow> source_expr \<Rightarrow> bool" where
  "validTerminalIf87 c e \<longleftrightarrow>
     (let at81 = validV810TerminalTree e 3 \<or> validTerminalIf80 80 e;
          at82 = validV820ConditionalLocalTree e \<or> at81;
          at83 = validConditionalLocalTree e (Some 2) \<or> at82;
          at84 = validConditionalLocalTree e None \<or> at83;
          at87 = validTerminalLeafConditionalReturns e \<or> at84
      in if 87 \<le> c \<and> c \<le> 115 then at87 else if 84 \<le> c \<and> c \<le> 86 then at84
         else if c = 83 then at83 else if c = 82 then at82 else if c = 81 then at81
         else validTerminalIf80 c e)"

definition laterTerminalShapes :: "(nat \<times> (source_expr \<Rightarrow> bool)) list" where
  "laterTerminalShapes =
     [(111, validTerminalLeafSelectorValueArms), (110, validStraightLineSelectorValueArms),
      (109, validTerminalCombinedSelectorArms), (108, validTerminalInnerSelectorArms),
      (107, validTerminalSelectorValueArms), (106, validTerminalBooleanSelectorTests),
      (105, validDepthThreeTerminalConditionalTests), (104, validNestedTerminalConditionalTests),
      (103, validTerminalConditionalTests), (102, validTerminalBooleanSelectorInitializers),
      (99, validTerminalLeafBooleanSelectors), (97, validDepthThreeTerminalInitializers),
      (94, validDepthThreeTerminalLeafReturns), (91, validNestedTerminalInitializers),
      (89, validNestedTerminalLeafReturns)]"

definition validTerminalIfStatement :: "language_contract \<Rightarrow> source_expr \<Rightarrow> bool" where
  "validTerminalIfStatement contract e \<longleftrightarrow>
     list_ex (\<lambda>(first, shape). first \<le> contract \<and> contract \<le> 115 \<and> shape e) laterTerminalShapes
     \<or> validTerminalIf87 contract e"

section \<open>Placement of pure calls\<close>

function validPureCallPlacement :: "source_expr \<Rightarrow> bool" where
  "validPureCallPlacement e \<longleftrightarrow>
     (if \<not> containsCallExpression e then True
      else isCallExpr e \<and> list_all validPureCallPlacement (expressionChildren e))"
  by pat_completeness auto
termination
  by (relation "measure size") (use expressionChildren_size in auto)

definition isIdentExpr :: "source_expr \<Rightarrow> bool" where
  "isIdentExpr e \<longleftrightarrow> (case e of IdentExpr _ _ \<Rightarrow> True | _ \<Rightarrow> False)"

lemma set_tlD: "x \<in> set (tl xs) \<Longrightarrow> x \<in> set xs"
  by (cases xs) auto

text \<open>The bodies of a match are its children after the first, which is the carrier.\<close>

function validGeneralPureCallPlacement :: "source_expr \<Rightarrow> bool" where
  "validGeneralPureCallPlacement e \<longleftrightarrow>
     (if isPropagateExpr e then list_all isIdentExpr (expressionChildren e)
      else if isMatchExpr e then
        isIdentExpr (hd (expressionChildren e))
        \<and> list_all validGeneralPureCallPlacement (tl (expressionChildren e))
      else list_all validGeneralPureCallPlacement (expressionChildren e))"
  by pat_completeness auto
termination
  by (relation "measure size") (use expressionChildren_size in \<open>auto dest: set_tlD\<close>)

declare validPureCallPlacement.simps [simp del] validGeneralPureCallPlacement.simps [simp del]

definition validHelperCarrierMatchPureCallPlacement :: "source_expr \<Rightarrow> bool" where
  "validHelperCarrierMatchPureCallPlacement e \<longleftrightarrow>
     (case e of
        MatchExpr (CallExpr _ _ arguments _ _) arms _ \<Rightarrow>
          if arguments = [] then validGeneralPureCallPlacement e
          else list_all isIdentExpr arguments
            \<and> list_all (\<lambda>a. validGeneralPureCallPlacement (smBody a)) arms
      | _ \<Rightarrow> validGeneralPureCallPlacement e)"

definition validHelperCarrierMatchLocalPureCallPlacement :: "source_expr \<Rightarrow> bool" where
  "validHelperCarrierMatchLocalPureCallPlacement e \<longleftrightarrow>
     (case e of
        ImmutableLocalExpr _ _ _ (MatchExpr v arms sp) r _ \<Rightarrow>
          validHelperCarrierMatchPureCallPlacement (MatchExpr v arms sp)
          \<and> validGeneralPureCallPlacement r
      | _ \<Rightarrow> validHelperCarrierMatchPureCallPlacement e)"

fun validHelperCarrierMatchLocalSequence :: "source_expr \<Rightarrow> bool" where
  "validHelperCarrierMatchLocalSequence (ImmutableLocalExpr _ _ _ i r _) \<longleftrightarrow>
     (if isMatchExpr i then validHelperCarrierMatchPureCallPlacement i
      else validGeneralPureCallPlacement i)
     \<and> (if isImmutableLocalExpr r then validHelperCarrierMatchLocalSequence r
        else validGeneralPureCallPlacement r)"
| "validHelperCarrierMatchLocalSequence e \<longleftrightarrow> validGeneralPureCallPlacement e"

definition validHelperCarrierMatchLaterLocalPureCallPlacement :: "source_expr \<Rightarrow> bool" where
  "validHelperCarrierMatchLaterLocalPureCallPlacement e \<longleftrightarrow>
     (if isImmutableLocalExpr e then validHelperCarrierMatchLocalSequence e
      else validHelperCarrierMatchPureCallPlacement e)"

end
