(* ===== verification/BodyParser.thy ===== *)
theory BodyParser
  imports ExprParser SourceShapes
begin

text \<open>
  The parser of method bodies: arrows, blocks of immutable locals with a return or a terminal
  statement (pipelang/parser.go from \<open>parseMethodBody\<close> to \<open>parseTerminalBranchReturn\<close>), and the
  general blocks of the contracts from v0.114.0 on (pipelang/blocks.go). Of a message with
  arguments the text around them is kept, as in \<open>ExprParser\<close>.
\<close>

definition isWord :: "token \<Rightarrow> string \<Rightarrow> bool" where
  "isWord t w \<longleftrightarrow> tkKind t = tokIdent \<and> tkLit t = w"

text \<open>A diagnostic at a token that does not fit, or at an expression that is not admitted.\<close>

definition rejectAt :: "source_span \<Rightarrow> string \<Rightarrow> 'a parser" where
  "rejectAt sp msg = rejectP (oneDiagnostic CodeUnexpectedToken CategorySyntax sp msg)"

section \<open>Locals\<close>

record local_declaration =
  ldTypeRef :: type_ref
  ldName :: token
  ldInitializer :: source_expr

definition parseLocal :: "parse_context \<Rightarrow> local_declaration parser" where
  "parseLocal pc =
     bindP (parseTypeRef pc) (\<lambda>localType.
     bindP (expectP pc tokIdent) (\<lambda>name.
     andP (expectP pc tokAssign) (
     bindP (parseExpr pc 1) (\<lambda>initializer.
     andP (expectP pc tokSemi) (
     returnP \<lparr>ldTypeRef = localType, ldName = name, ldInitializer = initializer\<rparr>)))))"

text \<open>
  The loop over the locals from the last to the first: each node is the return of the one before,
  from its type, or from the brace for the first, to the end of the block.
\<close>

definition localNode :: "local_declaration \<Rightarrow> source_expr \<Rightarrow> source_span \<Rightarrow> source_expr" where
  "localNode l returned sp =
     ImmutableLocalExpr (ldTypeRef l) (tkLit (ldName l)) (tkSpan (ldName l)) (ldInitializer l) returned sp"

definition wrapLocals ::
  "source_span \<Rightarrow> source_span \<Rightarrow> local_declaration list \<Rightarrow> source_expr \<Rightarrow> source_expr" where
  "wrapLocals start end locals returned =
     (case locals of
        [] \<Rightarrow> returned
      | l # ls \<Rightarrow>
          localNode l
            (foldr (\<lambda>m body. localNode m body (mergeSpans (trSpan (ldTypeRef m)) end)) ls returned)
            (mergeSpans start end))"

section \<open>Terminal statements\<close>

definition parseTerminalBranchReturn ::
  "parse_context \<Rightarrow> string \<Rightarrow> (source_expr \<times> source_span) parser" where
  "parseTerminalBranchReturn pc branch =
     bindP (expectP pc tokIdent) (\<lambda>keyword.
       if tkLit keyword \<noteq> ''return''
       then rejectAt (tkSpan keyword) (''terminal '' @ branch @ '' branch requires return'')
       else
         bindP (parseExpr pc 1) (\<lambda>returned.
         andP (expectP pc tokSemi) (
         bindP (expectP pc tokRBrace) (\<lambda>end.
         returnP (returned, tkSpan end)))))"

text \<open>The loop over the locals of a branch, up to its \<open>return\<close> or its nested \<open>if\<close>.\<close>

definition branchLocalTurn ::
  "parse_context \<Rightarrow> string \<Rightarrow> bool \<Rightarrow> nat option \<Rightarrow> local_declaration list
   \<Rightarrow> (local_declaration list + local_declaration list) parser" where
  "branchLocalTurn pc branch allowNested limit locals =
     peekP pc (\<lambda>t.
       if isWord t ''return'' then returnP (Inr locals)
       else if isWord t ''if'' then
         (if allowNested then returnP (Inr locals)
          else rejectAt (tkSpan t) (''terminal '' @ branch @ '' branch excludes another nested decision''))
       else if limit = Some (length locals)
       then rejectAt (tkSpan t)
         (''terminal '' @ branch @ '' branch permits at most explicitly typed immutable locals before return'')
       else bindP (parseLocal pc) (\<lambda>l. returnP (Inl (locals @ [l]))))"

text \<open>\<open>nested\<close> is the parser of the terminal statement of the next depth.\<close>

definition parseTerminalReturnBranch ::
  "parse_context \<Rightarrow> source_expr parser \<Rightarrow> string \<Rightarrow> nat \<Rightarrow> (source_expr \<times> source_span) parser" where
  "parseTerminalReturnBranch pc nested branch depth =
     bindP (expectP pc tokLBrace) (\<lambda>start.
     peekP pc (\<lambda>t.
       let c = pcContract pc in
       if isWord t ''return'' then parseTerminalBranchReturn pc branch
       else if 0 < depth \<and> \<not> (75 \<le> c \<and> c \<le> 115)
       then rejectAt (tkSpan t) (''v0.74.0 nested terminal '' @ branch @ '' branch requires a direct return'')
       else if \<not> hasBranchLocalSourceContract c
       then rejectAt (tkSpan t) (''v0.69.0 terminal '' @ branch @ '' branch requires return'')
       else
         let limit = (if hasGeneralBranchLocalSequenceSourceContract c then None
                      else if hasTwoBranchLocalsSourceContract c then Some 2 else Some 1);
             allowNested = (depth = 0 \<and> 74 \<le> c \<and> c \<le> 115 \<or> depth = 1 \<and> 79 \<le> c \<and> c \<le> 115) in
         bindP (repeatP (loopFuel pc) (branchLocalTurn pc branch allowNested limit) []) (\<lambda>locals.
         peekP pc (\<lambda>t.
           bindP (if allowNested \<and> isWord t ''if''
                  then bindP nested (\<lambda>returned.
                       bindP (expectP pc tokRBrace) (\<lambda>branchEnd.
                       returnP (returned, tkSpan branchEnd)))
                  else parseTerminalBranchReturn pc branch) (\<lambda>(returned, end).
           returnP (wrapLocals (tkSpan start) end locals returned, end))))))"

text \<open>\<open>parseTerminalIfElse\<close>, which nests twice at most: a third level has no nested parser.\<close>

definition terminalIfElse ::
  "parse_context \<Rightarrow> source_expr parser \<Rightarrow> nat \<Rightarrow> source_expr parser" where
  "terminalIfElse pc nested depth =
     bindP (expectP pc tokIdent) (\<lambda>start.
       if tkLit start \<noteq> ''if'' then rejectAt (tkSpan start) ''expected if''
       else
         andP (expectP pc tokLParen) (
         bindP (parseExpr pc 1) (\<lambda>condition.
         andP (expectP pc tokRParen) (
         bindP (parseTerminalReturnBranch pc nested ''if'' depth) (\<lambda>(whenTrue, _).
         bindP (expectP pc tokIdent) (\<lambda>elseKeyword.
           if tkLit elseKeyword \<noteq> ''else'' then rejectAt (tkSpan elseKeyword) ''expected else''
           else
             bindP (parseTerminalReturnBranch pc nested ''else'' depth) (\<lambda>(whenFalse, end).
             returnP (ConditionalExpr condition whenTrue whenFalse True
               (mergeSpans (tkSpan start) end)))))))))"

primrec parseTerminalIfElses :: "parse_context \<Rightarrow> nat \<Rightarrow> nat \<Rightarrow> source_expr parser" where
  "parseTerminalIfElses pc 0 depth = timeoutP"
| "parseTerminalIfElses pc (Suc n) depth =
     terminalIfElse pc (parseTerminalIfElses pc n (Suc depth)) depth"

definition parseTerminalIfElse :: "parse_context \<Rightarrow> source_expr parser" where
  "parseTerminalIfElse pc = parseTerminalIfElses pc 3 0"

section \<open>Method bodies before general blocks\<close>

text \<open>The arrow form, and what it does not admit under the contracts of the block forms.\<close>

definition parseArrowBody :: "parse_context \<Rightarrow> (source_expr \<times> source_span) parser" where
  "parseArrowBody pc =
     andP (expectP pc tokArrow) (
     bindP (parseExpr pc 1) (\<lambda>e.
     bindP (expectP pc tokSemi) (\<lambda>end.
       let c = pcContract pc; reject = rejectAt (SourceSpan e) in
       if (c = 93 \<or> c = 94) \<and> validDepthThreeStraightLineReturns e \<and> \<not> validNestedStraightLineReturns e
       then reject ''v0.93.0 depth-three ternary returns require a block-bodied method''
       else if (c = 110 \<or> c = 111) \<and> validStraightLineSelectorValueArms e
       then reject ''v0.110.0 selector value arms require a straight-line block return''
       else if (c = 98 \<or> c = 99) \<and> validConditionalBooleanSelector e
       then reject ''v0.98.0 conditional boolean selectors require a block-bodied method''
       else if 88 \<le> c \<and> c \<le> 91 \<and> 1 < countConditionalExpressions e
       then reject ''v0.88.0 nested ternary returns require a block-bodied method''
       else returnP (e, tkSpan end))))"

text \<open>The loop over the locals of a block, up to its \<open>return\<close> or \<open>if\<close>.\<close>

definition bodyLocalTurn ::
  "parse_context \<Rightarrow> local_declaration list \<Rightarrow> (local_declaration list + local_declaration list) parser" where
  "bodyLocalTurn pc locals =
     peekP pc (\<lambda>t.
       let c = pcContract pc in
       if isWord t ''return'' then
         (if locals = [] \<and> \<not> (88 \<le> c \<and> c \<le> 115)
          then rejectAt (tkSpan t) ''method blocks require at least one immutable local declaration''
          else returnP (Inr locals))
       else if isWord t ''if'' then
         (if \<not> hasTerminalIfSourceContract c
          then rejectAt (tkSpan t) ''terminal if/else requires language contract v0.69.0''
          else if locals = [] \<and> \<not> (73 \<le> c \<and> c \<le> 115)
          then rejectAt (tkSpan t)
            ''v0.69.0 terminal if/else requires at least one preceding immutable local''
          else returnP (Inr locals))
       else if locals \<noteq> [] \<and> \<not> hasImmutableLocalSequenceSourceContract c
       then rejectAt (tkSpan t) ''expected return after the v0.39.0 immutable local''
       else bindP (parseLocal pc) (\<lambda>l. returnP (Inl (locals @ [l]))))"

text \<open>A block without locals returns a complete conditional value of the shapes of its contract.\<close>

definition zeroLocalReturn :: "language_contract \<Rightarrow> source_expr \<Rightarrow> bool" where
  "zeroLocalReturn c e \<longleftrightarrow>
     110 \<le> c \<and> c \<le> 115 \<and> validStraightLineSelectorValueArms e
     \<or> 98 \<le> c \<and> c \<le> 115 \<and> validConditionalBooleanSelector e
     \<or> validNestedStraightLineReturns e
     \<or> 93 \<le> c \<and> c \<le> 115 \<and> validDepthThreeStraightLineReturns e"

definition parseBodyReturn :: "parse_context \<Rightarrow> local_declaration list \<Rightarrow> source_expr parser" where
  "parseBodyReturn pc locals =
     bindP (expectP pc tokIdent) (\<lambda>returnKeyword.
       if tkLit returnKeyword \<noteq> ''return'' then rejectAt (tkSpan returnKeyword) ''expected return''
       else
         bindP (parseExpr pc 1) (\<lambda>returned.
           if locals = [] \<and> \<not> zeroLocalReturn (pcContract pc) returned
           then rejectAt (SourceSpan returned)
             ''v0.88.0 zero-local straight-line blocks require a complete ternary return through depth two''
           else andP (expectP pc tokSemi) (returnP returned)))"

definition parseLocalBlock :: "parse_context \<Rightarrow> (source_expr \<times> source_span) parser" where
  "parseLocalBlock pc =
     bindP (nextP pc) (\<lambda>start.
     bindP (repeatP (loopFuel pc) (bodyLocalTurn pc) []) (\<lambda>locals.
     peekP pc (\<lambda>t.
     bindP (if isWord t ''if'' then parseTerminalIfElse pc else parseBodyReturn pc locals) (\<lambda>returned.
     bindP (expectP pc tokRBrace) (\<lambda>end.
     returnP (wrapLocals (tkSpan start) (tkSpan end) locals returned, tkSpan end))))))"

definition parsePlainBody :: "parse_context \<Rightarrow> (source_expr \<times> source_span) parser" where
  "parsePlainBody pc =
     peekP pc (\<lambda>t.
       if tkKind t \<noteq> tokLBrace then parseArrowBody pc
       else if \<not> hasImmutableLocalSourceContract (pcContract pc)
       then rejectAt (tkSpan t) ''method blocks require language contract v0.39.0''
       else parseLocalBlock pc)"

section \<open>General blocks\<close>

text \<open>An expression and a semicolon, with the statement from the first token to it.\<close>

definition valueStatement ::
  "parse_context \<Rightarrow> token \<Rightarrow> (source_expr option \<Rightarrow> source_span \<Rightarrow> source_expr source_statement)
   \<Rightarrow> source_expr source_statement parser" where
  "valueStatement pc first statement =
     bindP (parseExpr pc 1) (\<lambda>value.
     bindP (expectP pc tokSemi) (\<lambda>end.
     returnP (statement (Some value) (mergeSpans (tkSpan first) (tkSpan end)))))"

definition parseIfStatement ::
  "parse_context \<Rightarrow> source_expr parser \<Rightarrow> token \<Rightarrow> source_expr source_statement parser" where
  "parseIfStatement pc rec first =
     andP (nextP pc) (
     andP (expectP pc tokLParen) (
     bindP (parseExpr pc 1) (\<lambda>condition.
     andP (expectP pc tokRParen) (
     bindP rec (\<lambda>thenBlock.
     peekP pc (\<lambda>t.
       let statement = SourceStatement ''if'' False None [] zeroSpan (Some condition) (Some thenBlock) in
       if isWord t ''else''
       then andP (nextP pc) (bindP rec (\<lambda>elseBlock.
              returnP (statement (Some elseBlock) (mergeSpans (tkSpan first) (SourceSpan elseBlock)))))
       else returnP (statement None (mergeSpans (tkSpan first) (SourceSpan thenBlock)))))))))"

definition parseLocalStatement :: "parse_context \<Rightarrow> token \<Rightarrow> source_expr source_statement parser" where
  "parseLocalStatement pc first =
     (let mutable = pcContract pc = 115 \<and> isWord first ''mutable'' in
      andP (if mutable then andP (nextP pc) (returnP ()) else returnP ()) (
      bindP (parseTypeRef pc) (\<lambda>t.
      bindP (expectP pc tokIdent) (\<lambda>name.
      let statement = (\<lambda>value sp.
            SourceStatement ''local'' mutable (Some t) (tkLit name) (tkSpan name) value None None sp) in
      peekP pc (\<lambda>u.
        if pcContract pc = 115 \<and> tkKind u = tokSemi
        then bindP (nextP pc) (\<lambda>end. returnP (statement None (mergeSpans (tkSpan first) (tkSpan end))))
        else andP (expectP pc tokAssign) (valueStatement pc first statement))))))"

definition parseStatement ::
  "parse_context \<Rightarrow> source_expr parser \<Rightarrow> source_expr source_statement parser" where
  "parseStatement pc rec =
     peekP pc (\<lambda>first. peekAtP pc 1 (\<lambda>second.
       if tkKind first = tokLBrace then
         bindP rec (\<lambda>block.
         returnP (SourceStatement ''block'' False None [] zeroSpan None (Some block) None
           (mergeSpans (tkSpan first) (SourceSpan block))))
       else if isWord first ''if'' then parseIfStatement pc rec first
       else if isWord first ''return'' then
         andP (nextP pc) (valueStatement pc first (\<lambda>value sp.
           SourceStatement ''return'' False None [] zeroSpan value None None sp))
       else if pcContract pc = 115 \<and> tkKind first = tokIdent \<and> tkKind second = tokAssign then
         andP (nextP pc) (andP (nextP pc) (valueStatement pc first (\<lambda>value sp.
           SourceStatement ''assign'' False None (tkLit first) (tkSpan first) value None None sp)))
       else parseLocalStatement pc first))"

definition statementTurn ::
  "parse_context \<Rightarrow> source_expr parser \<Rightarrow> source_expr source_statement list
   \<Rightarrow> (source_expr source_statement list + source_expr source_statement list) parser" where
  "statementTurn pc rec statements =
     peekP pc (\<lambda>t.
       if tkKind t = tokRBrace then returnP (Inr statements)
       else bindP (parseStatement pc rec) (\<lambda>s. returnP (Inl (statements @ [s]))))"

definition generalBlock :: "parse_context \<Rightarrow> source_expr parser \<Rightarrow> source_expr parser" where
  "generalBlock pc rec =
     bindP (expectP pc tokLBrace) (\<lambda>start.
     bindP (repeatP (loopFuel pc) (statementTurn pc rec) []) (\<lambda>statements.
     bindP (expectP pc tokRBrace) (\<lambda>end.
     returnP (BlockExpr statements (mergeSpans (tkSpan start) (tkSpan end))))))"

primrec parseGeneralBlocks :: "parse_context \<Rightarrow> nat \<Rightarrow> source_expr parser" where
  "parseGeneralBlocks pc 0 = timeoutP"
| "parseGeneralBlocks pc (Suc n) = generalBlock pc (parseGeneralBlocks pc n)"

definition parseGeneralBlock :: "parse_context \<Rightarrow> source_expr parser" where
  "parseGeneralBlock pc = parseGeneralBlocks pc (loopFuel pc)"

section \<open>Method bodies\<close>

definition containsPropagationExpression :: "source_expr \<Rightarrow> bool" where
  "containsPropagationExpression e \<longleftrightarrow> containsNode isPropagateExpr e"

text \<open>
  From v0.114.0 on a block is a general block, unless it propagates a result: then it is read
  again from its brace under v0.113.0.
\<close>

definition parseMethodBody :: "parse_context \<Rightarrow> (source_expr \<times> source_span) parser" where
  "parseMethodBody pc =
     peekP pc (\<lambda>t.
       if (pcContract pc = 114 \<or> pcContract pc = 115) \<and> tkKind t = tokLBrace then
         (\<lambda>saved.
            (case parseGeneralBlock pc saved of
               Parsed b i \<Rightarrow>
                 if containsPropagationExpression b
                 then parsePlainBody (pc\<lparr>pcContract := 113\<rparr>) saved
                 else Parsed (b, SourceSpan b) i
             | Rejected d \<Rightarrow> Rejected d
             | ParsePanic \<Rightarrow> ParsePanic
             | ParseTimeout \<Rightarrow> ParseTimeout))
       else parsePlainBody pc)"

end
