(* ===== verification/DeclParser.thy ===== *)
theory DeclParser
  imports BodyParser
begin

text \<open>
  The declarations of PipeLang and their parser (pipelang/ast.go, pipelang/enums.go and
  pipelang/parser.go from \<open>Parse\<close> to \<open>parseClass\<close>): interfaces, classes, records and enums, their
  annotations, fields and methods, and the files they come from.
\<close>

section \<open>Declarations\<close>

type_synonym visibility = string

definition VisibilityPublic :: visibility where "VisibilityPublic = ''public''"

definition VisibilityPrivate :: visibility where "VisibilityPrivate = ''private''"

definition normalizeVisibility :: "visibility \<Rightarrow> visibility" where
  "normalizeVisibility v = (if v = VisibilityPrivate then VisibilityPrivate else VisibilityPublic)"

record annotation =
  annName :: string
  annValue :: source_value
  annSpan :: source_span

record source_param =
  prmType :: type_ref
  prmName :: string
  prmSpan :: source_span

record field_sig =
  fsgVisibility :: visibility
  fsgAnnotations :: "annotation list"
  fsgType :: type_ref
  fsgName :: string
  fsgSpan :: source_span

record method_sig =
  msgVisibility :: visibility
  msgAnnotations :: "annotation list"
  msgReturnType :: type_ref
  msgName :: string
  msgParams :: "source_param list"
  msgSpan :: source_span

record field_decl =
  fdlVisibility :: visibility
  fdlAnnotations :: "annotation list"
  fdlType :: type_ref
  fdlName :: string
  fdlDefault :: "source_expr option"
  fdlSpan :: source_span

record method_decl =
  mdlVisibility :: visibility
  mdlAnnotations :: "annotation list"
  mdlReturnType :: type_ref
  mdlName :: string
  mdlParams :: "source_param list"
  mdlBody :: source_expr
  mdlSpan :: source_span

record interface_decl =
  ifdName :: string
  ifdVisibility :: visibility
  ifdAnnotations :: "annotation list"
  ifdFields :: "field_sig list"
  ifdMethods :: "method_sig list"
  ifdSpan :: source_span

record class_decl =
  cldName :: string
  cldVisibility :: visibility
  cldAnnotations :: "annotation list"
  cldImplements :: "type_ref option"
  cldFields :: "field_decl list"
  cldMethods :: "method_decl list"
  cldSpan :: source_span

text \<open>\<open>RecordDecl\<close> has the fields of \<open>ClassDecl\<close>.\<close>

type_synonym record_decl = class_decl

record enum_member_decl =
  emdName :: string
  emdTag :: string
  emdSpan :: source_span

record enum_decl =
  endName :: string
  endVisibility :: visibility
  endAnnotations :: "annotation list"
  endMembers :: "enum_member_decl list"
  endSpan :: source_span

text \<open>A program without its sources and modules.\<close>

record source_program =
  sprInterfaces :: "interface_decl list"
  sprClasses :: "class_decl list"
  sprRecords :: "record_decl list"
  sprEnums :: "enum_decl list"
  sprSpan :: source_span

section \<open>Annotations, visibility and headers\<close>

definition parseAnnotationValue :: "parse_context \<Rightarrow> source_value parser" where
  "parseAnnotationValue pc =
     peekP pc (\<lambda>t.
       case tkKind t of
         tokString \<Rightarrow> andP (nextP pc) (returnP ((SyntaxTree.zeroValue TypeString)\<lparr>svString := tkLit t\<rparr>))
       | tokInt \<Rightarrow>
           andP (nextP pc) (case parseInt64 (tkLit t) of
             None \<Rightarrow> rejectP (oneDiagnostic CodeInvalidNumber CategoryLexical (tkSpan t)
               ''invalid integer literal'')
           | Some v \<Rightarrow> returnP ((SyntaxTree.zeroValue TypeInt)\<lparr>svInt := v\<rparr>))
       | tokFloat \<Rightarrow>
           andP (nextP pc) (case parseFloat64 (tkLit t) of
             None \<Rightarrow> rejectP (oneDiagnostic CodeInvalidNumber CategoryLexical (tkSpan t)
               ''invalid float literal'')
           | Some v \<Rightarrow> returnP ((SyntaxTree.zeroValue TypeFloat)\<lparr>svFloat := v\<rparr>))
       | tokBool \<Rightarrow>
           andP (nextP pc) (returnP ((SyntaxTree.zeroValue TypeBool)\<lparr>svBool := (tkLit t = ''true'')\<rparr>))
       | _ \<Rightarrow> errf pc ''expected literal annotation value'')"

definition annotationTurn ::
  "parse_context \<Rightarrow> annotation list \<Rightarrow> (annotation list + annotation list) parser" where
  "annotationTurn pc out =
     peekP pc (\<lambda>t.
       if tkKind t \<noteq> tokLBracket then returnP (Inr out)
       else
         bindP (nextP pc) (\<lambda>start.
         bindP (expectP pc tokIdent) (\<lambda>name.
         andP (expectP pc tokAssign) (
         bindP (parseAnnotationValue pc) (\<lambda>value.
         bindP (expectP pc tokRBracket) (\<lambda>end.
         returnP (Inl (out @ [\<lparr>annName = tkLit name, annValue = value,
           annSpan = mergeSpans (tkSpan start) (tkSpan end)\<rparr>]))))))))"

definition parseAnnotations :: "parse_context \<Rightarrow> annotation list parser" where
  "parseAnnotations pc = repeatP (loopFuel pc) (annotationTurn pc) []"

definition parseOptionalVisibility :: "parse_context \<Rightarrow> visibility parser" where
  "parseOptionalVisibility pc =
     peekP pc (\<lambda>t.
       if tkKind t = tokPublic then andP (nextP pc) (returnP VisibilityPublic)
       else if tkKind t = tokPrivate then andP (nextP pc) (returnP VisibilityPrivate)
       else returnP VisibilityPublic)"

definition paramTurn ::
  "parse_context \<Rightarrow> source_param list \<Rightarrow> (source_param list + source_param list) parser" where
  "paramTurn pc params =
     peekP pc (\<lambda>start.
     bindP (parseTypeRef pc) (\<lambda>t.
     bindP (expectP pc tokIdent) (\<lambda>name.
     let params' = params @ [\<lparr>prmType = t, prmName = tkLit name,
           prmSpan = mergeSpans (tkSpan start) (tkSpan name)\<rparr>] in
     peekP pc (\<lambda>u.
       if tkKind u = tokComma then andP (nextP pc) (returnP (Inl params'))
       else returnP (Inr params')))))"

text \<open>The type and the name of a member, and the parameters of a method.\<close>

definition parseTypedMemberHeader ::
  "parse_context \<Rightarrow> (type_ref \<times> string \<times> source_param list option) parser" where
  "parseTypedMemberHeader pc =
     bindP (parseTypeRef pc) (\<lambda>t.
     bindP (expectP pc tokIdent) (\<lambda>name.
     peekP pc (\<lambda>u.
       if tkKind u \<noteq> tokLParen then returnP (t, tkLit name, None)
       else
         andP (nextP pc) (
         peekP pc (\<lambda>v.
         bindP (if tkKind v \<noteq> tokRParen then repeatP (loopFuel pc) (paramTurn pc) []
                else returnP []) (\<lambda>params.
         andP (expectP pc tokRParen) (returnP (t, tkLit name, Some params))))))))"

section \<open>Members\<close>

text \<open>Bodies that only a public method may have, from the contract that introduced them on.\<close>

type_synonym visibility_gate = "nat \<times> (source_expr \<Rightarrow> bool) \<times> string"

definition sharedGates :: "visibility_gate list" where
  "sharedGates =
     [(111, validTerminalLeafSelectorValueArms, ''v0.111.0 terminal selector result arms require public methods''),
      (110, validStraightLineSelectorValueArms, ''v0.110.0 straight-line selector value arms require a public method''),
      (109, validTerminalCombinedSelectorArms, ''v0.109.0 combined terminal selector arms require a public method''),
      (108, validTerminalInnerSelectorArms, ''v0.108.0 terminal inner-selector arms require a public method''),
      (107, validTerminalSelectorValueArms, ''v0.107.0 terminal selector value arms require a public method''),
      (106, validTerminalBooleanSelectorTests, ''v0.106.0 terminal boolean-selector tests require a public method''),
      (105, validDepthThreeTerminalConditionalTests, ''v0.105.0 nested conditional statement tests require a public method''),
      (104, validNestedTerminalConditionalTests, ''v0.104.0 nested conditional statement tests require a public method''),
      (103, validTerminalConditionalTests, ''v0.103.0 conditional statement tests require a public method'')]"

definition recordGates :: "visibility_gate list" where
  "recordGates =
     (102, validTerminalBooleanSelectorInitializers,
       ''v0.102.0 boolean selector initializers require a public method'') # sharedGates"

definition classGates :: "bool \<Rightarrow> visibility_gate list" where
  "classGates isArrow =
     [(100, \<lambda>e. isArrow \<and> validConditionalBooleanSelector e,
        ''v0.100.0 boolean selector arrows require a public method''),
      (101, validStraightLineBooleanSelectorInitializers,
        ''v0.101.0 boolean selector initializers require a public method'')] @ sharedGates"

definition checkVisibility ::
  "parse_context \<Rightarrow> visibility_gate list \<Rightarrow> visibility \<Rightarrow> source_expr \<Rightarrow> unit parser" where
  "checkVisibility pc gates vis e =
     (case find (\<lambda>(from, shape, _). from \<le> pcContract pc \<and> pcContract pc \<le> 115
              \<and> normalizeVisibility vis \<noteq> VisibilityPublic \<and> shape e) gates of
        Some (_, _, msg) \<Rightarrow> rejectAt (SourceSpan e) msg
      | None \<Rightarrow> returnP ())"

text \<open>A member of a class or of a record: a method with its body, or a field with its default.\<close>

definition parseMethodMember ::
  "parse_context \<Rightarrow> (bool \<Rightarrow> visibility_gate list) \<Rightarrow> token \<Rightarrow> annotation list \<Rightarrow> visibility
   \<Rightarrow> type_ref \<Rightarrow> string \<Rightarrow> source_param list \<Rightarrow> method_decl parser" where
  "parseMethodMember pc gates start anns vis t name params =
     peekP pc (\<lambda>arrow.
     bindP (parseMethodBody pc) (\<lambda>(body, end).
     andP (checkVisibility pc (gates (tkKind arrow = tokArrow)) vis body) (
     returnP \<lparr>mdlVisibility = normalizeVisibility vis, mdlAnnotations = anns, mdlReturnType = t,
       mdlName = name, mdlParams = params, mdlBody = body, mdlSpan = mergeSpans (tkSpan start) end\<rparr>)))"

definition parseFieldMember ::
  "parse_context \<Rightarrow> token \<Rightarrow> annotation list \<Rightarrow> visibility \<Rightarrow> type_ref \<Rightarrow> string \<Rightarrow> field_decl parser" where
  "parseFieldMember pc start anns vis t name =
     peekP pc (\<lambda>u.
     bindP (if tkKind u = tokAssign
            then andP (nextP pc) (bindP (parseExpr pc 1) (\<lambda>e. returnP (Some e)))
            else returnP None) (\<lambda>default.
     bindP (expectP pc tokSemi) (\<lambda>end.
     returnP \<lparr>fdlVisibility = normalizeVisibility vis, fdlAnnotations = anns, fdlType = t,
       fdlName = name, fdlDefault = default, fdlSpan = mergeSpans (tkSpan start) (tkSpan end)\<rparr>)))"

definition memberTurn ::
  "parse_context \<Rightarrow> (bool \<Rightarrow> visibility_gate list) \<Rightarrow> field_decl list \<times> method_decl list
   \<Rightarrow> ((field_decl list \<times> method_decl list) + (field_decl list \<times> method_decl list)) parser" where
  "memberTurn pc gates members =
     peekP pc (\<lambda>start.
       if tkKind start = tokRBrace then returnP (Inr members)
       else
         bindP (parseAnnotations pc) (\<lambda>anns.
         bindP (parseOptionalVisibility pc) (\<lambda>vis.
         bindP (parseTypedMemberHeader pc) (\<lambda>(t, name, header).
           case (header, members) of
             (Some params, fs, ms) \<Rightarrow>
               bindP (parseMethodMember pc gates start anns vis t name params) (\<lambda>m.
               returnP (Inl (fs, ms @ [m])))
           | (None, fs, ms) \<Rightarrow>
               bindP (parseFieldMember pc start anns vis t name) (\<lambda>f.
               returnP (Inl (fs @ [f], ms)))))))"

section \<open>Classes and records\<close>

definition parseImplements :: "parse_context \<Rightarrow> type_ref option parser" where
  "parseImplements pc =
     peekP pc (\<lambda>t.
       if tkKind t = tokColon
       then andP (nextP pc) (bindP (expectP pc tokIdent) (\<lambda>impl.
              returnP (Some (namedRef (tkLit impl) (tkSpan impl)))))
       else returnP None)"

text \<open>What follows the keyword of a class or of a record.\<close>

definition parseClassBody ::
  "parse_context \<Rightarrow> (bool \<Rightarrow> visibility_gate list) \<Rightarrow> visibility \<Rightarrow> annotation list \<Rightarrow> source_span
   \<Rightarrow> class_decl parser" where
  "parseClassBody pc gates vis anns start =
     bindP (expectP pc tokIdent) (\<lambda>name.
     bindP (parseImplements pc) (\<lambda>implements.
     andP (expectP pc tokLBrace) (
     bindP (repeatP (loopFuel pc) (memberTurn pc gates) ([], [])) (\<lambda>(fs, ms).
     bindP (expectP pc tokRBrace) (\<lambda>end.
     returnP \<lparr>cldName = tkLit name, cldVisibility = normalizeVisibility vis, cldAnnotations = anns,
       cldImplements = implements, cldFields = fs, cldMethods = ms,
       cldSpan = mergeSpans start (tkSpan end)\<rparr>)))))"

definition parseClass ::
  "parse_context \<Rightarrow> visibility \<Rightarrow> annotation list \<Rightarrow> source_span \<Rightarrow> class_decl parser" where
  "parseClass pc vis anns start =
     peekP pc (\<lambda>t.
       if tkKind t = tokClass \<or> tkKind t = tokStruct
       then andP (nextP pc) (parseClassBody pc classGates vis anns start)
       else errf pc ''expected Class or Struct'')"

definition parseRecord ::
  "parse_context \<Rightarrow> visibility \<Rightarrow> annotation list \<Rightarrow> source_span \<Rightarrow> record_decl parser" where
  "parseRecord pc vis anns start =
     bindP (expectP pc tokIdent) (\<lambda>keyword.
       if tkLit keyword \<noteq> ''Record'' then rejectAt (tkSpan keyword) ''expected Record''
       else parseClassBody pc (\<lambda>_. recordGates) vis anns start)"

section \<open>Interfaces and enums\<close>

definition signatureTurn ::
  "parse_context \<Rightarrow> field_sig list \<times> method_sig list
   \<Rightarrow> ((field_sig list \<times> method_sig list) + (field_sig list \<times> method_sig list)) parser" where
  "signatureTurn pc members =
     peekP pc (\<lambda>start.
       if tkKind start = tokRBrace then returnP (Inr members)
       else
         bindP (parseAnnotations pc) (\<lambda>anns.
         bindP (parseOptionalVisibility pc) (\<lambda>vis.
         bindP (parseTypedMemberHeader pc) (\<lambda>(t, name, header).
         bindP (expectP pc tokSemi) (\<lambda>end.
         let sp = mergeSpans (tkSpan start) (tkSpan end) in
           case (header, members) of
             (Some params, fs, ms) \<Rightarrow>
               returnP (Inl (fs, ms @
                 [\<lparr>msgVisibility = normalizeVisibility vis, msgAnnotations = anns, msgReturnType = t,
                   msgName = name, msgParams = params, msgSpan = sp\<rparr>]))
           | (None, fs, ms) \<Rightarrow>
               returnP (Inl (fs @
                 [\<lparr>fsgVisibility = normalizeVisibility vis, fsgAnnotations = anns, fsgType = t,
                   fsgName = name, fsgSpan = sp\<rparr>], ms)))))))"

definition parseInterface ::
  "parse_context \<Rightarrow> visibility \<Rightarrow> annotation list \<Rightarrow> source_span \<Rightarrow> interface_decl parser" where
  "parseInterface pc vis anns start =
     andP (expectP pc tokInterface) (
     bindP (expectP pc tokIdent) (\<lambda>name.
     andP (expectP pc tokLBrace) (
     bindP (repeatP (loopFuel pc) (signatureTurn pc) ([], [])) (\<lambda>(fs, ms).
     bindP (expectP pc tokRBrace) (\<lambda>end.
     returnP \<lparr>ifdName = tkLit name, ifdVisibility = normalizeVisibility vis, ifdAnnotations = anns,
       ifdFields = fs, ifdMethods = ms, ifdSpan = mergeSpans start (tkSpan end)\<rparr>)))))"

definition enumMemberTurn ::
  "parse_context \<Rightarrow> enum_member_decl list \<Rightarrow> (enum_member_decl list + enum_member_decl list) parser" where
  "enumMemberTurn pc members =
     peekP pc (\<lambda>t.
       if tkKind t = tokRBrace then returnP (Inr members)
       else
         bindP (expectP pc tokIdent) (\<lambda>member.
         andP (expectP pc tokAssign) (
         bindP (expectP pc tokString) (\<lambda>tag.
         bindP (expectP pc tokSemi) (\<lambda>end.
         returnP (Inl (members @ [\<lparr>emdName = tkLit member, emdTag = tkLit tag,
           emdSpan = mergeSpans (tkSpan member) (tkSpan end)\<rparr>])))))))"

definition parseEnum ::
  "parse_context \<Rightarrow> visibility \<Rightarrow> annotation list \<Rightarrow> source_span \<Rightarrow> enum_decl parser" where
  "parseEnum pc vis anns start =
     andP (nextP pc) (
     bindP (expectP pc tokIdent) (\<lambda>name.
     andP (expectP pc tokLBrace) (
     bindP (repeatP (loopFuel pc) (enumMemberTurn pc) []) (\<lambda>members.
     bindP (expectP pc tokRBrace) (\<lambda>end.
     returnP \<lparr>endName = tkLit name, endVisibility = normalizeVisibility vis, endAnnotations = anns,
       endMembers = members, endSpan = mergeSpans start (tkSpan end)\<rparr>)))))"

section \<open>Files\<close>

definition declarationTurn ::
  "parse_context \<Rightarrow> source_program \<Rightarrow> (source_program + source_program) parser" where
  "declarationTurn pc prog =
     peekP pc (\<lambda>declStart.
       if tkKind declStart = tokEOF then returnP (Inr prog)
       else
         bindP (parseAnnotations pc) (\<lambda>anns.
         bindP (parseOptionalVisibility pc) (\<lambda>vis.
         peekP pc (\<lambda>t.
           if tkKind t = tokInterface then
             bindP (parseInterface pc vis anns (tkSpan declStart)) (\<lambda>d.
             returnP (Inl (prog\<lparr>sprInterfaces := sprInterfaces prog @ [d]\<rparr>)))
           else if tkKind t = tokClass \<or> tkKind t = tokStruct then
             bindP (parseClass pc vis anns (tkSpan declStart)) (\<lambda>d.
             returnP (Inl (prog\<lparr>sprClasses := sprClasses prog @ [d]\<rparr>)))
           else if isWord t ''Enum'' \<and> 113 \<le> pcContract pc \<and> pcContract pc \<le> 115 then
             bindP (parseEnum pc vis anns (tkSpan declStart)) (\<lambda>d.
             returnP (Inl (prog\<lparr>sprEnums := sprEnums prog @ [d]\<rparr>)))
           else if isWord t ''Record'' \<and> hasPrimitiveRecordSourceContract (pcContract pc) then
             bindP (parseRecord pc vis anns (tkSpan declStart)) (\<lambda>d.
             returnP (Inl (prog\<lparr>sprRecords := sprRecords prog @ [d]\<rparr>)))
           else errf pc ''expected Interface, Class, or Struct''))))"

definition parseProgram :: "parse_context \<Rightarrow> source_program parser" where
  "parseProgram pc =
     repeatP (loopFuel pc) (declarationTurn pc)
       \<lparr>sprInterfaces = [], sprClasses = [], sprRecords = [], sprEnums = [],
        sprSpan = spanAt (pcFile pc) 0 (pcEnd pc)\<rparr>"

text \<open>The parser that \<open>parseSourceFileWithLanguageContract\<close> starts on the tokens of a file.\<close>

definition parserContext ::
  "source_file \<Rightarrow> language_contract \<Rightarrow> bool \<Rightarrow> token list \<Rightarrow> parse_context" where
  "parserContext file c native toks =
     \<lparr>pcFile = sfID file, pcEnd = length (sfText file), pcContract = c, pcNativeStreams = native,
      pcToks = toks\<rparr>"

lemma parserContext_sel [simp]:
  "pcFile (parserContext file c native toks) = sfID file"
  "pcEnd (parserContext file c native toks) = length (sfText file)"
  "pcContract (parserContext file c native toks) = c"
  "pcNativeStreams (parserContext file c native toks) = native"
  "pcToks (parserContext file c native toks) = toks"
  by (simp_all add: parserContext_def)

definition parseSourceFileWithLanguageContract ::
  "source_file \<Rightarrow> language_contract \<Rightarrow> source_program parsed" where
  "parseSourceFileWithLanguageContract file c =
     (case lex file of
        Inl d \<Rightarrow> Rejected d
      | Inr toks \<Rightarrow> parseProgram (parserContext file c False toks) 0)"

definition parseSourceFile :: "source_file \<Rightarrow> source_program parsed" where
  "parseSourceFile file = parseSourceFileWithLanguageContract file 0"

definition CodeInvalidProgram :: string where "CodeInvalidProgram = ''PL3001''"

text \<open>\<open>ParseFile\<close> and \<open>Parse\<close>: one source, whose set may be refused with several diagnostics.\<close>

definition ParseFile :: "string \<Rightarrow> string \<Rightarrow> diagnostic list + source_program parsed" where
  "ParseFile path src =
     (case NewSourceSet [\<lparr>siPath = path, siData = src\<rparr>] of
        (sources, diagnostics) \<Rightarrow>
          if hasErrors diagnostics then Inl diagnostics
          else
            (case ssFiles sources of
               [file] \<Rightarrow> Inr (parseSourceFile file)
             | _ \<Rightarrow> Inr (Rejected (oneDiagnostic CodeInvalidProgram CategorySource
                      \<lparr>spFile = normalizeSourcePath path, spStart = 0, spEnd = 0\<rparr>
                      ''source file is unavailable''))))"

definition Parse :: "string \<Rightarrow> diagnostic list + source_program parsed" where
  "Parse src = ParseFile ''<input>'' src"

end
