(* ===== verification/StreamTypes.thy ===== *)
theory StreamTypes
  imports Text
begin

text \<open>
  The native-stream profile (streamir/stream.go, incremental.go and the types of
  composition.go): types, manifests, bindings, and the expressions and statements of
  composition programs. \<open>regexp\<close> patterns are the tests they denote, and
  \<open>Digest\<close>, which no other function of the package calls, is left out.
\<close>

section \<open>Profiles and types\<close>

definition Profile :: string where "Profile = ''pipelang.native-stream.v1''"
definition CompositionProfile :: string where "CompositionProfile = ''pipelang.native-stream.v2''"
definition IncrementalProfile :: string where "IncrementalProfile = ''pipelang.native-stream.v3''"

definition ABI :: int where "ABI = 1"

text \<open>\<open>NoStreamType\<close> is the empty string, \<open>OtherStreamType\<close> a string the package does not name.\<close>

datatype stream_type =
  ReadStream | WriteStream | StreamInt | StreamBool | StreamUint64 | StreamResult | StreamStatus
  | StreamSession | InputBuffer | OutputBuffer | StreamStep | NoStreamType | OtherStreamType string

section \<open>Statuses and progress\<close>

type_synonym status = "32 word"
type_synonym progress = "32 word"

definition StatusOK :: status where "StatusOK = 0"
definition InvalidArgument :: status where "InvalidArgument = 1"
definition Unsupported :: status where "Unsupported = 3"
definition HostFailure :: status where "HostFailure = 6"
definition Denied :: status where "Denied = 7"

definition NoProgress :: progress where "NoProgress = 0"
definition NeedInput :: progress where "NeedInput = 1"
definition NeedOutput :: progress where "NeedOutput = 2"
definition ProgressDone :: progress where "ProgressDone = 3"

lemmas status_defs = StatusOK_def InvalidArgument_def Unsupported_def HostFailure_def Denied_def
  NoProgress_def NeedInput_def NeedOutput_def ProgressDone_def

definition statusNames :: "string list" where
  "statusNames = [''ok'', ''invalidArgument'', ''invalidStream'', ''unsupported'', ''limitExceeded'',
     ''ioError'', ''hostFailure'', ''denied'']"

fun statusIndex :: "status \<Rightarrow> string \<Rightarrow> string list \<Rightarrow> status \<times> bool" where
  "statusIndex i name [] = (0, False)"
| "statusIndex i name (n # ns) = (if name = n then (i, True) else statusIndex (i + 1) name ns)"

definition ParseStatus :: "string \<Rightarrow> status \<times> bool" where
  "ParseStatus name = statusIndex 0 name statusNames"

section \<open>Programs\<close>

record operation =
  opName :: string
  opID :: string

record manifest =
  mfProfile :: string
  mfPackage :: string
  mfABI :: int
  mfOperations :: "operation list"

record binding =
  bdPackage :: string
  bdManifestSHA256 :: string
  bdOperation :: operation

datatype stream_kind =
  KindVariable | KindBool | KindInt | KindUint64 | KindStatus | KindNative | KindHelper | KindField
  | KindNot | KindConditional | KindBinary | OtherKind string

datatype stream_expr =
  StreamExpr (sxKind: stream_kind) (sxType: stream_type) (sxSlot: int) (sxTarget: int)
    (sxArguments: "stream_expr option list") (sxMember: string) (sxInt: "64 word") (sxUint: "64 word")
    (sxBool: bool) (sxStatus: status)

datatype stream_stmt_kind = KindLocal | KindReturn | KindIf | KindBlock | OtherStatement string

datatype stream_stmt =
  StreamStmt (ssKind: stream_stmt_kind) (ssSlot: int) (ssType: stream_type)
    (ssValue: "stream_expr option") (ssThen: "stream_stmt list") (ssElse: "stream_stmt list")

text \<open>\<open>sfBody\<close> is \<open>None\<close> for a nil slice; \<open>sfArguments\<close> is the array of three.\<close>

record stream_function =
  sfClass :: string
  sfName :: string
  sfParameters :: "stream_type list"
  sfBinding :: int
  sfArguments :: "int \<times> int \<times> int"
  sfPublic :: bool
  sfReturnType :: stream_type
  sfBody :: "stream_stmt list option"

record stream_program =
  spProfile :: string
  spSourceSHA256 :: string
  spBindings :: "binding list"
  spFunctions :: "stream_function list"

definition bodyOf :: "stream_function \<Rightarrow> stream_stmt list" where
  "bodyOf f = (case sfBody f of None \<Rightarrow> [] | Some ss \<Rightarrow> ss)"

section \<open>Names\<close>

definition isLetter :: "char \<Rightarrow> bool" where
  "isLetter c \<longleftrightarrow> byte c \<in> {97..122} \<union> {65..90}"

definition isLower :: "char \<Rightarrow> bool" where "isLower c \<longleftrightarrow> byte c \<in> {97..122}"

definition isDigit :: "char \<Rightarrow> bool" where "isDigit c \<longleftrightarrow> byte c \<in> {48..57}"

text \<open>\<open>^[A-Za-z][A-Za-z0-9_]\{0,63\}$\<close>\<close>

definition isIdentifier :: "string \<Rightarrow> bool" where
  "isIdentifier s \<longleftrightarrow>
     (case s of [] \<Rightarrow> False
      | c # cs \<Rightarrow> isLetter c \<and> length cs \<le> 63
          \<and> list_all (\<lambda>d. isLetter d \<or> isDigit d \<or> d = CHR ''_'') cs)"

text \<open>Two identifiers around a dot; identifiers have no dots, so the first one decides.\<close>

definition isQualified :: "string \<Rightarrow> bool" where
  "isQualified s \<longleftrightarrow>
     (case dropWhile (\<lambda>c. c \<noteq> CHR ''.'') s of [] \<Rightarrow> False
      | _ # rest \<Rightarrow> isIdentifier (takeWhile (\<lambda>c. c \<noteq> CHR ''.'') s) \<and> isIdentifier rest)"

text \<open>\<open>^[a-z][a-z0-9_.-]\{0,127\}$\<close>\<close>

definition isSemantic :: "string \<Rightarrow> bool" where
  "isSemantic s \<longleftrightarrow>
     (case s of [] \<Rightarrow> False
      | c # cs \<Rightarrow> isLower c \<and> length cs \<le> 127
          \<and> list_all (\<lambda>d. isLower d \<or> isDigit d \<or> d \<in> {CHR ''_'', CHR ''.'', CHR ''-''}) cs)"

section \<open>Digests\<close>

text \<open>\<open>hex.DecodeString\<close> and \<open>hex.EncodeToString\<close>, on digit values.\<close>

definition hexValue :: "char \<Rightarrow> nat option" where
  "hexValue c =
     (let n = byte c in
      if 48 \<le> n \<and> n \<le> 57 then Some (n - 48)
      else if 97 \<le> n \<and> n \<le> 102 then Some (n - 87)
      else if 65 \<le> n \<and> n \<le> 70 then Some (n - 55)
      else None)"

definition hexChar :: "nat \<Rightarrow> char" where
  "hexChar n = char_of (if n < 10 then 48 + n else 87 + n)"

fun hexDecode :: "string \<Rightarrow> nat list option" where
  "hexDecode [] = Some []"
| "hexDecode [c] = None"
| "hexDecode (c # d # cs) =
     (case (hexValue c, hexValue d) of
        (Some m, Some n) \<Rightarrow> map_option (\<lambda>bs. (16 * m + n) # bs) (hexDecode cs)
      | _ \<Rightarrow> None)"

fun hexEncode :: "nat list \<Rightarrow> string" where
  "hexEncode [] = []"
| "hexEncode (b # bs) = hexChar (b div 16) # hexChar (b mod 16) # hexEncode bs"

definition ValidDigest :: "string \<Rightarrow> bool" where
  "ValidDigest s \<longleftrightarrow>
     (case hexDecode s of None \<Rightarrow> False | Some b \<Rightarrow> length b = 32 \<and> hexEncode b = s)"

section \<open>Profiles of the host\<close>

definition ManifestProfile :: "string \<Rightarrow> string" where
  "ManifestProfile profile = (if profile = IncrementalProfile then IncrementalProfile else Profile)"

definition NativeSignature :: "string \<Rightarrow> stream_type list \<times> stream_type" where
  "NativeSignature profile =
     (if profile = IncrementalProfile
      then ([StreamSession, InputBuffer, OutputBuffer, StreamBool], StreamStep)
      else ([ReadStream, WriteStream, StreamInt], StreamResult))"

definition ValueType :: "stream_type \<Rightarrow> bool" where
  "ValueType t \<longleftrightarrow>
     t \<in> {StreamInt, StreamBool, StreamUint64, StreamResult, StreamStatus, StreamStep}"

definition ParameterType :: "stream_type \<Rightarrow> bool" where
  "ParameterType t \<longleftrightarrow>
     ValueType t \<or> t \<in> {ReadStream, WriteStream, StreamSession, InputBuffer, OutputBuffer}"

definition ValueTypeFor :: "string \<Rightarrow> stream_type \<Rightarrow> bool" where
  "ValueTypeFor profile t \<longleftrightarrow> ValueType t \<and> (t \<noteq> StreamStep \<or> profile = IncrementalProfile)"

definition ParameterTypeFor :: "string \<Rightarrow> stream_type \<Rightarrow> bool" where
  "ParameterTypeFor profile t \<longleftrightarrow>
     (if t \<in> {StreamSession, InputBuffer, OutputBuffer, StreamStep} then profile = IncrementalProfile
      else ParameterType t)"

definition MemberType :: "string \<Rightarrow> stream_type" where
  "MemberType name =
     (if name = ''ok'' then StreamBool
      else if name = ''status'' then StreamStatus
      else if name \<in> {''inputBytes'', ''outputBytes'', ''chunks''} then StreamUint64
      else NoStreamType)"

definition ResultMemberType :: "stream_type \<Rightarrow> string \<Rightarrow> stream_type" where
  "ResultMemberType t name =
     (if t \<noteq> StreamResult \<and> t \<noteq> StreamStep then NoStreamType
      else if t = StreamStep \<and> name \<in> {''needInput'', ''needOutput'', ''done''} then StreamBool
      else if t = StreamStep \<and> name \<in> {''inputConsumed'', ''outputWritten''} then StreamUint64
      else MemberType name)"

section \<open>Manifests\<close>

text \<open>The loop over the operations, with the names and identities seen.\<close>

fun validateOperations :: "string list \<Rightarrow> string list \<Rightarrow> operation list \<Rightarrow> unit res" where
  "validateOperations names ids [] = Ret ()"
| "validateOperations names ids (x # xs) =
     andThen (rejectIf (\<not> isQualified (opName x) \<or> \<not> isSemantic (opID x) \<or> opName x \<in> set names
         \<or> opID x \<in> set ids) ''invalid or duplicate native-stream operation'')
       (validateOperations (opName x # names) (opID x # ids) xs)"

definition ValidateManifest :: "manifest \<Rightarrow> unit res" where
  "ValidateManifest m =
     andThen (rejectIf ((mfProfile m \<noteq> Profile \<and> mfProfile m \<noteq> IncrementalProfile) \<or> mfABI m \<noteq> ABI
         \<or> \<not> isSemantic (mfPackage m) \<or> mfOperations m = [] \<or> length (mfOperations m) > 64)
       ''invalid native-stream profile, package, ABI or operation count'')
       (validateOperations [] [] (mfOperations m))"

section \<open>What the tests mean\<close>

definition lowerHex :: "char \<Rightarrow> bool" where
  "lowerHex c \<longleftrightarrow> byte c \<in> {48..57} \<union> {97..102}"

lemma validateOperations_Ret:
  "validateOperations names ids xs = Ret () \<longleftrightarrow>
     (\<forall>x \<in> set xs. isQualified (opName x) \<and> isSemantic (opID x)
        \<and> opName x \<notin> set names \<and> opID x \<notin> set ids)
     \<and> distinct (map opName xs) \<and> distinct (map opID xs)"
proof (induction names ids xs rule: validateOperations.induct)
  case (2 names ids x xs)
  show ?case
  proof (cases "isQualified (opName x) \<and> isSemantic (opID x) \<and> opName x \<notin> set names \<and> opID x \<notin> set ids")
    case True
    with 2 have "validateOperations (opName x # names) (opID x # ids) xs = Ret () \<longleftrightarrow>
        (\<forall>y \<in> set xs. isQualified (opName y) \<and> isSemantic (opID y)
           \<and> opName y \<notin> set (opName x # names) \<and> opID y \<notin> set (opID x # ids))
        \<and> distinct (map opName xs) \<and> distinct (map opID xs)" by simp
    with True show ?thesis
      by (auto simp: image_iff eq_commute [of "opName x"] eq_commute [of "opID x"])
  qed auto
qed simp

lemma hexChar_value:
  "hexValue c = Some n \<Longrightarrow> n < 16 \<and> (hexChar n = c \<longleftrightarrow> lowerHex c)"
  by (subst byte_eq_iff [symmetric])
    (auto simp: hexValue_def hexChar_def lowerHex_def Let_def split: if_splits)

lemma lowerHex_value: "lowerHex c \<Longrightarrow> hexValue c \<noteq> None"
  by (auto simp: hexValue_def lowerHex_def Let_def)

lemma hexDecode_encode:
  "hexDecode s = Some b \<Longrightarrow> length s = 2 * length b \<and> (hexEncode b = s \<longleftrightarrow> list_all lowerHex s)"
proof (induction s arbitrary: b rule: hexDecode.induct)
  case (3 c d cs)
  from 3(2) obtain m n bs where h: "hexValue c = Some m" "hexValue d = Some n" "hexDecode cs = Some bs"
      "b = (16 * m + n) # bs"
    by (auto split: option.splits)
  from hexChar_value [OF h(1)] hexChar_value [OF h(2)] 3(1) [OF refl h(1,2,3)] h(4) show ?case by auto
qed simp_all

lemma hexDecode_lower: "even (length s) \<Longrightarrow> list_all lowerHex s \<Longrightarrow> hexDecode s \<noteq> None"
proof (induction s rule: hexDecode.induct)
  case (3 c d cs)
  then obtain m n where "hexValue c = Some m" "hexValue d = Some n" using lowerHex_value by fastforce
  with 3 show ?case by simp
qed simp_all

lemma ValidDigest_iff: "ValidDigest s \<longleftrightarrow> length s = 64 \<and> list_all lowerHex s"
proof (cases "hexDecode s")
  case None
  then show ?thesis using hexDecode_lower [of s] by (auto simp: ValidDigest_def)
next
  case (Some b)
  with hexDecode_encode [OF Some] show ?thesis by (auto simp: ValidDigest_def)
qed

end
