(* ===== verification/StreamCheck.thy ===== *)
theory StreamCheck
  imports StreamTypes
begin

text \<open>
  \<open>Validate\<close> of stream programs (streamir/stream.go) and the composition validator behind it
  (streamir/composition.go): scoping, typing, extents, the call graph and the expanded size of
  every entry.
\<close>

section \<open>The validator's state\<close>

text \<open>
  \<open>nodes\<close> counts over all functions; \<open>slots\<close> holds the slots of the function that have been
  bound anywhere in it, \<open>calls\<close> the helpers it calls, in order.
\<close>

record check_state =
  ckNodes :: nat
  ckSlots :: "int list"
  ckCalls :: "nat list"

definition countNode :: "nat \<Rightarrow> check_state \<Rightarrow> check_state res" where
  "countNode depth st =
     (if ckNodes st + 1 > 8192 \<or> depth > 64 then Err ''composition extent exceeded''
      else Ret (st\<lparr>ckNodes := ckNodes st + 1\<rparr>))"

text \<open>The closure \<open>fail\<close>.\<close>

abbreviation invalidExpr :: "'a res" where "invalidExpr \<equiv> Err ''invalid composition expression''"

section \<open>Expressions\<close>

text \<open>The operand types that \<open>binary\<close> admits for an operator.\<close>

definition binaryOperands :: "string \<Rightarrow> stream_type \<Rightarrow> bool" where
  "binaryOperands member t \<longleftrightarrow>
     (if member \<in> {''&&'', ''||''} then t = StreamBool
      else if member \<in> {''=='', ''!=''} then t \<in> {StreamBool, StreamInt, StreamUint64, StreamStatus}
      else if member \<in> {''<'', ''>'', ''<='', ''>=''} then t \<in> {StreamInt, StreamUint64}
      else False)"

text \<open>
  \<open>checkArguments\<close> is the loop over the arguments of a call, \<open>checkTypes\<close> the operands of the
  other kinds.
\<close>

function (sequential) checkExpr ::
  "stream_program \<Rightarrow> stream_function \<Rightarrow> (int \<Rightarrow> stream_type) \<Rightarrow> nat \<Rightarrow> stream_expr option
    \<Rightarrow> check_state \<Rightarrow> (stream_type \<times> check_state) res"
  and checkArguments ::
  "stream_program \<Rightarrow> stream_function \<Rightarrow> (int \<Rightarrow> stream_type) \<Rightarrow> nat \<Rightarrow> stream_type list
    \<Rightarrow> stream_expr option list \<Rightarrow> check_state \<Rightarrow> check_state res"
  and checkTypes ::
  "stream_program \<Rightarrow> stream_function \<Rightarrow> (int \<Rightarrow> stream_type) \<Rightarrow> nat \<Rightarrow> stream_expr option list
    \<Rightarrow> check_state \<Rightarrow> (stream_type list \<times> check_state) res"
where
  "checkExpr p f env depth None st =
     bindR (countNode depth st) (\<lambda>_. Err ''missing/oversized composition expression'')"
| "checkExpr p f env depth (Some (StreamExpr kind typ slot target args member i u b status)) st =
     bindR (countNode depth st) (\<lambda>st.
       if length args > 16 then Err ''missing/oversized composition expression''
       else
         bindR
           (case kind of
              KindVariable \<Rightarrow> if args \<noteq> [] then invalidExpr else Ret (env slot, st)
            | KindBool \<Rightarrow> if args \<noteq> [] then invalidExpr else Ret (StreamBool, st)
            | KindInt \<Rightarrow> if args \<noteq> [] then invalidExpr else Ret (StreamInt, st)
            | KindUint64 \<Rightarrow> if args \<noteq> [] then invalidExpr else Ret (StreamUint64, st)
            | KindStatus \<Rightarrow>
                if args \<noteq> [] \<or> status > Denied then invalidExpr else Ret (StreamStatus, st)
            | KindNative \<Rightarrow>
                if target < 0 \<or> target \<ge> int (length (spBindings p)) then invalidExpr
                else if length (fst (NativeSignature (spProfile p))) \<noteq> length args then invalidExpr
                else bindR (checkArguments p f env (depth + 1) (fst (NativeSignature (spProfile p))) args st)
                  (\<lambda>st. Ret (snd (NativeSignature (spProfile p)), st))
            | KindHelper \<Rightarrow>
                if target < 0 \<or> target \<ge> int (length (spFunctions p)) then invalidExpr
                else (let g = spFunctions p ! nat target in
                  if \<not> sfPublic g \<and> sfClass g \<noteq> sfClass f then invalidExpr
                  else if length (sfParameters g) \<noteq> length args then invalidExpr
                  else bindR (checkArguments p f env (depth + 1) (sfParameters g) args
                      (st\<lparr>ckCalls := ckCalls st @ [nat target]\<rparr>))
                    (\<lambda>st. Ret (sfReturnType g, st)))
            | KindField \<Rightarrow>
                if length args \<noteq> 1 then invalidExpr
                else bindR (checkTypes p f env (depth + 1) args st) (\<lambda>(ts, st).
                  if hd ts \<noteq> StreamResult \<and> hd ts \<noteq> StreamStep then invalidExpr
                  else Ret (ResultMemberType (hd ts) member, st))
            | KindNot \<Rightarrow>
                if length args \<noteq> 1 then invalidExpr
                else bindR (checkTypes p f env (depth + 1) args st) (\<lambda>(ts, st).
                  if hd ts \<noteq> StreamBool then invalidExpr else Ret (StreamBool, st))
            | KindConditional \<Rightarrow>
                if length args \<noteq> 3 then invalidExpr
                else bindR (checkTypes p f env (depth + 1) args st) (\<lambda>(ts, st).
                  if ts ! 0 \<noteq> StreamBool \<or> ts ! 1 \<noteq> ts ! 2 \<or> \<not> ValueType (ts ! 1) then invalidExpr
                  else Ret (ts ! 1, st))
            | KindBinary \<Rightarrow>
                if length args \<noteq> 2 then invalidExpr
                else bindR (checkTypes p f env (depth + 1) args st) (\<lambda>(ts, st).
                  if ts ! 0 \<noteq> ts ! 1 \<or> \<not> binaryOperands member (ts ! 0) then invalidExpr
                  else Ret (StreamBool, st))
            | OtherKind k \<Rightarrow> invalidExpr)
           (\<lambda>(inferred, st).
              if inferred = NoStreamType \<or> typ \<noteq> inferred then invalidExpr else Ret (inferred, st)))"
| "checkArguments p f env depth (t # ts) (x # xs) st =
     bindR (checkExpr p f env depth x st) (\<lambda>(u, st).
       if u \<noteq> t then invalidExpr else checkArguments p f env depth ts xs st)"
| "checkArguments p f env depth ts xs st = Ret st"
| "checkTypes p f env depth [] st = Ret ([], st)"
| "checkTypes p f env depth (x # xs) st =
     bindR (checkExpr p f env depth x st) (\<lambda>(t, st).
       bindR (checkTypes p f env depth xs st) (\<lambda>(ts, st). Ret (t # ts, st)))"
  by pat_completeness auto
termination
  by (relation "measure (\<lambda>x. case x of
       Inl (_, _, _, _, e, _) \<Rightarrow> size_option size e
     | Inr (Inl (_, _, _, _, _, es, _)) \<Rightarrow> size_list (size_option size) es
     | Inr (Inr (_, _, _, _, es, _)) \<Rightarrow> size_list (size_option size) es)") auto

declare checkExpr.simps [simp del] checkArguments.simps [simp del] checkTypes.simps [simp del]

section \<open>Blocks\<close>

text \<open>
  \<open>checkStatements\<close> is the loop of \<open>block\<close>; a nested block has its own copy of the scope.
\<close>

function (sequential) checkBlock ::
  "stream_program \<Rightarrow> stream_function \<Rightarrow> (int \<Rightarrow> stream_type) \<Rightarrow> nat \<Rightarrow> stream_stmt list
    \<Rightarrow> check_state \<Rightarrow> (bool \<times> check_state) res"
  and checkStatements ::
  "stream_program \<Rightarrow> stream_function \<Rightarrow> (int \<Rightarrow> stream_type) \<Rightarrow> nat \<Rightarrow> bool \<Rightarrow> stream_stmt list
    \<Rightarrow> check_state \<Rightarrow> (bool \<times> check_state) res"
where
  "checkBlock p f env depth ss st =
     (if length ss > 256 then Err ''composition block too large''
      else checkStatements p f env depth False ss st)"
| "checkStatements p f env depth returned [] st = Ret (returned, st)"
| "checkStatements p f env depth returned (StreamStmt kind slot typ v th el # ss) st =
     bindR (countNode depth st) (\<lambda>st.
       if returned then Err ''unreachable composition statement''
       else case kind of
         KindLocal \<Rightarrow>
           if \<not> ValueTypeFor (spProfile p) typ \<or> slot < 0 \<or> slot \<ge> 256 \<or> slot \<in> set (ckSlots st)
             \<or> th \<noteq> [] \<or> el \<noteq> [] then Err ''invalid composition local''
           else bindR (checkExpr p f env (depth + 1) v st) (\<lambda>(t, st).
             if t \<noteq> typ then Err ''composition local type mismatch''
             else checkStatements p f (env(slot := t)) depth False ss
               (st\<lparr>ckSlots := slot # ckSlots st\<rparr>))
       | KindReturn \<Rightarrow>
           if typ \<noteq> NoStreamType \<or> slot \<noteq> 0 \<or> th \<noteq> [] \<or> el \<noteq> [] then Err ''invalid return metadata''
           else bindR (checkExpr p f env (depth + 1) v st) (\<lambda>(t, st).
             if t \<noteq> sfReturnType f then Err ''composition return type mismatch''
             else checkStatements p f env depth True ss st)
       | KindIf \<Rightarrow>
           if typ \<noteq> NoStreamType \<or> slot \<noteq> 0 \<or> th = [] then Err ''invalid composition branch''
           else bindR (checkExpr p f env (depth + 1) v st) (\<lambda>(t, st).
             if t \<noteq> StreamBool then Err ''non-Boolean composition condition''
             else bindR (checkBlock p f env (depth + 1) th st) (\<lambda>(a, st).
               bindR (checkBlock p f env (depth + 1) el st) (\<lambda>(b, st).
                 checkStatements p f env depth (a \<and> b) ss st)))
       | KindBlock \<Rightarrow>
           if v \<noteq> None \<or> typ \<noteq> NoStreamType \<or> slot \<noteq> 0 \<or> el \<noteq> []
           then Err ''invalid nested block metadata''
           else bindR (checkBlock p f env (depth + 1) th st) (\<lambda>(a, st).
             checkStatements p f env depth a ss st)
       | OtherStatement k \<Rightarrow> Err ''unknown composition statement'')"
  by pat_completeness auto
termination
  by (relation "measure (\<lambda>x. case x of
       Inl (_, _, _, _, ss, _) \<Rightarrow> 2 * size_list size ss + 1
     | Inr (_, _, _, _, _, ss, _) \<Rightarrow> 2 * size_list size ss)") auto

declare checkBlock.simps [simp del] checkStatements.simps [simp del]

section \<open>Functions\<close>

text \<open>The first loop: names, signatures and whether there is a public entry.\<close>

fun checkSignatures :: "string \<Rightarrow> string list \<Rightarrow> bool \<Rightarrow> stream_function list \<Rightarrow> bool res" where
  "checkSignatures profile methods public [] = Ret public"
| "checkSignatures profile methods public (f # fs) =
     (let key = sfClass f @ ''.'' @ sfName f in
      andThen (rejectIf (\<not> isIdentifier (sfClass f) \<or> \<not> isIdentifier (sfName f) \<or> key \<in> set methods
          \<or> length (sfParameters f) > 16 \<or> \<not> ValueTypeFor profile (sfReturnType f) \<or> bodyOf f = []
          \<or> sfBinding f \<noteq> 0 \<or> sfArguments f \<noteq> (0, 0, 0)) ''invalid composition function'')
      (andThen (rejectIf (\<not> list_all (ParameterTypeFor profile) (sfParameters f))
          ''invalid composition parameter'')
        (checkSignatures profile (key # methods) (public \<or> sfPublic f) fs)))"

text \<open>The scope of the parameters; absent keys of the map read as the empty type.\<close>

definition parameterScope :: "stream_type list \<Rightarrow> int \<Rightarrow> stream_type" where
  "parameterScope ts i = (if 0 \<le> i \<and> i < int (length ts) then ts ! nat i else NoStreamType)"

definition initialState :: "nat \<Rightarrow> stream_function \<Rightarrow> check_state" where
  "initialState nodes f =
     \<lparr>ckNodes = nodes, ckSlots = map int [0..<length (sfParameters f)], ckCalls = []\<rparr>"

text \<open>The second loop: \<open>costs\<close> and \<open>calls\<close> of every function.\<close>

fun checkBodies ::
  "stream_program \<Rightarrow> nat \<Rightarrow> stream_function list \<Rightarrow> (nat \<times> nat list) list res"
where
  "checkBodies p nodes [] = Ret []"
| "checkBodies p nodes (f # fs) =
     bindR (checkBlock p f (parameterScope (sfParameters f)) 0 (bodyOf f) (initialState nodes f))
       (\<lambda>(returned, st).
          if \<not> returned then Err ''composition function may fall through''
          else bindR (checkBodies p (ckNodes st) fs) (\<lambda>rest.
            Ret ((ckNodes st - nodes, ckCalls st) # rest)))"

text \<open>
  The closure \<open>cost\<close>: \<open>levels\<close> is 17 less the depth, so that zero levels is a depth above 16.
  \<open>active\<close> holds the functions between the entry and this one.
\<close>

function (sequential) expandedCost ::
  "(nat \<times> nat list) list \<Rightarrow> nat \<Rightarrow> nat list \<Rightarrow> nat \<Rightarrow> nat res"
  and addCosts :: "(nat \<times> nat list) list \<Rightarrow> nat \<Rightarrow> nat list \<Rightarrow> nat \<Rightarrow> nat list \<Rightarrow> nat res"
where
  "expandedCost table 0 active i = Err ''recursive or too-deep composition call graph''"
| "expandedCost table (Suc levels) active i =
     (if i \<in> set active then Err ''recursive or too-deep composition call graph''
      else bindR (index table (int i)) (\<lambda>(cost, targets).
        addCosts table levels (i # active) cost targets))"
| "addCosts table levels active n [] = Ret n"
| "addCosts table levels active n (t # ts) =
     bindR (expandedCost table levels active t) (\<lambda>c.
       if n + c > 8192 then Err ''composition expansion exceeds 8192 nodes''
       else addCosts table levels active (n + c) ts)"
  by pat_completeness auto
termination
  by (relation "measures [\<lambda>x. case x of Inl (_, n, _, _) \<Rightarrow> n | Inr (_, n, _, _, _) \<Rightarrow> n,
      \<lambda>x. case x of Inl _ \<Rightarrow> 0 | Inr (_, _, _, _, ts) \<Rightarrow> Suc (length ts)]") auto

definition validateStreamComposition :: "stream_program \<Rightarrow> unit res" where
  "validateStreamComposition p =
     bindR (checkSignatures (spProfile p) [] False (spFunctions p)) (\<lambda>public.
       andThen (rejectIf (\<not> public) ''composition program has no public entry'')
       (bindR (checkBodies p 0 (spFunctions p)) (\<lambda>table.
         checkAll (\<lambda>i. bindR (expandedCost table 17 [] i) (\<lambda>_. Ret ()))
           [0..<length (spFunctions p)])))"

section \<open>Programs\<close>

fun checkBindings :: "string \<Rightarrow> string list \<Rightarrow> string list \<Rightarrow> binding list \<Rightarrow> unit res" where
  "checkBindings profile aliases ids [] = Ret ()"
| "checkBindings profile aliases ids (b # bs) =
     (let key = bdPackage b @ ''/'' @ opID (bdOperation b) in
      andThen (rejectIf (\<not> ValidDigest (bdManifestSHA256 b)) ''invalid manifest digest'')
      (andThen (ValidateManifest \<lparr>mfProfile = ManifestProfile profile, mfPackage = bdPackage b,
          mfABI = ABI, mfOperations = [bdOperation b]\<rparr>)
      (andThen (rejectIf (opName (bdOperation b) \<in> set aliases \<or> key \<in> set ids)
          ''ambiguous native-stream binding'')
        (checkBindings profile (opName (bdOperation b) # aliases) (key # ids) bs))))"

text \<open>The loop over the three argument positions of a v1 function.\<close>

fun checkPositions :: "stream_type list \<Rightarrow> int list \<Rightarrow> (stream_type \<times> int) list \<Rightarrow> unit res" where
  "checkPositions params seen [] = Ret ()"
| "checkPositions params seen ((t, a) # rest) =
     andThen (rejectIf (a < 0 \<or> a \<ge> 3 \<or> a \<in> set seen \<or> params ! nat a \<noteq> t)
       ''native-stream call argument type or ownership mismatch'')
       (checkPositions params (a # seen) rest)"

fun checkNativeFunctions :: "int \<Rightarrow> string list \<Rightarrow> stream_function list \<Rightarrow> unit res" where
  "checkNativeFunctions bindings methods [] = Ret ()"
| "checkNativeFunctions bindings methods (f # fs) =
     (let key = sfClass f @ ''.'' @ sfName f in
      andThen (rejectIf (sfBody f \<noteq> None \<or> sfReturnType f \<noteq> NoStreamType \<or> sfPublic f)
        ''composition fields in v1 function'')
      (andThen (rejectIf (\<not> isIdentifier (sfClass f) \<or> \<not> isIdentifier (sfName f) \<or> key \<in> set methods
          \<or> length (sfParameters f) \<noteq> 3 \<or> sfBinding f < 0 \<or> sfBinding f \<ge> bindings)
        ''invalid native-stream function'')
      (andThen (case sfArguments f of (a, b, c) \<Rightarrow>
          checkPositions (sfParameters f) [] [(ReadStream, a), (WriteStream, b), (StreamInt, c)])
        (checkNativeFunctions bindings (key # methods) fs))))"

definition Validate :: "stream_program \<Rightarrow> unit res" where
  "Validate p =
     andThen (rejectIf ((spProfile p \<noteq> Profile \<and> spProfile p \<noteq> CompositionProfile
           \<and> spProfile p \<noteq> IncrementalProfile) \<or> \<not> ValidDigest (spSourceSHA256 p)
         \<or> spBindings p = [] \<or> length (spBindings p) > 64
         \<or> spFunctions p = [] \<or> length (spFunctions p) > 64)
       ''invalid native-stream program header or extent'')
     (andThen (checkBindings (spProfile p) [] [] (spBindings p))
       (if spProfile p \<noteq> Profile then validateStreamComposition p
        else checkNativeFunctions (int (length (spBindings p))) [] (spFunctions p)))"

end
