(* ===== verification/StreamFront.thy ===== *)
theory StreamFront
  imports DeclParser StreamCheck
begin

text \<open>
  The compiler of native-stream sources (pipelang/native_stream.go and
  native_stream_composition.go): locked manifests give the bindings, the classes of a parsed source
  give the functions, and the result is validated. \<open>streamir.Digest\<close> and the strict JSON decoder of
  manifests are parameters. An error is its message, of a diagnostic without the span.
\<close>

section \<open>Types\<close>

text \<open>The conversion \<open>streamir.Type(name)\<close>.\<close>

definition streamTypeOf :: "string \<Rightarrow> stream_type" where
  "streamTypeOf name =
     (if name = ''ReadStream'' then ReadStream else if name = ''WriteStream'' then WriteStream
      else if name = ''int'' then StreamInt else if name = ''bool'' then StreamBool
      else if name = ''uint64'' then StreamUint64 else if name = ''StreamResult'' then StreamResult
      else if name = ''StreamStatus'' then StreamStatus else if name = ''StreamSession'' then StreamSession
      else if name = ''InputBuffer'' then InputBuffer else if name = ''OutputBuffer'' then OutputBuffer
      else if name = ''StreamStep'' then StreamStep else if name = [] then NoStreamType
      else OtherStreamType name)"

definition nativeStreamType :: "type_ref \<Rightarrow> string \<Rightarrow> type_ref_kind \<Rightarrow> bool" where
  "nativeStreamType t name kind \<longleftrightarrow>
     trName t = name \<and> trKind t = kind \<and> trQualifier t = [] \<and> trArguments t = []"

definition streamCompositionType :: "type_ref \<Rightarrow> stream_type" where
  "streamCompositionType t =
     (let typ = streamTypeOf (trName t);
          kind = (if typ = StreamInt \<or> typ = StreamBool then TypeRefPrimitive else TypeRefNamed) in
      if \<not> ParameterType typ \<or> \<not> nativeStreamType t (trName t) kind then NoStreamType else typ)"

section \<open>Expressions\<close>

text \<open>
  What the lowering of bodies reads: the functions with their signatures, the methods and the native
  operations by name, the reserved names and the index of the function.
\<close>

record lower_context =
  lcProfile :: string
  lcFunctions :: "stream_function list"
  lcMethods :: "string \<rightharpoonup> nat"
  lcNative :: "string \<rightharpoonup> nat"
  lcReserved :: "string set"
  lcFunction :: nat

type_synonym stream_env = "string \<rightharpoonup> int \<times> stream_type"

definition streamNode :: "stream_kind \<Rightarrow> stream_type \<Rightarrow> stream_expr list \<Rightarrow> stream_expr" where
  "streamNode kind typ args = StreamExpr kind typ 0 0 (map Some args) [] 0 0 False 0"

definition typeMatches :: "stream_type \<Rightarrow> stream_expr \<Rightarrow> stream_expr res" where
  "typeMatches expected x =
     (if expected \<noteq> NoStreamType \<and> sxType x \<noteq> expected
      then Err ''composition expression type mismatch'' else Ret x)"

definition lowerLiteral :: "source_value \<Rightarrow> stream_type \<Rightarrow> stream_expr res" where
  "lowerLiteral v expected =
     (case source_value.svType v of
        TypeBool \<Rightarrow> Ret (StreamExpr KindBool StreamBool 0 0 [] [] 0 0 (source_value.svBool v) 0)
      | TypeInt \<Rightarrow>
          Ret (if expected = StreamUint64 \<and> 0 \<le> sint (source_value.svInt v)
               then StreamExpr KindUint64 StreamUint64 0 0 [] [] 0 (source_value.svInt v) False 0
               else StreamExpr KindInt StreamInt 0 0 [] [] (source_value.svInt v) 0 False 0)
      | _ \<Rightarrow> Err ''unsupported composition literal'')"

text \<open>A nonnegative integer literal beside an operand of type \<open>uint64\<close>.\<close>

definition widenLiteral :: "stream_expr \<Rightarrow> stream_expr \<Rightarrow> stream_expr" where
  "widenLiteral other x =
     (if sxType other = StreamUint64 \<and> sxKind x = KindInt \<and> 0 \<le> sint (sxInt x)
      then StreamExpr KindUint64 StreamUint64 0 0 [] [] 0 (sxInt x) False 0 else x)"

text \<open>The target of a call: its kind, index, parameter types and result type.\<close>

definition callTarget ::
  "lower_context \<Rightarrow> string \<Rightarrow> (stream_kind \<times> nat \<times> stream_type list \<times> stream_type) res" where
  "callTarget lc name =
     (case lcNative lc name of
        Some target \<Rightarrow>
          (case NativeSignature (lcProfile lc) of (params, result) \<Rightarrow> Ret (KindNative, target, params, result))
      | None \<Rightarrow>
          bindR (index (lcFunctions lc) (int (lcFunction lc))) (\<lambda>caller.
          let key = (if CHR ''.'' \<in> set name then name else sfClass caller @ ''.'' @ name) in
          case lcMethods lc key of
            None \<Rightarrow> Err ''unknown SDK operation or helper''
          | Some target \<Rightarrow>
              bindR (index (lcFunctions lc) (int target)) (\<lambda>f.
                if \<not> sfPublic f \<and> sfClass f \<noteq> sfClass caller then Err ''private cross-class helper''
                else Ret (KindHelper, target, sfParameters f, sfReturnType f))))"

function (sequential) lowerExpr ::
  "lower_context \<Rightarrow> stream_env \<Rightarrow> source_expr \<Rightarrow> stream_type \<Rightarrow> stream_expr res"
  and lowerArguments ::
  "lower_context \<Rightarrow> stream_env \<Rightarrow> source_expr list \<Rightarrow> stream_type list \<Rightarrow> stream_expr list res"
where
  "lowerExpr lc env (IdentExpr name sp) expected =
     (case env name of
        None \<Rightarrow> Err ''unknown or out-of-scope composition variable''
      | Some (slot, typ) \<Rightarrow> typeMatches expected (StreamExpr KindVariable typ slot 0 [] [] 0 0 False 0))"
| "lowerExpr lc env (LiteralExpr v sp) expected =
     bindR (lowerLiteral v expected) (typeMatches expected)"
| "lowerExpr lc env (FieldExpr receiver name nsp sp) expected =
     (if (case receiver of IdentExpr n _ \<Rightarrow> n = ''StreamStatus'' | _ \<Rightarrow> False)
      then
        (case ParseStatus name of (status, known) \<Rightarrow>
           if \<not> known then Err ''unknown stream status''
           else typeMatches expected (StreamExpr KindStatus StreamStatus 0 0 [] [] 0 0 False status))
      else
        bindR (lowerExpr lc env receiver NoStreamType) (\<lambda>value.
          let typ = ResultMemberType (sxType value) name in
          if typ = NoStreamType then Err ''unknown stream result member''
          else typeMatches expected (StreamExpr KindField typ 0 0 [Some value] name 0 0 False 0)))"
| "lowerExpr lc env (CallExpr name nsp arguments asp sp) expected =
     bindR (callTarget lc name) (\<lambda>(kind, target, params, result).
       if length arguments \<noteq> length params then Err ''composition call arity mismatch''
       else bindR (lowerArguments lc env arguments params) (\<lambda>args.
         typeMatches expected (StreamExpr kind result 0 (int target) (map Some args) [] 0 0 False 0)))"
| "lowerExpr lc env (UnaryExpr op operand sp) expected =
     (if op = ''-'' then
        (case operand of
           LiteralExpr v _ \<Rightarrow>
             if source_value.svType v \<noteq> TypeInt then Err ''only signed literal negation is supported''
             else typeMatches expected
               (StreamExpr KindInt StreamInt 0 0 [] [] (- source_value.svInt v) 0 False 0)
         | _ \<Rightarrow> Err ''only signed literal negation is supported'')
      else if op = ''!'' then
        bindR (lowerExpr lc env operand StreamBool) (\<lambda>value.
          typeMatches expected (streamNode KindNot StreamBool [value]))
      else Err ''unsupported unary expression'')"
| "lowerExpr lc env (BinaryExpr op left right sp) expected =
     bindR (lowerExpr lc env left NoStreamType) (\<lambda>l.
     bindR (lowerExpr lc env right NoStreamType) (\<lambda>r.
       let r' = widenLiteral l r; l' = widenLiteral r' l in
       typeMatches expected
         (StreamExpr KindBinary StreamBool 0 0 [Some l', Some r'] op 0 0 False 0)))"
| "lowerExpr lc env (ConditionalExpr condition whenTrue whenFalse terminal sp) expected =
     bindR (lowerExpr lc env condition StreamBool) (\<lambda>c.
     bindR (lowerExpr lc env whenTrue expected) (\<lambda>a.
     bindR (lowerExpr lc env whenFalse (sxType a)) (\<lambda>b.
       typeMatches expected (streamNode KindConditional (sxType a) [c, a, b]))))"
| "lowerExpr lc env e expected = Err ''unsupported expression in stream composition''"
| "lowerArguments lc env [] ts = Ret []"
| "lowerArguments lc env (e # es) [] = Panic"
| "lowerArguments lc env (e # es) (t # ts) =
     bindR (lowerExpr lc env e t) (\<lambda>x.
     bindR (lowerArguments lc env es ts) (\<lambda>xs. Ret (x # xs)))"
  by pat_completeness auto
termination
  by (relation "measure (\<lambda>x. case x of
       Inl (_, _, e, _) \<Rightarrow> size e | Inr (_, _, es, _) \<Rightarrow> size_list size es)") auto

declare lowerExpr.simps [simp del] lowerArguments.simps [simp del]

section \<open>Blocks\<close>

text \<open>The statements of a block, none for a nil one.\<close>

definition blockStatements :: "source_expr option \<Rightarrow> source_expr source_statement list" where
  "blockStatements e = (case e of Some (BlockExpr ss _) \<Rightarrow> ss | _ \<Rightarrow> [])"

definition lowerValue ::
  "lower_context \<Rightarrow> stream_env \<Rightarrow> source_expr option \<Rightarrow> stream_type \<Rightarrow> stream_expr res" where
  "lowerValue lc env e expected =
     (case e of None \<Rightarrow> Err ''missing composition expression'' | Some x \<Rightarrow> lowerExpr lc env x expected)"

lemma blockStatements_list:
  "size_list (size_source_statement size) (blockStatements (stmThen t)) < size_source_statement size t"
  "size_list (size_source_statement size) (blockStatements (stmElse t)) < size_source_statement size t"
proof -
  have block: "size_list (size_source_statement size) (blockStatements e) \<le> size_option size e"
    for e :: "source_expr option"
    by (auto simp: blockStatements_def split: option.splits source_expr.splits)
  show "size_list (size_source_statement size) (blockStatements (stmThen t)) < size_source_statement size t"
    using block [of "stmThen t"] by (cases t) simp
  show "size_list (size_source_statement size) (blockStatements (stmElse t)) < size_source_statement size t"
    using block [of "stmElse t"] by (cases t) simp
qed

text \<open>
  \<open>block\<close>: the scope is a copy, so that only the next free slot is threaded through; \<open>result\<close> is
  the return type of the function.
\<close>

function lowerBlock ::
  "lower_context \<Rightarrow> stream_type \<Rightarrow> stream_env \<Rightarrow> source_expr source_statement list \<Rightarrow> nat
   \<Rightarrow> (stream_stmt list \<times> nat) res" where
  "lowerBlock lc result env [] slot = Ret ([], slot)"
| "lowerBlock lc result env (s # ss) slot =
     (if stmKind s = ''local'' then
        let typ = (case stmType s of None \<Rightarrow> NoStreamType | Some t \<Rightarrow> streamCompositionType t) in
        if env (stmName s) \<noteq> None \<or> stmName s \<in> lcReserved lc \<or> \<not> ValueTypeFor (lcProfile lc) typ
          \<or> 256 \<le> slot then Err ''invalid local type, shadowing or local extent''
        else
          bindR (lowerValue lc env (stmValue s) typ) (\<lambda>v.
          bindR (lowerBlock lc result (env(stmName s \<mapsto> (int slot, typ))) ss (Suc slot)) (\<lambda>(rest, next).
          Ret (StreamStmt KindLocal (int slot) typ (Some v) [] [] # rest, next)))
      else if stmKind s = ''return'' then
        bindR (lowerValue lc env (stmValue s) result) (\<lambda>v.
        bindR (lowerBlock lc result env ss slot) (\<lambda>(rest, slot).
        Ret (StreamStmt KindReturn 0 NoStreamType (Some v) [] [] # rest, slot)))
      else if stmKind s = ''if'' then
        bindR (lowerValue lc env (stmValue s) StreamBool) (\<lambda>v.
        bindR (lowerBlock lc result env (blockStatements (stmThen s)) slot) (\<lambda>(th, slot).
        bindR (lowerBlock lc result env (blockStatements (stmElse s)) slot) (\<lambda>(el, slot).
        bindR (lowerBlock lc result env ss slot) (\<lambda>(rest, slot).
        Ret (StreamStmt KindIf 0 NoStreamType (Some v) th el # rest, slot)))))
      else if stmKind s = ''block'' then
        bindR (lowerBlock lc result env (blockStatements (stmThen s)) slot) (\<lambda>(th, slot).
        bindR (lowerBlock lc result env ss slot) (\<lambda>(rest, slot).
        Ret (StreamStmt KindBlock 0 NoStreamType None th [] # rest, slot)))
      else Err ''unsupported composition statement'')"
  by pat_completeness auto
termination
  by (relation "measure (\<lambda>(_, _, _, ss, _). size_list (size_source_statement size) ss)")
    (auto simp: less_Suc_eq_le intro: blockStatements_list [THEN less_imp_le, THEN trans_le_add1])

declare lowerBlock.simps [simp del]

section \<open>Compositions\<close>

text \<open>Names that a composition may not bind: the namespaces of the SDK and its types.\<close>

definition reservedNames :: "string \<Rightarrow> string set \<Rightarrow> string set" where
  "reservedNames profile namespaces =
     namespaces \<union> {''StreamStatus'', ''StreamResult'', ''ReadStream'', ''WriteStream''}
     \<union> (if profile = IncrementalProfile
        then {''StreamSession'', ''InputBuffer'', ''OutputBuffer'', ''StreamStep''} else {})"

fun lowerParameters :: "string \<Rightarrow> source_param list \<Rightarrow> stream_type list res" where
  "lowerParameters profile [] = Ret []"
| "lowerParameters profile (p # ps) =
     (let typ = streamCompositionType (prmType p) in
      if typ = NoStreamType \<or> \<not> ParameterTypeFor profile typ
      then Err ''unsupported composition parameter type''
      else bindR (lowerParameters profile ps) (\<lambda>ts. Ret (typ # ts)))"

text \<open>The first loop: the signatures of the methods, with the declarations they come from.\<close>

record signature_state =
  sgFunctions :: "stream_function list"
  sgMethods :: "string \<rightharpoonup> nat"
  sgDeclarations :: "method_decl list"

fun lowerMethods :: "string \<Rightarrow> string \<Rightarrow> method_decl list \<Rightarrow> signature_state \<Rightarrow> signature_state res" where
  "lowerMethods profile cls [] st = Ret st"
| "lowerMethods profile cls (m # ms) st =
     (let ret = streamCompositionType (mdlReturnType m); key = cls @ ''.'' @ mdlName m in
      if \<not> ValueTypeFor profile ret \<or> mdlAnnotations m \<noteq> [] \<or> 16 < length (mdlParams m)
      then Err ''invalid composition method signature''
      else if sgMethods st key \<noteq> None then Err ''duplicate composition method''
      else
        bindR (lowerParameters profile (mdlParams m)) (\<lambda>params.
        lowerMethods profile cls ms
          \<lparr>sgFunctions = sgFunctions st @
             [\<lparr>sfClass = cls, sfName = mdlName m, sfParameters = params, sfBinding = 0, sfArguments = (0, 0, 0),
               sfPublic = (mdlVisibility m = VisibilityPublic), sfReturnType = ret, sfBody = None\<rparr>],
           sgMethods = (sgMethods st)(key \<mapsto> length (sgFunctions st)),
           sgDeclarations = sgDeclarations st @ [m]\<rparr>))"

definition statelessClass :: "string set \<Rightarrow> class_decl \<Rightarrow> bool" where
  "statelessClass taken c \<longleftrightarrow>
     cldName c \<notin> taken \<and> cldVisibility c = VisibilityPublic \<and> cldAnnotations c = []
     \<and> cldImplements c = None \<and> cldFields c = [] \<and> cldMethods c \<noteq> []"

fun lowerClasses :: "string \<Rightarrow> string set \<Rightarrow> class_decl list \<Rightarrow> signature_state \<Rightarrow> signature_state res" where
  "lowerClasses profile taken [] st = Ret st"
| "lowerClasses profile taken (c # cs) st =
     (if \<not> statelessClass taken c then Err ''composition requires distinct public stateless classes''
      else bindR (lowerMethods profile (cldName c) (cldMethods c) st)
        (lowerClasses profile (insert (cldName c) taken) cs))"

text \<open>The parameters of a method in scope, with their slots.\<close>

fun bindParameters ::
  "string set \<Rightarrow> nat \<Rightarrow> source_param list \<Rightarrow> stream_type list \<Rightarrow> stream_env \<Rightarrow> stream_env res" where
  "bindParameters reserved j [] ts env = Ret env"
| "bindParameters reserved j (p # ps) ts env =
     (if env (prmName p) \<noteq> None \<or> prmName p \<in> reserved
      then Err ''duplicate parameter or SDK namespace shadowing''
      else bindR (index ts (int j)) (\<lambda>t.
        bindParameters reserved (Suc j) ps ts (env(prmName p \<mapsto> (int j, t)))))"

text \<open>The second loop: the bodies.\<close>

definition lowerBody :: "lower_context \<Rightarrow> method_decl \<Rightarrow> stream_stmt list res" where
  "lowerBody lc m =
     bindR (index (lcFunctions lc) (int (lcFunction lc))) (\<lambda>f.
     bindR (bindParameters (lcReserved lc) 0 (mdlParams m) (sfParameters f) Map.empty) (\<lambda>env.
       case mdlBody m of
         BlockExpr ss _ \<Rightarrow>
           bindR (lowerBlock lc (sfReturnType f) env ss (length (mdlParams m))) (\<lambda>(body, _). Ret body)
       | e \<Rightarrow>
           bindR (lowerExpr lc env e (sfReturnType f)) (\<lambda>v.
           Ret [StreamStmt KindReturn 0 NoStreamType (Some v) [] []])))"

fun lowerBodies :: "lower_context \<Rightarrow> nat \<Rightarrow> method_decl list \<Rightarrow> stream_stmt list list res" where
  "lowerBodies lc i [] = Ret []"
| "lowerBodies lc i (m # ms) =
     bindR (lowerBody (lc\<lparr>lcFunction := i\<rparr>) m) (\<lambda>body.
     bindR (lowerBodies lc (Suc i) ms) (\<lambda>bodies. Ret (body # bodies)))"

definition bindingsByName :: "binding list \<Rightarrow> string \<rightharpoonup> nat" where
  "bindingsByName bs = map_of (rev (zip (map (opName \<circ> bdOperation) bs) [0..<length bs]))"

text \<open>A body without statements is a nil slice.\<close>

definition withBody :: "stream_function \<Rightarrow> stream_stmt list \<Rightarrow> stream_function" where
  "withBody f body = f\<lparr>sfBody := (if body = [] then None else Some body)\<rparr>"

definition lowerNativeComposition ::
  "source_program \<Rightarrow> stream_program \<Rightarrow> string set \<Rightarrow> stream_program res" where
  "lowerNativeComposition source base namespaces =
     (let profile = spProfile base; reserved = reservedNames profile namespaces in
      bindR (lowerClasses profile reserved (sprClasses source)
        \<lparr>sgFunctions = spFunctions base, sgMethods = Map.empty, sgDeclarations = []\<rparr>) (\<lambda>st.
      if 64 < length (sgFunctions st) then Err ''too many composition functions''
      else
        bindR (lowerBodies
          \<lparr>lcProfile = profile, lcFunctions = sgFunctions st, lcMethods = sgMethods st,
           lcNative = bindingsByName (spBindings base), lcReserved = reserved, lcFunction = 0\<rparr>
          0 (sgDeclarations st)) (\<lambda>bodies.
        let program = base\<lparr>spFunctions := map2 withBody (sgFunctions st) bodies\<rparr> in
        andThen (Validate program) (Ret program))))"

section \<open>Direct calls\<close>

fun directParameters ::
  "string set \<Rightarrow> nat \<Rightarrow> source_param list \<Rightarrow> (string \<rightharpoonup> nat) \<Rightarrow> ((string \<rightharpoonup> nat) \<times> stream_type list) res" where
  "directParameters namespaces i [] params = Ret (params, [])"
| "directParameters namespaces i (p # ps) params =
     (let typ = streamTypeOf (trName (prmType p));
          kind = (if typ = StreamInt then TypeRefPrimitive else TypeRefNamed) in
      if prmName p \<in> namespaces then Err ''native-stream parameter shadows an SDK namespace''
      else if params (prmName p) \<noteq> None then Err ''duplicate native-stream parameter''
      else if typ \<notin> {ReadStream, WriteStream, StreamInt}
        \<or> \<not> nativeStreamType (prmType p) (trName (prmType p)) kind
      then Err ''native-stream parameters must be ReadStream, WriteStream or int''
      else bindR (directParameters namespaces (Suc i) ps (params(prmName p \<mapsto> i))) (\<lambda>(params, ts).
        Ret (params, typ # ts)))"

fun directArguments :: "(string \<rightharpoonup> nat) \<Rightarrow> source_expr list \<Rightarrow> int list res" where
  "directArguments params [] = Ret []"
| "directArguments params (e # es) =
     (case e of
        IdentExpr name _ \<Rightarrow>
          (case params name of
             None \<Rightarrow> Err ''unknown native-stream argument''
           | Some i \<Rightarrow> bindR (directArguments params es) (\<lambda>is. Ret (int i # is)))
      | _ \<Rightarrow> Err ''native-stream arguments must be borrowed parameters'')"

definition directMethod ::
  "string set \<Rightarrow> (string \<rightharpoonup> nat) \<Rightarrow> string \<Rightarrow> method_decl \<Rightarrow> stream_function res" where
  "directMethod namespaces aliases cls m =
     (if mdlVisibility m \<noteq> VisibilityPublic \<or> mdlAnnotations m \<noteq> []
        \<or> \<not> nativeStreamType (mdlReturnType m) ''StreamResult'' TypeRefNamed \<or> length (mdlParams m) \<noteq> 3
      then Err ''native-stream methods require StreamResult and three borrowed stream/limit parameters''
      else
        bindR (directParameters namespaces 0 (mdlParams m) Map.empty) (\<lambda>(params, ts).
          case mdlBody m of
            CallExpr name _ arguments _ _ \<Rightarrow>
              if length arguments \<noteq> 3
              then Err ''native-stream body must directly return one declared operation call''
              else
                (case aliases name of
                   None \<Rightarrow> Err ''undeclared native-stream operation''
                 | Some b \<Rightarrow>
                     bindR (directArguments params arguments) (\<lambda>is.
                     Ret \<lparr>sfClass = cls, sfName = mdlName m, sfParameters = ts, sfBinding = int b,
                       sfArguments = (is ! 0, is ! 1, is ! 2), sfPublic = False, sfReturnType = NoStreamType,
                       sfBody = None\<rparr>))
          | _ \<Rightarrow> Err ''native-stream body must directly return one declared operation call''))"

fun directMethods ::
  "string set \<Rightarrow> (string \<rightharpoonup> nat) \<Rightarrow> string \<Rightarrow> method_decl list \<Rightarrow> stream_function list res" where
  "directMethods namespaces aliases cls [] = Ret []"
| "directMethods namespaces aliases cls (m # ms) =
     bindR (directMethod namespaces aliases cls m) (\<lambda>f.
     bindR (directMethods namespaces aliases cls ms) (\<lambda>fs. Ret (f # fs)))"

fun directClasses ::
  "string set \<Rightarrow> string set \<Rightarrow> (string \<rightharpoonup> nat) \<Rightarrow> class_decl list \<Rightarrow> stream_function list res" where
  "directClasses namespaces taken aliases [] = Ret []"
| "directClasses namespaces taken aliases (c # cs) =
     (if \<not> statelessClass taken c
      then Err ''native-stream classes cannot own fields, annotations, inheritance or duplicate identities''
      else
        bindR (directMethods namespaces aliases (cldName c) (cldMethods c)) (\<lambda>fs.
        bindR (directClasses namespaces (insert (cldName c) taken) aliases cs) (\<lambda>gs. Ret (fs @ gs))))"

section \<open>Manifests\<close>

record stream_dependency =
  dpManifest :: string
  dpSHA256 :: string

text \<open>The digest of a text, and the strict decoding of one JSON document into a manifest.\<close>

record stream_library =
  slDigest :: "string \<Rightarrow> string"
  slDecode :: "string \<Rightarrow> string + manifest"

record dependency_state =
  dsPackages :: "string set"
  dsNamespaces :: "string set"
  dsAliases :: "string \<rightharpoonup> nat"
  dsBindings :: "binding list"

fun bindOperations :: "manifest \<Rightarrow> string \<Rightarrow> operation list \<Rightarrow> dependency_state \<Rightarrow> dependency_state res" where
  "bindOperations mf sha [] st = Ret st"
| "bindOperations mf sha (x # xs) st =
     (if dsAliases st (opName x) \<noteq> None then Err ''ambiguous native-stream alias''
      else bindOperations mf sha xs
        (st\<lparr>dsNamespaces := insert (takeWhile (\<lambda>c. c \<noteq> CHR ''.'') (opName x)) (dsNamespaces st),
           dsAliases := (dsAliases st)(opName x \<mapsto> length (dsBindings st)),
           dsBindings := dsBindings st @
             [\<lparr>bdPackage = mfPackage mf, bdManifestSHA256 = sha, bdOperation = x\<rparr>]\<rparr>))"

definition addDependency ::
  "stream_library \<Rightarrow> string \<Rightarrow> stream_dependency \<Rightarrow> dependency_state \<Rightarrow> dependency_state res" where
  "addDependency lib profile dep st =
     (if 65536 < length (dpManifest dep) \<or> \<not> ValidDigest (dpSHA256 dep)
        \<or> slDigest lib (dpManifest dep) \<noteq> dpSHA256 dep
      then Err ''native-stream manifest lock mismatch''
      else
        (case slDecode lib (dpManifest dep) of
           Inl e \<Rightarrow> Err e
         | Inr mf \<Rightarrow>
             andThen (ValidateManifest mf) (
             if mfProfile mf \<noteq> ManifestProfile profile
             then Err ''manifest profile does not match selected language profile''
             else if mfPackage mf \<in> dsPackages st then Err ''duplicate native-stream package''
             else bindOperations mf (dpSHA256 dep) (mfOperations mf)
               (st\<lparr>dsPackages := insert (mfPackage mf) (dsPackages st)\<rparr>))))"

fun addDependencies ::
  "stream_library \<Rightarrow> string \<Rightarrow> stream_dependency list \<Rightarrow> dependency_state \<Rightarrow> dependency_state res" where
  "addDependencies lib profile [] st = Ret st"
| "addDependencies lib profile (d # ds) st =
     bindR (addDependency lib profile d st) (addDependencies lib profile ds)"

section \<open>The compiler\<close>

text \<open>The nesting of delimiters, which stays between 0 and 64.\<close>

definition delimiterStep :: "token_kind \<Rightarrow> int" where
  "delimiterStep k =
     (if k = tokLParen \<or> k = tokLBrace \<or> k = tokLBracket then 1
      else if k = tokRParen \<or> k = tokRBrace \<or> k = tokRBracket then -1 else 0)"

fun delimitersOK :: "int \<Rightarrow> token list \<Rightarrow> bool" where
  "delimitersOK depth [] = True"
| "delimitersOK depth (t # ts) =
     (let depth = depth + delimiterStep (tkKind t) in
      0 \<le> depth \<and> depth \<le> 64 \<and> delimitersOK depth ts)"

definition parsedR :: "'a parsed \<Rightarrow> 'a res" where
  "parsedR p =
     (case p of Parsed a _ \<Rightarrow> Ret a | Rejected d \<Rightarrow> Err (dgMessage d) | ParsePanic \<Rightarrow> Panic
        | ParseTimeout \<Rightarrow> Timeout)"

definition parseStreamFile :: "string \<Rightarrow> source_file \<Rightarrow> source_program res" where
  "parseStreamFile profile file =
     (case lex file of
        Inl d \<Rightarrow> Err (dgMessage d)
      | Inr toks \<Rightarrow>
          if 8192 < length toks then Err ''native-stream token extent outside profile''
          else if \<not> delimitersOK 0 toks then Err ''native-stream delimiter nesting outside profile''
          else
            bindR (parsedR (parseProgram (parserContext file (if profile = Profile then 113 else 114) True toks) 0))
              (\<lambda>program.
                if sprInterfaces program \<noteq> [] \<or> sprRecords program \<noteq> [] \<or> sprEnums program \<noteq> []
                  \<or> sprClasses program = []
                then Err ''native-stream profile requires public callable classes only''
                else Ret program))"

definition CompileNativeStreamsWithProfile ::
  "stream_library \<Rightarrow> source_input \<Rightarrow> stream_dependency list \<Rightarrow> string \<Rightarrow> stream_program res" where
  "CompileNativeStreamsWithProfile lib source dependencies profile =
     (if profile \<notin> {Profile, CompositionProfile, IncrementalProfile}
      then Err ''unsupported native-stream profile''
      else if siData source = [] \<or> 65536 < length (siData source) \<or> dependencies = []
        \<or> 16 < length dependencies
      then Err ''native-stream source/dependency extent outside profile''
      else
        bindR (addDependencies lib profile dependencies
          \<lparr>dsPackages = {}, dsNamespaces = {}, dsAliases = Map.empty, dsBindings = []\<rparr>) (\<lambda>st.
        case NewSourceSet [source] of
          (sources, diagnostics) \<Rightarrow>
            if hasErrors diagnostics then Err (concat (map dgMessage (take 1 diagnostics)))
            else
              bindR (index (ssFiles sources) 0) (\<lambda>file.
              bindR (parseStreamFile profile file) (\<lambda>program.
              let base = \<lparr>spProfile = profile, spSourceSHA256 = slDigest lib (siData source),
                    spBindings = dsBindings st, spFunctions = []\<rparr> in
              if profile \<noteq> Profile then lowerNativeComposition program base (dsNamespaces st)
              else
                bindR (directClasses (dsNamespaces st) (dsNamespaces st) (dsAliases st) (sprClasses program)) (\<lambda>fs.
                let result = base\<lparr>spFunctions := fs\<rparr> in
                andThen (Validate result) (Ret result))))))"

definition CompileNativeStreams ::
  "stream_library \<Rightarrow> source_input \<Rightarrow> stream_dependency list \<Rightarrow> stream_program res" where
  "CompileNativeStreams lib source dependencies =
     CompileNativeStreamsWithProfile lib source dependencies Profile"

end
