(* ===== verification/LexerProperties.thy ===== *)
theory LexerProperties
  imports Lexer
begin

text \<open>
  What the lexer promises: the tokens tile the source, an error is a lexical diagnostic inside
  the file, and a list of tokens printed with blanks between them is read back.
\<close>

section \<open>The text of tokens\<close>

text \<open>Blanks and comments; a comment ends before the next line feed.\<close>

function trivia :: "string \<Rightarrow> bool" where
  "trivia [] \<longleftrightarrow> True"
| "trivia (c # cs) \<longleftrightarrow>
     (if isSpace c then trivia cs
      else c = CHR ''/'' \<and> cs \<noteq> [] \<and> hd cs = CHR ''/'' \<and>
        trivia (dropWhile (\<lambda>c. c \<noteq> CHR 0x0A) (tl cs)))"
  by pat_completeness auto
termination
  by (relation "measure length") (auto simp: less_Suc_eq_le intro: le_trans [OF length_dropWhile_le])

text \<open>The string that the body of a literal denotes.\<close>

fun decodeText :: "string \<Rightarrow> string option" where
  "decodeText [] = Some []"
| "decodeText (c # cs) =
     (if c = CHR 0x22 then None
      else if c = CHR 0x5C then
        (case cs of
           [] \<Rightarrow> None
         | d # ds \<Rightarrow> (case unquoteEscape d of
               None \<Rightarrow> None
             | Some u \<Rightarrow> map_option ((#) u) (decodeText ds)))
      else map_option ((#) c) (decodeText cs))"

definition textLiteral :: "string \<Rightarrow> string option" where
  "textLiteral s =
     (if 2 \<le> length s \<and> hd s = CHR 0x22 \<and> last s = CHR 0x22
      then decodeText (butlast (tl s)) else None)"

text \<open>The kinds of tokens with one spelling.\<close>

fun fixedText :: "token_kind \<Rightarrow> string option" where
  "fixedText tokInterface = Some ''Interface''"
| "fixedText tokClass = Some ''Class''"
| "fixedText tokStruct = Some ''Struct''"
| "fixedText tokPublic = Some ''public''"
| "fixedText tokPrivate = Some ''private''"
| "fixedText tokLBrace = Some ''{''"
| "fixedText tokRBrace = Some ''}''"
| "fixedText tokLParen = Some ''(''"
| "fixedText tokRParen = Some '')''"
| "fixedText tokLBracket = Some ''[''"
| "fixedText tokRBracket = Some '']''"
| "fixedText tokColon = Some '':''"
| "fixedText tokSemi = Some '';''"
| "fixedText tokComma = Some '',''"
| "fixedText tokDot = Some ''.''"
| "fixedText tokQuestion = Some ''?''"
| "fixedText tokAssign = Some ''=''"
| "fixedText tokArrow = Some ''=>''"
| "fixedText tokPlus = Some ''+''"
| "fixedText tokMinus = Some ''-''"
| "fixedText tokStar = Some ''*''"
| "fixedText tokSlash = Some ''/''"
| "fixedText tokBang = Some ''!''"
| "fixedText tokEQ = Some ''==''"
| "fixedText tokNE = Some ''!=''"
| "fixedText tokLT = Some ''<''"
| "fixedText tokLE = Some ''<=''"
| "fixedText tokGT = Some ''>''"
| "fixedText tokGE = Some ''>=''"
| "fixedText tokAndAnd = Some ''&&''"
| "fixedText tokOrOr = Some ''||''"
| "fixedText _ = None"

definition reservedWords :: "string list" where
  "reservedWords = [''Interface'', ''Class'', ''Struct'', ''public'', ''private'', ''true'', ''false'']"

definition identifierText :: "string \<Rightarrow> bool" where
  "identifierText s \<longleftrightarrow> s \<noteq> [] \<and> isIdentStart (hd s) \<and> list_all isIdentPart s"

definition digitsText :: "string \<Rightarrow> bool" where
  "digitsText s \<longleftrightarrow> s \<noteq> [] \<and> list_all isDigit s"

definition floatText :: "string \<Rightarrow> bool" where
  "floatText s \<longleftrightarrow>
     (let whole = takeWhile isDigit s; rest = dropWhile isDigit s in
      whole \<noteq> [] \<and> rest \<noteq> [] \<and> hd rest = CHR ''.'' \<and> digitsText (tl rest))"

text \<open>The literals a kind can have, string literals apart.\<close>

definition lexeme :: "token_kind \<Rightarrow> string \<Rightarrow> bool" where
  "lexeme k s \<longleftrightarrow>
     (case k of
        tokIdent \<Rightarrow> identifierText s \<and> s \<notin> set reservedWords
      | tokBool \<Rightarrow> s = ''true'' \<or> s = ''false''
      | tokInt \<Rightarrow> digitsText s
      | tokFloat \<Rightarrow> floatText s
      | _ \<Rightarrow> fixedText k = Some s)"

definition tokenText :: "token \<Rightarrow> string \<Rightarrow> bool" where
  "tokenText t s \<longleftrightarrow>
     (if tkKind t = tokString then textLiteral s = Some (tkLit t)
      else s = tkLit t \<and> lexeme (tkKind t) s)"

section \<open>Tiling\<close>

text \<open>
  From an offset on, the source is trivia and tokens: each token has a non-empty span after the
  previous one, its text is the source at its span, and what lies between is trivia.
\<close>

fun tokensTile :: "string \<Rightarrow> string \<Rightarrow> nat \<Rightarrow> token list \<Rightarrow> bool" where
  "tokensTile f src i [] \<longleftrightarrow> i \<le> length src \<and> trivia (drop i src)"
| "tokensTile f src i (t # ts) \<longleftrightarrow>
     (let a = nat (spStart (tkSpan t)); b = nat (spEnd (tkSpan t)) in
      tkSpan t = spanAt f a b \<and> i \<le> a \<and> a < b \<and> b \<le> length src
      \<and> trivia (sliceOf src i a) \<and> tokenText t (sliceOf src a b) \<and> tokensTile f src b ts)"

definition eofToken :: "string \<Rightarrow> string \<Rightarrow> token" where
  "eofToken f src = mkToken tokEOF [] (spanAt f (length src) (length src))"

lemma tokensTile_bound: "tokensTile f src i ts \<Longrightarrow> i \<le> length src"
  by (cases ts) (auto simp: Let_def)

lemma sliceOf_self [simp]: "sliceOf src i i = []"
  by (simp add: sliceOf_def)

lemma sliceOf_Cons: "i < a \<Longrightarrow> i < length src \<Longrightarrow> sliceOf src i a = src ! i # sliceOf src (Suc i) a"
  by (simp add: sliceOf_def Cons_nth_drop_Suc [symmetric] take_Cons')

lemma sliceOf_all: "i \<le> length src \<Longrightarrow> sliceOf src i (length src) = drop i src"
  by (simp add: sliceOf_def)

text \<open>Trivia in front of a tiling belongs to it.\<close>

lemma tokensTile_extend:
  assumes "tokensTile f src j ts" "i \<le> j"
    and "\<And>a. j \<le> a \<Longrightarrow> a \<le> length src \<Longrightarrow> trivia (sliceOf src j a) \<Longrightarrow> trivia (sliceOf src i a)"
  shows "tokensTile f src i ts"
proof (cases ts)
  case Nil
  then show ?thesis
    using assms(1,2) assms(3) [of "length src"] by (simp add: sliceOf_all)
next
  case (Cons t us)
  then show ?thesis using assms by (auto simp: Let_def)
qed

lemma dropWhile_take:
  "length (takeWhile p xs) \<le> n \<Longrightarrow>
   dropWhile p (take n xs) = take (n - length (takeWhile p xs)) (dropWhile p xs)"
  by (induction xs arbitrary: n) (auto simp: take_Cons' split: if_splits)

lemma trivia_space:
  assumes "isSpace (src ! i)" "i < length src" "Suc i \<le> a" "trivia (sliceOf src (Suc i) a)"
  shows "trivia (sliceOf src i a)"
  using assms by (simp add: sliceOf_Cons)

lemma slash_not_space: "\<not> isSpace (CHR ''/'')"
  by (simp add: isSpace_def byte_def)

lemma trivia_comment:
  assumes "src ! i = CHR ''/''" "src ! Suc i = CHR ''/''" "Suc i < length src"
    "skipWhile (\<lambda>c. c \<noteq> CHR 0x0A) src (i + 2) \<le> a"
    "trivia (sliceOf src (skipWhile (\<lambda>c. c \<noteq> CHR 0x0A) src (i + 2)) a)"
  shows "trivia (sliceOf src i a)"
proof -
  let ?p = "\<lambda>c. c \<noteq> CHR 0x0A" and ?j = "skipWhile (\<lambda>c. c \<noteq> CHR 0x0A) src (i + 2)"
  have j: "?j = i + 2 + length (takeWhile ?p (drop (i + 2) src))" by (rule skipWhile_takeWhile)
  have "dropWhile ?p (sliceOf src (i + 2) a) = sliceOf src ?j a"
    using assms(4) unfolding sliceOf_def j
    by (subst dropWhile_take) (simp_all add: dropWhile_eq_drop add.commute)
  moreover have "sliceOf src i a = CHR ''/'' # CHR ''/'' # sliceOf src (i + 2) a"
    using assms(1-4) j by (simp add: sliceOf_Cons)
  ultimately show ?thesis using assms(5) slash_not_space by simp
qed

section \<open>The text of each kind of step\<close>

lemma sliceOf_skip: "sliceOf src i (skipWhile p src i) = takeWhile p (drop i src)"
  by (simp add: sliceOf_def skipWhile_takeWhile takeWhile_eq_take [symmetric])

lemma sliceOf_skip_Suc:
  "i < length src \<Longrightarrow> sliceOf src i (skipWhile p src (Suc i)) = src ! i # takeWhile p (drop (Suc i) src)"
  using skipWhile_gt [of i "Suc i" p src] by (simp add: sliceOf_Cons sliceOf_skip)

lemma sliceOf_split:
  assumes "i \<le> m" "m \<le> j"
  shows "sliceOf src i j = sliceOf src i m @ sliceOf src m j"
proof -
  have "take (j - i) (drop i src) = take ((m - i) + (j - m)) (drop i src)" using assms by simp
  also have "\<dots> = take (m - i) (drop i src) @ take (j - m) (drop (m - i) (drop i src))"
    by (rule take_add)
  finally show ?thesis using assms by (simp add: sliceOf_def)
qed

lemma list_all_takeWhile: "list_all p (takeWhile p xs)"
  by (induction xs) auto

lemma identKind_lexeme: "identifierText s \<Longrightarrow> lexeme (identKind s) s \<and> identKind s \<noteq> tokString"
  by (auto simp: identKind_def lexeme_def reservedWords_def)

lemma punctuation_lexeme:
  "punctuation c n = Some (k, l) \<Longrightarrow> lexeme k l \<and> k \<noteq> tokString"
  by (auto simp: punctuation_def lexeme_def split: if_splits)

lemma identifier_step:
  "isIdentStart (src ! i) \<Longrightarrow> i < length src \<Longrightarrow>
   identifierText (sliceOf src i (skipWhile isIdentPart src (Suc i)))"
  by (simp add: sliceOf_skip_Suc identifierText_def isIdentPart_def list_all_takeWhile)

lemma number_step:
  assumes "scanNumber f src i = Inr (k, j)" "isDigit (src ! i)" "i < length src"
  shows "lexeme k (sliceOf src i j) \<and> k \<noteq> tokString"
proof -
  let ?n = "skipWhile isDigit src (Suc i)"
  have w: "sliceOf src i ?n = src ! i # takeWhile isDigit (drop (Suc i) src)" "i < ?n"
    using assms(3) skipWhile_gt by (simp_all add: sliceOf_skip_Suc)
  have d: "list_all isDigit (sliceOf src i ?n)"
    using assms(2) by (simp add: w list_all_takeWhile)
  consider "k = tokInt" "j = ?n"
    | "k = tokFloat" "j = skipWhile isDigit src (Suc ?n)" "?n < length src" "src ! ?n = CHR ''.''"
      "Suc ?n < length src" "isDigit (src ! Suc ?n)"
    using assms(1) by (auto simp: scanNumber_def Let_def split: if_splits)
  then show ?thesis
  proof cases
    case 1
    with d w show ?thesis by (simp add: lexeme_def digitsText_def)
  next
    case 2
    have "sliceOf src ?n j = CHR ''.'' # sliceOf src (Suc ?n) j"
      using 2 skipWhile_gt [of ?n "Suc ?n" isDigit src] by (simp add: sliceOf_Cons)
    moreover have "?n \<le> j" using 2(2) skipWhile_gt less_imp_le by blast
    ultimately have s: "sliceOf src i j = sliceOf src i ?n @ CHR ''.'' # sliceOf src (Suc ?n) j"
      using sliceOf_split [of i ?n j src] w(2) by simp
    have f: "sliceOf src (Suc ?n) j = takeWhile isDigit (drop (Suc ?n) src)"
      unfolding 2(2) by (rule sliceOf_skip)
    have g: "digitsText (sliceOf src (Suc ?n) j)"
      using 2(5,6) unfolding f
      by (simp add: digitsText_def list_all_takeWhile Cons_nth_drop_Suc [symmetric])
    have nd: "\<not> isDigit (CHR ''.'')" by (simp add: isDigit_def byte_def)
    have "takeWhile isDigit (sliceOf src i j) = sliceOf src i ?n"
      "dropWhile isDigit (sliceOf src i j) = CHR ''.'' # sliceOf src (Suc ?n) j"
      using d nd unfolding s by (auto simp: list_all_iff takeWhile_append dropWhile_append)
    with 2 w g show ?thesis by (simp add: lexeme_def floatText_def Let_def)
  qed
qed

lemma scanString_decodes:
  "scanString f src s i b = Inr (l, j) \<Longrightarrow>
   \<exists>l'. l = b @ l' \<and> decodeText (sliceOf src i (j - 1)) = Some l' \<and> i < j \<and> j \<le> length src
      \<and> src ! (j - 1) = CHR 0x22"
proof (induction f src s i b rule: scanString.induct)
  case (1 f src s i b)
  have i: "i < length src" using "1.prems" by (subst (asm) scanString.simps) (auto split: if_splits)
  show ?case
  proof (cases "src ! i = CHR 0x22")
    case True
    with 1(3) i show ?thesis by (subst (asm) scanString.simps) auto
  next
    case q: False
    show ?thesis
    proof (cases "src ! i = CHR 0x5C")
      case True
      with 1(3) i q obtain u where u: "Suc i < length src" "unquoteEscape (src ! Suc i) = Some u"
          "scanString f src s (i + 2) (b @ [u]) = Inr (l, j)"
        by (subst (asm) scanString.simps) (auto split: if_splits option.splits)
      from 1(1) [OF i q True _ u(2,3)] u(1) obtain l' where l: "l = b @ u # l'"
          "decodeText (sliceOf src (i + 2) (j - 1)) = Some l'" "i + 2 < j" "j \<le> length src"
          "src ! (j - 1) = CHR 0x22"
        by auto
      have "sliceOf src i (j - 1) = src ! i # src ! Suc i # sliceOf src (i + 2) (j - 1)"
        using i u(1) l(3) by (simp add: sliceOf_Cons)
      with l True u(2) show ?thesis by auto
    next
      case False
      with 1(3) i q have "scanString f src s (Suc i) (b @ [src ! i]) = Inr (l, j)"
        by (subst (asm) scanString.simps) auto
      from 1(2) [OF i q False this] obtain l' where l: "l = b @ src ! i # l'"
          "decodeText (sliceOf src (Suc i) (j - 1)) = Some l'" "Suc i < j" "j \<le> length src"
          "src ! (j - 1) = CHR 0x22"
        by auto
      have "sliceOf src i (j - 1) = src ! i # sliceOf src (Suc i) (j - 1)"
        using i l(3) by (simp add: sliceOf_Cons)
      with l q False show ?thesis by auto
    qed
  qed
qed

lemma string_step:
  assumes "scanString f src i (Suc i) [] = Inr (l, j)" "src ! i = CHR 0x22"
  shows "textLiteral (sliceOf src i j) = Some l"
proof -
  from scanString_decodes [OF assms(1)] have d: "decodeText (sliceOf src (Suc i) (j - 1)) = Some l"
      "Suc i < j" "j \<le> length src" "src ! (j - 1) = CHR 0x22" by auto
  have "sliceOf src i j = src ! i # sliceOf src (Suc i) (j - 1) @ sliceOf src (j - 1) j"
    using d(2,3) sliceOf_split [of "Suc i" "j - 1" j src] by (simp add: sliceOf_Cons)
  also have "sliceOf src (j - 1) j = [CHR 0x22]"
    using d(2-4) by (cases j) (simp_all add: sliceOf_Cons)
  finally show ?thesis using d(1) assms(2) by (simp add: textLiteral_def)
qed

lemma punct_step:
  assumes "punctuation (src ! i) (byteAt src (Suc i)) = Some (k, l)" "i < length src"
  shows "sliceOf src i (i + length l) = l"
  using punctuation_lit [OF assms(1)] assms(2)
  by (auto simp: byteAt_def sliceOf_Cons split: if_splits)

text \<open>A turn of the loop reads trivia or one token.\<close>

lemma lexStep_text:
  assumes "lexStep f src i = Inr (t, j)" "i < length src"
  shows "case t of
      Some tok \<Rightarrow> tkSpan tok = spanAt f i j \<and> tokenText tok (sliceOf src i j)
    | None \<Rightarrow> (\<forall>a. j \<le> a \<longrightarrow> trivia (sliceOf src j a) \<longrightarrow> trivia (sliceOf src i a))"
  using assms(1)
proof (cases rule: lexStep_cases)
  case space
  then show ?thesis using trivia_space assms(2) by simp
next
  case comment
  then have "Suc i < length src" "src ! Suc i = CHR ''/''" by (auto simp: byteAt_def split: if_splits)
  with comment show ?thesis using trivia_comment by simp
next
  case ident
  then show ?thesis
    using identKind_lexeme [OF identifier_step [OF ident(1) assms(2)]] by (simp add: tokenText_def)
next
  case (number k)
  then show ?thesis using number_step [OF number(2,1) assms(2)] by (simp add: tokenText_def)
next
  case (literal lit)
  then show ?thesis using string_step [OF literal(2,1)] by (simp add: tokenText_def)
next
  case (punct k lit)
  then show ?thesis
    using punct_step [OF punct(1) assms(2)] punctuation_lexeme [OF punct(1)] by (simp add: tokenText_def)
qed

lemma lexFrom_tiles:
  "lexFrom f src i out = Inr toks \<Longrightarrow> i \<le> length src \<Longrightarrow>
   \<exists>ts. toks = out @ ts @ [eofToken f src] \<and> tokensTile f src i ts"
proof (induction f src i out rule: lexFrom.induct)
  case (1 f src i out)
  show ?case
  proof (cases "i < length src")
    case True
    with "1.prems" obtain t j where s: "lexStep f src i = Inr (t, j)"
        "lexFrom f src j (out @ (case t of None \<Rightarrow> [] | Some tok \<Rightarrow> [tok])) = Inr toks"
      by (subst (asm) lexFrom.simps) (auto split: sum.splits prod.splits)
    note b = lexStep_bounds [OF s(1) True] and x = lexStep_text [OF s(1) True]
    from "1.IH" [OF True s(1) refl s(2)] b obtain ts where ts:
        "toks = (out @ (case t of None \<Rightarrow> [] | Some tok \<Rightarrow> [tok])) @ ts @ [eofToken f src]"
        "tokensTile f src j ts" by auto
    show ?thesis
    proof (cases t)
      case None
      with ts b x show ?thesis using tokensTile_extend [of f src j ts i] by auto
    next
      case (Some tok)
      with ts b x have "tokensTile f src i (tok # ts)" by (simp add: Let_def)
      with ts Some show ?thesis by auto
    qed
  next
    case False
    with "1.prems" show ?thesis
      by (subst (asm) lexFrom.simps) (auto simp: eofToken_def)
  qed
qed

section \<open>Errors\<close>

definition lexicalCodes :: "string list" where
  "lexicalCodes = [CodeUnexpectedChar, CodeInvalidNumber, CodeInvalidEscape, CodeUnterminatedText]"

text \<open>A lexical error at some bytes of the file.\<close>

definition lexicalError :: "string \<Rightarrow> nat \<Rightarrow> diagnostic \<Rightarrow> bool" where
  "lexicalError f n d \<longleftrightarrow>
     dgCode d \<in> set lexicalCodes \<and> dgCategory d = CategoryLexical \<and> dgSeverity d = SeverityError
     \<and> spFile (dgPrimary d) = f \<and> 0 \<le> spStart (dgPrimary d)
     \<and> spStart (dgPrimary d) < spEnd (dgPrimary d) \<and> spEnd (dgPrimary d) \<le> int n"

lemma lexicalErrorI:
  "c \<in> set lexicalCodes \<Longrightarrow> a < b \<Longrightarrow> b \<le> n \<Longrightarrow>
   lexicalError f n (oneDiagnostic c CategoryLexical (spanAt f a b) m)"
  by (simp add: lexicalError_def)

lemma lexicalCodes_mem [simp]:
  "CodeUnexpectedChar \<in> set lexicalCodes" "CodeInvalidNumber \<in> set lexicalCodes"
  "CodeInvalidEscape \<in> set lexicalCodes" "CodeUnterminatedText \<in> set lexicalCodes"
  by (simp_all add: lexicalCodes_def)

lemma scanNumber_error:
  assumes "scanNumber f src i = Inl d" "i < length src"
  shows "lexicalError f (length src) d"
proof -
  have "i < skipWhile isDigit src (Suc i)" by (rule skipWhile_gt) simp
  with assms show ?thesis
    by (auto simp: scanNumber_def Let_def intro!: lexicalErrorI split: if_splits)
qed

lemma scanString_error:
  "scanString f src s i b = Inl d \<Longrightarrow> s < length src \<Longrightarrow> lexicalError f (length src) d"
proof (induction f src s i b rule: scanString.induct)
  case (1 f src s i b)
  from "1.prems" show ?case
    by (subst (asm) scanString.simps)
      (auto intro!: lexicalErrorI intro: 1(1,2) split: if_splits option.splits)
qed

lemma lexStep_error:
  assumes "lexStep f src i = Inl d" "i < length src"
  shows "lexicalError f (length src) d"
  using assms scanNumber_error scanString_error
  by (auto simp: lexStep_def Let_def intro!: lexicalErrorI split: if_splits sum.splits option.splits)

lemma lexFrom_error: "lexFrom f src i out = Inl d \<Longrightarrow> lexicalError f (length src) d"
proof (induction f src i out rule: lexFrom.induct)
  case (1 f src i out)
  note p = "1.prems" [unfolded lexFrom.simps [of f src i out]]
  then have i: "i < length src" by (auto split: if_splits)
  show ?case
  proof (cases "lexStep f src i")
    case (Inl e)
    with p i have "e = d" by simp
    with Inl i show ?thesis using lexStep_error by blast
  next
    case (Inr q)
    then obtain t j where "lexStep f src i = Inr (t, j)" by (cases q) auto
    with p i "1.IH" show ?thesis by simp
  qed
qed

section \<open>Printing\<close>

fun escapeText :: "string \<Rightarrow> string" where
  "escapeText [] = []"
| "escapeText (c # cs) =
     (if c = CHR 0x22 \<or> c = CHR 0x5C then CHR 0x5C # c # escapeText cs else c # escapeText cs)"

definition showToken :: "token_kind \<times> string \<Rightarrow> string" where
  "showToken t =
     (case t of (k, lit) \<Rightarrow>
       if k = tokString then CHR 0x22 # escapeText lit @ [CHR 0x22] else lit)"

text \<open>Each token is followed by a blank.\<close>

definition renderTokens :: "(token_kind \<times> string) list \<Rightarrow> string" where
  "renderTokens ts = concat (map (\<lambda>t. showToken t @ '' '') ts)"

definition printable :: "token_kind \<times> string \<Rightarrow> bool" where
  "printable t \<longleftrightarrow> fst t = tokString \<or> lexeme (fst t) (snd t)"

lemma drop_nth:
  assumes "drop i src = c # r"
  shows "i < length src" "src ! i = c" "drop (Suc i) src = r"
proof -
  show i: "i < length src" using assms by (metis drop_eq_Nil list.distinct(1) not_le)
  then show "src ! i = c" "drop (Suc i) src = r"
    using assms by (simp_all add: Cons_nth_drop_Suc [symmetric])
qed

lemma byteAt_drop: "byteAt src i = (case drop i src of [] \<Rightarrow> None | c # _ \<Rightarrow> Some c)"
  by (cases "i < length src") (simp_all add: byteAt_def Cons_nth_drop_Suc [symmetric])

lemma scanString_escape:
  "drop i src = escapeText l @ CHR 0x22 # r \<Longrightarrow>
   scanString f src s i b = Inr (b @ l, i + length (escapeText l) + 1)"
proof (induction l arbitrary: i b)
  case Nil
  then have "i < length src" "src ! i = CHR 0x22" using drop_nth [of i src] by simp_all
  then show ?case by (subst scanString.simps) simp
next
  case (Cons c l)
  show ?case
  proof (cases "c = CHR 0x22 \<or> c = CHR 0x5C")
    case True
    with Cons.prems have d: "drop i src = CHR 0x5C # c # escapeText l @ CHR 0x22 # r" by simp
    note i = drop_nth [OF d]
    note j = drop_nth [OF i(3)]
    have u: "unquoteEscape c = Some c" using True by (auto simp: unquoteEscape_def)
    have "scanString f src s i b = scanString f src s (i + 2) (b @ [c])"
      using i j(1,2) u by (subst scanString.simps) auto
    with Cons.IH [of "i + 2" "b @ [c]"] j(3) True show ?thesis by simp
  next
    case False
    with Cons.prems have d: "drop i src = c # escapeText l @ CHR 0x22 # r" by simp
    note i = drop_nth [OF d]
    have "scanString f src s i b = scanString f src s (Suc i) (b @ [c])"
      using i False by (subst scanString.simps) auto
    with Cons.IH [of "Suc i" "b @ [c]"] i(3) False show ?thesis by simp
  qed
qed

lemma space_classes:
  "\<not> isIdentPart (CHR '' '')" "\<not> isDigit (CHR '' '')" "\<not> isDigit (CHR ''.'')" "isSpace (CHR '' '')"
  by (simp_all add: isIdentPart_def isIdentStart_def isDigit_def isSpace_def byte_def)

lemma start_classes:
  "isIdentStart c \<Longrightarrow> \<not> isSpace c \<and> c \<noteq> CHR ''/''"
  "isDigit c \<Longrightarrow> \<not> isSpace c \<and> c \<noteq> CHR ''/'' \<and> \<not> isIdentStart c"
  by (auto simp: isIdentStart_def isDigit_def isSpace_def byte_def)

lemma skipWhile_prefix:
  assumes "drop i src = s @ c # r" "list_all p s" "\<not> p c"
  shows "skipWhile p src i = i + length s"
  using assms by (simp add: skipWhile_takeWhile list_all_iff takeWhile_append)

lemma take_prefix: "drop i src = s @ r \<Longrightarrow> sliceOf src i (i + length s) = s"
  by (simp add: sliceOf_def)

lemma drop_prefix: "drop i src = s @ r \<Longrightarrow> drop (i + length s) src = r"
  by (metis add.commute append_eq_conv_conj drop_drop)

lemma identifier_reads:
  assumes "drop i src = s @ CHR '' '' # r" "identifierText s"
  shows "lexStep f src i =
    Inr (Some (mkToken (identKind s) s (spanAt f i (i + length s))), i + length s)"
proof -
  obtain c cs where s: "s = c # cs" "isIdentStart c" "list_all isIdentPart cs"
    using assms(2) by (cases s) (auto simp: identifierText_def)
  note i = drop_nth [of i src c "cs @ CHR '' '' # r"]
  have j: "skipWhile isIdentPart src (Suc i) = i + length s"
    using skipWhile_prefix [of "Suc i" src cs] i s assms(1) space_classes by simp
  show ?thesis
    using i s assms(1) start_classes(1) [OF s(2)] take_prefix [OF assms(1)]
    by (simp add: lexStep_def j Let_def del: length_Cons)
qed

lemma digits_read:
  assumes "drop i src = s @ CHR '' '' # r" "digitsText s"
  shows "lexStep f src i = Inr (Some (mkToken tokInt s (spanAt f i (i + length s))), i + length s)"
proof -
  obtain c cs where s: "s = c # cs" "isDigit c" "list_all isDigit cs"
    using assms(2) by (cases s) (auto simp: digitsText_def)
  note i = drop_nth [of i src c "cs @ CHR '' '' # r"]
  have j: "skipWhile isDigit src (Suc i) = i + length s"
    using skipWhile_prefix [of "Suc i" src cs] i s assms(1) space_classes by simp
  have "drop (i + length s) src = CHR '' '' # r" using assms(1) by (rule drop_prefix)
  then have "src ! (i + length s) = CHR '' ''" by (rule drop_nth(2))
  then have n: "scanNumber f src i = Inr (tokInt, i + length s)" by (simp add: scanNumber_def j)
  have c: "src ! i = c" using i assms(1) s(1) by simp
  show ?thesis
    using start_classes(2) [OF s(2)] s(2) n take_prefix [OF assms(1)]
    by (simp add: lexStep_def Let_def c)
qed

lemma float_reads:
  assumes "drop i src = s @ CHR '' '' # r" "floatText s"
  shows "lexStep f src i = Inr (Some (mkToken tokFloat s (spanAt f i (i + length s))), i + length s)"
proof -
  define a where "a = takeWhile isDigit s"
  from assms(2) obtain b where b: "dropWhile isDigit s = CHR ''.'' # b" "digitsText b" "a \<noteq> []"
    by (auto simp: floatText_def Let_def a_def neq_Nil_conv)
  have s: "s = a @ CHR ''.'' # b" using takeWhile_dropWhile_id [of isDigit s] b(1) by (simp add: a_def)
  have da: "list_all isDigit a" by (simp add: a_def list_all_takeWhile)
  obtain c cs where c: "a = c # cs" "isDigit c" "list_all isDigit cs" using b(3) da by (cases a) auto
  obtain e es where e: "b = e # es" "isDigit e" "list_all isDigit b"
    using b(2) by (cases b) (auto simp: digitsText_def)
  let ?n = "i + length a"
  note i = drop_nth [of i src c "cs @ CHR ''.'' # b @ CHR '' '' # r"]
  have j: "skipWhile isDigit src (Suc i) = ?n"
    using skipWhile_prefix [of "Suc i" src cs "CHR ''.''"] i s c assms(1) space_classes by simp
  have "drop ?n src = CHR ''.'' # b @ CHR '' '' # r"
    using assms(1) unfolding s by (intro drop_prefix) simp
  note n = drop_nth [OF this]
  note n' = drop_nth [OF n(3) [unfolded e(1), simplified]]
  have k: "skipWhile isDigit src (Suc ?n) = i + length s"
    using skipWhile_prefix [of "Suc ?n" src b] n(3) e(3) space_classes(2) by (simp add: s)
  have "scanNumber f src i = Inr (tokFloat, i + length s)"
    using n(1,2) n'(1,2) e(2) by (simp add: scanNumber_def j k)
  moreover have "src ! i = c" using i assms(1) s c(1) by simp
  ultimately show ?thesis
    using start_classes(2) [OF c(2)] c(2) take_prefix [OF assms(1)] by (simp add: lexStep_def Let_def)
qed

lemma quote_classes:
  "\<not> isSpace (CHR 0x22)" "\<not> isIdentStart (CHR 0x22)" "\<not> isDigit (CHR 0x22)"
  by (simp_all add: isIdentStart_def isDigit_def isSpace_def byte_def)

lemma string_reads:
  assumes "drop i src = CHR 0x22 # escapeText l @ CHR 0x22 # r"
  shows "lexStep f src i =
    Inr (Some (mkToken tokString l (spanAt f i (i + length (escapeText l) + 2))),
      i + length (escapeText l) + 2)"
proof -
  note i = drop_nth [OF assms]
  show ?thesis
    using i quote_classes scanString_escape [OF i(3), of f i "[]"]
    by (simp add: lexStep_def)
qed

text \<open>An operator is read from its first byte, whatever blank follows it.\<close>

definition operatorStart :: "char \<Rightarrow> bool" where
  "operatorStart c \<longleftrightarrow> \<not> isSpace c \<and> \<not> isIdentStart c \<and> \<not> isDigit c \<and> c \<noteq> CHR 0x22"

lemma fixed_cases:
  "fixedText k \<noteq> None \<Longrightarrow>
   the (fixedText k) \<in> set reservedWords \<and> identifierText (the (fixedText k))
     \<and> identKind (the (fixedText k)) = k
   \<or> the (fixedText k) \<notin> set reservedWords \<and> operatorStart (hd (the (fixedText k)))
     \<and> the (fixedText k) \<noteq> []
     \<and> punctuation (hd (the (fixedText k))) (byteAt (the (fixedText k) @ '' '') 1)
       = Some (k, the (fixedText k))
     \<and> byteAt (the (fixedText k) @ '' '') 1 \<noteq> Some (CHR ''/'')"
  by (cases k)
    (simp_all add: reservedWords_def identKind_def identifierText_def isIdentPart_def isIdentStart_def
      operatorStart_def punctuation_def byteAt_def isSpace_def isDigit_def byte_def)

lemma reserved_text:
  "fixedText k = Some s \<Longrightarrow> s \<in> set reservedWords \<Longrightarrow> identifierText s \<and> identKind s = k"
  using fixed_cases [of k] by auto

lemma operator_text:
  assumes "fixedText k = Some s" "s \<notin> set reservedWords"
  shows "operatorStart (hd s) \<and> s \<noteq> [] \<and> punctuation (hd s) (byteAt (s @ '' '') 1) = Some (k, s)
    \<and> byteAt (s @ '' '') 1 \<noteq> Some (CHR ''/'')"
  using fixed_cases [of k] assms by auto

lemma operator_reads:
  assumes "drop i src = s @ CHR '' '' # r" "fixedText k = Some s" "s \<notin> set reservedWords"
  shows "lexStep f src i = Inr (Some (mkToken k s (spanAt f i (i + length s))), i + length s)"
proof -
  obtain c cs where s: "s = c # cs" using operator_text [OF assms(2,3)] by (cases s) auto
  note i = drop_nth [of i src c "cs @ CHR '' '' # r"]
  have "byteAt src (Suc i) = byteAt (s @ '' '') 1"
    using i assms(1) s by (cases cs) (simp_all add: byteAt_drop)
  with operator_text [OF assms(2,3)] i assms(1) s show ?thesis
    by (simp add: lexStep_def operatorStart_def)
qed

lemma lexeme_kinds:
  assumes "lexeme k s" "k \<noteq> tokString"
  shows "identifierText s \<and> identKind s = k \<or> digitsText s \<and> k = tokInt \<or> floatText s \<and> k = tokFloat
    \<or> fixedText k = Some s \<and> s \<notin> set reservedWords"
proof -
  consider "k = tokIdent" | "k = tokBool" | "k = tokInt" | "k = tokFloat" | "fixedText k = Some s"
    using assms by (cases k) (simp_all add: lexeme_def)
  then show ?thesis
  proof cases
    case 1
    with assms show ?thesis by (simp add: lexeme_def identKind_def reservedWords_def)
  next
    case 2
    with assms have "s = ''true'' \<or> s = ''false''" by (simp add: lexeme_def)
    with 2 show ?thesis
      by (elim disjE)
        (simp_all add: identKind_def identifierText_def isIdentPart_def isIdentStart_def byte_def)
  next
    case 5
    with reserved_text show ?thesis by blast
  qed (use assms in \<open>simp_all add: lexeme_def\<close>)
qed

lemma token_reads:
  assumes "drop i src = showToken (k, s) @ CHR '' '' # r" "printable (k, s)"
  shows "lexStep f src i =
    Inr (Some (mkToken k s (spanAt f i (i + length (showToken (k, s))))), i + length (showToken (k, s)))"
proof (cases "k = tokString")
  case True
  with assms(1) string_reads [of i src s "CHR '' '' # r" f] show ?thesis by (simp add: showToken_def)
next
  case False
  with assms have d: "drop i src = s @ CHR '' '' # r" "lexeme k s"
    by (simp_all add: showToken_def printable_def)
  have "lexStep f src i = Inr (Some (mkToken k s (spanAt f i (i + length s))), i + length s)"
    using lexeme_kinds [OF d(2) False] identifier_reads [OF d(1)] digits_read [OF d(1)]
      float_reads [OF d(1)] operator_reads [OF d(1)] by metis
  with False show ?thesis by (simp add: showToken_def)
qed

lemma showToken_nonempty: "printable t \<Longrightarrow> showToken t \<noteq> []"
proof (cases t)
  case (Pair k s)
  assume "printable t"
  with Pair show ?thesis
    using lexeme_kinds [of k s] operator_text [of k s]
    by (auto simp: printable_def showToken_def identifierText_def digitsText_def floatText_def Let_def)
qed

lemma lexFrom_step:
  "i < length src \<Longrightarrow> lexStep f src i = Inr (t, j) \<Longrightarrow>
   lexFrom f src i out = lexFrom f src j (out @ (case t of None \<Rightarrow> [] | Some tok \<Rightarrow> [tok]))"
  by (subst lexFrom.simps) simp

lemma lexFrom_renders:
  "drop i src = renderTokens ts \<Longrightarrow> i \<le> length src \<Longrightarrow> list_all printable ts \<Longrightarrow>
   \<exists>toks. lexFrom f src i out = Inr (out @ toks @ [eofToken f src])
     \<and> map (\<lambda>t. (tkKind t, tkLit t)) toks = ts"
proof (induction ts arbitrary: i out)
  case Nil
  then have "\<not> i < length src" by (simp add: renderTokens_def)
  then show ?case
    by (subst lexFrom.simps) (auto simp: eofToken_def intro!: exI [of _ "[]"])
next
  case (Cons t ts)
  obtain k s where t: "t = (k, s)" by (cases t)
  let ?j = "i + length (showToken t)"
  from Cons.prems have d: "drop i src = showToken (k, s) @ CHR '' '' # renderTokens ts"
      and p: "printable (k, s)"
    by (simp_all add: renderTokens_def t)
  note s1 = token_reads [OF d p, of f]
  have i: "i < length src" using d by (metis drop_eq_Nil append_is_Nil_conv list.distinct(1) not_le)
  have "drop ?j src = CHR '' '' # renderTokens ts"
    using d unfolding t by (rule drop_prefix)
  note j = drop_nth [OF this]
  have s2: "lexStep f src ?j = Inr (None, Suc ?j)"
    using j(2) space_classes(4) by (simp add: lexStep_def)
  have e: "lexFrom f src i out = lexFrom f src (Suc ?j) (out @ [mkToken k s (spanAt f i ?j)])"
    using lexFrom_step [OF i s1] lexFrom_step [OF j(1) s2] by (simp add: t)
  obtain toks where "lexFrom f src (Suc ?j) (out @ [mkToken k s (spanAt f i ?j)])
      = Inr ((out @ [mkToken k s (spanAt f i ?j)]) @ toks @ [eofToken f src])"
      "map (\<lambda>t. (tkKind t, tkLit t)) toks = ts"
    using Cons.IH [OF j(3)] j(1) Cons.prems(3) by fastforce
  then show ?case
    by (intro exI [of _ "mkToken k s (spanAt f i ?j) # toks"]) (simp add: e t)
qed

end
