(* ===== verification/ParserRules.thy ===== *)
theory ParserRules
  imports ExprParser LexerProperties
begin

text \<open>
  Weakest preconditions of parsers, the contract of the parser of sub-expressions as a locale, and
  the proof that \<open>parseExprs\<close> meets it: it ends, it reads at least a token, and the span of the
  node is the range from its first token to its last.
\<close>

section \<open>Weakest preconditions\<close>

text \<open>A parser neither panics nor runs out of fuel, and a result satisfies the postcondition.\<close>

definition wpP :: "'a parser \<Rightarrow> ('a \<Rightarrow> nat \<Rightarrow> bool) \<Rightarrow> nat \<Rightarrow> bool" where
  "wpP p Q i \<longleftrightarrow>
     (case p i of Parsed a j \<Rightarrow> Q a j | Rejected d \<Rightarrow> True | ParsePanic \<Rightarrow> False | ParseTimeout \<Rightarrow> False)"

named_theorems wp \<open>weakest preconditions of the parser combinators\<close>

lemma wp_return [wp]: "wpP (returnP a) Q i \<longleftrightarrow> Q a i"
  by (simp add: wpP_def returnP_def)

lemma wp_bind [wp]: "wpP (bindP p f) Q i \<longleftrightarrow> wpP p (\<lambda>a j. wpP (f a) Q j) i"
  by (simp add: wpP_def bindP_def split: parsed.splits)

lemma wp_and [wp]: "wpP (andP p q) Q i \<longleftrightarrow> wpP p (\<lambda>a j. wpP q Q j) i"
  by (simp add: andP_def wp_bind)

lemma wp_reject [wp]: "wpP (rejectP d) Q i"
  by (simp add: wpP_def rejectP_def)

lemma wp_timeout [wp]: "\<not> wpP timeoutP Q i"
  by (simp add: wpP_def timeoutP_def)

lemma wp_panic [wp]: "\<not> wpP panicP Q i"
  by (simp add: wpP_def panicP_def)

lemma wp_peek [wp]: "wpP (peekP pc f) Q i \<longleftrightarrow> wpP (f (peek pc i)) Q i"
  by (simp add: wpP_def peekP_def)

lemma wp_peekAt [wp]: "wpP (peekAtP pc k f) Q i \<longleftrightarrow> wpP (f (peek pc (i + k))) Q i"
  by (simp add: wpP_def peekAtP_def)

lemma wp_next [wp]:
  "wpP (nextP pc) Q i \<longleftrightarrow>
     (i < length (pcToks pc) \<longrightarrow> Q (peek pc i) (Suc i)) \<and> (\<not> i < length (pcToks pc) \<longrightarrow> Q (peek pc i) i)"
  by (simp add: wpP_def nextP_def)

lemma wp_errf [wp]: "wpP (errf pc msg) Q i"
  by (simp add: errf_def wp)

lemma wp_if [wp]: "wpP (if b then p else q) Q i \<longleftrightarrow> (b \<longrightarrow> wpP p Q i) \<and> (\<not> b \<longrightarrow> wpP q Q i)"
  by simp

lemma wp_mono: "wpP p R i \<Longrightarrow> (\<And>a j. R a j \<Longrightarrow> Q a j) \<Longrightarrow> wpP p Q i"
  by (auto simp: wpP_def split: parsed.splits)

lemma peek_before_end: "tkKind (peek pc i) \<noteq> tokEOF \<Longrightarrow> i < length (pcToks pc)"
  by (auto simp: peek_def split: if_splits)

lemma peek_beyond: "length (pcToks pc) \<le> i \<Longrightarrow> tkKind (peek pc i) = tokEOF"
  by (simp add: peek_def)

lemma wp_expect [wp]:
  "k \<noteq> tokEOF \<Longrightarrow>
   wpP (expectP pc k) Q i \<longleftrightarrow>
     (tkKind (peek pc i) = k \<and> i < length (pcToks pc) \<longrightarrow> Q (peek pc i) (Suc i))"
  using peek_before_end [of pc i] by (auto simp: expectP_def wp)

text \<open>A loop whose turns, while they go on, read a token and keep an invariant.\<close>

lemma wp_repeat:
  assumes "I s i" "i \<le> length (pcToks pc)" "length (pcToks pc) < i + n"
    and "\<And>s j. I s j \<Longrightarrow> i \<le> j \<Longrightarrow> j \<le> length (pcToks pc) \<Longrightarrow>
      wpP (turn s) (\<lambda>x k. case x of Inl s' \<Rightarrow> j < k \<and> k \<le> length (pcToks pc) \<and> I s' k | Inr r \<Rightarrow> Q r k) j"
  shows "wpP (repeatP n turn s) Q i"
  using assms
proof (induction n arbitrary: s i)
  case (Suc n)
  have "wpP (turn s) (\<lambda>x k. case x of Inl s' \<Rightarrow> i < k \<and> k \<le> length (pcToks pc) \<and> I s' k | Inr r \<Rightarrow> Q r k) i"
    using Suc.prems by simp
  then show ?case
    unfolding repeatP.simps wp
  proof (rule wp_mono)
    fix x k
    assume "case x of Inl s' \<Rightarrow> i < k \<and> k \<le> length (pcToks pc) \<and> I s' k | Inr r \<Rightarrow> Q r k"
    then show "wpP (case x of Inl s' \<Rightarrow> repeatP n turn s' | Inr r \<Rightarrow> returnP r) Q k"
      using Suc.prems Suc.IH [of _ k] by (auto simp: wp split: sum.splits)
  qed
qed simp

section \<open>Spans of tokens\<close>

text \<open>Tokens of one file in source order, as the lexer gives them.\<close>

definition tokensOK :: "parse_context \<Rightarrow> bool" where
  "tokensOK pc \<longleftrightarrow>
     pcFile pc \<noteq> []
     \<and> (\<forall>t \<in> set (pcToks pc). spFile (tkSpan t) = pcFile pc \<and> 0 \<le> spStart (tkSpan t)
          \<and> spStart (tkSpan t) \<le> spEnd (tkSpan t) \<and> spEnd (tkSpan t) \<le> int (pcEnd pc))
     \<and> sorted_wrt (\<lambda>t u. spEnd (tkSpan t) \<le> spStart (tkSpan u)) (pcToks pc)"

text \<open>The range from the first token to the last of the tokens from \<open>i\<close> up to \<open>j\<close>.\<close>

definition tokensSpan :: "parse_context \<Rightarrow> nat \<Rightarrow> nat \<Rightarrow> source_span" where
  "tokensSpan pc i j =
     \<lparr>spFile = pcFile pc, spStart = spStart (tkSpan (peek pc i)),
      spEnd = spEnd (tkSpan (peek pc (j - 1)))\<rparr>"

lemma peek_span:
  assumes "tokensOK pc"
  shows "spFile (tkSpan (peek pc i)) = pcFile pc" "0 \<le> spStart (tkSpan (peek pc i))"
    "spStart (tkSpan (peek pc i)) \<le> spEnd (tkSpan (peek pc i))"
    "spEnd (tkSpan (peek pc i)) \<le> int (pcEnd pc)"
  using assms by (auto simp: tokensOK_def peek_def)

lemma peek_order:
  assumes "tokensOK pc" "i \<le> j"
  shows "spStart (tkSpan (peek pc i)) \<le> spEnd (tkSpan (peek pc j))"
proof (cases "i = j")
  case False
  with assms(2) have ij: "i < j" by simp
  show ?thesis
  proof (cases "j < length (pcToks pc)")
    case True
    have "spEnd (tkSpan (peek pc i)) \<le> spStart (tkSpan (peek pc j))"
      using assms(1) ij True by (auto simp: tokensOK_def peek_def sorted_wrt_iff_nth_less)
    with peek_span [OF assms(1)] show ?thesis by (meson order_trans)
  next
    case beyond: False
    then have "spEnd (tkSpan (peek pc j)) = int (pcEnd pc)" by (simp add: peek_def)
    with peek_span [OF assms(1), of i] show ?thesis by simp
  qed
qed (use peek_span [OF assms(1)] in simp)

lemma tokensSpan_one: "tokensOK pc \<Longrightarrow> tkSpan (peek pc i) = tokensSpan pc i (Suc i)"
  using peek_span [of pc i] by (simp add: tokensSpan_def)

lemma tokensSpan_valid: "tokensOK pc \<Longrightarrow> i < j \<Longrightarrow> spanIsValid (tokensSpan pc i j)"
  using peek_order [of pc i "j - 1"] peek_span [of pc i]
  by (simp add: tokensSpan_def spanIsValid_def tokensOK_def)

lemma tokensSpan_merge:
  "tokensOK pc \<Longrightarrow> i < j \<Longrightarrow> k < l \<Longrightarrow> mergeSpans (tokensSpan pc i j) (tokensSpan pc k l) = tokensSpan pc i l"
  using tokensSpan_valid [of pc] by (simp add: mergeSpans_def) (simp add: tokensSpan_def)

section \<open>The contract of sub-expressions\<close>

definition exprPost :: "parse_context \<Rightarrow> nat \<Rightarrow> source_expr \<Rightarrow> nat \<Rightarrow> bool" where
  "exprPost pc i e j \<longleftrightarrow>
     i < j \<and> j \<le> length (pcToks pc) \<and> SourceSpan e = tokensSpan pc i j \<and> \<not> isBlockExpr e"

lemma parseTypeRefs_wp:
  "length (pcToks pc) < i + n \<Longrightarrow> i \<le> length (pcToks pc) \<Longrightarrow>
   (\<And>t j. i < j \<Longrightarrow> j \<le> length (pcToks pc) \<Longrightarrow> Q t j) \<Longrightarrow> wpP (parseTypeRefs pc n) Q i"
proof (induction n arbitrary: i Q)
  case (Suc n)
  show ?case
    using Suc.prems
    by (auto simp: wp peek_beyond not_less split: option.split intro!: Suc.IH)
qed simp

lemma parseTypeRef_wp:
  "i \<le> length (pcToks pc) \<Longrightarrow>
   (\<And>t j. i < j \<Longrightarrow> j \<le> length (pcToks pc) \<Longrightarrow> Q t j) \<Longrightarrow> wpP (parseTypeRef pc) Q i"
  unfolding parseTypeRef_def by (rule parseTypeRefs_wp) (simp_all add: loopFuel_def)

lemma parseResultTypeArguments_wp:
  "i \<le> length (pcToks pc) \<Longrightarrow>
   (\<And>s t j. i < j \<Longrightarrow> j \<le> length (pcToks pc) \<Longrightarrow> Q (peek pc i, s, t) j) \<Longrightarrow>
   wpP (parseResultTypeArguments pc) Q i"
  by (auto simp: parseResultTypeArguments_def wp intro!: parseTypeRef_wp)

lemma fieldSelector_wp:
  "(\<And>s j. i < j \<Longrightarrow> j \<le> length (pcToks pc) \<Longrightarrow> Q s j) \<Longrightarrow> wpP (fieldSelector pc) Q i"
  by (auto simp: fieldSelector_def wp)

lemma fixedSelectors_wp:
  "i \<le> length (pcToks pc) \<Longrightarrow>
   (\<And>s j. i \<le> j \<Longrightarrow> j \<le> length (pcToks pc) \<Longrightarrow> Q s j) \<Longrightarrow> wpP (fixedSelectors pc n ss) Q i"
proof (induction n arbitrary: i ss)
  case (Suc n)
  then show ?case by (auto simp: wp intro!: fieldSelector_wp Suc.IH)
qed (simp add: wp)

text \<open>A loop with the whole fuel, started inside the tokens.\<close>

lemma wp_loop:
  assumes "I s i" "i \<le> length (pcToks pc)"
    and "\<And>s j. I s j \<Longrightarrow> i \<le> j \<Longrightarrow> j \<le> length (pcToks pc) \<Longrightarrow>
      wpP (turn s) (\<lambda>x k. case x of Inl s' \<Rightarrow> j < k \<and> k \<le> length (pcToks pc) \<and> I s' k | Inr r \<Rightarrow> Q r k) j"
  shows "wpP (repeatP (loopFuel pc) turn s) Q i"
proof (rule wp_repeat [where I = I, OF assms(1,2)])
  show "length (pcToks pc) < i + loopFuel pc" by (simp add: loopFuel_def)
qed (rule assms(3))

text \<open>
  What the forms require of the parser of sub-expressions: with enough fuel for the tokens that are
  left it meets the postcondition of expressions, at every precedence.
\<close>

locale sub_expressions =
  fixes pc :: parse_context and rec :: sub_parser and depth :: nat
  assumes rec_ok: "tokensOK pc \<Longrightarrow> length (pcToks pc) < j + depth \<Longrightarrow> j \<le> length (pcToks pc) \<Longrightarrow> 0 < m \<Longrightarrow>
    wpP (rec m) (exprPost pc j) j"
begin

lemma rec_wp:
  "tokensOK pc \<Longrightarrow> length (pcToks pc) < j + depth \<Longrightarrow> j \<le> length (pcToks pc) \<Longrightarrow> 0 < m \<Longrightarrow>
   (\<And>e k. j < k \<Longrightarrow> k \<le> length (pcToks pc) \<Longrightarrow> SourceSpan e = tokensSpan pc j k \<Longrightarrow>
     \<not> isBlockExpr e \<Longrightarrow> Q e k) \<Longrightarrow>
   wpP (rec m) Q j"
  by (rule wp_mono [OF rec_ok]) (auto simp: exprPost_def)

lemma rec_one_wp:
  "tokensOK pc \<Longrightarrow> length (pcToks pc) < j + depth \<Longrightarrow> j \<le> length (pcToks pc) \<Longrightarrow>
   (\<And>e k. j < k \<Longrightarrow> k \<le> length (pcToks pc) \<Longrightarrow> SourceSpan e = tokensSpan pc j k \<Longrightarrow>
     \<not> isBlockExpr e \<Longrightarrow> Q e k) \<Longrightarrow>
   wpP (rec (Suc 0)) Q j"
  by (rule rec_wp) simp_all

lemma unaryForm_wp:
  assumes "tokensOK pc" "length (pcToks pc) < i + Suc depth"
    "\<And>v s. SourceSpan (node v s) = s" "\<And>v s. \<not> isBlockExpr (node v s)"
  shows "wpP (unaryForm pc rec node) (exprPost pc i) i"
  using assms
  by (auto simp: unaryForm_def wp exprPost_def tokensSpan_one tokensSpan_merge intro!: rec_one_wp)

lemma binaryForm_wp:
  assumes "tokensOK pc" "length (pcToks pc) < i + Suc depth"
    "\<And>v w s. SourceSpan (node v w s) = s" "\<And>v w s. \<not> isBlockExpr (node v w s)"
  shows "wpP (binaryForm pc rec node) (exprPost pc i) i"
  using assms
  by (auto simp: binaryForm_def wp exprPost_def tokensSpan_one tokensSpan_merge intro!: rec_one_wp)

lemma resultForm_wp:
  assumes "tokensOK pc" "length (pcToks pc) < i + Suc depth" "i \<le> length (pcToks pc)"
    "\<And>t u v s. SourceSpan (node t u v s) = s" "\<And>t u v s. \<not> isBlockExpr (node t u v s)"
  shows "wpP (resultForm pc rec node) (exprPost pc i) i"
  using assms
  by (auto simp: resultForm_def wp exprPost_def tokensSpan_one tokensSpan_merge
      intro!: rec_one_wp parseResultTypeArguments_wp)

lemma typeForm_wp:
  assumes "tokensOK pc" "\<And>t s. SourceSpan (node t s) = s" "\<And>t s. \<not> isBlockExpr (node t s)"
  shows "wpP (typeForm pc node) (exprPost pc i) i"
  using assms
  by (auto simp: typeForm_def wp exprPost_def tokensSpan_one tokensSpan_merge intro!: parseTypeRef_wp)

lemma selectorForm_wp:
  assumes "tokensOK pc" "length (pcToks pc) < i + Suc depth"
    "\<And>a b c d e s. SourceSpan (node a b c d e s) = s" "\<And>a b c d e s. \<not> isBlockExpr (node a b c d e s)"
  shows "wpP (selectorForm pc rec node) (exprPost pc i) i"
  using assms
  by (auto simp: selectorForm_def wp exprPost_def tokensSpan_one tokensSpan_merge
      intro!: rec_one_wp fieldSelector_wp)

lemma parsePropagate_wp:
  assumes "tokensOK pc" "length (pcToks pc) < i + Suc depth" "tkKind (peek pc i) = tokIdent"
  shows "wpP (parsePropagate pc rec) (exprPost pc i) i"
  using assms
  by (auto simp: parsePropagate_def wp exprPost_def tokensSpan_one tokensSpan_merge peek_beyond not_less
      isBlockExpr_def intro!: rec_one_wp)

lemma parseListFilterPredicate_wp:
  assumes "tokensOK pc" "length (pcToks pc) < i + Suc depth"
  shows "wpP (parseListFilterPredicate pc rec) (exprPost pc i) i"
  using assms
  by (auto simp: parseListFilterPredicate_def predicateArgument_def wp exprPost_def tokensSpan_one
      tokensSpan_merge peek_beyond not_less isBlockExpr_def
      intro!: rec_one_wp wp_loop [where I = "\<lambda>_ _. True"])

lemma parseListFilterJoined_wp:
  assumes "tokensOK pc" "length (pcToks pc) < i + Suc depth"
  shows "wpP (parseListFilterJoinedContainsCaseFolded pc rec) (exprPost pc i) i"
  using assms
  by (auto simp: parseListFilterJoinedContainsCaseFolded_def joinedSelector_def wp exprPost_def
      tokensSpan_one tokensSpan_merge peek_beyond not_less isBlockExpr_def
      intro!: rec_one_wp fixedSelectors_wp wp_loop [where I = "\<lambda>_ _. True"])

lemma directionTurn_wp:
  assumes "tokensOK pc" "a < i" "i \<le> length (pcToks pc)"
  shows "wpP (repeatP (loopFuel pc) (directionTurn pc (peek pc a) e) s) (exprPost pc a) i"
  using assms
  by (auto simp: directionTurn_def wp exprPost_def tokensSpan_one tokensSpan_merge peek_beyond not_less
      isBlockExpr_def intro!: fieldSelector_wp wp_loop [where I = "\<lambda>_ _. True"])

lemma legacyTurn_wp:
  assumes "tokensOK pc" "a < i" "i \<le> length (pcToks pc)"
  shows "wpP (repeatP (loopFuel pc) (legacyTurn pc (peek pc a) e) s) (exprPost pc a) i"
  using assms
  by (auto simp: legacyTurn_def wp exprPost_def tokensSpan_one tokensSpan_merge peek_beyond not_less
      isBlockExpr_def split: prod.split intro!: wp_loop [where I = "\<lambda>_ _. True"])

lemma sortSelectorTurn_wp:
  assumes "tokensOK pc" "a < i" "i \<le> length (pcToks pc)"
  shows "wpP (repeatP (loopFuel pc) (sortSelectorTurn pc (peek pc a) e) s) (exprPost pc a) i"
  using assms
  by (auto simp: sortSelectorTurn_def wp exprPost_def tokensSpan_one tokensSpan_merge peek_beyond not_less
      isBlockExpr_def sortOne_def Let_def intro!: fieldSelector_wp wp_loop [where I = "\<lambda>_ _. True"])

lemma exprPost_sortOne:
  "exprPost pc a (sortOne v s sp) j \<longleftrightarrow> a < j \<and> j \<le> length (pcToks pc) \<and> sp = tokensSpan pc a j"
  by (auto simp: exprPost_def sortOne_def isBlockExpr_def)

lemma sortFromV32_wp:
  assumes "tokensOK pc" "a < i"
  shows "wpP (sortFromV32 pc (peek pc a) e) (exprPost pc a) i"
  using assms
  by (auto simp: sortFromV32_def wp exprPost_sortOne tokensSpan_one tokensSpan_merge
      peek_beyond not_less
      intro!: fieldSelector_wp directionTurn_wp legacyTurn_wp)

lemma parseListSortByOrdinal_wp:
  assumes "tokensOK pc" "length (pcToks pc) < i + Suc depth"
  shows "wpP (parseListSortByOrdinal pc rec) (exprPost pc i) i"
  using assms
  by (auto simp: parseListSortByOrdinal_def wp exprPost_sortOne tokensSpan_one tokensSpan_merge
      intro!: rec_one_wp fieldSelector_wp sortFromV32_wp sortSelectorTurn_wp)

lemma parseRecordConstruction_wp:
  assumes "tokensOK pc" "length (pcToks pc) < i + Suc depth"
  shows "wpP (parseRecordConstruction pc rec) (exprPost pc i) i"
  using assms
  by (auto simp: parseRecordConstruction_def recordFieldTurn_def wp exprPost_def tokensSpan_one
      tokensSpan_merge peek_beyond not_less isBlockExpr_def Let_def
      intro!: rec_one_wp wp_loop [where I = "\<lambda>_ _. True"])

lemma parsePureCall_wp:
  assumes "tokensOK pc" "length (pcToks pc) < i + Suc depth"
  shows "wpP (parsePureCall pc rec) (\<lambda>e j. exprPost pc i e j \<and> isCallExpr e) i"
  using assms
  by (auto simp: parsePureCall_def callArgumentTurn_def wp exprPost_def tokensSpan_one
      tokensSpan_merge peek_beyond not_less isBlockExpr_def isCallExpr_def
      intro!: rec_one_wp wp_loop [where I = "\<lambda>_ _. True"])

lemma parseMatch_wp:
  assumes "tokensOK pc" "length (pcToks pc) < i + Suc depth" "tkKind (peek pc i) = tokIdent"
  shows "wpP (parseMatch pc rec) (exprPost pc i) i"
  using assms
  by (auto simp: parseMatch_def matchArmTurn_def matchPattern_def matchBinding_def wp exprPost_def
      tokensSpan_one tokensSpan_merge peek_beyond not_less isBlockExpr_def Let_def
      intro!: rec_one_wp wp_loop [where I = "\<lambda>_ _. True"])

lemma parseQualifiedCall_wp:
  assumes "tokensOK pc" "length (pcToks pc) < i + Suc depth" "tkKind (peek pc i) = tokIdent"
    "tkKind (peek pc (Suc i)) = tokDot"
  shows "wpP (parseQualifiedCall pc rec) (exprPost pc i) i"
proof -
  have "wpP (parsePureCall pc rec) (\<lambda>call j. wpP (qualifyCall (peek pc i) call) (exprPost pc i) j) (Suc (Suc i))"
  proof (rule wp_mono [OF parsePureCall_wp])
    fix e j
    assume e: "exprPost pc (Suc (Suc i)) e j \<and> isCallExpr e"
    then obtain n ns as ts sp where "e = CallExpr n ns as ts sp"
      by (auto simp: isCallExpr_def split: source_expr.splits)
    with e assms show "wpP (qualifyCall (peek pc i) e) (exprPost pc i) j"
      by (auto simp: qualifyCall_def wp exprPost_def tokensSpan_one tokensSpan_merge isBlockExpr_def)
  qed (use assms in simp_all)
  moreover have "Suc i < length (pcToks pc)" using assms(4) peek_before_end by simp
  ultimately show ?thesis by (simp add: parseQualifiedCall_def wp)
qed

text \<open>Every form that an identifier opens.\<close>

lemma keywordForm_wp:
  assumes "keywordForm pc rec lit = Some p" "tokensOK pc" "length (pcToks pc) < i + Suc depth"
    "tkKind (peek pc i) = tokIdent"
  shows "wpP p (exprPost pc i) i"
proof -
  have i: "i \<le> length (pcToks pc)" using assms(4) peek_before_end by (simp add: less_imp_le)
  note unary = unaryForm_wp [OF assms(2,3)] and binary = binaryForm_wp [OF assms(2,3)]
  note selectors = selectorForm_wp [OF assms(2,3)] and results = resultForm_wp [OF assms(2,3) i]
  show ?thesis
    using assms(1)
    by (auto simp: keywordForm_def Let_def split: if_splits
        intro!: parseMatch_wp [OF assms(2-4)] parsePropagate_wp [OF assms(2-4)]
          parseRecordConstruction_wp [OF assms(2,3)] parseListFilterPredicate_wp [OF assms(2,3)]
          parseListFilterJoined_wp [OF assms(2,3)] parseListSortByOrdinal_wp [OF assms(2,3)]
          unary binary selectors results typeForm_wp [OF assms(2)]
        simp: parseTextContainsCaseFolded_def parseTextTrim_def parseResultIsOK_def
          parseResultSuccessOr_def parseResultFailureOr_def parseListSingleton_def parseListCount_def
          parseListAppend_def parseListAt_def parseOptionalSome_def parseOptionalHasValue_def
          parseOptionalValueOr_def parseResultOK_def parseResultErr_def parseListEmpty_def
          parseOptionalNone_def parseListFindByText_def parseListFilterByText_def
          parseListFilterContainsCaseFolded_def isBlockExpr_def)
qed

lemma parseIdentifier_wp:
  assumes "tokensOK pc" "length (pcToks pc) < i + Suc depth" "tkKind (peek pc i) = tokIdent"
  shows "wpP (parseIdentifier pc rec (peek pc i)) (exprPost pc i) i"
proof -
  have i: "i < length (pcToks pc)" using assms(3) peek_before_end by simp
  have call: "wpP (parsePureCall pc rec) (exprPost pc i) i"
    by (rule wp_mono [OF parsePureCall_wp [OF assms(1,2)]]) simp
  show ?thesis
    using i assms call parseQualifiedCall_wp [OF assms] keywordForm_wp [OF _ assms]
    by (auto simp: parseIdentifier_def wp exprPost_def [of pc i "IdentExpr _ _"] tokensSpan_one
        isBlockExpr_def split: option.splits)
qed

lemma parsePrimary_wp:
  assumes "tokensOK pc" "length (pcToks pc) < i + Suc depth"
  shows "wpP (parsePrimary pc rec) (exprPost pc i) i"
proof -
  have lit: "exprPost pc i (LiteralExpr v (tkSpan (peek pc i))) (Suc i)" if "i < length (pcToks pc)" for v
    using that assms(1) by (simp add: exprPost_def tokensSpan_one isBlockExpr_def)
  have paren: "exprPost pc i (setExprSpan e (mergeSpans (tkSpan (peek pc i)) (tkSpan (peek pc k)))) (Suc k)"
    if "i < k" "k < length (pcToks pc)" "\<not> isBlockExpr e" for e k
    using that assms(1) by (simp add: exprPost_def tokensSpan_one tokensSpan_merge)
  show ?thesis
    using assms lit paren parseIdentifier_wp [OF assms]
    by (auto simp: parsePrimary_def wp peek_beyond not_less split: token_kind.split option.split
        intro!: rec_one_wp)
qed

text \<open>A loop that extends an expression starting at \<open>i\<close>.\<close>

lemma extend_loop:
  assumes "exprPost pc i e k"
    and "\<And>s j. exprPost pc i s j \<Longrightarrow> k \<le> j \<Longrightarrow>
      wpP (turn s) (\<lambda>x l. case x of Inl s' \<Rightarrow> j < l \<and> exprPost pc i s' l | Inr r \<Rightarrow> exprPost pc i r l) j"
    and "length (pcToks pc) < k + n"
  shows "wpP (repeatP n turn e) (exprPost pc i) k"
proof (rule wp_repeat [where I = "exprPost pc i"])
  fix s j
  assume "exprPost pc i s j" "k \<le> j"
  from assms(2) [OF this] show "wpP (turn s)
      (\<lambda>x l. case x of Inl s' \<Rightarrow> j < l \<and> l \<le> length (pcToks pc) \<and> exprPost pc i s' l
        | Inr r \<Rightarrow> exprPost pc i r l) j"
    by (rule wp_mono) (auto simp: exprPost_def split: sum.splits)
qed (use assms in \<open>auto simp: exprPost_def\<close>)

lemma postfixTurn_wp:
  assumes "tokensOK pc" "length (pcToks pc) < i + Suc depth" "exprPost pc i s j"
  shows "wpP (postfixTurn pc rec s)
    (\<lambda>x l. case x of Inl s' \<Rightarrow> j < l \<and> exprPost pc i s' l | Inr r \<Rightarrow> exprPost pc i r l) j"
  using assms
  by (auto simp: postfixTurn_def wp exprPost_def tokensSpan_one tokensSpan_merge peek_beyond not_less
      isBlockExpr_def intro!: rec_one_wp)

lemma parsePostfix_wp:
  assumes "tokensOK pc" "length (pcToks pc) < i + Suc depth"
  shows "wpP (parsePostfix pc rec) (exprPost pc i) i"
proof -
  have "wpP (repeatP (loopFuel pc) (postfixTurn pc rec) e) (exprPost pc i) k" if "exprPost pc i e k" for e k
    by (rule extend_loop [OF that]) (use assms in \<open>simp_all add: postfixTurn_wp loopFuel_def\<close>)
  then show ?thesis
    unfolding parsePostfix_def wp
    by (intro wp_mono [OF parsePrimary_wp [OF assms]]) (simp add: wp)
qed

lemma parseUnary_wp:
  assumes "tokensOK pc" "length (pcToks pc) < i + Suc depth" "length (pcToks pc) < i + n"
    "i \<le> length (pcToks pc)"
  shows "wpP (parseUnary pc rec n) (exprPost pc i) i"
  using assms
proof (induction n arbitrary: i)
  case (Suc n)
  have unary: "wpP (parseUnary pc rec n)
      (\<lambda>e j. exprPost pc i (UnaryExpr l e (mergeSpans (tkSpan (peek pc i)) (SourceSpan e))) j) (Suc i)"
    if "i < length (pcToks pc)" for l
    by (rule wp_mono [OF Suc.IH])
      (use Suc.prems that in \<open>simp_all add: exprPost_def tokensSpan_one tokensSpan_merge isBlockExpr_def\<close>)
  show ?case
    using unary Suc.prems parsePostfix_wp [OF Suc.prems(1,2)]
    by (auto simp: wp peek_beyond not_less)
qed simp

lemma binaryTurn_wp:
  assumes "tokensOK pc" "length (pcToks pc) < i + Suc depth" "exprPost pc i s j" "0 < m"
  shows "wpP (binaryTurn pc rec m s)
    (\<lambda>x l. case x of Inl s' \<Rightarrow> j < l \<and> exprPost pc i s' l | Inr r \<Rightarrow> exprPost pc i r l) j"
proof (cases "binaryPrecedence (tkKind (peek pc j)) < m")
  case False
  with assms(4) have "j < length (pcToks pc)"
    using peek_before_end [of pc j] by (cases "tkKind (peek pc j)") (auto simp: binaryPrecedence_def)
  with False assms show ?thesis
    by (auto simp: binaryTurn_def wp Let_def exprPost_def tokensSpan_merge isBlockExpr_def
        intro!: rec_wp)
qed (use assms in \<open>simp add: binaryTurn_def wp\<close>)

lemma conditionalTail_wp:
  assumes "tokensOK pc" "length (pcToks pc) < i + Suc depth" "exprPost pc i s j"
  shows "wpP (conditionalTail pc rec m s) (exprPost pc i) j"
  using assms
  by (auto simp: conditionalTail_def wp exprPost_def tokensSpan_one tokensSpan_merge peek_beyond not_less
      isBlockExpr_def intro!: rec_one_wp)

lemma exprLevel_wp:
  assumes "tokensOK pc" "length (pcToks pc) < i + Suc depth" "i \<le> length (pcToks pc)" "0 < m"
  shows "wpP (exprLevel pc rec (Suc depth) m) (exprPost pc i) i"
proof -
  have binary: "wpP (repeatP (Suc depth) (binaryTurn pc rec m) e) (exprPost pc i) k" if "exprPost pc i e k" for e k
  proof (rule extend_loop [OF that binaryTurn_wp [OF assms(1,2) _ assms(4)]])
    show "length (pcToks pc) < k + Suc depth" using that assms(2) by (simp add: exprPost_def)
  qed
  have loop: "wpP (repeatP (Suc depth) (binaryTurn pc rec m) e)
      (\<lambda>e j. wpP (conditionalTail pc rec m e) (exprPost pc i) j) k" if "exprPost pc i e k" for e k
    by (rule wp_mono [OF binary [OF that]]) (rule conditionalTail_wp [OF assms(1,2)])
  show ?thesis
    unfolding exprLevel_def wp
    by (rule wp_mono [OF parseUnary_wp [OF assms(1,2) assms(2,3)] loop])
qed

end

text \<open>The recursive parser meets the contract at every depth, by induction on the depth.\<close>

lemma parseExprs_contract: "sub_expressions pc (parseExprs pc n) n"
proof (induction n)
  case 0
  show ?case by unfold_locales simp
next
  case (Suc n)
  show ?case by unfold_locales (use sub_expressions.exprLevel_wp [OF Suc.IH] in simp)
qed

interpretation exprs: sub_expressions pc "parseExprs pc n" n for pc n
  by (rule parseExprs_contract)

end
