(* ===== verification/ParserTrees.thy ===== *)
theory ParserTrees
  imports ParserRules
begin

text \<open>
  Operator expressions as trees, printed with the parentheses that the precedences require and no
  others, and the proof that the parser reads the tree back.
\<close>

section \<open>Trees and their tokens\<close>

datatype op_tree =
    TreeName string
  | TreeText string
  | TreeBool bool
  | TreeInt nat
  | TreeField op_tree string
  | TreeIndex op_tree op_tree
  | TreeUnary token_kind op_tree
  | TreeBinary token_kind op_tree op_tree
  | TreeCond op_tree op_tree op_tree

type_synonym lexeme_list = "(token_kind \<times> string) list"

definition fixedToken :: "token_kind \<Rightarrow> token_kind \<times> string" where
  "fixedToken k = (k, case fixedText k of Some s \<Rightarrow> s | None \<Rightarrow> [])"

fun treeLevel :: "op_tree \<Rightarrow> nat" where
  "treeLevel (TreeField t n) = 8"
| "treeLevel (TreeIndex t x) = 8"
| "treeLevel (TreeUnary k t) = 7"
| "treeLevel (TreeBinary k l r) = binaryPrecedence k"
| "treeLevel (TreeCond c a b) = 0"
| "treeLevel _ = 9"

definition wrapped :: "bool \<Rightarrow> lexeme_list \<Rightarrow> lexeme_list" where
  "wrapped b ts = (if b then fixedToken tokLParen # ts @ [fixedToken tokRParen] else ts)"

fun decimalText :: "nat \<Rightarrow> string" where
  "decimalText n =
     (if n < 10 then [char_of (48 + n)] else decimalText (n div 10) @ [char_of (48 + n mod 10)])"

declare decimalText.simps [simp del]

primrec treeTokens :: "op_tree \<Rightarrow> lexeme_list" where
  "treeTokens (TreeName n) = [(tokIdent, n)]"
| "treeTokens (TreeText s) = [(tokString, s)]"
| "treeTokens (TreeBool b) = [(tokBool, if b then ''true'' else ''false'')]"
| "treeTokens (TreeInt n) = [(tokInt, decimalText n)]"
| "treeTokens (TreeField t n) =
     wrapped (treeLevel t < 8) (treeTokens t) @ [fixedToken tokDot, (tokIdent, n)]"
| "treeTokens (TreeIndex t x) =
     wrapped (treeLevel t < 8) (treeTokens t) @ fixedToken tokLBracket # treeTokens x
       @ [fixedToken tokRBracket]"
| "treeTokens (TreeUnary k t) = fixedToken k # wrapped (treeLevel t < 7) (treeTokens t)"
| "treeTokens (TreeBinary k l r) =
     wrapped (treeLevel l < binaryPrecedence k) (treeTokens l)
       @ fixedToken k # wrapped (treeLevel r < Suc (binaryPrecedence k)) (treeTokens r)"
| "treeTokens (TreeCond c a b) =
     wrapped (treeLevel c < 1) (treeTokens c) @ fixedToken tokQuestion # treeTokens a
       @ fixedToken tokColon # treeTokens b"

definition printTree :: "nat \<Rightarrow> op_tree \<Rightarrow> lexeme_list" where
  "printTree p t = wrapped (treeLevel t < p) (treeTokens t)"

text \<open>The names that open a form.\<close>

definition formWords :: "string list" where
  "formWords =
     [''match'', ''propagate'', ''new'', ''contains_casefolded'', ''trim'', ''some'', ''none'',
      ''has_value'', ''value_or'', ''filter'', ''empty_list'', ''list'', ''count'', ''append'',
      ''at'', ''find_by'', ''filter_by'', ''filter_contains_casefolded'',
      ''filter_joined_contains_casefolded'', ''sort_by_ordinal'', ''ok'', ''err'', ''is_ok'',
      ''success_or'', ''failure_or'']"

definition plainName :: "string \<Rightarrow> bool" where
  "plainName n \<longleftrightarrow> lexeme tokIdent n"

primrec treeOK :: "op_tree \<Rightarrow> bool" where
  "treeOK (TreeName n) \<longleftrightarrow> plainName n \<and> n \<notin> set formWords"
| "treeOK (TreeText s) \<longleftrightarrow> True"
| "treeOK (TreeBool b) \<longleftrightarrow> True"
| "treeOK (TreeInt n) \<longleftrightarrow> n < 9223372036854775808"
| "treeOK (TreeField t n) \<longleftrightarrow> treeOK t \<and> plainName n"
| "treeOK (TreeIndex t x) \<longleftrightarrow> treeOK t \<and> treeOK x"
| "treeOK (TreeUnary k t) \<longleftrightarrow> (k = tokBang \<or> k = tokMinus) \<and> treeOK t"
| "treeOK (TreeBinary k l r) \<longleftrightarrow> 0 < binaryPrecedence k \<and> treeOK l \<and> treeOK r"
| "treeOK (TreeCond c a b) \<longleftrightarrow> treeOK c \<and> treeOK a \<and> treeOK b"

text \<open>The node a tree stands for, whatever its spans.\<close>

primrec represents :: "op_tree \<Rightarrow> source_expr \<Rightarrow> bool" where
  "represents (TreeName n) e \<longleftrightarrow> (case e of IdentExpr m _ \<Rightarrow> m = n | _ \<Rightarrow> False)"
| "represents (TreeText s) e \<longleftrightarrow>
     (case e of LiteralExpr v _ \<Rightarrow> v = (zeroValue TypeString)\<lparr>svString := s\<rparr> | _ \<Rightarrow> False)"
| "represents (TreeBool b) e \<longleftrightarrow>
     (case e of LiteralExpr v _ \<Rightarrow> v = (zeroValue TypeBool)\<lparr>svBool := b\<rparr> | _ \<Rightarrow> False)"
| "represents (TreeInt n) e \<longleftrightarrow>
     (case e of LiteralExpr v _ \<Rightarrow> v = (zeroValue TypeInt)\<lparr>svInt := of_nat n\<rparr> | _ \<Rightarrow> False)"
| "represents (TreeField t n) e \<longleftrightarrow>
     (case e of FieldExpr r m _ _ \<Rightarrow> represents t r \<and> m = n | _ \<Rightarrow> False)"
| "represents (TreeIndex t x) e \<longleftrightarrow>
     (case e of ListAtExpr r i postfix _ \<Rightarrow> represents t r \<and> represents x i \<and> postfix | _ \<Rightarrow> False)"
| "represents (TreeUnary k t) e \<longleftrightarrow>
     (case e of UnaryExpr op a _ \<Rightarrow> fixedText k = Some op \<and> represents t a | _ \<Rightarrow> False)"
| "represents (TreeBinary k l r) e \<longleftrightarrow>
     (case e of BinaryExpr op a b _ \<Rightarrow> fixedText k = Some op \<and> represents l a \<and> represents r b
      | _ \<Rightarrow> False)"
| "represents (TreeCond c a b) e \<longleftrightarrow>
     (case e of ConditionalExpr x y z terminal _ \<Rightarrow>
        represents c x \<and> represents a y \<and> represents b z \<and> \<not> terminal
      | _ \<Rightarrow> False)"

lemma represents_setExprSpan [simp]: "represents t (setExprSpan e sp) \<longleftrightarrow> represents t e"
  by (cases t) (cases e; simp)+

section \<open>Decimal text\<close>

lemma decimalValue_snoc: "decimalValue (s @ [c]) = 10 * decimalValue s + int (byte c - 48)"
  by (simp add: decimalValue_def)

lemma isDigit_char: "n < 10 \<Longrightarrow> isDigit (char_of (48 + n)) \<and> byte (char_of (48 + n)) = 48 + n"
  by (auto simp: isDigit_def byte_def)

lemma decimalText_digits: "digitsText (decimalText n) \<and> decimalValue (decimalText n) = int n"
proof (induction n rule: decimalText.induct)
  case (1 n)
  show ?case
  proof (cases "n < 10")
    case True
    with isDigit_char [OF True] show ?thesis
      by (subst (1 2) decimalText.simps) (simp add: digitsText_def decimalValue_def)
  next
    case False
    have "n mod 10 < 10" by simp
    note d = isDigit_char [OF this]
    have "int n = 10 * int (n div 10) + int (n mod 10)" by presburger
    with 1 False d show ?thesis
      by (subst (1 2) decimalText.simps) (simp add: digitsText_def decimalValue_snoc)
  qed
qed

lemma parseInt64_decimal: "n < 9223372036854775808 \<Longrightarrow> parseInt64 (decimalText n) = Some (of_nat n)"
proof -
  assume n: "n < 9223372036854775808"
  have "sint maxInt64 = 9223372036854775807" by (simp add: maxInt64_def)
  moreover have "int n \<le> 9223372036854775807" using n by simp
  ultimately show ?thesis
    using decimalText_digits [of n] by (simp add: parseInt64_def digitsText_def)
qed

section \<open>Reading tokens\<close>

definition lexemeOf :: "token \<Rightarrow> token_kind \<times> string" where
  "lexemeOf t = (tkKind t, tkLit t)"

text \<open>The tokens from an index on.\<close>

fun reads :: "parse_context \<Rightarrow> nat \<Rightarrow> lexeme_list \<Rightarrow> bool" where
  "reads pc i [] \<longleftrightarrow> True"
| "reads pc i (t # ts) \<longleftrightarrow> i < length (pcToks pc) \<and> lexemeOf (peek pc i) = t \<and> reads pc (Suc i) ts"

lemma reads_append [simp]: "reads pc i (s @ t) \<longleftrightarrow> reads pc i s \<and> reads pc (i + length s) t"
  by (induction s arbitrary: i) auto

lemma reads_end: "reads pc i ts \<Longrightarrow> ts \<noteq> [] \<Longrightarrow> i + length ts \<le> length (pcToks pc)"
proof (induction ts arbitrary: i)
  case (Cons t ts)
  then show ?case by (cases ts) fastforce+
qed simp

lemma keywordForm_plain: "n \<notin> set formWords \<Longrightarrow> keywordForm pc rec n = None"
  by (simp add: keywordForm_def formWords_def Let_def)

text \<open>A loop that takes one more turn.\<close>

lemma repeatP_more: "turn s i = Parsed (Inl s') j \<Longrightarrow> repeatP (Suc n) turn s i = repeatP n turn s' j"
  by (simp add: bindP_def)

lemma repeatP_done: "turn s i = Parsed (Inr r) j \<Longrightarrow> repeatP (Suc n) turn s i = Parsed r j"
  by (simp add: bindP_def returnP_def)

text \<open>The token after an expression that the parser of level \<open>m\<close> stops at.\<close>

definition endsOperand :: "token_kind \<Rightarrow> bool" where
  "endsOperand k \<longleftrightarrow> k \<noteq> tokLParen \<and> k \<noteq> tokDot \<and> k \<noteq> tokLBracket"

definition endsExpr :: "nat \<Rightarrow> token_kind \<Rightarrow> bool" where
  "endsExpr m k \<longleftrightarrow> endsOperand k \<and> binaryPrecedence k < m \<and> (m = 1 \<longrightarrow> k \<noteq> tokQuestion)"

text \<open>Level 1 reads conditionals without parentheses, the higher levels do not.\<close>

definition printLevel :: "nat \<Rightarrow> nat" where
  "printLevel m = (if m = 1 then 0 else m)"

text \<open>A parser of sub-expressions that reads back the trees of at most \<open>n\<close> tokens.\<close>

definition readsTrees :: "parse_context \<Rightarrow> sub_parser \<Rightarrow> nat \<Rightarrow> bool" where
  "readsTrees pc rec n \<longleftrightarrow>
     (\<forall>t m i. treeOK t \<and> 0 < m \<and> m \<le> 7 \<and> length (printTree (printLevel m) t) \<le> n
        \<and> reads pc i (printTree (printLevel m) t)
        \<and> endsExpr m (tkKind (peek pc (i + length (printTree (printLevel m) t)))) \<longrightarrow>
        (\<exists>e. rec m i = Parsed e (i + length (printTree (printLevel m) t)) \<and> represents t e))"

lemma readsTreesD:
  "readsTrees pc rec n \<Longrightarrow> treeOK t \<Longrightarrow> 0 < m \<Longrightarrow> m \<le> 7 \<Longrightarrow>
   length (printTree (printLevel m) t) \<le> n \<Longrightarrow> reads pc i (printTree (printLevel m) t) \<Longrightarrow>
   endsExpr m (tkKind (peek pc (i + length (printTree (printLevel m) t)))) \<Longrightarrow>
   \<exists>e. rec m i = Parsed e (i + length (printTree (printLevel m) t)) \<and> represents t e"
  unfolding readsTrees_def by blast

lemmas parse_eval = bindP_def andP_def peekP_def peekAtP_def nextP_def expectP_def returnP_def

lemma printTree_zero [simp]: "printTree 0 t = treeTokens t"
  by (simp add: printTree_def wrapped_def)

lemma printTree_unwrapped: "p \<le> treeLevel t \<Longrightarrow> printTree p t = treeTokens t"
  by (simp add: printTree_def wrapped_def)

lemma treeTokens_print:
  "treeTokens (TreeField t n) = printTree 8 t @ [fixedToken tokDot, (tokIdent, n)]"
  "treeTokens (TreeIndex t x) =
     printTree 8 t @ fixedToken tokLBracket # treeTokens x @ [fixedToken tokRBracket]"
  "treeTokens (TreeUnary k t) = fixedToken k # printTree 7 t"
  "treeTokens (TreeBinary k l r) =
     printTree (binaryPrecedence k) l @ fixedToken k # printTree (Suc (binaryPrecedence k)) r"
  "treeTokens (TreeCond c a b) =
     printTree 1 c @ fixedToken tokQuestion # treeTokens a @ fixedToken tokColon # treeTokens b"
  by (simp_all add: printTree_def)

lemmas lexeme_eval = lexemeOf_def fixedToken_def

lemma wrapped_length: "length (wrapped b ts) = (if b then length ts + 2 else length ts)"
  by (simp add: wrapped_def)

lemma reads_fixed:
  "lexemeOf t = fixedToken k \<Longrightarrow> tkKind t = k" "lexemeOf t = (k, s) \<Longrightarrow> tkKind t = k \<and> tkLit t = s"
  by (simp_all add: lexemeOf_def fixedToken_def)

lemma ends_bracket [simp]:
  "endsExpr m tokRParen \<longleftrightarrow> 0 < m" "endsExpr m tokRBracket \<longleftrightarrow> 0 < m" "endsExpr m tokColon \<longleftrightarrow> 0 < m"
  by (simp_all add: endsExpr_def endsOperand_def binaryPrecedence_def)

text \<open>Whatever \<open>rec\<close> reads at level 1: inside brackets and in the arms of a conditional.\<close>

lemma rec_reads:
  assumes "readsTrees pc rec n" "treeOK t" "length (treeTokens t) \<le> n" "reads pc i (treeTokens t)"
    "endsExpr 1 (tkKind (peek pc (i + length (treeTokens t))))"
  shows "\<exists>e. rec 1 i = Parsed e (i + length (treeTokens t)) \<and> represents t e"
  using readsTreesD [OF assms(1,2), of 1 i] assms(3-5) by (simp add: printLevel_def)

lemma paren_reads:
  assumes "readsTrees pc rec n" "treeOK t" "length (treeTokens t) \<le> n"
    "reads pc i (wrapped True (treeTokens t))"
  shows "\<exists>e. parsePrimary pc rec i = Parsed e (i + length (wrapped True (treeTokens t))) \<and> represents t e"
proof -
  let ?j = "Suc i + length (treeTokens t)"
  from assms(4) have r: "i < length (pcToks pc)" "tkKind (peek pc i) = tokLParen"
      "reads pc (Suc i) (treeTokens t)" "?j < length (pcToks pc)" "tkKind (peek pc ?j) = tokRParen"
    by (simp_all add: wrapped_def reads_fixed)
  obtain e where "rec 1 (Suc i) = Parsed e ?j" "represents t e"
    using rec_reads [OF assms(1-3) r(3)] r(5) by auto
  with r show ?thesis by (simp add: parsePrimary_def parse_eval wrapped_def)
qed

lemma leaf_reads:
  assumes "treeLevel t = 9" "treeOK t" "reads pc i (treeTokens t)" "\<not> pcNativeStreams pc"
    "tkKind (peek pc (i + length (treeTokens t))) \<noteq> tokLParen"
  shows "\<exists>e. parsePrimary pc rec i = Parsed e (i + length (treeTokens t)) \<and> represents t e"
  using assms
  by (cases t)
    (auto simp: parsePrimary_def parseIdentifier_def parse_eval keywordForm_plain lexemeOf_def
      parseInt64_decimal binaryPrecedence_def split: token_kind.splits)

lemma binaryPrecedence_le: "binaryPrecedence k \<le> 6"
  by (cases k) (simp_all add: binaryPrecedence_def)

lemma binaryPrecedence_small [simp]:
  "binaryPrecedence k < 8" "binaryPrecedence k < 7" "binaryPrecedence k \<noteq> 7"
  "binaryPrecedence k \<noteq> 8" "binaryPrecedence k \<noteq> 9"
  using binaryPrecedence_le [of k] by auto

lemma level_cases: "treeLevel t = 9 \<or> treeLevel t = 8 \<or> treeLevel t < 8"
  by (cases t) simp_all

text \<open>Leaves and trees in parentheses are read by \<open>parsePrimary\<close>.\<close>

lemma primary_reads:
  assumes "readsTrees pc rec n" "\<not> pcNativeStreams pc" "treeLevel t \<noteq> 8" "treeOK t"
    "reads pc i (printTree 8 t)" "length (printTree 8 t) \<le> Suc n"
    "tkKind (peek pc (i + length (printTree 8 t))) \<noteq> tokLParen"
  shows "\<exists>e k. represents t e \<and> k < length (printTree 8 t) \<and>
      (\<forall>f. bindP (parsePrimary pc rec) (repeatP (f + k) (postfixTurn pc rec)) i
        = repeatP f (postfixTurn pc rec) e (i + length (printTree 8 t)))"
proof -
  have "\<exists>e. parsePrimary pc rec i = Parsed e (i + length (printTree 8 t)) \<and> represents t e"
  proof (cases "treeLevel t < 8")
    case True
    with assms show ?thesis
      using paren_reads [of pc rec n t i] by (simp add: printTree_def wrapped_length)
  next
    case False
    with assms(3) level_cases [of t] have l: "treeLevel t = 9" by auto
    with assms show ?thesis
      using leaf_reads [of t pc i rec] by (simp add: printTree_def wrapped_def)
  qed
  moreover have "printTree 8 t \<noteq> []"
    by (cases t) (simp_all add: printTree_def wrapped_def)
  ultimately show ?thesis
    by (auto simp: bindP_def intro!: exI [of _ 0])
qed

text \<open>One more turn of the loop after a chain that is read.\<close>

lemma chain_turn:
  assumes "\<And>f. bindP p (repeatP (f + k) turn) i = repeatP f turn e j"
    and "turn e j = Parsed (Inl e') l"
  shows "bindP p (repeatP (f + Suc k) turn) i = repeatP f turn e' l"
  using assms(1) [of "Suc f"] repeatP_more [of turn e j e' l f] assms(2) by simp

text \<open>
  A postfix expression: after its primary the loop has taken some turns and holds the node, with
  the rest of its fuel.
\<close>

lemma postfix_reads:
  assumes "readsTrees pc rec n" "38 \<le> pcContract pc" "pcContract pc \<le> 115" "\<not> pcNativeStreams pc"
  shows "treeOK t \<Longrightarrow> reads pc i (printTree 8 t) \<Longrightarrow> length (printTree 8 t) \<le> Suc n \<Longrightarrow>
    tkKind (peek pc (i + length (printTree 8 t))) \<noteq> tokLParen \<Longrightarrow>
    \<exists>e k. represents t e \<and> k < length (printTree 8 t) \<and>
      (\<forall>f. bindP (parsePrimary pc rec) (repeatP (f + k) (postfixTurn pc rec)) i
        = repeatP f (postfixTurn pc rec) e (i + length (printTree 8 t)))"
proof (induction t arbitrary: i)
  case (TreeField t n)
  let ?p = "printTree 8 t"
  let ?j = "i + length ?p"
  have r: "reads pc i ?p" "?j < length (pcToks pc)" "tkKind (peek pc ?j) = tokDot"
      "Suc ?j < length (pcToks pc)" "tkKind (peek pc (Suc ?j)) = tokIdent" "tkLit (peek pc (Suc ?j)) = n"
    using TreeField.prems(2) by (simp_all add: printTree_unwrapped treeTokens_print lexeme_eval del: treeTokens.simps)
  obtain e k where e: "represents t e" "k < length ?p"
      "\<And>f. bindP (parsePrimary pc rec) (repeatP (f + k) (postfixTurn pc rec)) i
        = repeatP f (postfixTurn pc rec) e ?j"
    using TreeField.IH [OF _ r(1)] TreeField.prems r(3)
    by (auto simp: printTree_unwrapped treeTokens_print simp del: treeTokens.simps)
  let ?s = "tkSpan (peek pc (Suc ?j))"
  let ?e = "FieldExpr e n ?s (mergeSpans (SourceSpan e) ?s)"
  have "postfixTurn pc rec e ?j = Parsed (Inl ?e) (Suc (Suc ?j))"
    using r by (simp add: postfixTurn_def parse_eval)
  note turn = chain_turn [OF e(3) this]
  have l: "length (printTree 8 (TreeField t n)) = Suc (Suc (length ?p))"
    by (simp add: printTree_unwrapped treeTokens_print del: treeTokens.simps)
  show ?case
  proof (intro exI conjI allI)
    show "represents (TreeField t n) ?e" using e(1) by simp
    show "Suc k < length (printTree 8 (TreeField t n))" using e(2) l by simp
    show "bindP (parsePrimary pc rec) (repeatP (f + Suc k) (postfixTurn pc rec)) i
        = repeatP f (postfixTurn pc rec) ?e (i + length (printTree 8 (TreeField t n)))" for f
      using turn [of f] unfolding l add_Suc_right .
  qed
next
  case (TreeIndex t x)
  let ?p = "printTree 8 t"
  let ?j = "i + length ?p"
  let ?l = "Suc ?j + length (treeTokens x)"
  have r: "reads pc i ?p" "?j < length (pcToks pc)" "tkKind (peek pc ?j) = tokLBracket"
      "reads pc (Suc ?j) (treeTokens x)" "?l < length (pcToks pc)" "tkKind (peek pc ?l) = tokRBracket"
    using TreeIndex.prems(2)
    by (simp_all add: printTree_unwrapped treeTokens_print lexeme_eval add.assoc del: treeTokens.simps)
  obtain e k where e: "represents t e" "k < length ?p"
      "\<And>f. bindP (parsePrimary pc rec) (repeatP (f + k) (postfixTurn pc rec)) i
        = repeatP f (postfixTurn pc rec) e ?j"
    using TreeIndex.IH(1) [OF _ r(1)] TreeIndex.prems r(3)
    by (auto simp: printTree_unwrapped treeTokens_print simp del: treeTokens.simps)
  obtain v where v: "rec 1 (Suc ?j) = Parsed v ?l" "represents x v"
    using rec_reads [OF assms(1) _ _ r(4)] TreeIndex.prems r(6)
    by (auto simp: printTree_unwrapped treeTokens_print simp del: treeTokens.simps)
  let ?e = "ListAtExpr e v True (mergeSpans (SourceSpan e) (tkSpan (peek pc ?l)))"
  have "postfixTurn pc rec e ?j = Parsed (Inl ?e) (Suc ?l)"
    using r v assms(2,3) by (simp add: postfixTurn_def parse_eval)
  note turn = chain_turn [OF e(3) this]
  have l: "i + length (printTree 8 (TreeIndex t x)) = Suc ?l"
    by (simp add: printTree_unwrapped treeTokens_print del: treeTokens.simps)
  show ?case
  proof (intro exI conjI allI)
    show "represents (TreeIndex t x) ?e" using e(1) v(2) by simp
    show "Suc k < length (printTree 8 (TreeIndex t x))" using e(2) l by simp
    show "bindP (parsePrimary pc rec) (repeatP (f + Suc k) (postfixTurn pc rec)) i
        = repeatP f (postfixTurn pc rec) ?e (i + length (printTree 8 (TreeIndex t x)))" for f
      using turn [of f] unfolding l .
  qed
qed (rule primary_reads [OF assms(1,4)]; (assumption | simp))+

section \<open>Unary and binary expressions\<close>

lemma treeTokens_nonempty [simp]: "treeTokens t \<noteq> []"
  by (cases t) simp_all

lemma printTree_nonempty [simp]: "printTree p t \<noteq> []"
  by (simp add: printTree_def wrapped_def)

lemma reads_first: "reads pc i ts \<Longrightarrow> ts \<noteq> [] \<Longrightarrow> lexemeOf (peek pc i) = hd ts"
  by (cases ts) simp_all

lemma first_not_sign: "fst (hd (printTree 8 t)) \<noteq> tokBang \<and> fst (hd (printTree 8 t)) \<noteq> tokMinus"
proof (induction t)
  case (TreeField t n)
  then show ?case by (simp add: printTree_unwrapped treeTokens_print del: treeTokens.simps)
next
  case (TreeIndex t x)
  then show ?case by (simp add: printTree_unwrapped treeTokens_print del: treeTokens.simps)
qed (simp_all add: printTree_def wrapped_def fixedToken_def)

lemma operand_reads:
  assumes "readsTrees pc rec n" "38 \<le> pcContract pc" "pcContract pc \<le> 115" "\<not> pcNativeStreams pc"
    "treeOK t" "reads pc i (printTree 8 t)" "length (printTree 8 t) \<le> Suc n"
    "endsOperand (tkKind (peek pc (i + length (printTree 8 t))))"
  shows "\<exists>e. parseUnary pc rec (Suc u) i = Parsed e (i + length (printTree 8 t)) \<and> represents t e"
proof -
  let ?j = "i + length (printTree 8 t)"
  obtain e k where e: "represents t e" "k < length (printTree 8 t)"
      "\<And>f. bindP (parsePrimary pc rec) (repeatP (f + k) (postfixTurn pc rec)) i
        = repeatP f (postfixTurn pc rec) e ?j"
    using postfix_reads [OF assms(1-6,7)] assms(8) by (auto simp: endsOperand_def)
  have "?j \<le> length (pcToks pc)" using reads_end [OF assms(6)] by simp
  with e(2) have "loopFuel pc = Suc (loopFuel pc - k - 1) + k" by (simp add: loopFuel_def)
  with e(3) have "bindP (parsePrimary pc rec) (repeatP (loopFuel pc) (postfixTurn pc rec)) i
      = repeatP (Suc (loopFuel pc - k - 1)) (postfixTurn pc rec) e ?j" by metis
  also have "\<dots> = Parsed e ?j"
    by (rule repeatP_done) (use assms(8) in \<open>simp add: postfixTurn_def parse_eval endsOperand_def\<close>)
  finally have "parsePostfix pc rec i = Parsed e ?j"
    using assms(2,3) by (simp add: parsePostfix_def capability_ranges)
  moreover have "tkKind (peek pc i) \<noteq> tokBang" "tkKind (peek pc i) \<noteq> tokMinus"
    using reads_first [OF assms(6)] first_not_sign [of t] by (simp_all add: lexemeOf_def prod_eq_iff)
  ultimately show ?thesis using e(1) by (simp add: peekP_def)
qed

lemma printTree_seven:
  "p \<le> 7 \<Longrightarrow> treeLevel t < p \<or> 7 \<le> treeLevel t \<Longrightarrow> printTree p t = printTree 7 t"
  "treeLevel t \<noteq> 7 \<Longrightarrow> printTree 7 t = printTree 8 t"
  by (auto simp: printTree_def wrapped_def)

lemma operand_reads_seven:
  assumes "readsTrees pc rec n" "38 \<le> pcContract pc" "pcContract pc \<le> 115" "\<not> pcNativeStreams pc"
    "treeLevel t \<noteq> 7" "treeOK t" "reads pc i (printTree 7 t)" "length (printTree 7 t) \<le> Suc n"
    "length (printTree 7 t) \<le> u" "endsOperand (tkKind (peek pc (i + length (printTree 7 t))))"
  shows "\<exists>e. parseUnary pc rec u i = Parsed e (i + length (printTree 7 t)) \<and> represents t e"
proof (cases u)
  case (Suc u')
  with operand_reads [OF assms(1-4,6), of i u'] assms(7-10) printTree_seven(2) [OF assms(5)]
  show ?thesis by simp
qed (use assms(9) in simp)

lemma unary_reads:
  assumes "readsTrees pc rec n" "38 \<le> pcContract pc" "pcContract pc \<le> 115" "\<not> pcNativeStreams pc"
  shows "treeOK t \<Longrightarrow> reads pc i (printTree 7 t) \<Longrightarrow> length (printTree 7 t) \<le> Suc n \<Longrightarrow>
    length (printTree 7 t) \<le> u \<Longrightarrow> endsOperand (tkKind (peek pc (i + length (printTree 7 t)))) \<Longrightarrow>
    \<exists>e. parseUnary pc rec u i = Parsed e (i + length (printTree 7 t)) \<and> represents t e"
proof (induction t arbitrary: i u)
  case (TreeUnary k t)
  have p: "printTree 7 (TreeUnary k t) = fixedToken k # printTree 7 t"
    by (simp add: printTree_unwrapped treeTokens_print del: treeTokens.simps)
  with TreeUnary.prems obtain u' where u: "u = Suc u'" "length (printTree 7 t) \<le> u'" by (cases u) auto
  from TreeUnary.prems p have r: "i < length (pcToks pc)" "tkKind (peek pc i) = k"
      "fixedText k = Some (tkLit (peek pc i))" "reads pc (Suc i) (printTree 7 t)"
    by (auto simp: lexeme_eval)
  obtain e where "parseUnary pc rec u' (Suc i) = Parsed e (Suc i + length (printTree 7 t))" "represents t e"
    using TreeUnary.IH [OF _ r(4) _ u(2)] TreeUnary.prems p by auto
  with r p u(1) TreeUnary.prems(1) show ?case by (auto simp: parse_eval)
qed (rule operand_reads_seven [OF assms]; (assumption | simp))+

lemma unary_level_reads:
  assumes "readsTrees pc rec n" "38 \<le> pcContract pc" "pcContract pc \<le> 115" "\<not> pcNativeStreams pc"
    "treeLevel t < p \<or> 7 \<le> treeLevel t" "treeOK t" "p \<le> 7" "reads pc i (printTree p t)"
    "length (printTree p t) \<le> Suc n" "length (printTree p t) \<le> u"
    "endsOperand (tkKind (peek pc (i + length (printTree p t))))"
  shows "\<exists>e k. represents t e \<and> k < length (printTree p t) \<and>
      (\<forall>f. bindP (parseUnary pc rec u) (repeatP (f + k) turn) i
        = repeatP f turn e (i + length (printTree p t)))"
proof -
  note p = printTree_seven(1) [OF assms(7,5)]
  obtain e where "parseUnary pc rec u i = Parsed e (i + length (printTree p t))" "represents t e"
    using unary_reads [OF assms(1-4,6), of i u] assms(8-11) unfolding p by blast
  then show ?thesis by (auto simp: bindP_def intro!: exI [of _ e] exI [of _ "0 :: nat"])
qed

text \<open>
  A binary expression: after its first operand the loop of level \<open>m\<close> has taken some turns and
  holds the node, with the rest of its fuel.
\<close>

lemma binary_reads:
  assumes "readsTrees pc rec n" "38 \<le> pcContract pc" "pcContract pc \<le> 115" "\<not> pcNativeStreams pc" "0 < m"
  shows "treeOK t \<Longrightarrow> m \<le> p \<Longrightarrow> p \<le> 7 \<Longrightarrow> reads pc i (printTree p t) \<Longrightarrow> length (printTree p t) \<le> Suc n \<Longrightarrow>
    length (printTree p t) \<le> u \<Longrightarrow> endsOperand (tkKind (peek pc (i + length (printTree p t)))) \<Longrightarrow>
    binaryPrecedence (tkKind (peek pc (i + length (printTree p t)))) \<le> p \<Longrightarrow>
    \<exists>e k. represents t e \<and> k < length (printTree p t) \<and>
      (\<forall>f. bindP (parseUnary pc rec u) (repeatP (f + k) (binaryTurn pc rec m)) i
        = repeatP f (binaryTurn pc rec m) e (i + length (printTree p t)))"
proof (induction t arbitrary: i p)
  case (TreeBinary k l r)
  let ?q = "binaryPrecedence k"
  show ?case
  proof (cases "?q < p")
    case True
    with TreeBinary.prems show ?thesis
      by (intro unary_level_reads [OF assms(1-4)]) simp_all
  next
    case False
    let ?p = "printTree ?q l" and ?r = "printTree (Suc ?q) r"
    let ?j = "i + length ?p"
    let ?l = "Suc ?j + length ?r"
    have w: "printTree p (TreeBinary k l r) = ?p @ fixedToken k # ?r"
      using False by (simp add: printTree_unwrapped treeTokens_print del: treeTokens.simps)
    note prems = TreeBinary.prems [unfolded w]
    have q: "0 < ?q" "?q \<le> 6" "m \<le> ?q"
      using prems(1,2) False binaryPrecedence_le by auto
    have r: "reads pc i ?p" "?j < length (pcToks pc)" "tkKind (peek pc ?j) = k"
        "fixedText k = Some (tkLit (peek pc ?j))" "reads pc (Suc ?j) ?r"
      using prems(4) q(1) by (auto simp: lexeme_eval binaryPrecedence_def split: token_kind.splits)
    have ends: "endsOperand k" using q(1) by (auto simp: endsOperand_def binaryPrecedence_def)
    obtain e n' where e: "represents l e" "n' < length ?p"
        "\<And>f. bindP (parseUnary pc rec u) (repeatP (f + n') (binaryTurn pc rec m)) i
          = repeatP f (binaryTurn pc rec m) e ?j"
      using TreeBinary.IH(1) [of ?q i] prems r(1,3) ends q by auto
    have "endsExpr (Suc ?q) (tkKind (peek pc ?l))"
      using prems(7,8) False q by (auto simp: endsExpr_def add.assoc)
    moreover have pl: "printLevel (Suc ?q) = Suc ?q" using q(1) by (simp add: printLevel_def)
    ultimately obtain v where v: "rec (Suc ?q) (Suc ?j) = Parsed v ?l" "represents r v"
      using readsTreesD [OF assms(1), of r "Suc ?q" "Suc ?j"] prems r(5) q by auto
    let ?e = "BinaryExpr (tkLit (peek pc ?j)) e v (mergeSpans (SourceSpan e) (SourceSpan v))"
    have "binaryTurn pc rec m e ?j = Parsed (Inl ?e) ?l"
      using r v q by (simp add: binaryTurn_def parse_eval Let_def)
    note turn = chain_turn [OF e(3) this]
    have l: "i + length (printTree p (TreeBinary k l r)) = ?l" unfolding w by simp
    show ?thesis
    proof (intro exI conjI allI)
      show "represents (TreeBinary k l r) ?e" using e(1) v(2) r(4) by simp
      show "Suc n' < length (printTree p (TreeBinary k l r))" using e(2) l by simp
      show "bindP (parseUnary pc rec u) (repeatP (f + Suc n') (binaryTurn pc rec m)) i
          = repeatP f (binaryTurn pc rec m) ?e (i + length (printTree p (TreeBinary k l r)))" for f
        using turn [of f] unfolding l .
    qed
  qed
qed (rule unary_level_reads [OF assms(1-4)]; (assumption | use assms(5) in simp))+

section \<open>Expressions\<close>

lemma exprLevel_reads:
  assumes "readsTrees pc rec n" "38 \<le> pcContract pc" "pcContract pc \<le> 115" "\<not> pcNativeStreams pc"
  shows "readsTrees pc (exprLevel pc rec (Suc n)) (Suc n)"
  unfolding readsTrees_def
proof (intro allI impI, elim conjE)
  fix t m i
  let ?p = "printTree (printLevel m) t"
  let ?j = "i + length ?p"
  assume t: "treeOK t" and m: "0 < m" "m \<le> (7 :: nat)" and len: "length ?p \<le> Suc n"
    and r: "reads pc i ?p" and x: "endsExpr m (tkKind (peek pc ?j))"
  have finish: "exprLevel pc rec (Suc n) m i = conditionalTail pc rec m e l"
    if "k < Suc n" "binaryPrecedence (tkKind (peek pc l)) < m"
      "\<And>f. bindP (parseUnary pc rec (Suc n)) (repeatP (f + k) (binaryTurn pc rec m)) i
        = repeatP f (binaryTurn pc rec m) e l" for e k l
  proof -
    have f: "Suc (n - k) + k = Suc n" using that(1) by simp
    have "binaryTurn pc rec m e l = Parsed (Inr e) l"
      using that(2) by (simp add: binaryTurn_def parse_eval Let_def)
    then have "bindP (parseUnary pc rec (Suc n)) (repeatP (Suc n) (binaryTurn pc rec m)) i = Parsed e l"
      using that(3) [of "Suc (n - k)"] repeatP_done [of "binaryTurn pc rec m" e l] unfolding f by metis
    then show ?thesis by (auto simp: exprLevel_def bindP_def split: parsed.splits)
  qed
  show "\<exists>e. exprLevel pc rec (Suc n) m i = Parsed e ?j \<and> represents t e"
  proof (cases "m = 1 \<and> treeLevel t = 0")
    case False
    then have p: "?p = printTree m t" by (auto simp: printLevel_def printTree_def)
    obtain e k where e: "represents t e" "k < length (printTree m t)"
        "\<And>f. bindP (parseUnary pc rec (Suc n)) (repeatP (f + k) (binaryTurn pc rec m)) i
          = repeatP f (binaryTurn pc rec m) e ?j"
      using binary_reads [OF assms m(1) t, of m i "Suc n"] m len r x unfolding p
      by (auto simp: endsExpr_def)
    have "conditionalTail pc rec m e ?j = Parsed e ?j"
      using x by (auto simp: conditionalTail_def parse_eval endsExpr_def)
    with finish [of k ?j e] e len x p show ?thesis by (auto simp: endsExpr_def)
  next
    case True
    then obtain c a b where t': "t = TreeCond c a b" using t by (cases t) simp_all
    let ?c = "printTree 1 c" and ?a = "treeTokens a" and ?b = "treeTokens b"
    let ?q = "i + length ?c"
    let ?k = "Suc ?q + length ?a"
    let ?l = "Suc ?k + length ?b"
    have p: "?p = ?c @ fixedToken tokQuestion # ?a @ fixedToken tokColon # ?b"
      using True by (simp add: t' printLevel_def treeTokens_print del: treeTokens.simps)
    have r': "reads pc i ?c" "?q < length (pcToks pc)" "tkKind (peek pc ?q) = tokQuestion"
        "reads pc (Suc ?q) ?a" "?k < length (pcToks pc)" "tkKind (peek pc ?k) = tokColon"
        "reads pc (Suc ?k) ?b"
      using r unfolding p by (simp_all add: lexeme_eval add.assoc)
    have l: "i + length ?p = ?l" unfolding p by simp
    have len': "length ?c \<le> Suc n" "length ?a \<le> n" "length ?b \<le> n" using len unfolding p by simp_all
    obtain e k where e: "represents c e" "k < length ?c"
        "\<And>f. bindP (parseUnary pc rec (Suc n)) (repeatP (f + k) (binaryTurn pc rec 1)) i
          = repeatP f (binaryTurn pc rec 1) e ?q"
      using binary_reads [OF assms, of 1 c 1 i "Suc n"] t t' r'(1,3) len'(1)
      by (auto simp: endsOperand_def binaryPrecedence_def)
    obtain v where v: "rec 1 (Suc ?q) = Parsed v ?k" "represents a v"
      using rec_reads [OF assms(1) _ len'(2) r'(4)] t t' r'(6) by auto
    obtain w where w: "rec 1 (Suc ?k) = Parsed w ?l" "represents b w"
      using rec_reads [OF assms(1) _ len'(3) r'(7)] t t' x True unfolding l by auto
    have "exprLevel pc rec (Suc n) m i = conditionalTail pc rec m e ?q"
      by (rule finish [of k]) (use e len' True r'(3) in \<open>auto simp: binaryPrecedence_def\<close>)
    also have "\<dots> = Parsed (ConditionalExpr e v w False (mergeSpans (SourceSpan e) (SourceSpan w))) ?l"
      using r' v w True assms(2,3) by (simp add: conditionalTail_def parse_eval capability_ranges)
    finally show ?thesis using e(1) v(2) w(2) unfolding l by (simp add: t')
  qed
qed

lemma parseExprs_reads:
  assumes "38 \<le> pcContract pc" "pcContract pc \<le> 115" "\<not> pcNativeStreams pc"
  shows "readsTrees pc (parseExprs pc n) n"
proof (induction n)
  case 0
  show ?case by (simp add: readsTrees_def)
next
  case (Suc n)
  show ?case using exprLevel_reads [OF Suc.IH assms] by simp
qed

end
