(* ===== verification/BodyRules.thy ===== *)
theory BodyRules
  imports ParserRules DeclParser
begin

text \<open>
  Method bodies and declarations end without a panic, read from their first token to their last,
  and have the spans of these tokens.
\<close>

section \<open>Expressions and type references with the whole fuel\<close>

lemma parseExpr_wp:
  assumes "tokensOK pc" "i \<le> length (pcToks pc)"
    and "\<And>e j. i < j \<Longrightarrow> j \<le> length (pcToks pc) \<Longrightarrow> SourceSpan e = tokensSpan pc i j \<Longrightarrow>
      \<not> isBlockExpr e \<Longrightarrow> Q e j"
  shows "wpP (parseExpr pc (Suc 0)) Q i"
  unfolding parseExpr_def
  by (rule exprs.rec_one_wp) (use assms in \<open>simp_all add: loopFuel_def\<close>)

lemma wp_rejectAt [wp]: "wpP (rejectAt sp msg) Q i"
  by (simp add: rejectAt_def wp)

lemma isWord_within: "isWord (peek pc i) w \<Longrightarrow> i < length (pcToks pc)"
  using peek_before_end [of pc i] by (auto simp: isWord_def)

lemma parseLocal_wp:
  assumes "tokensOK pc" "i \<le> length (pcToks pc)"
    and "\<And>l j. i < j \<Longrightarrow> j \<le> length (pcToks pc) \<Longrightarrow> Q l j"
  shows "wpP (parseLocal pc) Q i"
  using assms by (auto simp: parseLocal_def wp intro!: parseTypeRef_wp parseExpr_wp)

lemma wrapLocals_span:
  "SourceSpan (wrapLocals start end ls e) = (if ls = [] then SourceSpan e else mergeSpans start end)"
  by (simp add: wrapLocals_def localNode_def split: list.split)

section \<open>Terminal statements\<close>

text \<open>A branch ends with the token of its end span.\<close>

definition branchPost :: "parse_context \<Rightarrow> nat \<Rightarrow> source_expr \<times> source_span \<Rightarrow> nat \<Rightarrow> bool" where
  "branchPost pc i r j \<longleftrightarrow> j \<le> length (pcToks pc) \<and> (\<exists>k. i \<le> k \<and> j = Suc k \<and> snd r = tokensSpan pc k j)"

lemma branchPostI:
  "i \<le> k \<Longrightarrow> k < length (pcToks pc) \<Longrightarrow> sp = tokensSpan pc k (Suc k) \<Longrightarrow> branchPost pc i (e, sp) (Suc k)"
  by (auto simp: branchPost_def)

lemma parseTerminalBranchReturn_wp:
  assumes "tokensOK pc" "\<And>r j. branchPost pc i r j \<Longrightarrow> Q r j"
  shows "wpP (parseTerminalBranchReturn pc branch) Q i"
  using assms
  by (auto simp: parseTerminalBranchReturn_def wp branchPost_def tokensSpan_one intro!: parseExpr_wp)

lemma branchLocals_wp:
  assumes "tokensOK pc" "i \<le> length (pcToks pc)"
    and "\<And>ls j. i \<le> j \<Longrightarrow> j \<le> length (pcToks pc) \<Longrightarrow> Q ls j"
  shows "wpP (repeatP (loopFuel pc) (branchLocalTurn pc branch allowed limit) ls) Q i"
  using assms
  by (auto simp: branchLocalTurn_def wp intro!: parseLocal_wp wp_loop [where I = "\<lambda>_ _. True"])

definition ifPost :: "parse_context \<Rightarrow> nat \<Rightarrow> source_expr \<Rightarrow> nat \<Rightarrow> bool" where
  "ifPost pc i e j \<longleftrightarrow> i < j \<and> j \<le> length (pcToks pc) \<and> SourceSpan e = tokensSpan pc i j"

lemma parseTerminalReturnBranch_wp:
  assumes "tokensOK pc" "i \<le> length (pcToks pc)"
    and nested: "\<And>k. i < k \<Longrightarrow> k \<le> length (pcToks pc) \<Longrightarrow> depth < 2 \<Longrightarrow> wpP nested (ifPost pc k) k"
    and "\<And>r j. branchPost pc i r j \<Longrightarrow> Q r j"
  shows "wpP (parseTerminalReturnBranch pc nested branch depth) Q i"
proof -
  have inner: "wpP nested (\<lambda>e j. wpP (expectP pc tokRBrace)
      (\<lambda>end j'. Q (wrapLocals sp (tkSpan end) ls e, tkSpan end) j') j) k"
    if "i < k" "k \<le> length (pcToks pc)" "depth < 2" for k sp ls
    by (rule wp_mono [OF nested [OF that]])
      (use that assms(1) in \<open>auto simp: wp ifPost_def branchPost_def tokensSpan_one intro!: assms(4)\<close>)
  show ?thesis
    using assms(1,2) inner
    by (auto simp: parseTerminalReturnBranch_def wp Let_def branchPost_def
        intro!: branchLocals_wp parseTerminalBranchReturn_wp assms(4))
qed

lemma terminalIfElse_wp:
  assumes "tokensOK pc" "i \<le> length (pcToks pc)"
    and nested: "\<And>k. i < k \<Longrightarrow> k \<le> length (pcToks pc) \<Longrightarrow> depth < 2 \<Longrightarrow> wpP nested (ifPost pc k) k"
  shows "wpP (terminalIfElse pc nested depth) (ifPost pc i) i"
  using assms
  by (auto simp: terminalIfElse_def wp branchPost_def ifPost_def tokensSpan_one tokensSpan_merge
      intro!: parseExpr_wp parseTerminalReturnBranch_wp)

lemma parseTerminalIfElses_wp:
  "tokensOK pc \<Longrightarrow> i \<le> length (pcToks pc) \<Longrightarrow> n + depth = 3 \<Longrightarrow> 0 < n \<Longrightarrow>
   wpP (parseTerminalIfElses pc n depth) (ifPost pc i) i"
proof (induction n arbitrary: depth i)
  case (Suc n)
  show ?case
    unfolding parseTerminalIfElses.simps
    by (rule terminalIfElse_wp) (use Suc in simp_all)
qed simp


section \<open>Bodies before general blocks\<close>

text \<open>
  Where the body that is read from token \<open>i\<close> begins: at \<open>i\<close>, or after an arrow there, or after another
  token than an arrow.
\<close>

definition opens :: "parse_context \<Rightarrow> nat \<Rightarrow> nat \<Rightarrow> bool" where
  "opens pc i k \<longleftrightarrow>
     tkKind (peek pc i) = tokArrow \<or> k = i
     \<or> i < k \<and> tkKind (peek pc (k - 1)) \<noteq> tokArrow \<and> tkKind (peek pc (k - 1)) \<noteq> tokEOF"

text \<open>A body: an arrow body has the span of its expression, which stands between two tokens.\<close>

definition bodyPost :: "parse_context \<Rightarrow> nat \<Rightarrow> source_expr \<times> source_span \<Rightarrow> nat \<Rightarrow> bool" where
  "bodyPost pc i r j \<longleftrightarrow>
     branchPost pc i r j
     \<and> (\<exists>k l. i \<le> k \<and> opens pc i k \<and> k < l \<and> l \<le> j \<and> SourceSpan (fst r) = tokensSpan pc k l)"

lemma bodyPostI:
  "i \<le> k \<Longrightarrow> opens pc i k \<Longrightarrow> k < l \<Longrightarrow> l \<le> Suc m \<Longrightarrow> m < length (pcToks pc) \<Longrightarrow> SourceSpan e = tokensSpan pc k l \<Longrightarrow>
   sp = tokensSpan pc m (Suc m) \<Longrightarrow> bodyPost pc i (e, sp) (Suc m)"
  unfolding bodyPost_def by (intro conjI branchPostI exI [of _ k] exI [of _ l]) simp_all

lemma parseArrowBody_wp:
  assumes "tokensOK pc" "i \<le> length (pcToks pc)"
  shows "wpP (parseArrowBody pc) (bodyPost pc i) i"
proof -
  have post: "bodyPost pc i (e, tkSpan (peek pc j)) (Suc j)"
    if "tkKind (peek pc i) = tokArrow" "Suc i < j" "j < length (pcToks pc)"
      "SourceSpan e = tokensSpan pc (Suc i) j" for e j
    by (rule bodyPostI [OF _ _ that(2) _ _ that(4)]) (use that assms(1) in \<open>simp_all add: tokensSpan_one opens_def\<close>)
  show ?thesis
    using assms
    by (simp add: parseArrowBody_def wp Let_def) (auto intro!: parseExpr_wp post)
qed

lemma bodyLocals_wp:
  assumes "tokensOK pc" "i \<le> length (pcToks pc)"
    and "\<And>ls j. i \<le> j \<Longrightarrow> j \<le> length (pcToks pc) \<Longrightarrow> (ls = [] \<Longrightarrow> j = i) \<Longrightarrow> Q ls j"
  shows "wpP (repeatP (loopFuel pc) (bodyLocalTurn pc) []) Q i"
  using assms
  by (auto simp: bodyLocalTurn_def wp Let_def
      intro!: parseLocal_wp wp_loop [where I = "\<lambda>ls j. i \<le> j \<and> (ls = [] \<longrightarrow> j = i)"])

lemma parseTerminalIfElse_wp:
  assumes "tokensOK pc" "i \<le> length (pcToks pc)"
  shows "wpP (parseTerminalIfElse pc) (ifPost pc i) i"
  unfolding parseTerminalIfElse_def by (rule parseTerminalIfElses_wp) (use assms in simp_all)

lemma parseBodyReturn_wp:
  assumes "tokensOK pc" "i \<le> length (pcToks pc)"
  shows "wpP (parseBodyReturn pc ls)
    (\<lambda>e j. j \<le> length (pcToks pc) \<and> (\<exists>l. Suc i < l \<and> l < j \<and> tkKind (peek pc i) = tokIdent
      \<and> SourceSpan e = tokensSpan pc (Suc i) l)) i"
  using assms by (auto simp: parseBodyReturn_def wp intro!: parseExpr_wp)

lemma parseLocalBlock_wp:
  assumes "tokensOK pc" "tkKind (peek pc i) = tokLBrace"
  shows "wpP (parseLocalBlock pc) (bodyPost pc i) i"
proof -
  have i: "i < length (pcToks pc)" using assms(2) peek_before_end [of pc i] by simp
  let ?inside = "\<lambda>ls e j. i < j \<and> j \<le> length (pcToks pc)
      \<and> (\<exists>k l. i < k \<and> (ls = [] \<longrightarrow> opens pc i k) \<and> k < l \<and> l \<le> j \<and> SourceSpan e = tokensSpan pc k l)"
  have last: "wpP (expectP pc tokRBrace) (\<lambda>end j'. wpP (returnP
      (wrapLocals (tkSpan (peek pc i)) (tkSpan end) ls e, tkSpan end)) (bodyPost pc i) j') j"
    if inside: "?inside ls e j" for e j ls
  proof -
    from inside obtain k l where kl: "i < k" "ls = [] \<longrightarrow> opens pc i k" "k < l" "l \<le> j"
        "SourceSpan e = tokensSpan pc k l" by auto
    show ?thesis
    proof (cases "ls = []")
      case True
      show ?thesis
        using kl inside assms(1) True
        by (auto simp: wp wrapLocals_span tokensSpan_one intro!: bodyPostI [of i k _ l])
    next
      case False
      show ?thesis
        using inside assms(1) False
        by (auto simp: wp wrapLocals_span tokensSpan_one tokensSpan_merge opens_def
            intro!: bodyPostI [of i i _ "Suc j"])
    qed
  qed
  have "wpP (if isWord (peek pc k) ''if'' then parseTerminalIfElse pc else parseBodyReturn pc ls) (?inside ls) k"
    if k: "Suc i \<le> k" "k \<le> length (pcToks pc)" "ls = [] \<Longrightarrow> k = Suc i" for k ls
  proof (cases "isWord (peek pc k) ''if''")
    case True
    have op: "ls = [] \<longrightarrow> opens pc i k" using k(3) assms(2) by (simp add: opens_def)
    have "wpP (parseTerminalIfElse pc) (?inside ls) k"
    proof (rule wp_mono [OF parseTerminalIfElse_wp [OF assms(1) k(2)]])
      fix e j
      assume "ifPost pc k e j"
      with k(1) op show "?inside ls e j"
        by (intro conjI exI [of _ k] exI [of _ j]) (simp_all add: ifPost_def)
    qed
    with True show ?thesis by simp
  next
    case False
    have "wpP (parseBodyReturn pc ls) (?inside ls) k"
    proof (rule wp_mono [OF parseBodyReturn_wp [OF assms(1) k(2)]])
      fix e j
      assume "j \<le> length (pcToks pc) \<and> (\<exists>l. Suc k < l \<and> l < j \<and> tkKind (peek pc k) = tokIdent
        \<and> SourceSpan e = tokensSpan pc (Suc k) l)"
      then obtain l where "j \<le> length (pcToks pc)" "Suc k < l" "l < j" "tkKind (peek pc k) = tokIdent"
          "SourceSpan e = tokensSpan pc (Suc k) l" by blast
      moreover from this k(1) have "i < Suc k \<and> (ls = [] \<longrightarrow> opens pc i (Suc k)) \<and> Suc k < l \<and> l \<le> j
          \<and> SourceSpan e = tokensSpan pc (Suc k) l"
        by (simp add: opens_def)
      moreover from calculation k(1) have "i < j \<and> j \<le> length (pcToks pc)" by simp
      ultimately show "?inside ls e j" by blast
    qed
    with False show ?thesis by simp
  qed
  then have rest: "wpP (if isWord (peek pc k) ''if'' then parseTerminalIfElse pc else parseBodyReturn pc ls)
      (\<lambda>e j. wpP (expectP pc tokRBrace) (\<lambda>end j'. wpP (returnP
        (wrapLocals (tkSpan (peek pc i)) (tkSpan end) ls e, tkSpan end)) (bodyPost pc i) j') j) k"
    if "Suc i \<le> k" "k \<le> length (pcToks pc)" "ls = [] \<Longrightarrow> k = Suc i" for k ls
    by (rule wp_mono [OF _ last]) (use that in auto)
  show ?thesis
    unfolding parseLocalBlock_def wp_bind wp_peek wp_next
    by (intro conjI impI bodyLocals_wp [OF assms(1)] rest) (use i in simp_all)
qed

lemma parsePlainBody_wp:
  assumes "tokensOK pc" "i \<le> length (pcToks pc)"
  shows "wpP (parsePlainBody pc) (bodyPost pc i) i"
  using assms parseArrowBody_wp [OF assms] parseLocalBlock_wp [OF assms(1), of i]
  by (simp add: parsePlainBody_def wp)

section \<open>General blocks\<close>

lemma valueStatement_wp:
  assumes "tokensOK pc" "i \<le> length (pcToks pc)"
    and "\<And>s j. i < j \<Longrightarrow> j \<le> length (pcToks pc) \<Longrightarrow> Q s j"
  shows "wpP (valueStatement pc t f) Q i"
  using assms by (auto simp: valueStatement_def wp intro!: parseExpr_wp)

lemma parseLocalStatement_wp:
  assumes "tokensOK pc" "i \<le> length (pcToks pc)"
    and "\<And>s j. i < j \<Longrightarrow> j \<le> length (pcToks pc) \<Longrightarrow> Q s j"
  shows "wpP (parseLocalStatement pc t) Q i"
  using assms
  by (auto simp: parseLocalStatement_def wp Let_def peek_beyond not_less
      intro!: parseTypeRef_wp valueStatement_wp)

lemma parseIfStatement_wp:
  assumes "tokensOK pc" "i \<le> length (pcToks pc)"
    and rec: "\<And>k R. i < k \<Longrightarrow> k \<le> length (pcToks pc) \<Longrightarrow>
      (\<And>e j. k < j \<Longrightarrow> j \<le> length (pcToks pc) \<Longrightarrow> R e j) \<Longrightarrow> wpP rec R k"
    and "\<And>s j. i < j \<Longrightarrow> j \<le> length (pcToks pc) \<Longrightarrow> Q s j"
  shows "wpP (parseIfStatement pc rec t) Q i"
  unfolding parseIfStatement_def
  using assms(1,2,4) by (auto simp: wp Let_def intro!: parseExpr_wp rec Suc_leI dest!: isWord_within)

lemma parseStatement_wp:
  assumes "tokensOK pc" "i \<le> length (pcToks pc)"
    and rec: "\<And>k R. i \<le> k \<Longrightarrow> k \<le> length (pcToks pc) \<Longrightarrow>
      (\<And>e j. k < j \<Longrightarrow> j \<le> length (pcToks pc) \<Longrightarrow> R e j) \<Longrightarrow> wpP rec R k"
    and Q: "\<And>s j. i < j \<Longrightarrow> j \<le> length (pcToks pc) \<Longrightarrow> Q s j"
  shows "wpP (parseStatement pc rec) Q i"
proof -
  have "wpP (parseIfStatement pc rec (peek pc i)) Q i"
    by (rule parseIfStatement_wp [OF assms(1,2) rec Q]) simp_all
  moreover have "wpP (parseLocalStatement pc (peek pc i)) Q i"
    by (rule parseLocalStatement_wp [OF assms(1,2) Q])
  ultimately show ?thesis
    using assms(1,2) isWord_within [of pc i "''return''"] Q
    by (auto simp: parseStatement_def wp peek_beyond not_less intro!: rec valueStatement_wp)
qed

lemma parseGeneralBlocks_wp:
  "tokensOK pc \<Longrightarrow> i \<le> length (pcToks pc) \<Longrightarrow> length (pcToks pc) < i + n \<Longrightarrow>
   (\<And>e j. i < j \<Longrightarrow> j \<le> length (pcToks pc) \<Longrightarrow> SourceSpan e = tokensSpan pc i j \<Longrightarrow> Q e j) \<Longrightarrow>
   wpP (parseGeneralBlocks pc n) Q i"
proof (induction n arbitrary: i Q)
  case (Suc n)
  have turn: "wpP (statementTurn pc (parseGeneralBlocks pc n) ss)
      (\<lambda>x k. case x of Inl s' \<Rightarrow> j < k \<and> k \<le> length (pcToks pc) \<and> True
         | Inr r \<Rightarrow> Suc i \<le> k \<and> k \<le> length (pcToks pc)) j"
    if "Suc i \<le> j" "j \<le> length (pcToks pc)" for j ss
    using that Suc.prems
    by (auto simp: statementTurn_def wp intro!: parseStatement_wp Suc.IH)
  have body: "wpP (repeatP (loopFuel pc) (statementTurn pc (parseGeneralBlocks pc n)) [])
      (\<lambda>ss k. Suc i \<le> k \<and> k \<le> length (pcToks pc)) (Suc i)" if "i < length (pcToks pc)"
    by (rule wp_loop [where I = "\<lambda>_ _. True"]) (use that turn in auto)
  have "wpP (repeatP (loopFuel pc) (statementTurn pc (parseGeneralBlocks pc n)) [])
      (\<lambda>ss k. wpP (expectP pc tokRBrace) (\<lambda>end j. wpP (returnP
         (BlockExpr ss (mergeSpans (tkSpan (peek pc i)) (tkSpan end)))) Q j) k) (Suc i)"
    if "i < length (pcToks pc)"
    by (rule wp_mono [OF body [OF that]])
      (use Suc.prems in \<open>auto simp: wp tokensSpan_one tokensSpan_merge\<close>)
  then show ?case by (simp add: generalBlock_def wp)
qed simp

lemma parseGeneralBlock_wp:
  assumes "tokensOK pc" "i \<le> length (pcToks pc)"
    and "\<And>e j. i < j \<Longrightarrow> j \<le> length (pcToks pc) \<Longrightarrow> SourceSpan e = tokensSpan pc i j \<Longrightarrow> Q e j"
  shows "wpP (parseGeneralBlock pc) Q i"
  unfolding parseGeneralBlock_def
  by (rule parseGeneralBlocks_wp) (use assms in \<open>simp_all add: loopFuel_def\<close>)

section \<open>Method bodies\<close>

lemma tokens_contract [simp]:
  "tokensOK (pc\<lparr>pcContract := c\<rparr>) = tokensOK pc" "tokensSpan (pc\<lparr>pcContract := c\<rparr>) = tokensSpan pc"
  "peek (pc\<lparr>pcContract := c\<rparr>) = peek pc"
  "bodyPost (pc\<lparr>pcContract := c\<rparr>) = bodyPost pc"
  by (simp_all add: tokensOK_def tokensSpan_def peek_def bodyPost_def branchPost_def opens_def fun_eq_iff)

lemma wp_body:
  "wpP (parseMethodBody pc) Q i \<longleftrightarrow>
     (if (pcContract pc = 114 \<or> pcContract pc = 115) \<and> tkKind (peek pc i) = tokLBrace
      then wpP (parseGeneralBlock pc) (\<lambda>b j.
        if containsPropagationExpression b then wpP (parsePlainBody (pc\<lparr>pcContract := 113\<rparr>)) Q i
        else Q (b, SourceSpan b) j) i
      else wpP (parsePlainBody pc) Q i)"
  by (simp add: parseMethodBody_def wpP_def peekP_def split: parsed.split)

text \<open>The end of a general block is its whole span, the end of any other body its last token.\<close>

definition methodPost :: "parse_context \<Rightarrow> nat \<Rightarrow> source_expr \<times> source_span \<Rightarrow> nat \<Rightarrow> bool" where
  "methodPost pc i r j \<longleftrightarrow>
     i < j \<and> j \<le> length (pcToks pc)
     \<and> (\<exists>k. i \<le> k \<and> k < j \<and> snd r = tokensSpan pc k j)
     \<and> (\<exists>k l. i \<le> k \<and> opens pc i k \<and> k < l \<and> l \<le> j \<and> SourceSpan (fst r) = tokensSpan pc k l)"

lemma bodyPost_method: "bodyPost pc i r j \<Longrightarrow> methodPost pc i r j"
  by (auto simp: bodyPost_def branchPost_def methodPost_def)

lemma parseMethodBody_wp:
  assumes "tokensOK pc" "i \<le> length (pcToks pc)"
  shows "wpP (parseMethodBody pc) (methodPost pc i) i"
proof -
  have plain: "wpP (parsePlainBody (pc\<lparr>pcContract := c\<rparr>)) (methodPost pc i) i" for c
    by (rule wp_mono [OF parsePlainBody_wp [of "pc\<lparr>pcContract := c\<rparr>" i]])
      (use assms in \<open>simp_all add: bodyPost_method\<close>)
  have "wpP (parsePlainBody pc) (methodPost pc i) i"
    by (rule wp_mono [OF parsePlainBody_wp [OF assms]]) (rule bodyPost_method)
  with plain assms show ?thesis
    by (auto simp: wp_body methodPost_def opens_def intro!: parseGeneralBlock_wp)
qed

end
