(* ===== verification/DeclRules.thy ===== *)
theory DeclRules
  imports BodyRules
begin

text \<open>
  Declarations and files: the parser ends without a panic, the spans of declarations and of their
  members are the ranges of the tokens they were read from, nested and in source order, and no
  private method has a body that its contract reserves for public ones.
\<close>

section \<open>Ranges of tokens in order\<close>

text \<open>Spans that are ranges of the tokens from \<open>i\<close> up to \<open>j\<close>, one after the other.\<close>

definition spansWithin :: "parse_context \<Rightarrow> nat \<Rightarrow> nat \<Rightarrow> source_span list \<Rightarrow> bool" where
  "spansWithin pc i j sps \<longleftrightarrow>
     (\<forall>sp \<in> set sps. \<exists>k l. i \<le> k \<and> k < l \<and> l \<le> j \<and> sp = tokensSpan pc k l)
     \<and> sorted_wrt (\<lambda>a b. spEnd a \<le> spStart b) sps"

lemma peek_before:
  assumes "tokensOK pc" "i < j"
  shows "spEnd (tkSpan (peek pc i)) \<le> spStart (tkSpan (peek pc j))"
proof (cases "j < length (pcToks pc)")
  case True
  with assms show ?thesis by (auto simp: tokensOK_def peek_def sorted_wrt_iff_nth_less)
next
  case False
  then have "spStart (tkSpan (peek pc j)) = int (pcEnd pc)" by (simp add: peek_def)
  with peek_span(4) [OF assms(1), of i] show ?thesis by simp
qed

lemma spansWithin_Nil [simp]: "spansWithin pc i j []"
  by (simp add: spansWithin_def)

lemma spansWithin_widen: "spansWithin pc k l sps \<Longrightarrow> i \<le> k \<Longrightarrow> l \<le> j \<Longrightarrow> spansWithin pc i j sps"
  unfolding spansWithin_def by (meson order_trans)

lemmas spansWithin_mono = spansWithin_widen [OF _ order_refl]

lemma spansWithin_append:
  assumes "tokensOK pc" "spansWithin pc i j sps" "i \<le> j" "j \<le> k" "k < l"
  shows "spansWithin pc i l (sps @ [tokensSpan pc k l])"
proof -
  have "spEnd sp \<le> spStart (tokensSpan pc k l)" if "sp \<in> set sps" for sp
  proof -
    from that assms(2) obtain m n where "m < n" "n \<le> j" "sp = tokensSpan pc m n"
      by (auto simp: spansWithin_def)
    with peek_before [OF assms(1), of "n - 1" k] assms(4) show ?thesis by (simp add: tokensSpan_def)
  qed
  moreover have "\<forall>sp \<in> set sps. \<exists>k m. i \<le> k \<and> k < m \<and> m \<le> l \<and> sp = tokensSpan pc k m"
    using spansWithin_mono [OF assms(2), of l] assms(4,5) by (simp add: spansWithin_def)
  ultimately show ?thesis
    using assms by (auto simp: spansWithin_def sorted_wrt_append intro: exI [of _ k] exI [of _ l])
qed

section \<open>Annotations and headers\<close>

lemma parseAnnotationValue_wp:
  "(\<And>v. i < length (pcToks pc) \<Longrightarrow> Q v (Suc i)) \<Longrightarrow> wpP (parseAnnotationValue pc) Q i"
  using peek_before_end [of pc i]
  by (auto simp: parseAnnotationValue_def wp split: token_kind.split option.split)

lemma parseAnnotations_wp:
  assumes "tokensOK pc" "i \<le> length (pcToks pc)"
    and "\<And>anns j. i \<le> j \<Longrightarrow> j \<le> length (pcToks pc) \<Longrightarrow> spansWithin pc i j (map annSpan anns) \<Longrightarrow> Q anns j"
  shows "wpP (parseAnnotations pc) Q i"
  unfolding parseAnnotations_def
proof (rule wp_loop [where I = "\<lambda>anns j. i \<le> j \<and> spansWithin pc i j (map annSpan anns)"])
  fix anns :: "annotation list" and j
  assume "i \<le> j \<and> spansWithin pc i j (map annSpan anns)" "j \<le> length (pcToks pc)"
  then show "wpP (annotationTurn pc anns) (\<lambda>x k. case x of
      Inl s' \<Rightarrow> j < k \<and> k \<le> length (pcToks pc) \<and> i \<le> k \<and> spansWithin pc i k (map annSpan s')
    | Inr r \<Rightarrow> Q r k) j"
    using assms
    by (auto simp: annotationTurn_def wp peek_beyond not_less tokensSpan_one tokensSpan_merge
        intro!: parseAnnotationValue_wp spansWithin_append)
qed (use assms in simp_all)

lemma parseOptionalVisibility_wp:
  assumes "i \<le> length (pcToks pc)"
    and "\<And>v j. i \<le> j \<Longrightarrow> j \<le> length (pcToks pc) \<Longrightarrow> Q v j"
  shows "wpP (parseOptionalVisibility pc) Q i"
  using assms by (auto simp: parseOptionalVisibility_def wp)

lemma parseParams_wp:
  assumes "tokensOK pc" "i \<le> length (pcToks pc)"
    and "\<And>ps j. i \<le> j \<Longrightarrow> j \<le> length (pcToks pc) \<Longrightarrow> spansWithin pc i j (map prmSpan ps) \<Longrightarrow> Q ps j"
  shows "wpP (repeatP (loopFuel pc) (paramTurn pc) []) Q i"
proof (rule wp_loop [where I = "\<lambda>ps j. i \<le> j \<and> spansWithin pc i j (map prmSpan ps)"])
  fix ps :: "source_param list" and j
  assume inv: "i \<le> j \<and> spansWithin pc i j (map prmSpan ps)" "j \<le> length (pcToks pc)"
  have step: "spansWithin pc i (Suc k) (map prmSpan ps @ [tokensSpan pc j (Suc k)])" if "j < k" for k
    by (rule spansWithin_append [OF assms(1)]) (use inv that in auto)
  then show "wpP (paramTurn pc ps) (\<lambda>x k. case x of
      Inl s' \<Rightarrow> j < k \<and> k \<le> length (pcToks pc) \<and> i \<le> k \<and> spansWithin pc i k (map prmSpan s')
    | Inr r \<Rightarrow> Q r k) j"
    using assms inv
    by (auto simp: paramTurn_def wp Let_def peek_beyond not_less tokensSpan_one tokensSpan_merge
        intro!: parseTypeRef_wp spansWithin_mono [OF step])
qed (use assms in simp_all)

lemma parseTypedMemberHeader_wp:
  assumes "tokensOK pc" "i \<le> length (pcToks pc)"
    and "\<And>t n h j. i < j \<Longrightarrow> j \<le> length (pcToks pc) \<Longrightarrow>
      (\<And>ps. h = Some ps \<Longrightarrow> spansWithin pc i j (map prmSpan ps) \<and> tkKind (peek pc (j - 1)) = tokRParen) \<Longrightarrow>
      Q (t, n, h) j"
  shows "wpP (parseTypedMemberHeader pc) Q i"
proof -
  have plain: "Q (t, n, None) j" if "i < j" "j \<le> length (pcToks pc)" for t n j
    by (rule assms(3)) (use that in simp_all)
  have methodCase: "Q (t, n, Some ps) (Suc l)"
    if "spansWithin pc k l (map prmSpan ps)" "tkKind (peek pc l) = tokRParen" "i < k" "k \<le> l"
      "l < length (pcToks pc)" for t n ps k l
  proof (rule assms(3))
    have "spansWithin pc i (Suc l) (map prmSpan ps)"
      by (rule spansWithin_widen [OF that(1)]) (use that(3) in simp_all)
    with that(2) show "spansWithin pc i (Suc l) (map prmSpan ps') \<and> tkKind (peek pc (Suc l - 1)) = tokRParen"
      if "Some ps = Some ps'" for ps'
      using that by simp
  qed (use that in simp_all)
  have empty: "Q (t, n, Some []) (Suc l)" if "tkKind (peek pc l) = tokRParen" "i < l" "l < length (pcToks pc)" for t n l
    by (rule methodCase [of l]) (use that in simp_all)
  show ?thesis
    using assms(1,2)
    by (auto simp: parseTypedMemberHeader_def wp peek_beyond not_less
        intro!: parseTypeRef_wp parseParams_wp plain empty elim!: methodCase)
qed

section \<open>Members\<close>

text \<open>
  Bodies that the contracts from v0.100.0 on reserve for public methods: of a class, whose v0.100.0
  rule is for arrow bodies only, or of a record.
\<close>

definition reservedBody :: "language_contract \<Rightarrow> bool \<Rightarrow> bool \<Rightarrow> source_expr \<Rightarrow> bool" where
  "reservedBody c inClass arrow e \<longleftrightarrow>
     c \<le> 115
     \<and> (inClass \<and> arrow \<and> 100 \<le> c \<and> validConditionalBooleanSelector e
        \<or> inClass \<and> 101 \<le> c \<and> validStraightLineBooleanSelectorInitializers e
        \<or> \<not> inClass \<and> 102 \<le> c \<and> validTerminalBooleanSelectorInitializers e
        \<or> 103 \<le> c \<and> validTerminalConditionalTests e
        \<or> 104 \<le> c \<and> validNestedTerminalConditionalTests e
        \<or> 105 \<le> c \<and> validDepthThreeTerminalConditionalTests e
        \<or> 106 \<le> c \<and> validTerminalBooleanSelectorTests e
        \<or> 107 \<le> c \<and> validTerminalSelectorValueArms e
        \<or> 108 \<le> c \<and> validTerminalInnerSelectorArms e
        \<or> 109 \<le> c \<and> validTerminalCombinedSelectorArms e
        \<or> 110 \<le> c \<and> validStraightLineSelectorValueArms e
        \<or> 111 \<le> c \<and> validTerminalLeafSelectorValueArms e)"

text \<open>The body of the method stands right after an arrow.\<close>

definition arrowBody :: "parse_context \<Rightarrow> method_decl \<Rightarrow> bool" where
  "arrowBody pc m \<longleftrightarrow>
     (\<exists>k. tkKind (peek pc k) = tokArrow
        \<and> spStart (tkSpan (peek pc (Suc k))) = spStart (SourceSpan (mdlBody m)))"

definition publicOnly :: "parse_context \<Rightarrow> bool \<Rightarrow> method_decl \<Rightarrow> bool" where
  "publicOnly pc inClass m \<longleftrightarrow>
     mdlVisibility m = VisibilityPublic
     \<or> \<not> reservedBody (pcContract pc) inClass (arrowBody pc m) (mdlBody m)"

text \<open>The gates that \<open>parseClass\<close> and \<open>parseRecord\<close> pass to the loop over the members.\<close>

definition memberGates :: "bool \<Rightarrow> bool \<Rightarrow> visibility_gate list" where
  "memberGates inClass = (if inClass then classGates else (\<lambda>_. recordGates))"

lemma memberGates_reserve:
  "(\<exists>(from, shape, _) \<in> set (memberGates inClass arrow). from \<le> c \<and> c \<le> 115 \<and> shape e) \<longleftrightarrow>
     reservedBody c inClass arrow e"
  unfolding reservedBody_def memberGates_def classGates_def recordGates_def sharedGates_def
  by (cases inClass) (simp_all, argo+)

lemma reservedBody_arrow: "reservedBody c inClass arrow e \<Longrightarrow> (arrow \<Longrightarrow> arrow') \<Longrightarrow> reservedBody c inClass arrow' e"
  unfolding reservedBody_def by argo

lemma checkVisibility_wp:
  assumes "normalizeVisibility vis = VisibilityPublic \<or> \<not> reservedBody (pcContract pc) inClass arrow e \<Longrightarrow> Q () i"
  shows "wpP (checkVisibility pc (memberGates inClass arrow) vis e) Q i"
proof (cases "find (\<lambda>(from, shape, _). from \<le> pcContract pc \<and> pcContract pc \<le> 115
    \<and> normalizeVisibility vis \<noteq> VisibilityPublic \<and> shape e) (memberGates inClass arrow)")
  case None
  then have "normalizeVisibility vis = VisibilityPublic \<or> \<not> reservedBody (pcContract pc) inClass arrow e"
    unfolding find_None_iff memberGates_reserve [symmetric] by blast
  with None assms show ?thesis by (simp add: checkVisibility_def wp)
qed (auto simp: checkVisibility_def wp)

text \<open>Tokens have text, but for the end of the file; so an arrow is the token before one body only.\<close>

definition tokensSolid :: "parse_context \<Rightarrow> bool" where
  "tokensSolid pc \<longleftrightarrow>
     (\<forall>t \<in> set (pcToks pc). tkKind t \<noteq> tokEOF \<longrightarrow> spStart (tkSpan t) < spEnd (tkSpan t))"

lemma tokensSolid_peek:
  assumes "tokensSolid pc" "tkKind (peek pc i) \<noteq> tokEOF"
  shows "spStart (tkSpan (peek pc i)) < spEnd (tkSpan (peek pc i))"
proof -
  have "peek pc i \<in> set (pcToks pc)" using peek_before_end [OF assms(2)] by (simp add: peek_def)
  with assms show ?thesis unfolding tokensSolid_def by blast
qed

lemma not_arrowBody:
  assumes "tokensOK pc" "tokensSolid pc" "spStart (SourceSpan (mdlBody m)) = spStart (tkSpan (peek pc (Suc n)))"
    "tkKind (peek pc n) \<noteq> tokArrow" "tkKind (peek pc n) \<noteq> tokEOF"
  shows "\<not> arrowBody pc m"
proof
  assume "arrowBody pc m"
  then obtain k where k: "tkKind (peek pc k) = tokArrow"
      "spStart (tkSpan (peek pc (Suc k))) = spStart (tkSpan (peek pc (Suc n)))"
    using assms(3) by (auto simp: arrowBody_def)
  then have "k \<noteq> n" using assms(4) by blast
  then consider "k < n" | "n < k" by linarith
  then show False
  proof cases
    case 1
    have "spStart (tkSpan (peek pc (Suc k))) \<le> spStart (tkSpan (peek pc n))"
      using peek_before [OF assms(1), of "Suc k" n] peek_span(3) [OF assms(1), of "Suc k"] 1
      by (cases "Suc k = n") auto
    with tokensSolid_peek [OF assms(2,5)] peek_before [OF assms(1), of n "Suc n"] k(2) show False by simp
  next
    case 2
    have "spStart (tkSpan (peek pc (Suc n))) \<le> spStart (tkSpan (peek pc k))"
      using peek_before [OF assms(1), of "Suc n" k] peek_span(3) [OF assms(1), of "Suc n"] 2
      by (cases "Suc n = k") auto
    with tokensSolid_peek [OF assms(2), of k] peek_before [OF assms(1), of k "Suc k"] k show False by simp
  qed
qed

text \<open>The body of a method lies in the span of the method.\<close>

definition bodyInside :: "method_decl \<Rightarrow> bool" where
  "bodyInside m \<longleftrightarrow>
     spStart (mdlSpan m) \<le> spStart (SourceSpan (mdlBody m)) \<and> spEnd (SourceSpan (mdlBody m)) \<le> spEnd (mdlSpan m)"

lemma tokensSpan_nested:
  assumes "tokensOK pc" "a \<le> k" "k < l" "l \<le> j"
  shows "spStart (tokensSpan pc a j) \<le> spStart (tokensSpan pc k l)"
    "spEnd (tokensSpan pc k l) \<le> spEnd (tokensSpan pc a j)"
proof -
  have "spStart (tkSpan (peek pc a)) \<le> spStart (tkSpan (peek pc k))"
    using peek_before [OF assms(1), of a k] peek_span(3) [OF assms(1), of a] assms(2) by (cases "a = k") auto
  then show "spStart (tokensSpan pc a j) \<le> spStart (tokensSpan pc k l)" by (simp add: tokensSpan_def)
  have "spEnd (tkSpan (peek pc (l - 1))) \<le> spEnd (tkSpan (peek pc (j - 1)))"
  proof (cases "l = j")
    case False
    then have "l - 1 < j - 1" using assms(3,4) by simp
    from peek_before [OF assms(1) this] peek_span(3) [OF assms(1), of "j - 1"] show ?thesis by simp
  qed simp
  then show "spEnd (tokensSpan pc k l) \<le> spEnd (tokensSpan pc a j)" by (simp add: tokensSpan_def)
qed

lemma parseMethodMember_wp:
  assumes "tokensOK pc" "tokensSolid pc" "a < i" "i \<le> length (pcToks pc)" "tkKind (peek pc (i - 1)) = tokRParen"
    and Q: "\<And>m j. i < j \<Longrightarrow> j \<le> length (pcToks pc) \<Longrightarrow> mdlSpan m = tokensSpan pc a j \<Longrightarrow> bodyInside m \<Longrightarrow>
      publicOnly pc inClass m \<Longrightarrow> Q m j"
  shows "wpP (parseMethodMember pc (memberGates inClass) (peek pc a) anns vis t name params) Q i"
proof -
  let ?arrow = "tkKind (peek pc i) = tokArrow"
  let ?decl = "\<lambda>body end. \<lparr>mdlVisibility = normalizeVisibility vis, mdlAnnotations = anns, mdlReturnType = t,
    mdlName = name, mdlParams = params, mdlBody = body, mdlSpan = mergeSpans (tkSpan (peek pc a)) end\<rparr>"
  have "wpP (parseMethodBody pc) (\<lambda>r j. wpP (case r of (body, end) \<Rightarrow>
      andP (checkVisibility pc (memberGates inClass ?arrow) vis body) (returnP (?decl body end))) Q j) i"
  proof (rule wp_mono [OF parseMethodBody_wp [OF assms(1,4)]])
    fix r j
    assume "methodPost pc i r j"
    then obtain body k m n where post: "i < j" "j \<le> length (pcToks pc)" "i \<le> k" "k < j"
        "r = (body, tokensSpan pc k j)" "i \<le> m" "opens pc i m" "m < n" "n \<le> j"
        "SourceSpan body = tokensSpan pc m n"
      by (cases r) (auto simp: methodPost_def)
    then have span: "mergeSpans (tkSpan (peek pc a)) (snd r) = tokensSpan pc a j"
      using assms(1,3) by (simp add: tokensSpan_one tokensSpan_merge)
    have inside: "spStart (tokensSpan pc a j) \<le> spStart (SourceSpan body)"
        "spEnd (SourceSpan body) \<le> spEnd (tokensSpan pc a j)"
      unfolding post(10) by (rule tokensSpan_nested [OF assms(1)], use post assms(3) in simp_all)+
    have arrow: "?arrow" if "arrowBody pc (?decl body (snd r))"
    proof (rule ccontr)
      assume "\<not> ?arrow"
      then have "tkKind (peek pc (m - 1)) \<noteq> tokArrow \<and> tkKind (peek pc (m - 1)) \<noteq> tokEOF"
        using post(7) assms(5) by (auto simp: opens_def)
      with not_arrowBody [OF assms(1,2), of "?decl body (snd r)" "m - 1"] that post(6,10) assms(3)
      show False by (simp add: tokensSpan_def)
    qed
    have "publicOnly pc inClass (?decl body (snd r))"
      if "normalizeVisibility vis = VisibilityPublic \<or> \<not> reservedBody (pcContract pc) inClass ?arrow body"
      using that arrow reservedBody_arrow [of "pcContract pc" inClass _ body ?arrow] by (auto simp: publicOnly_def)
    then have "normalizeVisibility vis = VisibilityPublic \<or> \<not> reservedBody (pcContract pc) inClass ?arrow body \<Longrightarrow>
        Q (?decl body (snd r)) j"
      using inside span post by (intro Q) (simp_all add: bodyInside_def)
    with post(5) show "wpP (case r of (body, end) \<Rightarrow>
      andP (checkVisibility pc (memberGates inClass ?arrow) vis body) (returnP (?decl body end))) Q j"
      by (auto simp: wp intro!: checkVisibility_wp)
  qed
  then show ?thesis by (simp add: parseMethodMember_def wp)
qed

lemma parseFieldMember_wp:
  assumes "tokensOK pc" "a < i" "i \<le> length (pcToks pc)"
    and "\<And>f j. i < j \<Longrightarrow> j \<le> length (pcToks pc) \<Longrightarrow> fdlSpan f = tokensSpan pc a j \<Longrightarrow> Q f j"
  shows "wpP (parseFieldMember pc (peek pc a) anns vis t name) Q i"
  using assms
  by (auto simp: parseFieldMember_def wp peek_beyond not_less tokensSpan_one tokensSpan_merge
      intro!: parseExpr_wp)

definition membersOK ::
  "parse_context \<Rightarrow> bool \<Rightarrow> nat \<Rightarrow> nat \<Rightarrow> field_decl list \<times> method_decl list \<Rightarrow> bool" where
  "membersOK pc inClass i j members \<longleftrightarrow>
     spansWithin pc i j (map fdlSpan (fst members)) \<and> spansWithin pc i j (map mdlSpan (snd members))
     \<and> (\<forall>m \<in> set (snd members). bodyInside m \<and> publicOnly pc inClass m)"

lemma membersOK_widen: "membersOK pc c k l ms \<Longrightarrow> i \<le> k \<Longrightarrow> l \<le> j \<Longrightarrow> membersOK pc c i j ms"
  by (auto simp: membersOK_def intro: spansWithin_widen)

lemma memberTurn_wp:
  assumes "tokensOK pc" "tokensSolid pc" "i \<le> j" "j \<le> length (pcToks pc)" "membersOK pc inClass i j members"
  shows "wpP (memberTurn pc (memberGates inClass) members) (\<lambda>x k. case x of
      Inl s' \<Rightarrow> j < k \<and> k \<le> length (pcToks pc) \<and> i \<le> k \<and> membersOK pc inClass i k s'
    | Inr r \<Rightarrow> r = members \<and> k = j) j"
proof -
  obtain fs ms where members: "members = (fs, ms)" by (cases members)
  have field: "membersOK pc inClass i k (fs @ [f], ms)" if "fdlSpan f = tokensSpan pc j k" "j < k" for f k
    using assms(5) members that spansWithin_append [OF assms(1) _ assms(3) order_refl that(2)]
    by (auto simp: membersOK_def intro: spansWithin_mono)
  have methodCase: "membersOK pc inClass i k (fs, ms @ [m])" if "mdlSpan m = tokensSpan pc j k" "j < k" "bodyInside m"
      "publicOnly pc inClass m" for m k
    using assms(5) members that spansWithin_append [OF assms(1) _ assms(3) order_refl that(2)]
    by (auto simp: membersOK_def intro: spansWithin_mono)
  have rest: "wpP (case (h, members) of
        (Some params, fs, ms) \<Rightarrow> bindP (parseMethodMember pc (memberGates inClass) (peek pc j) anns vis t name params)
          (\<lambda>m. returnP (Inl (fs, ms @ [m])))
      | (None, fs, ms) \<Rightarrow> bindP (parseFieldMember pc (peek pc j) anns vis t name)
          (\<lambda>f. returnP (Inl (fs @ [f], ms)))) (\<lambda>x k. case x of
      Inl s' \<Rightarrow> j < k \<and> k \<le> length (pcToks pc) \<and> i \<le> k \<and> membersOK pc inClass i k s'
    | Inr r \<Rightarrow> r = members \<and> k = j) l"
    if "j < l" "l \<le> length (pcToks pc)" "\<And>ps. h = Some ps \<Longrightarrow> tkKind (peek pc (l - 1)) = tokRParen"
    for h anns vis t name l
    using that assms(1-3) field methodCase
    by (cases h) (auto simp: members wp intro!: parseMethodMember_wp parseFieldMember_wp)
  show ?thesis
    unfolding memberTurn_def wp
    using assms(1,3,4) by (auto simp: wp intro!: parseAnnotations_wp parseOptionalVisibility_wp
        parseTypedMemberHeader_wp rest [unfolded prod.case])
qed

lemma memberLoop_wp:
  assumes "tokensOK pc" "tokensSolid pc" "i \<le> length (pcToks pc)"
    and "\<And>ms j. i \<le> j \<Longrightarrow> j \<le> length (pcToks pc) \<Longrightarrow> membersOK pc inClass i j ms \<Longrightarrow> Q ms j"
  shows "wpP (repeatP (loopFuel pc) (memberTurn pc (memberGates inClass)) ([], [])) Q i"
proof (rule wp_loop [where I = "\<lambda>ms j. i \<le> j \<and> membersOK pc inClass i j ms"])
  fix ms j
  assume "i \<le> j \<and> membersOK pc inClass i j ms" "j \<le> length (pcToks pc)"
  then show "wpP (memberTurn pc (memberGates inClass) ms) (\<lambda>x k. case x of
      Inl s' \<Rightarrow> j < k \<and> k \<le> length (pcToks pc) \<and> i \<le> k \<and> membersOK pc inClass i k s'
    | Inr r \<Rightarrow> Q r k) j"
    by (intro wp_mono [OF memberTurn_wp [OF assms(1,2), of i j inClass ms]])
      (auto intro: assms(4) split: sum.splits)
qed (use assms in \<open>simp_all add: membersOK_def\<close>)

section \<open>Classes, records, interfaces and enums\<close>

lemma parseImplements_wp:
  assumes "i \<le> length (pcToks pc)" "\<And>t j. i \<le> j \<Longrightarrow> j \<le> length (pcToks pc) \<Longrightarrow> Q t j"
  shows "wpP (parseImplements pc) Q i"
  using assms by (auto simp: parseImplements_def wp peek_beyond not_less)

definition classOK :: "parse_context \<Rightarrow> bool \<Rightarrow> nat \<Rightarrow> nat \<Rightarrow> class_decl \<Rightarrow> bool" where
  "classOK pc inClass i j d \<longleftrightarrow> cldSpan d = tokensSpan pc i j \<and> membersOK pc inClass i j (cldFields d, cldMethods d)"

lemma parseClassBody_wp:
  assumes "tokensOK pc" "tokensSolid pc" "a < i" "i \<le> length (pcToks pc)"
    and Q: "\<And>d j. i < j \<Longrightarrow> j \<le> length (pcToks pc) \<Longrightarrow> classOK pc inClass a j d \<Longrightarrow> Q d j"
  shows "wpP (parseClassBody pc (memberGates inClass) vis anns (tkSpan (peek pc a))) Q i"
proof -
  have last: "Q \<lparr>cldName = n, cldVisibility = v, cldAnnotations = anns, cldImplements = impl,
       cldFields = fs, cldMethods = ms, cldSpan = mergeSpans (tkSpan (peek pc a)) (tkSpan (peek pc k))\<rparr> (Suc k)"
    if "membersOK pc inClass j k (fs, ms)" "i < j" "j \<le> k" "k < length (pcToks pc)" for n v impl fs ms j k
    using that(2-4) assms(1,3) membersOK_widen [OF that(1), of a "Suc k"]
    by (auto simp: classOK_def tokensSpan_one tokensSpan_merge intro!: Q)
  show ?thesis
    unfolding parseClassBody_def
    using assms(1-4) by (auto simp: wp intro!: parseImplements_wp memberLoop_wp elim!: last)
qed

lemma parseClass_wp:
  assumes "tokensOK pc" "tokensSolid pc" "a \<le> i" "i \<le> length (pcToks pc)"
    and "\<And>d j. i < j \<Longrightarrow> j \<le> length (pcToks pc) \<Longrightarrow> classOK pc True a j d \<Longrightarrow> Q d j"
  shows "wpP (parseClass pc vis anns (tkSpan (peek pc a))) Q i"
  using assms peek_before_end [of pc i] parseClassBody_wp [of pc a "Suc i" True Q]
  by (auto simp: parseClass_def wp memberGates_def)

lemma parseRecord_wp:
  assumes "tokensOK pc" "tokensSolid pc" "a \<le> i" "i \<le> length (pcToks pc)"
    and "\<And>d j. i < j \<Longrightarrow> j \<le> length (pcToks pc) \<Longrightarrow> classOK pc False a j d \<Longrightarrow> Q d j"
  shows "wpP (parseRecord pc vis anns (tkSpan (peek pc a))) Q i"
  using assms parseClassBody_wp [of pc a "Suc i" False Q] by (auto simp: parseRecord_def wp memberGates_def)

definition signaturesOK :: "parse_context \<Rightarrow> nat \<Rightarrow> nat \<Rightarrow> field_sig list \<times> method_sig list \<Rightarrow> bool" where
  "signaturesOK pc i j members \<longleftrightarrow>
     spansWithin pc i j (map fsgSpan (fst members)) \<and> spansWithin pc i j (map msgSpan (snd members))"

lemma signaturesOK_widen: "signaturesOK pc k l ms \<Longrightarrow> i \<le> k \<Longrightarrow> l \<le> j \<Longrightarrow> signaturesOK pc i j ms"
  by (auto simp: signaturesOK_def intro: spansWithin_widen)

lemma signatureTurn_wp:
  assumes "tokensOK pc" "i \<le> j" "j \<le> length (pcToks pc)" "signaturesOK pc i j members"
  shows "wpP (signatureTurn pc members) (\<lambda>x k. case x of
      Inl s' \<Rightarrow> j < k \<and> k \<le> length (pcToks pc) \<and> i \<le> k \<and> signaturesOK pc i k s'
    | Inr r \<Rightarrow> r = members \<and> k = j) j"
proof -
  obtain fs ms where members: "members = (fs, ms)" by (cases members)
  have field: "signaturesOK pc i k (fs @ [f], ms)" if "fsgSpan f = tokensSpan pc j k" "j < k" for f k
    using assms(4) members that spansWithin_append [OF assms(1) _ assms(2) order_refl that(2)]
    by (auto simp: signaturesOK_def intro: spansWithin_mono)
  have methodCase: "signaturesOK pc i k (fs, ms @ [m])" if "msgSpan m = tokensSpan pc j k" "j < k" for m k
    using assms(4) members that spansWithin_append [OF assms(1) _ assms(2) order_refl that(2)]
    by (auto simp: signaturesOK_def intro: spansWithin_mono)
  show ?thesis
    unfolding signatureTurn_def wp
    using assms(1-3)
    by (auto simp: wp members Let_def tokensSpan_one tokensSpan_merge split: option.split
        intro!: parseAnnotations_wp parseOptionalVisibility_wp parseTypedMemberHeader_wp field methodCase)
qed

definition interfaceOK :: "parse_context \<Rightarrow> nat \<Rightarrow> nat \<Rightarrow> interface_decl \<Rightarrow> bool" where
  "interfaceOK pc i j d \<longleftrightarrow> ifdSpan d = tokensSpan pc i j \<and> signaturesOK pc i j (ifdFields d, ifdMethods d)"

lemma parseInterface_wp:
  assumes "tokensOK pc" "a \<le> i" "i \<le> length (pcToks pc)"
    and Q: "\<And>d j. i < j \<Longrightarrow> j \<le> length (pcToks pc) \<Longrightarrow> interfaceOK pc a j d \<Longrightarrow> Q d j"
  shows "wpP (parseInterface pc vis anns (tkSpan (peek pc a))) Q i"
proof -
  have loop: "wpP (repeatP (loopFuel pc) (signatureTurn pc) ([], []))
      (\<lambda>ms j. k \<le> j \<and> j \<le> length (pcToks pc) \<and> signaturesOK pc k j ms) k" if "k \<le> length (pcToks pc)" for k
  proof (rule wp_loop [where I = "\<lambda>ms j. k \<le> j \<and> signaturesOK pc k j ms"])
    fix ms j
    assume "k \<le> j \<and> signaturesOK pc k j ms" "j \<le> length (pcToks pc)"
    then show "wpP (signatureTurn pc ms) (\<lambda>x l. case x of
        Inl s' \<Rightarrow> j < l \<and> l \<le> length (pcToks pc) \<and> k \<le> l \<and> signaturesOK pc k l s'
      | Inr r \<Rightarrow> k \<le> l \<and> l \<le> length (pcToks pc) \<and> signaturesOK pc k l r) j"
      by (intro wp_mono [OF signatureTurn_wp [OF assms(1), of k j ms]]) (auto split: sum.splits)
  qed (use that in \<open>simp_all add: signaturesOK_def\<close>)
  have rest: "wpP (repeatP (loopFuel pc) (signatureTurn pc) ([], [])) (\<lambda>members. wpP (case members of (fs, ms) \<Rightarrow>
      bindP (expectP pc tokRBrace) (\<lambda>end. returnP \<lparr>ifdName = n, ifdVisibility = normalizeVisibility vis,
        ifdAnnotations = anns, ifdFields = fs, ifdMethods = ms,
        ifdSpan = mergeSpans (tkSpan (peek pc a)) (tkSpan end)\<rparr>)) Q) k"
    if "i < k" "k \<le> length (pcToks pc)" for n k
  proof (rule wp_mono [OF loop [OF that(2)]])
    fix members j
    assume j: "k \<le> j \<and> j \<le> length (pcToks pc) \<and> signaturesOK pc k j members"
    then have "signaturesOK pc a (Suc j) members"
      using signaturesOK_widen [of pc k j members a "Suc j"] that(1) assms(2) by simp
    with j that(1) assms(1,2) show "wpP (case members of (fs, ms) \<Rightarrow>
      bindP (expectP pc tokRBrace) (\<lambda>end. returnP \<lparr>ifdName = n, ifdVisibility = normalizeVisibility vis,
        ifdAnnotations = anns, ifdFields = fs, ifdMethods = ms,
        ifdSpan = mergeSpans (tkSpan (peek pc a)) (tkSpan end)\<rparr>)) Q j"
      by (cases members) (auto simp: wp interfaceOK_def tokensSpan_one tokensSpan_merge intro!: Q)
  qed
  show ?thesis
    unfolding parseInterface_def wp_bind wp_and
    using assms(3) rest by (auto simp: wp)
qed

definition enumOK :: "parse_context \<Rightarrow> nat \<Rightarrow> nat \<Rightarrow> enum_decl \<Rightarrow> bool" where
  "enumOK pc i j d \<longleftrightarrow> endSpan d = tokensSpan pc i j \<and> spansWithin pc i j (map emdSpan (endMembers d))"

lemma parseEnum_wp:
  assumes "tokensOK pc" "a \<le> i" "i < length (pcToks pc)"
    and Q: "\<And>d j. i < j \<Longrightarrow> j \<le> length (pcToks pc) \<Longrightarrow> enumOK pc a j d \<Longrightarrow> Q d j"
  shows "wpP (parseEnum pc vis anns (tkSpan (peek pc a))) Q i"
proof -
  have loop: "wpP (repeatP (loopFuel pc) (enumMemberTurn pc) []) R k"
    if "k \<le> length (pcToks pc)" "\<And>ms j. k \<le> j \<Longrightarrow> j \<le> length (pcToks pc) \<Longrightarrow>
        spansWithin pc k j (map emdSpan ms) \<Longrightarrow> R ms j" for k R
  proof (rule wp_loop [where I = "\<lambda>ms j. k \<le> j \<and> spansWithin pc k j (map emdSpan ms)"])
    fix ms :: "enum_member_decl list" and j
    assume "k \<le> j \<and> spansWithin pc k j (map emdSpan ms)" "j \<le> length (pcToks pc)"
    then show "wpP (enumMemberTurn pc ms) (\<lambda>x l. case x of
        Inl s' \<Rightarrow> j < l \<and> l \<le> length (pcToks pc) \<and> k \<le> l \<and> spansWithin pc k l (map emdSpan s')
      | Inr r \<Rightarrow> R r l) j"
      using assms(1) that(2)
      by (auto simp: enumMemberTurn_def wp tokensSpan_one tokensSpan_merge intro!: spansWithin_append)
  qed (use that in simp_all)
  have widen: "spansWithin pc a (Suc l) sps" if "spansWithin pc k l sps" "a \<le> k" for k l sps
    by (rule spansWithin_widen [OF that]) simp
  show ?thesis
    unfolding parseEnum_def
    using assms(1-3)
    by (auto simp: wp enumOK_def tokensSpan_one tokensSpan_merge intro!: loop Q elim!: widen)
qed

section \<open>Programs\<close>

text \<open>
  The declarations of each kind have been read from ranges of tokens one after the other, up to
  token \<open>j\<close>, and hold their members.
\<close>

definition programOK :: "parse_context \<Rightarrow> nat \<Rightarrow> source_program \<Rightarrow> bool" where
  "programOK pc j prog \<longleftrightarrow>
     sprSpan prog = spanAt (pcFile pc) 0 (pcEnd pc)
     \<and> spansWithin pc 0 j (map ifdSpan (sprInterfaces prog))
     \<and> spansWithin pc 0 j (map cldSpan (sprClasses prog))
     \<and> spansWithin pc 0 j (map cldSpan (sprRecords prog))
     \<and> spansWithin pc 0 j (map endSpan (sprEnums prog))
     \<and> (\<forall>d \<in> set (sprInterfaces prog). \<exists>k l. interfaceOK pc k l d)
     \<and> (\<forall>d \<in> set (sprClasses prog). \<exists>k l. classOK pc True k l d)
     \<and> (\<forall>d \<in> set (sprRecords prog). \<exists>k l. classOK pc False k l d)
     \<and> (\<forall>d \<in> set (sprEnums prog). \<exists>k l. enumOK pc k l d)"

lemma declarationTurn_wp:
  assumes "tokensOK pc" "tokensSolid pc" "i \<le> length (pcToks pc)" "programOK pc i prog"
  shows "wpP (declarationTurn pc prog) (\<lambda>x j. case x of
      Inl p \<Rightarrow> i < j \<and> j \<le> length (pcToks pc) \<and> programOK pc j p
    | Inr p \<Rightarrow> tkKind (peek pc j) = tokEOF \<and> j \<le> length (pcToks pc) \<and> programOK pc j p) i"
proof -
  note append = spansWithin_append [OF assms(1) _ _ order_refl] and mono = spansWithin_mono
  have interfaces: "programOK pc j (prog\<lparr>sprInterfaces := sprInterfaces prog @ [d]\<rparr>)"
    if "i < j" "interfaceOK pc i j d" for d j
    using assms(4) that append [of 0 i _ j] mono [of pc 0 i _ j]
    by (auto simp: programOK_def interfaceOK_def)
  have classes: "programOK pc j (prog\<lparr>sprClasses := sprClasses prog @ [d]\<rparr>)"
    if "i < j" "classOK pc True i j d" for d j
    using assms(4) that append [of 0 i _ j] mono [of pc 0 i _ j]
    by (auto simp: programOK_def classOK_def)
  have records: "programOK pc j (prog\<lparr>sprRecords := sprRecords prog @ [d]\<rparr>)"
    if "i < j" "classOK pc False i j d" for d j
    using assms(4) that append [of 0 i _ j] mono [of pc 0 i _ j]
    by (auto simp: programOK_def classOK_def)
  have enums: "programOK pc j (prog\<lparr>sprEnums := sprEnums prog @ [d]\<rparr>)"
    if "i < j" "enumOK pc i j d" for d j
    using assms(4) that append [of 0 i _ j] mono [of pc 0 i _ j]
    by (auto simp: programOK_def enumOK_def)
  show ?thesis
    unfolding declarationTurn_def wp
    using assms isWord_within [of pc]
    by (auto simp: wp intro!: parseAnnotations_wp parseOptionalVisibility_wp parseInterface_wp
        parseClass_wp parseRecord_wp parseEnum_wp interfaces classes records enums)
qed

lemma parseProgram_wp:
  assumes "tokensOK pc" "tokensSolid pc"
  shows "wpP (parseProgram pc) (\<lambda>p j. tkKind (peek pc j) = tokEOF \<and> j \<le> length (pcToks pc) \<and> programOK pc j p) 0"
  unfolding parseProgram_def
proof (rule wp_loop [where I = "\<lambda>p j. programOK pc j p"])
  fix p j
  assume "programOK pc j p" "j \<le> length (pcToks pc)"
  with declarationTurn_wp [OF assms this(2,1)]
  show "wpP (declarationTurn pc p) (\<lambda>x k. case x of
      Inl s' \<Rightarrow> j < k \<and> k \<le> length (pcToks pc) \<and> programOK pc k s'
    | Inr r \<Rightarrow> tkKind (peek pc k) = tokEOF \<and> k \<le> length (pcToks pc) \<and> programOK pc k r) j" by simp
qed (simp_all add: programOK_def)

end
