(* ===== verification/ParserProperties.thy ===== *)
theory ParserProperties
  imports ParserTrees DeclRules
begin

text \<open>
  Properties of the PipeLang front end: positions, the lexer and the expression parser.
\<close>

section \<open>Lexer and parser together\<close>

lemma tiled_spans:
  "tokensTile f src i ts \<Longrightarrow> t \<in> set ts \<Longrightarrow>
   spFile (tkSpan t) = f \<and> int i \<le> spStart (tkSpan t) \<and> spStart (tkSpan t) < spEnd (tkSpan t)
   \<and> spEnd (tkSpan t) \<le> int (length src)"
proof (induction ts arbitrary: i)
  case (Cons u us)
  then obtain a b where u: "tkSpan u = spanAt f a b" "i \<le> a" "a < b" "b \<le> length src" "tokensTile f src b us"
    by (auto simp: Let_def)
  show ?case
  proof (cases "t = u")
    case False
    with Cons.prems(2) Cons.IH [OF u(5)] u(2,3) show ?thesis by auto
  qed (use u in simp)
qed simp

lemma tiled_sorted:
  "tokensTile f src i ts \<Longrightarrow> sorted_wrt (\<lambda>t u. spEnd (tkSpan t) \<le> spStart (tkSpan u)) ts"
proof (induction ts arbitrary: i)
  case (Cons u us)
  then obtain a b where u: "tkSpan u = spanAt f a b" "tokensTile f src b us" by (auto simp: Let_def)
  with Cons.IH [OF u(2)] tiled_spans [OF u(2)] show ?case by simp
qed simp

lemma lex_tokensOK:
  assumes "lex file = Inr toks" "sfID file \<noteq> []"
  shows "tokensOK (parserContext file c native toks)"
proof -
  obtain ts where ts: "toks = ts @ [eofToken (sfID file) (sfText file)]"
      "tokensTile (sfID file) (sfText file) 0 ts"
    using lexFrom_tiles [of "sfID file" "sfText file" 0 "[]" toks] assms(1) by (auto simp: lex_def)
  have "spEnd (tkSpan t) \<le> int (length (sfText file)) \<and> spStart (tkSpan t) \<le> spEnd (tkSpan t)
      \<and> 0 \<le> spStart (tkSpan t) \<and> spFile (tkSpan t) = sfID file" if "t \<in> set ts" for t
    using tiled_spans [OF ts(2) that] by simp
  with assms(2) tiled_sorted [OF ts(2)] show ?thesis
    by (auto simp: tokensOK_def ts(1) eofToken_def sorted_wrt_append)
qed

lemma lex_tokensSolid:
  assumes "lex file = Inr toks"
  shows "tokensSolid (parserContext file c native toks)"
proof -
  obtain ts where ts: "toks = ts @ [eofToken (sfID file) (sfText file)]"
      "tokensTile (sfID file) (sfText file) 0 ts"
    using lexFrom_tiles [of "sfID file" "sfText file" 0 "[]" toks] assms by (auto simp: lex_def)
  then show ?thesis
    using tiled_spans [OF ts(2)] by (auto simp: tokensSolid_def ts(1) eofToken_def mkToken_def)
qed

lemma reads_all:
  "map lexemeOf ts = ls \<Longrightarrow> pcToks pc = us @ ts @ vs \<Longrightarrow> reads pc (length us) ls"
proof (induction ts arbitrary: us ls)
  case (Cons t ts)
  from Cons.IH [OF refl, of "us @ [t]"] Cons.prems show ?case
    by (auto simp: peek_def nth_append)
qed simp

lemma wrapped_printable: "list_all printable ts \<Longrightarrow> list_all printable (wrapped b ts)"
  by (simp add: wrapped_def fixedToken_def printable_def lexeme_def)

lemma treeTokens_printable: "treeOK t \<Longrightarrow> list_all printable (treeTokens t)"
proof (induction t)
  case (TreeBinary k l r)
  then have "printable (fixedToken k)"
    by (cases k) (simp_all add: binaryPrecedence_def printable_def lexeme_def fixedToken_def)
  with TreeBinary show ?case by (simp add: wrapped_printable)
next
  case (TreeUnary k t)
  then have "printable (fixedToken k)" by (auto simp: printable_def lexeme_def fixedToken_def)
  with TreeUnary show ?case by (simp add: wrapped_printable)
next
  case (TreeInt n)
  show ?case using decimalText_digits [of n] by (simp add: printable_def lexeme_def)
qed (simp_all add: wrapped_printable plainName_def printable_def lexeme_def fixedToken_def)

section \<open>Properties\<close>

text \<open>C16: Every source text either lexes to tokens that tile it, each with the text of its kind at
  its span and only blanks and comments between, or gives a lexical diagnostic whose span is a
  non-empty range of bytes of the file.\<close>

theorem lex_tiles:
  "case lex file of
     Inl d \<Rightarrow> lexicalError (sfID file) (length (sfText file)) d
   | Inr toks \<Rightarrow> \<exists>ts. toks = ts @ [eofToken (sfID file) (sfText file)]
       \<and> tokensTile (sfID file) (sfText file) 0 ts"
proof (cases "lex file")
  case (Inl d)
  then show ?thesis using lexFrom_error by (simp add: lex_def)
next
  case (Inr toks)
  then show ?thesis
    using lexFrom_tiles [of "sfID file" "sfText file" 0 "[]" toks] by (simp add: lex_def)
qed

text \<open>C17: Printing tokens with a blank after each and lexing the text gives the tokens back, with
  their kinds and the values of their string literals.\<close>

theorem lex_print_roundtrip:
  assumes "list_all printable ts"
  shows "\<exists>toks. lex (newSourceFile path (renderTokens ts)) =
      Inr (toks @ [eofToken path (renderTokens ts)]) \<and> map lexemeOf toks = ts"
  using lexFrom_renders [of 0 "renderTokens ts" ts path "[]"] assms
  by (simp add: lex_def newSourceFile_def lexemeOf_def [abs_def])

definition sampleTokens :: lexeme_list where
  "sampleTokens =
     [(tokPublic, ''public''), (tokIdent, ''x1''), (tokFloat, ''1.50''), (tokSlash, ''/''),
      (tokString, [CHR 0x22, CHR 0x5C, CHR 0x0A]), (tokGE, ''>=''), (tokBool, ''true'')]"

lemma sampleTokens_printable: "list_all printable sampleTokens"
  by (simp add: sampleTokens_def printable_def lexeme_def identifierText_def reservedWords_def
      floatText_def digitsText_def isIdentPart_def isIdentStart_def isDigit_def byte_def Let_def)

lemma sampleTokens_length: "length sampleTokens = 7"
  by (simp add: sampleTokens_def)

theorem lex_print_roundtrip_witness:
  "\<exists>toks. lex (newSourceFile ''a.pipe'' (renderTokens sampleTokens)) =
      Inr (toks @ [eofToken ''a.pipe'' (renderTokens sampleTokens)]) \<and> map lexemeOf toks = sampleTokens"
  by (rule lex_print_roundtrip [OF sampleTokens_printable])

text \<open>C30: The position of an offset counts the line feeds before it, and the runes and the UTF-16
  units since the last of them, both from one.\<close>

theorem position_counts:
  assumes "n \<le> length t"
  shows "filePosition (newSourceFile path t) (int n) =
    \<lparr>posOffset = int n, posLine = int (newlines (take n t)) + 1,
     posColumn = int (length (runes (lastLine (take n t)))) + 1,
     posUTF16Column = 1 + sum_list (map utf16Width (runes (lastLine (take n t))))\<rparr>"
  using assms by (rule filePosition_text)

theorem position_counts_witness:
  "posLine (filePosition (newSourceFile ''a'' (''ab'' @ [CHR 0x0A] @ ''cd'')) (int 4)) = 2"
  by (subst position_counts) (simp_all add: newlines_def)

text \<open>C14: Parsing a source file ends, under every contract, without a panic: in a diagnostic, or in a
  program for all its tokens. Its declarations and their members have the spans of the tokens they
  were read from, nested and in source order, and no method that is not public has a body that the
  contract reserves for public ones: in classes from v0.100.0 (arrow bodies only) and v0.101.0 on, in
  records from v0.102.0 on, in both by the rules of v0.103.0 to v0.111.0.\<close>

theorem parse_file_total:
  assumes "sfID file \<noteq> []"
  shows "case parseSourceFileWithLanguageContract file c of
      Parsed p j \<Rightarrow> \<exists>toks. lex file = Inr toks
        \<and> tkKind (peek (parserContext file c False toks) j) = tokEOF
        \<and> programOK (parserContext file c False toks) j p
    | Rejected d \<Rightarrow> True | ParsePanic \<Rightarrow> False | ParseTimeout \<Rightarrow> False"
proof (cases "lex file")
  case (Inr toks)
  from parseProgram_wp [OF lex_tokensOK [OF Inr assms, of c False] lex_tokensSolid [OF Inr]] Inr show ?thesis
    by (simp add: parseSourceFileWithLanguageContract_def wpP_def split: parsed.splits)
qed (simp add: parseSourceFileWithLanguageContract_def)

definition sampleFile :: source_file where
  "sampleFile = newSourceFile ''a.pipe'' ''public Class A { public int F(int n) { int m = n; return m; } }''"

theorem parse_file_total_witness:
  "case parseSourceFileWithLanguageContract sampleFile 113 of
      Parsed p j \<Rightarrow> \<exists>toks. lex sampleFile = Inr toks
        \<and> tkKind (peek (parserContext sampleFile 113 False toks) j) = tokEOF
        \<and> programOK (parserContext sampleFile 113 False toks) j p
    | Rejected d \<Rightarrow> True | ParsePanic \<Rightarrow> False | ParseTimeout \<Rightarrow> False"
  by (rule parse_file_total) (simp add: sampleFile_def newSourceFile_def)

text \<open>C13: Parsing an expression of a lexed file ends, without a panic, in a diagnostic or in a node
  that has read at least a token and whose span is the range from its first token to its last.\<close>

theorem parse_expression_spans:
  assumes "lex file = Inr toks" "sfID file \<noteq> []" "i < length toks" "0 < m"
  shows "(\<exists>d. parseExpr (parserContext file c native toks) m i = Rejected d)
    \<or> (\<exists>e j. parseExpr (parserContext file c native toks) m i = Parsed e j \<and> i < j \<and> j \<le> length toks
        \<and> SourceSpan e = \<lparr>spFile = sfID file, spStart = spStart (tkSpan (toks ! i)),
            spEnd = spEnd (tkSpan (toks ! (j - 1)))\<rparr>)"
proof -
  let ?pc = "parserContext file c native toks"
  have "wpP (parseExpr ?pc m) (exprPost ?pc i) i"
    unfolding parseExpr_def
    by (rule exprs.rec_ok [OF lex_tokensOK [OF assms(1,2)]]) (use assms(3,4) in \<open>simp_all add: loopFuel_def\<close>)
  then show ?thesis
    using assms(3) by (auto simp: wpP_def exprPost_def tokensSpan_def peek_def split: parsed.splits)
qed

theorem parse_expression_spans_witness:
  "\<exists>toks. lex (newSourceFile ''a.pipe'' (renderTokens sampleTokens)) = Inr toks
    \<and> ((\<exists>d. parseExpr (parserContext (newSourceFile ''a.pipe'' (renderTokens sampleTokens)) 40 True toks) 1 1
          = Rejected d)
      \<or> (\<exists>e j. parseExpr (parserContext (newSourceFile ''a.pipe'' (renderTokens sampleTokens)) 40 True toks)
            1 1 = Parsed e j \<and> 1 < j \<and> j \<le> length toks
          \<and> SourceSpan e = \<lparr>spFile = ''a.pipe'', spStart = spStart (tkSpan (toks ! 1)),
              spEnd = spEnd (tkSpan (toks ! (j - 1)))\<rparr>))"
proof -
  let ?file = "newSourceFile ''a.pipe'' (renderTokens sampleTokens)"
  obtain ts where ts: "lex ?file = Inr (ts @ [eofToken ''a.pipe'' (renderTokens sampleTokens)])"
      "map lexemeOf ts = sampleTokens"
    using lexFrom_renders [of 0 "renderTokens sampleTokens" sampleTokens "''a.pipe''" "[]"]
      sampleTokens_printable
    by (auto simp: lex_def newSourceFile_def lexemeOf_def [abs_def])
  from ts(2) have "length ts = 7" by (metis length_map sampleTokens_length)
  with parse_expression_spans [OF ts(1), of 1 1 40 True] ts(1) show ?thesis
    by (simp add: newSourceFile_def)
qed

text \<open>C12: Under the contracts v0.38.0 to v0.115.0 an expression of names that open no form, int, string
  and bool literals, field and index selections, prefix and binary operators and conditionals,
  printed as text with the parentheses that precedence and associativity require and no others, is
  lexed and parsed back to the same expression.\<close>

theorem operator_precedence:
  assumes "treeOK t" "38 \<le> c" "c \<le> 115"
  shows "\<exists>toks e. lex (newSourceFile path (renderTokens (treeTokens t))) = Inr toks
    \<and> parseExpr (parserContext (newSourceFile path (renderTokens (treeTokens t))) c False toks) 1 0
      = Parsed e (length toks - 1) \<and> represents t e"
proof -
  let ?src = "renderTokens (treeTokens t)"
  let ?file = "newSourceFile path ?src"
  obtain ts where ts: "lexFrom path ?src 0 [] = Inr (ts @ [eofToken path ?src])"
      "map lexemeOf ts = treeTokens t"
    using lexFrom_renders [of 0 ?src "treeTokens t" path "[]"] treeTokens_printable [OF assms(1)]
    by (auto simp: lexemeOf_def [abs_def])
  let ?toks = "ts @ [eofToken path ?src]"
  let ?pc = "parserContext ?file c False ?toks"
  have n: "length (treeTokens t) = length ts" using ts(2) by (metis length_map)
  have "readsTrees ?pc (parseExprs ?pc (loopFuel ?pc)) (loopFuel ?pc)"
    by (rule parseExprs_reads) (use assms in simp_all)
  moreover have "reads ?pc 0 (treeTokens t)"
    using reads_all [OF ts(2), of ?pc "[]" "[eofToken path ?src]"] by simp
  moreover have "endsExpr 1 (tkKind (peek ?pc (0 + length (treeTokens t))))"
    by (simp add: n peek_def eofToken_def endsExpr_def endsOperand_def binaryPrecedence_def)
  ultimately obtain e where "parseExprs ?pc (loopFuel ?pc) 1 0 = Parsed e (0 + length (treeTokens t))"
      "represents t e"
    using rec_reads [of ?pc "parseExprs ?pc (loopFuel ?pc)" "loopFuel ?pc" t 0] assms(1) n
    by (auto simp: loopFuel_def)
  then show ?thesis
    using ts(1) n by (auto simp: lex_def newSourceFile_def parseExpr_def)
qed

text \<open>\<open>a - (b - c) * - d.e[0] == 7 ? !p : "x"\<close>.\<close>

definition sampleTree :: op_tree where
  "sampleTree =
     TreeCond
       (TreeBinary tokEQ
         (TreeBinary tokMinus (TreeName ''a'')
           (TreeBinary tokStar (TreeBinary tokMinus (TreeName ''b'') (TreeName ''c''))
             (TreeUnary tokMinus (TreeIndex (TreeField (TreeName ''d'') ''e'') (TreeInt 0)))))
         (TreeInt 7))
       (TreeUnary tokBang (TreeName ''p'')) (TreeText ''x'')"

lemma sampleTree_OK: "treeOK sampleTree"
  by (simp add: sampleTree_def plainName_def lexeme_def identifierText_def reservedWords_def formWords_def
      isIdentPart_def isIdentStart_def byte_def binaryPrecedence_def)

theorem operator_precedence_witness:
  "\<exists>toks e. lex (newSourceFile ''a.pipe'' (renderTokens (treeTokens sampleTree))) = Inr toks
    \<and> parseExpr (parserContext (newSourceFile ''a.pipe'' (renderTokens (treeTokens sampleTree))) 115 False
        toks) 1 0 = Parsed e (length toks - 1) \<and> represents sampleTree e"
  by (rule operator_precedence [OF sampleTree_OK]) simp_all

section \<open>The number of selectors of a joined filter\<close>

lemma bindP_Parsed:
  "bindP p f i = Parsed b k \<longleftrightarrow> (\<exists>a j. p i = Parsed a j \<and> f a j = Parsed b k)"
  by (simp add: bindP_def split: parsed.splits)

lemma fixedSelectors_length:
  "fixedSelectors pc n selectors i = Parsed s j \<Longrightarrow> length s = length selectors + n"
  by (induction n arbitrary: selectors i) (auto simp: bindP_Parsed andP_def returnP_def)

text \<open>C37: From v0.32.0 on, although it extends v0.29.0 that admits two or more selectors, a joined
  filter that parses has exactly five of them, as before v0.29.0.\<close>

theorem joined_selector_count:
  assumes "pcContract pc < 29 \<or> 31 < pcContract pc"
    "parseListFilterJoinedContainsCaseFolded pc rec i = Parsed e j"
  shows "\<exists>values selectors query sp. length selectors = 5
    \<and> e = ListFilterJoinedContainsCaseFoldedExpr values selectors query sp"
  using assms fixedSelectors_length [of pc 5 "[]"]
  by (auto simp: parseListFilterJoinedContainsCaseFolded_def bindP_Parsed andP_def returnP_def)

text \<open>The search over \<open>rows\<close> with one selector of \<open>Row\<close> for each name.\<close>

definition joinedSearch :: "string list \<Rightarrow> lexeme_list" where
  "joinedSearch names =
     [(tokIdent, ''filter_joined_contains_casefolded''), (tokLParen, ''(''), (tokIdent, ''rows'')]
     @ concat (map (\<lambda>n. [(tokComma, '',''), (tokIdent, ''Row''), (tokDot, ''.''), (tokIdent, n)]) names)
     @ [(tokComma, '',''), (tokIdent, ''needle''), (tokRParen, '')'')]"

definition parseJoined :: "language_contract \<Rightarrow> string list \<Rightarrow> source_expr parsed" where
  "parseJoined c names =
     (let pc = parserContext (newSourceFile ''a.pipe'' []) c False
                 (map (\<lambda>(k, s). mkToken k s zeroSpan) (joinedSearch names))
      in parseListFilterJoinedContainsCaseFolded pc (parseExprs pc 2) 0)"

definition accepts :: "source_expr parsed \<Rightarrow> bool" where
  "accepts r = (case r of Parsed _ _ \<Rightarrow> True | _ \<Rightarrow> False)"

lemma joined_selectors_sample:
  "accepts (parseJoined 115 [''a'', ''b'', ''c'', ''d'', ''e''])"
  "accepts (parseJoined 31 [''a'', ''b'', ''c''])"
  "\<not> accepts (parseJoined 115 [''a'', ''b'', ''c''])"
  by code_simp+

theorem joined_selector_count_witness:
  "(\<exists>values selectors query sp j. length selectors = 5
     \<and> parseJoined 115 [''a'', ''b'', ''c'', ''d'', ''e'']
       = Parsed (ListFilterJoinedContainsCaseFoldedExpr values selectors query sp) j)
   \<and> accepts (parseJoined 31 [''a'', ''b'', ''c''])
   \<and> \<not> accepts (parseJoined 115 [''a'', ''b'', ''c''])"
proof -
  obtain e j where p: "parseJoined 115 [''a'', ''b'', ''c'', ''d'', ''e''] = Parsed e j"
    using joined_selectors_sample(1) by (auto simp: accepts_def split: parsed.splits)
  show ?thesis
    using joined_selector_count [OF _ p [unfolded parseJoined_def Let_def]] p joined_selectors_sample(2,3)
    by auto
qed

end
