(* ===== verification/StreamEval.thy ===== *)
theory StreamEval
  imports StreamCheck
begin

text \<open>
  The reference evaluator of stream composition (streameval/evaluate.go, incremental.go). The
  host is outside the repository: it is a parameter, a pair of functions on a state of its own,
  and \<open>None\<close> of a call is a panic of the host, which the evaluator recovers from.
\<close>

section \<open>Values\<close>

record stream_outcome =
  soStatus :: status
  soInputBytes :: "64 word"
  soOutputBytes :: "64 word"
  soChunks :: "64 word"

record step_outcome =
  stOutcome :: stream_outcome
  stProgress :: progress
  stInputConsumed :: "64 word"
  stOutputWritten :: "64 word"

text \<open>A capability is an opaque value of the host.\<close>

record 'c stream_value =
  svType :: stream_type
  svInt :: "64 word"
  svUint :: "64 word"
  svBool :: bool
  svStatus :: status
  svResult :: stream_outcome
  svStep :: step_outcome
  svExtent :: "64 word"
  svCapability :: "'c option"
  svAvailable :: bool

definition statusOutcome :: "status \<Rightarrow> stream_outcome" where
  "statusOutcome s = \<lparr>soStatus = s, soInputBytes = 0, soOutputBytes = 0, soChunks = 0\<rparr>"

definition statusStep :: "status \<Rightarrow> step_outcome" where
  "statusStep s = \<lparr>stOutcome = statusOutcome s, stProgress = 0, stInputConsumed = 0, stOutputWritten = 0\<rparr>"

text \<open>\<open>Value\{Type: t\}\<close>\<close>

definition typedValue :: "stream_type \<Rightarrow> 'c stream_value" where
  "typedValue t = \<lparr>svType = t, svInt = 0, svUint = 0, svBool = False, svStatus = 0,
     svResult = statusOutcome 0, svStep = statusStep 0, svExtent = 0, svCapability = None,
     svAvailable = False\<rparr>"

section \<open>The host\<close>

text \<open>
  \<open>hoStep\<close> is \<open>None\<close> for a host that is no \<open>IncrementalHost\<close>. A nil host is \<open>None\<close> of the option in
  \<open>evHost\<close> below.
\<close>

record ('c, 'h) host =
  hoInvoke :: "'h \<Rightarrow> binding \<Rightarrow> 'c option \<Rightarrow> 'c option \<Rightarrow> 64 word \<Rightarrow> stream_outcome option \<times> 'h"
  hoStep :: "('h \<Rightarrow> binding \<Rightarrow> 'c option \<Rightarrow> 'c option \<Rightarrow> 'c option \<Rightarrow> bool
    \<Rightarrow> step_outcome option \<times> 'h) option"

text \<open>The state of a run: the trace and the state of the host.\<close>

record 'h run_state =
  rsTrace :: "string list"
  rsHost :: 'h

type_synonym ('a, 'h) running = "'h run_state \<Rightarrow> ('a \<times> 'h run_state) res"

section \<open>Normalization\<close>

definition normalize :: "'c stream_value \<Rightarrow> 'c stream_value" where
  "normalize v =
     (if svType v = StreamStep then
        (let step = svStep v;
             s = soStatus (stOutcome step);
             step = (if s > Denied \<or> (s = StatusOK \<and> (stProgress step < NeedInput \<or> stProgress step > ProgressDone))
                     then statusStep HostFailure else step);
             step = (if soStatus (stOutcome step) \<noteq> StatusOK then step\<lparr>stProgress := NoProgress\<rparr> else step)
         in v\<lparr>svStep := step\<rparr>)
      else if svType v = StreamResult \<and> soStatus (svResult v) > Denied
      then v\<lparr>svResult := statusOutcome HostFailure\<rparr>
      else if svType v = StreamStatus \<and> svStatus v > Denied then v\<lparr>svStatus := HostFailure\<rparr>
      else v)"

section \<open>Effects\<close>

definition bindingKey :: "binding \<Rightarrow> string" where
  "bindingKey b = bdPackage b @ ''/'' @ opID (bdOperation b)"

definition traced :: "binding \<Rightarrow> 'h run_state \<Rightarrow> 'h run_state" where
  "traced b st = st\<lparr>rsTrace := rsTrace st @ [bindingKey b]\<rparr>"

definition invoke ::
  "('c, 'h) host option \<Rightarrow> binding \<Rightarrow> 'c stream_value \<Rightarrow> 'c stream_value \<Rightarrow> 64 word
    \<Rightarrow> 'h run_state \<Rightarrow> stream_outcome \<times> 'h run_state"
where
  "invoke host b x y lim st =
     (if lim <s 0 \<or> \<not> svAvailable x \<or> \<not> svAvailable y then (statusOutcome InvalidArgument, st)
      else case host of
          None \<Rightarrow> (statusOutcome Denied, st)
        | Some h \<Rightarrow>
            (case hoInvoke h (rsHost st) b (svCapability x) (svCapability y) lim of
               (None, s) \<Rightarrow> (statusOutcome HostFailure, (traced b st)\<lparr>rsHost := s\<rparr>)
             | (Some out, s) \<Rightarrow>
                 (if soStatus out > Denied then statusOutcome HostFailure else out,
                  (traced b st)\<lparr>rsHost := s\<rparr>)))"

text \<open>The outcome of a step after normalization and the comparison with the extents.\<close>

definition checkedStep :: "64 word \<Rightarrow> 64 word \<Rightarrow> step_outcome \<Rightarrow> step_outcome" where
  "checkedStep inputExtent outputExtent raw =
     (let out = svStep (normalize ((typedValue StreamStep :: nat stream_value)\<lparr>svStep := raw\<rparr>)) in
      if stInputConsumed out > inputExtent \<or> stOutputWritten out > outputExtent
        \<or> stInputConsumed out > soInputBytes (stOutcome out)
        \<or> stOutputWritten out > soOutputBytes (stOutcome out)
      then statusStep HostFailure else out)"

text \<open>The recovered panic of an argument list that is too short for the last argument is a host
  failure as well.\<close>

definition invokeStep ::
  "('c, 'h) host option \<Rightarrow> binding \<Rightarrow> 'c stream_value list \<Rightarrow> (step_outcome, 'h) running"
where
  "invokeStep host b args st =
     bindR (index args 0) (\<lambda>x.
       if \<not> svAvailable x then Ret (statusStep InvalidArgument, st)
       else bindR (index args 1) (\<lambda>y.
         if \<not> svAvailable y \<and> svExtent y \<noteq> 0 then Ret (statusStep InvalidArgument, st)
         else bindR (index args 2) (\<lambda>z.
           if \<not> svAvailable z \<and> svExtent z \<noteq> 0 then Ret (statusStep InvalidArgument, st)
           else case host of
             None \<Rightarrow> Ret (statusStep Denied, st)
           | Some h \<Rightarrow>
               (case hoStep h of
                  None \<Rightarrow> Ret (statusStep Unsupported, st)
                | Some step \<Rightarrow>
                    (case drop 3 args of
                       [] \<Rightarrow> Ret (statusStep HostFailure, traced b st)
                     | final # _ \<Rightarrow>
                         (case step (rsHost st) b (svCapability x) (svCapability y) (svCapability z) (svBool final) of
                            (None, s) \<Rightarrow> Ret (statusStep HostFailure, (traced b st)\<lparr>rsHost := s\<rparr>)
                          | (Some out, s) \<Rightarrow>
                              Ret (checkedStep (svExtent y) (svExtent z) out, (traced b st)\<lparr>rsHost := s\<rparr>)))))))"

section \<open>Pure operators\<close>

text \<open>The case \<open>"field"\<close>.\<close>

definition fieldValue :: "stream_type \<Rightarrow> 'c stream_value \<Rightarrow> string \<Rightarrow> 'c stream_value" where
  "fieldValue t base member =
     (let step = svStep base;
          r = (if svType base = StreamStep then stOutcome step else svResult base);
          progressIs = (\<lambda>q. soStatus r = StatusOK \<and> stProgress step = q);
          v = typedValue t
      in if member = ''needInput'' then v\<lparr>svBool := progressIs NeedInput\<rparr>
         else if member = ''needOutput'' then v\<lparr>svBool := progressIs NeedOutput\<rparr>
         else if member = ''done'' then v\<lparr>svBool := progressIs ProgressDone\<rparr>
         else if member = ''inputConsumed'' then v\<lparr>svUint := stInputConsumed step\<rparr>
         else if member = ''outputWritten'' then v\<lparr>svUint := stOutputWritten step\<rparr>
         else if member = ''ok'' then v\<lparr>svBool := soStatus r = StatusOK\<rparr>
         else if member = ''status'' then v\<lparr>svStatus := soStatus r\<rparr>
         else if member = ''inputBytes'' then v\<lparr>svUint := soInputBytes r\<rparr>
         else if member = ''outputBytes'' then v\<lparr>svUint := soOutputBytes r\<rparr>
         else if member = ''chunks'' then v\<lparr>svUint := soChunks r\<rparr>
         else v)"

definition orderOf :: "'c stream_value \<Rightarrow> 'c stream_value \<Rightarrow> int" where
  "orderOf x y =
     (case svType x of
        StreamBool \<Rightarrow> if \<not> svBool x \<and> svBool y then -1 else if svBool x \<and> \<not> svBool y then 1 else 0
      | StreamInt \<Rightarrow> if svInt x <s svInt y then -1 else if svInt y <s svInt x then 1 else 0
      | StreamUint64 \<Rightarrow> if svUint x < svUint y then -1 else if svUint x > svUint y then 1 else 0
      | StreamStatus \<Rightarrow> if svStatus x < svStatus y then -1 else if svStatus x > svStatus y then 1 else 0
      | _ \<Rightarrow> 0)"

definition compareValues :: "string \<Rightarrow> 'c stream_value \<Rightarrow> 'c stream_value \<Rightarrow> bool" where
  "compareValues member x y =
     (let order = orderOf x y in
      if member = ''&&'' then svBool x \<and> svBool y
      else if member = ''||'' then svBool x \<or> svBool y
      else if member = ''=='' then order = 0
      else if member = ''!='' then order \<noteq> 0
      else if member = ''<'' then order < 0
      else if member = ''<='' then order \<le> 0
      else if member = ''>'' then order > 0
      else if member = ''>='' then order \<ge> 0
      else False)"

section \<open>Expressions and statements\<close>

text \<open>
  \<open>call\<close> runs a function of the program; an operand that is nil or missing panics.
  \<open>evalOperand args i\<close> is the closure \<open>arg(i)\<close>.
\<close>

function (sequential) evalStreamExpr ::
  "(int \<Rightarrow> 'c stream_value list \<Rightarrow> ('c stream_value, 'h) running) \<Rightarrow> ('c, 'h) host option
    \<Rightarrow> stream_program \<Rightarrow> (int \<Rightarrow> 'c stream_value) \<Rightarrow> stream_expr option
    \<Rightarrow> ('c stream_value, 'h) running"
  and evalArguments ::
  "(int \<Rightarrow> 'c stream_value list \<Rightarrow> ('c stream_value, 'h) running) \<Rightarrow> ('c, 'h) host option
    \<Rightarrow> stream_program \<Rightarrow> (int \<Rightarrow> 'c stream_value) \<Rightarrow> stream_expr option list
    \<Rightarrow> ('c stream_value list, 'h) running"
  and evalOperand ::
  "(int \<Rightarrow> 'c stream_value list \<Rightarrow> ('c stream_value, 'h) running) \<Rightarrow> ('c, 'h) host option
    \<Rightarrow> stream_program \<Rightarrow> (int \<Rightarrow> 'c stream_value) \<Rightarrow> stream_expr option list \<Rightarrow> nat
    \<Rightarrow> ('c stream_value, 'h) running"
where
  "evalStreamExpr call host p env None st = Panic"
| "evalStreamExpr call host p env (Some (StreamExpr kind typ slot target args member i u b status)) st =
     (case kind of
        KindVariable \<Rightarrow> Ret (env slot, st)
      | KindInt \<Rightarrow> Ret ((typedValue typ)\<lparr>svInt := i\<rparr>, st)
      | KindUint64 \<Rightarrow> Ret ((typedValue typ)\<lparr>svUint := u\<rparr>, st)
      | KindBool \<Rightarrow> Ret ((typedValue typ)\<lparr>svBool := b\<rparr>, st)
      | KindStatus \<Rightarrow> Ret ((typedValue typ)\<lparr>svStatus := status\<rparr>, st)
      | KindNot \<Rightarrow> bindR (evalOperand call host p env args 0 st) (\<lambda>(x, st).
          Ret ((typedValue typ)\<lparr>svBool := \<not> svBool x\<rparr>, st))
      | KindConditional \<Rightarrow> bindR (evalOperand call host p env args 0 st) (\<lambda>(x, st).
          evalOperand call host p env args (if svBool x then 1 else 2) st)
      | KindField \<Rightarrow> bindR (evalOperand call host p env args 0 st) (\<lambda>(x, st).
          Ret (fieldValue typ x member, st))
      | KindHelper \<Rightarrow> bindR (evalArguments call host p env args st) (\<lambda>(xs, st). call target xs st)
      | KindNative \<Rightarrow> bindR (evalArguments call host p env args st) (\<lambda>(xs, st).
          bindR (index (spBindings p) target) (\<lambda>bd.
            if typ = StreamStep then bindR (invokeStep host bd xs st) (\<lambda>(out, st).
              Ret ((typedValue typ)\<lparr>svStep := out\<rparr>, st))
            else bindR (index xs 0) (\<lambda>x. bindR (index xs 1) (\<lambda>y. bindR (index xs 2) (\<lambda>z.
              let (out, st) = invoke host bd x y (svInt z) st in
              Ret ((typedValue typ)\<lparr>svResult := out\<rparr>, st))))))
      | KindBinary \<Rightarrow> bindR (evalOperand call host p env args 0 st) (\<lambda>(x, st).
          if member = ''&&'' \<and> \<not> svBool x then Ret ((typedValue typ)\<lparr>svBool := False\<rparr>, st)
          else if member = ''||'' \<and> svBool x then Ret ((typedValue typ)\<lparr>svBool := True\<rparr>, st)
          else bindR (evalOperand call host p env args 1 st) (\<lambda>(y, st).
            Ret ((typedValue typ)\<lparr>svBool := compareValues member x y\<rparr>, st)))
      | OtherKind k \<Rightarrow> Ret (typedValue typ, st))"
| "evalArguments call host p env [] st = Ret ([], st)"
| "evalArguments call host p env (x # xs) st =
     bindR (evalStreamExpr call host p env x st) (\<lambda>(v, st).
       bindR (evalArguments call host p env xs st) (\<lambda>(vs, st). Ret (v # vs, st)))"
| "evalOperand call host p env [] i st = Panic"
| "evalOperand call host p env (x # xs) 0 st = evalStreamExpr call host p env x st"
| "evalOperand call host p env (x # xs) (Suc i) st = evalOperand call host p env xs i st"
  by pat_completeness auto
termination
  by (relation "measure (\<lambda>x. case x of
       Inl (_, _, _, _, e, _) \<Rightarrow> size_option size e
     | Inr (Inl (_, _, _, _, es, _)) \<Rightarrow> size_list (size_option size) es
     | Inr (Inr (_, _, _, _, es, _, _)) \<Rightarrow> size_list (size_option size) es)") auto

declare evalStreamExpr.simps [simp del] evalArguments.simps [simp del] evalOperand.simps [simp del]

text \<open>A block runs in its own copy of the environment; \<open>Some v\<close> says that it has returned \<open>v\<close>.\<close>

function (sequential) evalStreamBlock ::
  "((int \<Rightarrow> 'c stream_value) \<Rightarrow> stream_expr option \<Rightarrow> ('c stream_value, 'h) running)
    \<Rightarrow> (int \<Rightarrow> 'c stream_value) \<Rightarrow> stream_stmt list \<Rightarrow> ('c stream_value option, 'h) running"
where
  "evalStreamBlock ev env [] st = Ret (None, st)"
| "evalStreamBlock ev env (StreamStmt kind slot typ v th el # ss) st =
     (case kind of
        KindLocal \<Rightarrow> bindR (ev env v st) (\<lambda>(x, st). evalStreamBlock ev (env(slot := x)) ss st)
      | KindReturn \<Rightarrow> bindR (ev env v st) (\<lambda>(x, st). Ret (Some x, st))
      | KindIf \<Rightarrow> bindR (ev env v st) (\<lambda>(x, st).
          bindR (evalStreamBlock ev env (if svBool x then th else el) st) (\<lambda>(out, st).
            case out of None \<Rightarrow> evalStreamBlock ev env ss st | Some y \<Rightarrow> Ret (Some y, st)))
      | KindBlock \<Rightarrow> bindR (evalStreamBlock ev env th st) (\<lambda>(out, st).
          case out of None \<Rightarrow> evalStreamBlock ev env ss st | Some y \<Rightarrow> Ret (Some y, st))
      | OtherStatement k \<Rightarrow> evalStreamBlock ev env ss st)"
  by pat_completeness auto
termination
  by (relation "measure (\<lambda>(_, _, ss, _). size_list size ss)") (auto split: if_splits)

declare evalStreamBlock.simps [simp del]

section \<open>Functions\<close>

text \<open>
  \<open>function\<close>: the arguments are normalized and bound to the first slots; the value of a block
  that does not return is \<open>Value\{\}\<close>. Fuel bounds the depth of the calls, which the source does
  not bound by itself.
\<close>

definition argumentScope :: "'c stream_value list \<Rightarrow> int \<Rightarrow> 'c stream_value" where
  "argumentScope vs i =
     (if 0 \<le> i \<and> i < int (length vs) then normalize (vs ! nat i) else typedValue NoStreamType)"

fun evalFunction ::
  "nat \<Rightarrow> ('c, 'h) host option \<Rightarrow> stream_program \<Rightarrow> int \<Rightarrow> 'c stream_value list
    \<Rightarrow> ('c stream_value, 'h) running"
where
  "evalFunction 0 host p target vs st = Timeout"
| "evalFunction (Suc n) host p target vs st =
     bindR (index (spFunctions p) target) (\<lambda>f.
       bindR (evalStreamBlock (evalStreamExpr (evalFunction n host p) host p) (argumentScope vs) (bodyOf f) st)
         (\<lambda>(out, st). Ret (case out of None \<Rightarrow> typedValue NoStreamType | Some v \<Rightarrow> v, st)))"

text \<open>The index of the public function with the given names, as the loop of \<open>Evaluate\<close> finds it.\<close>

fun findEntry :: "string \<Rightarrow> string \<Rightarrow> int \<Rightarrow> stream_function list \<Rightarrow> (int \<times> stream_function) option" where
  "findEntry cls name i [] = None"
| "findEntry cls name i (f # fs) =
     (if sfClass f = cls \<and> sfName f = name \<and> sfPublic f then Some (i, f)
      else findEntry cls name (i + 1) fs)"

definition EvaluateStream ::
  "nat \<Rightarrow> stream_program \<Rightarrow> string \<Rightarrow> string \<Rightarrow> 'c stream_value list \<Rightarrow> ('c, 'h) host option \<Rightarrow> 'h
    \<Rightarrow> ('c stream_value \<times> 'h run_state) res"
where
  "EvaluateStream fuel p cls name vs host s =
     andThen (Validate p)
     (andThen (rejectIf (spProfile p \<noteq> CompositionProfile \<and> spProfile p \<noteq> IncrementalProfile)
         ''reference evaluator requires stream v2 or v3'')
     (case findEntry cls name 0 (spFunctions p) of
        None \<Rightarrow> Err ''unknown public stream entry''
      | Some (i, f) \<Rightarrow>
          andThen (rejectIf (length vs \<noteq> length (sfParameters f)) ''entry argument count'')
          (andThen (rejectIf (map svType vs \<noteq> sfParameters f) ''entry argument type'')
            (evalFunction fuel host p i vs \<lparr>rsTrace = [], rsHost = s\<rparr>))))"

end
