(* ===== verification/StreamSafety.thy ===== *)
theory StreamSafety
  imports StreamEval
begin

text \<open>
  Validated stream programs run: every function returns a value of its declared type whose
  statuses and progress are within their ranges, within the call depth that the validator
  admits, and the number of effects on the way is at most the expanded cost of the function.
\<close>

section \<open>Normalized values\<close>

definition normalStep :: "step_outcome \<Rightarrow> bool" where
  "normalStep s \<longleftrightarrow> soStatus (stOutcome s) \<le> Denied
     \<and> (if soStatus (stOutcome s) = StatusOK then NeedInput \<le> stProgress s \<and> stProgress s \<le> ProgressDone
        else stProgress s = NoProgress)"

definition normal :: "'c stream_value \<Rightarrow> bool" where
  "normal v \<longleftrightarrow>
     (svType v = StreamStep \<longrightarrow> normalStep (svStep v))
     \<and> (svType v = StreamResult \<longrightarrow> soStatus (svResult v) \<le> Denied)
     \<and> (svType v = StreamStatus \<longrightarrow> svStatus v \<le> Denied)"

definition good :: "stream_type \<Rightarrow> 'c stream_value \<Rightarrow> bool" where
  "good t v \<longleftrightarrow> svType v = t \<and> normal v"

lemma normalize_type [simp]: "svType (normalize v) = svType v"
  by (simp add: normalize_def Let_def)

lemma typedValue_simps [simp]:
  "svType (typedValue t) = t" "svStatus (typedValue t) = 0" "soStatus (svResult (typedValue t)) = 0"
  by (simp_all add: typedValue_def statusOutcome_def)

lemma statusStep_normal: "s \<noteq> StatusOK \<Longrightarrow> s \<le> Denied \<Longrightarrow> normalStep (statusStep s)"
  by (simp add: normalStep_def statusStep_def statusOutcome_def NoProgress_def)

lemma one_le_word: "(1 :: 32 word) \<le> x \<longleftrightarrow> x \<noteq> 0"
  by (metis word_coorder.not_eq_extremum word_less_1 not_less)

lemma normalize_normal: "normal (normalize v)"
  by (auto simp: normal_def normalize_def normalStep_def Let_def statusStep_def statusOutcome_def
      status_defs not_less one_le_word)

lemma normalize_id:
  assumes "normal v"
  shows "normalize v = v"
proof (cases "svType v = StreamStep")
  case True
  then have n: "normalStep (svStep v)" using assms by (simp add: normal_def)
  have "(svStep v)\<lparr>stProgress := NoProgress\<rparr> = svStep v" if "stProgress (svStep v) = NoProgress"
    using that by (cases "svStep v") simp
  then show ?thesis using n True by (cases v) (auto simp: normalize_def normalStep_def Let_def not_less)
next
  case False
  then show ?thesis using assms by (auto simp: normal_def normalize_def not_less)
qed

lemma checkedStep_normal: "normalStep (checkedStep m n raw)"
proof -
  have "normalStep (svStep (normalize ((typedValue StreamStep :: nat stream_value)\<lparr>svStep := raw\<rparr>)))"
    using normalize_normal [of "(typedValue StreamStep :: nat stream_value)\<lparr>svStep := raw\<rparr>"]
    by (simp add: normal_def)
  then show ?thesis
    by (auto simp: checkedStep_def Let_def intro!: statusStep_normal) (simp_all add: status_defs)
qed

section \<open>Runs with a bounded trace\<close>

definition emits :: "nat \<Rightarrow> string set \<Rightarrow> ('a, 'h) running \<Rightarrow> ('a \<Rightarrow> bool) \<Rightarrow> bool" where
  "emits n keys m Q \<longleftrightarrow>
     (\<forall>rs. \<exists>a rs' tr. m rs = Ret (a, rs') \<and> rsTrace rs' = rsTrace rs @ tr \<and> length tr \<le> n
        \<and> set tr \<subseteq> keys \<and> Q a)"

lemma emitsE:
  assumes "emits n keys m Q"
  obtains a rs' tr where "m rs = Ret (a, rs')" "rsTrace rs' = rsTrace rs @ tr" "length tr \<le> n"
    "set tr \<subseteq> keys" "Q a"
  using assms unfolding emits_def by blast

lemma emits_Ret: "Q a \<Longrightarrow> emits n keys (\<lambda>rs. Ret (a, rs)) Q"
  by (auto simp: emits_def)

lemma emits_bind:
  assumes "emits m keys f Q" "\<And>a. Q a \<Longrightarrow> emits n keys (k a) R" "m + n \<le> b"
  shows "emits b keys (\<lambda>rs. bindR (f rs) (\<lambda>(a, rs). k a rs)) R"
  unfolding emits_def
proof
  fix rs
  from assms(1) obtain a rs1 tr1 where 1: "f rs = Ret (a, rs1)" "rsTrace rs1 = rsTrace rs @ tr1"
      "length tr1 \<le> m" "set tr1 \<subseteq> keys" "Q a" by (rule emitsE)
  from assms(2) [OF 1(5)] obtain c rs2 tr2 where 2: "k a rs1 = Ret (c, rs2)"
      "rsTrace rs2 = rsTrace rs1 @ tr2" "length tr2 \<le> n" "set tr2 \<subseteq> keys" "R c" by (rule emitsE)
  show "\<exists>a rs' tr. bindR (f rs) (\<lambda>(a, rs). k a rs) = Ret (a, rs') \<and> rsTrace rs' = rsTrace rs @ tr
      \<and> length tr \<le> b \<and> set tr \<subseteq> keys \<and> R a"
    using 1 2 assms(3) by (intro exI [of _ c] exI [of _ rs2] exI [of _ "tr1 @ tr2"]) auto
qed

lemma emits_mono: "emits m keys f Q \<Longrightarrow> m \<le> n \<Longrightarrow> (\<And>a. Q a \<Longrightarrow> R a) \<Longrightarrow> emits n keys f R"
  unfolding emits_def by (meson le_trans)

lemma emits_bindR: "r = Ret a \<Longrightarrow> emits n keys (k a) R \<Longrightarrow> emits n keys (\<lambda>rs. bindR r (\<lambda>a. k a rs)) R"
  by simp

section \<open>Effects\<close>

text \<open>What the trace may hold: nothing without a host, otherwise keys of the bindings.\<close>

definition effects :: "('c, 'h) host option \<Rightarrow> stream_program \<Rightarrow> string set" where
  "effects host p = (case host of None \<Rightarrow> {} | Some _ \<Rightarrow> bindingKey ` set (spBindings p))"

lemma invoke_emits:
  assumes "b \<in> set (spBindings p)"
  shows "emits 1 (effects host p) (\<lambda>rs. Ret (invoke host b x y lim rs)) (\<lambda>out. soStatus out \<le> Denied)"
  using assms unfolding emits_def
  by (auto simp: invoke_def effects_def traced_def statusOutcome_def status_defs not_less
      split: option.splits prod.splits if_splits)

lemma invokeStep_emits:
  assumes "b \<in> set (spBindings p)" "length args = 4"
  shows "emits 1 (effects host p) (invokeStep host b args) normalStep"
proof -
  obtain w x y z where "args = [w, x, y, z]" using assms(2) by (auto simp: numeral_eq_Suc length_Suc_conv)
  moreover have "normalStep (statusStep InvalidArgument)" "normalStep (statusStep Denied)"
      "normalStep (statusStep Unsupported)" "normalStep (statusStep HostFailure)"
    by (rule statusStep_normal; simp add: status_defs)+
  ultimately show ?thesis
    using assms(1) checkedStep_normal unfolding emits_def
    by (auto simp: invokeStep_def effects_def traced_def index_def split: option.splits prod.splits)
qed

lemma fieldValue_type: "svType (fieldValue u x member) = u"
  by (simp add: fieldValue_def Let_def)

lemma fieldValue_good:
  assumes "good t x" "t = StreamResult \<or> t = StreamStep"
  shows "good (ResultMemberType t member) (fieldValue (ResultMemberType t member) x member)"
proof -
  have u: "ResultMemberType t member \<noteq> StreamResult \<and> ResultMemberType t member \<noteq> StreamStep"
    by (simp add: ResultMemberType_def MemberType_def)
  have "svStatus (fieldValue StreamStatus x member) \<le> Denied" if "ResultMemberType t member = StreamStatus"
  proof -
    have "member = ''status''" using that by (auto simp: ResultMemberType_def MemberType_def split: if_splits)
    then show ?thesis
      using assms by (auto simp: fieldValue_def Let_def good_def normal_def normalStep_def)
  qed
  with u show ?thesis by (auto simp: good_def normal_def fieldValue_type)
qed

end
