(* ===== verification/StreamRun.thy ===== *)
theory StreamRun
  imports StreamSafety
begin

text \<open>
  The validator of compositions bounds the evaluator: checking an expression or a block spends
  nodes and records calls, and evaluating it emits at most as many effects as nodes were spent
  and the calls are worth.
\<close>

section \<open>What checking spends\<close>

definition extends :: "check_state \<Rightarrow> check_state \<Rightarrow> bool" where
  "extends st st' \<longleftrightarrow> ckNodes st \<le> ckNodes st' \<and> (ckNodes st \<le> 8192 \<longrightarrow> ckNodes st' \<le> 8192)
     \<and> (\<exists>ts. ckCalls st' = ckCalls st @ ts)"

definition gain :: "(nat \<Rightarrow> nat) \<Rightarrow> check_state \<Rightarrow> check_state \<Rightarrow> nat" where
  "gain C st st' = (ckNodes st' - ckNodes st) + sum_list (map C (drop (length (ckCalls st)) (ckCalls st')))"

lemma extends_refl [simp]: "extends st st"
  by (simp add: extends_def)

lemma extends_trans: "extends a b \<Longrightarrow> extends b c \<Longrightarrow> extends a c"
  by (auto simp: extends_def)

lemma gain_refl [simp]: "gain C st st = 0"
  by (simp add: gain_def)

lemma gain_trans: "extends a b \<Longrightarrow> extends b c \<Longrightarrow> gain C a c = gain C a b + gain C b c"
  by (auto simp: extends_def gain_def)

lemma extends_calls: "extends a b \<Longrightarrow> set (ckCalls a) \<subseteq> set (ckCalls b)"
  by (auto simp: extends_def)

lemma countNode_extends:
  "countNode d st = Ret st' \<Longrightarrow> extends st st' \<and> gain C st st' = 1 \<and> ckCalls st' = ckCalls st"
  by (auto simp: countNode_def extends_def gain_def split: if_splits)

lemma addCall_extends:
  "extends st (st\<lparr>ckCalls := ckCalls st @ [i]\<rparr>) \<and> gain C st (st\<lparr>ckCalls := ckCalls st @ [i]\<rparr>) = C i"
  by (simp add: extends_def gain_def)

lemma slots_irrelevant [simp]:
  "extends (st\<lparr>ckSlots := xs\<rparr>) st' \<longleftrightarrow> extends st st'" "gain C (st\<lparr>ckSlots := xs\<rparr>) st' = gain C st st'"
  by (simp_all add: extends_def gain_def)

lemma checked_tail:
  "(if b then Err m else bindR X (\<lambda>(i, st). if i = NoStreamType \<or> ty \<noteq> i then Err e else Ret (i, st))) = Ret (t, st')
     \<Longrightarrow> \<not> b \<and> ty = t \<and> t \<noteq> NoStreamType"
  by (auto split: if_splits)

lemma checkExpr_node:
  assumes "checkExpr p f env d (Some (StreamExpr kind ty slot target args member i u b status)) st = Ret (t, st')"
  obtains s where "countNode d st = Ret s" "length args \<le> 16" "ty = t" "t \<noteq> NoStreamType"
proof -
  from assms obtain s where s: "countNode d st = Ret s"
    unfolding checkExpr.simps bindR_eq_Ret [of "countNode d st"] by blast
  note rest = checked_tail [OF assms [unfolded checkExpr.simps s bindR.simps(1) [of s]]]
  show thesis by (rule that [OF s]) (use rest in auto)
qed

lemma checkExpr_extends:
  "checkExpr p f env d x st = Ret (t, st') \<Longrightarrow> extends st st'"
  "checkArguments p f env d ps xs st = Ret st' \<Longrightarrow> extends st st'"
  "checkTypes p f env d xs st = Ret (ts, st') \<Longrightarrow> extends st st' \<and> length ts = length xs"
proof (induction p f env d x st and p f env d ps xs st and p f env d xs st
    arbitrary: t st' and st' and ts st' rule: checkExpr_checkArguments_checkTypes.induct)
  case (2 p f env depth kind ty slot target args member i u b status st)
  from checkExpr_node [OF 2(7)] obtain s where s: "countNode depth st = Ret s" "length args \<le> 16" .
  have "extends s st'"
    using 2 s by (cases kind)
      (auto simp: checkExpr.simps Let_def split: if_splits intro: extends_trans [OF addCall_extends [THEN conjunct1]])
  with countNode_extends [OF s(1)] show ?case using extends_trans by blast
next
  case (3 p f env d t' ts' x xs st)
  then show ?case
    by (auto simp: checkArguments.simps split: if_splits intro: extends_trans)
next
  case (6 p f env d x xs st)
  then show ?case
    by (fastforce simp: checkTypes.simps intro: extends_trans)
qed (auto simp: checkExpr.simps checkArguments.simps checkTypes.simps)

section \<open>Expressions\<close>

definition contract ::
  "(nat \<Rightarrow> nat) \<Rightarrow> string set \<Rightarrow> stream_program
    \<Rightarrow> (int \<Rightarrow> 'c stream_value list \<Rightarrow> ('c stream_value, 'h) running) \<Rightarrow> nat \<Rightarrow> bool"
where
  "contract C keys p call i \<longleftrightarrow>
     (\<forall>vs. map svType vs = sfParameters (spFunctions p ! i) \<longrightarrow>
        emits (C i) keys (call (int i) vs) (good (sfReturnType (spFunctions p ! i))))"

definition scopeOK :: "(int \<Rightarrow> stream_type) \<Rightarrow> (int \<Rightarrow> 'c stream_value) \<Rightarrow> bool" where
  "scopeOK env venv \<longleftrightarrow> (\<forall>k. env k \<noteq> NoStreamType \<longrightarrow> good (env k) (venv k))"

text \<open>The operands of the kinds that use \<open>arg(i)\<close>, each with its share of the effects.\<close>

definition operandsOK ::
  "nat \<Rightarrow> string set \<Rightarrow> (nat \<Rightarrow> ('c stream_value, 'h) running) \<Rightarrow> stream_type list \<Rightarrow> bool"
where
  "operandsOK n keys arg ts \<longleftrightarrow>
     (\<exists>bs. length bs = length ts \<and> sum_list bs \<le> n
        \<and> (\<forall>i < length ts. emits (bs ! i) keys (arg i) (good (ts ! i))))"

lemma good_scalar:
  "svType v = t \<Longrightarrow> t \<in> {StreamInt, StreamBool, StreamUint64} \<Longrightarrow> good t v"
  by (auto simp: good_def normal_def)

lemma operandsOK_one:
  "operandsOK n keys arg [t] \<Longrightarrow> emits n keys (arg 0) (good t)"
  by (auto simp: operandsOK_def length_Suc_conv intro: emits_mono)

lemma operandsOK_two:
  assumes "operandsOK n keys arg [t, u]"
  obtains l m where "l + m \<le> n" "emits l keys (arg 0) (good t)" "emits m keys (arg 1) (good u)"
proof -
  from assms obtain bs where bs: "length bs = 2" "sum_list bs \<le> n"
      "\<forall>i < 2. emits (bs ! i) keys (arg i) (good ([t, u] ! i))"
    by (auto simp: operandsOK_def numeral_eq_Suc)
  then show thesis using that [of "bs ! 0" "bs ! 1"]
    by (auto simp: numeral_eq_Suc length_Suc_conv All_less_Suc)
qed

lemma operandsOK_three:
  assumes "operandsOK n keys arg [t, u, w]"
  obtains l m where "l + m \<le> n" "emits l keys (arg 0) (good t)" "emits m keys (arg 1) (good u)"
    "emits m keys (arg 2) (good w)"
proof -
  from assms obtain bs where bs: "length bs = 3" "sum_list bs \<le> n"
      "\<forall>i < 3. emits (bs ! i) keys (arg i) (good ([t, u, w] ! i))"
    by (auto simp: operandsOK_def numeral_eq_Suc)
  then obtain x y z where "bs = [x, y, z]" by (auto simp: numeral_eq_Suc length_Suc_conv)
  with bs show thesis
    using that [of x "y + z"] emits_mono [of y keys "arg 1" _ "y + z"] emits_mono [of z keys "arg 2" _ "y + z"]
    by (auto simp: numeral_eq_Suc All_less_Suc)
qed

lemma operandsOK_Cons:
  assumes "emits m keys (evalStreamExpr call host p venv x) (good t)"
    "operandsOK n keys (evalOperand call host p venv xs) ts"
  shows "operandsOK (m + n) keys (evalOperand call host p venv (x # xs)) (t # ts)"
proof -
  from assms(2) obtain bs where bs: "length bs = length ts" "sum_list bs \<le> n"
      "\<forall>i < length ts. emits (bs ! i) keys (evalOperand call host p venv xs i) (good (ts ! i))"
    by (auto simp: operandsOK_def)
  have "emits ((m # bs) ! i) keys (evalOperand call host p venv (x # xs) i) (good ((t # ts) ! i))"
    if "i < length (t # ts)" for i
    using that assms(1) bs(3) by (cases i) (auto simp: evalOperand.simps [abs_def] emits_def)
  with bs show ?thesis unfolding operandsOK_def by (intro exI [of _ "m # bs"]) auto
qed

lemma emits_if:
  "emits n keys f Q \<Longrightarrow> emits n keys g Q \<Longrightarrow> emits n keys (\<lambda>rs. if b then f rs else g rs) Q"
  by (cases b) simp_all

lemma operator_emits:
  assumes "operandsOK n keys arg [t, u]" "t = u" "binaryOperands member t"
  shows "emits n keys (\<lambda>rs. bindR (arg 0 rs) (\<lambda>(x, rs).
      if member = ''&&'' \<and> \<not> svBool x then Ret ((typedValue StreamBool)\<lparr>svBool := False\<rparr>, rs)
      else if member = ''||'' \<and> svBool x then Ret ((typedValue StreamBool)\<lparr>svBool := True\<rparr>, rs)
      else bindR (arg 1 rs) (\<lambda>(y, rs).
        Ret ((typedValue StreamBool)\<lparr>svBool := compareValues member x y\<rparr>, rs)))) (good StreamBool)"
proof -
  from operandsOK_two [OF assms(1)] obtain l m where lm: "l + m \<le> n" "emits l keys (arg 0) (good t)"
      "emits m keys (arg 1) (good u)" .
  have g: "good StreamBool ((typedValue StreamBool)\<lparr>svBool := b\<rparr>)" for b by (rule good_scalar) simp_all
  have k: "emits m keys (\<lambda>rs. if member = ''&&'' \<and> \<not> svBool x then Ret ((typedValue StreamBool)\<lparr>svBool := False\<rparr>, rs)
      else if member = ''||'' \<and> svBool x then Ret ((typedValue StreamBool)\<lparr>svBool := True\<rparr>, rs)
      else bindR (arg 1 rs) (\<lambda>(y, rs).
        Ret ((typedValue StreamBool)\<lparr>svBool := compareValues member x y\<rparr>, rs))) (good StreamBool)" for x
  proof -
    have "emits m keys (\<lambda>rs. bindR (arg 1 rs) (\<lambda>(y, rs).
        Ret ((typedValue StreamBool)\<lparr>svBool := compareValues member x y\<rparr>, rs))) (good StreamBool)"
      by (rule emits_bind [OF lm(3) emits_Ret [of _ _ 0]]) (simp_all add: g)
    then show ?thesis by (intro emits_if emits_Ret g)
  qed
  show ?thesis by (rule emits_bind [OF lm(2) k lm(1)])
qed

lemma conditional_emits:
  assumes "operandsOK n keys arg [t, u, w]" "u = w"
  shows "emits n keys (\<lambda>rs. bindR (arg 0 rs) (\<lambda>(x, rs). arg (if svBool x then 1 else 2) rs)) (good u)"
proof -
  from operandsOK_three [OF assms(1)] obtain l m where lm: "l + m \<le> n" "emits l keys (arg 0) (good t)"
      "emits m keys (arg 1) (good u)" "emits m keys (arg 2) (good w)" .
  have "emits m keys (arg (if svBool x then 1 else 2)) (good u)" for x
    using lm(3,4) assms(2) by simp
  then show ?thesis by (intro emits_bind [OF lm(2) _ lm(1)])
qed

lemma one_operand_emits:
  assumes "operandsOK n keys arg [t]" "\<And>x. good t x \<Longrightarrow> good u (g x)"
  shows "emits n keys (\<lambda>rs. bindR (arg 0 rs) (\<lambda>(x, rs). Ret (g x, rs))) (good u)"
  by (rule emits_bind [OF operandsOK_one [OF assms(1)] emits_Ret [of _ _ 0]]) (simp_all add: assms(2))

lemma native_emits:
  fixes host :: "('c, 'h) host option"
  assumes a: "emits n (effects host p) (evalArguments call host p venv args)
      (list_all2 good (fst (NativeSignature (spProfile p))))"
    and b: "0 \<le> target" "target < int (length (spBindings p))"
    and t: "ty = snd (NativeSignature (spProfile p))"
  shows "emits (1 + n) (effects host p) (\<lambda>rs. bindR (evalArguments call host p venv args rs) (\<lambda>(xs, rs).
      bindR (index (spBindings p) target) (\<lambda>bd.
        if ty = StreamStep then bindR (invokeStep host bd xs rs) (\<lambda>(out, rs).
          Ret ((typedValue ty)\<lparr>svStep := out\<rparr>, rs))
        else bindR (index xs 0) (\<lambda>x. bindR (index xs 1) (\<lambda>y. bindR (index xs 2) (\<lambda>z.
          let (out, rs) = invoke host bd x y (svInt z) rs in
          Ret ((typedValue ty)\<lparr>svResult := out\<rparr>, rs))))))) (good ty)"
proof (rule emits_bind [OF a])
  fix xs :: "'c stream_value list" assume xs: "list_all2 good (fst (NativeSignature (spProfile p))) xs"
  let ?b = "spBindings p ! nat target"
  have mem: "?b \<in> set (spBindings p)" using b by auto
  show "emits 1 (effects host p) (\<lambda>rs. bindR (index (spBindings p) target) (\<lambda>bd.
        if ty = StreamStep then bindR (invokeStep host bd xs rs) (\<lambda>(out, rs).
          Ret ((typedValue ty)\<lparr>svStep := out\<rparr>, rs))
        else bindR (index xs 0) (\<lambda>x. bindR (index xs 1) (\<lambda>y. bindR (index xs 2) (\<lambda>z.
          let (out, rs) = invoke host bd x y (svInt z) rs in
          Ret ((typedValue ty)\<lparr>svResult := out\<rparr>, rs)))))) (good ty)"
  proof (cases "spProfile p = IncrementalProfile")
    case True
    then have ty: "ty = StreamStep" "length xs = 4"
      using t xs by (auto simp: NativeSignature_def dest: list_all2_lengthD)
    have "emits 1 (effects host p) (\<lambda>rs. bindR (invokeStep host ?b xs rs) (\<lambda>(out, rs).
        Ret ((typedValue ty)\<lparr>svStep := out\<rparr>, rs))) (good ty)"
      by (rule emits_bind [OF invokeStep_emits [OF mem ty(2)] emits_Ret [of _ _ 0]])
        (simp_all add: good_def normal_def ty(1))
    then show ?thesis using b ty by simp
  next
    case False
    then have ty: "ty = StreamResult" "length xs = 3"
      using t xs by (auto simp: NativeSignature_def dest: list_all2_lengthD)
    then obtain x y z where xyz: "xs = [x, y, z]" by (auto simp: numeral_eq_Suc length_Suc_conv)
    have "emits 1 (effects host p) (\<lambda>rs. bindR (Ret (invoke host ?b x y (svInt z) rs)) (\<lambda>(out, rs).
        Ret ((typedValue ty)\<lparr>svResult := out\<rparr>, rs))) (good ty)"
      by (rule emits_bind [OF invoke_emits [OF mem] emits_Ret [of _ _ 0]])
        (simp_all add: good_def normal_def ty(1))
    then show ?thesis using b ty xyz by (simp add: index_def Let_def)
  qed
qed simp

text \<open>The three walks of the checker against the three of the evaluator.\<close>

lemma emits_weaken: "emits m keys f Q \<Longrightarrow> m \<le> n \<Longrightarrow> emits n keys f Q"
  by (rule emits_mono)

lemma emits_Suc: "emits n keys f Q \<Longrightarrow> emits (Suc n) keys f Q"
  using emits_mono [of n keys f Q "Suc n" Q] by simp

lemma contract_mono:
  "\<forall>i \<in> set (ckCalls b). contract C keys p call i \<Longrightarrow> extends a b \<Longrightarrow>
     \<forall>i \<in> set (ckCalls a). contract C keys p call i"
  using extends_calls by blast

lemma operandsOK_weaken: "operandsOK m keys arg ts \<Longrightarrow> m \<le> n \<Longrightarrow> operandsOK n keys arg ts"
  unfolding operandsOK_def using le_trans by blast

lemma list_one: "length xs = 1 \<Longrightarrow> xs = [hd xs]"
  by (cases xs) simp_all

lemma list_two: "length xs = 2 \<Longrightarrow> xs = [xs ! 0, xs ! 1]"
  by (auto simp: numeral_eq_Suc length_Suc_conv)

lemma list_three: "length xs = 3 \<Longrightarrow> xs = [xs ! 0, xs ! 1, xs ! 2]"
  by (auto simp: numeral_eq_Suc length_Suc_conv)

lemma checked_emits:
  fixes host :: "('c, 'h) host option"
  assumes "scopeOK env venv"
  shows "checkExpr p f env d x st = Ret (t, st') \<Longrightarrow>
      \<forall>i \<in> set (ckCalls st'). contract C (effects host p) p call i \<Longrightarrow>
      emits (gain C st st') (effects host p) (evalStreamExpr call host p venv x) (good t)"
    "checkArguments p f env d ps xs st = Ret st' \<Longrightarrow> length ps = length xs \<Longrightarrow>
      \<forall>i \<in> set (ckCalls st'). contract C (effects host p) p call i \<Longrightarrow>
      emits (gain C st st') (effects host p) (evalArguments call host p venv xs) (list_all2 good ps)"
    "checkTypes p f env d xs st = Ret (ts, st') \<Longrightarrow>
      \<forall>i \<in> set (ckCalls st'). contract C (effects host p) p call i \<Longrightarrow>
      operandsOK (gain C st st') (effects host p) (evalOperand call host p venv xs) ts"
  using assms
proof (induction p f env d x st and p f env d ps xs st and p f env d xs st
    arbitrary: t st' and st' and ts st' rule: checkExpr_checkArguments_checkTypes.induct)
  case (1 p f env depth st)
  then show ?case by (simp add: checkExpr.simps)
next
  case (2 p f env depth kind ty slot target args member i u b status st)
  let ?keys = "effects host p"
  let ?run = "evalStreamExpr call host p venv (Some (StreamExpr kind ty slot target args member i u b status))"
  from checkExpr_node [OF 2(7)] obtain s where s: "countNode depth st = Ret s" "length args \<le> 16"
    and t: "ty = t" "t \<noteq> NoStreamType" .
  note node = countNode_extends [OF s(1)]
  note inverted = 2(7) s
  have "extends s st' \<and> emits (gain C s st' + 1) ?keys ?run (good t)"
  proof (cases kind)
    case KindNative
    with inverted have a: "checkArguments p f env (depth + 1) (fst (NativeSignature (spProfile p))) args s = Ret st'"
        "length (fst (NativeSignature (spProfile p))) = length args"
        "0 \<le> target" "target < int (length (spBindings p))" "ty = snd (NativeSignature (spProfile p))"
      by (auto simp: checkExpr.simps split: if_splits)
    have "emits (gain C s st') ?keys (evalArguments call host p venv args)
        (list_all2 good (fst (NativeSignature (spProfile p))))"
      using 2(1) [OF s(1)] s KindNative a 2(8,9) by simp
    from native_emits [OF this a(3,4), of t] show ?thesis
      using KindNative t a(5) checkExpr_extends(2) [OF a(1)] by (simp add: evalStreamExpr.simps [abs_def])
  next
    case KindHelper
    let ?g = "spFunctions p ! nat target" and ?s = "s\<lparr>ckCalls := ckCalls s @ [nat target]\<rparr>"
    from KindHelper inverted have a: "checkArguments p f env (depth + 1) (sfParameters ?g) args ?s = Ret st'"
        "length (sfParameters ?g) = length args" "0 \<le> target" "t = sfReturnType ?g"
      by (auto simp: checkExpr.simps Let_def split: if_splits)
    note ext = checkExpr_extends(2) [OF a(1)]
    have e: "emits (gain C ?s st') ?keys (evalArguments call host p venv args) (list_all2 good (sfParameters ?g))"
      using 2(2) [OF s(1)] inverted KindHelper a 2(8,9)
      by (simp add: checkExpr.simps Let_def split: if_splits)
    have "nat target \<in> set (ckCalls st')" using extends_calls [OF ext] by auto
    then have c: "contract C ?keys p call (nat target)" using 2(8) by blast
    have k: "emits (C (nat target)) ?keys (call target vs) (good t)" if "list_all2 good (sfParameters ?g) vs" for vs
    proof -
      have "map svType vs = sfParameters ?g"
        using that by (induction rule: list_all2_induct) (simp_all add: good_def)
      then show ?thesis using c a(3,4) by (simp add: contract_def)
    qed
    have "emits (gain C s st') ?keys ?run (good t)"
      using emits_bind [OF e k] gain_trans [OF addCall_extends [THEN conjunct1] ext]
        addCall_extends [of s "nat target" C] KindHelper
      by (simp add: evalStreamExpr.simps [abs_def])
    then show ?thesis using extends_trans [OF addCall_extends [THEN conjunct1] ext] emits_Suc by simp
  next
    case KindField
    with inverted obtain ts where a: "checkTypes p f env (depth + 1) args s = Ret (ts, st')" "length args = 1"
        "hd ts = StreamResult \<or> hd ts = StreamStep" "t = ResultMemberType (hd ts) member"
      by (auto simp: checkExpr.simps split: if_splits)
    note ext = checkExpr_extends(3) [OF a(1)]
    have "operandsOK (gain C s st') ?keys (evalOperand call host p venv args) [hd ts]"
      using 2(3) [OF s(1)] s KindField a 2(8,9) ext list_one [of ts] by simp
    from one_operand_emits [OF this, where g = "\<lambda>x. fieldValue (ResultMemberType (hd ts) member) x member",
        OF fieldValue_good [OF _ a(3)]] show ?thesis
      using KindField t ext a(4) emits_Suc by (simp add: evalStreamExpr.simps [abs_def])
  next
    case KindNot
    with inverted obtain ts where a: "checkTypes p f env (depth + 1) args s = Ret (ts, st')" "length args = 1"
        "hd ts = StreamBool" "t = StreamBool"
      by (auto simp: checkExpr.simps split: if_splits)
    note ext = checkExpr_extends(3) [OF a(1)]
    have o: "operandsOK (gain C s st') ?keys (evalOperand call host p venv args) [StreamBool]"
      using 2(4) [OF s(1)] s KindNot a 2(8,9) ext list_one [of ts] by simp
    have "emits (gain C s st') ?keys ?run (good StreamBool)"
      using one_operand_emits [OF o, of StreamBool "\<lambda>x. (typedValue StreamBool)\<lparr>svBool := \<not> svBool x\<rparr>"]
        KindNot t a(4) by (simp add: evalStreamExpr.simps [abs_def] good_scalar)
    then show ?thesis using ext a(4) emits_Suc by simp
  next
    case KindConditional
    with inverted obtain ts where a: "checkTypes p f env (depth + 1) args s = Ret (ts, st')" "length args = 3"
        "ts ! 1 = ts ! 2" "t = ts ! 1"
      by (auto simp: checkExpr.simps split: if_splits)
    note ext = checkExpr_extends(3) [OF a(1)]
    have "operandsOK (gain C s st') ?keys (evalOperand call host p venv args) [ts ! 0, ts ! 1, ts ! 2]"
      using 2(5) [OF s(1)] s KindConditional a 2(8,9) ext list_three [of ts] by simp
    from conditional_emits [OF this a(3)] show ?thesis
      using KindConditional ext a(4) emits_Suc by (simp add: evalStreamExpr.simps [abs_def])
  next
    case KindBinary
    with inverted obtain ts where a: "checkTypes p f env (depth + 1) args s = Ret (ts, st')" "length args = 2"
        "ts ! 0 = ts ! 1" "binaryOperands member (ts ! 0)" "t = StreamBool"
      by (auto simp: checkExpr.simps split: if_splits)
    note ext = checkExpr_extends(3) [OF a(1)]
    have "operandsOK (gain C s st') ?keys (evalOperand call host p venv args) [ts ! 0, ts ! 1]"
      using 2(6) [OF s(1)] s KindBinary a 2(8,9) ext list_two [of ts] by simp
    from operator_emits [OF this a(3,4)] show ?thesis
      using KindBinary t ext a(5) emits_Suc by (simp add: evalStreamExpr.simps [abs_def])
  next
    case (OtherKind k)
    then show ?thesis using inverted by (simp add: checkExpr.simps)
  qed (use inverted t 2(9) in \<open>auto simp: checkExpr.simps evalStreamExpr.simps [abs_def] scopeOK_def good_def
      normal_def not_less intro!: emits_Ret split: if_splits\<close>)
  with node show ?case using gain_trans [of st s st' C] by simp
next
  case (3 p f env d t' ts' x xs st)
  from 3(3) obtain s where s: "checkExpr p f env d x st = Ret (t', s)" "checkArguments p f env d ts' xs s = Ret st'"
    by (auto simp: checkArguments.simps split: if_splits)
  note ext = checkExpr_extends(1) [OF s(1)] checkExpr_extends(2) [OF s(2)]
  have 1: "emits (gain C st s) (effects host p) (evalStreamExpr call host p venv x) (good t')"
    using 3(1) [OF s(1) contract_mono [OF 3(5) ext(2)] 3(6)] .
  have 2: "emits (gain C s st') (effects host p) (evalArguments call host p venv xs) (list_all2 good ts')"
    using 3(2) [OF s(1)] s(2) 3(4-6) by simp
  show ?case
    unfolding evalArguments.simps [abs_def]
    by (rule emits_bind [OF 1, where n = "gain C s st'"], rule emits_bind [OF 2 emits_Ret [of _ _ 0]])
      (simp_all add: gain_trans [OF ext])
next
  case (5 p f env d st)
  then show ?case by (simp add: checkTypes.simps operandsOK_def)
next
  case (6 p f env d x xs st)
  from 6(3) obtain u us s where s: "checkExpr p f env d x st = Ret (u, s)" "checkTypes p f env d xs s = Ret (us, st')"
      "ts = u # us" by (auto simp: checkTypes.simps)
  note ext = checkExpr_extends(1) [OF s(1)] checkExpr_extends(3) [OF s(2)]
  have 1: "emits (gain C st s) (effects host p) (evalStreamExpr call host p venv x) (good u)"
    using 6(1) [OF s(1)] contract_mono [OF 6(4)] ext 6(5) by blast
  have 2: "operandsOK (gain C s st') (effects host p) (evalOperand call host p venv xs) us"
    using 6(2) [OF s(1)] s(2) 6(4,5) by simp
  show ?case
    using operandsOK_Cons [OF 1 2] ext gain_trans [of st s st' C] s(3) by simp
qed (auto simp: checkArguments.simps evalArguments.simps [abs_def] intro!: emits_Ret)

section \<open>Blocks\<close>

lemma checkBlock_extends:
  "checkBlock p f env d ss st = Ret (r, st') \<Longrightarrow> extends st st'"
  "checkStatements p f env d ret ss st = Ret (r, st') \<Longrightarrow> extends st st' \<and> (ret \<longrightarrow> ss = [] \<and> r)"
proof (induction p f env d ss st and p f env d ret ss st arbitrary: r st' and r st'
    rule: checkBlock_checkStatements.induct)
  case (3 p f env d ret kind slot ty v th el ss st)
  from 3(8) obtain s where s: "countNode d st = Ret s" "\<not> ret"
    by (auto simp: checkStatements.simps split: if_splits)
  note inverted = 3(8) s
  have "extends s st'"
  proof (cases kind)
    case KindLocal
    with inverted obtain s1 where r: "checkExpr p f env (d + 1) v s = Ret (ty, s1)"
        "checkStatements p f (env(slot := ty)) d False ss (s1\<lparr>ckSlots := slot # ckSlots s1\<rparr>) = Ret (r, st')"
        "\<not> (\<not> ValueTypeFor (spProfile p) ty \<or> slot < 0 \<or> slot \<ge> 256 \<or> slot \<in> set (ckSlots s)
             \<or> th \<noteq> [] \<or> el \<noteq> [])"
      by (auto simp: checkStatements.simps split: if_splits)
    have "extends s1 st'" using 3(1) s KindLocal r by (simp add: fun_upd_def)
    then show ?thesis using checkExpr_extends(1) [OF r(1)] extends_trans by blast
  next
    case KindReturn
    with inverted obtain s1 where r: "checkExpr p f env (d + 1) v s = Ret (sfReturnType f, s1)"
        "checkStatements p f env d True ss s1 = Ret (r, st')"
        "\<not> (ty \<noteq> NoStreamType \<or> slot \<noteq> 0 \<or> th \<noteq> [] \<or> el \<noteq> [])"
      by (auto simp: checkStatements.simps split: if_splits)
    have "extends s1 st'" using 3(2) s KindReturn r by simp
    then show ?thesis using checkExpr_extends(1) [OF r(1)] extends_trans by blast
  next
    case KindIf
    with inverted obtain s1 a s2 b s3 where r: "checkExpr p f env (d + 1) v s = Ret (StreamBool, s1)"
        "checkBlock p f env (d + 1) th s1 = Ret (a, s2)" "checkBlock p f env (d + 1) el s2 = Ret (b, s3)"
        "checkStatements p f env d (a \<and> b) ss s3 = Ret (r, st')" "\<not> (ty \<noteq> NoStreamType \<or> slot \<noteq> 0 \<or> th = [])"
      by (auto simp: checkStatements.simps split: if_splits)
    have "extends s1 s2" "extends s2 s3" "extends s3 st'"
      using 3(3-5) s KindIf r by simp_all
    then show ?thesis using checkExpr_extends(1) [OF r(1)] extends_trans by blast
  next
    case KindBlock
    with inverted obtain a s2 where r: "checkBlock p f env (d + 1) th s = Ret (a, s2)"
        "checkStatements p f env d a ss s2 = Ret (r, st')" "v = None" "ty = NoStreamType" "slot = 0" "el = []"
      by (auto simp: checkStatements.simps split: if_splits)
    have "extends s s2" "extends s2 st'" using 3(6,7) s KindBlock r by simp_all
    then show ?thesis using extends_trans by blast
  next
    case (OtherStatement k)
    with inverted show ?thesis by (simp add: checkStatements.simps)
  qed
  with countNode_extends [OF s(1)] show ?case using extends_trans s(2) by blast
qed (auto simp: checkBlock.simps checkStatements.simps split: if_splits)

definition outcomeOK :: "stream_function \<Rightarrow> bool \<Rightarrow> 'c stream_value option \<Rightarrow> bool" where
  "outcomeOK f r out \<longleftrightarrow> (case out of None \<Rightarrow> \<not> r | Some v \<Rightarrow> good (sfReturnType f) v)"

lemma scopeOK_update: "scopeOK env venv \<Longrightarrow> good t x \<Longrightarrow> scopeOK (env(k := t)) (venv(k := x))"
  by (simp add: scopeOK_def)

text \<open>What follows a nested block: it is skipped when the block returned.\<close>

lemma emits_rest:
  fixes b :: "('c stream_value option, 'h) running"
  assumes "emits m keys b (outcomeOK f a)"
    "\<not> a \<Longrightarrow> emits n keys (evalStreamBlock ev env ss) (outcomeOK f r)" "a \<Longrightarrow> ss = [] \<and> r"
  shows "emits (m + n) keys (\<lambda>rs. bindR (b rs) (\<lambda>(out, rs).
      case out of None \<Rightarrow> evalStreamBlock ev env ss rs | Some y \<Rightarrow> Ret (Some y, rs))) (outcomeOK f r)"
proof (rule emits_bind [OF assms(1), where n = n])
  fix out :: "'c stream_value option" assume o: "outcomeOK f a out"
  show "emits n keys (\<lambda>rs. case out of None \<Rightarrow> evalStreamBlock ev env ss rs | Some y \<Rightarrow> Ret (Some y, rs))
      (outcomeOK f r)"
    using o assms(2) by (cases out) (auto simp: outcomeOK_def intro: emits_Ret)
qed simp

lemma checkBlock_emits:
  fixes host :: "('c, 'h) host option"
  shows "checkBlock p f env d ss st = Ret (r, st') \<Longrightarrow> scopeOK env venv \<Longrightarrow>
      \<forall>i \<in> set (ckCalls st'). contract C (effects host p) p call i \<Longrightarrow>
      emits (gain C st st') (effects host p)
        (evalStreamBlock (evalStreamExpr call host p) venv ss) (outcomeOK f r)"
    "checkStatements p f env d ret ss st = Ret (r, st') \<Longrightarrow> \<not> ret \<Longrightarrow> scopeOK env venv \<Longrightarrow>
      \<forall>i \<in> set (ckCalls st'). contract C (effects host p) p call i \<Longrightarrow>
      emits (gain C st st') (effects host p)
        (evalStreamBlock (evalStreamExpr call host p) venv ss) (outcomeOK f r)"
proof (induction p f env d ss st and p f env d ret ss st arbitrary: r st' venv and r st' venv
    rule: checkBlock_checkStatements.induct)
  case (3 p f env d ret kind slot ty v th el ss st)
  let ?keys = "effects host p" and ?ev = "evalStreamExpr call host p"
  let ?run = "evalStreamBlock ?ev venv (StreamStmt kind slot ty v th el # ss)"
  from 3(8,9) obtain s where s: "countNode d st = Ret s" "\<not> ret"
    by (auto simp: checkStatements.simps split: if_splits)
  note node = countNode_extends [OF s(1)]
  note inverted = 3(8) s
  note scope = 3(10) and calls = 3(11)
  have "extends s st' \<and> emits (gain C s st') ?keys ?run (outcomeOK f r)"
  proof (cases kind)
    case KindLocal
    with inverted obtain s1 where r: "checkExpr p f env (d + 1) v s = Ret (ty, s1)"
        "checkStatements p f (env(slot := ty)) d False ss (s1\<lparr>ckSlots := slot # ckSlots s1\<rparr>) = Ret (r, st')"
        "\<not> (\<not> ValueTypeFor (spProfile p) ty \<or> slot < 0 \<or> slot \<ge> 256 \<or> slot \<in> set (ckSlots s)
             \<or> th \<noteq> [] \<or> el \<noteq> [])"
      by (auto simp: checkStatements.simps split: if_splits)
    have ext: "extends s s1" "extends s1 st'"
      using checkExpr_extends(1) [OF r(1)] checkBlock_extends(2) [OF r(2)] by simp_all
    have 1: "emits (gain C s s1) ?keys (?ev venv v) (good ty)"
      by (rule checked_emits(1) [OF scope r(1) contract_mono [OF calls ext(2)]])
    have 2: "emits (gain C s1 st') ?keys (evalStreamBlock ?ev (venv(slot := x)) ss) (outcomeOK f r)"
      if "good ty x" for x
      using 3(1) s KindLocal r scopeOK_update [OF scope that, of slot] calls by (simp add: fun_upd_def)
    show ?thesis
      using emits_bind [OF 1 2, where b = "gain C s st'"] gain_trans [OF ext] extends_trans [OF ext] KindLocal
      by (simp add: evalStreamBlock.simps [abs_def])
  next
    case KindReturn
    with inverted obtain s1 where r: "checkExpr p f env (d + 1) v s = Ret (sfReturnType f, s1)"
        "checkStatements p f env d True ss s1 = Ret (r, st')"
      by (auto simp: checkStatements.simps split: if_splits)
    have e: "ss = []" "r" "st' = s1"
      using checkBlock_extends(2) [OF r(2)] r(2) by (auto simp: checkStatements.simps)
    have 1: "emits (gain C s s1) ?keys (?ev venv v) (good (sfReturnType f))"
      by (rule checked_emits(1) [OF scope r(1)]) (use calls e in simp)
    show ?thesis
      using emits_bind [OF 1 emits_Ret [of "outcomeOK f r" "Some _" 0], where b = "gain C s st'"] e KindReturn
        checkExpr_extends(1) [OF r(1)]
      by (simp add: evalStreamBlock.simps [abs_def] outcomeOK_def)
  next
    case KindIf
    with inverted obtain s1 a s2 b s3 where r: "checkExpr p f env (d + 1) v s = Ret (StreamBool, s1)"
        "checkBlock p f env (d + 1) th s1 = Ret (a, s2)" "checkBlock p f env (d + 1) el s2 = Ret (b, s3)"
        "checkStatements p f env d (a \<and> b) ss s3 = Ret (r, st')" "\<not> (ty \<noteq> NoStreamType \<or> slot \<noteq> 0 \<or> th = [])"
      by (auto simp: checkStatements.simps split: if_splits)
    have ext: "extends s s1" "extends s1 s2" "extends s2 s3" "extends s3 st'"
      using checkExpr_extends(1) [OF r(1)] checkBlock_extends r(2-4) by blast+
    note later = extends_trans [OF ext(3,4)] extends_trans [OF ext(2) extends_trans [OF ext(3,4)]]
    have cond: "emits (gain C s s1) ?keys (?ev venv v) (good StreamBool)"
      by (rule checked_emits(1) [OF scope r(1) contract_mono [OF calls later(2)]])
    have yes: "emits (gain C s1 s2) ?keys (evalStreamBlock ?ev venv th) (outcomeOK f a)"
      using 3(3) s KindIf r scope contract_mono [OF calls later(1)] by simp
    have no: "emits (gain C s2 s3) ?keys (evalStreamBlock ?ev venv el) (outcomeOK f b)"
      using 3(4) s KindIf r scope contract_mono [OF calls ext(4)] by simp
    have rest: "emits (gain C s3 st') ?keys (evalStreamBlock ?ev venv ss) (outcomeOK f r)" if "\<not> (a \<and> b)"
      using 3(5) s KindIf r scope calls that by simp
    have "emits (gain C s1 s3) ?keys (evalStreamBlock ?ev venv (if svBool x then th else el))
        (outcomeOK f (a \<and> b))" for x :: "'c stream_value"
      using emits_mono [OF yes, of "gain C s1 s3" "outcomeOK f (a \<and> b)"]
        emits_mono [OF no, of "gain C s1 s3" "outcomeOK f (a \<and> b)"] gain_trans [OF ext(2,3), of C]
      by (auto simp: outcomeOK_def split: option.splits)
    from emits_rest [OF this rest] checkBlock_extends(2) [OF r(4)]
    have "emits (gain C s1 s3 + gain C s3 st') ?keys (\<lambda>rs. bindR (evalStreamBlock ?ev venv (if svBool x then th else el) rs)
        (\<lambda>(out, rs). case out of None \<Rightarrow> evalStreamBlock ?ev venv ss rs | Some y \<Rightarrow> Ret (Some y, rs)))
        (outcomeOK f r)" for x :: "'c stream_value" by blast
    from emits_bind [OF cond this, where b = "gain C s st'"] show ?thesis
      using gain_trans [OF ext(1) later(2), of C] gain_trans [OF extends_trans [OF ext(2,3)] ext(4), of C]
        extends_trans [OF ext(1) later(2)] KindIf
      by (simp add: evalStreamBlock.simps [abs_def])
  next
    case KindBlock
    with inverted obtain a s2 where r: "checkBlock p f env (d + 1) th s = Ret (a, s2)"
        "checkStatements p f env d a ss s2 = Ret (r, st')" "v = None" "ty = NoStreamType" "slot = 0" "el = []"
      by (auto simp: checkStatements.simps split: if_splits)
    have ext: "extends s s2" "extends s2 st'" using checkBlock_extends r(1,2) by blast+
    have 1: "emits (gain C s s2) ?keys (evalStreamBlock ?ev venv th) (outcomeOK f a)"
      using 3(6) s KindBlock r scope contract_mono [OF calls ext(2)] by simp
    have 2: "emits (gain C s2 st') ?keys (evalStreamBlock ?ev venv ss) (outcomeOK f r)" if "\<not> a"
      using 3(7) s KindBlock r scope calls that by simp
    from emits_rest [OF 1 2] checkBlock_extends(2) [OF r(2)] show ?thesis
      using gain_trans [OF ext, of C] extends_trans [OF ext] KindBlock
      by (simp add: evalStreamBlock.simps [abs_def])
  next
    case (OtherStatement k)
    with inverted show ?thesis by (simp add: checkStatements.simps)
  qed
  note result = this
  show ?case
    using emits_Suc [OF result [THEN conjunct2]] node result gain_trans [of st s st' C] by simp
qed (auto simp: checkBlock.simps checkStatements.simps evalStreamBlock.simps [abs_def] outcomeOK_def
    intro!: emits_Ret split: if_splits)

section \<open>Functions\<close>

text \<open>A table entry comes from checking the body of the function at its index.\<close>

lemma checkBodies_nth:
  "checkBodies p nodes fs = Ret table \<Longrightarrow> nodes \<le> 8192 \<Longrightarrow> length table = length fs \<and>
     (\<forall>i < length fs. \<exists>m st. m \<le> 8192
        \<and> checkBlock p (fs ! i) (parameterScope (sfParameters (fs ! i))) 0 (bodyOf (fs ! i))
            (initialState m (fs ! i)) = Ret (True, st)
        \<and> table ! i = (ckNodes st - m, ckCalls st))"
proof (induction fs arbitrary: nodes table)
  case (Cons f fs)
  from Cons.prems obtain st rest where st:
      "checkBlock p f (parameterScope (sfParameters f)) 0 (bodyOf f) (initialState nodes f) = Ret (True, st)"
      "checkBodies p (ckNodes st) fs = Ret rest" "table = (ckNodes st - nodes, ckCalls st) # rest"
    by (auto split: if_splits)
  have "ckNodes st \<le> 8192"
    using checkBlock_extends(1) [OF st(1)] Cons.prems(2) by (simp add: extends_def initialState_def)
  from Cons.IH [OF st(2) this] show ?case
    using st Cons.prems(2) by (auto simp: nth_Cons split: nat.splits)
qed simp

lemma addCosts_Ret:
  "addCosts table l active n ts = Ret c \<Longrightarrow>
     (\<forall>t \<in> set ts. \<exists>k. expandedCost table l active t = Ret k)
     \<and> c = n + sum_list (map (\<lambda>t. case expandedCost table l active t of Ret k \<Rightarrow> k | _ \<Rightarrow> 0) ts)
     \<and> (n \<le> 8192 \<longrightarrow> c \<le> 8192)"
  by (induction ts arbitrary: n) (force split: if_splits)+

lemma argumentScope_OK:
  "map svType vs = ts \<Longrightarrow> scopeOK (parameterScope ts) (argumentScope vs)"
  by (auto simp: scopeOK_def parameterScope_def argumentScope_def good_def normalize_normal)

lemma evalFunction_emits:
  fixes host :: "('c, 'h) host option"
  assumes "checkBodies p 0 (spFunctions p) = Ret table"
  shows "expandedCost table l active i = Ret c \<Longrightarrow> l \<le> n \<Longrightarrow>
    map svType vs = sfParameters (spFunctions p ! i) \<Longrightarrow>
    c \<le> 8192 \<and> emits c (effects host p) (evalFunction n host p (int i) vs) (good (sfReturnType (spFunctions p ! i)))"
proof (induction l arbitrary: active i c n vs)
  case (Suc l)
  note bodies = checkBodies_nth [OF assms]
  from Suc.prems(1) have i: "i < length (spFunctions p)" "i \<notin> set active"
    using bodies by (auto simp: index_def split: if_splits)
  let ?f = "spFunctions p ! i"
  from bodies i obtain m st where st: "m \<le> 8192"
      "checkBlock p ?f (parameterScope (sfParameters ?f)) 0 (bodyOf ?f) (initialState m ?f) = Ret (True, st)"
      "table ! i = (ckNodes st - m, ckCalls st)" by auto
  define C where "C t = (case expandedCost table l (i # active) t of Ret k \<Rightarrow> k | _ \<Rightarrow> 0)" for t
  have cost: "addCosts table l (i # active) (ckNodes st - m) (ckCalls st) = Ret c"
    using Suc.prems(1) i st bodies by (simp add: index_def)
  note sum = addCosts_Ret [OF cost]
  have small: "ckNodes st - m \<le> 8192"
    using checkBlock_extends(1) [OF st(2)] st(1) by (auto simp: extends_def initialState_def)
  obtain k where k: "n = Suc k" "l \<le> k" using Suc.prems(2) by (cases n) auto
  have calls: "\<forall>t \<in> set (ckCalls st). contract C (effects host p) p (evalFunction k host p) t"
  proof
    fix t assume "t \<in> set (ckCalls st)"
    with sum obtain ct where "expandedCost table l (i # active) t = Ret ct" by blast
    then show "contract C (effects host p) p (evalFunction k host p) t"
      using Suc.IH [OF _ k(2)] by (simp add: contract_def C_def)
  qed
  have "gain C (initialState m ?f) st = c"
    using sum by (simp add: gain_def initialState_def C_def [abs_def])
  then have "emits c (effects host p) (evalStreamBlock (evalStreamExpr (evalFunction k host p) host p)
      (argumentScope vs) (bodyOf ?f)) (outcomeOK ?f True)"
    using checkBlock_emits(1) [OF st(2) argumentScope_OK [OF Suc.prems(3)] calls] by simp
  note body = this
  have "emits c (effects host p) (\<lambda>rs. bindR (evalStreamBlock (evalStreamExpr (evalFunction k host p) host p)
      (argumentScope vs) (bodyOf ?f) rs) (\<lambda>(out, rs).
        Ret (case out of None \<Rightarrow> typedValue NoStreamType | Some v \<Rightarrow> v, rs))) (good (sfReturnType ?f))"
    by (rule emits_bind [OF body emits_Ret [where n = 0]]) (auto simp: outcomeOK_def split: option.splits)
  with sum small k i show ?case by (simp add: index_def)
qed simp

section \<open>The call graph\<close>

text \<open>
  A chain of calls through a table, and the number of nodes of the tree that a function unfolds to.
\<close>

fun callChain :: "(nat \<times> nat list) list \<Rightarrow> nat list \<Rightarrow> bool" where
  "callChain table [] \<longleftrightarrow> True"
| "callChain table [i] \<longleftrightarrow> i < length table"
| "callChain table (i # j # js) \<longleftrightarrow> i < length table \<and> j \<in> set (snd (table ! i)) \<and> callChain table (j # js)"

fun unfoldedSize :: "(nat \<times> nat list) list \<Rightarrow> nat \<Rightarrow> nat \<Rightarrow> nat" where
  "unfoldedSize table 0 i = 0"
| "unfoldedSize table (Suc l) i =
     fst (table ! i) + sum_list (map (unfoldedSize table l) (snd (table ! i)))"

lemma expandedCost_Suc:
  assumes "expandedCost table (Suc l) active i = Ret c"
  shows "i \<notin> set active" "i < length table"
    "\<forall>t \<in> set (snd (table ! i)). \<exists>k. expandedCost table l (i # active) t = Ret k"
    "c = fst (table ! i) + sum_list (map (\<lambda>t. case expandedCost table l (i # active) t of Ret k \<Rightarrow> k | _ \<Rightarrow> 0)
       (snd (table ! i)))"
proof -
  from assms show i: "i \<notin> set active" "i < length table" by (auto simp: index_def split: if_splits)
  obtain n ts where e: "table ! i = (n, ts)" by (cases "table ! i")
  from assms i e have "addCosts table l (i # active) n ts = Ret c" by (simp add: index_def)
  from addCosts_Ret [OF this] e show
    "\<forall>t \<in> set (snd (table ! i)). \<exists>k. expandedCost table l (i # active) t = Ret k"
    "c = fst (table ! i) + sum_list (map (\<lambda>t. case expandedCost table l (i # active) t of Ret k \<Rightarrow> k | _ \<Rightarrow> 0)
       (snd (table ! i)))" by simp_all
qed

lemma expandedCost_size: "expandedCost table l active i = Ret c \<Longrightarrow> c = unfoldedSize table l i"
proof (induction l arbitrary: active i c)
  case (Suc l)
  note s = expandedCost_Suc [OF Suc.prems]
  have "(case expandedCost table l (i # active) t of Ret k \<Rightarrow> k | _ \<Rightarrow> 0) = unfoldedSize table l t"
    if "t \<in> set (snd (table ! i))" for t
    using s(3) that Suc.IH by fastforce
  then show ?case using s(4) by (simp cong: map_cong)
qed simp

lemma expandedCost_chain:
  "expandedCost table l active i = Ret c \<Longrightarrow> callChain table (i # js) \<Longrightarrow>
     distinct (i # js) \<and> length (i # js) \<le> l \<and> set (i # js) \<inter> set active = {}"
proof (induction l arbitrary: active i c js)
  case (Suc l)
  note s = expandedCost_Suc [OF Suc.prems(1)]
  show ?case
  proof (cases js)
    case (Cons j ks)
    with Suc.prems(2) s(3) obtain k where "expandedCost table l (i # active) j = Ret k" by auto
    from Suc.IH [OF this, of ks] Suc.prems(2) Cons s(1) show ?thesis by auto
  qed (use s(1) in simp)
qed simp

text \<open>What \<open>Validate\<close> establishes for the profiles with bodies.\<close>

lemma Validate_composition:
  assumes "Validate p = Ret ()" "spProfile p \<noteq> Profile"
  obtains table where "checkBodies p 0 (spFunctions p) = Ret table" "length table = length (spFunctions p)"
    "\<And>i. i < length (spFunctions p) \<Longrightarrow> \<exists>c \<le> 8192. expandedCost table 17 [] i = Ret c"
proof -
  from assms obtain table where t: "checkBodies p 0 (spFunctions p) = Ret table"
      "checkAll (\<lambda>i. bindR (expandedCost table 17 [] i) (\<lambda>_. Ret ())) [0..<length (spFunctions p)] = Ret ()"
    by (auto simp: Validate_def validateStreamComposition_def split: if_splits)
  have "\<exists>c \<le> 8192. expandedCost table 17 [] i = Ret c" if i: "i < length (spFunctions p)" for i
  proof -
    from t(2) i obtain c where c: "expandedCost table 17 [] i = Ret c" by fastforce
    from evalFunction_emits [OF t(1) c order_refl, of "map typedValue (sfParameters (spFunctions p ! i))" None]
    show ?thesis using c by (auto simp: comp_def)
  qed
  with t(1) checkBodies_nth [OF t(1)] that show thesis by blast
qed

lemma findEntry_Some:
  "findEntry cls name k fs = Some (i, f) \<Longrightarrow> k \<le> i \<and> i < k + int (length fs) \<and> fs ! nat (i - k) = f
     \<and> sfClass f = cls \<and> sfName f = name \<and> sfPublic f"
proof (induction fs arbitrary: k)
  case (Cons g gs)
  show ?case
  proof (cases "sfClass g = cls \<and> sfName g = name \<and> sfPublic g")
    case False
    with Cons.prems have "findEntry cls name (k + 1) gs = Some (i, f)" by auto
    note found = Cons.IH [OF this]
    then have "nat (i - k) = Suc (nat (i - (k + 1)))" by auto
    with found show ?thesis by auto
  qed (use Cons.prems in auto)
qed simp

end
