(* ===== verification/StreamProperties.thy ===== *)
theory StreamProperties
  imports StreamRun
begin

text \<open>
  What the native-stream profile promises: validated compositions run to a normalized value of
  their declared type within the validator's bounds, the checks on manifests, bindings and
  digests accept exactly what the profile documents, and outcomes of the host are contained.
\<close>

section \<open>A sample program\<close>

text \<open>
  A composition with one binding: \<open>Copy.run\<close> calls a private helper twice and returns the status
  of the second call when the first went well.
\<close>

definition sampleDigest :: string where
  "sampleDigest = concat [''0a0a0a0a0a0a0a0a'', ''0a0a0a0a0a0a0a0a'', ''0a0a0a0a0a0a0a0a'', ''0a0a0a0a0a0a0a0a'']"

definition streamVariable :: "stream_type \<Rightarrow> int \<Rightarrow> stream_expr option" where
  "streamVariable t k = Some (StreamExpr KindVariable t k 0 [] '''' 0 0 False 0)"

definition sampleOperation :: operation where
  "sampleOperation = \<lparr>opName = ''Flate.inflate'', opID = ''inflate''\<rparr>"

definition sampleHelper :: stream_function where
  "sampleHelper = \<lparr>sfClass = ''Copy'', sfName = ''once'', sfParameters = [ReadStream, WriteStream, StreamInt],
     sfBinding = 0, sfArguments = (0, 0, 0), sfPublic = False, sfReturnType = StreamResult,
     sfBody = Some [StreamStmt KindReturn 0 NoStreamType
       (Some (StreamExpr KindNative StreamResult 0 0
         [streamVariable ReadStream 0, streamVariable WriteStream 1, streamVariable StreamInt 2] '''' 0 0 False 0))
       [] []]\<rparr>"

definition callOnce :: "stream_expr option" where
  "callOnce = Some (StreamExpr KindHelper StreamResult 0 1
     [streamVariable ReadStream 0, streamVariable WriteStream 1, streamVariable StreamInt 2] '''' 0 0 False 0)"

definition sampleEntry :: stream_function where
  "sampleEntry = \<lparr>sfClass = ''Copy'', sfName = ''run'', sfParameters = [ReadStream, WriteStream, StreamInt],
     sfBinding = 0, sfArguments = (0, 0, 0), sfPublic = True, sfReturnType = StreamStatus,
     sfBody = Some [
       StreamStmt KindLocal 3 StreamResult callOnce [] [],
       StreamStmt KindIf 0 NoStreamType
         (Some (StreamExpr KindField StreamBool 0 0 [streamVariable StreamResult 3] ''ok'' 0 0 False 0))
         [StreamStmt KindReturn 0 NoStreamType
           (Some (StreamExpr KindField StreamStatus 0 0 [callOnce] ''status'' 0 0 False 0)) [] []] [],
       StreamStmt KindReturn 0 NoStreamType
         (Some (StreamExpr KindStatus StreamStatus 0 0 [] '''' 0 0 False HostFailure)) [] []]\<rparr>"

definition sampleStream :: stream_program where
  "sampleStream = \<lparr>spProfile = CompositionProfile, spSourceSHA256 = sampleDigest,
     spBindings = [\<lparr>bdPackage = ''org.flate'', bdManifestSHA256 = sampleDigest, bdOperation = sampleOperation\<rparr>],
     spFunctions = [sampleEntry, sampleHelper]\<rparr>"

definition sampleHost :: "(nat, nat) host" where
  "sampleHost = \<lparr>hoInvoke = (\<lambda>n b x y lim. (Some ((statusOutcome StatusOK)\<lparr>soChunks := 1\<rparr>), n + 1)),
     hoStep = None\<rparr>"

definition sampleArguments :: "nat stream_value list" where
  "sampleArguments = [(typedValue ReadStream)\<lparr>svAvailable := True\<rparr>,
     (typedValue WriteStream)\<lparr>svAvailable := True\<rparr>, (typedValue StreamInt)\<lparr>svInt := 100\<rparr>]"

lemmas sample_defs = sampleStream_def sampleEntry_def sampleHelper_def callOnce_def streamVariable_def
  sampleOperation_def

lemma sample_names:
  "isIdentifier ''Copy''" "isIdentifier ''run''" "isIdentifier ''once''" "isQualified ''Flate.inflate''"
  "isSemantic ''inflate''" "isSemantic ''org.flate''"
  by (simp_all add: isIdentifier_def isQualified_def isSemantic_def isLetter_def isLower_def isDigit_def byte_def)

lemma sampleDigest_valid: "ValidDigest sampleDigest"
  unfolding ValidDigest_iff by (simp add: sampleDigest_def lowerHex_def byte_def)

lemma sampleStream_fields [simp]:
  "spProfile sampleStream = CompositionProfile" "spSourceSHA256 sampleStream = sampleDigest"
  "length (spBindings sampleStream) = 1" "spFunctions sampleStream = [sampleEntry, sampleHelper]"
  "sfParameters sampleEntry = [ReadStream, WriteStream, StreamInt]" "sfReturnType sampleEntry = StreamStatus"
  "sfParameters sampleHelper = [ReadStream, WriteStream, StreamInt]" "sfReturnType sampleHelper = StreamResult"
  "sfPublic sampleEntry" "\<not> sfPublic sampleHelper" "sfClass sampleEntry = ''Copy''" "sfClass sampleHelper = ''Copy''"
  "sfName sampleEntry = ''run''" "sfName sampleHelper = ''once''"
  by (simp_all add: sampleStream_def sampleEntry_def sampleHelper_def)

lemma sampleProfile [simp]:
  "NativeSignature CompositionProfile = ([ReadStream, WriteStream, StreamInt], StreamResult)"
  "CompositionProfile \<noteq> Profile" "CompositionProfile \<noteq> IncrementalProfile"
  by (simp_all add: NativeSignature_def CompositionProfile_def IncrementalProfile_def Profile_def)

lemmas check_simps = checkBlock.simps checkStatements.simps checkExpr.simps checkArguments.simps
  checkTypes.simps countNode_def

lemma callOnce_checked:
  assumes "env 0 = ReadStream" "env 1 = WriteStream" "env 2 = StreamInt" "d < 60" "ckNodes st < 100"
  shows "checkExpr sampleStream sampleEntry env d callOnce st =
    Ret (StreamResult, st\<lparr>ckNodes := ckNodes st + 4, ckCalls := ckCalls st @ [1]\<rparr>)"
  using assms by (simp add: callOnce_def streamVariable_def check_simps)

lemma sample_bodies:
  "bodyOf sampleEntry = [
       StreamStmt KindLocal 3 StreamResult callOnce [] [],
       StreamStmt KindIf 0 NoStreamType
         (Some (StreamExpr KindField StreamBool 0 0 [streamVariable StreamResult 3] ''ok'' 0 0 False 0))
         [StreamStmt KindReturn 0 NoStreamType
           (Some (StreamExpr KindField StreamStatus 0 0 [callOnce] ''status'' 0 0 False 0)) [] []] [],
       StreamStmt KindReturn 0 NoStreamType
         (Some (StreamExpr KindStatus StreamStatus 0 0 [] '''' 0 0 False HostFailure)) [] []]"
  "bodyOf sampleHelper = [StreamStmt KindReturn 0 NoStreamType
       (Some (StreamExpr KindNative StreamResult 0 0
         [streamVariable ReadStream 0, streamVariable WriteStream 1, streamVariable StreamInt 2] '''' 0 0 False 0))
       [] []]"
  by (simp_all add: bodyOf_def sampleEntry_def sampleHelper_def)

lemma sampleEntry_checked:
  "checkBlock sampleStream sampleEntry (parameterScope [ReadStream, WriteStream, StreamInt]) 0
     (bodyOf sampleEntry) (initialState 0 sampleEntry) =
   Ret (True, \<lparr>ckNodes = 16, ckSlots = [3, 0, 1, 2], ckCalls = [1, 1]\<rparr>)"
  by (simp add: sample_bodies check_simps callOnce_checked initialState_def parameterScope_def
      ValueTypeFor_def ValueType_def ResultMemberType_def MemberType_def status_defs streamVariable_def upt_rec)

lemma sampleHelper_checked:
  "checkBlock sampleStream sampleHelper (parameterScope [ReadStream, WriteStream, StreamInt]) 0
     (bodyOf sampleHelper) (initialState 16 sampleHelper) =
   Ret (True, \<lparr>ckNodes = 21, ckSlots = [0, 1, 2], ckCalls = []\<rparr>)"
  by (simp add: sample_bodies check_simps initialState_def parameterScope_def
      ValueTypeFor_def ValueType_def streamVariable_def upt_rec)

lemma sampleStream_table:
  "checkBodies sampleStream 0 (spFunctions sampleStream) = Ret [(16, [1, 1]), (5, [])]"
  using sampleEntry_checked sampleHelper_checked by simp

lemma sampleStream_signatures:
  "checkSignatures CompositionProfile [] False [sampleEntry, sampleHelper] = Ret True"
  using sample_names
  by (simp add: sampleEntry_def sampleHelper_def bodyOf_def ValueTypeFor_def ValueType_def
      ParameterTypeFor_def ParameterType_def Let_def)

lemma sampleStream_bindings:
  "spBindings sampleStream \<noteq> []" "checkBindings CompositionProfile [] [] (spBindings sampleStream) = Ret ()"
  using sample_names sampleDigest_valid
  by (simp_all add: sampleStream_def sampleOperation_def ValidateManifest_def ManifestProfile_def Let_def ABI_def)

lemma sampleStream_valid: "Validate sampleStream = Ret ()"
proof -
  have "validateStreamComposition sampleStream = Ret ()"
    using sampleStream_signatures sampleStream_table
    by (simp add: validateStreamComposition_def numeral_eq_Suc upt_rec
        del: checkBodies.simps checkSignatures.simps)
  then show ?thesis
    using sampleDigest_valid sampleStream_bindings by (simp add: Validate_def)
qed

lemma sampleStream_entry:
  "findEntry ''Copy'' ''run'' 0 (spFunctions sampleStream) = Some (0, sampleEntry)"
  by (simp add: sampleEntry_def)

lemma sampleArguments_types: "map svType sampleArguments = sfParameters sampleEntry"
  by (simp add: sampleArguments_def sampleEntry_def)

section \<open>Compositions\<close>

lemma stream_run:
  assumes "Validate p = Ret ()" "spProfile p \<noteq> Profile" "findEntry cls name 0 (spFunctions p) = Some (i, f)"
    "map svType vs = sfParameters f"
  shows "emits 8192 (effects host p) (evalFunction (17 + n) host p i vs) (good (sfReturnType f))"
proof -
  obtain table where t: "checkBodies p 0 (spFunctions p) = Ret table" "length table = length (spFunctions p)"
      "\<And>i. i < length (spFunctions p) \<Longrightarrow> \<exists>c \<le> 8192. expandedCost table 17 [] i = Ret c"
    using Validate_composition [OF assms(1,2)] by blast
  from findEntry_Some [OF assms(3)] have i: "0 \<le> i" "nat i < length (spFunctions p)" "spFunctions p ! nat i = f"
    by auto
  from t(3) [OF i(2)] obtain c where c: "c \<le> 8192" "expandedCost table 17 [] (nat i) = Ret c" by blast
  have "emits c (effects host p) (evalFunction (17 + n) host p (int (nat i)) vs) (good (sfReturnType f))"
    using evalFunction_emits [OF t(1) c(2), of "17 + n" vs host] assms(4) i(3) by simp
  then show ?thesis using emits_weaken [OF _ c(1)] i(1) by simp
qed

lemma Validate_profiles:
  "Validate p = Ret () \<Longrightarrow> spProfile p \<in> {Profile, CompositionProfile, IncrementalProfile}"
  by (auto simp: Validate_def split: if_splits)

text \<open>C7: A validated composition runs: from the entry whose parameter types the arguments have, a
  call depth of 17 is enough, the result has the declared type, with its statuses and progress
  inside their ranges, and the trace of native calls has at most 8192 entries, all of them bindings
  of the program, and none without a host.\<close>

theorem stream_composition_safe:
  assumes "Validate p = Ret ()" "spProfile p \<noteq> Profile" "findEntry cls name 0 (spFunctions p) = Some (i, f)"
    "map svType vs = sfParameters f"
  shows "\<exists>v rs. EvaluateStream (17 + n) p cls name vs host s = Ret (v, rs) \<and> svType v = sfReturnType f
    \<and> normal v \<and> length (rsTrace rs) \<le> 8192
    \<and> set (rsTrace rs) \<subseteq> (case host of None \<Rightarrow> {} | Some h \<Rightarrow> bindingKey ` set (spBindings p))"
proof -
  have "length vs = length (sfParameters f)" using assms(4) by (metis length_map)
  moreover from stream_run [OF assms] obtain v rs tr where
      "evalFunction (17 + n) host p i vs \<lparr>rsTrace = [], rsHost = s\<rparr> = Ret (v, rs)" "rsTrace rs = tr"
      "length tr \<le> 8192" "set tr \<subseteq> effects host p" "good (sfReturnType f) v"
    by (rule emitsE [where rs = "\<lparr>rsTrace = [], rsHost = s\<rparr>"]) auto
  ultimately show ?thesis
    using assms Validate_profiles [OF assms(1)]
    by (intro exI [of _ v] exI [of _ rs]) (auto simp: EvaluateStream_def effects_def good_def)
qed

theorem stream_composition_safe_witness:
  "\<exists>v rs. EvaluateStream (17 + 0) sampleStream ''Copy'' ''run'' sampleArguments (Some sampleHost) 0 = Ret (v, rs)
    \<and> svType v = StreamStatus \<and> normal v \<and> length (rsTrace rs) \<le> 8192
    \<and> set (rsTrace rs) \<subseteq> bindingKey ` set (spBindings sampleStream)"
  using stream_composition_safe [OF sampleStream_valid _ sampleStream_entry sampleArguments_types,
      of 0 "Some sampleHost" 0] by simp

text \<open>C8: \<open>Evaluate\<close> fails closed: it returns an execution exactly for a program that validates, has
  one of the two composition profiles, has the named public entry, and is given arguments of the
  entry's parameter types.\<close>

theorem stream_evaluation_decides:
  "(\<exists>v rs. EvaluateStream (17 + n) p cls name vs host s = Ret (v, rs)) \<longleftrightarrow>
     Validate p = Ret () \<and> spProfile p \<noteq> Profile
     \<and> (\<exists>i f. findEntry cls name 0 (spFunctions p) = Some (i, f) \<and> map svType vs = sfParameters f)"
proof (cases "Validate p = Ret () \<and> spProfile p \<noteq> Profile
      \<and> (\<exists>i f. findEntry cls name 0 (spFunctions p) = Some (i, f) \<and> map svType vs = sfParameters f)")
  case True
  then obtain i f where e: "findEntry cls name 0 (spFunctions p) = Some (i, f)" "map svType vs = sfParameters f"
    by blast
  have "length vs = length (sfParameters f)" using e(2) by (metis length_map)
  moreover have "emits 8192 (effects host p) (evalFunction (17 + n) host p i vs) (good (sfReturnType f))"
    using stream_run [OF _ _ e] True by blast
  then obtain v rs where "evalFunction (17 + n) host p i vs \<lparr>rsTrace = [], rsHost = s\<rparr> = Ret (v, rs)"
    by (rule emitsE)
  ultimately have "EvaluateStream (17 + n) p cls name vs host s = Ret (v, rs)"
    using True e Validate_profiles [of p] by (auto simp: EvaluateStream_def)
  with True show ?thesis by auto
next
  case False
  then show ?thesis
    by (auto simp: EvaluateStream_def CompositionProfile_def IncrementalProfile_def Profile_def
        split: option.splits if_splits)
qed

text \<open>C9: The calls of a validated composition form no cycle: a chain of calls has no function
  twice and at most 17 functions, and every function unfolds to at most 8192 nodes.\<close>

theorem stream_call_graph:
  assumes "Validate p = Ret ()" "spProfile p \<noteq> Profile" "checkBodies p 0 (spFunctions p) = Ret table"
    "callChain table (i # js)"
  shows "distinct (i # js) \<and> length (i # js) \<le> 17 \<and> unfoldedSize table 17 i \<le> 8192"
proof -
  have i: "i < length table" using assms(4) by (cases js) auto
  obtain table' where t: "checkBodies p 0 (spFunctions p) = Ret table'" "length table' = length (spFunctions p)"
      "\<And>i. i < length (spFunctions p) \<Longrightarrow> \<exists>c \<le> 8192. expandedCost table' 17 [] i = Ret c"
    using Validate_composition [OF assms(1,2)] by blast
  have e: "table' = table" using t(1) assms(3) by simp
  from t(3) [of i] i t(2) e obtain c where c: "c \<le> 8192" "expandedCost table 17 [] i = Ret c" by auto
  have "unfoldedSize table 17 i \<le> 8192" using c(1) expandedCost_size [OF c(2)] by metis
  with expandedCost_chain [OF c(2) assms(4)] show ?thesis by blast
qed

theorem stream_call_graph_witness:
  "distinct [0 :: nat, 1] \<and> length [0 :: nat, 1] \<le> 17 \<and> unfoldedSize [(16, [1, 1]), (5, [])] 17 0 \<le> 8192"
  using stream_call_graph [OF sampleStream_valid _ sampleStream_table, of 0 "[1]"] by simp

section \<open>Outcomes of the host\<close>

text \<open>\<open>normalize\<close> is idempotent, keeps the type of a value, makes it normal, and changes exactly
  the values that are not.\<close>

theorem normalize_contains:
  "normal (normalize v) \<and> svType (normalize v) = svType v \<and> normalize (normalize v) = normalize v
    \<and> (normalize v = v \<longleftrightarrow> normal v)"
  using normalize_normal [of v] normalize_id [of "normalize v"] normalize_id [of v] normalize_type [of v]
  by auto

text \<open>A native call of the blocking profile is traced exactly when it reaches a host; a negative
  limit or an unavailable stream is an invalid argument, a missing host denies, and a status
  outside the vocabulary or a panic of the host is a host failure.\<close>

theorem invoke_contained:
  "rsTrace (snd (invoke host b x y lim st)) =
     rsTrace st @ (if 0 \<le>s lim \<and> svAvailable x \<and> svAvailable y \<and> host \<noteq> None then [bindingKey b] else [])
   \<and> soStatus (fst (invoke host b x y lim st)) \<le> Denied
   \<and> fst (invoke host b x y lim st) =
       (if 0 \<le>s lim \<and> svAvailable x \<and> svAvailable y
        then (case host of None \<Rightarrow> statusOutcome Denied
          | Some h \<Rightarrow> (case fst (hoInvoke h (rsHost st) b (svCapability x) (svCapability y) lim) of
              Some out \<Rightarrow> if soStatus out \<le> Denied then out else statusOutcome HostFailure
            | None \<Rightarrow> statusOutcome HostFailure))
        else statusOutcome InvalidArgument)"
proof -
  have "0 \<le>s lim \<longleftrightarrow> \<not> lim <s 0" by (simp add: word_sle_eq word_sless_alt not_less)
  then show ?thesis
    by (auto simp: invoke_def traced_def statusOutcome_def status_defs not_less split: option.splits prod.splits)
qed

text \<open>C36: A step outcome is contained: its status and progress agree, it never claims more input or
  output than the buffers hold or than it reports as bytes, and an outcome that claims no more is
  passed on unchanged.\<close>

theorem checked_step_contained:
  "normalStep (checkedStep inputExtent outputExtent raw)
   \<and> stInputConsumed (checkedStep inputExtent outputExtent raw) \<le> inputExtent
   \<and> stOutputWritten (checkedStep inputExtent outputExtent raw) \<le> outputExtent
   \<and> stInputConsumed (checkedStep inputExtent outputExtent raw)
       \<le> soInputBytes (stOutcome (checkedStep inputExtent outputExtent raw))
   \<and> stOutputWritten (checkedStep inputExtent outputExtent raw)
       \<le> soOutputBytes (stOutcome (checkedStep inputExtent outputExtent raw))
   \<and> (checkedStep inputExtent outputExtent raw = raw \<longleftrightarrow>
        normalStep raw \<and> stInputConsumed raw \<le> inputExtent \<and> stOutputWritten raw \<le> outputExtent
        \<and> stInputConsumed raw \<le> soInputBytes (stOutcome raw) \<and> stOutputWritten raw \<le> soOutputBytes (stOutcome raw))"
proof -
  let ?v = "(typedValue StreamStep :: nat stream_value)\<lparr>svStep := raw\<rparr>"
  let ?ok = "\<lambda>s. stInputConsumed s \<le> inputExtent \<and> stOutputWritten s \<le> outputExtent
      \<and> stInputConsumed s \<le> soInputBytes (stOutcome s) \<and> stOutputWritten s \<le> soOutputBytes (stOutcome s)"
  have ok: "?ok (checkedStep inputExtent outputExtent raw)"
    by (simp add: checkedStep_def Let_def statusStep_def statusOutcome_def not_less)
  have "normalStep raw \<Longrightarrow> svStep (normalize ?v) = raw"
    using normalize_id [of ?v] by (simp add: normal_def)
  then have "normalStep raw \<Longrightarrow> ?ok raw \<Longrightarrow> checkedStep inputExtent outputExtent raw = raw"
    by (auto simp: checkedStep_def dest: leD)
  with ok checkedStep_normal [of inputExtent outputExtent raw] show ?thesis by metis
qed

section \<open>Manifests, bindings, digests\<close>

text \<open>A digest is valid exactly when it is 64 lowercase hexadecimal digits: what
  \<open>DecodeString\<close> admits beside (other lengths, upper case) fails the comparison with the canonical
  encoding.\<close>

theorem valid_digest_text:
  "ValidDigest s \<longleftrightarrow> length s = 64 \<and> list_all (\<lambda>c. c \<in> set ''0123456789abcdef'') s"
proof -
  have "byte ` set ''0123456789abcdef'' = {48..57} \<union> {97..102}"
    unfolding set_eq_iff by (auto simp: byte_def image_iff; presburger)
  then have "lowerHex c \<longleftrightarrow> c \<in> set ''0123456789abcdef''" for c
    unfolding lowerHex_def using inj_image_mem_iff [of byte c] byte_eq_iff by (metis injI)
  then have "lowerHex = (\<lambda>c. c \<in> set ''0123456789abcdef'')" by (rule ext)
  then show ?thesis by (simp only: ValidDigest_iff)
qed

text \<open>A manifest is accepted exactly when its profile, ABI, package and size are admitted and its
  operations are well named, with no name and no identity twice.\<close>

theorem manifest_accepted:
  "ValidateManifest m = Ret () \<longleftrightarrow>
     mfProfile m \<in> {Profile, IncrementalProfile} \<and> mfABI m = ABI \<and> isSemantic (mfPackage m)
     \<and> mfOperations m \<noteq> [] \<and> length (mfOperations m) \<le> 64
     \<and> list_all (\<lambda>x. isQualified (opName x) \<and> isSemantic (opID x)) (mfOperations m)
     \<and> distinct (map opName (mfOperations m)) \<and> distinct (map opID (mfOperations m))"
  by (auto simp: ValidateManifest_def validateOperations_Ret list_all_iff)

lemma statusIndex_iff:
  "distinct ns \<Longrightarrow> statusIndex k name ns = (i, True) \<longleftrightarrow> (\<exists>j < length ns. ns ! j = name \<and> i = k + of_nat j)"
proof (induction ns arbitrary: k)
  case (Cons n ns)
  have "(\<exists>j < length (n # ns). (n # ns) ! j = name \<and> i = k + of_nat j) \<longleftrightarrow>
      n = name \<and> i = k \<or> (\<exists>j < length ns. ns ! j = name \<and> i = k + 1 + of_nat j)"
    unfolding length_Cons Ex_less_Suc2 by (auto simp: algebra_simps)
  with Cons show ?case by (auto simp: in_set_conv_nth)
qed simp

text \<open>The names of the statuses and their numbers are in bijection: a name parses to a number
  exactly when it is the name at that number.\<close>

theorem status_names_roundtrip:
  "ParseStatus name = (i, True) \<longleftrightarrow> i \<le> Denied \<and> statusNames ! unat i = name"
proof -
  have d: "distinct statusNames" "length statusNames = 8" by (simp_all add: statusNames_def)
  have i: "(j < 8 \<and> i = of_nat j) \<longleftrightarrow> (i \<le> Denied \<and> unat i = j)" for j
    by (auto simp: Denied_def word_le_nat_alt unat_of_nat)
  show ?thesis
    unfolding ParseStatus_def statusIndex_iff [OF d(1)] d(2) using i by (metis add_0)
qed

end
