(* ===== verification/StreamFrontProperties.thy ===== *)
theory StreamFrontProperties
  imports StreamFront ParserProperties StreamProperties
begin

text \<open>
  The compiler of native-stream sources ends without a panic, and what it compiles validates and
  binds only operations of the manifests that were locked.
\<close>

section \<open>Results that are values or errors\<close>

definition ends :: "'a res \<Rightarrow> bool" where
  "ends r \<longleftrightarrow> r \<noteq> Panic \<and> r \<noteq> Timeout"

lemma ends_simps [simp]: "ends (Ret a)" "ends (Err m)" "\<not> ends Panic" "\<not> ends Timeout" "ends (rejectIf b m)"
  by (simp_all add: ends_def)

lemma ends_if: "ends (if b then m else k) \<longleftrightarrow> (b \<longrightarrow> ends m) \<and> (\<not> b \<longrightarrow> ends k)"
  by simp

lemma ends_bind: "ends m \<Longrightarrow> (\<And>a. m = Ret a \<Longrightarrow> ends (k a)) \<Longrightarrow> ends (bindR m k)"
  by (cases m) auto

lemma ends_andThen: "ends m \<Longrightarrow> (m = Ret () \<Longrightarrow> ends k) \<Longrightarrow> ends (andThen m k)"
  by (simp add: andThen_def ends_bind)

lemma ends_checkAll: "(\<And>x. x \<in> set xs \<Longrightarrow> ends (f x)) \<Longrightarrow> ends (checkAll f xs)"
  by (induction xs) (auto intro!: ends_andThen)

lemma ends_index [simp]: "ends (index xs i) \<longleftrightarrow> 0 \<le> i \<and> i < int (length xs)"
  by (auto simp: index_def)

section \<open>The validator ends\<close>

lemma manifest_ends: "ends (ValidateManifest m)"
proof -
  have "ends (validateOperations names ids ops)" for names ids ops
    by (induction ops arbitrary: names ids) (auto intro!: ends_andThen)
  then show ?thesis by (auto simp: ValidateManifest_def intro!: ends_andThen)
qed

lemma ends_countNode [simp]: "ends (countNode d st)"
  by (simp add: countNode_def)

lemma checkExpr_ends:
  "ends (checkExpr p f env d x st)" "ends (checkArguments p f env d ts xs st)" "ends (checkTypes p f env d xs st)"
proof (induction p f env d x st and p f env d ts xs st and p f env d xs st
    rule: checkExpr_checkArguments_checkTypes.induct)
  case (2 p f env depth kind ty slot target args member i u b status st)
  then show ?case
    by (cases kind) (auto intro!: ends_bind simp: checkExpr.simps Let_def)
qed (auto intro!: ends_bind simp: checkExpr.simps checkArguments.simps checkTypes.simps)

lemma checkBlock_ends:
  "ends (checkBlock p f env d ss st)" "ends (checkStatements p f env d r ss st)"
proof (induction p f env d ss st and p f env d r ss st rule: checkBlock_checkStatements.induct)
  case (3 p f env depth returned kind slot ty v th el ss st)
  then show ?case
    by (cases kind) (auto intro!: ends_bind checkExpr_ends simp: checkStatements.simps fun_upd_def)
qed (auto simp: checkBlock.simps checkStatements.simps)

lemma checkBodies_ends: "ends (checkBodies p n fs)"
  by (induction fs arbitrary: n) (auto intro!: ends_bind checkBlock_ends)

lemma checkSignatures_ends: "ends (checkSignatures profile names b fs)"
  by (induction fs arbitrary: names b) (auto simp: Let_def intro!: ends_andThen)

text \<open>The calls that are recorded are of functions of the program.\<close>

definition targetsIn :: "stream_program \<Rightarrow> check_state \<Rightarrow> bool" where
  "targetsIn p st \<longleftrightarrow> (\<forall>t \<in> set (ckCalls st). t < length (spFunctions p))"

lemma targetsIn_simps [simp]:
  "targetsIn p (st\<lparr>ckSlots := xs\<rparr>) \<longleftrightarrow> targetsIn p st"
  "targetsIn p (st\<lparr>ckCalls := ckCalls st @ [t]\<rparr>) \<longleftrightarrow> targetsIn p st \<and> t < length (spFunctions p)"
  "targetsIn p (initialState n f)"
  by (auto simp: targetsIn_def initialState_def)

lemma countNode_targets: "countNode d st = Ret s \<Longrightarrow> targetsIn p st \<Longrightarrow> targetsIn p s"
  by (auto simp: countNode_def targetsIn_def split: if_splits)

lemma checkExpr_targets:
  "checkExpr p f env d x st = Ret (t, st') \<Longrightarrow> targetsIn p st \<Longrightarrow> targetsIn p st'"
  "checkArguments p f env d ps xs st = Ret st' \<Longrightarrow> targetsIn p st \<Longrightarrow> targetsIn p st'"
  "checkTypes p f env d xs st = Ret (ts, st') \<Longrightarrow> targetsIn p st \<Longrightarrow> targetsIn p st'"
proof (induction p f env d x st and p f env d ps xs st and p f env d xs st
    arbitrary: t st' and st' and ts st' rule: checkExpr_checkArguments_checkTypes.induct)
  case (2 p f env depth kind ty slot target args member i u b status st)
  from checkExpr_node [OF 2(7)] obtain s where s: "countNode depth st = Ret s" "length args \<le> 16" .
  note countNode_targets [OF s(1) 2(8)]
  with 2 s show ?case
    by (cases kind) (auto simp: checkExpr.simps Let_def split: if_splits)
qed (fastforce simp: checkExpr.simps checkArguments.simps checkTypes.simps split: if_splits)+

lemma checkBlock_targets:
  "checkBlock p f env d ss st = Ret (r, st') \<Longrightarrow> targetsIn p st \<Longrightarrow> targetsIn p st'"
  "checkStatements p f env d ret ss st = Ret (r, st') \<Longrightarrow> targetsIn p st \<Longrightarrow> targetsIn p st'"
proof (induction p f env d ss st and p f env d ret ss st arbitrary: r st' and r st'
    rule: checkBlock_checkStatements.induct)
  case (3 p f env d ret kind slot ty v th el ss st)
  from 3(8) obtain s where s: "countNode d st = Ret s" "\<not> ret"
    by (auto simp: checkStatements.simps split: if_splits)
  note inverted = 3(8) s and in_s = countNode_targets [OF s(1) 3(9)]
  show ?case
  proof (cases kind)
    case KindLocal
    with inverted obtain s1 where r: "checkExpr p f env (d + 1) v s = Ret (ty, s1)"
        "checkStatements p f (env(slot := ty)) d False ss (s1\<lparr>ckSlots := slot # ckSlots s1\<rparr>) = Ret (r, st')"
        "\<not> (\<not> ValueTypeFor (spProfile p) ty \<or> slot < 0 \<or> slot \<ge> 256 \<or> slot \<in> set (ckSlots s)
             \<or> th \<noteq> [] \<or> el \<noteq> [])"
      by (auto simp: checkStatements.simps split: if_splits)
    with checkExpr_targets(1) [OF r(1) in_s] 3(1) s KindLocal show ?thesis by (simp add: fun_upd_def)
  next
    case KindReturn
    with inverted obtain s1 where r: "checkExpr p f env (d + 1) v s = Ret (sfReturnType f, s1)"
        "checkStatements p f env d True ss s1 = Ret (r, st')"
        "\<not> (ty \<noteq> NoStreamType \<or> slot \<noteq> 0 \<or> th \<noteq> [] \<or> el \<noteq> [])"
      by (auto simp: checkStatements.simps split: if_splits)
    with checkExpr_targets(1) [OF r(1) in_s] 3(2) s KindReturn show ?thesis by simp
  next
    case KindIf
    with inverted obtain s1 a s2 b s3 where r: "checkExpr p f env (d + 1) v s = Ret (StreamBool, s1)"
        "checkBlock p f env (d + 1) th s1 = Ret (a, s2)" "checkBlock p f env (d + 1) el s2 = Ret (b, s3)"
        "checkStatements p f env d (a \<and> b) ss s3 = Ret (r, st')" "\<not> (ty \<noteq> NoStreamType \<or> slot \<noteq> 0 \<or> th = [])"
      by (auto simp: checkStatements.simps split: if_splits)
    with checkExpr_targets(1) [OF r(1) in_s] 3(3-5) s KindIf show ?thesis by simp
  next
    case KindBlock
    with inverted obtain a s2 where r: "checkBlock p f env (d + 1) th s = Ret (a, s2)"
        "checkStatements p f env d a ss s2 = Ret (r, st')" "v = None" "ty = NoStreamType" "slot = 0" "el = []"
      by (auto simp: checkStatements.simps split: if_splits)
    with 3(6,7) s in_s KindBlock show ?thesis by simp
  next
    case (OtherStatement k)
    with inverted show ?thesis by (simp add: checkStatements.simps)
  qed
qed (auto simp: checkBlock.simps checkStatements.simps split: if_splits)

lemma checkBodies_targets:
  "checkBodies p n fs = Ret table \<Longrightarrow>
     length table = length fs \<and> (\<forall>e \<in> set table. \<forall>t \<in> set (snd e). t < length (spFunctions p))"
proof (induction fs arbitrary: n table)
  case (Cons f fs)
  from Cons.prems obtain st rest where r:
      "checkBlock p f (parameterScope (sfParameters f)) 0 (bodyOf f) (initialState n f) = Ret (True, st)"
      "checkBodies p (ckNodes st) fs = Ret rest" "table = (ckNodes st - n, ckCalls st) # rest"
    by (auto split: if_splits)
  have "targetsIn p st" using checkBlock_targets(1) [OF r(1)] by simp
  with Cons.IH [OF r(2)] r(3) show ?case by (simp add: targetsIn_def)
qed simp

lemma expandedCost_ends:
  assumes "\<forall>e \<in> set table. \<forall>t \<in> set (snd e). t < length table"
  shows "i < length table \<Longrightarrow> ends (expandedCost table l active i)"
proof (induction l arbitrary: i active)
  case (Suc l)
  have adds: "ends (addCosts table l active n ts)" if "\<forall>t \<in> set ts. t < length table" for active n ts
    using that Suc.IH by (induction ts arbitrary: n) (auto intro!: ends_bind)
  have "\<forall>t \<in> set (snd (table ! i)). t < length table" using assms nth_mem [OF Suc.prems] by blast
  with adds Suc.prems show ?case by (auto intro!: ends_bind simp: index_def split: prod.splits)
qed simp

lemma Validate_ends: "ends (Validate p)"
proof -
  have bindings: "ends (checkBindings profile as is bs)" for profile as "is" bs
    by (induction bs arbitrary: as "is")
      (auto intro!: ends_andThen manifest_ends simp: Let_def)
  have positions: "ends (checkPositions params seen ps)" for params seen ps
    by (induction params seen ps rule: checkPositions.induct) (auto intro!: ends_andThen)
  have natives: "ends (checkNativeFunctions n ms fs)" for n ms fs
    by (induction fs arbitrary: ms) (auto intro!: ends_andThen positions simp: Let_def split: prod.splits)
  have "ends (validateStreamComposition p)"
    unfolding validateStreamComposition_def
  proof (intro ends_bind ends_andThen ends_checkAll)
    fix public table i
    assume t: "checkBodies p 0 (spFunctions p) = Ret table" and "i \<in> set [0..<length (spFunctions p)]"
    with checkBodies_targets [OF t] show "ends (expandedCost table 17 [] i)"
      by (intro expandedCost_ends) auto
  qed (simp_all add: checkSignatures_ends checkBodies_ends)
  with bindings natives show ?thesis
    unfolding Validate_def by (auto intro!: ends_andThen)
qed

section \<open>Lowering\<close>

definition contextOK :: "lower_context \<Rightarrow> bool" where
  "contextOK lc \<longleftrightarrow> lcFunction lc < length (lcFunctions lc)
     \<and> (\<forall>k t. lcMethods lc k = Some t \<longrightarrow> t < length (lcFunctions lc))"

lemma typeMatches_ends [simp]: "ends (typeMatches t x)"
  by (simp add: typeMatches_def)

lemma lowerLiteral_ends [simp]: "ends (lowerLiteral v t)"
  by (cases "source_value.svType v") (simp_all add: lowerLiteral_def)

lemma callTarget_ends: "contextOK lc \<Longrightarrow> ends (callTarget lc name)"
  by (auto simp: callTarget_def contextOK_def Let_def intro!: ends_bind split: option.splits prod.splits)

lemma ends_literal:
  "(\<And>v. ends (f v)) \<Longrightarrow> ends m \<Longrightarrow> ends (case e of LiteralExpr v _ \<Rightarrow> f v | _ \<Rightarrow> m)"
  by (cases e) simp_all

lemma lowerExpr_ends:
  "contextOK lc \<Longrightarrow> ends (lowerExpr lc env e t)"
  "contextOK lc \<Longrightarrow> length es = length ts \<Longrightarrow> ends (lowerArguments lc env es ts)"
proof (induction lc env e t and lc env es ts rule: lowerExpr_lowerArguments.induct)
  case (5 lc env op operand sp expected)
  then show ?case
    unfolding lowerExpr.simps by (auto intro!: ends_bind ends_literal split del: if_split simp: ends_if)
qed (auto intro!: ends_bind callTarget_ends simp: lowerExpr.simps lowerArguments.simps Let_def
    split: option.splits prod.splits)

lemma lowerValue_ends: "contextOK lc \<Longrightarrow> ends (lowerValue lc env e t)"
  by (simp add: lowerValue_def lowerExpr_ends split: option.split)

lemma lowerBlock_ends: "contextOK lc \<Longrightarrow> ends (lowerBlock lc result env ss slot)"
proof (induction lc result env ss slot rule: lowerBlock.induct)
  case (2 lc result env s ss slot)
  define ty where "ty = (case stmType s of None \<Rightarrow> NoStreamType | Some t \<Rightarrow> streamCompositionType t)"
  note IH = 2(1-7) [folded ty_def] and ok = 2(8) and val = lowerValue_ends [OF 2(8)]
  consider "stmKind s = ''local''" | "stmKind s = ''return''" | "stmKind s = ''if''" | "stmKind s = ''block''"
    | "stmKind s \<notin> {''local'', ''return'', ''if'', ''block''}" by blast
  then show ?case
  proof cases
    case 1
    with IH(1) ok val show ?thesis
      unfolding lowerBlock.simps ty_def [symmetric] by (auto intro!: ends_bind simp: Let_def fun_upd_def)
  next
    case 2
    with IH(2) ok val show ?thesis
      unfolding lowerBlock.simps by (auto intro!: ends_bind)
  next
    case 3
    with IH(3-5) ok val show ?thesis
      unfolding lowerBlock.simps by (auto intro!: ends_bind)
  next
    case 4
    with IH(6,7) ok show ?thesis
      unfolding lowerBlock.simps by (auto intro!: ends_bind)
  qed (simp add: lowerBlock.simps)
qed (simp add: lowerBlock.simps)


text \<open>The signatures: every declaration has its function, and every method is one of them.\<close>

definition sameArity :: "stream_function \<Rightarrow> method_decl \<Rightarrow> bool" where
  "sameArity f m \<longleftrightarrow> length (sfParameters f) = length (mdlParams m)"

definition loweredOK :: "signature_state \<Rightarrow> bool" where
  "loweredOK st \<longleftrightarrow> list_all2 sameArity (sgFunctions st) (sgDeclarations st)
     \<and> (\<forall>k t. sgMethods st k = Some t \<longrightarrow> t < length (sgFunctions st))"

lemma lowerParameters_ends: "ends (lowerParameters profile ps)"
  by (induction ps) (auto simp: Let_def intro!: ends_bind)

lemma lowerParameters_length: "lowerParameters profile ps = Ret ts \<Longrightarrow> length ts = length ps"
  by (induction ps arbitrary: ts) (auto simp: Let_def split: if_splits)

lemma lowerMethods_ends: "ends (lowerMethods profile cls ms st)"
  by (induction ms arbitrary: st) (auto simp: Let_def intro!: ends_bind lowerParameters_ends)

lemma lowerMethods_OK: "lowerMethods profile cls ms st = Ret st' \<Longrightarrow> loweredOK st \<Longrightarrow> loweredOK st'"
proof (induction ms arbitrary: st)
  case (Cons m ms)
  from Cons.prems(1) obtain params where r: "lowerParameters profile (mdlParams m) = Ret params"
      "lowerMethods profile cls ms
        \<lparr>sgFunctions = sgFunctions st @
           [\<lparr>sfClass = cls, sfName = mdlName m, sfParameters = params, sfBinding = 0, sfArguments = (0, 0, 0),
             sfPublic = (mdlVisibility m = VisibilityPublic),
             sfReturnType = streamCompositionType (mdlReturnType m), sfBody = None\<rparr>],
         sgMethods = (sgMethods st)(cls @ ''.'' @ mdlName m \<mapsto> length (sgFunctions st)),
         sgDeclarations = sgDeclarations st @ [m]\<rparr> = Ret st'"
    by (auto simp: Let_def split: if_splits)
  show ?case
    by (rule Cons.IH [OF r(2)])
      (use Cons.prems(2) lowerParameters_length [OF r(1)] in
        \<open>auto simp: loweredOK_def sameArity_def list_all2_appendI less_Suc_eq\<close>)
qed simp

lemma lowerClasses_ends: "ends (lowerClasses profile taken cs st)"
  by (induction cs arbitrary: taken st) (auto intro!: ends_bind lowerMethods_ends)

lemma lowerClasses_OK: "lowerClasses profile taken cs st = Ret st' \<Longrightarrow> loweredOK st \<Longrightarrow> loweredOK st'"
  by (induction cs arbitrary: taken st) (auto dest: lowerMethods_OK split: if_splits)

lemma bindParameters_ends: "j + length ps \<le> length ts \<Longrightarrow> ends (bindParameters reserved j ps ts env)"
  by (induction ps arbitrary: j env) (auto intro!: ends_bind)

lemma lowerBody_ends:
  assumes "contextOK lc" "sameArity (lcFunctions lc ! lcFunction lc) m"
  shows "ends (lowerBody lc m)"
proof -
  have body: "ends (case mdlBody m of
         BlockExpr ss _ \<Rightarrow>
           bindR (lowerBlock lc t env ss (length (mdlParams m))) (\<lambda>(body, _). Ret body)
       | e \<Rightarrow>
           bindR (lowerExpr lc env e t) (\<lambda>v. Ret [StreamStmt KindReturn 0 NoStreamType (Some v) [] []]))" for env t
    using assms(1) by (cases "mdlBody m") (auto intro!: ends_bind lowerBlock_ends lowerExpr_ends)
  show ?thesis
    unfolding lowerBody_def using assms
    by (auto simp: contextOK_def sameArity_def intro!: ends_bind bindParameters_ends body)
qed

lemma lowerBodies_ends:
  "contextOK (lc\<lparr>lcFunction := 0\<rparr>) \<or> ms = [] \<Longrightarrow> list_all2 sameArity (drop i (lcFunctions lc)) ms \<Longrightarrow>
     ends (lowerBodies lc i ms)"
proof (induction ms arbitrary: i)
  case (Cons m ms)
  then have i: "i < length (lcFunctions lc)" by (metis drop_all leI list.distinct(1) list_all2_Nil)
  with Cons.prems have "sameArity (lcFunctions lc ! i) m" "list_all2 sameArity (drop (Suc i) (lcFunctions lc)) ms"
    by (simp_all add: Cons_nth_drop_Suc [symmetric])
  with Cons i show ?case
    by (auto simp: contextOK_def intro!: ends_bind lowerBody_ends)
qed simp

lemma lowerNativeComposition_ends: "ends (lowerNativeComposition source base ns)"
  if "spFunctions base = []"
  unfolding lowerNativeComposition_def Let_def
proof (intro ends_bind lowerClasses_ends)
  let ?start = "\<lparr>sgFunctions = spFunctions base, sgMethods = Map.empty, sgDeclarations = []\<rparr>"
  fix st
  assume "lowerClasses (spProfile base) (reservedNames (spProfile base) ns) (sprClasses source) ?start = Ret st"
  from lowerClasses_OK [OF this] have OK: "loweredOK st" using that by (simp add: loweredOK_def)
  let ?lc = "\<lparr>lcProfile = spProfile base, lcFunctions = sgFunctions st, lcMethods = sgMethods st,
     lcNative = bindingsByName (spBindings base), lcReserved = reservedNames (spProfile base) ns, lcFunction = 0\<rparr>"
  have "ends (lowerBodies ?lc 0 (sgDeclarations st))"
  proof (rule lowerBodies_ends)
    show "contextOK (?lc\<lparr>lcFunction := 0\<rparr>) \<or> sgDeclarations st = []"
      using OK by (cases "sgDeclarations st") (auto simp: loweredOK_def contextOK_def list_all2_Cons2)
  qed (use OK in \<open>simp add: loweredOK_def\<close>)
  then show "ends (if 64 < length (sgFunctions st) then Err ''too many composition functions''
      else bindR (lowerBodies ?lc 0 (sgDeclarations st)) (\<lambda>bodies.
        andThen (Validate (base\<lparr>spFunctions := map2 withBody (sgFunctions st) bodies\<rparr>))
          (Ret (base\<lparr>spFunctions := map2 withBody (sgFunctions st) bodies\<rparr>))))"
    by (auto intro!: ends_bind ends_andThen Validate_ends)
qed

section \<open>Direct calls\<close>

lemma directClasses_ends: "ends (directClasses ns taken aliases cs)"
proof -
  have parameters: "ends (directParameters ns i ps params)" for i ps params
    by (induction ps arbitrary: i params) (auto simp: Let_def intro!: ends_bind)
  have arguments: "ends (directArguments params es)" for params es
    by (induction es) (auto intro!: ends_bind split: source_expr.split option.split)
  have direct: "ends (directMethod ns aliases cls m)" for cls m
    unfolding directMethod_def
    by (cases "mdlBody m") (auto intro!: ends_bind parameters arguments split: option.split)
  have "ends (directMethods ns aliases cls ms)" for cls ms
    by (induction ms) (auto intro!: ends_bind direct)
  then show ?thesis by (induction cs arbitrary: taken) (auto intro!: ends_bind)
qed

section \<open>Manifests\<close>

text \<open>
  The binding is an operation of a manifest that validates, decoded from the text of a dependency
  whose digest is the pinned one.
\<close>

definition locked :: "stream_library \<Rightarrow> stream_dependency list \<Rightarrow> binding \<Rightarrow> bool" where
  "locked lib deps b \<longleftrightarrow>
     (\<exists>d \<in> set deps. \<exists>m. slDigest lib (dpManifest d) = dpSHA256 d \<and> ValidDigest (dpSHA256 d)
        \<and> slDecode lib (dpManifest d) = Inr m \<and> ValidateManifest m = Ret ()
        \<and> bdManifestSHA256 b = dpSHA256 d \<and> bdPackage b = mfPackage m \<and> bdOperation b \<in> set (mfOperations m))"

lemma bindOperations_ends: "ends (bindOperations mf sha xs st)"
  by (induction xs arbitrary: st) auto

lemma bindOperations_bindings:
  "bindOperations mf sha xs st = Ret st' \<Longrightarrow>
     dsBindings st' = dsBindings st @ map (\<lambda>x. \<lparr>bdPackage = mfPackage mf, bdManifestSHA256 = sha, bdOperation = x\<rparr>) xs"
  by (induction xs arbitrary: st) (auto split: if_splits)

lemma addDependency_ends: "ends (addDependency lib profile d st)"
  by (auto simp: addDependency_def intro!: ends_andThen manifest_ends bindOperations_ends split: sum.split)

lemma addDependency_locked:
  "addDependency lib profile d st = Ret st' \<Longrightarrow> d \<in> set deps \<Longrightarrow> list_all (locked lib deps) (dsBindings st) \<Longrightarrow>
     list_all (locked lib deps) (dsBindings st')"
  by (fastforce simp: addDependency_def list_all_iff locked_def dest!: bindOperations_bindings
      split: if_splits sum.splits)

lemma addDependencies_ends: "ends (addDependencies lib profile ds st)"
  by (induction ds arbitrary: st) (auto intro!: ends_bind addDependency_ends)

lemma addDependencies_locked:
  "addDependencies lib profile ds st = Ret st' \<Longrightarrow> set ds \<subseteq> set deps \<Longrightarrow>
     list_all (locked lib deps) (dsBindings st) \<Longrightarrow> list_all (locked lib deps) (dsBindings st')"
proof (induction ds arbitrary: st)
  case (Cons d ds)
  then obtain st1 where "addDependency lib profile d st = Ret st1" "addDependencies lib profile ds st1 = Ret st'"
    by auto
  with Cons addDependency_locked [of lib profile d st st1 deps] show ?case by simp
qed simp

section \<open>The source\<close>

lemma normalizeSourcePath_nonempty: "normalizeSourcePath p \<noteq> []"
  by (simp add: normalizeSourcePath_def Clean_def Let_def)

lemma NewSourceSet_one:
  assumes "NewSourceSet [x] = (s, ds)" "\<not> hasErrors ds"
  obtains f where "ssFiles s = [f]" "sfID f \<noteq> []"
  using assms normalizeSourcePath_nonempty [of "siPath x"]
  by (auto simp: NewSourceSet_def sortInputs_def stableBy_def sliceStable_def addSource_def hasErrors_def
      sortDiagnostics_def newSourceFile_def Let_def oneDiagnostic_def split: if_splits)

lemma parseStreamFile_ends:
  assumes "sfID file \<noteq> []"
  shows "ends (parseStreamFile profile file)"
proof -
  have "ends (parsedR (parseProgram (parserContext file c True toks) 0))" if "lex file = Inr toks" for c toks
    using parseProgram_wp [OF lex_tokensOK [OF that assms, of c True] lex_tokensSolid [OF that]]
    by (auto simp: wpP_def parsedR_def split: parsed.splits)
  then show ?thesis
    unfolding parseStreamFile_def by (auto intro!: ends_bind split: sum.split)
qed

section \<open>Properties\<close>

lemma compile_ends: "ends (CompileNativeStreamsWithProfile lib source deps profile)"
  by (auto simp: CompileNativeStreamsWithProfile_def Let_def
      intro!: ends_bind ends_andThen addDependencies_ends parseStreamFile_ends lowerNativeComposition_ends
        directClasses_ends Validate_ends
      split: prod.split elim!: NewSourceSet_one)

lemma lowerNativeComposition_Ret:
  "lowerNativeComposition source base ns = Ret p \<Longrightarrow>
     Validate p = Ret () \<and> spProfile p = spProfile base \<and> spSourceSHA256 p = spSourceSHA256 base
     \<and> spBindings p = spBindings base"
  by (auto simp: lowerNativeComposition_def Let_def split: if_splits)

text \<open>C31: Compiling a native-stream source ends, for every source, dependencies and profile, without a
  panic: in an error, or in a program that validates, has the selected profile and the digest of the
  source, and binds only operations of manifests decoded from dependencies whose digests are the
  pinned ones.\<close>

theorem compile_streams_total:
  "case CompileNativeStreamsWithProfile lib source deps profile of
     Ret p \<Rightarrow> Validate p = Ret () \<and> spProfile p = profile \<and> spSourceSHA256 p = slDigest lib (siData source)
       \<and> list_all (locked lib deps) (spBindings p)
   | Err m \<Rightarrow> True | Panic \<Rightarrow> False | Timeout \<Rightarrow> False"
proof (cases "CompileNativeStreamsWithProfile lib source deps profile")
  case (Ret p)
  obtain sources ds where set: "NewSourceSet [source] = (sources, ds)" by (cases "NewSourceSet [source]")
  from Ret obtain st where st: "addDependencies lib profile deps
        \<lparr>dsPackages = {}, dsNamespaces = {}, dsAliases = Map.empty, dsBindings = []\<rparr> = Ret st"
      "Validate p = Ret ()" "spProfile p = profile" "spSourceSHA256 p = slDigest lib (siData source)"
      "spBindings p = dsBindings st"
    by (auto simp: CompileNativeStreamsWithProfile_def set Let_def split: if_splits
        dest!: lowerNativeComposition_Ret)
  from addDependencies_locked [OF st(1) order_refl] st Ret show ?thesis by simp
qed (use compile_ends [of lib source deps profile] in simp_all)

end
