(* ===== verification/BlockUpgrade.thy ===== *)
theory BlockUpgrade
  imports DeclRules
begin

text \<open>
  The contracts v0.113.0, v0.114.0 and v0.115.0 have the same expressions, and the general blocks of
  v0.114.0 take every block body of v0.113.0.
\<close>

section \<open>Expressions of the last contracts\<close>

definition late :: "language_contract \<Rightarrow> bool" where
  "late c \<longleftrightarrow> 113 \<le> c \<and> c \<le> 115"

lemma late_contracts [simp]:
  assumes "late c"
  shows "hasArithmeticResultSourceContract c" "hasPrimitiveOptionalSourceContract c"
    "hasMatchSourceContract c" "hasPropagationSourceContract c"
    "hasPrimitiveRecordConstructionSourceContract c" "hasCaseFoldedTextContainmentSourceContract c"
    "hasTextTrimSourceContract c" "hasPrimitiveOptionalDefaultSourceContract c"
    "hasPrimitiveRecordListSourceContract c" "hasNamedRecordPredicateSourceContract c"
    "hasPrimitiveRecordListCountSourceContract c" "hasPrimitiveRecordListAppendSourceContract c"
    "hasPrimitiveRecordListAtSourceContract c" "hasPrimitiveRecordListFindByTextSourceContract c"
    "hasPrimitiveRecordListFilterByTextSourceContract c"
    "hasPrimitiveRecordListFilterContainsCaseFoldedSourceContract c"
    "hasPrimitiveRecordListFilterJoinedContainsCaseFoldedSourceContract c"
    "hasPrimitiveRecordListSortByOrdinalSourceContract c" "hasSnapshotResultSourceContract c"
    "hasPureCallSourceContract c" "hasRecordFieldProjectionSourceContract c"
    "hasConditionalSourceContract c" "hasImmutableLocalSourceContract c"
    "hasTerminalIfSourceContract c" "hasBranchLocalSourceContract c"
    "hasGeneralBranchLocalSequenceSourceContract c" "hasImmutableLocalSequenceSourceContract c"
  using assms
  by (simp_all add: late_def hasArithmeticResultSourceContract_def hasPrimitiveOptionalSourceContract_def
    hasMatchSourceContract_def hasPropagationSourceContract_def
    hasPrimitiveRecordConstructionSourceContract_def hasCaseFoldedTextContainmentSourceContract_def
    hasTextTrimSourceContract_def hasPrimitiveOptionalDefaultSourceContract_def
    hasPrimitiveRecordListSourceContract_def hasNamedRecordPredicateSourceContract_def
    hasPrimitiveRecordListCountSourceContract_def hasPrimitiveRecordListAppendSourceContract_def
    hasPrimitiveRecordListAtSourceContract_def hasPrimitiveRecordListFindByTextSourceContract_def
    hasPrimitiveRecordListFilterByTextSourceContract_def
    hasPrimitiveRecordListFilterContainsCaseFoldedSourceContract_def
    hasPrimitiveRecordListFilterJoinedContainsCaseFoldedSourceContract_def
    hasPrimitiveRecordListSortByOrdinalSourceContract_def hasSnapshotResultSourceContract_def
    hasPureCallSourceContract_def hasRecordFieldProjectionSourceContract_def
    hasConditionalSourceContract_def hasImmutableLocalSourceContract_def
    hasTerminalIfSourceContract_def hasBranchLocalSourceContract_def
    hasGeneralBranchLocalSequenceSourceContract_def hasImmutableLocalSequenceSourceContract_def
    isV740OrLaterSourceContract_def isV310OrEarlierCapability_def)

lemma late_bounds [simp]:
  "late c \<Longrightarrow> c \<le> 115" "late c \<Longrightarrow> n \<le> 113 \<Longrightarrow> n \<le> c" "late c \<Longrightarrow> n < 113 \<Longrightarrow> \<not> c \<le> n"
  by (simp_all add: late_def)

lemma contract_free [simp]:
  "peekP (pc\<lparr>pcContract := c\<rparr>) f = peekP pc f" "peekAtP (pc\<lparr>pcContract := c\<rparr>) k f = peekAtP pc k f"
  "nextP (pc\<lparr>pcContract := c\<rparr>) = nextP pc" "expectP (pc\<lparr>pcContract := c\<rparr>) = expectP pc"
  "errf (pc\<lparr>pcContract := c\<rparr>) = errf pc" "loopFuel (pc\<lparr>pcContract := c\<rparr>) = loopFuel pc"
  by (simp_all add: peekP_def peekAtP_def nextP_def expectP_def errf_def loopFuel_def fun_eq_iff)

text \<open>Forms that do not look at the contract.\<close>

lemma forms_contract_free [simp]:
  "unaryForm (pc\<lparr>pcContract := c\<rparr>) = unaryForm pc" "binaryForm (pc\<lparr>pcContract := c\<rparr>) = binaryForm pc"
  "parsePropagate (pc\<lparr>pcContract := c\<rparr>) = parsePropagate pc" "fieldSelector (pc\<lparr>pcContract := c\<rparr>) = fieldSelector pc"
  "predicateArgument (pc\<lparr>pcContract := c\<rparr>) = predicateArgument pc"
  "recordFieldTurn (pc\<lparr>pcContract := c\<rparr>) = recordFieldTurn pc"
  "callArgumentTurn (pc\<lparr>pcContract := c\<rparr>) = callArgumentTurn pc"
  "directionTurn (pc\<lparr>pcContract := c\<rparr>) = directionTurn pc" "legacyTurn (pc\<lparr>pcContract := c\<rparr>) = legacyTurn pc"
  "joinedSelector (pc\<lparr>pcContract := c\<rparr>) = joinedSelector pc"
  by (simp_all add: unaryForm_def binaryForm_def parsePropagate_def fieldSelector_def predicateArgument_def
      recordFieldTurn_def callArgumentTurn_def directionTurn_def legacyTurn_def joinedSelector_def fun_eq_iff cong: if_cong option.case_cong)

lemma more_contract_free [simp]:
  "selectorForm (pc\<lparr>pcContract := c\<rparr>) = selectorForm pc"
  "parseListFilterPredicate (pc\<lparr>pcContract := c\<rparr>) = parseListFilterPredicate pc"
  "parseRecordConstruction (pc\<lparr>pcContract := c\<rparr>) = parseRecordConstruction pc"
  "parsePureCall (pc\<lparr>pcContract := c\<rparr>) = parsePureCall pc"
  "sortFromV32 (pc\<lparr>pcContract := c\<rparr>) = sortFromV32 pc"
  "fixedSelectors (pc\<lparr>pcContract := c\<rparr>) n = fixedSelectors pc n"
proof -
  show "fixedSelectors (pc\<lparr>pcContract := c\<rparr>) n = fixedSelectors pc n"
    by (induction n) (rule ext, simp)+
qed (simp_all add: selectorForm_def parseListFilterPredicate_def parseRecordConstruction_def
    parsePureCall_def sortFromV32_def fun_eq_iff cong: if_cong option.case_cong)

lemma parseQualifiedCall_contract_free [simp]:
  "parseQualifiedCall (pc\<lparr>pcContract := c\<rparr>) = parseQualifiedCall pc"
  by (simp add: parseQualifiedCall_def fun_eq_iff)

lemma parseTypeRefs_late:
  "late c \<Longrightarrow> late (pcContract pc) \<Longrightarrow> parseTypeRefs (pc\<lparr>pcContract := c\<rparr>) n = parseTypeRefs pc n"
proof (induction n)
  case (Suc n)
  then show ?case
    by (simp cong: if_cong option.case_cong)
qed simp

lemma parseTypeRef_late [simp]:
  "late c \<Longrightarrow> late (pcContract pc) \<Longrightarrow> parseTypeRef (pc\<lparr>pcContract := c\<rparr>) = parseTypeRef pc"
  by (simp add: parseTypeRef_def parseTypeRefs_late)

lemma matchArmTurn_late [simp]:
  assumes "late c" "late (pcContract pc)"
  shows "matchArmTurn (pc\<lparr>pcContract := c\<rparr>) rec = matchArmTurn pc rec"
  using assms
  by (simp add: matchArmTurn_def [abs_def] matchPattern_def matchBinding_def cong: if_cong)

lemma forms_late [simp]:
  assumes "late c" "late (pcContract pc)"
  shows "resultForm (pc\<lparr>pcContract := c\<rparr>) = resultForm pc" "typeForm (pc\<lparr>pcContract := c\<rparr>) = typeForm pc"
    "parseListSortByOrdinal (pc\<lparr>pcContract := c\<rparr>) = parseListSortByOrdinal pc"
    "parseListFilterJoinedContainsCaseFolded (pc\<lparr>pcContract := c\<rparr>) = parseListFilterJoinedContainsCaseFolded pc"
    "parseMatch (pc\<lparr>pcContract := c\<rparr>) = parseMatch pc"
  using assms
  by (simp_all add: resultForm_def parseResultTypeArguments_def typeForm_def parseListSortByOrdinal_def
      parseListFilterJoinedContainsCaseFolded_def parseMatch_def fun_eq_iff cong: if_cong option.case_cong)

lemma parseIdentifier_late [simp]:
  assumes "late c" "late (pcContract pc)"
  shows "parseIdentifier (pc\<lparr>pcContract := c\<rparr>) = parseIdentifier pc"
  using assms
  by (simp add: parseIdentifier_def keywordForm_def fun_eq_iff
      parseTextContainsCaseFolded_def parseTextTrim_def parseResultIsOK_def
      parseResultSuccessOr_def parseResultFailureOr_def parseListSingleton_def parseListCount_def
      parseListAppend_def parseListAt_def parseOptionalSome_def parseOptionalHasValue_def
      parseOptionalValueOr_def parseResultOK_def parseResultErr_def parseListEmpty_def
      parseOptionalNone_def parseListFindByText_def parseListFilterByText_def
      parseListFilterContainsCaseFolded_def cong: if_cong option.case_cong)

lemma parsePostfix_late [simp]:
  "late c \<Longrightarrow> late (pcContract pc) \<Longrightarrow> parsePostfix (pc\<lparr>pcContract := c\<rparr>) = parsePostfix pc"
  by (simp add: parsePostfix_def postfixTurn_def [abs_def] parsePrimary_def fun_eq_iff
      cong: if_cong option.case_cong token_kind.case_cong)

lemma parseUnary_late [simp]:
  assumes "late c" "late (pcContract pc)"
  shows "parseUnary (pc\<lparr>pcContract := c\<rparr>) rec n = parseUnary pc rec n"
  by (induction n) (use assms in \<open>simp_all cong: if_cong\<close>)

lemma parseExpr_late [simp]:
  assumes "late c" "late (pcContract pc)"
  shows "parseExpr (pc\<lparr>pcContract := c\<rparr>) = parseExpr pc"
proof -
  have "parseExprs (pc\<lparr>pcContract := c\<rparr>) n = parseExprs pc n" for n
  proof (induction n)
    case (Suc n)
    with assms show ?case
      by (simp add: exprLevel_def [abs_def] binaryTurn_def [abs_def] conditionalTail_def [abs_def] cong: if_cong)
  qed simp
  then show ?thesis by (simp add: parseExpr_def fun_eq_iff)
qed

lemma parseLocal_late [simp]:
  "late c \<Longrightarrow> late (pcContract pc) \<Longrightarrow> parseLocal (pc\<lparr>pcContract := c\<rparr>) = parseLocal pc"
  by (simp add: parseLocal_def)

section \<open>Statements for bodies\<close>

text \<open>
  A body of locals, terminal statements and a return, and the statements of a block that say the
  same. Of the spans only those of the names are compared: the nodes cut the source differently.
\<close>

inductive sameBody :: "source_expr \<Rightarrow> source_expr source_statement list \<Rightarrow> bool" where
  sameReturn: "sameBody e [SourceStatement ''return'' False None [] zeroSpan (Some e) None None sp]"
| sameLocal: "sameBody r ss \<Longrightarrow>
    sameBody (ImmutableLocalExpr t n ns e r sp)
      (SourceStatement ''local'' False (Some t) n ns (Some e) None None sp' # ss)"
| sameIf: "sameBody x ts \<Longrightarrow> sameBody y es \<Longrightarrow>
    sameBody (ConditionalExpr c x y True sp)
      [SourceStatement ''if'' False None [] zeroSpan (Some c) (Some (BlockExpr ts tsp))
         (Some (BlockExpr es esp)) sp']"

lemma containsNode_parts:
  "containsNode p e \<longleftrightarrow> p e \<or> (\<exists>x \<in> set (SyntaxTree.expressionChildren e). containsNode p x)"
  by (subst containsNode.simps) (auto simp: list_ex_iff)

lemma containsNode_block:
  "containsNode isPropagateExpr (BlockExpr ss sp)
   \<longleftrightarrow> (\<exists>s \<in> set ss. \<exists>x \<in> set (statementChildren s). containsNode isPropagateExpr x)"
  by (subst containsNode_parts) (auto simp: blockExpressionChildren_def isPropagateExpr_def)

lemma sameBody_propagation:
  "sameBody e ss \<Longrightarrow> containsPropagationExpression (BlockExpr ss sp) = containsPropagationExpression e"
proof (induction arbitrary: sp rule: sameBody.induct)
  case (sameReturn e s)
  show ?case
    by (simp add: containsPropagationExpression_def containsNode_block statementChildren_def)
next
  case (sameLocal r ss t n ns e s s')
  have "containsNode isPropagateExpr (BlockExpr (SourceStatement ''local'' False (Some t) n ns (Some e) None None s' # ss) sp)
     \<longleftrightarrow> containsNode isPropagateExpr e \<or> containsNode isPropagateExpr (BlockExpr ss sp)"
    by (simp add: containsNode_block statementChildren_def)
  moreover have "containsNode isPropagateExpr (ImmutableLocalExpr t n ns e r s)
     \<longleftrightarrow> containsNode isPropagateExpr e \<or> containsNode isPropagateExpr r"
    by (subst containsNode_parts) (auto simp: isPropagateExpr_def)
  ultimately show ?case
    using sameLocal.IH by (simp add: containsPropagationExpression_def)
next
  case (sameIf x ts y es c s tsp esp s')
  have "containsNode isPropagateExpr (BlockExpr [SourceStatement ''if'' False None [] zeroSpan (Some c)
        (Some (BlockExpr ts tsp)) (Some (BlockExpr es esp)) s'] sp)
     \<longleftrightarrow> containsNode isPropagateExpr c \<or> containsNode isPropagateExpr (BlockExpr ts tsp)
       \<or> containsNode isPropagateExpr (BlockExpr es esp)"
    unfolding containsNode_block [of "[_]"] by (simp add: statementChildren_def)
  moreover have "containsNode isPropagateExpr (ConditionalExpr c x y True s)
     \<longleftrightarrow> containsNode isPropagateExpr c \<or> containsNode isPropagateExpr x \<or> containsNode isPropagateExpr y"
    by (subst containsNode_parts) (auto simp: isPropagateExpr_def)
  ultimately show ?case
    using sameIf.IH by (simp add: containsPropagationExpression_def)
qed

section \<open>Parsing both\<close>

lemma bind_Parsed: "bindP p f i = Parsed r k \<longleftrightarrow> (\<exists>a j. p i = Parsed a j \<and> f a j = Parsed r k)"
  by (auto simp: bindP_def split: parsed.splits)

lemma and_Parsed: "andP p q i = Parsed r k \<longleftrightarrow> (\<exists>a j. p i = Parsed a j \<and> q j = Parsed r k)"
  by (simp add: andP_def bind_Parsed)

lemma return_Parsed: "returnP a i = Parsed r k \<longleftrightarrow> r = a \<and> k = i"
  by (auto simp: returnP_def)

lemma reject_Parsed: "rejectAt sp msg i \<noteq> Parsed r k"
  by (simp add: rejectAt_def rejectP_def)

lemma peek_Parsed: "peekP pc f i = Parsed r k \<longleftrightarrow> f (peek pc i) i = Parsed r k"
  by (simp add: peekP_def)

lemma expect_Parsed:
  "n \<noteq> tokEOF \<Longrightarrow> expectP pc n i = Parsed r k \<longleftrightarrow> tkKind (peek pc i) = n \<and> r = peek pc i \<and> k = Suc i"
  using peek_before_end [of pc i] by (auto simp: expectP_def peekP_def rejectP_def andP_def bindP_def nextP_def returnP_def)

lemma next_Parsed:
  "i < length (pcToks pc) \<Longrightarrow> nextP pc i = Parsed r k \<longleftrightarrow> r = peek pc i \<and> k = Suc i"
  by (auto simp: nextP_def)

lemmas parsed_rules = bind_Parsed and_Parsed return_Parsed reject_Parsed peek_Parsed expect_Parsed

lemma parseLocal_progress:
  assumes "tokensOK pc" "i \<le> length (pcToks pc)" "parseLocal pc i = Parsed l k"
  shows "i < k \<and> k \<le> length (pcToks pc)"
  using parseLocal_wp [OF assms(1,2), of "\<lambda>_ j. i < j \<and> j \<le> length (pcToks pc)"] assms(3)
  by (simp add: wpP_def)

lemma parseTypeRef_ident: "parseTypeRef pc i = Parsed t k \<Longrightarrow> tkKind (peek pc i) = tokIdent"
  by (auto simp: parseTypeRef_def loopFuel_def bind_Parsed expect_Parsed)

text \<open>The locals in front of a return or of a terminal statement.\<close>

inductive localsUpTo :: "parse_context \<Rightarrow> nat \<Rightarrow> local_declaration list \<Rightarrow> nat \<Rightarrow> bool" for pc where
  noLocals: "localsUpTo pc i [] i"
| moreLocals: "\<not> isWord (peek pc i) ''return'' \<Longrightarrow> \<not> isWord (peek pc i) ''if'' \<Longrightarrow>
    parseLocal pc i = Parsed l k \<Longrightarrow> localsUpTo pc k ls j \<Longrightarrow> localsUpTo pc i (l # ls) j"

lemma loop_upTo:
  assumes "\<And>ls i x k. turn ls i = Parsed x k \<Longrightarrow>
      x = Inr ls \<and> k = i \<and> P i
      \<or> (\<exists>l. x = Inl (ls @ [l]) \<and> parseLocal pc i = Parsed l k
           \<and> \<not> isWord (peek pc i) ''return'' \<and> \<not> isWord (peek pc i) ''if'')"
  shows "repeatP n turn ls i = Parsed ms j \<Longrightarrow> \<exists>ns. ms = ls @ ns \<and> localsUpTo pc i ns j \<and> P j"
proof (induction n arbitrary: ls i)
  case (Suc n)
  from Suc.prems obtain x k where turn: "turn ls i = Parsed x k"
      "(case x of Inl s' \<Rightarrow> repeatP n turn s' | Inr r \<Rightarrow> returnP r) k = Parsed ms j"
    by (auto simp: bind_Parsed)
  from assms [OF turn(1)] show ?case
  proof (elim disjE exE conjE)
    assume "x = Inr ls" "k = i" "P i"
    with turn(2) show ?case by (auto simp: return_Parsed intro: noLocals)
  next
    fix l
    assume l: "x = Inl (ls @ [l])" "parseLocal pc i = Parsed l k"
      "\<not> isWord (peek pc i) ''return''" "\<not> isWord (peek pc i) ''if''"
    with turn(2) Suc.IH [of "ls @ [l]" k] obtain ns where "ms = ls @ l # ns" "localsUpTo pc k ns j" "P j" by auto
    with l show ?case by (auto intro: moreLocals)
  qed
qed (simp add: timeoutP_def)

lemma bodyLocals_upTo:
  assumes "repeatP n (bodyLocalTurn pc) [] i = Parsed ls j"
  shows "localsUpTo pc i ls j \<and> (isWord (peek pc j) ''return'' \<or> isWord (peek pc j) ''if'')"
proof -
  have "\<exists>ns. ls = [] @ ns \<and> localsUpTo pc i ns j \<and> (isWord (peek pc j) ''return'' \<or> isWord (peek pc j) ''if'')"
    by (rule loop_upTo [OF _ assms]) (auto simp: bodyLocalTurn_def Let_def parsed_rules split: if_splits)
  then show ?thesis by simp
qed

lemma branchLocals_upTo:
  assumes "repeatP n (branchLocalTurn pc b a m) [] i = Parsed ls j"
  shows "localsUpTo pc i ls j \<and> (isWord (peek pc j) ''return'' \<or> a \<and> isWord (peek pc j) ''if'')"
proof -
  have "\<exists>ns. ls = [] @ ns \<and> localsUpTo pc i ns j \<and> (isWord (peek pc j) ''return'' \<or> a \<and> isWord (peek pc j) ''if'')"
    by (rule loop_upTo [OF _ assms]) (auto simp: branchLocalTurn_def parsed_rules split: if_splits)
  then show ?thesis by simp
qed

lemma localsUpTo_length:
  "localsUpTo pc i ls j \<Longrightarrow> tokensOK pc \<Longrightarrow> i \<le> length (pcToks pc) \<Longrightarrow>
   i + length ls \<le> j \<and> j \<le> length (pcToks pc)"
  by (induction rule: localsUpTo.induct) (auto dest: parseLocal_progress)

text \<open>The statement that a local is in a general block.\<close>

definition localStatement :: "local_declaration \<Rightarrow> source_span \<Rightarrow> source_expr source_statement" where
  "localStatement l sp =
     SourceStatement ''local'' False (Some (ldTypeRef l)) (tkLit (ldName l)) (tkSpan (ldName l))
       (Some (ldInitializer l)) None None sp"

lemma parseStatement_local:
  assumes "parseLocal pc i = Parsed l k" "pcContract pc \<noteq> 115"
    and "\<not> isWord (peek pc i) ''return''" "\<not> isWord (peek pc i) ''if''"
  shows "\<exists>sp. parseStatement pc rec i = Parsed (localStatement l sp) k"
proof -
  from assms(1) have "tkKind (peek pc i) = tokIdent"
    by (auto simp: parseLocal_def parsed_rules dest: parseTypeRef_ident)
  with assms show ?thesis
    by (auto simp: parseLocal_def parseStatement_def parseLocalStatement_def valueStatement_def Let_def
        parsed_rules peekAtP_def localStatement_def)
qed

text \<open>A block of locals and a last statement, and the body it stands for.\<close>

lemma statementTurn_more:
  "tkKind (peek pc i) \<noteq> tokRBrace \<Longrightarrow> parseStatement pc rec i = Parsed s k \<Longrightarrow>
   statementTurn pc rec ss i = Parsed (Inl (ss @ [s])) k"
  by (simp add: statementTurn_def parsed_rules)

lemma statementTurn_end: "tkKind (peek pc i) = tokRBrace \<Longrightarrow> statementTurn pc rec ss i = Parsed (Inr ss) i"
  by (simp add: statementTurn_def parsed_rules)

lemma statements_locals:
  assumes "localsUpTo pc i ls j" "pcContract pc \<noteq> 115"
    and "parseStatement pc rec j = Parsed s k" "tkKind (peek pc j) \<noteq> tokRBrace" "tkKind (peek pc k) = tokRBrace"
    and "length ls + 1 < n"
  shows "\<exists>ts. list_all2 (\<lambda>l t. \<exists>sp. t = localStatement l sp) ls ts
    \<and> repeatP n (statementTurn pc rec) ss i = Parsed (ss @ ts @ [s]) k"
  using assms
proof (induction arbitrary: n ss rule: localsUpTo.induct)
  case (noLocals i)
  then obtain m where m: "n = Suc (Suc m)" by (cases n; cases "n - 1") auto
  with noLocals show ?case
    by (auto simp: bindP_def statementTurn_more statementTurn_end returnP_def)
next
  case (moreLocals i l k' ls j)
  obtain m where m: "n = Suc m" "length ls + 1 < m" using moreLocals.prems(5) by (cases n) auto
  obtain sp where sp: "parseStatement pc rec i = Parsed (localStatement l sp) k'"
    using parseStatement_local [OF moreLocals.hyps(3) moreLocals.prems(1) moreLocals.hyps(1,2)] by blast
  have "tkKind (peek pc i) = tokIdent"
    using moreLocals.hyps(3) by (auto simp: parseLocal_def parsed_rules dest: parseTypeRef_ident)
  moreover obtain ts where "list_all2 (\<lambda>l t. \<exists>sp. t = localStatement l sp) ls ts"
      "repeatP m (statementTurn pc rec) (ss @ [localStatement l sp]) k' = Parsed (ss @ localStatement l sp # ts @ [s]) k"
    using moreLocals.IH [OF moreLocals.prems(1-4) m(2), of "ss @ [localStatement l sp]"] by auto
  ultimately show ?case
    using m(1) sp by (intro exI [of _ "localStatement l sp # ts"]) (auto simp: bindP_def statementTurn_more)
qed

lemma sameBody_locals:
  "list_all2 (\<lambda>l t. \<exists>sp. t = localStatement l sp) ls ts \<Longrightarrow> sameBody e [s] \<Longrightarrow>
   sameBody (foldr (\<lambda>m body. localNode m body (mergeSpans (trSpan (ldTypeRef m)) end)) ls e) (ts @ [s])"
  by (induction rule: list_all2_induct) (auto simp: localNode_def localStatement_def intro: sameLocal)

lemma sameBody_wrap:
  assumes "list_all2 (\<lambda>l t. \<exists>sp. t = localStatement l sp) ls ts" "sameBody e [s]"
  shows "sameBody (wrapLocals start end ls e) (ts @ [s])"
proof (cases ls)
  case (Cons l ls')
  with assms(1) obtain sp ts' where "ts = localStatement l sp # ts'"
      "list_all2 (\<lambda>l t. \<exists>sp. t = localStatement l sp) ls' ts'"
    by (auto simp: list_all2_Cons1)
  with sameBody_locals [OF _ assms(2)] Cons show ?thesis
    by (auto simp: wrapLocals_def localNode_def localStatement_def intro: sameLocal)
qed (use assms in \<open>simp add: wrapLocals_def\<close>)

section \<open>Bodies as blocks\<close>

lemma localsUpTo_late:
  "localsUpTo pc i ls j \<Longrightarrow> late c \<Longrightarrow> late (pcContract pc) \<Longrightarrow> localsUpTo (pc\<lparr>pcContract := c\<rparr>) i ls j"
  by (induction rule: localsUpTo.induct) (auto intro: localsUpTo.intros)

lemma parseStatement_return:
  assumes "isWord (peek pc j) ''return''" "parseExpr pc (Suc 0) (Suc j) = Parsed e k" "tkKind (peek pc k) = tokSemi"
  shows "parseStatement pc rec j = Parsed (SourceStatement ''return'' False None [] zeroSpan (Some e) None None
    (mergeSpans (tkSpan (peek pc j)) (tkSpan (peek pc k)))) (Suc k)"
  using assms isWord_within [OF assms(1)]
  by (simp add: parseStatement_def isWord_def valueStatement_def parsed_rules peekAtP_def next_Parsed)

lemma generalBlock_body:
  assumes "tokensOK pc" "pcContract pc \<noteq> 115" "tkKind (peek pc i) = tokLBrace" "localsUpTo pc (Suc i) ls j"
    and "parseStatement pc rec j = Parsed s k" "tkKind (peek pc j) = tokIdent" "tkKind (peek pc k) = tokRBrace"
    and "sameBody e [s]"
  shows "\<exists>ss. generalBlock pc rec i =
      Parsed (BlockExpr ss (mergeSpans (tkSpan (peek pc i)) (tkSpan (peek pc k)))) (Suc k)
    \<and> sameBody (wrapLocals start end ls e) ss"
proof -
  have "Suc i \<le> length (pcToks pc)" using assms(3) peek_before_end [of pc i] by simp
  from localsUpTo_length [OF assms(4,1) this] have "length ls + 1 < loopFuel pc" by (simp add: loopFuel_def)
  from statements_locals [OF assms(4,2,5) _ assms(7) this, of "[]"] assms(6) obtain ts where
    "list_all2 (\<lambda>l t. \<exists>sp. t = localStatement l sp) ls ts"
    "repeatP (loopFuel pc) (statementTurn pc rec) [] (Suc i) = Parsed (ts @ [s]) k" by auto
  with assms(3,7) sameBody_wrap [OF _ assms(8)] show ?thesis
    by (intro exI [of _ "ts @ [s]"]) (simp add: generalBlock_def parsed_rules)
qed

definition branchEnd ::
  "parse_context \<Rightarrow> source_expr parser \<Rightarrow> string \<Rightarrow> bool \<Rightarrow> (source_expr \<times> source_span) parser" where
  "branchEnd pc nested b a =
     peekP pc (\<lambda>t.
       if a \<and> isWord t ''if''
       then bindP nested (\<lambda>returned. bindP (expectP pc tokRBrace) (\<lambda>branchEnd.
              returnP (returned, tkSpan branchEnd)))
       else parseTerminalBranchReturn pc b)"

lemma parseTerminalReturnBranch_late:
  assumes "pcContract pc = 113"
  shows "parseTerminalReturnBranch pc nested b d i = Parsed (e, end) k \<longleftrightarrow>
    tkKind (peek pc i) = tokLBrace
    \<and> (if isWord (peek pc (Suc i)) ''return'' then parseTerminalBranchReturn pc b (Suc i) = Parsed (e, end) k
       else \<exists>ls j r. repeatP (loopFuel pc) (branchLocalTurn pc b (d = 0 \<or> d = 1) None) [] (Suc i) = Parsed ls j
         \<and> branchEnd pc nested b (d = 0 \<or> d = 1) j = Parsed (r, end) k
         \<and> e = wrapLocals (tkSpan (peek pc i)) end ls r)"
proof -
  have late: "late 113" by (simp add: late_def)
  show ?thesis
  proof (cases "isWord (peek pc (Suc i)) ''return''")
    case True
    then show ?thesis by (simp add: parseTerminalReturnBranch_def parsed_rules Let_def)
  next
    case False
    with late show ?thesis
      by (simp add: parseTerminalReturnBranch_def branchEnd_def parsed_rules Let_def assms split_paired_Ex)
  qed
qed

lemma branch_block:
  assumes ok: "tokensOK pc" "pcContract pc = 113" and pc': "pc' = pc\<lparr>pcContract := 114\<rparr>"
    and nested: "\<And>j e k. nested j = Parsed e k \<Longrightarrow> isWord (peek pc j) ''if'' \<Longrightarrow>
      \<exists>s. parseStatement pc' rec j = Parsed s k \<and> sameBody e [s]"
    and parsed: "parseTerminalReturnBranch pc nested b d i = Parsed (e, end) k"
  shows "\<exists>ss sp. generalBlock pc' rec i = Parsed (BlockExpr ss sp) k \<and> sameBody e ss"
proof -
  have late: "late 114" "late (pcContract pc)" by (simp_all add: late_def ok(2))
  have brace: "tkKind (peek pc i) = tokLBrace"
    using parsed by (auto simp: parseTerminalReturnBranch_def parsed_rules)
  have inner: "\<exists>ls j r m s. localsUpTo pc (Suc i) ls j \<and> tkKind (peek pc j) = tokIdent
      \<and> parseStatement pc' rec j = Parsed s m \<and> sameBody r [s] \<and> tkKind (peek pc m) = tokRBrace \<and> k = Suc m
      \<and> e = wrapLocals (tkSpan (peek pc i)) end ls r"
  proof -
    have return: "\<exists>m s. parseStatement pc' rec j = Parsed s m \<and> sameBody r [s] \<and> tkKind (peek pc m) = tokRBrace \<and> n = Suc m"
      if "parseTerminalBranchReturn pc b j = Parsed (r, sp) n" for j r sp n
    proof -
      from that obtain l where l: "isWord (peek pc j) ''return''" "parseExpr pc (Suc 0) (Suc j) = Parsed r l"
          "tkKind (peek pc l) = tokSemi" "tkKind (peek pc (Suc l)) = tokRBrace" "n = Suc (Suc l)"
        by (auto simp: parseTerminalBranchReturn_def parsed_rules isWord_def split: if_splits)
      have "parseStatement pc' rec j = Parsed (SourceStatement ''return'' False None [] zeroSpan (Some r) None None
          (mergeSpans (tkSpan (peek pc j)) (tkSpan (peek pc l)))) (Suc l)"
        using parseStatement_return [of pc' j r l rec] l(1-3) late by (simp add: pc')
      with l show ?thesis by (auto intro: sameReturn)
    qed
    have ident: "tkKind (peek pc j) = tokIdent" if "isWord (peek pc j) w" for j w
      using that by (simp add: isWord_def)
    consider (direct) "isWord (peek pc (Suc i)) ''return''" "parseTerminalBranchReturn pc b (Suc i) = Parsed (e, end) k"
      | (locals) a ls j r where "repeatP (loopFuel pc) (branchLocalTurn pc b a None) [] (Suc i) = Parsed ls j"
          "branchEnd pc nested b a j = Parsed (r, end) k" "e = wrapLocals (tkSpan (peek pc i)) end ls r"
      using parsed unfolding parseTerminalReturnBranch_late [OF ok(2)] by (auto split: if_splits)
    then show ?thesis
    proof cases
      case direct
      from return [OF direct(2)] obtain m s where "parseStatement pc' rec (Suc i) = Parsed s m" "sameBody e [s]"
          "tkKind (peek pc m) = tokRBrace" "k = Suc m" by blast
      with ident [OF direct(1)] show ?thesis
        by (intro exI [of _ "[]"] exI [of _ "Suc i"] exI [of _ e] exI [of _ m] exI [of _ s])
          (auto simp: wrapLocals_def intro: noLocals)
    next
      case (locals a ls j r)
      from branchLocals_upTo [OF locals(1)]
      have upTo: "localsUpTo pc (Suc i) ls j" "isWord (peek pc j) ''return'' \<or> a \<and> isWord (peek pc j) ''if''" by auto
      have "\<exists>m s. parseStatement pc' rec j = Parsed s m \<and> sameBody r [s] \<and> tkKind (peek pc m) = tokRBrace \<and> k = Suc m"
      proof (cases "a \<and> isWord (peek pc j) ''if''")
        case True
        with locals(2) obtain m where m: "nested j = Parsed r m" "tkKind (peek pc m) = tokRBrace" "k = Suc m"
          by (auto simp: branchEnd_def parsed_rules)
        with nested [OF m(1)] True show ?thesis by blast
      next
        case False
        with locals(2) have "parseTerminalBranchReturn pc b j = Parsed (r, end) k"
          by (simp add: branchEnd_def peek_Parsed)
        with return show ?thesis by blast
      qed
      with upTo ident locals(3) show ?thesis by blast
    qed
  qed
  then obtain ls j r m s where *: "localsUpTo pc (Suc i) ls j" "tkKind (peek pc j) = tokIdent"
      "parseStatement pc' rec j = Parsed s m" "sameBody r [s]" "tkKind (peek pc m) = tokRBrace" "k = Suc m"
      "e = wrapLocals (tkSpan (peek pc i)) end ls r" by blast
  have "localsUpTo pc' (Suc i) ls j" using localsUpTo_late [OF *(1) late] by (simp add: pc')
  with generalBlock_body [of pc' i ls j rec s m r "tkSpan (peek pc i)" "end"] * brace ok show ?thesis
    by (auto simp: pc')
qed

lemma if_statement:
  assumes ok: "pcContract pc = 113" and pc': "pc' = pc\<lparr>pcContract := 114\<rparr>"
    and branch: "\<And>b i e end k. parseTerminalReturnBranch pc nested b d i = Parsed (e, end) k \<Longrightarrow>
      \<exists>ss sp. rec i = Parsed (BlockExpr ss sp) k \<and> sameBody e ss"
    and parsed: "terminalIfElse pc nested d i = Parsed e k"
  shows "\<exists>s. parseStatement pc' rec i = Parsed s k \<and> sameBody e [s]"
proof -
  have late: "late 114" "late (pcContract pc)" by (simp_all add: late_def ok)
  from parsed obtain c l x xe m y ye where parts: "isWord (peek pc i) ''if''" "tkKind (peek pc (Suc i)) = tokLParen"
      "parseExpr pc (Suc 0) (Suc (Suc i)) = Parsed c l" "tkKind (peek pc l) = tokRParen"
      "parseTerminalReturnBranch pc nested ''if'' d (Suc l) = Parsed (x, xe) m" "isWord (peek pc m) ''else''"
      "parseTerminalReturnBranch pc nested ''else'' d (Suc m) = Parsed (y, ye) k"
      "e = ConditionalExpr c x y True (mergeSpans (tkSpan (peek pc i)) ye)"
    by (auto simp: terminalIfElse_def parsed_rules isWord_def split: if_splits)
  obtain ts tsp where ts: "rec (Suc l) = Parsed (BlockExpr ts tsp) m" "sameBody x ts"
    using branch [OF parts(5)] by blast
  obtain es esp where es: "rec (Suc m) = Parsed (BlockExpr es esp) k" "sameBody y es"
    using branch [OF parts(7)] by blast
  have kind: "tkKind (peek pc i) = tokIdent" using parts(1) by (simp add: isWord_def)
  have "parseIfStatement pc' rec (peek pc i) i = Parsed (SourceStatement ''if'' False None [] zeroSpan (Some c)
      (Some (BlockExpr ts tsp)) (Some (BlockExpr es esp)) (mergeSpans (tkSpan (peek pc i)) esp)) k"
    using parts ts(1) es(1) late isWord_within [OF parts(1)] isWord_within [OF parts(6)]
    by (simp add: pc' parseIfStatement_def parsed_rules next_Parsed)
  with parts(1) kind have "parseStatement pc' rec i = Parsed (SourceStatement ''if'' False None [] zeroSpan (Some c)
      (Some (BlockExpr ts tsp)) (Some (BlockExpr es esp)) (mergeSpans (tkSpan (peek pc i)) esp)) k"
    by (simp add: pc' parseStatement_def peekAtP_def peekP_def)
  with parts(8) ts(2) es(2) show ?thesis by (auto intro: sameIf)
qed

lemma terminalIf_statement:
  assumes ok: "tokensOK pc" "pcContract pc = 113" and pc': "pc' = pc\<lparr>pcContract := 114\<rparr>"
  shows "parseTerminalIfElses pc n d i = Parsed e k \<Longrightarrow> n \<le> m \<Longrightarrow>
    \<exists>s. parseStatement pc' (parseGeneralBlocks pc' m) i = Parsed s k \<and> sameBody e [s]"
proof (induction n arbitrary: d i e k m)
  case (Suc n)
  then obtain m' where m: "m = Suc m'" "n \<le> m'" by (cases m) auto
  have "\<exists>ss sp. parseGeneralBlocks pc' m i = Parsed (BlockExpr ss sp) k \<and> sameBody e ss"
    if "parseTerminalReturnBranch pc (parseTerminalIfElses pc n (Suc d)) b d i = Parsed (e, end) k" for b i e "end" k
    using branch_block [OF ok pc' Suc.IH [OF _ m(2)] that] by (simp add: m(1))
  from if_statement [OF ok(2) pc' this] Suc.prems(1) show ?case by simp
qed (simp add: timeoutP_def)

section \<open>The property\<close>

text \<open>C15: A block body that v0.113.0 accepts is accepted under v0.114.0, up to the same token: as the
  general block of its statements, or, when it propagates a result, as the same body.\<close>

theorem block_upgrade:
  assumes "tokensOK pc" "pcContract pc = 113" "tkKind (peek pc i) = tokLBrace"
    and "parseMethodBody pc i = Parsed (body, end) k"
  shows "\<exists>ss sp. sameBody body ss
    \<and> parseMethodBody (pc\<lparr>pcContract := 114\<rparr>) i =
        Parsed (if containsPropagationExpression body then (body, end) else (BlockExpr ss sp, sp)) k"
proof -
  let ?pc = "pc\<lparr>pcContract := 114\<rparr>"
  have late: "late 114" "late (pcContract pc)" by (simp_all add: late_def assms(2))
  have plain: "parsePlainBody pc i = Parsed (body, end) k"
    using assms(2,4) by (simp add: parseMethodBody_def peek_Parsed)
  have i: "i < length (pcToks pc)" using assms(3) peek_before_end [of pc i] by simp
  from plain assms(3) i obtain ls j r m where parts: "repeatP (loopFuel pc) (bodyLocalTurn pc) [] (Suc i) = Parsed ls j"
      "(if isWord (peek pc j) ''if'' then parseTerminalIfElse pc else parseBodyReturn pc ls) j = Parsed r m"
      "tkKind (peek pc m) = tokRBrace" "k = Suc m" "end = tkSpan (peek pc m)"
      "body = wrapLocals (tkSpan (peek pc i)) end ls r"
    using late(2) by (auto simp: parsePlainBody_def parseLocalBlock_def parsed_rules next_Parsed simp del: if_split)
  from bodyLocals_upTo [OF parts(1)] have upTo: "localsUpTo pc (Suc i) ls j"
      "isWord (peek pc j) ''return'' \<or> isWord (peek pc j) ''if''" by auto
  have "\<exists>s. parseStatement ?pc (parseGeneralBlocks ?pc (length (pcToks pc))) j = Parsed s m \<and> sameBody r [s]"
  proof (cases "isWord (peek pc j) ''if''")
    case True
    with parts(2) have terminal: "parseTerminalIfElses pc 3 0 j = Parsed r m" by (simp add: parseTerminalIfElse_def)
    have "tkKind (peek pc (Suc j)) = tokLParen"
      using terminal by (auto simp: numeral_3_eq_3 terminalIfElse_def parsed_rules split: if_splits)
    then have "Suc j < length (pcToks pc)" using peek_before_end [of pc "Suc j"] by simp
    moreover have "Suc i \<le> j" using localsUpTo_length [OF upTo(1) assms(1)] i by simp
    ultimately have "3 \<le> length (pcToks pc)" by simp
    from terminalIf_statement [OF assms(1,2) refl terminal this] show ?thesis .
  next
    case False
    with parts(2) upTo(2) obtain l where "isWord (peek pc j) ''return''" "parseExpr pc (Suc 0) (Suc j) = Parsed r l"
        "tkKind (peek pc l) = tokSemi" "m = Suc l"
      by (auto simp: parseBodyReturn_def parsed_rules isWord_def split: if_splits)
    with parseStatement_return [of ?pc j r l] late show ?thesis by (auto intro: sameReturn)
  qed
  then obtain s where s: "parseStatement ?pc (parseGeneralBlocks ?pc (length (pcToks pc))) j = Parsed s m" "sameBody r [s]"
    by blast
  have "localsUpTo ?pc (Suc i) ls j" using localsUpTo_late [OF upTo(1) late] .
  from generalBlock_body [OF _ _ _ this s(1) _ _ s(2), of "tkSpan (peek pc i)" "end"] assms(1,3) upTo(2) parts(3,4,6)
  obtain ss sp where block: "parseGeneralBlock ?pc i = Parsed (BlockExpr ss sp) k" "sameBody body ss"
    by (auto simp: parseGeneralBlock_def loopFuel_def isWord_def)
  have "pc\<lparr>pcContract := 114, pcContract := 113\<rparr> = pc" using assms(2) by simp
  with block assms(3) plain sameBody_propagation [OF block(2)] show ?thesis
    by (intro exI [of _ ss] exI [of _ sp]) (simp add: parseMethodBody_def peekP_def)
qed

text \<open>\<open>{ int n = 1; return n; }\<close> as tokens.\<close>

definition bodyTokens :: "token list" where
  "bodyTokens =
     map (\<lambda>(k, lit, i, j). mkToken k lit (spanAt ''a.pipe'' i j))
       [(tokLBrace, ''{'', 0, 1), (tokIdent, ''int'', 2, 5), (tokIdent, ''n'', 6, 7), (tokAssign, ''='', 8, 9),
        (tokInt, ''1'', 10, 11), (tokSemi, '';'', 11, 12), (tokIdent, ''return'', 13, 19),
        (tokIdent, ''n'', 20, 21), (tokSemi, '';'', 21, 22), (tokRBrace, ''}'', 23, 24)]"

definition bodyContext :: parse_context where
  "bodyContext =
     \<lparr>pcFile = ''a.pipe'', pcEnd = 24, pcContract = 113, pcNativeStreams = False, pcToks = bodyTokens\<rparr>"

definition sampleBody :: source_expr where
  "sampleBody =
     ImmutableLocalExpr (unresolvedPrimitive TypeInt (spanAt ''a.pipe'' 2 5)) ''n'' (spanAt ''a.pipe'' 6 7)
       (LiteralExpr ((SyntaxTree.zeroValue TypeInt)\<lparr>svInt := 1\<rparr>) (spanAt ''a.pipe'' 10 11))
       (IdentExpr ''n'' (spanAt ''a.pipe'' 20 21)) (spanAt ''a.pipe'' 0 24)"

lemma bodyContext_parses: "parseMethodBody bodyContext 0 = Parsed (sampleBody, spanAt ''a.pipe'' 23 24) 10"
  by code_simp

lemma bodyContext_ok: "tokensOK bodyContext"
  by (simp add: tokensOK_def bodyContext_def bodyTokens_def spanAt_def mkToken_def)

theorem block_upgrade_witness:
  "\<exists>ss sp. sameBody sampleBody ss
    \<and> parseMethodBody (bodyContext\<lparr>pcContract := 114\<rparr>) 0 =
        Parsed (if containsPropagationExpression sampleBody then (sampleBody, spanAt ''a.pipe'' 23 24)
                else (BlockExpr ss sp, sp)) 10"
  by (rule block_upgrade [OF bodyContext_ok _ _ bodyContext_parses])
    (simp_all add: bodyContext_def bodyTokens_def peek_def mkToken_def)

end
