(* ===== verification/ShapeAgreement.thy ===== *)
theory ShapeAgreement
  imports SourceShapes CoreShapes
begin

text \<open>
  The parser and the type checker test the shape of a method body on the syntax tree, the Core
  validator tests it again on the lowered expression. The two are written twice, in ast.go and in
  coreir/semantics.go; here they are shown to agree on trees of one form.
\<close>

section \<open>Trees of one form\<close>

text \<open>What the shape tests look at in a node; every other kind is the same to them.\<close>

datatype node_form = FormConditional bool | FormLocal | FormMatch | FormPropagate | FormOther

definition sourceForm :: "source_expr \<Rightarrow> node_form" where
  "sourceForm s =
     (case s of
        ConditionalExpr _ _ _ terminal _ \<Rightarrow> FormConditional terminal
      | ImmutableLocalExpr _ _ _ _ _ _ \<Rightarrow> FormLocal
      | MatchExpr _ _ _ \<Rightarrow> FormMatch
      | PropagateExpr _ _ \<Rightarrow> FormPropagate
      | _ \<Rightarrow> FormOther)"

definition coreForm :: "expr \<Rightarrow> node_form" where
  "coreForm c =
     (if exKind c = ExprConditional then FormConditional (isTerminalIf c)
      else if exKind c = ExprImmutableLocal then FormLocal
      else if exKind c = ExprMatch then FormMatch
      else if exKind c = ExprPropagate then FormPropagate
      else FormOther)"

inductive sameForm :: "source_expr \<Rightarrow> expr \<Rightarrow> bool" where
  sameForm: "sourceForm s = coreForm c \<Longrightarrow> CoreExpr.expressionChildren c = map Some cs \<Longrightarrow>
    list_all2 sameForm (SyntaxTree.expressionChildren s) cs \<Longrightarrow> sameForm s c"
  monos list_all2_mono

inductive_cases sameForm_cases: "sameForm s c"

definition agree :: "(source_expr \<Rightarrow> 'a) \<Rightarrow> (expr \<Rightarrow> 'a) \<Rightarrow> bool" where
  "agree P Q \<longleftrightarrow> (\<forall>s c. sameForm s c \<longrightarrow> P s = Q c)"

named_theorems agrees \<open>shape tests that agree on trees of one form\<close>

lemma agreeD: "agree P Q \<Longrightarrow> sameForm s c \<Longrightarrow> P s = Q c"
  by (simp add: agree_def)

lemma map_pointwise:
  "list_all2 R xs ys \<Longrightarrow> (\<And>x y. x \<in> set xs \<Longrightarrow> R x y \<Longrightarrow> f x = g y) \<Longrightarrow> map f xs = map g ys"
  by (induction rule: list_all2_induct) auto

lemma agree_list: "agree P Q \<Longrightarrow> list_all2 sameForm ss cs \<Longrightarrow> map P ss = map Q cs"
  by (rule map_pointwise [of sameForm]) (auto simp: agree_def)

lemma list_all_map: "list_all P xs \<longleftrightarrow> list_all (\<lambda>b. b) (map P xs)"
  by (simp add: list_all_iff)

lemma sameForm_children:
  assumes "sameForm s c"
  shows "list_all2 sameForm (SyntaxTree.expressionChildren s) (children c)"
    and "None \<notin> set (CoreExpr.expressionChildren c)"
  using assms
  by (auto elim!: sameForm_cases simp: children_def List.map_filter_def comp_def)

lemma sameForm_kind:
  assumes "sameForm s c"
  shows "isConditionalExpr s \<longleftrightarrow> exKind c = ExprConditional"
    "isImmutableLocalExpr s \<longleftrightarrow> exKind c = ExprImmutableLocal"
    "isMatchExpr s \<longleftrightarrow> exKind c = ExprMatch"
    "isPropagateExpr s \<longleftrightarrow> exKind c = ExprPropagate"
    "SyntaxTree.isTerminalIf s \<longleftrightarrow> CoreShapes.isTerminalIf c"
proof -
  have form: "sourceForm s = coreForm c" using assms by (auto elim: sameForm_cases)
  have "isConditionalExpr s \<longleftrightarrow> (\<exists>t. sourceForm s = FormConditional t)"
      "isImmutableLocalExpr s \<longleftrightarrow> sourceForm s = FormLocal"
      "isMatchExpr s \<longleftrightarrow> sourceForm s = FormMatch" "isPropagateExpr s \<longleftrightarrow> sourceForm s = FormPropagate"
      "SyntaxTree.isTerminalIf s \<longleftrightarrow> sourceForm s = FormConditional True"
    by (cases s; simp add: sourceForm_def isConditionalExpr_def isImmutableLocalExpr_def
        isMatchExpr_def isPropagateExpr_def SyntaxTree.isTerminalIf_def)+
  then show "isConditionalExpr s \<longleftrightarrow> exKind c = ExprConditional"
    "isImmutableLocalExpr s \<longleftrightarrow> exKind c = ExprImmutableLocal"
    "isMatchExpr s \<longleftrightarrow> exKind c = ExprMatch"
    "isPropagateExpr s \<longleftrightarrow> exKind c = ExprPropagate"
    "SyntaxTree.isTerminalIf s \<longleftrightarrow> CoreShapes.isTerminalIf c"
    by (auto simp: form coreForm_def CoreShapes.isTerminalIf_def split: if_splits)
qed

lemma kinds_agree [agrees]:
  "agree isConditionalExpr (\<lambda>c. exKind c = ExprConditional)"
  "agree isImmutableLocalExpr (\<lambda>c. exKind c = ExprImmutableLocal)"
  "agree isMatchExpr (\<lambda>c. exKind c = ExprMatch)"
  "agree isPropagateExpr (\<lambda>c. exKind c = ExprPropagate)"
  "agree SyntaxTree.isTerminalIf CoreShapes.isTerminalIf"
  by (simp_all add: agree_def sameForm_kind)

text \<open>A conditional and a local, with their parts.\<close>

lemma sameForm_conditional:
  assumes "sameForm (ConditionalExpr a x y t sp) c"
  obtains a' x' y' where "exKind c = ExprConditional"
    "exConditional c = Some (Conditional (Some a') (Some x') (Some y') t)"
    "sameForm a a'" "sameForm x x'" "sameForm y y'"
proof -
  from assms have k: "exKind c = ExprConditional" "CoreShapes.isTerminalIf c = t"
    by (auto elim!: sameForm_cases simp: sourceForm_def coreForm_def split: if_splits)
  from assms obtain cs where cs: "CoreExpr.expressionChildren c = map Some cs"
      "list_all2 sameForm [a, x, y] cs"
    by (auto elim!: sameForm_cases)
  then obtain a' x' y' where "cs = [a', x', y']" "sameForm a a'" "sameForm x x'" "sameForm y y'"
    by (auto simp: list_all2_Cons1)
  moreover obtain a1 x1 y1 t1 where "exConditional c = Some (Conditional a1 x1 y1 t1)"
    using k(1) cs by (cases "exConditional c"; cases "the (exConditional c)")
      (auto simp: CoreExpr.expressionChildren_def)
  ultimately show thesis
    using that k cs(1) by (auto simp: CoreExpr.expressionChildren_def CoreShapes.isTerminalIf_def)
qed

lemma sameForm_local:
  assumes "sameForm (ImmutableLocalExpr t n sp i r sp') c"
  obtains p n' t' i' r' where "exKind c = ExprImmutableLocal"
    "exImmutableLocal c = Some (ImmutableLocal p n' t' (Some i') (Some r'))"
    "sameForm i i'" "sameForm r r'"
proof -
  from assms have k: "exKind c = ExprImmutableLocal"
    by (auto elim!: sameForm_cases simp: sourceForm_def coreForm_def split: if_splits)
  from assms obtain cs where cs: "CoreExpr.expressionChildren c = map Some cs"
      "list_all2 sameForm [i, r] cs"
    by (auto elim!: sameForm_cases)
  then obtain i' r' where "cs = [i', r']" "sameForm i i'" "sameForm r r'"
    by (auto simp: list_all2_Cons1)
  moreover obtain p n' t' i1 r1 where "exImmutableLocal c = Some (ImmutableLocal p n' t' i1 r1)"
    using k cs by (cases "exImmutableLocal c"; cases "the (exImmutableLocal c)")
      (auto simp: CoreExpr.expressionChildren_def)
  ultimately show thesis
    using that k cs(1) by (auto simp: CoreExpr.expressionChildren_def)
qed

section \<open>Operands and counts\<close>

lemma source_induct [case_names node]:
  assumes "\<And>s. (\<And>x. x \<in> set (SyntaxTree.expressionChildren s) \<Longrightarrow> P x) \<Longrightarrow> P s"
  shows "P s"
  by (induction s rule: measure_induct_rule [of size]) (use assms expressionChildren_size in blast)

lemma operand_agree [agrees]: "agree SyntaxTree.validConditionalOperand CoreShapes.validConditionalOperand"
proof -
  have "SyntaxTree.validConditionalOperand s = CoreShapes.validConditionalOperand c" if "sameForm s c" for s c
    using that
  proof (induction s arbitrary: c rule: source_induct)
    case (node s)
    have "list_all SyntaxTree.validConditionalOperand (SyntaxTree.expressionChildren s)
        = list_all CoreShapes.validConditionalOperand (children c)"
      unfolding list_all_map [of SyntaxTree.validConditionalOperand]
        list_all_map [of CoreShapes.validConditionalOperand]
      by (subst map_pointwise [OF sameForm_children(1) [OF node.prems] node.IH]) simp_all
    with sameForm_kind [OF node.prems] sameForm_children(2) [OF node.prems] show ?case
      by (subst SyntaxTree.validConditionalOperand.simps, subst CoreShapes.validConditionalOperand.simps)
        auto
  qed
  then show ?thesis by (simp add: agree_def)
qed

lemma countKind_node:
  "countKind q c = (if q c then 1 else 0) + sum_list (map (countKind q) (children c))"
  unfolding countKind_def
  by (subst WalkExpression.simps) (auto simp: filter_concat length_concat comp_def)

lemma countNodes_agree:
  assumes "agree p q"
  shows "agree (countNodes p) (countKind q)"
proof -
  have "countNodes p s = countKind q c" if "sameForm s c" for s c
    using that
  proof (induction s arbitrary: c rule: source_induct)
    case (node s)
    have "map (countNodes p) (SyntaxTree.expressionChildren s) = map (countKind q) (children c)"
      by (rule map_pointwise [OF sameForm_children(1) [OF node.prems] node.IH])
    with agreeD [OF assms node.prems] show ?case
      by (subst countNodes.simps, subst countKind_node) simp
  qed
  then show ?thesis by (simp add: agree_def)
qed

lemma counts_agree [agrees]:
  "agree SyntaxTree.countConditionalExpressions CoreShapes.countConditionalExpressions"
  "agree SyntaxTree.countTerminalIfStatements CoreShapes.countTerminalIfStatements"
  "agree SyntaxTree.countImmutableLocalExpressions CoreShapes.countImmutableLocalExpressions"
  "agree SyntaxTree.countPropagationExpressions CoreShapes.countPropagationExpressions"
  "agree SyntaxTree.countMatchExpressions CoreShapes.countMatchExpressions"
  unfolding SyntaxTree.countConditionalExpressions_def [abs_def]
    CoreShapes.countConditionalExpressions_def SyntaxTree.countTerminalIfStatements_def [abs_def]
    CoreShapes.countTerminalIfStatements_def SyntaxTree.countImmutableLocalExpressions_def [abs_def]
    CoreShapes.countImmutableLocalExpressions_def SyntaxTree.countPropagationExpressions_def [abs_def]
    CoreShapes.countPropagationExpressions_def SyntaxTree.countMatchExpressions_def [abs_def]
    CoreShapes.countMatchExpressions_def
  by (rule countNodes_agree, rule kinds_agree)+

lemma containsTerminalIf_agree [agrees]:
  "agree containsTerminalIfStatement (\<lambda>c. 0 < CoreShapes.countTerminalIfStatements c)"
  using agreeD [OF counts_agree(2)]
  by (simp add: agree_def containsTerminalIfStatement_def containsNode_count
      SyntaxTree.countTerminalIfStatements_def)

section \<open>Walks\<close>

lemma localSpine_local:
  "exKind c = ExprImmutableLocal \<Longrightarrow> exImmutableLocal c = Some (ImmutableLocal p n t (Some i) (Some r)) \<Longrightarrow>
     localSpine c = map_option (\<lambda>(rest, tail). (i # rest, tail)) (localSpine r)"
  by (subst localSpine.simps) simp

lemma locals_agree:
  assumes "sameForm s c" "localSequence s = (is, tail)"
  obtains is' tail' where "localSpine c = Some (is', tail')" "list_all2 sameForm is is'"
    "sameForm tail tail'" "\<not> isImmutableLocalExpr tail"
  using assms
proof (induction s arbitrary: c "is" thesis rule: localSequence.induct)
  case (1 t n sp i r sp')
  obtain p n' t' i' r' where c: "exKind c = ExprImmutableLocal"
      "exImmutableLocal c = Some (ImmutableLocal p n' t' (Some i') (Some r'))"
      "sameForm i i'" "sameForm r r'"
    by (rule sameForm_local [OF "1.prems"(2)])
  obtain js where js: "localSequence r = (js, tail)" "is = i # js"
    using "1.prems"(3) by (auto split: prod.splits)
  obtain js' tail' where "localSpine r' = Some (js', tail')" "list_all2 sameForm js js'"
      "sameForm tail tail'" "\<not> isImmutableLocalExpr tail"
    by (rule "1.IH" [OF _ c(4) js(1)])
  with c js(2) "1.prems"(1) show ?case
    by (simp add: localSpine_local [OF c(1,2)])
qed (use sameForm_kind(2) in \<open>force simp: localSpine.simps isImmutableLocalExpr_def\<close>)+

text \<open>Every walk starts with the locals: what it does next is compared on the tail.\<close>

lemma locals_cases:
  assumes "sameForm s c"
  obtains "is" tail is' tail' where "localSequence s = (is, tail)" "localSpine c = Some (is', tail')"
    "list_all2 sameForm is is'" "sameForm tail tail'" "length is = length is'"
proof -
  obtain "is" tail where l: "localSequence s = (is, tail)" by fastforce
  show thesis
    by (rule locals_agree [OF assms l], rule that [OF l]) (auto dest: list_all2_lengthD)
qed

lemma branchTail_agree:
  assumes "sameForm s c"
  shows "rel_option (rel_prod (=) sameForm) (SourceShapes.terminalBranchTail s) (CoreShapes.terminalBranchTail c)"
proof (rule locals_cases [OF assms])
  fix "is" tail is' tail'
  assume "localSequence s = (is, tail)" "localSpine c = Some (is', tail')"
    "list_all2 sameForm is is'" "sameForm tail tail'" "length is = length is'"
  then show ?thesis
    using agree_list [OF operand_agree, of "is" is']
    by (simp add: SourceShapes.terminalBranchTail_def CoreShapes.terminalBranchTail_def
        list_all_map [of SyntaxTree.validConditionalOperand]
        list_all_map [of CoreShapes.validConditionalOperand])
qed

lemma branchLocals_agree:
  "sameForm s c \<Longrightarrow> SourceShapes.branchLocals limit n s = CoreShapes.branchLocals limit n c"
proof (induction limit n s arbitrary: c rule: SourceShapes.branchLocals.induct)
  case (1 limit n t m sp i r sp')
  obtain p n' t' i' r' where c: "exKind c = ExprImmutableLocal"
      "exImmutableLocal c = Some (ImmutableLocal p n' t' (Some i') (Some r'))"
      "sameForm i i'" "sameForm r r'"
    by (rule sameForm_local [OF "1.prems"])
  with "1.IH" [OF _ c(4)] show ?case
    by (subst CoreShapes.branchLocals.simps) simp
qed (use sameForm_kind(2) in \<open>force simp: CoreShapes.branchLocals.simps isImmutableLocalExpr_def\<close>)+

lemma localShape_agree:
  "sameForm s c \<Longrightarrow>
     SourceShapes.terminalBranchLocalShape s limit = CoreShapes.terminalBranchLocalShape c limit"
  by (simp add: SourceShapes.terminalBranchLocalShape_def CoreShapes.terminalBranchLocalShape_def
      branchLocals_agree)

lemma straightLine_agree:
  assumes "agree f f'" "\<And>k n. agree (g k n) (g' k n)"
  shows "agree (SourceShapes.straightLine f g) (CoreShapes.straightLine f' g')"
proof -
  have "SourceShapes.straightLine f g s = CoreShapes.straightLine f' g' c" if "sameForm s c" for s c
  proof (rule locals_cases [OF that])
    fix "is" tail is' tail'
    assume "localSequence s = (is, tail)" "localSpine c = Some (is', tail')"
      "list_all2 sameForm is is'" "sameForm tail tail'" "length is = length is'"
    with agree_list [OF assms(1)] agreeD [OF assms(2)] show ?thesis
      by (simp add: SourceShapes.straightLine_def CoreShapes.straightLine_def split: option.splits)
  qed
  then show ?thesis by (simp add: agree_def)
qed

lemma terminalTree_agree:
  assumes "agree f f'" "agree g g'" "agree h h'"
  shows "agree (SourceShapes.terminalTree f g h n) (CoreShapes.terminalTree f' g' h' n)"
proof -
  have "SourceShapes.terminalTree f g h n s = CoreShapes.terminalTree f' g' h' n c"
    if "sameForm s c" for s c
    using that
  proof (induction n arbitrary: s c)
    case 0
    show ?case
    proof (rule locals_cases [OF 0])
      fix "is" tail is' tail'
      assume "localSequence s = (is, tail)" "localSpine c = Some (is', tail')"
        "list_all2 sameForm is is'" "sameForm tail tail'" "length is = length is'"
      with agree_list [OF assms(1)] agreeD [OF assms(3)] sameForm_kind(5) show ?thesis by simp
    qed
  next
    case (Suc n)
    show ?case
    proof (rule locals_cases [OF Suc.prems])
      fix "is" tail is' tail'
      assume l: "localSequence s = (is, tail)" "localSpine c = Some (is', tail')"
        "list_all2 sameForm is is'" "sameForm tail tail'" "length is = length is'"
      have m: "map f is = map f' is'" using agree_list [OF assms(1) l(3)] .
      show ?thesis
      proof (cases "\<exists>a x y sp. tail = ConditionalExpr a x y True sp")
        case True
        then obtain a x y sp where t: "tail = ConditionalExpr a x y True sp" by blast
        obtain a' x' y' where "exKind tail' = ExprConditional"
            "exConditional tail' = Some (Conditional (Some a') (Some x') (Some y') True)"
            "sameForm a a'" "sameForm x x'" "sameForm y y'"
          by (rule sameForm_conditional [OF l(4) [unfolded t]])
        with l m t Suc.IH agreeD [OF assms(2)] show ?thesis
          by (simp add: CoreShapes.isTerminalIf_def)
      next
        case False
        then have "\<not> SyntaxTree.isTerminalIf tail"
          by (cases tail) (auto simp: SyntaxTree.isTerminalIf_def)
        with l(4) have "\<not> CoreShapes.isTerminalIf tail'" by (simp add: sameForm_kind)
        with False l m agreeD [OF assms(3) l(4)] show ?thesis
          by (cases tail) auto
      qed
    qed
  qed
  then show ?thesis by (simp add: agree_def)
qed

section \<open>Choices\<close>

lemma not_conditional:
  "\<not> isConditionalExpr s \<Longrightarrow> SourceShapes.terminalChoice s = None"
  "\<not> isConditionalExpr s \<Longrightarrow> SourceShapes.innerChoice s = None"
  "\<not> isConditionalExpr s \<Longrightarrow> \<not> SourceShapes.validReturnCompositionChoice s"
  "\<not> isConditionalExpr s \<Longrightarrow> SourceShapes.valueTree n s \<longleftrightarrow> SyntaxTree.validConditionalOperand s"
  by (cases s; cases n; simp add: SourceShapes.terminalChoice_def SourceShapes.innerChoice_def
      SourceShapes.validReturnCompositionChoice_def isConditionalExpr_def)+

lemma conditional_cases:
  assumes "sameForm s c"
  obtains (other) "\<not> isConditionalExpr s" "exKind c \<noteq> ExprConditional"
  | (conditional) a x y t sp a' x' y' where "s = ConditionalExpr a x y t sp"
    "exKind c = ExprConditional" "exConditional c = Some (Conditional (Some a') (Some x') (Some y') t)"
    "sameForm a a'" "sameForm x x'" "sameForm y y'"
proof (cases "isConditionalExpr s")
  case True
  then obtain a x y t sp where s: "s = ConditionalExpr a x y t sp"
    by (cases s) (simp_all add: isConditionalExpr_def)
  show ?thesis
    by (rule sameForm_conditional [OF assms [unfolded s]]) (rule conditional [OF s])
qed (use other sameForm_kind(1) [OF assms] in auto)

lemma terminalChoice_agree:
  assumes "sameForm s c"
  shows "rel_option (rel_prod sameForm sameForm) (SourceShapes.terminalChoice s) (CoreShapes.terminalChoice c)"
  using assms
proof (cases rule: conditional_cases)
  case other
  then show ?thesis
    by (cases "exKind c") (simp_all add: not_conditional CoreShapes.terminalChoice_def)
next
  case (conditional a x y t sp a' x' y')
  with agreeD [OF operand_agree conditional(4)] show ?thesis
    by (cases t) (simp_all add: SourceShapes.terminalChoice_def CoreShapes.terminalChoice_def)
qed

lemma innerChoice_cases:
  assumes "sameForm s c"
  obtains (none) "SourceShapes.innerChoice s = None" "CoreShapes.innerChoice (Some c) = None"
  | (choice) a x y a' x' y' where "SourceShapes.innerChoice s = Some (a, x, y)"
    "CoreShapes.innerChoice (Some c) = Some (Conditional (Some a') (Some x') (Some y') False)"
    "sameForm a a'" "sameForm x x'" "sameForm y y'"
  using assms
proof (cases rule: conditional_cases)
  case other
  then show ?thesis
    using none by (cases "exKind c") (simp_all add: not_conditional CoreShapes.innerChoice_def)
next
  case (conditional a x y t sp a' x' y')
  with none choice show ?thesis
    by (cases t) (simp_all add: SourceShapes.innerChoice_def CoreShapes.innerChoice_def)
qed

lemma valueChoice_cases:
  assumes "sameForm s c"
  obtains (none) "SourceShapes.valueChoice s = None" "CoreShapes.valueChoice c = None"
  | (choice) a x y a' x' y' where "SourceShapes.valueChoice s = Some (a, x, y)"
    "CoreShapes.valueChoice c = Some (Conditional (Some a') (Some x') (Some y') False)"
    "sameForm a a'" "sameForm x x'" "sameForm y y'"
proof -
  have n: "freeOfLocals s \<longleftrightarrow> localFree c" using agreeD [OF counts_agree(3) assms] by simp
  show thesis
    using assms
  proof (cases rule: conditional_cases)
    case other
    with none show ?thesis
      by (simp add: SourceShapes.valueChoice_def CoreShapes.valueChoice_def not_conditional)
  next
    case (conditional a x y t sp a' x' y')
    with none choice n show ?thesis
      by (cases t; cases "localFree c")
        (simp_all add: SourceShapes.valueChoice_def CoreShapes.valueChoice_def
          SourceShapes.innerChoice_def)
  qed
qed

lemma composition_agree:
  assumes "sameForm s c" "exKind c = ExprConditional"
  shows "SourceShapes.validReturnCompositionChoice s
    \<longleftrightarrow> CoreShapes.validReturnCompositionChoice (exConditional c)"
  using assms(1)
proof (cases rule: conditional_cases)
  case (conditional a x y t sp a' x' y')
  with agreeD [OF operand_agree] show ?thesis
    by (cases t) (simp_all add: SourceShapes.validReturnCompositionChoice_def
        CoreShapes.validReturnCompositionChoice_def)
qed (use assms(2) in simp)

lemma valueTree_agree:
  "sameForm s c \<Longrightarrow> SourceShapes.valueTree n s \<longleftrightarrow> CoreShapes.valueTree n (Some c)"
proof (induction n arbitrary: s c)
  case 0
  then show ?case using sameForm_kind(1) agreeD [OF operand_agree] by simp
next
  case (Suc n)
  from Suc.prems show ?case
  proof (cases rule: conditional_cases)
    case other
    then show ?thesis
      using not_conditional(4) [of s "Suc n"] agreeD [OF operand_agree Suc.prems] by simp
  next
    case (conditional a x y t sp a' x' y')
    with Suc.IH agreeD [OF operand_agree] show ?thesis
      by (cases t) simp_all
  qed
qed

section \<open>Pointwise combinations\<close>

lemma agree_operators [agrees]:
  "agree P Q \<Longrightarrow> agree (\<lambda>s. \<not> P s) (\<lambda>c. \<not> Q c)"
  "agree P Q \<Longrightarrow> agree P' Q' \<Longrightarrow> agree (\<lambda>s. P s \<and> P' s) (\<lambda>c. Q c \<and> Q' c)"
  "agree P Q \<Longrightarrow> agree P' Q' \<Longrightarrow> agree (\<lambda>s. P s \<or> P' s) (\<lambda>c. Q c \<or> Q' c)"
  "agree (\<lambda>s. k) (\<lambda>c. k)"
  by (simp_all add: agree_def)

lemma agree_results [agrees]:
  "agree P Q \<Longrightarrow> agree (\<lambda>s. accept (P s)) (\<lambda>c. accept (Q c))"
  "agree P Q \<Longrightarrow> agree f g \<Longrightarrow> agree f' g' \<Longrightarrow> agree (\<lambda>s. if P s then f s else f' s) (\<lambda>c. if Q c then g c else g' c)"
  "agree f g \<Longrightarrow> agree (\<lambda>s. map_option h (f s)) (\<lambda>c. map_option h (g c))"
  "agree f g \<Longrightarrow> agree (\<lambda>s. found (f s)) (\<lambda>c. found (g c))"
  by (simp_all add: agree_def)

lemma freeOfLocals_agree [agrees]: "agree (\<lambda>s. freeOfLocals s) (\<lambda>c. localFree c)"
  using counts_agree(3) by (simp add: agree_def)

lemmas [agrees] = straightLine_agree terminalTree_agree

section \<open>Straight-line bodies and selectors\<close>

lemma choiceInitializer_agree [agrees]: "agree SourceShapes.choiceInitializer CoreShapes.choiceInitializer"
  using sameForm_kind(1) composition_agree agreeD [OF operand_agree]
  by (auto simp: agree_def SourceShapes.choiceInitializer_def CoreShapes.choiceInitializer_def)

lemma conditionalReturn_agree [agrees]:
  "agree (\<lambda>s. isConditionalExpr s \<and> SourceShapes.validReturnCompositionChoice s)
     (\<lambda>c. exKind c = ExprConditional \<and> CoreShapes.validReturnCompositionChoice (exConditional c))"
  using sameForm_kind(1) composition_agree by (auto simp: agree_def)

lemma returnTree_agree [agrees]: "agree (SourceShapes.returnTree n) (CoreShapes.returnTree n)"
  using sameForm_kind(1) valueTree_agree agreeD [OF freeOfLocals_agree]
  by (auto simp: agree_def SourceShapes.returnTree_def CoreShapes.returnTree_def)

lemma validStraightLineConditionalLocals_agree [agrees]: "agree SourceShapes.validStraightLineConditionalLocals CoreShapes.validStraightLineConditionalLocals"
  unfolding SourceShapes.validStraightLineConditionalLocals_def CoreShapes.validStraightLineConditionalLocals_def
  by (intro agrees)

lemma validConditionalReturnComposition_agree [agrees]: "agree SourceShapes.validConditionalReturnComposition CoreShapes.validConditionalReturnComposition"
  unfolding SourceShapes.validConditionalReturnComposition_def CoreShapes.validConditionalReturnComposition_def
  by (intro agrees)

lemma validNestedStraightLineReturns_agree [agrees]: "agree SourceShapes.validNestedStraightLineReturns CoreShapes.validNestedStraightLineReturns"
  unfolding SourceShapes.validNestedStraightLineReturns_def CoreShapes.validNestedStraightLineReturns_def
  by (intro agrees)

lemma validNestedStraightLineInitializers_agree [agrees]: "agree SourceShapes.validNestedStraightLineInitializers CoreShapes.validNestedStraightLineInitializers"
  unfolding SourceShapes.validNestedStraightLineInitializers_def CoreShapes.validNestedStraightLineInitializers_def
  by (intro agrees)

lemma validDepthThreeStraightLineReturns_agree [agrees]: "agree SourceShapes.validDepthThreeStraightLineReturns CoreShapes.validDepthThreeStraightLineReturns"
  unfolding SourceShapes.validDepthThreeStraightLineReturns_def CoreShapes.validDepthThreeStraightLineReturns_def
  by (intro agrees)

lemma validDepthThreeStraightLineInitializers_agree [agrees]: "agree SourceShapes.validDepthThreeStraightLineInitializers CoreShapes.validDepthThreeStraightLineInitializers"
  unfolding SourceShapes.validDepthThreeStraightLineInitializers_def CoreShapes.validDepthThreeStraightLineInitializers_def
  by (intro agrees)

lemma agree_valueChoice:
  assumes "\<And>a x y a' x' y'. sameForm a a' \<Longrightarrow> sameForm x x' \<Longrightarrow> sameForm y y' \<Longrightarrow>
    F (a, x, y) = G (Conditional (Some a') (Some x') (Some y') False)"
  shows "agree (\<lambda>s. case SourceShapes.valueChoice s of None \<Rightarrow> False | Some p \<Rightarrow> F p)
    (\<lambda>c. case CoreShapes.valueChoice c of None \<Rightarrow> False | Some k \<Rightarrow> G k)"
  unfolding agree_def
proof (intro allI impI)
  fix s c
  assume "sameForm s c"
  then show "(case SourceShapes.valueChoice s of None \<Rightarrow> False | Some p \<Rightarrow> F p)
      = (case CoreShapes.valueChoice c of None \<Rightarrow> False | Some k \<Rightarrow> G k)"
    by (cases rule: valueChoice_cases) (simp_all add: assms)
qed

lemma innerChoice_eq:
  assumes "sameForm s c" "\<And>a x y a' x' y'. sameForm a a' \<Longrightarrow> sameForm x x' \<Longrightarrow> sameForm y y' \<Longrightarrow>
    F (a, x, y) = G (Conditional (Some a') (Some x') (Some y') False)"
  shows "(case SourceShapes.innerChoice s of None \<Rightarrow> False | Some p \<Rightarrow> F p)
    = (case CoreShapes.innerChoice (Some c) of None \<Rightarrow> False | Some k \<Rightarrow> G k)"
  using assms(1) by (cases rule: innerChoice_cases) (simp_all add: assms(2))

lemma selectorTail_agree [agrees]:
  "agree
     (\<lambda>s. case SourceShapes.valueChoice s of None \<Rightarrow> False
       | Some (c, x, y) \<Rightarrow>
           (case SourceShapes.innerChoice c of None \<Rightarrow> False
            | Some (c', x', y') \<Rightarrow> list_all SyntaxTree.validConditionalOperand [c', x', y', x, y]))
     (\<lambda>c. case CoreShapes.valueChoice c of None \<Rightarrow> False
       | Some outer \<Rightarrow>
           (case CoreShapes.innerChoice (cdCondition outer) of None \<Rightarrow> False
            | Some selector \<Rightarrow>
                list_all operandPresent
                  [cdCondition selector, cdWhenTrue selector, cdWhenFalse selector,
                   cdWhenTrue outer, cdWhenFalse outer]))"
  by (rule agree_valueChoice, simp, rule innerChoice_eq)
    (simp_all add: operandPresent_def agreeD [OF operand_agree])

lemma validConditionalBooleanSelector_agree [agrees]: "agree SourceShapes.validConditionalBooleanSelector CoreShapes.validConditionalBooleanSelector"
  unfolding SourceShapes.validConditionalBooleanSelector_def CoreShapes.validConditionalBooleanSelector_def
  by (intro agrees)

lemma selectorInitializer_agree [agrees]: "agree SourceShapes.selectorInitializer CoreShapes.selectorInitializer"
  unfolding SourceShapes.selectorInitializer_def [abs_def] CoreShapes.selectorInitializer_def [abs_def]
  by (intro agrees)

lemma selectorLeaf_agree [agrees]: "agree SourceShapes.selectorLeaf CoreShapes.selectorLeaf"
  unfolding SourceShapes.selectorLeaf_def [abs_def] CoreShapes.selectorLeaf_def [abs_def]
  by (intro agrees)

lemma validStraightLineBooleanSelectorInitializers_agree [agrees]: "agree SourceShapes.validStraightLineBooleanSelectorInitializers CoreShapes.validStraightLineBooleanSelectorInitializers"
  unfolding SourceShapes.validStraightLineBooleanSelectorInitializers_def CoreShapes.validStraightLineBooleanSelectorInitializers_def
  by (intro agrees)

section \<open>Tests\<close>

lemma validFlatConditionalTest_agree [agrees]:
  "agree SourceShapes.validFlatConditionalTest CoreShapes.validFlatConditionalTest"
  unfolding SourceShapes.validFlatConditionalTest_def [abs_def]
    CoreShapes.validFlatConditionalTest_def [abs_def]
  by (rule agree_valueChoice) (simp add: operandPresent_def agreeD [OF operand_agree])

lemma arm_agree:
  assumes "agree P Q" "sameForm s c"
  shows "SourceShapes.armOr P s = CoreShapes.armOr Q (Some c)"
  using agreeD [OF assms] agreeD [OF operand_agree assms(2)]
  by (simp add: SourceShapes.armOr_def CoreShapes.armOr_def)

lemma flatArm_agree:
  "sameForm x x' \<Longrightarrow> sameForm y y' \<Longrightarrow> SourceShapes.flatArm [x, y] = CoreShapes.flatArm [Some x', Some y']"
  using arm_agree [OF validFlatConditionalTest_agree] agreeD [OF validFlatConditionalTest_agree]
  by (simp add: SourceShapes.flatArm_def CoreShapes.flatArm_def)

lemmas parts_agree = agreeD [OF operand_agree] arm_agree flatArm_agree
  agreeD [OF validFlatConditionalTest_agree]

lemma validNestedConditionalTest_agree [agrees]:
  "agree SourceShapes.validNestedConditionalTest CoreShapes.validNestedConditionalTest"
  unfolding SourceShapes.validNestedConditionalTest_def [abs_def]
    CoreShapes.validNestedConditionalTest_def [abs_def]
  by (rule agree_valueChoice)
    (simp add: operandPresent_def parts_agree arm_agree [OF validFlatConditionalTest_agree])

lemma validDepthThreeConditionalTest_agree [agrees]:
  "agree SourceShapes.validDepthThreeConditionalTest CoreShapes.validDepthThreeConditionalTest"
  unfolding SourceShapes.validDepthThreeConditionalTest_def [abs_def]
    CoreShapes.validDepthThreeConditionalTest_def [abs_def]
  by (rule agree_valueChoice)
    (simp add: operandPresent_def parts_agree arm_agree [OF validNestedConditionalTest_agree])

lemma validSelectorValueArmTest_agree [agrees]:
  "agree SourceShapes.validSelectorValueArmTest CoreShapes.validSelectorValueArmTest"
  unfolding SourceShapes.validSelectorValueArmTest_def [abs_def]
    CoreShapes.validSelectorValueArmTest_def [abs_def]
  by (rule agree_valueChoice) (simp add: parts_agree)

lemma validInnerSelectorArmTest_agree [agrees]:
  "agree SourceShapes.validInnerSelectorArmTest CoreShapes.validInnerSelectorArmTest"
  unfolding SourceShapes.validInnerSelectorArmTest_def [abs_def]
    CoreShapes.validInnerSelectorArmTest_def [abs_def]
  by (rule agree_valueChoice, simp add: operandPresent_def parts_agree)
    (intro conj_cong refl innerChoice_eq; simp add: operandPresent_def parts_agree)

lemma validCombinedSelectorArmTest_agree [agrees]:
  "agree SourceShapes.validCombinedSelectorArmTest CoreShapes.validCombinedSelectorArmTest"
  unfolding SourceShapes.validCombinedSelectorArmTest_def [abs_def]
    CoreShapes.validCombinedSelectorArmTest_def [abs_def]
  by (rule agree_valueChoice, simp, rule innerChoice_eq)
    (simp_all add: operandPresent_def parts_agree)

section \<open>Terminal trees\<close>

lemma terminal_agree [agrees]:
  "agree (\<lambda>s. SourceShapes.terminalTree f g h n s \<noteq> None) (\<lambda>c. CoreShapes.terminalTree f' g' h' n c \<noteq> None)"
  if "agree (SourceShapes.terminalTree f g h n) (CoreShapes.terminalTree f' g' h' n)"
  using that by (simp add: agree_def)

lemma testWith_agree:
  assumes "agree P Q" "list_all2 agree ps qs"
  shows "agree (SourceShapes.testWith P ps) (CoreShapes.testWith Q qs)"
proof -
  have "SourceShapes.testWith P ps s = CoreShapes.testWith Q qs c" if f: "sameForm s c" for s c
  proof -
    have "list_ex (\<lambda>p. p s) ps = list_ex (\<lambda>q. q c) qs"
      using assms(2) by (induction rule: list_all2_induct) (simp_all add: agreeD [OF _ f])
    with agreeD [OF assms(1) f] agreeD [OF operand_agree f] agreeD [OF freeOfLocals_agree f]
    show ?thesis by (simp add: SourceShapes.testWith_def CoreShapes.testWith_def)
  qed
  then show ?thesis by (simp add: agree_def)
qed

lemma testTree_agree:
  assumes "agree P Q" "list_all2 agree ps qs"
  shows "agree (SourceShapes.testTree P ps) (CoreShapes.testTree Q qs)"
  unfolding SourceShapes.testTree_def [abs_def] CoreShapes.testTree_def [abs_def]
  by (intro agrees testWith_agree assms)

lemma combinedTests_agree: "list_all2 agree SourceShapes.combinedTests CoreShapes.combinedTests"
  by (simp add: SourceShapes.combinedTests_def CoreShapes.combinedTests_def agrees)

lemma validTerminalConditionalTests_agree [agrees]: "agree SourceShapes.validTerminalConditionalTests CoreShapes.validTerminalConditionalTests"
  unfolding SourceShapes.validTerminalConditionalTests_def CoreShapes.validTerminalConditionalTests_def
  by (rule testTree_agree) (simp_all add: agrees combinedTests_agree)

lemma validNestedTerminalConditionalTests_agree [agrees]: "agree SourceShapes.validNestedTerminalConditionalTests CoreShapes.validNestedTerminalConditionalTests"
  unfolding SourceShapes.validNestedTerminalConditionalTests_def CoreShapes.validNestedTerminalConditionalTests_def
  by (rule testTree_agree) (simp_all add: agrees combinedTests_agree)

lemma validDepthThreeTerminalConditionalTests_agree [agrees]: "agree SourceShapes.validDepthThreeTerminalConditionalTests CoreShapes.validDepthThreeTerminalConditionalTests"
  unfolding SourceShapes.validDepthThreeTerminalConditionalTests_def CoreShapes.validDepthThreeTerminalConditionalTests_def
  by (rule testTree_agree) (simp_all add: agrees combinedTests_agree)

lemma validTerminalBooleanSelectorTests_agree [agrees]: "agree SourceShapes.validTerminalBooleanSelectorTests CoreShapes.validTerminalBooleanSelectorTests"
  unfolding SourceShapes.validTerminalBooleanSelectorTests_def CoreShapes.validTerminalBooleanSelectorTests_def
  by (rule testTree_agree) (simp_all add: agrees combinedTests_agree)

lemma validTerminalSelectorValueArms_agree [agrees]: "agree SourceShapes.validTerminalSelectorValueArms CoreShapes.validTerminalSelectorValueArms"
  unfolding SourceShapes.validTerminalSelectorValueArms_def CoreShapes.validTerminalSelectorValueArms_def
  by (rule testTree_agree) (simp_all add: agrees combinedTests_agree)

lemma validTerminalInnerSelectorArms_agree [agrees]: "agree SourceShapes.validTerminalInnerSelectorArms CoreShapes.validTerminalInnerSelectorArms"
  unfolding SourceShapes.validTerminalInnerSelectorArms_def CoreShapes.validTerminalInnerSelectorArms_def
  by (rule testTree_agree) (simp_all add: agrees combinedTests_agree)

lemma validTerminalCombinedSelectorArms_agree [agrees]: "agree SourceShapes.validTerminalCombinedSelectorArms CoreShapes.validTerminalCombinedSelectorArms"
  unfolding SourceShapes.validTerminalCombinedSelectorArms_def CoreShapes.validTerminalCombinedSelectorArms_def
  by (rule testTree_agree) (simp_all add: agrees combinedTests_agree)

lemma leafInitializer_agree [agrees]:
  "agree (SourceShapes.leafInitializer m n) (CoreShapes.leafInitializer m n)"
  unfolding agree_def
proof (intro allI impI)
  fix s c
  assume f: "sameForm s c"
  note [simp] = agreeD [OF operand_agree f] agreeD [OF freeOfLocals_agree f, simplified]
    agreeD [OF validDepthThreeStraightLineReturns_agree f]
    agreeD [OF validNestedStraightLineReturns_agree f]
  from f show "SourceShapes.leafInitializer m n s = CoreShapes.leafInitializer m n c"
  proof (cases rule: conditional_cases)
    case other
    then show ?thesis by (simp add: SourceShapes.leafInitializer_def CoreShapes.leafInitializer_def)
  next
    case (conditional a x y t sp a' x' y')
    show ?thesis
      using sameForm_kind(1) [OF f] composition_agree [OF f conditional(2)] conditional(2,3)
      by (simp add: SourceShapes.leafInitializer_def CoreShapes.leafInitializer_def)
  qed
qed

lemma leafReturn_agree [agrees]: "agree (SourceShapes.leafReturn m b) (CoreShapes.leafReturn m b)"
  unfolding agree_def
proof (intro allI impI)
  fix s c
  assume f: "sameForm s c"
  note [simp] = agreeD [OF operand_agree f] agreeD [OF freeOfLocals_agree f, simplified]
    agreeD [OF validDepthThreeStraightLineReturns_agree f]
    agreeD [OF validNestedStraightLineReturns_agree f]
    agreeD [OF validConditionalBooleanSelector_agree f]
  from f show "SourceShapes.leafReturn m b s = CoreShapes.leafReturn m b c"
  proof (cases rule: conditional_cases)
    case other
    then show ?thesis by (simp add: SourceShapes.leafReturn_def CoreShapes.leafReturn_def)
  next
    case (conditional a x y t sp a' x' y')
    show ?thesis
      using sameForm_kind(1) [OF f] composition_agree [OF f conditional(2)] conditional(2,3)
      by (simp add: SourceShapes.leafReturn_def CoreShapes.leafReturn_def)
  qed
qed

lemma validV810TerminalTree_agree [agrees]:
  "agree (\<lambda>s. SourceShapes.validV810TerminalTree s n) (\<lambda>c. CoreShapes.validV810TerminalTree c n)"
  unfolding SourceShapes.validV810TerminalTree_def CoreShapes.validV810TerminalTree_def
  by (intro agrees)

lemma agree_case:
  "agree f g \<Longrightarrow> agree (\<lambda>s. case f s of None \<Rightarrow> k | Some n \<Rightarrow> h n) (\<lambda>c. case g c of None \<Rightarrow> k | Some n \<Rightarrow> h n)"
  by (simp add: agree_def)

lemma validConditionalLocalTree_agree [agrees]:
  "agree (\<lambda>s. SourceShapes.validConditionalLocalTree s m) (\<lambda>c. CoreShapes.validConditionalLocalTree c m)"
  unfolding SourceShapes.validConditionalLocalTree_def CoreShapes.validConditionalLocalTree_def
  by (intro agrees agree_case)

lemma leafReturns_agree [agrees]:
  "agree (\<lambda>s. SourceShapes.validTerminalLeafReturnsWithSelectors s m n b)
     (\<lambda>c. CoreShapes.validTerminalLeafReturnsWithSelectors c m n b)"
  unfolding SourceShapes.validTerminalLeafReturnsWithSelectors_def
    CoreShapes.validTerminalLeafReturnsWithSelectors_def
  by (intro agrees agree_case)

lemma validTerminalLeafConditionalReturns_agree [agrees]:
  "agree SourceShapes.validTerminalLeafConditionalReturns CoreShapes.validTerminalLeafConditionalReturns"
  using leafReturns_agree
  by (simp add: agree_def SourceShapes.validTerminalLeafConditionalReturns_def CoreShapes.validTerminalLeafConditionalReturns_def
      SourceShapes.validTerminalLeafReturnsDepth_def CoreShapes.validTerminalLeafReturnsDepth_def)

lemma validNestedTerminalLeafReturns_agree [agrees]:
  "agree SourceShapes.validNestedTerminalLeafReturns CoreShapes.validNestedTerminalLeafReturns"
  using leafReturns_agree
  by (simp add: agree_def SourceShapes.validNestedTerminalLeafReturns_def CoreShapes.validNestedTerminalLeafReturns_def
      SourceShapes.validTerminalLeafReturnsDepth_def CoreShapes.validTerminalLeafReturnsDepth_def)

lemma validNestedTerminalInitializers_agree [agrees]:
  "agree SourceShapes.validNestedTerminalInitializers CoreShapes.validNestedTerminalInitializers"
  using leafReturns_agree
  by (simp add: agree_def SourceShapes.validNestedTerminalInitializers_def CoreShapes.validNestedTerminalInitializers_def
      SourceShapes.validTerminalLeafReturnsDepth_def CoreShapes.validTerminalLeafReturnsDepth_def)

lemma validTerminalLeafBooleanSelectors_agree [agrees]:
  "agree SourceShapes.validTerminalLeafBooleanSelectors CoreShapes.validTerminalLeafBooleanSelectors"
  using leafReturns_agree
  by (simp add: agree_def SourceShapes.validTerminalLeafBooleanSelectors_def CoreShapes.validTerminalLeafBooleanSelectors_def
      SourceShapes.validTerminalLeafReturnsDepth_def CoreShapes.validTerminalLeafReturnsDepth_def)

lemma validDepthThreeTerminalLeafReturns_agree [agrees]:
  "agree SourceShapes.validDepthThreeTerminalLeafReturns CoreShapes.validDepthThreeTerminalLeafReturns"
  using leafReturns_agree
  by (simp add: agree_def SourceShapes.validDepthThreeTerminalLeafReturns_def CoreShapes.validDepthThreeTerminalLeafReturns_def
      SourceShapes.validTerminalLeafReturnsDepth_def CoreShapes.validTerminalLeafReturnsDepth_def)

lemma validDepthThreeTerminalInitializers_agree [agrees]:
  "agree SourceShapes.validDepthThreeTerminalInitializers CoreShapes.validDepthThreeTerminalInitializers"
  using leafReturns_agree
  by (simp add: agree_def SourceShapes.validDepthThreeTerminalInitializers_def CoreShapes.validDepthThreeTerminalInitializers_def
      SourceShapes.validTerminalLeafReturnsDepth_def CoreShapes.validTerminalLeafReturnsDepth_def)

lemma validStraightLineSelectorValueArms_agree [agrees]: "agree SourceShapes.validStraightLineSelectorValueArms CoreShapes.validStraightLineSelectorValueArms"
  unfolding SourceShapes.validStraightLineSelectorValueArms_def CoreShapes.validStraightLineSelectorValueArms_def
  by (intro agrees)

lemma validTerminalLeafSelectorValueArms_agree [agrees]:
  "agree SourceShapes.validTerminalLeafSelectorValueArms CoreShapes.validTerminalLeafSelectorValueArms"
  unfolding SourceShapes.validTerminalLeafSelectorValueArms_def [abs_def]
    CoreShapes.validTerminalLeafSelectorValueArms_def [abs_def]
  by (intro agrees testWith_agree combinedTests_agree)

lemma statementTail_agree:
  "agree (\<lambda>s. SyntaxTree.isTerminalIf (snd (localSequence s)))
     (\<lambda>c. case localSpine c of None \<Rightarrow> False | Some (_, tail) \<Rightarrow> CoreShapes.isTerminalIf tail)"
  unfolding agree_def
proof (intro allI impI)
  fix s c
  assume "sameForm s c"
  then show "SyntaxTree.isTerminalIf (snd (localSequence s))
      = (case localSpine c of None \<Rightarrow> False | Some (_, tail) \<Rightarrow> CoreShapes.isTerminalIf tail)"
    by (rule locals_cases) (simp add: sameForm_kind)
qed

lemma validTerminalBooleanSelectorInitializers_agree [agrees]:
  "agree SourceShapes.validTerminalBooleanSelectorInitializers CoreShapes.validTerminalBooleanSelectorInitializers"
  unfolding SourceShapes.validTerminalBooleanSelectorInitializers_def [abs_def]
    CoreShapes.validTerminalBooleanSelectorInitializers_def [abs_def]
  by (intro agrees statementTail_agree)

section \<open>Nested terminal statements\<close>

text \<open>A test of the tail after locals that are operands, and one of the branches of a statement.\<close>

lemma branchTail_eq:
  assumes "\<And>k s c. sameForm s c \<Longrightarrow> F (k, s) = G (k, c)" "sameForm s c"
  shows "(case SourceShapes.terminalBranchTail s of None \<Rightarrow> z | Some p \<Rightarrow> F p)
    = (case CoreShapes.terminalBranchTail c of None \<Rightarrow> z | Some p \<Rightarrow> G p)"
  using branchTail_agree [OF assms(2)] assms(1)
  by (cases "SourceShapes.terminalBranchTail s"; cases "CoreShapes.terminalBranchTail c") auto

lemma agree_branchTail:
  assumes "\<And>k s c. sameForm s c \<Longrightarrow> F (k, s) = G (k, c)"
  shows "agree (\<lambda>s. case SourceShapes.terminalBranchTail s of None \<Rightarrow> z | Some p \<Rightarrow> F p)
    (\<lambda>c. case CoreShapes.terminalBranchTail c of None \<Rightarrow> z | Some p \<Rightarrow> G p)"
  unfolding agree_def by (intro allI impI branchTail_eq assms)

lemma agree_terminalChoice:
  assumes "\<And>x y x' y'. sameForm x x' \<Longrightarrow> sameForm y y' \<Longrightarrow> F (x, y) = G (x', y')" "sameForm s c"
  shows "(case SourceShapes.terminalChoice s of None \<Rightarrow> z | Some p \<Rightarrow> F p)
    = (case CoreShapes.terminalChoice c of None \<Rightarrow> z | Some p \<Rightarrow> G p)"
  using terminalChoice_agree [OF assms(2)] assms(1)
  by (cases "SourceShapes.terminalChoice s"; cases "CoreShapes.terminalChoice c") auto

lemma validLeaf_agree [agrees]: "agree SourceShapes.validLeaf CoreShapes.validLeaf"
  unfolding SourceShapes.validLeaf_def [abs_def] CoreShapes.validLeaf_def [abs_def]
  by (rule agree_branchTail) (simp add: sameForm_kind agreeD [OF operand_agree])

lemma nestedWith_agree:
  assumes "agree P Q"
  shows "agree (SourceShapes.validNestedWith P) (CoreShapes.validNestedWith Q)"
  unfolding SourceShapes.validNestedWith_def [abs_def] CoreShapes.validNestedWith_def [abs_def]
  by (rule agree_branchTail, simp, rule agree_terminalChoice) (simp_all add: agreeD [OF assms])

lemma oneNested_agree:
  assumes "agree P Q"
  shows "agree (SourceShapes.oneNested P) (CoreShapes.oneNested Q)"
  unfolding agree_def SourceShapes.oneNested_def CoreShapes.oneNested_def
  by (intro allI impI agree_terminalChoice)
    (simp_all add: agreeD [OF nestedWith_agree [OF assms]] agreeD [OF validLeaf_agree] counts_agree [THEN agreeD])

lemma validV740NestedTerminalIf_agree [agrees]:
  "agree SourceShapes.validV740NestedTerminalIf CoreShapes.validV740NestedTerminalIf"
  unfolding SourceShapes.validV740NestedTerminalIf_def CoreShapes.validV740NestedTerminalIf_def
  by (intro oneNested_agree agrees)

lemma validV750NestedTerminalIf_agree [agrees]:
  "agree SourceShapes.validV750NestedTerminalIf CoreShapes.validV750NestedTerminalIf"
  unfolding SourceShapes.validV750NestedTerminalIf_def CoreShapes.validV750NestedTerminalIf_def
  by (intro oneNested_agree agrees)

lemma validV760_agree [agrees]:
  "agree SourceShapes.validV760RootLocalNestedTerminalIf CoreShapes.validV760RootLocalNestedTerminalIf"
  unfolding SourceShapes.validV760RootLocalNestedTerminalIf_def [abs_def]
    CoreShapes.validV760RootLocalNestedTerminalIf_def [abs_def]
  by (rule agree_branchTail) (simp add: agreeD [OF validV750NestedTerminalIf_agree])

lemma validSymmetric_agree [agrees]:
  "agree (\<lambda>s. SourceShapes.validSymmetricNestedTerminalIf s b) (\<lambda>c. CoreShapes.validSymmetricNestedTerminalIf c b)"
  unfolding agree_def SourceShapes.validSymmetricNestedTerminalIf_def
    CoreShapes.validSymmetricNestedTerminalIf_def
  by (intro allI impI branchTail_eq)
    (auto simp: agreeD [OF nestedWith_agree [OF validLeaf_agree]] counts_agree [THEN agreeD]
      intro!: conj_cong agree_terminalChoice)

lemma validV770_agree [agrees]:
  "agree SourceShapes.validV770SymmetricRootLocalNestedTerminalIf
     CoreShapes.validV770SymmetricRootLocalNestedTerminalIf"
  unfolding SourceShapes.validV770SymmetricRootLocalNestedTerminalIf_def [abs_def]
    CoreShapes.validV770SymmetricRootLocalNestedTerminalIf_def [abs_def]
  by (intro agrees)

lemma depthTwoLeaf_agree [agrees]: "agree SourceShapes.classifyDepthTwoLeaf CoreShapes.classifyDepthTwoLeaf"
  unfolding SourceShapes.classifyDepthTwoLeaf_def [abs_def] CoreShapes.classifyDepthTwoLeaf_def [abs_def]
  by (rule agree_branchTail)
    (auto simp: sameForm_kind agreeD [OF operand_agree] agreeD [OF validLeaf_agree] accept_def
      intro!: agree_terminalChoice)

lemma total_pair: "total [a, b] = (case (a, b) of (Some m, Some n) \<Rightarrow> Some (m + n) | _ \<Rightarrow> None)"
  by (cases a; cases b) simp_all

lemma classifyInner_agree [agrees]: "agree SourceShapes.classifyInner CoreShapes.classifyInner"
  unfolding SourceShapes.classifyInner_def [abs_def] CoreShapes.classifyInner_def [abs_def]
  by (rule agree_branchTail, simp only: prod.case total_pair, rule agree_terminalChoice)
    (simp_all add: agreeD [OF depthTwoLeaf_agree] cong: option.case_cong)

lemma validExpanded_agree [agrees]:
  "agree (\<lambda>s. SourceShapes.validExpandedDepthThreeTerminalIf s n)
     (\<lambda>c. CoreShapes.validExpandedDepthThreeTerminalIf c n)"
  unfolding agree_def SourceShapes.validExpandedDepthThreeTerminalIf_def
    CoreShapes.validExpandedDepthThreeTerminalIf_def
  by (intro allI impI branchTail_eq, simp only: prod.case total_pair, rule agree_terminalChoice)
    (simp_all add: agreeD [OF classifyInner_agree] counts_agree [THEN agreeD] cong: option.case_cong
      split: option.splits)

lemma validV790_agree [agrees]:
  "agree SourceShapes.validV790BoundedDepthThreeTerminalIf CoreShapes.validV790BoundedDepthThreeTerminalIf"
  unfolding SourceShapes.validV790BoundedDepthThreeTerminalIf_def [abs_def]
    CoreShapes.validV790BoundedDepthThreeTerminalIf_def [abs_def]
  by (intro agrees)

lemma validV800_agree [agrees]:
  "agree SourceShapes.validV800TwoExpandedTerminalIf CoreShapes.validV800TwoExpandedTerminalIf"
  unfolding SourceShapes.validV800TwoExpandedTerminalIf_def [abs_def]
    CoreShapes.validV800TwoExpandedTerminalIf_def [abs_def]
  by (intro agrees)

lemma validV820_agree [agrees]:
  "agree SourceShapes.validV820ConditionalLocalTree CoreShapes.validV820ConditionalLocalTree"
  unfolding SourceShapes.validV820ConditionalLocalTree_def [abs_def]
    CoreShapes.validV820ConditionalLocalTree_def [abs_def]
  by (intro agrees)

end
