(* ===== verification/ContractAgreement.thy ===== *)
theory ContractAgreement
  imports ShapeAgreement CoreLocals
begin

text \<open>
  A method body with a terminal statement that the front end admits under a language contract is
  admitted by the local and conditional contracts of the Core under the same one.
\<close>

section \<open>Contracts by their number\<close>

definition contractNumber :: "nat \<Rightarrow> string \<Rightarrow> bool" where
  "contractNumber n contract \<longleftrightarrow>
     1 \<le> n \<and> positionOf contract supportedLanguageContracts = Some (n - 1)"

lemma contractNumber_in [simp]:
  "contractNumber n contract \<Longrightarrow> contractIn a b contract \<longleftrightarrow> a \<le> n \<and> n \<le> b"
  by (auto simp: contractNumber_def contractIn_def)

lemma contractNumber_unique: "contractNumber n c \<Longrightarrow> contractNumber m c' \<Longrightarrow> c = c' \<longleftrightarrow> n = m"
  unfolding contractNumber_def
  by (metis le_add_diff_inverse option.inject positionOf_Some)

lemma contract_literals:
  "contractNumber 69 ''v0.69.0''" "contractNumber 70 ''v0.70.0''" "contractNumber 71 ''v0.71.0''"
  "contractNumber 72 ''v0.72.0''" "contractNumber 73 ''v0.73.0''" "contractNumber 74 ''v0.74.0''"
  "contractNumber 75 ''v0.75.0''" "contractNumber 76 ''v0.76.0''" "contractNumber 77 ''v0.77.0''"
  "contractNumber 78 ''v0.78.0''" "contractNumber 79 ''v0.79.0''" "contractNumber 80 ''v0.80.0''"
  "contractNumber 81 ''v0.81.0''" "contractNumber 82 ''v0.82.0''" "contractNumber 83 ''v0.83.0''"
  "contractNumber 84 ''v0.84.0''" "contractNumber 85 ''v0.85.0''" "contractNumber 86 ''v0.86.0''"
  "contractNumber 39 ''v0.39.0''"
  by code_simp+

lemma contractNumber_literal:
  assumes "contractNumber n c"
  shows "c = ''v0.39.0'' \<longleftrightarrow> n = 39" "c = ''v0.69.0'' \<longleftrightarrow> n = 69" "c = ''v0.70.0'' \<longleftrightarrow> n = 70"
    "c = ''v0.71.0'' \<longleftrightarrow> n = 71" "c = ''v0.72.0'' \<longleftrightarrow> n = 72" "c = ''v0.73.0'' \<longleftrightarrow> n = 73"
    "c = ''v0.74.0'' \<longleftrightarrow> n = 74" "c = ''v0.75.0'' \<longleftrightarrow> n = 75" "c = ''v0.76.0'' \<longleftrightarrow> n = 76"
    "c = ''v0.77.0'' \<longleftrightarrow> n = 77" "c = ''v0.78.0'' \<longleftrightarrow> n = 78" "c = ''v0.79.0'' \<longleftrightarrow> n = 79"
    "c = ''v0.80.0'' \<longleftrightarrow> n = 80" "c = ''v0.81.0'' \<longleftrightarrow> n = 81" "c = ''v0.82.0'' \<longleftrightarrow> n = 82"
    "c = ''v0.83.0'' \<longleftrightarrow> n = 83" "c = ''v0.84.0'' \<longleftrightarrow> n = 84" "c = ''v0.85.0'' \<longleftrightarrow> n = 85"
    "c = ''v0.86.0'' \<longleftrightarrow> n = 86"
  by (rule contractNumber_unique [OF assms], rule contract_literals)+

section \<open>One terminal statement\<close>

lemma sequenceEnd_spine:
  "localSpine c = Some (is, tail) \<Longrightarrow> sequenceEnd n c = (n + length is, tail)"
proof (induction c arbitrary: n "is" rule: localSpine.induct)
  case (1 c)
  show ?case
  proof (cases "exKind c = ExprImmutableLocal")
    case True
    from "1.prems" obtain p m t i r js where
        c: "exImmutableLocal c = Some (ImmutableLocal p m t (Some i) (Some r))"
        and js: "localSpine r = Some (js, tail)" "is = i # js"
      by (subst (asm) localSpine.simps) (auto simp: True split: option.splits immutable_local.splits)
    from "1.IH" [of "ImmutableLocal p m t (Some i) (Some r)" p m t "Some i" "Some r" i r js "n + 1"] True c js
    show ?thesis by (subst sequenceEnd.simps) simp
  qed (use "1.prems" in \<open>auto simp: localSpine.simps sequenceEnd.simps\<close>)
qed

lemma subexprs_node: "subexprs c = c # concat (map subexprs (children c))"
  by (subst WalkExpression.simps) simp

lemma flatConditional_agree: "agree validOperands flatConditional"
  unfolding agree_def
proof (intro allI impI)
  fix s c
  assume f: "sameForm s c"
  then show "validOperands s = flatConditional c"
  proof (cases rule: conditional_cases)
    case other
    then show ?thesis
      by (cases s) (simp_all add: validOperands_def flatConditional_def isConditionalExpr_def)
  next
    case (conditional a x y t sp a' x' y')
    then show ?thesis
      using agreeD [OF operand_agree] by (simp add: validOperands_def flatConditional_def)
  qed
qed

lemma conditionals_agree: "agree validConditionalExpressions (\<lambda>c. list_all flatConditional (subexprs c))"
proof -
  have "validConditionalExpressions s \<longleftrightarrow> list_all flatConditional (subexprs c)" if "sameForm s c" for s c
    using that
  proof (induction s arbitrary: c rule: source_induct)
    case (node s)
    have "list_all validConditionalExpressions (SyntaxTree.expressionChildren s)
        \<longleftrightarrow> list_all (\<lambda>x. list_all flatConditional (subexprs x)) (children c)"
      unfolding list_all_map [of validConditionalExpressions]
        list_all_map [of "\<lambda>x. list_all flatConditional (subexprs x)"]
      by (subst map_pointwise [OF sameForm_children(1) [OF node.prems] node.IH]) simp_all
    with agreeD [OF flatConditional_agree node.prems] show ?case
      by (subst validConditionalExpressions.simps, subst subexprs_node) (auto simp: list_all_iff)
  qed
  then show ?thesis by (simp add: agree_def)
qed

lemma containsPropagation_count:
  "exprContainsPropagation c \<longleftrightarrow> 0 < CoreShapes.countPropagationExpressions c"
  by (auto simp: exprContainsPropagation_def CoreShapes.countPropagationExpressions_def countKind_def
      list_ex_iff filter_empty_conv)

text \<open>The body has the one statement that v0.69.0 to v0.73.0 admit, and no carriers.\<close>

definition plainBody :: "source_expr \<Rightarrow> bool" where
  "plainBody s \<longleftrightarrow>
     SyntaxTree.countPropagationExpressions s = 0 \<and> SyntaxTree.countMatchExpressions s = 0"

lemma one_statement:
  assumes "sameForm s (fnBody f)" "validOneTerminalStatement n s" "69 \<le> n" "n \<le> 73"
    "contractNumber n contract" "plainBody s"
  shows "localContract73 contract f = Ret ()" "conditionalContract73 contract (fnBody f) = Ret ()"
proof -
  let ?c = "fnBody f"
  note literal = contractNumber_literal [OF assms(5)]
  obtain "is" tail is' tail' where l: "localSequence s = (is, tail)" "localSpine ?c = Some (is', tail')"
      "sameForm tail tail'" "length is = length is'"
    by (rule locals_cases [OF assms(1)])
  obtain a x y sp where t: "tail = ConditionalExpr a x y True sp"
    using assms(2) l(1) by (cases tail) (auto simp: validOneTerminalStatement_def)
  obtain a' x' y' where c: "exKind tail' = ExprConditional"
      "exConditional tail' = Some (Conditional (Some a') (Some x') (Some y') True)"
      "sameForm a a'" "sameForm x x'" "sameForm y y'"
    by (rule sameForm_conditional [OF l(3) [unfolded t]])
  have limit: "branchLimit contract =
      (if hasGeneralBranchLocalSequenceSourceContract n then None
       else if hasTwoBranchLocalsSourceContract n then Some 2
       else if hasBranchLocalSourceContract n then Some 1 else Some 0)"
    using assms(3-5) literal
    by (auto simp: branchLimit_def hasGeneralBranchLocalSequenceSourceContract_def
        hasTwoBranchLocalsSourceContract_def hasBranchLocalSourceContract_def)
  have counts: "CoreShapes.countPropagationExpressions ?c = 0" "CoreShapes.countMatchExpressions ?c = 0"
    using assms(6) counts_agree [THEN agreeD, OF assms(1)] by (simp_all add: plainBody_def)
  have shape: "(if n = 73 then 0 else 1) \<le> length is'"
      "CoreShapes.countImmutableLocalExpressions ?c = length is'
         + (fst (CoreShapes.terminalBranchLocalShape x' (branchLimit contract))
         + fst (CoreShapes.terminalBranchLocalShape y' (branchLimit contract)))"
      "CoreShapes.countTerminalIfStatements ?c = 1" "1 \<le> CoreShapes.countConditionalExpressions ?c"
      "CoreShapes.countConditionalExpressions ?c \<le> 2"
      "snd (CoreShapes.terminalBranchLocalShape x' (branchLimit contract))"
      "snd (CoreShapes.terminalBranchLocalShape y' (branchLimit contract))"
      "list_all flatConditional (subexprs ?c)"
    using assms(2) l(1,4) localShape_agree [OF c(4)] localShape_agree [OF c(5)] limit
      counts_agree [THEN agreeD, OF assms(1)] agreeD [OF conditionals_agree assms(1)]
    by (auto simp: validOneTerminalStatement_def t Let_def split: prod.splits)
  have "sequenceEnd 0 ?c = (length is', tail')" using sequenceEnd_spine [OF l(2)] by simp
  moreover have "CoreShapes.isTerminalIf tail'" using c by (simp add: CoreShapes.isTerminalIf_def)
  ultimately have ends: "sequenceEnd 0 ?c = (length is', tail')" "CoreShapes.isTerminalIf tail'"
    by simp_all
  have in70: "contractIn 70 73 contract \<or> n = 69" using assms(3-5) by auto
  have limit69: "branchLimit contract = Some 0" if "n = 69" using that limit
    by (simp add: hasGeneralBranchLocalSequenceSourceContract_def hasTwoBranchLocalsSourceContract_def
        hasBranchLocalSourceContract_def)
  have none: "fst (CoreShapes.terminalBranchLocalShape z (Some 0)) = 0"
    if "snd (CoreShapes.terminalBranchLocalShape z (Some 0))" for z
    using that
    by (subst (asm) CoreShapes.terminalBranchLocalShape_def, subst CoreShapes.terminalBranchLocalShape_def)
      (simp add: CoreShapes.branchLocals.simps split: if_splits option.splits immutable_local.splits)
  have some: "is' = [] \<longrightarrow> n = 73" using shape(1) by (cases is') (simp_all split: if_splits)
  have "validateLocalSequence contract f = Ret ()"
    using in70
  proof
    assume "contractIn 70 73 contract"
    then show ?thesis
      using shape(2,6,7) ends c(1,2) literal some
      by (simp add: validateLocalSequence_def Let_def case_prod_beta)
  next
    assume "n = 69"
    then show ?thesis
      using shape(2,6,7) ends c(1,2) literal assms(5) limit69 none some
      by (simp add: validateLocalSequence_def Let_def)
  qed
  then show "localContract73 contract f = Ret ()"
    using counts assms(3-5) literal by (simp add: localContract73_def Let_def containsPropagation_count)
  show "conditionalContract73 contract ?c = Ret ()"
    using shape counts ends c(2) assms(3-5) literal
    by (simp add: conditionalContract73_def validTerminalStatement_def Let_def containsPropagation_count)
qed

section \<open>Several terminal statements\<close>

text \<open>What the Core does below v0.78.0 with a body that is none of the later shapes.\<close>

definition olderAccept :: "func \<Rightarrow> string \<Rightarrow> bool" where
  "olderAccept f contract \<longleftrightarrow>
     localContract77 f contract = Ret () \<and> conditionalContract77 (fnBody f) contract = Ret ()"

lemma older_one:
  assumes "sameForm s (fnBody f)" "validOneTerminalStatement 73 s" "plainBody s"
    "contractNumber n contract" "74 \<le> n" "n \<le> 77"
  shows "olderAccept f contract"
proof -
  have "contractNumber 73 ''v0.73.0''" by (rule contract_literals)
  from one_statement [OF assms(1,2) _ _ this assms(3)]
  have "localContract73 ''v0.73.0'' f = Ret ()" "conditionalContract73 ''v0.73.0'' (fnBody f) = Ret ()"
    by simp_all
  moreover have "CoreShapes.countTerminalIfStatements (fnBody f) = 1"
    using assms(2) counts_agree [THEN agreeD, OF assms(1)]
    by (auto simp: validOneTerminalStatement_def Let_def split: prod.splits source_expr.splits)
  ultimately show ?thesis
    using assms(4-6) contractNumber_literal [OF assms(4)]
    by (auto simp: olderAccept_def localContract77_def conditionalContract77_def Let_def)
qed

text \<open>Locals whose initializers are operands add no statement.\<close>

lemma operand_no_conditional:
  "SyntaxTree.validConditionalOperand s \<Longrightarrow> countNodes isConditionalExpr s = 0"
  "SyntaxTree.validConditionalOperand s \<Longrightarrow> countNodes SyntaxTree.isTerminalIf s = 0"
proof (induction s rule: source_induct)
  case (node s)
  {
    case 1
    with node(1) show ?case
      by (subst countNodes.simps, subst (asm) SyntaxTree.validConditionalOperand.simps)
        (auto simp: list_all_iff split: if_splits)
  next
    case 2
    then have "\<not> SyntaxTree.isTerminalIf s"
      by (subst (asm) SyntaxTree.validConditionalOperand.simps)
        (auto simp: SyntaxTree.isTerminalIf_def isConditionalExpr_def split: source_expr.splits if_splits)
    with 2 node(2) show ?case
      by (subst countNodes.simps, subst (asm) SyntaxTree.validConditionalOperand.simps)
        (auto simp: list_all_iff split: if_splits)
  }
qed

lemma count_tail:
  "SourceShapes.terminalBranchTail s = Some (k, tail) \<Longrightarrow>
     SyntaxTree.countTerminalIfStatements s = SyntaxTree.countTerminalIfStatements tail"
proof (induction s arbitrary: k rule: localSequence.induct)
  case (1 t n sp i r sp')
  from "1.prems" obtain k' where "SourceShapes.terminalBranchTail r = Some (k', tail)"
      "SyntaxTree.validConditionalOperand i"
    by (auto simp: SourceShapes.terminalBranchTail_def split: prod.splits if_splits)
  with "1.IH" operand_no_conditional(2) show ?case
    by (simp add: SyntaxTree.countTerminalIfStatements_def countNodes.simps [of _ "ImmutableLocalExpr t n sp i r sp'"]
        SyntaxTree.isTerminalIf_def)
qed (simp_all add: SourceShapes.terminalBranchTail_def)

lemma count_oneNested:
  "SourceShapes.oneNested leaf s \<Longrightarrow> SyntaxTree.countTerminalIfStatements s = 2"
  by (auto simp: SourceShapes.oneNested_def split: option.splits)

lemma count_V750: "SourceShapes.validV750NestedTerminalIf s \<Longrightarrow> SyntaxTree.countTerminalIfStatements s = 2"
  by (simp add: SourceShapes.validV750NestedTerminalIf_def count_oneNested)

lemma count_V760:
  "SourceShapes.validV760RootLocalNestedTerminalIf s \<Longrightarrow> SyntaxTree.countTerminalIfStatements s = 2"
  using count_V750 count_tail
  by (auto simp: SourceShapes.validV760RootLocalNestedTerminalIf_def split: option.splits)

lemma count_symmetric:
  "SourceShapes.validSymmetricNestedTerminalIf s b \<Longrightarrow> SyntaxTree.countTerminalIfStatements s = 3"
  by (auto simp: SourceShapes.validSymmetricNestedTerminalIf_def split: option.splits)

lemma count_expanded:
  "SourceShapes.validExpandedDepthThreeTerminalIf s n \<Longrightarrow> SyntaxTree.countTerminalIfStatements s = 3 + n"
  by (auto simp: SourceShapes.validExpandedDepthThreeTerminalIf_def split: option.splits)

lemma count_one: "validOneTerminalStatement n s \<Longrightarrow> SyntaxTree.countTerminalIfStatements s = 1"
  by (auto simp: validOneTerminalStatement_def Let_def split: prod.splits source_expr.splits)

lemmas statement_counts = count_one count_V750 count_V760 count_symmetric count_expanded

section \<open>The descent through the contracts\<close>

text \<open>The front end up to v0.77.0: the shapes that the Core tests for below v0.78.0.\<close>

definition upTo77 :: "source_expr \<Rightarrow> bool" where
  "upTo77 s \<longleftrightarrow>
     validOneTerminalStatement 73 s \<or> SourceShapes.validV750NestedTerminalIf s
     \<or> SourceShapes.validV760RootLocalNestedTerminalIf s
     \<or> SourceShapes.validV770SymmetricRootLocalNestedTerminalIf s"

lemma plain_core:
  assumes "sameForm s c" "plainBody s"
  shows "\<not> exprContainsPropagation c" "CoreShapes.countMatchExpressions c = 0"
  using assms(2) counts_agree [THEN agreeD, OF assms(1)]
  by (simp_all add: plainBody_def containsPropagation_count)

lemma older_nested:
  assumes "sameForm s (fnBody f)" "plainBody s" "1 < SyntaxTree.countTerminalIfStatements s"
    "contractNumber n contract"
    "n = 74 \<and> SourceShapes.validV740NestedTerminalIf s
     \<or> 75 \<le> n \<and> n \<le> 77 \<and> SourceShapes.validV750NestedTerminalIf s
     \<or> 76 \<le> n \<and> n \<le> 77 \<and> SourceShapes.validV760RootLocalNestedTerminalIf s
     \<or> n = 77 \<and> SourceShapes.validV770SymmetricRootLocalNestedTerminalIf s"
  shows "olderAccept f contract"
proof -
  note literal = contractNumber_literal [OF assms(4)]
  note core = plain_core [OF assms(1,2)]
  have several: "1 < CoreShapes.countTerminalIfStatements (fnBody f)"
    using assms(3) counts_agree(2) [THEN agreeD, OF assms(1)] by simp
  have unfold: "olderAccept f contract \<longleftrightarrow>
      localContract77 f contract = Ret () \<and> conditionalContract77 (fnBody f) contract = Ret ()"
    by (simp add: olderAccept_def)
  from assms(5) consider
      "n = 74" "CoreShapes.validV740NestedTerminalIf (fnBody f)"
    | "n = 75" "CoreShapes.validV750NestedTerminalIf (fnBody f)"
    | "n = 76" "CoreShapes.validV750NestedTerminalIf (fnBody f)
        \<or> CoreShapes.validV760RootLocalNestedTerminalIf (fnBody f)"
    | "n = 77" "CoreShapes.validV750NestedTerminalIf (fnBody f)
        \<or> CoreShapes.validV760RootLocalNestedTerminalIf (fnBody f)
        \<or> CoreShapes.validV770SymmetricRootLocalNestedTerminalIf (fnBody f)"
    unfolding agreeD [OF validV740NestedTerminalIf_agree assms(1)]
      agreeD [OF validV750NestedTerminalIf_agree assms(1)] agreeD [OF validV760_agree assms(1)]
      agreeD [OF validV770_agree assms(1)]
    by (cases "n = 75"; cases "n = 76"; cases "n = 77") auto
  then show ?thesis
    by cases (use several core in \<open>auto simp: unfold literal localContract77_def conditionalContract77_def Let_def\<close>)
qed

lemma older_upTo77:
  assumes "sameForm s (fnBody f)" "plainBody s" "upTo77 s"
  shows "olderAccept f ''v0.77.0''"
proof -
  have n: "contractNumber 77 ''v0.77.0''" by (rule contract_literals)
  show ?thesis
  proof (cases "validOneTerminalStatement 73 s")
    case True
    then show ?thesis by (rule older_one [OF assms(1) _ assms(2) n]) simp_all
  next
    case False
    then show ?thesis
      using assms(3) statement_counts(2,3) statement_counts(4) [of s True]
      by (intro older_nested [OF assms(1,2) _ n])
        (auto simp: upTo77_def SourceShapes.validV770SymmetricRootLocalNestedTerminalIf_def)
  qed
qed

lemma V740_V750: "SourceShapes.validV740NestedTerminalIf s \<Longrightarrow> SourceShapes.validV750NestedTerminalIf s"
proof -
  have leaf: "SourceShapes.validLeaf x"
    if "\<not> isImmutableLocalExpr x \<and> SyntaxTree.validConditionalOperand x" for x
  proof -
    have "localSequence x = ([], x)" using that by (cases x) (simp_all add: isImmutableLocalExpr_def)
    moreover have "\<not> isConditionalExpr x"
      using that by (subst (asm) SyntaxTree.validConditionalOperand.simps) (simp split: if_splits)
    ultimately show ?thesis
      using that by (simp add: SourceShapes.validLeaf_def SourceShapes.terminalBranchTail_def)
  qed
  have "SourceShapes.validNestedWith SourceShapes.validLeaf b"
    if "SourceShapes.validNestedWith (\<lambda>x. \<not> isImmutableLocalExpr x \<and> SyntaxTree.validConditionalOperand x) b" for b
    using that leaf by (auto simp: SourceShapes.validNestedWith_def split: option.splits)
  then show "SourceShapes.validV740NestedTerminalIf s \<Longrightarrow> SourceShapes.validV750NestedTerminalIf s"
    by (auto simp: SourceShapes.validV740NestedTerminalIf_def SourceShapes.validV750NestedTerminalIf_def
        SourceShapes.oneNested_def split: option.splits)
qed

text \<open>The shapes that v0.78.0 to v0.80.0 add, in the order in which the Core comes to them.\<close>

definition upTo78 :: "source_expr \<Rightarrow> bool" where
  "upTo78 s \<longleftrightarrow> upTo77 s \<or> SourceShapes.validSymmetricNestedTerminalIf s False"

definition upTo79 :: "source_expr \<Rightarrow> bool" where
  "upTo79 s \<longleftrightarrow> upTo78 s \<or> SourceShapes.validV790BoundedDepthThreeTerminalIf s"

definition upTo80 :: "source_expr \<Rightarrow> bool" where
  "upTo80 s \<longleftrightarrow> upTo79 s \<or> SourceShapes.validV800TwoExpandedTerminalIf s"

lemma upTo_counts:
  "upTo78 s \<Longrightarrow> SyntaxTree.countTerminalIfStatements s \<le> 3"
  "upTo79 s \<Longrightarrow> SyntaxTree.countTerminalIfStatements s \<le> 4"
  using statement_counts(1-3) statement_counts(4) [of s] statement_counts(5) [of s 1]
  by (auto simp: upTo77_def upTo78_def upTo79_def
      SourceShapes.validV770SymmetricRootLocalNestedTerminalIf_def
      SourceShapes.validV790BoundedDepthThreeTerminalIf_def)

lemma from80_accepts:
  assumes "sameForm s c" "upTo77 s \<Longrightarrow> older ''v0.77.0'' = Ret ()"
  shows "upTo78 s \<Longrightarrow> from78 older c = Ret ()" "upTo79 s \<Longrightarrow> from79 older c = Ret ()"
    "upTo80 s \<Longrightarrow> from80 older c = Ret ()"
proof -
  note core = agreeD [OF validSymmetric_agree assms(1)] agreeD [OF validV790_agree assms(1)]
    agreeD [OF validV800_agree assms(1)]
  have counts: "upTo78 s \<Longrightarrow> CoreShapes.countTerminalIfStatements c \<le> 3"
      "upTo79 s \<Longrightarrow> CoreShapes.countTerminalIfStatements c \<le> 4"
    using upTo_counts [of s] counts_agree(2) [THEN agreeD, OF assms(1)] by simp_all
  show at78: "from78 older c = Ret ()" if "upTo78 s"
    using that assms(2) by (auto simp: from78_def upTo78_def core)
  show at79: "from79 older c = Ret ()" if "upTo79 s"
    using that at78 counts(1) by (auto simp: from79_def upTo79_def core)
  show "from80 older c = Ret ()" if "upTo80 s"
    using that at79 counts(2) by (auto simp: from80_def upTo80_def core)
qed

lemma upTo80_contract: "validTerminalIf80 80 s = upTo80 s" "validTerminalIf80 79 s = upTo79 s"
  "validTerminalIf80 78 s = upTo78 s" "validTerminalIf80 77 s = upTo77 s"
  by (simp_all add: validTerminalIf80_def validTerminalIf74_def upTo80_def upTo79_def upTo78_def
      upTo77_def Let_def disj_ac)

lemma descend_accepts:
  assumes "sameForm s c" "contractNumber n contract" "78 \<le> n" "n \<le> 115" "validTerminalIf87 n s"
    "containsTerminalIfStatement s" "upTo77 s \<Longrightarrow> older ''v0.77.0'' = Ret ()"
  shows "descend older contract c = Ret ()"
proof -
  note literal = contractNumber_literal [OF assms(2)]
  have older: "upTo78 s \<Longrightarrow> from78 older c = Ret ()" "upTo79 s \<Longrightarrow> from79 older c = Ret ()"
      "upTo80 s \<Longrightarrow> from80 older c = Ret ()"
    using from80_accepts [OF assms(1), of older] assms(7) by blast+
  note core = agreeD [OF validV810TerminalTree_agree assms(1)] agreeD [OF validV820_agree assms(1)]
    agreeD [OF validConditionalLocalTree_agree assms(1)]
    agreeD [OF validTerminalLeafConditionalReturns_agree assms(1)]
  have terminal: "0 < CoreShapes.countTerminalIfStatements c"
    using agreeD [OF containsTerminalIf_agree assms(1)] assms(6) by simp
  let ?at81 = "SourceShapes.validV810TerminalTree s 3 \<or> upTo80 s"
  let ?at82 = "SourceShapes.validV820ConditionalLocalTree s \<or> ?at81"
  let ?at83 = "SourceShapes.validConditionalLocalTree s (Some 2) \<or> ?at82"
  let ?at84 = "SourceShapes.validConditionalLocalTree s None \<or> ?at83"
  let ?at87 = "SourceShapes.validTerminalLeafConditionalReturns s \<or> ?at84"
  have at81: "from81 older c = Ret ()" if ?at81
    using that older(3) terminal by (auto simp: from81_def core)
  have at82: "from82 older c = Ret ()" if ?at82 using that at81 by (auto simp: from82_def core)
  have at83: "from83 older c = Ret ()" if ?at83 using that at82 by (auto simp: from83_def core)
  have at84: "from84 older c = Ret ()" if ?at84 using that at83 by (auto simp: from84_def core)
  have at86: "from85 older c = Ret ()" "from86 older c = Ret ()" if ?at84
    using at84 [OF that] by (auto simp: from85_def from86_def)
  have at87: "from87 older c = Ret ()" if ?at87 using that at86 by (auto simp: from87_def core)
  have valid: "if 87 \<le> n then ?at87 else if 84 \<le> n then ?at84 else if n = 83 then ?at83
      else if n = 82 then ?at82 else if n = 81 then ?at81 else if n = 80 then upTo80 s
      else if n = 79 then upTo79 s else upTo78 s"
  proof -
    consider "87 \<le> n" | "84 \<le> n" "n < 87" | "n = 83" | "n = 82" | "n = 81" | "n = 80" | "n = 79"
      | "n = 78"
      using assms(3) by linarith
    then show ?thesis
      using assms(4,5) by cases (simp_all add: validTerminalIf87_def Let_def upTo80_contract)
  qed
  have "descend older contract c =
      (if 87 \<le> n then from87 older c else if n = 86 then from86 older c else if n = 85 then from85 older c
       else if n = 84 then from84 older c else if n = 83 then from83 older c
       else if n = 82 then from82 older c else if n = 81 then from81 older c
       else if n = 80 then from80 older c else if n = 79 then from79 older c else from78 older c)"
    using assms(2-4) by (simp add: descend_def literal)
  also have "\<dots> = Ret ()"
  proof (cases "84 \<le> n")
    case True
    with valid at84 at86 at87 show ?thesis by (cases "87 \<le> n") auto
  next
    case False
    with valid at81 at82 at83 older show ?thesis by (simp split: if_splits)
  qed
  finally show ?thesis .
qed

lemma later_shape:
  assumes "sameForm s c" "contractNumber n contract" "list_ex (\<lambda>(first, shape). first \<le> n \<and> n \<le> 115 \<and> shape s) laterTerminalShapes"
  shows "admittedShape contract c"
  using assms(3)
  unfolding laterTerminalShapes_def list_ex_Cons_iff list_ex_Nil_iff prod.case
    agreeD [OF validTerminalLeafSelectorValueArms_agree assms(1)]
    agreeD [OF validStraightLineSelectorValueArms_agree assms(1)]
    agreeD [OF validTerminalCombinedSelectorArms_agree assms(1)]
    agreeD [OF validTerminalInnerSelectorArms_agree assms(1)]
    agreeD [OF validTerminalSelectorValueArms_agree assms(1)]
    agreeD [OF validTerminalBooleanSelectorTests_agree assms(1)]
    agreeD [OF validDepthThreeTerminalConditionalTests_agree assms(1)]
    agreeD [OF validNestedTerminalConditionalTests_agree assms(1)]
    agreeD [OF validTerminalConditionalTests_agree assms(1)]
    agreeD [OF validTerminalBooleanSelectorInitializers_agree assms(1)]
    agreeD [OF validTerminalLeafBooleanSelectors_agree assms(1)]
    agreeD [OF validDepthThreeTerminalInitializers_agree assms(1)]
    agreeD [OF validDepthThreeTerminalLeafReturns_agree assms(1)]
    agreeD [OF validNestedTerminalInitializers_agree assms(1)]
    agreeD [OF validNestedTerminalLeafReturns_agree assms(1)]
    admittedShape_def contractNumber_in [OF assms(2)]
  by (elim disjE conjE FalseE) simp_all

lemma older_accepts:
  assumes "sameForm s (fnBody f)" "contractNumber n contract" "69 \<le> n" "n < 78"
    "validTerminalIf87 n s" "plainBody s"
  shows "olderAccept f contract"
proof -
  consider "n \<le> 73" | "n = 74" | "n = 75" | "n = 76" | "n = 77" using assms(4) by linarith
  then show ?thesis
  proof cases
    case 1
    with assms(3,5) have "validOneTerminalStatement n s"
      by (simp add: validTerminalIf87_def validTerminalIf80_def validTerminalIf74_def Let_def split: if_splits)
    from one_statement [OF assms(1) this assms(3) 1 assms(2,6)] count_one [OF this] 1
    show ?thesis
      using counts_agree(2) [THEN agreeD, OF assms(1)] contractNumber_literal [OF assms(2)] assms(2)
      by (simp add: olderAccept_def localContract77_def conditionalContract77_def Let_def)
  next
    case 5
    with older_upTo77 [OF assms(1,6)] assms(5) upTo80_contract contractNumber_literal(10) [OF assms(2)]
    show ?thesis by (simp add: validTerminalIf87_def Let_def)
  qed (use assms(5) older_one [OF assms(1) _ assms(6,2)] older_nested [OF assms(1,6) _ assms(2)]
      statement_counts(2,3) count_oneNested in
      \<open>auto simp: validTerminalIf87_def validTerminalIf80_def validTerminalIf74_def Let_def
         SourceShapes.validV740NestedTerminalIf_def\<close>)
qed

text \<open>C19: A method body with a terminal statement whose shape the front end admits under a language
  contract from v0.69.0 on, and that has no propagation or match, is admitted by the local and the
  conditional contract that the Core validator checks its lowered form against, if the contract is
  before v0.113.0 or the lowered function has no enum. (From v0.113.0 on a function with an enum is
  checked by \<open>validateEnumComposition\<close> instead, which has rules of its own.)\<close>

theorem terminal_shapes_agree:
  assumes "sameForm s (fnBody f)" "contractNumber n contract" "69 \<le> n" "validTerminalIfStatement n s"
    "containsTerminalIfStatement s" "plainBody s" "n < 113 \<or> \<not> FunctionHasEnum f"
  shows "validateImmutableLocalContract contract f = Ret ()
    \<and> validateConditionalContract contract f = Ret ()"
proof -
  let ?c = "fnBody f"
  note literal = contractNumber_literal [OF assms(2)]
  have bound: "n \<le> 115"
    using assms(2,3) positionOf_Some supported_count by (fastforce simp: contractNumber_def)
  have limit: "contractIn 113 115 contract \<and> FunctionHasEnum f \<longleftrightarrow> False"
    using assms(2,7) by auto
  consider (later) "admittedShape contract ?c" | (descends) "78 \<le> n" "validTerminalIf87 n s"
    | (older) "n < 78" "olderAccept f contract"
    using assms(4) later_shape [OF assms(1,2)] older_accepts [OF assms(1-3) _ _ assms(6)]
    by (cases "78 \<le> n") (auto simp: validTerminalIfStatement_def)
  then show ?thesis
  proof cases
    case later
    then show ?thesis
      by (simp only: validateImmutableLocalContract_def validateConditionalContract_def limit) simp
  next
    case descends
    have "descend (localContract77 f) contract ?c = Ret ()"
        "descend (conditionalContract77 ?c) contract ?c = Ret ()"
      using older_upTo77 [OF assms(1,6)]
      by (auto intro!: descend_accepts [OF assms(1,2) descends(1) bound descends(2) assms(5)]
          simp: olderAccept_def)
    then show ?thesis
      by (simp only: validateImmutableLocalContract_def validateConditionalContract_def limit) simp
  next
    case older
    then have "descend g contract ?c = g contract" for g
      using assms(2) by (auto simp: descend_def literal)
    with older(2) show ?thesis
      by (simp only: validateImmutableLocalContract_def validateConditionalContract_def limit olderAccept_def)
        simp
  qed
qed

text \<open>\<open>if (a) { return b; } else { return c; }\<close> before and after lowering.\<close>

definition sampleStatement :: source_expr where
  "sampleStatement =
     ConditionalExpr (IdentExpr ''a'' zeroSpan) (IdentExpr ''b'' zeroSpan) (IdentExpr ''c'' zeroSpan) True zeroSpan"

definition loweredStatement :: expr where
  "loweredStatement = Expr None ExprConditional textType None None None None
     (Some (Conditional (Some (referenceExpr boolType 0)) (Some (referenceExpr textType 1))
       (Some (referenceExpr textType 2)) True)) None None None None None None None None
     None None None None None None None None None None None None None None None None None None None
     None None None"

lemma sampleStatement_form: "sameForm sampleStatement loweredStatement"
proof -
  have "sameForm (IdentExpr n zeroSpan) (referenceExpr t i)" for n t i
    by (rule sameForm [where cs = "[]"])
      (simp_all add: sourceForm_def coreForm_def referenceExpr_def CoreExpr.expressionChildren_def)
  then show ?thesis
    by (intro sameForm [where cs = "[referenceExpr boolType 0, referenceExpr textType 1, referenceExpr textType 2]"])
      (simp_all add: sampleStatement_def loweredStatement_def sourceForm_def coreForm_def
        CoreShapes.isTerminalIf_def CoreExpr.expressionChildren_def)
qed

lemma sampleStatement_shape:
  "validTerminalIfStatement 73 sampleStatement" "containsTerminalIfStatement sampleStatement"
  "plainBody sampleStatement"
  by code_simp+

theorem terminal_shapes_agree_witness:
  "validateImmutableLocalContract ''v0.73.0'' (trimFunction\<lparr>fnBody := loweredStatement\<rparr>) = Ret ()
   \<and> validateConditionalContract ''v0.73.0'' (trimFunction\<lparr>fnBody := loweredStatement\<rparr>) = Ret ()"
  by (rule terminal_shapes_agree [of sampleStatement _ 73])
    (simp_all add: sampleStatement_form sampleStatement_shape contract_literals)

section \<open>All shape tests\<close>

text \<open>Each test of the front end with its counterpart in the Core.\<close>

definition shapeTests :: "((source_expr \<Rightarrow> bool) \<times> (expr \<Rightarrow> bool)) list" where
  "shapeTests =
     [(SyntaxTree.validConditionalOperand, CoreShapes.validConditionalOperand),
      (SourceShapes.validV740NestedTerminalIf, CoreShapes.validV740NestedTerminalIf),
      (SourceShapes.validV750NestedTerminalIf, CoreShapes.validV750NestedTerminalIf),
      (SourceShapes.validV760RootLocalNestedTerminalIf, CoreShapes.validV760RootLocalNestedTerminalIf),
      (SourceShapes.validV770SymmetricRootLocalNestedTerminalIf, CoreShapes.validV770SymmetricRootLocalNestedTerminalIf),
      (SourceShapes.validV790BoundedDepthThreeTerminalIf, CoreShapes.validV790BoundedDepthThreeTerminalIf),
      (SourceShapes.validV800TwoExpandedTerminalIf, CoreShapes.validV800TwoExpandedTerminalIf),
      (SourceShapes.validV820ConditionalLocalTree, CoreShapes.validV820ConditionalLocalTree),
      (SourceShapes.validStraightLineConditionalLocals, CoreShapes.validStraightLineConditionalLocals),
      (SourceShapes.validConditionalReturnComposition, CoreShapes.validConditionalReturnComposition),
      (SourceShapes.validNestedStraightLineReturns, CoreShapes.validNestedStraightLineReturns),
      (SourceShapes.validNestedStraightLineInitializers, CoreShapes.validNestedStraightLineInitializers),
      (SourceShapes.validDepthThreeStraightLineReturns, CoreShapes.validDepthThreeStraightLineReturns),
      (SourceShapes.validDepthThreeStraightLineInitializers, CoreShapes.validDepthThreeStraightLineInitializers),
      (SourceShapes.validConditionalBooleanSelector, CoreShapes.validConditionalBooleanSelector),
      (SourceShapes.validStraightLineBooleanSelectorInitializers, CoreShapes.validStraightLineBooleanSelectorInitializers),
      (SourceShapes.validTerminalBooleanSelectorInitializers, CoreShapes.validTerminalBooleanSelectorInitializers),
      (SourceShapes.validTerminalLeafConditionalReturns, CoreShapes.validTerminalLeafConditionalReturns),
      (SourceShapes.validNestedTerminalLeafReturns, CoreShapes.validNestedTerminalLeafReturns),
      (SourceShapes.validNestedTerminalInitializers, CoreShapes.validNestedTerminalInitializers),
      (SourceShapes.validTerminalLeafBooleanSelectors, CoreShapes.validTerminalLeafBooleanSelectors),
      (SourceShapes.validDepthThreeTerminalLeafReturns, CoreShapes.validDepthThreeTerminalLeafReturns),
      (SourceShapes.validDepthThreeTerminalInitializers, CoreShapes.validDepthThreeTerminalInitializers),
      (SourceShapes.validFlatConditionalTest, CoreShapes.validFlatConditionalTest),
      (SourceShapes.validNestedConditionalTest, CoreShapes.validNestedConditionalTest),
      (SourceShapes.validDepthThreeConditionalTest, CoreShapes.validDepthThreeConditionalTest),
      (SourceShapes.validSelectorValueArmTest, CoreShapes.validSelectorValueArmTest),
      (SourceShapes.validInnerSelectorArmTest, CoreShapes.validInnerSelectorArmTest),
      (SourceShapes.validCombinedSelectorArmTest, CoreShapes.validCombinedSelectorArmTest),
      (SourceShapes.validTerminalConditionalTests, CoreShapes.validTerminalConditionalTests),
      (SourceShapes.validNestedTerminalConditionalTests, CoreShapes.validNestedTerminalConditionalTests),
      (SourceShapes.validDepthThreeTerminalConditionalTests, CoreShapes.validDepthThreeTerminalConditionalTests),
      (SourceShapes.validTerminalBooleanSelectorTests, CoreShapes.validTerminalBooleanSelectorTests),
      (SourceShapes.validTerminalSelectorValueArms, CoreShapes.validTerminalSelectorValueArms),
      (SourceShapes.validTerminalInnerSelectorArms, CoreShapes.validTerminalInnerSelectorArms),
      (SourceShapes.validTerminalCombinedSelectorArms, CoreShapes.validTerminalCombinedSelectorArms),
      (SourceShapes.validStraightLineSelectorValueArms, CoreShapes.validStraightLineSelectorValueArms),
      (SourceShapes.validTerminalLeafSelectorValueArms, CoreShapes.validTerminalLeafSelectorValueArms),
      (\<lambda>s. SourceShapes.validV810TerminalTree s 3, \<lambda>c. CoreShapes.validV810TerminalTree c 3),
      (\<lambda>s. SourceShapes.validSymmetricNestedTerminalIf s False, \<lambda>c. CoreShapes.validSymmetricNestedTerminalIf c False),
      (\<lambda>s. SourceShapes.validConditionalLocalTree s (Some 2), \<lambda>c. CoreShapes.validConditionalLocalTree c (Some 2)),
      (\<lambda>s. SourceShapes.validConditionalLocalTree s None, \<lambda>c. CoreShapes.validConditionalLocalTree c None)]"

text \<open>C18: Every test of the shape of a body that the front end makes on the syntax tree gives the
  same answer as the test of that name that the Core validator makes on the lowered expression.\<close>

theorem shape_tests_agree:
  assumes "sameForm s c" "(P, Q) \<in> set shapeTests"
  shows "P s \<longleftrightarrow> Q c"
proof -
  have "list_all (\<lambda>(P, Q). agree P Q) shapeTests"
    unfolding shapeTests_def list.pred_inject(2) prod.case
    by (intro conjI agrees list.pred_inject(1))
  with assms show ?thesis by (auto simp: list_all_iff dest: agreeD)
qed

theorem shape_tests_agree_witness:
  "(SourceShapes.validFlatConditionalTest, CoreShapes.validFlatConditionalTest) \<in> set shapeTests
   \<and> (SourceShapes.validFlatConditionalTest sampleStatement
       \<longleftrightarrow> CoreShapes.validFlatConditionalTest loweredStatement)"
proof -
  have "(SourceShapes.validFlatConditionalTest, CoreShapes.validFlatConditionalTest) \<in> set shapeTests"
    by (simp add: shapeTests_def)
  with shape_tests_agree [OF sampleStatement_form this] show ?thesis by simp
qed

end
