(* ===== verification/WorkflowTypes.thy ===== *)
theory WorkflowTypes
  imports GoStrings Numeric
begin

text \<open>
  The authored data model of workflows (domain/workflow.go, model/dependency/model.go,
  domain/workflow_inject.go): one record per struct. A pointer to a scalar is an option, a slice
  a list. A map of authored data is the list of its entries, in the order in which an iteration
  yields them.
\<close>

section \<open>Dependencies\<close>

record install_hint =
  hiWindows :: string
  hiMacOS :: string
  hiLinux :: string
  hiDeb :: string

record host_dependency =
  hdID :: string
  hdCommand :: string
  hdDescription :: string
  hdRequired :: "bool option"
  hdInstall :: install_hint

type_synonym dependency_spec = "host_dependency list"

record inject_entry =
  ieWorkflow :: string
  ieResolver :: string
  iePackage :: string

record input_binding =
  ibValue :: string
  ibFrom :: string

section \<open>Containers, workspaces, security\<close>

record compose_config =
  ccFile :: string
  ccProject :: string
  ccProjectDirectory :: string
  ccAutodownEnv :: string
  ccExports :: "(string \<times> string) list"
  ccServices :: "string list"

text \<open>\<open>WorkflowImageConfig\<close> with its one field \<open>packages.apt\<close>.\<close>

type_synonym image_config = "string list"

record container_mount =
  cmHost :: string
  cmGuest :: string
  cmMode :: string

record container_config =
  ctWorkdirHost :: string
  ctWorkPath :: string
  ctMounts :: "container_mount list"

record lifecycle_config =
  lcBranchPrefix :: string
  lcBranch :: string
  lcCheckpoint :: string
  lcPublish :: string

record workspace_config =
  wcRepo :: string
  wcMode :: string
  wcBase :: string
  wcStorage :: string
  wcLifecycle :: lifecycle_config

record network_config =
  ncMode :: string
  ncAllow :: "string list"
  ncBlock :: "string list"

record filesystem_config =
  fcRoot :: string
  fcWrites :: string
  fcWritablePaths :: "string list"
  fcTempPaths :: "string list"

record resource_limits =
  rlCPU :: string
  rlMemory :: string

record process_config =
  pcUser :: string
  pcPIDLimit :: int
  pcResources :: resource_limits

record security_config =
  scProfile :: string
  scNetwork :: network_config
  scFilesystem :: filesystem_config
  scProcess :: process_config

record vm_mount =
  vmHost :: string
  vmGuest :: string

record vm_config =
  vcMounts :: "vm_mount list"
  vcHostContext :: string
  vcGuestPath :: string
  vcInteractiveDebug :: "bool option"
  vcInteractiveSSH :: "bool option"
  vcKeepAlive :: "bool option"
  vcKeepAliveSeconds :: string
  vcHostFwd :: string

section \<open>Views and agents\<close>

record view_option =
  voValue :: string
  voLabel :: string
  voNext :: string
  voPages :: "string list"

record view_entry =
  veType :: string
  veField :: string
  veTitle :: string
  veDescription :: string
  veOptions :: "view_option list"

record view_section =
  vsID :: string
  vsTitle :: string
  vsDescription :: string
  vsFields :: "string list"

record view_page =
  vpID :: string
  vpTitle :: string
  vpDescription :: string
  vpSections :: "view_section list"

record workflow_view =
  wvEntry :: "view_entry option"
  wvPages :: "view_page list"

record access_config =
  acRead :: "string list"
  acWrite :: "string list"
  acDeny :: "string list"

record attempt_policy =
  apPreference :: string
  apMaxAttempts :: int

record validate_policy =
  vaPreference :: string
  vaRequiredFor :: "string list"

record escalation_policy =
  epEnabled :: "bool option"
  epOn :: "string list"
  epRequireApproval :: "bool option"

record model_policy =
  mpMode :: string
  mpExecutionMode :: string
  mpRole :: string
  mpSessionScope :: string
  mpMaxActive :: int
  mpQueueTimeoutSeconds :: int
  mpAttempt :: attempt_policy
  mpValidate :: validate_policy
  mpEscalation :: escalation_policy

record model_config =
  mcProvider :: string
  mcModel :: string
  mcTemperature :: "float64 option"
  mcTopP :: "float64 option"
  mcNumPredict :: int
  mcNumCtx :: int
  mcKeepAlive :: string
  mcEscalationProvider :: string
  mcEscalationModel :: string

record plan_config =
  plGoal :: string
  plSteps :: "string list"

record concurrency_config =
  cyMaxWorkers :: int
  cyMaxLocalWorkers :: int
  cyMaxCloudWorkers :: int

record shared_artifact =
  saPath :: string
  saCollector :: string
  saText :: string
  saFocus :: string
  saStartingPoints :: "string list"

record task_context =
  tcRequiredArtifacts :: "string list"
  tcSeedPaths :: "string list"
  tcSourceRoots :: "string list"

record task_config =
  tkID :: string
  tkAgent :: string
  tkGoal :: string
  tkBrief :: string
  tkContext :: task_context
  tkExpectedOutput :: string
  tkPrompt :: string
  tkConstraints :: "string list"
  tkDependsOn :: "string list"
  tkClaims :: "string list"
  tkCitations :: "string list"
  tkMaxCloudTokens :: int
  tkMaterializeOutputs :: "(string \<times> string) list"

record merge_config =
  mgID :: string
  mgTitle :: string
  mgSummaryPoints :: "string list"

record verify_config =
  vfID :: string
  vfNextActionDefault :: string

record apply_config =
  alRequireApproval :: "bool option"
  alOutputs :: "(string \<times> string) list"

record orchestration_config =
  ocRequest :: string
  ocPlan :: plan_config
  ocConcurrency :: concurrency_config
  ocShared :: "shared_artifact list"
  ocTasks :: "task_config list"
  ocMerge :: merge_config
  ocVerify :: verify_config
  ocApply :: apply_config

record agent_config =
  agStartupPrompt :: string
  agIncludeAgentsMD :: "bool option"
  agAccessiblePaths :: "string list"
  agAccess :: access_config
  agTaskID :: string
  agModel :: model_config
  agModelPolicy :: model_policy
  agOrchestration :: "orchestration_config option"

section \<open>Steps and workflows\<close>

record step_scopes =
  ssSource :: string
  ssArtifacts :: string

record step =
  spID :: string
  spKind :: string
  spCWD :: string
  spScopes :: step_scopes
  spRun :: "string list"
  spPreScript :: string
  spIsolate :: string
  spAct :: string
  spAction :: string
  spCmd :: string
  spCommand :: string
  spOutputs :: string
  spInputs :: "(string \<times> input_binding) list"
  spVars :: "(string \<times> string) list"
  spVM :: vm_config
  spSecurity :: security_config
  spImage :: image_config
  spContainer :: container_config
  spAgent :: agent_config
  spBlocking :: "bool option"
  spCaptureStdout :: string
  spManifest :: string
  spRuntime :: string
  spResolver :: string
  spWorkflowName :: string
  spPackage :: string
  spHostBuiltin :: string

text \<open>
  \<open>Workflow\<close> and \<open>workflowFile\<close> have the same fields but for the type of the steps and two fields
  that only the file has.
\<close>

record 's workflow_base =
  wfName :: string
  wfDescription :: string
  wfCategory :: string
  wfIcon :: string
  wfWorkflowType :: string
  wfNamespace :: string
  wfRun :: "string list"
  wfPlatforms :: "string list"
  wfIsolate :: string
  wfAct :: string
  wfAction :: string
  wfResolver :: string
  wfRuntime :: string
  wfStrategy :: string
  wfStrategies :: "string list"
  wfVault :: string
  wfDockerPreflight :: "bool option"
  wfCompileHooks :: "string list"
  wfTypes :: "string list"
  wfView :: workflow_view
  wfModelPolicy :: model_policy
  wfImage :: image_config
  wfContainer :: container_config
  wfWorkspace :: workspace_config
  wfDependencies :: dependency_spec
  wfInject :: "inject_entry list"
  wfInputs :: "(string \<times> input_binding) list"
  wfVars :: "(string \<times> string) list"
  wfCompose :: compose_config
  wfSecurity :: security_config
  wfSteps :: "'s list"
  wfFinally :: "'s list"

type_synonym workflow = "step workflow_base"

record async_group =
  gpMode :: string
  gpTasks :: "step list"

text \<open>An entry with neither is what a failed decoding would leave.\<close>

record step_or_group =
  sgGroup :: "async_group option"
  sgStep :: "step option"

record workflow_file = "step_or_group workflow_base" +
  wfAgent :: agent_config
  wfImports :: "string list"

end
