(* ===== verification/WorkflowValidate.thy ===== *)
theory WorkflowValidate
  imports WorkflowTypes
begin

text \<open>
  Effective values and validation of workflows (domain/workflow.go, workflow_step_values.go,
  workflow_runtime_values.go, runtime_policy_values.go, namespace.go, dependencies.go,
  vault_mode.go, workflow_validate.go). Errors carry the constant part of their message. Where
  the code iterates over a map to look for an error, the map has a fixed order here; which error
  is reported first is not stated of it.
\<close>

section \<open>Values of steps\<close>

definition NormalizeStepKind :: "string \<Rightarrow> string" where
  "NormalizeStepKind value =
     (let kind = ToLower (TrimSpace value) in if kind = [] then ''container'' else kind)"

definition StepKindIsValid :: "string \<Rightarrow> bool" where
  "StepKindIsValid kind \<longleftrightarrow> kind = ''container'' \<or> kind = ''host''"

definition normalizeStepPathScope :: "string \<Rightarrow> string \<Rightarrow> string" where
  "normalizeStepPathScope value emptyDefault =
     (let scope = ToLower (TrimSpace value) in
      if scope = [] then emptyDefault
      else if scope \<in> {''source'', ''repo'', ''workdir''} then ''source''
      else if scope \<in> {''artifacts'', ''artifact''} then ''artifacts''
      else scope)"

definition StepPathScopeIsValid :: "string \<Rightarrow> bool" where
  "StepPathScopeIsValid scope \<longleftrightarrow> scope = ''source'' \<or> scope = ''artifacts''"

definition HostBuiltinIsValid :: "string \<Rightarrow> bool" where
  "HostBuiltinIsValid b \<longleftrightarrow> b \<in> {''package_build_store'', ''compose_up'', ''compose_down'', ''compose_ps''}"

definition NeedsCompose :: "string \<Rightarrow> bool" where
  "NeedsCompose b \<longleftrightarrow> b \<in> {''compose_up'', ''compose_down'', ''compose_ps''}"

definition NeedsDocker :: "string \<Rightarrow> bool" where
  "NeedsDocker b \<longleftrightarrow> NeedsCompose b"

definition ComposeAction :: "string \<Rightarrow> string" where
  "ComposeAction b = (if HasPrefix b ''compose_'' then drop 8 b else b)"

definition UsesPackagedWorkflow :: "step \<Rightarrow> bool" where
  "UsesPackagedWorkflow s \<longleftrightarrow> TrimSpace (spWorkflowName s) \<noteq> [] \<or> TrimSpace (spPackage s) \<noteq> []"

definition EffectiveKind :: "step \<Rightarrow> string" where
  "EffectiveKind s = NormalizeStepKind (spKind s)"

definition EffectiveCWD :: "step \<Rightarrow> string" where
  "EffectiveCWD s = normalizeStepPathScope (spCWD s) ''source''"

definition EffectiveSourceScope :: "step \<Rightarrow> string" where
  "EffectiveSourceScope s = normalizeStepPathScope (ssSource (spScopes s)) ''source''"

definition EffectiveArtifactsScope :: "step \<Rightarrow> string" where
  "EffectiveArtifactsScope s = normalizeStepPathScope (ssArtifacts (spScopes s)) ''artifacts''"

definition EffectiveHostBuiltin :: "step \<Rightarrow> string" where
  "EffectiveHostBuiltin s = TrimSpace (spHostBuiltin s)"

definition IsHostStep :: "step \<Rightarrow> bool" where
  "IsHostStep s \<longleftrightarrow> EffectiveKind s = ''host''"

definition RuntimeProfileName :: "step \<Rightarrow> string" where
  "RuntimeProfileName s =
     (let r = TrimSpace (spRuntime s) in if r \<noteq> [] then r else TrimSpace (spResolver s))"

definition IsBlocking :: "step \<Rightarrow> bool" where
  "IsBlocking s = (case spBlocking s of None \<Rightarrow> True | Some b \<Rightarrow> b)"

definition RunPaths :: "step \<Rightarrow> string list" where
  "RunPaths s = spRun s @ (if spPreScript s \<noteq> [] then [spPreScript s] else [])"

definition ActPath :: "step \<Rightarrow> string" where
  "ActPath s = (if spAct s \<noteq> [] then spAct s else spAction s)"

definition CmdLine :: "step \<Rightarrow> string" where
  "CmdLine s = (if spCmd s \<noteq> [] then spCmd s else spCommand s)"

definition OutputsPath :: "step \<Rightarrow> string" where
  "OutputsPath s = (if spOutputs s \<noteq> [] then spOutputs s else ''outputs.env'')"

section \<open>Empty settings\<close>

definition blank :: "string \<Rightarrow> bool" where "blank s \<longleftrightarrow> TrimSpace s = []"

definition WorkspaceIsEmpty :: "workspace_config \<Rightarrow> bool" where
  "WorkspaceIsEmpty c \<longleftrightarrow> blank (wcRepo c) \<and> blank (wcMode c) \<and> blank (wcBase c) \<and> blank (wcStorage c)
     \<and> blank (lcBranchPrefix (wcLifecycle c)) \<and> blank (lcBranch (wcLifecycle c))
     \<and> blank (lcCheckpoint (wcLifecycle c)) \<and> blank (lcPublish (wcLifecycle c))"

definition ContainerIsEmpty :: "container_config \<Rightarrow> bool" where
  "ContainerIsEmpty c \<longleftrightarrow> blank (ctWorkdirHost c) \<and> blank (ctWorkPath c) \<and> ctMounts c = []"

definition VMIsEmpty :: "vm_config \<Rightarrow> bool" where
  "VMIsEmpty c \<longleftrightarrow> vcMounts c = [] \<and> blank (vcHostContext c) \<and> blank (vcGuestPath c)
     \<and> vcInteractiveDebug c = None \<and> vcInteractiveSSH c = None \<and> vcKeepAlive c = None
     \<and> blank (vcKeepAliveSeconds c) \<and> blank (vcHostFwd c)"

definition SecurityIsEmpty :: "security_config \<Rightarrow> bool" where
  "SecurityIsEmpty c \<longleftrightarrow> blank (scProfile c) \<and> blank (ncMode (scNetwork c)) \<and> ncAllow (scNetwork c) = []
     \<and> ncBlock (scNetwork c) = [] \<and> blank (fcRoot (scFilesystem c)) \<and> blank (fcWrites (scFilesystem c))
     \<and> fcWritablePaths (scFilesystem c) = [] \<and> fcTempPaths (scFilesystem c) = []
     \<and> blank (pcUser (scProcess c)) \<and> pcPIDLimit (scProcess c) = 0
     \<and> blank (rlCPU (pcResources (scProcess c))) \<and> blank (rlMemory (pcResources (scProcess c)))"

section \<open>Docker\<close>

definition AnyContainerStep :: "workflow \<Rightarrow> bool" where
  "AnyContainerStep w \<longleftrightarrow>
     list_ex (\<lambda>s. \<not> IsHostStep s \<or> NeedsDocker (EffectiveHostBuiltin s)) (wfSteps w)"

definition NeedsDockerReachable :: "workflow \<Rightarrow> bool" where
  "NeedsDockerReachable w \<longleftrightarrow>
     (if AnyContainerStep w then True
      else if wfDockerPreflight w = Some False then False
      else list_ex (\<lambda>s. RunPaths s \<noteq> [] \<or> TrimSpace (spResolver s) \<noteq> []) (wfSteps w))"

section \<open>Names\<close>

text \<open>\<open>^[a-z][a-z0-9-]*$\<close>, the pattern of workflow types and of namespaces.\<close>

definition isLabel :: "string \<Rightarrow> bool" where
  "isLabel s \<longleftrightarrow>
     (case s of [] \<Rightarrow> False
      | c # cs \<Rightarrow> byte c \<in> {97..122}
          \<and> list_all (\<lambda>d. byte d \<in> {97..122} \<or> byte d \<in> {48..57} \<or> d = CHR ''-'') cs)"

definition ValidateWorkflowTypeField :: "workflow \<Rightarrow> unit res" where
  "ValidateWorkflowTypeField w =
     (let t = TrimSpace (wfWorkflowType w) in
      if t = [] then Ret () else rejectIf (\<not> isLabel t) ''workflow_type must match the pattern'')"

definition reservedNamespaces :: "string list" where
  "reservedNamespaces = [''dockpipe'', ''dorkpipe'', ''pipeon'', ''system'', ''internal'', ''reserved'',
     ''public'', ''local'', ''global'', ''core'', ''default'', ''engine'', ''platform'', ''admin'', ''root'',
     ''api'', ''cli'', ''meta'', ''vendor'', ''test'', ''staging'', ''bundle'', ''bundles'', ''workflow'',
     ''workflows'', ''resolver'', ''resolvers'', ''null'', ''true'', ''false'', ''package'', ''packages'',
     ''store'', ''template'', ''templates'', ''assets'', ''runtimes'', ''strategies'']"

definition IsReservedNamespace :: "string \<Rightarrow> bool" where
  "IsReservedNamespace s =
     (let t = TrimSpace (ToLower s) in if t = [] then False else t \<in> set reservedNamespaces)"

definition ValidateNamespace :: "string \<Rightarrow> unit res" where
  "ValidateNamespace value =
     (let s = TrimSpace value in
      if s = [] then Ret ()
      else andThen (rejectIf (length s > 63) ''namespace exceeds max length'')
        (andThen (rejectIf (\<not> isLabel s) ''namespace must match the pattern'')
          (rejectIf (IsReservedNamespace s) ''namespace is reserved'')))"

section \<open>Platforms, dependencies, vaults\<close>

fun checkPlatforms :: "string list \<Rightarrow> string list \<Rightarrow> unit res" where
  "checkPlatforms seen [] = Ret ()"
| "checkPlatforms seen (p # ps) =
     (let platform = TrimSpace (ToLower p) in
      andThen (rejectIf (platform \<notin> {''windows'', ''macos'', ''linux'', ''deb'', ''flatpak''})
        ''platform must be one of windows, macos, linux, deb, flatpak'')
      (andThen (rejectIf (platform \<in> set seen) ''duplicates platform'')
        (checkPlatforms (platform # seen) ps)))"

definition ValidatePlatformList :: "string list \<Rightarrow> unit res" where
  "ValidatePlatformList platforms = checkPlatforms [] platforms"

definition whitespaceChars :: string where
  "whitespaceChars = [CHR '' '', CHR 0x09, CHR 0x0D, CHR 0x0A]"

definition validateDependencyInstallHint :: "install_hint \<Rightarrow> unit res" where
  "validateDependencyInstallHint hint =
     checkAll (\<lambda>v. rejectIf (ContainsAny v [CHR 0x00, CHR 0x0D, CHR 0x0A])
         ''must be a single shell command or short instruction'')
       [hiWindows hint, hiMacOS hint, hiLinux hint, hiDeb hint]"

fun checkDependencies :: "string list \<Rightarrow> dependency_spec \<Rightarrow> unit res" where
  "checkDependencies seen [] = Ret ()"
| "checkDependencies seen (dep # deps) =
     (let id = TrimSpace (hdID dep); command = TrimSpace (hdCommand dep);
          key = (if TrimSpace command \<noteq> [] then TrimSpace command else TrimSpace id) in
      andThen (rejectIf (id = [] \<and> command = []) ''requires id or command'')
      (andThen (rejectIf (id \<noteq> [] \<and> ContainsAny id whitespaceChars) ''id must not contain whitespace'')
      (andThen (rejectIf (command \<noteq> [] \<and> ContainsAny command [CHR ''/'', CHR 0x5C])
        ''command must be an executable name, not a path'')
      (andThen (rejectIf (key \<in> set seen) ''duplicates dependency'')
      (andThen (validateDependencyInstallHint (hdInstall dep))
        (checkDependencies (key # seen) deps))))))"

definition ValidateDependencySpec :: "dependency_spec \<Rightarrow> unit res" where
  "ValidateDependencySpec deps = checkDependencies [] deps"

definition ValidateVaultModeString :: "string \<Rightarrow> unit res" where
  "ValidateVaultModeString v =
     (if TrimSpace v = [] then Ret ()
      else rejectIf (ToLower (TrimSpace v) \<notin> {''op'', ''1password'', ''environment'', ''none'', ''off'',
         ''false'', ''no'', ''0''}) ''vault is not supported'')"

section \<open>Enumerations\<close>

definition validPolicyProfiles :: "string list" where
  "validPolicyProfiles = ['''', ''secure-default'', ''internet-client'', ''build-online'', ''sidecar-client'']"

definition validNetworkModes :: "string list" where
  "validNetworkModes = ['''', ''offline'', ''allowlist'', ''restricted'', ''internet'']"

definition validFilesystemRoots :: "string list" where
  "validFilesystemRoots = ['''', ''readonly'', ''writable'']"

definition validFilesystemWrites :: "string list" where
  "validFilesystemWrites = ['''', ''workspace-only'', ''declared'']"

definition validProcessUsers :: "string list" where
  "validProcessUsers = ['''', ''auto'', ''root'', ''non-root'']"

definition validContainerMountModes :: "string list" where
  "validContainerMountModes = ['''', ''ro'', ''rw'']"

definition validWorkspaceModes :: "string list" where
  "validWorkspaceModes = [''managed'', ''bind'']"

definition validAuthoredWorkspaceStorages :: "string list" where
  "validAuthoredWorkspaceStorages = ['''', ''volume'', ''worktree'', ''clone'']"

definition validWorkspaceCheckpointModes :: "string list" where
  "validWorkspaceCheckpointModes = ['''', ''manual'', ''auto'', ''step'']"

definition validWorkspacePublishModes :: "string list" where
  "validWorkspacePublishModes = ['''', ''none'', ''branch'', ''review'']"

definition validateEnum :: "string \<Rightarrow> string list \<Rightarrow> unit res" where
  "validateEnum value allowed = rejectIf (TrimSpace value \<notin> set allowed) ''value is invalid''"

section \<open>Configurations\<close>

definition ValidateWorkflowComposeField :: "workflow \<Rightarrow> unit res" where
  "ValidateWorkflowComposeField w =
     (let c = wfCompose w in
      if blank (ccFile c) \<and> blank (ccProject c) \<and> blank (ccProjectDirectory c) \<and> ccExports c = []
        \<and> ccServices c = [] then Ret ()
      else rejectIf (blank (ccFile c)) ''compose.file is required when compose settings are present'')"

definition ValidateWorkflowSecurityConfig :: "security_config \<Rightarrow> unit res" where
  "ValidateWorkflowSecurityConfig cfg =
     (let net = scNetwork cfg in
      andThen (validateEnum (scProfile cfg) validPolicyProfiles)
      (andThen (validateEnum (ncMode net) validNetworkModes)
      (andThen (rejectIf (TrimSpace (ncMode net) = ''allowlist'' \<and> ncAllow net = [])
        ''network.mode allowlist requires at least one allow rule'')
      (andThen (rejectIf (TrimSpace (ncMode net) = ''offline'' \<and> (ncAllow net \<noteq> [] \<or> ncBlock net \<noteq> []))
        ''network.mode offline cannot be combined with allow/block rules'')
      (andThen (validateEnum (fcRoot (scFilesystem cfg)) validFilesystemRoots)
      (andThen (validateEnum (fcWrites (scFilesystem cfg)) validFilesystemWrites)
      (andThen (validateEnum (pcUser (scProcess cfg)) validProcessUsers)
        (rejectIf (pcPIDLimit (scProcess cfg) < 0) ''process.pid_limit must be >= 0''))))))))"

definition ValidateWorkflowContainerConfig :: "container_config \<Rightarrow> unit res" where
  "ValidateWorkflowContainerConfig cfg =
     (if ContainerIsEmpty cfg then Ret ()
      else
        (let wp = TrimSpace (ctWorkPath cfg) in
         andThen (rejectIf (wp \<noteq> [] \<and> (HasPrefix wp ''/'' \<or> IsAbs wp))
           ''work_path must be relative to the container work root'')
         (checkAll (\<lambda>mount.
             andThen (rejectIf (blank (cmHost mount) \<or> blank (cmGuest mount)) ''mount requires both host and guest'')
               (validateEnum (cmMode mount) validContainerMountModes))
           (ctMounts cfg))))"

definition ValidateWorkflowWorkspaceConfig :: "workspace_config \<Rightarrow> unit res" where
  "ValidateWorkflowWorkspaceConfig cfg =
     (if WorkspaceIsEmpty cfg then Ret ()
      else
        (let mode = (let m = TrimSpace (wcMode cfg) in if m = [] then ''managed'' else m);
             lc = wcLifecycle cfg;
             branch = TrimSpace (lcBranch lc) in
         andThen (validateEnum mode validWorkspaceModes)
         (andThen (validateEnum (lcCheckpoint lc) validWorkspaceCheckpointModes)
         (andThen (validateEnum (lcPublish lc) validWorkspacePublishModes)
         (andThen (validateEnum (wcStorage cfg) validAuthoredWorkspaceStorages)
         (andThen (rejectIf (\<not> blank (lcBranchPrefix lc) \<and> ContainsAny (lcBranchPrefix lc) whitespaceChars)
           ''lifecycle.branch_prefix must not contain whitespace'')
         (if branch = [] then Ret ()
          else andThen (rejectIf (ContainsAny branch whitespaceChars) ''lifecycle.branch must not contain whitespace'')
            (rejectIf (HasPrefix branch ''/'' \<or> HasSuffix branch ''/'' \<or> ContainsText branch ''//'')
              ''lifecycle.branch must be a relative git branch name''))))))))"

section \<open>Steps\<close>

definition ValidateStepKind :: "step \<Rightarrow> unit res" where
  "ValidateStepKind s = rejectIf (\<not> StepKindIsValid (EffectiveKind s)) ''kind must be host or container''"

definition ValidateStepCWD :: "step \<Rightarrow> unit res" where
  "ValidateStepCWD s =
     rejectIf (\<not> StepPathScopeIsValid (EffectiveCWD s)) ''cwd must be source, repo, or artifacts''"

definition ValidateStepScopes :: "step \<Rightarrow> unit res" where
  "ValidateStepScopes s =
     checkAll (\<lambda>scope. rejectIf (\<not> StepPathScopeIsValid scope) ''scope must be source, repo, or artifacts'')
       [EffectiveSourceScope s, EffectiveArtifactsScope s]"

definition ValidateStepHostShape :: "step \<Rightarrow> unit res" where
  "ValidateStepHostShape s =
     (if \<not> IsHostStep s then Ret ()
      else if UsesPackagedWorkflow s then Ret ()
      else andThen (rejectIf (\<not> blank (spRuntime s)) ''kind: host step does not use runtime'')
        (andThen (rejectIf (\<not> blank (spResolver s)) ''kind: host step does not use resolver'')
          (rejectIf (\<not> blank (spIsolate s)) ''kind: host step does not use isolate'')))"

text \<open>\<open>strings.EqualFold\<close> with an ASCII text: the Kelvin sign and the long s fold into ASCII.\<close>

definition foldAscii :: "nat \<Rightarrow> nat" where
  "foldAscii n =
     (if 0x41 \<le> n \<and> n \<le> 0x5A then n + 0x20 else if n = 0x212A then 0x6B else if n = 0x17F then 0x73 else n)"

definition EqualFoldAscii :: "string \<Rightarrow> string \<Rightarrow> bool" where
  "EqualFoldAscii s t \<longleftrightarrow> map foldAscii (runes s) = map byte t"

definition ValidateStepPackageInvocation :: "step \<Rightarrow> unit res" where
  "ValidateStepPackageInvocation s =
     andThen (rejectIf (EqualFoldAscii (TrimSpace (spRuntime s)) ''package'')
       ''runtime: package is no longer supported'')
     (if \<not> UsesPackagedWorkflow s then Ret ()
      else
        andThen (rejectIf (blank (spWorkflowName s)) ''packaged workflow step requires workflow: <name>'')
        (andThen (rejectIf (blank (spPackage s)) ''packaged workflow step requires package: <namespace>'')
        (andThen (rejectIf (\<not> blank (spResolver s)) ''do not also set resolver'')
        (andThen (rejectIf (\<not> blank (spIsolate s)) ''do not also set isolate'')
        (andThen (rejectIf (\<not> blank (CmdLine s)) ''do not also set cmd/command'')
        (andThen (rejectIf (\<not> blank (ActPath s)) ''do not also set act/action'')
        (andThen (rejectIf (IsHostStep s) ''packaged workflow step cannot use kind: host'')
          (rejectIf (\<not> SecurityIsEmpty (spSecurity s)) ''do not also set security''))))))))"

definition ValidateStepSecurityField :: "step \<Rightarrow> unit res" where
  "ValidateStepSecurityField s =
     (if SecurityIsEmpty (spSecurity s) then Ret ()
      else andThen (rejectIf (IsHostStep s) ''kind: host step does not use security'')
        (andThen (rejectIf (UsesPackagedWorkflow s) ''packaged workflow step does not use security'')
          (ValidateWorkflowSecurityConfig (spSecurity s))))"

definition ValidateStepContainerField :: "step \<Rightarrow> unit res" where
  "ValidateStepContainerField s =
     (if ContainerIsEmpty (spContainer s) then Ret ()
      else andThen (rejectIf (IsHostStep s) ''kind: host step does not use container'')
        (andThen (rejectIf (UsesPackagedWorkflow s) ''packaged workflow step does not use container'')
          (ValidateWorkflowContainerConfig (spContainer s))))"

definition ValidateStepVMField :: "step \<Rightarrow> unit res" where
  "ValidateStepVMField s =
     (let vm = spVM s in
      if VMIsEmpty vm then Ret ()
      else andThen (rejectIf (IsHostStep s) ''kind: host step does not use vm'')
        (andThen (rejectIf (UsesPackagedWorkflow s) ''packaged workflow step does not use vm'')
        (andThen (rejectIf (\<not> blank (vcHostContext vm) \<and> blank (vcGuestPath vm))
          ''vm.host_context requires vm.guest_path'')
        (andThen (checkAll (\<lambda>mount. rejectIf (blank (vmHost mount) \<or> blank (vmGuest mount))
            ''vm.mounts requires both host and guest'') (vcMounts vm))
          (rejectIf (vcInteractiveDebug vm = Some True \<and> vcInteractiveSSH vm = Some True)
            ''vm.interactive_debug and vm.interactive_ssh are mutually exclusive'')))))"

definition ValidateStepHostBuiltin :: "step \<Rightarrow> unit res" where
  "ValidateStepHostBuiltin s =
     (let b = EffectiveHostBuiltin s in
      if b = [] then Ret ()
      else andThen (rejectIf (\<not> IsHostStep s) ''host_builtin requires kind: host'')
        (andThen (rejectIf (UsesPackagedWorkflow s) ''host_builtin is incompatible with packaged workflow steps'')
        (andThen (rejectIf (spRun s \<noteq> [] \<or> spPreScript s \<noteq> [])
          ''host_builtin cannot be combined with run: or pre_script'')
          (rejectIf (\<not> HostBuiltinIsValid b) ''unknown host_builtin''))))"

definition ValidateStepComposeBuiltin :: "step \<Rightarrow> workflow \<Rightarrow> unit res" where
  "ValidateStepComposeBuiltin s w =
     (if \<not> NeedsCompose (EffectiveHostBuiltin s) then Ret ()
      else rejectIf (blank (ccFile (wfCompose w))) ''host_builtin requires workflow compose.file'')"

definition validateWorkflowStep :: "workflow \<Rightarrow> step \<Rightarrow> unit res" where
  "validateWorkflowStep w s =
     andThen (ValidateStepKind s)
     (andThen (ValidateStepCWD s)
     (andThen (ValidateStepScopes s)
     (andThen (ValidateStepHostShape s)
     (andThen (ValidateStepPackageInvocation s)
     (andThen (ValidateStepSecurityField s)
     (andThen (ValidateStepContainerField s)
     (andThen (ValidateStepVMField s)
     (andThen (ValidateStepHostBuiltin s)
       (ValidateStepComposeBuiltin s w)))))))))"

section \<open>Workflows\<close>

definition ValidateWorkflowSingleFlowFields :: "workflow \<Rightarrow> unit res" where
  "ValidateWorkflowSingleFlowFields w =
     (if wfSteps w = [] \<and> wfFinally w = [] then Ret ()
      else andThen (rejectIf (wfSteps w = [] \<and> wfFinally w \<noteq> [])
          ''workflow with finally requires at least one main step in steps'')
        (andThen (rejectIf (wfRun w \<noteq> []) ''workflow with steps uses top-level run'')
          (rejectIf (\<not> blank (wfAct w) \<or> \<not> blank (wfAction w))
            ''workflow with steps: uses top-level act/action'')))"

text \<open>A nil workflow is valid.\<close>

definition ValidateLoadedWorkflow :: "workflow option \<Rightarrow> unit res" where
  "ValidateLoadedWorkflow p =
     (case p of
        None \<Rightarrow> Ret ()
      | Some w \<Rightarrow>
          andThen (ValidateWorkflowTypeField w)
          (andThen (ValidateNamespace (wfNamespace w))
          (andThen (ValidatePlatformList (wfPlatforms w))
          (andThen (ValidateVaultModeString (wfVault w))
          (andThen (ValidateWorkflowComposeField w)
          (andThen (ValidateWorkflowSecurityConfig (wfSecurity w))
          (andThen (ValidateWorkflowContainerConfig (wfContainer w))
          (andThen (ValidateWorkflowWorkspaceConfig (wfWorkspace w))
          (andThen (ValidateDependencySpec (wfDependencies w))
          (andThen (ValidateWorkflowSingleFlowFields w)
          (andThen (checkAll (validateWorkflowStep w) (wfSteps w))
            (checkAll (validateWorkflowStep w) (wfFinally w)))))))))))))"

end
