(* ===== verification/GoMaps.thy ===== *)
theory GoMaps
  imports Prelude
begin

text \<open>
  Go's maps with string keys. A map is given by its entries in the order in which an iteration
  yields them, each key once; \<open>entries\<close> is the finite map they stand for. The interface
  \<open>key_store\<close> is what the loops over such maps rely on: assignment changes one key. From it
  follows once that a loop which decides by key, new value and present value gives the same
  whatever the order of the iteration.
\<close>

section \<open>Entries\<close>

definition setEntry :: "string \<Rightarrow> 'a \<Rightarrow> (string \<times> 'a) list \<Rightarrow> (string \<times> 'a) list" where
  "setEntry k v xs = filter (\<lambda>p. fst p \<noteq> k) xs @ [(k, v)]"

definition setEntries :: "(string \<times> 'a) list \<Rightarrow> (string \<times> 'a) list \<Rightarrow> (string \<times> 'a) list" where
  "setEntries xs ys = foldl (\<lambda>acc (k, v). setEntry k v acc) xs ys"

definition deleteEntry :: "string \<Rightarrow> (string \<times> 'a) list \<Rightarrow> (string \<times> 'a) list" where
  "deleteEntry k xs = filter (\<lambda>p. fst p \<noteq> k) xs"

definition entries :: "(string \<times> 'a) list \<Rightarrow> string \<Rightarrow> 'a option" where
  "entries xs = map_of (rev xs)"

lemma map_of_filter: "map_of (filter (\<lambda>p. fst p \<noteq> k) xs) = (map_of xs)(k := None)"
  by (induction xs) (auto simp: fun_eq_iff)

lemma entries_setEntry [simp]: "entries (setEntry k v xs) = (entries xs)(k \<mapsto> v)"
  by (simp add: entries_def setEntry_def rev_filter map_of_filter)

lemma entries_deleteEntry [simp]: "entries (deleteEntry k xs) = (entries xs)(k := None)"
  by (simp add: entries_def deleteEntry_def rev_filter map_of_filter)

lemma entries_Nil [simp]: "entries [] = Map.empty"
  by (simp add: entries_def)

lemma entries_snoc: "entries (xs @ [(k, v)]) = (entries xs)(k \<mapsto> v)"
  by (simp add: entries_def)

lemma setEntry_keys: "set (map fst (setEntry k v xs)) = insert k (set (map fst xs))"
  by (auto simp: setEntry_def)

lemma setEntry_distinct: "distinct (map fst xs) \<Longrightarrow> distinct (map fst (setEntry k v xs))"
  by (auto simp: setEntry_def distinct_map_filter)

lemma entries_distinct:
  assumes "distinct (map fst xs)"
  shows "entries xs = map_of xs"
proof -
  have d: "distinct (map fst (rev xs))" using assms by (simp add: rev_map [symmetric])
  show ?thesis unfolding entries_def using map_of_inject_set [OF d assms] by simp
qed

lemma entries_dom: "k \<notin> set (map fst xs) \<longleftrightarrow> entries xs k = None"
  by (simp add: entries_def map_of_eq_None_iff)

lemma entries_order:
  "distinct (map fst xs) \<Longrightarrow> distinct (map fst ys) \<Longrightarrow> set xs = set ys \<Longrightarrow> entries xs = entries ys"
  by (simp add: entries_distinct map_of_inject_set)

section \<open>The interface\<close>

locale key_store =
  fixes assign :: "string \<Rightarrow> 'v \<Rightarrow> 'm \<Rightarrow> 'm"
    and look :: "'m \<Rightarrow> string \<Rightarrow> 'v option"
    and okKey :: "string \<Rightarrow> bool"
  assumes look_assign: "okKey k \<Longrightarrow> okKey k' \<Longrightarrow> look (assign k v m) k' = (if k' = k then Some v else look m k')"
begin

lemma look_loop_other:
  "list_all (okKey \<circ> fst) kvs \<Longrightarrow> okKey k \<Longrightarrow> k \<notin> set (map fst kvs) \<Longrightarrow>
    look (foldl (\<lambda>m (k, v). if P k v (look m k) then assign k v m else m) m kvs) k = look m k"
  by (induction kvs arbitrary: m) (auto simp: look_assign comp_def)

lemma look_loop:
  "list_all (okKey \<circ> fst) kvs \<Longrightarrow> distinct (map fst kvs) \<Longrightarrow> okKey k \<Longrightarrow>
    look (foldl (\<lambda>m (k, v). if P k v (look m k) then assign k v m else m) m kvs) k =
    (case map_of kvs k of
       Some v \<Rightarrow> if P k v (look m k) then Some v else look m k
     | None \<Rightarrow> look m k)"
proof (induction kvs arbitrary: m)
  case (Cons kv kvs)
  obtain k' v where kv: "kv = (k', v)" by (cases kv)
  show ?case
  proof (cases "k = k'")
    case True
    have o: "look (foldl (\<lambda>m (k, v). if P k v (look m k) then assign k v m else m) n kvs) k' = look n k'" for n
      using Cons.prems True kv by (intro look_loop_other) (auto simp: comp_def)
    have "map_of kvs k' = None" using Cons.prems True kv by (auto simp: map_of_eq_None_iff)
    then show ?thesis using Cons.prems True by (simp add: kv o look_assign)
  next
    case False
    with Cons kv show ?thesis by (auto simp: look_assign comp_def split: option.splits)
  qed
qed simp

lemma look_assign_all:
  "list_all (okKey \<circ> fst) kvs \<Longrightarrow> okKey k \<Longrightarrow>
    look (foldl (\<lambda>m (k, v). assign k v m) m kvs) k =
    (case map_of (rev kvs) k of Some v \<Rightarrow> Some v | None \<Rightarrow> look m k)"
  by (induction kvs rule: rev_induct) (auto simp: look_assign)

end

interpretation entryStore: key_store setEntry entries "\<lambda>_. True"
  by unfold_locales simp

lemma entries_setEntries: "entries (setEntries xs ys) = entries xs ++ entries ys"
proof
  fix k
  show "entries (setEntries xs ys) k = (entries xs ++ entries ys) k"
    unfolding setEntries_def
    by (subst entryStore.look_assign_all) (simp_all add: map_add_def list_all_iff entries_def split: option.split)
qed

text \<open>The value of a key, the empty string for a missing one.\<close>

definition getEntry :: "(string \<times> string) list \<Rightarrow> string \<Rightarrow> string" where
  "getEntry xs k = (case entries xs k of Some v \<Rightarrow> v | None \<Rightarrow> [])"

end
