(* ===== verification/WorkflowLoad.thy ===== *)
theory WorkflowLoad
  imports WorkflowValidate GoMaps
begin

text \<open>
  Loading a workflow (domain/workflow.go, workflow_imports.go, workflow_inject.go): the decoding
  rules that the structs add to YAML, the flattening of async groups, and the merge of imported
  files. The YAML library and the file system are outside the repository: the parameters are the
  record \<open>decoder\<close> and the record \<open>loader\<close>.
\<close>

section \<open>YAML nodes\<close>

datatype yaml_kind = DocumentNode | SequenceNode | MappingNode | ScalarNode | AliasNode

datatype yaml_node =
  YamlNode (ynKind: yaml_kind) (ynTag: string) (ynValue: string) (ynContent: "yaml_node list")

text \<open>\<open>Decode\<close> of a node into a target of each type that the rules below decode into.\<close>

record decoder =
  ydText :: "yaml_node \<Rightarrow> string res"
  ydTexts :: "yaml_node \<Rightarrow> string list res"
  ydBinding :: "yaml_node \<Rightarrow> input_binding res"
  ydInject :: "yaml_node \<Rightarrow> inject_entry res"
  ydGroup :: "yaml_node \<Rightarrow> async_group res"
  ydStep :: "yaml_node \<Rightarrow> step res"

definition unmarshalRunSpec :: "decoder \<Rightarrow> yaml_node \<Rightarrow> string list res" where
  "unmarshalRunSpec d n =
     (case ynKind n of
        ScalarNode \<Rightarrow> bindR (ydText d n) (\<lambda>s. Ret [s])
      | SequenceNode \<Rightarrow> ydTexts d n
      | _ \<Rightarrow> Err ''expected string or sequence for run'')"

definition unmarshalInputBinding :: "decoder \<Rightarrow> yaml_node \<Rightarrow> input_binding res" where
  "unmarshalInputBinding d n =
     (if ynKind n = ScalarNode then bindR (ydText d n) (\<lambda>s. Ret \<lparr>ibValue = s, ibFrom = ''''\<rparr>)
      else ydBinding d n)"

definition WorkflowManifestName :: "inject_entry \<Rightarrow> string" where
  "WorkflowManifestName e =
     (let w = TrimSpace (ieWorkflow e); p = TrimSpace (iePackage e) in if w \<noteq> [] then w else p)"

fun unmarshalInjectItems :: "decoder \<Rightarrow> inject_entry list \<Rightarrow> yaml_node list \<Rightarrow> inject_entry list res" where
  "unmarshalInjectItems d w [] = Ret w"
| "unmarshalInjectItems d w (item # items) =
     (case ynKind item of
        ScalarNode \<Rightarrow> bindR (ydText d item) (\<lambda>s. let s = TrimSpace s in
          unmarshalInjectItems d
            (if s \<noteq> [] then w @ [\<lparr>ieWorkflow = s, ieResolver = '''', iePackage = ''''\<rparr>] else w) items)
      | MappingNode \<Rightarrow> bindR (ydInject d item) (\<lambda>e. unmarshalInjectItems d (w @ [e]) items)
      | _ \<Rightarrow> Err ''inject: each entry must be a string or mapping'')"

definition unmarshalInjectList :: "decoder \<Rightarrow> inject_entry list \<Rightarrow> yaml_node \<Rightarrow> inject_entry list res" where
  "unmarshalInjectList d w n =
     (if ynKind n = ScalarNode \<and> ynTag n = ''!!null'' then Ret w
      else if ynKind n \<noteq> SequenceNode then Err ''inject: must be a sequence''
      else unmarshalInjectItems d w (ynContent n))"

section \<open>Keys\<close>

text \<open>The keys of a mapping are at the even positions of its content.\<close>

fun mappingKeys :: "yaml_node list \<Rightarrow> yaml_node list" where
  "mappingKeys (k # v # rest) = k # mappingKeys rest"
| "mappingKeys _ = []"

definition bannedWorkflowTopLevelKeys :: "(string \<times> string) list" where
  "bannedWorkflowTopLevelKeys =
     [(''capability'', ''top-level capability is no longer supported''),
      (''primitive'', ''top-level primitive is no longer supported''),
      (''default_runtime'', ''default_runtime is no longer supported; use runtime:''),
      (''default_resolver'', ''default_resolver is no longer supported; use resolver:''),
      (''runtimes'', ''runtimes: is no longer supported; use runtime:'')]"

fun rejectBannedKeys :: "yaml_node list \<Rightarrow> unit res" where
  "rejectBannedKeys [] = Ret ()"
| "rejectBannedKeys (n # ns) =
     (case map_of bannedWorkflowTopLevelKeys (TrimSpace (ynValue n)) of
        Some msg \<Rightarrow> Err msg
      | None \<Rightarrow> rejectBannedKeys ns)"

definition rejectBannedWorkflowKeys :: "yaml_node \<Rightarrow> unit res" where
  "rejectBannedWorkflowKeys n =
     (if ynKind n \<noteq> MappingNode \<or> odd (length (ynContent n)) then Ret ()
      else rejectBannedKeys (mappingKeys (ynContent n)))"

fun decodeKeys :: "decoder \<Rightarrow> yaml_node list \<Rightarrow> string list res" where
  "decodeKeys d [] = Ret []"
| "decodeKeys d (n # ns) =
     bindR (ydText d n) (\<lambda>k. bindR (decodeKeys d ns) (\<lambda>ks. Ret (k # ks)))"

definition unmarshalStepOrGroup :: "decoder \<Rightarrow> yaml_node \<Rightarrow> step_or_group res" where
  "unmarshalStepOrGroup d n =
     (if ynKind n \<noteq> MappingNode \<or> odd (length (ynContent n)) then Err ''steps: each entry must be a mapping''
      else bindR (decodeKeys d (mappingKeys (ynContent n))) (\<lambda>keys.
        if ''group'' \<in> set keys then
          (if length keys \<noteq> 1 then Err ''steps: entry with group must contain only the group key''
           else bindR (ydGroup d n) (\<lambda>g.
             if gpMode g \<noteq> ''async'' then Err ''steps: group.mode must be async''
             else if gpTasks g = [] then Err ''steps: group.tasks must contain at least one task''
             else Ret \<lparr>sgGroup = Some g, sgStep = None\<rparr>))
        else if ''skip_container'' \<in> set keys
        then Err ''steps: skip_container is no longer supported; use kind: host''
        else bindR (ydStep d n) (\<lambda>st.
          if spBlocking st = Some False
          then Err ''steps: is_blocking: false is no longer supported on plain steps''
          else Ret \<lparr>sgGroup = None, sgStep = Some st\<rparr>)))"

section \<open>Flattening\<close>

fun flattenTasks :: "step list \<Rightarrow> step list res" where
  "flattenTasks [] = Ret []"
| "flattenTasks (t # ts) =
     (if spBlocking t = Some True
      then Err ''steps: task inside group.mode: async cannot set is_blocking: true''
      else bindR (flattenTasks ts) (\<lambda>out. Ret (t\<lparr>spBlocking := Some False\<rparr> # out)))"

fun flattenSteps :: "step_or_group list \<Rightarrow> step list res" where
  "flattenSteps [] = Ret []"
| "flattenSteps (it # items) =
     (case sgGroup it of
        Some g \<Rightarrow> bindR (flattenTasks (gpTasks g)) (\<lambda>a. bindR (flattenSteps items) (\<lambda>b. Ret (a @ b)))
      | None \<Rightarrow>
          (case sgStep it of
             Some s \<Rightarrow> bindR (flattenSteps items) (\<lambda>b. Ret (s # b))
           | None \<Rightarrow> Err ''steps: internal parse error (empty entry)''))"

section \<open>Imports\<close>

text \<open>
  \<open>ldNode\<close> and \<open>ldFile\<close> are \<open>yaml.Unmarshal\<close> into a node and into a file, \<open>ldRead\<close> is the callback,
  which may be nil, and \<open>ldWd\<close> the working directory that \<open>filepath.Abs\<close> uses.
\<close>

record loader =
  ldNode :: "string \<Rightarrow> yaml_node res"
  ldFile :: "string \<Rightarrow> workflow_file res"
  ldRead :: "(string \<Rightarrow> string res) option"
  ldWd :: string

text \<open>What the imports of a file have contributed so far.\<close>

record merged =
  mgVars :: "(string \<times> string) list"
  mgInputs :: "(string \<times> input_binding) list"
  mgPlatforms :: "string list"
  mgHost :: dependency_spec
  mgInject :: "inject_entry list"
  mgSteps :: "step_or_group list"
  mgFinally :: "step_or_group list"

definition noImports :: merged where
  "noImports = \<lparr>mgVars = [], mgInputs = [], mgPlatforms = [], mgHost = [], mgInject = [], mgSteps = [],
     mgFinally = []\<rparr>"

definition mergeImport :: "merged \<Rightarrow> workflow_file \<Rightarrow> merged" where
  "mergeImport m sub =
     \<lparr>mgVars = setEntries (mgVars m) (wfVars sub), mgInputs = setEntries (mgInputs m) (wfInputs sub),
      mgPlatforms = mgPlatforms m @ wfPlatforms sub, mgHost = mgHost m @ wfDependencies sub,
      mgInject = mgInject m @ wfInject sub, mgSteps = mgSteps m @ wfSteps sub,
      mgFinally = mgFinally m @ wfFinally sub\<rparr>"

definition mergeFile :: "merged \<Rightarrow> workflow_file \<Rightarrow> workflow_file" where
  "mergeFile m f =
     f\<lparr>wfInputs := setEntries (mgInputs m) (wfInputs f), wfVars := setEntries (mgVars m) (wfVars f),
       wfPlatforms := mgPlatforms m @ wfPlatforms f, wfDependencies := mgHost m @ wfDependencies f,
       wfInject := mgInject m @ wfInject f, wfSteps := mgSteps m @ wfSteps f,
       wfFinally := wfFinally f @ mgFinally m, wfImports := []\<rparr>"

definition documentNode :: "yaml_node \<Rightarrow> yaml_node" where
  "documentNode root =
     (if ynKind root = DocumentNode \<and> ynContent root \<noteq> [] then hd (ynContent root) else root)"

definition importPath :: "string \<Rightarrow> string \<Rightarrow> string" where
  "importPath baseDir imp =
     JoinPath (let b = TrimSpace baseDir in if b = [] then ''.'' else b) (Clean imp)"

text \<open>\<open>levels\<close> is 33 less the depth, so that zero levels is a depth above \<open>maxImportDepth\<close>.\<close>

function (sequential) parseWorkflowFileRecursive ::
  "loader \<Rightarrow> nat \<Rightarrow> string \<Rightarrow> string \<Rightarrow> string list \<Rightarrow> workflow_file res"
  and parseImports ::
  "loader \<Rightarrow> nat \<Rightarrow> string \<Rightarrow> string list \<Rightarrow> (string \<Rightarrow> string res) \<Rightarrow> merged \<Rightarrow> string list \<Rightarrow> merged res"
where
  "parseWorkflowFileRecursive ld 0 data baseDir stack = Err ''imports: max depth 32 exceeded''"
| "parseWorkflowFileRecursive ld (Suc levels) data baseDir stack =
     bindR (ldNode ld data) (\<lambda>root.
       andThen (rejectBannedWorkflowKeys (documentNode root))
       (bindR (ldFile ld data) (\<lambda>f.
         if wfImports f = [] then Ret f
         else case ldRead ld of
             None \<Rightarrow> Err ''workflow has imports: load from a file''
           | Some rd \<Rightarrow>
               bindR (parseImports ld levels baseDir stack rd noImports (wfImports f)) (\<lambda>m.
                 Ret (mergeFile m f)))))"
| "parseImports ld levels baseDir stack rd m [] = Ret m"
| "parseImports ld levels baseDir stack rd m (imp # imps) =
     (let imp = TrimSpace imp in
      if imp = [] then parseImports ld levels baseDir stack rd m imps
      else
        (let ip = importPath baseDir imp; ap = AbsPath (ldWd ld) ip in
         if ap \<in> set stack then Err ''imports: circular import''
         else bindR (rd ip) (\<lambda>b.
           bindR (parseWorkflowFileRecursive ld levels b (Dir ip) (stack @ [ap])) (\<lambda>sub.
             parseImports ld levels baseDir stack rd (mergeImport m sub) imps))))"
  by pat_completeness auto
termination
  by (relation "measures [\<lambda>x. case x of Inl (_, n, _, _, _) \<Rightarrow> n | Inr (_, n, _, _, _, _, _) \<Rightarrow> n,
      \<lambda>x. case x of Inl _ \<Rightarrow> 0 | Inr (_, _, _, _, _, _, imps) \<Rightarrow> Suc (length imps)]") auto

text \<open>\<open>ParseWorkflowFromDisk\<close>.\<close>

definition workflowOf :: "workflow_file \<Rightarrow> step list \<Rightarrow> step list \<Rightarrow> workflow" where
  "workflowOf f steps finallySteps =
     \<lparr>wfName = wfName f, wfDescription = wfDescription f, wfCategory = wfCategory f, wfIcon = wfIcon f,
      wfWorkflowType = wfWorkflowType f, wfNamespace = wfNamespace f, wfRun = wfRun f,
      wfPlatforms = wfPlatforms f, wfIsolate = wfIsolate f, wfAct = wfAct f, wfAction = wfAction f,
      wfResolver = wfResolver f, wfRuntime = wfRuntime f, wfStrategy = wfStrategy f,
      wfStrategies = wfStrategies f, wfVault = wfVault f, wfDockerPreflight = wfDockerPreflight f,
      wfCompileHooks = wfCompileHooks f, wfTypes = wfTypes f, wfView = wfView f,
      wfModelPolicy = wfModelPolicy f, wfImage = wfImage f, wfContainer = wfContainer f,
      wfWorkspace = wfWorkspace f, wfDependencies = wfDependencies f, wfInject = wfInject f,
      wfInputs = wfInputs f, wfVars = wfVars f, wfCompose = wfCompose f, wfSecurity = wfSecurity f,
      wfSteps = steps, wfFinally = finallySteps\<rparr>"

definition ParseWorkflowFromDisk :: "loader \<Rightarrow> string \<Rightarrow> string \<Rightarrow> workflow res" where
  "ParseWorkflowFromDisk ld data baseDir =
     bindR (parseWorkflowFileRecursive ld 33 data baseDir []) (\<lambda>f.
       bindR (flattenSteps (wfSteps f)) (\<lambda>steps.
         bindR (flattenSteps (wfFinally f)) (\<lambda>finallySteps.
           Ret (workflowOf f steps finallySteps))))"

end
