(* ===== verification/WorkflowSamples.thy ===== *)
theory WorkflowSamples
  imports WorkflowTypes
begin

text \<open>Zero values of the authored records, from which the concrete inputs of the witnesses are made.\<close>

definition zeroSecurity :: security_config where
  "zeroSecurity = \<lparr>scProfile = '''', scNetwork = \<lparr>ncMode = '''', ncAllow = [], ncBlock = []\<rparr>,
     scFilesystem = \<lparr>fcRoot = '''', fcWrites = '''', fcWritablePaths = [], fcTempPaths = []\<rparr>,
     scProcess = \<lparr>pcUser = '''', pcPIDLimit = 0, pcResources = \<lparr>rlCPU = '''', rlMemory = ''''\<rparr>\<rparr>\<rparr>"

definition zeroContainer :: container_config where
  "zeroContainer = \<lparr>ctWorkdirHost = '''', ctWorkPath = '''', ctMounts = []\<rparr>"

definition zeroWorkspace :: workspace_config where
  "zeroWorkspace = \<lparr>wcRepo = '''', wcMode = '''', wcBase = '''', wcStorage = '''',
     wcLifecycle = \<lparr>lcBranchPrefix = '''', lcBranch = '''', lcCheckpoint = '''', lcPublish = ''''\<rparr>\<rparr>"

definition zeroCompose :: compose_config where
  "zeroCompose = \<lparr>ccFile = '''', ccProject = '''', ccProjectDirectory = '''', ccAutodownEnv = '''',
     ccExports = [], ccServices = []\<rparr>"

definition zeroVM :: vm_config where
  "zeroVM = \<lparr>vcMounts = [], vcHostContext = '''', vcGuestPath = '''', vcInteractiveDebug = None,
     vcInteractiveSSH = None, vcKeepAlive = None, vcKeepAliveSeconds = '''', vcHostFwd = ''''\<rparr>"

definition zeroModelPolicy :: model_policy where
  "zeroModelPolicy = \<lparr>mpMode = '''', mpExecutionMode = '''', mpRole = '''', mpSessionScope = '''',
     mpMaxActive = 0, mpQueueTimeoutSeconds = 0, mpAttempt = \<lparr>apPreference = '''', apMaxAttempts = 0\<rparr>,
     mpValidate = \<lparr>vaPreference = '''', vaRequiredFor = []\<rparr>,
     mpEscalation = \<lparr>epEnabled = None, epOn = [], epRequireApproval = None\<rparr>\<rparr>"

definition zeroAgent :: agent_config where
  "zeroAgent = \<lparr>agStartupPrompt = '''', agIncludeAgentsMD = None, agAccessiblePaths = [],
     agAccess = \<lparr>acRead = [], acWrite = [], acDeny = []\<rparr>, agTaskID = '''',
     agModel = \<lparr>mcProvider = '''', mcModel = '''', mcTemperature = None, mcTopP = None, mcNumPredict = 0,
       mcNumCtx = 0, mcKeepAlive = '''', mcEscalationProvider = '''', mcEscalationModel = ''''\<rparr>,
     agModelPolicy = zeroModelPolicy, agOrchestration = None\<rparr>"

definition zeroStep :: step where
  "zeroStep = \<lparr>spID = '''', spKind = '''', spCWD = '''', spScopes = \<lparr>ssSource = '''', ssArtifacts = ''''\<rparr>,
     spRun = [], spPreScript = '''', spIsolate = '''', spAct = '''', spAction = '''', spCmd = '''',
     spCommand = '''', spOutputs = '''', spInputs = [], spVars = [], spVM = zeroVM, spSecurity = zeroSecurity,
     spImage = [], spContainer = zeroContainer, spAgent = zeroAgent, spBlocking = None,
     spCaptureStdout = '''', spManifest = '''', spRuntime = '''', spResolver = '''', spWorkflowName = '''',
     spPackage = '''', spHostBuiltin = ''''\<rparr>"

definition zeroFile :: workflow_file where
  "zeroFile = \<lparr>wfName = '''', wfDescription = '''', wfCategory = '''', wfIcon = '''', wfWorkflowType = '''',
     wfNamespace = '''', wfRun = [], wfPlatforms = [], wfIsolate = '''', wfAct = '''', wfAction = '''',
     wfResolver = '''', wfRuntime = '''', wfStrategy = '''', wfStrategies = [], wfVault = '''',
     wfDockerPreflight = None, wfCompileHooks = [], wfTypes = [], wfView = \<lparr>wvEntry = None, wvPages = []\<rparr>,
     wfModelPolicy = zeroModelPolicy, wfImage = [], wfContainer = zeroContainer, wfWorkspace = zeroWorkspace,
     wfDependencies = [], wfInject = [], wfInputs = [], wfVars = [], wfCompose = zeroCompose,
     wfSecurity = zeroSecurity, wfSteps = [], wfFinally = [], wfAgent = zeroAgent, wfImports = []\<rparr>"

text \<open>A command step of a file.\<close>

definition commandStep :: "string \<Rightarrow> step_or_group" where
  "commandStep c = \<lparr>sgGroup = None, sgStep = Some (zeroStep\<lparr>spCmd := c\<rparr>)\<rparr>"

end
