(* ===== verification/WorkflowImports.thy ===== *)
theory WorkflowImports
  imports WorkflowLoad WorkflowSamples
begin

text \<open>
  What loading a workflow promises: imported files are merged in the order of the imports with the
  importer last, its cleanup first; import chains are short and never come back to a file; async
  groups become the non-blocking steps of the flat list.
\<close>

section \<open>The merge\<close>

text \<open>What an import that is not blank was read as.\<close>

definition importedAs ::
  "loader \<Rightarrow> nat \<Rightarrow> string \<Rightarrow> string list \<Rightarrow> (string \<Rightarrow> string res) \<Rightarrow> string \<Rightarrow> workflow_file \<Rightarrow> bool"
where
  "importedAs ld levels baseDir stack rd imp sub \<longleftrightarrow>
     (let ip = importPath baseDir (TrimSpace imp); ap = AbsPath (ldWd ld) ip in
      ap \<notin> set stack \<and> (\<exists>b. rd ip = Ret b
        \<and> parseWorkflowFileRecursive ld levels b (Dir ip) (stack @ [ap]) = Ret sub))"

lemma parseImports_Ret:
  "parseImports ld levels baseDir stack rd m imps = Ret m' \<Longrightarrow>
     \<exists>subs. list_all2 (importedAs ld levels baseDir stack rd) (filter (\<lambda>i. TrimSpace i \<noteq> []) imps) subs
       \<and> m' = foldl mergeImport m subs"
proof (induction imps arbitrary: m)
  case (Cons imp imps)
  show ?case
  proof (cases "TrimSpace imp = []")
    case False
    with Cons.prems obtain sub where sub: "importedAs ld levels baseDir stack rd imp sub"
        "parseImports ld levels baseDir stack rd (mergeImport m sub) imps = Ret m'"
      by (auto simp: importedAs_def Let_def split: if_splits)
    from Cons.IH [OF sub(2)] obtain subs where
      "list_all2 (importedAs ld levels baseDir stack rd) (filter (\<lambda>i. TrimSpace i \<noteq> []) imps) subs"
      "m' = foldl mergeImport (mergeImport m sub) subs" by blast
    with sub(1) False show ?thesis by (intro exI [of _ "sub # subs"]) simp
  qed (use Cons in \<open>simp add: Let_def\<close>)
qed simp

lemma noImports_fields [simp]:
  "mgVars noImports = []" "mgInputs noImports = []" "mgPlatforms noImports = []" "mgHost noImports = []"
  "mgInject noImports = []" "mgSteps noImports = []" "mgFinally noImports = []"
  by (simp_all add: noImports_def)

lemma mergeImports_fields:
  "mgSteps (foldl mergeImport m subs) = mgSteps m @ concat (map wfSteps subs)"
  "mgFinally (foldl mergeImport m subs) = mgFinally m @ concat (map wfFinally subs)"
  "mgPlatforms (foldl mergeImport m subs) = mgPlatforms m @ concat (map wfPlatforms subs)"
  "mgHost (foldl mergeImport m subs) = mgHost m @ concat (map wfDependencies subs)"
  "mgInject (foldl mergeImport m subs) = mgInject m @ concat (map wfInject subs)"
  "entries (mgVars (foldl mergeImport m subs)) = foldl (++) (entries (mgVars m)) (map (entries \<circ> wfVars) subs)"
  "entries (mgInputs (foldl mergeImport m subs)) = foldl (++) (entries (mgInputs m)) (map (entries \<circ> wfInputs) subs)"
  by (induction subs arbitrary: m) (simp_all add: mergeImport_def entries_setEntries)

text \<open>C28: A file with imports is merged with what its imports were read as, in their order: vars and
  inputs of later imports override earlier ones and the file overrides them all, steps,
  platforms, dependencies and injections of the imports come first, the cleanup of the file
  comes before that of its imports.\<close>

theorem imports_merged:
  assumes "parseWorkflowFileRecursive ld (Suc levels) data baseDir stack = Ret out" "ldFile ld data = Ret f"
    "wfImports f \<noteq> []" "ldRead ld = Some rd"
  shows "\<exists>subs. list_all2 (importedAs ld levels baseDir stack rd)
      (filter (\<lambda>i. TrimSpace i \<noteq> []) (wfImports f)) subs
    \<and> entries (wfVars out) = foldl (++) Map.empty (map (entries \<circ> wfVars) subs) ++ entries (wfVars f)
    \<and> entries (wfInputs out) = foldl (++) Map.empty (map (entries \<circ> wfInputs) subs) ++ entries (wfInputs f)
    \<and> wfSteps out = concat (map wfSteps subs) @ wfSteps f
    \<and> wfFinally out = wfFinally f @ concat (map wfFinally subs)
    \<and> wfPlatforms out = concat (map wfPlatforms subs) @ wfPlatforms f
    \<and> wfDependencies out = concat (map wfDependencies subs) @ wfDependencies f
    \<and> wfInject out = concat (map wfInject subs) @ wfInject f \<and> wfImports out = []"
proof -
  from assms obtain m where m: "parseImports ld levels baseDir stack rd noImports (wfImports f) = Ret m"
      "out = mergeFile m f" by auto
  from parseImports_Ret [OF m(1)] obtain subs where s:
      "list_all2 (importedAs ld levels baseDir stack rd) (filter (\<lambda>i. TrimSpace i \<noteq> []) (wfImports f)) subs"
      "m = foldl mergeImport noImports subs" by blast
  then show ?thesis
    by (intro exI [of _ subs]) (simp add: m(2) mergeFile_def entries_setEntries mergeImports_fields)
qed

text \<open>A file that imports another; both set a variable and add a step.\<close>

definition childFile :: workflow_file where
  "childFile = zeroFile\<lparr>wfVars := [(''MODE'', ''child''), (''LEVEL'', ''1'')], wfSteps := [commandStep ''first'']\<rparr>"

definition rootFile :: workflow_file where
  "rootFile = zeroFile\<lparr>wfVars := [(''MODE'', ''root'')], wfSteps := [commandStep ''second''], wfImports := [''a.yml'']\<rparr>"

definition sampleLoader :: loader where
  "sampleLoader = \<lparr>ldNode = (\<lambda>_. Ret (YamlNode MappingNode '''' '''' [])),
     ldFile = (\<lambda>data. Ret (if data = ''root'' then rootFile else childFile)),
     ldRead = Some (\<lambda>_. Ret ''child''), ldWd = ''/work''\<rparr>"

lemma sample_import: "TrimSpace ''a.yml'' = ''a.yml''"
  by (simp add: TrimSpace_ascii byte_def isTextWhitespace_def textWhitespaceRanges_def)

lemma sampleLoader_parse:
  "parseWorkflowFileRecursive sampleLoader (Suc (Suc n)) ''root'' '''' [] =
     Ret (mergeFile (mergeImport noImports childFile) rootFile)"
  by (simp add: sampleLoader_def documentNode_def rejectBannedWorkflowKeys_def rootFile_def childFile_def
      zeroFile_def sample_import Let_def)

theorem imports_merged_witness:
  "\<exists>subs. list_all2 (importedAs sampleLoader 32 '''' [] (\<lambda>_. Ret ''child'')) [''a.yml''] subs
    \<and> entries (wfVars (mergeFile (mergeImport noImports childFile) rootFile)) ''MODE'' = Some ''root''
    \<and> wfSteps (mergeFile (mergeImport noImports childFile) rootFile)
        = concat (map wfSteps subs) @ [commandStep ''second'']"
proof -
  have p: "parseWorkflowFileRecursive sampleLoader (Suc 32) ''root'' '''' [] =
      Ret (mergeFile (mergeImport noImports childFile) rootFile)"
    using sampleLoader_parse [of 31] by simp
  have f: "ldFile sampleLoader ''root'' = Ret rootFile" "wfImports rootFile \<noteq> []"
    "ldRead sampleLoader = Some (\<lambda>_. Ret ''child'')"
    by (simp_all add: sampleLoader_def rootFile_def)
  have r: "wfSteps rootFile = [commandStep ''second'']" "wfImports rootFile = [''a.yml'']"
    "wfVars rootFile = [(''MODE'', ''root'')]" by (simp_all add: rootFile_def)
  show ?thesis using imports_merged [OF p f] by (auto simp: r sample_import entries_def)
qed

section \<open>Import chains\<close>

text \<open>A chain of imported paths from a file: each is one of the imports of the file before.\<close>

fun importChain :: "loader \<Rightarrow> (string \<Rightarrow> string res) \<Rightarrow> string \<Rightarrow> string \<Rightarrow> string list \<Rightarrow> bool" where
  "importChain ld rd data baseDir [] \<longleftrightarrow> True"
| "importChain ld rd data baseDir (p # ps) \<longleftrightarrow>
     (case ldFile ld data of
        Ret f \<Rightarrow> list_ex (\<lambda>imp. TrimSpace imp \<noteq> [] \<and> importPath baseDir (TrimSpace imp) = p) (wfImports f)
          \<and> (case rd p of Ret b \<Rightarrow> importChain ld rd b (Dir p) ps | _ \<Rightarrow> False)
      | _ \<Rightarrow> False)"

lemma parse_chain:
  assumes "ldRead ld = Some rd"
  shows "parseWorkflowFileRecursive ld levels data baseDir stack = Ret out \<Longrightarrow>
    importChain ld rd data baseDir ps \<Longrightarrow>
    length ps < levels \<and> distinct (map (AbsPath (ldWd ld)) ps) \<and> set (map (AbsPath (ldWd ld)) ps) \<inter> set stack = {}"
proof (induction ps arbitrary: levels data baseDir stack out)
  case Nil
  then show ?case by (cases levels) auto
next
  case (Cons p ps)
  let ?ap = "AbsPath (ldWd ld) p"
  obtain n where n: "levels = Suc n" using Cons.prems(1) by (cases levels) auto
  from Cons.prems(2) obtain f imp b where f: "ldFile ld data = Ret f" "imp \<in> set (wfImports f)"
      "TrimSpace imp \<noteq> []" "importPath baseDir (TrimSpace imp) = p" "rd p = Ret b" "importChain ld rd b (Dir p) ps"
    by (auto simp: list_ex_iff split: res.splits)
  then have "wfImports f \<noteq> []" by auto
  with Cons.prems(1) n f(1) assms obtain m where
      "parseImports ld n baseDir stack rd noImports (wfImports f) = Ret m" by auto
  from parseImports_Ret [OF this] obtain subs where subs:
      "list_all2 (importedAs ld n baseDir stack rd) (filter (\<lambda>i. TrimSpace i \<noteq> []) (wfImports f)) subs" by blast
  have "imp \<in> set (filter (\<lambda>i. TrimSpace i \<noteq> []) (wfImports f))" using f(2,3) by simp
  then obtain sub where "importedAs ld n baseDir stack rd imp sub"
    using subs by (auto simp: list_all2_conv_all_nth in_set_conv_nth simp del: set_filter)
  with f(4,5) have sub: "?ap \<notin> set stack"
      "parseWorkflowFileRecursive ld n b (Dir p) (stack @ [?ap]) = Ret sub"
    by (auto simp: importedAs_def Let_def)
  from Cons.IH [OF sub(2) f(6)] sub(1) n show ?case by auto
qed

text \<open>C29: A workflow that loads has only import chains of at most 32 files, and no chain reaches
  the same file twice.\<close>

theorem import_chains_bounded:
  assumes "ParseWorkflowFromDisk ld data baseDir = Ret w" "ldRead ld = Some rd"
    "importChain ld rd data baseDir ps"
  shows "length ps \<le> 32 \<and> distinct (map (AbsPath (ldWd ld)) ps)"
proof -
  from assms(1) obtain out where "parseWorkflowFileRecursive ld 33 data baseDir [] = Ret out"
    by (auto simp: ParseWorkflowFromDisk_def)
  from parse_chain [OF assms(2) this assms(3)] show ?thesis by simp
qed

theorem import_chains_bounded_witness:
  "length [importPath '''' ''a.yml''] \<le> 32 \<and> distinct (map (AbsPath (ldWd sampleLoader)) [importPath '''' ''a.yml''])"
proof -
  have n: "Suc (Suc 31) = (33 :: nat)" by simp
  have "\<exists>steps. flattenSteps (wfSteps (mergeFile (mergeImport noImports childFile) rootFile)) = Ret steps"
    "\<exists>steps. flattenSteps (wfFinally (mergeFile (mergeImport noImports childFile) rootFile)) = Ret steps"
    by (simp_all add: mergeFile_def mergeImport_def rootFile_def childFile_def zeroFile_def commandStep_def)
  then have "\<exists>w. ParseWorkflowFromDisk sampleLoader ''root'' '''' = Ret w"
    unfolding ParseWorkflowFromDisk_def sampleLoader_parse [of 31, unfolded n] by auto
  then obtain w where w: "ParseWorkflowFromDisk sampleLoader ''root'' '''' = Ret w" by blast
  have r: "ldRead sampleLoader = Some (\<lambda>_. Ret ''child'')" by (simp add: sampleLoader_def)
  have "importChain sampleLoader (\<lambda>_. Ret ''child'') ''root'' '''' [importPath '''' ''a.yml'']"
    by (simp add: sampleLoader_def rootFile_def sample_import)
  from import_chains_bounded [OF w r this] show ?thesis by simp
qed

section \<open>Flattening\<close>

definition expandItem :: "step_or_group \<Rightarrow> step list" where
  "expandItem it =
     (case sgGroup it of
        Some g \<Rightarrow> map (spBlocking_update (\<lambda>_. Some False)) (gpTasks g)
      | None \<Rightarrow> (case sgStep it of Some s \<Rightarrow> [s] | None \<Rightarrow> []))"

definition itemOK :: "step_or_group \<Rightarrow> bool" where
  "itemOK it \<longleftrightarrow>
     (case sgGroup it of
        Some g \<Rightarrow> list_all (\<lambda>t. spBlocking t \<noteq> Some True) (gpTasks g)
      | None \<Rightarrow> sgStep it \<noteq> None)"

lemma flattenTasks_iff:
  "flattenTasks ts = Ret out \<longleftrightarrow>
     list_all (\<lambda>t. spBlocking t \<noteq> Some True) ts \<and> out = map (spBlocking_update (\<lambda>_. Some False)) ts"
  by (induction ts arbitrary: out) auto

text \<open>Flattening succeeds exactly when no task of a group asks to block, and then replaces each
  group by its tasks, made non-blocking, in order.\<close>

theorem flatten_steps:
  "flattenSteps items = Ret out \<longleftrightarrow> list_all itemOK items \<and> out = concat (map expandItem items)"
proof (induction items arbitrary: out)
  case (Cons it items)
  then show ?case
    by (auto simp: itemOK_def expandItem_def flattenTasks_iff split: option.splits)
qed auto

end
