(* ===== verification/WorkflowEnv.thy ===== *)
theory WorkflowEnv
  imports WorkflowLoad
begin

text \<open>
  Environments of workflows (domain/env.go, resolver.go, strategy.go, runtime_kind.go,
  infrastructure/envfile/parse.go, application/workflow_env.go, internal/textvalue): maps from
  names to values, the lines that they are parsed from and written to, and the order in which
  their sources override each other. Messages on standard error are left out.
\<close>

type_synonym env = "(string \<times> string) list"

section \<open>Lines and maps\<close>

definition MergeIfUnset :: "env \<Rightarrow> env \<Rightarrow> env" where
  "MergeIfUnset dst src =
     foldl (\<lambda>dst (k, v). if (case entries dst k of None \<Rightarrow> True | Some cur \<Rightarrow> TrimSpace cur = [])
         then setEntry k v dst else dst) dst src"

definition EnvSliceToMap :: "string list \<Rightarrow> env" where
  "EnvSliceToMap lines =
     foldl (\<lambda>m line. let line = TrimSpace line in
         if line = [] then m
         else (case cutEquals line of
             Some (k, v) \<Rightarrow> setEntry (TrimSpace k) (TrimSpace v) m
           | None \<Rightarrow> m)) [] lines"

definition EnvironToMap :: "string list \<Rightarrow> env" where
  "EnvironToMap environ =
     foldl (\<lambda>m e. case cutEquals e of Some (k, v) \<Rightarrow> setEntry k v m | None \<Rightarrow> m) [] environ"

definition EnvMapToSlice :: "env \<Rightarrow> string list" where
  "EnvMapToSlice m = map (\<lambda>(k, v). k @ ''='' @ v) m"

definition BranchPrefixForTemplate :: "string \<Rightarrow> string" where
  "BranchPrefixForTemplate t =
     (if t = ''claude'' \<or> t = ''agent-dev'' then ''claude''
      else if t = ''codex'' then ''codex''
      else ''dockpipe'')"

text \<open>\<open>strings.Cut(s, "=")\<close> where the flag is ignored: without a separator all of it is the key.\<close>

definition cutKey :: "string \<Rightarrow> string" where
  "cutKey s = (case cutEquals s of Some (k, v) \<Rightarrow> k | None \<Rightarrow> s)"

definition cutValue :: "string \<Rightarrow> string" where
  "cutValue s = (case cutEquals s of Some (k, v) \<Rightarrow> v | None \<Rightarrow> [])"

section \<open>Files\<close>

text \<open>
  The lines that a \<open>bufio.Scanner\<close> yields, and whether it stops at one that does not fit its
  buffer of 65536 bytes. A carriage return before the end of a line is dropped, and so is an empty
  last line.
\<close>

definition maxScanTokenSize :: nat where "maxScanTokenSize = 65536"

definition dropCR :: "string \<Rightarrow> string" where
  "dropCR s = (if s \<noteq> [] \<and> last s = CHR 0x0D then butlast s else s)"

definition scanLines :: "string \<Rightarrow> string list \<times> bool" where
  "scanLines data =
     (let ls = splitOn (CHR 0x0A) data;
          ls = (if last ls = [] then butlast ls else ls);
          fit = takeWhile (\<lambda>l. length l < maxScanTokenSize) ls
      in (map dropCR fit, length fit < length ls))"

definition unquote :: "string \<Rightarrow> string" where
  "unquote v =
     (if length v \<ge> 2 \<and> (hd v = CHR 0x22 \<and> last v = CHR 0x22 \<or> hd v = CHR 0x27 \<and> last v = CHR 0x27)
      then butlast (tl v) else v)"

definition parseEnvLine :: "env \<Rightarrow> string \<Rightarrow> env" where
  "parseEnvLine out l =
     (let line = TrimSpace l in
      if line = [] \<or> HasPrefix line ''#'' then out
      else if \<not> ContainsText line ''='' then out
      else
        (let k = TrimSpace (cutKey line); v = TrimSpace (cutValue line) in
         if k = [] \<or> HasPrefix k ''#'' then out
         else setEntry k (unquote v) out))"

text \<open>The map, and whether there is an error: the map then holds what was read before it.\<close>

definition parseEnvReader :: "string \<Rightarrow> env \<times> bool" where
  "parseEnvReader data = (case scanLines data of (lines, err) \<Rightarrow> (foldl parseEnvLine [] lines, err))"

section \<open>Command line and outputs\<close>

definition lockedKeys :: "string list \<Rightarrow> string set" where
  "lockedKeys vars = set (map (TrimSpace \<circ> cutKey) vars)"

definition MergeExtraEnvCLIIntoSteps :: "env \<Rightarrow> string list \<Rightarrow> string list \<Rightarrow> env" where
  "MergeExtraEnvCLIIntoSteps env extraLines varOverrides =
     foldl (\<lambda>env line.
         case cutEquals (TrimSpace line) of
           None \<Rightarrow> env
         | Some (k, v) \<Rightarrow>
             (let k = TrimSpace k in
              if k \<in> lockedKeys varOverrides then env else setEntry k (TrimSpace v) env)) env extraLines"

definition mergeCommitEnvFromLines :: "env \<Rightarrow> string list \<Rightarrow> env" where
  "mergeCommitEnvFromLines env lines =
     foldl (\<lambda>env line.
         case cutEquals (TrimSpace line) of
           None \<Rightarrow> env
         | Some (k, v) \<Rightarrow>
             (if k \<in> {''DOCKPIPE_COMMIT_MESSAGE'', ''DOCKPIPE_WORK_BRANCH'', ''DOCKPIPE_BUNDLE_OUT'',
                 ''DOCKPIPE_BUNDLE_ALL'', ''GIT_PAT''} then setEntry k v env else env)) env lines"

definition applyBranchPrefix :: "env \<Rightarrow> string \<Rightarrow> string \<Rightarrow> env" where
  "applyBranchPrefix env resolver templateName =
     (if getEntry env ''DOCKPIPE_BRANCH_PREFIX'' \<noteq> [] then env
      else if resolver \<noteq> [] then setEntry ''DOCKPIPE_BRANCH_PREFIX'' resolver env
      else setEntry ''DOCKPIPE_BRANCH_PREFIX'' (BranchPrefixForTemplate templateName) env)"

definition isLikelySecretEnvKey :: "string \<Rightarrow> bool" where
  "isLikelySecretEnvKey k =
     (let k = ToUpper (TrimSpace k) in
      HasSuffix k ''_API_KEY'' \<or> HasSuffix k ''_TOKEN''
      \<or> k \<in> {''GIT_PAT'', ''GITHUB_TOKEN'', ''GITHUB_PAT'', ''GITLAB_TOKEN''})"

definition skipOutputsOverwriteEmptySecret :: "string \<Rightarrow> string \<Rightarrow> env \<Rightarrow> bool" where
  "skipOutputsOverwriteEmptySecret k v envMap \<longleftrightarrow>
     TrimSpace v = [] \<and> TrimSpace (getEntry envMap k) \<noteq> [] \<and> isLikelySecretEnvKey k"

text \<open>
  What reading an outputs file changes: nothing when it cannot be read, is cut off or has no
  assignment. Otherwise its entries are set in both maps and the file is removed (the third
  component). \<open>envMap\<close> decides about both.
\<close>

fun mergeOutputs :: "string set \<Rightarrow> env \<Rightarrow> env \<times> env \<Rightarrow> env \<times> env" where
  "mergeOutputs locked [] (envMap, dockerEnv) = (envMap, dockerEnv)"
| "mergeOutputs locked ((k, v) # m) (envMap, dockerEnv) =
     mergeOutputs locked m
       (if k \<in> locked \<or> skipOutputsOverwriteEmptySecret k v envMap then (envMap, dockerEnv)
        else (setEntry k v envMap, setEntry k v dockerEnv))"

definition applyOutputsFile :: "(env \<times> bool) option \<Rightarrow> string set \<Rightarrow> env \<times> env \<Rightarrow> (env \<times> env) \<times> bool" where
  "applyOutputsFile file locked maps =
     (case file of
        None \<Rightarrow> (maps, False)
      | Some (m, err) \<Rightarrow>
          (if err \<or> m = [] then (maps, False) else (mergeOutputs locked m maps, True)))"

text \<open>\<open>appendUniqueEnv\<close> replaces the first line with the key of the pair, or adds the pair.\<close>

fun replaceFirst :: "string \<Rightarrow> string \<Rightarrow> string list \<Rightarrow> string list option" where
  "replaceFirst start pair [] = None"
| "replaceFirst start pair (e # es) =
     (if HasPrefix e start then Some (pair # es) else map_option ((#) e) (replaceFirst start pair es))"

definition appendUniqueEnv :: "string list \<Rightarrow> string \<Rightarrow> string list" where
  "appendUniqueEnv envSlice pair =
     (case replaceFirst (cutKey pair @ ''='') pair envSlice of Some s \<Rightarrow> s | None \<Rightarrow> envSlice @ [pair])"

text \<open>
  A slice of lines is a store of values by names without an equals sign, and \<open>appendUniqueEnv\<close>
  assigns in it.
\<close>

definition sliceValue :: "string list \<Rightarrow> string \<Rightarrow> string option" where
  "sliceValue lines k = map_option (drop (length k + 1)) (find (\<lambda>e. HasPrefix e (k @ ''='')) lines)"

lemma HasPrefix_pair:
  "CHR ''='' \<notin> set k \<Longrightarrow> CHR ''='' \<notin> set k' \<Longrightarrow> HasPrefix (k @ CHR ''='' # v) (k' @ ''='') \<longleftrightarrow> k' = k"
proof (induction k arbitrary: k')
  case Nil
  then show ?case by (cases k') (auto simp: HasPrefix_def)
next
  case (Cons c k)
  then show ?case by (cases k') (auto simp: HasPrefix_def)
qed

lemma HasPrefix_unique:
  "HasPrefix e (k @ ''='') \<Longrightarrow> HasPrefix e (k' @ ''='') \<Longrightarrow> CHR ''='' \<notin> set k \<Longrightarrow> CHR ''='' \<notin> set k' \<Longrightarrow> k = k'"
proof -
  assume e: "HasPrefix e (k @ ''='')" "HasPrefix e (k' @ ''='')" and k: "CHR ''='' \<notin> set k" "CHR ''='' \<notin> set k'"
  from e(1) have "e = k @ CHR ''='' # drop (Suc (length k)) e"
    using append_take_drop_id [of "Suc (length k)" e] by (simp add: HasPrefix_def)
  with e(2) k show "k = k'" using HasPrefix_pair by metis
qed

lemma replaceFirst_value:
  assumes "CHR ''='' \<notin> set k" "CHR ''='' \<notin> set k'"
  shows "(case replaceFirst (k @ ''='') (k @ CHR ''='' # v) es of Some s \<Rightarrow> sliceValue s k'
      | None \<Rightarrow> sliceValue (es @ [k @ CHR ''='' # v]) k') = (if k' = k then Some v else sliceValue es k')"
proof (induction es)
  case Nil
  then show ?case using HasPrefix_pair [OF assms] by (auto simp: sliceValue_def)
next
  case (Cons e es)
  show ?case
  proof (cases "HasPrefix e (k @ ''='')")
    case True
    have "HasPrefix (k @ CHR ''='' # v) (k' @ ''='') \<longleftrightarrow> k' = k" by (rule HasPrefix_pair [OF assms])
    moreover have "\<not> HasPrefix e (k' @ ''='')" if "k' \<noteq> k" using HasPrefix_unique [OF True _ assms] that by blast
    ultimately show ?thesis using True by (simp add: sliceValue_def)
  next
    case False
    have step: "sliceValue (e # s) k' = (if HasPrefix e (k' @ ''='') then Some (drop (length k' + 1) e) else sliceValue s k')" for s
      by (simp add: sliceValue_def)
    have pick: "(case replaceFirst (k @ ''='') (k @ CHR ''='' # v) (e # es) of Some s \<Rightarrow> sliceValue s k'
        | None \<Rightarrow> sliceValue ((e # es) @ [k @ CHR ''='' # v]) k')
      = (if HasPrefix e (k' @ ''='') then Some (drop (length k' + 1) e)
         else (case replaceFirst (k @ ''='') (k @ CHR ''='' # v) es of Some s \<Rightarrow> sliceValue s k'
           | None \<Rightarrow> sliceValue (es @ [k @ CHR ''='' # v]) k'))"
      using False by (cases "replaceFirst (k @ ''='') (k @ CHR ''='' # v) es") (simp_all only: replaceFirst.simps step append_Cons if_False option.map option.case)
    show ?thesis
    proof (cases "k' = k")
      case True
      then have "\<not> HasPrefix e (k' @ ''='')" using False by simp
      then show ?thesis unfolding pick Cons using True by simp
    next
      case diff: False
      then show ?thesis unfolding pick Cons step by simp
    qed
  qed
qed

interpretation sliceStore: key_store "\<lambda>k v s. appendUniqueEnv s (k @ ''='' @ v)" sliceValue "\<lambda>k. CHR ''='' \<notin> set k"
proof
  fix k k' v and m :: "string list"
  assume k: "CHR ''='' \<notin> set k" "CHR ''='' \<notin> set k'"
  then have "cutKey (k @ ''='' @ v) = k" by (simp add: cutKey_def)
  with replaceFirst_value [OF k, where v = v and es = m]
  show "sliceValue (appendUniqueEnv m (k @ ''='' @ v)) k' = (if k' = k then Some v else sliceValue m k')"
    by (cases "k' = k") (simp_all add: appendUniqueEnv_def split: option.splits)
qed

definition prependPATHDir :: "string \<Rightarrow> string \<Rightarrow> string" where
  "prependPATHDir currentPath dir =
     (let dir = TrimSpace dir; currentPath = TrimSpace currentPath in
      if dir = [] then currentPath
      else if currentPath = [] then dir
      else
        (let delimiter = (if ContainsText currentPath '';'' then CHR '';'' else CHR '':'') in
         if list_ex (\<lambda>part. TrimSpace part = dir) (splitOn delimiter currentPath) then currentPath
         else dir @ [delimiter] @ currentPath))"

definition FirstNonBlank :: "string list \<Rightarrow> string" where
  "FirstNonBlank values = (case find (\<lambda>v. TrimSpace v \<noteq> []) values of Some v \<Rightarrow> v | None \<Rightarrow> [])"

definition isTruthyString :: "string \<Rightarrow> bool" where
  "isTruthyString v \<longleftrightarrow> TrimSpace (ToLower v) \<in> {''1'', ''true'', ''yes'', ''on''}"

section \<open>The environment of a workflow\<close>

text \<open>
  What \<open>buildWorkflowEnvInto\<close> asks of the file system and of other tools: the place of a
  configuration on disk, the tools directory of its package, the contents of an environment file,
  the secrets that the vault injects, and the typed inputs of the workflow with the environment
  that they are resolved in.
\<close>

record env_sources =
  esOnDisk :: "string \<Rightarrow> string res"
  esTools :: "string \<Rightarrow> string"
  esFile :: "string \<Rightarrow> (env \<times> bool) option"
  esInject :: "env \<Rightarrow> env res"
  esInputs :: "env \<Rightarrow> env res"
  esEnvFileVar :: string

record cli_opts =
  coEnvFiles :: "string list"
  coVarOverrides :: "string list"

definition mergeEnvFile :: "env_sources \<Rightarrow> env \<Rightarrow> string \<Rightarrow> env" where
  "mergeEnvFile es env p =
     (case esFile es p of Some (m, False) \<Rightarrow> MergeIfUnset env m | _ \<Rightarrow> env)"

definition mergeConfig :: "env_sources \<Rightarrow> env \<Rightarrow> string \<Rightarrow> env res" where
  "mergeConfig es env wfConfig =
     (if TrimSpace wfConfig = [] then Ret env
      else bindR (esOnDisk es wfConfig) (\<lambda>onDisk.
        let env = MergeIfUnset env [(''DOCKPIPE_WORKFLOW_CONFIG'', onDisk), (''DOCKPIPE_WORKFLOW_CONFIG_URI'', wfConfig)];
            toolsDir = esTools es (Dir onDisk) in
        Ret (if toolsDir \<noteq> [] then setEntry ''PATH'' (prependPATHDir (getEntry env ''PATH'') toolsDir) env else env)))"

definition mergeDefaults :: "env_sources \<Rightarrow> env \<Rightarrow> workflow \<Rightarrow> string \<Rightarrow> string \<Rightarrow> env" where
  "mergeDefaults es env w wfRoot repoRoot =
     (let env = (if TrimSpace wfRoot \<noteq> [] then MergeIfUnset env [(''DOCKPIPE_WORKFLOW_DIR'', wfRoot)] else env);
          env = MergeIfUnset env (wfVars w)
      in foldl (mergeEnvFile es) env [JoinPath wfRoot ''.env'', JoinPath repoRoot ''.env''])"

definition mergeEnvFiles :: "env_sources \<Rightarrow> env \<Rightarrow> cli_opts \<Rightarrow> env" where
  "mergeEnvFiles es env opts =
     (let env = foldl (mergeEnvFile es) env (coEnvFiles opts)
      in if esEnvFileVar es \<noteq> [] then mergeEnvFile es env (esEnvFileVar es) else env)"

definition overrideVars :: "env \<Rightarrow> string list \<Rightarrow> env" where
  "overrideVars env vars = foldl (\<lambda>env vo. setEntry (TrimSpace (cutKey vo)) (TrimSpace (cutValue vo)) env) env vars"

definition buildWorkflowEnvInto ::
  "env_sources \<Rightarrow> env \<Rightarrow> workflow \<Rightarrow> string \<Rightarrow> string \<Rightarrow> string \<Rightarrow> cli_opts \<Rightarrow> env res"
where
  "buildWorkflowEnvInto es env w wfConfig wfRoot repoRoot opts =
     bindR (mergeConfig es env wfConfig) (\<lambda>env.
       bindR (esInject es (mergeDefaults es env w wfRoot repoRoot)) (\<lambda>env.
         let env = mergeEnvFiles es env opts in
         bindR (esInputs es env) (\<lambda>inputs.
           Ret (overrideVars (setEntries env inputs) (coVarOverrides opts)))))"

text \<open>The value of a typed input, given what binds it and the default of its field.\<close>

definition resolveInputBinding :: "input_binding \<Rightarrow> env \<Rightarrow> string \<Rightarrow> string" where
  "resolveInputBinding b env fallback =
     (let from = TrimSpace (ibFrom b);
          fixed = (if TrimSpace (ibValue b) \<noteq> [] then ibValue b else fallback) in
      if from \<noteq> [] then
        (case entries env from of
           Some v \<Rightarrow> if TrimSpace v \<noteq> [] then v else fixed
         | None \<Rightarrow> fixed)
      else fixed)"

section \<open>Profiles and strategies\<close>

definition NormalizeRuntimeKind :: "string \<Rightarrow> string" where
  "NormalizeRuntimeKind s = TrimSpace (ToLower s)"

definition RuntimeKindIsValid :: "string \<Rightarrow> bool" where
  "RuntimeKindIsValid kind \<longleftrightarrow> kind \<in> {''execution'', ''ide'', ''agent''}"

fun firstNonEmptyKV :: "env \<Rightarrow> string list \<Rightarrow> string" where
  "firstNonEmptyKV m [] = []"
| "firstNonEmptyKV m (k # ks) =
     (let s = TrimSpace (getEntry m k) in if s \<noteq> [] then s else firstNonEmptyKV m ks)"

definition experimentalKV :: "env \<Rightarrow> string list \<Rightarrow> bool" where
  "experimentalKV m keys \<longleftrightarrow> list_ex (\<lambda>k. TrimSpace (ToLower (getEntry m k)) \<in> {''1'', ''true''}) keys"

record resolver_assignments =
  raTemplate :: string
  raWorkflow :: string
  raHostIsolate :: string
  raPreScript :: string
  raAction :: string
  raCmd :: string
  raEnvHint :: string
  raAuthDirEnv :: string
  raAuthDir :: string
  raContainerAuthDir :: string
  raAuthMountMode :: string
  raConfigFileEnv :: string
  raConfigFile :: string
  raContainerConfigFile :: string
  raExperimental :: bool
  raRuntimeKind :: string

text \<open>The names of a field in the files of runtimes and of resolvers.\<close>

definition profileKV :: "env \<Rightarrow> string \<Rightarrow> string \<Rightarrow> string" where
  "profileKV m runtime resolver = firstNonEmptyKV m [''DOCKPIPE_RUNTIME_'' @ runtime, ''DOCKPIPE_RESOLVER_'' @ resolver]"

definition FromResolverMap :: "env \<Rightarrow> resolver_assignments" where
  "FromResolverMap m =
     (let raw = TrimSpace (firstNonEmptyKV m [''DOCKPIPE_RUNTIME_TYPE'']);
          kind = (if raw = [] then []
                  else let normalized = NormalizeRuntimeKind raw in
                    if RuntimeKindIsValid normalized then normalized else raw) in
      \<lparr>raTemplate = profileKV m ''IMAGE_TEMPLATE'' ''TEMPLATE'',
       raWorkflow = profileKV m ''WORKFLOW'' ''WORKFLOW'',
       raHostIsolate = profileKV m ''HOST_SCRIPT'' ''HOST_ISOLATE'',
       raPreScript = profileKV m ''PRE_SCRIPT'' ''PRE_SCRIPT'',
       raAction = profileKV m ''ACTION'' ''ACTION'',
       raCmd = profileKV m ''CMD'' ''CMD'',
       raEnvHint = profileKV m ''ENV'' ''ENV'',
       raAuthDirEnv = profileKV m ''AUTH_DIR_ENV'' ''AUTH_DIR_ENV'',
       raAuthDir = profileKV m ''AUTH_DIR'' ''AUTH_DIR'',
       raContainerAuthDir = profileKV m ''CONTAINER_AUTH_DIR'' ''CONTAINER_AUTH_DIR'',
       raAuthMountMode = profileKV m ''AUTH_MOUNT_MODE'' ''AUTH_MOUNT_MODE'',
       raConfigFileEnv = profileKV m ''CONFIG_FILE_ENV'' ''CONFIG_FILE_ENV'',
       raConfigFile = profileKV m ''CONFIG_FILE'' ''CONFIG_FILE'',
       raContainerConfigFile = profileKV m ''CONTAINER_CONFIG_FILE'' ''CONTAINER_CONFIG_FILE'',
       raExperimental = experimentalKV m [''DOCKPIPE_RUNTIME_EXPERIMENTAL'', ''DOCKPIPE_RESOLVER_EXPERIMENTAL''],
       raRuntimeKind = kind\<rparr>)"

definition splitCommaPaths :: "string \<Rightarrow> string list" where
  "splitCommaPaths s =
     (let s = TrimSpace s in
      if s = [] then [] else filter (\<lambda>p. p \<noteq> []) (map TrimSpace (splitOn (CHR '','') s)))"

definition EnvVarNamesFromHint :: "string \<Rightarrow> string list" where
  "EnvVarNamesFromHint s =
     (let s = TrimSpace s in
      if s = [] then [] else filter (\<lambda>p. p \<noteq> []) (map TrimSpace (splitOn (CHR '','') s)))"

record strategy_assignments =
  saBefore :: "string list"
  saAfter :: "string list"
  saKind :: string

definition FromStrategyMap :: "env \<Rightarrow> strategy_assignments" where
  "FromStrategyMap m =
     \<lparr>saBefore = splitCommaPaths (getEntry m ''DOCKPIPE_STRATEGY_BEFORE''),
      saAfter = splitCommaPaths (getEntry m ''DOCKPIPE_STRATEGY_AFTER''),
      saKind = TrimSpace (getEntry m ''DOCKPIPE_STRATEGY_KIND'')\<rparr>"

end
