(* ===== verification/WorkflowStep.thy ===== *)
theory WorkflowStep
  imports WorkflowEnv
begin

text \<open>
  What the runner derives from one step before it runs it (application/run_steps.go, runtime.go,
  container_config.go, resolver_docker_env.go, capability_resolve.go,
  infrastructure/workflow_packaged.go): names, commands, environment settings, and whether Docker
  is needed.
\<close>

section \<open>Names\<close>

fun decimal :: "nat \<Rightarrow> string" where
  "decimal n = (if n < 10 then [char_of (48 + n)] else decimal (n div 10) @ [char_of (48 + n mod 10)])"

declare decimal.simps [simp del]

definition DisplayName :: "step \<Rightarrow> nat \<Rightarrow> string" where
  "DisplayName s i = (if TrimSpace (spID s) \<noteq> [] then TrimSpace (spID s) else ''step '' @ decimal (i + 1))"

definition NormalizeRuntimeProfileName :: "string \<Rightarrow> string" where
  "NormalizeRuntimeProfileName name =
     (let s = TrimSpace name; low = ToLower s in
      if s = [] then []
      else if low = ''docker'' then ''dockerimage''
      else if low \<in> {''cli'', ''powershell'', ''cmd'', ''kube-pod'', ''kubepod'', ''cloud'', ''keystore''} then ''dockerimage''
      else if low \<in> {''dockerimage'', ''dockerfile'', ''vmimage'', ''package''} then low
      else s)"

definition ProfileLabelForEnv :: "string \<Rightarrow> string \<Rightarrow> string" where
  "ProfileLabelForEnv runtimeName resolverName =
     (let s = TrimSpace resolverName in if s \<noteq> [] then s else TrimSpace runtimeName)"

text \<open>The names of the runtime and the resolver of a step; both empty when it has no profile.\<close>

definition resolveStepIsolationNames :: "workflow \<Rightarrow> step \<Rightarrow> string \<times> string" where
  "resolveStepIsolationNames w s =
     (let rtName = (if TrimSpace (spRuntime s) = [] then NormalizeRuntimeProfileName (TrimSpace (wfRuntime w))
                    else TrimSpace (spRuntime s));
          rsName = (if TrimSpace (spResolver s) = [] then TrimSpace (wfResolver w) else TrimSpace (spResolver s))
      in (rtName, rsName))"

definition branchResolverName :: "string \<Rightarrow> workflow \<Rightarrow> step \<Rightarrow> string" where
  "branchResolverName fallback w s =
     (let own = ProfileLabelForEnv (TrimSpace (spRuntime s)) (TrimSpace (spResolver s)) in
      if own \<noteq> [] then own
      else (case resolveStepIsolationNames w s of (rt, rs) \<Rightarrow>
        let label = ProfileLabelForEnv rt rs in if label \<noteq> [] then label else fallback))"

definition effActPathForStep :: "string \<Rightarrow> step \<Rightarrow> resolver_assignments option \<Rightarrow> string" where
  "effActPathForStep userAct s ra =
     (if ActPath s \<noteq> [] then ActPath s
      else case ra of
          Some a \<Rightarrow> if raAction a \<noteq> [] then raAction a else userAct
        | None \<Rightarrow> userAct)"

section \<open>Delegates and Docker\<close>

definition stepUsesHostIsolate :: "resolver_assignments option \<Rightarrow> bool" where
  "stepUsesHostIsolate ra = (case ra of None \<Rightarrow> False | Some a \<Rightarrow> TrimSpace (raHostIsolate a) \<noteq> [])"

definition stepUsesResolverWorkflow :: "resolver_assignments option \<Rightarrow> bool" where
  "stepUsesResolverWorkflow ra = (case ra of None \<Rightarrow> False | Some a \<Rightarrow> TrimSpace (raWorkflow a) \<noteq> [])"

definition stepUsesResolverDelegate :: "resolver_assignments option \<Rightarrow> bool" where
  "stepUsesResolverDelegate ra \<longleftrightarrow> stepUsesHostIsolate ra \<or> stepUsesResolverWorkflow ra"

text \<open>The first of the two keys with a value decides.\<close>

definition hostDelegateRequiresDocker :: "env \<Rightarrow> bool" where
  "hostDelegateRequiresDocker profileEnv =
     (case find (\<lambda>v. v \<noteq> []) (map (\<lambda>k. TrimSpace (ToLower (getEntry profileEnv k)))
         [''DOCKPIPE_RUNTIME_HOST_REQUIRES_DOCKER'', ''DOCKPIPE_RESOLVER_HOST_REQUIRES_DOCKER'']) of
        Some v \<Rightarrow> v \<notin> {''0'', ''false'', ''no''}
      | None \<Rightarrow> True)"

text \<open>\<open>load\<close> reads the profile of a runtime and a resolver from the files of the repository, if it can.\<close>

definition needsDockerForStep :: "(string \<Rightarrow> string \<Rightarrow> env option) \<Rightarrow> workflow \<Rightarrow> step \<Rightarrow> bool" where
  "needsDockerForStep load w s =
     (if IsHostStep s then False
      else
        (let rtName = NormalizeRuntimeProfileName
               (FirstNonBlank [TrimSpace (spRuntime s), NormalizeRuntimeProfileName (TrimSpace (wfRuntime w))]);
             rsName = FirstNonBlank [TrimSpace (spResolver s), TrimSpace (wfResolver w)] in
         if rtName = [] \<and> rsName = [] then True
         else case load rtName rsName of
             None \<Rightarrow> True
           | Some rm \<Rightarrow>
               if stepUsesResolverDelegate (Some (FromResolverMap rm)) then hostDelegateRequiresDocker rm else True))"

definition WorkflowNeedsDockerReachableResolved ::
  "(string \<Rightarrow> string \<Rightarrow> env option) \<Rightarrow> workflow option \<Rightarrow> bool"
where
  "WorkflowNeedsDockerReachableResolved load p =
     (case p of
        None \<Rightarrow> False
      | Some w \<Rightarrow>
          if wfDockerPreflight w = Some False then False
          else list_ex (\<lambda>s. RunPaths s \<noteq> []
              \<or> (TrimSpace (spResolver s) \<noteq> [] \<or> TrimSpace (spRuntime s) \<noteq> [] \<or> \<not> IsHostStep s)
                \<and> needsDockerForStep load w s) (wfSteps w)
            \<or> wfRun w \<noteq> [])"

section \<open>Commands\<close>

text \<open>A single quote cannot stand between single quotes: it is written \<open>'\''\<close>.\<close>

definition shellSingleQuote :: "string \<Rightarrow> string" where
  "shellSingleQuote s =
     CHR 0x27 # concat (map (\<lambda>c. if c = CHR 0x27 then [CHR 0x27, CHR 0x5C, CHR 0x27, CHR 0x27] else [c]) s) @ [CHR 0x27]"

definition shellJoinArgs :: "string list \<Rightarrow> string" where
  "shellJoinArgs args = (if args = [] then [] else stringsJoin (map shellSingleQuote args) '' '')"

definition stepEffectiveCommand :: "step \<Rightarrow> string list \<Rightarrow> nat \<Rightarrow> nat \<Rightarrow> string" where
  "stepEffectiveCommand s cliArgs i n =
     (let cmd = TrimSpace (CmdLine s) in
      if cmd \<noteq> [] then cmd
      else if i + 1 = n \<and> cliArgs \<noteq> [] then shellJoinArgs cliArgs
      else [])"

section \<open>Environment of a step\<close>

text \<open>Entries are set in both environments, except the locked ones.\<close>

fun setUnlocked :: "string set \<Rightarrow> env \<Rightarrow> env \<times> env \<Rightarrow> env \<times> env" where
  "setUnlocked locked [] maps = maps"
| "setUnlocked locked ((k, v) # m) maps =
     setUnlocked locked m (if k \<in> locked then maps else (setEntry k v (fst maps), setEntry k v (snd maps)))"

definition applyStepRuntimeContext :: "step \<Rightarrow> nat \<Rightarrow> string set \<Rightarrow> env \<times> env \<Rightarrow> env \<times> env" where
  "applyStepRuntimeContext s i locked maps =
     setUnlocked locked
       [(''DOCKPIPE_STEP_ID'', TrimSpace (spID s)), (''DOCKPIPE_STEP_DISPLAY'', DisplayName s i),
        (''DOCKPIPE_STEP_INDEX'', decimal (i + 1)), (''DOCKPIPE_STEP_KIND'', EffectiveKind s)] maps"

definition stepScopeRoot :: "string \<Rightarrow> string \<Rightarrow> string \<Rightarrow> string" where
  "stepScopeRoot mode sourceRoot artifactRoot = (if mode = ''artifacts'' then artifactRoot else sourceRoot)"

text \<open>The settings of a virtual machine; \<open>dirs\<close> and the working directory \<open>wd\<close> are
  the fallbacks for the directory of the host.\<close>

definition boolText :: "bool \<Rightarrow> string" where
  "boolText b = (if b then ''true'' else ''false'')"

definition stepVMEnvOverrides :: "string list \<Rightarrow> string \<Rightarrow> step \<Rightarrow> env" where
  "stepVMEnvOverrides dirs wd s =
     (let vm = spVM s in
      if VMIsEmpty vm then []
      else
        (let guestPath = TrimSpace (vcGuestPath vm);
             hostContext = (let h = TrimSpace (vcHostContext vm) in
               if h = [] then FirstNonBlank (map TrimSpace dirs @ [wd]) else h);
             synced = guestPath \<noteq> [] \<and> hostContext \<noteq> [];
             mounts = (if synced then [hostContext @ [CHR 0x09] @ guestPath] else [])
               @ map (\<lambda>m. TrimSpace (vmHost m) @ [CHR 0x09] @ TrimSpace (vmGuest m))
                   (filter (\<lambda>m. TrimSpace (vmHost m) \<noteq> [] \<and> TrimSpace (vmGuest m) \<noteq> []) (vcMounts vm))
         in (if guestPath \<noteq> [] then [(''DOCKPIPE_VM_SYNC_GUEST_PATH'', guestPath)] else [])
          @ (if synced then [(''DOCKPIPE_VM_SYNC_HOST_PATH'', hostContext)] else [])
          @ (if mounts \<noteq> [] then [(''DOCKPIPE_VM_MOUNTS'', stringsJoin mounts [CHR 0x0A])] else [])
          @ (if vcInteractiveDebug vm = Some True then [(''DOCKPIPE_VM_INTERACTIVE'', ''true'')] else [])
          @ (case vcInteractiveSSH vm of Some b \<Rightarrow> [(''DOCKPIPE_VM_INTERACTIVE_SSH'', boolText b)] | None \<Rightarrow> [])
          @ (case vcKeepAlive vm of Some b \<Rightarrow> [(''DOCKPIPE_VM_KEEPALIVE'', boolText b)] | None \<Rightarrow> [])
          @ (let v = TrimSpace (vcKeepAliveSeconds vm) in if v \<noteq> [] then [(''DOCKPIPE_VM_KEEPALIVE_SECONDS'', v)] else [])
          @ (let v = TrimSpace (vcHostFwd vm) in if v \<noteq> [] then [(''DOCKPIPE_VM_HOSTFWD'', v)] else [])))"

text \<open>\<open>osEnv\<close> is the environment of the process.\<close>

definition composeAutodownEnabled :: "compose_config \<Rightarrow> env \<Rightarrow> env \<Rightarrow> bool" where
  "composeAutodownEnabled cfg env osEnv =
     (let name = TrimSpace (ccAutodownEnv cfg) in
      if name = [] then True
      else
        (let v = TrimSpace (getEntry env name);
             v = (if v = [] then TrimSpace (getEntry osEnv name) else v)
         in ToLower v \<notin> {''0'', ''false'', ''no'', ''off''}))"

definition applyComposeExports :: "env \<Rightarrow> env \<Rightarrow> env" where
  "applyComposeExports env exports =
     foldl (\<lambda>env (k, v). if TrimSpace k = [] then env else setEntry (TrimSpace k) (TrimSpace v) env) env exports"

definition resolveWorkflowRelativePath :: "string \<Rightarrow> string \<Rightarrow> string" where
  "resolveWorkflowRelativePath path wfRoot =
     (let path = TrimSpace path in
      if path = [] then []
      else if IsAbs path then Clean path
      else Clean (JoinPath wfRoot path))"

definition mergeWorkflowContainerConfig :: "container_config \<Rightarrow> container_config \<Rightarrow> container_config" where
  "mergeWorkflowContainerConfig base override =
     (if ContainerIsEmpty override then base
      else
        (let host = TrimSpace (ctWorkdirHost override); path = TrimSpace (ctWorkPath override) in
         base\<lparr>ctWorkdirHost := (if host \<noteq> [] then host else ctWorkdirHost base),
              ctWorkPath := (if path \<noteq> [] then path else ctWorkPath base),
              ctMounts := (if ctMounts override \<noteq> [] then ctMounts base @ ctMounts override else ctMounts base)\<rparr>))"

definition mergeEnvHintKeys :: "env \<Rightarrow> env \<Rightarrow> string \<Rightarrow> env" where
  "mergeEnvHintKeys dst src envHint =
     foldl (\<lambda>dst k.
       if TrimSpace (getEntry dst k) \<noteq> [] then dst
       else (let v = TrimSpace (getEntry src k) in if v \<noteq> [] then setEntry k v dst else dst))
       dst (EnvVarNamesFromHint envHint)"

definition mergeResolverAuthEnvFromHost :: "env \<Rightarrow> env \<Rightarrow> resolver_assignments option \<Rightarrow> env" where
  "mergeResolverAuthEnvFromHost dst src ra =
     (case ra of
        None \<Rightarrow> dst
      | Some a \<Rightarrow>
          (let dst = mergeEnvHintKeys dst src (raEnvHint a);
               key = TrimSpace (raAuthDirEnv a);
               containerDir = TrimSpace (raContainerAuthDir a) in
           if key \<noteq> [] \<and> containerDir \<noteq> [] \<and> TrimSpace (getEntry dst key) = [] then setEntry key containerDir dst
           else dst))"

section \<open>Quoting\<close>

text \<open>
  How a POSIX shell splits a line into words, as far as it is quoted: \<open>cur\<close> is the word being
  read, if one has begun. A character outside of quotes other than a space, a quote or what a
  backslash precedes may have a meaning to the shell: then there is no answer.
\<close>

definition closeWord :: "string option \<Rightarrow> string list" where
  "closeWord cur = (case cur of None \<Rightarrow> [] | Some w \<Rightarrow> [w])"

definition addChar :: "string option \<Rightarrow> char \<Rightarrow> string option" where
  "addChar cur c = Some ((case cur of None \<Rightarrow> [] | Some w \<Rightarrow> w) @ [c])"

fun shellWords :: "bool \<Rightarrow> string option \<Rightarrow> string \<Rightarrow> string list option" where
  "shellWords True cur [] = None"
| "shellWords False cur [] = Some (closeWord cur)"
| "shellWords True cur (c # cs) =
     (if c = CHR 0x27 then shellWords False cur cs else shellWords True (addChar cur c) cs)"
| "shellWords False cur (c # cs) =
     (if c = CHR 0x27 then shellWords True (Some (case cur of None \<Rightarrow> [] | Some w \<Rightarrow> w)) cs
      else if c = CHR '' '' then map_option ((@) (closeWord cur)) (shellWords False None cs)
      else if c = CHR 0x5C then
        (case cs of [] \<Rightarrow> None | d # ds \<Rightarrow> shellWords False (addChar cur d) ds)
      else None)"

lemma shellWords_quoted:
  "shellWords True (Some w)
     (concat (map (\<lambda>c. if c = CHR 0x27 then [CHR 0x27, CHR 0x5C, CHR 0x27, CHR 0x27] else [c]) s) @ CHR 0x27 # rest)
   = shellWords False (Some (w @ s)) rest"
  by (induction s arbitrary: w) (auto simp: addChar_def)

lemma shellWords_word: "shellWords False None (shellSingleQuote s @ rest) = shellWords False (Some s) rest"
  using shellWords_quoted [of "[]" s rest] by (simp add: shellSingleQuote_def)

text \<open>C23: The arguments after the command reach a shell as they are: it splits the joined line into exactly
  these words, whatever quotes, spaces or other characters they contain.\<close>

theorem shell_quoting_safe: "shellWords False None (shellJoinArgs args) = Some args"
proof (induction args)
  case (Cons a args)
  show ?case
  proof (cases args)
    case Nil
    then show ?thesis using shellWords_word [of a "[]"] by (simp add: shellJoinArgs_def closeWord_def)
  next
    case (Cons b bs)
    then show ?thesis
      using Cons.IH by (simp add: shellJoinArgs_def shellWords_word closeWord_def)
  qed
qed (simp add: shellJoinArgs_def closeWord_def)

end
