(* ===== verification/WorkflowRun.thy ===== *)
theory WorkflowRun
  imports WorkflowStep
begin

text \<open>
  The scheduler of workflow steps (application/run_steps.go, run_steps_parallel.go,
  container_config.go): the main steps in order, blocking ones alone and async ones as batches, the
  merge of the outputs of a batch, and the final steps. What happens inside a step is a parameter,
  the record \<open>runner\<close>: scripts, commands, containers and the files they write are outside.
  All theorems hold for whatever they do.
\<close>

section \<open>Errors\<close>

text \<open>\<open>Wrapped\<close> is \<open>fmt.Errorf\<close> with \<open>%w\<close>, \<open>Joined\<close> is \<open>errors.Join\<close>.\<close>

datatype run_error = Failed string | ExitCode int | Wrapped string run_error | Joined run_error run_error

text \<open>\<open>errors.As\<close>: the first exit code in the tree of an error.\<close>

fun exitCodeFromError :: "run_error \<Rightarrow> int option" where
  "exitCodeFromError (Failed m) = None"
| "exitCodeFromError (ExitCode c) = Some c"
| "exitCodeFromError (Wrapped m e) = exitCodeFromError e"
| "exitCodeFromError (Joined a b) =
     (case exitCodeFromError a of Some c \<Rightarrow> Some c | None \<Rightarrow> exitCodeFromError b)"

section \<open>State\<close>

text \<open>The environment of host steps, that of containers, and everything outside the program.\<close>

record 'w flow_state =
  rsEnv :: env
  rsDocker :: env
  rsWorld :: 'w

text \<open>What does not change during a run.\<close>

record run_context =
  rcWorkdir :: string
  rcProjectRoot :: string
  rcRepoRoot :: string
  rcGetwd :: string
  rcUserAct :: string
  rcExtraEnvLines :: "string list"
  rcLocked :: "string set"

text \<open>
  \<open>rnBlocking w phase i n\<close> is the \<open>i\<close>-th of \<open>n\<close> steps run alone; it may change both
  environments, also when it fails. \<open>rnProfile\<close> is what is loaded for the profile of a step, if it
  has one; \<open>rnCommits\<close> says whether an action path is that of the bundled commit; \<open>rnPrefetch\<close> builds
  the images of a batch. \<open>rnWorkers w i j n\<close> runs the steps from \<open>i\<close> below \<open>j\<close> concurrently, each
  from copies of the environments, and returns the errors in the order in which they came.
  \<open>rnRead\<close> parses an environment file and \<open>rnRemove\<close> removes it.
\<close>

record 'w runner =
  rnBlocking :: "workflow \<Rightarrow> string \<Rightarrow> nat \<Rightarrow> nat \<Rightarrow> 'w flow_state \<Rightarrow> run_error option \<times> 'w flow_state"
  rnProfile :: "workflow \<Rightarrow> nat \<Rightarrow> 'w \<Rightarrow> run_error + resolver_assignments option"
  rnCommits :: "string \<Rightarrow> bool"
  rnPrefetch :: "workflow \<Rightarrow> nat \<Rightarrow> nat \<Rightarrow> nat \<Rightarrow> env \<Rightarrow> env \<Rightarrow> 'w \<Rightarrow> run_error option \<times> 'w"
  rnWorkers :: "workflow \<Rightarrow> nat \<Rightarrow> nat \<Rightarrow> nat \<Rightarrow> env \<Rightarrow> env \<Rightarrow> 'w \<Rightarrow> run_error list \<times> 'w"
  rnRead :: "string \<Rightarrow> 'w \<Rightarrow> (env \<times> bool) option"
  rnRemove :: "string \<Rightarrow> 'w \<Rightarrow> 'w"

section \<open>Paths\<close>

definition resolveContainerHostPath :: "string \<Rightarrow> string \<Rightarrow> string" where
  "resolveContainerHostPath hostBase p =
     (let p = TrimSpace p; hostBase = TrimSpace hostBase in
      if p = [] then []
      else if IsAbs p then Clean p
      else if hostBase = [] then Clean p
      else Clean (JoinPath hostBase p))"

text \<open>\<open>None\<close> is the error of a mount without host or guest.\<close>

fun workflowContainerMountSpecs :: "container_mount list \<Rightarrow> string \<Rightarrow> string list option" where
  "workflowContainerMountSpecs [] hostBase = Some []"
| "workflowContainerMountSpecs (mount # mounts) hostBase =
     (let host = resolveContainerHostPath hostBase (cmHost mount);
          guest = TrimSpace (cmGuest mount);
          mode = TrimSpace (cmMode mount) in
      if host = [] \<or> guest = [] then None
      else map_option ((#) (host @ '':'' @ guest @ (if mode \<noteq> [] then CHR '':'' # mode else [])))
        (workflowContainerMountSpecs mounts hostBase))"

definition applyWorkflowContainerMountEnv :: "run_context \<Rightarrow> workflow \<Rightarrow> env \<Rightarrow> env option" where
  "applyWorkflowContainerMountEnv rc w env =
     (let hostBase = FirstNonBlank [getEntry env ''DOCKPIPE_SOURCE_ROOT'', getEntry env ''DOCKPIPE_WORKDIR'',
            rcWorkdir rc, rcProjectRoot rc, rcRepoRoot rc] in
      map_option (\<lambda>mounts.
          if mounts = [] then deleteEntry ''DOCKPIPE_CONTAINER_MOUNTS'' env
          else setEntry ''DOCKPIPE_CONTAINER_MOUNTS'' (stringsJoin mounts [CHR 0x0A]) env)
        (workflowContainerMountSpecs (ctMounts (wfContainer w)) hostBase))"

definition stepOutputsAbsPath :: "run_context \<Rightarrow> step \<Rightarrow> env \<Rightarrow> string" where
  "stepOutputsAbsPath rc s env =
     (let outputsPath = OutputsPath s;
          base = FirstNonBlank [getEntry env ''DOCKPIPE_OUTPUT_ROOT'', getEntry env ''DOCKPIPE_ARTIFACT_ROOT'',
            getEntry env ''DOCKPIPE_STEP_CWD'', getEntry env ''DOCKPIPE_WORKDIR'', rcWorkdir rc] in
      if IsAbs outputsPath then Clean outputsPath
      else JoinPath (if base = [] then rcGetwd rc else base) outputsPath)"

section \<open>Batches\<close>

text \<open>The steps of a batch, by position.\<close>

fun distinctOutputs :: "string list \<Rightarrow> step list \<Rightarrow> run_error option" where
  "distinctOutputs seen [] = None"
| "distinctOutputs seen (s # ss) =
     (if OutputsPath s \<in> set seen then Some (Failed ''parallel steps: duplicate outputs path'')
      else distinctOutputs (OutputsPath s # seen) ss)"

definition validateParallelOutputPaths :: "workflow \<Rightarrow> nat \<Rightarrow> nat \<Rightarrow> run_error option" where
  "validateParallelOutputPaths w i j = distinctOutputs [] (map (\<lambda>k. wfSteps w ! k) [i..<j])"

fun firstError :: "('a \<Rightarrow> run_error option) \<Rightarrow> 'a list \<Rightarrow> run_error option" where
  "firstError f [] = None"
| "firstError f (x # xs) = (case f x of Some e \<Rightarrow> Some e | None \<Rightarrow> firstError f xs)"

definition validateParallelNoResolverDelegate :: "'w runner \<Rightarrow> workflow \<Rightarrow> nat \<Rightarrow> nat \<Rightarrow> 'w \<Rightarrow> run_error option" where
  "validateParallelNoResolverDelegate rn w i j world =
     firstError (\<lambda>k.
       if UsesPackagedWorkflow (wfSteps w ! k)
       then Some (Failed ''packaged workflow steps are not supported in async groups'')
       else (case rnProfile rn w k world of
           Inl e \<Rightarrow> Some e
         | Inr ra \<Rightarrow> if stepUsesResolverDelegate ra
             then Some (Failed ''profile uses a delegate, not supported in async groups'') else None)) [i..<j]"

definition validateParallelNoHostCommit :: "'w runner \<Rightarrow> run_context \<Rightarrow> workflow \<Rightarrow> nat \<Rightarrow> nat \<Rightarrow> run_error option" where
  "validateParallelNoHostCommit rn rc w i j =
     firstError (\<lambda>k.
       let s = wfSteps w ! k; effAct = (if ActPath s = [] then rcUserAct rc else ActPath s) in
       if IsHostStep s \<or> effAct = [] then None
       else if rnCommits rn effAct then Some (Failed ''host commit-worktree action cannot run inside an async group'')
       else None) [i..<j]"

text \<open>The outputs of the steps of a batch, merged in the order of declaration.\<close>

definition mergeStepOutputs :: "'w runner \<Rightarrow> run_context \<Rightarrow> 'w flow_state \<Rightarrow> step \<Rightarrow> 'w flow_state" where
  "mergeStepOutputs rn rc st s =
     (let path = stepOutputsAbsPath rc s (rsEnv st) in
      case applyOutputsFile (rnRead rn path (rsWorld st)) (rcLocked rc) (rsEnv st, rsDocker st) of
        ((e, d), removed) \<Rightarrow>
          \<lparr>rsEnv = e, rsDocker = d, rsWorld = (if removed then rnRemove rn path (rsWorld st) else rsWorld st)\<rparr>)"

definition runParallelBatch ::
  "'w runner \<Rightarrow> run_context \<Rightarrow> workflow \<Rightarrow> nat \<Rightarrow> nat \<Rightarrow> nat \<Rightarrow> 'w flow_state \<Rightarrow> run_error option \<times> 'w flow_state"
where
  "runParallelBatch rn rc w i j n st =
     (case firstError (\<lambda>e. e) [validateParallelOutputPaths w i j,
          validateParallelNoResolverDelegate rn w i j (rsWorld st), validateParallelNoHostCommit rn rc w i j] of
        Some e \<Rightarrow> (Some e, st)
      | None \<Rightarrow>
          (case rnPrefetch rn w i j n (rsEnv st) (rsDocker st) (rsWorld st) of
             (Some e, world) \<Rightarrow> (Some e, st\<lparr>rsWorld := world\<rparr>)
           | (None, world) \<Rightarrow>
               (case rnWorkers rn w i j n (rsEnv st) (rsDocker st) world of
                  (e # es, world) \<Rightarrow> (Some e, st\<lparr>rsWorld := world\<rparr>)
                | ([], world) \<Rightarrow>
                    (None, foldl (mergeStepOutputs rn rc) (st\<lparr>rsWorld := world\<rparr>) (map (\<lambda>k. wfSteps w ! k) [i..<j])))))"

section \<open>Runs\<close>

text \<open>The end of the batch that starts at a step.\<close>

definition batchEnd :: "workflow \<Rightarrow> nat \<Rightarrow> nat" where
  "batchEnd w i = i + length (takeWhile (\<lambda>s. \<not> IsBlocking s) (drop i (wfSteps w)))"

lemma batchEnd_less:
  assumes "i < length (wfSteps w)" "\<not> IsBlocking (wfSteps w ! i)"
  shows "i < batchEnd w i"
  using Cons_nth_drop_Suc [OF assms(1), symmetric] assms(2) by (simp add: batchEnd_def)

lemma batchEnd_le:
  assumes "i \<le> length (wfSteps w)"
  shows "batchEnd w i \<le> length (wfSteps w)"
proof -
  have "length (takeWhile (\<lambda>s. \<not> IsBlocking s) (drop i (wfSteps w))) \<le> length (wfSteps w) - i"
    using length_takeWhile_le [of "\<lambda>s. \<not> IsBlocking s" "drop i (wfSteps w)"] by simp
  with assms show ?thesis by (simp add: batchEnd_def)
qed

text \<open>The main loop from the step \<open>i\<close>.\<close>

function runMainSteps ::
  "'w runner \<Rightarrow> run_context \<Rightarrow> workflow \<Rightarrow> string \<Rightarrow> nat \<Rightarrow> 'w flow_state \<Rightarrow> run_error option \<times> 'w flow_state"
where
  "runMainSteps rn rc w phase i st =
     (let n = length (wfSteps w) in
      if n \<le> i then (None, st)
      else if IsBlocking (wfSteps w ! i) then
        (case rnBlocking rn w phase i n st of
           (Some e, st) \<Rightarrow> (Some e, st)
         | (None, st) \<Rightarrow> runMainSteps rn rc w phase (Suc i) st)
      else
        (case runParallelBatch rn rc w i (batchEnd w i) n st of
           (Some e, st) \<Rightarrow> (Some e, st)
         | (None, st) \<Rightarrow> runMainSteps rn rc w phase (batchEnd w i) st))"
  by pat_completeness auto
termination
  by (relation "measure (\<lambda>(rn, rc, w, phase, i, st). length (wfSteps w) - i)")
    (auto intro!: diff_less_mono2 batchEnd_less)

text \<open>How an error of the final steps combines with that of the main steps.\<close>

definition combineErrors :: "run_error option \<Rightarrow> run_error option \<Rightarrow> run_error option" where
  "combineErrors runErr finallyErr =
     (case finallyErr of
        None \<Rightarrow> runErr
      | Some f \<Rightarrow>
          (case runErr of
             None \<Rightarrow> Some f
           | Some e \<Rightarrow>
               (case exitCodeFromError e of
                  Some code \<Rightarrow> Some (ExitCode code)
                | None \<Rightarrow> Some (Joined e (Wrapped ''finally failed'' f)))))"

definition runBody ::
  "'w runner \<Rightarrow> run_context \<Rightarrow> workflow \<Rightarrow> string \<Rightarrow> 'w flow_state
    \<Rightarrow> ('w flow_state \<Rightarrow> run_error option \<Rightarrow> run_error option \<times> 'w flow_state) \<Rightarrow> run_error option \<times> 'w flow_state"
where
  "runBody rn rc w phase st atEnd =
     (case applyWorkflowContainerMountEnv rc w (rsEnv st) of
        None \<Rightarrow> (Some (Failed ''container mounts require both host and guest''), st)
      | Some env \<Rightarrow>
          (case runMainSteps rn rc w phase 0 (st\<lparr>rsEnv := env, rsDocker := EnvSliceToMap (rcExtraEnvLines rc)\<rparr>) of
             (runErr, st) \<Rightarrow> atEnd st runErr))"

text \<open>
  The workflow of the final steps has none itself, so that \<open>runWorkflowFinally\<close> returns at once in
  the inner run.
\<close>

definition finallyWorkflow :: "workflow \<Rightarrow> workflow" where
  "finallyWorkflow w = w\<lparr>wfSteps := wfFinally w, wfFinally := []\<rparr>"

definition runWorkflowFinally ::
  "'w runner \<Rightarrow> run_context \<Rightarrow> workflow \<Rightarrow> 'w flow_state \<Rightarrow> run_error option \<Rightarrow> run_error option \<times> 'w flow_state"
where
  "runWorkflowFinally rn rc w st runErr =
     (if wfFinally w = [] then (runErr, st)
      else
        (case runBody rn rc (finallyWorkflow w) ''Finally'' st (\<lambda>st e. (e, st)) of
           (finallyErr, st) \<Rightarrow> (combineErrors runErr finallyErr, st)))"

definition runSteps ::
  "'w runner \<Rightarrow> run_context \<Rightarrow> workflow \<Rightarrow> string \<Rightarrow> 'w flow_state \<Rightarrow> run_error option \<times> 'w flow_state"
where
  "runSteps rn rc w phase st = runBody rn rc w phase st (runWorkflowFinally rn rc w)"

end
