(* ===== verification/WorkflowProperties.thy ===== *)
theory WorkflowProperties
  imports WorkflowValidate
begin

text \<open>
  What validation of a workflow establishes, as one rule per role of a step, and the exact
  meaning of the checks on names, platforms and dependencies.
\<close>

section \<open>Roles of steps\<close>

text \<open>
  A step that names a workflow or a package is packaged; otherwise its kind decides between host
  and container. Each role admits its own settings.
\<close>

definition placesOK :: "step \<Rightarrow> bool" where
  "placesOK s \<longleftrightarrow> EffectiveKind s \<in> {''container'', ''host''}
     \<and> {EffectiveCWD s, EffectiveSourceScope s, EffectiveArtifactsScope s} \<subseteq> {''source'', ''artifacts''}
     \<and> \<not> EqualFoldAscii (TrimSpace (spRuntime s)) ''package''"

definition packagedOK :: "step \<Rightarrow> bool" where
  "packagedOK s \<longleftrightarrow> \<not> blank (spWorkflowName s) \<and> \<not> blank (spPackage s) \<and> \<not> IsHostStep s
     \<and> blank (spResolver s) \<and> blank (spIsolate s) \<and> blank (CmdLine s) \<and> blank (ActPath s)
     \<and> SecurityIsEmpty (spSecurity s) \<and> ContainerIsEmpty (spContainer s) \<and> VMIsEmpty (spVM s)
     \<and> EffectiveHostBuiltin s = []"

definition hostOK :: "workflow \<Rightarrow> step \<Rightarrow> bool" where
  "hostOK w s \<longleftrightarrow> blank (spRuntime s) \<and> blank (spResolver s) \<and> blank (spIsolate s)
     \<and> SecurityIsEmpty (spSecurity s) \<and> ContainerIsEmpty (spContainer s) \<and> VMIsEmpty (spVM s)
     \<and> (EffectiveHostBuiltin s \<noteq> [] \<longrightarrow> HostBuiltinIsValid (EffectiveHostBuiltin s) \<and> RunPaths s = [])
     \<and> (NeedsCompose (EffectiveHostBuiltin s) \<longrightarrow> \<not> blank (ccFile (wfCompose w)))"

definition containerOK :: "step \<Rightarrow> bool" where
  "containerOK s \<longleftrightarrow> EffectiveHostBuiltin s = []
     \<and> (SecurityIsEmpty (spSecurity s) \<or> ValidateWorkflowSecurityConfig (spSecurity s) = Ret ())
     \<and> (ContainerIsEmpty (spContainer s) \<or> ValidateWorkflowContainerConfig (spContainer s) = Ret ())
     \<and> ValidateStepVMField s = Ret ()"

definition stepOK :: "workflow \<Rightarrow> step \<Rightarrow> bool" where
  "stepOK w s \<longleftrightarrow> placesOK s
     \<and> (if UsesPackagedWorkflow s then packagedOK s else if IsHostStep s then hostOK w s else containerOK s)"

lemma packaged_check:
  "UsesPackagedWorkflow s \<Longrightarrow> validateWorkflowStep w s = Ret () \<longleftrightarrow> placesOK s \<and> packagedOK s"
  by (auto simp: validateWorkflowStep_def placesOK_def packagedOK_def ValidateStepKind_def StepKindIsValid_def
      ValidateStepCWD_def StepPathScopeIsValid_def ValidateStepScopes_def ValidateStepHostShape_def
      ValidateStepPackageInvocation_def ValidateStepSecurityField_def ValidateStepContainerField_def
      ValidateStepVMField_def ValidateStepHostBuiltin_def ValidateStepComposeBuiltin_def NeedsCompose_def Let_def)

lemma RunPaths_Nil: "RunPaths s = [] \<longleftrightarrow> spRun s = [] \<and> spPreScript s = []"
  by (simp add: RunPaths_def)

lemma host_check:
  assumes "\<not> UsesPackagedWorkflow s" "IsHostStep s"
  shows "validateWorkflowStep w s = Ret () \<longleftrightarrow> placesOK s \<and> hostOK w s"
  using assms
  by (auto simp: validateWorkflowStep_def placesOK_def hostOK_def ValidateStepKind_def StepKindIsValid_def
      ValidateStepCWD_def StepPathScopeIsValid_def ValidateStepScopes_def ValidateStepHostShape_def
      ValidateStepPackageInvocation_def ValidateStepSecurityField_def ValidateStepContainerField_def
      ValidateStepVMField_def ValidateStepHostBuiltin_def ValidateStepComposeBuiltin_def RunPaths_Nil Let_def
      blank_def)

lemma container_check:
  assumes "\<not> UsesPackagedWorkflow s" "\<not> IsHostStep s"
  shows "validateWorkflowStep w s = Ret () \<longleftrightarrow> placesOK s \<and> containerOK s"
  using assms
  by (auto simp: validateWorkflowStep_def placesOK_def containerOK_def ValidateStepKind_def StepKindIsValid_def
      ValidateStepCWD_def StepPathScopeIsValid_def ValidateStepScopes_def ValidateStepHostShape_def
      ValidateStepPackageInvocation_def ValidateStepSecurityField_def ValidateStepContainerField_def
      ValidateStepHostBuiltin_def ValidateStepComposeBuiltin_def NeedsCompose_def Let_def)

lemma step_check: "validateWorkflowStep w s = Ret () \<longleftrightarrow> stepOK w s"
  using packaged_check [of s w] host_check [of s w] container_check [of s w] by (auto simp: stepOK_def)

section \<open>Workflows\<close>

definition headerOK :: "workflow \<Rightarrow> bool" where
  "headerOK w \<longleftrightarrow> ValidateWorkflowTypeField w = Ret () \<and> ValidateNamespace (wfNamespace w) = Ret ()
     \<and> ValidatePlatformList (wfPlatforms w) = Ret () \<and> ValidateVaultModeString (wfVault w) = Ret ()
     \<and> ValidateWorkflowComposeField w = Ret () \<and> ValidateWorkflowSecurityConfig (wfSecurity w) = Ret ()
     \<and> ValidateWorkflowContainerConfig (wfContainer w) = Ret ()
     \<and> ValidateWorkflowWorkspaceConfig (wfWorkspace w) = Ret ()
     \<and> ValidateDependencySpec (wfDependencies w) = Ret ()"

lemma checkAll_steps: "checkAll (validateWorkflowStep w) xs = Ret () \<longleftrightarrow> list_all (stepOK w) xs"
  by (simp add: step_check list_all_iff)

text \<open>C1: A step is accepted exactly when its places are valid and its settings are those of its role:
  a packaged step names workflow and package and sets nothing else, a host step has no container,
  security, VM or profile settings and a builtin only alone, a container step has no builtin.\<close>

theorem step_roles:
  "validateWorkflowStep w s = Ret () \<longleftrightarrow> placesOK s
     \<and> (if UsesPackagedWorkflow s then packagedOK s else if IsHostStep s then hostOK w s else containerOK s)"
  using step_check [of w s] by (simp add: stepOK_def)

text \<open>C27: A workflow is accepted exactly when its header is valid, it is either without steps or a
  flow of steps without top-level run and act (and with main steps), and every main and final
  step is well formed.\<close>

theorem workflow_accepted:
  "ValidateLoadedWorkflow (Some w) = Ret () \<longleftrightarrow> headerOK w
     \<and> (wfSteps w = [] \<and> wfFinally w = []
        \<or> wfSteps w \<noteq> [] \<and> wfRun w = [] \<and> blank (wfAct w) \<and> blank (wfAction w))
     \<and> list_all (stepOK w) (wfSteps w @ wfFinally w)"
  by (auto simp: ValidateLoadedWorkflow_def headerOK_def ValidateWorkflowSingleFlowFields_def checkAll_steps
      simp del: checkAll_Ret)

section \<open>Names\<close>

lemma platforms_iff:
  "checkPlatforms seen ps = Ret () \<longleftrightarrow>
     list_all (\<lambda>p. TrimSpace (ToLower p) \<in> {''windows'', ''macos'', ''linux'', ''deb'', ''flatpak''}) ps
     \<and> distinct (map (TrimSpace \<circ> ToLower) ps) \<and> set (map (TrimSpace \<circ> ToLower) ps) \<inter> set seen = {}"
  by (induction seen ps rule: checkPlatforms.induct) (auto simp: Let_def)

text \<open>C3: A platform list is accepted exactly when every entry is, up to case and surrounding space,
  one of the five platforms, and no platform is listed twice.\<close>

theorem platform_list_accepted:
  "ValidatePlatformList ps = Ret () \<longleftrightarrow>
     list_all (\<lambda>p. TrimSpace (ToLower p) \<in> {''windows'', ''macos'', ''linux'', ''deb'', ''flatpak''}) ps
     \<and> distinct (map (TrimSpace \<circ> ToLower) ps)"
  by (simp add: ValidatePlatformList_def platforms_iff)

lemma ascii_runes: "list_all (\<lambda>c. byte c < 128) s \<Longrightarrow> runes s = map byte s"
proof (induction s)
  case (Cons c s)
  then show ?case by (subst runes.simps) (simp add: decodeRune_def)
qed (subst runes.simps, simp)

lemma ascii_encode: "list_all (\<lambda>c. byte c < 128) s \<Longrightarrow> encode (map byte s) = s"
  by (induction s) (simp_all add: encodeRune_one)

lemma label_chars:
  "isLabel s \<Longrightarrow> list_all (\<lambda>c. byte c \<in> {97..122} \<or> byte c \<in> {48..57} \<or> byte c = 45) s"
proof -
  have "byte CHR ''-'' = 45" by (simp add: byte_def)
  then show "isLabel s \<Longrightarrow> list_all (\<lambda>c. byte c \<in> {97..122} \<or> byte c \<in> {48..57} \<or> byte c = 45) s"
    by (auto simp: isLabel_def list_all_iff split: list.splits)
qed

lemma label_lower:
  assumes "isLabel s"
  shows "ToLower s = s"
proof -
  have a: "list_all (\<lambda>c. byte c < 128) s" using label_chars [OF assms] by (auto simp: list_all_iff)
  have "map lowerRune (map byte s) = map byte s"
    using label_chars [OF assms] by (auto simp: list_all_iff lowerRune_def)
  then show ?thesis using ascii_runes [OF a] ascii_encode [OF a] by (simp only: ToLower_def)
qed

lemma label_trim:
  assumes "isLabel s"
  shows "TrimSpace s = s"
proof -
  have "\<not> isTextWhitespace (byte c)" if "c \<in> set s" for c
    using label_chars [OF assms] that by (auto simp: list_all_iff isTextWhitespace_def textWhitespaceRanges_def)
  then have "dropWhile (\<lambda>c. isTextWhitespace (byte c)) s = s"
    "dropWhile (\<lambda>c. isTextWhitespace (byte c)) (rev s) = rev s"
    by (auto simp: dropWhile_eq_self_iff hd_rev)
  moreover have "\<forall>c \<in> set s. byte c < 128" using label_chars [OF assms] by (auto simp: list_all_iff)
  ultimately show ?thesis by (simp add: TrimSpace_ascii)
qed

text \<open>A namespace is accepted exactly when it is blank or, trimmed, a label of at most 63 bytes
  that is none of the reserved ones: for labels the case-insensitive test is membership.\<close>

theorem namespace_accepted:
  "ValidateNamespace v = Ret () \<longleftrightarrow>
     blank v \<or> isLabel (TrimSpace v) \<and> length (TrimSpace v) \<le> 63 \<and> TrimSpace v \<notin> set reservedNamespaces"
proof (cases "isLabel (TrimSpace v)")
  case True
  then have "TrimSpace v \<noteq> []" by (auto simp: isLabel_def)
  then show ?thesis
    using True label_lower [OF True] label_trim [OF True]
    by (auto simp: ValidateNamespace_def IsReservedNamespace_def blank_def Let_def)
next
  case False
  then show ?thesis by (auto simp: ValidateNamespace_def blank_def Let_def)
qed

definition dependencyKey :: "host_dependency \<Rightarrow> string" where
  "dependencyKey d =
     (let id = TrimSpace (hdID d); command = TrimSpace (hdCommand d) in
      if TrimSpace command \<noteq> [] then TrimSpace command else TrimSpace id)"

definition dependencyOK :: "host_dependency \<Rightarrow> bool" where
  "dependencyOK d \<longleftrightarrow> (\<not> blank (hdID d) \<or> \<not> blank (hdCommand d))
     \<and> \<not> ContainsAny (TrimSpace (hdID d)) whitespaceChars
     \<and> \<not> ContainsAny (TrimSpace (hdCommand d)) [CHR ''/'', CHR 0x5C]
     \<and> list_all (\<lambda>hint. \<not> ContainsAny hint [CHR 0x00, CHR 0x0D, CHR 0x0A])
         [hiWindows (hdInstall d), hiMacOS (hdInstall d), hiLinux (hdInstall d), hiDeb (hdInstall d)]"

lemma ContainsAny_Nil [simp]: "\<not> ContainsAny [] cs"
  by (simp add: ContainsAny_def)

lemma dependencies_iff:
  "checkDependencies seen ds = Ret () \<longleftrightarrow> list_all dependencyOK ds \<and> distinct (map dependencyKey ds)
     \<and> set (map dependencyKey ds) \<inter> set seen = {}"
proof (induction ds arbitrary: seen)
  case (Cons d ds)
  have "checkDependencies seen (d # ds) = Ret () \<longleftrightarrow> dependencyOK d \<and> dependencyKey d \<notin> set seen
      \<and> checkDependencies (dependencyKey d # seen) ds = Ret ()"
    by (auto simp: dependencyOK_def dependencyKey_def validateDependencyInstallHint_def blank_def Let_def)
  then show ?case unfolding Cons.IH by auto
qed simp

text \<open>Host dependencies are accepted exactly when each has an id or a command, no id has
  whitespace, no command is a path, every install hint is one line, and no two have the same key,
  the command or else the id.\<close>

theorem dependencies_accepted:
  "ValidateDependencySpec ds = Ret () \<longleftrightarrow> list_all dependencyOK ds \<and> distinct (map dependencyKey ds)"
  by (simp add: ValidateDependencySpec_def dependencies_iff)

end
