(* ===== verification/WorkflowRunProperties.thy ===== *)
theory WorkflowRunProperties
  imports WorkflowRun WorkflowSamples WorkflowProperties
begin

text \<open>
  What the environment and the scheduler promise: sources of the environment take precedence in
  their order, outputs never touch locked keys nor blank a secret, each step runs once and in
  order, and the final steps run whatever happened before.
\<close>

section \<open>Precedence\<close>

text \<open>The values that a list of entries gives to a key, in their order.\<close>

definition occurrences :: "string \<Rightarrow> env \<Rightarrow> string list" where
  "occurrences k m = map snd (filter (\<lambda>p. fst p = k) m)"

lemma occurrences_simps [simp]:
  "occurrences k [] = []"
  "occurrences k ((k', v) # m) = (if k' = k then v # occurrences k m else occurrences k m)"
  by (simp_all add: occurrences_def)

lemma FirstNonBlank_simps [simp]:
  "FirstNonBlank [] = []"
  "FirstNonBlank (v # vs) = (if TrimSpace v = [] then FirstNonBlank vs else v)"
  by (simp_all add: FirstNonBlank_def)

lemma TrimSpace_Nil [simp]: "TrimSpace [] = []"
  by (simp add: TrimSpace_ascii)

lemma FirstNonBlank_append:
  "FirstNonBlank (xs @ ys) = (if TrimSpace (FirstNonBlank xs) = [] then FirstNonBlank ys else FirstNonBlank xs)"
  by (induction xs) auto


text \<open>What an environment says of a key, up to blank values.\<close>

definition settles :: "env \<Rightarrow> string \<Rightarrow> string list \<Rightarrow> bool" where
  "settles m k vals \<longleftrightarrow> FirstNonBlank [getEntry m k] = FirstNonBlank vals"

lemma getEntry_setEntry [simp]: "getEntry (setEntry k v m) k' = (if k' = k then v else getEntry m k')"
  by (simp add: getEntry_def)

lemma settles_init: "settles m k [getEntry m k]"
  by (simp add: settles_def)

lemma settles_setEntry: "k \<noteq> k' \<Longrightarrow> settles (setEntry k' v m) k vals = settles m k vals"
  by (simp add: settles_def)

lemma MergeIfUnset_simps [simp]:
  "MergeIfUnset dst [] = dst"
  "MergeIfUnset dst ((k, v) # src) = MergeIfUnset (if TrimSpace (getEntry dst k) = [] then setEntry k v dst else dst) src"
  by (auto simp: MergeIfUnset_def getEntry_def split: option.splits)

lemma merged_value:
  "FirstNonBlank [getEntry (MergeIfUnset dst src) k] = FirstNonBlank (getEntry dst k # occurrences k src)"
proof (induction src arbitrary: dst)
  case (Cons p src)
  obtain k' v where p: "p = (k', v)" by (cases p)
  show ?case unfolding p MergeIfUnset_simps Cons.IH by simp
qed simp

lemma settles_merge: "settles m k vals \<Longrightarrow> settles (MergeIfUnset m src) k (vals @ occurrences k src)"
  unfolding settles_def merged_value
  by (subst FirstNonBlank_append) (auto split: if_splits)

definition fileEntries :: "env_sources \<Rightarrow> string \<Rightarrow> env" where
  "fileEntries es p = (case esFile es p of Some (m, False) \<Rightarrow> m | _ \<Rightarrow> [])"

lemma mergeEnvFile_entries: "mergeEnvFile es m p = MergeIfUnset m (fileEntries es p)"
  by (auto simp: mergeEnvFile_def fileEntries_def split: option.split bool.split)

lemma settles_files:
  "settles m k vals \<Longrightarrow>
    settles (foldl (mergeEnvFile es) m ps) k (vals @ concat (map (occurrences k \<circ> fileEntries es) ps))"
proof (induction ps arbitrary: m vals)
  case (Cons p ps)
  from Cons.IH [OF settles_merge [OF Cons.prems, of "fileEntries es p"]]
  show ?case by (simp add: mergeEnvFile_entries)
qed simp

text \<open>
  What an environment holds of a key when a configuration has been placed: \<open>PATH\<close> with the tools
  directory of the package in front, any other key as it was.
\<close>

definition placedValue :: "env_sources \<Rightarrow> env \<Rightarrow> string \<Rightarrow> string \<Rightarrow> string \<Rightarrow> string" where
  "placedValue es m wfConfig onDisk k =
     (if k = ''PATH'' \<and> TrimSpace wfConfig \<noteq> [] \<and> esTools es (Dir onDisk) \<noteq> []
      then prependPATHDir (getEntry m k) (esTools es (Dir onDisk)) else getEntry m k)"

text \<open>The sources before the vault, and the files after it, in their order.\<close>

definition workflowSources ::
  "env_sources \<Rightarrow> string \<Rightarrow> workflow \<Rightarrow> string \<Rightarrow> string \<Rightarrow> string \<Rightarrow> env list"
where
  "workflowSources es onDisk w wfConfig wfRoot repoRoot =
     (if TrimSpace wfConfig = [] then []
      else [[(''DOCKPIPE_WORKFLOW_CONFIG'', onDisk), (''DOCKPIPE_WORKFLOW_CONFIG_URI'', wfConfig)]])
     @ (if TrimSpace wfRoot = [] then [] else [[(''DOCKPIPE_WORKFLOW_DIR'', wfRoot)]])
     @ [wfVars w]
     @ map (fileEntries es) [JoinPath wfRoot ''.env'', JoinPath repoRoot ''.env'']"

definition callerFiles :: "env_sources \<Rightarrow> cli_opts \<Rightarrow> env list" where
  "callerFiles es opts =
     map (fileEntries es) (coEnvFiles opts @ (if esEnvFileVar es = [] then [] else [esEnvFileVar es]))"

lemma settles_config:
  assumes "mergeConfig es m wfConfig = Ret m'"
  shows "\<exists>onDisk. settles m' k (placedValue es m wfConfig onDisk k # concat (map (occurrences k)
    (if TrimSpace wfConfig = [] then []
     else [[(''DOCKPIPE_WORKFLOW_CONFIG'', onDisk), (''DOCKPIPE_WORKFLOW_CONFIG_URI'', wfConfig)]])))
    \<and> (TrimSpace wfConfig \<noteq> [] \<longrightarrow> esOnDisk es wfConfig = Ret onDisk)"
proof (cases "TrimSpace wfConfig = []")
  case True
  with assms settles_init [of m k] show ?thesis by (simp add: mergeConfig_def placedValue_def)
next
  case False
  with assms obtain onDisk where d: "esOnDisk es wfConfig = Ret onDisk"
    by (auto simp: mergeConfig_def)
  let ?src = "[(''DOCKPIPE_WORKFLOW_CONFIG'', onDisk), (''DOCKPIPE_WORKFLOW_CONFIG_URI'', wfConfig)]"
  let ?tools = "esTools es (Dir onDisk)"
  have m': "m' = (if ?tools \<noteq> [] then setEntry ''PATH'' (prependPATHDir (getEntry m ''PATH'') ?tools) (MergeIfUnset m ?src)
      else MergeIfUnset m ?src)"
    using assms False d by (auto simp: mergeConfig_def Let_def)
  have "settles m' k (placedValue es m wfConfig onDisk k # occurrences k ?src)"
  proof (cases "k = ''PATH'' \<and> ?tools \<noteq> []")
    case True
    then show ?thesis using False by (simp add: settles_def placedValue_def m' del: MergeIfUnset_simps)
  next
    case other: False
    have "settles m' k vals = settles (MergeIfUnset m ?src) k vals" for vals
      using other by (auto simp: m' settles_setEntry simp del: MergeIfUnset_simps)
    moreover have "placedValue es m wfConfig onDisk k = getEntry m k" using other by (auto simp: placedValue_def)
    ultimately show ?thesis using settles_merge [OF settles_init [of m k], of ?src] by (simp only: append.simps)
  qed
  with False d show ?thesis by (intro exI [of _ onDisk]) simp
qed

lemma overrideVars_entries:
  "entries (overrideVars m vars) =
     entries m ++ map_of (rev (map (\<lambda>vo. (TrimSpace (cutKey vo), TrimSpace (cutValue vo))) vars))"
  by (induction vars rule: rev_induct) (simp_all add: overrideVars_def map_add_def fun_eq_iff)

text \<open>Before the vault.\<close>

lemma settles_defaults:
  assumes "mergeConfig es m wfConfig = Ret m1"
  shows "\<exists>onDisk. settles (mergeDefaults es m1 w wfRoot repoRoot) k
      (placedValue es m wfConfig onDisk k
        # concat (map (occurrences k) (workflowSources es onDisk w wfConfig wfRoot repoRoot)))
    \<and> (TrimSpace wfConfig \<noteq> [] \<longrightarrow> esOnDisk es wfConfig = Ret onDisk)"
proof -
  from settles_config [OF assms] obtain onDisk where d:
      "settles m1 k (placedValue es m wfConfig onDisk k # concat (map (occurrences k) (if TrimSpace wfConfig = [] then []
        else [[(''DOCKPIPE_WORKFLOW_CONFIG'', onDisk), (''DOCKPIPE_WORKFLOW_CONFIG_URI'', wfConfig)]])))"
      "TrimSpace wfConfig \<noteq> [] \<longrightarrow> esOnDisk es wfConfig = Ret onDisk" by blast
  have dir: "settles (if TrimSpace wfRoot \<noteq> [] then MergeIfUnset m1 [(''DOCKPIPE_WORKFLOW_DIR'', wfRoot)] else m1) k
    (vals @ concat (map (occurrences k) (if TrimSpace wfRoot = [] then [] else [[(''DOCKPIPE_WORKFLOW_DIR'', wfRoot)]])))"
    if "settles m1 k vals" for vals
    using settles_merge [OF that, of "[(''DOCKPIPE_WORKFLOW_DIR'', wfRoot)]"] that by (simp del: MergeIfUnset_simps)
  have "settles (mergeDefaults es m1 w wfRoot repoRoot) k
      (placedValue es m wfConfig onDisk k
        # concat (map (occurrences k) (workflowSources es onDisk w wfConfig wfRoot repoRoot)))"
    using settles_files [where es = es and ps = "[JoinPath wfRoot ''.env'', JoinPath repoRoot ''.env'']",
      OF settles_merge [where src = "wfVars w", OF dir [OF d(1)]]]
    by (simp add: mergeDefaults_def workflowSources_def comp_def Let_def split del: if_split)
  with d(2) show ?thesis by blast
qed

text \<open>After the vault.\<close>

lemma settles_callerFiles:
  "settles (mergeEnvFiles es m opts) k (getEntry m k # concat (map (occurrences k) (callerFiles es opts)))"
  using settles_files [OF settles_init [of m k], of es "coEnvFiles opts @ (if esEnvFileVar es = [] then [] else [esEnvFileVar es])"]
  by (cases "esEnvFileVar es = []") (simp_all add: mergeEnvFiles_def callerFiles_def comp_def Let_def)

text \<open>What \<open>--var\<close> and the typed inputs make of the environment, in this order.\<close>

lemma overridden_value:
  fixes vars m inputs
  defines "out \<equiv> overrideVars (setEntries m inputs) vars"
  shows "if k \<in> lockedKeys vars
    then entries out k = map_of (rev (map (\<lambda>vo. (TrimSpace (cutKey vo), TrimSpace (cutValue vo))) vars)) k
    else if k \<in> fst ` set inputs then entries out k = entries inputs k
    else getEntry out k = getEntry m k"
proof -
  let ?vars = "map (\<lambda>vo. (TrimSpace (cutKey vo), TrimSpace (cutValue vo))) vars"
  have keys: "k \<in> lockedKeys vars \<longleftrightarrow> map_of (rev ?vars) k \<noteq> None"
    by (simp add: lockedKeys_def image_image comp_def map_of_eq_None_iff)
  have out: "entries out k = (entries m ++ entries inputs ++ map_of (rev ?vars)) k"
    by (simp add: out_def overrideVars_entries entries_setEntries)
  have bound: "k \<in> fst ` set inputs \<longleftrightarrow> entries inputs k \<noteq> None"
    using entries_dom [of k inputs] by auto
  show ?thesis
    unfolding keys bound using out by (auto simp: getEntry_def map_add_def split: option.splits)
qed

text \<open>C24: The environment of a workflow, for every variable. One given by \<open>--var\<close> has its last value
  there. Another that a typed input binds has the value of that input. For any other, the first value
  that is not blank decides among what the vault left and the environment files of the caller in their
  order. And before the vault it is the first that is not blank among what the environment held
  (\<open>PATH\<close> with the tools of the package in front), the place of the configuration and of the
  workflow, the variables of the workflow, and the \<open>.env\<close> files of workflow and repository.\<close>

theorem workflow_env_precedence:
  assumes "buildWorkflowEnvInto es m w wfConfig wfRoot repoRoot opts = Ret out"
  shows "\<exists>onDisk before injected inputs.
    (TrimSpace wfConfig \<noteq> [] \<longrightarrow> esOnDisk es wfConfig = Ret onDisk)
    \<and> esInject es before = Ret injected
    \<and> esInputs es (mergeEnvFiles es injected opts) = Ret inputs
    \<and> FirstNonBlank [getEntry before k] =
        FirstNonBlank (placedValue es m wfConfig onDisk k
          # concat (map (occurrences k) (workflowSources es onDisk w wfConfig wfRoot repoRoot)))
    \<and> (if k \<in> lockedKeys (coVarOverrides opts)
       then entries out k =
         map_of (rev (map (\<lambda>vo. (TrimSpace (cutKey vo), TrimSpace (cutValue vo))) (coVarOverrides opts))) k
       else if k \<in> fst ` set inputs then entries out k = entries inputs k
       else FirstNonBlank [getEntry out k] =
         FirstNonBlank (getEntry injected k # concat (map (occurrences k) (callerFiles es opts))))"
proof -
  let ?vars = "map (\<lambda>vo. (TrimSpace (cutKey vo), TrimSpace (cutValue vo))) (coVarOverrides opts)"
  from assms obtain m1 injected inputs where m1: "mergeConfig es m wfConfig = Ret m1"
      and injected: "esInject es (mergeDefaults es m1 w wfRoot repoRoot) = Ret injected"
      and inputs: "esInputs es (mergeEnvFiles es injected opts) = Ret inputs"
      and out: "out = overrideVars (setEntries (mergeEnvFiles es injected opts) inputs) (coVarOverrides opts)"
    by (auto simp: buildWorkflowEnvInto_def Let_def)
  from settles_defaults [OF m1] obtain onDisk where d:
      "settles (mergeDefaults es m1 w wfRoot repoRoot) k (placedValue es m wfConfig onDisk k
        # concat (map (occurrences k) (workflowSources es onDisk w wfConfig wfRoot repoRoot)))"
      "TrimSpace wfConfig \<noteq> [] \<longrightarrow> esOnDisk es wfConfig = Ret onDisk" by blast
  have result: "if k \<in> lockedKeys (coVarOverrides opts) then entries out k = map_of (rev ?vars) k
    else if k \<in> fst ` set inputs then entries out k = entries inputs k
    else getEntry out k = getEntry (mergeEnvFiles es injected opts) k"
    unfolding out by (rule overridden_value)
  show ?thesis
    by (rule exI [of _ onDisk], rule exI [of _ "mergeDefaults es m1 w wfRoot repoRoot"],
      rule exI [of _ injected], rule exI [of _ inputs])
      (use d injected inputs result settles_callerFiles [of es injected opts k] in
        \<open>simp add: settles_def del: FirstNonBlank_simps split: if_splits\<close>)
qed

text \<open>A flow with one main and one final step, and its sources: a repository file sets another mode.\<close>

definition sampleFlow :: workflow where
  "sampleFlow = (workflowOf zeroFile [zeroStep\<lparr>spCmd := ''make''\<rparr>] [zeroStep\<lparr>spCmd := ''clean''\<rparr>])
     \<lparr>wfVars := [(''MODE'', ''flow'')]\<rparr>"

definition sampleSources :: env_sources where
  "sampleSources = \<lparr>esOnDisk = Ret, esTools = (\<lambda>_. []), esFile = (\<lambda>_. Some ([(''MODE'', ''file'')], False)),
     esInject = (\<lambda>m. Ret (setEntry ''TOKEN'' ''vault'' m)), esInputs = (\<lambda>_. Ret [(''PORT'', ''80'')]), esEnvFileVar = []\<rparr>"

definition sampleOpts :: cli_opts where
  "sampleOpts = \<lparr>coEnvFiles = [], coVarOverrides = [''LEVEL=9'']\<rparr>"

lemma sample_strings:
  "TrimSpace ''MODE'' = ''MODE''" "TrimSpace ''flow'' = ''flow''" "TrimSpace ''LEVEL'' = ''LEVEL''" "TrimSpace ''9'' = ''9''"
  "TrimSpace ''vault'' = ''vault''" "cutKey ''LEVEL=9'' = ''LEVEL''" "cutValue ''LEVEL=9'' = ''9''"
  by (simp_all add: TrimSpace_ascii byte_def isTextWhitespace_def textWhitespaceRanges_def cutKey_def cutValue_def
      cutEquals_def)

theorem workflow_env_precedence_witness:
  "\<exists>out. buildWorkflowEnvInto sampleSources [] sampleFlow '''' '''' '''' sampleOpts = Ret out
    \<and> entries out ''LEVEL'' = Some ''9'' \<and> entries out ''PORT'' = Some ''80''
    \<and> FirstNonBlank [getEntry out ''TOKEN''] = ''vault'' \<and> FirstNonBlank [getEntry out ''MODE''] = ''flow''"
proof -
  obtain out where out: "buildWorkflowEnvInto sampleSources [] sampleFlow '''' '''' '''' sampleOpts = Ret out"
    by (simp add: buildWorkflowEnvInto_def mergeConfig_def sampleSources_def Let_def)
  have locked: "lockedKeys (coVarOverrides sampleOpts) = {''LEVEL''}"
    by (simp add: lockedKeys_def sampleOpts_def sample_strings)
  have parts: "esInject sampleSources m = Ret (setEntry ''TOKEN'' ''vault'' m)"
      "esInputs sampleSources m = Ret [(''PORT'', ''80'')]" "wfVars sampleFlow = [(''MODE'', ''flow'')]"
      "placedValue sampleSources [] [] d k = []" for m d k
    by (simp_all add: sampleSources_def sampleFlow_def placedValue_def getEntry_def)
  have rest: "\<exists>onDisk before.
      FirstNonBlank [getEntry before k] =
        FirstNonBlank ([] # concat (map (occurrences k) (workflowSources sampleSources onDisk sampleFlow [] [] [])))
      \<and> FirstNonBlank [getEntry out k] = FirstNonBlank (getEntry (setEntry ''TOKEN'' ''vault'' before) k
        # concat (map (occurrences k) (callerFiles sampleSources sampleOpts)))"
    if "k \<noteq> ''LEVEL''" "k \<noteq> ''PORT''" for k
    using workflow_env_precedence [OF out, of k] that unfolding locked parts
    by (auto simp del: FirstNonBlank_simps getEntry_setEntry)
  have "FirstNonBlank [getEntry out ''TOKEN''] = ''vault''"
    using rest [of "''TOKEN''"] by (simp add: sample_strings)
  moreover have "FirstNonBlank [getEntry out ''MODE''] = ''flow''"
    using rest [of "''MODE''"] by (auto simp: parts sample_strings workflowSources_def split: if_splits)
  moreover have "entries out ''LEVEL'' = Some ''9''"
    using workflow_env_precedence [OF out, of "''LEVEL''"] unfolding locked by (auto simp: sampleOpts_def sample_strings)
  moreover have "entries out ''PORT'' = Some ''80''"
    using workflow_env_precedence [OF out, of "''PORT''"] unfolding locked parts by (auto simp: entries_def)
  ultimately show ?thesis using out by blast
qed

section \<open>Outputs\<close>

lemma skip_local:
  "k \<noteq> k' \<Longrightarrow> skipOutputsOverwriteEmptySecret k v (setEntry k' v' m) = skipOutputsOverwriteEmptySecret k v m"
  by (simp add: skipOutputsOverwriteEmptySecret_def)

text \<open>Outputs are merged pointwise, whatever the order of their iteration: a key takes the new value
  in both environments, unless it is locked or the value would blank a secret.\<close>

theorem outputs_merged:
  assumes "distinct (map fst m)"
  shows "entries (fst (mergeOutputs locked m (e, d))) k =
      (case map_of m k of
         Some v \<Rightarrow> if k \<in> locked \<or> skipOutputsOverwriteEmptySecret k v e then entries e k else Some v
       | None \<Rightarrow> entries e k)
    \<and> entries (snd (mergeOutputs locked m (e, d))) k =
      (case map_of m k of
         Some v \<Rightarrow> if k \<in> locked \<or> skipOutputsOverwriteEmptySecret k v e then entries d k else Some v
       | None \<Rightarrow> entries d k)"
  using assms
proof (induction m arbitrary: e d)
  case (Cons p m)
  obtain k' v' where p: "p = (k', v')" by (cases p)
  show ?case
  proof (cases "k = k'")
    case True
    moreover have "map_of m k = None" using Cons.prems p True by (auto simp: map_of_eq_None_iff)
    ultimately show ?thesis using Cons.IH Cons.prems by (auto simp: p)
  next
    case False
    then show ?thesis using Cons.IH Cons.prems by (auto simp: p skip_local split: option.split)
  qed
qed simp

theorem outputs_merged_witness:
  "entries (fst (mergeOutputs {''A''} [(''A'', ''1''), (''B'', ''2'')] ([(''A'', ''0'')], []))) ''A'' = Some ''0''
    \<and> entries (snd (mergeOutputs {''A''} [(''A'', ''1''), (''B'', ''2'')] ([(''A'', ''0'')], []))) ''B'' = Some ''2''"
  using outputs_merged [of "[(''A'', ''1''), (''B'', ''2'')]" "{''A''}" "[(''A'', ''0'')]" "[]" "''A''"]
    outputs_merged [of "[(''A'', ''1''), (''B'', ''2'')]" "{''A''}" "[(''A'', ''0'')]" "[]" "''B''"]
  by (simp add: skipOutputsOverwriteEmptySecret_def TrimSpace_ascii byte_def isTextWhitespace_def textWhitespaceRanges_def
      entries_def del: mergeOutputs.simps)

section \<open>Lines\<close>

lemma environ_step:
  "CHR ''='' \<notin> set k \<Longrightarrow> (case cutEquals (k @ CHR ''='' # v) of Some (k, v) \<Rightarrow> setEntry k v m | None \<Rightarrow> m) = setEntry k v m"
  by simp

lemma environ_entries:
  "list_all (\<lambda>p. CHR ''='' \<notin> set (fst p)) m \<Longrightarrow> entries (EnvironToMap (EnvMapToSlice m)) = entries m"
proof (induction m rule: rev_induct)
  case (snoc p m)
  obtain k v where p: "p = (k, v)" by (cases p)
  with snoc have "entries (EnvironToMap (EnvMapToSlice m)) = entries m" by simp
  with snoc.prems show ?case
    by (simp add: p EnvironToMap_def EnvMapToSlice_def entries_snoc del: fun_upd_apply)
qed (simp add: EnvironToMap_def EnvMapToSlice_def)

text \<open>What a script writes with one \<open>printf\<close> per variable.\<close>

definition envLine :: "string \<times> string \<Rightarrow> string" where
  "envLine p = fst p @ CHR ''='' # snd p"

definition printEnv :: "env \<Rightarrow> string" where
  "printEnv m = concat (map (\<lambda>p. envLine p @ [CHR 0x0A]) m)"

definition plainLine :: "string \<times> string \<Rightarrow> bool" where
  "plainLine p \<longleftrightarrow> fst p \<noteq> [] \<and> CHR ''='' \<notin> set (fst p) \<and> \<not> HasPrefix (fst p) ''#''
     \<and> TrimSpace (fst p) = fst p \<and> TrimSpace (snd p) = snd p \<and> unquote (snd p) = snd p
     \<and> CHR 0x0A \<notin> set (envLine p) \<and> TrimSpace (envLine p) = envLine p \<and> dropCR (envLine p) = envLine p
     \<and> length (envLine p) < maxScanTokenSize"

lemma splitOn_line: "sep \<notin> set l \<Longrightarrow> splitOn sep (l @ sep # rest) = l # splitOn sep rest"
  by (induction l) auto

lemma splitOn_printEnv:
  "list_all plainLine m \<Longrightarrow> splitOn (CHR 0x0A) (printEnv m) = map envLine m @ [[]]"
  by (induction m) (simp_all add: printEnv_def splitOn_line plainLine_def)

lemma ContainsText_equals: "ContainsText (k @ CHR ''='' # v) ''=''"
  by (induction k) (simp_all add: HasPrefix_def)

lemma parseEnvLine_plain:
  assumes "plainLine (k, v)"
  shows "parseEnvLine m (k @ CHR ''='' # v) = setEntry k v m"
proof -
  let ?l = "k @ CHR ''='' # v"
  from assms have k: "k \<noteq> []" "\<not> HasPrefix k ''#''" "CHR ''='' \<notin> set k" "TrimSpace k = k" "TrimSpace v = v"
      "unquote v = v" "TrimSpace ?l = ?l"
    by (simp_all add: plainLine_def envLine_def)
  moreover have "\<not> HasPrefix ?l ''#''" using k(1,2) by (cases k) (auto simp: HasPrefix_def)
  moreover have "cutKey ?l = k" "cutValue ?l = v" using k(3) by (simp_all add: cutKey_def cutValue_def)
  ultimately show ?thesis by (simp add: parseEnvLine_def ContainsText_equals)
qed

text \<open>C25: An environment of plain lines survives both ways out of the program: as the lines given to a
  process, and as a file that a script writes and the program reads.\<close>

theorem env_lines_roundtrip:
  assumes "list_all plainLine m"
  shows "entries (EnvironToMap (EnvMapToSlice m)) = entries m
    \<and> entries (fst (parseEnvReader (printEnv m))) = entries m \<and> \<not> snd (parseEnvReader (printEnv m))"
proof -
  have short: "takeWhile (\<lambda>l. length l < maxScanTokenSize) (map envLine m) = map envLine m"
    using assms by (auto simp: takeWhile_eq_all_conv plainLine_def list_all_iff)
  have "map (dropCR \<circ> envLine) m = map envLine m" using assms by (auto simp: plainLine_def list_all_iff)
  then have lines: "scanLines (printEnv m) = (map envLine m, False)"
    using short by (simp add: scanLines_def splitOn_printEnv [OF assms] Let_def del: takeWhile_eq_all_conv)
  have "entries (foldl parseEnvLine [] (map envLine m)) = entries m"
    using assms
  proof (induction m rule: rev_induct)
    case (snoc p m)
    obtain k v where "p = (k, v)" by (cases p)
    with snoc show ?case by (simp add: parseEnvLine_plain envLine_def entries_snoc del: fun_upd_apply)
  qed simp
  moreover have "list_all (\<lambda>p. CHR ''='' \<notin> set (fst p)) m" using assms by (auto simp: plainLine_def list_all_iff)
  ultimately show ?thesis using environ_entries lines by (simp add: parseEnvReader_def)
qed

theorem env_lines_roundtrip_witness:
  "entries (fst (parseEnvReader (printEnv [(''A'', ''1''), (''B'', ''x=2'')]))) = [''A'' \<mapsto> ''1'', ''B'' \<mapsto> ''x=2'']"
proof -
  have "list_all plainLine [(''A'', ''1''), (''B'', ''x=2'')]"
    by (simp add: plainLine_def envLine_def HasPrefix_def unquote_def dropCR_def maxScanTokenSize_def TrimSpace_ascii
        byte_def isTextWhitespace_def textWhitespaceRanges_def)
  from env_lines_roundtrip [OF this] show ?thesis by (simp add: entries_def fun_eq_iff)
qed

section \<open>Batches\<close>

lemma mergeOutputs_Nil: "mergeOutputs locked [] maps = maps"
  by (cases maps) simp

lemma mergeOutputs_Cons:
  "mergeOutputs locked ((k, v) # m) maps = mergeOutputs locked m
     (if k \<in> locked \<or> skipOutputsOverwriteEmptySecret k v (fst maps) then maps
      else (setEntry k v (fst maps), setEntry k v (snd maps)))"
  by (cases maps) simp

lemma mergeOutputs_kept:
  "k \<in> locked \<Longrightarrow> entries (fst (mergeOutputs locked m maps)) k = entries (fst maps) k
    \<and> entries (snd (mergeOutputs locked m maps)) k = entries (snd maps) k"
  by (induction m arbitrary: maps) (auto simp: mergeOutputs_Nil mergeOutputs_Cons simp del: mergeOutputs.simps)

lemma mergeOutputs_secret:
  "isLikelySecretEnvKey k \<Longrightarrow> TrimSpace (getEntry (fst maps) k) \<noteq> [] \<Longrightarrow>
    TrimSpace (getEntry (fst (mergeOutputs locked m maps)) k) \<noteq> []"
proof (induction m arbitrary: maps)
  case (Cons p m)
  obtain k' v where p: "p = (k', v)" by (cases p)
  let ?next = "if k' \<in> locked \<or> skipOutputsOverwriteEmptySecret k' v (fst maps) then maps
      else (setEntry k' v (fst maps), setEntry k' v (snd maps))"
  have "TrimSpace (getEntry (fst ?next) k) \<noteq> []"
    using Cons.prems by (auto simp: skipOutputsOverwriteEmptySecret_def)
  from Cons.IH [OF Cons.prems(1) this] show ?case unfolding p mergeOutputs_Cons .
qed (simp add: mergeOutputs_Nil)

text \<open>A step of the merge changes the environments only through \<open>mergeOutputs\<close>.\<close>

lemma mergeStepOutputs_maps:
  "\<exists>m. (rsEnv (mergeStepOutputs rn rc st s), rsDocker (mergeStepOutputs rn rc st s)) =
    mergeOutputs (rcLocked rc) m (rsEnv st, rsDocker st)"
proof -
  have "\<exists>m. fst (applyOutputsFile fl locked maps) = mergeOutputs locked m maps" for fl locked maps
    by (auto simp: applyOutputsFile_def split: option.split intro: exI [of _ "[]"] mergeOutputs_Nil [symmetric])
  then show ?thesis
    by (auto simp: mergeStepOutputs_def Let_def split: prod.split) (metis fst_conv)
qed

lemma mergeSteps_kept:
  assumes "k \<in> rcLocked rc"
  shows "entries (rsEnv (foldl (mergeStepOutputs rn rc) st ss)) k = entries (rsEnv st) k
    \<and> entries (rsDocker (foldl (mergeStepOutputs rn rc) st ss)) k = entries (rsDocker st) k"
proof (induction ss arbitrary: st)
  case (Cons s ss)
  obtain m where m: "(rsEnv (mergeStepOutputs rn rc st s), rsDocker (mergeStepOutputs rn rc st s)) =
      mergeOutputs (rcLocked rc) m (rsEnv st, rsDocker st)" using mergeStepOutputs_maps by blast
  from mergeOutputs_kept [OF assms, of m "(rsEnv st, rsDocker st)"] Cons show ?case
    by (simp add: m [symmetric])
qed simp

lemma mergeSteps_secret:
  assumes "isLikelySecretEnvKey k"
  shows "TrimSpace (getEntry (rsEnv st) k) \<noteq> [] \<Longrightarrow>
    TrimSpace (getEntry (rsEnv (foldl (mergeStepOutputs rn rc) st ss)) k) \<noteq> []"
proof (induction ss arbitrary: st)
  case (Cons s ss)
  obtain m where m: "(rsEnv (mergeStepOutputs rn rc st s), rsDocker (mergeStepOutputs rn rc st s)) =
      mergeOutputs (rcLocked rc) m (rsEnv st, rsDocker st)" using mergeStepOutputs_maps by blast
  from mergeOutputs_secret [OF assms, of "(rsEnv st, rsDocker st)" "rcLocked rc" m] Cons show ?case
    by (simp add: m [symmetric])
qed simp

lemma batch_maps:
  "\<exists>world ss. snd (runParallelBatch rn rc w i j n st) = foldl (mergeStepOutputs rn rc) (st\<lparr>rsWorld := world\<rparr>) ss"
proof -
  have world: "\<exists>world ss. st\<lparr>rsWorld := x\<rparr> = foldl (mergeStepOutputs rn rc) (st\<lparr>rsWorld := world\<rparr>) ss" for x
    by (intro exI [of _ x] exI [of _ "[]"]) simp
  from world [of "rsWorld st"] have "\<exists>world ss. st = foldl (mergeStepOutputs rn rc) (st\<lparr>rsWorld := world\<rparr>) ss" by simp
  with world show ?thesis
    by (auto simp: runParallelBatch_def simp del: firstError.simps split: option.split prod.split list.split)
qed

text \<open>C22: Whatever the steps of a batch do and write, their merge leaves locked keys as they are in both
  environments, and never blanks a secret that the host environment holds.\<close>

theorem batch_merge_safe:
  assumes "snd (runParallelBatch rn rc w i j n st) = st'"
  shows "if k \<in> rcLocked rc
    then entries (rsEnv st') k = entries (rsEnv st) k \<and> entries (rsDocker st') k = entries (rsDocker st) k
    else \<not> isLikelySecretEnvKey k \<or> blank (getEntry (rsEnv st) k) \<or> \<not> blank (getEntry (rsEnv st') k)"
proof -
  obtain world ss where "st' = foldl (mergeStepOutputs rn rc) (st\<lparr>rsWorld := world\<rparr>) ss"
    using batch_maps [of rn rc w i j n st] assms by auto
  then show ?thesis
    using mergeSteps_kept [of k rc rn "st\<lparr>rsWorld := world\<rparr>" ss] mergeSteps_secret [of k "st\<lparr>rsWorld := world\<rparr>" rn rc ss]
    by (auto simp: blank_def)
qed

lemma splitOn_append: "splitOn sep (a @ sep # b) = splitOn sep a @ splitOn sep b"
proof (induction a)
  case (Cons c a)
  have "splitOn sep a \<noteq> []" by (induction a) (auto split: list.split)
  then show ?case using Cons by (cases "splitOn sep a") auto
qed simp

lemma resolveDots_dot: "resolveDots rooted acc (xs @ ''.'' # ys) = resolveDots rooted acc (xs @ ys)"
  by (induction rooted acc xs rule: resolveDots.induct) (auto split: list.split)

lemma Clean_dot: "Clean (a @ ''/./'' @ b) = Clean (a @ ''/'' @ b)"
proof -
  have "splitOn (CHR ''/'') (a @ CHR ''/'' # CHR ''.'' # CHR ''/'' # b)
      = splitOn (CHR ''/'') a @ ''.'' # splitOn (CHR ''/'') b"
    using splitOn_append [of "CHR ''/''" a "CHR ''.'' # CHR ''/'' # b"] by simp
  moreover have "IsAbs (a @ CHR ''/'' # CHR ''.'' # CHR ''/'' # b) = IsAbs (a @ CHR ''/'' # b)"
    by (cases a) (simp_all add: IsAbs_def HasPrefix_def)
  ultimately show ?thesis
    unfolding Clean_def using splitOn_append [of "CHR ''/''" a b]
    by (simp add: resolveDots_dot Let_def)
qed

text \<open>A world without state, in which every outputs file clears a token and sets a mode.\<close>

definition sampleRunner :: "unit runner" where
  "sampleRunner = \<lparr>rnBlocking = (\<lambda>w phase i n st. (if phase = ''Finally'' then None else Some (ExitCode 2), st)),
     rnProfile = (\<lambda>w i world. Inr None), rnCommits = (\<lambda>_. False),
     rnPrefetch = (\<lambda>w i j n e d world. (None, world)), rnWorkers = (\<lambda>w i j n e d world. ([], world)),
     rnRead = (\<lambda>p world. Some ([(''GIT_PAT'', []), (''MODE'', ''new'')], False)), rnRemove = (\<lambda>p world. world)\<rparr>"

definition sampleContext :: run_context where
  "sampleContext = \<lparr>rcWorkdir = ''/w'', rcProjectRoot = [], rcRepoRoot = [], rcGetwd = ''/w'', rcUserAct = [],
     rcExtraEnvLines = [], rcLocked = {''MODE''}\<rparr>"

definition sampleState :: "unit flow_state" where
  "sampleState = \<lparr>rsEnv = [(''GIT_PAT'', ''s''), (''MODE'', ''old'')], rsDocker = [], rsWorld = ()\<rparr>"

lemma upper_fixed:
  assumes "list_all (\<lambda>c. byte c < 128 \<and> \<not> (97 \<le> byte c \<and> byte c \<le> 122)) s"
  shows "ToUpper s = s"
proof -
  have a: "list_all (\<lambda>c. byte c < 128) s" using assms by (auto simp: list_all_iff)
  have "map upperRune (map byte s) = map byte s" using assms by (auto simp: list_all_iff upperRune_def)
  then show ?thesis using ascii_runes [OF a] ascii_encode [OF a] by (simp only: ToUpper_def)
qed

lemma git_pat_secret: "isLikelySecretEnvKey ''GIT_PAT''"
proof -
  have "ToUpper ''GIT_PAT'' = ''GIT_PAT''" by (rule upper_fixed) (simp add: byte_def)
  moreover have "TrimSpace ''GIT_PAT'' = ''GIT_PAT''"
    by (simp add: TrimSpace_ascii byte_def isTextWhitespace_def textWhitespaceRanges_def)
  ultimately show ?thesis by (simp add: isLikelySecretEnvKey_def)
qed

theorem batch_merge_safe_witness:
  "\<exists>st'. snd (runParallelBatch sampleRunner sampleContext sampleFlow 0 1 1 sampleState) = st'
    \<and> entries (rsEnv st') ''MODE'' = Some ''old'' \<and> \<not> blank (getEntry (rsEnv st') ''GIT_PAT'')"
proof -
  let ?st' = "snd (runParallelBatch sampleRunner sampleContext sampleFlow 0 1 1 sampleState)"
  have "entries (rsEnv ?st') ''MODE'' = Some ''old''"
    using batch_merge_safe [OF refl, where rn = sampleRunner and rc = sampleContext and w = sampleFlow and i = 0 and j = 1
        and n = 1 and st = sampleState and k = "''MODE''"]
    by (simp add: sampleContext_def sampleState_def entries_def)
  moreover have "\<not> blank (getEntry (rsEnv sampleState) ''GIT_PAT'')"
    by (simp add: sampleState_def getEntry_def entries_def blank_def TrimSpace_ascii byte_def isTextWhitespace_def
        textWhitespaceRanges_def)
  then have "\<not> blank (getEntry (rsEnv ?st') ''GIT_PAT'')"
    using batch_merge_safe [OF refl, where rn = sampleRunner and rc = sampleContext and w = sampleFlow and i = 0 and j = 1
        and n = 1 and st = sampleState and k = "''GIT_PAT''"]
      git_pat_secret by (simp add: sampleContext_def)
  ultimately show ?thesis by blast
qed

text \<open>C26: Two steps of a batch may write the same file: the check compares the outputs as they are
  authored, not the paths they stand for.\<close>

theorem parallel_outputs_alias:
  "validateParallelOutputPaths (w\<lparr>wfSteps := [s\<lparr>spOutputs := ''a.env''\<rparr>, s\<lparr>spOutputs := ''./a.env''\<rparr>]\<rparr>) 0 2 = None
   \<and> stepOutputsAbsPath rc (s\<lparr>spOutputs := ''a.env''\<rparr>) m = stepOutputsAbsPath rc (s\<lparr>spOutputs := ''./a.env''\<rparr>) m"
proof -
  have "JoinPath base ''./a.env'' = JoinPath base ''a.env''" for base
    using Clean_dot [of base "''a.env''"]
    by (auto simp: JoinPath_def) (simp_all add: Clean_def IsAbs_def HasPrefix_def)
  then show ?thesis
    by (simp add: validateParallelOutputPaths_def upt_rec OutputsPath_def stepOutputsAbsPath_def IsAbs_def HasPrefix_def)
qed

section \<open>Order\<close>

text \<open>The phases of a run: a blocking step alone, or a batch of steps.\<close>

datatype phase = Alone nat | Together nat nat

function phasesFrom :: "workflow \<Rightarrow> nat \<Rightarrow> phase list" where
  "phasesFrom w i =
     (if length (wfSteps w) \<le> i then []
      else if IsBlocking (wfSteps w ! i) then Alone i # phasesFrom w (Suc i)
      else Together i (batchEnd w i) # phasesFrom w (batchEnd w i))"
  by pat_completeness auto
termination
  by (relation "measure (\<lambda>(w, i). length (wfSteps w) - i)") (auto intro!: diff_less_mono2 batchEnd_less)

fun phaseSteps :: "phase \<Rightarrow> nat list" where
  "phaseSteps (Alone i) = [i]"
| "phaseSteps (Together i j) = [i..<j]"

fun phaseOK :: "workflow \<Rightarrow> phase \<Rightarrow> bool" where
  "phaseOK w (Alone i) \<longleftrightarrow> IsBlocking (wfSteps w ! i)"
| "phaseOK w (Together i j) \<longleftrightarrow> i < j \<and> list_all (\<lambda>k. \<not> IsBlocking (wfSteps w ! k)) [i..<j]
     \<and> (j = length (wfSteps w) \<or> IsBlocking (wfSteps w ! j))"

fun runPhase ::
  "'w runner \<Rightarrow> run_context \<Rightarrow> workflow \<Rightarrow> string \<Rightarrow> phase \<Rightarrow> 'w flow_state \<Rightarrow> run_error option \<times> 'w flow_state"
where
  "runPhase rn rc w phase (Alone i) st = rnBlocking rn w phase i (length (wfSteps w)) st"
| "runPhase rn rc w phase (Together i j) st = runParallelBatch rn rc w i j (length (wfSteps w)) st"

text \<open>Running one after the other until the first error.\<close>

fun runAll :: "('a \<Rightarrow> 's \<Rightarrow> 'e option \<times> 's) \<Rightarrow> 'a list \<Rightarrow> 's \<Rightarrow> 'e option \<times> 's" where
  "runAll f [] st = (None, st)"
| "runAll f (p # ps) st = (case f p st of (Some e, st) \<Rightarrow> (Some e, st) | (None, st) \<Rightarrow> runAll f ps st)"

declare runMainSteps.simps [simp del] phasesFrom.simps [simp del]

lemma runMainSteps_phases: "runMainSteps rn rc w phase i st = runAll (runPhase rn rc w phase) (phasesFrom w i) st"
proof (induction rn rc w phase i st rule: runMainSteps.induct)
  case (1 rn rc w phase i st)
  consider "length (wfSteps w) \<le> i" | "i < length (wfSteps w)" "IsBlocking (wfSteps w ! i)"
    | "i < length (wfSteps w)" "\<not> IsBlocking (wfSteps w ! i)" by linarith
  then show ?case
  proof cases
    case 1
    then show ?thesis by (simp add: runMainSteps.simps phasesFrom.simps)
  next
    case 2
    have rest: "runMainSteps rn rc w phase (Suc i) st' = runAll (runPhase rn rc w phase) (phasesFrom w (Suc i)) st'"
      if "rnBlocking rn w phase i (length (wfSteps w)) st = (None, st')" for st'
      using "1.IH"(1) 2 that by simp
    show ?thesis using 2
      by (subst runMainSteps.simps, subst phasesFrom.simps) (simp add: rest split: prod.split option.split)
  next
    case 3
    have rest: "runMainSteps rn rc w phase (batchEnd w i) st' =
        runAll (runPhase rn rc w phase) (phasesFrom w (batchEnd w i)) st'"
      if "runParallelBatch rn rc w i (batchEnd w i) (length (wfSteps w)) st = (None, st')" for st'
      using "1.IH"(2) 3 that by simp
    show ?thesis using 3
      by (subst runMainSteps.simps, subst phasesFrom.simps) (simp add: rest split: prod.split option.split)
  qed
qed

lemma batch_steps:
  assumes "i < length (wfSteps w)" "\<not> IsBlocking (wfSteps w ! i)"
  shows "phaseOK w (Together i (batchEnd w i))"
proof -
  let ?ss = "drop i (wfSteps w)" and ?P = "\<lambda>s. \<not> IsBlocking s"
  let ?l = "length (takeWhile ?P ?ss)"
  have inside: "\<not> IsBlocking (wfSteps w ! k)" if "i \<le> k" "k < batchEnd w i" for k
  proof -
    have "k - i < ?l" using that by (simp add: batchEnd_def)
    then have "?P (takeWhile ?P ?ss ! (k - i))" using nth_mem [of "k - i" "takeWhile ?P ?ss"] set_takeWhileD by fast
    then show ?thesis using that assms(1) \<open>k - i < ?l\<close> by (simp add: takeWhile_nth)
  qed
  have "IsBlocking (wfSteps w ! batchEnd w i)" if "batchEnd w i < length (wfSteps w)"
  proof -
    have "?l < length ?ss" using that by (simp add: batchEnd_def)
    from nth_length_takeWhile [OF this] show ?thesis using assms(1) by (simp add: batchEnd_def)
  qed
  moreover have "batchEnd w i \<le> length (wfSteps w)" using batchEnd_le assms(1) by simp
  ultimately have "batchEnd w i = length (wfSteps w) \<or> IsBlocking (wfSteps w ! batchEnd w i)"
    using le_neq_implies_less by blast
  then show ?thesis using batchEnd_less [OF assms] inside by (auto simp: list_all_iff)
qed

lemma phases_cover:
  "i \<le> length (wfSteps w) \<Longrightarrow>
    concat (map phaseSteps (phasesFrom w i)) = [i..<length (wfSteps w)] \<and> list_all (phaseOK w) (phasesFrom w i)"
proof (induction w i rule: phasesFrom.induct)
  case (1 w i)
  show ?case
  proof (cases "length (wfSteps w) \<le> i")
    case False
    then have up: "i # [Suc i..<length (wfSteps w)] = [i..<length (wfSteps w)]" by (simp add: upt_conv_Cons)
    show ?thesis
    proof (cases "IsBlocking (wfSteps w ! i)")
      case True
      with 1 False up show ?thesis by (subst (1 2) phasesFrom.simps) simp
    next
      case nonblocking: False
      have ok: "phaseOK w (Together i (batchEnd w i))" using batch_steps False nonblocking by simp
      have "batchEnd w i \<le> length (wfSteps w)" "i \<le> batchEnd w i"
        using batchEnd_le batchEnd_less False nonblocking by (auto simp: batchEnd_def)
      then have "[i..<batchEnd w i] @ [batchEnd w i..<length (wfSteps w)] = [i..<length (wfSteps w)]"
        by (metis le_Suc_ex upt_add_eq_append)
      with 1 False nonblocking ok \<open>batchEnd w i \<le> length (wfSteps w)\<close> show ?thesis
        by (subst (1 2) phasesFrom.simps) simp
    qed
  qed (use 1 in \<open>simp add: phasesFrom.simps\<close>)
qed

text \<open>C21: The main loop runs phases one after the other until the first error; together they are all the
  steps, each once and in order, blocking steps alone and async steps in batches that are not
  followed by another async step.\<close>

theorem main_schedule:
  "runMainSteps rn rc w phase 0 st = runAll (runPhase rn rc w phase) (phasesFrom w 0) st
   \<and> concat (map phaseSteps (phasesFrom w 0)) = [0..<length (wfSteps w)]
   \<and> list_all (phaseOK w) (phasesFrom w 0)"
  using runMainSteps_phases phases_cover [of 0 w] by blast

section \<open>Final steps\<close>

lemma Clean_nonempty: "Clean p \<noteq> []"
  by (simp add: Clean_def Let_def)

lemma specs_total:
  "list_all (\<lambda>m. \<not> blank (cmHost m) \<and> \<not> blank (cmGuest m)) ms \<Longrightarrow> workflowContainerMountSpecs ms hostBase \<noteq> None"
  by (induction ms) (auto simp: resolveContainerHostPath_def blank_def Clean_nonempty Let_def)

lemma mount_specs:
  assumes "ValidateWorkflowContainerConfig c = Ret ()"
  shows "workflowContainerMountSpecs (ctMounts c) hostBase \<noteq> None"
proof -
  have "list_all (\<lambda>m. \<not> blank (cmHost m) \<and> \<not> blank (cmGuest m)) (ctMounts c)"
    using assms by (auto simp: ValidateWorkflowContainerConfig_def ContainerIsEmpty_def list_all_iff Let_def split: if_splits)
  then show ?thesis using specs_total by blast
qed

lemma validated_mounts:
  assumes "ValidateLoadedWorkflow (Some w) = Ret ()"
  shows "\<exists>env. applyWorkflowContainerMountEnv rc w m = Some env
    \<and> (\<forall>k. k \<noteq> ''DOCKPIPE_CONTAINER_MOUNTS'' \<longrightarrow> entries env k = entries m k)"
proof -
  let ?hostBase = "FirstNonBlank [getEntry m ''DOCKPIPE_SOURCE_ROOT'', getEntry m ''DOCKPIPE_WORKDIR'',
    rcWorkdir rc, rcProjectRoot rc, rcRepoRoot rc]"
  have "ValidateWorkflowContainerConfig (wfContainer w) = Ret ()"
    using assms by (simp add: ValidateLoadedWorkflow_def)
  then obtain mounts where "workflowContainerMountSpecs (ctMounts (wfContainer w)) ?hostBase = Some mounts"
    using mount_specs by blast
  then show ?thesis
    by (simp only: applyWorkflowContainerMountEnv_def Let_def option.map) simp
qed

lemma combineErrors_None: "combineErrors e f = None \<longleftrightarrow> e = None \<and> f = None"
  by (auto simp: combineErrors_def split: option.split)

lemma combineErrors_code:
  "e = Some x \<Longrightarrow> exitCodeFromError x = Some c \<Longrightarrow> \<exists>y. combineErrors e f = Some y \<and> exitCodeFromError y = Some c"
  by (auto simp: combineErrors_def split: option.split)

text \<open>C20: In a run of an accepted workflow with final steps the final steps run after the main ones,
  whatever these did, on the environment that they left. The run succeeds exactly when both
  succeed, and an exit code of the main steps is the exit code of the run.\<close>

theorem finally_always_runs:
  assumes "ValidateLoadedWorkflow (Some w) = Ret ()" "wfFinally w \<noteq> []"
  shows "\<exists>st0 e1 st1 st1' e2 st2 e.
    runMainSteps rn rc w phase 0 st0 = (e1, st1)
    \<and> rsWorld st0 = rsWorld st \<and> rsWorld st1' = rsWorld st1
    \<and> (\<forall>k. k \<noteq> ''DOCKPIPE_CONTAINER_MOUNTS'' \<longrightarrow> entries (rsEnv st0) k = entries (rsEnv st) k)
    \<and> (\<forall>k. k \<noteq> ''DOCKPIPE_CONTAINER_MOUNTS'' \<longrightarrow> entries (rsEnv st1') k = entries (rsEnv st1) k)
    \<and> runMainSteps rn rc (finallyWorkflow w) ''Finally'' 0 st1' = (e2, st2)
    \<and> runSteps rn rc w phase st = (e, st2)
    \<and> (e = None \<longleftrightarrow> e1 = None \<and> e2 = None)
    \<and> (\<forall>x c. e1 = Some x \<and> exitCodeFromError x = Some c \<longrightarrow> (\<exists>y. e = Some y \<and> exitCodeFromError y = Some c))"
proof -
  let ?docker = "EnvSliceToMap (rcExtraEnvLines rc)"
  obtain env0 where env0: "applyWorkflowContainerMountEnv rc w (rsEnv st) = Some env0"
      "\<forall>k. k \<noteq> ''DOCKPIPE_CONTAINER_MOUNTS'' \<longrightarrow> entries env0 k = entries (rsEnv st) k"
    using validated_mounts [OF assms(1)] by blast
  let ?st0 = "st\<lparr>rsEnv := env0, rsDocker := ?docker\<rparr>"
  obtain e1 st1 where main: "runMainSteps rn rc w phase 0 ?st0 = (e1, st1)" by fastforce
  obtain env1 where env1: "applyWorkflowContainerMountEnv rc w (rsEnv st1) = Some env1"
      "\<forall>k. k \<noteq> ''DOCKPIPE_CONTAINER_MOUNTS'' \<longrightarrow> entries env1 k = entries (rsEnv st1) k"
    using validated_mounts [OF assms(1)] by blast
  have container: "applyWorkflowContainerMountEnv rc (finallyWorkflow w) m = applyWorkflowContainerMountEnv rc w m" for m
    by (simp add: applyWorkflowContainerMountEnv_def finallyWorkflow_def)
  let ?st1' = "st1\<lparr>rsEnv := env1, rsDocker := ?docker\<rparr>"
  obtain e2 st2 where final: "runMainSteps rn rc (finallyWorkflow w) ''Finally'' 0 ?st1' = (e2, st2)" by fastforce
  have run: "runSteps rn rc w phase st = (combineErrors e1 e2, st2)"
    using assms(2) by (simp add: runSteps_def runBody_def env0(1) main runWorkflowFinally_def container env1(1) final)
  show ?thesis
    by (rule exI [of _ ?st0], rule exI [of _ e1], rule exI [of _ st1], rule exI [of _ ?st1'], rule exI [of _ e2],
        rule exI [of _ st2], rule exI [of _ "combineErrors e1 e2"])
      (use main final run env0(2) env1(2) combineErrors_None combineErrors_code in auto)
qed

lemma ToLower_Nil [simp]: "ToLower [] = []"
  by (simp add: ToLower_def) (subst runes.simps, simp)

lemma EqualFold_Nil [simp]: "\<not> EqualFoldAscii [] ''package''"
  by (simp add: EqualFoldAscii_def) (subst runes.simps, simp)

lemma zeroStep_OK: "stepOK w (zeroStep\<lparr>spCmd := c\<rparr>)"
  by (simp add: stepOK_def placesOK_def containerOK_def UsesPackagedWorkflow_def IsHostStep_def zeroStep_def
      EffectiveKind_def NormalizeStepKind_def EffectiveCWD_def EffectiveSourceScope_def EffectiveArtifactsScope_def
      normalizeStepPathScope_def EffectiveHostBuiltin_def SecurityIsEmpty_def ContainerIsEmpty_def ValidateStepVMField_def
      VMIsEmpty_def zeroSecurity_def zeroContainer_def zeroVM_def blank_def)

lemma sampleFlow_valid: "ValidateLoadedWorkflow (Some sampleFlow) = Ret ()"
proof -
  have steps: "checkAll (validateWorkflowStep sampleFlow) (wfSteps sampleFlow) = Ret ()"
    "checkAll (validateWorkflowStep sampleFlow) (wfFinally sampleFlow) = Ret ()"
    unfolding checkAll_steps by (simp_all add: sampleFlow_def workflowOf_def zeroStep_OK)
  show ?thesis
    by (simp add: ValidateLoadedWorkflow_def steps del: checkAll_Ret)
      (simp add: sampleFlow_def workflowOf_def zeroFile_def ValidateWorkflowTypeField_def ValidateNamespace_def
        ValidatePlatformList_def ValidateVaultModeString_def ValidateWorkflowComposeField_def zeroCompose_def
        ValidateWorkflowSecurityConfig_def validateEnum_def zeroSecurity_def validPolicyProfiles_def validNetworkModes_def
        validFilesystemRoots_def validFilesystemWrites_def validProcessUsers_def ValidateWorkflowContainerConfig_def
        ContainerIsEmpty_def zeroContainer_def ValidateWorkflowWorkspaceConfig_def WorkspaceIsEmpty_def zeroWorkspace_def
        ValidateDependencySpec_def ValidateWorkflowSingleFlowFields_def blank_def)
qed

theorem finally_always_runs_witness:
  "\<exists>x. fst (runSteps sampleRunner sampleContext sampleFlow [] sampleState) = Some x
    \<and> exitCodeFromError x = Some 2"
proof -
  have main: "runMainSteps sampleRunner sampleContext sampleFlow [] 0 st = (Some (ExitCode 2), st)" for st
    by (subst runMainSteps.simps) (simp add: sampleFlow_def workflowOf_def IsBlocking_def zeroStep_def sampleRunner_def)
  have "wfFinally sampleFlow \<noteq> []" by (simp add: sampleFlow_def workflowOf_def)
  from finally_always_runs [OF sampleFlow_valid this, of sampleRunner sampleContext "[]" sampleState] main
  show ?thesis by auto
qed

section \<open>Docker\<close>

text \<open>With the check for Docker switched off the runner skips it even when a step runs in a container,
  where the domain's own rule asks for Docker.\<close>

theorem docker_check_skipped:
  assumes "s \<in> set (wfSteps w)" "\<not> IsHostStep s"
  shows "NeedsDockerReachable (w\<lparr>wfDockerPreflight := Some False\<rparr>)
    \<and> \<not> WorkflowNeedsDockerReachableResolved load (Some (w\<lparr>wfDockerPreflight := Some False\<rparr>))"
  using assms by (auto simp: WorkflowNeedsDockerReachableResolved_def NeedsDockerReachable_def AnyContainerStep_def list_ex_iff)

theorem docker_check_skipped_witness:
  "NeedsDockerReachable (sampleFlow\<lparr>wfDockerPreflight := Some False\<rparr>)
    \<and> \<not> WorkflowNeedsDockerReachableResolved (\<lambda>_ _. None) (Some (sampleFlow\<lparr>wfDockerPreflight := Some False\<rparr>))"
  by (rule docker_check_skipped [of "zeroStep\<lparr>spCmd := ''make''\<rparr>"])
    (simp_all add: sampleFlow_def workflowOf_def IsHostStep_def EffectiveKind_def NormalizeStepKind_def zeroStep_def)

end
