(* ===== verification/Spec2Isabelle.thy ===== *)
theory Spec2Isabelle
  imports CoreProperties ComponentProperties StreamFrontProperties BlockUpgrade ContractAgreement
    WorkflowImports WorkflowRunProperties
begin

text \<open>
  DockPipe: a model of the front end of its language and of the language core, of its native streams
  and of its workflows.

  \<^bold>\<open>The program.\<close> DockPipe runs workflows: YAML files whose steps are host scripts, containers
  or other workflows. Its language PipeLang is lexed and parsed (\<open>src/src/lib/pipelang\<close>),
  checked and lowered to the Core (\<open>pipelang/coreir\<close>), a typed program of pure functions, which
  a validator admits and a reference evaluator runs (\<open>pipelang/coreeval\<close>) and from which Go and
  C++ are generated. Native streams (\<open>pipelang/streamir\<close>, \<open>streameval\<close>) compose calls of host
  operations. The domain package (\<open>src/src/lib/domain\<close>) holds the workflow model, its loading
  and its validation, the application package (\<open>src/src/lib/application\<close>) builds environments
  and schedules steps. Workflow inputs are typed by PipeLang; otherwise the three parts meet
  only in the command line.

  \<^bold>\<open>Shared theories.\<close> \<open>Prelude\<close>: the results of Go code (\<open>Ret\<close>, \<open>Err\<close>, \<open>Panic\<close> and \<open>Timeout\<close>,
  the last for fuel that is used up), their sequencing and inversion rules. \<open>Text\<close>: strings as
  lists of bytes, UTF-8, \<open>ValidateText\<close>, \<open>CompareOrdinalText\<close>, \<open>TrimText\<close>. \<open>CaseFold\<close>: the
  folding table and containment (casefold.go). \<open>Numeric\<close>: int64 as 64-bit words, binary64 by its
  bits. \<open>StableSort\<close>: the interface \<open>weak_less\<close> of sort.SliceStable, interpreted by
  \<open>CoreSafetyLists\<close> on the record keys. \<open>GoStrings\<close>: strings and filepath. \<open>SourceText\<close> reuses
  \<open>StableSort\<close> for the order of diagnostics. \<open>GoMaps\<close>: maps with string keys and the interface
  \<open>key_store\<close>, interpreted there on entries and by \<open>WorkflowEnv\<close> on slices of lines.

  \<^bold>\<open>The front end.\<close> \<open>SourceText\<close> (source.go, diagnostic.go: spans, source sets, positions,
  diagnostics), \<open>Lexer\<close> (lexer.go; one turn of the loop is \<open>lexStep\<close>), \<open>SourceContracts\<close> (the
  predicates of module.go; a contract is the number in its constant), \<open>SyntaxTree\<close> (the
  expressions and blocks of ast.go, blocks.go and type_ref.go), \<open>ExprParser\<close> (type references
  and every expression form of parser.go), \<open>BodyParser\<close> (method bodies, and the general blocks of
  blocks.go), \<open>DeclParser\<close> (declarations and files). A parser is a function of the index of the next
  token; a parse gives a value and the next index, a diagnostic, a panic or a timeout. Of a
  message the constant part is kept, without the quoted literal. \<open>LexerProperties\<close>: the texts of
  each kind of token, tiling of the source, printing. \<open>ParserRules\<close>: weakest preconditions of
  the parser's combinators, the locale \<open>sub_expressions\<close>, which is the contract that a form
  needs of the parser of its parts (progress, no panic, spans), proved for each form and
  interpreted on \<open>parseExprs\<close>. \<open>ParserTrees\<close>: trees of operators, their printing, and that the
  parser reads them back. \<open>BodyRules\<close> and \<open>DeclRules\<close>: bodies and declarations end and have the
  spans of their tokens, and no private method of a class or record has a body that its contract
  reserves for public ones (\<open>reservedBody\<close>). \<open>ParserProperties\<close> composes lexer and parser. \<open>BlockUpgrade\<close>: what v0.113.0
  parses as a body v0.114.0 parses as a general block. \<open>SourceShapes\<close> (the rest
  of ast.go) has the tests of the syntax tree that decide which terminal statements a contract
  admits. \<open>ShapeAgreement\<close> relates syntax trees and Core expressions of one form (\<open>sameForm\<close>,
  what a lowering preserves) and shows that the tests of both sides agree; \<open>ContractAgreement\<close>
  composes them: a body that the front end admits passes the local and conditional contracts of
  the Core, unless its function has enums, for which v0.113.0 has other rules.

  \<^bold>\<open>The Core, model.\<close> \<open>CoreTypes\<close> (types, \<open>TypeEqual\<close>, \<open>validateType\<close>, enums), \<open>CoreExpr\<close>
  (expressions, blocks, functions, programs; a node shared by pointers is a copy here),
  \<open>CoreValidate\<close> (\<open>validateExpr\<close>), \<open>CoreBlocks\<close> (definite assignment), \<open>CoreShapes\<close>,
  \<open>CoreDirect\<close>, \<open>CoreLocals\<close>, \<open>CoreHelpers\<close> (the shapes that each language contract admits),
  \<open>CoreAdmission\<close> (contracts and the version that each type and expression needs), \<open>CoreProgram\<close>
  (\<open>ValidateFunction\<close>, \<open>ValidateProgram\<close>, \<open>checkCycles\<close>), \<open>CoreValue\<close> (values, copies,
  equality), \<open>CoreEval\<close> (the evaluator: a state monad over the argument frame, whose storage may
  be the slice of the caller until the first push), \<open>CoreRun\<close> (\<open>Evaluate\<close>, \<open>EvaluateProgram\<close>,
  prepared programs). A definition has the name of the Go function; a case of a large switch has
  its own.

  \<^bold>\<open>The Core, theorems.\<close> \<open>CoreSafety\<close> with \<open>CoreSafetyOps\<close>, \<open>CoreSafetyLists\<close>,
  \<open>CoreSafetyResults\<close> and \<open>CoreSafetyBlocks\<close> prove type safety of one step of evaluation by kind
  of expression; \<open>CoreSoundness\<close> closes the recursion with a rank; \<open>CoreCycles\<close> shows that the
  depth-first search decides acyclicity, which gives the rank; \<open>CoreFuel\<close> shows that fuel is not
  observable. \<open>CoreProperties\<close> and \<open>ComponentProperties\<close> state the results: totality and safety
  of validated programs, the slice of the caller is left alone, sorting, searching, equality,
  two programs on which validator and evaluator disagree, and the functions on which the
  validator panics. Totality, safety and the caller's slice are for programs of the fragment
  \<open>supported\<close>: no propagation (\<open>ExprPropagate\<close>) anywhere, comparisons only on the types that the
  evaluator compares, result tests only on direct references, and predicate filters only with a
  target of the checked signature (\<open>filterOK\<close>). Of an unsupported program nothing is said but that
  its fuel is not observable.

  \<^bold>\<open>Streams.\<close> \<open>StreamTypes\<close>, \<open>StreamCheck\<close> (stream.go, incremental.go, composition.go),
  \<open>StreamEval\<close> (streameval). The host that executes operations is a parameter: any function.
  \<open>StreamSafety\<close> and \<open>StreamRun\<close> prove what one call and one body may do, \<open>StreamProperties\<close>
  that a validated composition runs to a value of its type within its budget. \<open>StreamFront\<close>
  (native_stream.go, native_stream_composition.go) compiles a source with its locked manifests to
  a stream program; \<open>StreamFrontProperties\<close> shows that this ends without a panic and that what it
  compiles validates and binds nothing but operations of those manifests.

  \<^bold>\<open>Workflows.\<close> \<open>WorkflowTypes\<close> (one record per struct), \<open>WorkflowValidate\<close>
  (workflow_validate.go and the values it checks), \<open>WorkflowLoad\<close> (decoding rules, imports,
  async groups), \<open>WorkflowEnv\<close> (env.go, parse.go, workflow_env.go, profiles), \<open>WorkflowStep\<close>
  (what is derived from one step), \<open>WorkflowRun\<close> (\<open>runSteps\<close>, \<open>runParallelBatch\<close>,
  \<open>runWorkflowFinally\<close>). \<open>WorkflowProperties\<close>: the rules for each role of a step that validation
  amounts to. \<open>WorkflowImports\<close>: the merge of imports, the bound on their chains, flattening.
  \<open>WorkflowRunProperties\<close>: precedence of the sources of an environment (for every variable, with
  the vault, the typed inputs and the tools on the path), merge of outputs, order
  of the steps, and that the final steps always run: for this validation (no mount can fail) and
  scheduling are composed.

  \<^bold>\<open>Parameters.\<close> The case folding file (its lines), the host of a stream, the YAML library (the
  record \<open>decoder\<close> and two functions of \<open>loader\<close>), the file system, and for a run the record
  \<open>runner\<close>: what a blocking step, the workers of a batch and the builds of its images do is
  arbitrary, and so are the errors they return and the order in which these come. For the
  environment, the record \<open>env_sources\<close>: vault injection, the tools of packages and the typed
  inputs, each any function. For the compiler of streams, the record \<open>stream_library\<close>: the digest
  and the strict decoding of a manifest; of its diagnostics the message is kept without the span.

  \<^bold>\<open>Bounds.\<close> Evaluation has fuel because an unvalidated program may recurse for ever;
  \<open>programFuel\<close>, computed from the program, is enough for every validated one. Stream calls have
  17 levels, as the validator's active list enforces, and unfold to at most 8192 nodes. Imports
  have 33 levels, one more than the limit of the code, so that zero levels is its error. The
  cycle check has the number of functions and one as fuel, which is proved to be enough. The
  expression parser has the number of tokens and one, for its loops and its nesting: each turn
  and each level reads a token, and \<open>parse_expression_spans\<close> and \<open>parse_file_total\<close> show that
  the fuel does not run out. Terminal statements have three levels, as many as the code nests.

  \<^bold>\<open>Not modelled.\<close> Snapshots by reflection (copies of trees are the trees). Of the surface
  language the type checker, the lowering and the packages of modules: the Core validator
  repeats the checks that evaluation depends on. The code generators: generated text has its meaning from other compilers. In a
  run: the container of a step (\<open>buildStepContainer\<close>), packaged workflows, the messages. The
  command line, remote execution, secrets, MCP, the DorkPipe orchestration and the VM packages,
  which drive processes, files and HTTP services.
\<close>

end
